(* ===== verification/Prelude.thy ===== *)
theory Prelude
  imports Complex_Main "HOL-Library.Word" "HOL-Library.Multiset"
begin

section \<open>Shared types, fixed-width integers and generic lemmas\<close>

text \<open>
  The types every component uses and the lemmas they share.

  Identifiers are the 128-bit values of \<open>UuidString\<close> (the nil value \<open>0\<close> stands for "no id"
  and is the id of the anonymous user), timestamps are seconds since the epoch, and
  \<open>PrivilegeValueIntType\<close> is a signed 16-bit integer. Signed machine integers are \<open>int\<close> values
  with the conversions of the source written out: \<open>int16\<close> is the implementation-defined
  (modular) conversion to \<open>int16_t\<close>; arithmetic on \<open>int64_t\<close> that may overflow is
  \<open>checked64\<close>, whose \<open>None\<close> is the undefined behaviour of signed overflow.

  A computation that may not return has an \<open>option\<close> result; \<open>None\<close> is "does not return"
  (or undefined behaviour, where a definition says so).
\<close>

named_theorems forum_defs \<open>definitions that component proofs unfold\<close>
named_theorems forum_intros \<open>invariant preservation rules\<close>

type_synonym id_type = "128 word"
type_synonym timestamp = int
type_synonym privilege_value = int
type_synonym ptr = nat

subsection \<open>Fixed-width signed integers\<close>

definition int16 :: "int \<Rightarrow> int" where
  "int16 x = (x + 2 ^ 15) mod 2 ^ 16 - 2 ^ 15"

definition in_int16 :: "int \<Rightarrow> bool" where
  "in_int16 x \<longleftrightarrow> - (2 ^ 15) \<le> x \<and> x < 2 ^ 15"

definition in_int64 :: "int \<Rightarrow> bool" where
  "in_int64 x \<longleftrightarrow> - (2 ^ 63) \<le> x \<and> x < 2 ^ 63"

definition int64_max :: int where
  "int64_max = 2 ^ 63 - 1"

definition checked64 :: "int \<Rightarrow> int option" where
  "checked64 x = (if in_int64 x then Some x else None)"

lemma int16_id [simp]: "in_int16 x \<Longrightarrow> int16 x = x"
  by (simp add: int16_def in_int16_def)

lemma in_int16_int16 [simp]: "in_int16 (int16 x)"
  unfolding int16_def in_int16_def
  using pos_mod_bound [of "2 ^ 16" "x + 2 ^ 15"] pos_mod_sign [of "2 ^ 16" "x + 2 ^ 15"]
  by simp

lemma int16_idem [simp]: "int16 (int16 x) = int16 x"
  by simp

lemma checked64_Some: "checked64 x = Some y \<longleftrightarrow> y = x \<and> in_int64 x"
  by (auto simp: checked64_def)

lemma checked64_in [simp]: "in_int64 x \<Longrightarrow> checked64 x = Some x"
  by (simp add: checked64_def)

text \<open>C++ integer division and floating conversions truncate towards zero.\<close>

definition truncate_rat :: "rat \<Rightarrow> int" where
  "truncate_rat x = (if x < 0 then \<lceil>x\<rceil> else \<lfloor>x\<rfloor>)"

subsection \<open>Folds that accumulate a maximum or a minimum\<close>

text \<open>
  Loops of the source that visit the elements of a hashed container fold an operation whose
  steps commute, so their result does not depend on the visiting order.
\<close>

lemma fold_mset_cong:
  assumes comm: "\<And>x y s. f x (f y s) = f y (f x s)"
    and same: "mset xs = mset ys"
  shows "fold f xs s = fold f ys s"
  by (rule fold_permuted_eq [where P = "\<lambda>_. True", OF same]) (simp_all add: comm)

lemma fold_filter_skip:
  assumes "\<And>x s. \<not> P x \<Longrightarrow> f x s = s"
  shows "fold f (filter P xs) s = fold f xs s"
  using assms by (induction xs arbitrary: s) auto

lemma fold_invariant_set:
  assumes "\<And>x s. x \<in> set xs \<Longrightarrow> P s \<Longrightarrow> P (f x s)" and "P s"
  shows "P (fold f xs s)"
  using assms by (induction xs arbitrary: s) auto

subsection \<open>Flat sets and flat maps\<close>

text \<open>
  \<open>boost::container::flat_set\<close> and \<open>flat_map\<close> are sorted vectors without duplicate keys:
  \<open>insert\<close> leaves the container alone when the key is present, \<open>erase\<close> by key removes at most
  one element.
\<close>

definition flat_insert :: "'a::linorder \<Rightarrow> 'a list \<Rightarrow> 'a list" where
  "flat_insert x xs = (if x \<in> set xs then xs else insort x xs)"

definition flat_erase :: "'a \<Rightarrow> 'a list \<Rightarrow> 'a list" where
  "flat_erase x xs = remove1 x xs"

definition flat_set :: "'a::linorder list \<Rightarrow> bool" where
  "flat_set xs \<longleftrightarrow> sorted xs \<and> distinct xs"

definition map_insert :: "'k::linorder \<Rightarrow> 'v \<Rightarrow> ('k \<times> 'v) list \<Rightarrow> ('k \<times> 'v) list" where
  "map_insert k v m = (if k \<in> fst ` set m then m else insort_key fst (k, v) m)"

definition map_erase :: "'k \<Rightarrow> ('k \<times> 'v) list \<Rightarrow> ('k \<times> 'v) list" where
  "map_erase k m = filter (\<lambda>e. fst e \<noteq> k) m"

definition flat_map :: "('k::linorder \<times> 'v) list \<Rightarrow> bool" where
  "flat_map m \<longleftrightarrow> flat_set (map fst m)"

lemma set_flat_insert [simp]: "set (flat_insert x xs) = insert x (set xs)"
  by (auto simp: flat_insert_def set_insort_key)

lemma flat_set_insert [forum_intros]: "flat_set xs \<Longrightarrow> flat_set (flat_insert x xs)"
  by (simp add: flat_set_def flat_insert_def sorted_insort distinct_insort)

lemma flat_set_erase [forum_intros]: "flat_set xs \<Longrightarrow> flat_set (flat_erase x xs)"
  by (simp add: flat_set_def flat_erase_def sorted_remove1)

lemma set_flat_erase: "flat_set xs \<Longrightarrow> set (flat_erase x xs) = set xs - {x}"
  by (simp add: flat_set_def flat_erase_def set_remove1_eq)

lemma flat_set_Nil [simp]: "flat_set []"
  by (simp add: flat_set_def)

lemma length_flat_insert: "length (flat_insert x xs) = length xs + (if x \<in> set xs then 0 else 1)"
  by (simp add: flat_insert_def)

lemma set_map_insert: "set (map_insert k v m) = (if k \<in> fst ` set m then set m else insert (k, v) (set m))"
  by (simp add: map_insert_def set_insort_key)

lemma keys_map_insert [simp]: "fst ` set (map_insert k v m) = insert k (fst ` set m)"
  by (auto simp: set_map_insert)

lemma map_fst_insort_key: "map fst (insort_key fst (k, v) m) = insort k (map fst m)"
  by (induction m) auto

lemma flat_map_insert [forum_intros]: "flat_map m \<Longrightarrow> flat_map (map_insert k v m)"
  by (auto simp: flat_map_def flat_set_def map_insert_def map_fst_insort_key sorted_insort distinct_insort)

lemma keys_map_erase [simp]: "fst ` set (map_erase k m) = fst ` set m - {k}"
  by (auto simp: map_erase_def)

lemma map_fst_filter: "map fst (filter (\<lambda>e. fst e \<noteq> k) m) = filter (\<lambda>x. x \<noteq> k) (map fst m)"
  by (induction m) auto

lemma flat_map_erase [forum_intros]: "flat_map m \<Longrightarrow> flat_map (map_erase k m)"
  by (simp add: flat_map_def flat_set_def map_erase_def map_fst_filter sorted_wrt_filter)

lemma flat_map_Nil [simp]: "flat_map []"
  by (simp add: flat_map_def)

lemma length_map_insert: "length (map_insert k v m) = length m + (if k \<in> fst ` set m then 0 else 1)"
  by (simp add: map_insert_def)

lemma map_erase_absent: "k \<notin> fst ` set m \<Longrightarrow> map_erase k m = m"
  by (force simp: map_erase_def filter_id_conv)

lemma length_map_erase:
  assumes "flat_map m" "k \<in> fst ` set m"
  shows "Suc (length (map_erase k m)) = length m"
proof -
  have "length (map_erase k m) = card (fst ` set m - {k})"
    using flat_map_erase [OF assms(1), of k] keys_map_erase [of k m]
    by (metis distinct_card flat_map_def flat_set_def length_map set_map)
  moreover have "length m = card (fst ` set m)"
    using assms(1) by (metis distinct_card flat_map_def flat_set_def length_map set_map)
  moreover have "Suc (card (fst ` set m - {k})) = card (fst ` set m)"
    using assms(2) by (intro card_Suc_Diff1) simp_all
  ultimately show ?thesis by metis
qed

lemma map_of_map_insert: "k \<notin> fst ` set m \<Longrightarrow> map_of (map_insert k v m) = (map_of m)(k \<mapsto> v)"
  by (induction m) (auto simp: map_insert_def fun_eq_iff)

lemma map_of_map_erase: "map_of (map_erase k m) = (map_of m)(k := None)"
  by (induction m) (auto simp: map_erase_def fun_eq_iff)

lemma map_of_flat_Some: "k \<in> fst ` set m \<longleftrightarrow> (\<exists>v. map_of m k = Some v)"
  by (metis domIff dom_map_of_conv_image_fst not_None_eq)

end
