(* ===== verification/Privileges.thy ===== *)
theory Privileges
  imports Prelude
begin

section \<open>Privilege enumerations, values and required-privilege stores\<close>

text \<open>
  Models \<^verbatim>\<open>src/src/LibForumData/AuthorizationPrivileges.h\<close>: the five privilege enumerations with
  their tables of names and of privileges to serialize, the optional 16-bit privilege values with
  their minimum and maximum, the expiry computation, and the stores of required values every
  entity inherits. The last constructor of each enumeration is the source's \<open>COUNT\<close>, which the
  accessors guard against. The C++ class hierarchy is record extension; the forum-wide store,
  which inherits from two hierarchies, extends the tag one and holds the category one.
\<close>

subsection \<open>Enumerations\<close>

datatype msg_privilege =
    MSG_VIEW | MSG_VIEW_REQUIRED_PRIVILEGES | MSG_VIEW_ASSIGNED_PRIVILEGES |
    MSG_VIEW_CREATOR_USER | MSG_VIEW_IP_ADDRESS | MSG_VIEW_VOTES | MSG_UP_VOTE | MSG_DOWN_VOTE |
    MSG_RESET_VOTE | MSG_ADD_COMMENT | MSG_SET_COMMENT_TO_SOLVED | MSG_GET_MESSAGE_COMMENTS |
    MSG_CHANGE_CONTENT | MSG_DELETE | MSG_MOVE | MSG_ADJUST_PRIVILEGE | MSG_VIEW_UNAPPROVED |
    MSG_CHANGE_APPROVAL | MSG_VIEW_ATTACHMENT | MSG_VIEW_UNAPPROVED_ATTACHMENT |
    MSG_ADD_ATTACHMENT | MSG_REMOVE_ATTACHMENT | MSG_COUNT

datatype thread_privilege =
    THR_VIEW | THR_VIEW_REQUIRED_PRIVILEGES | THR_VIEW_ASSIGNED_PRIVILEGES |
    THR_GET_SUBSCRIBED_USERS | THR_SUBSCRIBE | THR_UNSUBSCRIBE | THR_ADD_MESSAGE |
    THR_CHANGE_NAME | THR_CHANGE_PIN_DISPLAY_ORDER | THR_ADD_TAG | THR_REMOVE_TAG | THR_DELETE |
    THR_MERGE | THR_ADJUST_PRIVILEGE | THR_AUTO_APPROVE_MESSAGE | THR_VIEW_UNAPPROVED |
    THR_CHANGE_APPROVAL | THR_COUNT

datatype tag_privilege =
    TAG_VIEW | TAG_VIEW_REQUIRED_PRIVILEGES | TAG_VIEW_ASSIGNED_PRIVILEGES |
    TAG_GET_DISCUSSION_THREADS | TAG_CHANGE_NAME | TAG_CHANGE_UIBLOB | TAG_DELETE | TAG_MERGE |
    TAG_ADJUST_PRIVILEGE | TAG_COUNT

datatype category_privilege =
    CAT_VIEW | CAT_VIEW_REQUIRED_PRIVILEGES | CAT_VIEW_ASSIGNED_PRIVILEGES |
    CAT_GET_DISCUSSION_THREADS | CAT_CHANGE_NAME | CAT_CHANGE_DESCRIPTION | CAT_CHANGE_PARENT |
    CAT_CHANGE_DISPLAYORDER | CAT_ADD_TAG | CAT_REMOVE_TAG | CAT_DELETE | CAT_ADJUST_PRIVILEGE |
    CAT_COUNT

datatype forum_wide_privilege =
    FW_ADD_USER | FW_GET_ENTITIES_COUNT | FW_GET_VERSION | FW_GET_ALL_USERS | FW_GET_USER_INFO |
    FW_GET_DISCUSSION_THREADS_OF_USER | FW_GET_DISCUSSION_THREAD_MESSAGES_OF_USER |
    FW_GET_SUBSCRIBED_DISCUSSION_THREADS_OF_USER | FW_GET_ALL_DISCUSSION_CATEGORIES |
    FW_GET_DISCUSSION_CATEGORIES_FROM_ROOT | FW_GET_ALL_DISCUSSION_TAGS |
    FW_GET_ALL_DISCUSSION_THREADS | FW_GET_ALL_MESSAGE_COMMENTS |
    FW_GET_MESSAGE_COMMENTS_OF_USER | FW_ADD_DISCUSSION_CATEGORY | FW_ADD_DISCUSSION_TAG |
    FW_ADD_DISCUSSION_THREAD | FW_CHANGE_OWN_USER_NAME | FW_CHANGE_OWN_USER_INFO |
    FW_CHANGE_ANY_USER_NAME | FW_CHANGE_ANY_USER_INFO | FW_DELETE_ANY_USER |
    FW_VIEW_FORUM_WIDE_REQUIRED_PRIVILEGES | FW_VIEW_FORUM_WIDE_ASSIGNED_PRIVILEGES |
    FW_VIEW_USER_ASSIGNED_PRIVILEGES | FW_ADJUST_FORUM_WIDE_PRIVILEGE |
    FW_CHANGE_OWN_USER_TITLE | FW_CHANGE_ANY_USER_TITLE | FW_CHANGE_OWN_USER_SIGNATURE |
    FW_CHANGE_ANY_USER_SIGNATURE | FW_CHANGE_OWN_USER_LOGO | FW_CHANGE_ANY_USER_LOGO |
    FW_DELETE_OWN_USER_LOGO | FW_DELETE_ANY_USER_LOGO | FW_NO_THROTTLING |
    FW_AUTO_APPROVE_DISCUSSION_THREAD | FW_SEND_PRIVATE_MESSAGE |
    FW_VIEW_PRIVATE_MESSAGE_IP_ADDRESS | FW_CREATE_ATTACHMENT | FW_DELETE_OWN_ATTACHMENT |
    FW_DELETE_ANY_ATTACHMENT | FW_GET_ALL_ATTACHMENTS | FW_GET_ATTACHMENTS_OF_USER |
    FW_VIEW_ATTACHMENT_IP_ADDRESS | FW_CHANGE_OWN_ATTACHMENT_NAME |
    FW_CHANGE_ANY_ATTACHMENT_NAME | FW_CHANGE_ANY_ATTACHMENT_APPROVAL |
    FW_AUTO_APPROVE_ATTACHMENT | FW_CHANGE_USER_ATTACHMENT_QUOTA | FW_COUNT

definition msg_privilege_enum :: "msg_privilege list" where
  "msg_privilege_enum = [
    MSG_VIEW, MSG_VIEW_REQUIRED_PRIVILEGES, MSG_VIEW_ASSIGNED_PRIVILEGES, MSG_VIEW_CREATOR_USER,
    MSG_VIEW_IP_ADDRESS, MSG_VIEW_VOTES, MSG_UP_VOTE, MSG_DOWN_VOTE, MSG_RESET_VOTE,
    MSG_ADD_COMMENT, MSG_SET_COMMENT_TO_SOLVED, MSG_GET_MESSAGE_COMMENTS, MSG_CHANGE_CONTENT,
    MSG_DELETE, MSG_MOVE, MSG_ADJUST_PRIVILEGE, MSG_VIEW_UNAPPROVED, MSG_CHANGE_APPROVAL,
    MSG_VIEW_ATTACHMENT, MSG_VIEW_UNAPPROVED_ATTACHMENT, MSG_ADD_ATTACHMENT,
    MSG_REMOVE_ATTACHMENT]"

definition msg_privilege_strings :: "string list" where
  "msg_privilege_strings = [
    ''view'', ''view_required_privileges'', ''view_assigned_privileges'', ''view_creator_user'',
    ''view_ip_address'', ''view_votes'', ''up_vote'', ''down_vote'', ''reset_vote'',
    ''add_comment'', ''set_comment_to_solved'', ''get_message_comments'', ''change_content'',
    ''delete'', ''move'', ''adjust_privilege'', ''view_unapproved'', ''change_approval'',
    ''view_attachment'', ''view_unapproved_attachment'', ''add_attachment'',
    ''remove_attachment'']"

definition msg_privilege_to_serialize :: "msg_privilege list" where
  "msg_privilege_to_serialize = [
    MSG_VIEW_REQUIRED_PRIVILEGES, MSG_VIEW_ASSIGNED_PRIVILEGES, MSG_UP_VOTE, MSG_DOWN_VOTE,
    MSG_RESET_VOTE, MSG_ADD_COMMENT, MSG_SET_COMMENT_TO_SOLVED, MSG_GET_MESSAGE_COMMENTS,
    MSG_CHANGE_CONTENT, MSG_CHANGE_APPROVAL, MSG_DELETE, MSG_MOVE, MSG_VIEW_ATTACHMENT,
    MSG_VIEW_UNAPPROVED_ATTACHMENT, MSG_ADD_ATTACHMENT, MSG_REMOVE_ATTACHMENT,
    MSG_ADJUST_PRIVILEGE]"

definition thread_privilege_enum :: "thread_privilege list" where
  "thread_privilege_enum = [
    THR_VIEW, THR_VIEW_REQUIRED_PRIVILEGES, THR_VIEW_ASSIGNED_PRIVILEGES,
    THR_GET_SUBSCRIBED_USERS, THR_SUBSCRIBE, THR_UNSUBSCRIBE, THR_ADD_MESSAGE, THR_CHANGE_NAME,
    THR_CHANGE_PIN_DISPLAY_ORDER, THR_ADD_TAG, THR_REMOVE_TAG, THR_DELETE, THR_MERGE,
    THR_ADJUST_PRIVILEGE, THR_AUTO_APPROVE_MESSAGE, THR_VIEW_UNAPPROVED, THR_CHANGE_APPROVAL]"

definition thread_privilege_strings :: "string list" where
  "thread_privilege_strings = [
    ''view'', ''view_required_privileges'', ''view_assigned_privileges'',
    ''get_subscribed_users'', ''subscribe'', ''unsubscribe'', ''add_message'', ''change_name'',
    ''change_pin_display_order'', ''add_tag'', ''remove_tag'', ''delete'', ''merge'',
    ''adjust_privilege'', ''auto_approve_message'', ''view_unapproved'', ''change_approval'']"

definition thread_privilege_to_serialize :: "thread_privilege list" where
  "thread_privilege_to_serialize = [
    THR_VIEW_REQUIRED_PRIVILEGES, THR_VIEW_ASSIGNED_PRIVILEGES, THR_GET_SUBSCRIBED_USERS,
    THR_SUBSCRIBE, THR_UNSUBSCRIBE, THR_ADD_MESSAGE, THR_CHANGE_NAME,
    THR_CHANGE_PIN_DISPLAY_ORDER, THR_CHANGE_APPROVAL, THR_ADD_TAG, THR_REMOVE_TAG, THR_DELETE,
    THR_MERGE, THR_ADJUST_PRIVILEGE]"

definition tag_privilege_enum :: "tag_privilege list" where
  "tag_privilege_enum = [
    TAG_VIEW, TAG_VIEW_REQUIRED_PRIVILEGES, TAG_VIEW_ASSIGNED_PRIVILEGES,
    TAG_GET_DISCUSSION_THREADS, TAG_CHANGE_NAME, TAG_CHANGE_UIBLOB, TAG_DELETE, TAG_MERGE,
    TAG_ADJUST_PRIVILEGE]"

definition tag_privilege_strings :: "string list" where
  "tag_privilege_strings = [
    ''view'', ''view_required_privileges'', ''view_assigned_privileges'',
    ''get_discussion_threads'', ''change_name'', ''change_uiblob'', ''delete'', ''merge'',
    ''adjust_privilege'']"

definition tag_privilege_to_serialize :: "tag_privilege list" where
  "tag_privilege_to_serialize = [
    TAG_VIEW_REQUIRED_PRIVILEGES, TAG_VIEW_ASSIGNED_PRIVILEGES, TAG_CHANGE_NAME,
    TAG_CHANGE_UIBLOB, TAG_DELETE, TAG_MERGE, TAG_ADJUST_PRIVILEGE]"

definition category_privilege_enum :: "category_privilege list" where
  "category_privilege_enum = [
    CAT_VIEW, CAT_VIEW_REQUIRED_PRIVILEGES, CAT_VIEW_ASSIGNED_PRIVILEGES,
    CAT_GET_DISCUSSION_THREADS, CAT_CHANGE_NAME, CAT_CHANGE_DESCRIPTION, CAT_CHANGE_PARENT,
    CAT_CHANGE_DISPLAYORDER, CAT_ADD_TAG, CAT_REMOVE_TAG, CAT_DELETE, CAT_ADJUST_PRIVILEGE]"

definition category_privilege_strings :: "string list" where
  "category_privilege_strings = [
    ''view'', ''view_required_privileges'', ''view_assigned_privileges'',
    ''get_discussion_threads'', ''change_name'', ''change_description'', ''change_parent'',
    ''change_displayorder'', ''add_tag'', ''remove_tag'', ''delete'', ''adjust_privilege'']"

definition category_privilege_to_serialize :: "category_privilege list" where
  "category_privilege_to_serialize = [
    CAT_VIEW_REQUIRED_PRIVILEGES, CAT_VIEW_ASSIGNED_PRIVILEGES, CAT_CHANGE_NAME,
    CAT_CHANGE_DESCRIPTION, CAT_CHANGE_PARENT, CAT_CHANGE_DISPLAYORDER, CAT_ADD_TAG,
    CAT_REMOVE_TAG, CAT_DELETE, CAT_ADJUST_PRIVILEGE]"

definition forum_wide_privilege_enum :: "forum_wide_privilege list" where
  "forum_wide_privilege_enum = [
    FW_ADD_USER, FW_GET_ENTITIES_COUNT, FW_GET_VERSION, FW_GET_ALL_USERS, FW_GET_USER_INFO,
    FW_GET_DISCUSSION_THREADS_OF_USER, FW_GET_DISCUSSION_THREAD_MESSAGES_OF_USER,
    FW_GET_SUBSCRIBED_DISCUSSION_THREADS_OF_USER, FW_GET_ALL_DISCUSSION_CATEGORIES,
    FW_GET_DISCUSSION_CATEGORIES_FROM_ROOT, FW_GET_ALL_DISCUSSION_TAGS,
    FW_GET_ALL_DISCUSSION_THREADS, FW_GET_ALL_MESSAGE_COMMENTS, FW_GET_MESSAGE_COMMENTS_OF_USER,
    FW_ADD_DISCUSSION_CATEGORY, FW_ADD_DISCUSSION_TAG, FW_ADD_DISCUSSION_THREAD,
    FW_CHANGE_OWN_USER_NAME, FW_CHANGE_OWN_USER_INFO, FW_CHANGE_ANY_USER_NAME,
    FW_CHANGE_ANY_USER_INFO, FW_DELETE_ANY_USER, FW_VIEW_FORUM_WIDE_REQUIRED_PRIVILEGES,
    FW_VIEW_FORUM_WIDE_ASSIGNED_PRIVILEGES, FW_VIEW_USER_ASSIGNED_PRIVILEGES,
    FW_ADJUST_FORUM_WIDE_PRIVILEGE, FW_CHANGE_OWN_USER_TITLE, FW_CHANGE_ANY_USER_TITLE,
    FW_CHANGE_OWN_USER_SIGNATURE, FW_CHANGE_ANY_USER_SIGNATURE, FW_CHANGE_OWN_USER_LOGO,
    FW_CHANGE_ANY_USER_LOGO, FW_DELETE_OWN_USER_LOGO, FW_DELETE_ANY_USER_LOGO, FW_NO_THROTTLING,
    FW_AUTO_APPROVE_DISCUSSION_THREAD, FW_SEND_PRIVATE_MESSAGE,
    FW_VIEW_PRIVATE_MESSAGE_IP_ADDRESS, FW_CREATE_ATTACHMENT, FW_DELETE_OWN_ATTACHMENT,
    FW_DELETE_ANY_ATTACHMENT, FW_GET_ALL_ATTACHMENTS, FW_GET_ATTACHMENTS_OF_USER,
    FW_VIEW_ATTACHMENT_IP_ADDRESS, FW_CHANGE_OWN_ATTACHMENT_NAME, FW_CHANGE_ANY_ATTACHMENT_NAME,
    FW_CHANGE_ANY_ATTACHMENT_APPROVAL, FW_AUTO_APPROVE_ATTACHMENT,
    FW_CHANGE_USER_ATTACHMENT_QUOTA]"

definition forum_wide_privilege_strings :: "string list" where
  "forum_wide_privilege_strings = [
    ''add_user'', ''get_entities_count'', ''get_version'', ''get_all_users'', ''get_user_info'',
    ''get_discussion_threads_of_user'', ''get_discussion_thread_messages_of_user'',
    ''get_subscribed_discussion_threads_of_user'', ''get_all_discussion_categories'',
    ''get_discussion_categories_from_root'', ''get_all_discussion_tags'',
    ''get_all_discussion_threads'', ''get_all_message_comments'',
    ''get_message_comments_of_user'', ''add_discussion_category'', ''add_discussion_tag'',
    ''add_discussion_thread'', ''change_own_user_name'', ''change_own_user_info'',
    ''change_any_user_name'', ''change_any_user_info'', ''delete_any_user'',
    ''view_forum_wide_required_privileges'', ''view_forum_wide_assigned_privileges'',
    ''view_user_assigned_privileges'', ''adjust_forum_wide_privilege'',
    ''change_own_user_title'', ''change_any_user_title'', ''change_own_user_signature'',
    ''change_any_user_signature'', ''change_own_user_logo'', ''change_any_user_logo'',
    ''delete_own_user_logo'', ''delete_any_user_logo'', ''no_throttling'',
    ''auto_approve_discussion_thread'', ''send_private_message'',
    ''view_private_message_ip_address'', ''create_attachment'', ''delete_own_attachment'',
    ''delete_any_attachment'', ''get_all_attachments'', ''get_attachments_of_user'',
    ''view_attachment_ip_address'', ''change_own_attachment_name'',
    ''change_any_attachment_name'', ''change_any_attachment_approval'',
    ''auto_approve_attachment'', ''change_user_attachment_quota'']"

definition forum_wide_privilege_to_serialize :: "forum_wide_privilege list" where
  "forum_wide_privilege_to_serialize = [
    FW_GET_ENTITIES_COUNT, FW_GET_VERSION, FW_GET_ALL_USERS, FW_GET_USER_INFO,
    FW_GET_DISCUSSION_THREADS_OF_USER, FW_GET_DISCUSSION_THREAD_MESSAGES_OF_USER,
    FW_GET_SUBSCRIBED_DISCUSSION_THREADS_OF_USER, FW_GET_ALL_DISCUSSION_CATEGORIES,
    FW_GET_DISCUSSION_CATEGORIES_FROM_ROOT, FW_GET_ALL_DISCUSSION_TAGS,
    FW_GET_ALL_DISCUSSION_THREADS, FW_GET_ALL_MESSAGE_COMMENTS, FW_GET_MESSAGE_COMMENTS_OF_USER,
    FW_GET_ATTACHMENTS_OF_USER, FW_ADD_DISCUSSION_CATEGORY, FW_ADD_DISCUSSION_TAG,
    FW_ADD_DISCUSSION_THREAD, FW_AUTO_APPROVE_DISCUSSION_THREAD, FW_CHANGE_OWN_USER_NAME,
    FW_CHANGE_OWN_USER_INFO, FW_CHANGE_ANY_USER_NAME, FW_CHANGE_ANY_USER_INFO,
    FW_DELETE_ANY_USER, FW_VIEW_FORUM_WIDE_REQUIRED_PRIVILEGES,
    FW_VIEW_FORUM_WIDE_ASSIGNED_PRIVILEGES, FW_VIEW_USER_ASSIGNED_PRIVILEGES,
    FW_ADJUST_FORUM_WIDE_PRIVILEGE, FW_CHANGE_OWN_USER_TITLE, FW_CHANGE_ANY_USER_TITLE,
    FW_CHANGE_OWN_USER_SIGNATURE, FW_CHANGE_ANY_USER_SIGNATURE, FW_CHANGE_OWN_USER_LOGO,
    FW_CHANGE_ANY_USER_LOGO, FW_DELETE_OWN_USER_LOGO, FW_DELETE_ANY_USER_LOGO,
    FW_SEND_PRIVATE_MESSAGE, FW_VIEW_PRIVATE_MESSAGE_IP_ADDRESS, FW_CREATE_ATTACHMENT,
    FW_DELETE_OWN_ATTACHMENT, FW_DELETE_ANY_ATTACHMENT, FW_GET_ALL_ATTACHMENTS,
    FW_VIEW_ATTACHMENT_IP_ADDRESS, FW_CHANGE_OWN_ATTACHMENT_NAME, FW_CHANGE_ANY_ATTACHMENT_NAME,
    FW_CHANGE_ANY_ATTACHMENT_APPROVAL, FW_AUTO_APPROVE_ATTACHMENT,
    FW_CHANGE_USER_ATTACHMENT_QUOTA, FW_NO_THROTTLING]"

datatype default_privilege_duration =
    CREATE_DISCUSSION_THREAD | CREATE_DISCUSSION_THREAD_MESSAGE | DEFAULT_DURATION_COUNT

datatype UserActionThrottling =
    NEW_CONTENT | EDIT_CONTENT | EDIT_PRIVILEGES | VOTE | SUBSCRIBE | THROTTLING_COUNT

fun throttling_index :: "UserActionThrottling \<Rightarrow> nat" where
  "throttling_index NEW_CONTENT = 0"
| "throttling_index EDIT_CONTENT = 1"
| "throttling_index EDIT_PRIVILEGES = 2"
| "throttling_index VOTE = 3"
| "throttling_index SUBSCRIBE = 4"
| "throttling_index THROTTLING_COUNT = 5"

text \<open>\<open>ThrottlingDefaultValues\<close>: how many actions of a kind are allowed in how many seconds.\<close>

definition ThrottlingDefaultValues :: "(nat \<times> timestamp) list" where
  "ThrottlingDefaultValues = [(10, 600), (10, 300), (10, 10), (10, 3600), (10, 600)]"

subsection \<open>The integer values of the enumerators\<close>

text \<open>The enumerators in the order of their declaration, without \<open>COUNT\<close>.\<close>

definition msg_privilege_enumerators :: "msg_privilege list" where
  "msg_privilege_enumerators = [
     MSG_VIEW, MSG_VIEW_REQUIRED_PRIVILEGES, MSG_VIEW_ASSIGNED_PRIVILEGES, MSG_VIEW_CREATOR_USER,
     MSG_VIEW_IP_ADDRESS, MSG_VIEW_VOTES, MSG_UP_VOTE, MSG_DOWN_VOTE, MSG_RESET_VOTE, MSG_ADD_COMMENT,
     MSG_SET_COMMENT_TO_SOLVED, MSG_GET_MESSAGE_COMMENTS, MSG_CHANGE_CONTENT, MSG_DELETE, MSG_MOVE,
     MSG_ADJUST_PRIVILEGE, MSG_VIEW_UNAPPROVED, MSG_CHANGE_APPROVAL, MSG_VIEW_ATTACHMENT,
     MSG_VIEW_UNAPPROVED_ATTACHMENT, MSG_ADD_ATTACHMENT, MSG_REMOVE_ATTACHMENT]"

definition msg_privilege_of :: "16 word \<Rightarrow> msg_privilege" where
  "msg_privilege_of w = (if unat w < length msg_privilege_enumerators then msg_privilege_enumerators ! unat w else MSG_COUNT)"

definition thread_privilege_enumerators :: "thread_privilege list" where
  "thread_privilege_enumerators = [
     THR_VIEW, THR_VIEW_REQUIRED_PRIVILEGES, THR_VIEW_ASSIGNED_PRIVILEGES, THR_GET_SUBSCRIBED_USERS, THR_SUBSCRIBE,
     THR_UNSUBSCRIBE, THR_ADD_MESSAGE, THR_CHANGE_NAME, THR_CHANGE_PIN_DISPLAY_ORDER, THR_ADD_TAG, THR_REMOVE_TAG,
     THR_DELETE, THR_MERGE, THR_ADJUST_PRIVILEGE, THR_AUTO_APPROVE_MESSAGE, THR_VIEW_UNAPPROVED,
     THR_CHANGE_APPROVAL]"

definition thread_privilege_of :: "16 word \<Rightarrow> thread_privilege" where
  "thread_privilege_of w = (if unat w < length thread_privilege_enumerators then thread_privilege_enumerators ! unat w else THR_COUNT)"

definition tag_privilege_enumerators :: "tag_privilege list" where
  "tag_privilege_enumerators = [
     TAG_VIEW, TAG_VIEW_REQUIRED_PRIVILEGES, TAG_VIEW_ASSIGNED_PRIVILEGES, TAG_GET_DISCUSSION_THREADS,
     TAG_CHANGE_NAME, TAG_CHANGE_UIBLOB, TAG_DELETE, TAG_MERGE, TAG_ADJUST_PRIVILEGE]"

definition tag_privilege_of :: "16 word \<Rightarrow> tag_privilege" where
  "tag_privilege_of w = (if unat w < length tag_privilege_enumerators then tag_privilege_enumerators ! unat w else TAG_COUNT)"

definition category_privilege_enumerators :: "category_privilege list" where
  "category_privilege_enumerators = [
     CAT_VIEW, CAT_VIEW_REQUIRED_PRIVILEGES, CAT_VIEW_ASSIGNED_PRIVILEGES, CAT_GET_DISCUSSION_THREADS,
     CAT_CHANGE_NAME, CAT_CHANGE_DESCRIPTION, CAT_CHANGE_PARENT, CAT_CHANGE_DISPLAYORDER, CAT_ADD_TAG,
     CAT_REMOVE_TAG, CAT_DELETE, CAT_ADJUST_PRIVILEGE]"

definition category_privilege_of :: "16 word \<Rightarrow> category_privilege" where
  "category_privilege_of w = (if unat w < length category_privilege_enumerators then category_privilege_enumerators ! unat w else CAT_COUNT)"

definition forum_wide_privilege_enumerators :: "forum_wide_privilege list" where
  "forum_wide_privilege_enumerators = [
     FW_ADD_USER, FW_GET_ENTITIES_COUNT, FW_GET_VERSION, FW_GET_ALL_USERS, FW_GET_USER_INFO,
     FW_GET_DISCUSSION_THREADS_OF_USER, FW_GET_DISCUSSION_THREAD_MESSAGES_OF_USER,
     FW_GET_SUBSCRIBED_DISCUSSION_THREADS_OF_USER, FW_GET_ALL_DISCUSSION_CATEGORIES,
     FW_GET_DISCUSSION_CATEGORIES_FROM_ROOT, FW_GET_ALL_DISCUSSION_TAGS, FW_GET_ALL_DISCUSSION_THREADS,
     FW_GET_ALL_MESSAGE_COMMENTS, FW_GET_MESSAGE_COMMENTS_OF_USER, FW_ADD_DISCUSSION_CATEGORY,
     FW_ADD_DISCUSSION_TAG, FW_ADD_DISCUSSION_THREAD, FW_CHANGE_OWN_USER_NAME, FW_CHANGE_OWN_USER_INFO,
     FW_CHANGE_ANY_USER_NAME, FW_CHANGE_ANY_USER_INFO, FW_DELETE_ANY_USER, FW_VIEW_FORUM_WIDE_REQUIRED_PRIVILEGES,
     FW_VIEW_FORUM_WIDE_ASSIGNED_PRIVILEGES, FW_VIEW_USER_ASSIGNED_PRIVILEGES, FW_ADJUST_FORUM_WIDE_PRIVILEGE,
     FW_CHANGE_OWN_USER_TITLE, FW_CHANGE_ANY_USER_TITLE, FW_CHANGE_OWN_USER_SIGNATURE,
     FW_CHANGE_ANY_USER_SIGNATURE, FW_CHANGE_OWN_USER_LOGO, FW_CHANGE_ANY_USER_LOGO, FW_DELETE_OWN_USER_LOGO,
     FW_DELETE_ANY_USER_LOGO, FW_NO_THROTTLING, FW_AUTO_APPROVE_DISCUSSION_THREAD, FW_SEND_PRIVATE_MESSAGE,
     FW_VIEW_PRIVATE_MESSAGE_IP_ADDRESS, FW_CREATE_ATTACHMENT, FW_DELETE_OWN_ATTACHMENT, FW_DELETE_ANY_ATTACHMENT,
     FW_GET_ALL_ATTACHMENTS, FW_GET_ATTACHMENTS_OF_USER, FW_VIEW_ATTACHMENT_IP_ADDRESS,
     FW_CHANGE_OWN_ATTACHMENT_NAME, FW_CHANGE_ANY_ATTACHMENT_NAME, FW_CHANGE_ANY_ATTACHMENT_APPROVAL,
     FW_AUTO_APPROVE_ATTACHMENT, FW_CHANGE_USER_ATTACHMENT_QUOTA]"

definition forum_wide_privilege_of :: "16 word \<Rightarrow> forum_wide_privilege" where
  "forum_wide_privilege_of w = (if unat w < length forum_wide_privilege_enumerators then forum_wide_privilege_enumerators ! unat w else FW_COUNT)"

definition default_privilege_duration_enumerators :: "default_privilege_duration list" where
  "default_privilege_duration_enumerators = [
     CREATE_DISCUSSION_THREAD, CREATE_DISCUSSION_THREAD_MESSAGE]"

definition default_privilege_duration_of :: "16 word \<Rightarrow> default_privilege_duration" where
  "default_privilege_duration_of w = (if unat w < length default_privilege_duration_enumerators then default_privilege_duration_enumerators ! unat w else DEFAULT_DURATION_COUNT)"

subsection \<open>Privilege values\<close>

definition MinPrivilegeValue :: privilege_value where
  "MinPrivilegeValue = -32000"

definition MaxPrivilegeValue :: privilege_value where
  "MaxPrivilegeValue = 32000"

definition UnlimitedDuration :: int where
  "UnlimitedDuration = 0"

definition optionalOrZero :: "privilege_value option \<Rightarrow> privilege_value" where
  "optionalOrZero value = (case value of Some v \<Rightarrow> v | None \<Rightarrow> 0)"

text \<open>
  The overloads of \<open>minimumPrivilegeValue\<close> and \<open>maximumPrivilegeValue\<close>; the suffix tells which
  arguments are optional (\<open>o\<close>) and which are plain values (\<open>i\<close>).
\<close>

definition minimumPrivilegeValue_ii :: "privilege_value \<Rightarrow> privilege_value \<Rightarrow> privilege_value option" where
  "minimumPrivilegeValue_ii first second = Some (min first second)"

definition minimumPrivilegeValue_oo :: "privilege_value option \<Rightarrow> privilege_value option \<Rightarrow> privilege_value option" where
  "minimumPrivilegeValue_oo first second =
     (case first of None \<Rightarrow> second
      | Some f \<Rightarrow> (case second of None \<Rightarrow> first
                  | Some s \<Rightarrow> minimumPrivilegeValue_ii f s))"

definition minimumPrivilegeValue_oi :: "privilege_value option \<Rightarrow> privilege_value \<Rightarrow> privilege_value option" where
  "minimumPrivilegeValue_oi first second =
     (case first of None \<Rightarrow> Some second | Some f \<Rightarrow> minimumPrivilegeValue_ii f second)"

definition minimumPrivilegeValue_io :: "privilege_value \<Rightarrow> privilege_value option \<Rightarrow> privilege_value option" where
  "minimumPrivilegeValue_io first second =
     (case second of None \<Rightarrow> Some first | Some s \<Rightarrow> minimumPrivilegeValue_ii first s)"

definition maximumPrivilegeValue_ii :: "privilege_value \<Rightarrow> privilege_value \<Rightarrow> privilege_value option" where
  "maximumPrivilegeValue_ii first second = Some (max first second)"

definition maximumPrivilegeValue_oo :: "privilege_value option \<Rightarrow> privilege_value option \<Rightarrow> privilege_value option" where
  "maximumPrivilegeValue_oo first second =
     (case first of None \<Rightarrow> second
      | Some f \<Rightarrow> (case second of None \<Rightarrow> first
                  | Some s \<Rightarrow> maximumPrivilegeValue_ii f s))"

definition maximumPrivilegeValue_oi :: "privilege_value option \<Rightarrow> privilege_value \<Rightarrow> privilege_value option" where
  "maximumPrivilegeValue_oi first second =
     (case first of None \<Rightarrow> Some second | Some f \<Rightarrow> maximumPrivilegeValue_ii f second)"

definition maximumPrivilegeValue_io :: "privilege_value \<Rightarrow> privilege_value option \<Rightarrow> privilege_value option" where
  "maximumPrivilegeValue_io first second =
     (case second of None \<Rightarrow> Some first | Some s \<Rightarrow> maximumPrivilegeValue_ii first s)"

lemmas privilege_value_defs =
  minimumPrivilegeValue_ii_def minimumPrivilegeValue_oo_def minimumPrivilegeValue_oi_def
  minimumPrivilegeValue_io_def maximumPrivilegeValue_ii_def maximumPrivilegeValue_oo_def
  maximumPrivilegeValue_oi_def maximumPrivilegeValue_io_def optionalOrZero_def

subsection \<open>When an assigned privilege expires\<close>

text \<open>
  \<open>calculatePrivilegeExpires\<close>: the end of a privilege granted at \<open>start\<close> for \<open>duration\<close> seconds,
  0 for a privilege that does not expire. The additions are on \<open>int64_t\<close>; \<open>None\<close> is an overflow.
\<close>

definition duration_max_half :: int where
  "duration_max_half = int64_max div 2"

definition calculatePrivilegeExpires :: "timestamp \<Rightarrow> int \<Rightarrow> timestamp option" where
  "calculatePrivilegeExpires start duration =
     (if duration = UnlimitedDuration then Some 0
      else case (if duration \<ge> duration_max_half then checked64 (duration - start) else Some duration) of
             None \<Rightarrow> None
           | Some d \<Rightarrow> checked64 (start + d))"

subsection \<open>Stores of required privilege values\<close>

record msg_priv_store =
  discussionThreadMessagePrivileges :: "(msg_privilege \<Rightarrow> privilege_value option) option"

record thread_priv_store = msg_priv_store +
  discussionThreadPrivileges :: "thread_privilege \<Rightarrow> privilege_value option"

record tag_priv_store = thread_priv_store +
  discussionTagPrivileges :: "tag_privilege \<Rightarrow> privilege_value option"

record category_priv_store =
  discussionCategoryPrivileges :: "category_privilege \<Rightarrow> privilege_value option"

record privilege_default_level =
  level_value :: privilege_value
  level_duration :: int

record forum_wide_store = tag_priv_store +
  fw_category_store :: category_priv_store
  forumWidePrivileges :: "forum_wide_privilege \<Rightarrow> privilege_value option"
  forumWideDefaultPrivilegeDuration :: "default_privilege_duration \<Rightarrow> privilege_default_level option"

definition setDiscussionThreadMessagePrivilege ::
  "'a msg_priv_store_scheme \<Rightarrow> msg_privilege \<Rightarrow> privilege_value \<Rightarrow> 'a msg_priv_store_scheme" where
  "setDiscussionThreadMessagePrivilege s privilege value =
     (if privilege \<noteq> MSG_COUNT then
        (let arr = (case discussionThreadMessagePrivileges s of None \<Rightarrow> (\<lambda>_. None) | Some a \<Rightarrow> a)
         in s\<lparr>discussionThreadMessagePrivileges := Some (arr(privilege := Some value))\<rparr>)
      else s)"

definition store_getDiscussionThreadMessagePrivilege ::
  "'a msg_priv_store_scheme \<Rightarrow> msg_privilege \<Rightarrow> privilege_value option" where
  "store_getDiscussionThreadMessagePrivilege s privilege =
     (case discussionThreadMessagePrivileges s of
        Some arr \<Rightarrow> (if privilege \<noteq> MSG_COUNT then arr privilege else None)
      | None \<Rightarrow> None)"

definition setDiscussionThreadPrivilege ::
  "'a thread_priv_store_scheme \<Rightarrow> thread_privilege \<Rightarrow> privilege_value \<Rightarrow> 'a thread_priv_store_scheme" where
  "setDiscussionThreadPrivilege s privilege value =
     (if privilege \<noteq> THR_COUNT
      then s\<lparr>discussionThreadPrivileges := (discussionThreadPrivileges s)(privilege := Some value)\<rparr> else s)"

definition store_getDiscussionThreadPrivilege ::
  "'a thread_priv_store_scheme \<Rightarrow> thread_privilege \<Rightarrow> privilege_value option" where
  "store_getDiscussionThreadPrivilege s privilege =
     (if privilege \<noteq> THR_COUNT then discussionThreadPrivileges s privilege else None)"

definition setDiscussionTagPrivilege ::
  "'a tag_priv_store_scheme \<Rightarrow> tag_privilege \<Rightarrow> privilege_value \<Rightarrow> 'a tag_priv_store_scheme" where
  "setDiscussionTagPrivilege s privilege value =
     (if privilege \<noteq> TAG_COUNT
      then s\<lparr>discussionTagPrivileges := (discussionTagPrivileges s)(privilege := Some value)\<rparr> else s)"

definition store_getDiscussionTagPrivilege ::
  "'a tag_priv_store_scheme \<Rightarrow> tag_privilege \<Rightarrow> privilege_value option" where
  "store_getDiscussionTagPrivilege s privilege =
     (if privilege \<noteq> TAG_COUNT then discussionTagPrivileges s privilege else None)"

definition setDiscussionCategoryPrivilege ::
  "'a category_priv_store_scheme \<Rightarrow> category_privilege \<Rightarrow> privilege_value \<Rightarrow> 'a category_priv_store_scheme" where
  "setDiscussionCategoryPrivilege s privilege value =
     (if privilege \<noteq> CAT_COUNT
      then s\<lparr>discussionCategoryPrivileges := (discussionCategoryPrivileges s)(privilege := Some value)\<rparr> else s)"

definition store_getDiscussionCategoryPrivilege ::
  "'a category_priv_store_scheme \<Rightarrow> category_privilege \<Rightarrow> privilege_value option" where
  "store_getDiscussionCategoryPrivilege s privilege =
     (if privilege \<noteq> CAT_COUNT then discussionCategoryPrivileges s privilege else None)"

definition setForumWidePrivilege ::
  "'a forum_wide_store_scheme \<Rightarrow> forum_wide_privilege \<Rightarrow> privilege_value \<Rightarrow> 'a forum_wide_store_scheme" where
  "setForumWidePrivilege s privilege value =
     (if privilege \<noteq> FW_COUNT
      then s\<lparr>forumWidePrivileges := (forumWidePrivileges s)(privilege := Some value)\<rparr> else s)"

definition getForumWidePrivilege ::
  "'a forum_wide_store_scheme \<Rightarrow> forum_wide_privilege \<Rightarrow> privilege_value option" where
  "getForumWidePrivilege s privilege =
     (if privilege \<noteq> FW_COUNT then forumWidePrivileges s privilege else None)"

definition setForumWideDefaultPrivilegeLevel ::
  "'a forum_wide_store_scheme \<Rightarrow> default_privilege_duration \<Rightarrow> privilege_default_level \<Rightarrow> 'a forum_wide_store_scheme" where
  "setForumWideDefaultPrivilegeLevel s privilege value =
     (if privilege \<noteq> DEFAULT_DURATION_COUNT
      then s\<lparr>forumWideDefaultPrivilegeDuration := (forumWideDefaultPrivilegeDuration s)(privilege := Some value)\<rparr>
      else s)"

definition getForumWideDefaultPrivilegeLevel ::
  "'a forum_wide_store_scheme \<Rightarrow> default_privilege_duration \<Rightarrow> privilege_default_level option" where
  "getForumWideDefaultPrivilegeLevel s privilege =
     (if privilege \<noteq> DEFAULT_DURATION_COUNT then forumWideDefaultPrivilegeDuration s privilege else None)"

lemmas priv_store_defs =
  setDiscussionThreadMessagePrivilege_def store_getDiscussionThreadMessagePrivilege_def
  setDiscussionThreadPrivilege_def store_getDiscussionThreadPrivilege_def
  setDiscussionTagPrivilege_def store_getDiscussionTagPrivilege_def
  setDiscussionCategoryPrivilege_def store_getDiscussionCategoryPrivilege_def
  setForumWidePrivilege_def getForumWidePrivilege_def
  setForumWideDefaultPrivilegeLevel_def getForumWideDefaultPrivilegeLevel_def

subsection \<open>The stores as finite maps\<close>

text \<open>
  What every required-privilege store promises its clients: writing a privilege changes the value
  read for it and no other; the \<open>COUNT\<close> enumerator is never stored.
\<close>

locale required_store =
  fixes get_priv :: "'s \<Rightarrow> 'p \<Rightarrow> privilege_value option"
    and set_priv :: "'s \<Rightarrow> 'p \<Rightarrow> privilege_value \<Rightarrow> 's"
    and bound_priv :: "'p"
  assumes get_set: "p \<noteq> bound_priv \<Longrightarrow> get_priv (set_priv s p v) q = (if q = p then Some v else get_priv s q)"
    and get_bound: "get_priv s bound_priv = None"
    and set_bound: "set_priv s bound_priv v = s"
begin

definition set_all :: "'s \<Rightarrow> ('p \<times> privilege_value) list \<Rightarrow> 's" where
  "set_all s ps = fold (\<lambda>(p, v) st. set_priv st p v) ps s"

lemma set_all_Nil [simp]: "set_all s [] = s"
  by (simp add: set_all_def)

lemma set_all_Cons [simp]: "set_all s ((p, v) # ps) = set_all (set_priv s p v) ps"
  by (simp add: set_all_def)

lemma get_set_general:
  "get_priv (set_priv s p v) q = (if q = p \<and> p \<noteq> bound_priv then Some v else get_priv s q)"
  by (cases "p = bound_priv") (simp_all add: get_set set_bound)

lemma get_set_all_notin: "q \<notin> fst ` set ps \<Longrightarrow> get_priv (set_all s ps) q = get_priv s q"
  by (induction ps arbitrary: s) (auto simp: get_set_general)

lemma get_set_all:
  "q \<noteq> bound_priv \<Longrightarrow> distinct (map fst ps) \<Longrightarrow> (q, v) \<in> set ps \<Longrightarrow> get_priv (set_all s ps) q = Some v"
proof (induction ps arbitrary: s)
  case (Cons x ps)
  obtain p w where x: "x = (p, w)" by force
  show ?case
  proof (cases "q = p")
    case True
    with Cons.prems x have "w = v" and "q \<notin> fst ` set ps" by force+
    with True Cons.prems(1) x show ?thesis
      by (simp add: get_set_all_notin get_set_general)
  next
    case False
    with Cons.prems x have "(q, v) \<in> set ps" by auto
    with Cons x show ?thesis by simp
  qed
qed simp

end

interpretation msg_store: required_store
  store_getDiscussionThreadMessagePrivilege setDiscussionThreadMessagePrivilege MSG_COUNT
  by unfold_locales (auto simp: priv_store_defs split: option.splits)

interpretation thread_store: required_store
  store_getDiscussionThreadPrivilege setDiscussionThreadPrivilege THR_COUNT
  by unfold_locales (auto simp: priv_store_defs)

interpretation tag_store: required_store
  store_getDiscussionTagPrivilege setDiscussionTagPrivilege TAG_COUNT
  by unfold_locales (auto simp: priv_store_defs)

interpretation category_store: required_store
  store_getDiscussionCategoryPrivilege setDiscussionCategoryPrivilege CAT_COUNT
  by unfold_locales (auto simp: priv_store_defs)

interpretation fw_store: required_store
  getForumWidePrivilege setForumWidePrivilege FW_COUNT
  by unfold_locales (auto simp: priv_store_defs)

subsection \<open>Lemmas\<close>

lemma maximumPrivilegeValue_simps [simp]:
  "maximumPrivilegeValue_oi a b = maximumPrivilegeValue_oo a (Some b)"
  "maximumPrivilegeValue_io b a = maximumPrivilegeValue_oo (Some b) a"
  by (auto simp: privilege_value_defs split: option.splits)

lemma minimumPrivilegeValue_simps [simp]:
  "minimumPrivilegeValue_oi a b = minimumPrivilegeValue_oo a (Some b)"
  "minimumPrivilegeValue_io b a = minimumPrivilegeValue_oo (Some b) a"
  by (auto simp: privilege_value_defs split: option.splits)

lemma maximumPrivilegeValue_oo_simps [simp]:
  "maximumPrivilegeValue_oo None b = b"
  "maximumPrivilegeValue_oo a None = a"
  "maximumPrivilegeValue_oo (Some x) (Some y) = Some (max x y)"
  by (auto simp: privilege_value_defs split: option.splits)

lemma minimumPrivilegeValue_oo_simps [simp]:
  "minimumPrivilegeValue_oo None b = b"
  "minimumPrivilegeValue_oo a None = a"
  "minimumPrivilegeValue_oo (Some x) (Some y) = Some (min x y)"
  by (auto simp: privilege_value_defs split: option.splits)

lemma maximumPrivilegeValue_oo_ac:
  "maximumPrivilegeValue_oo a b = maximumPrivilegeValue_oo b a"
  "maximumPrivilegeValue_oo (maximumPrivilegeValue_oo a b) c =
   maximumPrivilegeValue_oo a (maximumPrivilegeValue_oo b c)"
  "maximumPrivilegeValue_oo a (maximumPrivilegeValue_oo b c) =
   maximumPrivilegeValue_oo b (maximumPrivilegeValue_oo a c)"
  by (cases a; cases b; cases c; simp add: max.commute max.assoc max.left_commute)+

lemma minimumPrivilegeValue_oo_ac:
  "minimumPrivilegeValue_oo a b = minimumPrivilegeValue_oo b a"
  "minimumPrivilegeValue_oo (minimumPrivilegeValue_oo a b) c =
   minimumPrivilegeValue_oo a (minimumPrivilegeValue_oo b c)"
  "minimumPrivilegeValue_oo a (minimumPrivilegeValue_oo b c) =
   minimumPrivilegeValue_oo b (minimumPrivilegeValue_oo a c)"
  by (cases a; cases b; cases c; simp add: min.commute min.assoc min.left_commute)+

lemma optionalOrZero_simps [simp]: "optionalOrZero None = 0" "optionalOrZero (Some v) = v"
  by (simp_all add: optionalOrZero_def)

lemma duration_max_half_value: "duration_max_half = 2 ^ 62 - 1"
  by (simp add: duration_max_half_def int64_max_def)

text \<open>The expiry never overflows and lies after the start for every positive duration.\<close>

lemma calculatePrivilegeExpires_positive:
  assumes "0 \<le> start" "start < duration_max_half" "in_int64 duration" "0 < duration"
  shows "\<exists>e. calculatePrivilegeExpires start duration = Some e \<and> start < e \<and> in_int64 e
             \<and> e = (if duration \<ge> duration_max_half then duration else start + duration)"
  using assms
  by (auto simp: calculatePrivilegeExpires_def UnlimitedDuration_def checked64_def in_int64_def
      duration_max_half_value)

lemma calculatePrivilegeExpires_unlimited: "calculatePrivilegeExpires start UnlimitedDuration = Some 0"
  by (simp add: calculatePrivilegeExpires_def)

end
