(* ===== verification/JsonWriter.thy ===== *)
theory JsonWriter
  imports Prelude
begin

section \<open>The JSON writer\<close>

text \<open>
  Models \<^verbatim>\<open>src/src/LibFastJsonWriter\<close>: the escape table of \<open>JsonCommon.h\<close>, the strings that carry their
  own quotes of \<open>JsonReadyString.h\<close>, the growing buffer of \<open>StringBuffer.h\<close> and the writer of
  \<open>JsonWriter.h\<close>. The writer is a template over its output; the model takes the output to be the text
  written so far, which the last section shows the growing buffer to keep. A step of the writer is a
  function on its state; \<open>None\<close> is the exception \<open>std::out_of_range\<close> of the array of states (or the
  length of a null pointer). A call chain of the source is a list of steps.
\<close>

subsection \<open>Escaping\<close>

definition byte_code :: "char \<Rightarrow> nat" where
  "byte_code c = of_char c"

definition ToEscape :: "nat list" where
  "ToEscape = replicate 8 0xFF @ [0x62, 0x74, 0x6E, 0xFF, 0x66, 0x72, 0xFF, 0xFF] @ replicate 16 0xFF
     @ [0x00, 0x00, 0x22] @ replicate 12 0x00 @ [0x2F] @ replicate 44 0x00 @ [0x5C] @ replicate 163 0x00"

definition isEscapeNeeded :: "string \<Rightarrow> bool" where
  "isEscapeNeeded v = list_ex (\<lambda>c. ToEscape ! byte_code c \<noteq> 0) v"

definition HexDigits :: string where
  "HexDigits = ''0123456789ABCDEF''"

text \<open>The text written for a character whose entry in the table is not 0.\<close>

definition escape_sequence :: "char \<Rightarrow> string" where
  "escape_sequence c =
     (let r = ToEscape ! byte_code c
      in if r < 0xFF then [CHR 0x5C, char_of r]
         else [CHR 0x5C, CHR ''u'', CHR ''0'', CHR ''0'', HexDigits ! (byte_code c div 16), HexDigits ! (byte_code c mod 16)])"

text \<open>The loop; \<open>direct\<close> holds the characters from \<open>directWriteFrom\<close> to the current one.\<close>

fun escape_loop :: "string \<Rightarrow> string \<Rightarrow> string" where
  "escape_loop direct [] = direct"
| "escape_loop direct (c # cs) =
     (if ToEscape ! byte_code c \<noteq> 0 then direct @ escape_sequence c @ escape_loop [] cs
      else escape_loop (direct @ [c]) cs)"

definition escapeString :: "string \<Rightarrow> string" where
  "escapeString v = (if \<not> isEscapeNeeded v then v else escape_loop [] v)"

subsection \<open>The state of the writer\<close>

record json_state =
  enumerationStarted :: bool
  commaRequired :: bool
  propertyNameAdded :: bool

record json_writer =
  jw_text :: string
  jw_stack :: "json_state list"
  jw_index :: int

type_synonym json_step = "json_writer \<Rightarrow> json_writer option"

definition MaxStateDepth :: nat where
  "MaxStateDepth = 32"

fun json_steps :: "json_step list \<Rightarrow> json_step" where
  "json_steps [] w = Some w"
| "json_steps (f # fs) w = (case f w of None \<Rightarrow> None | Some w' \<Rightarrow> json_steps fs w')"

definition peekState :: "json_writer \<Rightarrow> json_state option" where
  "peekState w = (if 0 \<le> jw_index w \<and> jw_index w < int (length (jw_stack w)) then Some (jw_stack w ! nat (jw_index w)) else None)"

definition updateState :: "(json_state \<Rightarrow> json_state) \<Rightarrow> json_step" where
  "updateState f w =
     (case peekState w of
        None \<Rightarrow> None
      | Some s \<Rightarrow> Some (w\<lparr>jw_stack := (jw_stack w)[nat (jw_index w) := f s]\<rparr>))"

definition popState :: json_step where
  "popState w = Some (w\<lparr>jw_index := jw_index w - 1\<rparr>)"

definition pushState :: "json_state \<Rightarrow> json_step" where
  "pushState s w = updateState (\<lambda>_. s) (w\<lparr>jw_index := jw_index w + 1\<rparr>)"

definition no_enumeration :: json_state where
  "no_enumeration = \<lparr>enumerationStarted = False, commaRequired = False, propertyNameAdded = False\<rparr>"

definition new_enumeration :: json_state where
  "new_enumeration = \<lparr>enumerationStarted = True, commaRequired = False, propertyNameAdded = False\<rparr>"

definition JsonWriter :: "string \<Rightarrow> json_writer option" where
  "JsonWriter output =
     pushState no_enumeration
       \<lparr>jw_text = output, jw_stack = replicate MaxStateDepth no_enumeration, jw_index = - 1\<rparr>"

definition isCommaNeeded :: "json_writer \<Rightarrow> (bool \<times> json_writer) option" where
  "isCommaNeeded w =
     (case peekState w of
        None \<Rightarrow> None
      | Some s \<Rightarrow>
          map_option (Pair (enumerationStarted s \<and> commaRequired s \<and> \<not> propertyNameAdded s))
            (updateState (\<lambda>s. s\<lparr>commaRequired := enumerationStarted s \<or> commaRequired s, propertyNameAdded := False\<rparr>) w))"

definition writeString :: "string \<Rightarrow> json_step" where
  "writeString v w = Some (w\<lparr>jw_text := jw_text w @ v\<rparr>)"

text \<open>The pattern \<open>if (isCommaNeeded()) writeString(",x") else writeString("x")\<close> of every operation.\<close>

definition write_after_comma :: "string \<Rightarrow> json_step" where
  "write_after_comma v w =
     (case isCommaNeeded w of
        None \<Rightarrow> None
      | Some (comma, w') \<Rightarrow> if comma then writeString (CHR '','' # v) w' else writeString v w')"

subsection \<open>The operations\<close>

definition json_null :: json_step where
  "json_null = write_after_comma ''null''"

definition startArray :: json_step where
  "startArray = json_steps [write_after_comma ''['', pushState new_enumeration]"

definition endArray :: json_step where
  "endArray = json_steps [writeString '']'', popState]"

definition startObject :: json_step where
  "startObject = json_steps [write_after_comma ''{'', pushState new_enumeration]"

definition endObject :: json_step where
  "endObject = json_steps [writeString ''}'', popState]"

definition propertyAdded :: json_step where
  "propertyAdded = updateState (\<lambda>s. s\<lparr>propertyNameAdded := True\<rparr>)"

text \<open>
  A string argument is a pointer and a length: the characters of the view and those that follow in
  memory from the pointer up to a zero byte, or \<open>None\<close> for a null pointer. The length 0 stands for
  "not given", so an empty view is replaced by what its pointer points to. A \<open>const char *\<close> is the
  empty view of its own text.
\<close>

type_synonym json_view = "string \<times> string option"

definition c_string :: "string \<Rightarrow> json_view" where
  "c_string v = ([], Some v)"

definition viewed_text :: "json_view \<Rightarrow> string option" where
  "viewed_text v = (if fst v = [] then snd v else Some (fst v))"

definition writeEscapedString :: "json_view \<Rightarrow> json_step" where
  "writeEscapedString v w =
     (case viewed_text v of
        None \<Rightarrow> None
      | Some t \<Rightarrow> json_steps [write_after_comma ''\"'', writeString (escapeString t), writeString ''\"''] w)"

definition writeSafeString :: "string \<Rightarrow> json_step" where
  "writeSafeString v = json_steps [write_after_comma ''\"'', writeString v, writeString ''\"'']"

definition newProperty :: "json_view \<Rightarrow> json_step" where
  "newProperty name = json_steps [writeEscapedString name, writeString '':'', propertyAdded]"

definition newPropertyWithSafeName :: "string \<Rightarrow> json_step" where
  "newPropertyWithSafeName name =
     json_steps [write_after_comma ''\"'', writeString name, writeString ''\":'', propertyAdded]"

definition newPropertyRaw :: "string \<Rightarrow> json_step" where
  "newPropertyRaw name = json_steps [writeString name, propertyAdded]"

definition JSON_RAW_PROP :: "string \<Rightarrow> string" where
  "JSON_RAW_PROP x = ''\"'' @ x @ ''\":''"

definition JSON_RAW_PROP_COMMA :: "string \<Rightarrow> string" where
  "JSON_RAW_PROP_COMMA x = '',\"'' @ x @ ''\":''"

definition JSON_WRITE_FIRST_PROP :: "string \<Rightarrow> json_step \<Rightarrow> json_step" where
  "JSON_WRITE_FIRST_PROP key f = json_steps [newPropertyRaw (JSON_RAW_PROP key), f]"

definition JSON_WRITE_PROP :: "string \<Rightarrow> json_step \<Rightarrow> json_step" where
  "JSON_WRITE_PROP key f = json_steps [newPropertyRaw (JSON_RAW_PROP_COMMA key), f]"

definition writeBool :: "bool \<Rightarrow> json_step" where
  "writeBool b = write_after_comma (if b then ''true'' else ''false'')"

subsection \<open>Numbers\<close>

text \<open>
  The digits are written backwards into a buffer on the stack. The least value of a signed type cannot be
  negated and is written as a constant, without the comma.
\<close>

fun decimal_digits :: "nat \<Rightarrow> string" where
  "decimal_digits n = (if n > 9 then decimal_digits (n div 10) else []) @ [char_of (n mod 10 + 48)]"

declare decimal_digits.simps [simp del]

definition maxDigitsOfNumber :: "nat \<Rightarrow> nat" where
  "maxDigitsOfNumber numberOfBytes =
     (if 1 = numberOfBytes then 3 else if 2 = numberOfBytes then 5 else if 4 = numberOfBytes then 10
      else if 8 = numberOfBytes then 20 else if 16 = numberOfBytes then 39 else 128)"

definition number_text :: "int \<Rightarrow> bool \<Rightarrow> string" where
  "number_text v includeComma =
     (if includeComma then '','' else []) @ (if v < 0 then ''-'' else []) @ decimal_digits (nat \<bar>v\<bar>)"

definition least_value_text :: "nat \<Rightarrow> string" where
  "least_value_text bytes =
     (if bytes = 1 then ''-128'' else if bytes = 2 then ''-32768'' else if bytes = 4 then ''-2147483648''
      else if bytes = 8 then ''-9223372036854775808'' else [])"

definition writeNumber :: "nat \<Rightarrow> bool \<Rightarrow> int \<Rightarrow> json_step" where
  "writeNumber bytes is_signed v w =
     (case isCommaNeeded w of
        None \<Rightarrow> None
      | Some (includeComma, w') \<Rightarrow>
          if is_signed \<and> v = - (2 ^ (8 * bytes - 1)) then writeString (least_value_text bytes) w'
          else writeString (number_text v includeComma) w')"

subsection \<open>Strings that carry their own quotes\<close>

text \<open>
  A string that needs no escaping is stored between quotes, ready to be copied. \<open>extra\<close> are the bytes the
  derived class keeps behind the string: none for \<open>JsonReadyString\<close>, the sort key for
  \<open>JsonReadyStringWithSortKey\<close> of \<open>src/src/LibForumHelpers/StringHelpers.h\<close>.
\<close>

record json_ready_string =
  jr_boolean :: bool
  jr_container :: string
  jr_extraSize :: nat

definition JsonReadyStringBase :: "string \<Rightarrow> string \<Rightarrow> json_ready_string" where
  "JsonReadyStringBase extra source =
     (let escapeNeeded = isEscapeNeeded source
      in \<lparr>jr_boolean = escapeNeeded,
          jr_container = (if \<not> escapeNeeded then ''\"'' @ source @ ''\"'' else source) @ extra,
          jr_extraSize = length extra\<rparr>)"

definition JsonReadyString :: "string \<Rightarrow> json_ready_string" where
  "JsonReadyString source = JsonReadyStringBase [] source"

definition jr_string :: "json_ready_string \<Rightarrow> string" where
  "jr_string s =
     (let strSize = length (jr_container s) - jr_extraSize s
      in if \<not> jr_boolean s then take (strSize - 2) (drop 1 (jr_container s)) else take strSize (jr_container s))"

definition quotedString :: "json_ready_string \<Rightarrow> string" where
  "quotedString s = (if jr_boolean s then [] else take (length (jr_container s) - jr_extraSize s) (jr_container s))"

definition sortKey :: "json_ready_string \<Rightarrow> string" where
  "sortKey s = drop (length (jr_container s) - jr_extraSize s) (jr_container s)"

text \<open>The pointer of a stored string is not null and its bytes lie in the container.\<close>

definition writeReadyString :: "json_ready_string \<Rightarrow> json_step" where
  "writeReadyString s w =
     (if jr_boolean s then writeEscapedString (jr_string s, Some (sortKey s)) w
      else (case isCommaNeeded w of
              None \<Rightarrow> None
            | Some (comma, w') \<Rightarrow> json_steps [writeString (if comma then '','' else []), writeString (quotedString s)] w'))"

text \<open>\<open>writeArray\<close> over a range, with the operation that writes an element.\<close>

definition json_writeArray :: "('a \<Rightarrow> json_step) \<Rightarrow> 'a list \<Rightarrow> json_step" where
  "json_writeArray f xs = json_steps ([startArray] @ map f xs @ [endArray])"

subsection \<open>The growing buffer\<close>

record string_buffer =
  sb_growWith :: nat
  sb_capacity :: nat
  sb_bytes :: string

definition StringBuffer :: "nat \<Rightarrow> string_buffer" where
  "StringBuffer growWith = \<lparr>sb_growWith = growWith, sb_capacity = growWith, sb_bytes = []\<rparr>"

definition sb_clear :: "string_buffer \<Rightarrow> string_buffer" where
  "sb_clear b = b\<lparr>sb_bytes := []\<rparr>"

definition sb_resize :: "string_buffer \<Rightarrow> string_buffer" where
  "sb_resize b = b\<lparr>sb_capacity := sb_capacity b + sb_growWith b\<rparr>"

text \<open>The loop that makes room; it does not end when the buffer does not grow.\<close>

partial_function (option) sb_reserve :: "nat \<Rightarrow> string_buffer \<Rightarrow> string_buffer option" where
  "sb_reserve n b =
     (if sb_capacity b < length (sb_bytes b) + n then sb_reserve n (sb_resize b) else Some b)"

definition sb_append :: "string \<Rightarrow> string_buffer \<Rightarrow> string_buffer" where
  "sb_append v b = b\<lparr>sb_bytes := sb_bytes b @ v\<rparr>"

definition sb_write :: "string \<Rightarrow> string_buffer \<Rightarrow> string_buffer option" where
  "sb_write v b = map_option (sb_append v) (sb_reserve (length v) b)"

text \<open>A single character makes room once only; \<open>None\<close> is a write past the end.\<close>

definition sb_writeChar :: "char \<Rightarrow> string_buffer \<Rightarrow> string_buffer option" where
  "sb_writeChar c b =
     (let b' = (if sb_capacity b < length (sb_bytes b) + 1 then sb_resize b else b)
      in if length (sb_bytes b') < sb_capacity b' then Some (sb_append [c] b') else None)"

definition sb_view :: "string_buffer \<Rightarrow> string" where
  "sb_view b = sb_bytes b"

definition sb_ok :: "string_buffer \<Rightarrow> bool" where
  "sb_ok b \<longleftrightarrow> 0 < sb_growWith b \<and> length (sb_bytes b) \<le> sb_capacity b"

lemma sb_reserve_total:
  "0 < sb_growWith b \<Longrightarrow>
   \<exists>c. sb_reserve n b = Some (b\<lparr>sb_capacity := c\<rparr>) \<and> sb_capacity b \<le> c \<and> length (sb_bytes b) + n \<le> c"
proof (induction "length (sb_bytes b) + n - sb_capacity b" arbitrary: b rule: less_induct)
  case less
  show ?case
  proof (cases "sb_capacity b < length (sb_bytes b) + n")
    case True
    then have "length (sb_bytes (sb_resize b)) + n - sb_capacity (sb_resize b) < length (sb_bytes b) + n - sb_capacity b"
      using less.prems by (simp add: sb_resize_def)
    from less.hyps [OF this] less.prems obtain c where c: "sb_reserve n (sb_resize b) = Some ((sb_resize b)\<lparr>sb_capacity := c\<rparr>)"
        "sb_capacity b + sb_growWith b \<le> c" "length (sb_bytes b) + n \<le> c"
      by (auto simp: sb_resize_def)
    then show ?thesis
      using True by (subst sb_reserve.simps) (auto simp: sb_resize_def intro!: exI [of _ c])
  next
    case False
    then show ?thesis by (subst sb_reserve.simps) (auto intro!: exI [of _ "sb_capacity b"])
  qed
qed

lemma sb_write_appends:
  assumes "sb_ok b"
  shows "\<exists>b'. sb_write v b = Some b' \<and> sb_ok b' \<and> sb_view b' = sb_view b @ v"
proof -
  obtain c where "sb_reserve (length v) b = Some (b\<lparr>sb_capacity := c\<rparr>)" "length (sb_bytes b) + length v \<le> c"
    using sb_reserve_total [of b "length v"] assms by (auto simp: sb_ok_def)
  then show ?thesis
    using assms by (simp add: sb_write_def sb_append_def sb_ok_def sb_view_def)
qed

lemma sb_writeChar_appends:
  "sb_ok b \<Longrightarrow> \<exists>b'. sb_writeChar c b = Some b' \<and> sb_ok b' \<and> sb_view b' = sb_view b @ [c]"
  by (auto simp: sb_writeChar_def sb_resize_def sb_append_def sb_ok_def sb_view_def Let_def)

lemma sb_ok_new: "0 < growWith \<Longrightarrow> sb_ok (StringBuffer growWith)"
  by (simp add: sb_ok_def StringBuffer_def)

lemma sb_ok_clear: "sb_ok b \<Longrightarrow> sb_ok (sb_clear b) \<and> sb_view (sb_clear b) = []"
  by (simp add: sb_ok_def sb_clear_def sb_view_def)

end
