(* ===== verification/Entities.thy ===== *)
theory Entities
  imports Privileges JsonWriter
begin

section \<open>The entities and the privileges they require\<close>

text \<open>
  Models the entity classes of \<^verbatim>\<open>src/src/LibForumData\<close>: \<^verbatim>\<open>EntityUser.h\<close>, \<^verbatim>\<open>EntityDiscussionThreadMessage.h\<close>,
  \<^verbatim>\<open>EntityDiscussionThread.h\<close>, \<^verbatim>\<open>EntityDiscussionTag.h\<close>, \<^verbatim>\<open>EntityDiscussionCategory.h\<close>,
  \<^verbatim>\<open>EntityAttachment.h\<close>, \<^verbatim>\<open>EntityMessageComment.h\<close>, \<^verbatim>\<open>EntityPrivateMessage.h\<close> and their \<^verbatim>\<open>.cpp\<close> files,
  as far as authorization, voting and the repositories modelled here read and write them. Entities refer to each other by
  pointers, so they live in an explicit heap: one function from pointers to objects per class.
  A pointer the source may leave null is an \<open>option\<close>; the ones it asserts non-null are plain.
\<close>

record user =
  usr_id :: id_type
  usr_messageCount :: nat
  usr_name :: json_ready_string
  usr_lastSeen :: timestamp
  usr_showInOnlineUsers :: bool

text \<open>
  The collections of threads of a tag or a category: the index by id and the one by the time of creation that
  \<open>iterateThreads\<close> walks; the indices that only order listings are left out. \<open>total_collection\<close> is
  \<open>DiscussionThreadCollectionWithReferenceCountAndMessageCount\<close>.
\<close>

record thread_collection =
  tc_byId :: "ptr list"
  tc_byCreated :: "ptr list"

record total_collection =
  tt_byId :: "ptr list"
  tt_messageCount :: int
  tt_referenceCount :: "(ptr \<times> int) list"

record update_info =
  up_at :: timestamp
  up_ip :: "128 word"
  up_by :: "ptr option"

text \<open>The values they are constructed with.\<close>

definition no_threads :: thread_collection where
  "no_threads = \<lparr>tc_byId = [], tc_byCreated = []\<rparr>"

definition no_totals :: total_collection where
  "no_totals = \<lparr>tt_byId = [], tt_messageCount = 0, tt_referenceCount = []\<rparr>"

definition not_updated :: update_info where
  "not_updated = \<lparr>up_at = 0, up_ip = 0, up_by = None\<rparr>"

record message = msg_priv_store +
  msg_id :: id_type
  msg_created :: timestamp
  msg_createdBy :: ptr
  msg_parentThread :: ptr
  msg_approved :: bool
  msg_solvedCommentsCount :: nat
  msg_upVotes :: "(ptr \<times> timestamp) list"
  msg_downVotes :: "(ptr \<times> timestamp) list"

record thread = thread_priv_store +
  thr_id :: id_type
  thr_createdBy :: ptr
  thr_approved :: bool
  thr_messages :: "ptr list"
  thr_tags :: "ptr list"
  thr_categories :: "ptr list"
  thr_latestVisibleChange :: timestamp
  thr_visitorsSinceLastEdit :: "id_type list"
  thr_name :: json_ready_string
  thr_created :: timestamp
  thr_lastUpdated :: update_info
  thr_aboutToBeDeleted :: bool

record tag = tag_priv_store +
  tag_id :: id_type
  tag_categories :: "ptr list"
  tag_name :: json_ready_string
  tag_created :: timestamp
  tag_createdIp :: "128 word"
  tag_uiBlob :: string
  tag_threads :: thread_collection
  tag_messageCount :: int
  tag_lastUpdated :: update_info

record category = category_priv_store +
  cat_id :: id_type
  cat_parent :: "ptr option"
  cat_children :: "ptr list"
  cat_tags :: "ptr list"
  cat_name :: json_ready_string
  cat_created :: timestamp
  cat_createdIp :: "128 word"
  cat_description :: string
  cat_displayOrder :: int
  cat_messageCount :: int
  cat_lastUpdated :: update_info
  cat_threads :: thread_collection
  cat_totalThreads :: total_collection

record attachment =
  att_createdBy :: ptr
  att_approved :: bool
  att_messages :: "ptr list"

record message_comment =
  cmt_parentMessage :: ptr

record private_message =
  pm_source :: ptr
  pm_destination :: ptr

record heap =
  h_user :: "ptr \<Rightarrow> user"
  h_message :: "ptr \<Rightarrow> message"
  h_thread :: "ptr \<Rightarrow> thread"
  h_tag :: "ptr \<Rightarrow> tag"
  h_category :: "ptr \<Rightarrow> category"
  h_forumWide :: forum_wide_store

subsection \<open>Anonymous users\<close>

definition isAnonymousUserId :: "id_type \<Rightarrow> bool" where
  "isAnonymousUserId uid \<longleftrightarrow> \<not> uid \<noteq> 0"

definition isAnonymousUser :: "user option \<Rightarrow> bool" where
  "isAnonymousUser u = (case u of None \<Rightarrow> True | Some v \<Rightarrow> isAnonymousUserId (usr_id v))"

subsection \<open>Required privileges, with inheritance\<close>

definition tag_getDiscussionThreadMessagePrivilege :: "heap \<Rightarrow> tag \<Rightarrow> msg_privilege \<Rightarrow> privilege_value option" where
  "tag_getDiscussionThreadMessagePrivilege h t p =
     (case store_getDiscussionThreadMessagePrivilege t p of
        Some result \<Rightarrow> Some result
      | None \<Rightarrow> store_getDiscussionThreadMessagePrivilege (h_forumWide h) p)"

definition tag_getDiscussionThreadPrivilege :: "heap \<Rightarrow> tag \<Rightarrow> thread_privilege \<Rightarrow> privilege_value option" where
  "tag_getDiscussionThreadPrivilege h t p =
     (case store_getDiscussionThreadPrivilege t p of
        Some result \<Rightarrow> Some result
      | None \<Rightarrow> store_getDiscussionThreadPrivilege (h_forumWide h) p)"

definition tag_getDiscussionTagPrivilege :: "heap \<Rightarrow> tag \<Rightarrow> tag_privilege \<Rightarrow> privilege_value option" where
  "tag_getDiscussionTagPrivilege h t p =
     (case store_getDiscussionTagPrivilege t p of
        Some result \<Rightarrow> Some result
      | None \<Rightarrow> store_getDiscussionTagPrivilege (h_forumWide h) p)"

definition category_getDiscussionCategoryPrivilege ::
  "heap \<Rightarrow> category \<Rightarrow> category_privilege \<Rightarrow> privilege_value option" where
  "category_getDiscussionCategoryPrivilege h c p =
     (case store_getDiscussionCategoryPrivilege c p of
        Some result \<Rightarrow> Some result
      | None \<Rightarrow> store_getDiscussionCategoryPrivilege (fw_category_store (h_forumWide h)) p)"

definition thread_getDiscussionThreadMessagePrivilege ::
  "heap \<Rightarrow> thread \<Rightarrow> msg_privilege \<Rightarrow> privilege_value option" where
  "thread_getDiscussionThreadMessagePrivilege h t p =
     (case store_getDiscussionThreadMessagePrivilege t p of
        Some result \<Rightarrow> Some result
      | None \<Rightarrow>
          (if thr_tags t = [] then store_getDiscussionThreadMessagePrivilege (h_forumWide h) p
           else fold (\<lambda>tg result. maximumPrivilegeValue_oo result
                       (tag_getDiscussionThreadMessagePrivilege h (h_tag h tg) p)) (thr_tags t) None))"

definition thread_getDiscussionThreadPrivilege ::
  "heap \<Rightarrow> thread \<Rightarrow> thread_privilege \<Rightarrow> privilege_value option" where
  "thread_getDiscussionThreadPrivilege h t p =
     (case store_getDiscussionThreadPrivilege t p of
        Some result \<Rightarrow> Some result
      | None \<Rightarrow>
          (if thr_tags t = [] then store_getDiscussionThreadPrivilege (h_forumWide h) p
           else fold (\<lambda>tg result. maximumPrivilegeValue_oo result
                       (tag_getDiscussionThreadPrivilege h (h_tag h tg) p)) (thr_tags t) None))"

definition message_getDiscussionThreadMessagePrivilege ::
  "heap \<Rightarrow> message \<Rightarrow> msg_privilege \<Rightarrow> privilege_value option" where
  "message_getDiscussionThreadMessagePrivilege h m p =
     (case store_getDiscussionThreadMessagePrivilege m p of
        Some result \<Rightarrow> Some result
      | None \<Rightarrow> thread_getDiscussionThreadMessagePrivilege h (h_thread h (msg_parentThread m)) p)"

text \<open>The overload for callers that already have the value of the thread.\<close>

definition message_getDiscussionThreadMessagePrivilege_level ::
  "message \<Rightarrow> msg_privilege \<Rightarrow> privilege_value option \<Rightarrow> privilege_value option" where
  "message_getDiscussionThreadMessagePrivilege_level m p discussionThreadLevelValue =
     (let result = store_getDiscussionThreadMessagePrivilege m p
      in case result of Some _ \<Rightarrow> result | None \<Rightarrow> discussionThreadLevelValue)"

lemmas required_privilege_defs =
  tag_getDiscussionThreadMessagePrivilege_def tag_getDiscussionThreadPrivilege_def
  tag_getDiscussionTagPrivilege_def category_getDiscussionCategoryPrivilege_def
  thread_getDiscussionThreadMessagePrivilege_def thread_getDiscussionThreadPrivilege_def
  message_getDiscussionThreadMessagePrivilege_def message_getDiscussionThreadMessagePrivilege_level_def

text \<open>The optimised overload agrees with the virtual one when it is given the thread's value.\<close>

lemma message_privilege_level_eq:
  "message_getDiscussionThreadMessagePrivilege_level m p
     (thread_getDiscussionThreadMessagePrivilege h (h_thread h (msg_parentThread m)) p) =
   message_getDiscussionThreadMessagePrivilege h m p"
  by (simp add: required_privilege_defs split: option.split)

text \<open>The value a thread inherits is the largest its tags give, whatever their order.\<close>

definition option_values :: "('a \<Rightarrow> privilege_value option) \<Rightarrow> 'a list \<Rightarrow> privilege_value set" where
  "option_values f xs = {v. \<exists>x\<in>set xs. f x = Some v}"

lemma finite_option_values [simp]: "finite (option_values f xs)"
proof -
  have "option_values f xs \<subseteq> (\<lambda>x. the (f x)) ` set xs"
    by (force simp: option_values_def image_iff)
  then show ?thesis by (rule finite_subset) simp
qed

lemma option_values_simps [simp]:
  "option_values f [] = {}"
  "option_values f (x # xs) = (case f x of None \<Rightarrow> option_values f xs | Some v \<Rightarrow> insert v (option_values f xs))"
  by (auto simp: option_values_def split: option.splits)

lemma fold_maximum_value:
  "fold (\<lambda>x r. maximumPrivilegeValue_oo r (f x)) xs init =
   (let vs = option_values f xs \<union> (case init of None \<Rightarrow> {} | Some v \<Rightarrow> {v})
    in if vs = {} then None else Some (Max vs))"
proof (induction xs arbitrary: init)
  case Nil
  then show ?case by (simp split: option.split)
next
  case (Cons x xs)
  show ?case
  proof (cases "f x")
    case None
    with Cons show ?thesis by simp
  next
    case (Some v)
    then have "maximumPrivilegeValue_oo init (f x) = Some (case init of None \<Rightarrow> v | Some w \<Rightarrow> max w v)"
      by (cases init) simp_all
    moreover have "Max (option_values f xs \<union> {max w v}) = Max (insert v (option_values f xs) \<union> {w})" for w
      by (cases "option_values f xs = {}") (simp_all add: max.assoc max.commute max.left_commute)
    ultimately show ?thesis
      using Cons.IH [of "maximumPrivilegeValue_oo init (f x)"] Some
      by (cases "option_values f xs = {}")
        (simp_all add: max.commute max.left_commute split: option.splits)
  qed
qed

lemma thread_privilege_of_tags:
  assumes "store_getDiscussionThreadPrivilege t p = None" "thr_tags t \<noteq> []"
  shows "thread_getDiscussionThreadPrivilege h t p =
     (let vs = {v. \<exists>g\<in>set (thr_tags t). tag_getDiscussionThreadPrivilege h (h_tag h g) p = Some v}
      in if vs = {} then None else Some (Max vs))"
  using assms
  by (simp add: thread_getDiscussionThreadPrivilege_def fold_maximum_value option_values_def)

subsection \<open>Votes on a message\<close>

datatype remove_vote_status = Missing | WasUpVote | WasDownVote

definition hasVoted :: "message \<Rightarrow> ptr \<Rightarrow> bool" where
  "hasVoted m u \<longleftrightarrow> map_of (msg_upVotes m) u \<noteq> None \<or> map_of (msg_downVotes m) u \<noteq> None"

definition votedAt :: "message \<Rightarrow> ptr \<Rightarrow> timestamp option" where
  "votedAt m u =
     (case map_of (msg_upVotes m) u of Some t \<Rightarrow> Some t
      | None \<Rightarrow> (case map_of (msg_downVotes m) u of Some t \<Rightarrow> Some t | None \<Rightarrow> None))"

definition voteScore :: "message \<Rightarrow> int" where
  "voteScore m = int (length (msg_upVotes m)) - int (length (msg_downVotes m))"

definition addUpVote :: "ptr \<Rightarrow> timestamp \<Rightarrow> message \<Rightarrow> message" where
  "addUpVote u tm m = m\<lparr>msg_upVotes := map_insert u tm (msg_upVotes m)\<rparr>"

definition addDownVote :: "ptr \<Rightarrow> timestamp \<Rightarrow> message \<Rightarrow> message" where
  "addDownVote u tm m = m\<lparr>msg_downVotes := map_insert u tm (msg_downVotes m)\<rparr>"

definition removeVote :: "ptr \<Rightarrow> message \<Rightarrow> remove_vote_status \<times> message" where
  "removeVote u m =
     (if u \<in> fst ` set (msg_upVotes m) then (WasUpVote, m\<lparr>msg_upVotes := map_erase u (msg_upVotes m)\<rparr>)
      else if u \<in> fst ` set (msg_downVotes m) then (WasDownVote, m\<lparr>msg_downVotes := map_erase u (msg_downVotes m)\<rparr>)
      else (Missing, m))"

definition incrementSolvedCommentsCount :: "message \<Rightarrow> message" where
  "incrementSolvedCommentsCount m = m\<lparr>msg_solvedCommentsCount := (msg_solvedCommentsCount m + 1) mod 2 ^ 15\<rparr>"

definition decrementSolvedCommentsCount :: "message \<Rightarrow> message" where
  "decrementSolvedCommentsCount m =
     m\<lparr>msg_solvedCommentsCount := (msg_solvedCommentsCount m + (2 ^ 15 - 1)) mod 2 ^ 15\<rparr>"

text \<open>A user has at most one vote on a message.\<close>

definition votes_ok :: "message \<Rightarrow> bool" where
  "votes_ok m \<longleftrightarrow> flat_map (msg_upVotes m) \<and> flat_map (msg_downVotes m) \<and>
     fst ` set (msg_upVotes m) \<inter> fst ` set (msg_downVotes m) = {}"

lemma hasVoted_keys: "hasVoted m u \<longleftrightarrow> u \<in> fst ` set (msg_upVotes m) \<or> u \<in> fst ` set (msg_downVotes m)"
  by (simp add: hasVoted_def map_of_flat_Some)

lemma votedAt_hasVoted: "votedAt m u \<noteq> None \<longleftrightarrow> hasVoted m u"
  by (auto simp: votedAt_def hasVoted_def split: option.splits)

lemma votes_ok_add:
  "votes_ok m \<Longrightarrow> \<not> hasVoted m u \<Longrightarrow> votes_ok (addUpVote u tm m)"
  "votes_ok m \<Longrightarrow> \<not> hasVoted m u \<Longrightarrow> votes_ok (addDownVote u tm m)"
  by (auto simp: votes_ok_def addUpVote_def addDownVote_def hasVoted_keys intro: forum_intros)

lemma votes_ok_remove: "votes_ok m \<Longrightarrow> votes_ok (snd (removeVote u m))"
  by (auto simp: votes_ok_def removeVote_def intro: forum_intros)

lemma removeVote_not_voted: "votes_ok m \<Longrightarrow> \<not> hasVoted (snd (removeVote u m)) u"
  by (auto simp: votes_ok_def removeVote_def hasVoted_keys)

lemma voteScore_add:
  "\<not> hasVoted m u \<Longrightarrow> voteScore (addUpVote u tm m) = voteScore m + 1"
  "\<not> hasVoted m u \<Longrightarrow> voteScore (addDownVote u tm m) = voteScore m - 1"
  by (simp_all add: voteScore_def addUpVote_def addDownVote_def hasVoted_keys length_map_insert)

lemma map_erase_insert:
  "k \<notin> fst ` set m \<Longrightarrow> map_erase k (map_insert k v m) = m"
  by (induction m) (auto simp: map_insert_def map_erase_def, force simp: filter_id_conv)

text \<open>Undoing a vote restores the message.\<close>

lemma removeVote_addUpVote:
  "\<not> hasVoted m u \<Longrightarrow> removeVote u (addUpVote u tm m) = (WasUpVote, m)"
  by (simp add: removeVote_def addUpVote_def hasVoted_keys map_erase_insert)

lemma removeVote_addDownVote:
  "\<not> hasVoted m u \<Longrightarrow> removeVote u (addDownVote u tm m) = (WasDownVote, m)"
  by (simp add: removeVote_def addDownVote_def hasVoted_keys map_erase_insert)

subsection \<open>Tags, categories and visitors of a thread\<close>

text \<open>\<open>now\<close> is \<open>Context::getCurrentTime()\<close>, \<open>limit\<close> the configured maximum number of visitors kept.\<close>

definition thread_addTag :: "timestamp \<Rightarrow> ptr \<Rightarrow> thread \<Rightarrow> bool \<times> thread" where
  "thread_addTag now tg t =
     (tg \<notin> set (thr_tags t), t\<lparr>thr_latestVisibleChange := now, thr_tags := flat_insert tg (thr_tags t)\<rparr>)"

definition thread_removeTag :: "timestamp \<Rightarrow> ptr \<Rightarrow> thread \<Rightarrow> bool \<times> thread" where
  "thread_removeTag now tg t =
     (tg \<in> set (thr_tags t), t\<lparr>thr_latestVisibleChange := now, thr_tags := flat_erase tg (thr_tags t)\<rparr>)"

definition thread_addCategory :: "timestamp \<Rightarrow> ptr \<Rightarrow> thread \<Rightarrow> bool \<times> thread" where
  "thread_addCategory now c t =
     (c \<notin> set (thr_categories t), t\<lparr>thr_latestVisibleChange := now, thr_categories := flat_insert c (thr_categories t)\<rparr>)"

definition thread_removeCategory :: "timestamp \<Rightarrow> ptr \<Rightarrow> thread \<Rightarrow> bool \<times> thread" where
  "thread_removeCategory now c t =
     (c \<in> set (thr_categories t), t\<lparr>thr_latestVisibleChange := now, thr_categories := flat_erase c (thr_categories t)\<rparr>)"

definition addVisitorSinceLastEdit :: "int \<Rightarrow> id_type \<Rightarrow> thread \<Rightarrow> thread" where
  "addVisitorSinceLastEdit limit uid t =
     (let kept = (if int (length (thr_visitorsSinceLastEdit t)) \<ge> limit then [] else thr_visitorsSinceLastEdit t)
      in t\<lparr>thr_visitorsSinceLastEdit := flat_insert uid kept\<rparr>)"

definition hasVisitedSinceLastEdit :: "id_type \<Rightarrow> thread \<Rightarrow> bool" where
  "hasVisitedSinceLastEdit uid t \<longleftrightarrow> uid \<in> set (thr_visitorsSinceLastEdit t)"

definition resetVisitorsSinceLastEdit :: "thread \<Rightarrow> thread" where
  "resetVisitorsSinceLastEdit t = t\<lparr>thr_visitorsSinceLastEdit := []\<rparr>"

definition tag_addCategory :: "ptr \<Rightarrow> tag \<Rightarrow> bool \<times> tag" where
  "tag_addCategory c t = (c \<notin> set (tag_categories t), t\<lparr>tag_categories := flat_insert c (tag_categories t)\<rparr>)"

definition tag_removeCategory :: "ptr \<Rightarrow> tag \<Rightarrow> bool \<times> tag" where
  "tag_removeCategory c t = (c \<in> set (tag_categories t), t\<lparr>tag_categories := flat_erase c (tag_categories t)\<rparr>)"

lemma visitors_bounded:
  assumes "0 < limit" "int (length (thr_visitorsSinceLastEdit t)) \<le> limit"
  shows "int (length (thr_visitorsSinceLastEdit (addVisitorSinceLastEdit limit uid t))) \<le> limit"
  using assms by (auto simp: addVisitorSinceLastEdit_def Let_def length_flat_insert)

lemma visitor_recorded: "hasVisitedSinceLastEdit uid (addVisitorSinceLastEdit limit uid t)"
  by (simp add: hasVisitedSinceLastEdit_def addVisitorSinceLastEdit_def Let_def)

end
