(* ===== verification/GrantedPrivileges.thy ===== *)
theory GrantedPrivileges
  imports Entities
begin

section \<open>The store of granted privileges and its decisions\<close>

text \<open>
  Models \<^verbatim>\<open>src/src/LibForumData/AuthorizationGrantedPrivilegeStore.h\<close> and its \<^verbatim>\<open>.cpp\<close> file. Each
  multi-index container of grants is the list of its entries; the source's indices are hashed and
  non-unique, so the lemmas at the end show that decisions do not depend on the order of a list.
  The pair of in/out references \<open>positiveValue\<close>, \<open>negativeValue\<close> is a pair that every
  \<open>calculate\<close> function takes and returns. The multiplier of the message count is a \<open>double\<close> in the
  source; it is an exact rational here, and its conversion to \<open>int16_t\<close> is modular.
\<close>

record privilege_entry =
  pe_userId :: id_type
  pe_entityId :: id_type
  pe_privilegeValue :: privilege_value
  pe_grantedAt :: timestamp
  pe_expiresAt :: timestamp

record granted_store =
  discussionThreadMessageSpecificPrivileges :: "privilege_entry list"
  discussionThreadSpecificPrivileges :: "privilege_entry list"
  discussionTagSpecificPrivileges :: "privilege_entry list"
  discussionCategorySpecificPrivileges :: "privilege_entry list"
  forumWideSpecificPrivileges :: "privilege_entry list"
  defaultPrivilegeValueForLoggedInUser :: privilege_value
  messageCountMultiplierPrivilegeBonus :: rat
  maxMessageCountPrivilegeBonus :: privilege_value

subsection \<open>Granting and revoking\<close>

definition erase_user_entity :: "id_type \<Rightarrow> id_type \<Rightarrow> privilege_entry list \<Rightarrow> privilege_entry list" where
  "erase_user_entity uid eid es = filter (\<lambda>e. \<not> (pe_userId e = uid \<and> pe_entityId e = eid)) es"

definition grant_entry :: "id_type \<Rightarrow> id_type \<Rightarrow> privilege_value \<Rightarrow> timestamp \<Rightarrow> timestamp
    \<Rightarrow> privilege_entry list \<Rightarrow> privilege_entry list" where
  "grant_entry uid eid value now expiresAt es =
     (if 0 = value then erase_user_entity uid eid es
      else es @ [\<lparr>pe_userId = uid, pe_entityId = eid, pe_privilegeValue = value,
                   pe_grantedAt = now, pe_expiresAt = expiresAt\<rparr>])"

definition grantDiscussionThreadMessagePrivilege where
  "grantDiscussionThreadMessagePrivilege uid eid value now expiresAt s =
     s\<lparr>discussionThreadMessageSpecificPrivileges :=
        grant_entry uid eid value now expiresAt (discussionThreadMessageSpecificPrivileges s)\<rparr>"

definition grantDiscussionThreadPrivilege where
  "grantDiscussionThreadPrivilege uid eid value now expiresAt s =
     s\<lparr>discussionThreadSpecificPrivileges :=
        grant_entry uid eid value now expiresAt (discussionThreadSpecificPrivileges s)\<rparr>"

definition grantDiscussionTagPrivilege where
  "grantDiscussionTagPrivilege uid eid value now expiresAt s =
     s\<lparr>discussionTagSpecificPrivileges :=
        grant_entry uid eid value now expiresAt (discussionTagSpecificPrivileges s)\<rparr>"

definition grantDiscussionCategoryPrivilege where
  "grantDiscussionCategoryPrivilege uid eid value now expiresAt s =
     s\<lparr>discussionCategorySpecificPrivileges :=
        grant_entry uid eid value now expiresAt (discussionCategorySpecificPrivileges s)\<rparr>"

definition grantForumWidePrivilege where
  "grantForumWidePrivilege uid eid value now expiresAt s =
     s\<lparr>forumWideSpecificPrivileges :=
        grant_entry uid eid value now expiresAt (forumWideSpecificPrivileges s)\<rparr>"

lemmas grant_defs =
  grantDiscussionThreadMessagePrivilege_def grantDiscussionThreadPrivilege_def
  grantDiscussionTagPrivilege_def grantDiscussionCategoryPrivilege_def
  grantForumWidePrivilege_def grant_entry_def erase_user_entity_def

subsection \<open>Effective values\<close>

definition getEffectivePrivilegeValue :: "privilege_value option \<Rightarrow> privilege_value option \<Rightarrow> privilege_value" where
  "getEffectivePrivilegeValue positive negative = int16 (optionalOrZero positive + optionalOrZero negative)"

text \<open>The file-local \<open>isAllowed\<close>: the level with which access is granted, empty if it is not.\<close>

definition isAllowed_values ::
  "privilege_value option \<Rightarrow> privilege_value option \<Rightarrow> privilege_value option \<Rightarrow> privilege_value option" where
  "isAllowed_values positive negative required =
     (let effectivePrivilegeValue = getEffectivePrivilegeValue positive negative;
          requiredPrivilegeValue = optionalOrZero required
      in if effectivePrivilegeValue \<ge> requiredPrivilegeValue then Some effectivePrivilegeValue else None)"

type_synonym pos_neg = "privilege_value option \<times> privilege_value option"

definition defaultPositiveValue :: "granted_store \<Rightarrow> user \<Rightarrow> privilege_value" where
  "defaultPositiveValue s u =
     int16 (defaultPrivilegeValueForLoggedInUser s +
       min (maxMessageCountPrivilegeBonus s)
           (int16 (truncate_rat (messageCountMultiplierPrivilegeBonus s * of_nat (usr_messageCount u)))))"

definition entry_expired :: "timestamp \<Rightarrow> privilege_entry \<Rightarrow> bool" where
  "entry_expired now e \<longleftrightarrow> pe_expiresAt e > 0 \<and> pe_expiresAt e < now"

definition apply_entry :: "timestamp \<Rightarrow> privilege_entry \<Rightarrow> pos_neg \<Rightarrow> pos_neg" where
  "apply_entry now e = (\<lambda>(positiveValue, negativeValue).
     if entry_expired now e then (positiveValue, negativeValue)
     else if pe_privilegeValue e > 0
          then (maximumPrivilegeValue_oi positiveValue (pe_privilegeValue e), negativeValue)
          else (positiveValue, minimumPrivilegeValue_oi negativeValue (pe_privilegeValue e)))"

definition equal_range_user_entity :: "id_type \<Rightarrow> id_type \<Rightarrow> privilege_entry list \<Rightarrow> privilege_entry list" where
  "equal_range_user_entity uid eid es = filter (\<lambda>e. pe_userId e = uid \<and> pe_entityId e = eid) es"

definition calculatePrivilege ::
  "granted_store \<Rightarrow> privilege_entry list \<Rightarrow> user option \<Rightarrow> id_type \<Rightarrow> timestamp \<Rightarrow> pos_neg \<Rightarrow> pos_neg" where
  "calculatePrivilege s collection u entityId now = (\<lambda>(positiveValue, negativeValue).
     case u of
       None \<Rightarrow> (maximumPrivilegeValue_oi positiveValue 0, negativeValue)
     | Some v \<Rightarrow>
         if isAnonymousUser (Some v) then (maximumPrivilegeValue_oi positiveValue 0, negativeValue)
         else fold (apply_entry now) (equal_range_user_entity (usr_id v) entityId collection)
                (maximumPrivilegeValue_oi positiveValue (defaultPositiveValue s v), negativeValue))"

subsection \<open>The levels of the hierarchy\<close>

definition calculateDiscussionThreadMessagePrivilege_message where
  "calculateDiscussionThreadMessagePrivilege_message s u (m :: message) now =
     calculatePrivilege s (discussionThreadMessageSpecificPrivileges s) u (msg_id m) now"

definition calculateDiscussionThreadPrivilege where
  "calculateDiscussionThreadPrivilege s u (t :: thread) now =
     calculatePrivilege s (discussionThreadSpecificPrivileges s) u (thr_id t) now"

definition calculateDiscussionTagPrivilege where
  "calculateDiscussionTagPrivilege s u (t :: tag) now =
     calculatePrivilege s (discussionTagSpecificPrivileges s) u (tag_id t) now"

definition calculateDiscussionCategoryPrivilege where
  "calculateDiscussionCategoryPrivilege s u (c :: category) now =
     calculatePrivilege s (discussionCategorySpecificPrivileges s) u (cat_id c) now"

definition calculateForumWidePrivilege where
  "calculateForumWidePrivilege s u now =
     calculatePrivilege s (forumWideSpecificPrivileges s) u 0 now"

definition calculateDiscussionThreadMessagePrivilege_thread where
  "calculateDiscussionThreadMessagePrivilege_thread s h u (t :: thread) now pn =
     calculateForumWidePrivilege s u now
       (fold (\<lambda>tg. calculateDiscussionTagPrivilege s u (h_tag h tg) now) (thr_tags t)
         (calculateDiscussionThreadPrivilege s u t now pn))"

subsection \<open>Decisions\<close>

definition isAllowed_message_msg ::
  "granted_store \<Rightarrow> heap \<Rightarrow> user option \<Rightarrow> message \<Rightarrow> msg_privilege \<Rightarrow> timestamp \<Rightarrow> privilege_value option" where
  "isAllowed_message_msg s h u m privilege now =
     (let pn = calculateDiscussionThreadMessagePrivilege_message s u m now (None, None);
          (positive, negative) =
            calculateDiscussionThreadMessagePrivilege_thread s h u (h_thread h (msg_parentThread m)) now pn
      in isAllowed_values positive negative (message_getDiscussionThreadMessagePrivilege h m privilege))"

definition isAllowed_thread_msg ::
  "granted_store \<Rightarrow> heap \<Rightarrow> user option \<Rightarrow> thread \<Rightarrow> msg_privilege \<Rightarrow> timestamp \<Rightarrow> privilege_value option" where
  "isAllowed_thread_msg s h u t privilege now =
     (let (positive, negative) = calculateDiscussionThreadMessagePrivilege_thread s h u t now (None, None)
      in isAllowed_values positive negative (thread_getDiscussionThreadMessagePrivilege h t privilege))"

definition isAllowed_tag_msg ::
  "granted_store \<Rightarrow> heap \<Rightarrow> user option \<Rightarrow> tag \<Rightarrow> msg_privilege \<Rightarrow> timestamp \<Rightarrow> privilege_value option" where
  "isAllowed_tag_msg s h u t privilege now =
     (let (positive, negative) =
            calculateForumWidePrivilege s u now (calculateDiscussionTagPrivilege s u t now (None, None))
      in isAllowed_values positive negative (tag_getDiscussionThreadMessagePrivilege h t privilege))"

definition isAllowed_thread_thr ::
  "granted_store \<Rightarrow> heap \<Rightarrow> user option \<Rightarrow> thread \<Rightarrow> thread_privilege \<Rightarrow> timestamp \<Rightarrow> privilege_value option" where
  "isAllowed_thread_thr s h u t privilege now =
     (let pn = calculateDiscussionThreadPrivilege s u t now (None, None);
          pn = fold (\<lambda>tg. calculateDiscussionTagPrivilege s u (h_tag h tg) now) (thr_tags t) pn;
          (positive, negative) = calculateForumWidePrivilege s u now pn
      in isAllowed_values positive negative (thread_getDiscussionThreadPrivilege h t privilege))"

definition isAllowed_tag_thr ::
  "granted_store \<Rightarrow> heap \<Rightarrow> user option \<Rightarrow> tag \<Rightarrow> thread_privilege \<Rightarrow> timestamp \<Rightarrow> privilege_value option" where
  "isAllowed_tag_thr s h u t privilege now =
     (let (positive, negative) =
            calculateForumWidePrivilege s u now (calculateDiscussionTagPrivilege s u t now (None, None))
      in isAllowed_values positive negative (tag_getDiscussionThreadPrivilege h t privilege))"

definition isAllowed_tag_tag ::
  "granted_store \<Rightarrow> heap \<Rightarrow> user option \<Rightarrow> tag \<Rightarrow> tag_privilege \<Rightarrow> timestamp \<Rightarrow> privilege_value option" where
  "isAllowed_tag_tag s h u t privilege now =
     (let (positive, negative) =
            calculateForumWidePrivilege s u now (calculateDiscussionTagPrivilege s u t now (None, None))
      in isAllowed_values positive negative (tag_getDiscussionTagPrivilege h t privilege))"

text \<open>
  A category also takes the grants of all its ancestors. The loop follows the parent pointers;
  \<open>None\<close> is a loop that does not end, which happens exactly when they form a cycle.
\<close>

partial_function (option) calculate_category_parents ::
  "granted_store \<Rightarrow> heap \<Rightarrow> user option \<Rightarrow> timestamp \<Rightarrow> ptr option \<Rightarrow> pos_neg \<Rightarrow> pos_neg option" where
  "calculate_category_parents s h u now parent pn =
     (case parent of
        None \<Rightarrow> Some pn
      | Some p \<Rightarrow> calculate_category_parents s h u now (cat_parent (h_category h p))
                    (calculateDiscussionCategoryPrivilege s u (h_category h p) now pn))"

definition isAllowed_category ::
  "granted_store \<Rightarrow> heap \<Rightarrow> user option \<Rightarrow> category \<Rightarrow> category_privilege \<Rightarrow> timestamp
    \<Rightarrow> privilege_value option option" where
  "isAllowed_category s h u c privilege now =
     (case calculate_category_parents s h u now (cat_parent c)
             (calculateDiscussionCategoryPrivilege s u c now (None, None)) of
        None \<Rightarrow> None
      | Some pn \<Rightarrow>
          (let (positive, negative) = calculateForumWidePrivilege s u now pn
           in Some (isAllowed_values positive negative (category_getDiscussionCategoryPrivilege h c privilege))))"

definition isAllowed_fw_msg ::
  "granted_store \<Rightarrow> forum_wide_store \<Rightarrow> user option \<Rightarrow> msg_privilege \<Rightarrow> timestamp \<Rightarrow> privilege_value option" where
  "isAllowed_fw_msg s fw u privilege now =
     (let (positive, negative) = calculateForumWidePrivilege s u now (None, None)
      in isAllowed_values positive negative (store_getDiscussionThreadMessagePrivilege fw privilege))"

definition isAllowed_fw_thr ::
  "granted_store \<Rightarrow> forum_wide_store \<Rightarrow> user option \<Rightarrow> thread_privilege \<Rightarrow> timestamp \<Rightarrow> privilege_value option" where
  "isAllowed_fw_thr s fw u privilege now =
     (let (positive, negative) = calculateForumWidePrivilege s u now (None, None)
      in isAllowed_values positive negative (store_getDiscussionThreadPrivilege fw privilege))"

definition isAllowed_fw_tag ::
  "granted_store \<Rightarrow> forum_wide_store \<Rightarrow> user option \<Rightarrow> tag_privilege \<Rightarrow> timestamp \<Rightarrow> privilege_value option" where
  "isAllowed_fw_tag s fw u privilege now =
     (let (positive, negative) = calculateForumWidePrivilege s u now (None, None)
      in isAllowed_values positive negative (store_getDiscussionTagPrivilege fw privilege))"

definition isAllowed_fw_cat ::
  "granted_store \<Rightarrow> forum_wide_store \<Rightarrow> user option \<Rightarrow> category_privilege \<Rightarrow> timestamp \<Rightarrow> privilege_value option" where
  "isAllowed_fw_cat s fw u privilege now =
     (let (positive, negative) = calculateForumWidePrivilege s u now (None, None)
      in isAllowed_values positive negative (store_getDiscussionCategoryPrivilege (fw_category_store fw) privilege))"

definition isAllowed_fw ::
  "granted_store \<Rightarrow> forum_wide_store \<Rightarrow> user option \<Rightarrow> forum_wide_privilege \<Rightarrow> timestamp \<Rightarrow> privilege_value option" where
  "isAllowed_fw s fw u privilege now =
     (let (positive, negative) = calculateForumWidePrivilege s u now (None, None)
      in isAllowed_values positive negative (getForumWidePrivilege fw privilege))"

subsection \<open>Visibility of the messages of a thread, in one pass\<close>

record message_privilege_check =
  mpc_user :: "user option"
  mpc_message :: message
  allowedToShowMessage :: bool
  allowedToShowUser :: bool
  allowedToShowVotes :: bool
  allowedToShowIpAddress :: bool
  allowedToViewComments :: bool

definition DiscussionThreadMessagePrivilegeCheck :: "user option \<Rightarrow> message \<Rightarrow> message_privilege_check" where
  "DiscussionThreadMessagePrivilegeCheck u m =
     \<lparr>mpc_user = u, mpc_message = m, allowedToShowMessage = False, allowedToShowUser = False,
      allowedToShowVotes = False, allowedToShowIpAddress = False, allowedToViewComments = False\<rparr>"

text \<open>
  The thread's values are computed once, from the user and the parent thread of the first item.
  The source's array of pointers to the five result flags is the five fields.
\<close>

definition computeDiscussionThreadMessageVisibilityAllowed ::
  "granted_store \<Rightarrow> heap \<Rightarrow> message_privilege_check list \<Rightarrow> timestamp \<Rightarrow> message_privilege_check list" where
  "computeDiscussionThreadMessageVisibilityAllowed s h items now =
     (case items of
        [] \<Rightarrow> items
      | first # _ \<Rightarrow>
          (let t = h_thread h (msg_parentThread (mpc_message first));
               (threadLevelPositive, threadLevelNegative) =
                 calculateDiscussionThreadMessagePrivilege_thread s h (mpc_user first) t now (None, None);
               required = thread_getDiscussionThreadMessagePrivilege h t
           in map (\<lambda>item.
                let (messageLevelPositive, messageLevelNegative) =
                      calculateDiscussionThreadMessagePrivilege_message s (mpc_user item) (mpc_message item) now (None, None);
                    positive = maximumPrivilegeValue_oo messageLevelPositive threadLevelPositive;
                    negative = minimumPrivilegeValue_oo messageLevelNegative threadLevelNegative;
                    allowed = (\<lambda>p. isAllowed_values positive negative
                      (message_getDiscussionThreadMessagePrivilege_level (mpc_message item) p (required p)) \<noteq> None)
                in item\<lparr>allowedToShowMessage := allowed MSG_VIEW,
                        allowedToShowUser := allowed MSG_VIEW_CREATOR_USER,
                        allowedToShowVotes := allowed MSG_VIEW_VOTES,
                        allowedToShowIpAddress := allowed MSG_VIEW_IP_ADDRESS,
                        allowedToViewComments := allowed MSG_GET_MESSAGE_COMMENTS\<rparr>) items))"

subsection \<open>Enumerating assigned privileges\<close>

text \<open>The callbacks get the other id, the value, and the two times of each entry.\<close>

definition enumerate_entity :: "id_type \<Rightarrow> privilege_entry list \<Rightarrow> (id_type \<times> privilege_value \<times> timestamp \<times> timestamp) list" where
  "enumerate_entity eid es =
     map (\<lambda>e. (pe_userId e, pe_privilegeValue e, pe_grantedAt e, pe_expiresAt e))
         (filter (\<lambda>e. pe_entityId e = eid) es)"

definition enumerate_user :: "id_type \<Rightarrow> privilege_entry list \<Rightarrow> (id_type \<times> privilege_value \<times> timestamp \<times> timestamp) list" where
  "enumerate_user uid es =
     map (\<lambda>e. (pe_entityId e, pe_privilegeValue e, pe_grantedAt e, pe_expiresAt e))
         (filter (\<lambda>e. pe_userId e = uid) es)"

definition enumerateDiscussionThreadMessagePrivileges where
  "enumerateDiscussionThreadMessagePrivileges s eid = enumerate_entity eid (discussionThreadMessageSpecificPrivileges s)"

definition enumerateDiscussionThreadPrivileges where
  "enumerateDiscussionThreadPrivileges s eid = enumerate_entity eid (discussionThreadSpecificPrivileges s)"

definition enumerateDiscussionTagPrivileges where
  "enumerateDiscussionTagPrivileges s eid = enumerate_entity eid (discussionTagSpecificPrivileges s)"

definition enumerateDiscussionCategoryPrivileges where
  "enumerateDiscussionCategoryPrivileges s eid = enumerate_entity eid (discussionCategorySpecificPrivileges s)"

definition enumerateForumWidePrivileges where
  "enumerateForumWidePrivileges s (eid :: id_type) = enumerate_entity 0 (forumWideSpecificPrivileges s)"

definition enumerateDiscussionThreadMessagePrivilegesAssignedToUser where
  "enumerateDiscussionThreadMessagePrivilegesAssignedToUser s uid = enumerate_user uid (discussionThreadMessageSpecificPrivileges s)"

definition enumerateDiscussionThreadPrivilegesAssignedToUser where
  "enumerateDiscussionThreadPrivilegesAssignedToUser s uid = enumerate_user uid (discussionThreadSpecificPrivileges s)"

definition enumerateDiscussionTagPrivilegesAssignedToUser where
  "enumerateDiscussionTagPrivilegesAssignedToUser s uid = enumerate_user uid (discussionTagSpecificPrivileges s)"

definition enumerateDiscussionCategoryPrivilegesAssignedToUser where
  "enumerateDiscussionCategoryPrivilegesAssignedToUser s uid = enumerate_user uid (discussionCategorySpecificPrivileges s)"

definition enumerateForumWidePrivilegesAssignedToUser where
  "enumerateForumWidePrivilegesAssignedToUser s uid = enumerate_user uid (forumWideSpecificPrivileges s)"

end
