(* ===== verification/GrantedLemmas.thy ===== *)
theory GrantedLemmas
  imports GrantedPrivileges
begin

section \<open>What the privilege store decides\<close>

text \<open>
  The specification of the decisions of the granted privilege store: a level is a container of
  grants with the id of the entity it is asked about; the values a user holds are the unexpired
  grants at any level of the entity's hierarchy; the effective value is the largest positive value
  (or the default of a logged in user) plus the smallest negative one. The lemmas show that every
  \<open>isAllowed\<close> overload computes it, and derive isolation between users, independence of the
  container's order, absence of 16-bit overflow, and the agreement of the one-pass visibility
  computation with the single decisions.
\<close>

subsection \<open>Specification\<close>

type_synonym level = "privilege_entry list \<times> id_type"

definition active_values :: "timestamp \<Rightarrow> id_type \<Rightarrow> level \<Rightarrow> privilege_value list" where
  "active_values now uid = (\<lambda>(es, eid).
     map pe_privilegeValue (filter (\<lambda>e. \<not> entry_expired now e) (equal_range_user_entity uid eid es)))"

definition held_values :: "timestamp \<Rightarrow> id_type \<Rightarrow> level list \<Rightarrow> privilege_value set" where
  "held_values now uid levels = (\<Union>l\<in>set levels. set (active_values now uid l))"

definition effective :: "granted_store \<Rightarrow> user option \<Rightarrow> timestamp \<Rightarrow> level list \<Rightarrow> privilege_value" where
  "effective s u now levels =
     (if isAnonymousUser u then 0
      else let vs = held_values now (usr_id (the u)) levels
           in int16 (Max (insert (defaultPositiveValue s (the u)) {v \<in> vs. v > 0})
                     + Min (insert 0 {v \<in> vs. v \<le> 0})))"

definition decide :: "privilege_value \<Rightarrow> privilege_value option \<Rightarrow> privilege_value option" where
  "decide value required = (if value \<ge> optionalOrZero required then Some value else None)"

definition fw_level :: "granted_store \<Rightarrow> level" where
  "fw_level s = (forumWideSpecificPrivileges s, 0)"

definition tag_level :: "granted_store \<Rightarrow> tag \<Rightarrow> level" where
  "tag_level s t = (discussionTagSpecificPrivileges s, tag_id t)"

definition thread_levels :: "granted_store \<Rightarrow> heap \<Rightarrow> thread \<Rightarrow> level list" where
  "thread_levels s h t = (discussionThreadSpecificPrivileges s, thr_id t)
     # map (\<lambda>g. tag_level s (h_tag h g)) (thr_tags t) @ [fw_level s]"

definition message_levels :: "granted_store \<Rightarrow> heap \<Rightarrow> message \<Rightarrow> level list" where
  "message_levels s h m = (discussionThreadMessageSpecificPrivileges s, msg_id m)
     # thread_levels s h (h_thread h (msg_parentThread m))"

subsection \<open>Accumulating values\<close>

definition apply_value :: "privilege_value \<Rightarrow> pos_neg \<Rightarrow> pos_neg" where
  "apply_value v = (\<lambda>(p, n).
     if v > 0 then (maximumPrivilegeValue_oo p (Some v), n) else (p, minimumPrivilegeValue_oo n (Some v)))"

definition calc_levels :: "granted_store \<Rightarrow> user option \<Rightarrow> timestamp \<Rightarrow> level list \<Rightarrow> pos_neg \<Rightarrow> pos_neg" where
  "calc_levels s u now levels = fold (\<lambda>(es, eid). calculatePrivilege s es u eid now) levels"

lemma apply_value_commute: "apply_value v (apply_value w pn) = apply_value w (apply_value v pn)"
  by (cases pn) (auto simp: apply_value_def maximumPrivilegeValue_oo_ac minimumPrivilegeValue_oo_ac
      max.commute min.commute)

lemma fold_apply_entry:
  "fold (apply_entry now) es pn =
   fold apply_value (map pe_privilegeValue (filter (\<lambda>e. \<not> entry_expired now e) es)) pn"
  by (induction es arbitrary: pn) (auto simp: apply_entry_def apply_value_def split: prod.splits)

lemma fold_apply_entry_range:
  "fold (apply_entry now) (equal_range_user_entity uid eid es) pn =
   fold apply_value (active_values now uid (es, eid)) pn"
  by (simp add: active_values_def fold_apply_entry)

lemma fold_apply_value:
  "fold apply_value vs (Some d, n) =
     (Some (Max (insert d {v \<in> set vs. v > 0})),
      let ns = {v \<in> set vs. v \<le> 0} \<union> set_option n in if ns = {} then None else Some (Min ns))"
proof (induction vs arbitrary: d n)
  case Nil
  then show ?case by (cases n) auto
next
  case (Cons v vs)
  show ?case
  proof (cases "v > 0")
    case True
    have "{w \<in> set (v # vs). w > 0} = insert v {w \<in> set vs. w > 0}" using True by auto
    moreover have "{w \<in> set (v # vs). w \<le> 0} = {w \<in> set vs. w \<le> 0}" using True by auto
    moreover have "Max (insert (max d v) A) = Max (insert d (insert v A))" if "finite A" for A
      using that by (cases "A = {}") (simp_all add: max.assoc)
    ultimately show ?thesis using Cons.IH True by (simp add: apply_value_def)
  next
    case False
    have pos: "{w \<in> set (v # vs). w > 0} = {w \<in> set vs. w > 0}" using False by auto
    have neg: "{w \<in> set (v # vs). w \<le> 0} = insert v {w \<in> set vs. w \<le> 0}" using False by auto
    have "Min (insert (min m v) A) = Min (insert m (insert v A))" if "finite A" for A m
      using that by (cases "A = {}") (simp_all add: min.assoc)
    then have "Min (insert (min m v) {w \<in> set vs. w \<le> 0}) = Min (insert m (insert v {w \<in> set vs. w \<le> 0}))" for m
      by simp
    then show ?thesis
      using Cons.IH False unfolding pos neg
      by (cases n) (simp_all add: apply_value_def insert_commute)
  qed
qed

lemma calculatePrivilege_anonymous:
  "isAnonymousUser u \<Longrightarrow> calculatePrivilege s es u eid now (p, n) = (maximumPrivilegeValue_oo p (Some 0), n)"
  by (cases u) (simp_all add: calculatePrivilege_def)

lemma calculatePrivilege_user:
  "\<not> isAnonymousUser (Some v) \<Longrightarrow>
   calculatePrivilege s es (Some v) eid now (p, n) =
   fold apply_value (active_values now (usr_id v) (es, eid))
     (maximumPrivilegeValue_oo p (Some (defaultPositiveValue s v)), n)"
  by (simp add: calculatePrivilege_def fold_apply_entry_range)

lemma calc_levels_anonymous:
  assumes "isAnonymousUser u"
  shows "calc_levels s u now levels (Some 0, n) = (Some 0, n)"
  by (induction levels) (auto simp: calc_levels_def calculatePrivilege_anonymous [OF assms])

lemma fold_apply_value_Some:
  "\<exists>p' n'. fold apply_value vs (Some p, n) = (Some p', n') \<and> p \<le> p'"
  by (simp add: fold_apply_value)

lemma calc_levels_user:
  assumes "\<not> isAnonymousUser (Some v)" "defaultPositiveValue s v \<le> p"
  shows "calc_levels s (Some v) now levels (Some p, n) =
         fold apply_value (concat (map (active_values now (usr_id v)) levels)) (Some p, n)"
  using assms(2)
proof (induction levels arbitrary: p n)
  case (Cons l levels)
  obtain es eid where l: "l = (es, eid)" by force
  obtain p' n' where step: "fold apply_value (active_values now (usr_id v) l) (Some p, n) = (Some p', n')" "p \<le> p'"
    using fold_apply_value_Some by blast
  have "calculatePrivilege s es (Some v) eid now (Some p, n) = (Some p', n')"
    using step(1) Cons.prems by (simp add: calculatePrivilege_user [OF assms(1)] l max_absorb1)
  then show ?case
    using Cons.IH [of p' n'] step Cons.prems l by (simp add: calc_levels_def)
qed (simp add: calc_levels_def)

text \<open>Starting from the empty pair, the first level already contributes the default value.\<close>

lemma calc_levels_start:
  assumes "levels \<noteq> []"
  shows "calc_levels s u now levels (None, None) =
    (if isAnonymousUser u then (Some 0, None)
     else fold apply_value (concat (map (active_values now (usr_id (the u))) levels))
            (Some (defaultPositiveValue s (the u)), None))"
proof -
  obtain es eid levels' where l: "levels = (es, eid) # levels'" using assms by (cases levels) auto
  show ?thesis
  proof (cases "isAnonymousUser u")
    case True
    then show ?thesis
      using calc_levels_anonymous [OF True]
      by (simp add: l calc_levels_def calculatePrivilege_anonymous)
  next
    case False
    then obtain v where v: "u = Some v" by (auto simp: isAnonymousUser_def split: option.splits)
    have "calc_levels s u now levels (None, None) =
          calc_levels s u now levels (Some (defaultPositiveValue s v), None)"
      using False by (simp add: l calc_levels_def v calculatePrivilege_user)
    then show ?thesis
      using False calc_levels_user [of v s "defaultPositiveValue s v"] by (simp add: v)
  qed
qed

subsection \<open>Every overload computes the specification\<close>

lemma set_concat_active: "set (concat (map (active_values now uid) levels)) = held_values now uid levels"
  by (simp add: held_values_def)

lemma finite_held_values [simp]: "finite (held_values now uid levels)"
  by (simp add: held_values_def)

lemma isAllowed_values_decide:
  assumes "levels \<noteq> []" "calc_levels s u now levels (None, None) = (p, n)"
  shows "isAllowed_values p n required = decide (effective s u now levels) required"
proof -
  have eff: "getEffectivePrivilegeValue p n = effective s u now levels"
  proof (cases "isAnonymousUser u")
    case True
    with assms show ?thesis
      by (auto simp: calc_levels_start getEffectivePrivilegeValue_def effective_def in_int16_def)
  next
    case False
    define P where "P = {v \<in> held_values now (usr_id (the u)) levels. v > 0}"
    define N where "N = {v \<in> held_values now (usr_id (the u)) levels. v \<le> 0}"
    have N: "finite N" "\<forall>v\<in>N. v \<le> 0" by (simp_all add: N_def)
    have "Min (insert 0 N) = (if N = {} then 0 else Min N)"
      using N by (auto simp: min_absorb2)
    moreover have "p = Some (Max (insert (defaultPositiveValue s (the u)) P))"
        "n = (if N = {} then None else Some (Min N))"
      using assms(2) False
        fold_apply_value [of "concat (map (active_values now (usr_id (the u))) levels)"
          "defaultPositiveValue s (the u)" None, unfolded set_concat_active, folded P_def N_def]
      by (simp_all add: calc_levels_start [OF assms(1)])
    ultimately show ?thesis
      using False by (simp add: getEffectivePrivilegeValue_def effective_def flip: P_def N_def)
  qed
  then show ?thesis by (simp add: isAllowed_values_def decide_def)
qed

lemma calc_levels_simps [simp]:
  "calc_levels s u now [] pn = pn"
  "calc_levels s u now ((es, eid) # ls) pn = calc_levels s u now ls (calculatePrivilege s es u eid now pn)"
  "calc_levels s u now (ls @ ks) pn = calc_levels s u now ks (calc_levels s u now ls pn)"
  by (simp_all add: calc_levels_def)

lemma calc_levels_tags:
  "calc_levels s u now (map (\<lambda>g. tag_level s (h_tag h g)) gs) pn =
   fold (\<lambda>g. calculateDiscussionTagPrivilege s u (h_tag h g) now) gs pn"
  by (induction gs arbitrary: pn) (simp_all add: tag_level_def calculateDiscussionTagPrivilege_def)

lemma calculate_thread_levels:
  "calculateDiscussionThreadMessagePrivilege_thread s h u t now pn = calc_levels s u now (thread_levels s h t) pn"
  by (simp add: calculateDiscussionThreadMessagePrivilege_thread_def thread_levels_def fw_level_def
      calculateForumWidePrivilege_def calculateDiscussionThreadPrivilege_def calc_levels_tags)

lemma calculate_tag_levels:
  "calculateForumWidePrivilege s u now (calculateDiscussionTagPrivilege s u t now pn) =
   calc_levels s u now [tag_level s t, fw_level s] pn"
  by (simp add: calculateForumWidePrivilege_def calculateDiscussionTagPrivilege_def tag_level_def fw_level_def)

lemma calculate_fw_levels:
  "calculateForumWidePrivilege s u now pn = calc_levels s u now [fw_level s] pn"
  by (simp add: calculateForumWidePrivilege_def fw_level_def)

lemma decide_levels:
  assumes "levels \<noteq> []"
  shows "(case calc_levels s u now levels (None, None) of
            (positive, negative) \<Rightarrow> isAllowed_values positive negative required) =
         decide (effective s u now levels) required"
  using isAllowed_values_decide [OF assms] by (auto split: prod.split)

lemma isAllowed_thread_thr_spec:
  "isAllowed_thread_thr s h u t p now =
   decide (effective s u now (thread_levels s h t)) (thread_getDiscussionThreadPrivilege h t p)"
proof -
  have "isAllowed_thread_thr s h u t p now =
    (case calculateDiscussionThreadMessagePrivilege_thread s h u t now (None, None) of
       (positive, negative) \<Rightarrow> isAllowed_values positive negative (thread_getDiscussionThreadPrivilege h t p))"
    by (simp add: isAllowed_thread_thr_def calculateDiscussionThreadMessagePrivilege_thread_def)
  then show ?thesis
    by (simp only: calculate_thread_levels) (rule decide_levels, simp add: thread_levels_def)
qed

lemma isAllowed_thread_msg_spec:
  "isAllowed_thread_msg s h u t p now =
   decide (effective s u now (thread_levels s h t)) (thread_getDiscussionThreadMessagePrivilege h t p)"
  unfolding isAllowed_thread_msg_def Let_def calculate_thread_levels
  by (rule decide_levels) (simp add: thread_levels_def)

lemma isAllowed_message_msg_spec:
  "isAllowed_message_msg s h u m p now =
   decide (effective s u now (message_levels s h m)) (message_getDiscussionThreadMessagePrivilege h m p)"
proof -
  have "calculateDiscussionThreadMessagePrivilege_thread s h u (h_thread h (msg_parentThread m)) now
      (calculateDiscussionThreadMessagePrivilege_message s u m now (None, None)) =
    calc_levels s u now (message_levels s h m) (None, None)"
    by (simp add: calculate_thread_levels message_levels_def calculateDiscussionThreadMessagePrivilege_message_def)
  then show ?thesis
    unfolding isAllowed_message_msg_def Let_def
    using decide_levels [where levels = "message_levels s h m" and s = s and u = u and now = now] by (simp add: message_levels_def)
qed

lemma isAllowed_tag_spec:
  "isAllowed_tag_msg s h u t pm now =
   decide (effective s u now [tag_level s t, fw_level s]) (tag_getDiscussionThreadMessagePrivilege h t pm)"
  "isAllowed_tag_thr s h u t pt now =
   decide (effective s u now [tag_level s t, fw_level s]) (tag_getDiscussionThreadPrivilege h t pt)"
  "isAllowed_tag_tag s h u t pg now =
   decide (effective s u now [tag_level s t, fw_level s]) (tag_getDiscussionTagPrivilege h t pg)"
  unfolding isAllowed_tag_msg_def isAllowed_tag_thr_def isAllowed_tag_tag_def Let_def calculate_tag_levels
  by (simp_all only: decide_levels list.distinct not_False_eq_True)

lemma isAllowed_fw_spec:
  "isAllowed_fw s fw u pf now =
   decide (effective s u now [fw_level s]) (getForumWidePrivilege fw pf)"
  "isAllowed_fw_msg s fw u pm now =
   decide (effective s u now [fw_level s]) (store_getDiscussionThreadMessagePrivilege fw pm)"
  "isAllowed_fw_thr s fw u pt now =
   decide (effective s u now [fw_level s]) (store_getDiscussionThreadPrivilege fw pt)"
  "isAllowed_fw_tag s fw u pg now =
   decide (effective s u now [fw_level s]) (store_getDiscussionTagPrivilege fw pg)"
  "isAllowed_fw_cat s fw u pc now =
   decide (effective s u now [fw_level s]) (store_getDiscussionCategoryPrivilege (fw_category_store fw) pc)"
  unfolding isAllowed_fw_def isAllowed_fw_msg_def isAllowed_fw_thr_def isAllowed_fw_tag_def
    isAllowed_fw_cat_def Let_def calculate_fw_levels
  by (simp_all only: decide_levels list.distinct not_False_eq_True)

subsection \<open>Categories: ancestors and termination\<close>

text \<open>
  \<open>ancestors h fuel p\<close> is the list of categories the parent loop visits from \<open>p\<close> on, if it ends
  within \<open>fuel\<close> steps.
\<close>

fun ancestors :: "heap \<Rightarrow> nat \<Rightarrow> ptr option \<Rightarrow> ptr list option" where
  "ancestors h fuel None = Some []"
| "ancestors h 0 (Some p) = None"
| "ancestors h (Suc fuel) (Some p) = map_option ((#) p) (ancestors h fuel (cat_parent (h_category h p)))"

definition category_level :: "granted_store \<Rightarrow> category \<Rightarrow> level" where
  "category_level s c = (discussionCategorySpecificPrivileges s, cat_id c)"

definition category_levels :: "granted_store \<Rightarrow> heap \<Rightarrow> category \<Rightarrow> ptr list \<Rightarrow> level list" where
  "category_levels s h c ps = category_level s c # map (\<lambda>p. category_level s (h_category h p)) ps @ [fw_level s]"

text \<open>Parent pointers without a cycle: some rank falls along them.\<close>

definition acyclic_parents :: "heap \<Rightarrow> (ptr \<Rightarrow> nat) \<Rightarrow> bool" where
  "acyclic_parents h rank \<longleftrightarrow> (\<forall>p q. cat_parent (h_category h p) = Some q \<longrightarrow> rank q < rank p)"

lemma calculate_category_parents_ancestors:
  "ancestors h fuel p = Some ps \<Longrightarrow>
   calculate_category_parents s h u now p pn =
     Some (calc_levels s u now (map (\<lambda>p. category_level s (h_category h p)) ps) pn)"
proof (induction h fuel p arbitrary: ps pn rule: ancestors.induct)
  case (1 h fuel)
  then show ?case by (simp add: calculate_category_parents.simps)
next
  case (3 h fuel p)
  then obtain qs where qs: "ancestors h fuel (cat_parent (h_category h p)) = Some qs" "ps = p # qs"
    by auto
  show ?case
    by (subst calculate_category_parents.simps)
      (simp add: "3.IH" [OF qs(1)] qs(2) category_level_def calculateDiscussionCategoryPrivilege_def)
qed simp

lemma ancestors_rank:
  assumes "acyclic_parents h rank" "case p of None \<Rightarrow> True | Some q \<Rightarrow> rank q < fuel"
  shows "\<exists>ps. ancestors h fuel p = Some ps"
  using assms(2)
proof (induction fuel arbitrary: p)
  case 0
  then show ?case by (cases p) auto
next
  case (Suc fuel)
  show ?case
  proof (cases p)
    case (Some q)
    have "case cat_parent (h_category h q) of None \<Rightarrow> True | Some r \<Rightarrow> rank r < fuel"
    proof (cases "cat_parent (h_category h q)")
      case (Some r)
      then have "rank r < rank q" using assms(1) by (simp add: acyclic_parents_def)
      with Some Suc.prems \<open>p = Some q\<close> show ?thesis by simp
    qed simp
    from Suc.IH [OF this] show ?thesis using Some by auto
  qed simp
qed

lemma isAllowed_category_spec:
  assumes "ancestors h fuel (cat_parent c) = Some ps"
  shows "isAllowed_category s h u c p now =
    Some (decide (effective s u now (category_levels s h c ps)) (category_getDiscussionCategoryPrivilege h c p))"
proof -
  have "calc_levels s u now (category_levels s h c ps) (None, None) =
    calculateForumWidePrivilege s u now
      (calc_levels s u now (map (\<lambda>p. category_level s (h_category h p)) ps)
        (calculateDiscussionCategoryPrivilege s u c now (None, None)))"
    by (simp add: category_levels_def calculate_fw_levels fw_level_def category_level_def
        calculateDiscussionCategoryPrivilege_def)
  then show ?thesis
    using decide_levels [where levels = "category_levels s h c ps" and s = s and u = u and now = now]
    by (simp add: isAllowed_category_def calculate_category_parents_ancestors [OF assms]
        category_levels_def case_prod_beta)
qed

lemma calculate_category_parents_cycle:
  assumes closed: "\<And>p. p \<in> C \<Longrightarrow> \<exists>q\<in>C. cat_parent (h_category h p) = Some q" and "p \<in> C"
  shows "calculate_category_parents s h u now (Some p) pn = None"
proof (cases "calculate_category_parents s h u now (Some p) pn")
  case (Some r)
  have "h = h \<longrightarrow> (\<forall>q. Some p = Some q \<longrightarrow> q \<notin> C)"
  proof (rule calculate_category_parents.raw_induct
      [where P = "\<lambda>s h' u now parent pn r. h' = h \<longrightarrow> (\<forall>q. parent = Some q \<longrightarrow> q \<notin> C)", OF _ Some])
    fix f s h' u now parent pn r
    assume IH: "\<And>s h' u now parent pn r. f s h' u now parent pn = Some r \<Longrightarrow>
        h' = h \<longrightarrow> (\<forall>q. parent = Some q \<longrightarrow> q \<notin> C)"
      and eq: "(case parent of None \<Rightarrow> Some pn
        | Some p \<Rightarrow> f s h' u now (cat_parent (h_category h' p))
            (calculateDiscussionCategoryPrivilege s u (h_category h' p) now pn)) = Some r"
    show "h' = h \<longrightarrow> (\<forall>q. parent = Some q \<longrightarrow> q \<notin> C)"
    proof (intro impI allI notI)
      fix q assume q: "h' = h" "parent = Some q" "q \<in> C"
      then obtain q' where "q' \<in> C" "cat_parent (h_category h q) = Some q'" using closed by blast
      with q eq IH show False by fastforce
    qed
  qed
  with assms(2) show ?thesis by simp
qed

subsection \<open>Decisions depend only on the user's own grants, as a set\<close>

definition grants_of :: "id_type \<Rightarrow> privilege_entry list \<Rightarrow> privilege_entry set" where
  "grants_of uid es = {e \<in> set es. pe_userId e = uid}"

definition same_grants :: "id_type \<Rightarrow> granted_store \<Rightarrow> granted_store \<Rightarrow> bool" where
  "same_grants uid s s' \<longleftrightarrow>
     grants_of uid (discussionThreadMessageSpecificPrivileges s) = grants_of uid (discussionThreadMessageSpecificPrivileges s') \<and>
     grants_of uid (discussionThreadSpecificPrivileges s) = grants_of uid (discussionThreadSpecificPrivileges s') \<and>
     grants_of uid (discussionTagSpecificPrivileges s) = grants_of uid (discussionTagSpecificPrivileges s') \<and>
     grants_of uid (discussionCategorySpecificPrivileges s) = grants_of uid (discussionCategorySpecificPrivileges s') \<and>
     grants_of uid (forumWideSpecificPrivileges s) = grants_of uid (forumWideSpecificPrivileges s') \<and>
     defaultPrivilegeValueForLoggedInUser s = defaultPrivilegeValueForLoggedInUser s' \<and>
     messageCountMultiplierPrivilegeBonus s = messageCountMultiplierPrivilegeBonus s' \<and>
     maxMessageCountPrivilegeBonus s = maxMessageCountPrivilegeBonus s'"

lemma set_active_values:
  "set (active_values now uid (es, eid)) =
   pe_privilegeValue ` {e \<in> grants_of uid es. pe_entityId e = eid \<and> \<not> entry_expired now e}"
  by (auto simp: active_values_def equal_range_user_entity_def grants_of_def)

lemma effective_cong:
  assumes "same_grants uid s s'" "\<And>v. u = Some v \<Longrightarrow> usr_id v = uid"
    and "list_all2 (\<lambda>(es, eid) (es', eid'). eid = eid' \<and> grants_of uid es = grants_of uid es') ls ls'"
  shows "effective s u now ls = effective s' u now ls'"
proof (cases "isAnonymousUser u")
  case False
  then obtain v where v: "u = Some v" by (auto simp: isAnonymousUser_def split: option.splits)
  have "held_values now uid ls = held_values now uid ls'"
    using assms(3) by (induction rule: list_all2_induct) (auto simp: held_values_def set_active_values)
  moreover have "defaultPositiveValue s v = defaultPositiveValue s' v"
    using assms(1) by (simp add: same_grants_def defaultPositiveValue_def)
  ultimately show ?thesis using False v assms(2) by (simp add: effective_def)
qed (simp add: effective_def)

lemma same_grants_tags:
  "same_grants uid s s' \<Longrightarrow>
   list_all2 (\<lambda>(es, eid) (es', eid'). eid = eid' \<and> grants_of uid es = grants_of uid es')
     (map (\<lambda>g. tag_level s (h_tag h g)) gs) (map (\<lambda>g. tag_level s' (h_tag h g)) gs)"
  by (induction gs) (auto simp: same_grants_def tag_level_def)

lemma same_grants_thread_levels:
  assumes "same_grants uid s s'"
  shows "list_all2 (\<lambda>(es, eid) (es', eid'). eid = eid' \<and> grants_of uid es = grants_of uid es')
     (thread_levels s h t) (thread_levels s' h t)"
  using assms same_grants_tags [OF assms, of h "thr_tags t"]
  by (auto simp: thread_levels_def fw_level_def same_grants_def intro!: list_all2_appendI)

lemma decisions_same_grants:
  assumes same: "same_grants uid s s'" and u: "\<And>v. u = Some v \<Longrightarrow> usr_id v = uid"
  shows "isAllowed_thread_thr s h u t pt now = isAllowed_thread_thr s' h u t pt now"
    and "isAllowed_message_msg s h u m pm now = isAllowed_message_msg s' h u m pm now"
    and "isAllowed_tag_tag s h u g pg now = isAllowed_tag_tag s' h u g pg now"
    and "isAllowed_fw s fw u pf now = isAllowed_fw s' fw u pf now"
proof -
  note cong = effective_cong [OF same u]
  show "isAllowed_thread_thr s h u t pt now = isAllowed_thread_thr s' h u t pt now"
    unfolding isAllowed_thread_thr_spec
    by (simp add: cong [OF _ same_grants_thread_levels [OF same]])
  have "list_all2 (\<lambda>(es, eid) (es', eid'). eid = eid' \<and> grants_of uid es = grants_of uid es')
     (message_levels s h m) (message_levels s' h m)"
    using same same_grants_thread_levels [OF same] by (simp add: message_levels_def same_grants_def)
  then show "isAllowed_message_msg s h u m pm now = isAllowed_message_msg s' h u m pm now"
    unfolding isAllowed_message_msg_spec by (simp add: cong)
  have "list_all2 (\<lambda>(es, eid) (es', eid'). eid = eid' \<and> grants_of uid es = grants_of uid es')
     [tag_level s g, fw_level s] [tag_level s' g, fw_level s']"
    using same by (simp add: tag_level_def fw_level_def same_grants_def)
  from cong [OF _ this] show "isAllowed_tag_tag s h u g pg now = isAllowed_tag_tag s' h u g pg now"
    unfolding isAllowed_tag_spec by simp
  have "list_all2 (\<lambda>(es, eid) (es', eid'). eid = eid' \<and> grants_of uid es = grants_of uid es')
     [fw_level s] [fw_level s']"
    using same by (simp add: fw_level_def same_grants_def)
  from cong [OF _ this] show "isAllowed_fw s fw u pf now = isAllowed_fw s' fw u pf now"
    unfolding isAllowed_fw_spec by simp
qed

lemma grants_of_grant_entry_other:
  "uid \<noteq> uid' \<Longrightarrow> grants_of uid (grant_entry uid' eid v now ex es) = grants_of uid es"
  by (auto simp: grants_of_def grant_entry_def erase_user_entity_def)

lemma same_grants_other [forum_intros]:
  assumes "uid \<noteq> uid'"
  shows "same_grants uid s (grantDiscussionThreadMessagePrivilege uid' eid v now ex s)"
    and "same_grants uid s (grantDiscussionThreadPrivilege uid' eid v now ex s)"
    and "same_grants uid s (grantDiscussionTagPrivilege uid' eid v now ex s)"
    and "same_grants uid s (grantDiscussionCategoryPrivilege uid' eid v now ex s)"
    and "same_grants uid s (grantForumWidePrivilege uid' eid v now ex s)"
  using assms by (simp_all add: same_grants_def grantDiscussionThreadMessagePrivilege_def
    grantDiscussionThreadPrivilege_def grantDiscussionTagPrivilege_def
    grantDiscussionCategoryPrivilege_def grantForumWidePrivilege_def grants_of_grant_entry_other)

lemma grant_entry_revokes: "grant_entry uid eid 0 now ex (grant_entry uid eid v now' ex' es) = grant_entry uid eid 0 now ex es"
  by (simp add: grant_entry_def erase_user_entity_def)

subsection \<open>No 16-bit overflow for a non-negative default\<close>

definition store_in_range :: "granted_store \<Rightarrow> bool" where
  "store_in_range s \<longleftrightarrow>
     (\<forall>es\<in>{discussionThreadMessageSpecificPrivileges s, discussionThreadSpecificPrivileges s,
           discussionTagSpecificPrivileges s, discussionCategorySpecificPrivileges s,
           forumWideSpecificPrivileges s}. \<forall>e\<in>set es. in_int16 (pe_privilegeValue e))"

lemma effective_exact:
  assumes range: "\<forall>(es, eid)\<in>set ls. \<forall>e\<in>set es. in_int16 (pe_privilegeValue e)"
    and "0 \<le> defaultPositiveValue s v" "\<not> isAnonymousUser (Some v)"
  shows "effective s (Some v) now ls =
    Max (insert (defaultPositiveValue s v) {w \<in> held_values now (usr_id v) ls. w > 0})
    + Min (insert 0 {w \<in> held_values now (usr_id v) ls. w \<le> 0})"
proof -
  define vs where "vs = held_values now (usr_id v) ls"
  define P where "P = {w \<in> vs. w > 0}"
  define N where "N = {w \<in> vs. w \<le> 0}"
  have vs: "in_int16 w" if "w \<in> vs" for w
  proof -
    from that obtain es eid where "(es, eid) \<in> set ls" "w \<in> set (active_values now (usr_id v) (es, eid))"
      unfolding vs_def held_values_def by auto
    with range show ?thesis by (fastforce simp: set_active_values grants_of_def)
  qed
  have fin: "finite P" "finite N" by (simp_all add: P_def N_def vs_def)
  have d: "in_int16 (defaultPositiveValue s v)" by (simp add: defaultPositiveValue_def)
  have "Max (insert (defaultPositiveValue s v) P) \<in> insert (defaultPositiveValue s v) P"
    "Min (insert 0 N) \<in> insert 0 N"
    using fin by (simp_all only: Max_in Min_in finite_insert insert_not_empty not_False_eq_True)
  then have "0 \<le> Max (insert (defaultPositiveValue s v) P)" "Max (insert (defaultPositiveValue s v) P) < 32768"
    "-32768 \<le> Min (insert 0 N)" "Min (insert 0 N) \<le> 0"
    using vs d assms(2) unfolding P_def N_def in_int16_def by auto
  then have "in_int16 (Max (insert (defaultPositiveValue s v) P) + Min (insert 0 N))"
    by (simp add: in_int16_def)
  then show ?thesis using assms(3) by (simp add: effective_def flip: vs_def P_def N_def)
qed

subsection \<open>Anonymous users\<close>

lemma effective_anonymous: "isAnonymousUser u \<Longrightarrow> effective s u now ls = 0"
  by (simp add: effective_def)

subsection \<open>The one-pass visibility computation\<close>

lemma calc_levels_join:
  assumes "a = calc_levels s u now [l] (None, None)" "b = calc_levels s u now ls (None, None)" "ls \<noteq> []"
  shows "(maximumPrivilegeValue_oo (fst a) (fst b), minimumPrivilegeValue_oo (snd a) (snd b)) =
         calc_levels s u now (l # ls) (None, None)"
proof (cases "isAnonymousUser u")
  case True
  then show ?thesis using assms by (simp add: calc_levels_start)
next
  case False
  let ?d = "Some (defaultPositiveValue s (the u))"
  let ?f = "\<lambda>vs pn. fold apply_value vs pn"
  have join: "(maximumPrivilegeValue_oo (fst pn) (fst qn), minimumPrivilegeValue_oo (snd pn) (snd qn)) = ?f vs pn"
    if "qn = ?f vs (?d, None)" "maximumPrivilegeValue_oo (fst pn) ?d = fst pn" for vs pn qn
    using that
  proof (induction vs arbitrary: qn rule: rev_induct)
    case Nil
    then show ?case by (cases pn) simp
  next
    case (snoc v vs)
    define qn' where "qn' = ?f vs (?d, None)"
    have IH: "(maximumPrivilegeValue_oo (fst pn) (fst qn'), minimumPrivilegeValue_oo (snd pn) (snd qn')) = ?f vs pn"
      by (rule snoc.IH [OF qn'_def snoc.prems(2)])
    have qn: "qn = apply_value v qn'" using snoc.prems(1) by (simp add: qn'_def)
    have "?f (vs @ [v]) pn = apply_value v (?f vs pn)" by simp
    also have "\<dots> = apply_value v
        (maximumPrivilegeValue_oo (fst pn) (fst qn'), minimumPrivilegeValue_oo (snd pn) (snd qn'))"
      by (simp only: IH)
    also have "\<dots> = (maximumPrivilegeValue_oo (fst pn) (fst qn), minimumPrivilegeValue_oo (snd pn) (snd qn))"
      by (cases qn') (simp add: qn apply_value_def maximumPrivilegeValue_oo_ac minimumPrivilegeValue_oo_ac)
    finally show ?case by simp
  qed
  obtain p n where a: "a = (Some p, n)" "defaultPositiveValue s (the u) \<le> p"
    using False assms(1) fold_apply_value_Some [of "active_values now (usr_id (the u)) l" "defaultPositiveValue s (the u)" None]
    by (auto simp: calc_levels_start)
  have "(maximumPrivilegeValue_oo (fst a) (fst b), minimumPrivilegeValue_oo (snd a) (snd b)) =
        ?f (concat (map (active_values now (usr_id (the u))) ls)) a"
    by (rule join) (use False assms(2,3) a in \<open>simp_all add: calc_levels_start max_absorb1\<close>)
  then show ?thesis using False assms(1,3) by (simp add: calc_levels_start)
qed

text \<open>
  The level values of a message and of its thread, joined, are those the single decision computes.
\<close>

lemma visibility_levels:
  assumes "a = calculateDiscussionThreadMessagePrivilege_message s u m now (None, None)"
    and "b = calculateDiscussionThreadMessagePrivilege_thread s h u (h_thread h (msg_parentThread m)) now (None, None)"
  shows "isAllowed_values (maximumPrivilegeValue_oo (fst a) (fst b)) (minimumPrivilegeValue_oo (snd a) (snd b))
      (message_getDiscussionThreadMessagePrivilege h m p) = isAllowed_message_msg s h u m p now"
proof -
  let ?l = "(discussionThreadMessageSpecificPrivileges s, msg_id m)"
  let ?t = "h_thread h (msg_parentThread m)"
  have "a = calc_levels s u now [?l] (None, None)"
    "b = calc_levels s u now (thread_levels s h ?t) (None, None)"
    using assms by (simp_all add: calculate_thread_levels calculateDiscussionThreadMessagePrivilege_message_def)
  from calc_levels_join [OF this]
  have join: "calc_levels s u now (message_levels s h m) (None, None) =
      (maximumPrivilegeValue_oo (fst a) (fst b), minimumPrivilegeValue_oo (snd a) (snd b))"
    by (simp add: message_levels_def thread_levels_def)
  have "message_levels s h m \<noteq> []" by (simp add: message_levels_def)
  from isAllowed_values_decide [OF this join] show ?thesis
    by (simp add: isAllowed_message_msg_spec)
qed

definition visibility_of :: "granted_store \<Rightarrow> heap \<Rightarrow> timestamp \<Rightarrow> message_privilege_check \<Rightarrow> message_privilege_check" where
  "visibility_of s h now item =
     (let allowed = (\<lambda>p. isAllowed_message_msg s h (mpc_user item) (mpc_message item) p now \<noteq> None)
      in item\<lparr>allowedToShowMessage := allowed MSG_VIEW,
              allowedToShowUser := allowed MSG_VIEW_CREATOR_USER,
              allowedToShowVotes := allowed MSG_VIEW_VOTES,
              allowedToShowIpAddress := allowed MSG_VIEW_IP_ADDRESS,
              allowedToViewComments := allowed MSG_GET_MESSAGE_COMMENTS\<rparr>)"

lemma visibility_batch:
  assumes "\<And>i. i \<in> set items \<Longrightarrow> mpc_user i = u \<and> msg_parentThread (mpc_message i) = t"
  shows "computeDiscussionThreadMessageVisibilityAllowed s h items now = map (visibility_of s h now) items"
proof (cases items)
  case (Cons first rest)
  define b where "b = calculateDiscussionThreadMessagePrivilege_thread s h u (h_thread h t) now (None, None)"
  have first: "mpc_user first = u" "msg_parentThread (mpc_message first) = t"
    using assms Cons by auto
  have one: "isAllowed_values (maximumPrivilegeValue_oo (fst a) (fst b)) (minimumPrivilegeValue_oo (snd a) (snd b))
        (message_getDiscussionThreadMessagePrivilege_level (mpc_message i) p
          (thread_getDiscussionThreadMessagePrivilege h (h_thread h t) p)) =
      isAllowed_message_msg s h (mpc_user i) (mpc_message i) p now"
    if "i \<in> set items"
      "a = calculateDiscussionThreadMessagePrivilege_message s (mpc_user i) (mpc_message i) now (None, None)" for i a p
    using visibility_levels [OF that(2), of b h p] assms [OF that(1)]
      message_privilege_level_eq [of "mpc_message i" p h]
    by (simp add: b_def)
  show ?thesis
    unfolding computeDiscussionThreadMessageVisibilityAllowed_def Cons list.case first Let_def
      b_def [symmetric] case_prod_beta
    unfolding Cons [symmetric]
    by (rule map_cong [OF refl]) (simp add: visibility_of_def Let_def one)
qed (simp add: computeDiscussionThreadMessageVisibilityAllowed_def)

end
