(* ===== verification/Restriction.thy ===== *)
theory Restriction
  imports GrantedLemmas
begin

section \<open>What a user may see\<close>

text \<open>
  Models \<open>SerializationRestriction\<close> of \<^verbatim>\<open>src/src/LibForumData/AuthorizationGrantedPrivilegeStore.h\<close>:
  the decisions taken, while a reply is written, for the user the reply is for. The attachment is
  passed by value; users are reached through the heap.
\<close>

record restriction =
  sr_store :: granted_store
  sr_forumWide :: forum_wide_store
  sr_user :: "user option"
  sr_now :: timestamp

definition sr_userId :: "restriction \<Rightarrow> id_type" where
  "sr_userId r = (case sr_user r of Some u \<Rightarrow> usr_id u | None \<Rightarrow> 0)"

definition sr_isAllowed_message :: "restriction \<Rightarrow> heap \<Rightarrow> message \<Rightarrow> msg_privilege \<Rightarrow> bool" where
  "sr_isAllowed_message r h m p \<longleftrightarrow> isAllowed_message_msg (sr_store r) h (sr_user r) m p (sr_now r) \<noteq> None"

definition sr_isAllowed_thread :: "restriction \<Rightarrow> heap \<Rightarrow> thread \<Rightarrow> thread_privilege \<Rightarrow> bool" where
  "sr_isAllowed_thread r h t p \<longleftrightarrow> isAllowed_thread_thr (sr_store r) h (sr_user r) t p (sr_now r) \<noteq> None"

definition sr_isAllowed_tag :: "restriction \<Rightarrow> heap \<Rightarrow> tag \<Rightarrow> tag_privilege \<Rightarrow> bool" where
  "sr_isAllowed_tag r h t p \<longleftrightarrow> isAllowed_tag_tag (sr_store r) h (sr_user r) t p (sr_now r) \<noteq> None"

definition sr_isAllowed_category :: "restriction \<Rightarrow> heap \<Rightarrow> category \<Rightarrow> category_privilege \<Rightarrow> bool option" where
  "sr_isAllowed_category r h c p =
     map_option (\<lambda>result. result \<noteq> None) (isAllowed_category (sr_store r) h (sr_user r) c p (sr_now r))"

definition sr_isAllowed :: "restriction \<Rightarrow> forum_wide_privilege \<Rightarrow> bool" where
  "sr_isAllowed r p \<longleftrightarrow> isAllowed_fw (sr_store r) (sr_forumWide r) (sr_user r) p (sr_now r) \<noteq> None"

definition sr_isAllowedToViewAnyAttachment :: "restriction \<Rightarrow> bool" where
  "sr_isAllowedToViewAnyAttachment r \<longleftrightarrow>
     sr_isAllowed r FW_GET_ALL_ATTACHMENTS \<or> sr_isAllowed r FW_GET_ATTACHMENTS_OF_USER"

definition sr_isAllowedToViewAttachment :: "restriction \<Rightarrow> heap \<Rightarrow> attachment \<Rightarrow> message \<Rightarrow> bool" where
  "sr_isAllowedToViewAttachment r h a m \<longleftrightarrow>
     usr_id (h_user h (msg_createdBy m)) = sr_userId r
     \<or> usr_id (h_user h (att_createdBy a)) = sr_userId r
     \<or> att_approved a
     \<or> sr_isAllowed_message r h m MSG_VIEW_UNAPPROVED_ATTACHMENT"

definition sr_isAllowedToViewMessageAttachments :: "restriction \<Rightarrow> heap \<Rightarrow> message \<Rightarrow> bool" where
  "sr_isAllowedToViewMessageAttachments r h m \<longleftrightarrow> sr_isAllowed_message r h m MSG_VIEW_ATTACHMENT"

definition sr_checkMessageAllowViewApproval :: "restriction \<Rightarrow> heap \<Rightarrow> message \<Rightarrow> bool" where
  "sr_checkMessageAllowViewApproval r h m \<longleftrightarrow>
     (if msg_approved m then True
      else usr_id (h_user h (msg_createdBy m)) = sr_userId r \<or> sr_isAllowed_message r h m MSG_VIEW_UNAPPROVED)"

definition sr_checkThreadAllowViewApproval :: "restriction \<Rightarrow> heap \<Rightarrow> thread \<Rightarrow> bool" where
  "sr_checkThreadAllowViewApproval r h t \<longleftrightarrow>
     (if thr_approved t then True
      else usr_id (h_user h (thr_createdBy t)) = sr_userId r \<or> sr_isAllowed_thread r h t THR_VIEW_UNAPPROVED)"

definition sr_isAllowedToViewThread :: "restriction \<Rightarrow> heap \<Rightarrow> thread \<Rightarrow> bool" where
  "sr_isAllowedToViewThread r h t \<longleftrightarrow>
     sr_isAllowed_thread r h t THR_VIEW \<and> sr_checkThreadAllowViewApproval r h t"

definition sr_isAllowedToViewMessage :: "restriction \<Rightarrow> heap \<Rightarrow> message \<Rightarrow> bool" where
  "sr_isAllowedToViewMessage r h m \<longleftrightarrow>
     sr_isAllowed_message r h m MSG_VIEW \<and> sr_checkMessageAllowViewApproval r h m
     \<and> sr_isAllowedToViewThread r h (h_thread h (msg_parentThread m))"

lemmas restriction_defs =
  sr_isAllowedToViewMessage_def sr_isAllowedToViewThread_def sr_checkMessageAllowViewApproval_def
  sr_checkThreadAllowViewApproval_def sr_isAllowed_message_def sr_isAllowed_thread_def

text \<open>
  A user other than the creator sees an unapproved message only with the privilege to view
  unapproved messages, whatever else he holds.
\<close>

lemma unapproved_message_hidden:
  assumes "\<not> msg_approved m" "usr_id (h_user h (msg_createdBy m)) \<noteq> sr_userId r"
    and "\<not> sr_isAllowed_message r h m MSG_VIEW_UNAPPROVED"
  shows "\<not> sr_isAllowedToViewMessage r h m"
  using assms by (simp add: sr_isAllowedToViewMessage_def sr_checkMessageAllowViewApproval_def)

text \<open>Granting another user anything changes nothing in what this user sees.\<close>

lemma view_same_grants:
  assumes "same_grants uid s s'" "\<And>v. sr_user r = Some v \<Longrightarrow> usr_id v = uid" "sr_store r = s"
  shows "sr_isAllowedToViewMessage (r\<lparr>sr_store := s'\<rparr>) h m = sr_isAllowedToViewMessage r h m"
    "sr_isAllowedToViewThread (r\<lparr>sr_store := s'\<rparr>) h t = sr_isAllowedToViewThread r h t"
  using decisions_same_grants(1,2) [OF assms(1,2)] assms(3)
  by (simp_all add: restriction_defs sr_userId_def)

end
