(* ===== verification/Throttling.thy ===== *)
theory Throttling
  imports Privileges
begin

section \<open>Throttling of user actions\<close>

text \<open>
  Models \<^verbatim>\<open>src/src/LibForumData/ThrottlingCheck.h\<close> (a ring of the last \<open>maxAllowed\<close> attempts),
  \<^verbatim>\<open>src/src/LibForumData/IdOrIpAddress.h\<close> (the key of a client) and
  \<^verbatim>\<open>src/src/LibForumData/DefaultThrottling.h\<close> / \<^verbatim>\<open>private/DefaultThrottling.cpp\<close> (five rings per
  client). The locks make every check atomic, so a history is a sequence of checks. In the source
  \<open>ThrottlingCheck::isAllowed\<close> answers whether the attempt is \<^emph>\<open>throttled\<close> (its only caller,
  \<open>DefaultAuthorization::isThrottled\<close>, uses it so); the model keeps the name and the meaning.
\<close>

subsection \<open>The ring of the last attempts\<close>

record throttling_check =
  tc_maxAllowed :: nat
  tc_period :: timestamp
  tc_entries :: "timestamp list option"
  tc_currentIndex :: nat

definition ThrottlingCheck_default :: throttling_check where
  "ThrottlingCheck_default =
     \<lparr>tc_maxAllowed = 0, tc_period = 0, tc_entries = None, tc_currentIndex = 0\<rparr>"

text \<open>The constructor clamps its parameter after the member was initialised with it.\<close>

definition ThrottlingCheck :: "nat \<Rightarrow> timestamp \<Rightarrow> throttling_check" where
  "ThrottlingCheck maxAllowed period =
     \<lparr>tc_maxAllowed = maxAllowed, tc_period = period,
      tc_entries = Some (replicate (max maxAllowed 1) 0), tc_currentIndex = 0\<rparr>"

text \<open>
  The loop \<open>while (currentIndex_ >= maxAllowed_) currentIndex_ -= maxAllowed_\<close>; \<open>None\<close> is a loop
  that does not end.
\<close>

partial_function (option) wrap_index :: "nat \<Rightarrow> nat \<Rightarrow> nat option" where
  "wrap_index i n = (if i \<ge> n then wrap_index (i - n) n else Some i)"

text \<open>\<open>None\<close> is also the access through a null or past the end of \<open>entries_\<close>.\<close>

definition tc_isAllowed :: "throttling_check \<Rightarrow> timestamp \<Rightarrow> (bool \<times> throttling_check) option" where
  "tc_isAllowed c tm =
     (case tc_entries c of
        None \<Rightarrow> None
      | Some es \<Rightarrow>
          if tc_currentIndex c < length es then
            (let result = es ! tc_currentIndex c + tc_period c > tm;
                 es' = es[tc_currentIndex c := tm]
             in case wrap_index ((tc_currentIndex c + 1) mod 2 ^ 16) (tc_maxAllowed c) of
                  None \<Rightarrow> None
                | Some i \<Rightarrow> Some (result, c\<lparr>tc_entries := Some es', tc_currentIndex := i\<rparr>))
          else None)"

fun tc_run :: "throttling_check \<Rightarrow> timestamp list \<Rightarrow> (bool list \<times> throttling_check) option" where
  "tc_run c [] = Some ([], c)"
| "tc_run c (t # ts) =
     (case tc_isAllowed c t of
        None \<Rightarrow> None
      | Some (b, c') \<Rightarrow>
          (case tc_run c' ts of None \<Rightarrow> None | Some (bs, c'') \<Rightarrow> Some (b # bs, c'')))"

subsection \<open>Clients and their checks\<close>

datatype id_or_ip = ById id_type | ByIp "128 word"

definition IdOrIpAddress :: "id_type \<Rightarrow> 128 word \<Rightarrow> id_or_ip" where
  "IdOrIpAddress uid ip = (if uid \<noteq> 0 then ById uid else ByIp ip)"

text \<open>The key comparison of the source: a pair of an id and an address, the absent one empty.\<close>

fun getCompareStructure :: "id_or_ip \<Rightarrow> id_type \<times> 128 word" where
  "getCompareStructure (ById uid) = (uid, 0)"
| "getCompareStructure (ByIp ip) = (0, ip)"

type_synonym user_throttling_checks = "throttling_check list"
type_synonym default_throttling = "id_or_ip \<rightharpoonup> user_throttling_checks"

definition UserThrottlingChecks :: user_throttling_checks where
  "UserThrottlingChecks = map (\<lambda>(maxAllowed, period). ThrottlingCheck maxAllowed period) ThrottlingDefaultValues"

definition dt_check :: "default_throttling \<Rightarrow> UserActionThrottling \<Rightarrow> timestamp \<Rightarrow> id_type \<Rightarrow> 128 word
    \<Rightarrow> (bool \<times> default_throttling) option" where
  "dt_check entries action tm uid ip =
     (let current = IdOrIpAddress uid ip;
          checks = (case entries current of None \<Rightarrow> UserThrottlingChecks | Some cs \<Rightarrow> cs)
      in if throttling_index action < length checks then
           (case tc_isAllowed (checks ! throttling_index action) tm of
              None \<Rightarrow> None
            | Some (b, c) \<Rightarrow> Some (b, entries(current \<mapsto> checks[throttling_index action := c])))
         else None)"

subsection \<open>The specification of a ring\<close>

text \<open>
  A ring of \<open>n\<close> entries and period \<open>p\<close> after the attempts \<open>h\<close> (oldest first): it holds the last
  \<open>n\<close> attempts, the epoch where there were fewer, and the next attempt is throttled exactly when
  the attempt \<open>n\<close> before it is less than \<open>p\<close> seconds old.
\<close>

definition window :: "nat \<Rightarrow> timestamp list \<Rightarrow> timestamp list" where
  "window n h = drop (length h) (replicate n 0 @ h)"

definition throttled_after :: "nat \<Rightarrow> timestamp \<Rightarrow> timestamp list \<Rightarrow> timestamp \<Rightarrow> bool" where
  "throttled_after n p h tm \<longleftrightarrow> (replicate n 0 @ h) ! length h + p > tm"

definition tc_repr :: "nat \<Rightarrow> timestamp \<Rightarrow> timestamp list \<Rightarrow> throttling_check \<Rightarrow> bool" where
  "tc_repr n p h c \<longleftrightarrow> tc_maxAllowed c = n \<and> tc_period c = p \<and> tc_currentIndex c < n \<and> n < 2 ^ 16 \<and>
     (\<exists>es. tc_entries c = Some es \<and> length es = n \<and>
           drop (tc_currentIndex c) es @ take (tc_currentIndex c) es = window n h)"

lemma length_window [simp]: "length (window n h) = n"
  by (simp add: window_def)

lemma window_snoc:
  assumes "0 < n"
  shows "window n (h @ [t]) = tl (window n h) @ [t]"
proof -
  have "window n (h @ [t]) = drop (Suc (length h)) ((replicate n 0 @ h) @ [t])"
    by (simp add: window_def del: drop_append)
  also have "\<dots> = drop (Suc (length h)) (replicate n 0 @ h) @ [t]"
    by (subst drop_append) (use assms in simp)
  also have "\<dots> = tl (window n h) @ [t]"
    by (simp add: window_def drop_Suc tl_drop del: drop_append)
  finally show ?thesis .
qed

lemma hd_window:
  assumes "0 < n"
  shows "hd (window n h) = (replicate n 0 @ h) ! length h"
  unfolding window_def by (rule hd_drop_conv_nth) (use assms in simp)

lemma wrap_index_small: "i < n \<Longrightarrow> wrap_index i n = Some i"
  by (simp add: wrap_index.simps)

lemma wrap_index_end: "0 < n \<Longrightarrow> wrap_index n n = Some 0"
  by (subst wrap_index.simps) (simp add: wrap_index_small)

lemma wrap_index_zero: "wrap_index i 0 = None"
proof (cases "wrap_index i 0")
  case (Some r)
  have "(0::nat) \<noteq> 0"
    by (rule wrap_index.raw_induct [where P = "\<lambda>i n r. n \<noteq> 0", OF _ Some]) (auto split: if_splits)
  then show ?thesis by simp
qed

lemma wrap_index_total: "0 < n \<Longrightarrow> wrap_index i n = Some (i mod n)"
proof (induction i rule: less_induct)
  case (less i)
  then show ?case
    by (subst wrap_index.simps) (auto simp: le_mod_geq)
qed

lemma rotate_update_drop:
  assumes "i < length es"
  shows "drop (Suc i) (es[i := t]) @ take (Suc i) (es[i := t]) = tl (drop i es @ take i es) @ [t]"
  using assms by (simp add: take_Suc_conv_app_nth tl_drop drop_Suc flip: tl_drop)
    (metis drop_Suc drop_eq_Nil drop_update_cancel lessI linorder_not_less tl_append2 tl_drop)

lemma tc_step_repr:
  assumes "tc_repr n p h c"
  shows "\<exists>c'. tc_isAllowed c tm = Some (throttled_after n p h tm, c') \<and> tc_repr n p (h @ [tm]) c'"
proof -
  obtain es where c: "tc_maxAllowed c = n" "tc_period c = p" "tc_currentIndex c < n" "n < 2 ^ 16"
      "tc_entries c = Some es" "length es = n"
    and rot: "drop (tc_currentIndex c) es @ take (tc_currentIndex c) es = window n h"
    using assms unfolding tc_repr_def by blast
  let ?i = "tc_currentIndex c"
  have n: "0 < n" using c by simp
  have "drop ?i es \<noteq> []" using c by simp
  then have "hd (window n h) = es ! ?i"
    using c by (simp add: hd_append hd_drop_conv_nth flip: rot)
  then have old: "(replicate n 0 @ h) ! length h = es ! ?i"
    using hd_window [OF n, of h] by simp
  have next_window: "drop (Suc ?i) (es[?i := tm]) @ take (Suc ?i) (es[?i := tm]) = window n (h @ [tm])"
    using rotate_update_drop [of ?i es tm] c rot window_snoc [OF n, of h tm] by simp
  have idx: "wrap_index ((?i + 1) mod 2 ^ 16) n = Some (if Suc ?i = n then 0 else Suc ?i)"
    using c n by (auto simp: wrap_index_small wrap_index_end)
  have step: "tc_isAllowed c tm = Some (throttled_after n p h tm,
      c\<lparr>tc_entries := Some (es[?i := tm]), tc_currentIndex := (if Suc ?i = n then 0 else Suc ?i)\<rparr>)"
    using c old idx by (simp add: tc_isAllowed_def throttled_after_def)
  show ?thesis
    unfolding step using c next_window n by (auto simp: tc_repr_def)
qed

subsection \<open>Runs of a ring\<close>

definition throttled_run :: "nat \<Rightarrow> timestamp \<Rightarrow> timestamp list \<Rightarrow> timestamp list \<Rightarrow> bool list" where
  "throttled_run n p h ts = map (\<lambda>k. throttled_after n p (h @ take k ts) (ts ! k)) [0..<length ts]"

lemma throttled_run_Nil [simp]: "throttled_run n p h [] = []"
  by (simp add: throttled_run_def)

lemma throttled_run_Cons [simp]:
  "throttled_run n p h (t # ts) = throttled_after n p h t # throttled_run n p (h @ [t]) ts"
  by (simp add: throttled_run_def upt_conv_Cons map_Suc_upt [symmetric] del: upt_Suc)

lemma tc_run_repr:
  "tc_repr n p h c \<Longrightarrow> \<exists>c'. tc_run c ts = Some (throttled_run n p h ts, c') \<and> tc_repr n p (h @ ts) c'"
proof (induction ts arbitrary: h c)
  case (Cons t ts)
  obtain c' where step: "tc_isAllowed c t = Some (throttled_after n p h t, c')" "tc_repr n p (h @ [t]) c'"
    using tc_step_repr [OF Cons.prems] by blast
  then show ?case using Cons.IH [OF step(2)] by auto
qed auto

lemma tc_repr_new: "0 < n \<Longrightarrow> n < 2 ^ 16 \<Longrightarrow> tc_repr n p [] (ThrottlingCheck n p)"
  by (simp add: tc_repr_def ThrottlingCheck_def window_def)

text \<open>A ring constructed with a limit of 0 never answers: its index loop does not end.\<close>

lemma tc_isAllowed_zero: "tc_isAllowed (ThrottlingCheck 0 p) t = None"
  by (simp add: tc_isAllowed_def ThrottlingCheck_def wrap_index_zero)

subsection \<open>The rate limit\<close>

text \<open>
  In a run with non-decreasing times, an attempt that is let through has at least \<open>p\<close> seconds
  between it and the attempt \<open>n\<close> before it.
\<close>

lemma not_throttled_spacing:
  assumes "0 < n" "k < length ts" "n \<le> k" "\<not> throttled_run n p [] ts ! k"
  shows "ts ! (k - n) + p \<le> ts ! k"
proof -
  have "(replicate n 0 @ take k ts) ! k = ts ! (k - n)"
    using assms(1-3) by (simp add: nth_append)
  then show ?thesis
    using assms by (simp add: throttled_run_def throttled_after_def min_absorb2)
qed

definition passed :: "nat \<Rightarrow> timestamp \<Rightarrow> timestamp list \<Rightarrow> timestamp \<Rightarrow> nat set" where
  "passed n p ts a =
     {k. k < length ts \<and> \<not> throttled_run n p [] ts ! k \<and> a \<le> ts ! k \<and> ts ! k < a + p}"

lemma card_spread:
  assumes "finite S" "n < card S"
  shows "\<exists>k\<in>S. k + n \<le> (Max S :: nat)"
proof (rule ccontr)
  assume far: "\<not> ?thesis"
  have "S \<subseteq> {Suc (Max S) - n..Max S}"
  proof
    fix k assume k: "k \<in> S"
    then have "k \<le> Max S" using assms(1) by simp
    with k far show "k \<in> {Suc (Max S) - n..Max S}" by auto
  qed
  then have "card S \<le> card {Suc (Max S) - n..Max S}" by (intro card_mono) simp_all
  with assms(2) show False by simp
qed

lemma rate_limit:
  assumes n: "0 < n" and mono: "sorted ts"
  shows "card (passed n p ts a) \<le> n"
proof (rule ccontr)
  let ?S = "passed n p ts a"
  assume "\<not> ?thesis"
  moreover have fin: "finite ?S" by (simp add: passed_def)
  ultimately obtain k where k: "k \<in> ?S" "k + n \<le> Max ?S" using card_spread [of ?S n] by auto
  have "Max ?S \<in> ?S" using fin k(1) by (intro Max_in) auto
  then have m: "Max ?S < length ts" "\<not> throttled_run n p [] ts ! Max ?S" "ts ! Max ?S < a + p"
    by (simp_all add: passed_def)
  have "ts ! k \<le> ts ! (Max ?S - n)"
    using mono k(2) m(1) by (intro sorted_nth_mono) auto
  moreover have "a \<le> ts ! k" using k(1) by (simp add: passed_def)
  moreover have "ts ! (Max ?S - n) + p \<le> ts ! Max ?S"
    using not_throttled_spacing [OF n m(1) _ m(2)] k(2) by simp
  ultimately show False using m(3) by simp
qed

subsection \<open>Clients are throttled independently\<close>

type_synonym throttle_request = "UserActionThrottling \<times> timestamp \<times> id_type \<times> 128 word"

fun dt_run :: "default_throttling \<Rightarrow> throttle_request list \<Rightarrow> (bool list \<times> default_throttling) option" where
  "dt_run d [] = Some ([], d)"
| "dt_run d ((a, t, u, i) # rs) =
     (case dt_check d a t u i of
        None \<Rightarrow> None
      | Some (b, d') \<Rightarrow>
          (case dt_run d' rs of None \<Rightarrow> None | Some (bs, d'') \<Rightarrow> Some (b # bs, d'')))"

definition key_history :: "throttle_request list \<Rightarrow> id_or_ip \<Rightarrow> UserActionThrottling \<Rightarrow> timestamp list" where
  "key_history rs key action =
     map (\<lambda>(a, t, u, i). t) (filter (\<lambda>(a, t, u, i). a = action \<and> IdOrIpAddress u i = key) rs)"

definition throttling_limit :: "UserActionThrottling \<Rightarrow> nat" where
  "throttling_limit a = fst (ThrottlingDefaultValues ! throttling_index a)"

definition throttling_period :: "UserActionThrottling \<Rightarrow> timestamp" where
  "throttling_period a = snd (ThrottlingDefaultValues ! throttling_index a)"

definition request_throttled :: "throttle_request list \<Rightarrow> throttle_request \<Rightarrow> bool" where
  "request_throttled H r = (case r of (a, t, u, i) \<Rightarrow>
     throttled_after (throttling_limit a) (throttling_period a) (key_history H (IdOrIpAddress u i) a) t)"

definition checks_repr :: "throttle_request list \<Rightarrow> id_or_ip \<Rightarrow> user_throttling_checks \<Rightarrow> bool" where
  "checks_repr H key cs \<longleftrightarrow> length cs = 5 \<and>
     (\<forall>a. a \<noteq> THROTTLING_COUNT \<longrightarrow>
        tc_repr (throttling_limit a) (throttling_period a) (key_history H key a) (cs ! throttling_index a))"

definition dt_repr :: "throttle_request list \<Rightarrow> default_throttling \<Rightarrow> bool" where
  "dt_repr H d \<longleftrightarrow>
     (\<forall>key. checks_repr H key (case d key of None \<Rightarrow> UserThrottlingChecks | Some cs \<Rightarrow> cs))"

lemma throttling_index_less: "a \<noteq> THROTTLING_COUNT \<Longrightarrow> throttling_index a < 5"
  by (cases a) simp_all

lemma throttling_index_inj: "throttling_index a = throttling_index b \<longleftrightarrow> a = b"
  by (cases a; cases b) simp_all

lemma key_history_snoc:
  "key_history (H @ [(a, t, u, i)]) key b =
     key_history H key b @ (if a = b \<and> IdOrIpAddress u i = key then [t] else [])"
  by (simp add: key_history_def)

lemma dt_repr_empty: "dt_repr [] Map.empty"
  unfolding dt_repr_def checks_repr_def
proof (intro allI conjI impI)
  fix key a
  assume "a \<noteq> THROTTLING_COUNT"
  then show "tc_repr (throttling_limit a) (throttling_period a) (key_history [] key a)
      ((case Map.empty key of None \<Rightarrow> UserThrottlingChecks | Some cs \<Rightarrow> cs) ! throttling_index a)"
    by (cases a) (simp_all add: throttling_limit_def throttling_period_def UserThrottlingChecks_def
      ThrottlingDefaultValues_def key_history_def tc_repr_new)
qed (simp add: UserThrottlingChecks_def ThrottlingDefaultValues_def)

lemma dt_check_repr:
  assumes repr: "dt_repr H d" and a: "a \<noteq> THROTTLING_COUNT"
  shows "\<exists>d'. dt_check d a t u i = Some (request_throttled H (a, t, u, i), d') \<and>
              dt_repr (H @ [(a, t, u, i)]) d'"
proof -
  let ?key = "IdOrIpAddress u i" and ?k = "throttling_index a"
  define cs where "cs = (case d ?key of None \<Rightarrow> UserThrottlingChecks | Some cs \<Rightarrow> cs)"
  have cs: "checks_repr H ?key cs" using repr by (simp add: dt_repr_def cs_def)
  have k: "?k < length cs" using cs throttling_index_less [OF a] by (simp add: checks_repr_def)
  obtain c' where c': "tc_isAllowed (cs ! ?k) t = Some (request_throttled H (a, t, u, i), c')"
      "tc_repr (throttling_limit a) (throttling_period a) (key_history H ?key a @ [t]) c'"
    using tc_step_repr [of "throttling_limit a" "throttling_period a" "key_history H ?key a" "cs ! ?k" t]
      cs a by (auto simp: checks_repr_def request_throttled_def)
  have "checks_repr (H @ [(a, t, u, i)]) ?key (cs[?k := c'])"
    using cs c'(2) k
    by (simp add: checks_repr_def key_history_snoc nth_list_update throttling_index_inj)
  then have "dt_repr (H @ [(a, t, u, i)]) (d(?key \<mapsto> cs[?k := c']))"
    using repr by (simp add: dt_repr_def checks_repr_def key_history_snoc)
  moreover have "dt_check d a t u i = Some (request_throttled H (a, t, u, i), d(?key \<mapsto> cs[?k := c']))"
    using k c'(1) by (simp add: dt_check_def cs_def [symmetric])
  ultimately show ?thesis by blast
qed

lemma dt_run_repr:
  "dt_repr H d \<Longrightarrow> \<forall>(a, _) \<in> set rs. a \<noteq> THROTTLING_COUNT \<Longrightarrow>
   \<exists>d'. dt_run d rs = Some (map (\<lambda>k. request_throttled (H @ take k rs) (rs ! k)) [0..<length rs], d')
        \<and> dt_repr (H @ rs) d'"
proof (induction rs arbitrary: H d)
  case (Cons r rs)
  obtain a t u i where r: "r = (a, t, u, i)" by (cases r)
  obtain d' where d': "dt_check d a t u i = Some (request_throttled H r, d')" "dt_repr (H @ [r]) d'"
    using dt_check_repr [OF Cons.prems(1), of a t u i] Cons.prems(2) r by auto
  from Cons.IH [OF d'(2)] Cons.prems(2) obtain d'' where
    "dt_run d' rs = Some (map (\<lambda>k. request_throttled (H @ r # take k rs) (rs ! k)) [0..<length rs], d'')"
    "dt_repr (H @ r # rs) d''"
    by auto
  then show ?case
    using d'(1) r by (simp add: upt_conv_Cons map_Suc_upt [symmetric] del: upt_Suc)
qed simp

end
