(* ===== verification/Authorization.thy ===== *)
theory Authorization
  imports Restriction Throttling
begin

section \<open>The authorization of user requests\<close>

text \<open>
  Models \<^verbatim>\<open>src/src/LibForumData/private/DefaultAuthorization.cpp\<close>: one definition per member function of
  \<open>DefaultAuthorization\<close>, in the order of the file. A handler takes the request context, the current
  user and the entities, and acts on the state of the class: it returns the status and the new state
  (only the throttling history ever changes), or \<open>None\<close> if it does not return. The parameters the
  source leaves unnamed (new names, contents, reasons, the privilege that is changed) are left out.
  The clock counts seconds; a handler reads it once here. The class and the entities refer to the
  same forum wide store, the one in the heap.
\<close>

datatype authorization_status = OK | NOT_ALLOWED | THROTTLED

record auth_context =
  cx_now :: timestamp
  cx_ip :: "128 word"
  cx_heap :: heap

record authorization =
  au_grants :: granted_store
  au_throttling :: default_throttling
  au_disableThrottling :: bool

type_synonym 'a au_step = "authorization \<Rightarrow> ('a \<times> authorization) option"
type_synonym handler = "authorization_status au_step"

definition DefaultAuthorization :: "granted_store \<Rightarrow> bool \<Rightarrow> authorization" where
  "DefaultAuthorization grantedPrivilegeStore disableThrottling =
     \<lparr>au_grants = grantedPrivilegeStore, au_throttling = Map.empty, au_disableThrottling = disableThrottling\<rparr>"

subsection \<open>Values a user acts with\<close>

text \<open>The out parameter \<open>with\<close> of the private overloads of \<open>isAllowed\<close>: the level access is granted with.\<close>

definition with_message :: "auth_context \<Rightarrow> user \<Rightarrow> message \<Rightarrow> msg_privilege \<Rightarrow> authorization \<Rightarrow> privilege_value option" where
  "with_message cx u (m :: message) p a = isAllowed_message_msg (au_grants a) (cx_heap cx) (Some u) m p (cx_now cx)"

definition with_thread_msg :: "auth_context \<Rightarrow> user \<Rightarrow> thread \<Rightarrow> msg_privilege \<Rightarrow> authorization \<Rightarrow> privilege_value option" where
  "with_thread_msg cx u (t :: thread) p a = isAllowed_thread_msg (au_grants a) (cx_heap cx) (Some u) t p (cx_now cx)"

definition with_tag_msg :: "auth_context \<Rightarrow> user \<Rightarrow> tag \<Rightarrow> msg_privilege \<Rightarrow> authorization \<Rightarrow> privilege_value option" where
  "with_tag_msg cx u (t :: tag) p a = isAllowed_tag_msg (au_grants a) (cx_heap cx) (Some u) t p (cx_now cx)"

definition with_thread :: "auth_context \<Rightarrow> user \<Rightarrow> thread \<Rightarrow> thread_privilege \<Rightarrow> authorization \<Rightarrow> privilege_value option" where
  "with_thread cx u (t :: thread) p a = isAllowed_thread_thr (au_grants a) (cx_heap cx) (Some u) t p (cx_now cx)"

definition with_tag_thr :: "auth_context \<Rightarrow> user \<Rightarrow> tag \<Rightarrow> thread_privilege \<Rightarrow> authorization \<Rightarrow> privilege_value option" where
  "with_tag_thr cx u (t :: tag) p a = isAllowed_tag_thr (au_grants a) (cx_heap cx) (Some u) t p (cx_now cx)"

definition with_tag :: "auth_context \<Rightarrow> user \<Rightarrow> tag \<Rightarrow> tag_privilege \<Rightarrow> authorization \<Rightarrow> privilege_value option" where
  "with_tag cx u (t :: tag) p a = isAllowed_tag_tag (au_grants a) (cx_heap cx) (Some u) t p (cx_now cx)"

definition with_category :: "auth_context \<Rightarrow> user \<Rightarrow> category \<Rightarrow> category_privilege \<Rightarrow> authorization \<Rightarrow> privilege_value option option" where
  "with_category cx u (c :: category) p a = isAllowed_category (au_grants a) (cx_heap cx) (Some u) c p (cx_now cx)"

definition with_fw_msg :: "auth_context \<Rightarrow> user \<Rightarrow> msg_privilege \<Rightarrow> authorization \<Rightarrow> privilege_value option" where
  "with_fw_msg cx u p a = isAllowed_fw_msg (au_grants a) (h_forumWide (cx_heap cx)) (Some u) p (cx_now cx)"

definition with_fw_thr :: "auth_context \<Rightarrow> user \<Rightarrow> thread_privilege \<Rightarrow> authorization \<Rightarrow> privilege_value option" where
  "with_fw_thr cx u p a = isAllowed_fw_thr (au_grants a) (h_forumWide (cx_heap cx)) (Some u) p (cx_now cx)"

definition with_fw_tag :: "auth_context \<Rightarrow> user \<Rightarrow> tag_privilege \<Rightarrow> authorization \<Rightarrow> privilege_value option" where
  "with_fw_tag cx u p a = isAllowed_fw_tag (au_grants a) (h_forumWide (cx_heap cx)) (Some u) p (cx_now cx)"

definition with_fw_cat :: "auth_context \<Rightarrow> user \<Rightarrow> category_privilege \<Rightarrow> authorization \<Rightarrow> privilege_value option" where
  "with_fw_cat cx u p a = isAllowed_fw_cat (au_grants a) (h_forumWide (cx_heap cx)) (Some u) p (cx_now cx)"

definition with_fw :: "auth_context \<Rightarrow> user \<Rightarrow> forum_wide_privilege \<Rightarrow> authorization \<Rightarrow> privilege_value option" where
  "with_fw cx u p a = isAllowed_fw (au_grants a) (h_forumWide (cx_heap cx)) (Some u) p (cx_now cx)"

definition status_of :: "privilege_value option \<Rightarrow> authorization_status" where
  "status_of value = (if value \<noteq> None then OK else NOT_ALLOWED)"

definition permit_message :: "auth_context \<Rightarrow> user \<Rightarrow> message \<Rightarrow> msg_privilege \<Rightarrow> authorization \<Rightarrow> authorization_status" where
  "permit_message cx u m p a = status_of (with_message cx u m p a)"

definition permit_thread :: "auth_context \<Rightarrow> user \<Rightarrow> thread \<Rightarrow> thread_privilege \<Rightarrow> authorization \<Rightarrow> authorization_status" where
  "permit_thread cx u t p a = status_of (with_thread cx u t p a)"

definition permit_tag :: "auth_context \<Rightarrow> user \<Rightarrow> tag \<Rightarrow> tag_privilege \<Rightarrow> authorization \<Rightarrow> authorization_status" where
  "permit_tag cx u t p a = status_of (with_tag cx u t p a)"

definition permit_category :: "auth_context \<Rightarrow> user \<Rightarrow> category \<Rightarrow> category_privilege \<Rightarrow> authorization \<Rightarrow> authorization_status option" where
  "permit_category cx u c p a = map_option status_of (with_category cx u c p a)"

definition permit_fw :: "auth_context \<Rightarrow> user \<Rightarrow> forum_wide_privilege \<Rightarrow> authorization \<Rightarrow> authorization_status" where
  "permit_fw cx u p a = status_of (with_fw cx u p a)"


definition permit_two_threads ::
  "auth_context \<Rightarrow> user \<Rightarrow> thread \<Rightarrow> thread \<Rightarrow> thread_privilege \<Rightarrow> authorization \<Rightarrow> authorization_status" where
  "permit_two_threads cx u src into p a =
     (if with_thread cx u src p a \<noteq> None \<and> with_thread cx u into p a \<noteq> None then OK else NOT_ALLOWED)"

definition permit_two_tags ::
  "auth_context \<Rightarrow> user \<Rightarrow> tag \<Rightarrow> tag \<Rightarrow> tag_privilege \<Rightarrow> authorization \<Rightarrow> authorization_status" where
  "permit_two_tags cx u src into p a =
     (if with_tag cx u src p a \<noteq> None \<and> with_tag cx u into p a \<noteq> None then OK else NOT_ALLOWED)"

text \<open>Acting on another user takes more than the positive value that user has.\<close>

definition permit_fw_target ::
  "auth_context \<Rightarrow> user \<Rightarrow> forum_wide_privilege \<Rightarrow> user \<Rightarrow> authorization \<Rightarrow> authorization_status" where
  "permit_fw_target cx u p targetUser a =
     (case with_fw cx u p a of
        None \<Rightarrow> NOT_ALLOWED
      | Some value \<Rightarrow>
          (let (targetUserValuePositive, targetUserValueNegative) =
                 calculateForumWidePrivilege (au_grants a) (Some targetUser) (cx_now cx) (None, None)
           in if value > (case targetUserValuePositive of Some v \<Rightarrow> v | None \<Rightarrow> 0) then OK else NOT_ALLOWED))"

subsection \<open>Composing a handler\<close>

definition answer :: "(authorization \<Rightarrow> authorization_status) \<Rightarrow> handler" where
  "answer f = (\<lambda>a. Some (f a, a))"

definition answer_option :: "(authorization \<Rightarrow> authorization_status option) \<Rightarrow> handler" where
  "answer_option f = (\<lambda>a. case f a of None \<Rightarrow> None | Some st \<Rightarrow> Some (st, a))"

definition isThrottled :: "auth_context \<Rightarrow> UserActionThrottling \<Rightarrow> user \<Rightarrow> bool au_step" where
  "isThrottled cx action currentUser = (\<lambda>a.
     if au_disableThrottling a then Some (False, a)
     else if with_fw cx currentUser FW_NO_THROTTLING a \<noteq> None then Some (False, a)
     else (case dt_check (au_throttling a) action (cx_now cx) (usr_id currentUser) (cx_ip cx) of
             None \<Rightarrow> None
           | Some (b, d) \<Rightarrow> Some (b, a\<lparr>au_throttling := d\<rparr>)))"

definition throttled :: "auth_context \<Rightarrow> UserActionThrottling \<Rightarrow> user \<Rightarrow> handler \<Rightarrow> handler" where
  "throttled cx action currentUser rest = (\<lambda>a.
     case isThrottled cx action currentUser a of
       None \<Rightarrow> None
     | Some (b, a') \<Rightarrow> if b then Some (THROTTLED, a') else rest a')"

definition view_tag_then :: "auth_context \<Rightarrow> user \<Rightarrow> tag \<Rightarrow> (authorization \<Rightarrow> authorization_status) \<Rightarrow> handler" where
  "view_tag_then cx u t rest = answer (\<lambda>a.
     let allowViewTag = permit_tag cx u t TAG_VIEW a in if OK \<noteq> allowViewTag then allowViewTag else rest a)"

definition view_tag_then_option ::
  "auth_context \<Rightarrow> user \<Rightarrow> tag \<Rightarrow> (authorization \<Rightarrow> authorization_status option) \<Rightarrow> handler" where
  "view_tag_then_option cx u t rest = answer_option (\<lambda>a.
     let allowViewTag = permit_tag cx u t TAG_VIEW a in if OK \<noteq> allowViewTag then Some allowViewTag else rest a)"

definition allowPrivilegeUpdate :: "privilege_value option \<Rightarrow> privilege_value \<Rightarrow> privilege_value option \<Rightarrow> bool" where
  "allowPrivilegeUpdate oldValue newValue currentPermissions =
     (let currentPermissionsValue = (case currentPermissions of Some v \<Rightarrow> v | None \<Rightarrow> 0)
      in (case oldValue of None \<Rightarrow> True | Some v \<Rightarrow> \<bar>v\<bar> \<le> currentPermissionsValue)
         \<and> \<bar>newValue\<bar> \<le> currentPermissionsValue)"

definition allowPrivilegeAssignment :: "privilege_value option \<Rightarrow> privilege_value \<Rightarrow> privilege_value option \<Rightarrow> bool" where
  "allowPrivilegeAssignment oldValue newValue currentPermissions =
     (let currentPermissionsValue = (case currentPermissions of Some v \<Rightarrow> v | None \<Rightarrow> 0)
      in (case oldValue of None \<Rightarrow> True | Some v \<Rightarrow> \<bar>v\<bar> < currentPermissionsValue)
         \<and> \<bar>newValue\<bar> < currentPermissionsValue)"

text \<open>
  \<open>None\<close> (of the outer option) is the access through the empty \<open>result\<close> when only the negative
  value is set. \<open>absValue\<close> is instantiated with \<open>int16_t\<close>, so its result is converted back to it.
\<close>

definition absValue :: "privilege_value \<Rightarrow> privilege_value" where
  "absValue v = int16 (if v < 0 then - v else v)"

definition computeOldValueForAssigningPrivileges ::
  "privilege_value option \<Rightarrow> privilege_value option \<Rightarrow> privilege_value option option" where
  "computeOldValueForAssigningPrivileges oldValuePositive oldValueNegative =
     (case oldValueNegative of
        None \<Rightarrow> Some oldValuePositive
      | Some n \<Rightarrow> (case oldValuePositive of None \<Rightarrow> None | Some p \<Rightarrow> Some (Some (max p (absValue n)))))"

text \<open>The common end of the functions that change required privileges, and of those that assign them.\<close>

definition update_status :: "privilege_value option \<Rightarrow> privilege_value option \<Rightarrow> privilege_value \<Rightarrow> authorization_status" where
  "update_status with' oldValue newValue =
     (let status = status_of with'
      in if status \<noteq> OK then status else if allowPrivilegeUpdate oldValue newValue with' then OK else NOT_ALLOWED)"

definition update_answer :: "(authorization \<Rightarrow> privilege_value option) \<Rightarrow> privilege_value option \<Rightarrow> privilege_value \<Rightarrow> handler" where
  "update_answer with' oldValue newValue = answer (\<lambda>a. update_status (with' a) oldValue newValue)"

definition update_answer_option :: "(authorization \<Rightarrow> privilege_value option option) \<Rightarrow> privilege_value option \<Rightarrow> privilege_value \<Rightarrow> handler" where
  "update_answer_option with' oldValue newValue =
     answer_option (\<lambda>a. map_option (\<lambda>w. update_status w oldValue newValue) (with' a))"

definition assign_status :: "privilege_value option \<Rightarrow> pos_neg \<Rightarrow> privilege_value \<Rightarrow> authorization_status option" where
  "assign_status with' old newValue =
     (let status = status_of with'
      in if status \<noteq> OK then Some status
         else (case computeOldValueForAssigningPrivileges (fst old) (snd old) of
                 None \<Rightarrow> None
               | Some oldValue \<Rightarrow> Some (if allowPrivilegeAssignment oldValue newValue with' then OK else NOT_ALLOWED)))"

definition assign_answer :: "(authorization \<Rightarrow> privilege_value option) \<Rightarrow> (authorization \<Rightarrow> pos_neg) \<Rightarrow> privilege_value \<Rightarrow> handler" where
  "assign_answer with' old newValue = answer_option (\<lambda>a. assign_status (with' a) (old a) newValue)"

definition assign_answer_option :: "(authorization \<Rightarrow> privilege_value option option) \<Rightarrow> (authorization \<Rightarrow> pos_neg) \<Rightarrow> privilege_value \<Rightarrow> handler" where
  "assign_answer_option with' old newValue =
     answer_option (\<lambda>a. case with' a of None \<Rightarrow> None | Some w \<Rightarrow> assign_status w (old a) newValue)"

subsection \<open>Users\<close>

definition getUsers :: "auth_context \<Rightarrow> user \<Rightarrow> handler" where
  "getUsers cx currentUser =
     answer (permit_fw cx currentUser FW_GET_ALL_USERS)"

definition getUserById :: "auth_context \<Rightarrow> user \<Rightarrow> user \<Rightarrow> handler" where
  "getUserById cx currentUser user =
     answer (\<lambda>_. OK)"

definition getUserByName :: "auth_context \<Rightarrow> user \<Rightarrow> user \<Rightarrow> handler" where
  "getUserByName cx currentUser user =
     answer (\<lambda>_. OK)"

definition addNewUser :: "auth_context \<Rightarrow> user \<Rightarrow> handler" where
  "addNewUser cx currentUser =
     throttled cx NEW_CONTENT currentUser
       (answer (permit_fw cx currentUser FW_ADD_USER))"

definition changeUserName :: "auth_context \<Rightarrow> user \<Rightarrow> user \<Rightarrow> handler" where
  "changeUserName cx currentUser user =
     throttled cx EDIT_CONTENT currentUser
       (if usr_id currentUser = usr_id user then answer (permit_fw cx currentUser FW_CHANGE_OWN_USER_NAME)
        else answer (permit_fw_target cx currentUser FW_CHANGE_ANY_USER_NAME user))"

definition changeUserInfo :: "auth_context \<Rightarrow> user \<Rightarrow> user \<Rightarrow> handler" where
  "changeUserInfo cx currentUser user =
     throttled cx EDIT_CONTENT currentUser
       (if usr_id currentUser = usr_id user then answer (permit_fw cx currentUser FW_CHANGE_OWN_USER_INFO)
        else answer (permit_fw_target cx currentUser FW_CHANGE_ANY_USER_INFO user))"

definition changeUserTitle :: "auth_context \<Rightarrow> user \<Rightarrow> user \<Rightarrow> handler" where
  "changeUserTitle cx currentUser user =
     throttled cx EDIT_CONTENT currentUser
       (if usr_id currentUser = usr_id user then answer (permit_fw cx currentUser FW_CHANGE_OWN_USER_TITLE)
        else answer (permit_fw_target cx currentUser FW_CHANGE_ANY_USER_TITLE user))"

definition changeUserSignature :: "auth_context \<Rightarrow> user \<Rightarrow> user \<Rightarrow> handler" where
  "changeUserSignature cx currentUser user =
     throttled cx EDIT_CONTENT currentUser
       (if usr_id currentUser = usr_id user then answer (permit_fw cx currentUser FW_CHANGE_OWN_USER_SIGNATURE)
        else answer (permit_fw_target cx currentUser FW_CHANGE_ANY_USER_SIGNATURE user))"

definition changeUserAttachmentQuota :: "auth_context \<Rightarrow> user \<Rightarrow> user \<Rightarrow> handler" where
  "changeUserAttachmentQuota cx currentUser user =
     throttled cx EDIT_CONTENT currentUser
       (answer (permit_fw_target cx currentUser FW_CHANGE_USER_ATTACHMENT_QUOTA user))"

definition changeUserLogo :: "auth_context \<Rightarrow> user \<Rightarrow> user \<Rightarrow> handler" where
  "changeUserLogo cx currentUser user =
     throttled cx EDIT_CONTENT currentUser
       (if usr_id currentUser = usr_id user then answer (permit_fw cx currentUser FW_CHANGE_OWN_USER_LOGO)
        else answer (permit_fw_target cx currentUser FW_CHANGE_ANY_USER_LOGO user))"

definition deleteUserLogo :: "auth_context \<Rightarrow> user \<Rightarrow> user \<Rightarrow> handler" where
  "deleteUserLogo cx currentUser user =
     throttled cx EDIT_CONTENT currentUser
       (if usr_id currentUser = usr_id user then answer (permit_fw cx currentUser FW_DELETE_OWN_USER_LOGO)
        else answer (permit_fw_target cx currentUser FW_DELETE_ANY_USER_LOGO user))"

definition deleteUser :: "auth_context \<Rightarrow> user \<Rightarrow> user \<Rightarrow> handler" where
  "deleteUser cx currentUser user =
     throttled cx EDIT_CONTENT currentUser
       (answer (permit_fw_target cx currentUser FW_DELETE_ANY_USER user))"

definition sendPrivateMessage :: "auth_context \<Rightarrow> user \<Rightarrow> user \<Rightarrow> handler" where
  "sendPrivateMessage cx currentUser destinationUser =
     throttled cx NEW_CONTENT currentUser
       (if usr_id currentUser = usr_id destinationUser then answer (\<lambda>_. NOT_ALLOWED)
        else answer (permit_fw cx currentUser FW_SEND_PRIVATE_MESSAGE))"

text \<open>A user who is neither end of the message gets \<open>THROTTLED\<close>, as the source writes it.\<close>

definition deletePrivateMessage :: "auth_context \<Rightarrow> user \<Rightarrow> private_message \<Rightarrow> handler" where
  "deletePrivateMessage cx currentUser message =
     answer (\<lambda>_. if usr_id currentUser = usr_id (h_user (cx_heap cx) (pm_source message))
                 \<or> usr_id currentUser = usr_id (h_user (cx_heap cx) (pm_destination message))
              then OK else THROTTLED)"

subsection \<open>Threads\<close>

definition getDiscussionThreadRequiredPrivileges :: "auth_context \<Rightarrow> user \<Rightarrow> thread \<Rightarrow> handler" where
  "getDiscussionThreadRequiredPrivileges cx currentUser thread =
     answer (permit_thread cx currentUser thread THR_VIEW_REQUIRED_PRIVILEGES)"

definition getDiscussionThreadAssignedPrivileges :: "auth_context \<Rightarrow> user \<Rightarrow> thread \<Rightarrow> handler" where
  "getDiscussionThreadAssignedPrivileges cx currentUser thread =
     answer (permit_thread cx currentUser thread THR_VIEW_ASSIGNED_PRIVILEGES)"

definition getDiscussionThreads :: "auth_context \<Rightarrow> user \<Rightarrow> handler" where
  "getDiscussionThreads cx currentUser =
     answer (permit_fw cx currentUser FW_GET_ALL_DISCUSSION_THREADS)"

definition getDiscussionThreadById :: "auth_context \<Rightarrow> user \<Rightarrow> thread \<Rightarrow> handler" where
  "getDiscussionThreadById cx currentUser thread =
     answer (permit_thread cx currentUser thread THR_VIEW)"

definition getDiscussionThreadSubscribedUsers :: "auth_context \<Rightarrow> user \<Rightarrow> thread \<Rightarrow> handler" where
  "getDiscussionThreadSubscribedUsers cx currentUser thread =
     answer (permit_thread cx currentUser thread THR_GET_SUBSCRIBED_USERS)"

definition getDiscussionThreadsOfUser :: "auth_context \<Rightarrow> user \<Rightarrow> user \<Rightarrow> handler" where
  "getDiscussionThreadsOfUser cx currentUser user =
     (if usr_id currentUser = usr_id user then answer (\<lambda>_. OK)
      else answer (permit_fw cx currentUser FW_GET_DISCUSSION_THREADS_OF_USER))"

definition getSubscribedDiscussionThreadsOfUser :: "auth_context \<Rightarrow> user \<Rightarrow> user \<Rightarrow> handler" where
  "getSubscribedDiscussionThreadsOfUser cx currentUser user =
     (if usr_id currentUser = usr_id user then answer (\<lambda>_. OK)
      else answer (permit_fw cx currentUser FW_GET_SUBSCRIBED_DISCUSSION_THREADS_OF_USER))"

definition getDiscussionThreadsWithTag :: "auth_context \<Rightarrow> user \<Rightarrow> tag \<Rightarrow> handler" where
  "getDiscussionThreadsWithTag cx currentUser tag =
     answer (permit_tag cx currentUser tag TAG_GET_DISCUSSION_THREADS)"

definition getDiscussionThreadsOfCategory :: "auth_context \<Rightarrow> user \<Rightarrow> category \<Rightarrow> handler" where
  "getDiscussionThreadsOfCategory cx currentUser category =
     answer_option (permit_category cx currentUser category CAT_GET_DISCUSSION_THREADS)"

definition getAllowDiscussionThreadPrivilegeChange :: "auth_context \<Rightarrow> user \<Rightarrow> thread \<Rightarrow> handler" where
  "getAllowDiscussionThreadPrivilegeChange cx currentUser thread =
     answer (permit_thread cx currentUser thread THR_ADJUST_PRIVILEGE)"

definition addNewDiscussionThread :: "auth_context \<Rightarrow> user \<Rightarrow> handler" where
  "addNewDiscussionThread cx currentUser =
     throttled cx NEW_CONTENT currentUser
       (answer (permit_fw cx currentUser FW_ADD_DISCUSSION_THREAD))"

definition changeDiscussionThreadName :: "auth_context \<Rightarrow> user \<Rightarrow> thread \<Rightarrow> handler" where
  "changeDiscussionThreadName cx currentUser thread =
     throttled cx EDIT_CONTENT currentUser
       (answer (permit_thread cx currentUser thread THR_CHANGE_NAME))"

definition changeDiscussionThreadPinDisplayOrder :: "auth_context \<Rightarrow> user \<Rightarrow> thread \<Rightarrow> handler" where
  "changeDiscussionThreadPinDisplayOrder cx currentUser thread =
     throttled cx EDIT_CONTENT currentUser
       (answer (permit_thread cx currentUser thread THR_CHANGE_PIN_DISPLAY_ORDER))"

definition changeDiscussionThreadApproval :: "auth_context \<Rightarrow> user \<Rightarrow> thread \<Rightarrow> handler" where
  "changeDiscussionThreadApproval cx currentUser thread =
     throttled cx EDIT_CONTENT currentUser
       (answer (permit_thread cx currentUser thread THR_CHANGE_APPROVAL))"

definition autoApproveDiscussionThread :: "auth_context \<Rightarrow> user \<Rightarrow> handler" where
  "autoApproveDiscussionThread cx currentUser =
     answer (permit_fw cx currentUser FW_AUTO_APPROVE_DISCUSSION_THREAD)"

definition deleteDiscussionThread :: "auth_context \<Rightarrow> user \<Rightarrow> thread \<Rightarrow> handler" where
  "deleteDiscussionThread cx currentUser thread =
     throttled cx EDIT_CONTENT currentUser
       (answer (permit_thread cx currentUser thread THR_DELETE))"

definition mergeDiscussionThreads :: "auth_context \<Rightarrow> user \<Rightarrow> thread \<Rightarrow> thread \<Rightarrow> handler" where
  "mergeDiscussionThreads cx currentUser src into =
     throttled cx EDIT_CONTENT currentUser
       (answer (permit_two_threads cx currentUser src into THR_MERGE))"

definition subscribeToDiscussionThread :: "auth_context \<Rightarrow> user \<Rightarrow> thread \<Rightarrow> handler" where
  "subscribeToDiscussionThread cx currentUser thread =
     (if isAnonymousUser (Some currentUser) then answer (\<lambda>_. NOT_ALLOWED)
      else throttled cx SUBSCRIBE currentUser
       (answer (permit_thread cx currentUser thread THR_SUBSCRIBE)))"

definition unsubscribeFromDiscussionThread :: "auth_context \<Rightarrow> user \<Rightarrow> thread \<Rightarrow> handler" where
  "unsubscribeFromDiscussionThread cx currentUser thread =
     (if isAnonymousUser (Some currentUser) then answer (\<lambda>_. NOT_ALLOWED)
      else throttled cx SUBSCRIBE currentUser
       (answer (permit_thread cx currentUser thread THR_UNSUBSCRIBE)))"

subsection \<open>Messages, votes and comments\<close>

definition getDiscussionThreadMessageRequiredPrivileges :: "auth_context \<Rightarrow> user \<Rightarrow> message \<Rightarrow> handler" where
  "getDiscussionThreadMessageRequiredPrivileges cx currentUser message =
     answer (permit_message cx currentUser message MSG_VIEW_REQUIRED_PRIVILEGES)"

definition getDiscussionThreadMessageAssignedPrivileges :: "auth_context \<Rightarrow> user \<Rightarrow> message \<Rightarrow> handler" where
  "getDiscussionThreadMessageAssignedPrivileges cx currentUser message =
     answer (permit_message cx currentUser message MSG_VIEW_ASSIGNED_PRIVILEGES)"

definition getDiscussionThreadMessageById :: "auth_context \<Rightarrow> user \<Rightarrow> message \<Rightarrow> handler" where
  "getDiscussionThreadMessageById cx currentUser message =
     answer (permit_message cx currentUser message MSG_VIEW)"

definition getAllowDiscussionThreadMessagePrivilegeChange :: "auth_context \<Rightarrow> user \<Rightarrow> message \<Rightarrow> handler" where
  "getAllowDiscussionThreadMessagePrivilegeChange cx currentUser message =
     answer (permit_message cx currentUser message MSG_ADJUST_PRIVILEGE)"

definition getDiscussionThreadMessagesOfUserByCreated :: "auth_context \<Rightarrow> user \<Rightarrow> user \<Rightarrow> handler" where
  "getDiscussionThreadMessagesOfUserByCreated cx currentUser user =
     answer (permit_fw cx currentUser FW_GET_DISCUSSION_THREAD_MESSAGES_OF_USER)"

definition getDiscussionThreadMessageRank :: "auth_context \<Rightarrow> user \<Rightarrow> message \<Rightarrow> handler" where
  "getDiscussionThreadMessageRank cx currentUser message =
     answer (permit_message cx currentUser message MSG_VIEW)"

definition getMessageComments :: "auth_context \<Rightarrow> user \<Rightarrow> handler" where
  "getMessageComments cx currentUser =
     answer (permit_fw cx currentUser FW_GET_ALL_MESSAGE_COMMENTS)"

definition getMessageCommentsOfDiscussionThreadMessage :: "auth_context \<Rightarrow> user \<Rightarrow> message \<Rightarrow> handler" where
  "getMessageCommentsOfDiscussionThreadMessage cx currentUser message =
     answer (permit_message cx currentUser message MSG_GET_MESSAGE_COMMENTS)"

definition getMessageCommentsOfUser :: "auth_context \<Rightarrow> user \<Rightarrow> user \<Rightarrow> handler" where
  "getMessageCommentsOfUser cx currentUser user =
     answer (permit_fw cx currentUser FW_GET_MESSAGE_COMMENTS_OF_USER)"

definition addNewDiscussionMessageInThread :: "auth_context \<Rightarrow> user \<Rightarrow> thread \<Rightarrow> handler" where
  "addNewDiscussionMessageInThread cx currentUser thread =
     (if thr_messages thread \<noteq> []
      then throttled cx NEW_CONTENT currentUser
       (answer (permit_thread cx currentUser thread THR_ADD_MESSAGE))
      else answer (permit_thread cx currentUser thread THR_ADD_MESSAGE))"

definition autoApproveDiscussionMessageInThread :: "auth_context \<Rightarrow> user \<Rightarrow> thread \<Rightarrow> handler" where
  "autoApproveDiscussionMessageInThread cx currentUser thread =
     answer (permit_thread cx currentUser thread THR_AUTO_APPROVE_MESSAGE)"

definition deleteDiscussionMessage :: "auth_context \<Rightarrow> user \<Rightarrow> message \<Rightarrow> handler" where
  "deleteDiscussionMessage cx currentUser message =
     throttled cx EDIT_CONTENT currentUser
       (answer (permit_message cx currentUser message MSG_DELETE))"

definition changeDiscussionThreadMessageContent :: "auth_context \<Rightarrow> user \<Rightarrow> message \<Rightarrow> handler" where
  "changeDiscussionThreadMessageContent cx currentUser message =
     throttled cx EDIT_CONTENT currentUser
       (answer (permit_message cx currentUser message MSG_CHANGE_CONTENT))"

definition changeDiscussionThreadMessageApproval :: "auth_context \<Rightarrow> user \<Rightarrow> message \<Rightarrow> handler" where
  "changeDiscussionThreadMessageApproval cx currentUser message =
     throttled cx EDIT_CONTENT currentUser
       (answer (permit_message cx currentUser message MSG_CHANGE_APPROVAL))"

definition moveDiscussionThreadMessage :: "auth_context \<Rightarrow> user \<Rightarrow> message \<Rightarrow> thread \<Rightarrow> handler" where
  "moveDiscussionThreadMessage cx currentUser message intoThread =
     throttled cx EDIT_CONTENT currentUser
       (answer (permit_message cx currentUser message MSG_MOVE))"

definition upVoteDiscussionThreadMessage :: "auth_context \<Rightarrow> user \<Rightarrow> message \<Rightarrow> handler" where
  "upVoteDiscussionThreadMessage cx currentUser message =
     (if usr_id currentUser = usr_id (h_user (cx_heap cx) (msg_createdBy message)) then answer (\<lambda>_. NOT_ALLOWED)
      else if isAnonymousUser (Some currentUser) then answer (\<lambda>_. NOT_ALLOWED)
      else throttled cx VOTE currentUser
       (answer (permit_message cx currentUser message MSG_UP_VOTE)))"

definition downVoteDiscussionThreadMessage :: "auth_context \<Rightarrow> user \<Rightarrow> message \<Rightarrow> handler" where
  "downVoteDiscussionThreadMessage cx currentUser message =
     (if usr_id currentUser = usr_id (h_user (cx_heap cx) (msg_createdBy message)) then answer (\<lambda>_. NOT_ALLOWED)
      else if isAnonymousUser (Some currentUser) then answer (\<lambda>_. NOT_ALLOWED)
      else throttled cx VOTE currentUser
       (answer (permit_message cx currentUser message MSG_DOWN_VOTE)))"

definition resetVoteDiscussionThreadMessage :: "auth_context \<Rightarrow> user \<Rightarrow> message \<Rightarrow> handler" where
  "resetVoteDiscussionThreadMessage cx currentUser message =
     (if usr_id currentUser = usr_id (h_user (cx_heap cx) (msg_createdBy message)) then answer (\<lambda>_. NOT_ALLOWED)
      else if isAnonymousUser (Some currentUser) then answer (\<lambda>_. NOT_ALLOWED)
      else throttled cx VOTE currentUser
       (answer (permit_message cx currentUser message MSG_RESET_VOTE)))"

definition addCommentToDiscussionThreadMessage :: "auth_context \<Rightarrow> user \<Rightarrow> message \<Rightarrow> handler" where
  "addCommentToDiscussionThreadMessage cx currentUser message =
     throttled cx NEW_CONTENT currentUser
       (answer (permit_message cx currentUser message MSG_ADD_COMMENT))"

definition setMessageCommentToSolved :: "auth_context \<Rightarrow> user \<Rightarrow> message_comment \<Rightarrow> handler" where
  "setMessageCommentToSolved cx currentUser comment =
     throttled cx EDIT_CONTENT currentUser
       (answer (permit_message cx currentUser (h_message (cx_heap cx) (cmt_parentMessage comment)) MSG_SET_COMMENT_TO_SOLVED))"

subsection \<open>Tags\<close>

definition getDiscussionTagRequiredPrivileges :: "auth_context \<Rightarrow> user \<Rightarrow> tag \<Rightarrow> handler" where
  "getDiscussionTagRequiredPrivileges cx currentUser tag =
     answer (permit_tag cx currentUser tag TAG_VIEW_REQUIRED_PRIVILEGES)"

definition getDiscussionTagAssignedPrivileges :: "auth_context \<Rightarrow> user \<Rightarrow> tag \<Rightarrow> handler" where
  "getDiscussionTagAssignedPrivileges cx currentUser tag =
     answer (permit_tag cx currentUser tag TAG_VIEW_ASSIGNED_PRIVILEGES)"

definition getDiscussionTagById :: "auth_context \<Rightarrow> user \<Rightarrow> tag \<Rightarrow> handler" where
  "getDiscussionTagById cx currentUser tag =
     answer (permit_tag cx currentUser tag TAG_VIEW)"

definition getDiscussionTags :: "auth_context \<Rightarrow> user \<Rightarrow> handler" where
  "getDiscussionTags cx currentUser =
     answer (permit_fw cx currentUser FW_GET_ALL_DISCUSSION_TAGS)"

definition getAllowDiscussionTagPrivilegeChange :: "auth_context \<Rightarrow> user \<Rightarrow> tag \<Rightarrow> handler" where
  "getAllowDiscussionTagPrivilegeChange cx currentUser tag =
     answer (permit_tag cx currentUser tag TAG_ADJUST_PRIVILEGE)"

definition addNewDiscussionTag :: "auth_context \<Rightarrow> user \<Rightarrow> handler" where
  "addNewDiscussionTag cx currentUser =
     throttled cx NEW_CONTENT currentUser
       (answer (permit_fw cx currentUser FW_ADD_DISCUSSION_TAG))"

definition changeDiscussionTagName :: "auth_context \<Rightarrow> user \<Rightarrow> tag \<Rightarrow> handler" where
  "changeDiscussionTagName cx currentUser tag =
     throttled cx EDIT_CONTENT currentUser
       (answer (permit_tag cx currentUser tag TAG_CHANGE_NAME))"

definition changeDiscussionTagUiBlob :: "auth_context \<Rightarrow> user \<Rightarrow> tag \<Rightarrow> handler" where
  "changeDiscussionTagUiBlob cx currentUser tag =
     throttled cx EDIT_CONTENT currentUser
       (answer (permit_tag cx currentUser tag TAG_CHANGE_UIBLOB))"

definition deleteDiscussionTag :: "auth_context \<Rightarrow> user \<Rightarrow> tag \<Rightarrow> handler" where
  "deleteDiscussionTag cx currentUser tag =
     throttled cx EDIT_CONTENT currentUser
       (answer (permit_tag cx currentUser tag TAG_DELETE))"

definition addDiscussionTagToThread :: "auth_context \<Rightarrow> user \<Rightarrow> tag \<Rightarrow> thread \<Rightarrow> handler" where
  "addDiscussionTagToThread cx currentUser tag thread =
     (if thr_messages thread \<noteq> []
      then throttled cx EDIT_CONTENT currentUser
       (view_tag_then cx currentUser tag
         (permit_thread cx currentUser thread THR_ADD_TAG))
      else view_tag_then cx currentUser tag (permit_thread cx currentUser thread THR_ADD_TAG))"

definition removeDiscussionTagFromThread :: "auth_context \<Rightarrow> user \<Rightarrow> tag \<Rightarrow> thread \<Rightarrow> handler" where
  "removeDiscussionTagFromThread cx currentUser tag thread =
     throttled cx EDIT_CONTENT currentUser
       (view_tag_then cx currentUser tag (permit_thread cx currentUser thread THR_REMOVE_TAG))"

definition mergeDiscussionTags :: "auth_context \<Rightarrow> user \<Rightarrow> tag \<Rightarrow> tag \<Rightarrow> handler" where
  "mergeDiscussionTags cx currentUser src into =
     throttled cx EDIT_CONTENT currentUser
       (answer (permit_two_tags cx currentUser src into TAG_MERGE))"

subsection \<open>Categories\<close>

definition getDiscussionCategoryRequiredPrivileges :: "auth_context \<Rightarrow> user \<Rightarrow> category \<Rightarrow> handler" where
  "getDiscussionCategoryRequiredPrivileges cx currentUser category =
     answer_option (permit_category cx currentUser category CAT_VIEW_REQUIRED_PRIVILEGES)"

definition getDiscussionCategoryAssignedPrivileges :: "auth_context \<Rightarrow> user \<Rightarrow> category \<Rightarrow> handler" where
  "getDiscussionCategoryAssignedPrivileges cx currentUser category =
     answer_option (permit_category cx currentUser category CAT_VIEW_ASSIGNED_PRIVILEGES)"

definition getDiscussionCategoryById :: "auth_context \<Rightarrow> user \<Rightarrow> category \<Rightarrow> handler" where
  "getDiscussionCategoryById cx currentUser category =
     answer_option (permit_category cx currentUser category CAT_VIEW)"

definition getDiscussionCategories :: "auth_context \<Rightarrow> user \<Rightarrow> handler" where
  "getDiscussionCategories cx currentUser =
     answer (permit_fw cx currentUser FW_GET_ALL_DISCUSSION_CATEGORIES)"

definition getDiscussionCategoriesFromRoot :: "auth_context \<Rightarrow> user \<Rightarrow> handler" where
  "getDiscussionCategoriesFromRoot cx currentUser =
     answer (permit_fw cx currentUser FW_GET_DISCUSSION_CATEGORIES_FROM_ROOT)"

definition getAllowDiscussionCategoryPrivilegeChange :: "auth_context \<Rightarrow> user \<Rightarrow> category \<Rightarrow> handler" where
  "getAllowDiscussionCategoryPrivilegeChange cx currentUser category =
     answer_option (permit_category cx currentUser category CAT_ADJUST_PRIVILEGE)"

definition addNewDiscussionCategory :: "auth_context \<Rightarrow> user \<Rightarrow> handler" where
  "addNewDiscussionCategory cx currentUser =
     throttled cx NEW_CONTENT currentUser
       (answer (permit_fw cx currentUser FW_ADD_DISCUSSION_CATEGORY))"

definition changeDiscussionCategoryName :: "auth_context \<Rightarrow> user \<Rightarrow> category \<Rightarrow> handler" where
  "changeDiscussionCategoryName cx currentUser category =
     throttled cx EDIT_CONTENT currentUser
       (answer_option (permit_category cx currentUser category CAT_CHANGE_NAME))"

definition changeDiscussionCategoryDescription :: "auth_context \<Rightarrow> user \<Rightarrow> category \<Rightarrow> handler" where
  "changeDiscussionCategoryDescription cx currentUser category =
     throttled cx EDIT_CONTENT currentUser
       (answer_option (permit_category cx currentUser category CAT_CHANGE_DESCRIPTION))"

definition changeDiscussionCategoryParent :: "auth_context \<Rightarrow> user \<Rightarrow> category \<Rightarrow> handler" where
  "changeDiscussionCategoryParent cx currentUser category =
     throttled cx EDIT_CONTENT currentUser
       (answer_option (permit_category cx currentUser category CAT_CHANGE_PARENT))"

definition changeDiscussionCategoryDisplayOrder :: "auth_context \<Rightarrow> user \<Rightarrow> category \<Rightarrow> handler" where
  "changeDiscussionCategoryDisplayOrder cx currentUser category =
     throttled cx EDIT_CONTENT currentUser
       (answer_option (permit_category cx currentUser category CAT_CHANGE_DISPLAYORDER))"

definition deleteDiscussionCategory :: "auth_context \<Rightarrow> user \<Rightarrow> category \<Rightarrow> handler" where
  "deleteDiscussionCategory cx currentUser category =
     throttled cx EDIT_CONTENT currentUser
       (answer_option (permit_category cx currentUser category CAT_DELETE))"

definition addDiscussionTagToCategory :: "auth_context \<Rightarrow> user \<Rightarrow> tag \<Rightarrow> category \<Rightarrow> handler" where
  "addDiscussionTagToCategory cx currentUser tag category =
     throttled cx EDIT_CONTENT currentUser
       (view_tag_then_option cx currentUser tag (permit_category cx currentUser category CAT_ADD_TAG))"

definition removeDiscussionTagFromCategory :: "auth_context \<Rightarrow> user \<Rightarrow> tag \<Rightarrow> category \<Rightarrow> handler" where
  "removeDiscussionTagFromCategory cx currentUser tag category =
     throttled cx EDIT_CONTENT currentUser
       (view_tag_then_option cx currentUser tag (permit_category cx currentUser category CAT_REMOVE_TAG))"

subsection \<open>Attachments\<close>

definition getAttachments :: "auth_context \<Rightarrow> user \<Rightarrow> handler" where
  "getAttachments cx currentUser =
     answer (permit_fw cx currentUser FW_GET_ALL_ATTACHMENTS)"

definition getAttachmentsOfUser :: "auth_context \<Rightarrow> user \<Rightarrow> user \<Rightarrow> handler" where
  "getAttachmentsOfUser cx currentUser user =
     (if usr_id currentUser = usr_id user then answer (\<lambda>_. OK)
      else answer (permit_fw cx currentUser FW_GET_ATTACHMENTS_OF_USER))"

definition checkMessageAllowViewApproval :: "auth_context \<Rightarrow> user \<Rightarrow> message \<Rightarrow> authorization \<Rightarrow> bool" where
  "checkMessageAllowViewApproval cx currentUser message a \<longleftrightarrow>
     (if msg_approved message then True
      else usr_id (h_user (cx_heap cx) (msg_createdBy message)) = usr_id currentUser
           \<or> OK = permit_message cx currentUser message MSG_VIEW_UNAPPROVED a)"

definition checkThreadAllowViewApproval :: "auth_context \<Rightarrow> user \<Rightarrow> thread \<Rightarrow> authorization \<Rightarrow> bool" where
  "checkThreadAllowViewApproval cx currentUser thread a \<longleftrightarrow>
     (if thr_approved thread then True
      else usr_id (h_user (cx_heap cx) (thr_createdBy thread)) = usr_id currentUser
           \<or> OK = permit_thread cx currentUser thread THR_VIEW_UNAPPROVED a)"

definition isAllowedToViewThread :: "auth_context \<Rightarrow> user \<Rightarrow> thread \<Rightarrow> authorization \<Rightarrow> bool" where
  "isAllowedToViewThread cx currentUser thread a \<longleftrightarrow>
     OK = permit_thread cx currentUser thread THR_VIEW a
     \<and> checkThreadAllowViewApproval cx currentUser thread a"

definition isAllowedToViewMessage :: "auth_context \<Rightarrow> user \<Rightarrow> message \<Rightarrow> authorization \<Rightarrow> bool" where
  "isAllowedToViewMessage cx currentUser message a \<longleftrightarrow>
     OK = permit_message cx currentUser message MSG_VIEW a
     \<and> checkMessageAllowViewApproval cx currentUser message a
     \<and> isAllowedToViewThread cx currentUser (h_thread (cx_heap cx) (msg_parentThread message)) a"

text \<open>The loop over the messages an attachment belongs to, with its early returns.\<close>

fun attachment_messages_loop ::
  "auth_context \<Rightarrow> user \<Rightarrow> attachment \<Rightarrow> ptr list \<Rightarrow> authorization \<Rightarrow> authorization_status" where
  "attachment_messages_loop cx currentUser attachment [] a = NOT_ALLOWED"
| "attachment_messages_loop cx currentUser attachment (messagePtr # rest) a =
     (let message = h_message (cx_heap cx) messagePtr
      in if usr_id currentUser = usr_id (h_user (cx_heap cx) (msg_createdBy message)) then OK
         else if OK = permit_message cx currentUser message MSG_VIEW_ATTACHMENT a
               \<and> (att_approved attachment
                  \<or> OK = permit_message cx currentUser message MSG_VIEW_UNAPPROVED_ATTACHMENT a)
               \<and> isAllowedToViewMessage cx currentUser message a
         then OK
         else attachment_messages_loop cx currentUser attachment rest a)"

definition canGetAttachment :: "auth_context \<Rightarrow> user \<Rightarrow> attachment \<Rightarrow> handler" where
  "canGetAttachment cx currentUser attachment =
     answer (\<lambda>a.
       if usr_id currentUser = usr_id (h_user (cx_heap cx) (att_createdBy attachment)) then OK
       else if OK = permit_fw cx currentUser FW_GET_ALL_ATTACHMENTS a then OK
       else if OK = permit_fw cx currentUser FW_GET_ATTACHMENTS_OF_USER a then OK
       else attachment_messages_loop cx currentUser attachment (att_messages attachment) a)"

definition canAddAttachment :: "auth_context \<Rightarrow> user \<Rightarrow> handler" where
  "canAddAttachment cx currentUser =
     throttled cx NEW_CONTENT currentUser
       (answer (permit_fw cx currentUser FW_CREATE_ATTACHMENT))"

definition addNewAttachment :: "auth_context \<Rightarrow> user \<Rightarrow> handler" where
  "addNewAttachment cx currentUser =
     canAddAttachment cx currentUser"

definition autoApproveAttachment :: "auth_context \<Rightarrow> user \<Rightarrow> handler" where
  "autoApproveAttachment cx currentUser =
     answer (permit_fw cx currentUser FW_AUTO_APPROVE_ATTACHMENT)"

definition changeAttachmentName :: "auth_context \<Rightarrow> user \<Rightarrow> attachment \<Rightarrow> handler" where
  "changeAttachmentName cx currentUser attachment =
     throttled cx EDIT_CONTENT currentUser
       (if usr_id currentUser = usr_id (h_user (cx_heap cx) (att_createdBy attachment))
        then answer (permit_fw cx currentUser FW_CHANGE_OWN_ATTACHMENT_NAME)
        else answer (permit_fw cx currentUser FW_CHANGE_ANY_ATTACHMENT_NAME))"

definition changeAttachmentApproval :: "auth_context \<Rightarrow> user \<Rightarrow> attachment \<Rightarrow> handler" where
  "changeAttachmentApproval cx currentUser attachment =
     throttled cx EDIT_CONTENT currentUser
       (answer (permit_fw cx currentUser FW_CHANGE_ANY_ATTACHMENT_APPROVAL))"

definition deleteAttachment :: "auth_context \<Rightarrow> user \<Rightarrow> attachment \<Rightarrow> handler" where
  "deleteAttachment cx currentUser attachment =
     throttled cx EDIT_CONTENT currentUser
       (if usr_id currentUser = usr_id (h_user (cx_heap cx) (att_createdBy attachment))
        then answer (permit_fw cx currentUser FW_DELETE_OWN_ATTACHMENT)
        else answer (permit_fw cx currentUser FW_DELETE_ANY_ATTACHMENT))"

definition addAttachmentToDiscussionThreadMessage :: "auth_context \<Rightarrow> user \<Rightarrow> attachment \<Rightarrow> message \<Rightarrow> handler" where
  "addAttachmentToDiscussionThreadMessage cx currentUser attachment message =
     (if usr_id currentUser \<noteq> usr_id (h_user (cx_heap cx) (att_createdBy attachment)) then answer (\<lambda>_. NOT_ALLOWED)
      else answer (permit_message cx currentUser message MSG_ADD_ATTACHMENT))"

definition removeAttachmentFromDiscussionThreadMessage :: "auth_context \<Rightarrow> user \<Rightarrow> attachment \<Rightarrow> message \<Rightarrow> handler" where
  "removeAttachmentFromDiscussionThreadMessage cx currentUser attachment message =
     throttled cx EDIT_CONTENT currentUser
       (answer (\<lambda>a.
          if OK = permit_message cx currentUser message MSG_REMOVE_ATTACHMENT a
             \<or> OK = permit_fw cx currentUser FW_DELETE_ANY_ATTACHMENT a
             \<or> usr_id currentUser = usr_id (h_user (cx_heap cx) (att_createdBy attachment))
                \<and> OK = permit_fw cx currentUser FW_DELETE_OWN_ATTACHMENT a
          then OK else NOT_ALLOWED))"

subsection \<open>Statistics\<close>

definition getEntitiesCount :: "auth_context \<Rightarrow> user \<Rightarrow> handler" where
  "getEntitiesCount cx currentUser =
     answer (permit_fw cx currentUser FW_GET_ENTITIES_COUNT)"

definition getVersion :: "auth_context \<Rightarrow> user \<Rightarrow> handler" where
  "getVersion cx currentUser =
     answer (permit_fw cx currentUser FW_GET_VERSION)"

subsection \<open>Changing required privileges\<close>

text \<open>The privilege that is changed is not looked at: the caller passes the value in force in \<open>oldValue\<close>.\<close>

definition updateDiscussionThreadMessagePrivilege_message :: "auth_context \<Rightarrow> user \<Rightarrow> message \<Rightarrow> privilege_value option \<Rightarrow> privilege_value \<Rightarrow> handler" where
  "updateDiscussionThreadMessagePrivilege_message cx currentUser message oldValue newValue =
     throttled cx EDIT_PRIVILEGES currentUser
       (update_answer (with_message cx currentUser message MSG_ADJUST_PRIVILEGE) oldValue newValue)"

definition updateDiscussionThreadMessagePrivilege_thread :: "auth_context \<Rightarrow> user \<Rightarrow> thread \<Rightarrow> privilege_value option \<Rightarrow> privilege_value \<Rightarrow> handler" where
  "updateDiscussionThreadMessagePrivilege_thread cx currentUser thread oldValue newValue =
     throttled cx EDIT_PRIVILEGES currentUser
       (update_answer (with_thread_msg cx currentUser thread MSG_ADJUST_PRIVILEGE) oldValue newValue)"

definition updateDiscussionThreadPrivilege_thread :: "auth_context \<Rightarrow> user \<Rightarrow> thread \<Rightarrow> privilege_value option \<Rightarrow> privilege_value \<Rightarrow> handler" where
  "updateDiscussionThreadPrivilege_thread cx currentUser thread oldValue newValue =
     throttled cx EDIT_PRIVILEGES currentUser
       (update_answer (with_thread cx currentUser thread THR_ADJUST_PRIVILEGE) oldValue newValue)"

definition updateDiscussionThreadMessagePrivilege_tag :: "auth_context \<Rightarrow> user \<Rightarrow> tag \<Rightarrow> privilege_value option \<Rightarrow> privilege_value \<Rightarrow> handler" where
  "updateDiscussionThreadMessagePrivilege_tag cx currentUser tag oldValue newValue =
     throttled cx EDIT_PRIVILEGES currentUser
       (update_answer (with_tag_msg cx currentUser tag MSG_ADJUST_PRIVILEGE) oldValue newValue)"

definition updateDiscussionThreadPrivilege_tag :: "auth_context \<Rightarrow> user \<Rightarrow> tag \<Rightarrow> privilege_value option \<Rightarrow> privilege_value \<Rightarrow> handler" where
  "updateDiscussionThreadPrivilege_tag cx currentUser tag oldValue newValue =
     throttled cx EDIT_PRIVILEGES currentUser
       (update_answer (with_tag_thr cx currentUser tag THR_ADJUST_PRIVILEGE) oldValue newValue)"

definition updateDiscussionTagPrivilege_tag :: "auth_context \<Rightarrow> user \<Rightarrow> tag \<Rightarrow> privilege_value option \<Rightarrow> privilege_value \<Rightarrow> handler" where
  "updateDiscussionTagPrivilege_tag cx currentUser tag oldValue newValue =
     throttled cx EDIT_PRIVILEGES currentUser
       (update_answer (with_tag cx currentUser tag TAG_ADJUST_PRIVILEGE) oldValue newValue)"

definition updateDiscussionCategoryPrivilege_category :: "auth_context \<Rightarrow> user \<Rightarrow> category \<Rightarrow> privilege_value option \<Rightarrow> privilege_value \<Rightarrow> handler" where
  "updateDiscussionCategoryPrivilege_category cx currentUser category oldValue newValue =
     throttled cx EDIT_PRIVILEGES currentUser
       (update_answer_option (with_category cx currentUser category CAT_ADJUST_PRIVILEGE) oldValue newValue)"

definition updateDiscussionThreadMessagePrivilege :: "auth_context \<Rightarrow> user \<Rightarrow> privilege_value option \<Rightarrow> privilege_value \<Rightarrow> handler" where
  "updateDiscussionThreadMessagePrivilege cx currentUser oldValue newValue =
     throttled cx EDIT_PRIVILEGES currentUser
       (update_answer (with_fw_msg cx currentUser MSG_ADJUST_PRIVILEGE) oldValue newValue)"

definition updateDiscussionThreadPrivilege :: "auth_context \<Rightarrow> user \<Rightarrow> privilege_value option \<Rightarrow> privilege_value \<Rightarrow> handler" where
  "updateDiscussionThreadPrivilege cx currentUser oldValue newValue =
     throttled cx EDIT_PRIVILEGES currentUser
       (update_answer (with_fw_thr cx currentUser THR_ADJUST_PRIVILEGE) oldValue newValue)"

definition updateDiscussionTagPrivilege :: "auth_context \<Rightarrow> user \<Rightarrow> privilege_value option \<Rightarrow> privilege_value \<Rightarrow> handler" where
  "updateDiscussionTagPrivilege cx currentUser oldValue newValue =
     throttled cx EDIT_PRIVILEGES currentUser
       (update_answer (with_fw_tag cx currentUser TAG_ADJUST_PRIVILEGE) oldValue newValue)"

definition updateDiscussionCategoryPrivilege :: "auth_context \<Rightarrow> user \<Rightarrow> privilege_value option \<Rightarrow> privilege_value \<Rightarrow> handler" where
  "updateDiscussionCategoryPrivilege cx currentUser oldValue newValue =
     throttled cx EDIT_PRIVILEGES currentUser
       (update_answer (with_fw_cat cx currentUser CAT_ADJUST_PRIVILEGE) oldValue newValue)"

definition updateForumWidePrivilege :: "auth_context \<Rightarrow> user \<Rightarrow> privilege_value option \<Rightarrow> privilege_value \<Rightarrow> handler" where
  "updateForumWidePrivilege cx currentUser oldValue newValue =
     throttled cx EDIT_PRIVILEGES currentUser
       (update_answer (with_fw cx currentUser FW_ADJUST_FORUM_WIDE_PRIVILEGE) oldValue newValue)"

definition updateForumWideDefaultPrivilegeLevel :: "auth_context \<Rightarrow> user \<Rightarrow> handler" where
  "updateForumWideDefaultPrivilegeLevel cx currentUser =
     throttled cx EDIT_PRIVILEGES currentUser
       (answer (permit_fw cx currentUser FW_ADJUST_FORUM_WIDE_PRIVILEGE))"

definition getForumWideRequiredPrivileges :: "auth_context \<Rightarrow> user \<Rightarrow> handler" where
  "getForumWideRequiredPrivileges cx currentUser =
     answer (permit_fw cx currentUser FW_VIEW_FORUM_WIDE_REQUIRED_PRIVILEGES)"

definition getForumWideAssignedPrivileges :: "auth_context \<Rightarrow> user \<Rightarrow> handler" where
  "getForumWideAssignedPrivileges cx currentUser =
     answer (permit_fw cx currentUser FW_VIEW_FORUM_WIDE_ASSIGNED_PRIVILEGES)"

definition getUserAssignedPrivileges :: "auth_context \<Rightarrow> user \<Rightarrow> user \<Rightarrow> handler" where
  "getUserAssignedPrivileges cx currentUser targetUser =
     (if usr_id currentUser = usr_id targetUser then answer (\<lambda>_. OK)
      else answer (permit_fw cx currentUser FW_VIEW_USER_ASSIGNED_PRIVILEGES))"

definition getAllowForumWidePrivilegeChange :: "auth_context \<Rightarrow> user \<Rightarrow> handler" where
  "getAllowForumWidePrivilegeChange cx currentUser =
     answer (permit_fw cx currentUser FW_ADJUST_FORUM_WIDE_PRIVILEGE)"

subsection \<open>Assigning privileges to users\<close>

definition assignDiscussionThreadMessagePrivilege :: "auth_context \<Rightarrow> user \<Rightarrow> message \<Rightarrow> user \<Rightarrow> privilege_value \<Rightarrow> handler" where
  "assignDiscussionThreadMessagePrivilege cx currentUser message targetUser newValue =
     (if usr_id currentUser = usr_id targetUser then answer (\<lambda>_. NOT_ALLOWED)
      else throttled cx EDIT_PRIVILEGES currentUser
       (assign_answer (with_message cx currentUser message MSG_ADJUST_PRIVILEGE)
          (\<lambda>a. calculateDiscussionThreadMessagePrivilege_message (au_grants a) (Some targetUser) message (cx_now cx) (None, None))
          newValue))"

definition assignDiscussionThreadPrivilege :: "auth_context \<Rightarrow> user \<Rightarrow> thread \<Rightarrow> user \<Rightarrow> privilege_value \<Rightarrow> handler" where
  "assignDiscussionThreadPrivilege cx currentUser thread targetUser newValue =
     (if usr_id currentUser = usr_id targetUser then answer (\<lambda>_. NOT_ALLOWED)
      else throttled cx EDIT_PRIVILEGES currentUser
       (assign_answer (with_thread cx currentUser thread THR_ADJUST_PRIVILEGE)
          (\<lambda>a. calculateDiscussionThreadPrivilege (au_grants a) (Some targetUser) thread (cx_now cx) (None, None))
          newValue))"

definition assignDiscussionTagPrivilege :: "auth_context \<Rightarrow> user \<Rightarrow> tag \<Rightarrow> user \<Rightarrow> privilege_value \<Rightarrow> handler" where
  "assignDiscussionTagPrivilege cx currentUser tag targetUser newValue =
     (if usr_id currentUser = usr_id targetUser then answer (\<lambda>_. NOT_ALLOWED)
      else throttled cx EDIT_PRIVILEGES currentUser
       (assign_answer (with_tag cx currentUser tag TAG_ADJUST_PRIVILEGE)
          (\<lambda>a. calculateDiscussionTagPrivilege (au_grants a) (Some targetUser) tag (cx_now cx) (None, None))
          newValue))"

definition assignDiscussionCategoryPrivilege :: "auth_context \<Rightarrow> user \<Rightarrow> category \<Rightarrow> user \<Rightarrow> privilege_value \<Rightarrow> handler" where
  "assignDiscussionCategoryPrivilege cx currentUser category targetUser newValue =
     (if usr_id currentUser = usr_id targetUser then answer (\<lambda>_. NOT_ALLOWED)
      else throttled cx EDIT_PRIVILEGES currentUser
       (assign_answer_option (with_category cx currentUser category CAT_ADJUST_PRIVILEGE)
          (\<lambda>a. calculateDiscussionCategoryPrivilege (au_grants a) (Some targetUser) category (cx_now cx) (None, None))
          newValue))"

definition assignForumWidePrivilege :: "auth_context \<Rightarrow> user \<Rightarrow> user \<Rightarrow> privilege_value \<Rightarrow> handler" where
  "assignForumWidePrivilege cx currentUser targetUser newValue =
     (if usr_id currentUser = usr_id targetUser then answer (\<lambda>_. NOT_ALLOWED)
      else throttled cx EDIT_PRIVILEGES currentUser
       (assign_answer (with_fw cx currentUser FW_ADJUST_FORUM_WIDE_PRIVILEGE)
          (\<lambda>a. calculateForumWidePrivilege (au_grants a) (Some targetUser) (cx_now cx) (None, None))
          newValue))"

end
