(* ===== verification/AuthorizationLemmas.thy ===== *)
theory AuthorizationLemmas
  imports Authorization
begin

section \<open>What the authorization of requests guarantees\<close>

text \<open>
  Every handler returns and changes nothing but the throttling history; what a handler that is let
  through implies; the limit on the number of actions a user gets through; assignments and changes
  of required privileges stay below the level of the user who makes them; the handlers and the
  restrictions of the serialization decide alike.
\<close>

lemmas with_defs =
  with_message_def with_thread_msg_def with_tag_msg_def with_thread_def with_tag_thr_def with_tag_def
  with_category_def with_fw_msg_def with_fw_thr_def with_fw_tag_def with_fw_cat_def with_fw_def

lemmas permit_defs =
  permit_message_def permit_thread_def permit_tag_def permit_category_def permit_fw_def

lemmas composing_defs =
  answer_def answer_option_def view_tag_then_def view_tag_then_option_def
  update_answer_def update_answer_option_def assign_answer_def assign_answer_option_def

lemma status_of_simps [simp]:
  "status_of None = NOT_ALLOWED" "status_of (Some v) = OK"
  "status_of w = OK \<longleftrightarrow> w \<noteq> None" "OK = status_of w \<longleftrightarrow> w \<noteq> None"
  "status_of w \<noteq> THROTTLED"
  by (auto simp: status_of_def)

subsection \<open>The handlers\<close>

text \<open>\<open>handler_of cx u f\<close>: \<open>f\<close> is a call of a function of the interface by user \<open>u\<close>.\<close>

inductive handler_of :: "auth_context \<Rightarrow> user \<Rightarrow> handler \<Rightarrow> bool" where
  "handler_of cx currentUser (getUsers cx currentUser)"
| "handler_of cx currentUser (getUserById cx currentUser user)"
| "handler_of cx currentUser (getUserByName cx currentUser user)"
| "handler_of cx currentUser (addNewUser cx currentUser)"
| "handler_of cx currentUser (changeUserName cx currentUser user)"
| "handler_of cx currentUser (changeUserInfo cx currentUser user)"
| "handler_of cx currentUser (changeUserTitle cx currentUser user)"
| "handler_of cx currentUser (changeUserSignature cx currentUser user)"
| "handler_of cx currentUser (changeUserAttachmentQuota cx currentUser user)"
| "handler_of cx currentUser (changeUserLogo cx currentUser user)"
| "handler_of cx currentUser (deleteUserLogo cx currentUser user)"
| "handler_of cx currentUser (deleteUser cx currentUser user)"
| "handler_of cx currentUser (sendPrivateMessage cx currentUser destinationUser)"
| "handler_of cx currentUser (deletePrivateMessage cx currentUser message)"
| "handler_of cx currentUser (getDiscussionThreadRequiredPrivileges cx currentUser thread)"
| "handler_of cx currentUser (getDiscussionThreadAssignedPrivileges cx currentUser thread)"
| "handler_of cx currentUser (getDiscussionThreads cx currentUser)"
| "handler_of cx currentUser (getDiscussionThreadById cx currentUser thread)"
| "handler_of cx currentUser (getDiscussionThreadSubscribedUsers cx currentUser thread)"
| "handler_of cx currentUser (getDiscussionThreadsOfUser cx currentUser user)"
| "handler_of cx currentUser (getSubscribedDiscussionThreadsOfUser cx currentUser user)"
| "handler_of cx currentUser (getDiscussionThreadsWithTag cx currentUser tag)"
| "handler_of cx currentUser (getDiscussionThreadsOfCategory cx currentUser category)"
| "handler_of cx currentUser (getAllowDiscussionThreadPrivilegeChange cx currentUser thread)"
| "handler_of cx currentUser (addNewDiscussionThread cx currentUser)"
| "handler_of cx currentUser (changeDiscussionThreadName cx currentUser thread)"
| "handler_of cx currentUser (changeDiscussionThreadPinDisplayOrder cx currentUser thread)"
| "handler_of cx currentUser (changeDiscussionThreadApproval cx currentUser thread)"
| "handler_of cx currentUser (autoApproveDiscussionThread cx currentUser)"
| "handler_of cx currentUser (deleteDiscussionThread cx currentUser thread)"
| "handler_of cx currentUser (mergeDiscussionThreads cx currentUser src into)"
| "handler_of cx currentUser (subscribeToDiscussionThread cx currentUser thread)"
| "handler_of cx currentUser (unsubscribeFromDiscussionThread cx currentUser thread)"
| "handler_of cx currentUser (getDiscussionThreadMessageRequiredPrivileges cx currentUser message)"
| "handler_of cx currentUser (getDiscussionThreadMessageAssignedPrivileges cx currentUser message)"
| "handler_of cx currentUser (getDiscussionThreadMessageById cx currentUser message)"
| "handler_of cx currentUser (getAllowDiscussionThreadMessagePrivilegeChange cx currentUser message)"
| "handler_of cx currentUser (getDiscussionThreadMessagesOfUserByCreated cx currentUser user)"
| "handler_of cx currentUser (getDiscussionThreadMessageRank cx currentUser message)"
| "handler_of cx currentUser (getMessageComments cx currentUser)"
| "handler_of cx currentUser (getMessageCommentsOfDiscussionThreadMessage cx currentUser message)"
| "handler_of cx currentUser (getMessageCommentsOfUser cx currentUser user)"
| "handler_of cx currentUser (addNewDiscussionMessageInThread cx currentUser thread)"
| "handler_of cx currentUser (autoApproveDiscussionMessageInThread cx currentUser thread)"
| "handler_of cx currentUser (deleteDiscussionMessage cx currentUser message)"
| "handler_of cx currentUser (changeDiscussionThreadMessageContent cx currentUser message)"
| "handler_of cx currentUser (changeDiscussionThreadMessageApproval cx currentUser message)"
| "handler_of cx currentUser (moveDiscussionThreadMessage cx currentUser message intoThread)"
| "handler_of cx currentUser (upVoteDiscussionThreadMessage cx currentUser message)"
| "handler_of cx currentUser (downVoteDiscussionThreadMessage cx currentUser message)"
| "handler_of cx currentUser (resetVoteDiscussionThreadMessage cx currentUser message)"
| "handler_of cx currentUser (addCommentToDiscussionThreadMessage cx currentUser message)"
| "handler_of cx currentUser (setMessageCommentToSolved cx currentUser comment)"
| "handler_of cx currentUser (getDiscussionTagRequiredPrivileges cx currentUser tag)"
| "handler_of cx currentUser (getDiscussionTagAssignedPrivileges cx currentUser tag)"
| "handler_of cx currentUser (getDiscussionTagById cx currentUser tag)"
| "handler_of cx currentUser (getDiscussionTags cx currentUser)"
| "handler_of cx currentUser (getAllowDiscussionTagPrivilegeChange cx currentUser tag)"
| "handler_of cx currentUser (addNewDiscussionTag cx currentUser)"
| "handler_of cx currentUser (changeDiscussionTagName cx currentUser tag)"
| "handler_of cx currentUser (changeDiscussionTagUiBlob cx currentUser tag)"
| "handler_of cx currentUser (deleteDiscussionTag cx currentUser tag)"
| "handler_of cx currentUser (addDiscussionTagToThread cx currentUser tag thread)"
| "handler_of cx currentUser (removeDiscussionTagFromThread cx currentUser tag thread)"
| "handler_of cx currentUser (mergeDiscussionTags cx currentUser src into)"
| "handler_of cx currentUser (getDiscussionCategoryRequiredPrivileges cx currentUser category)"
| "handler_of cx currentUser (getDiscussionCategoryAssignedPrivileges cx currentUser category)"
| "handler_of cx currentUser (getDiscussionCategoryById cx currentUser category)"
| "handler_of cx currentUser (getDiscussionCategories cx currentUser)"
| "handler_of cx currentUser (getDiscussionCategoriesFromRoot cx currentUser)"
| "handler_of cx currentUser (getAllowDiscussionCategoryPrivilegeChange cx currentUser category)"
| "handler_of cx currentUser (addNewDiscussionCategory cx currentUser)"
| "handler_of cx currentUser (changeDiscussionCategoryName cx currentUser category)"
| "handler_of cx currentUser (changeDiscussionCategoryDescription cx currentUser category)"
| "handler_of cx currentUser (changeDiscussionCategoryParent cx currentUser category)"
| "handler_of cx currentUser (changeDiscussionCategoryDisplayOrder cx currentUser category)"
| "handler_of cx currentUser (deleteDiscussionCategory cx currentUser category)"
| "handler_of cx currentUser (addDiscussionTagToCategory cx currentUser tag category)"
| "handler_of cx currentUser (removeDiscussionTagFromCategory cx currentUser tag category)"
| "handler_of cx currentUser (getAttachments cx currentUser)"
| "handler_of cx currentUser (getAttachmentsOfUser cx currentUser user)"
| "handler_of cx currentUser (canGetAttachment cx currentUser attachment)"
| "handler_of cx currentUser (canAddAttachment cx currentUser)"
| "handler_of cx currentUser (addNewAttachment cx currentUser)"
| "handler_of cx currentUser (autoApproveAttachment cx currentUser)"
| "handler_of cx currentUser (changeAttachmentName cx currentUser attachment)"
| "handler_of cx currentUser (changeAttachmentApproval cx currentUser attachment)"
| "handler_of cx currentUser (deleteAttachment cx currentUser attachment)"
| "handler_of cx currentUser (addAttachmentToDiscussionThreadMessage cx currentUser attachment message)"
| "handler_of cx currentUser (removeAttachmentFromDiscussionThreadMessage cx currentUser attachment message)"
| "handler_of cx currentUser (getEntitiesCount cx currentUser)"
| "handler_of cx currentUser (getVersion cx currentUser)"
| "handler_of cx currentUser (updateDiscussionThreadMessagePrivilege_message cx currentUser message oldValue newValue)"
| "handler_of cx currentUser (updateDiscussionThreadMessagePrivilege_thread cx currentUser thread oldValue newValue)"
| "handler_of cx currentUser (updateDiscussionThreadPrivilege_thread cx currentUser thread oldValue newValue)"
| "handler_of cx currentUser (updateDiscussionThreadMessagePrivilege_tag cx currentUser tag oldValue newValue)"
| "handler_of cx currentUser (updateDiscussionThreadPrivilege_tag cx currentUser tag oldValue newValue)"
| "handler_of cx currentUser (updateDiscussionTagPrivilege_tag cx currentUser tag oldValue newValue)"
| "handler_of cx currentUser (updateDiscussionCategoryPrivilege_category cx currentUser category oldValue newValue)"
| "handler_of cx currentUser (updateDiscussionThreadMessagePrivilege cx currentUser oldValue newValue)"
| "handler_of cx currentUser (updateDiscussionThreadPrivilege cx currentUser oldValue newValue)"
| "handler_of cx currentUser (updateDiscussionTagPrivilege cx currentUser oldValue newValue)"
| "handler_of cx currentUser (updateDiscussionCategoryPrivilege cx currentUser oldValue newValue)"
| "handler_of cx currentUser (updateForumWidePrivilege cx currentUser oldValue newValue)"
| "handler_of cx currentUser (updateForumWideDefaultPrivilegeLevel cx currentUser)"
| "handler_of cx currentUser (getForumWideRequiredPrivileges cx currentUser)"
| "handler_of cx currentUser (getForumWideAssignedPrivileges cx currentUser)"
| "handler_of cx currentUser (getUserAssignedPrivileges cx currentUser targetUser)"
| "handler_of cx currentUser (getAllowForumWidePrivilegeChange cx currentUser)"
| "handler_of cx currentUser (assignDiscussionThreadMessagePrivilege cx currentUser message targetUser newValue)"
| "handler_of cx currentUser (assignDiscussionThreadPrivilege cx currentUser thread targetUser newValue)"
| "handler_of cx currentUser (assignDiscussionTagPrivilege cx currentUser tag targetUser newValue)"
| "handler_of cx currentUser (assignDiscussionCategoryPrivilege cx currentUser category targetUser newValue)"
| "handler_of cx currentUser (assignForumWidePrivilege cx currentUser targetUser newValue)"

lemmas handler_defs =
  getUsers_def getUserById_def getUserByName_def addNewUser_def changeUserName_def
  changeUserInfo_def changeUserTitle_def changeUserSignature_def changeUserAttachmentQuota_def
  changeUserLogo_def deleteUserLogo_def deleteUser_def sendPrivateMessage_def
  deletePrivateMessage_def getDiscussionThreadRequiredPrivileges_def
  getDiscussionThreadAssignedPrivileges_def getDiscussionThreads_def getDiscussionThreadById_def
  getDiscussionThreadSubscribedUsers_def getDiscussionThreadsOfUser_def
  getSubscribedDiscussionThreadsOfUser_def getDiscussionThreadsWithTag_def
  getDiscussionThreadsOfCategory_def getAllowDiscussionThreadPrivilegeChange_def
  addNewDiscussionThread_def changeDiscussionThreadName_def
  changeDiscussionThreadPinDisplayOrder_def changeDiscussionThreadApproval_def
  autoApproveDiscussionThread_def deleteDiscussionThread_def mergeDiscussionThreads_def
  subscribeToDiscussionThread_def unsubscribeFromDiscussionThread_def
  getDiscussionThreadMessageRequiredPrivileges_def
  getDiscussionThreadMessageAssignedPrivileges_def getDiscussionThreadMessageById_def
  getAllowDiscussionThreadMessagePrivilegeChange_def
  getDiscussionThreadMessagesOfUserByCreated_def getDiscussionThreadMessageRank_def
  getMessageComments_def getMessageCommentsOfDiscussionThreadMessage_def
  getMessageCommentsOfUser_def addNewDiscussionMessageInThread_def
  autoApproveDiscussionMessageInThread_def deleteDiscussionMessage_def
  changeDiscussionThreadMessageContent_def changeDiscussionThreadMessageApproval_def
  moveDiscussionThreadMessage_def upVoteDiscussionThreadMessage_def
  downVoteDiscussionThreadMessage_def resetVoteDiscussionThreadMessage_def
  addCommentToDiscussionThreadMessage_def setMessageCommentToSolved_def
  getDiscussionTagRequiredPrivileges_def getDiscussionTagAssignedPrivileges_def
  getDiscussionTagById_def getDiscussionTags_def getAllowDiscussionTagPrivilegeChange_def
  addNewDiscussionTag_def changeDiscussionTagName_def changeDiscussionTagUiBlob_def
  deleteDiscussionTag_def addDiscussionTagToThread_def removeDiscussionTagFromThread_def
  mergeDiscussionTags_def getDiscussionCategoryRequiredPrivileges_def
  getDiscussionCategoryAssignedPrivileges_def getDiscussionCategoryById_def
  getDiscussionCategories_def getDiscussionCategoriesFromRoot_def
  getAllowDiscussionCategoryPrivilegeChange_def addNewDiscussionCategory_def
  changeDiscussionCategoryName_def changeDiscussionCategoryDescription_def
  changeDiscussionCategoryParent_def changeDiscussionCategoryDisplayOrder_def
  deleteDiscussionCategory_def addDiscussionTagToCategory_def removeDiscussionTagFromCategory_def
  getAttachments_def getAttachmentsOfUser_def canGetAttachment_def canAddAttachment_def
  addNewAttachment_def autoApproveAttachment_def changeAttachmentName_def
  changeAttachmentApproval_def deleteAttachment_def addAttachmentToDiscussionThreadMessage_def
  removeAttachmentFromDiscussionThreadMessage_def getEntitiesCount_def getVersion_def
  updateDiscussionThreadMessagePrivilege_message_def
  updateDiscussionThreadMessagePrivilege_thread_def updateDiscussionThreadPrivilege_thread_def
  updateDiscussionThreadMessagePrivilege_tag_def updateDiscussionThreadPrivilege_tag_def
  updateDiscussionTagPrivilege_tag_def updateDiscussionCategoryPrivilege_category_def
  updateDiscussionThreadMessagePrivilege_def updateDiscussionThreadPrivilege_def
  updateDiscussionTagPrivilege_def updateDiscussionCategoryPrivilege_def
  updateForumWidePrivilege_def updateForumWideDefaultPrivilegeLevel_def
  getForumWideRequiredPrivileges_def getForumWideAssignedPrivileges_def
  getUserAssignedPrivileges_def getAllowForumWidePrivilegeChange_def
  assignDiscussionThreadMessagePrivilege_def assignDiscussionThreadPrivilege_def
  assignDiscussionTagPrivilege_def assignDiscussionCategoryPrivilege_def
  assignForumWidePrivilege_def

lemma no_throttling_count [simp]:
  "NEW_CONTENT \<noteq> THROTTLING_COUNT" "EDIT_CONTENT \<noteq> THROTTLING_COUNT" "EDIT_PRIVILEGES \<noteq> THROTTLING_COUNT"
  "VOTE \<noteq> THROTTLING_COUNT" "SUBSCRIBE \<noteq> THROTTLING_COUNT"
  by simp_all

definition exempt :: "auth_context \<Rightarrow> user \<Rightarrow> authorization \<Rightarrow> bool" where
  "exempt cx u a \<longleftrightarrow> au_disableThrottling a \<or> with_fw cx u FW_NO_THROTTLING a \<noteq> None"

definition throttle_entry :: "auth_context \<Rightarrow> user \<Rightarrow> UserActionThrottling \<Rightarrow> throttle_request" where
  "throttle_entry cx u action = (action, cx_now cx, usr_id u, cx_ip cx)"

lemma isThrottled_exempt: "exempt cx u a \<Longrightarrow> isThrottled cx action u a = Some (False, a)"
  by (auto simp: isThrottled_def exempt_def)

lemma isThrottled_repr:
  assumes "\<not> exempt cx u a" "dt_repr H (au_throttling a)" "action \<noteq> THROTTLING_COUNT"
  shows "\<exists>d. isThrottled cx action u a =
      Some (request_throttled H (throttle_entry cx u action), a\<lparr>au_throttling := d\<rparr>) \<and>
    dt_repr (H @ [throttle_entry cx u action]) d"
  using dt_check_repr [OF assms(2,3), of "cx_now cx" "usr_id u" "cx_ip cx"] assms(1)
  by (auto simp: isThrottled_def exempt_def throttle_entry_def)

text \<open>
  A well behaved step: it returns, changes only the throttling state, and records at most one
  attempt, of the user, now.
\<close>

definition well_behaved :: "auth_context \<Rightarrow> user \<Rightarrow> handler \<Rightarrow> bool" where
  "well_behaved cx u f \<longleftrightarrow> (\<forall>H a. dt_repr H (au_throttling a) \<longrightarrow>
     (\<exists>st d reqs. f a = Some (st, a\<lparr>au_throttling := d\<rparr>) \<and> dt_repr (H @ reqs) d \<and>
        (reqs = [] \<or> (\<exists>action. reqs = [throttle_entry cx u action]))))"

lemma well_behaved_keep:
  assumes "\<And>a. \<exists>st. f a = Some (st, a)"
  shows "well_behaved cx u f"
  unfolding well_behaved_def
proof (intro allI impI)
  fix H and a :: authorization assume "dt_repr H (au_throttling a)"
  moreover obtain st where "f a = Some (st, a)" using assms by blast
  moreover have "a = a\<lparr>au_throttling := au_throttling a\<rparr>" by simp
  ultimately show "\<exists>st d reqs. f a = Some (st, a\<lparr>au_throttling := d\<rparr>) \<and> dt_repr (H @ reqs) d \<and>
        (reqs = [] \<or> (\<exists>action. reqs = [throttle_entry cx u action]))"
    by (metis append_Nil2)
qed

lemma well_behaved_answer [forum_intros]: "well_behaved cx u (answer f)"
  by (rule well_behaved_keep) (simp add: answer_def)

lemma well_behaved_answer_option [forum_intros]:
  "(\<And>a. f a \<noteq> None) \<Longrightarrow> well_behaved cx u (answer_option f)"
  by (rule well_behaved_keep) (auto simp: answer_option_def split: option.split)

lemma well_behaved_if [forum_intros]:
  "(b \<Longrightarrow> well_behaved cx u f) \<Longrightarrow> (\<not> b \<Longrightarrow> well_behaved cx u g) \<Longrightarrow> well_behaved cx u (if b then f else g)"
  by simp

lemma well_behaved_throttled [forum_intros]:
  assumes "\<And>a. \<exists>st. rest a = Some (st, a)" "action \<noteq> THROTTLING_COUNT"
  shows "well_behaved cx u (throttled cx action u rest)"
  unfolding well_behaved_def
proof (intro allI impI)
  fix H and a :: authorization assume repr: "dt_repr H (au_throttling a)"
  show "\<exists>st d reqs. throttled cx action u rest a = Some (st, a\<lparr>au_throttling := d\<rparr>) \<and> dt_repr (H @ reqs) d \<and>
        (reqs = [] \<or> (\<exists>action. reqs = [throttle_entry cx u action]))"
  proof (cases "exempt cx u a")
    case True
    have "well_behaved cx u rest" by (rule well_behaved_keep) (rule assms(1))
    with True repr show ?thesis by (simp add: throttled_def isThrottled_exempt well_behaved_def)
  next
    case False
    obtain d where d: "isThrottled cx action u a =
        Some (request_throttled H (throttle_entry cx u action), a\<lparr>au_throttling := d\<rparr>)"
        "dt_repr (H @ [throttle_entry cx u action]) d"
      using isThrottled_repr [OF False repr assms(2)] by blast
    moreover obtain st where "rest (a\<lparr>au_throttling := d\<rparr>) = Some (st, a\<lparr>au_throttling := d\<rparr>)"
      using assms(1) by blast
    ultimately have "throttled cx action u rest a =
        Some (if request_throttled H (throttle_entry cx u action) then THROTTLED else st, a\<lparr>au_throttling := d\<rparr>)"
      by (simp add: throttled_def)
    with d(2) show ?thesis by blast
  qed
qed

lemma with_category_total:
  assumes "acyclic_parents (cx_heap cx) rank"
  shows "with_category cx u c p a \<noteq> None"
proof -
  define fuel where "fuel = (case cat_parent c of None \<Rightarrow> 0 | Some q \<Rightarrow> Suc (rank q))"
  have "case cat_parent c of None \<Rightarrow> True | Some q \<Rightarrow> rank q < fuel"
    by (simp add: fuel_def split: option.split)
  from ancestors_rank [OF assms this] obtain ps where "ancestors (cx_heap cx) fuel (cat_parent c) = Some ps" by blast
  from isAllowed_category_spec [OF this] show ?thesis by (simp add: with_category_def)
qed

lemma calculatePrivilege_positive: "fst (calculatePrivilege s es u eid now pn) \<noteq> None"
proof (cases "isAnonymousUser u")
  case True
  then show ?thesis by (cases pn; cases "fst pn") (simp_all add: calculatePrivilege_anonymous)
next
  case False
  then obtain v where v: "u = Some v" by (auto simp: isAnonymousUser_def split: option.splits)
  obtain p where "maximumPrivilegeValue_oo (fst pn) (Some (defaultPositiveValue s v)) = Some p"
    by (cases "fst pn") simp_all
  with False show ?thesis
    by (cases pn) (simp add: v calculatePrivilege_user fold_apply_value)
qed

lemma calculate_positive:
  "fst (calculateDiscussionThreadMessagePrivilege_message s u m now pn) \<noteq> None"
  "fst (calculateDiscussionThreadPrivilege s u t now pn) \<noteq> None"
  "fst (calculateDiscussionTagPrivilege s u g now pn) \<noteq> None"
  "fst (calculateDiscussionCategoryPrivilege s u c now pn) \<noteq> None"
  "fst (calculateForumWidePrivilege s u now pn) \<noteq> None"
  by (simp_all add: calculateDiscussionThreadMessagePrivilege_message_def calculateDiscussionThreadPrivilege_def
    calculateDiscussionTagPrivilege_def calculateDiscussionCategoryPrivilege_def
    calculateForumWidePrivilege_def calculatePrivilege_positive)

lemma assign_status_total: "fst old \<noteq> None \<Longrightarrow> \<exists>st. assign_status w old newValue = Some st"
  by (auto simp: assign_status_def computeOldValueForAssigningPrivileges_def split: option.split)

text \<open>The continuations of the guarded handlers keep the state.\<close>

lemma keeps_state [forum_intros]:
  "\<exists>st. answer f a = Some (st, a)"
  "g a \<noteq> None \<Longrightarrow> \<exists>st. answer_option g a = Some (st, a)"
  "(b \<Longrightarrow> \<exists>st. h a = Some (st, a)) \<Longrightarrow> (\<not> b \<Longrightarrow> \<exists>st. k a = Some (st, a)) \<Longrightarrow>
     \<exists>st. (if b then h else k) a = Some (st, a)"
  "\<exists>st. view_tag_then cx u t r a = Some (st, a)"
  "g a \<noteq> None \<Longrightarrow> \<exists>st. view_tag_then_option cx u t g a = Some (st, a)"
  "\<exists>st. update_answer w ov nv a = Some (st, a)"
  "x a \<noteq> None \<Longrightarrow> \<exists>st. update_answer_option x ov nv a = Some (st, a)"
  "fst (old a) \<noteq> None \<Longrightarrow> \<exists>st. assign_answer w old nv a = Some (st, a)"
  "x a \<noteq> None \<Longrightarrow> fst (old a) \<noteq> None \<Longrightarrow> \<exists>st. assign_answer_option x old nv a = Some (st, a)"
  using assign_status_total [of "old a" _ nv]
  by (auto simp: composing_defs Let_def split: option.split)

lemma handler_well_behaved:
  assumes "handler_of cx u f" "acyclic_parents (cx_heap cx) rank"
  shows "well_behaved cx u f"
  using assms
  by (induction rule: handler_of.induct; unfold handler_defs;
      intro forum_intros no_throttling_count calculate_positive;
      simp add: permit_category_def with_category_total view_tag_then_def well_behaved_answer)

subsection \<open>The number of actions a user gets through\<close>

fun run_handlers :: "handler list \<Rightarrow> authorization \<Rightarrow> (authorization_status list \<times> authorization) option" where
  "run_handlers [] a = Some ([], a)"
| "run_handlers (f # fs) a =
     (case f a of
        None \<Rightarrow> None
      | Some (st, a') \<Rightarrow>
          (case run_handlers fs a' of None \<Rightarrow> None | Some (sts, a'') \<Rightarrow> Some (st # sts, a'')))"

text \<open>
  A step that answers \<open>OK\<close> only for an attempt at \<open>action\<close> that was recorded and not throttled.
\<close>

definition limited :: "UserActionThrottling \<Rightarrow> auth_context \<Rightarrow> user \<Rightarrow> handler \<Rightarrow> bool" where
  "limited action cx u f \<longleftrightarrow> (\<forall>H a. dt_repr H (au_throttling a) \<longrightarrow> \<not> exempt cx u a \<longrightarrow>
     (\<exists>st d. f a = Some (st, a\<lparr>au_throttling := d\<rparr>) \<and>
        (st \<noteq> OK \<and> dt_repr H d
         \<or> (request_throttled H (throttle_entry cx u action) \<longrightarrow> st \<noteq> OK)
           \<and> dt_repr (H @ [throttle_entry cx u action]) d)))"

lemma limited_refuse [forum_intros]: "limited action cx u (answer (\<lambda>_. NOT_ALLOWED))"
proof -
  have "\<exists>d. a = a\<lparr>au_throttling := d\<rparr> \<and> dt_repr H d" if "dt_repr H (au_throttling a)" for H and a :: authorization
    by (rule exI [of _ "au_throttling a"]) (simp add: that)
  then show ?thesis unfolding limited_def answer_def by simp blast
qed

lemma limited_if [forum_intros]:
  "(b \<Longrightarrow> limited action cx u f) \<Longrightarrow> (\<not> b \<Longrightarrow> limited action cx u g) \<Longrightarrow> limited action cx u (if b then f else g)"
  by simp

lemma limited_throttled [forum_intros]:
  assumes "\<And>a. \<exists>st. rest a = Some (st, a)" "action \<noteq> THROTTLING_COUNT"
  shows "limited action cx u (throttled cx action u rest)"
  unfolding limited_def
proof (intro allI impI)
  fix H and a :: authorization
  assume "dt_repr H (au_throttling a)" "\<not> exempt cx u a"
  then obtain d where d: "isThrottled cx action u a =
        Some (request_throttled H (throttle_entry cx u action), a\<lparr>au_throttling := d\<rparr>)"
        "dt_repr (H @ [throttle_entry cx u action]) d"
    using isThrottled_repr assms(2) by blast
  obtain st where st: "rest (a\<lparr>au_throttling := d\<rparr>) = Some (st, a\<lparr>au_throttling := d\<rparr>)"
    using assms(1) by blast
  let ?st = "if request_throttled H (throttle_entry cx u action) then THROTTLED else st"
  have "throttled cx action u rest a = Some (?st, a\<lparr>au_throttling := d\<rparr>)"
    using d(1) st by (simp add: throttled_def)
  moreover have "request_throttled H (throttle_entry cx u action) \<longrightarrow> ?st \<noteq> OK" by simp
  ultimately show "\<exists>st d. throttled cx action u rest a = Some (st, a\<lparr>au_throttling := d\<rparr>) \<and>
        (st \<noteq> OK \<and> dt_repr H d
         \<or> (request_throttled H (throttle_entry cx u action) \<longrightarrow> st \<noteq> OK)
           \<and> dt_repr (H @ [throttle_entry cx u action]) d)"
    using d(2) by blast
qed

lemma passed_snoc:
  "card (passed n p (ts @ [t]) b) =
   card (passed n p ts b) + (if \<not> throttled_after n p ts t \<and> b \<le> t \<and> t < b + p then 1 else 0)"
proof -
  have run: "throttled_run n p [] (ts @ [t]) = throttled_run n p [] ts @ [throttled_after n p ts t]"
    by (simp add: throttled_run_def nth_append)
  have old: "k \<in> passed n p (ts @ [t]) b \<longleftrightarrow> k \<in> passed n p ts b" if "k < length ts" for k
    using that by (auto simp: passed_def run nth_append throttled_run_def)
  have new: "length ts \<in> passed n p (ts @ [t]) b \<longleftrightarrow> \<not> throttled_after n p ts t \<and> b \<le> t \<and> t < b + p"
    by (simp add: passed_def run nth_append throttled_run_def)
  have "k \<in> passed n p (ts @ [t]) b \<longleftrightarrow>
      k \<in> passed n p ts b \<union> (if \<not> throttled_after n p ts t \<and> b \<le> t \<and> t < b + p then {length ts} else {})" for k
    using old [of k] new
    by (cases k "length ts" rule: linorder_cases) (auto simp: passed_def)
  then have "passed n p (ts @ [t]) b =
      passed n p ts b \<union> (if \<not> throttled_after n p ts t \<and> b \<le> t \<and> t < b + p then {length ts} else {})"
    by blast
  moreover have "finite (passed n p ts b)" "length ts \<notin> passed n p ts b" by (auto simp: passed_def)
  ultimately show ?thesis by simp
qed

definition ok_between :: "timestamp \<Rightarrow> timestamp \<Rightarrow> timestamp list \<Rightarrow> authorization_status list \<Rightarrow> nat" where
  "ok_between b e ts sts = length (filter (\<lambda>(t, st). st = OK \<and> b \<le> t \<and> t < e) (zip ts sts))"

type_synonym user_call = "auth_context \<times> user \<times> handler"

fun call_time :: "user_call \<Rightarrow> timestamp" where
  "call_time (cx, u, f) = cx_now cx"

fun call_handler :: "user_call \<Rightarrow> handler" where
  "call_handler (cx, u, f) = f"

lemma limited_run:
  assumes "\<forall>(cx, u, f) \<in> set calls. limited action cx u f \<and> IdOrIpAddress (usr_id u) (cx_ip cx) = key
             \<and> \<not> exempt cx u a"
    and "dt_repr H (au_throttling a)"
    and "sorted (key_history H key action @ map call_time calls)"
    and "n = throttling_limit action" "p = throttling_period action"
  shows "\<exists>sts a' H'. run_handlers (map call_handler calls) a = Some (sts, a') \<and> dt_repr H' (au_throttling a')
     \<and> length sts = length calls \<and> sorted (key_history H' key action)
     \<and> ok_between b (b + p) (map call_time calls) sts + card (passed n p (key_history H key action) b)
         \<le> card (passed n p (key_history H' key action) b)"
  using assms(1-3)
proof (induction calls arbitrary: a H)
  case Nil
  then show ?case by (auto simp: ok_between_def)
next
  case (Cons call calls)
  obtain cx u f where call: "call = (cx, u, f)" by (cases call)
  let ?r = "throttle_entry cx u action"
  have f: "limited action cx u f" "IdOrIpAddress (usr_id u) (cx_ip cx) = key" "\<not> exempt cx u a"
    using Cons.prems(1) call by auto
  obtain st d where step: "f a = Some (st, a\<lparr>au_throttling := d\<rparr>)"
    "st \<noteq> OK \<and> dt_repr H d
     \<or> (request_throttled H ?r \<longrightarrow> st \<noteq> OK) \<and> dt_repr (H @ [?r]) d"
    using f(1,3) Cons.prems(2) unfolding limited_def by blast
  have exempt: "exempt cx' u' (a\<lparr>au_throttling := d\<rparr>) = exempt cx' u' a" for cx' u'
    by (simp add: exempt_def with_fw_def)
  define H1 where "H1 = (if st \<noteq> OK \<and> dt_repr H d then H else H @ [?r])"
  have H1: "dt_repr H1 d" using step(2) by (auto simp: H1_def)
  have hist: "key_history (H @ [?r]) key action = key_history H key action @ [cx_now cx]"
    using f(2) by (simp add: throttle_entry_def key_history_snoc)
  have thr: "request_throttled H ?r = throttled_after n p (key_history H key action) (cx_now cx)"
    using f(2) assms(4,5) by (simp add: request_throttled_def throttle_entry_def)
  have count: "(if st = OK \<and> b \<le> cx_now cx \<and> cx_now cx < b + p then 1 else 0)
      + card (passed n p (key_history H key action) b) \<le> card (passed n p (key_history H1 key action) b)"
    using step(2) by (auto simp: H1_def hist passed_snoc thr)
  have "sorted (key_history H1 key action @ map call_time calls)"
    using Cons.prems(3) call hist by (auto simp: H1_def sorted_append)
  then obtain sts a' H' where IH: "run_handlers (map call_handler calls) (a\<lparr>au_throttling := d\<rparr>) = Some (sts, a')"
    "dt_repr H' (au_throttling a')" "length sts = length calls" "sorted (key_history H' key action)"
    "ok_between b (b + p) (map call_time calls) sts + card (passed n p (key_history H1 key action) b)
         \<le> card (passed n p (key_history H' key action) b)"
    using Cons.IH [of "a\<lparr>au_throttling := d\<rparr>" H1] Cons.prems(1) H1 by (auto simp: exempt)
  have "ok_between b (b + p) (map call_time (call # calls)) (st # sts) =
      (if st = OK \<and> b \<le> cx_now cx \<and> cx_now cx < b + p then 1 else 0)
      + ok_between b (b + p) (map call_time calls) sts"
    by (simp add: ok_between_def call)
  with IH count step(1) call show ?case
    by (intro exI [of _ "st # sts"] exI [of _ a'] exI [of _ H']) simp
qed

lemma limited_calls:
  assumes "\<forall>(cx, u, f) \<in> set calls. limited action cx u f \<and> IdOrIpAddress (usr_id u) (cx_ip cx) = key
             \<and> \<not> exempt cx u (DefaultAuthorization s dis)"
    and "sorted (map call_time calls)" "action \<noteq> THROTTLING_COUNT"
  shows "\<exists>sts a'. run_handlers (map call_handler calls) (DefaultAuthorization s dis) = Some (sts, a')
     \<and> length sts = length calls
     \<and> ok_between b (b + throttling_period action) (map call_time calls) sts \<le> throttling_limit action"
proof -
  have "dt_repr [] (au_throttling (DefaultAuthorization s dis))"
    by (simp add: DefaultAuthorization_def dt_repr_empty)
  from limited_run [OF assms(1) this _ refl refl, of b] assms(2) obtain sts a' H' where run:
    "run_handlers (map call_handler calls) (DefaultAuthorization s dis) = Some (sts, a')"
    "length sts = length calls" "sorted (key_history H' key action)"
    "ok_between b (b + throttling_period action) (map call_time calls) sts
       \<le> card (passed (throttling_limit action) (throttling_period action) (key_history H' key action) b)"
    by (auto simp: key_history_def)
  have "0 < throttling_limit action"
    using assms(3) by (cases action) (simp_all add: throttling_limit_def ThrottlingDefaultValues_def)
  from rate_limit [OF this run(3)] run show ?thesis by (meson order.trans)
qed

datatype vote_action = UpVote | DownVote | ResetVote

fun vote_handler :: "vote_action \<Rightarrow> auth_context \<Rightarrow> user \<Rightarrow> message \<Rightarrow> handler" where
  "vote_handler UpVote cx u m = upVoteDiscussionThreadMessage cx u m"
| "vote_handler DownVote cx u m = downVoteDiscussionThreadMessage cx u m"
| "vote_handler ResetVote cx u m = resetVoteDiscussionThreadMessage cx u m"

lemma limited_vote: "limited VOTE cx u (vote_handler v cx u m)"
proof -
  have "limited VOTE cx u f" if "f \<in> {upVoteDiscussionThreadMessage cx u m, downVoteDiscussionThreadMessage cx u m,
      resetVoteDiscussionThreadMessage cx u m}" for f
    using that unfolding handler_defs
    by (auto simp: answer_def intro!: limited_refuse [unfolded answer_def] limited_throttled)
  then show ?thesis by (cases v) simp_all
qed

subsection \<open>Acting on other users\<close>

lemma throttled_OK:
  "throttled cx action u rest a = Some (OK, a') \<Longrightarrow>
   \<exists>d. rest (a\<lparr>au_throttling := d\<rparr>) = Some (OK, a')"
proof -
  assume ok: "throttled cx action u rest a = Some (OK, a')"
  then obtain b a1 where t: "isThrottled cx action u a = Some (b, a1)" "\<not> b" "rest a1 = Some (OK, a')"
    by (auto simp: throttled_def split: option.splits if_splits)
  have "\<exists>d. a1 = a\<lparr>au_throttling := d\<rparr>"
  proof (cases "exempt cx u a")
    case True
    then show ?thesis using t(1)
      by (intro exI [of _ "au_throttling a"]) (simp add: isThrottled_exempt)
  next
    case False
    then show ?thesis using t(1) by (auto simp: isThrottled_def exempt_def split: option.splits)
  qed
  with t(3) show ?thesis by blast
qed

lemma assign_status_OK:
  assumes "assign_status w (p, n) newValue = Some OK"
  shows "\<exists>level. w = Some level \<and> (\<forall>v. p = Some v \<longrightarrow> v < level) \<and> \<bar>newValue\<bar> < level"
proof -
  obtain level where w: "w = Some level"
    using assms by (cases w) (simp_all add: assign_status_def)
  with assms show ?thesis
    by (cases p; cases n)
      (auto simp: assign_status_def computeOldValueForAssigningPrivileges_def allowPrivilegeAssignment_def
        split: if_splits)
qed

lemma active_values_grant:
  "active_values now uid (grant_entry uid eid v now ex es, eid) =
   (if v = 0 then [] else active_values now uid (es, eid) @ (if 0 < ex \<and> ex < now then [] else [v]))"
  by (simp add: active_values_def equal_range_user_entity_def grant_entry_def erase_user_entity_def
      entry_expired_def filter_empty_conv)

text \<open>
  The positive value a user has at a level after a grant is at most the larger of the one he had and
  the one that was granted.
\<close>

lemma calculatePrivilege_grant_le:
  assumes "fst (calculatePrivilege s (grant_entry (usr_id u) eid v now expires es) (Some u) eid now (None, None)) = Some q"
    and "fst (calculatePrivilege s es (Some u) eid now (None, None)) = Some p"
  shows "q \<le> max p v"
proof (cases "isAnonymousUser (Some u)")
  case True
  with assms show ?thesis by (auto simp: calculatePrivilege_anonymous)
next
  case False
  let ?act = "\<lambda>es. active_values now (usr_id u) (es, eid)"
  let ?d = "defaultPositiveValue s u"
  define A where "A = {w \<in> set (?act es). w > 0}"
  define B where "B = {w \<in> set (?act (grant_entry (usr_id u) eid v now expires es)). w > 0}"
  have q: "q = Max (insert ?d B)" and p: "p = Max (insert ?d A)"
    using assms False by (simp_all add: calculatePrivilege_user fold_apply_value A_def B_def)
  have "set (?act (grant_entry (usr_id u) eid v now expires es)) \<subseteq> insert v (set (?act es))"
    by (simp add: active_values_grant subset_insertI)
  then have "B \<subseteq> insert v A" by (auto simp: A_def B_def)
  moreover have "finite A" by (simp add: A_def)
  ultimately have "Max (insert ?d B) \<le> Max (insert ?d (insert v A))"
    by (intro Max_mono) auto
  also have "\<dots> = max v p" using \<open>finite A\<close> by (simp add: p insert_commute [of ?d v])
  finally show ?thesis by (simp add: q max.commute)
qed

lemma assigned_below:
  assumes "assign_status w (calculatePrivilege s es (Some target) eid now (None, None)) v = Some OK"
  shows "\<exists>level q. w = Some level \<and> q < level \<and> \<bar>v\<bar> < level \<and>
    fst (calculatePrivilege s (grant_entry (usr_id target) eid v now expires es) (Some target) eid now (None, None)) = Some q"
proof -
  obtain p n where old: "calculatePrivilege s es (Some target) eid now (None, None) = (Some p, n)"
    using calculatePrivilege_positive [of s es "Some target" eid now "(None, None)"]
    by (metis not_Some_eq prod.collapse)
  obtain level where level: "w = Some level" "p < level" "\<bar>v\<bar> < level"
    using assign_status_OK [OF assms [unfolded old]] by blast
  obtain q where q: "fst (calculatePrivilege s (grant_entry (usr_id target) eid v now expires es)
      (Some target) eid now (None, None)) = Some q"
    using calculatePrivilege_positive by blast
  have "q \<le> max p v"
    using calculatePrivilege_grant_le [OF q] old by simp
  with level q show ?thesis by (intro exI [of _ level] exI [of _ q]) simp
qed

lemma assign_OK:
  "throttled cx action u (assign_answer w old v) a = Some (OK, a') \<Longrightarrow>
   \<exists>d. assign_status (w (a\<lparr>au_throttling := d\<rparr>)) (old (a\<lparr>au_throttling := d\<rparr>)) v = Some OK"
  "throttled cx action u (assign_answer_option wo old v) a = Some (OK, a') \<Longrightarrow>
   \<exists>d x. wo (a\<lparr>au_throttling := d\<rparr>) = Some x \<and> assign_status x (old (a\<lparr>au_throttling := d\<rparr>)) v = Some OK"
  by (drule throttled_OK, force simp: composing_defs split: option.splits)+

lemma calculatePrivilege_bonus_cong:
  assumes "defaultPositiveValue s u = defaultPositiveValue s' u"
  shows "calculatePrivilege s es (Some u) eid now = calculatePrivilege s' es (Some u) eid now"
  using assms by (simp add: calculatePrivilege_def fun_eq_iff)

lemma defaultPositiveValue_grant [simp]:
  "defaultPositiveValue (grantDiscussionThreadMessagePrivilege uid eid v now ex s) u = defaultPositiveValue s u"
  "defaultPositiveValue (grantDiscussionThreadPrivilege uid eid v now ex s) u = defaultPositiveValue s u"
  "defaultPositiveValue (grantDiscussionTagPrivilege uid eid v now ex s) u = defaultPositiveValue s u"
  "defaultPositiveValue (grantDiscussionCategoryPrivilege uid eid v now ex s) u = defaultPositiveValue s u"
  "defaultPositiveValue (grantForumWidePrivilege uid eid v now ex s) u = defaultPositiveValue s u"
  by (simp_all add: defaultPositiveValue_def grant_defs)

lemma throttling_unread [simp]:
  "with_message cx u m pm (a\<lparr>au_throttling := d\<rparr>) = with_message cx u m pm a"
  "with_thread cx u t pt (a\<lparr>au_throttling := d\<rparr>) = with_thread cx u t pt a"
  "with_tag cx u g pg (a\<lparr>au_throttling := d\<rparr>) = with_tag cx u g pg a"
  "with_category cx u c pc (a\<lparr>au_throttling := d\<rparr>) = with_category cx u c pc a"
  "with_fw cx u pf (a\<lparr>au_throttling := d\<rparr>) = with_fw cx u pf a"
  by (simp_all add: with_defs)

subsection \<open>The serialization decides alike\<close>

definition restriction_for :: "auth_context \<Rightarrow> user \<Rightarrow> authorization \<Rightarrow> restriction" where
  "restriction_for cx u a = \<lparr>sr_store = au_grants a, sr_forumWide = h_forumWide (cx_heap cx),
     sr_user = Some u, sr_now = cx_now cx\<rparr>"

lemma restriction_isAllowed:
  "sr_isAllowed_message (restriction_for cx u a) (cx_heap cx) m pm \<longleftrightarrow> permit_message cx u m pm a = OK"
  "sr_isAllowed_thread (restriction_for cx u a) (cx_heap cx) t pt \<longleftrightarrow> permit_thread cx u t pt a = OK"
  "sr_isAllowed_tag (restriction_for cx u a) (cx_heap cx) g pg \<longleftrightarrow> permit_tag cx u g pg a = OK"
  "sr_isAllowed (restriction_for cx u a) pf \<longleftrightarrow> permit_fw cx u pf a = OK"
  by (simp_all add: restriction_for_def sr_isAllowed_message_def sr_isAllowed_thread_def sr_isAllowed_tag_def
      sr_isAllowed_def permit_defs with_defs)

lemma view_thread_agree:
  "sr_isAllowedToViewThread (restriction_for cx u a) (cx_heap cx) t \<longleftrightarrow> isAllowedToViewThread cx u t a"
  unfolding sr_isAllowedToViewThread_def isAllowedToViewThread_def sr_checkThreadAllowViewApproval_def
    checkThreadAllowViewApproval_def restriction_isAllowed
  by (auto simp: sr_userId_def restriction_for_def)

lemma view_message_agree:
  "sr_isAllowedToViewMessage (restriction_for cx u a) (cx_heap cx) m \<longleftrightarrow> isAllowedToViewMessage cx u m a"
  unfolding sr_isAllowedToViewMessage_def isAllowedToViewMessage_def sr_checkMessageAllowViewApproval_def
    checkMessageAllowViewApproval_def restriction_isAllowed view_thread_agree
  by (auto simp: sr_userId_def restriction_for_def)

subsection \<open>Attachments\<close>

lemma attachment_loop_OK:
  "attachment_messages_loop cx u att ms a = OK \<longleftrightarrow>
   (\<exists>p\<in>set ms. let m = h_message (cx_heap cx) p in
      usr_id u = usr_id (h_user (cx_heap cx) (msg_createdBy m))
      \<or> permit_message cx u m MSG_VIEW_ATTACHMENT a = OK
        \<and> (att_approved att \<or> permit_message cx u m MSG_VIEW_UNAPPROVED_ATTACHMENT a = OK)
        \<and> isAllowedToViewMessage cx u m a)"
  by (induction ms) (auto simp: Let_def)

lemma attachment_loop_status: "attachment_messages_loop cx u att ms a \<in> {OK, NOT_ALLOWED}"
  by (induction ms) (auto simp: Let_def)

end
