(* ===== verification/Samples.thy ===== *)
theory Samples
  imports AuthorizationLemmas
begin

section \<open>A small forum\<close>

text \<open>
  A concrete forum at which the hypotheses of the properties are checked: user \<open>p\<close> has id \<open>p\<close>; one
  thread with one tag, one approved message of user 2 in it, one category without a parent.
  Logged in users hold the value 5 everywhere, user 1 also holds 200 on the thread and forum wide.
\<close>

definition sample_fw :: forum_wide_store where
  "sample_fw = \<lparr>discussionThreadMessagePrivileges = None, discussionThreadPrivileges = \<lambda>_. None,
     discussionTagPrivileges = \<lambda>_. None, fw_category_store = \<lparr>discussionCategoryPrivileges = \<lambda>_. None\<rparr>,
     forumWidePrivileges = (\<lambda>_. None)(FW_NO_THROTTLING := Some 1000),
     forumWideDefaultPrivilegeDuration = \<lambda>_. None\<rparr>"

definition sample_user :: "id_type \<Rightarrow> user" where
  "sample_user uid = \<lparr>usr_id = uid, usr_messageCount = 0, usr_name = JsonReadyString ''user'', usr_lastSeen = 0,
     usr_showInOnlineUsers = False\<rparr>"

definition sample_tag :: tag where
  "sample_tag = \<lparr>discussionThreadMessagePrivileges = None, discussionThreadPrivileges = \<lambda>_. None,
     discussionTagPrivileges = \<lambda>_. None, tag_id = 30, tag_categories = [],
     tag_name = JsonReadyString ''tag'', tag_created = 0, tag_createdIp = 0, tag_uiBlob = [], tag_threads = no_threads,
     tag_messageCount = 0, tag_lastUpdated = not_updated\<rparr>"

definition sample_thread :: thread where
  "sample_thread = \<lparr>discussionThreadMessagePrivileges = None, discussionThreadPrivileges = \<lambda>_. None,
     thr_id = 20, thr_createdBy = 2, thr_approved = True, thr_messages = [0], thr_tags = [0], thr_categories = [],
     thr_latestVisibleChange = 0, thr_visitorsSinceLastEdit = [], thr_name = JsonReadyString ''thread'',
     thr_created = 0, thr_lastUpdated = not_updated, thr_aboutToBeDeleted = False\<rparr>"

definition sample_message :: message where
  "sample_message = \<lparr>discussionThreadMessagePrivileges = None, msg_id = 10, msg_created = 0, msg_createdBy = 2,
     msg_parentThread = 0, msg_approved = True, msg_solvedCommentsCount = 0, msg_upVotes = [], msg_downVotes = []\<rparr>"

definition sample_category :: category where
  "sample_category = \<lparr>discussionCategoryPrivileges = \<lambda>_. None, cat_id = 40, cat_parent = None,
     cat_children = [], cat_tags = [], cat_name = JsonReadyString ''category'', cat_created = 0, cat_createdIp = 0,
     cat_description = [], cat_displayOrder = 0, cat_messageCount = 0, cat_lastUpdated = not_updated,
     cat_threads = no_threads, cat_totalThreads = no_totals\<rparr>"

definition sample_heap :: heap where
  "sample_heap = \<lparr>h_user = \<lambda>p. sample_user (of_nat p), h_message = \<lambda>_. sample_message, h_thread = \<lambda>_. sample_thread,
     h_tag = \<lambda>_. sample_tag, h_category = \<lambda>_. sample_category, h_forumWide = sample_fw\<rparr>"

definition sample_grants :: granted_store where
  "sample_grants = \<lparr>discussionThreadMessageSpecificPrivileges = [],
     discussionThreadSpecificPrivileges =
       [\<lparr>pe_userId = 1, pe_entityId = 20, pe_privilegeValue = 200, pe_grantedAt = 0, pe_expiresAt = 0\<rparr>],
     discussionTagSpecificPrivileges = [], discussionCategorySpecificPrivileges = [],
     forumWideSpecificPrivileges =
       [\<lparr>pe_userId = 1, pe_entityId = 0, pe_privilegeValue = 200, pe_grantedAt = 0, pe_expiresAt = 0\<rparr>],
     defaultPrivilegeValueForLoggedInUser = 5, messageCountMultiplierPrivilegeBonus = 0,
     maxMessageCountPrivilegeBonus = 0\<rparr>"

definition sample_cx :: "timestamp \<Rightarrow> auth_context" where
  "sample_cx now = \<lparr>cx_now = now, cx_ip = 0, cx_heap = sample_heap\<rparr>"

lemmas sample_defs = sample_fw_def sample_user_def sample_tag_def sample_thread_def sample_message_def
  sample_category_def sample_heap_def sample_grants_def sample_cx_def

lemma sample_default [simp]: "defaultPositiveValue sample_grants (sample_user p) = 5"
  by (simp add: sample_defs defaultPositiveValue_def truncate_rat_def int16_def)

lemma sample_not_anonymous [simp]:
  "\<not> isAnonymousUser (Some (sample_user 1))" "\<not> isAnonymousUser (Some (sample_user 2))"
  by (simp_all add: sample_user_def isAnonymousUser_def isAnonymousUserId_def)

lemma sample_levels:
  "thread_levels sample_grants sample_heap sample_thread =
     [(discussionThreadSpecificPrivileges sample_grants, 20), ([], 30), (forumWideSpecificPrivileges sample_grants, 0)]"
  "message_levels sample_grants sample_heap sample_message =
     ([], 10) # thread_levels sample_grants sample_heap sample_thread"
  by (simp_all add: thread_levels_def message_levels_def tag_level_def fw_level_def sample_defs)

lemma sample_id [simp]: "usr_id (sample_user uid) = uid"
  by (simp add: sample_user_def)

lemma sample_active:
  "active_values now uid (discussionThreadSpecificPrivileges sample_grants, 20) = (if uid = 1 then [200] else [])"
  "active_values now uid (forumWideSpecificPrivileges sample_grants, 0) = (if uid = 1 then [200] else [])"
  "active_values now uid ([], eid) = []"
  by (simp_all add: active_values_def equal_range_user_entity_def sample_grants_def entry_expired_def)

lemma sample_held:
  "held_values now uid (thread_levels sample_grants sample_heap sample_thread) = (if uid = 1 then {200} else {})"
  "held_values now uid (message_levels sample_grants sample_heap sample_message) = (if uid = 1 then {200} else {})"
  "held_values now uid [fw_level sample_grants] = (if uid = 1 then {200} else {})"
  by (simp_all add: sample_levels held_values_def fw_level_def sample_active)

lemma effective_one: "\<not> isAnonymousUser (Some u) \<Longrightarrow> held_values now (usr_id u) ls = (if b then {v} else {}) \<Longrightarrow>
   0 < v \<Longrightarrow> v < 32768 \<Longrightarrow> defaultPositiveValue s u = d \<Longrightarrow> 0 \<le> d \<Longrightarrow> d < 32768 \<Longrightarrow>
   effective s (Some u) now ls = (if b then max d v else d)"
proof -
  assume *: "\<not> isAnonymousUser (Some u)" "held_values now (usr_id u) ls = (if b then {v} else {})"
    "0 < v" "v < 32768" "defaultPositiveValue s u = d" "0 \<le> d" "d < 32768"
  then have none: "{w. w = v \<and> w \<le> 0} = {}" by auto
  have "{w. w = v \<and> 0 < w} = {v}" using * by auto
  moreover have "Min (insert 0 {w. w = v \<and> w \<le> 0}) = 0" unfolding none by simp
  ultimately show ?thesis using * by (simp add: effective_def in_int16_def max_def)
qed

lemma sample_effective [simp]:
  "effective sample_grants (Some (sample_user 1)) now (thread_levels sample_grants sample_heap sample_thread) = 200"
  "effective sample_grants (Some (sample_user 1)) now (message_levels sample_grants sample_heap sample_message) = 200"
  "effective sample_grants (Some (sample_user 1)) now [fw_level sample_grants] = 200"
  "effective sample_grants (Some (sample_user 2)) now (thread_levels sample_grants sample_heap sample_thread) = 5"
  "effective sample_grants (Some (sample_user 2)) now (message_levels sample_grants sample_heap sample_message) = 5"
  "effective sample_grants (Some (sample_user 2)) now [fw_level sample_grants] = 5"
  using effective_one [of "sample_user 1" now _ True 200 sample_grants 5]
    effective_one [of "sample_user 2" now _ False 200 sample_grants 5]
  by (simp_all add: sample_held)

lemma DefaultAuthorization_simps [simp]:
  "au_grants (DefaultAuthorization s b) = s"
  "au_throttling (DefaultAuthorization s b) = Map.empty"
  "au_disableThrottling (DefaultAuthorization s b) = b"
  by (simp_all add: DefaultAuthorization_def)

lemma sample_required [simp]:
  "thread_getDiscussionThreadPrivilege sample_heap sample_thread p = None"
  "getForumWidePrivilege sample_fw q = (if q = FW_NO_THROTTLING then Some 1000 else None)"
  "h_forumWide sample_heap = sample_fw"
  by (simp_all add: required_privilege_defs priv_store_defs sample_defs)

lemma sample_with:
  "with_thread (sample_cx now) (sample_user 1) sample_thread p (DefaultAuthorization sample_grants b) = Some 200"
  "q \<noteq> FW_NO_THROTTLING \<Longrightarrow> with_fw (sample_cx now) (sample_user 1) q (DefaultAuthorization sample_grants b) = Some 200"
  by (simp_all add: with_defs sample_cx_def isAllowed_thread_thr_spec isAllowed_fw_spec decide_def)

lemma sample_target:
  "calculateDiscussionThreadPrivilege sample_grants (Some (sample_user 2)) sample_thread now (None, None) = (Some 5, None)"
  "calculateForumWidePrivilege sample_grants (Some (sample_user 2)) now (None, None) = (Some 5, None)"
  by (simp_all add: calculateDiscussionThreadPrivilege_def calculateForumWidePrivilege_def calculatePrivilege_user
      sample_active sample_thread_def)

lemma sample_assignment:
  "assignDiscussionThreadPrivilege (sample_cx now) (sample_user 1) sample_thread (sample_user 2) 50
     (DefaultAuthorization sample_grants True) = Some (OK, DefaultAuthorization sample_grants True)"
  "assignForumWidePrivilege (sample_cx now) (sample_user 1) (sample_user 2) 50
     (DefaultAuthorization sample_grants True) = Some (OK, DefaultAuthorization sample_grants True)"
  by (simp_all add: assignDiscussionThreadPrivilege_def assignForumWidePrivilege_def throttled_def isThrottled_def
      assign_answer_def answer_option_def sample_with assign_status_def computeOldValueForAssigningPrivileges_def
      allowPrivilegeAssignment_def sample_target)

end
