(* ===== verification/PersistenceFormat.thy ===== *)
theory PersistenceFormat
  imports Prelude
begin

section \<open>The format of the event log\<close>

text \<open>
  Models \<^verbatim>\<open>src/src/LibForumPersistence/PersistenceFormat.h\<close> and \<^verbatim>\<open>private/FileAppender.cpp\<close>, with
  \<open>writeValue\<close> of \<^verbatim>\<open>src/src/LibForumHelpers/TypeHelpers.h\<close>. Integers are copied as they lie in memory,
  least significant byte first. Ids and addresses are 16 bytes, kept as the 128-bit number they spell
  with the most significant byte first. The checksum comes from \<^verbatim>\<open>boost::crc_32_type\<close>; it is a
  parameter \<open>crc32\<close> of the definitions that use it.
\<close>

type_synonym bytes = "8 word list"

subsection \<open>Fixed width values\<close>

fun le_bytes :: "nat \<Rightarrow> nat \<Rightarrow> bytes" where
  "le_bytes 0 x = []"
| "le_bytes (Suc n) x = of_nat (x mod 256) # le_bytes n (x div 256)"

fun le_value :: "bytes \<Rightarrow> nat" where
  "le_value [] = 0"
| "le_value (b # bs) = unat b + 256 * le_value bs"

definition word_bytes :: "nat \<Rightarrow> 'a::len word \<Rightarrow> bytes" where
  "word_bytes n w = le_bytes n (unat w)"

definition bytes_word :: "bytes \<Rightarrow> 'a::len word" where
  "bytes_word bs = of_nat (le_value bs)"

definition uuid_bytes :: "id_type \<Rightarrow> bytes" where
  "uuid_bytes uid = rev (word_bytes 16 uid)"

definition bytes_uuid :: "bytes \<Rightarrow> id_type" where
  "bytes_uuid bs = bytes_word (rev bs)"

lemma length_le_bytes [simp]: "length (le_bytes n x) = n"
  by (induction n arbitrary: x) auto

lemma le_value_le_bytes: "le_value (le_bytes n x) = x mod 256 ^ n"
proof (induction n arbitrary: x)
  case (Suc n)
  have "unat (of_nat (x mod 256) :: 8 word) = x mod 256"
    by (simp add: unat_of_nat)
  then show ?case
    using Suc by (simp add: mod_mult2_eq)
qed simp

lemma word_bytes_roundtrip:
  assumes "LENGTH('a::len) = 8 * n"
  shows "bytes_word (word_bytes n (w :: 'a word)) = w"
proof -
  have "unat w < 2 ^ (8 * n)" using unsigned_less [of w] assms by simp
  then have "unat w < 256 ^ n" by (simp add: power_mult)
  then show ?thesis by (simp add: bytes_word_def word_bytes_def le_value_le_bytes)
qed

lemma length_word_bytes [simp]: "length (word_bytes n w) = n"
  by (simp add: word_bytes_def)

lemma length_uuid_bytes [simp]: "length (uuid_bytes uid) = 16"
  by (simp add: uuid_bytes_def)

lemma uuid_bytes_roundtrip [simp]: "bytes_uuid (uuid_bytes uid) = uid"
  by (simp add: bytes_uuid_def uuid_bytes_def word_bytes_roundtrip)

lemma word_bytes_roundtrips [simp]:
  "bytes_word (word_bytes 2 w2) = (w2 :: 16 word)"
  "bytes_word (word_bytes 4 w4) = (w4 :: 32 word)"
  "bytes_word (word_bytes 8 w8) = (w8 :: 64 word)"
  by (simp_all add: word_bytes_roundtrip)

subsection \<open>Event types\<close>

text \<open>An unscoped enumeration over 32-bit integers: the importer reads any value into it.\<close>

type_synonym event_type = "32 word"

definition UNKNOWN :: event_type where "UNKNOWN = 0"
definition ADD_NEW_USER :: event_type where "ADD_NEW_USER = 1"
definition CHANGE_USER_NAME :: event_type where "CHANGE_USER_NAME = 2"
definition CHANGE_USER_INFO :: event_type where "CHANGE_USER_INFO = 3"
definition CHANGE_USER_TITLE :: event_type where "CHANGE_USER_TITLE = 4"
definition CHANGE_USER_SIGNATURE :: event_type where "CHANGE_USER_SIGNATURE = 5"
definition CHANGE_USER_LOGO :: event_type where "CHANGE_USER_LOGO = 6"
definition DELETE_USER :: event_type where "DELETE_USER = 7"
definition ADD_NEW_DISCUSSION_THREAD :: event_type where "ADD_NEW_DISCUSSION_THREAD = 8"
definition CHANGE_DISCUSSION_THREAD_NAME :: event_type where "CHANGE_DISCUSSION_THREAD_NAME = 9"
definition CHANGE_DISCUSSION_THREAD_PIN_DISPLAY_ORDER :: event_type where "CHANGE_DISCUSSION_THREAD_PIN_DISPLAY_ORDER = 10"
definition DELETE_DISCUSSION_THREAD :: event_type where "DELETE_DISCUSSION_THREAD = 11"
definition MERGE_DISCUSSION_THREADS :: event_type where "MERGE_DISCUSSION_THREADS = 12"
definition SUBSCRIBE_TO_DISCUSSION_THREAD :: event_type where "SUBSCRIBE_TO_DISCUSSION_THREAD = 13"
definition UNSUBSCRIBE_FROM_DISCUSSION_THREAD :: event_type where "UNSUBSCRIBE_FROM_DISCUSSION_THREAD = 14"
definition ADD_NEW_DISCUSSION_THREAD_MESSAGE :: event_type where "ADD_NEW_DISCUSSION_THREAD_MESSAGE = 15"
definition CHANGE_DISCUSSION_THREAD_MESSAGE_CONTENT :: event_type where "CHANGE_DISCUSSION_THREAD_MESSAGE_CONTENT = 16"
definition INCREMENT_DISCUSSION_THREAD_NUMBER_OF_VISITS :: event_type where "INCREMENT_DISCUSSION_THREAD_NUMBER_OF_VISITS = 17"
definition MOVE_DISCUSSION_THREAD_MESSAGE :: event_type where "MOVE_DISCUSSION_THREAD_MESSAGE = 18"
definition DELETE_DISCUSSION_THREAD_MESSAGE :: event_type where "DELETE_DISCUSSION_THREAD_MESSAGE = 19"
definition DISCUSSION_THREAD_MESSAGE_UP_VOTE :: event_type where "DISCUSSION_THREAD_MESSAGE_UP_VOTE = 20"
definition DISCUSSION_THREAD_MESSAGE_DOWN_VOTE :: event_type where "DISCUSSION_THREAD_MESSAGE_DOWN_VOTE = 21"
definition DISCUSSION_THREAD_MESSAGE_RESET_VOTE :: event_type where "DISCUSSION_THREAD_MESSAGE_RESET_VOTE = 22"
definition ADD_COMMENT_TO_DISCUSSION_THREAD_MESSAGE :: event_type where "ADD_COMMENT_TO_DISCUSSION_THREAD_MESSAGE = 23"
definition SOLVE_DISCUSSION_THREAD_MESSAGE_COMMENT :: event_type where "SOLVE_DISCUSSION_THREAD_MESSAGE_COMMENT = 24"
definition ADD_NEW_DISCUSSION_TAG :: event_type where "ADD_NEW_DISCUSSION_TAG = 25"
definition CHANGE_DISCUSSION_TAG_NAME :: event_type where "CHANGE_DISCUSSION_TAG_NAME = 26"
definition CHANGE_DISCUSSION_TAG_UI_BLOB :: event_type where "CHANGE_DISCUSSION_TAG_UI_BLOB = 27"
definition DELETE_DISCUSSION_TAG :: event_type where "DELETE_DISCUSSION_TAG = 28"
definition ADD_DISCUSSION_TAG_TO_THREAD :: event_type where "ADD_DISCUSSION_TAG_TO_THREAD = 29"
definition REMOVE_DISCUSSION_TAG_FROM_THREAD :: event_type where "REMOVE_DISCUSSION_TAG_FROM_THREAD = 30"
definition MERGE_DISCUSSION_TAGS :: event_type where "MERGE_DISCUSSION_TAGS = 31"
definition ADD_NEW_DISCUSSION_CATEGORY :: event_type where "ADD_NEW_DISCUSSION_CATEGORY = 32"
definition CHANGE_DISCUSSION_CATEGORY_NAME :: event_type where "CHANGE_DISCUSSION_CATEGORY_NAME = 33"
definition CHANGE_DISCUSSION_CATEGORY_DESCRIPTION :: event_type where "CHANGE_DISCUSSION_CATEGORY_DESCRIPTION = 34"
definition CHANGE_DISCUSSION_CATEGORY_DISPLAY_ORDER :: event_type where "CHANGE_DISCUSSION_CATEGORY_DISPLAY_ORDER = 35"
definition CHANGE_DISCUSSION_CATEGORY_PARENT :: event_type where "CHANGE_DISCUSSION_CATEGORY_PARENT = 36"
definition DELETE_DISCUSSION_CATEGORY :: event_type where "DELETE_DISCUSSION_CATEGORY = 37"
definition ADD_DISCUSSION_TAG_TO_CATEGORY :: event_type where "ADD_DISCUSSION_TAG_TO_CATEGORY = 38"
definition REMOVE_DISCUSSION_TAG_FROM_CATEGORY :: event_type where "REMOVE_DISCUSSION_TAG_FROM_CATEGORY = 39"
definition CHANGE_DISCUSSION_THREAD_MESSAGE_REQUIRED_PRIVILEGE_FOR_THREAD_MESSAGE :: event_type where "CHANGE_DISCUSSION_THREAD_MESSAGE_REQUIRED_PRIVILEGE_FOR_THREAD_MESSAGE = 40"
definition CHANGE_DISCUSSION_THREAD_MESSAGE_REQUIRED_PRIVILEGE_FOR_THREAD :: event_type where "CHANGE_DISCUSSION_THREAD_MESSAGE_REQUIRED_PRIVILEGE_FOR_THREAD = 41"
definition CHANGE_DISCUSSION_THREAD_MESSAGE_REQUIRED_PRIVILEGE_FOR_TAG :: event_type where "CHANGE_DISCUSSION_THREAD_MESSAGE_REQUIRED_PRIVILEGE_FOR_TAG = 42"
definition CHANGE_DISCUSSION_THREAD_MESSAGE_REQUIRED_PRIVILEGE_FORUM_WIDE :: event_type where "CHANGE_DISCUSSION_THREAD_MESSAGE_REQUIRED_PRIVILEGE_FORUM_WIDE = 43"
definition CHANGE_DISCUSSION_THREAD_REQUIRED_PRIVILEGE_FOR_THREAD :: event_type where "CHANGE_DISCUSSION_THREAD_REQUIRED_PRIVILEGE_FOR_THREAD = 44"
definition CHANGE_DISCUSSION_THREAD_REQUIRED_PRIVILEGE_FOR_TAG :: event_type where "CHANGE_DISCUSSION_THREAD_REQUIRED_PRIVILEGE_FOR_TAG = 45"
definition CHANGE_DISCUSSION_THREAD_REQUIRED_PRIVILEGE_FORUM_WIDE :: event_type where "CHANGE_DISCUSSION_THREAD_REQUIRED_PRIVILEGE_FORUM_WIDE = 46"
definition CHANGE_DISCUSSION_TAG_REQUIRED_PRIVILEGE_FOR_TAG :: event_type where "CHANGE_DISCUSSION_TAG_REQUIRED_PRIVILEGE_FOR_TAG = 47"
definition CHANGE_DISCUSSION_TAG_REQUIRED_PRIVILEGE_FORUM_WIDE :: event_type where "CHANGE_DISCUSSION_TAG_REQUIRED_PRIVILEGE_FORUM_WIDE = 48"
definition CHANGE_DISCUSSION_CATEGORY_REQUIRED_PRIVILEGE_FOR_CATEGORY :: event_type where "CHANGE_DISCUSSION_CATEGORY_REQUIRED_PRIVILEGE_FOR_CATEGORY = 49"
definition CHANGE_DISCUSSION_CATEGORY_REQUIRED_PRIVILEGE_FORUM_WIDE :: event_type where "CHANGE_DISCUSSION_CATEGORY_REQUIRED_PRIVILEGE_FORUM_WIDE = 50"
definition CHANGE_FORUM_WIDE_REQUIRED_PRIVILEGE :: event_type where "CHANGE_FORUM_WIDE_REQUIRED_PRIVILEGE = 51"
definition CHANGE_FORUM_WIDE_DEFAULT_PRIVILEGE_LEVEL :: event_type where "CHANGE_FORUM_WIDE_DEFAULT_PRIVILEGE_LEVEL = 52"
definition ASSIGN_DISCUSSION_THREAD_MESSAGE_PRIVILEGE :: event_type where "ASSIGN_DISCUSSION_THREAD_MESSAGE_PRIVILEGE = 53"
definition ASSIGN_DISCUSSION_THREAD_PRIVILEGE :: event_type where "ASSIGN_DISCUSSION_THREAD_PRIVILEGE = 54"
definition ASSIGN_DISCUSSION_TAG_PRIVILEGE :: event_type where "ASSIGN_DISCUSSION_TAG_PRIVILEGE = 55"
definition ASSIGN_DISCUSSION_CATEGORY_PRIVILEGE :: event_type where "ASSIGN_DISCUSSION_CATEGORY_PRIVILEGE = 56"
definition ASSIGN_FORUM_WIDE_PRIVILEGE :: event_type where "ASSIGN_FORUM_WIDE_PRIVILEGE = 57"
definition QUOTE_USER_IN_DISCUSSION_THREAD_MESSAGE :: event_type where "QUOTE_USER_IN_DISCUSSION_THREAD_MESSAGE = 58"
definition CHANGE_DISCUSSION_THREAD_MESSAGE_APPROVAL :: event_type where "CHANGE_DISCUSSION_THREAD_MESSAGE_APPROVAL = 59"
definition INCREMENT_USER_LATEST_VISITED_PAGE :: event_type where "INCREMENT_USER_LATEST_VISITED_PAGE = 60"
definition CHANGE_DISCUSSION_THREAD_APPROVAL :: event_type where "CHANGE_DISCUSSION_THREAD_APPROVAL = 61"
definition SEND_PRIVATE_MESSAGE :: event_type where "SEND_PRIVATE_MESSAGE = 62"
definition DELETE_PRIVATE_MESSAGE :: event_type where "DELETE_PRIVATE_MESSAGE = 63"
definition CHANGE_USER_ATTACHMENT_QUOTA :: event_type where "CHANGE_USER_ATTACHMENT_QUOTA = 64"
definition ADD_NEW_ATTACHMENT :: event_type where "ADD_NEW_ATTACHMENT = 65"
definition CHANGE_ATTACHMENT_NAME :: event_type where "CHANGE_ATTACHMENT_NAME = 66"
definition CHANGE_ATTACHMENT_APPROVAL :: event_type where "CHANGE_ATTACHMENT_APPROVAL = 67"
definition ADD_ATTACHMENT_TO_DISCUSSION_THREAD_MESSAGE :: event_type where "ADD_ATTACHMENT_TO_DISCUSSION_THREAD_MESSAGE = 68"
definition REMOVE_ATTACHMENT_FROM_DISCUSSION_THREAD_MESSAGE :: event_type where "REMOVE_ATTACHMENT_FROM_DISCUSSION_THREAD_MESSAGE = 69"
definition DELETE_ATTACHMENT :: event_type where "DELETE_ATTACHMENT = 70"
definition INCREMENT_ATTACHMENT_NUMBER_OF_GETS :: event_type where "INCREMENT_ATTACHMENT_NUMBER_OF_GETS = 71"

lemmas event_type_defs =
  UNKNOWN_def ADD_NEW_USER_def CHANGE_USER_NAME_def CHANGE_USER_INFO_def CHANGE_USER_TITLE_def
  CHANGE_USER_SIGNATURE_def CHANGE_USER_LOGO_def DELETE_USER_def ADD_NEW_DISCUSSION_THREAD_def
  CHANGE_DISCUSSION_THREAD_NAME_def CHANGE_DISCUSSION_THREAD_PIN_DISPLAY_ORDER_def
  DELETE_DISCUSSION_THREAD_def MERGE_DISCUSSION_THREADS_def SUBSCRIBE_TO_DISCUSSION_THREAD_def
  UNSUBSCRIBE_FROM_DISCUSSION_THREAD_def ADD_NEW_DISCUSSION_THREAD_MESSAGE_def
  CHANGE_DISCUSSION_THREAD_MESSAGE_CONTENT_def INCREMENT_DISCUSSION_THREAD_NUMBER_OF_VISITS_def
  MOVE_DISCUSSION_THREAD_MESSAGE_def DELETE_DISCUSSION_THREAD_MESSAGE_def
  DISCUSSION_THREAD_MESSAGE_UP_VOTE_def DISCUSSION_THREAD_MESSAGE_DOWN_VOTE_def
  DISCUSSION_THREAD_MESSAGE_RESET_VOTE_def ADD_COMMENT_TO_DISCUSSION_THREAD_MESSAGE_def
  SOLVE_DISCUSSION_THREAD_MESSAGE_COMMENT_def ADD_NEW_DISCUSSION_TAG_def
  CHANGE_DISCUSSION_TAG_NAME_def CHANGE_DISCUSSION_TAG_UI_BLOB_def DELETE_DISCUSSION_TAG_def
  ADD_DISCUSSION_TAG_TO_THREAD_def REMOVE_DISCUSSION_TAG_FROM_THREAD_def MERGE_DISCUSSION_TAGS_def
  ADD_NEW_DISCUSSION_CATEGORY_def CHANGE_DISCUSSION_CATEGORY_NAME_def
  CHANGE_DISCUSSION_CATEGORY_DESCRIPTION_def CHANGE_DISCUSSION_CATEGORY_DISPLAY_ORDER_def
  CHANGE_DISCUSSION_CATEGORY_PARENT_def DELETE_DISCUSSION_CATEGORY_def
  ADD_DISCUSSION_TAG_TO_CATEGORY_def REMOVE_DISCUSSION_TAG_FROM_CATEGORY_def
  CHANGE_DISCUSSION_THREAD_MESSAGE_REQUIRED_PRIVILEGE_FOR_THREAD_MESSAGE_def
  CHANGE_DISCUSSION_THREAD_MESSAGE_REQUIRED_PRIVILEGE_FOR_THREAD_def
  CHANGE_DISCUSSION_THREAD_MESSAGE_REQUIRED_PRIVILEGE_FOR_TAG_def
  CHANGE_DISCUSSION_THREAD_MESSAGE_REQUIRED_PRIVILEGE_FORUM_WIDE_def
  CHANGE_DISCUSSION_THREAD_REQUIRED_PRIVILEGE_FOR_THREAD_def
  CHANGE_DISCUSSION_THREAD_REQUIRED_PRIVILEGE_FOR_TAG_def
  CHANGE_DISCUSSION_THREAD_REQUIRED_PRIVILEGE_FORUM_WIDE_def
  CHANGE_DISCUSSION_TAG_REQUIRED_PRIVILEGE_FOR_TAG_def
  CHANGE_DISCUSSION_TAG_REQUIRED_PRIVILEGE_FORUM_WIDE_def
  CHANGE_DISCUSSION_CATEGORY_REQUIRED_PRIVILEGE_FOR_CATEGORY_def
  CHANGE_DISCUSSION_CATEGORY_REQUIRED_PRIVILEGE_FORUM_WIDE_def
  CHANGE_FORUM_WIDE_REQUIRED_PRIVILEGE_def CHANGE_FORUM_WIDE_DEFAULT_PRIVILEGE_LEVEL_def
  ASSIGN_DISCUSSION_THREAD_MESSAGE_PRIVILEGE_def ASSIGN_DISCUSSION_THREAD_PRIVILEGE_def
  ASSIGN_DISCUSSION_TAG_PRIVILEGE_def ASSIGN_DISCUSSION_CATEGORY_PRIVILEGE_def
  ASSIGN_FORUM_WIDE_PRIVILEGE_def QUOTE_USER_IN_DISCUSSION_THREAD_MESSAGE_def
  CHANGE_DISCUSSION_THREAD_MESSAGE_APPROVAL_def INCREMENT_USER_LATEST_VISITED_PAGE_def
  CHANGE_DISCUSSION_THREAD_APPROVAL_def SEND_PRIVATE_MESSAGE_def DELETE_PRIVATE_MESSAGE_def
  CHANGE_USER_ATTACHMENT_QUOTA_def ADD_NEW_ATTACHMENT_def CHANGE_ATTACHMENT_NAME_def
  CHANGE_ATTACHMENT_APPROVAL_def ADD_ATTACHMENT_TO_DISCUSSION_THREAD_MESSAGE_def
  REMOVE_ATTACHMENT_FROM_DISCUSSION_THREAD_MESSAGE_def DELETE_ATTACHMENT_def
  INCREMENT_ATTACHMENT_NUMBER_OF_GETS_def

subsection \<open>Framing of blobs\<close>

definition MagicPrefix :: "64 word" where
  "MagicPrefix = 0xFFFFFFFFFFFFFFFF"

definition BlobPaddingBytes :: nat where
  "BlobPaddingBytes = 8"

definition MinBlobSize :: nat where
  "MinBlobSize = 8 + 4 + 4"

definition EventHeaderSize :: nat where
  "EventHeaderSize = 4 + 2 + 2"

definition blobPaddingRequired :: "nat \<Rightarrow> nat" where
  "blobPaddingRequired n =
     (let sizeMultiple = (n div BlobPaddingBytes) * BlobPaddingBytes
      in if sizeMultiple < n then BlobPaddingBytes - (n - sizeMultiple) else 0)"

text \<open>What \<open>FileAppender::append\<close> writes for one blob; \<open>blobSize\<close> is cast to 32 bits.\<close>

definition append_blob :: "(bytes \<Rightarrow> 32 word) \<Rightarrow> bytes \<Rightarrow> bytes" where
  "append_blob crc32 blob =
     (let blobSize = of_nat (length blob) :: 32 word;
          blobCRC32 = crc32 blob;
          paddingNeeded = blobPaddingRequired (unat blobSize)
      in word_bytes 8 MagicPrefix @ word_bytes 4 blobSize @ word_bytes 4 blobCRC32
         @ take (unat blobSize) blob @ replicate paddingNeeded 0)"

text \<open>
  The appender: the folder with its files, keyed by the time in their names, and the time of the
  current file's name (\<open>None\<close> for the empty name it starts with). \<open>now\<close> is the system clock when
  \<open>append\<close> is called. The result \<open>None\<close> is \<open>std::abort\<close>: no file has an empty name.
\<close>

record file_appender =
  fa_files :: "(timestamp \<times> bytes) list"
  fa_currentFile :: "timestamp option"
  fa_refreshEverySeconds :: timestamp
  fa_lastFileNameCreatedAt :: timestamp

definition FileAppender :: "timestamp \<Rightarrow> file_appender" where
  "FileAppender refreshEverySeconds =
     \<lparr>fa_files = [], fa_currentFile = None, fa_refreshEverySeconds = refreshEverySeconds, fa_lastFileNameCreatedAt = 0\<rparr>"

text \<open>The decimal digits of \<open>std::to_string\<close>; the time is not negative.\<close>

fun decimal :: "nat \<Rightarrow> string" where
  "decimal n = (if n < 10 then [char_of (48 + n)] else decimal (n div 10) @ [char_of (48 + n mod 10)])"

declare decimal.simps [simp del]

definition event_file_name :: "timestamp \<Rightarrow> string" where
  "event_file_name now = ''forum-'' @ decimal (nat now) @ ''.events''"

definition updateCurrentFileIfNeeded :: "timestamp \<Rightarrow> file_appender \<Rightarrow> file_appender" where
  "updateCurrentFileIfNeeded now a =
     (if fa_lastFileNameCreatedAt a + fa_refreshEverySeconds a < now
      then a\<lparr>fa_currentFile := Some now, fa_lastFileNameCreatedAt := now\<rparr> else a)"

definition append_to_file :: "timestamp \<Rightarrow> bytes \<Rightarrow> (timestamp \<times> bytes) list \<Rightarrow> (timestamp \<times> bytes) list" where
  "append_to_file name content files =
     (if name \<in> fst ` set files then map (\<lambda>(n, c). (n, if n = name then c @ content else c)) files
      else files @ [(name, content)])"

definition fa_append :: "(bytes \<Rightarrow> 32 word) \<Rightarrow> timestamp \<Rightarrow> bytes list \<Rightarrow> file_appender \<Rightarrow> file_appender option" where
  "fa_append crc32 now blobs a =
     (if length blobs < 1 then Some a
      else let a = updateCurrentFileIfNeeded now a
           in case fa_currentFile a of
                None \<Rightarrow> None
              | Some name \<Rightarrow> Some (a\<lparr>fa_files :=
                  append_to_file name (concat (map (append_blob crc32) blobs)) (fa_files a)\<rparr>))"

lemma padding_aligned: "8 dvd n + blobPaddingRequired n"
  unfolding blobPaddingRequired_def BlobPaddingBytes_def Let_def by presburger

lemma padding_less: "blobPaddingRequired n < 8"
  unfolding blobPaddingRequired_def BlobPaddingBytes_def Let_def by auto

lemma length_append_blob:
  assumes "length blob < 2 ^ 32"
  shows "length (append_blob crc32 blob) = MinBlobSize + length blob + blobPaddingRequired (length blob)"
  using assms by (simp add: append_blob_def MinBlobSize_def Let_def unat_of_nat)

lemma append_blob_small:
  assumes "length blob < 2 ^ 32"
  shows "append_blob crc32 blob = word_bytes 8 MagicPrefix @ word_bytes 4 (of_nat (length blob) :: 32 word)
     @ word_bytes 4 (crc32 blob) @ blob @ replicate (blobPaddingRequired (length blob)) 0"
  using assms by (simp add: append_blob_def Let_def unat_of_nat)

text \<open>Blobs stay aligned to eight bytes.\<close>

lemma append_blobs_aligned:
  assumes "\<forall>b\<in>set blobs. length b < 2 ^ 32"
  shows "8 dvd length (concat (map (append_blob crc32) blobs))"
  using assms
proof (induction blobs)
  case (Cons b blobs)
  have "8 dvd MinBlobSize + (length b + blobPaddingRequired (length b))"
    by (intro dvd_add padding_aligned) (simp add: MinBlobSize_def)
  with Cons have "8 dvd (MinBlobSize + (length b + blobPaddingRequired (length b)))
      + length (concat (map (append_blob crc32) blobs))"
    by (auto intro!: dvd_add [of 8 "MinBlobSize + (length b + blobPaddingRequired (length b))"])
  with Cons.prems show ?case by (simp add: length_append_blob ac_simps)
qed simp

end
