(* ===== verification/RepositoryCalls.thy ===== *)
theory RepositoryCalls
  imports PersistenceFormat
begin

section \<open>The write interface of the repositories\<close>

text \<open>
  Models the direct write interfaces of \<^verbatim>\<open>src/src/LibForumData/Repository.h\<close>: one constructor per member
  function, with its arguments after the entity collection, one datatype per interface. The importer
  calls the repositories through this interface only, so they are a parameter of its model: a
  function from the context of the call and the call to a state transformer with a status.
\<close>

datatype (plugins only: size) status_code =
    STATUS_OK | INVALID_PARAMETERS | VALUE_TOO_LONG | VALUE_TOO_SHORT | ALREADY_EXISTS | NOT_FOUND
  | NO_EFFECT | CIRCULAR_REFERENCE_NOT_ALLOWED | STATUS_NOT_ALLOWED | NOT_UPDATED_SINCE_LAST_CHECK
  | UNAUTHORIZED | STATUS_THROTTLED | USER_WITH_SAME_AUTH_ALREADY_EXISTS | QUOTA_EXCEEDED

datatype (plugins only: size) user_call =
    AddNewUser id_type bytes bytes
  | ChangeUserName id_type bytes
  | ChangeUserInfo id_type bytes
  | ChangeUserTitle id_type bytes
  | ChangeUserSignature id_type bytes
  | ChangeUserLogo id_type bytes
  | ChangeUserAttachmentQuota id_type "64 word"
  | DeleteUser id_type
  | SendPrivateMessage id_type id_type bytes
  | DeletePrivateMessage id_type

datatype (plugins only: size) thread_call =
    AddNewDiscussionThread id_type bytes bool
  | ChangeDiscussionThreadName id_type bytes
  | ChangeDiscussionThreadPinDisplayOrder id_type "16 word"
  | ChangeDiscussionThreadApproval id_type bool
  | DeleteDiscussionThread id_type
  | MergeDiscussionThreads id_type id_type
  | SubscribeToDiscussionThread id_type
  | UnsubscribeFromDiscussionThread id_type

text \<open>The mapped overload takes the size and the offset of a text in a file of messages.\<close>

datatype (plugins only: size) message_call =
    AddNewDiscussionMessageInThread id_type id_type bool bytes
  | AddNewDiscussionMessageInThread_mapped id_type id_type bool "32 word" "64 word"
  | ChangeDiscussionThreadMessageContent id_type bytes bytes
  | ChangeDiscussionThreadMessageApproval id_type bool
  | MoveDiscussionThreadMessage id_type id_type
  | DeleteDiscussionMessage id_type
  | UpVoteDiscussionThreadMessage id_type
  | DownVoteDiscussionThreadMessage id_type
  | ResetVoteDiscussionThreadMessage id_type
  | AddCommentToDiscussionThreadMessage id_type id_type bytes
  | SetMessageCommentToSolved id_type
  | QuoteUserInMessage id_type id_type

datatype (plugins only: size) tag_call =
    AddNewDiscussionTag id_type bytes
  | ChangeDiscussionTagName id_type bytes
  | ChangeDiscussionTagUiBlob id_type bytes
  | DeleteDiscussionTag id_type
  | AddDiscussionTagToThread id_type id_type
  | RemoveDiscussionTagFromThread id_type id_type
  | MergeDiscussionTags id_type id_type

datatype (plugins only: size) category_call =
    AddNewDiscussionCategory id_type bytes id_type
  | ChangeDiscussionCategoryName id_type bytes
  | ChangeDiscussionCategoryDescription id_type bytes
  | ChangeDiscussionCategoryDisplayOrder id_type "16 word"
  | ChangeDiscussionCategoryParent id_type id_type
  | DeleteDiscussionCategory id_type
  | AddDiscussionTagToCategory id_type id_type
  | RemoveDiscussionTagFromCategory id_type id_type

datatype (plugins only: size) attachment_call =
    AddNewAttachment id_type bytes "64 word" bool
  | ChangeAttachmentName id_type bytes
  | ChangeAttachmentApproval id_type bool
  | AddAttachmentToDiscussionThreadMessage id_type id_type
  | RemoveAttachmentFromDiscussionThreadMessage id_type id_type
  | DeleteAttachment id_type

text \<open>Privileges are the 16 bits read for an enumerator, values and durations the bits of the integer.\<close>

datatype (plugins only: size) required_privilege_call =
    ChangeDiscussionThreadMessageRequiredPrivilegeForThreadMessage id_type "16 word" "16 word"
  | ChangeDiscussionThreadMessageRequiredPrivilegeForThread id_type "16 word" "16 word"
  | ChangeDiscussionThreadMessageRequiredPrivilegeForTag id_type "16 word" "16 word"
  | ChangeDiscussionThreadMessageRequiredPrivilege "16 word" "16 word"
  | ChangeDiscussionThreadRequiredPrivilegeForThread id_type "16 word" "16 word"
  | ChangeDiscussionThreadRequiredPrivilegeForTag id_type "16 word" "16 word"
  | ChangeDiscussionThreadRequiredPrivilege "16 word" "16 word"
  | ChangeDiscussionTagRequiredPrivilegeForTag id_type "16 word" "16 word"
  | ChangeDiscussionTagRequiredPrivilege "16 word" "16 word"
  | ChangeDiscussionCategoryRequiredPrivilegeForCategory id_type "16 word" "16 word"
  | ChangeDiscussionCategoryRequiredPrivilege "16 word" "16 word"
  | ChangeForumWideRequiredPrivilege "16 word" "16 word"
  | ChangeForumWideDefaultPrivilegeLevel "16 word" "16 word" "64 word"

datatype (plugins only: size) assign_privilege_call =
    AssignDiscussionThreadMessagePrivilege id_type id_type "16 word" "64 word"
  | AssignDiscussionThreadPrivilege id_type id_type "16 word" "64 word"
  | AssignDiscussionTagPrivilege id_type id_type "16 word" "64 word"
  | AssignDiscussionCategoryPrivilege id_type id_type "16 word" "64 word"
  | AssignForumWidePrivilege id_type "16 word" "64 word"

datatype (plugins only: size) repository_call =
    UserCall user_call
  | ThreadCall thread_call
  | MessageCall message_call
  | TagCall tag_call
  | CategoryCall category_call
  | AttachmentCall attachment_call
  | RequiredPrivilegeCall required_privilege_call
  | AssignPrivilegeCall assign_privilege_call

text \<open>What the repositories read from the context: the current time, user and address.\<close>

record call_context =
  cc_time :: "64 word"
  cc_userId :: id_type
  cc_ip :: "128 word"

type_synonym 's repositories = "call_context \<Rightarrow> repository_call \<Rightarrow> 's \<Rightarrow> status_code \<times> 's"

end
