(* ===== verification/EventRecording.thy ===== *)
theory EventRecording
  imports RepositoryCalls "HOL-Library.Product_Lexorder"
begin

section \<open>Recording events\<close>

text \<open>
  Models \<^verbatim>\<open>src/src/LibForumPersistence/private/EventObserver.cpp\<close>: one definition per observer function. An
  observer gets an entity by reference; the definition gets the values it reads of it. The functions
  that dispatch on the kind of a change only choose among the functions here. A blob is handed to
  the appender through the queue of another thread, in order; the result of an observer function is
  the blob it enqueues. The functions that assign privileges have the prefix \<open>observe\<close>, since the
  authorization has functions of the same names.
\<close>

subsection \<open>Blobs\<close>

record blob_part =
  part_address :: bytes
  part_size :: "32 word"
  part_includeSizePrefix :: bool

definition part_totalSize :: "blob_part \<Rightarrow> nat" where
  "part_totalSize p = unat (part_size p) + (if part_includeSizePrefix p then 4 else 0)"

definition value_part :: "bytes \<Rightarrow> blob_part" where
  "value_part v = \<lparr>part_address = v, part_size = of_nat (length v), part_includeSizePrefix = False\<rparr>"

definition string_part :: "bytes \<Rightarrow> blob_part" where
  "string_part s = \<lparr>part_address = s, part_size = of_nat (length s), part_includeSizePrefix = True\<rparr>"

definition uuid_part :: "id_type \<Rightarrow> blob_part" where
  "uuid_part uid = value_part (uuid_bytes uid)"

definition ContextVersion :: "16 word" where
  "ContextVersion = 1"

definition part_bytes :: "blob_part \<Rightarrow> bytes" where
  "part_bytes p =
     (if part_includeSizePrefix p then word_bytes 4 (part_size p) else [])
     @ (if part_size p > 0 then take (unat (part_size p)) (part_address p) else [])"

definition recordBlob_size :: "blob_part list \<Rightarrow> nat" where
  "recordBlob_size parts = fold (\<lambda>part total. total + part_totalSize part) parts 0 + EventHeaderSize"

definition recordBlob :: "event_type \<Rightarrow> 16 word \<Rightarrow> blob_part list \<Rightarrow> bytes" where
  "recordBlob eventType version parts =
     word_bytes 4 eventType @ word_bytes 2 version @ word_bytes 2 ContextVersion @ concat (map part_bytes parts)"

record observer_context =
  oc_timestamp :: timestamp
  oc_performedBy :: id_type
  oc_ipAddress :: "128 word"

definition context_parts :: "observer_context \<Rightarrow> blob_part list" where
  "context_parts context =
     [value_part (word_bytes 8 (word_of_int (oc_timestamp context) :: 64 word)),
      uuid_part (oc_performedBy context),
      value_part (uuid_bytes (oc_ipAddress context))]"

definition empty_context_parts :: "blob_part list" where
  "empty_context_parts =
     [value_part (word_bytes 8 (0 :: 64 word)), uuid_part 0, value_part (uuid_bytes 0)]"

definition approved_value :: "bool \<Rightarrow> 32 word" where
  "approved_value approved = (if approved then 1 else 0)"

definition parent_id :: "id_type option \<Rightarrow> id_type" where
  "parent_id parent = (case parent of Some p \<Rightarrow> p | None \<Rightarrow> 0)"

subsection \<open>Users\<close>

definition onAddNewUser :: "observer_context \<Rightarrow> id_type \<Rightarrow> bytes \<Rightarrow> bytes \<Rightarrow> bytes" where
  "onAddNewUser context uid auth userName =
     recordBlob ADD_NEW_USER 1 (context_parts context @
       [uuid_part uid, string_part auth, string_part userName])"

definition onChangeUserName :: "observer_context \<Rightarrow> id_type \<Rightarrow> bytes \<Rightarrow> bytes" where
  "onChangeUserName context uid userName =
     recordBlob CHANGE_USER_NAME 1 (context_parts context @
       [uuid_part uid, string_part userName])"

definition onChangeUserInfo :: "observer_context \<Rightarrow> id_type \<Rightarrow> bytes \<Rightarrow> bytes" where
  "onChangeUserInfo context uid userInfo =
     recordBlob CHANGE_USER_INFO 1 (context_parts context @
       [uuid_part uid, string_part userInfo])"

definition onChangeUserTitle :: "observer_context \<Rightarrow> id_type \<Rightarrow> bytes \<Rightarrow> bytes" where
  "onChangeUserTitle context uid userTitle =
     recordBlob CHANGE_USER_TITLE 1 (context_parts context @
       [uuid_part uid, string_part userTitle])"

definition onChangeUserSignature :: "observer_context \<Rightarrow> id_type \<Rightarrow> bytes \<Rightarrow> bytes" where
  "onChangeUserSignature context uid userSignature =
     recordBlob CHANGE_USER_SIGNATURE 1 (context_parts context @
       [uuid_part uid, string_part userSignature])"

definition onChangeUserLogo :: "observer_context \<Rightarrow> id_type \<Rightarrow> bytes \<Rightarrow> bytes" where
  "onChangeUserLogo context uid userLogo =
     recordBlob CHANGE_USER_LOGO 1 (context_parts context @
       [uuid_part uid, string_part userLogo])"

definition onChangeUserAttachmentQuota :: "observer_context \<Rightarrow> id_type \<Rightarrow> 64 word option \<Rightarrow> bytes" where
  "onChangeUserAttachmentQuota context uid attachmentQuota =
     recordBlob CHANGE_USER_ATTACHMENT_QUOTA 1 (context_parts context @
       [uuid_part uid, value_part (word_bytes 8 (case attachmentQuota of Some q \<Rightarrow> q | None \<Rightarrow> 0))])"

definition onDeleteUser :: "observer_context \<Rightarrow> id_type \<Rightarrow> bytes" where
  "onDeleteUser context uid =
     recordBlob DELETE_USER 1 (context_parts context @
       [uuid_part uid])"

definition onSendPrivateMessage :: "observer_context \<Rightarrow> id_type \<Rightarrow> id_type \<Rightarrow> bytes \<Rightarrow> bytes" where
  "onSendPrivateMessage context mid destination content =
     recordBlob SEND_PRIVATE_MESSAGE 1 (context_parts context @
       [uuid_part mid, uuid_part destination, string_part content])"

definition onDeletePrivateMessage :: "observer_context \<Rightarrow> id_type \<Rightarrow> bytes" where
  "onDeletePrivateMessage context mid =
     recordBlob DELETE_PRIVATE_MESSAGE 1 (context_parts context @
       [uuid_part mid])"

subsection \<open>Threads\<close>

definition onAddNewDiscussionThread :: "observer_context \<Rightarrow> id_type \<Rightarrow> bytes \<Rightarrow> bool \<Rightarrow> bytes" where
  "onAddNewDiscussionThread context tid threadName approved =
     recordBlob ADD_NEW_DISCUSSION_THREAD 2 (context_parts context @
       [uuid_part tid, string_part threadName, value_part (word_bytes 4 (approved_value approved))])"

definition onChangeDiscussionThreadName :: "observer_context \<Rightarrow> id_type \<Rightarrow> bytes \<Rightarrow> bytes" where
  "onChangeDiscussionThreadName context tid threadName =
     recordBlob CHANGE_DISCUSSION_THREAD_NAME 1 (context_parts context @
       [uuid_part tid, string_part threadName])"

definition onChangeDiscussionThreadPinDisplayOrder :: "observer_context \<Rightarrow> id_type \<Rightarrow> 16 word \<Rightarrow> bytes" where
  "onChangeDiscussionThreadPinDisplayOrder context tid pinDisplayOrder =
     recordBlob CHANGE_DISCUSSION_THREAD_PIN_DISPLAY_ORDER 1 (context_parts context @
       [uuid_part tid, value_part (word_bytes 2 pinDisplayOrder)])"

definition onChangeDiscussionThreadApproval :: "observer_context \<Rightarrow> id_type \<Rightarrow> bool \<Rightarrow> bytes" where
  "onChangeDiscussionThreadApproval context tid approved =
     recordBlob CHANGE_DISCUSSION_THREAD_APPROVAL 1 (context_parts context @
       [uuid_part tid, value_part (word_bytes 4 (approved_value approved))])"

definition onDeleteDiscussionThread :: "observer_context \<Rightarrow> id_type \<Rightarrow> bytes" where
  "onDeleteDiscussionThread context tid =
     recordBlob DELETE_DISCUSSION_THREAD 1 (context_parts context @
       [uuid_part tid])"

definition onMergeDiscussionThreads :: "observer_context \<Rightarrow> id_type \<Rightarrow> id_type \<Rightarrow> bytes" where
  "onMergeDiscussionThreads context fromThread toThread =
     recordBlob MERGE_DISCUSSION_THREADS 1 (context_parts context @
       [uuid_part fromThread, uuid_part toThread])"

definition onMoveDiscussionThreadMessage :: "observer_context \<Rightarrow> id_type \<Rightarrow> id_type \<Rightarrow> bytes" where
  "onMoveDiscussionThreadMessage context mid intoThread =
     recordBlob MOVE_DISCUSSION_THREAD_MESSAGE 1 (context_parts context @
       [uuid_part mid, uuid_part intoThread])"

definition onSubscribeToDiscussionThread :: "observer_context \<Rightarrow> id_type \<Rightarrow> bytes" where
  "onSubscribeToDiscussionThread context tid =
     recordBlob SUBSCRIBE_TO_DISCUSSION_THREAD 1 (context_parts context @
       [uuid_part tid])"

definition onUnsubscribeFromDiscussionThread :: "observer_context \<Rightarrow> id_type \<Rightarrow> bytes" where
  "onUnsubscribeFromDiscussionThread context tid =
     recordBlob UNSUBSCRIBE_FROM_DISCUSSION_THREAD 1 (context_parts context @
       [uuid_part tid])"

subsection \<open>Messages\<close>

definition onAddNewDiscussionThreadMessage :: "observer_context \<Rightarrow> id_type \<Rightarrow> id_type \<Rightarrow> bool \<Rightarrow> bytes \<Rightarrow> bytes" where
  "onAddNewDiscussionThreadMessage context mid parentThreadId approved content =
     recordBlob ADD_NEW_DISCUSSION_THREAD_MESSAGE 3 (context_parts context @
       [uuid_part mid, uuid_part parentThreadId, value_part (word_bytes 4 (approved_value approved)), string_part content])"

definition onChangeDiscussionThreadMessageContent :: "observer_context \<Rightarrow> id_type \<Rightarrow> bytes \<Rightarrow> bytes \<Rightarrow> bytes" where
  "onChangeDiscussionThreadMessageContent context mid content lastUpdatedReason =
     recordBlob CHANGE_DISCUSSION_THREAD_MESSAGE_CONTENT 1 (context_parts context @
       [uuid_part mid, string_part content, string_part lastUpdatedReason])"

definition onChangeDiscussionThreadMessageApproval :: "observer_context \<Rightarrow> id_type \<Rightarrow> bool \<Rightarrow> bytes" where
  "onChangeDiscussionThreadMessageApproval context mid approved =
     recordBlob CHANGE_DISCUSSION_THREAD_MESSAGE_APPROVAL 1 (context_parts context @
       [uuid_part mid, value_part (word_bytes 4 (approved_value approved))])"

definition onDeleteDiscussionThreadMessage :: "observer_context \<Rightarrow> id_type \<Rightarrow> bytes" where
  "onDeleteDiscussionThreadMessage context mid =
     recordBlob DELETE_DISCUSSION_THREAD_MESSAGE 1 (context_parts context @
       [uuid_part mid])"

definition onDiscussionThreadMessageUpVote :: "observer_context \<Rightarrow> id_type \<Rightarrow> bytes" where
  "onDiscussionThreadMessageUpVote context mid =
     recordBlob DISCUSSION_THREAD_MESSAGE_UP_VOTE 1 (context_parts context @
       [uuid_part mid])"

definition onDiscussionThreadMessageDownVote :: "observer_context \<Rightarrow> id_type \<Rightarrow> bytes" where
  "onDiscussionThreadMessageDownVote context mid =
     recordBlob DISCUSSION_THREAD_MESSAGE_DOWN_VOTE 1 (context_parts context @
       [uuid_part mid])"

definition onDiscussionThreadMessageResetVote :: "observer_context \<Rightarrow> id_type \<Rightarrow> bytes" where
  "onDiscussionThreadMessageResetVote context mid =
     recordBlob DISCUSSION_THREAD_MESSAGE_RESET_VOTE 1 (context_parts context @
       [uuid_part mid])"

definition onAddCommentToDiscussionThreadMessage :: "observer_context \<Rightarrow> id_type \<Rightarrow> id_type \<Rightarrow> bytes \<Rightarrow> bytes" where
  "onAddCommentToDiscussionThreadMessage context cid parentMessageId content =
     recordBlob ADD_COMMENT_TO_DISCUSSION_THREAD_MESSAGE 1 (context_parts context @
       [uuid_part cid, uuid_part parentMessageId, string_part content])"

definition onSolveDiscussionThreadMessageComment :: "observer_context \<Rightarrow> id_type \<Rightarrow> bytes" where
  "onSolveDiscussionThreadMessageComment context cid =
     recordBlob SOLVE_DISCUSSION_THREAD_MESSAGE_COMMENT 1 (context_parts context @
       [uuid_part cid])"

definition onQuoteUserInDiscussionThreadMessage :: "observer_context \<Rightarrow> id_type \<Rightarrow> id_type \<Rightarrow> bytes" where
  "onQuoteUserInDiscussionThreadMessage context mid userId =
     recordBlob QUOTE_USER_IN_DISCUSSION_THREAD_MESSAGE 1 (context_parts context @
       [uuid_part mid, uuid_part userId])"

subsection \<open>Tags and categories\<close>

definition onAddNewDiscussionTag :: "observer_context \<Rightarrow> id_type \<Rightarrow> bytes \<Rightarrow> bytes" where
  "onAddNewDiscussionTag context gid tagName =
     recordBlob ADD_NEW_DISCUSSION_TAG 1 (context_parts context @
       [uuid_part gid, string_part tagName])"

definition onChangeDiscussionTagName :: "observer_context \<Rightarrow> id_type \<Rightarrow> bytes \<Rightarrow> bytes" where
  "onChangeDiscussionTagName context gid tagName =
     recordBlob CHANGE_DISCUSSION_TAG_NAME 1 (context_parts context @
       [uuid_part gid, string_part tagName])"

definition onChangeDiscussionTagUIBlob :: "observer_context \<Rightarrow> id_type \<Rightarrow> bytes \<Rightarrow> bytes" where
  "onChangeDiscussionTagUIBlob context gid uiBlob =
     recordBlob CHANGE_DISCUSSION_TAG_UI_BLOB 1 (context_parts context @
       [uuid_part gid, string_part uiBlob])"

definition onDeleteDiscussionTag :: "observer_context \<Rightarrow> id_type \<Rightarrow> bytes" where
  "onDeleteDiscussionTag context gid =
     recordBlob DELETE_DISCUSSION_TAG 1 (context_parts context @
       [uuid_part gid])"

definition onAddDiscussionTagToThread :: "observer_context \<Rightarrow> id_type \<Rightarrow> id_type \<Rightarrow> bytes" where
  "onAddDiscussionTagToThread context gid tid =
     recordBlob ADD_DISCUSSION_TAG_TO_THREAD 1 (context_parts context @
       [uuid_part gid, uuid_part tid])"

definition onRemoveDiscussionTagFromThread :: "observer_context \<Rightarrow> id_type \<Rightarrow> id_type \<Rightarrow> bytes" where
  "onRemoveDiscussionTagFromThread context gid tid =
     recordBlob REMOVE_DISCUSSION_TAG_FROM_THREAD 1 (context_parts context @
       [uuid_part gid, uuid_part tid])"

definition onMergeDiscussionTags :: "observer_context \<Rightarrow> id_type \<Rightarrow> id_type \<Rightarrow> bytes" where
  "onMergeDiscussionTags context fromTag toTag =
     recordBlob MERGE_DISCUSSION_TAGS 1 (context_parts context @
       [uuid_part fromTag, uuid_part toTag])"

definition onAddNewDiscussionCategory :: "observer_context \<Rightarrow> id_type \<Rightarrow> id_type option \<Rightarrow> bytes \<Rightarrow> bytes" where
  "onAddNewDiscussionCategory context cid parent categoryName =
     recordBlob ADD_NEW_DISCUSSION_CATEGORY 1 (context_parts context @
       [uuid_part cid, uuid_part (parent_id parent), string_part categoryName])"

definition onChangeDiscussionCategoryName :: "observer_context \<Rightarrow> id_type \<Rightarrow> bytes \<Rightarrow> bytes" where
  "onChangeDiscussionCategoryName context cid categoryName =
     recordBlob CHANGE_DISCUSSION_CATEGORY_NAME 1 (context_parts context @
       [uuid_part cid, string_part categoryName])"

definition onChangeDiscussionCategoryDescription :: "observer_context \<Rightarrow> id_type \<Rightarrow> bytes \<Rightarrow> bytes" where
  "onChangeDiscussionCategoryDescription context cid description =
     recordBlob CHANGE_DISCUSSION_CATEGORY_DESCRIPTION 1 (context_parts context @
       [uuid_part cid, string_part description])"

definition onChangeDiscussionCategoryDisplayOrder :: "observer_context \<Rightarrow> id_type \<Rightarrow> 16 word \<Rightarrow> bytes" where
  "onChangeDiscussionCategoryDisplayOrder context cid displayOrder =
     recordBlob CHANGE_DISCUSSION_CATEGORY_DISPLAY_ORDER 1 (context_parts context @
       [uuid_part cid, value_part (word_bytes 2 displayOrder)])"

definition onChangeDiscussionCategoryParent :: "observer_context \<Rightarrow> id_type \<Rightarrow> id_type option \<Rightarrow> bytes" where
  "onChangeDiscussionCategoryParent context cid parent =
     recordBlob CHANGE_DISCUSSION_CATEGORY_PARENT 1 (context_parts context @
       [uuid_part cid, uuid_part (parent_id parent)])"

definition onDeleteDiscussionCategory :: "observer_context \<Rightarrow> id_type \<Rightarrow> bytes" where
  "onDeleteDiscussionCategory context cid =
     recordBlob DELETE_DISCUSSION_CATEGORY 1 (context_parts context @
       [uuid_part cid])"

definition onAddDiscussionTagToCategory :: "observer_context \<Rightarrow> id_type \<Rightarrow> id_type \<Rightarrow> bytes" where
  "onAddDiscussionTagToCategory context gid cid =
     recordBlob ADD_DISCUSSION_TAG_TO_CATEGORY 1 (context_parts context @
       [uuid_part gid, uuid_part cid])"

definition onRemoveDiscussionTagFromCategory :: "observer_context \<Rightarrow> id_type \<Rightarrow> id_type \<Rightarrow> bytes" where
  "onRemoveDiscussionTagFromCategory context gid cid =
     recordBlob REMOVE_DISCUSSION_TAG_FROM_CATEGORY 1 (context_parts context @
       [uuid_part gid, uuid_part cid])"

subsection \<open>Attachments\<close>

definition onAddNewAttachment :: "observer_context \<Rightarrow> id_type \<Rightarrow> bytes \<Rightarrow> 64 word \<Rightarrow> bool \<Rightarrow> bytes" where
  "onAddNewAttachment context aid name attachmentSize approved =
     recordBlob ADD_NEW_ATTACHMENT 1 (context_parts context @
       [uuid_part aid, string_part name, value_part (word_bytes 8 attachmentSize),
        value_part (word_bytes 4 (approved_value approved))])"

definition onChangeAttachmentName :: "observer_context \<Rightarrow> id_type \<Rightarrow> bytes \<Rightarrow> bytes" where
  "onChangeAttachmentName context aid attachmentName =
     recordBlob CHANGE_ATTACHMENT_NAME 1 (context_parts context @
       [uuid_part aid, string_part attachmentName])"

definition onChangeAttachmentApproval :: "observer_context \<Rightarrow> id_type \<Rightarrow> bool \<Rightarrow> bytes" where
  "onChangeAttachmentApproval context aid approved =
     recordBlob CHANGE_ATTACHMENT_APPROVAL 1 (context_parts context @
       [uuid_part aid, value_part (word_bytes 4 (approved_value approved))])"

definition onAddAttachmentToDiscussionThreadMessage :: "observer_context \<Rightarrow> id_type \<Rightarrow> id_type \<Rightarrow> bytes" where
  "onAddAttachmentToDiscussionThreadMessage context aid mid =
     recordBlob ADD_ATTACHMENT_TO_DISCUSSION_THREAD_MESSAGE 1 (context_parts context @
       [uuid_part aid, uuid_part mid])"

definition onRemoveAttachmentFromDiscussionThreadMessage :: "observer_context \<Rightarrow> id_type \<Rightarrow> id_type \<Rightarrow> bytes" where
  "onRemoveAttachmentFromDiscussionThreadMessage context aid mid =
     recordBlob REMOVE_ATTACHMENT_FROM_DISCUSSION_THREAD_MESSAGE 1 (context_parts context @
       [uuid_part aid, uuid_part mid])"

definition onDeleteAttachment :: "observer_context \<Rightarrow> id_type \<Rightarrow> bytes" where
  "onDeleteAttachment context aid =
     recordBlob DELETE_ATTACHMENT 1 (context_parts context @
       [uuid_part aid])"

subsection \<open>Required and assigned privileges\<close>

text \<open>An enumerator is cast to 16 bits, a value and a duration to 16 and 64 bits.\<close>

definition changeDiscussionThreadMessageRequiredPrivilegeForThreadMessage :: "observer_context \<Rightarrow> id_type \<Rightarrow> nat \<Rightarrow> privilege_value \<Rightarrow> bytes" where
  "changeDiscussionThreadMessageRequiredPrivilegeForThreadMessage context mid privilege val =
     recordBlob CHANGE_DISCUSSION_THREAD_MESSAGE_REQUIRED_PRIVILEGE_FOR_THREAD_MESSAGE 1 (context_parts context @
       [uuid_part mid, value_part (word_bytes 2 (of_nat privilege :: 16 word)),
        value_part (word_bytes 2 (word_of_int val :: 16 word))])"

definition changeDiscussionThreadMessageRequiredPrivilegeForThread :: "observer_context \<Rightarrow> id_type \<Rightarrow> nat \<Rightarrow> privilege_value \<Rightarrow> bytes" where
  "changeDiscussionThreadMessageRequiredPrivilegeForThread context tid privilege val =
     recordBlob CHANGE_DISCUSSION_THREAD_MESSAGE_REQUIRED_PRIVILEGE_FOR_THREAD 1 (context_parts context @
       [uuid_part tid, value_part (word_bytes 2 (of_nat privilege :: 16 word)),
        value_part (word_bytes 2 (word_of_int val :: 16 word))])"

definition changeDiscussionThreadMessageRequiredPrivilegeForTag :: "observer_context \<Rightarrow> id_type \<Rightarrow> nat \<Rightarrow> privilege_value \<Rightarrow> bytes" where
  "changeDiscussionThreadMessageRequiredPrivilegeForTag context gid privilege val =
     recordBlob CHANGE_DISCUSSION_THREAD_MESSAGE_REQUIRED_PRIVILEGE_FOR_TAG 1 (context_parts context @
       [uuid_part gid, value_part (word_bytes 2 (of_nat privilege :: 16 word)),
        value_part (word_bytes 2 (word_of_int val :: 16 word))])"

definition changeDiscussionThreadMessageRequiredPrivilegeForumWide :: "observer_context \<Rightarrow> nat \<Rightarrow> privilege_value \<Rightarrow> bytes" where
  "changeDiscussionThreadMessageRequiredPrivilegeForumWide context privilege val =
     recordBlob CHANGE_DISCUSSION_THREAD_MESSAGE_REQUIRED_PRIVILEGE_FORUM_WIDE 1 (context_parts context @
       [value_part (word_bytes 2 (of_nat privilege :: 16 word)),
        value_part (word_bytes 2 (word_of_int val :: 16 word))])"

definition changeDiscussionThreadRequiredPrivilegeForThread :: "observer_context \<Rightarrow> id_type \<Rightarrow> nat \<Rightarrow> privilege_value \<Rightarrow> bytes" where
  "changeDiscussionThreadRequiredPrivilegeForThread context tid privilege val =
     recordBlob CHANGE_DISCUSSION_THREAD_REQUIRED_PRIVILEGE_FOR_THREAD 1 (context_parts context @
       [uuid_part tid, value_part (word_bytes 2 (of_nat privilege :: 16 word)),
        value_part (word_bytes 2 (word_of_int val :: 16 word))])"

definition changeDiscussionThreadRequiredPrivilegeForTag :: "observer_context \<Rightarrow> id_type \<Rightarrow> nat \<Rightarrow> privilege_value \<Rightarrow> bytes" where
  "changeDiscussionThreadRequiredPrivilegeForTag context gid privilege val =
     recordBlob CHANGE_DISCUSSION_THREAD_REQUIRED_PRIVILEGE_FOR_TAG 1 (context_parts context @
       [uuid_part gid, value_part (word_bytes 2 (of_nat privilege :: 16 word)),
        value_part (word_bytes 2 (word_of_int val :: 16 word))])"

definition changeDiscussionThreadRequiredPrivilegeForumWide :: "observer_context \<Rightarrow> nat \<Rightarrow> privilege_value \<Rightarrow> bytes" where
  "changeDiscussionThreadRequiredPrivilegeForumWide context privilege val =
     recordBlob CHANGE_DISCUSSION_THREAD_REQUIRED_PRIVILEGE_FORUM_WIDE 1 (context_parts context @
       [value_part (word_bytes 2 (of_nat privilege :: 16 word)),
        value_part (word_bytes 2 (word_of_int val :: 16 word))])"

definition changeDiscussionTagRequiredPrivilegeForTag :: "observer_context \<Rightarrow> id_type \<Rightarrow> nat \<Rightarrow> privilege_value \<Rightarrow> bytes" where
  "changeDiscussionTagRequiredPrivilegeForTag context gid privilege val =
     recordBlob CHANGE_DISCUSSION_TAG_REQUIRED_PRIVILEGE_FOR_TAG 1 (context_parts context @
       [uuid_part gid, value_part (word_bytes 2 (of_nat privilege :: 16 word)),
        value_part (word_bytes 2 (word_of_int val :: 16 word))])"

definition changeDiscussionTagRequiredPrivilegeForumWide :: "observer_context \<Rightarrow> nat \<Rightarrow> privilege_value \<Rightarrow> bytes" where
  "changeDiscussionTagRequiredPrivilegeForumWide context privilege val =
     recordBlob CHANGE_DISCUSSION_TAG_REQUIRED_PRIVILEGE_FORUM_WIDE 1 (context_parts context @
       [value_part (word_bytes 2 (of_nat privilege :: 16 word)),
        value_part (word_bytes 2 (word_of_int val :: 16 word))])"

definition changeDiscussionCategoryRequiredPrivilegeForCategory :: "observer_context \<Rightarrow> id_type \<Rightarrow> nat \<Rightarrow> privilege_value \<Rightarrow> bytes" where
  "changeDiscussionCategoryRequiredPrivilegeForCategory context cid privilege val =
     recordBlob CHANGE_DISCUSSION_CATEGORY_REQUIRED_PRIVILEGE_FOR_CATEGORY 1 (context_parts context @
       [uuid_part cid, value_part (word_bytes 2 (of_nat privilege :: 16 word)),
        value_part (word_bytes 2 (word_of_int val :: 16 word))])"

definition changeDiscussionCategoryRequiredPrivilegeForumWide :: "observer_context \<Rightarrow> nat \<Rightarrow> privilege_value \<Rightarrow> bytes" where
  "changeDiscussionCategoryRequiredPrivilegeForumWide context privilege val =
     recordBlob CHANGE_DISCUSSION_CATEGORY_REQUIRED_PRIVILEGE_FORUM_WIDE 1 (context_parts context @
       [value_part (word_bytes 2 (of_nat privilege :: 16 word)),
        value_part (word_bytes 2 (word_of_int val :: 16 word))])"

definition changeForumWideRequiredPrivilege :: "observer_context \<Rightarrow> nat \<Rightarrow> privilege_value \<Rightarrow> bytes" where
  "changeForumWideRequiredPrivilege context privilege val =
     recordBlob CHANGE_FORUM_WIDE_REQUIRED_PRIVILEGE 1 (context_parts context @
       [value_part (word_bytes 2 (of_nat privilege :: 16 word)),
        value_part (word_bytes 2 (word_of_int val :: 16 word))])"

definition changeForumWideDefaultPrivilegeLevel :: "observer_context \<Rightarrow> nat \<Rightarrow> privilege_value \<Rightarrow> int \<Rightarrow> bytes" where
  "changeForumWideDefaultPrivilegeLevel context privilegeDuration val duration =
     recordBlob CHANGE_FORUM_WIDE_DEFAULT_PRIVILEGE_LEVEL 1 (context_parts context @
       [value_part (word_bytes 2 (of_nat privilegeDuration :: 16 word)),
        value_part (word_bytes 2 (word_of_int val :: 16 word)),
        value_part (word_bytes 8 (word_of_int duration :: 64 word))])"

definition observe_assignDiscussionThreadMessagePrivilege :: "observer_context \<Rightarrow> id_type \<Rightarrow> id_type \<Rightarrow> privilege_value \<Rightarrow> int \<Rightarrow> bytes" where
  "observe_assignDiscussionThreadMessagePrivilege context mid uid val duration =
     recordBlob ASSIGN_DISCUSSION_THREAD_MESSAGE_PRIVILEGE 1 (context_parts context @
       [uuid_part mid, uuid_part uid, value_part (word_bytes 2 (word_of_int val :: 16 word)),
        value_part (word_bytes 8 (word_of_int duration :: 64 word))])"

definition observe_assignDiscussionThreadPrivilege :: "observer_context \<Rightarrow> id_type \<Rightarrow> id_type \<Rightarrow> privilege_value \<Rightarrow> int \<Rightarrow> bytes" where
  "observe_assignDiscussionThreadPrivilege context tid uid val duration =
     recordBlob ASSIGN_DISCUSSION_THREAD_PRIVILEGE 1 (context_parts context @
       [uuid_part tid, uuid_part uid, value_part (word_bytes 2 (word_of_int val :: 16 word)),
        value_part (word_bytes 8 (word_of_int duration :: 64 word))])"

definition observe_assignDiscussionTagPrivilege :: "observer_context \<Rightarrow> id_type \<Rightarrow> id_type \<Rightarrow> privilege_value \<Rightarrow> int \<Rightarrow> bytes" where
  "observe_assignDiscussionTagPrivilege context gid uid val duration =
     recordBlob ASSIGN_DISCUSSION_TAG_PRIVILEGE 1 (context_parts context @
       [uuid_part gid, uuid_part uid, value_part (word_bytes 2 (word_of_int val :: 16 word)),
        value_part (word_bytes 8 (word_of_int duration :: 64 word))])"

definition observe_assignDiscussionCategoryPrivilege :: "observer_context \<Rightarrow> id_type \<Rightarrow> id_type \<Rightarrow> privilege_value \<Rightarrow> int \<Rightarrow> bytes" where
  "observe_assignDiscussionCategoryPrivilege context cid uid val duration =
     recordBlob ASSIGN_DISCUSSION_CATEGORY_PRIVILEGE 1 (context_parts context @
       [uuid_part cid, uuid_part uid, value_part (word_bytes 2 (word_of_int val :: 16 word)),
        value_part (word_bytes 8 (word_of_int duration :: 64 word))])"

definition observe_assignForumWidePrivilege :: "observer_context \<Rightarrow> id_type \<Rightarrow> privilege_value \<Rightarrow> int \<Rightarrow> bytes" where
  "observe_assignForumWidePrivilege context uid val duration =
     recordBlob ASSIGN_FORUM_WIDE_PRIVILEGE 1 (context_parts context @
       [uuid_part uid, value_part (word_bytes 2 (word_of_int val :: 16 word)),
        value_part (word_bytes 8 (word_of_int duration :: 64 word))])"

lemmas observer_defs =
  onAddNewUser_def onChangeUserName_def onChangeUserInfo_def onChangeUserTitle_def
  onChangeUserSignature_def onChangeUserLogo_def onChangeUserAttachmentQuota_def onDeleteUser_def
  onSendPrivateMessage_def onDeletePrivateMessage_def onAddNewDiscussionThread_def
  onChangeDiscussionThreadName_def onChangeDiscussionThreadPinDisplayOrder_def
  onChangeDiscussionThreadApproval_def onDeleteDiscussionThread_def onMergeDiscussionThreads_def
  onMoveDiscussionThreadMessage_def onSubscribeToDiscussionThread_def
  onUnsubscribeFromDiscussionThread_def onAddNewDiscussionThreadMessage_def
  onChangeDiscussionThreadMessageContent_def onChangeDiscussionThreadMessageApproval_def
  onDeleteDiscussionThreadMessage_def onDiscussionThreadMessageUpVote_def
  onDiscussionThreadMessageDownVote_def onDiscussionThreadMessageResetVote_def
  onAddCommentToDiscussionThreadMessage_def onSolveDiscussionThreadMessageComment_def
  onQuoteUserInDiscussionThreadMessage_def onAddNewDiscussionTag_def onChangeDiscussionTagName_def
  onChangeDiscussionTagUIBlob_def onDeleteDiscussionTag_def onAddDiscussionTagToThread_def
  onRemoveDiscussionTagFromThread_def onMergeDiscussionTags_def onAddNewDiscussionCategory_def
  onChangeDiscussionCategoryName_def onChangeDiscussionCategoryDescription_def
  onChangeDiscussionCategoryDisplayOrder_def onChangeDiscussionCategoryParent_def
  onDeleteDiscussionCategory_def onAddDiscussionTagToCategory_def
  onRemoveDiscussionTagFromCategory_def onAddNewAttachment_def onChangeAttachmentName_def
  onChangeAttachmentApproval_def onAddAttachmentToDiscussionThreadMessage_def
  onRemoveAttachmentFromDiscussionThreadMessage_def onDeleteAttachment_def
  changeDiscussionThreadMessageRequiredPrivilegeForThreadMessage_def
  changeDiscussionThreadMessageRequiredPrivilegeForThread_def
  changeDiscussionThreadMessageRequiredPrivilegeForTag_def
  changeDiscussionThreadMessageRequiredPrivilegeForumWide_def
  changeDiscussionThreadRequiredPrivilegeForThread_def
  changeDiscussionThreadRequiredPrivilegeForTag_def
  changeDiscussionThreadRequiredPrivilegeForumWide_def
  changeDiscussionTagRequiredPrivilegeForTag_def changeDiscussionTagRequiredPrivilegeForumWide_def
  changeDiscussionCategoryRequiredPrivilegeForCategory_def
  changeDiscussionCategoryRequiredPrivilegeForumWide_def changeForumWideRequiredPrivilege_def
  changeForumWideDefaultPrivilegeLevel_def observe_assignDiscussionThreadMessagePrivilege_def
  observe_assignDiscussionThreadPrivilege_def observe_assignDiscussionTagPrivilege_def
  observe_assignDiscussionCategoryPrivilege_def observe_assignForumWidePrivilege_def

subsection \<open>Visits, written periodically\<close>

text \<open>
  Visits of threads and downloads of attachments are counted in ordered maps and written by a timer.
  The counters are 32-bit; assigning through \<open>operator[]\<close> replaces the page of a pair of keys.
\<close>

record visit_cache =
  vc_nrOfThreadVisits :: "(id_type \<times> 32 word) list"
  vc_latestVisitedPage :: "((id_type \<times> id_type) \<times> 32 word) list"
  vc_nrOfAttachmentGets :: "(id_type \<times> 32 word) list"

definition empty_visit_cache :: visit_cache where
  "empty_visit_cache = \<lparr>vc_nrOfThreadVisits = [], vc_latestVisitedPage = [], vc_nrOfAttachmentGets = []\<rparr>"

definition count_visit :: "id_type \<Rightarrow> (id_type \<times> 32 word) list \<Rightarrow> (id_type \<times> 32 word) list" where
  "count_visit uid cache =
     (if uid \<in> fst ` set cache then map (\<lambda>(k, n). (k, if k = uid then n + 1 else n)) cache
      else map_insert uid 1 cache)"

definition assign_page :: "id_type \<times> id_type \<Rightarrow> 32 word \<Rightarrow> ((id_type \<times> id_type) \<times> 32 word) list
    \<Rightarrow> ((id_type \<times> id_type) \<times> 32 word) list" where
  "assign_page key page cache =
     (if key \<in> fst ` set cache then map (\<lambda>(k, p). (k, if k = key then page else p)) cache
      else map_insert key page cache)"

definition onGetDiscussionThreadById :: "observer_context \<Rightarrow> id_type \<Rightarrow> 32 word \<Rightarrow> visit_cache \<Rightarrow> visit_cache" where
  "onGetDiscussionThreadById context threadId latestVisitedPage c =
     (let c = c\<lparr>vc_nrOfThreadVisits := count_visit threadId (vc_nrOfThreadVisits c)\<rparr>
      in if latestVisitedPage > 0
         then c\<lparr>vc_latestVisitedPage := assign_page (oc_performedBy context, threadId) latestVisitedPage (vc_latestVisitedPage c)\<rparr>
         else c)"

definition onGetAttachment :: "observer_context \<Rightarrow> id_type \<Rightarrow> visit_cache \<Rightarrow> visit_cache" where
  "onGetAttachment context attachmentId c = c\<lparr>vc_nrOfAttachmentGets := count_visit attachmentId (vc_nrOfAttachmentGets c)\<rparr>"

definition updatePeriodicWrites :: "visit_cache \<Rightarrow> bytes list \<times> visit_cache" where
  "updatePeriodicWrites c =
     (map (\<lambda>(uid, n). recordBlob INCREMENT_DISCUSSION_THREAD_NUMBER_OF_VISITS 1
             (empty_context_parts @ [uuid_part uid, value_part (word_bytes 4 n)])) (vc_nrOfThreadVisits c)
      @ map (\<lambda>((userId, threadId), page). recordBlob INCREMENT_USER_LATEST_VISITED_PAGE 1
             (empty_context_parts @ [uuid_part userId, uuid_part threadId, value_part (word_bytes 4 page)]))
          (vc_latestVisitedPage c)
      @ map (\<lambda>(uid, n). recordBlob INCREMENT_ATTACHMENT_NUMBER_OF_GETS 1
             (empty_context_parts @ [uuid_part uid, value_part (word_bytes 4 n)])) (vc_nrOfAttachmentGets c),
      empty_visit_cache)"

subsection \<open>The buffer of a blob is filled exactly\<close>

definition part_ok :: "blob_part \<Rightarrow> bool" where
  "part_ok p \<longleftrightarrow> unat (part_size p) \<le> length (part_address p)"

lemma length_part_bytes: "part_ok p \<Longrightarrow> length (part_bytes p) = part_totalSize p"
  by (auto simp: part_ok_def part_bytes_def part_totalSize_def word_gt_0 unat_eq_0)

lemma part_ok_intros [simp]:
  "part_ok (value_part v)" "part_ok (string_part s)" "part_ok (uuid_part uid)"
  by (simp_all add: part_ok_def value_part_def string_part_def uuid_part_def unat_of_nat)

lemma fold_sum: "fold (\<lambda>x total. total + f x) xs (n :: nat) = n + sum_list (map f xs)"
  by (induction xs arbitrary: n) auto

lemma recordBlob_fills:
  assumes "\<forall>p\<in>set parts. part_ok p"
  shows "length (recordBlob eventType version parts) = recordBlob_size parts"
proof -
  have "length (concat (map part_bytes parts)) = sum_list (map part_totalSize parts)"
    using assms by (induction parts) (auto simp: length_part_bytes)
  then show ?thesis
    by (simp add: recordBlob_def recordBlob_size_def fold_sum EventHeaderSize_def)
qed

lemma part_bytes_value [simp]: "length v < 2 ^ 32 \<Longrightarrow> part_bytes (value_part v) = v"
  by (cases "v = []") (auto simp: part_bytes_def value_part_def unat_of_nat word_gt_0 unat_eq_0 [symmetric])

lemma part_bytes_uuid [simp]: "part_bytes (uuid_part uid) = uuid_bytes uid"
  by (simp add: uuid_part_def)

lemma part_bytes_string [simp]:
  "length s < 2 ^ 32 \<Longrightarrow> part_bytes (string_part s) = word_bytes 4 (of_nat (length s) :: 32 word) @ s"
  by (cases "s = []") (auto simp: part_bytes_def string_part_def unat_of_nat word_gt_0 unat_eq_0 [symmetric])

end
