(* ===== verification/EventImport.thy ===== *)
theory EventImport
  imports EventRecording "HOL-Library.AList"
begin

section \<open>Importing the event log\<close>

text \<open>
  Models \<^verbatim>\<open>src/src/LibForumPersistence/private/EventImporter.cpp\<close>. The importer gets a pointer and a
  \<open>size_t\<close>; the model gets the bytes from the pointer to the end of the memory that may be read and
  the size as a 64-bit word, which wraps. The result \<open>None\<close> is a read outside that memory. The
  macros that read a value and return false on an error are continuations.

  \<open>is_logsErrors\<close> says whether the logging library opens a record of severity error: the macro that
  checks a status code writes its argument into the record, which evaluates the call a second time.
\<close>

subsection \<open>State\<close>

record 's import_state =
  is_currentTimestamp :: "64 word"
  is_firstTimestamp :: "64 word"
  is_currentEventType :: event_type
  is_userId :: id_type
  is_ip :: "128 word"
  is_nrOfThreadVisits :: "(id_type \<times> 32 word) list"
  is_latestThreadVisitedPage :: "((id_type \<times> id_type) \<times> 32 word) list"
  is_nrOfAttachmentGets :: "(id_type \<times> 32 word) list"
  is_usersLastSeen :: "(id_type \<times> 64 word) list"
  is_logsErrors :: bool
  is_entities :: 's

definition TimestampMax :: "64 word" where
  "TimestampMax = 0x7FFFFFFFFFFFFFFF"

definition EventImporterImpl :: "bool \<Rightarrow> 's \<Rightarrow> 's import_state" where
  "EventImporterImpl logsErrors entityCollection =
     \<lparr>is_currentTimestamp = 0, is_firstTimestamp = TimestampMax, is_currentEventType = 0,
      is_userId = 0, is_ip = 0, is_nrOfThreadVisits = [], is_latestThreadVisitedPage = [],
      is_nrOfAttachmentGets = [], is_usersLastSeen = [], is_logsErrors = logsErrors,
      is_entities = entityCollection\<rparr>"

definition call_context_of :: "'s import_state \<Rightarrow> call_context" where
  "call_context_of st = \<lparr>cc_time = is_currentTimestamp st, cc_userId = is_userId st, cc_ip = is_ip st\<rparr>"

type_synonym 's importer = "'s import_state \<Rightarrow> bytes \<Rightarrow> 64 word \<Rightarrow> (bool \<times> 's import_state) option"

subsection \<open>Reading values\<close>

definition import_done :: "'s importer" where
  "import_done st data sz = Some (True, st)"

definition import_failed :: "'s importer" where
  "import_failed st data sz = Some (False, st)"

definition read_fixed :: "nat \<Rightarrow> (bytes \<Rightarrow> 's importer) \<Rightarrow> 's importer" where
  "read_fixed n k st data sz =
     (if unat sz < n then Some (False, st)
      else if length data < n then None
      else k (take n data) st (drop n data) (sz - of_nat n))"

definition read_uuid :: "(id_type \<Rightarrow> 's importer) \<Rightarrow> 's importer" where
  "read_uuid k = read_fixed 16 (\<lambda>b. k (bytes_uuid b))"

definition read_u16 :: "(16 word \<Rightarrow> 's importer) \<Rightarrow> 's importer" where
  "read_u16 k = read_fixed 2 (\<lambda>b. k (bytes_word b))"

definition read_u32 :: "(32 word \<Rightarrow> 's importer) \<Rightarrow> 's importer" where
  "read_u32 k = read_fixed 4 (\<lambda>b. k (bytes_word b))"

definition read_u64 :: "(64 word \<Rightarrow> 's importer) \<Rightarrow> 's importer" where
  "read_u64 k = read_fixed 8 (\<lambda>b. k (bytes_word b))"

text \<open>
  When the bytes of a string are not all there, the view is empty, but the pointer and the size
  still advance by the announced number of bytes.
\<close>

definition read_string :: "(bytes \<Rightarrow> 's importer) \<Rightarrow> 's importer" where
  "read_string k = read_u32 (\<lambda>stringSize st data sz.
     if unat sz < unat stringSize then k [] st (drop (unat stringSize) data) (sz - ucast stringSize)
     else if length data < unat stringSize then None
     else k (take (unat stringSize) data) st (drop (unat stringSize) data) (sz - ucast stringSize))"

definition read_nonempty_string :: "(bytes \<Rightarrow> 's importer) \<Rightarrow> 's importer" where
  "read_nonempty_string k = read_string (\<lambda>s. if s = [] then import_failed else k s)"

definition check_read_all :: "'s importer \<Rightarrow> 's importer" where
  "check_read_all k st data sz = (if sz \<noteq> 0 then Some (False, st) else k st data sz)"

definition check_status_code :: "'s repositories \<Rightarrow> repository_call \<Rightarrow> 's importer \<Rightarrow> 's importer" where
  "check_status_code repo call k st data sz =
     (let (status, entities) = repo (call_context_of st) call (is_entities st);
          st = st\<lparr>is_entities := entities\<rparr>
      in if status \<noteq> STATUS_OK \<and> status \<noteq> NO_EFFECT
         then Some (False, if is_logsErrors st
                then st\<lparr>is_entities := snd (repo (call_context_of st) call (is_entities st))\<rparr> else st)
         else k st data sz)"

definition update_importer :: "('s import_state \<Rightarrow> 's import_state) \<Rightarrow> 's importer \<Rightarrow> 's importer" where
  "update_importer f k st data sz = k (f st) data sz"

subsection \<open>The context of an event\<close>

definition setUsersLastSeen :: "id_type \<Rightarrow> 64 word \<Rightarrow> 's import_state \<Rightarrow> 's import_state" where
  "setUsersLastSeen uid seenAt st = st\<lparr>is_usersLastSeen := AList.update uid seenAt (is_usersLastSeen st)\<rparr>"

definition processContext_v1 :: "'s importer \<Rightarrow> 's importer" where
  "processContext_v1 k st data sz =
     (if unat sz < 8 + 16 + 16 then Some (False, st)
      else if length data < 8 + 16 + 16 then None
      else let timestamp = bytes_word (take 8 data);
               currentUserId = bytes_uuid (take 16 (drop 8 data));
               st = st\<lparr>is_currentTimestamp := timestamp,
                       is_firstTimestamp := (if timestamp <s is_firstTimestamp st then timestamp else is_firstTimestamp st),
                       is_userId := currentUserId,
                       is_ip := bytes_uuid (take 16 (drop 24 data))\<rparr>;
               st = setUsersLastSeen currentUserId timestamp st
           in k st (drop 40 data) (sz - 40))"

definition processContext :: "16 word \<Rightarrow> 's importer \<Rightarrow> 's importer" where
  "processContext contextVersion k st data sz =
     (if 1 \<noteq> contextVersion then Some (False, st) else processContext_v1 k st data sz)"

definition add_cached :: "id_type \<Rightarrow> 32 word \<Rightarrow> (id_type \<times> 32 word) list \<Rightarrow> (id_type \<times> 32 word) list" where
  "add_cached uid n cache =
     (case map_of cache uid of Some m \<Rightarrow> AList.update uid (m + n) cache | None \<Rightarrow> AList.update uid n cache)"

subsection \<open>One importer per event and version\<close>

definition import_ADD_NEW_USER_v1 :: "'s repositories \<Rightarrow> 16 word \<Rightarrow> 's importer" where
  "import_ADD_NEW_USER_v1 repo contextVersion = processContext contextVersion (
     read_uuid (\<lambda>uid. read_nonempty_string (\<lambda>auth.
     read_nonempty_string (\<lambda>userName. check_read_all (
     check_status_code repo (UserCall (AddNewUser uid userName auth)) (import_done))))))"

definition import_CHANGE_USER_NAME_v1 :: "'s repositories \<Rightarrow> 16 word \<Rightarrow> 's importer" where
  "import_CHANGE_USER_NAME_v1 repo contextVersion = processContext contextVersion (
     read_uuid (\<lambda>uid. read_nonempty_string (\<lambda>newName. check_read_all (
     check_status_code repo (UserCall (ChangeUserName uid newName)) (import_done)))))"

definition import_CHANGE_USER_INFO_v1 :: "'s repositories \<Rightarrow> 16 word \<Rightarrow> 's importer" where
  "import_CHANGE_USER_INFO_v1 repo contextVersion = processContext contextVersion (
     read_uuid (\<lambda>uid. read_string (\<lambda>newInfo. check_read_all (
     check_status_code repo (UserCall (ChangeUserInfo uid newInfo)) (import_done)))))"

definition import_CHANGE_USER_TITLE_v1 :: "'s repositories \<Rightarrow> 16 word \<Rightarrow> 's importer" where
  "import_CHANGE_USER_TITLE_v1 repo contextVersion = processContext contextVersion (
     read_uuid (\<lambda>uid. read_string (\<lambda>newTitle. check_read_all (
     check_status_code repo (UserCall (ChangeUserTitle uid newTitle)) (import_done)))))"

definition import_CHANGE_USER_SIGNATURE_v1 :: "'s repositories \<Rightarrow> 16 word \<Rightarrow> 's importer" where
  "import_CHANGE_USER_SIGNATURE_v1 repo contextVersion = processContext contextVersion (
     read_uuid (\<lambda>uid. read_string (\<lambda>newSignature. check_read_all (
     check_status_code repo (UserCall (ChangeUserSignature uid newSignature)) (import_done)))))"

definition import_CHANGE_USER_LOGO_v1 :: "'s repositories \<Rightarrow> 16 word \<Rightarrow> 's importer" where
  "import_CHANGE_USER_LOGO_v1 repo contextVersion = processContext contextVersion (
     read_uuid (\<lambda>uid. read_string (\<lambda>newLogo. check_read_all (
     check_status_code repo (UserCall (ChangeUserLogo uid newLogo)) (import_done)))))"

definition import_CHANGE_USER_ATTACHMENT_QUOTA_v1 :: "'s repositories \<Rightarrow> 16 word \<Rightarrow> 's importer" where
  "import_CHANGE_USER_ATTACHMENT_QUOTA_v1 repo contextVersion = processContext contextVersion (
     read_uuid (\<lambda>uid. read_u64 (\<lambda>newQuota. check_read_all (
     check_status_code repo (UserCall (ChangeUserAttachmentQuota uid newQuota)) (
     import_done)))))"

definition import_DELETE_USER_v1 :: "'s repositories \<Rightarrow> 16 word \<Rightarrow> 's importer" where
  "import_DELETE_USER_v1 repo contextVersion = processContext contextVersion (
     read_uuid (\<lambda>uid. check_read_all (
     check_status_code repo (UserCall (DeleteUser uid)) (import_done))))"

definition import_SEND_PRIVATE_MESSAGE_v1 :: "'s repositories \<Rightarrow> 16 word \<Rightarrow> 's importer" where
  "import_SEND_PRIVATE_MESSAGE_v1 repo contextVersion = processContext contextVersion (
     read_uuid (\<lambda>uid. read_uuid (\<lambda>destinationId.
     read_nonempty_string (\<lambda>content. check_read_all (
     check_status_code repo (UserCall (SendPrivateMessage uid destinationId content)) (
     import_done))))))"

definition import_DELETE_PRIVATE_MESSAGE_v1 :: "'s repositories \<Rightarrow> 16 word \<Rightarrow> 's importer" where
  "import_DELETE_PRIVATE_MESSAGE_v1 repo contextVersion = processContext contextVersion (
     read_uuid (\<lambda>uid. check_read_all (
     check_status_code repo (UserCall (DeletePrivateMessage uid)) (import_done))))"

definition import_ADD_NEW_DISCUSSION_THREAD_v1 :: "'s repositories \<Rightarrow> 16 word \<Rightarrow> 's importer" where
  "import_ADD_NEW_DISCUSSION_THREAD_v1 repo contextVersion = processContext contextVersion (
     read_uuid (\<lambda>uid. read_nonempty_string (\<lambda>threadName. check_read_all (
     check_status_code repo (ThreadCall (AddNewDiscussionThread uid threadName True)) (
     import_done)))))"

definition import_ADD_NEW_DISCUSSION_THREAD_v2 :: "'s repositories \<Rightarrow> 16 word \<Rightarrow> 's importer" where
  "import_ADD_NEW_DISCUSSION_THREAD_v2 repo contextVersion = processContext contextVersion (
     read_uuid (\<lambda>uid. read_nonempty_string (\<lambda>threadName.
     read_u32 (\<lambda>approved. check_read_all (
     check_status_code repo (ThreadCall (AddNewDiscussionThread uid threadName (0 \<noteq> approved))) (
     import_done))))))"

definition import_CHANGE_DISCUSSION_THREAD_NAME_v1 :: "'s repositories \<Rightarrow> 16 word \<Rightarrow> 's importer" where
  "import_CHANGE_DISCUSSION_THREAD_NAME_v1 repo contextVersion = processContext contextVersion (
     read_uuid (\<lambda>uid. read_nonempty_string (\<lambda>threadName. check_read_all (
     check_status_code repo (ThreadCall (ChangeDiscussionThreadName uid threadName)) (
     import_done)))))"

definition import_DELETE_DISCUSSION_THREAD_v1 :: "'s repositories \<Rightarrow> 16 word \<Rightarrow> 's importer" where
  "import_DELETE_DISCUSSION_THREAD_v1 repo contextVersion = processContext contextVersion (
     read_uuid (\<lambda>uid. check_read_all (
     check_status_code repo (ThreadCall (DeleteDiscussionThread uid)) (import_done))))"

definition import_MERGE_DISCUSSION_THREADS_v1 :: "'s repositories \<Rightarrow> 16 word \<Rightarrow> 's importer" where
  "import_MERGE_DISCUSSION_THREADS_v1 repo contextVersion = processContext contextVersion (
     read_uuid (\<lambda>fromThreadId. read_uuid (\<lambda>intoThreadId. check_read_all (
     check_status_code repo (ThreadCall (MergeDiscussionThreads fromThreadId intoThreadId)) (
     import_done)))))"

definition import_SUBSCRIBE_TO_DISCUSSION_THREAD_v1 :: "'s repositories \<Rightarrow> 16 word \<Rightarrow> 's importer" where
  "import_SUBSCRIBE_TO_DISCUSSION_THREAD_v1 repo contextVersion = processContext contextVersion (
     read_uuid (\<lambda>uid. check_read_all (
     check_status_code repo (ThreadCall (SubscribeToDiscussionThread uid)) (import_done))))"

definition import_UNSUBSCRIBE_FROM_DISCUSSION_THREAD_v1 :: "'s repositories \<Rightarrow> 16 word \<Rightarrow> 's importer" where
  "import_UNSUBSCRIBE_FROM_DISCUSSION_THREAD_v1 repo contextVersion = processContext contextVersion (
     read_uuid (\<lambda>uid. check_read_all (
     check_status_code repo (ThreadCall (UnsubscribeFromDiscussionThread uid)) (import_done))))"

definition import_ADD_NEW_DISCUSSION_THREAD_MESSAGE_v1 :: "'s repositories \<Rightarrow> 16 word \<Rightarrow> 's importer" where
  "import_ADD_NEW_DISCUSSION_THREAD_MESSAGE_v1 repo contextVersion = processContext contextVersion (
     read_uuid (\<lambda>messageId. read_uuid (\<lambda>parentId.
     read_nonempty_string (\<lambda>message. check_read_all (
     check_status_code repo (MessageCall (AddNewDiscussionMessageInThread messageId parentId True message)) (
     import_done))))))"

definition import_ADD_NEW_DISCUSSION_THREAD_MESSAGE_v2 :: "'s repositories \<Rightarrow> 16 word \<Rightarrow> 's importer" where
  "import_ADD_NEW_DISCUSSION_THREAD_MESSAGE_v2 repo contextVersion = processContext contextVersion (
     read_uuid (\<lambda>messageId. read_uuid (\<lambda>parentId. read_u32 (\<lambda>messageSize.
     read_u64 (\<lambda>messageOffset. check_read_all (
     check_status_code repo (MessageCall (AddNewDiscussionMessageInThread_mapped messageId parentId True messageSize messageOffset)) (
     import_done)))))))"

definition import_ADD_NEW_DISCUSSION_THREAD_MESSAGE_v3 :: "'s repositories \<Rightarrow> 16 word \<Rightarrow> 's importer" where
  "import_ADD_NEW_DISCUSSION_THREAD_MESSAGE_v3 repo contextVersion = processContext contextVersion (
     read_uuid (\<lambda>messageId. read_uuid (\<lambda>parentId. read_u32 (\<lambda>approved.
     read_nonempty_string (\<lambda>message. check_read_all (
     check_status_code repo (MessageCall (AddNewDiscussionMessageInThread messageId parentId (0 \<noteq> approved) message)) (
     import_done)))))))"

definition import_ADD_NEW_DISCUSSION_THREAD_MESSAGE_v4 :: "'s repositories \<Rightarrow> 16 word \<Rightarrow> 's importer" where
  "import_ADD_NEW_DISCUSSION_THREAD_MESSAGE_v4 repo contextVersion = processContext contextVersion (
     read_uuid (\<lambda>messageId. read_uuid (\<lambda>parentId. read_u32 (\<lambda>approved.
     read_u32 (\<lambda>messageSize. read_u64 (\<lambda>messageOffset. check_read_all (
     check_status_code repo (MessageCall (AddNewDiscussionMessageInThread_mapped messageId parentId (0 \<noteq> approved) messageSize messageOffset)) (
     import_done))))))))"

definition import_CHANGE_DISCUSSION_THREAD_MESSAGE_CONTENT_v1 :: "'s repositories \<Rightarrow> 16 word \<Rightarrow> 's importer" where
  "import_CHANGE_DISCUSSION_THREAD_MESSAGE_CONTENT_v1 repo contextVersion = processContext contextVersion (
     read_uuid (\<lambda>messageId. read_nonempty_string (\<lambda>content.
     read_string (\<lambda>lastUpdatedReason. check_read_all (
     check_status_code repo (MessageCall (ChangeDiscussionThreadMessageContent messageId content lastUpdatedReason)) (
     import_done))))))"

definition import_CHANGE_DISCUSSION_THREAD_MESSAGE_APPROVAL_v1 :: "'s repositories \<Rightarrow> 16 word \<Rightarrow> 's importer" where
  "import_CHANGE_DISCUSSION_THREAD_MESSAGE_APPROVAL_v1 repo contextVersion = processContext contextVersion (
     read_uuid (\<lambda>messageId. read_u32 (\<lambda>approved. check_read_all (
     check_status_code repo (MessageCall (ChangeDiscussionThreadMessageApproval messageId (0 \<noteq> approved))) (
     import_done)))))"

definition import_MOVE_DISCUSSION_THREAD_MESSAGE_v1 :: "'s repositories \<Rightarrow> 16 word \<Rightarrow> 's importer" where
  "import_MOVE_DISCUSSION_THREAD_MESSAGE_v1 repo contextVersion = processContext contextVersion (
     read_uuid (\<lambda>messageId. read_uuid (\<lambda>threadId.
     check_status_code repo (MessageCall (MoveDiscussionThreadMessage messageId threadId)) (
     check_read_all (import_done)))))"

definition import_DELETE_DISCUSSION_THREAD_MESSAGE_v1 :: "'s repositories \<Rightarrow> 16 word \<Rightarrow> 's importer" where
  "import_DELETE_DISCUSSION_THREAD_MESSAGE_v1 repo contextVersion = processContext contextVersion (
     read_uuid (\<lambda>uid. check_read_all (
     check_status_code repo (MessageCall (DeleteDiscussionMessage uid)) (import_done))))"

definition import_DISCUSSION_THREAD_MESSAGE_UP_VOTE_v1 :: "'s repositories \<Rightarrow> 16 word \<Rightarrow> 's importer" where
  "import_DISCUSSION_THREAD_MESSAGE_UP_VOTE_v1 repo contextVersion = processContext contextVersion (
     read_uuid (\<lambda>uid. check_read_all (
     check_status_code repo (MessageCall (UpVoteDiscussionThreadMessage uid)) (import_done))))"

definition import_DISCUSSION_THREAD_MESSAGE_DOWN_VOTE_v1 :: "'s repositories \<Rightarrow> 16 word \<Rightarrow> 's importer" where
  "import_DISCUSSION_THREAD_MESSAGE_DOWN_VOTE_v1 repo contextVersion = processContext contextVersion (
     read_uuid (\<lambda>uid. check_read_all (
     check_status_code repo (MessageCall (DownVoteDiscussionThreadMessage uid)) (import_done))))"

definition import_DISCUSSION_THREAD_MESSAGE_RESET_VOTE_v1 :: "'s repositories \<Rightarrow> 16 word \<Rightarrow> 's importer" where
  "import_DISCUSSION_THREAD_MESSAGE_RESET_VOTE_v1 repo contextVersion = processContext contextVersion (
     read_uuid (\<lambda>uid. check_read_all (
     check_status_code repo (MessageCall (ResetVoteDiscussionThreadMessage uid)) (
     import_done))))"

definition import_ADD_COMMENT_TO_DISCUSSION_THREAD_MESSAGE_v1 :: "'s repositories \<Rightarrow> 16 word \<Rightarrow> 's importer" where
  "import_ADD_COMMENT_TO_DISCUSSION_THREAD_MESSAGE_v1 repo contextVersion = processContext contextVersion (
     read_uuid (\<lambda>commentId. read_uuid (\<lambda>messageId.
     read_nonempty_string (\<lambda>comment. check_read_all (
     check_status_code repo (MessageCall (AddCommentToDiscussionThreadMessage commentId messageId comment)) (
     import_done))))))"

definition import_SOLVE_DISCUSSION_THREAD_MESSAGE_COMMENT_v1 :: "'s repositories \<Rightarrow> 16 word \<Rightarrow> 's importer" where
  "import_SOLVE_DISCUSSION_THREAD_MESSAGE_COMMENT_v1 repo contextVersion = processContext contextVersion (
     read_uuid (\<lambda>uid. check_read_all (
     check_status_code repo (MessageCall (SetMessageCommentToSolved uid)) (import_done))))"

definition import_QUOTE_USER_IN_DISCUSSION_THREAD_MESSAGE_v1 :: "'s repositories \<Rightarrow> 16 word \<Rightarrow> 's importer" where
  "import_QUOTE_USER_IN_DISCUSSION_THREAD_MESSAGE_v1 repo contextVersion = processContext contextVersion (
     read_uuid (\<lambda>messageId. read_uuid (\<lambda>userId. check_read_all (
     check_status_code repo (MessageCall (QuoteUserInMessage messageId userId)) (
     import_done)))))"

definition import_ADD_NEW_DISCUSSION_TAG_v1 :: "'s repositories \<Rightarrow> 16 word \<Rightarrow> 's importer" where
  "import_ADD_NEW_DISCUSSION_TAG_v1 repo contextVersion = processContext contextVersion (
     read_uuid (\<lambda>uid. read_nonempty_string (\<lambda>tagName. check_read_all (
     check_status_code repo (TagCall (AddNewDiscussionTag uid tagName)) (import_done)))))"

definition import_CHANGE_DISCUSSION_TAG_NAME_v1 :: "'s repositories \<Rightarrow> 16 word \<Rightarrow> 's importer" where
  "import_CHANGE_DISCUSSION_TAG_NAME_v1 repo contextVersion = processContext contextVersion (
     read_uuid (\<lambda>uid. read_nonempty_string (\<lambda>tagName. check_read_all (
     check_status_code repo (TagCall (ChangeDiscussionTagName uid tagName)) (import_done)))))"

definition import_CHANGE_DISCUSSION_TAG_UI_BLOB_v1 :: "'s repositories \<Rightarrow> 16 word \<Rightarrow> 's importer" where
  "import_CHANGE_DISCUSSION_TAG_UI_BLOB_v1 repo contextVersion = processContext contextVersion (
     read_uuid (\<lambda>uid. read_string (\<lambda>uiBlob. check_read_all (
     check_status_code repo (TagCall (ChangeDiscussionTagUiBlob uid uiBlob)) (import_done)))))"

definition import_DELETE_DISCUSSION_TAG_v1 :: "'s repositories \<Rightarrow> 16 word \<Rightarrow> 's importer" where
  "import_DELETE_DISCUSSION_TAG_v1 repo contextVersion = processContext contextVersion (
     read_uuid (\<lambda>uid. check_read_all (
     check_status_code repo (TagCall (DeleteDiscussionTag uid)) (import_done))))"

definition import_ADD_DISCUSSION_TAG_TO_THREAD_v1 :: "'s repositories \<Rightarrow> 16 word \<Rightarrow> 's importer" where
  "import_ADD_DISCUSSION_TAG_TO_THREAD_v1 repo contextVersion = processContext contextVersion (
     read_uuid (\<lambda>tagId. read_uuid (\<lambda>threadId. check_read_all (
     check_status_code repo (TagCall (AddDiscussionTagToThread tagId threadId)) (
     import_done)))))"

definition import_REMOVE_DISCUSSION_TAG_FROM_THREAD_v1 :: "'s repositories \<Rightarrow> 16 word \<Rightarrow> 's importer" where
  "import_REMOVE_DISCUSSION_TAG_FROM_THREAD_v1 repo contextVersion = processContext contextVersion (
     read_uuid (\<lambda>tagId. read_uuid (\<lambda>threadId. check_read_all (
     check_status_code repo (TagCall (RemoveDiscussionTagFromThread tagId threadId)) (
     import_done)))))"

definition import_MERGE_DISCUSSION_TAGS_v1 :: "'s repositories \<Rightarrow> 16 word \<Rightarrow> 's importer" where
  "import_MERGE_DISCUSSION_TAGS_v1 repo contextVersion = processContext contextVersion (
     read_uuid (\<lambda>fromTagId. read_uuid (\<lambda>intoTagId. check_read_all (
     check_status_code repo (TagCall (MergeDiscussionTags fromTagId intoTagId)) (
     import_done)))))"

definition import_ADD_NEW_DISCUSSION_CATEGORY_v1 :: "'s repositories \<Rightarrow> 16 word \<Rightarrow> 's importer" where
  "import_ADD_NEW_DISCUSSION_CATEGORY_v1 repo contextVersion = processContext contextVersion (
     read_uuid (\<lambda>categoryId. read_uuid (\<lambda>parentId.
     read_nonempty_string (\<lambda>categoryName. check_read_all (
     check_status_code repo (CategoryCall (AddNewDiscussionCategory categoryId categoryName parentId)) (
     import_done))))))"

definition import_CHANGE_DISCUSSION_CATEGORY_NAME_v1 :: "'s repositories \<Rightarrow> 16 word \<Rightarrow> 's importer" where
  "import_CHANGE_DISCUSSION_CATEGORY_NAME_v1 repo contextVersion = processContext contextVersion (
     read_uuid (\<lambda>uid. read_nonempty_string (\<lambda>categoryName. check_read_all (
     check_status_code repo (CategoryCall (ChangeDiscussionCategoryName uid categoryName)) (
     import_done)))))"

definition import_CHANGE_DISCUSSION_CATEGORY_DESCRIPTION_v1 :: "'s repositories \<Rightarrow> 16 word \<Rightarrow> 's importer" where
  "import_CHANGE_DISCUSSION_CATEGORY_DESCRIPTION_v1 repo contextVersion = processContext contextVersion (
     read_uuid (\<lambda>uid. read_string (\<lambda>description. check_read_all (
     check_status_code repo (CategoryCall (ChangeDiscussionCategoryDescription uid description)) (
     import_done)))))"

definition import_CHANGE_DISCUSSION_CATEGORY_DISPLAY_ORDER_v1 :: "'s repositories \<Rightarrow> 16 word \<Rightarrow> 's importer" where
  "import_CHANGE_DISCUSSION_CATEGORY_DISPLAY_ORDER_v1 repo contextVersion = processContext contextVersion (
     read_uuid (\<lambda>uid. read_u16 (\<lambda>displayOrder. check_read_all (
     check_status_code repo (CategoryCall (ChangeDiscussionCategoryDisplayOrder uid displayOrder)) (
     import_done)))))"

definition import_CHANGE_DISCUSSION_CATEGORY_PARENT_v1 :: "'s repositories \<Rightarrow> 16 word \<Rightarrow> 's importer" where
  "import_CHANGE_DISCUSSION_CATEGORY_PARENT_v1 repo contextVersion = processContext contextVersion (
     read_uuid (\<lambda>categoryId. read_uuid (\<lambda>parentId. check_read_all (
     check_status_code repo (CategoryCall (ChangeDiscussionCategoryParent categoryId parentId)) (
     import_done)))))"

definition import_DELETE_DISCUSSION_CATEGORY_v1 :: "'s repositories \<Rightarrow> 16 word \<Rightarrow> 's importer" where
  "import_DELETE_DISCUSSION_CATEGORY_v1 repo contextVersion = processContext contextVersion (
     read_uuid (\<lambda>uid. check_read_all (
     check_status_code repo (CategoryCall (DeleteDiscussionCategory uid)) (import_done))))"

definition import_ADD_DISCUSSION_TAG_TO_CATEGORY_v1 :: "'s repositories \<Rightarrow> 16 word \<Rightarrow> 's importer" where
  "import_ADD_DISCUSSION_TAG_TO_CATEGORY_v1 repo contextVersion = processContext contextVersion (
     read_uuid (\<lambda>tagId. read_uuid (\<lambda>categoryId. check_read_all (
     check_status_code repo (CategoryCall (AddDiscussionTagToCategory tagId categoryId)) (
     import_done)))))"

definition import_REMOVE_DISCUSSION_TAG_FROM_CATEGORY_v1 :: "'s repositories \<Rightarrow> 16 word \<Rightarrow> 's importer" where
  "import_REMOVE_DISCUSSION_TAG_FROM_CATEGORY_v1 repo contextVersion = processContext contextVersion (
     read_uuid (\<lambda>tagId. read_uuid (\<lambda>categoryId. check_read_all (
     check_status_code repo (CategoryCall (RemoveDiscussionTagFromCategory tagId categoryId)) (
     import_done)))))"

definition import_ADD_NEW_ATTACHMENT_v1 :: "'s repositories \<Rightarrow> 16 word \<Rightarrow> 's importer" where
  "import_ADD_NEW_ATTACHMENT_v1 repo contextVersion = processContext contextVersion (
     read_uuid (\<lambda>attachmentId. read_nonempty_string (\<lambda>attachmentName.
     read_u64 (\<lambda>attachmentSize. read_u32 (\<lambda>attachmentApproved. check_read_all (
     check_status_code repo (AttachmentCall (AddNewAttachment attachmentId attachmentName attachmentSize (1 = attachmentApproved))) (
     import_done)))))))"

definition import_CHANGE_ATTACHMENT_NAME_v1 :: "'s repositories \<Rightarrow> 16 word \<Rightarrow> 's importer" where
  "import_CHANGE_ATTACHMENT_NAME_v1 repo contextVersion = processContext contextVersion (
     read_uuid (\<lambda>attachmentId. read_nonempty_string (\<lambda>name. check_read_all (
     check_status_code repo (AttachmentCall (ChangeAttachmentName attachmentId name)) (
     import_done)))))"

definition import_CHANGE_ATTACHMENT_APPROVAL_v1 :: "'s repositories \<Rightarrow> 16 word \<Rightarrow> 's importer" where
  "import_CHANGE_ATTACHMENT_APPROVAL_v1 repo contextVersion = processContext contextVersion (
     read_uuid (\<lambda>attachmentId. read_u32 (\<lambda>approved. check_read_all (
     check_status_code repo (AttachmentCall (ChangeAttachmentApproval attachmentId (0 \<noteq> approved))) (
     import_done)))))"

definition import_ADD_ATTACHMENT_TO_DISCUSSION_THREAD_MESSAGE_v1 :: "'s repositories \<Rightarrow> 16 word \<Rightarrow> 's importer" where
  "import_ADD_ATTACHMENT_TO_DISCUSSION_THREAD_MESSAGE_v1 repo contextVersion = processContext contextVersion (
     read_uuid (\<lambda>attachmentId. read_uuid (\<lambda>messageId. check_read_all (
     check_status_code repo (AttachmentCall (AddAttachmentToDiscussionThreadMessage attachmentId messageId)) (
     import_done)))))"

definition import_REMOVE_ATTACHMENT_FROM_DISCUSSION_THREAD_MESSAGE_v1 :: "'s repositories \<Rightarrow> 16 word \<Rightarrow> 's importer" where
  "import_REMOVE_ATTACHMENT_FROM_DISCUSSION_THREAD_MESSAGE_v1 repo contextVersion = processContext contextVersion (
     read_uuid (\<lambda>attachmentId. read_uuid (\<lambda>messageId. check_read_all (
     check_status_code repo (AttachmentCall (RemoveAttachmentFromDiscussionThreadMessage attachmentId messageId)) (
     import_done)))))"

definition import_DELETE_ATTACHMENT_v1 :: "'s repositories \<Rightarrow> 16 word \<Rightarrow> 's importer" where
  "import_DELETE_ATTACHMENT_v1 repo contextVersion = processContext contextVersion (
     read_uuid (\<lambda>attachmentId. check_read_all (
     check_status_code repo (AttachmentCall (DeleteAttachment attachmentId)) (import_done))))"

definition import_INCREMENT_DISCUSSION_THREAD_NUMBER_OF_VISITS_v1 :: "'s repositories \<Rightarrow> 16 word \<Rightarrow> 's importer" where
  "import_INCREMENT_DISCUSSION_THREAD_NUMBER_OF_VISITS_v1 repo contextVersion = processContext contextVersion (
     read_uuid (\<lambda>threadId. read_u32 (\<lambda>nrOfVisits. check_read_all (
     update_importer (\<lambda>st. st\<lparr>is_nrOfThreadVisits := add_cached threadId nrOfVisits (is_nrOfThreadVisits st)\<rparr>) (
     import_done)))))"

definition import_INCREMENT_ATTACHMENT_NUMBER_OF_GETS_v1 :: "'s repositories \<Rightarrow> 16 word \<Rightarrow> 's importer" where
  "import_INCREMENT_ATTACHMENT_NUMBER_OF_GETS_v1 repo contextVersion = processContext contextVersion (
     read_uuid (\<lambda>attachmentId. read_u32 (\<lambda>nrOfVisits. check_read_all (
     update_importer (\<lambda>st. st\<lparr>is_nrOfAttachmentGets := add_cached attachmentId nrOfVisits (is_nrOfAttachmentGets st)\<rparr>) (
     import_done)))))"

definition import_INCREMENT_USER_LATEST_VISITED_PAGE_v1 :: "'s repositories \<Rightarrow> 16 word \<Rightarrow> 's importer" where
  "import_INCREMENT_USER_LATEST_VISITED_PAGE_v1 repo contextVersion = processContext contextVersion (
     read_uuid (\<lambda>userId. read_uuid (\<lambda>threadId.
     read_u32 (\<lambda>latestVisitedPage. check_read_all (
     update_importer (\<lambda>st. st\<lparr>is_latestThreadVisitedPage := AList.update (userId, threadId) latestVisitedPage (is_latestThreadVisitedPage st)\<rparr>) (
     import_done))))))"

definition import_CHANGE_DISCUSSION_THREAD_PIN_DISPLAY_ORDER_v1 :: "'s repositories \<Rightarrow> 16 word \<Rightarrow> 's importer" where
  "import_CHANGE_DISCUSSION_THREAD_PIN_DISPLAY_ORDER_v1 repo contextVersion = processContext contextVersion (
     read_uuid (\<lambda>uid. read_u16 (\<lambda>pinDisplayOrder. check_read_all (
     check_status_code repo (ThreadCall (ChangeDiscussionThreadPinDisplayOrder uid pinDisplayOrder)) (
     import_done)))))"

definition import_CHANGE_DISCUSSION_THREAD_APPROVAL_v1 :: "'s repositories \<Rightarrow> 16 word \<Rightarrow> 's importer" where
  "import_CHANGE_DISCUSSION_THREAD_APPROVAL_v1 repo contextVersion = processContext contextVersion (
     read_uuid (\<lambda>threadId. read_u32 (\<lambda>approved. check_read_all (
     check_status_code repo (ThreadCall (ChangeDiscussionThreadApproval threadId (0 \<noteq> approved))) (
     import_done)))))"

definition import_CHANGE_DISCUSSION_THREAD_MESSAGE_REQUIRED_PRIVILEGE_FOR_THREAD_MESSAGE_v1 :: "'s repositories \<Rightarrow> 16 word \<Rightarrow> 's importer" where
  "import_CHANGE_DISCUSSION_THREAD_MESSAGE_REQUIRED_PRIVILEGE_FOR_THREAD_MESSAGE_v1 repo contextVersion = processContext contextVersion (
     read_uuid (\<lambda>messageId. read_u16 (\<lambda>currentPrivilege.
     read_u16 (\<lambda>currentPrivilegeValue. check_read_all (
     check_status_code repo (RequiredPrivilegeCall (ChangeDiscussionThreadMessageRequiredPrivilegeForThreadMessage messageId currentPrivilege currentPrivilegeValue)) (
     import_done))))))"

definition import_CHANGE_DISCUSSION_THREAD_MESSAGE_REQUIRED_PRIVILEGE_FOR_THREAD_v1 :: "'s repositories \<Rightarrow> 16 word \<Rightarrow> 's importer" where
  "import_CHANGE_DISCUSSION_THREAD_MESSAGE_REQUIRED_PRIVILEGE_FOR_THREAD_v1 repo contextVersion = processContext contextVersion (
     read_uuid (\<lambda>threadId. read_u16 (\<lambda>currentPrivilege.
     read_u16 (\<lambda>currentPrivilegeValue. check_read_all (
     check_status_code repo (RequiredPrivilegeCall (ChangeDiscussionThreadMessageRequiredPrivilegeForThread threadId currentPrivilege currentPrivilegeValue)) (
     import_done))))))"

definition import_CHANGE_DISCUSSION_THREAD_MESSAGE_REQUIRED_PRIVILEGE_FOR_TAG_v1 :: "'s repositories \<Rightarrow> 16 word \<Rightarrow> 's importer" where
  "import_CHANGE_DISCUSSION_THREAD_MESSAGE_REQUIRED_PRIVILEGE_FOR_TAG_v1 repo contextVersion = processContext contextVersion (
     read_uuid (\<lambda>tagId. read_u16 (\<lambda>currentPrivilege.
     read_u16 (\<lambda>currentPrivilegeValue. check_read_all (
     check_status_code repo (RequiredPrivilegeCall (ChangeDiscussionThreadMessageRequiredPrivilegeForTag tagId currentPrivilege currentPrivilegeValue)) (
     import_done))))))"

definition import_CHANGE_DISCUSSION_THREAD_MESSAGE_REQUIRED_PRIVILEGE_FORUM_WIDE_v1 :: "'s repositories \<Rightarrow> 16 word \<Rightarrow> 's importer" where
  "import_CHANGE_DISCUSSION_THREAD_MESSAGE_REQUIRED_PRIVILEGE_FORUM_WIDE_v1 repo contextVersion = processContext contextVersion (
     read_u16 (\<lambda>currentPrivilege. read_u16 (\<lambda>currentPrivilegeValue.
     check_read_all (
     check_status_code repo (RequiredPrivilegeCall (ChangeDiscussionThreadMessageRequiredPrivilege currentPrivilege currentPrivilegeValue)) (
     import_done)))))"

definition import_CHANGE_DISCUSSION_THREAD_REQUIRED_PRIVILEGE_FOR_THREAD_v1 :: "'s repositories \<Rightarrow> 16 word \<Rightarrow> 's importer" where
  "import_CHANGE_DISCUSSION_THREAD_REQUIRED_PRIVILEGE_FOR_THREAD_v1 repo contextVersion = processContext contextVersion (
     read_uuid (\<lambda>threadId. read_u16 (\<lambda>currentPrivilege.
     read_u16 (\<lambda>currentPrivilegeValue. check_read_all (
     check_status_code repo (RequiredPrivilegeCall (ChangeDiscussionThreadRequiredPrivilegeForThread threadId currentPrivilege currentPrivilegeValue)) (
     import_done))))))"

definition import_CHANGE_DISCUSSION_THREAD_REQUIRED_PRIVILEGE_FOR_TAG_v1 :: "'s repositories \<Rightarrow> 16 word \<Rightarrow> 's importer" where
  "import_CHANGE_DISCUSSION_THREAD_REQUIRED_PRIVILEGE_FOR_TAG_v1 repo contextVersion = processContext contextVersion (
     read_uuid (\<lambda>tagId. read_u16 (\<lambda>currentPrivilege.
     read_u16 (\<lambda>currentPrivilegeValue. check_read_all (
     check_status_code repo (RequiredPrivilegeCall (ChangeDiscussionThreadRequiredPrivilegeForTag tagId currentPrivilege currentPrivilegeValue)) (
     import_done))))))"

definition import_CHANGE_DISCUSSION_THREAD_REQUIRED_PRIVILEGE_FORUM_WIDE_v1 :: "'s repositories \<Rightarrow> 16 word \<Rightarrow> 's importer" where
  "import_CHANGE_DISCUSSION_THREAD_REQUIRED_PRIVILEGE_FORUM_WIDE_v1 repo contextVersion = processContext contextVersion (
     read_u16 (\<lambda>currentPrivilege. read_u16 (\<lambda>currentPrivilegeValue.
     check_read_all (
     check_status_code repo (RequiredPrivilegeCall (ChangeDiscussionThreadRequiredPrivilege currentPrivilege currentPrivilegeValue)) (
     import_done)))))"

definition import_CHANGE_DISCUSSION_TAG_REQUIRED_PRIVILEGE_FOR_TAG_v1 :: "'s repositories \<Rightarrow> 16 word \<Rightarrow> 's importer" where
  "import_CHANGE_DISCUSSION_TAG_REQUIRED_PRIVILEGE_FOR_TAG_v1 repo contextVersion = processContext contextVersion (
     read_uuid (\<lambda>tagId. read_u16 (\<lambda>currentPrivilege.
     read_u16 (\<lambda>currentPrivilegeValue. check_read_all (
     check_status_code repo (RequiredPrivilegeCall (ChangeDiscussionTagRequiredPrivilegeForTag tagId currentPrivilege currentPrivilegeValue)) (
     import_done))))))"

definition import_CHANGE_DISCUSSION_TAG_REQUIRED_PRIVILEGE_FORUM_WIDE_v1 :: "'s repositories \<Rightarrow> 16 word \<Rightarrow> 's importer" where
  "import_CHANGE_DISCUSSION_TAG_REQUIRED_PRIVILEGE_FORUM_WIDE_v1 repo contextVersion = processContext contextVersion (
     read_u16 (\<lambda>currentPrivilege. read_u16 (\<lambda>currentPrivilegeValue.
     check_read_all (
     check_status_code repo (RequiredPrivilegeCall (ChangeDiscussionTagRequiredPrivilege currentPrivilege currentPrivilegeValue)) (
     import_done)))))"

definition import_CHANGE_DISCUSSION_CATEGORY_REQUIRED_PRIVILEGE_FOR_CATEGORY_v1 :: "'s repositories \<Rightarrow> 16 word \<Rightarrow> 's importer" where
  "import_CHANGE_DISCUSSION_CATEGORY_REQUIRED_PRIVILEGE_FOR_CATEGORY_v1 repo contextVersion = processContext contextVersion (
     read_uuid (\<lambda>categoryId. read_u16 (\<lambda>currentPrivilege.
     read_u16 (\<lambda>currentPrivilegeValue. check_read_all (
     check_status_code repo (RequiredPrivilegeCall (ChangeDiscussionCategoryRequiredPrivilegeForCategory categoryId currentPrivilege currentPrivilegeValue)) (
     import_done))))))"

definition import_CHANGE_DISCUSSION_CATEGORY_REQUIRED_PRIVILEGE_FORUM_WIDE_v1 :: "'s repositories \<Rightarrow> 16 word \<Rightarrow> 's importer" where
  "import_CHANGE_DISCUSSION_CATEGORY_REQUIRED_PRIVILEGE_FORUM_WIDE_v1 repo contextVersion = processContext contextVersion (
     read_u16 (\<lambda>currentPrivilege. read_u16 (\<lambda>currentPrivilegeValue.
     check_read_all (
     check_status_code repo (RequiredPrivilegeCall (ChangeDiscussionCategoryRequiredPrivilege currentPrivilege currentPrivilegeValue)) (
     import_done)))))"

definition import_CHANGE_FORUM_WIDE_REQUIRED_PRIVILEGE_v1 :: "'s repositories \<Rightarrow> 16 word \<Rightarrow> 's importer" where
  "import_CHANGE_FORUM_WIDE_REQUIRED_PRIVILEGE_v1 repo contextVersion = processContext contextVersion (
     read_u16 (\<lambda>currentPrivilege. read_u16 (\<lambda>currentPrivilegeValue.
     check_read_all (
     check_status_code repo (RequiredPrivilegeCall (ChangeForumWideRequiredPrivilege currentPrivilege currentPrivilegeValue)) (
     import_done)))))"

definition import_CHANGE_FORUM_WIDE_DEFAULT_PRIVILEGE_LEVEL_v1 :: "'s repositories \<Rightarrow> 16 word \<Rightarrow> 's importer" where
  "import_CHANGE_FORUM_WIDE_DEFAULT_PRIVILEGE_LEVEL_v1 repo contextVersion = processContext contextVersion (
     read_u16 (\<lambda>currentPrivilegeDuration. read_u16 (\<lambda>currentValue.
     read_u64 (\<lambda>currentDuration. check_read_all (
     check_status_code repo (RequiredPrivilegeCall (ChangeForumWideDefaultPrivilegeLevel currentPrivilegeDuration currentValue currentDuration)) (
     import_done))))))"

definition import_ASSIGN_DISCUSSION_THREAD_MESSAGE_PRIVILEGE_v1 :: "'s repositories \<Rightarrow> 16 word \<Rightarrow> 's importer" where
  "import_ASSIGN_DISCUSSION_THREAD_MESSAGE_PRIVILEGE_v1 repo contextVersion = processContext contextVersion (
     read_uuid (\<lambda>messageId. read_uuid (\<lambda>userId.
     read_u16 (\<lambda>currentPrivilegeValue. read_u64 (\<lambda>currentDurationValue.
     check_read_all (
     check_status_code repo (AssignPrivilegeCall (AssignDiscussionThreadMessagePrivilege messageId userId currentPrivilegeValue currentDurationValue)) (
     import_done)))))))"

definition import_ASSIGN_DISCUSSION_THREAD_PRIVILEGE_v1 :: "'s repositories \<Rightarrow> 16 word \<Rightarrow> 's importer" where
  "import_ASSIGN_DISCUSSION_THREAD_PRIVILEGE_v1 repo contextVersion = processContext contextVersion (
     read_uuid (\<lambda>threadId. read_uuid (\<lambda>userId.
     read_u16 (\<lambda>currentPrivilegeValue. read_u64 (\<lambda>currentDurationValue.
     check_read_all (
     check_status_code repo (AssignPrivilegeCall (AssignDiscussionThreadPrivilege threadId userId currentPrivilegeValue currentDurationValue)) (
     import_done)))))))"

definition import_ASSIGN_DISCUSSION_TAG_PRIVILEGE_v1 :: "'s repositories \<Rightarrow> 16 word \<Rightarrow> 's importer" where
  "import_ASSIGN_DISCUSSION_TAG_PRIVILEGE_v1 repo contextVersion = processContext contextVersion (
     read_uuid (\<lambda>tagId. read_uuid (\<lambda>userId.
     read_u16 (\<lambda>currentPrivilegeValue. read_u64 (\<lambda>currentDurationValue.
     check_read_all (
     check_status_code repo (AssignPrivilegeCall (AssignDiscussionTagPrivilege tagId userId currentPrivilegeValue currentDurationValue)) (
     import_done)))))))"

definition import_ASSIGN_DISCUSSION_CATEGORY_PRIVILEGE_v1 :: "'s repositories \<Rightarrow> 16 word \<Rightarrow> 's importer" where
  "import_ASSIGN_DISCUSSION_CATEGORY_PRIVILEGE_v1 repo contextVersion = processContext contextVersion (
     read_uuid (\<lambda>categoryId. read_uuid (\<lambda>userId.
     read_u16 (\<lambda>currentPrivilegeValue. read_u64 (\<lambda>currentDurationValue.
     check_read_all (
     check_status_code repo (AssignPrivilegeCall (AssignDiscussionCategoryPrivilege categoryId userId currentPrivilegeValue currentDurationValue)) (
     import_done)))))))"

definition import_ASSIGN_FORUM_WIDE_PRIVILEGE_v1 :: "'s repositories \<Rightarrow> 16 word \<Rightarrow> 's importer" where
  "import_ASSIGN_FORUM_WIDE_PRIVILEGE_v1 repo contextVersion = processContext contextVersion (
     read_uuid (\<lambda>userId. read_u16 (\<lambda>currentPrivilegeValue.
     read_u64 (\<lambda>currentDurationValue. check_read_all (
     check_status_code repo (AssignPrivilegeCall (AssignForumWidePrivilege userId currentPrivilegeValue currentDurationValue)) (
     import_done))))))"

subsection \<open>Dispatch\<close>

text \<open>Indexed by event type, then by version; \<open>None\<close> is an empty function object.\<close>

definition importFunctions :: "'s repositories \<Rightarrow> (16 word \<Rightarrow> 's importer) option list list" where
  "importFunctions repo =
     [[],
      [None, Some (import_ADD_NEW_USER_v1 repo)],
      [None, Some (import_CHANGE_USER_NAME_v1 repo)],
      [None, Some (import_CHANGE_USER_INFO_v1 repo)],
      [None, Some (import_CHANGE_USER_TITLE_v1 repo)],
      [None, Some (import_CHANGE_USER_SIGNATURE_v1 repo)],
      [None, Some (import_CHANGE_USER_LOGO_v1 repo)],
      [None, Some (import_DELETE_USER_v1 repo)],
      [None, Some (import_ADD_NEW_DISCUSSION_THREAD_v1 repo), Some (import_ADD_NEW_DISCUSSION_THREAD_v2 repo)],
      [None, Some (import_CHANGE_DISCUSSION_THREAD_NAME_v1 repo)],
      [None, Some (import_CHANGE_DISCUSSION_THREAD_PIN_DISPLAY_ORDER_v1 repo)],
      [None, Some (import_DELETE_DISCUSSION_THREAD_v1 repo)],
      [None, Some (import_MERGE_DISCUSSION_THREADS_v1 repo)],
      [None, Some (import_SUBSCRIBE_TO_DISCUSSION_THREAD_v1 repo)],
      [None, Some (import_UNSUBSCRIBE_FROM_DISCUSSION_THREAD_v1 repo)],
      [None, Some (import_ADD_NEW_DISCUSSION_THREAD_MESSAGE_v1 repo), Some (import_ADD_NEW_DISCUSSION_THREAD_MESSAGE_v2 repo), Some (import_ADD_NEW_DISCUSSION_THREAD_MESSAGE_v3 repo), Some (import_ADD_NEW_DISCUSSION_THREAD_MESSAGE_v4 repo)],
      [None, Some (import_CHANGE_DISCUSSION_THREAD_MESSAGE_CONTENT_v1 repo)],
      [None, Some (import_INCREMENT_DISCUSSION_THREAD_NUMBER_OF_VISITS_v1 repo)],
      [None, Some (import_MOVE_DISCUSSION_THREAD_MESSAGE_v1 repo)],
      [None, Some (import_DELETE_DISCUSSION_THREAD_MESSAGE_v1 repo)],
      [None, Some (import_DISCUSSION_THREAD_MESSAGE_UP_VOTE_v1 repo)],
      [None, Some (import_DISCUSSION_THREAD_MESSAGE_DOWN_VOTE_v1 repo)],
      [None, Some (import_DISCUSSION_THREAD_MESSAGE_RESET_VOTE_v1 repo)],
      [None, Some (import_ADD_COMMENT_TO_DISCUSSION_THREAD_MESSAGE_v1 repo)],
      [None, Some (import_SOLVE_DISCUSSION_THREAD_MESSAGE_COMMENT_v1 repo)],
      [None, Some (import_ADD_NEW_DISCUSSION_TAG_v1 repo)],
      [None, Some (import_CHANGE_DISCUSSION_TAG_NAME_v1 repo)],
      [None, Some (import_CHANGE_DISCUSSION_TAG_UI_BLOB_v1 repo)],
      [None, Some (import_DELETE_DISCUSSION_TAG_v1 repo)],
      [None, Some (import_ADD_DISCUSSION_TAG_TO_THREAD_v1 repo)],
      [None, Some (import_REMOVE_DISCUSSION_TAG_FROM_THREAD_v1 repo)],
      [None, Some (import_MERGE_DISCUSSION_TAGS_v1 repo)],
      [None, Some (import_ADD_NEW_DISCUSSION_CATEGORY_v1 repo)],
      [None, Some (import_CHANGE_DISCUSSION_CATEGORY_NAME_v1 repo)],
      [None, Some (import_CHANGE_DISCUSSION_CATEGORY_DESCRIPTION_v1 repo)],
      [None, Some (import_CHANGE_DISCUSSION_CATEGORY_DISPLAY_ORDER_v1 repo)],
      [None, Some (import_CHANGE_DISCUSSION_CATEGORY_PARENT_v1 repo)],
      [None, Some (import_DELETE_DISCUSSION_CATEGORY_v1 repo)],
      [None, Some (import_ADD_DISCUSSION_TAG_TO_CATEGORY_v1 repo)],
      [None, Some (import_REMOVE_DISCUSSION_TAG_FROM_CATEGORY_v1 repo)],
      [None, Some (import_CHANGE_DISCUSSION_THREAD_MESSAGE_REQUIRED_PRIVILEGE_FOR_THREAD_MESSAGE_v1 repo)],
      [None, Some (import_CHANGE_DISCUSSION_THREAD_MESSAGE_REQUIRED_PRIVILEGE_FOR_THREAD_v1 repo)],
      [None, Some (import_CHANGE_DISCUSSION_THREAD_MESSAGE_REQUIRED_PRIVILEGE_FOR_TAG_v1 repo)],
      [None, Some (import_CHANGE_DISCUSSION_THREAD_MESSAGE_REQUIRED_PRIVILEGE_FORUM_WIDE_v1 repo)],
      [None, Some (import_CHANGE_DISCUSSION_THREAD_REQUIRED_PRIVILEGE_FOR_THREAD_v1 repo)],
      [None, Some (import_CHANGE_DISCUSSION_THREAD_REQUIRED_PRIVILEGE_FOR_TAG_v1 repo)],
      [None, Some (import_CHANGE_DISCUSSION_THREAD_REQUIRED_PRIVILEGE_FORUM_WIDE_v1 repo)],
      [None, Some (import_CHANGE_DISCUSSION_TAG_REQUIRED_PRIVILEGE_FOR_TAG_v1 repo)],
      [None, Some (import_CHANGE_DISCUSSION_TAG_REQUIRED_PRIVILEGE_FORUM_WIDE_v1 repo)],
      [None, Some (import_CHANGE_DISCUSSION_CATEGORY_REQUIRED_PRIVILEGE_FOR_CATEGORY_v1 repo)],
      [None, Some (import_CHANGE_DISCUSSION_CATEGORY_REQUIRED_PRIVILEGE_FORUM_WIDE_v1 repo)],
      [None, Some (import_CHANGE_FORUM_WIDE_REQUIRED_PRIVILEGE_v1 repo)],
      [None, Some (import_CHANGE_FORUM_WIDE_DEFAULT_PRIVILEGE_LEVEL_v1 repo)],
      [None, Some (import_ASSIGN_DISCUSSION_THREAD_MESSAGE_PRIVILEGE_v1 repo)],
      [None, Some (import_ASSIGN_DISCUSSION_THREAD_PRIVILEGE_v1 repo)],
      [None, Some (import_ASSIGN_DISCUSSION_TAG_PRIVILEGE_v1 repo)],
      [None, Some (import_ASSIGN_DISCUSSION_CATEGORY_PRIVILEGE_v1 repo)],
      [None, Some (import_ASSIGN_FORUM_WIDE_PRIVILEGE_v1 repo)],
      [None, Some (import_QUOTE_USER_IN_DISCUSSION_THREAD_MESSAGE_v1 repo)],
      [None, Some (import_CHANGE_DISCUSSION_THREAD_MESSAGE_APPROVAL_v1 repo)],
      [None, Some (import_INCREMENT_USER_LATEST_VISITED_PAGE_v1 repo)],
      [None, Some (import_CHANGE_DISCUSSION_THREAD_APPROVAL_v1 repo)],
      [None, Some (import_SEND_PRIVATE_MESSAGE_v1 repo)],
      [None, Some (import_DELETE_PRIVATE_MESSAGE_v1 repo)],
      [None, Some (import_CHANGE_USER_ATTACHMENT_QUOTA_v1 repo)],
      [None, Some (import_ADD_NEW_ATTACHMENT_v1 repo)],
      [None, Some (import_CHANGE_ATTACHMENT_NAME_v1 repo)],
      [None, Some (import_CHANGE_ATTACHMENT_APPROVAL_v1 repo)],
      [None, Some (import_ADD_ATTACHMENT_TO_DISCUSSION_THREAD_MESSAGE_v1 repo)],
      [None, Some (import_REMOVE_ATTACHMENT_FROM_DISCUSSION_THREAD_MESSAGE_v1 repo)],
      [None, Some (import_DELETE_ATTACHMENT_v1 repo)],
      [None, Some (import_INCREMENT_ATTACHMENT_NUMBER_OF_GETS_v1 repo)]]"

definition processEvent :: "'s repositories \<Rightarrow> 's importer" where
  "processEvent repo st data sz =
     (if unat sz < EventHeaderSize then Some (False, st)
      else if length data < EventHeaderSize then None
      else let eventType = bytes_word (take 4 data);
               version = bytes_word (take 2 (drop 4 data)) :: 16 word;
               contextVersion = bytes_word (take 2 (drop 6 data)) :: 16 word;
               st = st\<lparr>is_currentEventType := eventType\<rparr>
           in if eventType = UNKNOWN then Some (True, st)
              else if unat eventType \<ge> length (importFunctions repo) then Some (False, st)
              else let importerVersions = importFunctions repo ! unat eventType
                   in if unat version \<ge> length importerVersions then Some (False, st)
                      else case importerVersions ! unat version of
                             None \<Rightarrow> Some (False, st)
                           | Some fn \<Rightarrow> fn contextVersion st (drop 8 data) (sz - 8))"

subsection \<open>Files\<close>

record import_result =
  ir_readBlobs :: nat
  ir_importedBlobs :: nat
  ir_success :: bool

definition ImportResult :: import_result where
  "ImportResult = \<lparr>ir_readBlobs = 0, ir_importedBlobs = 0, ir_success = True\<rparr>"

text \<open>
  The prefix of a blob is read when sixteen bytes remain. An event is given only the bytes of its
  blob, so \<open>None\<close> is also a read past the end of the blob.
\<close>

function iterateBlobsInFile_loop :: "(bytes \<Rightarrow> 32 word) \<Rightarrow> bool \<Rightarrow> 's repositories \<Rightarrow> import_result
    \<Rightarrow> 's import_state \<Rightarrow> bytes \<Rightarrow> 64 word \<Rightarrow> (import_result \<times> 's import_state) option" where
  "iterateBlobsInFile_loop crc32 verifyChecksum repo result st data sz =
     (if \<not> sz > 0 then Some (result, st)
      else if unat sz < MinBlobSize then Some (result\<lparr>ir_success := False\<rparr>, st)
      else if length data < MinBlobSize then None
      else let magic = bytes_word (take 8 data) :: 64 word;
               blobSize = bytes_word (take 4 (drop 8 data)) :: 32 word;
               blobSizeWithPadding = unat blobSize + blobPaddingRequired (unat blobSize);
               storedChecksum = bytes_word (take 4 (drop 12 data)) :: 32 word;
               data = drop 16 data; sz = sz - 16
           in if magic \<noteq> MagicPrefix then Some (result\<lparr>ir_success := False\<rparr>, st)
              else if unat sz < blobSizeWithPadding then Some (result\<lparr>ir_success := False\<rparr>, st)
              else if length data < unat blobSize then None
              else if verifyChecksum \<and> crc32 (take (unat blobSize) data) \<noteq> storedChecksum
                   then Some (result\<lparr>ir_success := False\<rparr>, st)
              else let result = result\<lparr>ir_readBlobs := ir_readBlobs result + 1\<rparr>
                   in case processEvent repo st (take (unat blobSize) data) (ucast blobSize) of
                        None \<Rightarrow> None
                      | Some (False, st) \<Rightarrow> Some (result\<lparr>ir_success := False\<rparr>, st)
                      | Some (True, st) \<Rightarrow>
                          iterateBlobsInFile_loop crc32 verifyChecksum repo
                            (result\<lparr>ir_importedBlobs := ir_importedBlobs result + 1\<rparr>) st
                            (drop blobSizeWithPadding data) (sz - of_nat blobSizeWithPadding))"
  by pat_completeness auto

lemma word64_sub_less:
  assumes "16 \<le> unat (sz :: 64 word)" "n \<le> unat (sz - 16)"
  shows "unat (sz - 16 - of_nat n) < unat sz"
proof -
  have a: "unat (sz - 16) = unat sz - 16"
    using assms(1) by (simp add: unat_sub word_le_nat_alt)
  have b: "unat (of_nat n :: 64 word) = n"
    using le_less_trans [OF assms(2) unsigned_less] by (simp add: unat_of_nat)
  have "unat (sz - 16 - of_nat n) = unat (sz - 16) - n"
    using b assms(2) by (simp add: unat_sub word_le_nat_alt)
  then show ?thesis using a assms(1) by simp
qed

termination iterateBlobsInFile_loop
proof (relation "measure (\<lambda>(_, _, _, _, _, _, sz). unat sz)", goal_cases)
  case 1
  show ?case by simp
next
  case (2 crc32 verifyChecksum repo result st data sz)
  then show ?case by (auto simp: MinBlobSize_def not_less simp del: of_nat_add intro!: word64_sub_less)
qed

declare iterateBlobsInFile_loop.simps [simp del]

definition iterateBlobsInFile :: "(bytes \<Rightarrow> 32 word) \<Rightarrow> bool \<Rightarrow> 's repositories \<Rightarrow> 's import_state
    \<Rightarrow> bytes \<Rightarrow> 64 word \<Rightarrow> (import_result \<times> 's import_state) option" where
  "iterateBlobsInFile crc32 verifyChecksum repo st data sz =
     iterateBlobsInFile_loop crc32 verifyChecksum repo ImportResult st data sz"

text \<open>A file whose mapping throws is \<open>None\<close>: the result then is a default one, with success.\<close>

definition importFile :: "(bytes \<Rightarrow> 32 word) \<Rightarrow> bool \<Rightarrow> 's repositories \<Rightarrow> 's import_state \<Rightarrow> bytes option
    \<Rightarrow> (import_result \<times> 's import_state) option" where
  "importFile crc32 verifyChecksum repo st file =
     (case file of
        None \<Rightarrow> Some (ImportResult, st)
      | Some content \<Rightarrow>
          let st = st\<lparr>is_firstTimestamp := TimestampMax\<rparr>
          in iterateBlobsInFile crc32 verifyChecksum repo st content (of_nat (length content)))"

fun import_files :: "(bytes \<Rightarrow> 32 word) \<Rightarrow> bool \<Rightarrow> 's repositories \<Rightarrow> import_result \<Rightarrow> 's import_state
    \<Rightarrow> bytes option list \<Rightarrow> (import_result \<times> 's import_state) option" where
  "import_files crc32 verifyChecksum repo result st [] = Some (result, st)"
| "import_files crc32 verifyChecksum repo result st (file # files) =
     (case importFile crc32 verifyChecksum repo st file of
        None \<Rightarrow> None
      | Some (currentResult, st) \<Rightarrow>
          if \<not> ir_success currentResult then Some (result\<lparr>ir_success := False\<rparr>, st)
          else import_files crc32 verifyChecksum repo
                 (result\<lparr>ir_readBlobs := ir_readBlobs result + ir_readBlobs currentResult,
                         ir_importedBlobs := ir_importedBlobs result + ir_importedBlobs currentResult\<rparr>)
                 st files)"

subsection \<open>The names of the files\<close>

text \<open>
  A directory tree; a regular file has a name and its content. The regular expression is
  \<^verbatim>\<open>^forum-(\d+).events$\<close>, without case, where the dot is any character but a line terminator; the
  decimal digits must fit a signed 64-bit integer.
\<close>

datatype (plugins only: size) path_entry =
    RegularFile string "bytes option"
  | Directory string "path_entry list"
  | OtherFile string

fun iteratePathRecursively :: "path_entry \<Rightarrow> (string \<times> bytes option) list" where
  "iteratePathRecursively (Directory name entries) = concat (map iteratePathRecursively entries)"
| "iteratePathRecursively (RegularFile name content) = [(name, content)]"
| "iteratePathRecursively (OtherFile name) = []"

definition lower_char :: "char \<Rightarrow> char" where
  "lower_char c = (if 65 \<le> (of_char c :: nat) \<and> (of_char c :: nat) \<le> 90 then char_of ((of_char c :: nat) + 32) else c)"

definition is_digit :: "char \<Rightarrow> bool" where
  "is_digit c \<longleftrightarrow> 48 \<le> (of_char c :: nat) \<and> (of_char c :: nat) \<le> 57"

definition digits_value :: "string \<Rightarrow> nat" where
  "digits_value = foldl (\<lambda>n c. 10 * n + (of_char c - 48)) 0"

definition match_event_file :: "string \<Rightarrow> string option" where
  "match_event_file name =
     (let n = length name; digits = take (n - 13) (drop 6 name); dot = name ! (n - 7)
      in if n \<ge> 14 \<and> map lower_char (take 6 name) = ''forum-'' \<and> map lower_char (drop (n - 6) name) = ''events''
            \<and> digits \<noteq> [] \<and> (\<forall>c\<in>set digits. is_digit c) \<and> dot \<noteq> CHR 0x0A \<and> dot \<noteq> CHR 0x0D
         then Some digits else None)"

definition event_file_timestamp :: "string \<Rightarrow> timestamp option" where
  "event_file_timestamp name =
     (case match_event_file name of
        None \<Rightarrow> None
      | Some digits \<Rightarrow> if digits_value digits < 2 ^ 63 then Some (int (digits_value digits)) else None)"

definition eventFileNames :: "path_entry \<Rightarrow> (timestamp \<times> bytes option) list" where
  "eventFileNames sourcePath =
     fold (\<lambda>(name, content) files. case event_file_timestamp name of
             None \<Rightarrow> files | Some timestamp \<Rightarrow> map_insert timestamp content files)
       (iteratePathRecursively sourcePath) []"

subsection \<open>Counters written after the last file\<close>

text \<open>
  The entities the importer itself looks up, by id: the number of visits of a thread, the latest
  visited pages and the last seen time of a user, and the downloads of an attachment. The rest of
  the entities is the extension of the record.
\<close>

record entity_counters =
  ec_visited :: "id_type \<rightharpoonup> 64 word"
  ec_latestPageVisited :: "id_type \<rightharpoonup> (id_type \<rightharpoonup> 32 word)"
  ec_lastSeen :: "id_type \<rightharpoonup> 64 word"
  ec_nrOfGetRequests :: "id_type \<rightharpoonup> 32 word"

definition updateDiscussionThreadVisitCount :: "(id_type \<times> 32 word) list \<Rightarrow> 'e entity_counters_scheme \<Rightarrow> 'e entity_counters_scheme" where
  "updateDiscussionThreadVisitCount =
     fold (\<lambda>(uid, nrOfVisits) es. case ec_visited es uid of
             None \<Rightarrow> es
           | Some v \<Rightarrow> es\<lparr>ec_visited := (ec_visited es)(uid \<mapsto> v + ucast nrOfVisits)\<rparr>)"

definition updateLatestPageVisited :: "id_type \<Rightarrow> 32 word \<Rightarrow> (id_type \<rightharpoonup> 32 word) \<Rightarrow> (id_type \<rightharpoonup> 32 word)" where
  "updateLatestPageVisited threadId pageNumber pages =
     (case pages threadId of
        None \<Rightarrow> pages(threadId \<mapsto> pageNumber)
      | Some p \<Rightarrow> if p < pageNumber then pages(threadId \<mapsto> pageNumber) else pages)"

definition updateDiscussionThreadLatestVisitedPage :: "((id_type \<times> id_type) \<times> 32 word) list \<Rightarrow> 'e entity_counters_scheme \<Rightarrow> 'e entity_counters_scheme" where
  "updateDiscussionThreadLatestVisitedPage =
     fold (\<lambda>((userId, threadId), latestVisitedPage) es. case ec_latestPageVisited es userId of
             None \<Rightarrow> es
           | Some pages \<Rightarrow> es\<lparr>ec_latestPageVisited := (ec_latestPageVisited es)
               (userId \<mapsto> updateLatestPageVisited threadId latestVisitedPage pages)\<rparr>)"

definition updateAttachmentGetCount :: "(id_type \<times> 32 word) list \<Rightarrow> 'e entity_counters_scheme \<Rightarrow> 'e entity_counters_scheme" where
  "updateAttachmentGetCount =
     fold (\<lambda>(uid, nrOfVisits) es. case ec_nrOfGetRequests es uid of
             None \<Rightarrow> es
           | Some v \<Rightarrow> es\<lparr>ec_nrOfGetRequests := (ec_nrOfGetRequests es)(uid \<mapsto> v + nrOfVisits)\<rparr>)"

definition updateUsersLastSeen :: "(id_type \<times> 64 word) list \<Rightarrow> 'e entity_counters_scheme \<Rightarrow> 'e entity_counters_scheme" where
  "updateUsersLastSeen =
     fold (\<lambda>(uid, timestamp) es. case ec_lastSeen es uid of
             None \<Rightarrow> es
           | Some v \<Rightarrow> es\<lparr>ec_lastSeen := (ec_lastSeen es)(uid \<mapsto> timestamp)\<rparr>)"

text \<open>
  What \<open>import\<close> does after the last file: three of the four updates, \<open>updateAttachmentGetCount\<close> has
  no caller.
\<close>

definition import_updates :: "'e entity_counters_scheme import_state \<Rightarrow> 'e entity_counters_scheme import_state" where
  "import_updates st =
     (let es = updateDiscussionThreadVisitCount (is_nrOfThreadVisits st) (is_entities st);
          es = updateDiscussionThreadLatestVisitedPage (is_latestThreadVisitedPage st) es;
          es = updateUsersLastSeen (is_usersLastSeen st) es
      in st\<lparr>is_entities := es\<rparr>)"

definition import :: "(bytes \<Rightarrow> 32 word) \<Rightarrow> bool \<Rightarrow> 'e entity_counters_scheme repositories
    \<Rightarrow> 'e entity_counters_scheme import_state \<Rightarrow> path_entry
    \<Rightarrow> (import_result \<times> 'e entity_counters_scheme import_state) option" where
  "import crc32 verifyChecksum repo st sourcePath =
     (case import_files crc32 verifyChecksum repo ImportResult st (map snd (eventFileNames sourcePath)) of
        None \<Rightarrow> None
      | Some (result, st) \<Rightarrow> Some (result, import_updates st))"

lemmas importer_defs =
  import_ADD_NEW_USER_v1_def import_CHANGE_USER_NAME_v1_def import_CHANGE_USER_INFO_v1_def
  import_CHANGE_USER_TITLE_v1_def import_CHANGE_USER_SIGNATURE_v1_def
  import_CHANGE_USER_LOGO_v1_def import_CHANGE_USER_ATTACHMENT_QUOTA_v1_def
  import_DELETE_USER_v1_def import_SEND_PRIVATE_MESSAGE_v1_def
  import_DELETE_PRIVATE_MESSAGE_v1_def import_ADD_NEW_DISCUSSION_THREAD_v1_def
  import_ADD_NEW_DISCUSSION_THREAD_v2_def import_CHANGE_DISCUSSION_THREAD_NAME_v1_def
  import_DELETE_DISCUSSION_THREAD_v1_def import_MERGE_DISCUSSION_THREADS_v1_def
  import_SUBSCRIBE_TO_DISCUSSION_THREAD_v1_def import_UNSUBSCRIBE_FROM_DISCUSSION_THREAD_v1_def
  import_ADD_NEW_DISCUSSION_THREAD_MESSAGE_v1_def import_ADD_NEW_DISCUSSION_THREAD_MESSAGE_v2_def
  import_ADD_NEW_DISCUSSION_THREAD_MESSAGE_v3_def import_ADD_NEW_DISCUSSION_THREAD_MESSAGE_v4_def
  import_CHANGE_DISCUSSION_THREAD_MESSAGE_CONTENT_v1_def
  import_CHANGE_DISCUSSION_THREAD_MESSAGE_APPROVAL_v1_def
  import_MOVE_DISCUSSION_THREAD_MESSAGE_v1_def import_DELETE_DISCUSSION_THREAD_MESSAGE_v1_def
  import_DISCUSSION_THREAD_MESSAGE_UP_VOTE_v1_def
  import_DISCUSSION_THREAD_MESSAGE_DOWN_VOTE_v1_def
  import_DISCUSSION_THREAD_MESSAGE_RESET_VOTE_v1_def
  import_ADD_COMMENT_TO_DISCUSSION_THREAD_MESSAGE_v1_def
  import_SOLVE_DISCUSSION_THREAD_MESSAGE_COMMENT_v1_def
  import_QUOTE_USER_IN_DISCUSSION_THREAD_MESSAGE_v1_def import_ADD_NEW_DISCUSSION_TAG_v1_def
  import_CHANGE_DISCUSSION_TAG_NAME_v1_def import_CHANGE_DISCUSSION_TAG_UI_BLOB_v1_def
  import_DELETE_DISCUSSION_TAG_v1_def import_ADD_DISCUSSION_TAG_TO_THREAD_v1_def
  import_REMOVE_DISCUSSION_TAG_FROM_THREAD_v1_def import_MERGE_DISCUSSION_TAGS_v1_def
  import_ADD_NEW_DISCUSSION_CATEGORY_v1_def import_CHANGE_DISCUSSION_CATEGORY_NAME_v1_def
  import_CHANGE_DISCUSSION_CATEGORY_DESCRIPTION_v1_def
  import_CHANGE_DISCUSSION_CATEGORY_DISPLAY_ORDER_v1_def
  import_CHANGE_DISCUSSION_CATEGORY_PARENT_v1_def import_DELETE_DISCUSSION_CATEGORY_v1_def
  import_ADD_DISCUSSION_TAG_TO_CATEGORY_v1_def import_REMOVE_DISCUSSION_TAG_FROM_CATEGORY_v1_def
  import_ADD_NEW_ATTACHMENT_v1_def import_CHANGE_ATTACHMENT_NAME_v1_def
  import_CHANGE_ATTACHMENT_APPROVAL_v1_def
  import_ADD_ATTACHMENT_TO_DISCUSSION_THREAD_MESSAGE_v1_def
  import_REMOVE_ATTACHMENT_FROM_DISCUSSION_THREAD_MESSAGE_v1_def import_DELETE_ATTACHMENT_v1_def
  import_INCREMENT_DISCUSSION_THREAD_NUMBER_OF_VISITS_v1_def
  import_INCREMENT_ATTACHMENT_NUMBER_OF_GETS_v1_def
  import_INCREMENT_USER_LATEST_VISITED_PAGE_v1_def
  import_CHANGE_DISCUSSION_THREAD_PIN_DISPLAY_ORDER_v1_def
  import_CHANGE_DISCUSSION_THREAD_APPROVAL_v1_def
  import_CHANGE_DISCUSSION_THREAD_MESSAGE_REQUIRED_PRIVILEGE_FOR_THREAD_MESSAGE_v1_def
  import_CHANGE_DISCUSSION_THREAD_MESSAGE_REQUIRED_PRIVILEGE_FOR_THREAD_v1_def
  import_CHANGE_DISCUSSION_THREAD_MESSAGE_REQUIRED_PRIVILEGE_FOR_TAG_v1_def
  import_CHANGE_DISCUSSION_THREAD_MESSAGE_REQUIRED_PRIVILEGE_FORUM_WIDE_v1_def
  import_CHANGE_DISCUSSION_THREAD_REQUIRED_PRIVILEGE_FOR_THREAD_v1_def
  import_CHANGE_DISCUSSION_THREAD_REQUIRED_PRIVILEGE_FOR_TAG_v1_def
  import_CHANGE_DISCUSSION_THREAD_REQUIRED_PRIVILEGE_FORUM_WIDE_v1_def
  import_CHANGE_DISCUSSION_TAG_REQUIRED_PRIVILEGE_FOR_TAG_v1_def
  import_CHANGE_DISCUSSION_TAG_REQUIRED_PRIVILEGE_FORUM_WIDE_v1_def
  import_CHANGE_DISCUSSION_CATEGORY_REQUIRED_PRIVILEGE_FOR_CATEGORY_v1_def
  import_CHANGE_DISCUSSION_CATEGORY_REQUIRED_PRIVILEGE_FORUM_WIDE_v1_def
  import_CHANGE_FORUM_WIDE_REQUIRED_PRIVILEGE_v1_def
  import_CHANGE_FORUM_WIDE_DEFAULT_PRIVILEGE_LEVEL_v1_def
  import_ASSIGN_DISCUSSION_THREAD_MESSAGE_PRIVILEGE_v1_def
  import_ASSIGN_DISCUSSION_THREAD_PRIVILEGE_v1_def import_ASSIGN_DISCUSSION_TAG_PRIVILEGE_v1_def
  import_ASSIGN_DISCUSSION_CATEGORY_PRIVILEGE_v1_def import_ASSIGN_FORUM_WIDE_PRIVILEGE_v1_def

end
