(* ===== verification/EventLemmas.thy ===== *)
theory EventLemmas
  imports EventImport
begin

section \<open>Reading what was recorded\<close>

text \<open>
  Memory safety of the readers and importers, for every content of the file; what each reader
  returns on bytes written by the observer; and the specification of replaying a log.
\<close>

named_theorems memory_safe_intros \<open>readers and importers that stay inside their buffer\<close>
named_theorems feed_simps \<open>readers on recorded bytes\<close>

subsection \<open>Memory safety\<close>

definition memory_safe :: "'s importer \<Rightarrow> bool" where
  "memory_safe f \<longleftrightarrow> (\<forall>st data sz. unat sz \<le> length data \<longrightarrow> f st data sz \<noteq> None)"

lemma memory_safeI: "(\<And>st data sz. unat sz \<le> length data \<Longrightarrow> f st data sz \<noteq> None) \<Longrightarrow> memory_safe f"
  by (simp add: memory_safe_def)

lemma memory_safeD: "memory_safe f \<Longrightarrow> unat sz \<le> length data \<Longrightarrow> f st data sz \<noteq> None"
  by (simp add: memory_safe_def)

lemma memory_safe_returns:
  "memory_safe f \<Longrightarrow> unat sz \<le> length data \<Longrightarrow> \<exists>ok st'. f st data sz = Some (ok, st')"
  by (auto simp: memory_safe_def)

lemma unat_sub_of_nat:
  assumes "n \<le> unat (sz :: 64 word)"
  shows "unat (sz - of_nat n) = unat sz - n"
proof -
  have "n < 2 ^ 64"
    using le_less_trans [OF assms unsigned_less] by simp
  then have "unat (of_nat n :: 64 word) = n" by (simp add: unat_of_nat)
  then show ?thesis using assms by (simp add: unat_sub word_le_nat_alt)
qed

lemma unat_ucast_32_64: "unat (ucast (n :: 32 word) :: 64 word) = unat n"
proof -
  have "unat n < 2 ^ 64" using unsigned_less [of n] by (rule less_trans) simp
  then show ?thesis by (simp add: unsigned_ucast_eq take_bit_nat_eq_self_iff)
qed

lemma unat_sub_ucast:
  assumes "unat (n :: 32 word) \<le> unat (sz :: 64 word)"
  shows "unat (sz - ucast n) = unat sz - unat n"
  using unat_sub_of_nat [OF assms] by simp

lemma safe_done [memory_safe_intros]: "memory_safe import_done"
  by (simp add: memory_safe_def import_done_def)

lemma safe_failed [memory_safe_intros]: "memory_safe import_failed"
  by (simp add: memory_safe_def import_failed_def)

lemma safe_fixed:
  assumes "\<And>b. memory_safe (k b)"
  shows "memory_safe (read_fixed n k)"
proof (rule memory_safeI)
  fix st :: "'a import_state" and data :: bytes and sz :: "64 word"
  assume "unat sz \<le> length data"
  then show "read_fixed n k st data sz \<noteq> None"
    using assms by (auto simp: read_fixed_def unat_sub_of_nat intro!: memory_safe_returns)
qed

lemma safe_uuid [memory_safe_intros]: "(\<And>x. memory_safe (k x)) \<Longrightarrow> memory_safe (read_uuid k)"
  and safe_u16 [memory_safe_intros]: "(\<And>x. memory_safe (k1 x)) \<Longrightarrow> memory_safe (read_u16 k1)"
  and safe_u32 [memory_safe_intros]: "(\<And>x. memory_safe (k2 x)) \<Longrightarrow> memory_safe (read_u32 k2)"
  and safe_u64 [memory_safe_intros]: "(\<And>x. memory_safe (k3 x)) \<Longrightarrow> memory_safe (read_u64 k3)"
  by (simp_all add: read_uuid_def read_u16_def read_u32_def read_u64_def safe_fixed)

text \<open>
  After a string that is not all there the size has wrapped around. Only the two continuations the
  importers use are safe there: one that rejects the empty string, one that wants no more bytes.
\<close>

lemma safe_string:
  assumes full: "\<And>s. memory_safe (k s)"
    and incomplete: "\<And>st data sz. sz \<noteq> 0 \<Longrightarrow> k [] st data sz \<noteq> None"
  shows "memory_safe (read_string k)"
  unfolding read_string_def
proof (intro safe_u32 memory_safeI)
  fix n :: "32 word" and st :: "'a import_state" and data :: bytes and sz :: "64 word"
  assume le: "unat sz \<le> length data"
  have "k [] st (drop (unat n) data) (sz - ucast n) \<noteq> None" if "unat sz < unat n"
  proof (rule incomplete)
    have "sz \<noteq> ucast n" using that unat_ucast_32_64 [of n] by auto
    then show "sz - ucast n \<noteq> 0" by simp
  qed
  moreover have "k (take (unat n) data) st (drop (unat n) data) (sz - ucast n) \<noteq> None" if "\<not> unat sz < unat n"
    using that le by (intro memory_safeD [OF full]) (simp add: unat_sub_ucast)
  ultimately show "(if unat sz < unat n then k [] st (drop (unat n) data) (sz - ucast n)
      else if length data < unat n then None
      else k (take (unat n) data) st (drop (unat n) data) (sz - ucast n)) \<noteq> None"
    using le by simp
qed

lemma safe_nonempty_string [memory_safe_intros]:
  "(\<And>s. memory_safe (k s)) \<Longrightarrow> memory_safe (read_nonempty_string k)"
  unfolding read_nonempty_string_def
  by (rule safe_string) (auto simp: safe_failed import_failed_def)

lemma safe_last_string [memory_safe_intros]:
  "(\<And>s. memory_safe (k s)) \<Longrightarrow> memory_safe (read_string (\<lambda>s. check_read_all (k s)))"
  by (rule safe_string) (auto simp: memory_safe_def check_read_all_def)

lemma safe_read_all [memory_safe_intros]: "memory_safe k \<Longrightarrow> memory_safe (check_read_all k)"
  by (simp add: memory_safe_def check_read_all_def del: not_None_eq)

lemma safe_status_code [memory_safe_intros]: "memory_safe k \<Longrightarrow> memory_safe (check_status_code repo call k)"
  by (simp add: memory_safe_def check_status_code_def split_beta Let_def del: not_None_eq)

lemma safe_update [memory_safe_intros]: "memory_safe k \<Longrightarrow> memory_safe (update_importer f k)"
  by (simp add: memory_safe_def update_importer_def del: not_None_eq)

lemma safe_context [memory_safe_intros]:
  assumes "memory_safe k"
  shows "memory_safe (processContext contextVersion k)"
proof (rule memory_safeI)
  fix st :: "'a import_state" and data :: bytes and sz :: "64 word"
  assume "unat sz \<le> length data"
  then show "processContext contextVersion k st data sz \<noteq> None"
    using assms unat_sub_of_nat [of 40 sz]
    by (auto simp: processContext_def processContext_v1_def Let_def intro!: memory_safe_returns)
qed

lemma importers_safe:
  assumes "row \<in> set (importFunctions repo)" "Some fn \<in> set row"
  shows "memory_safe (fn contextVersion)"
  using assms unfolding importFunctions_def
  by (auto simp: importer_defs intro!: memory_safe_intros)

lemma processEvent_safe: "memory_safe (processEvent repo)"
proof (rule memory_safeI)
  fix st :: "'a import_state" and data :: bytes and sz :: "64 word"
  assume le: "unat sz \<le> length data"
  have "fn contextVersion st' (drop 8 data) (sz - 8) \<noteq> None"
    if "\<not> unat sz < 8" "n < length (importFunctions repo)" "v < length (importFunctions repo ! n)"
      "importFunctions repo ! n ! v = Some fn" for n v fn contextVersion st'
  proof (rule memory_safeD)
    show "memory_safe (fn contextVersion)"
      using that by (intro importers_safe [of "importFunctions repo ! n"]) (auto simp: in_set_conv_nth)
    show "unat (sz - 8) \<le> length (drop 8 data)"
      using that(1) le unat_sub_of_nat [of 8 sz] by simp
  qed
  then show "processEvent repo st data sz \<noteq> None"
    using le by (auto simp: processEvent_def EventHeaderSize_def Let_def not_le split: option.split simp del: not_None_eq)
qed

text \<open>One round of the loop over the blobs of a file.\<close>

definition blob_size_at :: "bytes \<Rightarrow> nat" where
  "blob_size_at data = unat (bytes_word (take 4 (drop 8 data)) :: 32 word)"

definition padded_size_at :: "bytes \<Rightarrow> nat" where
  "padded_size_at data = blob_size_at data + blobPaddingRequired (blob_size_at data)"

definition whole_blob :: "(bytes \<Rightarrow> 32 word) \<Rightarrow> bool \<Rightarrow> bytes \<Rightarrow> 64 word \<Rightarrow> bool" where
  "whole_blob crc32 verifyChecksum data sz \<longleftrightarrow>
     16 \<le> unat sz \<and> bytes_word (take 8 data) = MagicPrefix \<and> padded_size_at data \<le> unat (sz - 16)
     \<and> (verifyChecksum \<longrightarrow> crc32 (take (blob_size_at data) (drop 16 data)) = bytes_word (take 4 (drop 12 data)))"

lemma iterate_loop_end [simp]: "iterateBlobsInFile_loop crc32 verifyChecksum repo result st data 0 = Some (result, st)"
  by (simp add: iterateBlobsInFile_loop.simps)

lemma iterate_loop_stop:
  assumes "unat sz \<le> length data" "sz \<noteq> 0" "\<not> whole_blob crc32 verifyChecksum data sz"
  shows "iterateBlobsInFile_loop crc32 verifyChecksum repo result st data sz = Some (result\<lparr>ir_success := False\<rparr>, st)"
  using assms unat_sub_of_nat [of 16 sz]
  by (subst iterateBlobsInFile_loop.simps)
    (auto simp: Let_def whole_blob_def padded_size_at_def blob_size_at_def MinBlobSize_def word_gt_0)

lemma iterate_loop_step:
  assumes "unat sz \<le> length data" "whole_blob crc32 verifyChecksum data sz"
  shows "iterateBlobsInFile_loop crc32 verifyChecksum repo result st data sz =
    (case processEvent repo st (take (blob_size_at data) (drop 16 data)) (of_nat (blob_size_at data)) of
       None \<Rightarrow> None
     | Some (False, st) \<Rightarrow> Some (result\<lparr>ir_readBlobs := ir_readBlobs result + 1, ir_success := False\<rparr>, st)
     | Some (True, st) \<Rightarrow> iterateBlobsInFile_loop crc32 verifyChecksum repo
         (result\<lparr>ir_readBlobs := ir_readBlobs result + 1, ir_importedBlobs := ir_importedBlobs result + 1\<rparr>) st
         (drop (padded_size_at data) (drop 16 data)) (sz - 16 - of_nat (padded_size_at data)))"
proof -
  have "16 \<le> unat sz" "unat (sz - 16) = unat sz - 16" "sz \<noteq> 0"
    using assms unat_sub_of_nat [of 16 sz] by (auto simp: whole_blob_def)
  then show ?thesis
    using assms unfolding whole_blob_def padded_size_at_def blob_size_at_def
    by (subst iterateBlobsInFile_loop.simps)
      (auto simp: Let_def MinBlobSize_def word_gt_0 simp del: of_nat_add drop_drop
        split: option.split prod.split bool.split)
qed

text \<open>
  The loop returns for every content, and it has imported every blob it read when it reports success.
\<close>

definition balanced :: "import_result \<Rightarrow> bool" where
  "balanced result \<longleftrightarrow> ir_importedBlobs result = ir_readBlobs result"

lemma iterate_loop_returns:
  assumes "unat sz \<le> length data" "balanced result"
  shows "\<exists>result' st'. iterateBlobsInFile_loop crc32 verifyChecksum repo result st data sz = Some (result', st')
    \<and> (ir_success result' \<longrightarrow> balanced result')"
  using assms
proof (induction "unat sz" arbitrary: result st data sz rule: less_induct)
  case less
  show ?case
  proof (cases "sz \<noteq> 0 \<and> whole_blob crc32 verifyChecksum data sz")
    case False
    then show ?thesis
      using less.prems(2) iterate_loop_stop [OF less.prems(1), of crc32 verifyChecksum repo result st]
      by (cases "sz = 0") auto
  next
    case True
    then have fits: "16 \<le> unat sz" "padded_size_at data \<le> unat (sz - 16)"
      by (simp_all add: whole_blob_def)
    then have sizes: "unat (sz - 16) = unat sz - 16"
        "unat (sz - 16 - of_nat (padded_size_at data)) = unat (sz - 16) - padded_size_at data"
      using unat_sub_of_nat [of 16 sz] unat_sub_of_nat [OF fits(2)] by simp_all
    have "processEvent repo st (take (blob_size_at data) (drop 16 data)) (of_nat (blob_size_at data)) \<noteq> None"
      using fits sizes less.prems
      by (intro memory_safeD [OF processEvent_safe]) (simp add: unat_ucast_32_64 padded_size_at_def blob_size_at_def)
    then obtain ok st' where event:
        "processEvent repo st (take (blob_size_at data) (drop 16 data)) (of_nat (blob_size_at data)) = Some (ok, st')"
      by force
    define result1 where
      "result1 = result\<lparr>ir_readBlobs := ir_readBlobs result + 1, ir_importedBlobs := ir_importedBlobs result + 1\<rparr>"
    have "\<exists>result' st''. iterateBlobsInFile_loop crc32 verifyChecksum repo result1 st'
        (drop (padded_size_at data) (drop 16 data)) (sz - 16 - of_nat (padded_size_at data)) = Some (result', st'')
        \<and> (ir_success result' \<longrightarrow> balanced result')"
      using fits sizes less.prems by (intro less.hyps) (auto simp: result1_def balanced_def)
    then show ?thesis
      using iterate_loop_step [OF less.prems(1), of crc32 verifyChecksum repo result st] True event
      by (cases ok) (simp_all add: result1_def)
  qed
qed

end
