(* ===== verification/EventReplay.thy ===== *)
theory EventReplay
  imports EventLemmas
begin

section \<open>Replaying a recorded log\<close>

text \<open>
  The contract between the observer and the importer: importing the blob that the observer wrote for
  a call performs that call, once, under the recorded time, user and address. From it follow the
  round trips for a log file, for a prefix of one, and for the folder the appender wrote.
\<close>

subsection \<open>Readers on recorded bytes\<close>

definition feed :: "'s importer \<Rightarrow> 's import_state \<Rightarrow> bytes \<Rightarrow> (bool \<times> 's import_state) option" where
  "feed f st data = f st data (of_nat (length data))"

lemma feed_fixed:
  assumes "length v = n" "n + length rest < 2 ^ 64"
  shows "feed (read_fixed n k) st (v @ rest) = feed (k v) st rest"
proof -
  have "unat (of_nat (n + length rest) :: 64 word) = n + length rest"
    using assms by (simp add: unat_of_nat del: of_nat_add)
  then show ?thesis using assms by (simp add: feed_def read_fixed_def)
qed

lemma feed_values [feed_simps]:
  "16 + length rest < 2 ^ 64 \<Longrightarrow> feed (read_uuid ku) st (uuid_bytes u @ rest) = feed (ku u) st rest"
  "2 + length rest < 2 ^ 64 \<Longrightarrow> feed (read_u16 k2) st (word_bytes 2 w2 @ rest) = feed (k2 w2) st rest"
  "4 + length rest < 2 ^ 64 \<Longrightarrow> feed (read_u32 k4) st (word_bytes 4 w4 @ rest) = feed (k4 w4) st rest"
  "8 + length rest < 2 ^ 64 \<Longrightarrow> feed (read_u64 k8) st (word_bytes 8 w8 @ rest) = feed (k8 w8) st rest"
  by (simp_all add: read_uuid_def read_u16_def read_u32_def read_u64_def feed_fixed)

lemma feed_last_values [feed_simps]:
  "feed (read_uuid ku) st (uuid_bytes u) = feed (ku u) st []"
  "feed (read_u16 k2) st (word_bytes 2 w2) = feed (k2 w2) st []"
  "feed (read_u32 k4) st (word_bytes 4 w4) = feed (k4 w4) st []"
  "feed (read_u64 k8) st (word_bytes 8 w8) = feed (k8 w8) st []"
  using feed_values [of "[]"] by simp_all

lemma feed_string [feed_simps]:
  assumes "length s < 2 ^ 32" "4 + length s + length rest < 2 ^ 64"
  shows "feed (read_string k) st (word_bytes 4 (of_nat (length s) :: 32 word) @ s @ rest) = feed (k s) st rest"
proof -
  have "unat (of_nat (length s + length rest) :: 64 word) = length s + length rest"
    using assms by (simp add: unat_of_nat del: of_nat_add)
  moreover have "unat (of_nat (length s) :: 32 word) = length s"
    using assms by (simp add: unat_of_nat)
  moreover have "ucast (of_nat (length s) :: 32 word) = (of_nat (length s) :: 64 word)"
    using calculation(2) by (metis of_nat_unat)
  ultimately show ?thesis
    using assms unfolding read_string_def
    by (subst feed_values(3)) (simp_all add: feed_def del: of_nat_add, simp)
qed

lemma feed_last_string [feed_simps]:
  assumes "length s < 2 ^ 32"
  shows "feed (read_string k) st (word_bytes 4 (of_nat (length s) :: 32 word) @ s) = feed (k s) st []"
  using feed_string [of s "[]"] assms by simp

lemma feed_nonempty_string [feed_simps]:
  assumes "length s < 2 ^ 32" "s \<noteq> []"
  shows "4 + length s + length rest < 2 ^ 64 \<Longrightarrow>
      feed (read_nonempty_string k) st (word_bytes 4 (of_nat (length s) :: 32 word) @ s @ rest) = feed (k s) st rest"
    "feed (read_nonempty_string k) st (word_bytes 4 (of_nat (length s) :: 32 word) @ s) = feed (k s) st []"
  using assms by (simp_all add: read_nonempty_string_def feed_simps)

lemma feed_read_all [feed_simps]: "feed (check_read_all k) st [] = feed k st []"
  by (simp add: feed_def check_read_all_def)

lemma feed_update [feed_simps]: "feed (update_importer f k) st data = feed k (f st) data"
  by (simp add: feed_def update_importer_def)

lemma feed_done [feed_simps]: "feed import_done st data = Some (True, st)"
  by (simp add: feed_def import_done_def)

subsection \<open>The blob of a call\<close>

text \<open>
  The blob the observer records for a successful call of the write interface. The overload with a
  mapped text is used by the importer only; what is recorded is a text.
\<close>

fun record_user_call :: "observer_context \<Rightarrow> user_call \<Rightarrow> bytes" where
  "record_user_call c (AddNewUser uid userName auth) = onAddNewUser c uid auth userName"
| "record_user_call c (ChangeUserName uid newName) = onChangeUserName c uid newName"
| "record_user_call c (ChangeUserInfo uid newInfo) = onChangeUserInfo c uid newInfo"
| "record_user_call c (ChangeUserTitle uid newTitle) = onChangeUserTitle c uid newTitle"
| "record_user_call c (ChangeUserSignature uid newSignature) = onChangeUserSignature c uid newSignature"
| "record_user_call c (ChangeUserLogo uid newLogo) = onChangeUserLogo c uid newLogo"
| "record_user_call c (ChangeUserAttachmentQuota uid quota) = onChangeUserAttachmentQuota c uid (Some quota)"
| "record_user_call c (DeleteUser uid) = onDeleteUser c uid"
| "record_user_call c (SendPrivateMessage mid destination content) = onSendPrivateMessage c mid destination content"
| "record_user_call c (DeletePrivateMessage mid) = onDeletePrivateMessage c mid"

fun record_thread_call :: "observer_context \<Rightarrow> thread_call \<Rightarrow> bytes" where
  "record_thread_call c (AddNewDiscussionThread tid name approved) = onAddNewDiscussionThread c tid name approved"
| "record_thread_call c (ChangeDiscussionThreadName tid name) = onChangeDiscussionThreadName c tid name"
| "record_thread_call c (ChangeDiscussionThreadPinDisplayOrder tid order) = onChangeDiscussionThreadPinDisplayOrder c tid order"
| "record_thread_call c (ChangeDiscussionThreadApproval tid approved) = onChangeDiscussionThreadApproval c tid approved"
| "record_thread_call c (DeleteDiscussionThread tid) = onDeleteDiscussionThread c tid"
| "record_thread_call c (MergeDiscussionThreads fromId intoId) = onMergeDiscussionThreads c fromId intoId"
| "record_thread_call c (SubscribeToDiscussionThread tid) = onSubscribeToDiscussionThread c tid"
| "record_thread_call c (UnsubscribeFromDiscussionThread tid) = onUnsubscribeFromDiscussionThread c tid"

fun record_message_call :: "observer_context \<Rightarrow> message_call \<Rightarrow> bytes" where
  "record_message_call c (AddNewDiscussionMessageInThread mid tid approved content) =
     onAddNewDiscussionThreadMessage c mid tid approved content"
| "record_message_call c (AddNewDiscussionMessageInThread_mapped mid tid approved messageSize messageOffset) = []"
| "record_message_call c (ChangeDiscussionThreadMessageContent mid content reason) =
     onChangeDiscussionThreadMessageContent c mid content reason"
| "record_message_call c (ChangeDiscussionThreadMessageApproval mid approved) = onChangeDiscussionThreadMessageApproval c mid approved"
| "record_message_call c (MoveDiscussionThreadMessage mid tid) = onMoveDiscussionThreadMessage c mid tid"
| "record_message_call c (DeleteDiscussionMessage mid) = onDeleteDiscussionThreadMessage c mid"
| "record_message_call c (UpVoteDiscussionThreadMessage mid) = onDiscussionThreadMessageUpVote c mid"
| "record_message_call c (DownVoteDiscussionThreadMessage mid) = onDiscussionThreadMessageDownVote c mid"
| "record_message_call c (ResetVoteDiscussionThreadMessage mid) = onDiscussionThreadMessageResetVote c mid"
| "record_message_call c (AddCommentToDiscussionThreadMessage cid mid content) = onAddCommentToDiscussionThreadMessage c cid mid content"
| "record_message_call c (SetMessageCommentToSolved cid) = onSolveDiscussionThreadMessageComment c cid"
| "record_message_call c (QuoteUserInMessage mid uid) = onQuoteUserInDiscussionThreadMessage c mid uid"

fun record_tag_call :: "observer_context \<Rightarrow> tag_call \<Rightarrow> bytes" where
  "record_tag_call c (AddNewDiscussionTag gid name) = onAddNewDiscussionTag c gid name"
| "record_tag_call c (ChangeDiscussionTagName gid name) = onChangeDiscussionTagName c gid name"
| "record_tag_call c (ChangeDiscussionTagUiBlob gid blob) = onChangeDiscussionTagUIBlob c gid blob"
| "record_tag_call c (DeleteDiscussionTag gid) = onDeleteDiscussionTag c gid"
| "record_tag_call c (AddDiscussionTagToThread gid tid) = onAddDiscussionTagToThread c gid tid"
| "record_tag_call c (RemoveDiscussionTagFromThread gid tid) = onRemoveDiscussionTagFromThread c gid tid"
| "record_tag_call c (MergeDiscussionTags fromId intoId) = onMergeDiscussionTags c fromId intoId"

definition parent_option :: "id_type \<Rightarrow> id_type option" where
  "parent_option parent = (if parent = 0 then None else Some parent)"

fun record_category_call :: "observer_context \<Rightarrow> category_call \<Rightarrow> bytes" where
  "record_category_call c (AddNewDiscussionCategory cid name parent) = onAddNewDiscussionCategory c cid (parent_option parent) name"
| "record_category_call c (ChangeDiscussionCategoryName cid name) = onChangeDiscussionCategoryName c cid name"
| "record_category_call c (ChangeDiscussionCategoryDescription cid description) = onChangeDiscussionCategoryDescription c cid description"
| "record_category_call c (ChangeDiscussionCategoryDisplayOrder cid order) = onChangeDiscussionCategoryDisplayOrder c cid order"
| "record_category_call c (ChangeDiscussionCategoryParent cid parent) = onChangeDiscussionCategoryParent c cid (parent_option parent)"
| "record_category_call c (DeleteDiscussionCategory cid) = onDeleteDiscussionCategory c cid"
| "record_category_call c (AddDiscussionTagToCategory gid cid) = onAddDiscussionTagToCategory c gid cid"
| "record_category_call c (RemoveDiscussionTagFromCategory gid cid) = onRemoveDiscussionTagFromCategory c gid cid"

fun record_attachment_call :: "observer_context \<Rightarrow> attachment_call \<Rightarrow> bytes" where
  "record_attachment_call c (AddNewAttachment aid name fileSize approved) = onAddNewAttachment c aid name fileSize approved"
| "record_attachment_call c (ChangeAttachmentName aid name) = onChangeAttachmentName c aid name"
| "record_attachment_call c (ChangeAttachmentApproval aid approved) = onChangeAttachmentApproval c aid approved"
| "record_attachment_call c (AddAttachmentToDiscussionThreadMessage aid mid) = onAddAttachmentToDiscussionThreadMessage c aid mid"
| "record_attachment_call c (RemoveAttachmentFromDiscussionThreadMessage aid mid) = onRemoveAttachmentFromDiscussionThreadMessage c aid mid"
| "record_attachment_call c (DeleteAttachment aid) = onDeleteAttachment c aid"

fun record_required_call :: "observer_context \<Rightarrow> required_privilege_call \<Rightarrow> bytes" where
  "record_required_call c (ChangeDiscussionThreadMessageRequiredPrivilegeForThreadMessage eid p v) =
     changeDiscussionThreadMessageRequiredPrivilegeForThreadMessage c eid (unat p) (sint v)"
| "record_required_call c (ChangeDiscussionThreadMessageRequiredPrivilegeForThread eid p v) =
     changeDiscussionThreadMessageRequiredPrivilegeForThread c eid (unat p) (sint v)"
| "record_required_call c (ChangeDiscussionThreadMessageRequiredPrivilegeForTag eid p v) =
     changeDiscussionThreadMessageRequiredPrivilegeForTag c eid (unat p) (sint v)"
| "record_required_call c (ChangeDiscussionThreadMessageRequiredPrivilege p v) =
     changeDiscussionThreadMessageRequiredPrivilegeForumWide c (unat p) (sint v)"
| "record_required_call c (ChangeDiscussionThreadRequiredPrivilegeForThread eid p v) =
     changeDiscussionThreadRequiredPrivilegeForThread c eid (unat p) (sint v)"
| "record_required_call c (ChangeDiscussionThreadRequiredPrivilegeForTag eid p v) =
     changeDiscussionThreadRequiredPrivilegeForTag c eid (unat p) (sint v)"
| "record_required_call c (ChangeDiscussionThreadRequiredPrivilege p v) =
     changeDiscussionThreadRequiredPrivilegeForumWide c (unat p) (sint v)"
| "record_required_call c (ChangeDiscussionTagRequiredPrivilegeForTag eid p v) =
     changeDiscussionTagRequiredPrivilegeForTag c eid (unat p) (sint v)"
| "record_required_call c (ChangeDiscussionTagRequiredPrivilege p v) =
     changeDiscussionTagRequiredPrivilegeForumWide c (unat p) (sint v)"
| "record_required_call c (ChangeDiscussionCategoryRequiredPrivilegeForCategory eid p v) =
     changeDiscussionCategoryRequiredPrivilegeForCategory c eid (unat p) (sint v)"
| "record_required_call c (ChangeDiscussionCategoryRequiredPrivilege p v) =
     changeDiscussionCategoryRequiredPrivilegeForumWide c (unat p) (sint v)"
| "record_required_call c (ChangeForumWideRequiredPrivilege p v) = changeForumWideRequiredPrivilege c (unat p) (sint v)"
| "record_required_call c (ChangeForumWideDefaultPrivilegeLevel d v duration) =
     changeForumWideDefaultPrivilegeLevel c (unat d) (sint v) (sint duration)"

fun record_assign_call :: "observer_context \<Rightarrow> assign_privilege_call \<Rightarrow> bytes" where
  "record_assign_call c (AssignDiscussionThreadMessagePrivilege eid uid v d) =
     observe_assignDiscussionThreadMessagePrivilege c eid uid (sint v) (sint d)"
| "record_assign_call c (AssignDiscussionThreadPrivilege eid uid v d) =
     observe_assignDiscussionThreadPrivilege c eid uid (sint v) (sint d)"
| "record_assign_call c (AssignDiscussionTagPrivilege eid uid v d) =
     observe_assignDiscussionTagPrivilege c eid uid (sint v) (sint d)"
| "record_assign_call c (AssignDiscussionCategoryPrivilege eid uid v d) =
     observe_assignDiscussionCategoryPrivilege c eid uid (sint v) (sint d)"
| "record_assign_call c (AssignForumWidePrivilege uid v d) = observe_assignForumWidePrivilege c uid (sint v) (sint d)"

fun record_call :: "observer_context \<Rightarrow> repository_call \<Rightarrow> bytes" where
  "record_call c (UserCall call) = record_user_call c call"
| "record_call c (ThreadCall call) = record_thread_call c call"
| "record_call c (MessageCall call) = record_message_call c call"
| "record_call c (TagCall call) = record_tag_call c call"
| "record_call c (CategoryCall call) = record_category_call c call"
| "record_call c (AttachmentCall call) = record_attachment_call c call"
| "record_call c (RequiredPrivilegeCall call) = record_required_call c call"
| "record_call c (AssignPrivilegeCall call) = record_assign_call c call"

text \<open>The names and contents the importer wants non-empty; the repositories refuse shorter ones first.\<close>

fun required_strings :: "repository_call \<Rightarrow> bytes list" where
  "required_strings (UserCall (AddNewUser uid userName auth)) = [auth, userName]"
| "required_strings (UserCall (ChangeUserName uid newName)) = [newName]"
| "required_strings (UserCall (SendPrivateMessage mid destination content)) = [content]"
| "required_strings (ThreadCall (AddNewDiscussionThread tid name approved)) = [name]"
| "required_strings (ThreadCall (ChangeDiscussionThreadName tid name)) = [name]"
| "required_strings (MessageCall (AddNewDiscussionMessageInThread mid tid approved content)) = [content]"
| "required_strings (MessageCall (ChangeDiscussionThreadMessageContent mid content reason)) = [content]"
| "required_strings (MessageCall (AddCommentToDiscussionThreadMessage cid mid content)) = [content]"
| "required_strings (TagCall (AddNewDiscussionTag gid name)) = [name]"
| "required_strings (TagCall (ChangeDiscussionTagName gid name)) = [name]"
| "required_strings (CategoryCall (AddNewDiscussionCategory cid name parent)) = [name]"
| "required_strings (CategoryCall (ChangeDiscussionCategoryName cid name)) = [name]"
| "required_strings (AttachmentCall (AddNewAttachment aid name fileSize approved)) = [name]"
| "required_strings (AttachmentCall (ChangeAttachmentName aid name)) = [name]"
| "required_strings call = []"

fun is_mapped_call :: "repository_call \<Rightarrow> bool" where
  "is_mapped_call (MessageCall (AddNewDiscussionMessageInThread_mapped mid tid approved messageSize messageOffset)) = True"
| "is_mapped_call call = False"

fun call_strings :: "repository_call \<Rightarrow> bytes list" where
  "call_strings (UserCall (ChangeUserInfo uid s)) = [s]"
| "call_strings (UserCall (ChangeUserTitle uid s)) = [s]"
| "call_strings (UserCall (ChangeUserSignature uid s)) = [s]"
| "call_strings (UserCall (ChangeUserLogo uid s)) = [s]"
| "call_strings (MessageCall (ChangeDiscussionThreadMessageContent mid content reason)) = [content, reason]"
| "call_strings (TagCall (ChangeDiscussionTagUiBlob gid s)) = [s]"
| "call_strings (CategoryCall (ChangeDiscussionCategoryDescription cid s)) = [s]"
| "call_strings call = required_strings call"

definition recordable :: "repository_call \<Rightarrow> bool" where
  "recordable call \<longleftrightarrow> \<not> is_mapped_call call \<and> (\<forall>s\<in>set (required_strings call). s \<noteq> [])
     \<and> sum_list (map length (call_strings call)) + 128 < 2 ^ 32"

definition event_type_of :: "bytes \<Rightarrow> event_type" where
  "event_type_of blob = bytes_word (take 4 blob)"

subsection \<open>What importing an event does\<close>

definition enter_event :: "observer_context \<Rightarrow> event_type \<Rightarrow> 's import_state \<Rightarrow> 's import_state" where
  "enter_event c eventType st =
     (let timestamp = word_of_int (oc_timestamp c)
      in st\<lparr>is_currentEventType := eventType, is_currentTimestamp := timestamp,
            is_firstTimestamp := (if timestamp <s is_firstTimestamp st then timestamp else is_firstTimestamp st),
            is_userId := oc_performedBy c, is_ip := oc_ipAddress c,
            is_usersLastSeen := AList.update (oc_performedBy c) timestamp (is_usersLastSeen st)\<rparr>)"

definition execute_call :: "'s repositories \<Rightarrow> repository_call \<Rightarrow> 's import_state \<Rightarrow> bool \<times> 's import_state" where
  "execute_call repo call st =
     (let (status, entities) = repo (call_context_of st) call (is_entities st);
          st = st\<lparr>is_entities := entities\<rparr>
      in if status = STATUS_OK \<or> status = NO_EFFECT then (True, st)
         else (False, if is_logsErrors st
                 then st\<lparr>is_entities := snd (repo (call_context_of st) call entities)\<rparr> else st))"

definition execute_event :: "'s repositories \<Rightarrow> observer_context \<times> repository_call \<Rightarrow> 's import_state
    \<Rightarrow> bool \<times> 's import_state" where
  "execute_event repo ev st =
     execute_call repo (snd ev) (enter_event (fst ev) (event_type_of (record_call (fst ev) (snd ev))) st)"

lemma feed_status_code [feed_simps]:
  "feed (check_status_code repo call import_done) st [] = Some (execute_call repo call st)"
  by (auto simp: feed_def check_status_code_def execute_call_def import_done_def split_beta Let_def)

subsection \<open>Headers and contexts\<close>

definition context_bytes :: "observer_context \<Rightarrow> bytes" where
  "context_bytes c = word_bytes 8 (word_of_int (oc_timestamp c) :: 64 word)
     @ uuid_bytes (oc_performedBy c) @ uuid_bytes (oc_ipAddress c)"

lemma recordBlob_bytes:
  "recordBlob eventType version (context_parts c @ parts) =
     word_bytes 4 eventType @ word_bytes 2 version @ word_bytes 2 ContextVersion @ context_bytes c
     @ concat (map part_bytes parts)"
  by (simp add: recordBlob_def context_parts_def context_bytes_def)

lemma unat_of_nat64: "n < 2 ^ 64 \<Longrightarrow> unat (of_nat n :: 64 word) = n"
  by (simp add: unat_of_nat)

lemma feed_context [feed_simps]:
  assumes "40 + length rest < 2 ^ 64"
  shows "feed (processContext 1 k) st (context_bytes c @ rest) =
    feed k (enter_event c (is_currentEventType st) st) rest"
proof -
  have "unat (of_nat (40 + length rest) :: 64 word) = 40 + length rest"
    using assms by (rule unat_of_nat64)
  then show ?thesis
    by (simp add: feed_def processContext_def processContext_v1_def context_bytes_def Let_def
        setUsersLastSeen_def enter_event_def)
qed

text \<open>The dispatch of a recorded event finds the importer of its type and version.\<close>

lemma feed_event:
  fixes version :: "16 word"
  assumes "8 + length rest < 2 ^ 64" "eventType \<noteq> UNKNOWN"
    and "unat eventType < length (importFunctions repo)"
    and "unat version < length (importFunctions repo ! unat eventType)"
    and "importFunctions repo ! unat eventType ! unat version = Some fn"
  shows "feed (processEvent repo) st (word_bytes 4 eventType @ word_bytes 2 version @ word_bytes 2 ContextVersion @ rest) =
    feed (fn 1) (st\<lparr>is_currentEventType := eventType\<rparr>) rest"
proof -
  have "unat (of_nat (8 + length rest) :: 64 word) = 8 + length rest"
    using assms(1) by (rule unat_of_nat64)
  then show ?thesis
    using assms(2-) by (simp add: feed_def processEvent_def EventHeaderSize_def ContextVersion_def Let_def)
qed

lemma length_importFunctions [simp]: "length (importFunctions repo) = 72"
  by (simp add: importFunctions_def)

lemma length_context_bytes [simp]: "length (context_bytes c) = 40"
  by (simp add: context_bytes_def)

lemma enter_event_type [simp]:
  "enter_event c t (st\<lparr>is_currentEventType := u\<rparr>) = enter_event c t st"
  by (simp add: enter_event_def Let_def)

lemma event_type_of_recorded [simp]: "event_type_of (word_bytes 4 t @ rest) = t"
  by (simp add: event_type_of_def)

lemma approved_value_simps [simp]:
  "approved_value approved = 0 \<longleftrightarrow> \<not> approved" "approved_value approved = 1 \<longleftrightarrow> approved" "1 = approved_value approved \<longleftrightarrow> approved"
  by (simp_all add: approved_value_def)

lemma parent_id_option [simp]: "parent_id (parent_option parent) = parent"
  by (simp add: parent_id_def parent_option_def)

text \<open>A message is moved before the importer looks for bytes that are left.\<close>

lemma feed_status_code_first [feed_simps]:
  "feed (check_status_code repo call (check_read_all import_done)) st [] = Some (execute_call repo call st)"
  by (auto simp: feed_def check_status_code_def execute_call_def import_done_def check_read_all_def split_beta Let_def)

lemmas import_call_simps =
  recordable_def observer_defs recordBlob_bytes feed_event importFunctions_def importer_defs
  event_type_defs feed_simps

lemma import_user_call:
  assumes "recordable (UserCall call)"
  shows "feed (processEvent repo) st (record_call c (UserCall call)) = Some (execute_event repo (c, UserCall call) st)"
  using assms unfolding execute_event_def
  by (cases call) (simp_all add: import_call_simps)

lemma import_thread_call:
  assumes "recordable (ThreadCall call)"
  shows "feed (processEvent repo) st (record_call c (ThreadCall call)) = Some (execute_event repo (c, ThreadCall call) st)"
  using assms unfolding execute_event_def
  by (cases call) (simp_all add: import_call_simps)

lemma import_message_call:
  assumes "recordable (MessageCall call)"
  shows "feed (processEvent repo) st (record_call c (MessageCall call)) = Some (execute_event repo (c, MessageCall call) st)"
  using assms unfolding execute_event_def
  by (cases call) (simp_all add: import_call_simps)

lemma import_tag_call:
  assumes "recordable (TagCall call)"
  shows "feed (processEvent repo) st (record_call c (TagCall call)) = Some (execute_event repo (c, TagCall call) st)"
  using assms unfolding execute_event_def
  by (cases call) (simp_all add: import_call_simps)

lemma import_category_call:
  assumes "recordable (CategoryCall call)"
  shows "feed (processEvent repo) st (record_call c (CategoryCall call)) = Some (execute_event repo (c, CategoryCall call) st)"
  using assms unfolding execute_event_def
  by (cases call) (simp_all add: import_call_simps)

lemma import_attachment_call:
  assumes "recordable (AttachmentCall call)"
  shows "feed (processEvent repo) st (record_call c (AttachmentCall call)) = Some (execute_event repo (c, AttachmentCall call) st)"
  using assms unfolding execute_event_def
  by (cases call) (simp_all add: import_call_simps)

lemma import_required_call:
  assumes "recordable (RequiredPrivilegeCall call)"
  shows "feed (processEvent repo) st (record_call c (RequiredPrivilegeCall call)) = Some (execute_event repo (c, RequiredPrivilegeCall call) st)"
  using assms unfolding execute_event_def
  by (cases call) (simp_all add: import_call_simps)

lemma import_assign_call:
  assumes "recordable (AssignPrivilegeCall call)"
  shows "feed (processEvent repo) st (record_call c (AssignPrivilegeCall call)) = Some (execute_event repo (c, AssignPrivilegeCall call) st)"
  using assms unfolding execute_event_def
  by (cases call) (simp_all add: import_call_simps)

lemma import_recorded_call:
  assumes "recordable call"
  shows "feed (processEvent repo) st (record_call c call) = Some (execute_event repo (c, call) st)"
  using assms by (cases call)
    (simp_all only: import_user_call import_thread_call import_message_call import_tag_call import_category_call
      import_attachment_call import_required_call import_assign_call)

subsection \<open>Replaying a log\<close>

definition log_bytes :: "(bytes \<Rightarrow> 32 word) \<Rightarrow> (observer_context \<times> repository_call) list \<Rightarrow> bytes" where
  "log_bytes crc32 events = concat (map (\<lambda>(c, call). append_blob crc32 (record_call c call)) events)"

fun replay :: "'s repositories \<Rightarrow> import_result \<Rightarrow> 's import_state \<Rightarrow> (observer_context \<times> repository_call) list
    \<Rightarrow> import_result \<times> 's import_state" where
  "replay repo result st [] = (result, st)"
| "replay repo result st (ev # events) =
     (case execute_event repo ev st of
        (False, st) \<Rightarrow> (result\<lparr>ir_readBlobs := ir_readBlobs result + 1, ir_success := False\<rparr>, st)
      | (True, st) \<Rightarrow> replay repo (result\<lparr>ir_readBlobs := ir_readBlobs result + 1,
                                          ir_importedBlobs := ir_importedBlobs result + 1\<rparr>) st events)"

lemma replay_append:
  assumes "ir_success result"
  shows "replay repo result st (xs @ ys) =
    (let (result', st') = replay repo result st xs
     in if ir_success result' then replay repo result' st' ys else (result', st'))"
  using assms by (induction xs arbitrary: result st) (auto split: prod.split bool.split)

lemma recorded_size:
  assumes "recordable call"
  shows "length (record_call c call) < 2 ^ 32"
  using assms
proof (cases call)
  case (UserCall x)
  with assms show ?thesis by (cases x) (simp_all add: recordable_def observer_defs recordBlob_bytes)
next
  case (ThreadCall x)
  with assms show ?thesis by (cases x) (simp_all add: recordable_def observer_defs recordBlob_bytes)
next
  case (MessageCall x)
  with assms show ?thesis by (cases x) (simp_all add: recordable_def observer_defs recordBlob_bytes)
next
  case (TagCall x)
  with assms show ?thesis by (cases x) (simp_all add: recordable_def observer_defs recordBlob_bytes)
next
  case (CategoryCall x)
  with assms show ?thesis by (cases x) (simp_all add: recordable_def observer_defs recordBlob_bytes)
next
  case (AttachmentCall x)
  with assms show ?thesis by (cases x) (simp_all add: recordable_def observer_defs recordBlob_bytes)
next
  case (RequiredPrivilegeCall x)
  then show ?thesis by (cases x) (simp_all add: observer_defs recordBlob_bytes)
next
  case (AssignPrivilegeCall x)
  then show ?thesis by (cases x) (simp_all add: observer_defs recordBlob_bytes)
qed

text \<open>The header of an appended blob is read back.\<close>

lemma appended_header:
  assumes "length blob < 2 ^ 32"
  shows "blob_size_at (append_blob crc32 blob @ rest) = length blob"
    and "bytes_word (take 8 (append_blob crc32 blob @ rest)) = MagicPrefix"
    and "bytes_word (take 4 (drop 12 (append_blob crc32 blob @ rest))) = crc32 blob"
    and "take (length blob) (drop 16 (append_blob crc32 blob @ rest)) = blob"
    and "drop (padded_size_at (append_blob crc32 blob @ rest)) (drop 16 (append_blob crc32 blob @ rest)) = rest"
proof -
  show size: "blob_size_at (append_blob crc32 blob @ rest) = length blob"
    using assms by (simp add: append_blob_small blob_size_at_def unat_of_nat)
  show "drop (padded_size_at (append_blob crc32 blob @ rest)) (drop 16 (append_blob crc32 blob @ rest)) = rest"
    using assms size by (simp add: append_blob_small padded_size_at_def)
qed (use assms in \<open>simp_all add: append_blob_small\<close>)

lemma appended_whole:
  assumes "length blob < 2 ^ 32" "length (append_blob crc32 blob @ rest) < 2 ^ 64"
  shows "whole_blob crc32 verifyChecksum (append_blob crc32 blob @ rest) (of_nat (length (append_blob crc32 blob @ rest)))"
proof -
  define sz where "sz = (of_nat (length (append_blob crc32 blob @ rest)) :: 64 word)"
  have "unat sz = length (append_blob crc32 blob @ rest)"
    using assms(2) unfolding sz_def by (rule unat_of_nat64)
  then have "16 \<le> unat sz" and "padded_size_at (append_blob crc32 blob @ rest) \<le> unat (sz - 16)"
    using assms(1) unat_sub_of_nat [of 16 sz]
    by (simp_all add: padded_size_at_def appended_header length_append_blob MinBlobSize_def)
  then show ?thesis
    unfolding whole_blob_def sz_def [symmetric] appended_header [OF assms(1)] by simp
qed

text \<open>The loop replays the recorded events at the front of a file, whatever follows them.\<close>

lemma iterate_replays_front:
  assumes "\<forall>(c, call)\<in>set events. recordable call"
    and "length (log_bytes crc32 events @ rest) < 2 ^ 64" "ir_success result"
  shows "iterateBlobsInFile_loop crc32 verifyChecksum repo result st (log_bytes crc32 events @ rest)
      (of_nat (length (log_bytes crc32 events @ rest))) =
    (let (result', st') = replay repo result st events
     in if ir_success result'
        then iterateBlobsInFile_loop crc32 verifyChecksum repo result' st' rest (of_nat (length rest))
        else Some (result', st'))"
  using assms
proof (induction events arbitrary: result st)
  case Nil
  then show ?case by (simp add: log_bytes_def)
next
  case (Cons ev events)
  obtain c call where ev: "ev = (c, call)" by force
  define blob where "blob = record_call c call"
  define more where "more = log_bytes crc32 events @ rest"
  have call: "recordable call" using Cons.prems(1) ev by simp
  have small: "length blob < 2 ^ 32" unfolding blob_def by (rule recorded_size [OF call])
  have data: "log_bytes crc32 ((c, call) # events) @ rest = append_blob crc32 blob @ more"
    by (simp add: log_bytes_def blob_def more_def)
  have len: "length (append_blob crc32 blob @ more) < 2 ^ 64" using Cons.prems(2) unfolding ev data .
  define sz where "sz = (of_nat (length (append_blob crc32 blob @ more)) :: 64 word)"
  have usz: "unat sz = length (append_blob crc32 blob @ more)" unfolding sz_def using len by (rule unat_of_nat64)
  have size: "blob_size_at (append_blob crc32 blob @ more) = length blob"
    by (rule appended_header [OF small])
  have rest_size: "sz - 16 - of_nat (padded_size_at (append_blob crc32 blob @ more)) = of_nat (length more)"
    using small by (simp add: sz_def padded_size_at_def size length_append_blob MinBlobSize_def)
  have event: "processEvent repo st blob (of_nat (length blob)) = Some (execute_event repo (c, call) st)"
    using import_recorded_call [OF call, of repo st c] by (simp add: feed_def blob_def)
  have IH: "iterateBlobsInFile_loop crc32 verifyChecksum repo result' st' more (of_nat (length more)) =
    (let (result', st') = replay repo result' st' events
     in if ir_success result'
        then iterateBlobsInFile_loop crc32 verifyChecksum repo result' st' rest (of_nat (length rest))
        else Some (result', st'))" if "ir_success result'" for result' st'
    unfolding more_def using Cons.prems(1,2) that by (intro Cons.IH) (auto simp: log_bytes_def)
  have "iterateBlobsInFile_loop crc32 verifyChecksum repo result st (append_blob crc32 blob @ more) sz =
    (case execute_event repo (c, call) st of
       (False, st) \<Rightarrow> Some (result\<lparr>ir_readBlobs := ir_readBlobs result + 1, ir_success := False\<rparr>, st)
     | (True, st) \<Rightarrow> iterateBlobsInFile_loop crc32 verifyChecksum repo
         (result\<lparr>ir_readBlobs := ir_readBlobs result + 1, ir_importedBlobs := ir_importedBlobs result + 1\<rparr>) st
         more (of_nat (length more)))"
    using iterate_loop_step [OF _ appended_whole [OF small len, of verifyChecksum], of repo result st]
    unfolding sz_def [symmetric] size appended_header [OF small] event rest_size usz by simp
  then show ?case
    unfolding ev data sz_def [symmetric]
    using Cons.prems(3) by (auto simp: IH split: prod.split bool.split)
qed

lemma iterate_replays_log:
  assumes "\<forall>(c, call)\<in>set events. recordable call" "length (log_bytes crc32 events) < 2 ^ 64"
  shows "iterateBlobsInFile crc32 verifyChecksum repo st (log_bytes crc32 events) (of_nat (length (log_bytes crc32 events))) =
    Some (replay repo ImportResult st events)"
  using iterate_replays_front [OF assms(1), of crc32 "[]" ImportResult verifyChecksum repo st] assms(2)
  by (simp add: iterateBlobsInFile_def ImportResult_def split_beta Let_def)

text \<open>Bytes that are not a whole valid blob end the replay with a failure.\<close>

lemma iterate_replays_damaged:
  assumes "\<forall>(c, call)\<in>set events. recordable call" "length (log_bytes crc32 events @ rest) < 2 ^ 64"
    and "rest \<noteq> []" "\<not> whole_blob crc32 verifyChecksum rest (of_nat (length rest))"
  shows "iterateBlobsInFile crc32 verifyChecksum repo st (log_bytes crc32 events @ rest)
      (of_nat (length (log_bytes crc32 events @ rest))) =
    (let (result, st') = replay repo ImportResult st events in Some (result\<lparr>ir_success := False\<rparr>, st'))"
proof -
  have "length rest < 2 ^ 64" using assms(2) by simp
  then have u: "unat (of_nat (length rest) :: 64 word) = length rest" by (rule unat_of_nat64)
  moreover from u have "(of_nat (length rest) :: 64 word) \<noteq> 0" using assms(3) by (metis length_0_conv unat_0)
  moreover obtain result' st' where "replay repo ImportResult st events = (result', st')" by force
  ultimately show ?thesis
    using iterate_replays_front [OF assms(1,2), of ImportResult verifyChecksum repo st] assms(4)
    by (cases "ir_success result'") (simp_all add: iterateBlobsInFile_def ImportResult_def iterate_loop_stop)
qed

end
