(* ===== verification/FolderReplay.thy ===== *)
theory FolderReplay
  imports EventReplay
begin

section \<open>Damaged files, and the folder of the appender\<close>

text \<open>
  What is replayed of a file that was cut or altered, the names of the files, and the round trip
  from the appender's folder to the importer's directory walk.
\<close>

subsection \<open>Cut and altered files\<close>

lemma cut_blob_not_whole:
  assumes "length blob < 2 ^ 32" "m < length (append_blob crc32 blob)"
  shows "\<not> whole_blob crc32 verifyChecksum (take m (append_blob crc32 blob)) (of_nat m)"
proof (cases "16 \<le> m")
  case True
  define cut where "cut = take m (append_blob crc32 blob)"
  have "length (append_blob crc32 blob) < 2 ^ 64"
    using assms(1) padding_less [of "length blob"] by (simp add: length_append_blob MinBlobSize_def)
  then have m: "unat (of_nat m :: 64 word) = m" using assms(2) by (intro unat_of_nat64) simp
  have "take 4 (drop 8 cut) = take 4 (drop 8 (append_blob crc32 blob))"
    using True by (simp add: cut_def drop_take min_def)
  then have "blob_size_at cut = length blob"
    using appended_header(1) [OF assms(1), of crc32 "[]"] by (simp add: blob_size_at_def)
  then have "padded_size_at cut + 16 = length (append_blob crc32 blob)"
    using assms(1) by (simp add: padded_size_at_def length_append_blob MinBlobSize_def)
  then show ?thesis
    using assms(2) m True unat_sub_of_nat [of 16 "of_nat m"] unfolding whole_blob_def cut_def [symmetric] by auto
next
  case False
  then have "unat (of_nat m :: 64 word) = m" by (intro unat_of_nat64) simp
  then show ?thesis using False by (simp add: whole_blob_def)
qed

definition alter_blob :: "(bytes \<Rightarrow> 32 word) \<Rightarrow> bytes \<Rightarrow> bytes \<Rightarrow> bytes" where
  "alter_blob crc32 blob blob' =
     take 16 (append_blob crc32 blob) @ blob' @ drop (16 + length blob) (append_blob crc32 blob)"

lemma altered_blob_not_whole:
  assumes "length blob < 2 ^ 32" "length blob' = length blob" "crc32 blob' \<noteq> crc32 blob"
  shows "\<not> whole_blob crc32 True (alter_blob crc32 blob blob' @ rest) sz"
proof -
  have "blob_size_at (alter_blob crc32 blob blob' @ rest) = length blob"
    using assms by (simp add: alter_blob_def append_blob_small blob_size_at_def unat_of_nat)
  moreover have "take (length blob) (drop 16 (alter_blob crc32 blob blob' @ rest)) = blob'"
    using assms by (simp add: alter_blob_def append_blob_small)
  moreover have "bytes_word (take 4 (drop 12 (alter_blob crc32 blob blob' @ rest))) = crc32 blob"
    using assms by (simp add: alter_blob_def append_blob_small)
  ultimately show ?thesis using assms(3) by (simp add: whole_blob_def)
qed

lemma log_bytes_append: "log_bytes crc32 (xs @ ys) = log_bytes crc32 xs @ log_bytes crc32 ys"
  by (simp add: log_bytes_def)

lemma log_bytes_Cons: "log_bytes crc32 ((c, call) # evs) = append_blob crc32 (record_call c call) @ log_bytes crc32 evs"
  by (simp add: log_bytes_def)

lemma cut_log:
  assumes "k < length events" "events ! k = (c, call)"
    and "length (log_bytes crc32 (take k events)) \<le> n" "n < length (log_bytes crc32 (take (Suc k) events))"
  shows "take n (log_bytes crc32 events) =
      log_bytes crc32 (take k events) @ take (n - length (log_bytes crc32 (take k events))) (append_blob crc32 (record_call c call))"
    and "n - length (log_bytes crc32 (take k events)) < length (append_blob crc32 (record_call c call))"
proof -
  have suc: "log_bytes crc32 (take (Suc k) events) = log_bytes crc32 (take k events) @ append_blob crc32 (record_call c call)"
    using assms(1,2) by (simp add: take_Suc_conv_app_nth log_bytes_append log_bytes_Cons) (simp add: log_bytes_def)
  have "log_bytes crc32 events = log_bytes crc32 (take (Suc k) events) @ log_bytes crc32 (drop (Suc k) events)"
    by (simp add: log_bytes_append [symmetric])
  then show "take n (log_bytes crc32 events) =
      log_bytes crc32 (take k events) @ take (n - length (log_bytes crc32 (take k events))) (append_blob crc32 (record_call c call))"
    using assms(3,4) by (simp add: suc)
  show "n - length (log_bytes crc32 (take k events)) < length (append_blob crc32 (record_call c call))"
    using assms(3,4) by (simp add: suc)
qed

lemma iterate_replays_cut_log:
  assumes recordable: "\<forall>(c, call)\<in>set events. recordable call" and small: "length (log_bytes crc32 events) < 2 ^ 64"
    and k: "k < length events" and lower: "length (log_bytes crc32 (take k events)) \<le> n"
    and upper: "n < length (log_bytes crc32 (take (Suc k) events))"
  shows "iterateBlobsInFile crc32 verifyChecksum repo st (take n (log_bytes crc32 events)) (of_nat n) =
    (let (result, st') = replay repo ImportResult st (take k events)
     in Some (if n = length (log_bytes crc32 (take k events)) then result else result\<lparr>ir_success := False\<rparr>, st'))"
proof -
  obtain c call where ev: "events ! k = (c, call)" by force
  define m where "m = n - length (log_bytes crc32 (take k events))"
  have blob: "length (record_call c call) < 2 ^ 32"
    using recordable k ev nth_mem [OF k] by (intro recorded_size) auto
  have front: "\<forall>(c, call)\<in>set (take k events). recordable call"
    using recordable by (auto dest: in_set_takeD)
  note cut = cut_log [OF k ev lower upper, folded m_def]
  have n: "n = length (take n (log_bytes crc32 events))"
    using cut lower by (simp add: m_def)
  then have len: "length (take n (log_bytes crc32 events)) < 2 ^ 64" using small by simp
  show ?thesis
  proof (cases "m = 0")
    case True
    then have "n = length (log_bytes crc32 (take k events))" "take n (log_bytes crc32 events) = log_bytes crc32 (take k events)"
      using cut(1) lower by (simp_all add: m_def)
    then show ?thesis
      using iterate_replays_log [OF front, of crc32 verifyChecksum repo st] len by (simp add: split_beta Let_def)
  next
    case False
    define rest where "rest = take m (append_blob crc32 (record_call c call))"
    have "length rest = m" using cut(2) by (simp add: rest_def)
    moreover have "rest \<noteq> []" using False calculation by auto
    moreover have "take n (log_bytes crc32 events) = log_bytes crc32 (take k events) @ rest"
      unfolding rest_def by (rule cut(1))
    moreover have "\<not> whole_blob crc32 verifyChecksum rest (of_nat m)"
      unfolding rest_def by (rule cut_blob_not_whole [OF blob cut(2)])
    ultimately show ?thesis
      using iterate_replays_damaged [OF front, of crc32 rest verifyChecksum repo st] len n False
      by (auto simp: m_def split_beta Let_def)
  qed
qed

subsection \<open>File names\<close>

lemma of_char_digit [simp]: "d < 10 \<Longrightarrow> (of_char (char_of (48 + d) :: char) :: nat) = 48 + d"
  by simp

lemma digits_value_snoc: "digits_value (ds @ [c]) = 10 * digits_value ds + (of_char c - 48)"
  by (simp add: digits_value_def)

lemma decimal_value: "digits_value (decimal n) = n"
proof (induction n rule: decimal.induct)
  case (1 n)
  show ?case
  proof (cases "n < 10")
    case True
    then show ?thesis by (simp add: decimal.simps digits_value_def)
  next
    case False
    then show ?thesis
      using 1 by (subst decimal.simps) (simp add: digits_value_snoc)
  qed
qed

lemma decimal_digits: "\<forall>c\<in>set (decimal n). is_digit c" "decimal n \<noteq> []"
proof (induction n rule: decimal.induct)
  case (1 n)
  {
    case 1
    then show ?case
      using "1.IH" by (cases "n < 10"; subst decimal.simps) (auto simp: is_digit_def)
  next
    case 2
    then show ?case by (subst decimal.simps) simp
  }
qed

lemma drop_length_append: "drop (length xs) (xs @ ys) = ys"
  by simp

lemma event_file_name_roundtrip:
  assumes "0 \<le> t" "t < 2 ^ 63"
  shows "event_file_timestamp (event_file_name t) = Some t"
proof -
  define ds where "ds = decimal (nat t)"
  have ds: "\<forall>c\<in>set ds. is_digit c" "ds \<noteq> []" "digits_value ds = nat t"
    by (simp_all add: ds_def decimal_digits decimal_value)
  have name: "event_file_name t = ''forum-'' @ ds @ CHR ''.'' # ''events''"
    by (simp add: event_file_name_def ds_def)
  have low: "map lower_char ''forum-'' = ''forum-''" "map lower_char ''events'' = ''events''"
    by code_simp+
  have "length (event_file_name t) = length ds + 13" by (simp add: name)
  moreover have "take 6 (event_file_name t) = ''forum-''" "drop 6 (event_file_name t) = ds @ CHR ''.'' # ''events''"
    by (simp_all add: name)
  moreover have "event_file_name t ! (6 + length ds) = CHR ''.''"
    by (simp add: name nth_append)
  moreover have "event_file_name t = (''forum-'' @ ds @ ''.'') @ ''events''" "7 + length ds = length (''forum-'' @ ds @ ''.'')"
    by (simp_all add: name)
  then have "drop (7 + length ds) (event_file_name t) = ''events''"
    by (simp only: drop_length_append)
  moreover have "1 \<le> length ds" using ds(2) by (simp add: Suc_leI)
  ultimately have "match_event_file (event_file_name t) = Some ds"
    using ds low by (simp add: match_event_file_def Let_def)
  then show ?thesis using assms ds(3) by (simp add: event_file_timestamp_def nat_less_iff)
qed

subsection \<open>The folder\<close>

definition record_event :: "observer_context \<times> repository_call \<Rightarrow> bytes" where
  "record_event ev = record_call (fst ev) (snd ev)"

text \<open>The folder after the appender got batches of events, with the clock at each batch.\<close>

fun append_batches :: "(bytes \<Rightarrow> 32 word) \<Rightarrow> (timestamp \<times> (observer_context \<times> repository_call) list) list
    \<Rightarrow> file_appender \<Rightarrow> file_appender option" where
  "append_batches crc32 [] a = Some a"
| "append_batches crc32 ((now, events) # batches) a =
     (case fa_append crc32 now (map record_event events) a of
        None \<Rightarrow> None
      | Some a \<Rightarrow> append_batches crc32 batches a)"

definition folder_of :: "file_appender \<Rightarrow> path_entry" where
  "folder_of a = Directory ''events'' (map (\<lambda>(t, content). RegularFile (event_file_name t) (Some content)) (fa_files a))"

lemma insort_key_last:
  assumes "\<forall>x\<in>set xs. f x < f y"
  shows "insort_key f y xs = xs @ [y]"
  using assms by (induction xs) auto

lemma map_insert_sorted:
  assumes "sorted_wrt (<) (map fst (xs @ files))"
  shows "fold (\<lambda>(t, c). map_insert t c) files xs = xs @ (files :: ('k::linorder \<times> 'v) list)"
  using assms
proof (induction files arbitrary: xs)
  case (Cons f files)
  obtain t c where f: "f = (t, c)" by force
  have "\<forall>x\<in>set xs. fst x < t" using Cons.prems f by (auto simp: sorted_wrt_append)
  then have "map_insert t c xs = xs @ [f]"
    by (auto simp: map_insert_def insort_key_last f)
  then show ?case using Cons by (simp add: f)
qed simp

lemma eventFileNames_folder:
  assumes "sorted_wrt (<) (map fst (fa_files a))" "\<forall>t\<in>fst ` set (fa_files a). 0 \<le> t \<and> t < 2 ^ 63"
  shows "eventFileNames (folder_of a) = map (\<lambda>(t, content). (t, Some content)) (fa_files a)"
proof -
  have "fold (\<lambda>(name, content) files. case event_file_timestamp name of None \<Rightarrow> files
        | Some timestamp \<Rightarrow> map_insert timestamp content files)
      (map (\<lambda>(t, content). (event_file_name t, Some content)) fs) xs =
    fold (\<lambda>(t, c). map_insert t c) (map (\<lambda>(t, content). (t, Some content)) fs) xs"
    if "\<forall>t\<in>fst ` set fs. 0 \<le> t \<and> t < 2 ^ 63" for fs :: "(timestamp \<times> bytes) list" and xs
    using that by (induction fs arbitrary: xs) (auto simp: event_file_name_roundtrip)
  moreover have "iteratePathRecursively (folder_of a) = map (\<lambda>(t, content). (event_file_name t, Some content)) (fa_files a)"
    unfolding folder_of_def by (induction "fa_files a") (auto simp: comp_def split_beta concat_map_singleton)
  ultimately show ?thesis
    using assms map_insert_sorted [of "[]" "map (\<lambda>(t, content). (t, Some content)) (fa_files a)"]
    by (simp add: eventFileNames_def comp_def split_beta)
qed

text \<open>
  The files are groups of consecutive events. The last file is the current one; before the first
  batch there is none.
\<close>

definition groups_files :: "(bytes \<Rightarrow> 32 word) \<Rightarrow> (timestamp \<times> (observer_context \<times> repository_call) list) list
    \<Rightarrow> (timestamp \<times> bytes) list" where
  "groups_files crc32 groups = map (\<lambda>(t, events). (t, log_bytes crc32 events)) groups"

definition appender_inv :: "(bytes \<Rightarrow> 32 word) \<Rightarrow> (observer_context \<times> repository_call) list
    \<Rightarrow> (timestamp \<times> (observer_context \<times> repository_call) list) list \<Rightarrow> timestamp \<Rightarrow> file_appender \<Rightarrow> bool" where
  "appender_inv crc32 events groups now a \<longleftrightarrow>
     fa_files a = groups_files crc32 groups \<and> concat (map snd groups) = events
     \<and> sorted_wrt (<) (map fst groups) \<and> (\<forall>t\<in>fst ` set groups. 0 \<le> t \<and> t \<le> now)
     \<and> 0 \<le> fa_refreshEverySeconds a
     \<and> (if groups = [] then fa_currentFile a = None \<and> fa_lastFileNameCreatedAt a = 0 \<and> fa_refreshEverySeconds a < now
        else fa_currentFile a = Some (fst (last groups)) \<and> fa_lastFileNameCreatedAt a = fst (last groups))"

lemma fa_append_batch:
  "fa_append crc32 now (map record_event batch) a =
    (if batch = [] then Some a
     else let a = updateCurrentFileIfNeeded now a
          in case fa_currentFile a of
               None \<Rightarrow> None
             | Some name \<Rightarrow> Some (a\<lparr>fa_files := append_to_file name (log_bytes crc32 batch) (fa_files a)\<rparr>))"
proof -
  have "concat (map (append_blob crc32) (map record_event batch)) = log_bytes crc32 batch"
    by (induction batch) (auto simp: log_bytes_def record_event_def)
  then show ?thesis by (simp add: fa_append_def Suc_le_eq Let_def del: map_map cong: option.case_cong)
qed

lemma append_to_last:
  assumes "sorted_wrt (<) (map fst (groups @ [(t, old)]))"
  shows "append_to_file t (log_bytes crc32 events) (groups_files crc32 (groups @ [(t, old)])) =
    groups_files crc32 (groups @ [(t, old @ events)])"
proof -
  have "\<forall>g\<in>set groups. fst g < t" using assms by (auto simp: sorted_wrt_append)
  then show ?thesis
    by (auto simp: append_to_file_def groups_files_def log_bytes_append image_iff)
qed

lemma append_new:
  assumes "\<forall>g\<in>set groups. fst g < t"
  shows "append_to_file t (log_bytes crc32 events) (groups_files crc32 groups) = groups_files crc32 (groups @ [(t, events)])"
  using assms by (force simp: append_to_file_def groups_files_def)

lemma fa_append_inv:
  assumes inv: "appender_inv crc32 past groups now0 a" and now: "now0 \<le> now" and batch: "batch \<noteq> []"
  shows "\<exists>a' groups'. fa_append crc32 now (map record_event batch) a = Some a'
    \<and> appender_inv crc32 (past @ batch) groups' now a'"
proof (cases "fa_lastFileNameCreatedAt a + fa_refreshEverySeconds a < now")
  case True
  have below: "\<forall>g\<in>set groups. fst g < now" and pos: "0 \<le> now"
  proof -
    show "\<forall>g\<in>set groups. fst g < now"
    proof
      fix g
      assume g: "g \<in> set groups"
      then have "fst g \<le> fst (last groups)"
        using inv by (cases groups rule: rev_cases) (auto simp: appender_inv_def sorted_wrt_append less_imp_le)
      then show "fst g < now" using True inv g by (cases "groups = []") (auto simp: appender_inv_def)
    qed
    show "0 \<le> now" using inv now by (cases groups rule: rev_cases) (auto simp: appender_inv_def)
  qed
  define a' where "a' = a\<lparr>fa_currentFile := Some now, fa_lastFileNameCreatedAt := now,
    fa_files := groups_files crc32 (groups @ [(now, batch)])\<rparr>"
  have "fa_append crc32 now (map record_event batch) a = Some a'"
    using True batch inv append_new [OF below]
    by (simp add: fa_append_batch updateCurrentFileIfNeeded_def a'_def appender_inv_def)
  moreover have "appender_inv crc32 (past @ batch) (groups @ [(now, batch)]) now a'"
    using inv below pos now by (fastforce simp: appender_inv_def a'_def sorted_wrt_append)
  ultimately show ?thesis by blast
next
  case False
  then obtain gs t old where groups: "groups = gs @ [(t, old)]"
    using inv now by (cases groups rule: rev_cases) (auto simp: appender_inv_def)
  define a' where "a' = a\<lparr>fa_files := groups_files crc32 (gs @ [(t, old @ batch)])\<rparr>"
  have "fa_append crc32 now (map record_event batch) a = Some a'"
    using False batch inv append_to_last [of gs t old crc32 batch]
    by (simp add: fa_append_batch updateCurrentFileIfNeeded_def a'_def appender_inv_def groups)
  moreover have "appender_inv crc32 (past @ batch) (gs @ [(t, old @ batch)]) now a'"
    using inv now by (fastforce simp: appender_inv_def a'_def groups)
  ultimately show ?thesis by blast
qed

lemma append_batches_inv:
  assumes "appender_inv crc32 past groups now0 a" "sorted (now0 # map fst batches)"
    and "\<forall>batch\<in>snd ` set batches. batch \<noteq> []"
  shows "\<exists>a' groups' now'. append_batches crc32 batches a = Some a'
    \<and> appender_inv crc32 (past @ concat (map snd batches)) groups' now' a' \<and> now' = last (now0 # map fst batches)"
  using assms
proof (induction batches arbitrary: past groups now0 a)
  case Nil
  then show ?case by auto
next
  case (Cons b batches)
  obtain now batch where b: "b = (now, batch)" by force
  have "now0 \<le> now" "batch \<noteq> []" using Cons.prems b by auto
  from fa_append_inv [OF Cons.prems(1) this] obtain a' groups' where
    step: "fa_append crc32 now (map record_event batch) a = Some a'"
      "appender_inv crc32 (past @ batch) groups' now a'" by blast
  have "sorted (now # map fst batches)" "\<forall>batch\<in>snd ` set batches. batch \<noteq> []"
    using Cons.prems b by auto
  from Cons.IH [OF step(2) this] show ?case using step(1) b by auto
qed

subsection \<open>Importing file after file\<close>

text \<open>
  Every file resets the smallest time stamp seen, which only a log line reads. States that differ in
  it alone run the same events to states that differ in it alone.
\<close>

definition forget_first :: "'s import_state \<Rightarrow> 's import_state" where
  "forget_first st = st\<lparr>is_firstTimestamp := TimestampMax\<rparr>"

fun run_events :: "'s repositories \<Rightarrow> 's import_state \<Rightarrow> (observer_context \<times> repository_call) list \<Rightarrow> bool \<times> 's import_state" where
  "run_events repo st [] = (True, st)"
| "run_events repo st (ev # events) =
     (case execute_event repo ev st of (False, st) \<Rightarrow> (False, st) | (True, st) \<Rightarrow> run_events repo st events)"

lemma run_events_append:
  "run_events repo st (xs @ ys) = (case run_events repo st xs of (False, st) \<Rightarrow> (False, st) | (True, st) \<Rightarrow> run_events repo st ys)"
  by (induction xs arbitrary: st) (auto split: prod.split bool.split)

lemma replay_run:
  assumes "ir_success result" "run_events repo st events = (True, st')"
  shows "replay repo result st events =
    (result\<lparr>ir_readBlobs := ir_readBlobs result + length events, ir_importedBlobs := ir_importedBlobs result + length events\<rparr>, st')"
  using assms by (induction events arbitrary: result st) (auto split: prod.splits bool.splits)

lemma execute_event_forget:
  assumes "forget_first st = forget_first st'"
  shows "rel_prod (=) (\<lambda>s s'. forget_first s = forget_first s') (execute_event repo ev st) (execute_event repo ev st')"
  using assms
  by (cases st; cases st')
    (auto simp: forget_first_def execute_event_def execute_call_def enter_event_def call_context_of_def Let_def split_beta)

lemma run_events_forget:
  assumes "forget_first st = forget_first st'"
  shows "rel_prod (=) (\<lambda>s s'. forget_first s = forget_first s') (run_events repo st events) (run_events repo st' events)"
  using assms
proof (induction events arbitrary: st st')
  case (Cons ev events)
  have IH: "fst (run_events repo s events) = fst (run_events repo s' events)
      \<and> forget_first (snd (run_events repo s events)) = forget_first (snd (run_events repo s' events))"
    if "forget_first s = forget_first s'" for s s'
    using Cons.IH [OF that] by (simp add: rel_prod_sel)
  from execute_event_forget [OF Cons.prems, of repo ev] show ?case
    by (auto simp: rel_prod_sel dest: IH split: prod.splits bool.splits)
qed simp

definition add_blobs :: "nat \<Rightarrow> import_result \<Rightarrow> import_result" where
  "add_blobs n result = result\<lparr>ir_readBlobs := ir_readBlobs result + n, ir_importedBlobs := ir_importedBlobs result + n\<rparr>"

lemma import_files_groups:
  assumes "\<forall>(t, events)\<in>set groups. (\<forall>(c, call)\<in>set events. recordable call) \<and> length (log_bytes crc32 events) < 2 ^ 64"
    and "run_events repo st0 (concat (map snd groups)) = (True, st')" "forget_first st = forget_first st0"
  shows "\<exists>st''. import_files crc32 verifyChecksum repo result st (map (Some \<circ> snd) (groups_files crc32 groups)) =
      Some (add_blobs (length (concat (map snd groups))) result, st'') \<and> forget_first st'' = forget_first st'"
  using assms
proof (induction groups arbitrary: st0 st result)
  case Nil
  then show ?case by (simp add: groups_files_def add_blobs_def)
next
  case (Cons g groups)
  obtain t events where g: "g = (t, events)" by force
  obtain st1 where first: "run_events repo st0 events = (True, st1)" "run_events repo st1 (concat (map snd groups)) = (True, st')"
    using Cons.prems(2) g by (auto simp: run_events_append split: prod.splits bool.splits)
  have "forget_first (st\<lparr>is_firstTimestamp := TimestampMax\<rparr>) = forget_first st0"
    using Cons.prems(3) by (simp add: forget_first_def)
  then obtain st2 where run: "run_events repo (st\<lparr>is_firstTimestamp := TimestampMax\<rparr>) events = (True, st2)"
      and same: "forget_first st2 = forget_first st1"
    using run_events_forget [of "st\<lparr>is_firstTimestamp := TimestampMax\<rparr>" st0 repo events] first(1)
    by (auto simp: rel_prod_sel prod_eq_iff)
  have "importFile crc32 verifyChecksum repo st (Some (log_bytes crc32 events)) = Some (add_blobs (length events) ImportResult, st2)"
    using Cons.prems(1) g replay_run [OF _ run, of ImportResult]
    by (simp add: importFile_def iterate_replays_log add_blobs_def ImportResult_def)
  moreover obtain st3 where "import_files crc32 verifyChecksum repo (add_blobs (length events) result) st2
      (map (Some \<circ> snd) (groups_files crc32 groups)) =
      Some (add_blobs (length (concat (map snd groups))) (add_blobs (length events) result), st3)"
      "forget_first st3 = forget_first st'"
    using Cons.IH [OF _ first(2) same, of "add_blobs (length events) result"] Cons.prems(1) g by (auto simp: comp_def)
  ultimately show ?case
    by (simp add: groups_files_def g add_blobs_def ImportResult_def ac_simps comp_def)
qed

lemma log_bytes_concat: "log_bytes crc32 (concat xs) = concat (map (log_bytes crc32) xs)"
  by (induction xs) (simp_all add: log_bytes_append, simp add: log_bytes_def)

lemma member_length_concat: "x \<in> set xs \<Longrightarrow> length (f x) \<le> length (concat (map f xs))"
  by (induction xs) auto

text \<open>What the appender wrote in a fresh folder, the importer executes, event by event.\<close>

lemma import_appended_folder:
  assumes times: "sorted (start # map fst batches)" "last (start # map fst batches) < 2 ^ 63"
    and refresh: "0 \<le> refresh" "refresh < start"
    and batches: "\<forall>batch\<in>snd ` set batches. batch \<noteq> []"
    and events: "\<forall>(c, call)\<in>set (concat (map snd batches)). recordable call"
    and size: "length (log_bytes crc32 (concat (map snd batches))) < 2 ^ 64"
    and run: "run_events repo st (concat (map snd batches)) = (True, st')"
  shows "\<exists>a st''. append_batches crc32 batches (FileAppender refresh) = Some a
    \<and> import_files crc32 verifyChecksum repo ImportResult st (map snd (eventFileNames (folder_of a))) =
        Some (add_blobs (length (concat (map snd batches))) ImportResult, st'')
    \<and> forget_first st'' = forget_first st'"
proof -
  have "appender_inv crc32 [] [] start (FileAppender refresh)"
    using refresh by (simp add: appender_inv_def FileAppender_def groups_files_def)
  from append_batches_inv [OF this times(1) batches] obtain a groups where
    a: "append_batches crc32 batches (FileAppender refresh) = Some a"
    and inv: "appender_inv crc32 (concat (map snd batches)) groups (last (start # map fst batches)) a"
    by auto
  have names: "map fst (fa_files a) = map fst groups"
    using inv by (simp add: appender_inv_def groups_files_def split_beta comp_def)
  have "map snd (eventFileNames (folder_of a)) = map (Some \<circ> snd) (groups_files crc32 groups)"
  proof (subst eventFileNames_folder)
    show "sorted_wrt (<) (map fst (fa_files a))" using inv unfolding names appender_inv_def by blast
    have "\<forall>t\<in>set (map fst groups). 0 \<le> t \<and> t < 2 ^ 63" using inv times(2) by (fastforce simp: appender_inv_def)
    then show "\<forall>t\<in>fst ` set (fa_files a). 0 \<le> t \<and> t < 2 ^ 63" by (metis names list.set_map)
  qed (use inv in \<open>simp add: appender_inv_def comp_def split_beta\<close>)
  moreover have all: "concat (map snd groups) = concat (map snd batches)"
    using inv by (simp add: appender_inv_def)
  moreover have "length (log_bytes crc32 evs) < 2 ^ 64 \<and> (\<forall>(c, call)\<in>set evs. recordable call)"
    if "(t, evs) \<in> set groups" for t evs
  proof -
    have "evs \<in> set (map snd groups)" using that by force
    then have "length (log_bytes crc32 evs) \<le> length (log_bytes crc32 (concat (map snd groups)))"
      unfolding log_bytes_concat by (rule member_length_concat)
    moreover have "set evs \<subseteq> set (concat (map snd groups))" using that by force
    ultimately show ?thesis using size events unfolding all by (meson le_less_trans subsetD)
  qed
  then have "\<forall>(t, evs)\<in>set groups. (\<forall>(c, call)\<in>set evs. recordable call) \<and> length (log_bytes crc32 evs) < 2 ^ 64"
    by blast
  ultimately show ?thesis
    using a import_files_groups [of groups crc32 repo st st' st verifyChecksum ImportResult] run by simp
qed

end
