(* ===== verification/VisitLemmas.thy ===== *)
theory VisitLemmas
  imports EventReplay
begin

section \<open>Visits and downloads across a restart\<close>

text \<open>
  The observer counts visits of threads and downloads of attachments and writes the counters from
  time to time; the importer sums what was written and adds the sums to the entities.
\<close>

subsection \<open>Counters as maps\<close>

definition total :: "(id_type \<times> 32 word) list \<Rightarrow> id_type \<Rightarrow> 32 word" where
  "total m uid = (case map_of m uid of Some n \<Rightarrow> n | None \<Rightarrow> 0)"

lemma map_of_count_visit: "map_of (count_visit uid m) k =
    (if k = uid then Some (case map_of m uid of Some n \<Rightarrow> n + 1 | None \<Rightarrow> 1) else map_of m k)"
proof (cases "uid \<in> fst ` set m")
  case True
  have "map_of (map (\<lambda>(k, n). (k, if k = uid then n + 1 else n)) m) k =
      map_option (\<lambda>n. if k = uid then n + 1 else n) (map_of m k)"
    by (induction m) auto
  moreover obtain n where "map_of m uid = Some n" using True map_of_flat_Some [of uid m] by blast
  ultimately show ?thesis using True by (cases "map_of m k") (auto simp: count_visit_def)
next
  case False
  then have "map_of m uid = None" by (simp add: map_of_eq_None_iff)
  then show ?thesis using False by (simp add: count_visit_def map_of_map_insert)
qed

lemma total_count_visit [simp]: "total (count_visit uid m) k = total m k + (if k = uid then 1 else 0)"
  by (auto simp: total_def map_of_count_visit split: option.split)

lemma keys_count_visit: "map fst (count_visit uid m) = (if uid \<in> fst ` set m then map fst m else insort uid (map fst m))"
  by (auto simp: count_visit_def map_insert_def map_fst_insort_key comp_def split_beta)

lemma distinct_count_visit: "distinct (map fst m) \<Longrightarrow> distinct (map fst (count_visit uid m))"
  by (auto simp: keys_count_visit distinct_insort)

lemma total_add_cached [simp]: "total (add_cached uid n m) k = total m k + (if k = uid then n else 0)"
  by (auto simp: total_def add_cached_def update_conv' split: option.split)

lemma distinct_add_cached: "distinct (map fst m) \<Longrightarrow> distinct (map fst (add_cached uid n m))"
  by (auto simp: add_cached_def distinct_update split: option.split)

lemma total_fold_add_cached:
  assumes "distinct (map fst cs)"
  shows "total (fold (\<lambda>(uid, n). add_cached uid n) cs m) k = total m k + total cs k"
  using assms
proof (induction cs arbitrary: m)
  case Nil
  then show ?case by (simp add: total_def)
next
  case (Cons c cs)
  obtain uid n where c: "c = (uid, n)" by force
  have "uid \<notin> fst ` set cs" using Cons.prems c by auto
  then have "total cs uid = 0" by (simp add: total_def map_of_eq_None_iff [THEN iffD2])
  moreover have "total ((uid, n) # cs) k = (if k = uid then n else total cs k)"
    by (simp add: total_def)
  ultimately show ?case using Cons by (simp add: c)
qed

lemma distinct_fold_add_cached:
  "distinct (map fst m) \<Longrightarrow> distinct (map fst (fold (\<lambda>(uid, n). add_cached uid n) cs m))"
  by (induction cs arbitrary: m) (auto simp: distinct_add_cached)

subsection \<open>The periodic events\<close>

definition no_context :: observer_context where
  "no_context = \<lparr>oc_timestamp = 0, oc_performedBy = 0, oc_ipAddress = 0\<rparr>"

lemma empty_context: "empty_context_parts = context_parts no_context"
  by (simp add: empty_context_parts_def context_parts_def no_context_def)

lemma enter_event_counters [simp]:
  "is_nrOfThreadVisits (enter_event c t st) = is_nrOfThreadVisits st"
  "is_latestThreadVisitedPage (enter_event c t st) = is_latestThreadVisitedPage st"
  "is_nrOfAttachmentGets (enter_event c t st) = is_nrOfAttachmentGets st"
  "is_entities (enter_event c t st) = is_entities st"
  by (simp_all add: enter_event_def Let_def)

fun visits_step :: "id_type \<times> 32 word \<Rightarrow> 's import_state \<Rightarrow> 's import_state" where
  "visits_step (uid, n) st = (enter_event no_context INCREMENT_DISCUSSION_THREAD_NUMBER_OF_VISITS st)
     \<lparr>is_nrOfThreadVisits := add_cached uid n (is_nrOfThreadVisits st)\<rparr>"

fun page_step :: "(id_type \<times> id_type) \<times> 32 word \<Rightarrow> 's import_state \<Rightarrow> 's import_state" where
  "page_step (key, page) st = (enter_event no_context INCREMENT_USER_LATEST_VISITED_PAGE st)
     \<lparr>is_latestThreadVisitedPage := AList.update key page (is_latestThreadVisitedPage st)\<rparr>"

fun gets_step :: "id_type \<times> 32 word \<Rightarrow> 's import_state \<Rightarrow> 's import_state" where
  "gets_step (uid, n) st = (enter_event no_context INCREMENT_ATTACHMENT_NUMBER_OF_GETS st)
     \<lparr>is_nrOfAttachmentGets := add_cached uid n (is_nrOfAttachmentGets st)\<rparr>"

lemma feed_periodic:
  "feed (processEvent repo) st (recordBlob INCREMENT_DISCUSSION_THREAD_NUMBER_OF_VISITS 1
      (empty_context_parts @ [uuid_part uid, value_part (word_bytes 4 n)])) = Some (True, visits_step (uid, n) st)"
  "feed (processEvent repo) st (recordBlob INCREMENT_USER_LATEST_VISITED_PAGE 1
      (empty_context_parts @ [uuid_part userId, uuid_part threadId, value_part (word_bytes 4 n)])) =
    Some (True, page_step ((userId, threadId), n) st)"
  "feed (processEvent repo) st (recordBlob INCREMENT_ATTACHMENT_NUMBER_OF_GETS 1
      (empty_context_parts @ [uuid_part uid, value_part (word_bytes 4 n)])) = Some (True, gets_step (uid, n) st)"
  by (simp_all add: empty_context import_call_simps)

fun process_blobs :: "'s repositories \<Rightarrow> 's import_state \<Rightarrow> bytes list \<Rightarrow> (bool \<times> 's import_state) option" where
  "process_blobs repo st [] = Some (True, st)"
| "process_blobs repo st (b # bs) =
     (case feed (processEvent repo) st b of
        Some (True, st) \<Rightarrow> process_blobs repo st bs
      | r \<Rightarrow> r)"

lemma process_blobs_append:
  "process_blobs repo st (xs @ ys) =
    (case process_blobs repo st xs of Some (True, st) \<Rightarrow> process_blobs repo st ys | r \<Rightarrow> r)"
  by (induction xs arbitrary: st) (auto split: option.split prod.split bool.split)

lemma process_blobs_map:
  assumes "\<And>x st. feed (processEvent repo) st (f x) = Some (True, g x st)"
  shows "process_blobs repo st (map f xs) = Some (True, fold g xs st)"
  using assms by (induction xs arbitrary: st) simp_all

lemma process_periodic:
  "process_blobs repo st (map (\<lambda>(uid, n). recordBlob INCREMENT_DISCUSSION_THREAD_NUMBER_OF_VISITS 1
      (empty_context_parts @ [uuid_part uid, value_part (word_bytes 4 n)])) cs) = Some (True, fold visits_step cs st)"
  "process_blobs repo st (map (\<lambda>((userId, threadId), page). recordBlob INCREMENT_USER_LATEST_VISITED_PAGE 1
      (empty_context_parts @ [uuid_part userId, uuid_part threadId, value_part (word_bytes 4 page)])) ps) =
    Some (True, fold page_step ps st)"
  "process_blobs repo st (map (\<lambda>(uid, n). recordBlob INCREMENT_ATTACHMENT_NUMBER_OF_GETS 1
      (empty_context_parts @ [uuid_part uid, value_part (word_bytes 4 n)])) cs) = Some (True, fold gets_step cs st)"
  by (rule process_blobs_map; auto simp: feed_periodic simp del: visits_step.simps page_step.simps gets_step.simps)+

lemma process_periodic_writes:
  "process_blobs repo st (fst (updatePeriodicWrites c)) =
    Some (True, fold gets_step (vc_nrOfAttachmentGets c) (fold page_step (vc_latestVisitedPage c)
      (fold visits_step (vc_nrOfThreadVisits c) st)))"
  by (simp add: updatePeriodicWrites_def process_blobs_append process_periodic)

lemma visits_steps [simp]:
  "is_nrOfThreadVisits (fold visits_step cs st) = fold (\<lambda>(uid, n). add_cached uid n) cs (is_nrOfThreadVisits st)"
  "is_nrOfAttachmentGets (fold visits_step cs st) = is_nrOfAttachmentGets st"
  "is_entities (fold visits_step cs st) = is_entities st"
  by (induction cs arbitrary: st) auto

lemma page_steps [simp]:
  "is_nrOfThreadVisits (fold page_step ps st) = is_nrOfThreadVisits st"
  "is_nrOfAttachmentGets (fold page_step ps st) = is_nrOfAttachmentGets st"
  "is_entities (fold page_step ps st) = is_entities st"
  by (induction ps arbitrary: st) auto

lemma gets_steps [simp]:
  "is_nrOfThreadVisits (fold gets_step cs st) = is_nrOfThreadVisits st"
  "is_nrOfAttachmentGets (fold gets_step cs st) = fold (\<lambda>(uid, n). add_cached uid n) cs (is_nrOfAttachmentGets st)"
  "is_entities (fold gets_step cs st) = is_entities st"
  by (induction cs arbitrary: st) auto

subsection \<open>What the observer counted\<close>

lemma fold_thread_visits:
  "total (vc_nrOfThreadVisits (fold (\<lambda>(context, threadId, page). onGetDiscussionThreadById context threadId page) visits c)) uid =
     total (vc_nrOfThreadVisits c) uid + of_nat (length (filter (\<lambda>(context, threadId, page). threadId = uid) visits))"
  "distinct (map fst (vc_nrOfThreadVisits c)) \<Longrightarrow>
     distinct (map fst (vc_nrOfThreadVisits (fold (\<lambda>(context, threadId, page). onGetDiscussionThreadById context threadId page) visits c)))"
  by (induction visits arbitrary: c) (auto simp: onGetDiscussionThreadById_def Let_def distinct_count_visit)

lemma fold_attachment_gets:
  "total (vc_nrOfAttachmentGets (fold (\<lambda>(context, attachmentId). onGetAttachment context attachmentId) gets c)) uid =
     total (vc_nrOfAttachmentGets c) uid + of_nat (length (filter (\<lambda>(context, attachmentId). attachmentId = uid) gets))"
  "distinct (map fst (vc_nrOfAttachmentGets c)) \<Longrightarrow>
     distinct (map fst (vc_nrOfAttachmentGets (fold (\<lambda>(context, attachmentId). onGetAttachment context attachmentId) gets c)))"
  by (induction gets arbitrary: c) (auto simp: onGetAttachment_def distinct_count_visit)

subsection \<open>What the importer adds to the entities\<close>

lemma visit_count_applied:
  assumes "distinct (map fst m)"
  shows "ec_visited (updateDiscussionThreadVisitCount m es) uid = map_option (\<lambda>v. v + ucast (total m uid)) (ec_visited es uid)"
  using assms unfolding updateDiscussionThreadVisitCount_def
proof (induction m arbitrary: es)
  case Nil
  then show ?case by (cases "ec_visited es uid") (simp_all add: total_def)
next
  case (Cons c m)
  obtain k n where c: "c = (k, n)" by force
  have "k \<notin> fst ` set m" using Cons.prems c by auto
  then have "map_of m k = None" by (simp add: map_of_eq_None_iff)
  then show ?case
    using Cons by (cases "ec_visited es k"; cases "uid = k") (auto simp: c total_def)
qed

lemma import_updates_visited:
  assumes "distinct (map fst (is_nrOfThreadVisits st))"
  shows "ec_visited (is_entities (import_updates st)) uid =
    map_option (\<lambda>v. v + ucast (total (is_nrOfThreadVisits st) uid)) (ec_visited (is_entities st) uid)"
proof -
  have "ec_visited (updateDiscussionThreadLatestVisitedPage ps es) = ec_visited es" for ps and es :: "'a entity_counters_scheme"
    unfolding updateDiscussionThreadLatestVisitedPage_def by (induction ps arbitrary: es) (auto split: option.split)
  moreover have "ec_visited (updateUsersLastSeen us es) = ec_visited es" for us and es :: "'a entity_counters_scheme"
    unfolding updateUsersLastSeen_def by (induction us arbitrary: es) (auto split: option.split)
  ultimately show ?thesis
    using visit_count_applied [OF assms] by (simp add: import_updates_def Let_def)
qed

lemma import_updates_gets:
  "ec_nrOfGetRequests (is_entities (import_updates st)) = ec_nrOfGetRequests (is_entities st)"
proof -
  have "ec_nrOfGetRequests (updateDiscussionThreadVisitCount m es) = ec_nrOfGetRequests es" for m and es :: "'a entity_counters_scheme"
    unfolding updateDiscussionThreadVisitCount_def by (induction m arbitrary: es) (auto split: option.split)
  moreover have "ec_nrOfGetRequests (updateDiscussionThreadLatestVisitedPage ps es) = ec_nrOfGetRequests es" for ps and es :: "'a entity_counters_scheme"
    unfolding updateDiscussionThreadLatestVisitedPage_def by (induction ps arbitrary: es) (auto split: option.split)
  moreover have "ec_nrOfGetRequests (updateUsersLastSeen us es) = ec_nrOfGetRequests es" for us and es :: "'a entity_counters_scheme"
    unfolding updateUsersLastSeen_def by (induction us arbitrary: es) (auto split: option.split)
  ultimately show ?thesis by (simp add: import_updates_def Let_def)
qed

end
