(* ===== verification/EventProperties.thy ===== *)
theory EventProperties
  imports FolderReplay VisitLemmas
begin

section \<open>Properties of the event log\<close>

text \<open>
  The properties of the persistence: memory safety and result of the import, the round trips from
  the observer over the appender to the importer, damaged files, and the counters.
\<close>

subsection \<open>A concrete repository\<close>

text \<open>Renaming user 1 works and is noted as the time it was last seen; nothing else is found.\<close>

definition sample_repo :: "entity_counters repositories" where
  "sample_repo cx call es =
     (if call = UserCall (ChangeUserName 1 [65])
      then (STATUS_OK, es\<lparr>ec_lastSeen := (ec_lastSeen es)(1 \<mapsto> cc_time cx)\<rparr>)
      else (NOT_FOUND, es\<lparr>ec_visited := (ec_visited es)(7 \<mapsto> (case ec_visited es 7 of Some n \<Rightarrow> n + 1 | None \<Rightarrow> 1))\<rparr>))"

definition sample_entities :: entity_counters where
  "sample_entities = \<lparr>ec_visited = (\<lambda>_. None)(7 \<mapsto> 0), ec_latestPageVisited = \<lambda>_. None,
     ec_lastSeen = \<lambda>_. None, ec_nrOfGetRequests = (\<lambda>_. None)(9 \<mapsto> 3)\<rparr>"

definition sample_context :: observer_context where
  "sample_context = \<lparr>oc_timestamp = 1000, oc_performedBy = 1, oc_ipAddress = 0\<rparr>"

definition sample_rename :: repository_call where
  "sample_rename = UserCall (ChangeUserName 1 [65])"

definition sample_vote :: repository_call where
  "sample_vote = MessageCall (UpVoteDiscussionThreadMessage 3)"

lemma sample_recordable [simp]: "recordable sample_rename" "recordable sample_vote"
  by (simp_all add: recordable_def sample_rename_def sample_vote_def)

lemma sample_run: "\<exists>st'. run_events sample_repo (EventImporterImpl logs sample_entities) [(sample_context, sample_rename)] = (True, st')"
  by (simp add: execute_event_def execute_call_def sample_repo_def sample_rename_def)

lemma sample_log_size:
  "length (log_bytes crc32 [(sample_context, sample_rename)]) = 88"
  "length (log_bytes crc32 [(sample_context, sample_rename), (sample_context, sample_vote)]) = 168"
  by (simp_all add: log_bytes_def length_append_blob sample_rename_def sample_vote_def observer_defs recordBlob_bytes
      MinBlobSize_def blobPaddingRequired_def BlobPaddingBytes_def)

subsection \<open>Memory safety and the result of an import\<close>

lemma import_files_returns:
  assumes "balanced result"
  shows "\<exists>result' st'. import_files crc32 verifyChecksum repo result st files = Some (result', st') \<and> balanced result'"
  using assms
proof (induction files arbitrary: result st)
  case (Cons fl files)
  have "\<exists>r st'. importFile crc32 verifyChecksum repo st fl = Some (r, st') \<and> (ir_success r \<longrightarrow> balanced r)"
  proof (cases fl)
    case (Some content)
    have "unat (of_nat (length content) :: 64 word) \<le> length content"
      by (simp add: unat_of_nat)
    from iterate_loop_returns [OF this, of ImportResult] show ?thesis
      by (simp add: Some importFile_def iterateBlobsInFile_def ImportResult_def balanced_def)
  qed (simp add: importFile_def ImportResult_def balanced_def)
  then obtain r st' where "importFile crc32 verifyChecksum repo st fl = Some (r, st')" "ir_success r \<longrightarrow> balanced r"
    by blast
  then show ?case using Cons by (cases "ir_success r") (auto simp: balanced_def)
qed simp

text \<open>
  C5. For every directory tree with any bytes in its files, every repository and either setting of
  the checksum verification, the import returns without reading outside a file, the blobs it read or
  the views it made; the number of imported events it reports always equals the number of blobs.
\<close>

theorem import_memory_safe:
  "\<exists>result st'. import crc32 verifyChecksum repo st sourcePath = Some (result, st')
     \<and> ir_importedBlobs result = ir_readBlobs result"
  using import_files_returns [of ImportResult crc32 verifyChecksum repo st "map snd (eventFileNames sourcePath)"]
  by (auto simp: import_def ImportResult_def balanced_def)

subsection \<open>Round trips\<close>

text \<open>
  C4. Importing the blob that the observer recorded for a call of the write interface reads all of
  it and performs exactly that call, under the recorded time, user and address, and with the status
  the repository answers; the user is noted as seen at the recorded time.
\<close>

theorem event_round_trip:
  assumes "recordable call"
  shows "processEvent repo st (record_call c call) (of_nat (length (record_call c call))) =
    Some (execute_call repo call (enter_event c (event_type_of (record_call c call)) st))"
  using import_recorded_call [OF assms, of repo st c] by (simp add: feed_def execute_event_def)

theorem event_round_trip_witness:
  "processEvent sample_repo (EventImporterImpl False sample_entities) (record_call sample_context sample_rename)
      (of_nat (length (record_call sample_context sample_rename))) =
    Some (execute_call sample_repo sample_rename (enter_event sample_context
      (event_type_of (record_call sample_context sample_rename)) (EventImporterImpl False sample_entities)))"
  by (rule event_round_trip) simp

text \<open>
  C12. Importing a file that the appender wrote, with or without checksums verified, executes its events
  in the order they were recorded, up to the first whose call fails, and counts them.
\<close>

theorem log_round_trip:
  assumes "\<forall>(c, call)\<in>set events. recordable call" "length (log_bytes crc32 events) < 2 ^ 64"
  shows "importFile crc32 verifyChecksum repo st (Some (log_bytes crc32 events)) =
    Some (replay repo ImportResult (st\<lparr>is_firstTimestamp := TimestampMax\<rparr>) events)"
  using iterate_replays_log [OF assms] by (simp add: importFile_def)

theorem log_round_trip_witness:
  "importFile (\<lambda>bs. of_nat (length bs)) True sample_repo (EventImporterImpl False sample_entities)
      (Some (log_bytes (\<lambda>bs. of_nat (length bs)) [(sample_context, sample_rename), (sample_context, sample_vote)])) =
    Some (replay sample_repo ImportResult ((EventImporterImpl False sample_entities)\<lparr>is_firstTimestamp := TimestampMax\<rparr>)
      [(sample_context, sample_rename), (sample_context, sample_vote)])"
  by (rule log_round_trip) (simp_all add: sample_log_size)

text \<open>
  C6. From a fresh folder, whatever the batches the appender gets and however the clock moves forward
  between them, importing the folder executes all events of all batches in order: when their calls
  succeed the import succeeds with their number, and the entities are those of running the events,
  with the counters added.
\<close>

theorem folder_round_trip:
  assumes "sorted (start # map fst batches)" "last (start # map fst batches) < 2 ^ 63"
    and "0 \<le> refresh" "refresh < start"
    and "\<forall>batch\<in>snd ` set batches. batch \<noteq> []"
    and "\<forall>(c, call)\<in>set (concat (map snd batches)). recordable call"
    and "length (log_bytes crc32 (concat (map snd batches))) < 2 ^ 64"
    and "run_events repo st (concat (map snd batches)) = (True, st')"
  shows "\<exists>a final. append_batches crc32 batches (FileAppender refresh) = Some a
    \<and> import crc32 verifyChecksum repo st (folder_of a) =
        Some (add_blobs (length (concat (map snd batches))) ImportResult, final)
    \<and> is_entities final = is_entities (import_updates st')"
proof -
  obtain a st'' where a: "append_batches crc32 batches (FileAppender refresh) = Some a"
    "import_files crc32 verifyChecksum repo ImportResult st (map snd (eventFileNames (folder_of a))) =
      Some (add_blobs (length (concat (map snd batches))) ImportResult, st'')"
    "forget_first st'' = forget_first st'"
    using import_appended_folder [OF assms] by blast
  have "is_entities (import_updates st'') = is_entities (import_updates st')"
    using a(3) by (cases st''; cases st') (simp add: forget_first_def import_updates_def)
  then show ?thesis using a by (simp add: import_def)
qed

theorem folder_round_trip_witness:
  "\<exists>st' a final. append_batches (\<lambda>bs. of_nat (length bs)) [(1000, [(sample_context, sample_rename)])] (FileAppender 600) = Some a
    \<and> import (\<lambda>bs. of_nat (length bs)) True sample_repo (EventImporterImpl False sample_entities) (folder_of a) =
        Some (add_blobs (length (concat (map snd [(1000 :: timestamp, [(sample_context, sample_rename)])]))) ImportResult, final)
    \<and> is_entities final = is_entities (import_updates st')"
proof -
  obtain st' where "run_events sample_repo (EventImporterImpl False sample_entities) [(sample_context, sample_rename)] = (True, st')"
    using sample_run by blast
  then show ?thesis
    using folder_round_trip [of 1000 "[(1000, [(sample_context, sample_rename)])]" 600 "\<lambda>bs. of_nat (length bs)"
        sample_repo "EventImporterImpl False sample_entities" st' True]
    by (auto simp: sample_log_size)
qed

text \<open>
  C13. A file that a crash cut at any byte: the events before the cut blob are executed, nothing of the
  cut blob is, and the import reports a failure unless the cut is between two blobs.
\<close>

theorem cut_file_replays_prefix:
  assumes "\<forall>(c, call)\<in>set events. recordable call" "length (log_bytes crc32 events) < 2 ^ 64"
    and "k < length events" "length (log_bytes crc32 (take k events)) \<le> n"
    and "n < length (log_bytes crc32 (take (Suc k) events))"
  shows "importFile crc32 verifyChecksum repo st (Some (take n (log_bytes crc32 events))) =
    (let (result, st') = replay repo ImportResult (st\<lparr>is_firstTimestamp := TimestampMax\<rparr>) (take k events)
     in Some (if n = length (log_bytes crc32 (take k events)) then result else result\<lparr>ir_success := False\<rparr>, st'))"
proof -
  obtain c call where ev: "events ! k = (c, call)" by force
  have "length (take n (log_bytes crc32 events)) = n"
    using cut_log [OF assms(3) ev assms(4,5)] assms(4) by simp
  then show ?thesis
    using iterate_replays_cut_log [OF assms, of verifyChecksum repo "st\<lparr>is_firstTimestamp := TimestampMax\<rparr>"]
    by (simp add: importFile_def)
qed

theorem cut_file_replays_prefix_witness:
  "importFile (\<lambda>bs. of_nat (length bs)) True sample_repo (EventImporterImpl False sample_entities)
      (Some (take 100 (log_bytes (\<lambda>bs. of_nat (length bs)) [(sample_context, sample_rename), (sample_context, sample_vote)]))) =
    (let (result, st') = replay sample_repo ImportResult
         ((EventImporterImpl False sample_entities)\<lparr>is_firstTimestamp := TimestampMax\<rparr>)
         (take 1 [(sample_context, sample_rename), (sample_context, sample_vote)])
     in Some (if 100 = length (log_bytes (\<lambda>bs. of_nat (length bs)) (take 1 [(sample_context, sample_rename), (sample_context, sample_vote)]))
              then result else result\<lparr>ir_success := False\<rparr>, st'))"
  by (rule cut_file_replays_prefix) (simp_all add: sample_log_size)

text \<open>
  C14. With checksums verified, a blob whose content was replaced by one of another checksum is not
  executed, nor is anything after it; everything before it is, and the import reports a failure.
\<close>

theorem altered_blob_not_executed:
  assumes "\<forall>(c, call)\<in>set before. recordable call" "recordable call"
    and "length blob' = length (record_call c call)" "crc32 blob' \<noteq> crc32 (record_call c call)"
    and "length (log_bytes crc32 before @ alter_blob crc32 (record_call c call) blob' @ after) < 2 ^ 64"
  shows "importFile crc32 True repo st
      (Some (log_bytes crc32 before @ alter_blob crc32 (record_call c call) blob' @ after)) =
    (let (result, st') = replay repo ImportResult (st\<lparr>is_firstTimestamp := TimestampMax\<rparr>) before
     in Some (result\<lparr>ir_success := False\<rparr>, st'))"
proof -
  have "\<not> whole_blob crc32 True (alter_blob crc32 (record_call c call) blob' @ after)
      (of_nat (length (alter_blob crc32 (record_call c call) blob' @ after)))"
    using recorded_size [OF assms(2)] assms(3,4) by (rule altered_blob_not_whole)
  moreover have "alter_blob crc32 (record_call c call) blob' @ after \<noteq> []"
    using recorded_size [OF assms(2), of c] by (auto simp: alter_blob_def append_blob_small dest: arg_cong [where f = length])
  ultimately show ?thesis
    using iterate_replays_damaged [OF assms(1,5)] by (simp add: importFile_def)
qed

theorem altered_blob_not_executed_witness:
  "importFile (\<lambda>bs. ucast (last bs)) True sample_repo (EventImporterImpl False sample_entities)
      (Some (log_bytes (\<lambda>bs. ucast (last bs)) [(sample_context, sample_vote)]
        @ alter_blob (\<lambda>bs. ucast (last bs)) (record_call sample_context sample_rename)
            (butlast (record_call sample_context sample_rename) @ [66]) @ [])) =
    (let (result, st') = replay sample_repo ImportResult
         ((EventImporterImpl False sample_entities)\<lparr>is_firstTimestamp := TimestampMax\<rparr>) [(sample_context, sample_vote)]
     in Some (result\<lparr>ir_success := False\<rparr>, st'))"
proof (rule altered_blob_not_executed)
  have "last (record_call sample_context sample_rename) = 65" "record_call sample_context sample_rename \<noteq> []"
    by (simp_all add: sample_rename_def observer_defs recordBlob_bytes)
  then show "ucast (last (butlast (record_call sample_context sample_rename) @ [66])) \<noteq>
      (ucast (last (record_call sample_context sample_rename)) :: 32 word)"
    "length (butlast (record_call sample_context sample_rename) @ [66]) = length (record_call sample_context sample_rename)"
    by (simp_all add: ucast_eq)
qed (simp_all add: recordable_def log_bytes_def length_append_blob alter_blob_def sample_rename_def sample_vote_def observer_defs
    recordBlob_bytes MinBlobSize_def blobPaddingRequired_def BlobPaddingBytes_def)

text \<open>
   The name of every file the appender makes is recognised by the importer, with the time it was
  made as its place in the order.
\<close>

theorem event_file_name_recognised:
  assumes "0 \<le> now" "now < 2 ^ 63"
  shows "event_file_timestamp (event_file_name now) = Some now"
  by (rule event_file_name_roundtrip [OF assms])

theorem event_file_name_recognised_witness:
  "event_file_timestamp (event_file_name 1500000000) = Some 1500000000"
  by (rule event_file_name_recognised) simp_all

text \<open>
   Recorded blobs fill the buffer that was allocated for them exactly, fit the 32-bit size of a
  blob, and keep the file aligned to eight bytes when they are appended.
\<close>

theorem recorded_blobs_fit:
  assumes "recordable call"
  shows "length (record_call c call) < 2 ^ 32 \<and> 8 dvd length (append_blob crc32 (record_call c call))
     \<and> length (recordBlob eventType version (context_parts c @ map uuid_part ids @ map string_part strings @ map value_part values)) =
         recordBlob_size (context_parts c @ map uuid_part ids @ map string_part strings @ map value_part values)"
proof (intro conjI)
  show "length (record_call c call) < 2 ^ 32" by (rule recorded_size [OF assms])
  show "8 dvd length (append_blob crc32 (record_call c call))"
    using append_blobs_aligned [of "[record_call c call]" crc32] recorded_size [OF assms] by simp
  show "length (recordBlob eventType version (context_parts c @ map uuid_part ids @ map string_part strings @ map value_part values)) =
      recordBlob_size (context_parts c @ map uuid_part ids @ map string_part strings @ map value_part values)"
    by (rule recordBlob_fills) (auto simp: context_parts_def)
qed

theorem recorded_blobs_fit_witness:
  "length (record_call sample_context sample_rename) < 2 ^ 32
     \<and> 8 dvd length (append_blob (\<lambda>_. 0) (record_call sample_context sample_rename))
     \<and> length (recordBlob CHANGE_USER_NAME 1 (context_parts sample_context @ map uuid_part [1] @ map string_part [[65]] @ map value_part [[66]])) =
         recordBlob_size (context_parts sample_context @ map uuid_part [1] @ map string_part [[65]] @ map value_part [[66]])"
  by (rule recorded_blobs_fit) simp

subsection \<open>Counters\<close>

text \<open>
  C16. Visits survive a restart: when the counted visits of threads are written and imported in a new
  process, the visit counter of every thread that still exists grows by the number of its visits
  (as a 32-bit number), and no other thread appears.
\<close>

theorem thread_visits_conserved:
  "\<exists>st'. process_blobs repo (EventImporterImpl logs es) (fst (updatePeriodicWrites
        (fold (\<lambda>(context, threadId, page). onGetDiscussionThreadById context threadId page) visits empty_visit_cache))) =
      Some (True, st')
    \<and> ec_visited (is_entities (import_updates st')) uid =
        map_option (\<lambda>v. v + ucast (of_nat (length (filter (\<lambda>(context, threadId, page). threadId = uid) visits)) :: 32 word))
          (ec_visited es uid)"
proof -
  define c where "c = fold (\<lambda>(context, threadId, page). onGetDiscussionThreadById context threadId page) visits empty_visit_cache"
  define st' where "st' = fold gets_step (vc_nrOfAttachmentGets c) (fold page_step (vc_latestVisitedPage c)
      (fold visits_step (vc_nrOfThreadVisits c) (EventImporterImpl logs es)))"
  have counted: "total (vc_nrOfThreadVisits c) uid = of_nat (length (filter (\<lambda>(context, threadId, page). threadId = uid) visits))"
      "distinct (map fst (vc_nrOfThreadVisits c))"
    unfolding c_def fold_thread_visits(1) by (simp_all add: fold_thread_visits(2) empty_visit_cache_def total_def)
  have "is_nrOfThreadVisits st' = fold (\<lambda>(uid, n). add_cached uid n) (vc_nrOfThreadVisits c) []" "is_entities st' = es"
    by (simp_all add: st'_def EventImporterImpl_def)
  then have "total (is_nrOfThreadVisits st') uid = total (vc_nrOfThreadVisits c) uid" "distinct (map fst (is_nrOfThreadVisits st'))"
    using total_fold_add_cached [OF counted(2), of "[]" uid] by (simp_all add: total_def distinct_fold_add_cached)
  then have "ec_visited (is_entities (import_updates st')) uid =
      map_option (\<lambda>v. v + ucast (total (vc_nrOfThreadVisits c) uid)) (ec_visited es uid)"
    using import_updates_visited [of st' uid] \<open>is_entities st' = es\<close> by simp
  then show ?thesis
    using process_periodic_writes [of repo "EventImporterImpl logs es" c] counted(1) by (simp add: st'_def c_def)
qed

text \<open>
  C17. Downloads of attachments do not survive a restart: the importer sums the written counters
  correctly, and what \<open>import\<close> does at its end leaves the number of downloads of every attachment as it
  was.
\<close>

theorem attachment_gets_not_restored:
  "\<exists>st'. process_blobs repo (EventImporterImpl logs es) (fst (updatePeriodicWrites
        (fold (\<lambda>(context, attachmentId). onGetAttachment context attachmentId) gets empty_visit_cache))) = Some (True, st')
    \<and> total (is_nrOfAttachmentGets st') uid = of_nat (length (filter (\<lambda>(context, attachmentId). attachmentId = uid) gets))
    \<and> ec_nrOfGetRequests (is_entities (import_updates st')) = ec_nrOfGetRequests es"
proof -
  define c where "c = fold (\<lambda>(context, attachmentId). onGetAttachment context attachmentId) gets empty_visit_cache"
  define st' where "st' = fold gets_step (vc_nrOfAttachmentGets c) (fold page_step (vc_latestVisitedPage c)
      (fold visits_step (vc_nrOfThreadVisits c) (EventImporterImpl logs es)))"
  have counted: "total (vc_nrOfAttachmentGets c) uid = of_nat (length (filter (\<lambda>(context, attachmentId). attachmentId = uid) gets))"
      "distinct (map fst (vc_nrOfAttachmentGets c))"
    unfolding c_def fold_attachment_gets(1) by (simp_all add: fold_attachment_gets(2) empty_visit_cache_def total_def)
  have "is_nrOfAttachmentGets st' = fold (\<lambda>(uid, n). add_cached uid n) (vc_nrOfAttachmentGets c) []" "is_entities st' = es"
    by (simp_all add: st'_def EventImporterImpl_def)
  then have "total (is_nrOfAttachmentGets st') uid = total (vc_nrOfAttachmentGets c) uid"
    using total_fold_add_cached [OF counted(2), of "[]" uid] by (simp add: total_def)
  then show ?thesis
    using process_periodic_writes [of repo "EventImporterImpl logs es" c] counted(1) import_updates_gets [of st'] \<open>is_entities st' = es\<close>
    by (simp add: st'_def c_def)
qed

subsection \<open>Errors\<close>

text \<open>
   An event whose call the repository does not accept ends the import; when the log records errors,
  the macro that checks the status has the repository execute the call a second time.
\<close>

theorem refused_event_runs_twice:
  assumes "recordable call" "is_logsErrors st"
    and "context = call_context_of (enter_event c (event_type_of (record_call c call)) st)"
    and "fst (repo context call (is_entities st)) \<notin> {STATUS_OK, NO_EFFECT}"
  shows "\<exists>st'. processEvent repo st (record_call c call) (of_nat (length (record_call c call))) = Some (False, st')
     \<and> is_entities st' = snd (repo context call (snd (repo context call (is_entities st))))"
proof -
  have "call_context_of (st'\<lparr>is_entities := es\<rparr>) = call_context_of st'" for st' :: "'a import_state" and es
    by (simp add: call_context_of_def)
  moreover have "is_logsErrors (enter_event c t st) = is_logsErrors st" for t
    by (simp add: enter_event_def Let_def)
  ultimately show ?thesis
    using assms import_recorded_call [OF assms(1), of repo st c]
    by (auto simp: feed_def execute_event_def execute_call_def split_beta Let_def)
qed

theorem refused_event_runs_twice_witness:
  "\<exists>st'. processEvent sample_repo (EventImporterImpl True sample_entities) (record_call sample_context sample_vote)
      (of_nat (length (record_call sample_context sample_vote))) = Some (False, st')
     \<and> ec_visited (is_entities st') 7 = Some 2"
  using refused_event_runs_twice [OF sample_recordable(2), of "EventImporterImpl True sample_entities", OF _ refl,
      of sample_repo sample_context]
  by (auto simp: EventImporterImpl_def sample_repo_def sample_vote_def sample_entities_def)

text \<open>
   No event is interpreted under a version the importer does not know: with another context version
  than 1, a version 0, a version beyond the last of its type, or an unknown type, an event is refused
  and neither the entities nor the counters change. Type 0 is skipped.
\<close>

theorem unknown_versions_refused:
  assumes "unat sz \<le> length data" "EventHeaderSize \<le> unat sz"
    and "eventType = bytes_word (take 4 data)" "version = bytes_word (take 2 (drop 4 data))"
    and "contextVersion = (bytes_word (take 2 (drop 6 data)) :: 16 word)"
    and "contextVersion \<noteq> 1 \<or> version = (0 :: 16 word) \<or> 72 \<le> unat eventType \<or> 5 \<le> unat version"
  shows "processEvent repo st data sz = Some (eventType = UNKNOWN, st\<lparr>is_currentEventType := eventType\<rparr>)"
proof (cases "eventType = UNKNOWN \<or> 72 \<le> unat eventType")
  case True
  then show ?thesis
    using assms by (auto simp: processEvent_def EventHeaderSize_def Let_def UNKNOWN_def)
next
  case False
  define row where "row = importFunctions repo ! unat eventType"
  have row: "row \<in> set (importFunctions repo)" using False by (simp add: row_def)
  have short: "length row \<le> 5" "row = [] \<or> row ! 0 = None"
    using row unfolding importFunctions_def by auto
  have refuses: "fn contextVersion st' rest sz' = Some (False, st')"
    if "unat version < length row" "row ! unat version = Some fn" for fn st' rest sz'
  proof -
    have "Some fn \<in> set row" using that nth_mem by metis
    moreover have "contextVersion \<noteq> 1"
      using assms(6) False that short by (auto simp: unat_eq_0)
    ultimately show ?thesis
      using row unfolding importFunctions_def by (auto simp: importer_defs processContext_def)
  qed
  show ?thesis
    using assms(1-5) False refuses
    by (auto simp: processEvent_def EventHeaderSize_def Let_def row_def split: option.split)
qed

theorem unknown_versions_refused_witness:
  "processEvent sample_repo (EventImporterImpl False sample_entities) [20, 0, 0, 0, 1, 0, 2, 0] 8 =
    Some (bytes_word (take 4 [20, 0, 0, 0, 1, 0, 2, 0]) = UNKNOWN,
      (EventImporterImpl False sample_entities)\<lparr>is_currentEventType := bytes_word (take 4 [20, 0, 0, 0, 1, 0, 2, 0])\<rparr>)"
  by (rule unknown_versions_refused [OF _ _ refl refl refl]) (simp_all add: EventHeaderSize_def bytes_word_def)

end
