(* ===== verification/HttpStrings.thy ===== *)
theory HttpStrings
  imports Prelude
begin

section \<open>Strings of the HTTP layer\<close>

text \<open>
  Models \<^verbatim>\<open>src/src/LibHttp/HttpStringHelpers.h\<close>. A view is the string it points to; where the code changes a
  buffer in place the model returns the new content of the buffer. The tables of the source are lists
  of 256 entries, indexed by the code of a character.
\<close>

definition code :: "char \<Rightarrow> nat" where
  "code c = of_char c"

definition matchStringUpperOrLowerSameSize :: "string \<Rightarrow> string \<Rightarrow> bool" where
  "matchStringUpperOrLowerSameSize source against =
     (let n = length against div 2
      in \<not> fold (\<lambda>i misMatchFound. misMatchFound \<or> (source ! i \<noteq> against ! i \<and> source ! i \<noteq> against ! (n + i))) [0..<n] False)"

definition matchStringUpperOrLower :: "string \<Rightarrow> string \<Rightarrow> bool" where
  "matchStringUpperOrLower source against =
     (if length source \<noteq> length against div 2 then False else matchStringUpperOrLowerSameSize source against)"

definition trimLeadingChar :: "char \<Rightarrow> string \<Rightarrow> string" where
  "trimLeadingChar toTrim view = drop (length (takeWhile (\<lambda>c. c = toTrim) view)) view"

definition CharToLower :: "nat list" where
  "CharToLower = [0..<65] @ [97..<123] @ [91..<256]"

definition HexParsingValues :: "nat list" where
  "HexParsingValues = replicate 48 0 @ [0..<10] @ replicate 7 0 @ [10..<16] @ replicate 26 0 @ [10..<16] @ replicate 153 0"

definition HexToStringUpperCase :: string where
  "HexToStringUpperCase = ''0123456789ABCDEF''"

definition char_to_lower :: "char \<Rightarrow> char" where
  "char_to_lower c = char_of (CharToLower ! code c)"

subsection \<open>Percent encoding\<close>

text \<open>
  Decoding in place reads ahead of what it writes, so its result depends on the original bytes only. A
  percent sign with fewer than two bytes after it ends the decoding.
\<close>

fun decodeUrlEncoding :: "string \<Rightarrow> string" where
  "decodeUrlEncoding [] = []"
| "decodeUrlEncoding (c # cs) =
     (if c = CHR ''%''
      then (case cs of
              a # b # rest \<Rightarrow> char_of (HexParsingValues ! code a * 16 + HexParsingValues ! code b) # decodeUrlEncoding rest
            | _ \<Rightarrow> [])
      else c # decodeUrlEncoding cs)"

text \<open>The region of a buffer is overwritten by the decoded bytes; its tail keeps the old ones.\<close>

definition decodeUrlEncodingInPlace :: "nat \<Rightarrow> nat \<Rightarrow> string \<Rightarrow> nat \<times> string" where
  "decodeUrlEncodingInPlace start n buffer =
     (let decoded = decodeUrlEncoding (take n (drop start buffer))
      in (length decoded, take start buffer @ decoded @ drop (start + length decoded) buffer))"

definition ReservedCharactersForUrlEncoding :: "nat list" where
  "ReservedCharactersForUrlEncoding =
     replicate 45 1 @ [0, 0, 1] @ replicate 10 0 @ replicate 7 1 @ replicate 26 0 @ [1, 1, 1, 1, 0, 1]
     @ replicate 26 0 @ [1, 1, 1, 0, 1] @ replicate 128 1"

definition percentEncode :: "nat \<Rightarrow> nat list \<Rightarrow> string \<Rightarrow> string" where
  "percentEncode outputSize table input =
     (if length input * 3 > outputSize then []
      else concat (map (\<lambda>c. if table ! code c \<noteq> 0
             then [CHR ''%'', HexToStringUpperCase ! (code c div 16), HexToStringUpperCase ! (code c mod 16)]
             else [c]) input))"

definition urlEncode :: "nat \<Rightarrow> string \<Rightarrow> string" where
  "urlEncode outputSize input = percentEncode outputSize ReservedCharactersForUrlEncoding input"

subsection \<open>Lemmas\<close>

lemma trimLeadingChar_dropWhile: "trimLeadingChar toTrim view = dropWhile (\<lambda>c. c = toTrim) view"
  by (simp add: trimLeadingChar_def dropWhile_eq_drop)

lemma code_less: "code c < 256"
  using nat_of_char_less_256 [of c] by (simp add: code_def)

lemma char_of_code [simp]: "char_of (code c) = c"
  by (simp add: code_def)

lemma code_eq_iff: "code c = code d \<longleftrightarrow> c = d"
  by (metis char_of_code)

lemma length_decode_le: "length (decodeUrlEncoding s) \<le> length s"
proof (induction s rule: decodeUrlEncoding.induct)
  case (2 c cs)
  then show ?case
    by (cases "c = CHR ''%''") (auto split: list.split, metis le_SucI)
qed simp

lemma length_decode_in_place [simp]:
  "start + n \<le> length buffer \<Longrightarrow> length (snd (decodeUrlEncodingInPlace start n buffer)) = length buffer"
  using length_decode_le [of "take n (drop start buffer)"] by (simp add: decodeUrlEncodingInPlace_def Let_def)

lemma decode_no_percent [simp]: "CHR ''%'' \<notin> set s \<Longrightarrow> decodeUrlEncoding s = s"
  by (induction s) auto

lemma all_less_16:
  assumes "P 0" "P 1" "P 2" "P 3" "P 4" "P 5" "P 6" "P 7" "P 8" "P 9" "P 10" "P 11" "P 12" "P 13" "P 14" "P (15 :: nat)"
    and "n < 16"
  shows "P n"
  using assms by (auto simp: less_Suc_eq numeral_eq_Suc)

lemma hex_digit_roundtrip: "n < 16 \<Longrightarrow> HexParsingValues ! code (HexToStringUpperCase ! n) = n"
  by (rule all_less_16 [where P = "\<lambda>n. HexParsingValues ! code (HexToStringUpperCase ! n) = n"])
    (simp_all add: HexParsingValues_def HexToStringUpperCase_def code_def nth_append)

lemma percent_reserved: "ReservedCharactersForUrlEncoding ! code CHR ''%'' \<noteq> 0"
  by (simp add: ReservedCharactersForUrlEncoding_def code_def nth_append)

lemma decode_encoded_char:
  "decodeUrlEncoding ((if ReservedCharactersForUrlEncoding ! code c \<noteq> 0
      then [CHR ''%'', HexToStringUpperCase ! (code c div 16), HexToStringUpperCase ! (code c mod 16)] else [c]) @ rest) =
    c # decodeUrlEncoding rest"
proof -
  have "code c div 16 < 16" "code c mod 16 < 16"
    using code_less [of c] by simp_all
  then show ?thesis
    using percent_reserved by (auto simp: hex_digit_roundtrip)
qed

lemma decode_urlEncode:
  assumes "length s * 3 \<le> outputSize"
  shows "decodeUrlEncoding (urlEncode outputSize s) = s"
proof -
  have "decodeUrlEncoding (concat (map (\<lambda>c. if ReservedCharactersForUrlEncoding ! code c \<noteq> 0
      then [CHR ''%'', HexToStringUpperCase ! (code c div 16), HexToStringUpperCase ! (code c mod 16)] else [c]) s)) = s"
    by (induction s) (simp_all only: list.map concat.simps decode_encoded_char decodeUrlEncoding.simps)
  then show ?thesis using assms by (simp add: urlEncode_def percentEncode_def)
qed

lemma encoded_length: "length (urlEncode outputSize s) \<le> outputSize"
proof -
  have "length (concat (map (\<lambda>c. if table ! code c \<noteq> 0 then [a, h c, l c] else [c]) s)) \<le> length s * 3"
    for table :: "nat list" and a :: char and h l
    by (induction s) auto
  from this [of ReservedCharactersForUrlEncoding "CHR ''%''" "\<lambda>c. HexToStringUpperCase ! (code c div 16)"
      "\<lambda>c. HexToStringUpperCase ! (code c mod 16)"] show ?thesis
    by (simp add: urlEncode_def percentEncode_def)
qed

end
