(* ===== verification/HttpTrie.thy ===== *)
theory HttpTrie
  imports HttpStrings "HOL-Library.Char_ord" "HOL-Library.List_Lexorder"
begin

section \<open>The trie of header names\<close>

text \<open>
  Models \<^verbatim>\<open>src/src/LibHttp/Trie.h\<close>. The nodes of the trie are a tree; the array they are allocated from is
  counted. \<open>alternatives\<close> is the template parameter \<open>GetKeyAlternatives\<close>. The groups of keys with the same
  first part are a sorted map, as \<^verbatim>\<open>std::map\<close> keeps them.
\<close>

subsection \<open>Keys\<close>

definition GetSingleKey :: "char \<Rightarrow> char list" where
  "GetSingleKey c = [c]"

definition ascii_upper :: "char \<Rightarrow> char" where
  "ascii_upper c = (if 97 \<le> code c \<and> code c \<le> 122 then char_of (code c - 32) else c)"

definition ascii_lower :: "char \<Rightarrow> char" where
  "ascii_lower c = (if 65 \<le> code c \<and> code c \<le> 90 then char_of (code c + 32) else c)"

definition GetAsciiUpperLowerKey :: "char \<Rightarrow> char list" where
  "GetAsciiUpperLowerKey c = [ascii_lower c, ascii_upper c]"

subsection \<open>Building\<close>

datatype ('k, 'v) trie_node = TrieNode "'k list" "('k, 'v) trie_node list" "'v option"

fun trie_keys :: "('k, 'v) trie_node \<Rightarrow> 'k list" where
  "trie_keys (TrieNode keys children val) = keys"

definition group_add :: "'k::linorder list \<Rightarrow> 'a \<Rightarrow> ('k list \<times> 'a list) list \<Rightarrow> ('k list \<times> 'a list) list" where
  "group_add keys x m =
     (if keys \<in> fst ` set m then map (\<lambda>(k, xs). (k, if k = keys then xs @ [x] else xs)) m
      else map_insert keys [x] m)"

definition sameKeys :: "('k::linorder \<Rightarrow> 'k list) \<Rightarrow> ('k list \<times> 'v) list \<Rightarrow> ('k list \<times> ('k list \<times> 'v) list) list" where
  "sameKeys alternatives pairs =
     fold (\<lambda>(key, v) m. case key of [] \<Rightarrow> m | c # cs \<Rightarrow> group_add (alternatives c) (cs, v) m) pairs []"

text \<open>The pairs whose first part has the alternatives \<open>keys\<close>, without that part.\<close>

definition group_of :: "('k \<Rightarrow> 'k list) \<Rightarrow> 'k list \<Rightarrow> ('k list \<times> 'v) list \<Rightarrow> ('k list \<times> 'v) list" where
  "group_of alternatives keys pairs =
     concat (map (\<lambda>(key, v). case key of [] \<Rightarrow> [] | c # cs \<Rightarrow> if alternatives c = keys then [(cs, v)] else []) pairs)"

lemma keys_group_add [simp]: "fst ` set (group_add keys x m) = insert keys (fst ` set m)"
  by (auto simp: group_add_def image_iff split: if_splits) force+

lemma distinct_group_add: "distinct (map fst m) \<Longrightarrow> distinct (map fst (group_add keys x m))"
  by (auto simp: group_add_def map_insert_def map_fst_insort_key distinct_insort comp_def split_beta)

lemma member_group_add:
  assumes "distinct (map fst m)"
  shows "(k, xs) \<in> set (group_add keys x m) \<longleftrightarrow>
    (if k = keys then xs = (case map_of m keys of Some ys \<Rightarrow> ys @ [x] | None \<Rightarrow> [x]) else (k, xs) \<in> set m)"
proof (cases "keys \<in> fst ` set m")
  case True
  then obtain ys where "map_of m keys = Some ys" using map_of_flat_Some [of keys m] by blast
  moreover have "(k, xs) \<in> set (group_add keys x m) \<longleftrightarrow> (\<exists>zs. (k, zs) \<in> set m \<and> xs = (if k = keys then zs @ [x] else zs))"
    using True by (force simp: group_add_def)
  moreover have "(keys, zs) \<in> set m \<longleftrightarrow> zs = ys" for zs
    using calculation(1) map_of_eq_Some_iff [OF assms, of keys] by (metis option.inject)
  ultimately show ?thesis by auto
next
  case False
  then have "map_of m keys = None" by (simp add: map_of_eq_None_iff)
  then show ?thesis using False by (auto simp: group_add_def set_map_insert image_iff)
qed

lemma sameKeys_groups:
  "distinct (map fst (sameKeys alternatives pairs))
   \<and> (\<forall>k xs. (k, xs) \<in> set (sameKeys alternatives pairs) \<longleftrightarrow>
        xs = group_of alternatives k pairs \<and> xs \<noteq> [])"
proof (induction pairs rule: rev_induct)
  case Nil
  then show ?case by (simp add: sameKeys_def group_of_def)
next
  case (snoc p pairs)
  obtain key v where p: "p = (key, v)" by force
  show ?case
  proof (cases key)
    case Nil
    then show ?thesis using snoc by (simp add: p sameKeys_def group_of_def)
  next
    case (Cons c cs)
    have dist: "distinct (map fst (sameKeys alternatives pairs))" using snoc by blast
    have step: "sameKeys alternatives (pairs @ [p]) = group_add (alternatives c) (cs, v) (sameKeys alternatives pairs)"
      by (simp add: sameKeys_def p Cons)
    have "map_of (sameKeys alternatives pairs) k =
        (if group_of alternatives k pairs = [] then None else Some (group_of alternatives k pairs))" for k
      using snoc by (auto simp: map_of_eq_Some_iff [OF dist] map_of_eq_None_iff)
    then show ?thesis
      unfolding step using snoc
      by (auto simp: distinct_group_add member_group_add p Cons group_of_def split: if_splits)
  qed
qed

lemma sameKeys_distinct [simp]: "distinct (map fst (sameKeys alternatives pairs))"
  using sameKeys_groups by blast

lemma sameKeys_member: "(k, xs) \<in> set (sameKeys alternatives pairs) \<longleftrightarrow> xs = group_of alternatives k pairs \<and> xs \<noteq> []"
  using sameKeys_groups by blast

lemma group_of_nonempty:
  assumes "group_of alternatives keys pairs \<noteq> []"
  shows "\<exists>d. alternatives d = keys"
  using assms by (induction pairs) (auto simp: group_of_def split: list.splits if_splits)

lemma group_of_smaller:
  assumes "group_of alternatives keys pairs \<noteq> []"
  shows "sum_list (map (length \<circ> fst) (group_of alternatives keys pairs)) < sum_list (map (length \<circ> fst) pairs)"
proof -
  have "sum_list (map (length \<circ> fst) (group_of alternatives keys pairs)) + length (group_of alternatives keys pairs)
      \<le> sum_list (map (length \<circ> fst) pairs)"
    by (induction pairs) (auto simp: group_of_def split: list.split)
  then show ?thesis using assms by (cases "group_of alternatives keys pairs") auto
qed

definition last_value :: "('k list \<times> 'v) list \<Rightarrow> 'v option" where
  "last_value pairs = fold (\<lambda>(key, v) val. if key = [] then Some v else val) pairs None"

function addKeyLevel :: "('k::linorder \<Rightarrow> 'k list) \<Rightarrow> 'k list \<Rightarrow> ('k list \<times> 'v) list \<Rightarrow> ('k, 'v) trie_node" where
  "addKeyLevel alternatives keys pairs =
     TrieNode keys (map (\<lambda>(ks, sub). addKeyLevel alternatives ks sub) (sameKeys alternatives pairs)) (last_value pairs)"
  by pat_completeness auto

termination addKeyLevel
  by (relation "measure (\<lambda>(alternatives, keys, pairs). sum_list (map (length \<circ> fst) pairs))")
    (auto simp: sameKeys_member group_of_smaller)

declare addKeyLevel.simps [simp del]

definition ImmutableTrie :: "('k::linorder \<Rightarrow> 'k list) \<Rightarrow> ('k list \<times> 'v) list \<Rightarrow> ('k, 'v) trie_node" where
  "ImmutableTrie alternatives values = addKeyLevel alternatives [] values"

function countRequiredNumberedOfNodes :: "('k::linorder \<Rightarrow> 'k list) \<Rightarrow> ('k list \<times> 'v) list \<Rightarrow> nat" where
  "countRequiredNumberedOfNodes alternatives pairs =
     fold (\<lambda>(ks, sub) result. result + countRequiredNumberedOfNodes alternatives sub) (sameKeys alternatives pairs) 1"
  by pat_completeness auto

termination countRequiredNumberedOfNodes
  by (relation "measure (\<lambda>(alternatives, pairs). sum_list (map (length \<circ> fst) pairs))")
    (auto simp: sameKeys_member group_of_smaller)

declare countRequiredNumberedOfNodes.simps [simp del]

subsection \<open>Searching\<close>

fun trie_find :: "('k, 'v) trie_node \<Rightarrow> 'k list \<Rightarrow> 'v option" where
  "trie_find (TrieNode keys children val) [] = val"
| "trie_find (TrieNode keys children val) (c # cs) =
     (case List.find (\<lambda>child. c \<in> set (trie_keys child)) children of
        None \<Rightarrow> None
      | Some child \<Rightarrow> trie_find child cs)"

subsection \<open>The trie is a map up to alternatives\<close>

lemma trie_keys_addKeyLevel [simp]: "trie_keys (addKeyLevel alternatives keys pairs) = keys"
  by (simp add: addKeyLevel.simps)

lemma last_value_map_of: "last_value pairs = map_of (rev pairs) []"
proof -
  have "fold (\<lambda>(key, v) val. if key = [] then Some v else val) pairs val =
      (case map_of (rev pairs) [] of Some v \<Rightarrow> Some v | None \<Rightarrow> val)" for val
    by (induction pairs rule: rev_induct) (auto split: option.split)
  from this [of None] show ?thesis by (simp add: last_value_def split: option.split)
qed

lemma find_unique:
  assumes "distinct (map f xs)" "x \<in> set xs" "\<And>y. y \<in> set xs \<Longrightarrow> P y \<longleftrightarrow> f y = f x"
  shows "List.find P xs = Some x"
  using assms by (induction xs) force+

locale key_alternatives =
  fixes alternatives :: "'k::linorder \<Rightarrow> 'k list"
  assumes same_alternatives: "c \<in> set (alternatives d) \<longleftrightarrow> alternatives c = alternatives d"
begin

lemma group_of_lookup:
  "map_of (rev (map (\<lambda>(key, v). (map alternatives key, v)) (group_of alternatives (alternatives c) pairs))) (map alternatives cs) =
   map_of (rev (map (\<lambda>(key, v). (map alternatives key, v)) pairs)) (map alternatives (c # cs))"
proof (induction pairs)
  case Nil
  then show ?case by (simp add: group_of_def)
next
  case (Cons p pairs)
  obtain key v where p: "p = (key, v)" by force
  show ?case
  proof (cases key)
    case Nil
    then have "group_of alternatives (alternatives c) (p # pairs) = group_of alternatives (alternatives c) pairs"
      by (simp add: group_of_def p)
    then show ?thesis using Cons Nil by (simp add: p map_add_def split: option.split)
  next
    case key: (Cons d ds)
    then have "group_of alternatives (alternatives c) (p # pairs) =
        (if alternatives d = alternatives c then [(ds, v)] else []) @ group_of alternatives (alternatives c) pairs"
      by (simp add: group_of_def p)
    then show ?thesis using Cons key by (auto simp: p map_add_def split: option.split)
  qed
qed

lemma find_addKeyLevel:
  "trie_find (addKeyLevel alternatives keys pairs) key =
   map_of (rev (map (\<lambda>(key, v). (map alternatives key, v)) pairs)) (map alternatives key)"
proof (induction key arbitrary: keys pairs)
  case Nil
  have "map_of (rev (map (\<lambda>(key, v). (map alternatives key, v)) pairs)) [] = map_of (rev pairs) []"
    by (induction pairs) (auto simp: map_add_def split: option.split)
  then show ?case by (subst addKeyLevel.simps) (simp add: last_value_map_of)
next
  case (Cons c cs)
  let ?group = "group_of alternatives (alternatives c) pairs"
  let ?children = "map (\<lambda>(ks, sub). addKeyLevel alternatives ks sub) (sameKeys alternatives pairs)"
  have only: "ks = alternatives c" if "(ks, sub) \<in> set (sameKeys alternatives pairs)" "c \<in> set ks" for ks sub
  proof -
    have "sub = group_of alternatives ks pairs" "sub \<noteq> []" using that(1) unfolding sameKeys_member by auto
    then obtain d where "alternatives d = ks"
      using group_of_nonempty by metis
    then show ?thesis using that(2) same_alternatives [of c d] by simp
  qed
  show ?case
  proof (cases "?group = []")
    case True
    then have "(alternatives c, sub) \<notin> set (sameKeys alternatives pairs)" for sub
      using True by (simp add: sameKeys_member)
    then have "List.find (\<lambda>child. c \<in> set (trie_keys child)) ?children = None"
      using only by (auto simp: find_None_iff)
    then show ?thesis
      using group_of_lookup [of c pairs cs] True by (subst addKeyLevel.simps) simp
  next
    case False
    then have member: "(alternatives c, ?group) \<in> set (sameKeys alternatives pairs)"
      by (simp add: sameKeys_member)
    have "List.find (\<lambda>child. c \<in> set (trie_keys child)) ?children = Some (addKeyLevel alternatives (alternatives c) ?group)"
    proof (rule find_unique [where f = trie_keys])
      have "map trie_keys ?children = map fst (sameKeys alternatives pairs)"
        by (simp add: comp_def split_beta)
      then show "distinct (map trie_keys ?children)" by (simp only: sameKeys_distinct)
      show "addKeyLevel alternatives (alternatives c) ?group \<in> set ?children"
        using member by force
      fix y
      assume "y \<in> set ?children"
      then obtain ks sub where "(ks, sub) \<in> set (sameKeys alternatives pairs)" "y = addKeyLevel alternatives ks sub"
        by auto
      then show "c \<in> set (trie_keys y) \<longleftrightarrow> trie_keys y = trie_keys (addKeyLevel alternatives (alternatives c) ?group)"
        using only same_alternatives [of c c] by auto
    qed
    then show ?thesis
      using group_of_lookup [of c pairs cs] Cons by (subst addKeyLevel.simps) simp
  qed
qed

lemma find_ImmutableTrie:
  "trie_find (ImmutableTrie alternatives values) key =
   map_of (rev (map (\<lambda>(key, v). (map alternatives key, v)) values)) (map alternatives key)"
  by (simp add: ImmutableTrie_def find_addKeyLevel)

end

interpretation single_key: key_alternatives GetSingleKey
  by unfold_locales (auto simp: GetSingleKey_def)

lemma ascii_case: "ascii_lower c = d \<or> ascii_upper c = d \<Longrightarrow> ascii_lower c = ascii_lower d \<and> ascii_upper c = ascii_upper d"
  by (auto simp: ascii_lower_def ascii_upper_def code_def)

lemma ascii_alternatives: "c \<in> set (GetAsciiUpperLowerKey d) \<longleftrightarrow> GetAsciiUpperLowerKey c = GetAsciiUpperLowerKey d"
proof
  assume "c \<in> set (GetAsciiUpperLowerKey d)"
  then have "ascii_lower d = c \<or> ascii_upper d = c" by (auto simp: GetAsciiUpperLowerKey_def)
  from ascii_case [OF this] show "GetAsciiUpperLowerKey c = GetAsciiUpperLowerKey d"
    by (simp add: GetAsciiUpperLowerKey_def)
next
  assume "GetAsciiUpperLowerKey c = GetAsciiUpperLowerKey d"
  moreover have "c = ascii_lower c \<or> c = ascii_upper c" by (simp add: ascii_lower_def ascii_upper_def)
  ultimately show "c \<in> set (GetAsciiUpperLowerKey d)" by (auto simp: GetAsciiUpperLowerKey_def)
qed

interpretation ascii_case_insensitive: key_alternatives GetAsciiUpperLowerKey
  by unfold_locales (rule ascii_alternatives)

text \<open>The array of nodes has exactly the nodes of the tree, so the allocation never runs out.\<close>

fun trie_nodes :: "('k, 'v) trie_node \<Rightarrow> nat" where
  "trie_nodes (TrieNode keys children val) = 1 + sum_list (map trie_nodes children)"

lemma fold_sum_pairs: "fold (\<lambda>(a, b) n. n + f a b) xs (n :: nat) = n + sum_list (map (\<lambda>(a, b). f a b) xs)"
  by (induction xs arbitrary: n) auto

lemma nodes_counted: "trie_nodes (addKeyLevel alternatives keys pairs) = countRequiredNumberedOfNodes alternatives pairs"
proof (induction alternatives keys pairs rule: addKeyLevel.induct)
  case (1 alternatives keys pairs)
  have "(\<Sum>p\<leftarrow>sameKeys alternatives pairs. trie_nodes (addKeyLevel alternatives (fst p) (snd p))) =
      (\<Sum>p\<leftarrow>sameKeys alternatives pairs. countRequiredNumberedOfNodes alternatives (snd p))"
    using 1 by (intro arg_cong [where f = sum_list] map_cong) auto
  then show ?case
    by (subst addKeyLevel.simps, subst countRequiredNumberedOfNodes.simps) (simp add: fold_sum_pairs, simp add: comp_def case_prod_unfold)
qed

end
