(* ===== verification/HttpHeaders.thy ===== *)
theory HttpHeaders
  imports HttpTrie
begin

section \<open>Verbs, status codes and header names\<close>

text \<open>
  Models the parts of \<^verbatim>\<open>src/src/LibHttp/HttpConstants.h\<close> and \<^verbatim>\<open>private/HttpConstants.cpp\<close> that the parser and the
  router use.
\<close>

datatype (plugins only: size) http_verb = VERB_UNKNOWN | GET | POST | PUT | PATCH | VERB_DELETE

type_synonym http_status = nat

definition Bad_Request :: http_status where "Bad_Request = 400"
definition Payload_Too_Large :: http_status where "Payload_Too_Large = 413"
definition Expectation_Failed :: http_status where "Expectation_Failed = 417"
definition Not_Implemented :: http_status where "Not_Implemented = 501"
definition HTTP_Version_Not_Supported :: http_status where "HTTP_Version_Not_Supported = 505"

text \<open>The headers, in the order of the enumeration.\<close>

type_synonym http_header = nat

definition Header_UnknownHeader :: http_header where "Header_UnknownHeader = 0"
definition Header_Accept :: http_header where "Header_Accept = 1"
definition Header_Accept_Charset :: http_header where "Header_Accept_Charset = 2"
definition Header_Accept_Encoding :: http_header where "Header_Accept_Encoding = 3"
definition Header_Accept_Language :: http_header where "Header_Accept_Language = 4"
definition Header_Accept_Ranges :: http_header where "Header_Accept_Ranges = 5"
definition Header_Age :: http_header where "Header_Age = 6"
definition Header_Allow :: http_header where "Header_Allow = 7"
definition Header_Authorization :: http_header where "Header_Authorization = 8"
definition Header_Cache_Control :: http_header where "Header_Cache_Control = 9"
definition Header_Connection :: http_header where "Header_Connection = 10"
definition Header_Content_Encoding :: http_header where "Header_Content_Encoding = 11"
definition Header_Content_Language :: http_header where "Header_Content_Language = 12"
definition Header_Content_Length :: http_header where "Header_Content_Length = 13"
definition Header_Content_Location :: http_header where "Header_Content_Location = 14"
definition Header_Content_MD5 :: http_header where "Header_Content_MD5 = 15"
definition Header_Content_Range :: http_header where "Header_Content_Range = 16"
definition Header_Content_Type :: http_header where "Header_Content_Type = 17"
definition Header_Cookie :: http_header where "Header_Cookie = 18"
definition Header_Date :: http_header where "Header_Date = 19"
definition Header_DNT :: http_header where "Header_DNT = 20"
definition Header_ETag :: http_header where "Header_ETag = 21"
definition Header_Expect :: http_header where "Header_Expect = 22"
definition Header_Expires :: http_header where "Header_Expires = 23"
definition Header_From :: http_header where "Header_From = 24"
definition Header_Front_End_Https :: http_header where "Header_Front_End_Https = 25"
definition Header_Host :: http_header where "Header_Host = 26"
definition Header_If_Match :: http_header where "Header_If_Match = 27"
definition Header_If_Modified_Since :: http_header where "Header_If_Modified_Since = 28"
definition Header_If_None_Match :: http_header where "Header_If_None_Match = 29"
definition Header_If_Range :: http_header where "Header_If_Range = 30"
definition Header_If_Unmodified_Since :: http_header where "Header_If_Unmodified_Since = 31"
definition Header_Last_Modified :: http_header where "Header_Last_Modified = 32"
definition Header_Location :: http_header where "Header_Location = 33"
definition Header_Max_Forwards :: http_header where "Header_Max_Forwards = 34"
definition Header_Origin :: http_header where "Header_Origin = 35"
definition Header_Pragma :: http_header where "Header_Pragma = 36"
definition Header_Proxy_Authenticate :: http_header where "Header_Proxy_Authenticate = 37"
definition Header_Proxy_Authorization :: http_header where "Header_Proxy_Authorization = 38"
definition Header_Proxy_Connection :: http_header where "Header_Proxy_Connection = 39"
definition Header_Range :: http_header where "Header_Range = 40"
definition Header_Referer :: http_header where "Header_Referer = 41"
definition Header_Retry_After :: http_header where "Header_Retry_After = 42"
definition Header_Server :: http_header where "Header_Server = 43"
definition Header_TE :: http_header where "Header_TE = 44"
definition Header_Trailer :: http_header where "Header_Trailer = 45"
definition Header_Transfer_Encoding :: http_header where "Header_Transfer_Encoding = 46"
definition Header_Upgrade :: http_header where "Header_Upgrade = 47"
definition Header_User_Agent :: http_header where "Header_User_Agent = 48"
definition Header_Vary :: http_header where "Header_Vary = 49"
definition Header_Via :: http_header where "Header_Via = 50"
definition Header_Warning :: http_header where "Header_Warning = 51"
definition Header_WWW_Authenticate :: http_header where "Header_WWW_Authenticate = 52"
definition Header_X_ATT_DeviceId :: http_header where "Header_X_ATT_DeviceId = 53"
definition Header_X_Correlation_ID :: http_header where "Header_X_Correlation_ID = 54"
definition Header_X_Csrf_Token :: http_header where "Header_X_Csrf_Token = 55"
definition Header_X_Double_Submit :: http_header where "Header_X_Double_Submit = 56"
definition Header_X_Forwarded_For :: http_header where "Header_X_Forwarded_For = 57"
definition Header_X_Forwarded_Host :: http_header where "Header_X_Forwarded_Host = 58"
definition Header_X_Forwarded_Proto :: http_header where "Header_X_Forwarded_Proto = 59"
definition Header_X_Http_Method_Override :: http_header where "Header_X_Http_Method_Override = 60"
definition Header_X_Request_ID :: http_header where "Header_X_Request_ID = 61"
definition Header_X_Requested_With :: http_header where "Header_X_Requested_With = 62"
definition Header_X_UIDH :: http_header where "Header_X_UIDH = 63"
definition Header_X_Wap_Profile :: http_header where "Header_X_Wap_Profile = 64"
definition Header_HTTP_HEADERS_COUNT :: http_header where "Header_HTTP_HEADERS_COUNT = 65"

lemmas header_defs =
  Header_UnknownHeader_def Header_Accept_def Header_Accept_Charset_def Header_Accept_Encoding_def
  Header_Accept_Language_def Header_Accept_Ranges_def Header_Age_def Header_Allow_def
  Header_Authorization_def Header_Cache_Control_def Header_Connection_def
  Header_Content_Encoding_def Header_Content_Language_def Header_Content_Length_def
  Header_Content_Location_def Header_Content_MD5_def Header_Content_Range_def
  Header_Content_Type_def Header_Cookie_def Header_Date_def Header_DNT_def Header_ETag_def
  Header_Expect_def Header_Expires_def Header_From_def Header_Front_End_Https_def Header_Host_def
  Header_If_Match_def Header_If_Modified_Since_def Header_If_None_Match_def Header_If_Range_def
  Header_If_Unmodified_Since_def Header_Last_Modified_def Header_Location_def
  Header_Max_Forwards_def Header_Origin_def Header_Pragma_def Header_Proxy_Authenticate_def
  Header_Proxy_Authorization_def Header_Proxy_Connection_def Header_Range_def Header_Referer_def
  Header_Retry_After_def Header_Server_def Header_TE_def Header_Trailer_def
  Header_Transfer_Encoding_def Header_Upgrade_def Header_User_Agent_def Header_Vary_def
  Header_Via_def Header_Warning_def Header_WWW_Authenticate_def Header_X_ATT_DeviceId_def
  Header_X_Correlation_ID_def Header_X_Csrf_Token_def Header_X_Double_Submit_def
  Header_X_Forwarded_For_def Header_X_Forwarded_Host_def Header_X_Forwarded_Proto_def
  Header_X_Http_Method_Override_def Header_X_Request_ID_def Header_X_Requested_With_def
  Header_X_UIDH_def Header_X_Wap_Profile_def Header_HTTP_HEADERS_COUNT_def

definition httpHeaders_values :: "(string \<times> http_header) list" where
  "httpHeaders_values =
    [(''accept-charset'', Header_Accept_Charset),
     (''accept-encoding'', Header_Accept_Encoding),
     (''accept-language'', Header_Accept_Language),
     (''accept-ranges'', Header_Accept_Ranges),
     (''accept'', Header_Accept),
     (''age'', Header_Age),
     (''allow'', Header_Allow),
     (''authorization'', Header_Authorization),
     (''cache-control'', Header_Cache_Control),
     (''connection'', Header_Connection),
     (''content-encoding'', Header_Content_Encoding),
     (''content-language'', Header_Content_Language),
     (''content-length'', Header_Content_Length),
     (''content-location'', Header_Content_Location),
     (''content-md5'', Header_Content_MD5),
     (''content-range'', Header_Content_Range),
     (''content-type'', Header_Content_Type),
     (''cookie'', Header_Cookie),
     (''date'', Header_Date),
     (''dnt'', Header_DNT),
     (''etag'', Header_ETag),
     (''expect'', Header_Expect),
     (''expiresS'', Header_Expires),
     (''from'', Header_From),
     (''front-end-https'', Header_Front_End_Https),
     (''host'', Header_Host),
     (''if-match'', Header_If_Match),
     (''if-modified-since'', Header_If_Modified_Since),
     (''if-none-match'', Header_If_None_Match),
     (''if-range'', Header_If_Range),
     (''if-unmodified-since'', Header_If_Unmodified_Since),
     (''last-modified'', Header_Last_Modified),
     (''location'', Header_Location),
     (''max-forwards'', Header_Max_Forwards),
     (''origin'', Header_Origin),
     (''pragma'', Header_Pragma),
     (''proxy-authenticate'', Header_Proxy_Authenticate),
     (''proxy-authorization'', Header_Proxy_Authorization),
     (''proxy-connection'', Header_Proxy_Connection),
     (''range'', Header_Range),
     (''referer'', Header_Referer),
     (''retry-after'', Header_Retry_After),
     (''server'', Header_Server),
     (''te'', Header_TE),
     (''trailer'', Header_Trailer),
     (''transfer-encoding'', Header_Transfer_Encoding),
     (''upgrade'', Header_Upgrade),
     (''user-agent'', Header_User_Agent),
     (''vary'', Header_Vary),
     (''via'', Header_Via),
     (''warning'', Header_Warning),
     (''www-authenticate'', Header_WWW_Authenticate),
     (''x-att-deviceid'', Header_X_ATT_DeviceId),
     (''x-correlation-id'', Header_X_Correlation_ID),
     (''x-csrf-token'', Header_X_Csrf_Token),
     (''x-double-submit'', Header_X_Double_Submit),
     (''x-forwarded-for'', Header_X_Forwarded_For),
     (''x-forwarded-host'', Header_X_Forwarded_Host),
     (''x-forwarded-proto'', Header_X_Forwarded_Proto),
     (''x-http-method-override'', Header_X_Http_Method_Override),
     (''x-request-id'', Header_X_Request_ID),
     (''x-requested-with'', Header_X_Requested_With),
     (''x-uidh'', Header_X_UIDH),
     (''x-wap-profile'', Header_X_Wap_Profile)]"

definition httpHeaders :: "(char, http_header) trie_node" where
  "httpHeaders = ImmutableTrie GetAsciiUpperLowerKey httpHeaders_values"

definition matchHttpHeader :: "string \<Rightarrow> http_header" where
  "matchHttpHeader header =
     (case trie_find httpHeaders header of Some r \<Rightarrow> r | None \<Rightarrow> Header_UnknownHeader)"

subsection \<open>Lemmas\<close>

lemma matchHttpHeader_map_of:
  "matchHttpHeader header =
    (case map_of (rev (map (\<lambda>(key, v). (map GetAsciiUpperLowerKey key, v)) httpHeaders_values)) (map GetAsciiUpperLowerKey header) of
       Some r \<Rightarrow> r | None \<Rightarrow> Header_UnknownHeader)"
  by (simp add: matchHttpHeader_def httpHeaders_def ascii_case_insensitive.find_ImmutableTrie)

lemma map_eq_finer:
  assumes "\<And>x y. f x = f y \<Longrightarrow> g x = g y" "map f xs = map f ys"
  shows "map g xs = map g ys"
  using assms(2)
proof (induction xs arbitrary: ys)
  case (Cons x xs)
  then obtain y ys' where "ys = y # ys'" "f x = f y" "map f xs = map f ys'" by auto
  then show ?case using Cons.IH [of ys'] assms(1) [of x y] by simp
qed simp

lemma matchHttpHeader_case:
  assumes "map ascii_lower header = map ascii_lower header'"
  shows "matchHttpHeader header = matchHttpHeader header'"
proof -
  have key: "GetAsciiUpperLowerKey c = GetAsciiUpperLowerKey d" if "ascii_lower c = ascii_lower d" for c d
    using that ascii_case [of d "ascii_lower d"] ascii_case [of c "ascii_lower c"] by (simp add: GetAsciiUpperLowerKey_def)
  have "map GetAsciiUpperLowerKey header = map GetAsciiUpperLowerKey header'"
    using key assms by (rule map_eq_finer)
  then show ?thesis by (simp add: matchHttpHeader_map_of)
qed

end
