(* ===== verification/HttpParser.thy ===== *)
theory HttpParser
  imports HttpHeaders
begin

section \<open>The parser of requests\<close>

text \<open>
  Models \<^verbatim>\<open>src/src/LibHttp/private/HttpParser.cpp\<close>, \<^verbatim>\<open>HttpParser.h\<close> and \<^verbatim>\<open>HttpRequest.h\<close>. The header buffer is the
  list of the bytes written so far, so \<open>headerSize_\<close> is its length; a pointer into it is an offset and a
  view an offset with a length, the null view being \<open>(0, 0)\<close>. \<open>None\<close> stands for a write outside the arrays
  of query pairs and cookies, or a read outside the written part of the header buffer. The conversion of
  \<^verbatim>\<open>boost::conversion::try_lexical_convert\<close> is the parameter \<open>lexical\<close>.
\<close>

primrec fold_option :: "('a \<Rightarrow> 's \<Rightarrow> 's option) \<Rightarrow> 'a list \<Rightarrow> 's \<Rightarrow> 's option" where
  "fold_option f [] s = Some s"
| "fold_option f (x # xs) s = (case f x s of None \<Rightarrow> None | Some s' \<Rightarrow> fold_option f xs s')"

subsection \<open>Requests\<close>

type_synonym http_view = "nat \<times> nat"

definition view_string :: "string \<Rightarrow> http_view \<Rightarrow> string" where
  "view_string buffer v = take (snd v) (drop (fst v) buffer)"

definition MaxQueryPairs :: nat where "MaxQueryPairs = 64"
definition MaxCookies :: nat where "MaxCookies = 32"

record http_request =
  req_verb :: http_verb
  req_path :: http_view
  versionMajor :: nat
  versionMinor :: nat
  keepConnectionAlive :: bool
  req_headers :: "http_header \<Rightarrow> http_view"
  queryPairs :: "(http_view \<times> http_view) list"
  req_cookies :: "(http_view \<times> http_view) list"

definition HttpRequest :: http_request where
  "HttpRequest = \<lparr>req_verb = VERB_UNKNOWN, req_path = (0, 0), versionMajor = 1, versionMinor = 0,
     keepConnectionAlive = False, req_headers = (\<lambda>_. (0, 0)), queryPairs = [], req_cookies = []\<rparr>"

definition getCookie :: "string \<Rightarrow> http_request \<Rightarrow> string \<Rightarrow> string" where
  "getCookie buffer request searchName =
     (case find (\<lambda>(name, v). view_string buffer name = searchName) (req_cookies request) of
        Some (name, v) \<Rightarrow> view_string buffer v
      | None \<Rightarrow> [])"

definition parseHttpVerb :: "string \<Rightarrow> http_verb" where
  "parseHttpVerb buffer =
     (if length buffer = 3 then
        (if matchStringUpperOrLowerSameSize buffer ''getGET'' then GET
         else if matchStringUpperOrLowerSameSize buffer ''putPUT'' then PUT else VERB_UNKNOWN)
      else if length buffer = 4 then
        (if matchStringUpperOrLowerSameSize buffer ''postPOST'' then POST else VERB_UNKNOWN)
      else if length buffer = 5 then
        (if matchStringUpperOrLowerSameSize buffer ''patchPATCH'' then PATCH else VERB_UNKNOWN)
      else if length buffer = 6 then
        (if matchStringUpperOrLowerSameSize buffer ''deleteDELETE'' then VERB_DELETE else VERB_UNKNOWN)
      else VERB_UNKNOWN)"

text \<open>The view of a decoded region; an empty region gives the null view.\<close>

definition viewAfterDecodingUrlEncodingInPlace :: "nat \<Rightarrow> nat \<Rightarrow> string \<Rightarrow> http_view \<times> string" where
  "viewAfterDecodingUrlEncodingInPlace start n buffer =
     (let (m, buffer') = decodeUrlEncodingInPlace start n buffer in ((start, m), buffer'))"

definition decoded_region :: "nat \<Rightarrow> nat \<Rightarrow> nat \<Rightarrow> string \<Rightarrow> http_view \<times> string" where
  "decoded_region base start end buffer =
     (if end > start then viewAfterDecodingUrlEncodingInPlace (base + start) (end - start) buffer else ((0, 0), buffer))"

subsection \<open>The path and its query\<close>

record path_scan =
  scan_state :: nat
  keyStart :: nat
  keyEnd :: nat
  valueStart :: nat
  scan_request :: http_request
  scan_buffer :: string

definition addQueryPair :: "http_view \<Rightarrow> http_view \<Rightarrow> http_request \<Rightarrow> http_request option" where
  "addQueryPair key val request =
     (if length (queryPairs request) < MaxQueryPairs
      then Some (request\<lparr>queryPairs := queryPairs request @ [(key, val)]\<rparr>) else None)"

definition interpretPathString_step :: "nat \<Rightarrow> nat \<Rightarrow> nat \<Rightarrow> path_scan \<Rightarrow> path_scan option" where
  "interpretPathString_step pathStart n i s =
     (let c = scan_buffer s ! (pathStart + i) in
      if scan_state s = 0 then
        (if c = CHR ''?'' \<or> i + 1 = n
         then (let (view, buffer) = viewAfterDecodingUrlEncodingInPlace pathStart i (scan_buffer s)
               in Some (s\<lparr>scan_request := (scan_request s)\<lparr>req_path := view\<rparr>, scan_buffer := buffer, scan_state := 1,
                          keyStart := i + 1, keyEnd := i + 1\<rparr>))
         else Some s)
      else if scan_state s = 1 then
        (if c = CHR ''='' then Some (s\<lparr>keyEnd := i, scan_state := 2, valueStart := i + 1\<rparr>) else Some s)
      else
        (if c = CHR ''&'' \<or> i + 1 = n
         then (let (key, buffer) = decoded_region pathStart (keyStart s) (keyEnd s) (scan_buffer s);
                   (val, buffer') = decoded_region pathStart (valueStart s) i buffer
               in case addQueryPair key val (scan_request s) of
                    None \<Rightarrow> None
                  | Some request \<Rightarrow> Some (s\<lparr>scan_request := request, scan_buffer := buffer',
                                             keyStart := i + 1, keyEnd := i + 1, scan_state := 1\<rparr>))
         else Some s))"

definition interpretPathString :: "nat \<Rightarrow> string \<Rightarrow> http_request \<Rightarrow> (http_request \<times> string) option" where
  "interpretPathString pathStart buffer request =
     (let n = snd (req_path request) in
      case fold_option (interpretPathString_step pathStart n) [0..<n]
             \<lparr>scan_state = 0, keyStart = 0, keyEnd = 0, valueStart = 0, scan_request = request, scan_buffer = buffer\<rparr> of
        None \<Rightarrow> None
      | Some s \<Rightarrow> Some (scan_request s, scan_buffer s))"

definition trimLeadingChar_view :: "char \<Rightarrow> string \<Rightarrow> http_view \<Rightarrow> http_view" where
  "trimLeadingChar_view toTrim buffer v =
     (let toRemove = length (takeWhile (\<lambda>c. c = toTrim) (view_string buffer v))
      in (fst v + toRemove, snd v - toRemove))"

subsection \<open>Cookies\<close>

text \<open>The loops that drop spaces; indices are relative to the start of the header value.\<close>

function skipSpaces :: "string \<Rightarrow> nat \<Rightarrow> nat option" where
  "skipSpaces buffer pos =
     (if pos < length buffer then (if buffer ! pos = CHR '' '' then skipSpaces buffer (pos + 1) else Some pos) else None)"
  by pat_completeness auto
termination by (relation "measure (\<lambda>(buffer, pos). length buffer - pos)") auto

declare skipSpaces.simps [simp del]

primrec dropSpaces :: "string \<Rightarrow> nat \<Rightarrow> nat \<Rightarrow> nat option" where
  "dropSpaces buffer start 0 =
     (if 0 < start \<and> start \<le> length buffer \<and> buffer ! (start - 1) \<noteq> CHR '' '' then Some 0 else None)"
| "dropSpaces buffer start (Suc end) =
     (if start + end < length buffer
      then (if buffer ! (start + end) = CHR '' '' then dropSpaces buffer start end else Some (Suc end)) else None)"

definition trimmed_region :: "string \<Rightarrow> nat \<Rightarrow> nat \<Rightarrow> nat \<Rightarrow> (nat \<times> nat) option" where
  "trimmed_region buffer start from to =
     (case skipSpaces buffer (start + from) of
        None \<Rightarrow> None
      | Some from' \<Rightarrow>
          (case dropSpaces buffer start to of None \<Rightarrow> None | Some to' \<Rightarrow> Some (from' - start, to')))"

definition addCookie :: "http_view \<Rightarrow> http_view \<Rightarrow> http_request \<Rightarrow> http_request option" where
  "addCookie name val request =
     (if length (req_cookies request) < MaxCookies
      then Some (request\<lparr>req_cookies := req_cookies request @ [(name, val)]\<rparr>) else None)"

record cookie_scan =
  cookie_state :: nat
  nameStart :: nat
  nameEnd :: nat
  cookieValueStart :: nat
  cookie_request :: http_request
  cookie_buffer :: string

definition finishCookie :: "nat \<Rightarrow> nat \<Rightarrow> nat \<Rightarrow> http_view \<Rightarrow> cookie_scan \<Rightarrow> cookie_scan option" where
  "finishCookie start i valueEnd name s =
     (case trimmed_region (cookie_buffer s) start (cookieValueStart s) valueEnd of
        None \<Rightarrow> None
      | Some (valueStart', valueEnd') \<Rightarrow>
          (let (val, buffer) = decoded_region start valueStart' valueEnd' (cookie_buffer s) in
           case addCookie name val (cookie_request s) of
             None \<Rightarrow> None
           | Some request \<Rightarrow> Some (s\<lparr>cookie_request := request, cookie_buffer := buffer, nameStart := i + 1, nameEnd := i + 1,
                                      cookieValueStart := i + 1, cookie_state := 0\<rparr>)))"

definition interpretCookies_step :: "nat \<Rightarrow> nat \<Rightarrow> nat \<Rightarrow> cookie_scan \<Rightarrow> cookie_scan option" where
  "interpretCookies_step start n i s =
     (let c = cookie_buffer s ! (start + i);
          valueEnd = (if i + 1 = n then i + 1 else i) in
      if cookie_state s = 0 then
        (if c = CHR ''='' then Some (s\<lparr>nameEnd := i, cookie_state := 1, cookieValueStart := i + 1\<rparr>)
         else if c = CHR '';'' \<or> i + 1 = n then finishCookie start i valueEnd (0, 0) s
         else Some s)
      else
        (if c = CHR '';'' \<or> i + 1 = n
         then (case trimmed_region (cookie_buffer s) start (nameStart s) (nameEnd s) of
                 None \<Rightarrow> None
               | Some (nameStart', nameEnd') \<Rightarrow>
                   (case trimmed_region (cookie_buffer s) start (cookieValueStart s) valueEnd of
                      None \<Rightarrow> None
                    | Some (valueStart', valueEnd') \<Rightarrow>
                        (let (name, buffer) = decoded_region start nameStart' nameEnd' (cookie_buffer s);
                             (val, buffer') = decoded_region start valueStart' valueEnd' buffer in
                         case addCookie name val (cookie_request s) of
                           None \<Rightarrow> None
                         | Some request \<Rightarrow> Some (s\<lparr>cookie_request := request, cookie_buffer := buffer', nameStart := i + 1,
                                                    nameEnd := i + 1, cookieValueStart := i + 1, cookie_state := 0\<rparr>))))
         else Some s))"

definition interpretCookies :: "http_view \<Rightarrow> string \<Rightarrow> http_request \<Rightarrow> (http_request \<times> string) option" where
  "interpretCookies v buffer request =
     (case fold_option (interpretCookies_step (fst v) (snd v)) [0..<snd v]
             \<lparr>cookie_state = 0, nameStart = 0, nameEnd = 0, cookieValueStart = 0, cookie_request = request,
              cookie_buffer = buffer\<rparr> of
        None \<Rightarrow> None
      | Some s \<Rightarrow> Some (cookie_request s, cookie_buffer s))"

subsection \<open>The parser\<close>

datatype (plugins only: size) parser_fn =
  parseVerb_state | parsePath_state | parseVersion_state | parseNewLine_state | parseHeaderName_state
| parseHeaderSpacing_state | parseHeaderValue_state | parseBody_state

datatype parse_result = INVALID_INPUT | ONGOING | FINISHED

record 'b http_parser =
  headerBuffer :: string
  headerBufferSize :: nat
  pushBodyBytes :: "string \<Rightarrow> 'b \<Rightarrow> bool \<times> 'b"
  pushBodyBytesState :: 'b
  request :: http_request
  valid :: bool
  finished :: bool
  errorCode :: http_status
  currentParser :: parser_fn
  parsePathStartsAt :: nat
  parseVersionStartsAt :: nat
  parseHeaderNameStartsAt :: nat
  parseCurrentHeaderName :: http_view
  parseHeaderValueStartsAt :: nat
  parseCurrentHeaderValue :: http_view
  expectedContentLength :: nat
  maxContentLength :: nat
  requestBodyBytesProcessed :: nat

definition Parser :: "nat \<Rightarrow> nat \<Rightarrow> (string \<Rightarrow> 'b \<Rightarrow> bool \<times> 'b) \<Rightarrow> 'b \<Rightarrow> 'b http_parser" where
  "Parser bufferSize maxLength push body =
     \<lparr>headerBuffer = [], headerBufferSize = bufferSize, pushBodyBytes = push, pushBodyBytesState = body, request = HttpRequest,
      valid = True, finished = False, errorCode = Bad_Request, currentParser = parseVerb_state, parsePathStartsAt = 0,
      parseVersionStartsAt = 0, parseHeaderNameStartsAt = 0, parseCurrentHeaderName = (0, 0),
      parseHeaderValueStartsAt = 0, parseCurrentHeaderValue = (0, 0), expectedContentLength = 0,
      maxContentLength = maxLength, requestBodyBytesProcessed = 0\<rparr>"

definition reset :: "'b http_parser \<Rightarrow> 'b http_parser" where
  "reset p = p\<lparr>headerBuffer := [], request := HttpRequest, valid := True, finished := False, errorCode := Bad_Request,
      currentParser := parseVerb_state, parsePathStartsAt := 0, parseVersionStartsAt := 0, parseHeaderNameStartsAt := 0,
      parseCurrentHeaderName := (0, 0), parseHeaderValueStartsAt := 0, parseCurrentHeaderValue := (0, 0),
      expectedContentLength := 0, requestBodyBytesProcessed := 0\<rparr>"

definition parseResult :: "'b http_parser \<Rightarrow> parse_result" where
  "parseResult p = (if valid p then (if finished p then FINISHED else ONGOING) else INVALID_INPUT)"

definition invalid :: "http_status \<Rightarrow> 'b http_parser \<Rightarrow> 'b http_parser" where
  "invalid status p = p\<lparr>valid := False, errorCode := status\<rparr>"

text \<open>The result of \<open>copyUntil\<close>: found, out of input, or no room for the next byte.\<close>

datatype copy_result = Reached | InputEnded | NoRoom

fun copyUntil :: "char \<Rightarrow> nat \<Rightarrow> string \<Rightarrow> string \<Rightarrow> copy_result \<times> string \<times> string" where
  "copyUntil toSearch capacity header [] = (InputEnded, header, [])"
| "copyUntil toSearch capacity header (c # buffer) =
     (if length header \<ge> capacity then (NoRoom, header, c # buffer)
      else if c = toSearch then (Reached, header @ [c], buffer)
      else copyUntil toSearch capacity (header @ [c]) buffer)"

text \<open>Copies up to a byte, then goes on with \<open>k\<close> when it was found.\<close>

definition copying ::
  "char \<Rightarrow> ('b http_parser \<Rightarrow> 'b http_parser option) \<Rightarrow> 'b http_parser \<Rightarrow> string \<Rightarrow> ('b http_parser \<times> string) option" where
  "copying toSearch k p buffer =
     (case copyUntil toSearch (headerBufferSize p) (headerBuffer p) buffer of
        (Reached, header, rest) \<Rightarrow>
          (case k (p\<lparr>headerBuffer := header\<rparr>) of None \<Rightarrow> None | Some p' \<Rightarrow> Some (p', rest))
      | (InputEnded, header, rest) \<Rightarrow> Some (p\<lparr>headerBuffer := header\<rparr>, rest)
      | (NoRoom, header, rest) \<Rightarrow> Some (invalid Payload_Too_Large (p\<lparr>headerBuffer := header\<rparr>), rest))"

definition finishVerb :: "'b http_parser \<Rightarrow> 'b http_parser option" where
  "finishVerb p =
     (let verb = parseHttpVerb (take (length (headerBuffer p) - 1) (headerBuffer p));
          p = p\<lparr>request := (request p)\<lparr>req_verb := verb\<rparr>\<rparr> in
      if verb = VERB_UNKNOWN then Some (p\<lparr>valid := False\<rparr>)
      else Some (p\<lparr>currentParser := parsePath_state, parsePathStartsAt := length (headerBuffer p)\<rparr>))"

definition finishPath :: "'b http_parser \<Rightarrow> 'b http_parser option" where
  "finishPath p =
     (let size = length (headerBuffer p) - parsePathStartsAt p in
      case interpretPathString (parsePathStartsAt p) (headerBuffer p) ((request p)\<lparr>req_path := (parsePathStartsAt p, size)\<rparr>) of
        None \<Rightarrow> None
      | Some (req, buffer) \<Rightarrow>
          Some (p\<lparr>request := req\<lparr>req_path := trimLeadingChar_view CHR ''/'' buffer (req_path req)\<rparr>, headerBuffer := buffer,
                  currentParser := parseVersion_state, parseVersionStartsAt := length buffer\<rparr>))"

definition finishVersion :: "'b http_parser \<Rightarrow> 'b http_parser option" where
  "finishVersion p =
     (let start = parseVersionStartsAt p; versionSize = length (headerBuffer p) - 1 - start in
      if versionSize \<noteq> 8 then Some (invalid HTTP_Version_Not_Supported p)
      else if headerBuffer p ! (start + 5) \<noteq> CHR ''1'' then Some (invalid HTTP_Version_Not_Supported p)
      else
        (let p = p\<lparr>request := (request p)\<lparr>versionMajor := 1\<rparr>\<rparr> in
         if headerBuffer p ! (start + 7) = CHR ''0''
         then Some (p\<lparr>request := (request p)\<lparr>versionMinor := 0\<rparr>, currentParser := parseNewLine_state\<rparr>)
         else if headerBuffer p ! (start + 7) = CHR ''1''
         then Some (p\<lparr>request := (request p)\<lparr>versionMinor := 1\<rparr>, currentParser := parseNewLine_state\<rparr>)
         else Some (invalid HTTP_Version_Not_Supported p)))"

definition header_string :: "'b http_parser \<Rightarrow> http_header \<Rightarrow> string" where
  "header_string p header = view_string (headerBuffer p) (req_headers (request p) header)"

definition interpretImportantHeaders :: "(string \<Rightarrow> nat option) \<Rightarrow> 'b http_parser \<Rightarrow> 'b http_parser option" where
  "interpretImportantHeaders lexical p =
     (let p = p\<lparr>expectedContentLength := (case lexical (header_string p Header_Content_Length) of Some n \<Rightarrow> n | None \<Rightarrow> 0)\<rparr>;
          p = p\<lparr>request := (request p)\<lparr>keepConnectionAlive :=
                  matchStringUpperOrLower (header_string p Header_Connection) ''keep-aliveKEEP-ALIVE''\<rparr>\<rparr>;
          p = (if header_string p Header_Expect \<noteq> [] then invalid Expectation_Failed p else p) in
      case interpretCookies (req_headers (request p) Header_Cookie) (headerBuffer p) (request p) of
        None \<Rightarrow> None
      | Some (req, buffer) \<Rightarrow> Some (p\<lparr>request := req, headerBuffer := buffer\<rparr>))"

definition endOfHeaders :: "(string \<Rightarrow> nat option) \<Rightarrow> 'b http_parser \<Rightarrow> 'b http_parser option" where
  "endOfHeaders lexical p =
     (case interpretImportantHeaders lexical p of
        None \<Rightarrow> None
      | Some p \<Rightarrow>
          if req_verb (request p) = GET \<or> req_verb (request p) = VERB_DELETE \<or> expectedContentLength p < 1
          then Some (p\<lparr>finished := True\<rparr>)
          else if header_string p Header_Transfer_Encoding \<noteq> [] \<or> header_string p Header_Content_Encoding \<noteq> []
          then Some (invalid Not_Implemented p)
          else Some (p\<lparr>currentParser := parseBody_state\<rparr>))"

definition parseNewLine :: "(string \<Rightarrow> nat option) \<Rightarrow> 'b http_parser \<Rightarrow> string \<Rightarrow> ('b http_parser \<times> string) option" where
  "parseNewLine lexical p buffer =
     (case buffer of
        [] \<Rightarrow> Some (p, [])
      | c # rest \<Rightarrow>
          (let header = headerBuffer p; n = length header in
           if c \<noteq> CHR 0x0A \<or> n \<ge> headerBufferSize p \<or> n < 1 \<or> header ! (n - 1) \<noteq> CHR 0x0D
           then Some (invalid Payload_Too_Large p, buffer)
           else
             (let header = header @ [CHR 0x0A]; n = n + 1; p = p\<lparr>headerBuffer := header\<rparr> in
              if n > 4 \<and> header ! (n - 3) = CHR 0x0A \<and> header ! (n - 4) = CHR 0x0D
              then (case endOfHeaders lexical p of None \<Rightarrow> None | Some p' \<Rightarrow> Some (p', rest))
              else Some (p\<lparr>currentParser := parseHeaderName_state, parseHeaderNameStartsAt := n\<rparr>, rest))))"

definition finishHeaderName :: "'b http_parser \<Rightarrow> 'b http_parser option" where
  "finishHeaderName p =
     Some (p\<lparr>parseCurrentHeaderName := (parseHeaderNameStartsAt p, length (headerBuffer p) - 1 - parseHeaderNameStartsAt p),
             currentParser := parseHeaderSpacing_state\<rparr>)"

definition parseHeaderName :: "'b http_parser \<Rightarrow> string \<Rightarrow> ('b http_parser \<times> string) option" where
  "parseHeaderName p buffer =
     (case buffer of
        [] \<Rightarrow> copying CHR '':'' finishHeaderName p buffer
      | c # rest \<Rightarrow>
          if c = CHR 0x0D
          then (if length (headerBuffer p) \<ge> headerBufferSize p then Some (invalid Payload_Too_Large p, buffer)
                else Some (p\<lparr>headerBuffer := headerBuffer p @ [CHR 0x0D], currentParser := parseNewLine_state\<rparr>, rest))
          else copying CHR '':'' finishHeaderName p buffer)"

definition parseHeaderSpacing :: "'b http_parser \<Rightarrow> string \<Rightarrow> ('b http_parser \<times> string) option" where
  "parseHeaderSpacing p buffer =
     (let rest = dropWhile (\<lambda>c. c = CHR '' '') buffer in
      if rest = [] then Some (p, [])
      else Some (p\<lparr>currentParser := parseHeaderValue_state, parseHeaderValueStartsAt := length (headerBuffer p)\<rparr>, rest))"

definition finishHeaderValue :: "'b http_parser \<Rightarrow> 'b http_parser option" where
  "finishHeaderValue p =
     (let val = (parseHeaderValueStartsAt p, length (headerBuffer p) - 1 - parseHeaderValueStartsAt p);
          p = p\<lparr>parseCurrentHeaderValue := val, currentParser := parseNewLine_state\<rparr>;
          currentHeader = matchHttpHeader (view_string (headerBuffer p) (parseCurrentHeaderName p)) in
      if currentHeader \<noteq> Header_UnknownHeader
      then Some (p\<lparr>request := (request p)\<lparr>req_headers := (req_headers (request p))(currentHeader := val)\<rparr>\<rparr>)
      else Some p)"

text \<open>The body takes all the bytes it is given, also those after the announced length.\<close>

definition parseBody :: "'b http_parser \<Rightarrow> string \<Rightarrow> ('b http_parser \<times> string) option" where
  "parseBody p buffer =
     (if expectedContentLength p > maxContentLength p then Some (invalid Payload_Too_Large p, buffer)
      else
        (let (room, body) = pushBodyBytes p buffer (pushBodyBytesState p);
             p = p\<lparr>pushBodyBytesState := body\<rparr>;
             p = (if \<not> room then invalid Payload_Too_Large p else p);
             p = p\<lparr>requestBodyBytesProcessed := requestBodyBytesProcessed p + length buffer\<rparr> in
         if requestBodyBytesProcessed p \<ge> expectedContentLength p then Some (p\<lparr>finished := True\<rparr>, []) else Some (p, [])))"

definition parse_step :: "(string \<Rightarrow> nat option) \<Rightarrow> 'b http_parser \<Rightarrow> string \<Rightarrow> ('b http_parser \<times> string) option" where
  "parse_step lexical p buffer =
     (case currentParser p of
        parseVerb_state \<Rightarrow> copying CHR '' '' finishVerb p buffer
      | parsePath_state \<Rightarrow> copying CHR '' '' finishPath p buffer
      | parseVersion_state \<Rightarrow> copying CHR 0x0D finishVersion p buffer
      | parseNewLine_state \<Rightarrow> parseNewLine lexical p buffer
      | parseHeaderName_state \<Rightarrow> parseHeaderName p buffer
      | parseHeaderSpacing_state \<Rightarrow> parseHeaderSpacing p buffer
      | parseHeaderValue_state \<Rightarrow> copying CHR 0x0D finishHeaderValue p buffer
      | parseBody_state \<Rightarrow> parseBody p buffer)"

subsection \<open>Processing a chunk of input\<close>

definition parser_measure :: "'b http_parser \<Rightarrow> string \<Rightarrow> nat" where
  "parser_measure p buffer =
     (if valid p \<and> \<not> finished p
      then 2 * length buffer + (if currentParser p = parseHeaderSpacing_state then 1 else 0) else 0)"

lemma copyUntil_split:
  assumes "copyUntil c capacity header buffer = (r, header', rest)"
  obtains copied where "header' = header @ copied" "buffer = copied @ rest" "r = InputEnded \<Longrightarrow> rest = []"
    "r = Reached \<Longrightarrow> \<exists>xs. copied = xs @ [c]" "r = NoRoom \<Longrightarrow> rest \<noteq> [] \<and> length header' \<ge> capacity"
  using assms
proof (induction c capacity header buffer arbitrary: thesis rule: copyUntil.induct)
  case (1 c capacity header)
  then show ?case by simp
next
  case (2 c capacity header x buffer)
  show ?case
  proof (cases "length header \<ge> capacity \<or> x = c")
    case True
    then show ?thesis using 2(2) [of "if length header \<ge> capacity then [] else [x]"] 2(3) by (auto split: if_splits)
  next
    case False
    show ?thesis
    proof (rule 2(1))
      show "\<not> capacity \<le> length header" "x \<noteq> c" using False by auto
      show "copyUntil c capacity (header @ [x]) buffer = (r, header', rest)" using 2(3) False by simp
      fix copied assume "header' = (header @ [x]) @ copied" "buffer = copied @ rest" "r = InputEnded \<Longrightarrow> rest = []"
        "r = Reached \<Longrightarrow> \<exists>xs. copied = xs @ [c]" "r = NoRoom \<Longrightarrow> rest \<noteq> [] \<and> length header' \<ge> capacity"
      then show thesis using 2(2) [of "x # copied"] by auto (metis append_Cons)
    qed
  qed
qed

lemma copyUntil_reached_consumes:
  assumes "copyUntil c capacity header buffer = (Reached, header', rest)"
  shows "length rest < length buffer"
  using assms by (elim copyUntil_split) auto

lemma copying_progress:
  assumes "copying c k p buffer = Some (p', rest)" "valid p" "\<not> finished p" "buffer \<noteq> []"
  shows "parser_measure p' rest < parser_measure p buffer"
proof -
  obtain r header rest' where copy: "copyUntil c (headerBufferSize p) (headerBuffer p) buffer = (r, header, rest')"
    by (cases "copyUntil c (headerBufferSize p) (headerBuffer p) buffer") auto
  show ?thesis
  proof (cases r)
    case Reached
    then have "length rest' < length buffer" using copyUntil_reached_consumes copy by blast
    then show ?thesis using assms copy Reached by (auto simp: copying_def parser_measure_def split: option.splits)
  next
    case InputEnded
    then have "rest' = []" using copy by (elim copyUntil_split) auto
    then show ?thesis using assms copy InputEnded by (auto simp: copying_def parser_measure_def)
  next
    case NoRoom
    then show ?thesis using assms copy by (auto simp: copying_def parser_measure_def invalid_def)
  qed
qed

lemma parse_step_progress:
  assumes "parse_step lexical p buffer = Some (p', rest)" "valid p" "\<not> finished p" "buffer \<noteq> []"
  shows "parser_measure p' rest < parser_measure p buffer"
proof (cases "currentParser p")
  case parseNewLine_state
  then show ?thesis using assms
    by (auto simp: parse_step_def parseNewLine_def parser_measure_def invalid_def Let_def split: list.splits if_splits option.splits)
next
  case parseHeaderName_state
  then show ?thesis using assms copying_progress [of _ _ p buffer p' rest]
    by (cases buffer) (auto simp: parse_step_def parseHeaderName_def parser_measure_def invalid_def split: if_splits)
next
  case parseHeaderSpacing_state
  moreover have "length (dropWhile (\<lambda>c. c = CHR '' '') buffer) \<le> length buffer" by (rule length_dropWhile_le)
  ultimately show ?thesis using assms
    by (auto simp: parse_step_def parseHeaderSpacing_def parser_measure_def Let_def split: if_splits)
next
  case parseBody_state
  then show ?thesis using assms
    by (auto simp: parse_step_def parseBody_def parser_measure_def invalid_def Let_def split: prod.splits if_splits)
qed (use assms copying_progress [of _ _ p buffer p' rest] in \<open>simp_all add: parse_step_def\<close>)

function process :: "(string \<Rightarrow> nat option) \<Rightarrow> 'b http_parser \<Rightarrow> string \<Rightarrow> 'b http_parser option" where
  "process lexical p buffer =
     (if buffer \<noteq> [] \<and> valid p \<and> \<not> finished p
      then (case parse_step lexical p buffer of None \<Rightarrow> None | Some (p', rest) \<Rightarrow> process lexical p' rest)
      else Some p)"
  by pat_completeness auto

termination process
  by (relation "measure (\<lambda>(lexical, p, buffer). parser_measure p buffer)") (auto intro: parse_step_progress)

declare process.simps [simp del]

text \<open>The reads of a connection, one after the other.\<close>

definition process_reads :: "(string \<Rightarrow> nat option) \<Rightarrow> string list \<Rightarrow> 'b http_parser \<Rightarrow> 'b http_parser option" where
  "process_reads lexical reads p = fold_option (\<lambda>buffer p. process lexical p buffer) reads p"

end
