(* ===== verification/HttpParserLemmas.thy ===== *)
theory HttpParserLemmas
  imports HttpParser
begin

section \<open>Invariants of the parser\<close>

text \<open>
  Whatever the input and however it is cut into chunks, every view of a request lies inside the header
  buffer; the loops over cookies stay inside the header value; and the parser writes outside its arrays
  of query pairs and cookies only for inputs with too many of them.
\<close>

subsection \<open>Regions of the header buffer\<close>

definition view_in :: "string \<Rightarrow> http_view \<Rightarrow> bool" where
  "view_in buffer v \<longleftrightarrow> fst v + snd v \<le> length buffer"

definition same_outside :: "nat \<Rightarrow> nat \<Rightarrow> string \<Rightarrow> string \<Rightarrow> bool" where
  "same_outside a b buffer buffer' \<longleftrightarrow>
     length buffer' = length buffer \<and> (\<forall>j. (j < a \<or> b \<le> j) \<and> j < length buffer \<longrightarrow> buffer' ! j = buffer ! j)"

definition header_view_ok :: "string \<Rightarrow> http_view \<Rightarrow> bool" where
  "header_view_ok buffer v \<longleftrightarrow> v = (0, 0) \<or>
     0 < fst v \<and> fst v + snd v < length buffer \<and> buffer ! (fst v - 1) \<noteq> CHR '' '' \<and> buffer ! (fst v + snd v) = CHR 0x0D"

lemma view_in_null [simp]: "view_in buffer (0, 0)"
  by (simp add: view_in_def)

lemma view_in_append [simp]: "view_in buffer v \<Longrightarrow> view_in (buffer @ tail) v"
  by (simp add: view_in_def)

lemma view_in_same: "view_in buffer v \<Longrightarrow> length buffer' = length buffer \<Longrightarrow> view_in buffer' v"
  by (simp add: view_in_def)

lemma header_view_ok_null [simp]: "header_view_ok buffer (0, 0)"
  by (simp add: header_view_ok_def)

lemma header_view_ok_append: "header_view_ok buffer v \<Longrightarrow> header_view_ok (buffer @ tail) v"
  by (auto simp: header_view_ok_def nth_append)

lemma header_view_ok_in: "header_view_ok buffer v \<Longrightarrow> view_in buffer v"
  by (auto simp: header_view_ok_def view_in_def)

lemma same_outside_refl [simp]: "same_outside a b buffer buffer"
  by (simp add: same_outside_def)

lemma same_outside_trans:
  "same_outside a b x y \<Longrightarrow> same_outside c d y z \<Longrightarrow> A \<le> a \<Longrightarrow> b \<le> B \<Longrightarrow> A \<le> c \<Longrightarrow> d \<le> B \<Longrightarrow> same_outside A B x z"
  unfolding same_outside_def by (metis le_trans less_le_trans)

lemma same_outside_length: "same_outside a b x y \<Longrightarrow> length y = length x"
  by (simp add: same_outside_def)

lemma same_outside_nth: "same_outside a b x y \<Longrightarrow> j < a \<or> b \<le> j \<Longrightarrow> j < length x \<Longrightarrow> y ! j = x ! j"
  by (simp add: same_outside_def)

lemma same_outside_take: "same_outside a b x y \<Longrightarrow> k \<le> a \<Longrightarrow> k \<le> length x \<Longrightarrow> take k y = take k x"
  by (rule nth_equalityI) (auto simp: same_outside_def)

lemma same_outside_drop: "same_outside a b x y \<Longrightarrow> b \<le> k \<Longrightarrow> drop k y = drop k x"
  by (rule nth_equalityI) (auto simp: same_outside_def)

lemma decoded_view:
  assumes "viewAfterDecodingUrlEncodingInPlace start n buffer = (v, buffer')" "start + n \<le> length buffer"
  shows "same_outside start (start + n) buffer buffer' \<and> fst v = start \<and> snd v \<le> n
     \<and> view_string buffer' v = decodeUrlEncoding (take n (drop start buffer))"
proof -
  let ?d = "decodeUrlEncoding (take n (drop start buffer))"
  have len: "length ?d \<le> n" using length_decode_le [of "take n (drop start buffer)"] by simp
  have b: "buffer' = take start buffer @ ?d @ drop (start + length ?d) buffer" and v: "v = (start, length ?d)"
    using assms(1) by (auto simp: viewAfterDecodingUrlEncodingInPlace_def decodeUrlEncodingInPlace_def Let_def)
  have "same_outside start (start + n) buffer buffer'"
    using len assms(2) by (auto simp: same_outside_def b nth_append)
  then show ?thesis using len assms(2) by (simp add: v view_string_def b)
qed

lemma decoded_region_view:
  assumes "decoded_region base start end buffer = (v, buffer')" "base + end \<le> length buffer"
  shows "same_outside (base + start) (base + end) buffer buffer' \<and> view_in buffer' v
     \<and> view_string buffer' v = decodeUrlEncoding (take (end - start) (drop (base + start) buffer))"
proof (cases "end > start")
  case True
  then have "viewAfterDecodingUrlEncodingInPlace (base + start) (end - start) buffer = (v, buffer')"
    using assms by (simp add: decoded_region_def)
  from decoded_view [OF this] show ?thesis
    using True assms(2) by (auto simp: view_in_def same_outside_length)
next
  case False
  then show ?thesis using assms by (auto simp: decoded_region_def view_string_def)
qed

lemma fold_option_invariant:
  assumes "fold_option f xs s = Some s'" "P s"
    and "\<And>x s s'. x \<in> set xs \<Longrightarrow> P s \<Longrightarrow> f x s = Some s' \<Longrightarrow> P s'"
  shows "P s'"
  using assms
proof (induction xs arbitrary: s)
  case (Cons x xs)
  from Cons.prems(1) obtain t where t: "f x s = Some t" "fold_option f xs t = Some s'" by (auto split: option.splits)
  have "P t" using Cons.prems(3) [OF _ Cons.prems(2) t(1)] by simp
  then show ?case by (rule Cons.IH [OF t(2)]) (use Cons.prems(3) in auto)
qed simp

lemma fold_option_upt:
  assumes "P 0 s" and "\<And>i s s'. i < n \<Longrightarrow> P i s \<Longrightarrow> f i s = Some s' \<Longrightarrow> P (Suc i) s'"
  shows "(\<exists>s'. fold_option f [0..<n] s = Some s' \<and> P n s')
    \<or> fold_option f [0..<n] s = None \<and> (\<exists>i s'. i < n \<and> P i s' \<and> f i s' = None)"
proof -
  have "(\<exists>s'. fold_option f [i..<n] s = Some s' \<and> P n s')
    \<or> fold_option f [i..<n] s = None \<and> (\<exists>i s'. i < n \<and> P i s' \<and> f i s' = None)" if "P i s" "i \<le> n" for i s
    using that
  proof (induction "n - i" arbitrary: i s)
    case 0
    then show ?case by simp
  next
    case (Suc k)
    have upt: "[i..<n] = i # [Suc i..<n]" using Suc by (simp add: upt_conv_Cons)
    show ?case
    proof (cases "f i s")
      case None
      moreover have "i < n" using Suc by simp
      ultimately show ?thesis using Suc upt by auto
    next
      case (Some s')
      then have "P (Suc i) s'" using assms(2) [of i s s'] Suc by auto
      then show ?thesis using Suc.hyps(1) [of "Suc i" s'] Suc Some upt by auto
    qed
  qed
  then show ?thesis using assms(1) by simp
qed

subsection \<open>The path\<close>

definition count_char :: "char \<Rightarrow> string \<Rightarrow> nat" where
  "count_char c s = length (filter (\<lambda>x. x = c) s)"

lemma count_char_append [simp]: "count_char c (xs @ ys) = count_char c xs + count_char c ys"
  by (simp add: count_char_def)

lemma count_char_Cons [simp]: "count_char c (x # xs) = (if x = c then 1 else 0) + count_char c xs"
  by (simp add: count_char_def)

lemma count_char_Nil [simp]: "count_char c [] = 0"
  by (simp add: count_char_def)

lemma count_take_Suc: "i < length xs \<Longrightarrow> count_char c (take (Suc i) xs) = count_char c (take i xs) + (if xs ! i = c then 1 else 0)"
  by (simp add: take_Suc_conv_app_nth)

definition pair_views_in :: "string \<Rightarrow> (http_view \<times> http_view) list \<Rightarrow> bool" where
  "pair_views_in buffer ps \<longleftrightarrow> (\<forall>(a, b) \<in> set ps. view_in buffer a \<and> view_in buffer b)"

lemma pair_views_in_simps [simp]:
  "pair_views_in buffer []"
  "pair_views_in buffer (ps @ [(a, b)]) \<longleftrightarrow> pair_views_in buffer ps \<and> view_in buffer a \<and> view_in buffer b"
  by (auto simp: pair_views_in_def)

lemma pair_views_in_append [simp]: "pair_views_in buffer ps \<Longrightarrow> pair_views_in (buffer @ tail) ps"
  by (auto simp: pair_views_in_def)

lemma pair_views_in_same: "pair_views_in buffer ps \<Longrightarrow> length buffer' = length buffer \<Longrightarrow> pair_views_in buffer' ps"
  by (auto simp: pair_views_in_def view_in_def)

definition query_frame :: "http_request \<Rightarrow> http_request \<Rightarrow> bool" where
  "query_frame r r' \<longleftrightarrow> req_verb r' = req_verb r \<and> versionMajor r' = versionMajor r \<and> versionMinor r' = versionMinor r
     \<and> keepConnectionAlive r' = keepConnectionAlive r \<and> req_headers r' = req_headers r \<and> req_cookies r' = req_cookies r"

text \<open>The scan of a path at index \<open>i\<close>: \<open>b\<close> is the buffer before it, \<open>r\<close> the request.\<close>

definition path_inv :: "nat \<Rightarrow> nat \<Rightarrow> string \<Rightarrow> http_request \<Rightarrow> nat \<Rightarrow> path_scan \<Rightarrow> bool" where
  "path_inv ps n b r i s \<longleftrightarrow>
     same_outside ps (ps + i) b (scan_buffer s)
     \<and> query_frame r (scan_request s)
     \<and> view_in b (req_path (scan_request s)) \<and> pair_views_in b (queryPairs (scan_request s))
     \<and> length (queryPairs (scan_request s)) \<le> MaxQueryPairs
     \<and> length (queryPairs (scan_request s)) + (if scan_state s = 2 then 1 else 0) \<le> count_char CHR ''='' (take i (drop ps b))
     \<and> scan_state s \<le> 2
     \<and> (scan_state s = 0 \<or> keyStart s \<le> i \<and> keyEnd s \<le> i)
     \<and> (scan_state s = 2 \<longrightarrow> valueStart s \<le> i)"

lemma path_inv_step:
  assumes inv: "path_inv ps n b r i s" and i: "i < n" "ps + n \<le> length b"
    and step: "interpretPathString_step ps n i s = Some s'"
  shows "path_inv ps n b r (Suc i) s'"
proof -
  have len: "length (scan_buffer s) = length b" using inv same_outside_length by (auto simp: path_inv_def)
  have c: "scan_buffer s ! (ps + i) = drop ps b ! i"
    using inv i same_outside_nth [of ps "ps + i" b "scan_buffer s" "ps + i"] by (simp add: path_inv_def)
  have cnt: "count_char CHR ''='' (take (Suc i) (drop ps b)) = count_char CHR ''='' (take i (drop ps b))
      + (if drop ps b ! i = CHR ''='' then 1 else 0)"
    using i by (intro count_take_Suc) simp
  have keep: "same_outside ps (ps + Suc i) b (scan_buffer s)"
    using inv by (auto simp: path_inv_def same_outside_def)
  consider "scan_state s = 0" | "scan_state s = 1" | "scan_state s = 2" using inv by (force simp: path_inv_def)
  then show ?thesis
  proof cases
    case 1
    obtain v b' where d: "viewAfterDecodingUrlEncodingInPlace ps i (scan_buffer s) = (v, b')" by (meson surj_pair)
    then have o: "same_outside ps (ps + i) (scan_buffer s) b'" "fst v = ps" "snd v \<le> i"
      using decoded_view [OF d] len i by auto
    have "same_outside ps (ps + Suc i) b b'"
      by (rule same_outside_trans [OF keep o(1)]) auto
    moreover have "s' = (if scan_buffer s ! (ps + i) = CHR ''?'' \<or> i + 1 = n
        then s\<lparr>scan_request := (scan_request s)\<lparr>req_path := v\<rparr>, scan_buffer := b', scan_state := 1, keyStart := i + 1, keyEnd := i + 1\<rparr>
        else s)"
      using step 1 d by (auto simp: interpretPathString_step_def)
    moreover have "view_in b v" using o i by (simp add: view_in_def)
    ultimately show ?thesis
      using inv 1 keep by (simp add: path_inv_def query_frame_def cnt)
  next
    case 2
    then have "s' = (if drop ps b ! i = CHR ''='' then s\<lparr>keyEnd := i, scan_state := 2, valueStart := i + 1\<rparr> else s)"
      using step by (simp add: interpretPathString_step_def c split: if_splits)
    then show ?thesis
      using inv 2 keep by (auto simp: path_inv_def query_frame_def cnt)
  next
    case 3
    obtain k b1 where k: "decoded_region ps (keyStart s) (keyEnd s) (scan_buffer s) = (k, b1)" by (meson surj_pair)
    obtain v b2 where v: "decoded_region ps (valueStart s) i b1 = (v, b2)" by (meson surj_pair)
    have ki: "keyStart s \<le> i" "keyEnd s \<le> i" "valueStart s \<le> i" using inv 3 by (auto simp: path_inv_def)
    have o1: "same_outside (ps + keyStart s) (ps + keyEnd s) (scan_buffer s) b1" "view_in b1 k"
      using decoded_region_view [OF k] ki i len by auto
    then have l1: "length b1 = length b" using len same_outside_length by metis
    have o2: "same_outside (ps + valueStart s) (ps + i) b1 b2" "view_in b2 v"
      using decoded_region_view [OF v] ki i l1 by auto
    then have l2: "length b2 = length b" using l1 same_outside_length by metis
    have "same_outside ps (ps + Suc i) b b1" by (rule same_outside_trans [OF keep o1(1)]) (use ki in auto)
    then have "same_outside ps (ps + Suc i) b b2" by (rule same_outside_trans [OF _ o2(1)]) (use ki in auto)
    moreover have "view_in b k" "view_in b v" using o1 o2 l1 l2 by (auto simp: view_in_def)
    moreover have "s' = s \<and> \<not> (scan_buffer s ! (ps + i) = CHR ''&'' \<or> i + 1 = n) \<or>
        length (queryPairs (scan_request s)) < MaxQueryPairs \<and>
        s' = s\<lparr>scan_request := (scan_request s)\<lparr>queryPairs := queryPairs (scan_request s) @ [(k, v)]\<rparr>,
                scan_buffer := b2, keyStart := i + 1, keyEnd := i + 1, scan_state := 1\<rparr>"
      using step 3 by (auto simp: interpretPathString_step_def k v addQueryPair_def split: if_splits)
    ultimately show ?thesis
      using inv 3 ki keep by (elim disjE) (simp_all add: path_inv_def query_frame_def cnt)
  qed
qed

lemma interpretPathString_cases:
  assumes "req_path r = (ps, n)" "ps + n \<le> length b" "queryPairs r = []"
  shows "(\<exists>r' b'. interpretPathString ps b r = Some (r', b') \<and> same_outside ps (ps + n) b b'
            \<and> query_frame r r' \<and> view_in b' (req_path r')
            \<and> pair_views_in b' (queryPairs r') \<and> length (queryPairs r') \<le> MaxQueryPairs)
    \<or> interpretPathString ps b r = None \<and> count_char CHR ''='' (take n (drop ps b)) > MaxQueryPairs"
proof -
  let ?f = "interpretPathString_step ps n"
  let ?s = "\<lparr>scan_state = 0, keyStart = 0, keyEnd = 0, valueStart = 0, scan_request = r, scan_buffer = b\<rparr>"
  have init: "path_inv ps n b r 0 ?s"
    using assms by (simp add: path_inv_def query_frame_def view_in_def)
  from fold_option_upt [of "path_inv ps n b r" ?s n ?f, OF init] path_inv_step [OF _ _ assms(2)]
  consider (through) s where "fold_option ?f [0..<n] ?s = Some s" "path_inv ps n b r n s"
    | (stuck) i s where "fold_option ?f [0..<n] ?s = None" "i < n" "path_inv ps n b r i s" "?f i s = None"
    by auto
  then show ?thesis
  proof cases
    case through
    then show ?thesis using assms(1)
      by (auto simp: interpretPathString_def path_inv_def intro: view_in_same pair_views_in_same dest: same_outside_length)
  next
    case stuck
    then have "scan_state s = 2" "length (queryPairs (scan_request s)) \<ge> MaxQueryPairs"
      by (auto simp: interpretPathString_step_def path_inv_def addQueryPair_def Let_def split: if_splits prod.splits option.splits)
    then have "count_char CHR ''='' (take i (drop ps b)) > MaxQueryPairs" using stuck(3) by (auto simp: path_inv_def)
    moreover have "count_char CHR ''='' (take i (drop ps b)) \<le> count_char CHR ''='' (take n (drop ps b))"
      using stuck(2) by (metis count_char_append le_add1 less_imp_le_nat take_add le_add_diff_inverse)
    ultimately show ?thesis using stuck(1) assms(1) by (simp add: interpretPathString_def)
  qed
qed

subsection \<open>Cookies\<close>

lemma skipSpaces_stops:
  assumes "pos \<le> stop" "stop < length buffer" "buffer ! stop \<noteq> CHR '' ''"
  shows "\<exists>q. skipSpaces buffer pos = Some q \<and> pos \<le> q \<and> q \<le> stop"
  using assms
proof (induction buffer pos rule: skipSpaces.induct)
  case (1 buffer pos)
  show ?case
  proof (cases "buffer ! pos = CHR '' ''")
    case True
    then have "pos + 1 \<le> stop" using 1 by (cases "pos = stop") auto
    then show ?thesis using 1 True by (auto simp: skipSpaces.simps [of buffer pos])
  next
    case False
    then show ?thesis using 1 by (auto simp: skipSpaces.simps [of buffer pos])
  qed
qed

lemma dropSpaces_stops:
  assumes "0 < start" "start + end \<le> length buffer" "buffer ! (start - 1) \<noteq> CHR '' ''"
  shows "\<exists>q. dropSpaces buffer start end = Some q \<and> q \<le> end"
  using assms by (induction "end") (auto intro: le_SucI)

text \<open>A header value, delimited on both sides.\<close>

definition delimited :: "nat \<Rightarrow> nat \<Rightarrow> string \<Rightarrow> bool" where
  "delimited start n b \<longleftrightarrow>
     0 < start \<and> start + n < length b \<and> b ! (start - 1) \<noteq> CHR '' '' \<and> b ! (start + n) \<noteq> CHR '' ''"

lemma delimited_same: "delimited start n b \<Longrightarrow> same_outside start (start + n) b b' \<Longrightarrow> delimited start n b'"
  by (auto simp: delimited_def same_outside_def)

lemma trimmed_region_in:
  assumes "delimited start n b" "from \<le> n" "to \<le> n"
  obtains f t where "trimmed_region b start from to = Some (f, t)" "f \<le> n" "t \<le> to" "from \<le> f"
proof -
  have "0 < start" "start + n < length b" "b ! (start - 1) \<noteq> CHR '' ''" "b ! (start + n) \<noteq> CHR '' ''"
    using assms(1) by (auto simp: delimited_def)
  then obtain f t where "skipSpaces b (start + from) = Some f" "start + from \<le> f" "f \<le> start + n"
      "dropSpaces b start to = Some t" "t \<le> to"
    using skipSpaces_stops [of "start + from" "start + n" b] dropSpaces_stops [of start to b] assms by force
  then show ?thesis using that [of "f - start" t] by (auto simp: trimmed_region_def)
qed

definition cookie_frame :: "http_request \<Rightarrow> http_request \<Rightarrow> bool" where
  "cookie_frame r r' \<longleftrightarrow> req_verb r' = req_verb r \<and> req_path r' = req_path r \<and> versionMajor r' = versionMajor r
     \<and> versionMinor r' = versionMinor r \<and> keepConnectionAlive r' = keepConnectionAlive r
     \<and> req_headers r' = req_headers r \<and> queryPairs r' = queryPairs r"

definition cookie_inv :: "nat \<Rightarrow> nat \<Rightarrow> string \<Rightarrow> http_request \<Rightarrow> nat \<Rightarrow> cookie_scan \<Rightarrow> bool" where
  "cookie_inv start n b r i s \<longleftrightarrow>
     same_outside start (start + i) b (cookie_buffer s) \<and> cookie_frame r (cookie_request s)
     \<and> pair_views_in b (req_cookies (cookie_request s)) \<and> length (req_cookies (cookie_request s)) \<le> MaxCookies
     \<and> length (req_cookies (cookie_request s)) \<le> count_char CHR '';'' (take i (drop start b)) + (if i = n then 1 else 0)
     \<and> nameStart s \<le> i \<and> nameEnd s \<le> i \<and> cookieValueStart s \<le> i"

lemma decoded_in_value:
  assumes d: "decoded_region start f t b1 = (v, b2)" and t: "t \<le> i" "start + i \<le> length b"
    and same: "same_outside start (start + i) b b1"
  shows "same_outside start (start + i) b b2 \<and> view_in b v"
proof -
  have len: "length b1 = length b" using same by (rule same_outside_length)
  have o: "same_outside (start + f) (start + t) b1 b2 \<and> view_in b2 v"
    using decoded_region_view [OF d] t len by auto
  then have "length b2 = length b" using len same_outside_length by fastforce
  then show ?thesis using o same t by (auto intro: same_outside_trans simp: view_in_def)
qed

lemma cookie_inv_added:
  assumes inv: "cookie_inv start n b r i s" and i: "i < n" "start + n < length b"
    and buffer: "same_outside start (start + Suc i) b b2" and views: "view_in b k" "view_in b v"
    and add: "addCookie k v (cookie_request s) = Some r'"
    and delim: "drop start b ! i = CHR '';'' \<or> i + 1 = n"
  shows "cookie_inv start n b r (Suc i) (s\<lparr>cookie_request := r', cookie_buffer := b2, nameStart := i + 1, nameEnd := i + 1,
      cookieValueStart := i + 1, cookie_state := 0\<rparr>)"
proof -
  have "count_char CHR '';'' (take (Suc i) (drop start b)) = count_char CHR '';'' (take i (drop start b))
      + (if drop start b ! i = CHR '';'' then 1 else 0)"
    using i by (intro count_take_Suc) simp
  moreover have "r' = (cookie_request s)\<lparr>req_cookies := req_cookies (cookie_request s) @ [(k, v)]\<rparr>"
      "length (req_cookies (cookie_request s)) < MaxCookies"
    using add by (auto simp: addCookie_def split: if_splits)
  ultimately show ?thesis using inv i buffer views delim by (auto simp: cookie_inv_def cookie_frame_def)
qed

lemma cookie_inv_kept:
  assumes inv: "cookie_inv start n b r i s" and i: "i < n" "start + n < length b"
  shows "cookie_inv start n b r (Suc i) s"
proof -
  have "count_char CHR '';'' (take (Suc i) (drop start b)) \<ge> count_char CHR '';'' (take i (drop start b))"
    using count_take_Suc [of i "drop start b" "CHR '';''"] i by simp
  moreover have "same_outside start (start + Suc i) b (cookie_buffer s)" using inv by (auto simp: cookie_inv_def same_outside_def)
  ultimately show ?thesis using inv i by (auto simp: cookie_inv_def)
qed

lemma cookie_inv_step:
  assumes inv: "cookie_inv start n b r i s" and i: "i < n" and delims: "delimited start n b"
  shows "(\<exists>s'. interpretCookies_step start n i s = Some s' \<and> cookie_inv start n b r (Suc i) s')
    \<or> interpretCookies_step start n i s = None \<and> length (req_cookies (cookie_request s)) \<ge> MaxCookies
        \<and> (drop start b ! i = CHR '';'' \<or> i + 1 = n)"
proof -
  let ?buf = "cookie_buffer s" let ?stop = "if i + 1 = n then i + 1 else i"
  have len: "start + n < length b" using delims by (simp add: delimited_def)
  have same: "same_outside start (start + Suc i) b ?buf" using inv by (auto simp: cookie_inv_def same_outside_def)
  have delims': "delimited start n ?buf"
    using delims by (rule delimited_same) (use inv i in \<open>auto simp: cookie_inv_def same_outside_def\<close>)
  have c: "?buf ! (start + i) = drop start b ! i"
    using inv i len same_outside_nth [of start "start + i" b ?buf "start + i"] by (simp add: cookie_inv_def)
  have ends: "?stop \<le> Suc i" "?stop \<le> n" using i by auto
  have starts: "nameStart s \<le> n" "nameEnd s \<le> n" "cookieValueStart s \<le> n" using inv i by (auto simp: cookie_inv_def)
  obtain vf vt where vt: "trimmed_region ?buf start (cookieValueStart s) ?stop = Some (vf, vt)" "vt \<le> ?stop"
    using trimmed_region_in [OF delims' starts(3) ends(2)] by metis
  obtain nf nt where nt: "trimmed_region ?buf start (nameStart s) (nameEnd s) = Some (nf, nt)" "nt \<le> nameEnd s"
    using trimmed_region_in [OF delims' starts(1,2)] by metis
  have bound: "start + Suc i \<le> length b" using len i by simp
  consider (eq) "cookie_state s = 0" "drop start b ! i = CHR ''=''"
    | (skip) "\<not> (drop start b ! i = CHR '';'' \<or> i + 1 = n)" "\<not> (cookie_state s = 0 \<and> drop start b ! i = CHR ''='')"
    | (val) "cookie_state s = 0" "drop start b ! i \<noteq> CHR ''=''" "drop start b ! i = CHR '';'' \<or> i + 1 = n"
    | (pair) "cookie_state s \<noteq> 0" "drop start b ! i = CHR '';'' \<or> i + 1 = n"
    by metis
  then show ?thesis
  proof cases
    case eq
    then have "interpretCookies_step start n i s = Some (s\<lparr>nameEnd := i, cookie_state := 1, cookieValueStart := i + 1\<rparr>)"
      by (simp add: interpretCookies_step_def c)
    then show ?thesis using cookie_inv_kept [OF inv i len] by (simp add: cookie_inv_def)
  next
    case skip
    then have "interpretCookies_step start n i s = Some s" by (auto simp: interpretCookies_step_def c Let_def)
    then show ?thesis using cookie_inv_kept [OF inv i len] by simp
  next
    case val
    obtain v b2 where d: "decoded_region start vf vt ?buf = (v, b2)" by (meson surj_pair)
    then have "same_outside start (start + Suc i) b b2 \<and> view_in b v"
      by (rule decoded_in_value) (use vt ends bound same in auto)
    moreover have "interpretCookies_step start n i s = finishCookie start i ?stop (0, 0) s"
      using val by (simp add: interpretCookies_step_def c)
    ultimately show ?thesis
      using cookie_inv_added [OF inv i len, of b2 "(0, 0)" v] val(3) vt(1) d
      by (cases "addCookie (0, 0) v (cookie_request s)") (auto simp: finishCookie_def addCookie_def split: if_splits)
  next
    case pair
    obtain k b1 where d1: "decoded_region start nf nt ?buf = (k, b1)" by (meson surj_pair)
    obtain v b2 where d2: "decoded_region start vf vt b1 = (v, b2)" by (meson surj_pair)
    have s1: "same_outside start (start + Suc i) b b1 \<and> view_in b k"
      by (rule decoded_in_value [OF d1]) (use nt inv bound same in \<open>auto simp: cookie_inv_def\<close>)
    have s2: "same_outside start (start + Suc i) b b2 \<and> view_in b v"
      by (rule decoded_in_value [OF d2]) (use vt ends bound s1 in auto)
    show ?thesis
      using cookie_inv_added [OF inv i len, of b2 k v] s1 s2 pair vt(1) nt(1) d1 d2
      by (cases "addCookie k v (cookie_request s)") (auto simp: interpretCookies_step_def c addCookie_def split: if_splits)
  qed
qed

lemma count_take_le: "count_char c (take i xs) \<le> count_char c xs"
  by (metis append_take_drop_id count_char_append le_add1)

lemma interpretCookies_cases:
  assumes value_ok: "header_view_ok b v" and none: "req_cookies r = []"
  shows "(\<exists>r' b'. interpretCookies v b r = Some (r', b') \<and> same_outside (fst v) (fst v + snd v) b b'
            \<and> cookie_frame r r' \<and> pair_views_in b' (req_cookies r') \<and> length (req_cookies r') \<le> MaxCookies)
    \<or> interpretCookies v b r = None \<and> count_char CHR '';'' (view_string b v) \<ge> MaxCookies"
proof (cases "v = (0, 0)")
  case True
  then show ?thesis using none by (simp add: interpretCookies_def cookie_frame_def)
next
  case False
  let ?start = "fst v" and ?n = "snd v"
  let ?f = "interpretCookies_step ?start ?n"
  let ?s = "\<lparr>cookie_state = 0, nameStart = 0, nameEnd = 0, cookieValueStart = 0, cookie_request = r, cookie_buffer = b\<rparr>"
  have delims: "delimited ?start ?n b" using value_ok False by (auto simp: header_view_ok_def delimited_def)
  have init: "cookie_inv ?start ?n b r 0 ?s" using none by (simp add: cookie_inv_def cookie_frame_def)
  have step: "cookie_inv ?start ?n b r (Suc i) s'" if "i < ?n" "cookie_inv ?start ?n b r i s" "?f i s = Some s'" for i s s'
    using cookie_inv_step [OF that(2,1) delims] that(3) by auto
  from fold_option_upt [of "cookie_inv ?start ?n b r" ?s ?n ?f, OF init] step
  consider (through) s where "fold_option ?f [0..<?n] ?s = Some s" "cookie_inv ?start ?n b r ?n s"
    | (stuck) i s where "fold_option ?f [0..<?n] ?s = None" "i < ?n" "cookie_inv ?start ?n b r i s" "?f i s = None"
    by auto
  then show ?thesis
  proof cases
    case through
    then show ?thesis
      by (auto simp: interpretCookies_def cookie_inv_def intro: pair_views_in_same dest: same_outside_length)
  next
    case stuck
    then have "length (req_cookies (cookie_request s)) \<ge> MaxCookies"
      using cookie_inv_step [OF stuck(3,2) delims] by auto
    then have "count_char CHR '';'' (take i (drop ?start b)) \<ge> MaxCookies"
      using stuck(2,3) by (simp add: cookie_inv_def)
    moreover have "take i (drop ?start b) = take i (view_string b v)" using stuck(2) by (simp add: view_string_def)
    ultimately have "count_char CHR '';'' (view_string b v) \<ge> MaxCookies" by (metis count_take_le le_trans)
    then show ?thesis using stuck(1) by (simp add: interpretCookies_def)
  qed
qed

subsection \<open>The invariant of the parser\<close>

definition request_wf :: "string \<Rightarrow> http_request \<Rightarrow> bool" where
  "request_wf buffer r \<longleftrightarrow>
     view_in buffer (req_path r) \<and> (\<forall>h. view_in buffer (req_headers r h))
     \<and> pair_views_in buffer (queryPairs r) \<and> length (queryPairs r) \<le> MaxQueryPairs
     \<and> pair_views_in buffer (req_cookies r) \<and> length (req_cookies r) \<le> MaxCookies
     \<and> versionMajor r = 1 \<and> versionMinor r \<le> 1"

definition parser_wf :: "'b http_parser \<Rightarrow> bool" where
  "parser_wf p \<longleftrightarrow> length (headerBuffer p) \<le> headerBufferSize p \<and> request_wf (headerBuffer p) (request p)"

text \<open>
  What holds while the parser is reading, after the input \<open>seen\<close>. Up to the end of the path the buffer is
  that input; after it, the part of the buffer behind the path came from the input.
\<close>

definition tail_inv :: "string \<Rightarrow> 'b http_parser \<Rightarrow> bool" where
  "tail_inv seen p \<longleftrightarrow>
     requestBodyBytesProcessed p = 0 \<and> req_cookies (request p) = [] \<and> parseVersionStartsAt p \<le> length (headerBuffer p)
     \<and> count_char CHR '';'' (drop (parseVersionStartsAt p) (headerBuffer p)) \<le> count_char CHR '';'' seen
     \<and> (\<forall>h. header_view_ok (headerBuffer p) (req_headers (request p) h))
     \<and> (\<forall>h. req_headers (request p) h = (0, 0) \<or> parseVersionStartsAt p \<le> fst (req_headers (request p) h))"

definition path_pending :: "string \<Rightarrow> 'b http_parser \<Rightarrow> bool" where
  "path_pending seen p \<longleftrightarrow>
     headerBuffer p = seen \<and> requestBodyBytesProcessed p = 0 \<and> queryPairs (request p) = [] \<and> req_cookies (request p) = []
     \<and> req_headers (request p) = (\<lambda>_. (0, 0)) \<and> parsePathStartsAt p \<le> length (headerBuffer p)"

definition reading_inv :: "string \<Rightarrow> 'b http_parser \<Rightarrow> bool" where
  "reading_inv seen p \<longleftrightarrow>
     (case currentParser p of
        parseVerb_state \<Rightarrow> path_pending seen p
      | parsePath_state \<Rightarrow> path_pending seen p
      | parseVersion_state \<Rightarrow> tail_inv seen p
      | parseNewLine_state \<Rightarrow> tail_inv seen p
      | parseHeaderName_state \<Rightarrow> tail_inv seen p \<and> parseHeaderNameStartsAt p \<le> length (headerBuffer p)
      | parseHeaderSpacing_state \<Rightarrow> tail_inv seen p \<and> parseVersionStartsAt p < length (headerBuffer p) \<and> last (headerBuffer p) = CHR '':''
      | parseHeaderValue_state \<Rightarrow> tail_inv seen p \<and> parseVersionStartsAt p < parseHeaderValueStartsAt p
          \<and> parseHeaderValueStartsAt p \<le> length (headerBuffer p) \<and> headerBuffer p ! (parseHeaderValueStartsAt p - 1) = CHR '':''
      | parseBody_state \<Rightarrow> requestBodyBytesProcessed p < expectedContentLength p)"

definition parser_inv :: "string \<Rightarrow> 'b http_parser \<Rightarrow> bool" where
  "parser_inv seen p \<longleftrightarrow> parser_wf p \<and> (valid p \<and> \<not> finished p \<longrightarrow> reading_inv seen p)"

lemmas parser_inv_defs = parser_inv_def parser_wf_def request_wf_def reading_inv_def

lemma Parser_inv: "parser_inv [] (Parser bufferSize maxLength push body)"
  by (simp add: parser_inv_defs Parser_def HttpRequest_def path_pending_def)

lemma tail_inv_append:
  assumes "tail_inv seen p"
  shows "tail_inv (seen @ copied) (p\<lparr>headerBuffer := headerBuffer p @ copied\<rparr>)"
  using assms by (auto simp: tail_inv_def intro: header_view_ok_append)

lemma request_wf_append: "request_wf buffer r \<Longrightarrow> request_wf (buffer @ tail) r"
  by (simp add: request_wf_def)

text \<open>Copying input to the buffer, in the states that copy.\<close>

lemma parser_inv_append:
  assumes "parser_inv seen p" "valid p" "\<not> finished p" "length (headerBuffer p @ copied) \<le> headerBufferSize p"
    and "currentParser p \<notin> {parseHeaderSpacing_state, parseBody_state}"
  shows "parser_inv (seen @ copied) (p\<lparr>headerBuffer := headerBuffer p @ copied\<rparr>)"
proof -
  have "reading_inv (seen @ copied) (p\<lparr>headerBuffer := headerBuffer p @ copied\<rparr>)"
    using assms tail_inv_append [of seen p copied]
    by (cases "currentParser p") (auto simp: parser_inv_def reading_inv_def path_pending_def nth_append)
  then show ?thesis using assms by (simp add: parser_inv_def parser_wf_def request_wf_append)
qed

lemma copyUntil_fits:
  "copyUntil c capacity header buffer = (r, header', rest) \<Longrightarrow> length header \<le> capacity \<Longrightarrow> length header' \<le> capacity"
  by (induction c capacity header buffer arbitrary: header' rest rule: copyUntil.induct) (auto split: if_splits)

text \<open>A step keeps the invariant, or it failed for an input with too many pairs or cookies.\<close>

definition too_many :: "string \<Rightarrow> bool" where
  "too_many seen \<longleftrightarrow> count_char CHR ''='' seen > MaxQueryPairs \<or> count_char CHR '';'' seen \<ge> MaxCookies"

definition kept :: "string \<Rightarrow> 'b http_parser option \<Rightarrow> bool" where
  "kept seen r \<longleftrightarrow> (case r of Some p \<Rightarrow> parser_inv seen p | None \<Rightarrow> too_many seen)"

definition step_kept :: "string \<Rightarrow> string \<Rightarrow> ('b http_parser \<times> string) option \<Rightarrow> bool" where
  "step_kept seen buffer r \<longleftrightarrow>
     (case r of Some (p, rest) \<Rightarrow> \<exists>copied. buffer = copied @ rest \<and> parser_inv (seen @ copied) p
      | None \<Rightarrow> too_many (seen @ buffer))"

lemma too_many_append: "too_many seen \<Longrightarrow> too_many (seen @ tail)"
  by (auto simp: too_many_def)

lemma copying_kept:
  assumes inv: "parser_inv seen p" "valid p" "\<not> finished p"
    and state: "currentParser p \<notin> {parseHeaderSpacing_state, parseBody_state}"
    and k: "\<And>copied. copied \<noteq> [] \<Longrightarrow> last copied = c
      \<Longrightarrow> parser_inv (seen @ copied) (p\<lparr>headerBuffer := headerBuffer p @ copied\<rparr>)
      \<Longrightarrow> kept (seen @ copied) (k (p\<lparr>headerBuffer := headerBuffer p @ copied\<rparr>))"
  shows "step_kept seen buffer (copying c k p buffer)"
proof -
  obtain r header rest where copy: "copyUntil c (headerBufferSize p) (headerBuffer p) buffer = (r, header, rest)"
    by (cases "copyUntil c (headerBufferSize p) (headerBuffer p) buffer") auto
  obtain copied where copied: "header = headerBuffer p @ copied" "buffer = copied @ rest" "r = InputEnded \<Longrightarrow> rest = []"
      "r = Reached \<Longrightarrow> \<exists>xs. copied = xs @ [c]"
    using copyUntil_split [OF copy] by metis
  have "length header \<le> headerBufferSize p"
    using copyUntil_fits [OF copy] inv(1) by (simp add: parser_inv_def parser_wf_def)
  then have moved: "parser_inv (seen @ copied) (p\<lparr>headerBuffer := header\<rparr>)"
    using parser_inv_append [OF inv _ state] copied(1) by simp
  show ?thesis
  proof (cases r)
    case Reached
    then have "kept (seen @ copied) (k (p\<lparr>headerBuffer := header\<rparr>))"
      using k [of copied] copied moved by auto
    then show ?thesis using copy Reached copied too_many_append
      by (fastforce simp: copying_def step_kept_def kept_def split: option.splits)
  next
    case InputEnded
    then show ?thesis using copy copied moved by (auto simp: copying_def step_kept_def)
  next
    case NoRoom
    have "parser_inv (seen @ copied) (invalid Payload_Too_Large (p\<lparr>headerBuffer := header\<rparr>))"
      using moved by (simp add: parser_inv_defs invalid_def)
    then show ?thesis using copy copied NoRoom by (auto simp: copying_def step_kept_def)
  qed
qed

subsection \<open>Each step keeps the invariant\<close>

lemma finishVerb_kept:
  assumes "parser_inv seen p" "valid p" "\<not> finished p" "currentParser p = parseVerb_state"
  shows "kept seen (finishVerb p)"
  using assms by (auto simp: kept_def parser_inv_defs finishVerb_def path_pending_def Let_def)

lemma trimLeadingChar_view_in: "view_in buffer v \<Longrightarrow> view_in buffer (trimLeadingChar_view c buffer v)"
proof -
  assume v: "view_in buffer v"
  have "length (takeWhile (\<lambda>x. x = c) (view_string buffer v)) \<le> length (view_string buffer v)" by (rule length_takeWhile_le)
  also have "\<dots> \<le> snd v" by (simp add: view_string_def)
  finally show ?thesis using v by (simp add: view_in_def trimLeadingChar_view_def Let_def)
qed

lemma finishPath_kept:
  assumes inv: "parser_inv seen p" and "valid p" "\<not> finished p" "currentParser p = parsePath_state"
  shows "kept seen (finishPath p)"
proof -
  let ?n = "length (headerBuffer p) - parsePathStartsAt p"
  let ?r = "(request p)\<lparr>req_path := (parsePathStartsAt p, ?n)\<rparr>"
  have pending: "path_pending seen p" and wf: "parser_wf p" using assms by (auto simp: parser_inv_def reading_inv_def)
  then have start: "parsePathStartsAt p + ?n \<le> length (headerBuffer p)" "queryPairs ?r = []"
    by (auto simp: path_pending_def)
  have whole: "drop (parsePathStartsAt p) (headerBuffer p) = take ?n (drop (parsePathStartsAt p) (headerBuffer p))" by simp
  have path: "req_path ?r = (parsePathStartsAt p, ?n)" by simp
  from interpretPathString_cases [OF path start] show ?thesis
  proof (elim disjE exE conjE)
    fix r' b'
    assume r': "interpretPathString (parsePathStartsAt p) (headerBuffer p) ?r = Some (r', b')"
      "same_outside (parsePathStartsAt p) (parsePathStartsAt p + ?n) (headerBuffer p) b'" "query_frame ?r r'"
      "view_in b' (req_path r')" "pair_views_in b' (queryPairs r')" "length (queryPairs r') \<le> MaxQueryPairs"
    then show ?thesis
      using pending wf trimLeadingChar_view_in [OF r'(4)] same_outside_length [OF r'(2)]
      by (simp add: kept_def parser_inv_defs finishPath_def path_pending_def tail_inv_def query_frame_def)
  next
    assume "interpretPathString (parsePathStartsAt p) (headerBuffer p) ?r = None"
      "count_char CHR ''='' (take ?n (drop (parsePathStartsAt p) (headerBuffer p))) > MaxQueryPairs"
    moreover have "count_char CHR ''='' (drop (parsePathStartsAt p) (headerBuffer p)) \<le> count_char CHR ''='' seen"
      using pending by (metis append_take_drop_id count_char_append le_add2 path_pending_def)
    ultimately show ?thesis by (simp add: kept_def finishPath_def too_many_def)
  qed
qed

lemma finishVersion_kept:
  assumes "parser_inv seen p" "valid p" "\<not> finished p" "currentParser p = parseVersion_state"
  shows "kept seen (finishVersion p)"
  using assms by (simp add: kept_def parser_inv_defs finishVersion_def invalid_def tail_inv_def Let_def)

lemma finishHeaderName_kept:
  assumes "parser_inv seen p" "valid p" "\<not> finished p" "currentParser p = parseHeaderName_state"
    and "parseVersionStartsAt p < length (headerBuffer p)" "last (headerBuffer p) = CHR '':''"
  shows "kept seen (finishHeaderName p)"
  using assms by (simp add: kept_def parser_inv_defs finishHeaderName_def tail_inv_def)

lemma finishHeaderValue_kept:
  assumes "parser_inv seen p" "valid p" "\<not> finished p" "currentParser p = parseHeaderValue_state"
    and last: "parseHeaderValueStartsAt p < length (headerBuffer p)" "last (headerBuffer p) = CHR 0x0D"
  shows "kept seen (finishHeaderValue p)"
proof -
  have "headerBuffer p ! (length (headerBuffer p) - 1) = CHR 0x0D" using last by (metis last_conv_nth length_0_conv not_less_zero)
  then have "header_view_ok (headerBuffer p) (parseHeaderValueStartsAt p, length (headerBuffer p) - 1 - parseHeaderValueStartsAt p)"
    using assms by (auto simp: header_view_ok_def parser_inv_def reading_inv_def)
  then show ?thesis using assms
    by (simp add: kept_def parser_inv_defs finishHeaderValue_def tail_inv_def Let_def header_view_ok_in)
qed

lemma parseHeaderSpacing_kept:
  assumes "parser_inv seen p" "valid p" "\<not> finished p" "currentParser p = parseHeaderSpacing_state"
  shows "step_kept seen buffer (parseHeaderSpacing p buffer)"
proof -
  have split: "buffer = takeWhile (\<lambda>c. c = CHR '' '') buffer @ dropWhile (\<lambda>c. c = CHR '' '') buffer" by simp
  have inv: "parser_inv (seen @ takeWhile (\<lambda>c. c = CHR '' '') buffer) p"
    using assms by (auto simp: parser_inv_def reading_inv_def tail_inv_def)
  have "headerBuffer p ! (length (headerBuffer p) - 1) = CHR '':''"
    using assms last_conv_nth [of "headerBuffer p"] by (force simp: parser_inv_def reading_inv_def)
  then have "parser_inv (seen @ takeWhile (\<lambda>c. c = CHR '' '') buffer)
      (p\<lparr>currentParser := parseHeaderValue_state, parseHeaderValueStartsAt := length (headerBuffer p)\<rparr>)"
    using inv assms by (simp add: parser_inv_defs tail_inv_def)
  then have moved: "\<exists>copied. buffer = copied @ dropWhile (\<lambda>c. c = CHR '' '') buffer \<and> parser_inv (seen @ copied)
      (p\<lparr>currentParser := parseHeaderValue_state, parseHeaderValueStartsAt := length (headerBuffer p)\<rparr>)"
    using split by blast
  show ?thesis
  proof (cases "dropWhile (\<lambda>c. c = CHR '' '') buffer = []")
    case True
    then have "takeWhile (\<lambda>c. c = CHR '' '') buffer = buffer" using split by simp
    then have "parser_inv (seen @ buffer) p" using inv by (simp only:)
    then show ?thesis using True by (simp add: step_kept_def parseHeaderSpacing_def)
  next
    case False
    then show ?thesis using moved by (auto simp: step_kept_def parseHeaderSpacing_def)
  qed
qed

lemma view_string_count:
  assumes "vs \<le> fst v"
  shows "count_char c (view_string b v) \<le> count_char c (drop vs b)"
proof -
  have "view_string b v = take (snd v) (drop (fst v - vs) (drop vs b))" using assms by (simp add: view_string_def)
  also have "count_char c \<dots> \<le> count_char c (drop (fst v - vs) (drop vs b))" by (rule count_take_le)
  also have "\<dots> \<le> count_char c (drop vs b)" by (metis append_take_drop_id count_char_append le_add2)
  finally show ?thesis .
qed

lemma request_wf_headers_done:
  assumes "request_wf b r" "same_outside a e b b'" "cookie_frame r r'" "pair_views_in b' (req_cookies r')"
    "length (req_cookies r') \<le> MaxCookies"
  shows "request_wf b' r'"
  using assms same_outside_length [OF assms(2)]
  by (auto simp: request_wf_def cookie_frame_def intro: view_in_same pair_views_in_same)

text \<open>The headers read before their interpretation: an update of the parser that leaves the request and the buffer.\<close>

lemma interpretImportantHeaders_kept:
  assumes wf: "parser_wf p" and tail: "tail_inv seen p"
  shows "case interpretImportantHeaders lexical p of
      Some p' \<Rightarrow> parser_wf p' \<and> length (headerBuffer p') = length (headerBuffer p)
        \<and> requestBodyBytesProcessed p' = requestBodyBytesProcessed p
    | None \<Rightarrow> count_char CHR '';'' seen \<ge> MaxCookies"
proof -
  let ?v = "req_headers (request p) Header_Cookie"
  let ?r = "(request p)\<lparr>keepConnectionAlive := matchStringUpperOrLower (header_string p Header_Connection) ''keep-aliveKEEP-ALIVE''\<rparr>"
  have wf': "request_wf (headerBuffer p) ?r" using wf by (simp add: parser_wf_def request_wf_def)
  have calls: "interpretImportantHeaders lexical p =
      (case interpretCookies ?v (headerBuffer p) ?r of None \<Rightarrow> None
       | Some (req, buffer) \<Rightarrow>
           let p = p\<lparr>expectedContentLength := (case lexical (header_string p Header_Content_Length) of Some n \<Rightarrow> n | None \<Rightarrow> 0),
                     request := ?r\<rparr>;
               p = (if header_string p Header_Expect \<noteq> [] then invalid Expectation_Failed p else p)
           in Some (p\<lparr>request := req, headerBuffer := buffer\<rparr>))"
    by (simp add: interpretImportantHeaders_def header_string_def invalid_def Let_def split: option.split prod.split)
  have ok: "header_view_ok (headerBuffer p) ?v" "req_cookies ?r = []"
    using tail by (auto simp: tail_inv_def)
  from interpretCookies_cases [OF ok] show ?thesis
  proof (elim disjE exE conjE)
    fix r' b'
    assume r': "interpretCookies ?v (headerBuffer p) ?r = Some (r', b')"
      "same_outside (fst ?v) (fst ?v + snd ?v) (headerBuffer p) b'" "cookie_frame ?r r'"
      "pair_views_in b' (req_cookies r')" "length (req_cookies r') \<le> MaxCookies"
    have "request_wf b' r'" by (rule request_wf_headers_done [OF wf' r'(2-5)])
    then show ?thesis
      using wf r'(1) same_outside_length [OF r'(2)] by (simp add: calls parser_wf_def invalid_def Let_def)
  next
    assume none: "interpretCookies ?v (headerBuffer p) ?r = None"
      "MaxCookies \<le> count_char CHR '';'' (view_string (headerBuffer p) ?v)"
    have "?v = (0, 0) \<or> parseVersionStartsAt p \<le> fst ?v" using tail by (auto simp: tail_inv_def)
    then have "count_char CHR '';'' (view_string (headerBuffer p) ?v) \<le> count_char CHR '';'' seen"
      using view_string_count [of "parseVersionStartsAt p" ?v "CHR '';''" "headerBuffer p"] tail
      by (force simp: tail_inv_def view_string_def)
    then show ?thesis using none by (simp add: calls)
  qed
qed

lemma endOfHeaders_kept:
  assumes "parser_wf p" "tail_inv seen p" "currentParser p \<noteq> parseBody_state"
  shows "kept seen (endOfHeaders lexical p)"
  using interpretImportantHeaders_kept [OF assms(1,2), of lexical] assms(2)
  by (auto simp: tail_inv_def endOfHeaders_def kept_def parser_inv_defs too_many_def invalid_def split: option.splits)

lemma parseNewLine_kept:
  assumes inv: "parser_inv seen p" "valid p" "\<not> finished p" "currentParser p = parseNewLine_state"
  shows "step_kept seen buffer (parseNewLine lexical p buffer)"
proof (cases buffer)
  case Nil
  then show ?thesis using inv by (auto simp: step_kept_def parseNewLine_def)
next
  case (Cons c rest)
  let ?h = "headerBuffer p @ [CHR 0x0A]" and ?p = "p\<lparr>headerBuffer := headerBuffer p @ [CHR 0x0A]\<rparr>"
  show ?thesis
  proof (cases "c \<noteq> CHR 0x0A \<or> length (headerBuffer p) \<ge> headerBufferSize p \<or> length (headerBuffer p) < 1
      \<or> headerBuffer p ! (length (headerBuffer p) - 1) \<noteq> CHR 0x0D")
    case True
    then have "parseNewLine lexical p buffer = Some (invalid Payload_Too_Large p, buffer)"
      by (simp add: Cons parseNewLine_def)
    then show ?thesis using inv by (simp add: step_kept_def parser_inv_defs invalid_def)
  next
    case False
    have moved: "parser_inv (seen @ [c]) ?p" using parser_inv_append [OF inv(1-3), of "[CHR 0x0A]"] inv(4) False by auto
    then have tail: "parser_wf ?p" "tail_inv (seen @ [c]) ?p" using inv by (simp_all add: parser_inv_def reading_inv_def)
    then have name: "parser_inv (seen @ [c]) (?p\<lparr>currentParser := parseHeaderName_state, parseHeaderNameStartsAt := length ?h\<rparr>)"
      by (simp add: parser_inv_defs tail_inv_def)
    have "parseNewLine lexical p buffer =
        (if length ?h > 4 \<and> ?h ! (length ?h - 3) = CHR 0x0A \<and> ?h ! (length ?h - 4) = CHR 0x0D
         then (case endOfHeaders lexical ?p of None \<Rightarrow> None | Some p' \<Rightarrow> Some (p', rest))
         else Some (?p\<lparr>currentParser := parseHeaderName_state, parseHeaderNameStartsAt := length ?h\<rparr>, rest))"
      using False by (simp add: Cons parseNewLine_def Let_def)
    moreover have "kept (seen @ [c]) (endOfHeaders lexical ?p)" using endOfHeaders_kept [OF tail] inv(4) by simp
    ultimately show ?thesis using name too_many_append [of "seen @ [c]" rest]
      by (auto simp: step_kept_def kept_def Cons intro!: exI [of _ "[c]"] split: option.splits)
  qed
qed

lemma less_length_append: "a \<le> length xs \<Longrightarrow> ys \<noteq> [] \<Longrightarrow> a < length xs + length ys"
  by (cases ys) auto

lemma parse_step_kept:
  assumes inv: "parser_inv seen p" "valid p" "\<not> finished p"
  shows "step_kept seen buffer (parse_step lexical p buffer)"
proof (cases "currentParser p")
  case parseVerb_state
  then show ?thesis using inv by (auto simp: parse_step_def intro!: copying_kept finishVerb_kept)
next
  case parsePath_state
  then show ?thesis using inv by (auto simp: parse_step_def intro!: copying_kept finishPath_kept)
next
  case parseVersion_state
  then show ?thesis using inv by (auto simp: parse_step_def intro!: copying_kept finishVersion_kept)
next
  case parseNewLine_state
  then show ?thesis using inv by (simp add: parse_step_def parseNewLine_kept)
next
  case parseHeaderName_state
  have start: "parseVersionStartsAt p \<le> length (headerBuffer p)"
    using inv parseHeaderName_state by (simp add: parser_inv_def reading_inv_def tail_inv_def)
  have "step_kept seen buffer (copying CHR '':'' finishHeaderName p buffer)"
    using inv parseHeaderName_state start
    by (auto intro!: copying_kept finishHeaderName_kept simp: less_length_append)
  moreover have "parser_inv (seen @ [CHR 0x0D])
      (p\<lparr>headerBuffer := headerBuffer p @ [CHR 0x0D], currentParser := parseNewLine_state\<rparr>)"
    if "length (headerBuffer p) < headerBufferSize p"
    using parser_inv_append [OF inv, of "[CHR 0x0D]"] that parseHeaderName_state inv
    by (auto simp: parser_inv_defs tail_inv_def)
  moreover have "parser_inv seen (invalid Payload_Too_Large p)" using inv by (simp add: parser_inv_defs invalid_def)
  ultimately show ?thesis using parseHeaderName_state
    by (cases buffer) (force simp: parse_step_def parseHeaderName_def step_kept_def)+
next
  case parseHeaderSpacing_state
  then show ?thesis using inv by (simp add: parse_step_def parseHeaderSpacing_kept)
next
  case parseHeaderValue_state
  have "parseHeaderValueStartsAt p \<le> length (headerBuffer p)"
    using inv parseHeaderValue_state by (simp add: parser_inv_def reading_inv_def)
  then show ?thesis using inv parseHeaderValue_state
    by (auto simp: parse_step_def less_length_append intro!: copying_kept finishHeaderValue_kept)
next
  case parseBody_state
  obtain room body where push: "pushBodyBytes p buffer (pushBodyBytesState p) = (room, body)" by (meson surj_pair)
  have "parser_inv (seen @ buffer) (fst (the (parseBody p buffer)))" "parseBody p buffer \<noteq> None"
      "snd (the (parseBody p buffer)) \<in> {[], buffer}"
    using inv parseBody_state push by (auto simp: parseBody_def parser_inv_defs invalid_def Let_def)
  moreover have "parser_inv seen (fst (the (parseBody p buffer)))"
    using inv parseBody_state push by (auto simp: parseBody_def parser_inv_defs invalid_def Let_def)
  ultimately show ?thesis using parseBody_state
    by (auto simp: parse_step_def step_kept_def)
qed

lemma process_kept:
  assumes "parser_inv seen p"
  shows "kept (seen @ buffer) (process lexical p buffer)"
  using assms
proof (induction lexical p buffer arbitrary: seen rule: process.induct)
  case (1 lexical p buffer)
  show ?case
  proof (cases "buffer \<noteq> [] \<and> valid p \<and> \<not> finished p")
    case True
    have step: "step_kept seen buffer (parse_step lexical p buffer)"
      using 1(2) True by (intro parse_step_kept) auto
    show ?thesis
    proof (cases "parse_step lexical p buffer")
      case None
      then show ?thesis using step True by (simp add: process.simps [of lexical p buffer] step_kept_def kept_def)
    next
      case (Some r)
      then obtain p' rest copied where r: "r = (p', rest)" "buffer = copied @ rest" "parser_inv (seen @ copied) p'"
        using step by (auto simp: step_kept_def)
      moreover have "process lexical p buffer = process lexical p' rest"
        using Some True r(1) by (subst process.simps) simp
      ultimately show ?thesis using 1(1) [OF True Some, of p' rest "seen @ copied"] by simp
    qed
  next
    case False
    then show ?thesis using 1(2)
      by (auto simp: process.simps [of lexical p buffer] kept_def parser_inv_def)
  qed
qed

lemma process_reads_kept: "parser_inv seen p \<Longrightarrow> kept (seen @ concat reads) (process_reads lexical reads p)"
proof (induction reads arbitrary: seen p)
  case Nil
  then show ?case by (simp add: process_reads_def kept_def)
next
  case (Cons b reads)
  show ?case
  proof (cases "process lexical p b")
    case None
    then show ?thesis using process_kept [OF Cons.prems, of b lexical] too_many_append [of "seen @ b" "concat reads"]
      by (simp add: process_reads_def kept_def)
  next
    case (Some p')
    then have "parser_inv (seen @ b) p'" using process_kept [OF Cons.prems, of b lexical] by (simp add: kept_def)
    from Cons.IH [OF this] show ?thesis using Some by (simp add: process_reads_def)
  qed
qed

end
