(* ===== verification/HttpParserBehaviour.thy ===== *)
theory HttpParserBehaviour
  imports HttpParserLemmas
begin

section \<open>What the parser makes of a request\<close>

text \<open>
  The result does not depend on how the header of a request is cut into chunks, and the parser recovers
  what a client put into a request: the decoded path, the query pairs and the headers.
\<close>

subsection \<open>Chunks\<close>

lemma process_Nil [simp]: "process lexical p [] = Some p"
  by (simp add: process.simps)

lemma process_stopped: "\<not> valid p \<or> finished p \<Longrightarrow> process lexical p buffer = Some p"
  by (subst process.simps) auto

lemma process_step:
  "buffer \<noteq> [] \<Longrightarrow> valid p \<Longrightarrow> \<not> finished p \<Longrightarrow>
    process lexical p buffer = (case parse_step lexical p buffer of None \<Rightarrow> None | Some (p', rest) \<Rightarrow> process lexical p' rest)"
  by (subst process.simps) simp

lemma parse_step_simps:
  "currentParser p = parseVerb_state \<Longrightarrow> parse_step lexical p buffer = copying CHR '' '' finishVerb p buffer"
  "currentParser p = parsePath_state \<Longrightarrow> parse_step lexical p buffer = copying CHR '' '' finishPath p buffer"
  "currentParser p = parseVersion_state \<Longrightarrow> parse_step lexical p buffer = copying CHR 0x0D finishVersion p buffer"
  "currentParser p = parseNewLine_state \<Longrightarrow> parse_step lexical p buffer = parseNewLine lexical p buffer"
  "currentParser p = parseHeaderName_state \<Longrightarrow> parse_step lexical p buffer = parseHeaderName p buffer"
  "currentParser p = parseHeaderSpacing_state \<Longrightarrow> parse_step lexical p buffer = parseHeaderSpacing p buffer"
  "currentParser p = parseHeaderValue_state \<Longrightarrow> parse_step lexical p buffer = copying CHR 0x0D finishHeaderValue p buffer"
  "currentParser p = parseBody_state \<Longrightarrow> parse_step lexical p buffer = parseBody p buffer"
  by (simp_all add: parse_step_def)

lemma parseHeaderName_simps:
  "parseHeaderName p (CHR 0x0D # buffer) =
    (if length (headerBuffer p) \<ge> headerBufferSize p then Some (invalid Payload_Too_Large p, CHR 0x0D # buffer)
     else Some (p\<lparr>headerBuffer := headerBuffer p @ [CHR 0x0D], currentParser := parseNewLine_state\<rparr>, buffer))"
  "buffer = [] \<or> hd buffer \<noteq> CHR 0x0D \<Longrightarrow> parseHeaderName p buffer = copying CHR '':'' finishHeaderName p buffer"
  by (auto simp: parseHeaderName_def split: list.split)

lemma parseHeaderSpacing_simps:
  "dropWhile (\<lambda>c. c = CHR '' '') buffer = [] \<Longrightarrow> parseHeaderSpacing p buffer = Some (p, [])"
  "dropWhile (\<lambda>c. c = CHR '' '') buffer = c # rest \<Longrightarrow> parseHeaderSpacing p buffer =
    Some (p\<lparr>currentParser := parseHeaderValue_state, parseHeaderValueStartsAt := length (headerBuffer p)\<rparr>, c # rest)"
  by (simp_all only: parseHeaderSpacing_def Let_def) simp_all

lemma copyUntil_append:
  "copyUntil c capacity header (a @ b) =
    (case copyUntil c capacity header a of
       (InputEnded, header', rest) \<Rightarrow> copyUntil c capacity header' b
     | (r, header', rest) \<Rightarrow> (r, header', rest @ b))"
  by (induction c capacity header a rule: copyUntil.induct) auto

lemma copying_update:
  "copying c k (p\<lparr>headerBuffer := h\<rparr>) b =
    (case copyUntil c (headerBufferSize p) h b of
       (Reached, header, rest) \<Rightarrow> (case k (p\<lparr>headerBuffer := header\<rparr>) of None \<Rightarrow> None | Some p' \<Rightarrow> Some (p', rest))
     | (InputEnded, header, rest) \<Rightarrow> Some (p\<lparr>headerBuffer := header\<rparr>, rest)
     | (NoRoom, header, rest) \<Rightarrow> Some (invalid Payload_Too_Large (p\<lparr>headerBuffer := header\<rparr>), rest))"
  by (simp add: copying_def split: prod.split copy_result.split)

text \<open>What a step makes of a longer buffer: the rest grows, or the step goes on where it ran out of input.\<close>

lemma copying_append:
  assumes "copying c k p a = Some (q, rest)" "valid p" "\<not> finished p"
  shows "copying c k p (a @ b) = Some (q, rest @ b)
    \<or> rest = [] \<and> q = p\<lparr>headerBuffer := headerBuffer q\<rparr> \<and> length (headerBuffer q) = length (headerBuffer p) + length a
        \<and> copying c k p (a @ b) = copying c k q b"
proof -
  obtain r header rest' where copy: "copyUntil c (headerBufferSize p) (headerBuffer p) a = (r, header, rest')"
    by (cases "copyUntil c (headerBufferSize p) (headerBuffer p) a") auto
  show ?thesis
  proof (cases r)
    case InputEnded
    obtain copied where "header = headerBuffer p @ copied" "a = copied @ rest'" "rest' = []"
      using copyUntil_split [OF copy] InputEnded by metis
    moreover from this have "q = p\<lparr>headerBuffer := header\<rparr>" "rest = []"
      using assms(1) copy InputEnded by (simp_all add: copying_def)
    moreover have "copying c k p (a @ b) = copying c k (p\<lparr>headerBuffer := header\<rparr>) b"
      unfolding copying_update using copy InputEnded by (simp add: copying_def copyUntil_append)
    ultimately show ?thesis by simp
  qed (use assms(1) copy in \<open>auto simp: copying_def copyUntil_append split: option.splits\<close>)
qed

definition cut_in_name :: "'b http_parser \<Rightarrow> string \<Rightarrow> bool" where
  "cut_in_name q b \<longleftrightarrow>
     currentParser q = parseHeaderName_state \<and> parseHeaderNameStartsAt q < length (headerBuffer q) \<and> b \<noteq> [] \<and> hd b = CHR 0x0D"

lemma copying_step_append:
  assumes copy: "copying c k p a = Some (q, rest)" and reading: "valid p" "\<not> finished p"
    and longer: "parse_step lexical p (a @ b) = copying c k p (a @ b)"
    and onward: "rest = [] \<Longrightarrow> currentParser q = currentParser p \<Longrightarrow> parseHeaderNameStartsAt q = parseHeaderNameStartsAt p
      \<Longrightarrow> length (headerBuffer q) = length (headerBuffer p) + length a \<Longrightarrow> parse_step lexical q b = copying c k q b"
  shows "parse_step lexical p (a @ b) = Some (q, rest @ b)
    \<or> rest = [] \<and> valid q \<and> \<not> finished q \<and> parse_step lexical p (a @ b) = parse_step lexical q b"
  using copying_append [OF copy reading, of b]
proof (elim disjE conjE)
  assume q: "rest = []" "q = p\<lparr>headerBuffer := headerBuffer q\<rparr>" "copying c k p (a @ b) = copying c k q b"
    "length (headerBuffer q) = length (headerBuffer p) + length a"
  have "currentParser q = currentParser p" "valid q = valid p" "finished q = finished p"
      "parseHeaderNameStartsAt q = parseHeaderNameStartsAt p"
    by (subst q(2), simp)+
  then show ?thesis using q longer onward reading by simp
qed (simp add: longer)

lemma copying_state_append:
  fixes p :: "'b http_parser"
  assumes copies: "\<And>(p' :: 'b http_parser) buffer. currentParser p' = currentParser p \<Longrightarrow> parse_step lexical p' buffer = copying c k p' buffer"
    and step: "parse_step lexical p a = Some (q, rest)" and reading: "valid p" "\<not> finished p"
  shows "parse_step lexical p (a @ b) = Some (q, rest @ b)
    \<or> rest = [] \<and> valid q \<and> \<not> finished q \<and> parse_step lexical p (a @ b) = parse_step lexical q b"
proof (rule copying_step_append [OF _ reading])
  show "copying c k p a = Some (q, rest)" using step copies [OF refl] by metis
  show "parse_step lexical p (a @ b) = copying c k p (a @ b)" by (rule copies [OF refl])
  show "parse_step lexical q b = copying c k q b" if "currentParser q = currentParser p" by (rule copies [OF that])
qed

lemma parseNewLine_append:
  "a \<noteq> [] \<Longrightarrow> parseNewLine lexical p (a @ b) = map_option (\<lambda>(q, rest). (q, rest @ b)) (parseNewLine lexical p a)"
  by (cases a) (simp_all add: parseNewLine_def Let_def split: option.split)

lemma parse_step_append:
  assumes step: "parse_step lexical p a = Some (q, rest)" and reading: "valid p" "\<not> finished p" and a: "a \<noteq> []"
    and inv: "parser_inv seen p" and state: "currentParser p \<noteq> parseBody_state"
    and cut: "rest = [] \<longrightarrow> \<not> cut_in_name q b" and b: "b \<noteq> []"
  shows "parse_step lexical p (a @ b) = Some (q, rest @ b)
    \<or> rest = [] \<and> valid q \<and> \<not> finished q \<and> parse_step lexical p (a @ b) = parse_step lexical q b"
proof (cases "currentParser p")
  case parseNewLine_state
  then show ?thesis using step by (simp add: parse_step_simps parseNewLine_append [OF a])
next
  case parseHeaderSpacing_state
  let ?d = "dropWhile (\<lambda>c. c = CHR '' '') a"
  have drop: "dropWhile (\<lambda>c. c = CHR '' '') (a @ b) = (if ?d = [] then dropWhile (\<lambda>c. c = CHR '' '') b else ?d @ b)"
    by (simp only: dropWhile_append dropWhile_eq_Nil_conv)
  have spacing: "parseHeaderSpacing p a = Some (q, rest)" using step parseHeaderSpacing_state by (simp add: parse_step_simps)
  show ?thesis
  proof (cases "?d")
    case Nil
    have "q = p" "rest = []" using spacing parseHeaderSpacing_simps(1) [OF Nil, of p] by auto
    moreover have "parseHeaderSpacing p (a @ b) = parseHeaderSpacing p b"
      by (simp only: parseHeaderSpacing_def drop Nil if_True simp_thms)
    ultimately show ?thesis using reading parseHeaderSpacing_state by (simp add: parse_step_simps)
  next
    case (Cons c d)
    then have "dropWhile (\<lambda>c. c = CHR '' '') (a @ b) = c # d @ b" by (simp only: drop) simp
    then show ?thesis using spacing parseHeaderSpacing_state parseHeaderSpacing_simps(2) [OF Cons, of p]
        parseHeaderSpacing_simps(2) [of "a @ b" c "d @ b" p] by (simp add: parse_step_simps)
  qed
next
  case parseHeaderName_state
  show ?thesis
  proof (cases "hd a = CHR 0x0D")
    case True
    then obtain a' where "a = CHR 0x0D # a'" using a by (cases a) auto
    then show ?thesis using step parseHeaderName_state
      by (simp add: parse_step_simps parseHeaderName_simps(1) split: if_splits)
  next
    case False
    have start: "parseHeaderNameStartsAt p \<le> length (headerBuffer p)"
      using inv reading parseHeaderName_state by (simp add: parser_inv_def reading_inv_def)
    have step_copies: "parse_step lexical p' buffer = copying CHR '':'' finishHeaderName p' buffer"
      if "currentParser p' = parseHeaderName_state" "hd buffer \<noteq> CHR 0x0D" for p' buffer
      using that by (simp add: parse_step_simps parseHeaderName_simps(2))
    show ?thesis
    proof (rule copying_step_append [OF _ reading])
      show "copying CHR '':'' finishHeaderName p a = Some (q, rest)" using step step_copies [OF parseHeaderName_state False] by simp
      show "parse_step lexical p (a @ b) = copying CHR '':'' finishHeaderName p (a @ b)"
        using step_copies [OF parseHeaderName_state, of "a @ b"] False a by simp
      show "parse_step lexical q b = copying CHR '':'' finishHeaderName q b"
        if "rest = []" "currentParser q = currentParser p" "parseHeaderNameStartsAt q = parseHeaderNameStartsAt p"
          "length (headerBuffer q) = length (headerBuffer p) + length a"
        using that cut b a start parseHeaderName_state by (intro step_copies) (auto simp: cut_in_name_def less_length_append)
    qed
  qed
next
  case parseVerb_state
  show ?thesis
    by (rule copying_state_append [OF _ step reading]) (rule parse_step_simps(1), simp add: parseVerb_state)
next
  case parsePath_state
  show ?thesis
    by (rule copying_state_append [OF _ step reading]) (rule parse_step_simps(2), simp add: parsePath_state)
next
  case parseVersion_state
  show ?thesis
    by (rule copying_state_append [OF _ step reading]) (rule parse_step_simps(3), simp add: parseVersion_state)
next
  case parseHeaderValue_state
  show ?thesis
    by (rule copying_state_append [OF _ step reading]) (rule parse_step_simps(7), simp add: parseHeaderValue_state)
next
  case parseBody_state
  then show ?thesis using state by simp
qed

text \<open>The state of the body is not left: its end and its errors stop the parser.\<close>

lemma body_stays:
  assumes "process lexical p a = Some q" "currentParser p = parseBody_state"
  shows "currentParser q = parseBody_state"
  using assms
proof (induction lexical p a rule: process.induct)
  case (1 lexical p buffer)
  show ?case
  proof (cases "buffer \<noteq> [] \<and> valid p \<and> \<not> finished p")
    case True
    then obtain p' rest where step: "parse_step lexical p buffer = Some (p', rest)" "process lexical p' rest = Some q"
      using 1(2) by (auto simp: process_step split: option.splits)
    then have "currentParser p' = parseBody_state"
      using 1(3) by (auto simp: parse_step_def parseBody_def invalid_def Let_def split: prod.splits if_splits)
    then show ?thesis using 1(1) [OF True step(1)] step(2) by simp
  next
    case False
    then show ?thesis using 1(2,3) by (simp add: process.simps [of lexical p buffer] split: if_splits)
  qed
qed

lemma process_append:
  assumes "process lexical p a = Some q" "parser_inv seen p"
    and "currentParser q \<noteq> parseBody_state" "\<not> cut_in_name q b"
  shows "process lexical p (a @ b) = process lexical q b"
  using assms
proof (induction lexical p a arbitrary: seen rule: process.induct)
  case (1 lexical p a)
  show ?case
  proof (cases "a \<noteq> [] \<and> valid p \<and> \<not> finished p \<and> b \<noteq> []")
    case True
    then obtain p' rest where step: "parse_step lexical p a = Some (p', rest)" "process lexical p' rest = Some q"
      using 1(2) by (auto simp: process_step split: option.splits)
    have "currentParser p \<noteq> parseBody_state" using body_stays [OF 1(2)] 1(4) by blast
    moreover have "rest = [] \<longrightarrow> \<not> cut_in_name p' b" using step(2) 1(5) by auto
    moreover obtain copied where "parser_inv (seen @ copied) p'"
      using parse_step_kept [OF 1(3), of a lexical] True step(1) by (auto simp: step_kept_def)
    ultimately show ?thesis
      using parse_step_append [OF step(1) _ _ _ 1(3), of b] True 1(1) [OF _ step(1) refl step(2)] 1(4,5) step(2)
      by (auto simp: process_step)
  next
    case False
    then show ?thesis using 1(2) process_stopped [of p lexical] by auto
  qed
qed

subsection \<open>The query of a path\<close>

definition encoded :: "string \<Rightarrow> string" where
  "encoded s = urlEncode (3 * length s) s"

fun render_query :: "(string \<times> string) list \<Rightarrow> string" where
  "render_query [] = []"
| "render_query [(k, v)] = encoded k @ ''='' @ encoded v"
| "render_query ((k, v) # p # ps) = encoded k @ ''='' @ encoded v @ ''&'' @ render_query (p # ps)"

lemma decode_encoded [simp]: "decodeUrlEncoding (encoded s) = s"
  by (simp add: encoded_def decode_urlEncode)

lemma encoded_avoids:
  assumes "ReservedCharactersForUrlEncoding ! code d \<noteq> 0" "d \<notin> set (CHR ''%'' # HexToStringUpperCase)"
  shows "d \<notin> set (encoded s)"
proof -
  have "HexToStringUpperCase ! n \<in> set HexToStringUpperCase" if "n < 16" for n
    using that by (intro nth_mem) (simp add: HexToStringUpperCase_def)
  moreover have "code c div 16 < 16" "code c mod 16 < 16" for c using code_less [of c] by simp_all
  ultimately have "HexToStringUpperCase ! (code c div 16) \<noteq> d" "HexToStringUpperCase ! (code c mod 16) \<noteq> d" for c
    using assms(2) by (metis list.set_intros(2))+
  then show ?thesis using assms by (auto simp: encoded_def urlEncode_def percentEncode_def)
qed

lemma encoded_plain [simp]:
  "CHR '' '' \<notin> set (encoded s)" "CHR ''?'' \<notin> set (encoded s)" "CHR ''='' \<notin> set (encoded s)" "CHR ''&'' \<notin> set (encoded s)"
  by (rule encoded_avoids; simp add: ReservedCharactersForUrlEncoding_def HexToStringUpperCase_def code_def nth_append)+

lemma fold_option_append:
  "fold_option f (xs @ ys) s = (case fold_option f xs s of None \<Rightarrow> None | Some s' \<Rightarrow> fold_option f ys s')"
  by (induction xs arbitrary: s) (auto split: option.split)

lemma fold_option_split:
  assumes "fold_option f [i..<j] s = Some s'" "i \<le> j" "j \<le> n"
  shows "fold_option f [i..<n] s = fold_option f [j..<n] s'"
proof -
  have "[i..<n] = [i..<j] @ [j..<n]" using assms(2,3) by (metis le_Suc_ex upt_add_eq_append)
  then show ?thesis using assms(1) by (simp add: fold_option_append)
qed

lemma fold_option_stays:
  assumes "\<And>k. i \<le> k \<Longrightarrow> k < j \<Longrightarrow> f k s = Some s"
  shows "fold_option f [i..<j] s = Some s"
proof -
  have "\<forall>k \<in> set ks. f k s = Some s \<Longrightarrow> fold_option f ks s = Some s" for ks by (induction ks) auto
  then show ?thesis using assms by simp
qed

text \<open>A view that ends before a region keeps its text when the region changes.\<close>

lemma view_before:
  assumes "same_outside a b x y" "fst v + snd v \<le> a"
  shows "view_string y v = view_string x v"
proof -
  have "take (fst v + snd v) y = take (fst v + snd v) x"
    using assms by (intro nth_equalityI) (auto simp: same_outside_def)
  then show ?thesis unfolding view_string_def
    by (metis add.commute take_drop)
qed

lemma drop_at:
  assumes "drop (ps + i) b = xs @ c # rest"
  shows "b ! (ps + i + length xs) = c" "ps + i + length xs < length b"
    "\<And>k. k < length xs \<Longrightarrow> b ! (ps + i + k) = xs ! k"
proof -
  have len: "length b - (ps + i) = length xs + Suc (length rest)" using arg_cong [OF assms, of length] by simp
  have nth: "b ! (ps + i + k) = (xs @ c # rest) ! k" if "k \<le> length xs" for k
    using assms len that by (metis add_diff_cancel_left' add_leE diff_is_0_eq' le_add1 nat_le_linear nth_drop zero_neq_one add_Suc_right nat.distinct(1))
  show "b ! (ps + i + length xs) = c" using nth [of "length xs"] by simp
  show "ps + i + length xs < length b" using len by linarith
  show "b ! (ps + i + k) = xs ! k" if "k < length xs" for k using nth [of k] that by (simp add: nth_append)
qed

lemma drop_Cons_nth: "drop i xs = c # rest \<Longrightarrow> xs ! i = c \<and> i < length xs \<and> drop (Suc i) xs = rest"
  by (metis drop_Suc drop_eq_Nil drop_tl linorder_not_le list.distinct(1) list.sel(3) nth_via_drop)

lemma drop_nth_at: "drop i xs = ys @ zs \<Longrightarrow> k < length ys \<Longrightarrow> xs ! (i + k) = ys ! k"
proof -
  assume a: "drop i xs = ys @ zs" "k < length ys"
  then have "i \<le> length xs" by (cases "i \<le> length xs") auto
  then have "xs ! (i + k) = drop i xs ! k" by simp
  then show "xs ! (i + k) = ys ! k" using a by (simp add: nth_append)
qed

lemma drop_further: "drop i xs = ys @ zs \<Longrightarrow> drop (i + length ys) xs = zs"
  by (metis add.commute append_eq_conv_conj drop_drop)

lemma decoded_region_ends:
  assumes "decoded_region base start stop b = (v, b')" "base + stop \<le> length b"
  shows "fst v + snd v \<le> base + stop"
proof (cases "stop > start")
  case True
  then have "viewAfterDecodingUrlEncodingInPlace (base + start) (stop - start) b = (v, b')"
    using assms by (simp add: decoded_region_def)
  from decoded_view [OF this] True assms(2) have "fst v = base + start" "snd v \<le> stop - start" by simp_all
  then show ?thesis using True by simp
qed (use assms in \<open>auto simp: decoded_region_def\<close>)

text \<open>One pair: the scan at the start of its key comes to its delimiter.\<close>

lemma query_pair_reached:
  fixes s :: path_scan
  assumes layout: "drop (ps + i) (scan_buffer s) = encoded k @ CHR ''='' # encoded v @ c # rest"
    and n: "n = i2 + 1 + length rest" and ends: "i1 = i + length (encoded k)" "i2 = i1 + 1 + length (encoded v)"
    and state: "scan_state s = 1"
  shows "fold_option (interpretPathString_step ps n) [i..<n] s =
      fold_option (interpretPathString_step ps n) [i2..<n] (s\<lparr>keyEnd := i1, scan_state := 2, valueStart := i1 + 1\<rparr>)"
    and "scan_buffer s ! (ps + i2) = c" and "ps + i2 < length (scan_buffer s)"
    and "drop (ps + i1 + 1) (scan_buffer s) = encoded v @ c # rest"
proof -
  let ?f = "interpretPathString_step ps n"
  let ?b = "scan_buffer s"
  have at1: "drop (ps + i1) ?b = CHR ''='' # encoded v @ c # rest"
    using drop_further [OF layout] by (simp add: ends add.assoc)
  show at1': "drop (ps + i1 + 1) ?b = encoded v @ c # rest" using drop_Cons_nth [OF at1] by simp
  have at2: "drop (ps + i2) ?b = c # rest"
    using drop_further [OF at1'] by (simp add: ends add.assoc)
  show "?b ! (ps + i2) = c" "ps + i2 < length ?b" using drop_Cons_nth [OF at2] by auto
  have eq: "?b ! (ps + i1) = CHR ''=''" using drop_Cons_nth [OF at1] by auto
  have key: "?b ! (ps + j) \<noteq> CHR ''=''" if "i \<le> j" "j < i1" for j
  proof -
    have "?b ! (ps + i + (j - i)) = encoded k ! (j - i)" using that by (intro drop_nth_at [OF layout]) (auto simp: ends)
    moreover have "encoded k ! (j - i) \<in> set (encoded k)" using that by (intro nth_mem) (simp add: ends)
    ultimately show ?thesis using that(1) encoded_plain(3) [of k] by (metis add.assoc le_add_diff_inverse)
  qed
  have val: "?b ! (ps + j) \<noteq> CHR ''&''" if "i1 < j" "j < i2" for j
  proof -
    have "?b ! (ps + i1 + 1 + (j - i1 - 1)) = encoded v ! (j - i1 - 1)" using that by (intro drop_nth_at [OF at1']) (auto simp: ends)
    moreover have "encoded v ! (j - i1 - 1) \<in> set (encoded v)" using that by (intro nth_mem) (simp add: ends)
    moreover have "ps + i1 + 1 + (j - i1 - 1) = ps + j" using that(1) by simp
    ultimately show ?thesis using encoded_plain(4) [of v] by metis
  qed
  define s1 where "s1 = s\<lparr>keyEnd := i1, scan_state := 2, valueStart := i1 + 1\<rparr>"
  have "fold_option ?f [i..<i1] s = Some s"
    by (rule fold_option_stays) (simp add: interpretPathString_step_def state key)
  then have "fold_option ?f [i..<n] s = fold_option ?f [i1..<n] s"
    by (rule fold_option_split) (simp_all add: ends n)
  moreover have "?f i1 s = Some s1" by (simp add: interpretPathString_step_def state eq s1_def)
  then have "fold_option ?f [i1..<n] s = fold_option ?f [i1 + 1..<n] s1"
    using n by (subst upt_conv_Cons) (simp_all add: ends)
  moreover have "fold_option ?f [i1 + 1..<i2] s1 = Some s1"
    by (rule fold_option_stays) (use val n in \<open>simp add: interpretPathString_step_def s1_def\<close>)
  then have "fold_option ?f [i1 + 1..<n] s1 = fold_option ?f [i2..<n] s1"
    by (rule fold_option_split) (simp_all add: ends n)
  ultimately show "fold_option ?f [i..<n] s = fold_option ?f [i2..<n] (s\<lparr>keyEnd := i1, scan_state := 2, valueStart := i1 + 1\<rparr>)"
    by (simp add: s1_def)
qed

text \<open>The delimiter adds the pair, or there is no room for it.\<close>

lemma query_pair_no_room:
  assumes layout: "drop (ps + i) (scan_buffer s) = encoded k @ CHR ''='' # encoded v @ c # rest"
    and delim: "c = CHR ''&'' \<or> rest = []" and n: "n = i + length (encoded k) + length (encoded v) + 2 + length rest"
    and state: "scan_state s = 1" and full: "length (queryPairs (scan_request s)) \<ge> MaxQueryPairs"
  shows "fold_option (interpretPathString_step ps n) [i..<n] s = None"
proof -
  define i1 where "i1 = i + length (encoded k)"
  define i2 where "i2 = i1 + 1 + length (encoded v)"
  have n2: "n = i2 + 1 + length rest" using n by (simp add: i1_def i2_def)
  note reached = query_pair_reached [OF layout n2 i1_def i2_def state]
  have "interpretPathString_step ps n i2 (s\<lparr>keyEnd := i1, scan_state := 2, valueStart := i1 + 1\<rparr>) = None"
    using delim full n2 by (auto simp: interpretPathString_step_def reached(2) addQueryPair_def split: prod.split)
  then show ?thesis using n2 unfolding reached(1) by (subst upt_conv_Cons) simp_all
qed

lemma query_pair_scanned:
  fixes s :: path_scan
  assumes layout: "drop (ps + i) (scan_buffer s) = encoded k @ CHR ''='' # encoded v @ c # rest"
    and delim: "c = CHR ''&'' \<or> rest = []" and n: "n = i + length (encoded k) + length (encoded v) + 2 + length rest"
    and state: "scan_state s = 1" "keyStart s = i" "keyEnd s = i"
    and room: "length (queryPairs (scan_request s)) < MaxQueryPairs"
  obtains s' kv vv where "fold_option (interpretPathString_step ps n) [i..<n] s =
      fold_option (interpretPathString_step ps n) [i + length (encoded k) + length (encoded v) + 2..<n] s'"
    "scan_state s' = 1" "keyStart s' = i + length (encoded k) + length (encoded v) + 2"
    "keyEnd s' = i + length (encoded k) + length (encoded v) + 2"
    "scan_request s' = (scan_request s)\<lparr>queryPairs := queryPairs (scan_request s) @ [(kv, vv)]\<rparr>"
    "view_string (scan_buffer s') kv = k" "view_string (scan_buffer s') vv = v"
    "fst kv + snd kv \<le> ps + keyStart s'" "fst vv + snd vv \<le> ps + keyStart s'"
    "same_outside (ps + i) (ps + keyStart s' - 1) (scan_buffer s) (scan_buffer s')"
proof -
  let ?f = "interpretPathString_step ps n"
  let ?b = "scan_buffer s"
  define i1 where "i1 = i + length (encoded k)"
  define i2 where "i2 = i1 + 1 + length (encoded v)"
  have n2: "n = i2 + 1 + length rest" and stop: "i + length (encoded k) + length (encoded v) + 2 = i2 + 1"
    using n by (simp_all add: i1_def i2_def)
  note reached = query_pair_reached [OF layout n2 i1_def i2_def state(1)]
  note at1' = reached(4)
  have chars: "?b ! (ps + i2) = c" "ps + i2 < length ?b" by (rule reached)+
  define s1 where "s1 = s\<lparr>keyEnd := i1, scan_state := 2, valueStart := i1 + 1\<rparr>"
  have f3: "fold_option ?f [i..<n] s = fold_option ?f [i2..<n] s1" unfolding s1_def by (rule reached(1))
  obtain kv b1 where kv: "decoded_region ps i i1 ?b = (kv, b1)" by (meson surj_pair)
  obtain vv b2 where vv: "decoded_region ps (i1 + 1) i2 b1 = (vv, b2)" by (meson surj_pair)
  have o1: "same_outside (ps + i) (ps + i1) ?b b1" "view_string b1 kv = k"
  proof -
    have "take (i1 - i) (drop (ps + i) ?b) = encoded k" by (simp add: layout i1_def)
    then show "same_outside (ps + i) (ps + i1) ?b b1" "view_string b1 kv = k"
      using decoded_region_view [OF kv] chars(2) by (simp_all add: i2_def)
  qed
  have len1: "length b1 = length ?b" using o1(1) by (rule same_outside_length)
  have o2: "same_outside (ps + (i1 + 1)) (ps + i2) b1 b2" "view_string b2 vv = v"
  proof -
    have "drop (ps + (i1 + 1)) b1 = encoded v @ c # rest"
      using same_outside_drop [OF o1(1), of "ps + i1 + 1"] at1' by (simp add: add.assoc)
    then have "take (i2 - (i1 + 1)) (drop (ps + (i1 + 1)) b1) = encoded v" by (simp add: i2_def)
    then show "same_outside (ps + (i1 + 1)) (ps + i2) b1 b2" "view_string b2 vv = v"
      using decoded_region_view [OF vv] chars(2) len1 by simp_all
  qed
  have kvb: "fst kv + snd kv \<le> ps + i1" and vvb: "fst vv + snd vv \<le> ps + i2"
    using decoded_region_ends [OF kv] decoded_region_ends [OF vv] chars(2) len1 by (simp_all add: i2_def)
  define s' where "s' = s1\<lparr>scan_request := (scan_request s)\<lparr>queryPairs := queryPairs (scan_request s) @ [(kv, vv)]\<rparr>,
      scan_buffer := b2, keyStart := i2 + 1, keyEnd := i2 + 1, scan_state := 1\<rparr>"
  have "?f i2 s1 = Some s'"
    using delim room n2 vv by (auto simp: interpretPathString_step_def s1_def s'_def chars state kv addQueryPair_def)
  then have f4: "fold_option ?f [i2..<n] s1 = fold_option ?f [i2 + 1..<n] s'"
    using n2 by (subst upt_conv_Cons) simp_all
  have "view_string b2 kv = k" using view_before [OF o2(1), of kv] kvb o1(2) by simp
  moreover have "same_outside (ps + i) (ps + i2) ?b b2"
    by (rule same_outside_trans [OF o1(1) o2(1)]) (auto simp: i1_def i2_def)
  moreover have "fold_option ?f [i..<n] s = fold_option ?f [i2 + 1..<n] s'" using f3 f4 by (simp only:)
  moreover have "keyStart s' = i2 + 1" "keyEnd s' = i2 + 1" "scan_state s' = 1" "scan_buffer s' = b2"
      "scan_request s' = (scan_request s)\<lparr>queryPairs := queryPairs (scan_request s) @ [(kv, vv)]\<rparr>"
    by (simp_all add: s'_def s1_def)
  moreover have "fst kv + snd kv \<le> ps + (i2 + 1)" "fst vv + snd vv \<le> ps + (i2 + 1)" using kvb vvb by (simp_all add: i2_def)
  ultimately show ?thesis
    using o2(2) by (intro that [of s' kv vv]) (simp_all only: stop add_diff_cancel_right' add.assoc [symmetric])
qed

definition pair_texts :: "string \<Rightarrow> (http_view \<times> http_view) list \<Rightarrow> (string \<times> string) list" where
  "pair_texts buffer ps = map (\<lambda>(a, b). (view_string buffer a, view_string buffer b)) ps"

definition pairs_end :: "nat \<Rightarrow> (http_view \<times> http_view) list \<Rightarrow> bool" where
  "pairs_end e ps \<longleftrightarrow> (\<forall>(a, b) \<in> set ps. fst a + snd a \<le> e \<and> fst b + snd b \<le> e)"

lemma pair_texts_same: "same_outside a e x y \<Longrightarrow> pairs_end a ps \<Longrightarrow> pair_texts y ps = pair_texts x ps"
  by (force simp: pair_texts_def pairs_end_def dest: view_before)

lemma pairs_end_mono: "pairs_end d ps \<Longrightarrow> d \<le> e \<Longrightarrow> pairs_end e ps"
  by (force simp: pairs_end_def)

lemma length_render_query_Cons:
  "length (render_query ((k, v) # q)) = length (encoded k) + length (encoded v) + 1 + (if q = [] then 0 else 1 + length (render_query q))"
  by (cases q) auto

lemma drop_pair:
  assumes "drop (ps + i) b = encoded k @ CHR ''='' # encoded v @ c # rest"
  shows "drop (ps + (i + length (encoded k) + length (encoded v) + 2)) b = rest"
proof -
  have "drop (ps + i) b = (encoded k @ ''='' @ encoded v @ [c]) @ rest" using assms by simp
  from drop_further [OF this] show ?thesis by (simp add: algebra_simps)
qed

lemma query_overflows:
  assumes "drop (ps + i) (scan_buffer s) = render_query q @ '' ''" "q \<noteq> []" "n = i + length (render_query q) + 1"
    "scan_state s = 1" "keyStart s = i" "keyEnd s = i"
    "length (queryPairs (scan_request s)) + length q > MaxQueryPairs"
  shows "fold_option (interpretPathString_step ps n) [i..<n] s = None"
  using assms
proof (induction q arbitrary: i s)
  case (Cons p q)
  obtain k v where p: "p = (k, v)" by force
  define c where "c = (if q = [] then CHR '' '' else CHR ''&'')"
  define rest where "rest = (if q = [] then [] else render_query q @ '' '')"
  define j where "j = i + length (encoded k) + length (encoded v) + 2"
  have layout: "drop (ps + i) (scan_buffer s) = encoded k @ CHR ''='' # encoded v @ c # rest"
    using Cons.prems(1) by (cases q) (simp_all add: p c_def rest_def)
  have n: "n = i + length (encoded k) + length (encoded v) + 2 + length rest"
    using Cons.prems(3) by (simp add: p length_render_query_Cons rest_def)
  have delim: "c = CHR ''&'' \<or> rest = []" by (simp add: c_def rest_def)
  show ?case
  proof (cases "length (queryPairs (scan_request s)) < MaxQueryPairs")
    case False
    then show ?thesis using query_pair_no_room [OF layout delim n Cons.prems(4)] by simp
  next
    case True
    obtain s' kv vv where s': "fold_option (interpretPathString_step ps n) [i..<n] s = fold_option (interpretPathString_step ps n) [j..<n] s'"
      "scan_state s' = 1" "keyStart s' = j" "keyEnd s' = j"
      "scan_request s' = (scan_request s)\<lparr>queryPairs := queryPairs (scan_request s) @ [(kv, vv)]\<rparr>"
      "same_outside (ps + i) (ps + keyStart s' - 1) (scan_buffer s) (scan_buffer s')"
      using query_pair_scanned [OF layout delim n Cons.prems(4-6) True] unfolding j_def by metis
    have q: "q \<noteq> []" using Cons.prems(7) True by auto
    have "drop (ps + j) (scan_buffer s') = drop (ps + j) (scan_buffer s)"
      using same_outside_drop [OF s'(6), of "ps + j"] s'(3) by simp
    also have "\<dots> = rest" using drop_pair [OF layout] by (simp add: j_def add.assoc)
    finally have layout': "drop (ps + j) (scan_buffer s') = render_query q @ '' ''" using q by (simp add: rest_def)
    have "fold_option (interpretPathString_step ps n) [j..<n] s' = None"
    proof (rule Cons.IH [OF layout' q _ s'(2-4)])
      show "n = j + length (render_query q) + 1" using n q by (simp add: j_def rest_def)
      show "MaxQueryPairs < length (queryPairs (scan_request s')) + length q" using Cons.prems(7) by (simp add: s'(5))
    qed
    then show ?thesis using s'(1) by metis
  qed
qed simp

lemma query_scanned:
  assumes "drop (ps + i) (scan_buffer s) = render_query q @ '' ''" "q \<noteq> []" "n = i + length (render_query q) + 1"
    "scan_state s = 1" "keyStart s = i" "keyEnd s = i"
    "length (queryPairs (scan_request s)) + length q \<le> MaxQueryPairs" "pairs_end (ps + i) (queryPairs (scan_request s))"
  shows "\<exists>s'. fold_option (interpretPathString_step ps n) [i..<n] s = Some s'
    \<and> same_outside (ps + i) (ps + n) (scan_buffer s) (scan_buffer s')
    \<and> pair_texts (scan_buffer s') (queryPairs (scan_request s')) = pair_texts (scan_buffer s) (queryPairs (scan_request s)) @ q
    \<and> scan_request s' = (scan_request s)\<lparr>queryPairs := queryPairs (scan_request s')\<rparr>"
  using assms
proof (induction q arbitrary: i s)
  case (Cons p q)
  obtain k v where p: "p = (k, v)" by force
  define c where "c = (if q = [] then CHR '' '' else CHR ''&'')"
  define rest where "rest = (if q = [] then [] else render_query q @ '' '')"
  define j where "j = i + length (encoded k) + length (encoded v) + 2"
  have layout: "drop (ps + i) (scan_buffer s) = encoded k @ CHR ''='' # encoded v @ c # rest"
    using Cons.prems(1) by (cases q) (simp_all add: p c_def rest_def)
  have n: "n = i + length (encoded k) + length (encoded v) + 2 + length rest"
    using Cons.prems(3) by (simp add: p length_render_query_Cons rest_def)
  have delim: "c = CHR ''&'' \<or> rest = []" by (simp add: c_def rest_def)
  have room: "length (queryPairs (scan_request s)) < MaxQueryPairs" using Cons.prems(7) by simp
  obtain s' kv vv where s': "fold_option (interpretPathString_step ps n) [i..<n] s = fold_option (interpretPathString_step ps n) [j..<n] s'"
    "scan_state s' = 1" "keyStart s' = j" "keyEnd s' = j"
    "scan_request s' = (scan_request s)\<lparr>queryPairs := queryPairs (scan_request s) @ [(kv, vv)]\<rparr>"
    "view_string (scan_buffer s') kv = k" "view_string (scan_buffer s') vv = v"
    "fst kv + snd kv \<le> ps + keyStart s'" "fst vv + snd vv \<le> ps + keyStart s'"
    "same_outside (ps + i) (ps + keyStart s' - 1) (scan_buffer s) (scan_buffer s')"
    using query_pair_scanned [OF layout delim n Cons.prems(4-6) room] unfolding j_def by metis
  have texts: "pair_texts (scan_buffer s') (queryPairs (scan_request s')) = pair_texts (scan_buffer s) (queryPairs (scan_request s)) @ [p]"
    using pair_texts_same [OF s'(10) Cons.prems(8)] s' by (simp add: pair_texts_def p)
  show ?case
  proof (cases "q = []")
    case True
    then have "j = n" using n by (simp add: j_def rest_def)
    moreover have "same_outside (ps + i) (ps + n) (scan_buffer s) (scan_buffer s')"
      by (rule same_outside_trans [OF s'(10) same_outside_refl [of "ps + i" "ps + i"]]) (auto simp: s'(3) j_def n)
    ultimately show ?thesis using s' texts True by simp
  next
    case False
    have "drop (ps + j) (scan_buffer s') = drop (ps + j) (scan_buffer s)"
      using same_outside_drop [OF s'(10), of "ps + j"] s'(3) by simp
    also have "\<dots> = render_query q @ '' ''"
      using drop_pair [OF layout] False by (simp add: j_def rest_def add.assoc)
    finally have "drop (ps + j) (scan_buffer s') = render_query q @ '' ''" .
    moreover have "n = j + length (render_query q) + 1" using n False by (simp add: j_def rest_def)
    moreover have "length (queryPairs (scan_request s')) + length q \<le> MaxQueryPairs" using Cons.prems(7) s'(5) by simp
    moreover have "pairs_end (ps + j) (queryPairs (scan_request s'))"
      using s' pairs_end_mono [OF Cons.prems(8), of "ps + j"] by (auto simp: pairs_end_def j_def)
    ultimately obtain s2 where s2: "fold_option (interpretPathString_step ps n) [j..<n] s' = Some s2"
        "same_outside (ps + j) (ps + n) (scan_buffer s') (scan_buffer s2)"
        "pair_texts (scan_buffer s2) (queryPairs (scan_request s2)) = pair_texts (scan_buffer s') (queryPairs (scan_request s')) @ q"
        "scan_request s2 = (scan_request s')\<lparr>queryPairs := queryPairs (scan_request s2)\<rparr>"
      using Cons.IH [of j s'] False s'(2-4) by auto
    have "same_outside (ps + i) (ps + n) (scan_buffer s) (scan_buffer s2)"
      by (rule same_outside_trans [OF s'(10) s2(2)]) (auto simp: s'(3) j_def n)
    moreover have "scan_request s2 = (scan_request s)\<lparr>queryPairs := queryPairs (scan_request s2)\<rparr>"
      by (subst s2(4)) (simp add: s'(5))
    ultimately show ?thesis using s'(1) s2 texts by simp
  qed
qed simp

definition request_target :: "string \<Rightarrow> (string \<times> string) list \<Rightarrow> string" where
  "request_target path q = ''/'' @ encoded path @ (if q = [] then [] else ''?'' @ render_query q)"

text \<open>The scan up to the first character of the query.\<close>

lemma path_scanned:
  assumes layout: "drop ps b = request_target path q @ '' ''" and ps: "ps \<le> length b"
    and n_def: "n = length (request_target path q) + 1" and m_def: "m = Suc (length (encoded path))"
  obtains v b1 where "fold_option (interpretPathString_step ps n) [0..<n]
      \<lparr>scan_state = 0, keyStart = 0, keyEnd = 0, valueStart = 0, scan_request = r, scan_buffer = b\<rparr> =
      fold_option (interpretPathString_step ps n) [m + 1..<n]
        \<lparr>scan_state = 1, keyStart = m + 1, keyEnd = m + 1, valueStart = 0, scan_request = r\<lparr>req_path := v\<rparr>, scan_buffer = b1\<rparr>"
    "length b1 = length b" "fst v + snd v \<le> ps + m" "view_string b1 v = ''/'' @ path"
    "drop (ps + (m + 1)) b1 = (if q = [] then [] else render_query q @ '' '')"
proof -
  define c where "c = (if q = [] then CHR '' '' else CHR ''?'')"
  define rest where "rest = (if q = [] then [] else render_query q @ '' '')"
  let ?f = "interpretPathString_step ps n"
  let ?s = "\<lparr>scan_state = 0, keyStart = 0, keyEnd = 0, valueStart = 0, scan_request = r, scan_buffer = b\<rparr>"
  have split: "drop ps b = (''/'' @ encoded path) @ c # rest" using layout by (simp add: request_target_def c_def rest_def)
  have n_m: "n = m + 1 + length rest" by (simp add: n_def m_def request_target_def rest_def)
  have len: "length b = ps + n" using arg_cong [OF layout, of length] ps by (simp add: n_def)
  have at_m: "b ! (ps + m) = c" "drop (ps + m + 1) b = rest"
    using drop_further [OF split] drop_Cons_nth [of "ps + m" b c rest] by (auto simp: m_def)
  have plain: "b ! (ps + j) \<noteq> CHR ''?''" if "j < m" for j
  proof -
    have "b ! (ps + j) = (''/'' @ encoded path) ! j" using that by (intro drop_nth_at [OF split]) (simp add: m_def)
    moreover have "(''/'' @ encoded path) ! j \<in> set (''/'' @ encoded path)" using that by (intro nth_mem) (simp add: m_def)
    moreover have "CHR ''?'' \<notin> set (''/'' @ encoded path)" by simp
    ultimately show ?thesis by metis
  qed
  have "fold_option ?f [0..<m] ?s = Some ?s"
    by (rule fold_option_stays) (use plain n_m in \<open>simp add: interpretPathString_step_def\<close>)
  then have f1: "fold_option ?f [0..<n] ?s = fold_option ?f [m..<n] ?s"
    by (rule fold_option_split) (simp_all add: n_m)
  obtain v b1 where v: "viewAfterDecodingUrlEncodingInPlace ps m b = (v, b1)" by (meson surj_pair)
  have take_m: "take m (drop ps b) = ''/'' @ encoded path" by (simp add: split m_def)
  have o1: "same_outside ps (ps + m) b b1" "fst v + snd v \<le> ps + m" "view_string b1 v = ''/'' @ path"
    using decoded_view [OF v] len n_m take_m by simp_all
  have "c = CHR ''?'' \<or> m + 1 = n" using n_m by (simp add: c_def rest_def)
  then have "?f m ?s = Some \<lparr>scan_state = 1, keyStart = m + 1, keyEnd = m + 1, valueStart = 0, scan_request = r\<lparr>req_path := v\<rparr>, scan_buffer = b1\<rparr>"
    using v by (auto simp: interpretPathString_step_def at_m)
  then have f2: "fold_option ?f [m..<n] ?s = fold_option ?f [m + 1..<n]
      \<lparr>scan_state = 1, keyStart = m + 1, keyEnd = m + 1, valueStart = 0, scan_request = r\<lparr>req_path := v\<rparr>, scan_buffer = b1\<rparr>"
    using n_m by (subst upt_conv_Cons) simp_all
  have "drop (ps + (m + 1)) b1 = (if q = [] then [] else render_query q @ '' '')"
    using same_outside_drop [OF o1(1), of "ps + (m + 1)"] at_m(2) by (simp add: rest_def)
  then show ?thesis
    using that [of v b1] f1 f2 o1 same_outside_length [OF o1(1)] by simp
qed

lemma path_interpreted:
  assumes layout: "drop ps b = request_target path q @ '' ''" and ps: "ps \<le> length b"
    and r: "snd (req_path r) = length (request_target path q) + 1" "queryPairs r = []" and q: "length q \<le> MaxQueryPairs"
  shows "\<exists>r' b'. interpretPathString ps b r = Some (r', b') \<and> length b' = length b \<and> view_string b' (req_path r') = ''/'' @ path
    \<and> pair_texts b' (queryPairs r') = q \<and> r' = r\<lparr>req_path := req_path r', queryPairs := queryPairs r'\<rparr>"
proof -
  define n where "n = length (request_target path q) + 1"
  define m where "m = Suc (length (encoded path))"
  have rn: "snd (req_path r) = n" using r(1) by (simp add: n_def)
  let ?f = "interpretPathString_step ps n"
  obtain v b1 where scan: "fold_option ?f [0..<n]
      \<lparr>scan_state = 0, keyStart = 0, keyEnd = 0, valueStart = 0, scan_request = r, scan_buffer = b\<rparr> =
      fold_option ?f [m + 1..<n]
        \<lparr>scan_state = 1, keyStart = m + 1, keyEnd = m + 1, valueStart = 0, scan_request = r\<lparr>req_path := v\<rparr>, scan_buffer = b1\<rparr>"
    "length b1 = length b" "fst v + snd v \<le> ps + m" "view_string b1 v = ''/'' @ path"
    "drop (ps + (m + 1)) b1 = (if q = [] then [] else render_query q @ '' '')"
    using path_scanned [OF layout ps n_def m_def, of r] by metis
  define s1 where "s1 = \<lparr>scan_state = 1, keyStart = m + 1, keyEnd = m + 1, valueStart = 0, scan_request = r\<lparr>req_path := v\<rparr>, scan_buffer = b1\<rparr>"
  have n_m: "n = m + 1 + (if q = [] then 0 else length (render_query q) + 1)" by (simp add: n_def m_def request_target_def)
  show ?thesis
  proof (cases "q = []")
    case True
    then show ?thesis using scan r(2) rn n_m
      by (simp add: interpretPathString_def rn pair_texts_def)
  next
    case False
    have layout1: "drop (ps + (m + 1)) (scan_buffer s1) = render_query q @ '' ''" using scan(5) False by (simp add: s1_def)
    have "n = (m + 1) + length (render_query q) + 1" using n_m False by simp
    then obtain s2 where s2: "fold_option ?f [m + 1..<n] s1 = Some s2"
        "same_outside (ps + (m + 1)) (ps + n) (scan_buffer s1) (scan_buffer s2)"
        "pair_texts (scan_buffer s2) (queryPairs (scan_request s2)) = q"
        "scan_request s2 = (scan_request s1)\<lparr>queryPairs := queryPairs (scan_request s2)\<rparr>"
      using query_scanned [OF layout1 False, of n] r q by (auto simp: s1_def pair_texts_def pairs_end_def)
    have whole: "interpretPathString ps b r = Some (scan_request s2, scan_buffer s2)"
      unfolding interpretPathString_def Let_def rn scan(1) s2(1) [unfolded s1_def] by simp
    have path: "req_path (scan_request s2) = v" by (subst s2(4)) (simp add: s1_def)
    have "view_string (scan_buffer s2) v = ''/'' @ path"
      using view_before [OF s2(2), of v] scan(3,4) by (simp add: s1_def)
    moreover have "scan_request s2 = r\<lparr>req_path := v, queryPairs := queryPairs (scan_request s2)\<rparr>"
      by (subst s2(4)) (simp add: s1_def)
    moreover have "length (scan_buffer s2) = length b"
      using same_outside_length [OF s2(2)] scan(2) by (simp add: s1_def)
    ultimately show ?thesis using whole s2(3) path by (intro exI conjI) auto
  qed
qed

lemma path_overflows:
  assumes layout: "drop ps b = request_target path q @ '' ''" and ps: "ps \<le> length b"
    and r: "snd (req_path r) = length (request_target path q) + 1" "queryPairs r = []" and q: "length q > MaxQueryPairs"
  shows "interpretPathString ps b r = None"
proof -
  define n where "n = length (request_target path q) + 1"
  define m where "m = Suc (length (encoded path))"
  have rn: "snd (req_path r) = n" using r(1) by (simp add: n_def)
  let ?f = "interpretPathString_step ps n"
  obtain v b1 where scan: "fold_option ?f [0..<n]
      \<lparr>scan_state = 0, keyStart = 0, keyEnd = 0, valueStart = 0, scan_request = r, scan_buffer = b\<rparr> =
      fold_option ?f [m + 1..<n]
        \<lparr>scan_state = 1, keyStart = m + 1, keyEnd = m + 1, valueStart = 0, scan_request = r\<lparr>req_path := v\<rparr>, scan_buffer = b1\<rparr>"
    "drop (ps + (m + 1)) b1 = (if q = [] then [] else render_query q @ '' '')"
    using path_scanned [OF layout ps n_def m_def, of r] by metis
  have "q \<noteq> []" using q by auto
  then have "fold_option ?f [m + 1..<n]
      \<lparr>scan_state = 1, keyStart = m + 1, keyEnd = m + 1, valueStart = 0, scan_request = r\<lparr>req_path := v\<rparr>, scan_buffer = b1\<rparr> = None"
    using scan(2) r q by (intro query_overflows [of ps "m + 1" _ q]) (simp_all add: n_def m_def request_target_def)
  then show ?thesis using scan(1) by (simp add: interpretPathString_def rn)
qed

subsection \<open>Requests\<close>

definition reached_inv :: "'b http_parser \<Rightarrow> bool" where
  "reached_inv p \<longleftrightarrow> (\<exists>seen. parser_inv seen p)"

lemma reached_inv_process: "reached_inv p \<Longrightarrow> process lexical p a = Some q \<Longrightarrow> reached_inv q"
  using process_kept [of _ p a lexical] by (fastforce simp: reached_inv_def kept_def)

lemma process_then:
  assumes "process lexical p a = Some q" "reached_inv p" "currentParser q \<noteq> parseBody_state" "\<not> cut_in_name q b"
  shows "process lexical p (a @ b) = process lexical q b"
  using assms process_append by (auto simp: reached_inv_def)

lemma copyUntil_found:
  "c \<notin> set xs \<Longrightarrow> length header + length xs < capacity \<Longrightarrow>
    copyUntil c capacity header (xs @ c # rest) = (Reached, header @ xs @ [c], rest)"
  by (induction xs arbitrary: header) auto

text \<open>A part of the request that ends with the character its state looks for.\<close>

lemma process_part:
  assumes "\<And>buffer. buffer \<noteq> [] \<Longrightarrow> hd buffer = hd (xs @ [c]) \<Longrightarrow> parse_step lexical p buffer = copying c k p buffer"
    and "valid p" "\<not> finished p" "c \<notin> set xs" "length (headerBuffer p) + length xs < headerBufferSize p"
  shows "process lexical p (xs @ [c]) = k (p\<lparr>headerBuffer := headerBuffer p @ xs @ [c]\<rparr>)"
proof -
  have "parse_step lexical p (xs @ [c]) = copying c k p (xs @ [c])" by (rule assms(1)) simp_all
  also have "\<dots> = (case k (p\<lparr>headerBuffer := headerBuffer p @ xs @ [c]\<rparr>) of None \<Rightarrow> None | Some p' \<Rightarrow> Some (p', []))"
    using copyUntil_found [OF assms(4,5), of "[]"] by (simp add: copying_def)
  finally show ?thesis using assms(2,3) by (simp add: process_step split: option.split)
qed

definition ready :: "'b http_parser \<Rightarrow> bool" where
  "ready p \<longleftrightarrow> reached_inv p \<and> valid p \<and> \<not> finished p \<and> currentParser p = parseHeaderName_state
     \<and> parseHeaderNameStartsAt p = length (headerBuffer p) \<and> (\<exists>h. headerBuffer p = h @ [CHR 0x0D, CHR 0x0A])"

text \<open>The end of a line that is not the end of the headers.\<close>

lemma process_end_of_line:
  assumes "reached_inv p" "valid p" "\<not> finished p" "currentParser p = parseNewLine_state"
    and buffer: "headerBuffer p = h @ [c, CHR 0x0D]" "length (headerBuffer p) < headerBufferSize p"
    and line: "\<not> (c = CHR 0x0A \<and> h \<noteq> [] \<and> last h = CHR 0x0D)"
  shows "process lexical p [CHR 0x0A] = Some (p\<lparr>headerBuffer := headerBuffer p @ [CHR 0x0A], currentParser := parseHeaderName_state,
      parseHeaderNameStartsAt := length (headerBuffer p) + 1\<rparr>)"
proof -
  have "\<not> (3 < length (headerBuffer p) \<and> (headerBuffer p @ [CHR 0x0A]) ! (length (headerBuffer p) - 2) = CHR 0x0A
      \<and> (headerBuffer p @ [CHR 0x0A]) ! (length (headerBuffer p) - 3) = CHR 0x0D)"
    using line by (cases h rule: rev_cases) (auto simp: buffer nth_append)
  then have "parseNewLine lexical p [CHR 0x0A] = Some (p\<lparr>headerBuffer := headerBuffer p @ [CHR 0x0A],
      currentParser := parseHeaderName_state, parseHeaderNameStartsAt := length (headerBuffer p) + 1\<rparr>, [])"
    using buffer by (auto simp: parseNewLine_def Let_def nth_append)
  then show ?thesis using assms by (simp add: process_step parse_step_simps)
qed

definition plain_header :: "string \<Rightarrow> string \<Rightarrow> bool" where
  "plain_header name val \<longleftrightarrow> CHR '':'' \<notin> set name \<and> (name = [] \<or> hd name \<noteq> CHR 0x0D)
     \<and> CHR 0x0D \<notin> set val \<and> (val = [] \<or> hd val \<noteq> CHR '' '')"

definition header_line :: "string \<times> string \<Rightarrow> string" where
  "header_line = (\<lambda>(name, val). name @ '': '' @ val @ [CHR 0x0D, CHR 0x0A])"

definition set_header :: "http_header \<Rightarrow> http_view \<Rightarrow> http_request \<Rightarrow> http_request" where
  "set_header h v r = (if h = Header_UnknownHeader then r else r\<lparr>req_headers := (req_headers r)(h := v)\<rparr>)"

lemma process_header:
  assumes ready: "ready p" and plain: "plain_header name val"
    and room: "length (headerBuffer p) + length (header_line (name, val)) \<le> headerBufferSize p"
  shows "\<exists>q. process lexical p (header_line (name, val)) = Some q \<and> ready q
    \<and> headerBuffer q = headerBuffer p @ name @ '':'' @ val @ [CHR 0x0D, CHR 0x0A] \<and> headerBufferSize q = headerBufferSize p
    \<and> request q = set_header (matchHttpHeader name) (length (headerBuffer p) + length name + 1, length val) (request p)"
proof -
  let ?H = "headerBuffer p"
  have state: "currentParser p = parseHeaderName_state" "valid p" "\<not> finished p" "reached_inv p" "parseHeaderNameStartsAt p = length ?H"
    using ready by (auto simp: ready_def)
  have bounds: "length ?H + length name < headerBufferSize p" "length ?H + length name + length val + 2 < headerBufferSize p"
    using room by (simp_all add: header_line_def)
  define p1 where "p1 = p\<lparr>headerBuffer := ?H @ name @ '':'', parseCurrentHeaderName := (length ?H, length name),
      currentParser := parseHeaderSpacing_state\<rparr>"
  have "process lexical p (name @ '':'') = finishHeaderName (p\<lparr>headerBuffer := ?H @ name @ '':''\<rparr>)"
    by (rule process_part) (use plain state bounds in \<open>auto simp: parse_step_simps parseHeaderName_simps(2) plain_header_def hd_append split: if_splits\<close>)
  then have 1: "process lexical p (name @ '':'') = Some p1"
    using state by (simp add: finishHeaderName_def p1_def)
  have spacing: "currentParser p1 = parseHeaderSpacing_state" "valid p1" "\<not> finished p1" using state by (simp_all add: p1_def)
  have inv1: "reached_inv p1" by (rule reached_inv_process [OF state(4) 1])
  have 2: "process lexical p1 '' '' = Some p1"
    using spacing by (simp add: process_step parse_step_simps parseHeaderSpacing_simps(1))
  define p2 where "p2 = p1\<lparr>currentParser := parseHeaderValue_state, parseHeaderValueStartsAt := length (headerBuffer p1)\<rparr>"
  define p3 where "p3 = p2\<lparr>headerBuffer := headerBuffer p1 @ val @ [CHR 0x0D], currentParser := parseNewLine_state,
      parseCurrentHeaderValue := (length (headerBuffer p1), length val),
      request := set_header (matchHttpHeader name) (length (headerBuffer p1), length val) (request p)\<rparr>"
  obtain c rest where c: "val @ [CHR 0x0D] = c # rest" by (cases "val @ [CHR 0x0D]") auto
  then have "c \<noteq> CHR '' ''" using plain by (cases val) (auto simp: plain_header_def)
  then have "process lexical p1 (val @ [CHR 0x0D]) = process lexical p2 (val @ [CHR 0x0D])"
    using spacing parseHeaderSpacing_simps(2) [of "c # rest" c rest p1] by (simp add: process_step parse_step_simps c p2_def)
  also have "\<dots> = finishHeaderValue (p2\<lparr>headerBuffer := headerBuffer p2 @ val @ [CHR 0x0D]\<rparr>)"
    by (rule process_part) (use plain spacing bounds in \<open>auto simp: parse_step_simps plain_header_def p2_def p1_def\<close>)
  also have "\<dots> = Some p3"
    by (simp add: finishHeaderValue_def Let_def p3_def p2_def p1_def set_header_def view_string_def)
  finally have 3: "process lexical p1 (val @ [CHR 0x0D]) = Some p3" .
  have inv3: "reached_inv p3" by (rule reached_inv_process [OF inv1 3])
  define q where "q = p3\<lparr>headerBuffer := headerBuffer p3 @ [CHR 0x0A], currentParser := parseHeaderName_state,
      parseHeaderNameStartsAt := length (headerBuffer p3) + 1\<rparr>"
  obtain h d where hd: "?H @ name @ '':'' @ val = h @ [d]" "\<not> (d = CHR 0x0A \<and> h \<noteq> [] \<and> last h = CHR 0x0D)"
  proof (cases val rule: rev_cases)
    case Nil
    then show ?thesis using that [of "?H @ name" "CHR '':''"] by simp
  next
    case (snoc val' d)
    then show ?thesis using that [of "?H @ name @ '':'' @ val'" d] plain
      by (cases val' rule: rev_cases) (auto simp: plain_header_def)
  qed
  have "process lexical p3 [CHR 0x0A] = Some q"
    unfolding q_def
  proof (rule process_end_of_line [OF inv3])
    show "headerBuffer p3 = h @ [d, CHR 0x0D]" using hd(1) by (simp add: p3_def p1_def)
  qed (use hd bounds state in \<open>simp_all add: p3_def p2_def p1_def\<close>)
  note 4 = this
  have "header_line (name, val) = (name @ '':'') @ '' '' @ (val @ [CHR 0x0D]) @ [CHR 0x0A]" by (simp add: header_line_def)
  moreover have "process lexical p ((name @ '':'') @ '' '' @ (val @ [CHR 0x0D]) @ [CHR 0x0A]) = Some q"
    using process_then [OF 1 state(4)] process_then [OF 2 inv1] process_then [OF 3 inv1] 4 spacing
    by (simp add: cut_in_name_def p3_def p2_def)
  moreover have "ready q" using reached_inv_process [OF inv3 4] spacing
    by (auto simp: ready_def q_def p3_def p2_def p1_def)
  ultimately show ?thesis by (auto simp: q_def p3_def p2_def p1_def)
qed

definition header_table :: "(string \<times> string) list \<Rightarrow> http_header \<Rightarrow> string option" where
  "header_table headers h = map_of (rev (map (\<lambda>(name, val). (matchHttpHeader name, val)) headers)) h"

lemma header_table_Cons:
  "header_table ((name, val) # hs) h =
    (case header_table hs h of Some v \<Rightarrow> Some v | None \<Rightarrow> if h = matchHttpHeader name then Some val else None)"
  by (simp add: header_table_def map_add_def split: option.split)

lemma view_string_append: "view_in b v \<Longrightarrow> view_string (b @ tail) v = view_string b v"
  by (auto simp: view_string_def view_in_def)

lemma reached_views: "reached_inv p \<Longrightarrow> view_in (headerBuffer p) (req_headers (request p) h)"
  by (auto simp: reached_inv_def parser_inv_def parser_wf_def request_wf_def)

lemma process_headers:
  assumes "ready p" "\<forall>(name, val) \<in> set hs. plain_header name val"
    and "length (headerBuffer p) + length (concat (map header_line hs)) \<le> headerBufferSize p"
  shows "\<exists>q tail. process lexical p (concat (map header_line hs)) = Some q \<and> ready q \<and> headerBuffer q = headerBuffer p @ tail
    \<and> length tail \<le> length (concat (map header_line hs)) \<and> headerBufferSize q = headerBufferSize p
    \<and> request q = (request p)\<lparr>req_headers := req_headers (request q)\<rparr>
    \<and> (\<forall>h. h \<noteq> Header_UnknownHeader \<longrightarrow> header_string q h = (case header_table hs h of Some v \<Rightarrow> v | None \<Rightarrow> header_string p h))
    \<and> (\<forall>h. header_table hs h = None \<longrightarrow> req_headers (request q) h = req_headers (request p) h)"
  using assms
proof (induction hs arbitrary: p)
  case Nil
  then show ?case by (simp add: header_table_def)
next
  case (Cons nv hs)
  obtain name val where nv: "nv = (name, val)" by force
  let ?view = "(length (headerBuffer p) + length name + 1, length val)"
  obtain p1 where p1: "process lexical p (header_line nv) = Some p1" "ready p1"
      "headerBuffer p1 = headerBuffer p @ name @ '':'' @ val @ [CHR 0x0D, CHR 0x0A]" "headerBufferSize p1 = headerBufferSize p"
      "request p1 = set_header (matchHttpHeader name) ?view (request p)"
    using process_header [OF Cons.prems(1), of name val lexical] Cons.prems(2,3) by (auto simp: nv)
  have room: "length (headerBuffer p1) + length (concat (map header_line hs)) \<le> headerBufferSize p1"
    using Cons.prems(3) by (simp add: p1 nv header_line_def)
  obtain q tail where q: "process lexical p1 (concat (map header_line hs)) = Some q" "ready q" "headerBuffer q = headerBuffer p1 @ tail"
      "length tail \<le> length (concat (map header_line hs))" "headerBufferSize q = headerBufferSize p1"
      "request q = (request p1)\<lparr>req_headers := req_headers (request q)\<rparr>"
      "\<And>h. h \<noteq> Header_UnknownHeader \<Longrightarrow> header_string q h = (case header_table hs h of Some v \<Rightarrow> v | None \<Rightarrow> header_string p1 h)"
      "\<And>h. header_table hs h = None \<Longrightarrow> req_headers (request q) h = req_headers (request p1) h"
    using Cons.IH [OF p1(2) _ room] Cons.prems(2) by auto
  have reach: "reached_inv p" using Cons.prems(1) by (simp add: ready_def)
  have "process lexical p (concat (map header_line (nv # hs))) = Some q"
    using process_then [OF p1(1) reach] p1(2) q(1) by (simp add: ready_def cut_in_name_def)
  moreover have "request q = (request p)\<lparr>req_headers := req_headers (request q)\<rparr>"
    by (subst q(6)) (simp add: p1(5) set_header_def)
  moreover have "header_string q h = (case header_table (nv # hs) h of Some v \<Rightarrow> v | None \<Rightarrow> header_string p h)"
    if "h \<noteq> Header_UnknownHeader" for h
  proof -
    have "header_string p1 h = (if h = matchHttpHeader name then val else header_string p h)"
    proof (cases "h = matchHttpHeader name")
      case True
      then show ?thesis using that by (simp add: header_string_def p1(3,5) set_header_def view_string_def)
    next
      case False
      then have "req_headers (request p1) h = req_headers (request p) h" by (simp add: p1(5) set_header_def)
      then show ?thesis using False view_string_append [OF reached_views [OF reach]] by (simp add: header_string_def p1(3))
    qed
    then show ?thesis using q(7) [OF that] by (auto simp: nv header_table_Cons split: option.split)
  qed
  moreover have "req_headers (request q) h = req_headers (request p) h" if "header_table (nv # hs) h = None" for h
    using that q(8) [of h] by (auto simp: nv header_table_Cons p1(5) set_header_def split: option.splits if_splits)
  ultimately show ?case using q(2-5) p1(3,4)
    by (intro exI [of _ q] exI [of _ "name @ '':'' @ val @ [CHR 0x0D, CHR 0x0A] @ tail"]) (simp add: nv header_line_def)
qed

text \<open>The empty line: without a cookie the headers are left as they are.\<close>

lemma process_empty_line:
  assumes ready: "ready p" and room: "length (headerBuffer p) + 2 \<le> headerBufferSize p" "2 < length (headerBuffer p)"
    and plain: "header_string p Header_Expect = []" "req_headers (request p) Header_Cookie = (0, 0)"
    and verb: "req_verb (request p) \<in> {GET, VERB_DELETE}"
  shows "\<exists>q. process lexical p [CHR 0x0D, CHR 0x0A] = Some q \<and> parseResult q = FINISHED
    \<and> headerBuffer q = headerBuffer p @ [CHR 0x0D, CHR 0x0A]
    \<and> request q = (request p)\<lparr>keepConnectionAlive := matchStringUpperOrLower (header_string p Header_Connection) ''keep-aliveKEEP-ALIVE''\<rparr>"
proof -
  obtain h where h: "headerBuffer p = h @ [CHR 0x0D, CHR 0x0A]" using ready by (auto simp: ready_def)
  have state: "currentParser p = parseHeaderName_state" "valid p" "\<not> finished p" "reached_inv p"
    using ready by (auto simp: ready_def)
  define p1 where "p1 = p\<lparr>headerBuffer := headerBuffer p @ [CHR 0x0D], currentParser := parseNewLine_state\<rparr>"
  define p2 where "p2 = p1\<lparr>headerBuffer := headerBuffer p1 @ [CHR 0x0A]\<rparr>"
  have texts: "header_string p2 x = header_string p x" for x
    using view_string_append [OF reached_views [OF state(4)]] by (simp add: header_string_def p2_def p1_def)
  have 1: "process lexical p [CHR 0x0D, CHR 0x0A] = process lexical p1 [CHR 0x0A]"
    using state room by (simp add: process_step parse_step_simps parseHeaderName_simps(1) p1_def)
  have shape: "headerBuffer p1 = h @ [CHR 0x0D, CHR 0x0A, CHR 0x0D]" "length (headerBuffer p1) < headerBufferSize p1"
      "headerBuffer p2 = h @ [CHR 0x0D, CHR 0x0A, CHR 0x0D, CHR 0x0A]"
    using room by (simp_all add: p1_def p2_def h)
  have "h \<noteq> []" using room(2) h by auto
  then have newline: "parseNewLine lexical p1 [CHR 0x0A] = (case endOfHeaders lexical p2 of None \<Rightarrow> None | Some p' \<Rightarrow> Some (p', []))"
    using shape(2) by (simp add: parseNewLine_def Let_def shape(1) p2_def nth_append)
  define req where "req = (request p)\<lparr>keepConnectionAlive := matchStringUpperOrLower (header_string p Header_Connection) ''keep-aliveKEEP-ALIVE''\<rparr>"
  define n where "n = (case lexical (header_string p Header_Content_Length) of Some n \<Rightarrow> n | None \<Rightarrow> 0)"
  define q where "q = p2\<lparr>expectedContentLength := n, request := req, finished := True\<rparr>"
  have "header_string (p2\<lparr>expectedContentLength := n\<rparr>) x = header_string p x"
       "header_string (p2\<lparr>expectedContentLength := n, request := req\<rparr>) x = header_string p x" for x
    using texts [of x] by (simp_all add: header_string_def req_def p2_def p1_def)
  moreover have "request p2 = request p" by (simp add: p2_def p1_def)
  ultimately have "interpretImportantHeaders lexical p2 = Some (p2\<lparr>expectedContentLength := n, request := req\<rparr>)"
    using plain by (simp add: interpretImportantHeaders_def texts n_def [symmetric] req_def [symmetric] Let_def)
      (simp add: interpretCookies_def req_def)
  then have "endOfHeaders lexical p2 = Some q"
    using verb by (auto simp: endOfHeaders_def q_def req_def)
  then have "process lexical p1 [CHR 0x0A] = Some q"
    using newline state by (simp add: process_step parse_step_simps p1_def)
  then show ?thesis using 1 state shape(3) h
    by (simp add: parseResult_def q_def req_def) (simp add: p2_def p1_def)
qed

fun verb_string :: "http_verb \<Rightarrow> string" where
  "verb_string GET = ''GET''"
| "verb_string POST = ''POST''"
| "verb_string PUT = ''PUT''"
| "verb_string PATCH = ''PATCH''"
| "verb_string VERB_DELETE = ''DELETE''"
| "verb_string VERB_UNKNOWN = ''?''"

definition request_line :: "http_verb \<Rightarrow> string \<Rightarrow> (string \<times> string) list \<Rightarrow> string" where
  "request_line verb path q = verb_string verb @ '' '' @ request_target path q @ '' HTTP/1.1'' @ [CHR 0x0D, CHR 0x0A]"

definition request_string :: "http_verb \<Rightarrow> string \<Rightarrow> (string \<times> string) list \<Rightarrow> (string \<times> string) list \<Rightarrow> string" where
  "request_string verb path q headers =
     request_line verb path q @ concat (map header_line headers) @ [CHR 0x0D, CHR 0x0A]"

lemma parseHttpVerb_string: "parseHttpVerb (verb_string verb) = verb"
  by (cases verb) (simp_all add: parseHttpVerb_def matchStringUpperOrLowerSameSize_def upt_rec)

lemma verb_string_plain: "CHR '' '' \<notin> set (verb_string verb)"
  by (cases verb) simp_all

lemma request_target_plain: "CHR '' '' \<notin> set (request_target path q)"
proof -
  have "CHR '' '' \<notin> set (render_query q)" by (induction q rule: render_query.induct) simp_all
  then show ?thesis by (simp add: request_target_def)
qed

lemma trimmed_path: "view_string b v = ''/'' @ path \<Longrightarrow> view_string b (trimLeadingChar_view CHR ''/'' b v) = dropWhile (\<lambda>c. c = CHR ''/'') path"
proof -
  assume v: "view_string b v = ''/'' @ path"
  let ?n = "length (takeWhile (\<lambda>c. c = CHR ''/'') (view_string b v))"
  have "view_string b (trimLeadingChar_view CHR ''/'' b v) = drop ?n (view_string b v)"
    by (simp add: trimLeadingChar_view_def Let_def view_string_def drop_take add.commute)
  also have "\<dots> = dropWhile (\<lambda>c. c = CHR ''/'') (view_string b v)" by (simp add: dropWhile_eq_drop)
  finally show ?thesis by (simp add: v)
qed

lemma pair_texts_append: "pair_views_in b ps \<Longrightarrow> pair_texts (b @ tail) ps = pair_texts b ps"
  by (induction ps) (auto simp: pair_texts_def pair_views_in_def view_string_append)

lemma process_request_line:
  assumes "verb \<noteq> VERB_UNKNOWN" "length q \<le> MaxQueryPairs" and room: "length (request_line verb path q) \<le> capacity"
  shows "\<exists>p. process lexical (Parser capacity maxLength push body) (request_line verb path q) = Some p \<and> ready p
    \<and> length (headerBuffer p) = length (request_line verb path q) \<and> headerBufferSize p = capacity
    \<and> req_verb (request p) = verb \<and> view_string (headerBuffer p) (req_path (request p)) = dropWhile (\<lambda>c. c = CHR ''/'') path
    \<and> pair_texts (headerBuffer p) (queryPairs (request p)) = q \<and> versionMinor (request p) = 1
    \<and> req_headers (request p) = (\<lambda>_. (0, 0))"
proof -
  let ?p = "Parser capacity maxLength push body"
  have inv: "reached_inv ?p" unfolding reached_inv_def by (rule exI) (rule Parser_inv)
  have sizes: "length (verb_string verb) + length (request_target path q) + 12 \<le> capacity"
    using room by (simp add: request_line_def)
  define p1 where "p1 = ?p\<lparr>headerBuffer := verb_string verb @ '' '', request := HttpRequest\<lparr>req_verb := verb\<rparr>,
      currentParser := parsePath_state, parsePathStartsAt := length (verb_string verb) + 1\<rparr>"
  have "process lexical ?p (verb_string verb @ '' '') = finishVerb (?p\<lparr>headerBuffer := headerBuffer ?p @ verb_string verb @ '' ''\<rparr>)"
    by (rule process_part) (use verb_string_plain sizes in \<open>auto simp: parse_step_simps Parser_def\<close>)
  then have 1: "process lexical ?p (verb_string verb @ '' '') = Some p1"
    using assms(1) by (simp add: finishVerb_def parseHttpVerb_string p1_def Parser_def Let_def)
  have inv1: "reached_inv p1" by (rule reached_inv_process [OF inv 1])
  let ?b = "verb_string verb @ '' '' @ request_target path q @ '' ''"
  let ?ps = "length (verb_string verb) + 1"
  let ?r = "HttpRequest\<lparr>req_verb := verb, req_path := (?ps, length (request_target path q) + 1)\<rparr>"
  obtain r b where rb: "interpretPathString ?ps ?b ?r = Some (r, b)" "length b = length ?b" "view_string b (req_path r) = ''/'' @ path"
      "pair_texts b (queryPairs r) = q" "r = ?r\<lparr>req_path := req_path r, queryPairs := queryPairs r\<rparr>"
    using path_interpreted [of ?ps ?b path q ?r] assms(2) by (auto simp: HttpRequest_def)
  have fields: "req_verb r = verb" "req_headers r = (\<lambda>_. (0, 0))" by (subst rb(5), simp add: HttpRequest_def)+
  define p2 where "p2 = p1\<lparr>headerBuffer := b, request := r\<lparr>req_path := trimLeadingChar_view CHR ''/'' b (req_path r)\<rparr>,
      currentParser := parseVersion_state, parseVersionStartsAt := length b\<rparr>"
  have "process lexical p1 (request_target path q @ '' '') = finishPath (p1\<lparr>headerBuffer := headerBuffer p1 @ request_target path q @ '' ''\<rparr>)"
    by (rule process_part) (use request_target_plain sizes in \<open>auto simp: parse_step_simps p1_def Parser_def\<close>)
  then have 2: "process lexical p1 (request_target path q @ '' '') = Some p2"
    using rb(1) by (simp add: finishPath_def p1_def p2_def Let_def)
  have inv2: "reached_inv p2" by (rule reached_inv_process [OF inv1 2])
  define p3 where "p3 = p2\<lparr>headerBuffer := b @ ''HTTP/1.1'' @ [CHR 0x0D], request := (request p2)\<lparr>versionMajor := 1, versionMinor := 1\<rparr>,
      currentParser := parseNewLine_state\<rparr>"
  have "process lexical p2 (''HTTP/1.1'' @ [CHR 0x0D]) = finishVersion (p2\<lparr>headerBuffer := headerBuffer p2 @ ''HTTP/1.1'' @ [CHR 0x0D]\<rparr>)"
    by (rule process_part) (use sizes rb(2) in \<open>auto simp: parse_step_simps p2_def p1_def Parser_def\<close>)
  then have 3: "process lexical p2 (''HTTP/1.1'' @ [CHR 0x0D]) = Some p3"
    by (simp add: finishVersion_def p2_def p3_def Let_def nth_append)
  have inv3: "reached_inv p3" by (rule reached_inv_process [OF inv2 3])
  define p4 where "p4 = p3\<lparr>headerBuffer := headerBuffer p3 @ [CHR 0x0A], currentParser := parseHeaderName_state,
      parseHeaderNameStartsAt := length (headerBuffer p3) + 1\<rparr>"
  have 4: "process lexical p3 [CHR 0x0A] = Some p4"
    unfolding p4_def
  proof (rule process_end_of_line [OF inv3])
    show "headerBuffer p3 = (b @ ''HTTP/1.'') @ [CHR ''1'', CHR 0x0D]" by (simp add: p3_def)
  qed (use sizes rb(2) in \<open>simp_all add: p3_def p2_def p1_def Parser_def\<close>)
  have line: "request_line verb path q = (verb_string verb @ '' '') @ (request_target path q @ '' '') @ (''HTTP/1.1'' @ [CHR 0x0D]) @ [CHR 0x0A]"
    by (simp add: request_line_def)
  have "process lexical ?p (request_line verb path q) = Some p4"
    unfolding line
    using process_then [OF 1 inv] process_then [OF 2 inv1] process_then [OF 3 inv2] 4
    by (simp add: cut_in_name_def p1_def p2_def p3_def)
  moreover have "ready p4" using reached_inv_process [OF inv3 4]
    by (auto simp: ready_def p4_def p3_def p2_def p1_def Parser_def)
  moreover have "view_in b (req_path (request p2))" "pair_views_in b (queryPairs r)"
    using inv2 by (auto simp: reached_inv_def parser_inv_defs p2_def)
  then have "view_string (headerBuffer p4) (req_path (request p4)) = dropWhile (\<lambda>c. c = CHR ''/'') path"
      "pair_texts (headerBuffer p4) (queryPairs (request p4)) = q"
    using trimmed_path [OF rb(3)] rb(4)
    by (simp_all add: p4_def p3_def p2_def pair_texts_append view_string_append)
  ultimately show ?thesis using rb(2) fields
    by (simp add: p4_def p3_def p2_def p1_def Parser_def request_line_def)
qed

lemma request_line_overflows:
  assumes "verb \<noteq> VERB_UNKNOWN" "length q > MaxQueryPairs" and room: "length (request_line verb path q) \<le> capacity"
  shows "process lexical (Parser capacity maxLength push body) (verb_string verb @ '' '' @ request_target path q @ '' '' @ rest) = None"
proof -
  let ?p = "Parser capacity maxLength push body"
  have inv: "reached_inv ?p" unfolding reached_inv_def by (rule exI) (rule Parser_inv)
  have sizes: "length (verb_string verb) + length (request_target path q) + 12 \<le> capacity"
    using room by (simp add: request_line_def)
  define p1 where "p1 = ?p\<lparr>headerBuffer := verb_string verb @ '' '', request := HttpRequest\<lparr>req_verb := verb\<rparr>,
      currentParser := parsePath_state, parsePathStartsAt := length (verb_string verb) + 1\<rparr>"
  have "process lexical ?p (verb_string verb @ '' '') = finishVerb (?p\<lparr>headerBuffer := headerBuffer ?p @ verb_string verb @ '' ''\<rparr>)"
    by (rule process_part) (use verb_string_plain sizes in \<open>auto simp: parse_step_simps Parser_def\<close>)
  then have 1: "process lexical ?p (verb_string verb @ '' '') = Some p1"
    using assms(1) by (simp add: finishVerb_def parseHttpVerb_string p1_def Parser_def Let_def)
  let ?b = "verb_string verb @ '' '' @ request_target path q @ '' ''"
  let ?ps = "length (verb_string verb) + 1"
  let ?r = "HttpRequest\<lparr>req_verb := verb, req_path := (?ps, length (request_target path q) + 1)\<rparr>"
  have none: "interpretPathString ?ps ?b ?r = None"
    by (rule path_overflows) (use assms(2) in \<open>simp_all add: HttpRequest_def\<close>)
  have "copyUntil CHR '' '' capacity (verb_string verb @ '' '') (request_target path q @ CHR '' '' # rest)
      = (Reached, (verb_string verb @ '' '') @ request_target path q @ '' '', rest)"
    by (rule copyUntil_found) (use request_target_plain sizes in simp_all)
  then have "parse_step lexical p1 (request_target path q @ CHR '' '' # rest) = None"
    using none by (simp add: parse_step_simps copying_def p1_def Parser_def finishPath_def Let_def)
  then have "process lexical p1 (request_target path q @ CHR '' '' # rest) = None"
    by (subst process_step) (simp_all add: p1_def Parser_def)
  moreover have "process lexical ?p ((verb_string verb @ '' '') @ request_target path q @ CHR '' '' # rest) =
      process lexical p1 (request_target path q @ CHR '' '' # rest)"
    by (rule process_then [OF 1 inv]) (simp_all add: p1_def cut_in_name_def)
  ultimately show ?thesis by simp
qed

lemma header_connection_known: "Header_Connection \<noteq> Header_UnknownHeader"
  by (simp add: Header_Connection_def Header_UnknownHeader_def)

lemma request_parsed:
  assumes "verb \<in> {GET, VERB_DELETE}" "length q \<le> MaxQueryPairs" "\<forall>(name, val) \<in> set headers. plain_header name val"
    and "header_table headers Header_Expect = None" "header_table headers Header_Cookie = None"
    and room: "length (request_string verb path q headers) \<le> capacity"
  shows "\<exists>p. process lexical (Parser capacity maxLength push body) (request_string verb path q headers) = Some p
    \<and> parseResult p = FINISHED \<and> req_verb (request p) = verb
    \<and> view_string (headerBuffer p) (req_path (request p)) = dropWhile (\<lambda>c. c = CHR ''/'') path
    \<and> pair_texts (headerBuffer p) (queryPairs (request p)) = q
    \<and> (\<forall>h. h \<noteq> Header_UnknownHeader \<longrightarrow> header_string p h = (case header_table headers h of Some v \<Rightarrow> v | None \<Rightarrow> []))
    \<and> keepConnectionAlive (request p) =
        matchStringUpperOrLower (case header_table headers Header_Connection of Some v \<Rightarrow> v | None \<Rightarrow> []) ''keep-aliveKEEP-ALIVE''"
proof -
  let ?p = "Parser capacity maxLength push body"
  have inv: "reached_inv ?p" unfolding reached_inv_def by (rule exI) (rule Parser_inv)
  have sizes: "length (request_line verb path q) + length (concat (map header_line headers)) + 2 \<le> capacity"
    using room by (simp add: request_string_def)
  obtain p1 where p1: "process lexical ?p (request_line verb path q) = Some p1" "ready p1"
      "length (headerBuffer p1) = length (request_line verb path q)" "headerBufferSize p1 = capacity" "req_verb (request p1) = verb"
      "view_string (headerBuffer p1) (req_path (request p1)) = dropWhile (\<lambda>c. c = CHR ''/'') path"
      "pair_texts (headerBuffer p1) (queryPairs (request p1)) = q" "req_headers (request p1) = (\<lambda>_. (0, 0))"
    using process_request_line [of verb q path capacity lexical maxLength push body] assms(1,2) sizes by auto
  obtain p2 tail where p2: "process lexical p1 (concat (map header_line headers)) = Some p2" "ready p2"
      "headerBuffer p2 = headerBuffer p1 @ tail" "length tail \<le> length (concat (map header_line headers))" "headerBufferSize p2 = headerBufferSize p1"
      "request p2 = (request p1)\<lparr>req_headers := req_headers (request p2)\<rparr>"
      "\<And>h. h \<noteq> Header_UnknownHeader \<Longrightarrow> header_string p2 h = (case header_table headers h of Some v \<Rightarrow> v | None \<Rightarrow> header_string p1 h)"
      "\<And>h. header_table headers h = None \<Longrightarrow> req_headers (request p2) h = req_headers (request p1) h"
    using process_headers [OF p1(2) assms(3), of lexical] sizes p1(3,4) by auto
  have no_header: "header_string p1 h = []" for h by (simp add: header_string_def view_string_def p1(8))
  have same: "req_verb (request p2) = verb" "req_path (request p2) = req_path (request p1)" "queryPairs (request p2) = queryPairs (request p1)"
    by (subst p2(6), simp add: p1(5))+
  have "2 < length (headerBuffer p2)" "length (headerBuffer p2) + 2 \<le> headerBufferSize p2"
    using p1(3,4) p2(3-5) sizes by (simp_all add: request_line_def)
  moreover have "header_string p2 Header_Expect = []" "req_headers (request p2) Header_Cookie = (0, 0)"
    using p2(7) [of Header_Expect] p2(8) [of Header_Cookie] assms(4,5) no_header p1(8) by (simp_all add: header_defs)
  ultimately obtain p3 where p3: "process lexical p2 [CHR 0x0D, CHR 0x0A] = Some p3" "parseResult p3 = FINISHED"
      "headerBuffer p3 = headerBuffer p2 @ [CHR 0x0D, CHR 0x0A]"
      "request p3 = (request p2)\<lparr>keepConnectionAlive := matchStringUpperOrLower (header_string p2 Header_Connection) ''keep-aliveKEEP-ALIVE''\<rparr>"
    using process_empty_line [OF p2(2), of lexical] same(1) assms(1) by auto
  have reach: "reached_inv p1" "reached_inv p2" using p1(2) p2(2) by (simp_all add: ready_def)
  have "process lexical ?p (request_string verb path q headers) = Some p3"
    unfolding request_string_def
    using process_then [OF p1(1) inv] process_then [OF p2(1) reach(1)] p1(2) p2(2) p3(1)
    by (simp add: ready_def cut_in_name_def)
  moreover have views: "view_in (headerBuffer p1) (req_path (request p1))" "pair_views_in (headerBuffer p1) (queryPairs (request p1))"
    using reach(1) by (auto simp: reached_inv_def parser_inv_defs)
  have "view_string (headerBuffer p3) (req_path (request p3)) = dropWhile (\<lambda>c. c = CHR ''/'') path"
      "pair_texts (headerBuffer p3) (queryPairs (request p3)) = q"
    using p1(6,7) views by (simp_all add: p3(3,4) p2(3) same view_string_append pair_texts_append)
  moreover have "header_string p3 h = header_string p2 h" for h
    using view_string_append [OF reached_views [OF reach(2)]] by (simp add: header_string_def p3(3,4))
  moreover have texts: "header_string p2 h = (case header_table headers h of Some v \<Rightarrow> v | None \<Rightarrow> [])"
    if "h \<noteq> Header_UnknownHeader" for h
    using p2(7) [OF that] no_header by (simp split: option.split)
  ultimately show ?thesis using p3(2,4) same(1) texts [OF header_connection_known]
    by (intro exI [of _ p3]) simp
qed

subsection \<open>Bodies\<close>

definition accepts_body :: "'b http_parser \<Rightarrow> bool" where
  "accepts_body p \<longleftrightarrow> (\<forall>bytes body. fst (pushBodyBytes p bytes body))"

lemma process_body:
  assumes "currentParser p = parseBody_state" "valid p" "\<not> finished p" "bytes \<noteq> []"
    "expectedContentLength p \<le> maxContentLength p" "accepts_body p"
  shows "\<exists>q. process lexical p bytes = Some q \<and> currentParser q = parseBody_state \<and> valid q
    \<and> (finished q \<longleftrightarrow> expectedContentLength p \<le> requestBodyBytesProcessed p + length bytes)
    \<and> expectedContentLength q = expectedContentLength p \<and> maxContentLength q = maxContentLength p
    \<and> requestBodyBytesProcessed q = requestBodyBytesProcessed p + length bytes \<and> accepts_body q"
proof -
  obtain room body where push: "pushBodyBytes p bytes (pushBodyBytesState p) = (room, body)" by (meson surj_pair)
  then have "room" using assms(6) by (metis accepts_body_def fst_conv)
  then show ?thesis using assms push
    by (simp add: process_step parse_step_simps parseBody_def Let_def accepts_body_def)
qed

lemma body_reads:
  assumes "currentParser p = parseBody_state" "valid p" "\<not> finished p" "\<forall>bytes \<in> set reads. bytes \<noteq> []"
    "expectedContentLength p \<le> maxContentLength p" "accepts_body p" "requestBodyBytesProcessed p < expectedContentLength p"
  shows "\<exists>q. process_reads lexical reads p = Some q
    \<and> (parseResult q = FINISHED \<longleftrightarrow> expectedContentLength p \<le> requestBodyBytesProcessed p + length (concat reads))
    \<and> parseResult q \<noteq> INVALID_INPUT"
  using assms
proof (induction reads arbitrary: p)
  case Nil
  then show ?case by (simp add: process_reads_def parseResult_def)
next
  case (Cons bytes reads)
  obtain q where q: "process lexical p bytes = Some q" "currentParser q = parseBody_state" "valid q"
      "finished q \<longleftrightarrow> expectedContentLength p \<le> requestBodyBytesProcessed p + length bytes"
      "expectedContentLength q = expectedContentLength p" "maxContentLength q = maxContentLength p"
      "requestBodyBytesProcessed q = requestBodyBytesProcessed p + length bytes" "accepts_body q"
    using process_body [OF Cons.prems(1-3) _ Cons.prems(5,6), of bytes lexical] Cons.prems(4) by auto
  show ?case
  proof (cases "finished q")
    case True
    then have "process_reads lexical reads q = Some q"
      unfolding process_reads_def by (induction reads) (simp_all add: process_stopped)
    then show ?thesis using q True by (simp add: process_reads_def parseResult_def)
  next
    case False
    then show ?thesis using Cons.IH [OF q(2,3) False] Cons.prems q by (simp add: process_reads_def add.assoc)
  qed
qed

end
