(* ===== verification/HttpRouter.thy ===== *)
theory HttpRouter
  imports HttpHeaders "HOL-Library.Sublist"
begin

section \<open>The router of requests\<close>

text \<open>
  Models \<^verbatim>\<open>src/src/LibHttp/private/HttpRouter.cpp\<close> and \<^verbatim>\<open>HttpRouter.h\<close>. A handler is a value of a type parameter,
  absent for an empty \<^verbatim>\<open>std::function\<close>; forwarding a request gives the handler to call with the extra parts of
  the path. The routes of an array cell are the entries of its map in the order of the map. The result
  \<open>None\<close> of \<open>forward\<close> is the read in front of the temporary path for an empty path.
\<close>

definition MaxRouteSize :: nat where "MaxRouteSize = 128"
definition FirstIndexMaxValue :: nat where "FirstIndexMaxValue = 128"
definition MaxExtraPathParts :: nat where "MaxExtraPathParts = 32"

subsection \<open>Extra parts of a path\<close>

function extractPathParts :: "string \<Rightarrow> nat \<Rightarrow> nat \<Rightarrow> string list \<Rightarrow> string list" where
  "extractPathParts path i currentPartStartIndex parts =
     (if i < length path
      then (if length parts \<ge> MaxExtraPathParts - 1 then parts
            else if path ! i = CHR ''/''
            then extractPathParts path (i + 1) (i + 1) (parts @ [take (i - currentPartStartIndex) (drop currentPartStartIndex path)])
            else extractPathParts path (i + 1) currentPartStartIndex parts)
      else (if currentPartStartIndex < length path then parts @ [drop currentPartStartIndex path] else parts))"
  by pat_completeness auto
termination by (relation "measure (\<lambda>(path, i, s, parts). length path - i)") auto

declare extractPathParts.simps [simp del]

definition extractExtraPathParts :: "string \<Rightarrow> nat \<Rightarrow> string list" where
  "extractExtraPathParts path nrOfPathCharactersUsedInRoute =
     (let n = nrOfPathCharactersUsedInRoute;
          n = (if n > 0 \<and> length path > n \<and> path ! (n - 1) \<noteq> CHR ''/'' then n + 1 else n)
      in extractPathParts path n n [])"

subsection \<open>Routes\<close>

definition getFirstIndexForRoutes :: "string \<Rightarrow> nat" where
  "getFirstIndexForRoutes path = (if length path > 0 then code (path ! 0) else 0) mod FirstIndexMaxValue"

definition route_before :: "string \<Rightarrow> string \<Rightarrow> bool" where
  "route_before a b \<longleftrightarrow> length a > length b \<or> length a = length b \<and> a > b"

fun emplace :: "string \<Rightarrow> 'h \<Rightarrow> (string \<times> 'h) list \<Rightarrow> (string \<times> 'h) list" where
  "emplace path handler [] = [(path, handler)]"
| "emplace path handler ((q, g) # routes) =
     (if path = q then (q, g) # routes
      else if route_before path q then (path, handler) # (q, g) # routes
      else (q, g) # emplace path handler routes)"

record 'h router =
  routes :: "nat \<Rightarrow> http_verb \<Rightarrow> (string \<times> 'h option) list"
  defaultRoute :: "'h option"

definition HttpRouter :: "'h router" where
  "HttpRouter = \<lparr>routes = (\<lambda>_ _. []), defaultRoute = None\<rparr>"

definition addRoute :: "string \<Rightarrow> http_verb \<Rightarrow> 'h option \<Rightarrow> 'h router \<Rightarrow> 'h router" where
  "addRoute pathLowerCase verb handler r =
     (let index = getFirstIndexForRoutes pathLowerCase
      in r\<lparr>routes := (routes r)(index := (routes r index)(verb := emplace pathLowerCase handler (routes r index verb)))\<rparr>)"

definition setDefaultRoute :: "'h option \<Rightarrow> 'h router \<Rightarrow> 'h router" where
  "setDefaultRoute handler r = r\<lparr>defaultRoute := handler\<rparr>"

text \<open>What a forwarded request leads to.\<close>

datatype 'h forwarded = Handled 'h "string list" | NoHandler | NotFound

definition tempPath :: "string \<Rightarrow> string option" where
  "tempPath path =
     (let temp = map char_to_lower (take MaxRouteSize path)
      in if temp = [] then None else Some (if last temp \<noteq> CHR ''/'' then temp @ ''/'' else temp))"

definition forward :: "'h router \<Rightarrow> http_verb \<Rightarrow> string \<Rightarrow> 'h forwarded option" where
  "forward r verb path =
     (case tempPath path of
        None \<Rightarrow> None
      | Some temp \<Rightarrow>
          (case find (\<lambda>(currentPath, handler). length currentPath \<le> length temp \<and> currentPath = take (length currentPath) temp)
                  (routes r (getFirstIndexForRoutes temp) verb) of
             Some (currentPath, handler) \<Rightarrow>
               (case handler of
                  Some h \<Rightarrow> Some (Handled h (extractExtraPathParts path (length currentPath)))
                | None \<Rightarrow> Some NoHandler)
           | None \<Rightarrow>
               (case defaultRoute r of
                  Some h \<Rightarrow> Some (Handled h (extractExtraPathParts path 0))
                | None \<Rightarrow> Some NotFound)))"

subsection \<open>Lemmas\<close>

text \<open>The array of extra parts is never overrun.\<close>

lemma extractPathParts_bounded:
  "length parts \<le> MaxExtraPathParts - 1 \<Longrightarrow> length (extractPathParts path i start parts) \<le> MaxExtraPathParts"
proof (induction path i start parts rule: extractPathParts.induct)
  case (1 path i start parts)
  then show ?case
    by (subst extractPathParts.simps) (auto simp: MaxExtraPathParts_def)
qed

lemma extra_parts_bounded: "length (extractExtraPathParts path n) \<le> MaxExtraPathParts"
  unfolding extractExtraPathParts_def Let_def by (rule extractPathParts_bounded) simp

text \<open>A map keeps its keys in order, and the first registration of a path.\<close>

definition route_map :: "(string \<times> 'h) list \<Rightarrow> bool" where
  "route_map m \<longleftrightarrow> sorted_wrt (\<lambda>(a, _) (b, _). route_before a b) m"

lemma route_before_trans: "route_before a b \<Longrightarrow> route_before b c \<Longrightarrow> route_before a c"
  by (auto simp: route_before_def)

lemma route_before_total: "a \<noteq> b \<Longrightarrow> \<not> route_before a b \<Longrightarrow> route_before b a"
  by (auto simp: route_before_def)

lemma emplace_keys: "fst ` set (emplace path handler m) = insert path (fst ` set m)"
  by (induction path handler m rule: emplace.induct) auto

lemma route_map_emplace: "route_map m \<Longrightarrow> route_map (emplace path handler m)"
proof (induction path handler m rule: emplace.induct)
  case (2 path handler q g m)
  then have rest: "\<forall>(b, _) \<in> set m. route_before q b" by (auto simp: route_map_def)
  show ?case
  proof (cases "path = q \<or> route_before path q")
    case True
    then show ?thesis using 2 rest by (auto simp: route_map_def intro: route_before_trans)
  next
    case False
    then have "route_before q path" using route_before_total by blast
    moreover have "route_before q b" if "(b, h) \<in> set (emplace path handler m)" for b h
    proof -
      have "b \<in> insert path (fst ` set m)" using that emplace_keys [of path handler m] by (metis fst_conv imageI)
      then show ?thesis using \<open>route_before q path\<close> rest by auto
    qed
    ultimately show ?thesis using 2 False by (auto simp: route_map_def)
  qed
qed (simp add: route_map_def)

lemma route_before_irrefl: "\<not> route_before a a"
  by (simp add: route_before_def)

lemma map_of_emplace:
  "route_map m \<Longrightarrow> map_of (emplace path handler m) p =
    (case map_of m p of Some h \<Rightarrow> Some h | None \<Rightarrow> if p = path then Some handler else None)"
proof (induction path handler m rule: emplace.induct)
  case (2 path handler q g m)
  show ?case
  proof (cases "route_before path q")
    case True
    have "path \<notin> insert q (fst ` set m)"
    proof
      assume "path \<in> insert q (fst ` set m)"
      then have "path = q \<or> route_before q path" using 2(2) by (auto simp: route_map_def)
      then show False using True route_before_trans route_before_irrefl by metis
    qed
    then show ?thesis using True by (auto simp: map_of_eq_None_iff [THEN iffD2] route_before_irrefl split: option.split)
  next
    case False
    then show ?thesis using 2 by (auto simp: route_map_def split: option.split)
  qed
qed simp

text \<open>The first match in a map is the longest one.\<close>

lemma find_route:
  assumes "route_map m"
  shows "(\<exists>p h. find (\<lambda>(p, h). length p \<le> length temp \<and> p = take (length p) temp) m = Some (p, h) \<and> map_of m p = Some h
      \<and> prefix p temp \<and> (\<forall>p'. p' \<in> fst ` set m \<and> prefix p' temp \<longrightarrow> length p' \<le> length p))
    \<or> find (\<lambda>(p, h). length p \<le> length temp \<and> p = take (length p) temp) m = None \<and> (\<forall>p \<in> fst ` set m. \<not> prefix p temp)"
  using assms
proof (induction m)
  case (Cons e m)
  obtain q g where e: "e = (q, g)" by force
  have match: "length p \<le> length temp \<and> p = take (length p) temp \<longleftrightarrow> prefix p temp" for p
    by (metis prefix_def append_eq_conv_conj prefix_length_le take_is_prefix)
  have m: "route_map m" "\<forall>(b, _) \<in> set m. route_before q b" using Cons.prems by (auto simp: route_map_def e)
  show ?case
  proof (cases "prefix q temp")
    case True
    have "length p' \<le> length q" if "p' \<in> fst ` set (e # m)" for p'
      using that m(2) by (auto simp: e route_before_def)
    then show ?thesis using True by (simp add: e match)
  next
    case False
    have "q \<notin> fst ` set m" using m(2) route_before_irrefl by force
    from Cons.IH [OF m(1)] show ?thesis
    proof (elim disjE exE conjE)
      fix p h
      assume found: "find (\<lambda>(p, h). length p \<le> length temp \<and> p = take (length p) temp) m = Some (p, h)" "map_of m p = Some h"
        "prefix p temp" "\<forall>p'. p' \<in> fst ` set m \<and> prefix p' temp \<longrightarrow> length p' \<le> length p"
      have "p \<noteq> q" using found(3) False by blast
      then show ?thesis using found False by (intro disjI1 exI [of _ p] exI [of _ h]) (auto simp: e match)
    next
      assume "find (\<lambda>(p, h). length p \<le> length temp \<and> p = take (length p) temp) m = None" "\<forall>p \<in> fst ` set m. \<not> prefix p temp"
      then show ?thesis using False by (intro disjI2) (auto simp: e match)
    qed
  qed
qed simp

subsection \<open>The routes of a sequence of registrations\<close>

definition registered :: "(string \<times> http_verb \<times> 'h option) list \<Rightarrow> http_verb \<Rightarrow> string \<Rightarrow> 'h option option" where
  "registered regs verb path = map_of (map (\<lambda>(p, v, h). ((v, p), h)) regs) (verb, path)"

definition router_of :: "(string \<times> http_verb \<times> 'h option) list \<Rightarrow> 'h router" where
  "router_of regs = fold (\<lambda>(p, v, h). addRoute p v h) regs HttpRouter"

lemma router_of_routes:
  "route_map (routes (router_of regs) i v)
   \<and> map_of (routes (router_of regs) i v) p = (if i = getFirstIndexForRoutes p then registered regs v p else None)"
proof (induction regs arbitrary: i v p rule: rev_induct)
  case Nil
  then show ?case by (simp add: router_of_def HttpRouter_def route_map_def registered_def)
next
  case (snoc reg regs)
  obtain q w h where reg: "reg = (q, w, h)" by (cases reg) auto
  have step: "router_of (regs @ [reg]) = addRoute q w h (router_of regs)" by (simp add: router_of_def reg)
  have regd: "registered (regs @ [reg]) v p = (case registered regs v p of Some x \<Rightarrow> Some x
      | None \<Rightarrow> if v = w \<and> p = q then Some h else None)" for v p
    by (auto simp: registered_def reg map_add_def split: option.split)
  have IH: "route_map (routes (router_of regs) i v)"
      "map_of (routes (router_of regs) i v) p = (if i = getFirstIndexForRoutes p then registered regs v p else None)" for i v p
    using snoc.IH by blast+
  show ?case
    using IH route_map_emplace [OF IH(1), of q h "getFirstIndexForRoutes q" w]
    by (auto simp: step addRoute_def Let_def regd map_of_emplace [OF IH(1)] split: option.split)
qed

lemma registered_key: "registered regs verb p = Some h \<Longrightarrow> (p, verb, h) \<in> set regs"
  by (auto simp: registered_def dest: map_of_SomeD)

lemma defaultRoute_router_of: "defaultRoute (router_of regs) = None"
  by (induction regs rule: rev_induct) (auto simp: router_of_def HttpRouter_def addRoute_def Let_def split: prod.split)

lemma prefix_first_index: "prefix p temp \<Longrightarrow> p \<noteq> [] \<Longrightarrow> getFirstIndexForRoutes p = getFirstIndexForRoutes temp"
  by (auto simp: getFirstIndexForRoutes_def prefix_def nth_append)

lemma forward_longest:
  assumes temp: "tempPath path = Some temp" and nonempty: "\<forall>(p, v, h) \<in> set regs. p \<noteq> []"
  shows "(\<exists>p h. registered regs verb p = Some h \<and> prefix p temp
        \<and> (\<forall>p' h'. registered regs verb p' = Some h' \<and> prefix p' temp \<longrightarrow> length p' \<le> length p)
        \<and> forward (setDefaultRoute d (router_of regs)) verb path =
            Some (case h of Some f \<Rightarrow> Handled f (extractExtraPathParts path (length p)) | None \<Rightarrow> NoHandler))
    \<or> (\<forall>p. prefix p temp \<longrightarrow> registered regs verb p = None)
        \<and> forward (setDefaultRoute d (router_of regs)) verb path =
            Some (case d of Some f \<Rightarrow> Handled f (extractExtraPathParts path 0) | None \<Rightarrow> NotFound)"
proof -
  let ?m = "routes (router_of regs) (getFirstIndexForRoutes temp) verb"
  have m: "route_map ?m" and look: "\<And>p. map_of ?m p = (if getFirstIndexForRoutes temp = getFirstIndexForRoutes p then registered regs verb p else None)"
    using router_of_routes by blast+
  have keys: "p \<in> fst ` set ?m \<longleftrightarrow> (\<exists>h. registered regs verb p = Some h)" if "prefix p temp" "p \<noteq> []" for p
    using look [of p] prefix_first_index [OF that] map_of_flat_Some [of p ?m] by simp
  have known: "p \<noteq> []" if "registered regs verb p = Some h" for p h
    using registered_key [OF that] nonempty by auto
  from find_route [OF m, of temp] show ?thesis
  proof (elim disjE exE conjE)
    fix p h
    assume found: "find (\<lambda>(p, h). length p \<le> length temp \<and> p = take (length p) temp) ?m = Some (p, h)" "map_of ?m p = Some h"
      "prefix p temp" "\<forall>p'. p' \<in> fst ` set ?m \<and> prefix p' temp \<longrightarrow> length p' \<le> length p"
    have "registered regs verb p = Some h" using found(2) look [of p] by (simp split: if_splits)
    moreover have "length p' \<le> length p" if "registered regs verb p' = Some h'" "prefix p' temp" for p' h'
      using found(4) keys [OF that(2) known [OF that(1)]] that by blast
    moreover have "forward (setDefaultRoute d (router_of regs)) verb path =
        Some (case h of Some f \<Rightarrow> Handled f (extractExtraPathParts path (length p)) | None \<Rightarrow> NoHandler)"
      using found(1) by (simp add: forward_def temp setDefaultRoute_def split: option.split)
    ultimately show ?thesis using found(3) by blast
  next
    assume none: "find (\<lambda>(p, h). length p \<le> length temp \<and> p = take (length p) temp) ?m = None"
      "\<forall>p \<in> fst ` set ?m. \<not> prefix p temp"
    have "registered regs verb p = None" if "prefix p temp" for p
      using none(2) keys [OF that] known that by (cases "registered regs verb p") blast+
    moreover have "forward (setDefaultRoute d (router_of regs)) verb path =
        Some (case d of Some f \<Rightarrow> Handled f (extractExtraPathParts path 0) | None \<Rightarrow> NotFound)"
      using none(1) by (simp add: forward_def temp setDefaultRoute_def split: option.split)
    ultimately show ?thesis by blast
  qed
qed

end
