(* ===== verification/HttpProperties.thy ===== *)
theory HttpProperties
  imports HttpParserBehaviour HttpRouter
begin

section \<open>Properties of the HTTP layer\<close>

text \<open>
  What a client can rely on when it sends a request: it is parsed to what was sent, however it is cut into
  reads; the state of the parser is well-formed for any input; a body is complete when its announced length
  has arrived; the longest registered route handles the request.
\<close>

lemma match_host: "matchHttpHeader ''Host'' = Header_Host"
  by (simp add: matchHttpHeader_map_of httpHeaders_values_def GetAsciiUpperLowerKey_def ascii_lower_def ascii_upper_def
      code_def header_defs char_of_def bit_0)

lemma length_encoded: "length (encoded s) \<le> 3 * length s"
  by (simp add: encoded_def encoded_length)

text \<open>
  C18. What a client sends is what the handler gets. A GET or DELETE request with any path, up to 64 query
  pairs and any well-formed headers without cookies, percent-encoded as the library encodes, is accepted
  completely: the verb, the decoded path without its leading slashes, the decoded query pairs in order, the
  last value of every known header, and whether the connection is kept.
\<close>

theorem request_round_trip:
  assumes "verb \<in> {GET, VERB_DELETE}" "length q \<le> MaxQueryPairs" "\<forall>(name, val) \<in> set headers. plain_header name val"
    and "header_table headers Header_Expect = None" "header_table headers Header_Cookie = None"
    and "length (request_string verb path q headers) \<le> capacity"
  shows "\<exists>p. process lexical (Parser capacity maxLength push body) (request_string verb path q headers) = Some p
    \<and> parseResult p = FINISHED \<and> req_verb (request p) = verb
    \<and> view_string (headerBuffer p) (req_path (request p)) = dropWhile (\<lambda>c. c = CHR ''/'') path
    \<and> pair_texts (headerBuffer p) (queryPairs (request p)) = q
    \<and> (\<forall>h. h \<noteq> Header_UnknownHeader \<longrightarrow> header_string p h = (case header_table headers h of Some v \<Rightarrow> v | None \<Rightarrow> []))
    \<and> keepConnectionAlive (request p) =
        matchStringUpperOrLower (case header_table headers Header_Connection of Some v \<Rightarrow> v | None \<Rightarrow> []) ''keep-aliveKEEP-ALIVE''"
  using assms by (rule request_parsed)

theorem request_round_trip_witness:
  "\<exists>p. process (\<lambda>_. None) (Parser 1024 1024 (\<lambda>_ _. (True, ())) ())
      (request_string GET ''users'' [(''name'', ''a b''), (''page'', ''2'')] [(''Host'', ''forum'')]) = Some p
    \<and> parseResult p = FINISHED \<and> pair_texts (headerBuffer p) (queryPairs (request p)) = [(''name'', ''a b''), (''page'', ''2'')]
    \<and> header_string p Header_Host = ''forum''"
proof -
  let ?q = "[(''name'', ''a b''), (''page'', ''2'')]" and ?headers = "[(''Host'', ''forum'')]"
  have table: "header_table ?headers h = (if h = Header_Host then Some ''forum'' else None)" for h
    by (simp add: header_table_def match_host)
  have plain: "\<forall>(name, val) \<in> set ?headers. plain_header name val" by (simp add: plain_header_def)
  have size: "length (request_string GET ''users'' ?q ?headers) \<le> 1024"
    using length_encoded [of "''users''"] length_encoded [of "''name''"] length_encoded [of "''a b''"] length_encoded [of "''page''"]
      length_encoded [of "''2''"]
    by (simp add: request_string_def request_line_def request_target_def header_line_def)
  have "header_table ?headers Header_Expect = None" "header_table ?headers Header_Cookie = None"
    "header_table ?headers Header_Host = Some ''forum''" "Header_Host \<noteq> Header_UnknownHeader"
    by (simp_all add: table) (simp_all add: header_defs)
  then show ?thesis
    using request_round_trip [of GET ?q ?headers "''users''" 1024 "\<lambda>_. None" 1024 "\<lambda>_ _. (True, ())" "()"] plain size
    by (fastforce simp: MaxQueryPairs_def)
qed

text \<open>
  C19. The parser is memory-safe up to its fixed arrays. After any sequence of reads of any bytes, the header
  has not outgrown its buffer and every view of the request (path, headers, query pairs, cookies) lies
  inside it, with at most 64 pairs and 32 cookies; the only way to leave the arrays is an input with more
  than 64 equals signs or at least 32 semicolons.
\<close>

theorem parser_state_well_formed:
  "case process_reads lexical reads (Parser capacity maxLength push body) of
     Some p \<Rightarrow> length (headerBuffer p) \<le> headerBufferSize p \<and> request_wf (headerBuffer p) (request p)
   | None \<Rightarrow> count_char CHR ''='' (concat reads) > MaxQueryPairs \<or> count_char CHR '';'' (concat reads) \<ge> MaxCookies"
  using process_reads_kept [OF Parser_inv [of capacity maxLength push body], of reads lexical]
  by (auto simp: kept_def parser_inv_def parser_wf_def too_many_def split: option.splits)

text \<open>
  C21. It does not matter where the network cuts a header. From any state the parser can reach, reading two
  pieces one after the other gives the state of reading them at once, unless the first piece ends inside a
  header name and the second starts with a carriage return, or the body has begun.
\<close>

theorem reads_can_be_joined:
  assumes "process_reads lexical reads (Parser capacity maxLength push body) = Some p"
    and "process lexical p a = Some q" "currentParser q \<noteq> parseBody_state" "\<not> cut_in_name q b"
  shows "process lexical p (a @ b) = process lexical q b"
proof -
  have "kept (concat reads) (process_reads lexical reads (Parser capacity maxLength push body))"
    using process_reads_kept [OF Parser_inv [of capacity maxLength push body], of reads lexical] by simp
  then have "parser_inv (concat reads) p" using assms(1) by (simp add: kept_def)
  then show ?thesis using assms(2-4) by (intro process_append)
qed

lemma process_GE: "process lexical (Parser 64 0 push body) ''GE'' = Some ((Parser 64 0 push body)\<lparr>headerBuffer := ''GE''\<rparr>)"
  by (simp add: process_step parse_step_simps copying_def Parser_def)

theorem reads_can_be_joined_witness:
  "process (\<lambda>_. None) (Parser 64 0 (\<lambda>_ _. (True, ())) ()) (''GE'' @ ''T / HTTP/1.1'') =
   process (\<lambda>_. None) ((Parser 64 0 (\<lambda>_ _. (True, ())) ())\<lparr>headerBuffer := ''GE''\<rparr>) ''T / HTTP/1.1''"
  by (rule reads_can_be_joined [of "\<lambda>_. None" "[]" 64 0 "\<lambda>_ _. (True, ())" "()"], simp_all add: process_reads_def process_GE)
    (simp_all add: Parser_def cut_in_name_def)

text \<open>
  C23. More than 64 query pairs leave the array of the request. A request line with any path and any pairs is
  parsed if and only if there are at most 64 pairs, although the header buffer has room for many more.
\<close>

theorem query_pairs_overflow:
  assumes "verb \<noteq> VERB_UNKNOWN" "length (request_line verb path q) \<le> capacity"
  shows "process lexical (Parser capacity maxLength push body) (request_line verb path q) = None \<longleftrightarrow> length q > MaxQueryPairs"
proof -
  have "request_line verb path q = verb_string verb @ '' '' @ request_target path q @ '' '' @ ''HTTP/1.1'' @ [CHR 0x0D, CHR 0x0A]"
    by (simp add: request_line_def)
  then show ?thesis
    using request_line_overflows [OF assms(1) _ assms(2), of lexical maxLength push body "''HTTP/1.1'' @ [CHR 0x0D, CHR 0x0A]"]
      process_request_line [OF assms(1) _ assms(2), of lexical maxLength push body] by (metis not_less option.distinct(1))
qed

lemma length_query_65: "length (render_query (replicate n (''a'', ''b''))) \<le> n * 8"
proof (induction n)
  case (Suc n)
  then show ?case using length_encoded [of "''a''"] length_encoded [of "''b''"]
    by (cases n) (auto simp: length_render_query_Cons)
qed simp

theorem query_pairs_overflow_witness:
  "process (\<lambda>_. None) (Parser 1024 0 (\<lambda>_ _. (True, ())) ()) (request_line GET ''users'' (replicate 65 (''a'', ''b''))) = None"
proof -
  have "length (request_line GET ''users'' (replicate 65 (''a'', ''b''))) \<le> 1024"
    using length_query_65 [of 65] length_encoded [of "''users''"] by (simp add: request_line_def request_target_def)
  then show ?thesis by (simp add: query_pairs_overflow MaxQueryPairs_def)
qed

text \<open>
  C20. A body is complete exactly when the announced number of bytes has arrived. From any state in which the
  headers have been read and a body is expected, any reads that the connection has room for are accepted,
  and the request is finished as soon as, and only when, they add up to the announced length.
\<close>

theorem body_completes:
  assumes "process_reads lexical headers (Parser capacity maxLength push body) = Some p"
    and "currentParser p = parseBody_state" "parseResult p = ONGOING"
    and "expectedContentLength p \<le> maxContentLength p" "accepts_body p" "\<forall>bytes \<in> set reads. bytes \<noteq> []"
  shows "\<exists>q. process_reads lexical reads p = Some q \<and> parseResult q \<noteq> INVALID_INPUT
    \<and> (parseResult q = FINISHED \<longleftrightarrow> expectedContentLength p \<le> requestBodyBytesProcessed p + length (concat reads))"
proof -
  have "kept (concat headers) (process_reads lexical headers (Parser capacity maxLength push body))"
    using process_reads_kept [OF Parser_inv [of capacity maxLength push body], of headers lexical] by simp
  moreover have "valid p" "\<not> finished p" using assms(3) by (auto simp: parseResult_def split: if_splits)
  ultimately have "requestBodyBytesProcessed p < expectedContentLength p"
    using assms(1,2) by (simp add: kept_def parser_inv_def reading_inv_def)
  then show ?thesis using body_reads [OF assms(2) _ _ assms(6,4,5)] \<open>valid p\<close> \<open>\<not> finished p\<close> by blast
qed

lemma match_content_length: "matchHttpHeader ''Content-Length'' = Header_Content_Length"
  by (simp add: matchHttpHeader_map_of httpHeaders_values_def GetAsciiUpperLowerKey_def ascii_lower_def ascii_upper_def
      code_def header_defs char_of_def bit_0)

lemma post_reached:
  "\<exists>p. process (\<lambda>s. if s = ''3'' then Some 3 else None) (Parser 64 8 (\<lambda>_ _. (True, ())) ())
     (''POST /a HTTP/1.1'' @ [CHR 0x0D, CHR 0x0A] @ ''Content-Length: 3'' @ [CHR 0x0D, CHR 0x0A, CHR 0x0D, CHR 0x0A]) = Some p
   \<and> currentParser p = parseBody_state \<and> parseResult p = ONGOING \<and> expectedContentLength p = 3 \<and> maxContentLength p = 8
   \<and> requestBodyBytesProcessed p = 0 \<and> pushBodyBytes p = (\<lambda>_ _. (True, ()))"
  by (simp add: process_step parse_step_simps copying_def Parser_def finishVerb_def parseHttpVerb_def matchStringUpperOrLowerSameSize_def
     finishPath_def interpretPathString_def interpretPathString_step_def upt_rec viewAfterDecodingUrlEncodingInPlace_def
     decodeUrlEncodingInPlace_def trimLeadingChar_view_def view_string_def parseNewLine_def finishVersion_def parseHeaderName_def
     parseHeaderSpacing_def finishHeaderName_def finishHeaderValue_def match_content_length endOfHeaders_def
     interpretImportantHeaders_def header_string_def interpretCookies_def HttpRequest_def Let_def parseResult_def header_defs)

theorem body_completes_witness:
  "\<exists>p q. process_reads (\<lambda>s. if s = ''3'' then Some 3 else None)
       [''POST /a HTTP/1.1'' @ [CHR 0x0D, CHR 0x0A] @ ''Content-Length: 3'' @ [CHR 0x0D, CHR 0x0A, CHR 0x0D, CHR 0x0A]]
       (Parser 64 8 (\<lambda>_ _. (True, ())) ()) = Some p
     \<and> process_reads (\<lambda>s. if s = ''3'' then Some 3 else None) [''ab'', ''c''] p = Some q \<and> parseResult q = FINISHED"
proof -
  obtain p where p: "process_reads (\<lambda>s. if s = ''3'' then Some 3 else None)
       [''POST /a HTTP/1.1'' @ [CHR 0x0D, CHR 0x0A] @ ''Content-Length: 3'' @ [CHR 0x0D, CHR 0x0A, CHR 0x0D, CHR 0x0A]]
       (Parser 64 8 (\<lambda>_ _. (True, ())) ()) = Some p" "currentParser p = parseBody_state" "parseResult p = ONGOING"
     "expectedContentLength p = 3" "maxContentLength p = 8" "requestBodyBytesProcessed p = 0" "accepts_body p"
    using post_reached unfolding process_reads_def accepts_body_def fold_option.simps by (metis (no_types, lifting) fst_conv option.simps(5))
  from body_completes [OF p(1-3) _ p(7), of "[''ab'', ''c'']"] show ?thesis using p by auto
qed

text \<open>A concrete forwarding: the longer of two routes, with the last part of the path.\<close>

lemma forward_example:
  "forward (setDefaultRoute None (router_of [(''users/'', GET, Some (1 :: nat)), (''users/name/'', GET, Some 2)])) GET ''Users/Name/x'' =
    Some (Handled 2 [''x''])"
  by (simp add: forward_def setDefaultRoute_def tempPath_def router_of_def addRoute_def HttpRouter_def getFirstIndexForRoutes_def FirstIndexMaxValue_def
      MaxRouteSize_def char_to_lower_def CharToLower_def code_def nth_append route_before_def extractExtraPathParts_def
      extractPathParts.simps MaxExtraPathParts_def char_of_def bit_0)

text \<open>
  C22. The longest registered route handles a request. For routes registered in any order, none of them
  empty, a request with a non-empty path is handled by the first handler registered for its verb under the
  longest path that is a prefix of the lowercased request path, and by the default route if there is none;
  the handler gets the rest of the path in at most 32 parts.
\<close>

theorem longest_route_wins:
  assumes "path \<noteq> []" "\<forall>(p, v, h) \<in> set regs. p \<noteq> []"
  shows "\<exists>temp. tempPath path = Some temp \<and>
    ((\<exists>p h. registered regs verb p = Some h \<and> prefix p temp
        \<and> (\<forall>p' h'. registered regs verb p' = Some h' \<and> prefix p' temp \<longrightarrow> length p' \<le> length p)
        \<and> length (extractExtraPathParts path (length p)) \<le> MaxExtraPathParts
        \<and> forward (setDefaultRoute d (router_of regs)) verb path =
            Some (case h of Some f \<Rightarrow> Handled f (extractExtraPathParts path (length p)) | None \<Rightarrow> NoHandler))
    \<or> (\<forall>p. prefix p temp \<longrightarrow> registered regs verb p = None)
        \<and> forward (setDefaultRoute d (router_of regs)) verb path =
            Some (case d of Some f \<Rightarrow> Handled f (extractExtraPathParts path 0) | None \<Rightarrow> NotFound))"
proof -
  obtain temp where temp: "tempPath path = Some temp"
    using assms(1) by (cases path) (auto simp: tempPath_def MaxRouteSize_def Let_def)
  from forward_longest [OF temp assms(2), of verb d] show ?thesis
    using temp extra_parts_bounded by blast
qed

theorem longest_route_wins_witness:
  "\<exists>temp. tempPath ''Users/Name/x'' = Some temp \<and>
    forward (setDefaultRoute None (router_of [(''users/'', GET, Some (1 :: nat)), (''users/name/'', GET, Some 2)])) GET ''Users/Name/x'' =
      Some (Handled 2 [''x''])"
  using longest_route_wins [of "''Users/Name/x''" "[(''users/'', GET, Some (1 :: nat)), (''users/name/'', GET, Some 2)]" GET None]
    forward_example by auto

text \<open>An empty path is read in front of the temporary path.\<close>

lemma forward_empty_path: "forward r verb [] = None"
  by (simp add: forward_def tempPath_def)

text \<open>A cookie header that ends with a semicolon keeps it in the last value.\<close>

lemma cookie_keeps_semicolon:
  "case interpretCookies (1, 4) '':a=b;\<newline>'' HttpRequest of
     Some (r, buffer) \<Rightarrow> getCookie buffer r ''a'' = ''b;''
   | None \<Rightarrow> False"
  by (simp add: interpretCookies_def upt_rec interpretCookies_step_def finishCookie_def trimmed_region_def skipSpaces.simps
      decoded_region_def viewAfterDecodingUrlEncodingInPlace_def decodeUrlEncodingInPlace_def addCookie_def HttpRequest_def
      MaxCookies_def getCookie_def view_string_def Let_def numeral_eq_Suc)

end
