(* ===== verification/Uuid.thy ===== *)
theory Uuid
  imports PersistenceFormat JsonWriter
begin

section \<open>The text of identifiers\<close>

text \<open>
  Models \<^verbatim>\<open>src/src/LibForumHelpers/UuidString.h\<close> and \<^verbatim>\<open>private/UuidString.cpp\<close>: the two texts of an
  identifier, the parsers, and the searches for identifiers in a list and in the text of a message. The
  parsers index with fixed positions into a text whose size they have checked, and take a character that is
  no hexadecimal digit for the digit 0.
\<close>

definition hexValues :: "nat list" where
  "hexValues = replicate 48 0 @ [0, 1, 2, 3, 4, 5, 6, 7, 8, 9] @ replicate 7 0 @ [10, 11, 12, 13, 14, 15]
     @ replicate 26 0 @ [10, 11, 12, 13, 14, 15] @ replicate 153 0"

definition uuidValuePositions :: "nat list" where
  "uuidValuePositions =
     [0, 1, 2, 3, 4, 5, 6, 7, 9, 10, 11, 12, 14, 15, 16, 17, 19, 20, 21, 22,
      24, 25, 26, 27, 28, 29, 30, 31, 32, 33, 34, 35]"

definition StringRepresentationSizeDashed :: nat where
  "StringRepresentationSizeDashed = 36"

definition StringRepresentationSizeCompact :: nat where
  "StringRepresentationSizeCompact = 32"

definition hex_byte :: "char \<Rightarrow> char \<Rightarrow> 8 word" where
  "hex_byte a b = of_nat (hexValues ! byte_code a * 16 + hexValues ! byte_code b)"

definition parseUuidDashed :: "string \<Rightarrow> id_type" where
  "parseUuidDashed v = bytes_uuid (map (\<lambda>dst. hex_byte (v ! (uuidValuePositions ! (2 * dst)))
     (v ! (uuidValuePositions ! (2 * dst + 1)))) [0..<16])"

definition parseUuidCompact :: "string \<Rightarrow> id_type" where
  "parseUuidCompact v = bytes_uuid (map (\<lambda>dst. hex_byte (v ! (2 * dst)) (v ! (2 * dst + 1))) [0..<16])"

definition parseUuid :: "string \<Rightarrow> id_type option" where
  "parseUuid v =
     (if length v = StringRepresentationSizeCompact then Some (parseUuidCompact v)
      else if length v = StringRepresentationSizeDashed then Some (parseUuidDashed v) else None)"

definition UuidString :: "string \<Rightarrow> id_type" where
  "UuidString v = (case parseUuid v of Some u \<Rightarrow> u | None \<Rightarrow> 0)"

definition hexCharsLowercase :: string where
  "hexCharsLowercase = ''0123456789abcdef''"

definition hex_chars :: "8 word \<Rightarrow> string" where
  "hex_chars v = [hexCharsLowercase ! (unat v div 16), hexCharsLowercase ! (unat v mod 16)]"

definition toStringDashed :: "id_type \<Rightarrow> string" where
  "toStringDashed u =
     fold (\<lambda>v buffer. let b = buffer @ hex_chars v
                      in if length b = 8 \<or> length b = 13 \<or> length b = 18 \<or> length b = 23 then b @ ''-'' else b)
       (uuid_bytes u) []"

definition toStringCompact :: "id_type \<Rightarrow> string" where
  "toStringCompact u = fold (\<lambda>v buffer. buffer @ hex_chars v) (uuid_bytes u) []"

text \<open>\<open>JsonWriter& operator<<(JsonWriter&, const UuidString&)\<close> of \<^verbatim>\<open>EntitySerialization.cpp\<close>.\<close>

definition writeUuid :: "id_type \<Rightarrow> json_step" where
  "writeUuid u = writeSafeString (toStringCompact u)"

subsection \<open>Lists of identifiers\<close>

definition OccursInUuids :: "nat list" where
  "OccursInUuids = replicate 45 0 @ [1, 0, 0] @ replicate 10 1 @ replicate 7 0 @ replicate 6 1
     @ replicate 26 0 @ replicate 6 1 @ replicate 153 0"

definition uuid_sized :: "string \<Rightarrow> bool" where
  "uuid_sized v \<longleftrightarrow> length v = StringRepresentationSizeDashed \<or> length v = StringRepresentationSizeCompact"

text \<open>
  The loop over the input; \<open>current\<close> are the characters from \<open>previousStart\<close> on, \<open>room\<close> how many more
  identifiers the destination takes.
\<close>

fun parse_uuids_loop :: "nat \<Rightarrow> string \<Rightarrow> string \<Rightarrow> id_type list" where
  "parse_uuids_loop room current [] = (if uuid_sized current then [UuidString current] else [])"
| "parse_uuids_loop room current (c # cs) =
     (if OccursInUuids ! byte_code c = 0 then
        (if uuid_sized current then
           UuidString current # (if room \<le> 1 then [] else parse_uuids_loop (room - 1) [] cs)
         else parse_uuids_loop room [] cs)
      else parse_uuids_loop room (current @ [c]) cs)"

definition parseMultipleUuidStrings :: "nat \<Rightarrow> string \<Rightarrow> id_type list" where
  "parseMultipleUuidStrings room input = (if room = 0 then [] else parse_uuids_loop room [] input)"

subsection \<open>References to users in a text\<close>

text \<open>
  A character is a \<open>signed char\<close>, so a byte from 128 on indexes the table before its begin; \<open>None\<close> is
  that access. The positions are checked in order and the first that does not fit ends the check.
\<close>

definition reference_positions :: "nat list" where
  "reference_positions = map Suc uuidValuePositions"

fun all_occur :: "string \<Rightarrow> nat list \<Rightarrow> bool option" where
  "all_occur v [] = Some True"
| "all_occur v (k # ks) =
     (if byte_code (v ! k) \<ge> 128 then None
      else if OccursInUuids ! byte_code (v ! k) = 1 then all_occur v ks else Some False)"

definition possibleReferenceFound :: "string \<Rightarrow> bool" where
  "possibleReferenceFound v \<longleftrightarrow>
     v ! 0 = CHR ''@'' \<and> v ! 37 = CHR ''@'' \<and> v ! 9 = CHR ''-'' \<and> v ! 14 = CHR ''-'' \<and> v ! 19 = CHR ''-'' \<and> v ! 24 = CHR ''-''"

text \<open>One position per step; fewer than 38 remaining characters end the loop.\<close>

fun extractUuidReferences :: "string \<Rightarrow> id_type list option" where
  "extractUuidReferences [] = Some []"
| "extractUuidReferences (c # cs) =
     (let v = c # cs in
      if length v < 38 then Some []
      else if possibleReferenceFound v then
        (case all_occur v reference_positions of
           None \<Rightarrow> None
         | Some found \<Rightarrow>
             map_option (\<lambda>us. if found then UuidString (take 36 (drop 1 v)) # us else us) (extractUuidReferences cs))
      else extractUuidReferences cs)"

subsection \<open>Round trips\<close>

lemma hex_digits_ok:
  "list_all (\<lambda>n. hexValues ! byte_code (hexCharsLowercase ! n) = n \<and>
     OccursInUuids ! byte_code (hexCharsLowercase ! n) = 1 \<and> byte_code (hexCharsLowercase ! n) < 128) [0..<16]"
  by code_simp

lemma hex_digit:
  assumes "n < 16"
  shows "hexValues ! byte_code (hexCharsLowercase ! n) = n"
    "OccursInUuids ! byte_code (hexCharsLowercase ! n) = Suc 0" "byte_code (hexCharsLowercase ! n) < 128"
  using hex_digits_ok assms by (auto simp: list_all_iff)

lemma byte_div_mod: "unat (v :: 8 word) div 16 < 16" "unat v mod 16 < 16"
proof -
  have "unat v < 256" using unsigned_less [of v] by simp
  then show "unat v div 16 < 16" by (simp add: less_mult_imp_div_less)
qed simp

lemma hex_byte_chars: "hex_byte (hexCharsLowercase ! (unat v div 16)) (hexCharsLowercase ! (unat v mod 16)) = v"
  by (simp add: hex_byte_def hex_digit byte_div_mod)

lemma length16:
  assumes "length xs = 16"
  obtains a b c d e f g h i j k l m n p q where "xs = [a, b, c, d, e, f, g, h, i, j, k, l, m, n, p, q]"
  using assms by (auto simp: numeral_eq_Suc length_Suc_conv)

lemma length_fold_hex: "length (fold (\<lambda>v buffer. buffer @ hex_chars v) vs b) = length b + 2 * length vs"
  by (induction vs arbitrary: b) (simp_all add: hex_chars_def)

lemma length_toStringCompact [simp]: "length (toStringCompact u) = 32"
  by (simp add: toStringCompact_def length_fold_hex)

lemma upt16: "[0..<16] = [0::nat, 1, 2, 3, 4, 5, 6, 7, 8, 9, 10, 11, 12, 13, 14, 15]"
  by (simp add: upt_rec)

lemma uuid_text_bytes:
  obtains bs where "uuid_bytes u = bs" "bytes_uuid bs = u" "length bs = 16"
  by simp

lemma parse_compact: "parseUuidCompact (toStringCompact u) = u"
proof -
  obtain bs where bs: "uuid_bytes u = bs" "bytes_uuid bs = u" "length bs = 16"
    by (rule uuid_text_bytes)
  from bs(3) have "map (\<lambda>dst. hex_byte (fold (\<lambda>v buffer. buffer @ hex_chars v) bs [] ! (2 * dst))
      (fold (\<lambda>v buffer. buffer @ hex_chars v) bs [] ! (2 * dst + 1))) [0..<16] = bs"
    by (elim length16) (simp add: upt16 hex_chars_def hex_byte_chars)
  then show ?thesis using bs by (simp add: parseUuidCompact_def toStringCompact_def)
qed

definition dashed_text :: "bytes \<Rightarrow> string" where
  "dashed_text bs = concat (map hex_chars (take 4 bs)) @ ''-'' @ concat (map hex_chars (take 2 (drop 4 bs))) @ ''-''
     @ concat (map hex_chars (take 2 (drop 6 bs))) @ ''-'' @ concat (map hex_chars (take 2 (drop 8 bs))) @ ''-''
     @ concat (map hex_chars (drop 10 bs))"

lemma length_hex_chars [simp]: "length (hex_chars v) = 2"
  by (simp add: hex_chars_def)

lemma dashed_fold:
  assumes "length bs = 16"
  shows "fold (\<lambda>v buffer. let b = buffer @ hex_chars v
        in if length b = 8 \<or> length b = 13 \<or> length b = 18 \<or> length b = 23 then b @ ''-'' else b) bs [] = dashed_text bs"
  using assms by (elim length16) (simp add: dashed_text_def Let_def)

lemma toStringDashed_eq: "toStringDashed u = dashed_text (uuid_bytes u)"
  unfolding toStringDashed_def by (rule dashed_fold) simp

lemma length_toStringDashed [simp]: "length (toStringDashed u) = 36"
proof -
  obtain bs where bs: "uuid_bytes u = bs" "bytes_uuid bs = u" "length bs = 16"
    by (rule uuid_text_bytes)
  from bs(3) have "length (dashed_text bs) = 36" by (elim length16) (simp add: dashed_text_def)
  with bs show ?thesis by (simp add: toStringDashed_eq)
qed

lemma parse_dashed_bytes:
  assumes "length bs = 16"
  shows "map (\<lambda>dst. hex_byte (dashed_text bs ! (uuidValuePositions ! (2 * dst))) (dashed_text bs ! (uuidValuePositions ! (2 * dst + 1)))) [0..<16] = bs"
  using assms by (elim length16) (simp add: upt16 dashed_text_def hex_chars_def hex_byte_chars uuidValuePositions_def)

lemma parse_dashed: "parseUuidDashed (toStringDashed u) = u"
  using parse_dashed_bytes [of "uuid_bytes u"] by (simp only: parseUuidDashed_def toStringDashed_eq length_uuid_bytes uuid_bytes_roundtrip)

subsection \<open>Reading lists and references back\<close>

lemma uuid_of_text: "UuidString (toStringDashed u) = u" "UuidString (toStringCompact u) = u"
  by (simp_all add: UuidString_def parseUuid_def StringRepresentationSizeDashed_def StringRepresentationSizeCompact_def
      parse_dashed parse_compact)

lemma uuid_sized_text: "uuid_sized (toStringDashed u)" "uuid_sized (toStringCompact u)"
  by (simp_all add: uuid_sized_def StringRepresentationSizeDashed_def StringRepresentationSizeCompact_def)

definition uuid_char :: "char \<Rightarrow> bool" where
  "uuid_char c \<longleftrightarrow> OccursInUuids ! byte_code c \<noteq> 0"

lemma hex_chars_occur: "\<forall>c\<in>set (hex_chars v). uuid_char c"
  by (simp add: hex_chars_def uuid_char_def hex_digit byte_div_mod)

lemma dash_occurs: "uuid_char (CHR ''-'')"
  by code_simp

lemma set_fold_hex: "set (fold (\<lambda>v buffer. buffer @ hex_chars v) vs b) = set b \<union> (\<Union>v\<in>set vs. set (hex_chars v))"
  by (induction vs arbitrary: b) auto

lemma compact_occurs: "\<forall>c\<in>set (toStringCompact u). uuid_char c"
  using hex_chars_occur by (auto simp: toStringCompact_def set_fold_hex)

lemma dashed_occurs: "\<forall>c\<in>set (toStringDashed u). uuid_char c"
  using hex_chars_occur dash_occurs by (auto simp: toStringDashed_eq dashed_text_def dest!: in_set_takeD in_set_dropD)

lemma parse_loop_word:
  "\<forall>c\<in>set v. uuid_char c \<Longrightarrow> parse_uuids_loop room current (v @ rest) = parse_uuids_loop room (current @ v) rest"
  by (induction v arbitrary: current) (auto simp: uuid_char_def)

text \<open>A list whose elements are the texts of identifiers, each followed by a separator but the last.\<close>

fun separated :: "char \<Rightarrow> string list \<Rightarrow> string" where
  "separated sep [] = []"
| "separated sep [v] = v"
| "separated sep (v # w # vs) = v @ sep # separated sep (w # vs)"

definition uuid_text :: "string \<Rightarrow> id_type \<Rightarrow> bool" where
  "uuid_text v u \<longleftrightarrow> v = toStringDashed u \<or> v = toStringCompact u"

lemma uuid_textD:
  assumes "uuid_text v u"
  shows "UuidString v = u" "uuid_sized v" "\<forall>c\<in>set v. uuid_char c"
  using assms uuid_of_text uuid_sized_text compact_occurs dashed_occurs by (auto simp: uuid_text_def)

lemma parse_separated:
  "list_all2 uuid_text vs us \<Longrightarrow> \<not> uuid_char sep \<Longrightarrow> 0 < room \<Longrightarrow> vs \<noteq> [] \<Longrightarrow>
   parse_uuids_loop room [] (separated sep vs) = take room us"
proof (induction sep vs arbitrary: us room rule: separated.induct)
  case (2 sep v)
  then obtain u where "us = [u]" "uuid_text v u" by (auto simp: list_all2_Cons1)
  then show ?case using 2 parse_loop_word [of v room "[]" "[]"] uuid_textD [of v u] by simp
next
  case (3 sep v w vs)
  then obtain u us' where us: "us = u # us'" "uuid_text v u" "list_all2 uuid_text (w # vs) us'"
    by (auto simp: list_all2_Cons1)
  note v = uuid_textD [OF us(2)]
  have "parse_uuids_loop room [] (separated sep (v # w # vs)) =
      u # (if room \<le> 1 then [] else parse_uuids_loop (room - 1) [] (separated sep (w # vs)))"
    using parse_loop_word [OF v(3), of room "[]"] v 3(3) by (simp add: uuid_char_def)
  also have "\<dots> = take room us"
    using "3.IH" [of us' "room - 1"] 3(3-) us by (cases room) auto
  finally show ?case .
qed simp

lemma separator_char: "\<not> uuid_char (CHR '','')"
  by code_simp

text \<open>A byte of a multi-byte character where a digit is expected is looked up before the table.\<close>

definition bad_reference :: string where
  "bad_reference = ''@'' @ [char_of (200 :: nat)] @ replicate 7 (CHR ''0'') @ ''-0000-0000-0000-000000000000@''"

lemma reference_reads_before_table: "extractUuidReferences bad_reference = None"
  by code_simp

lemma reference_found:
  "extractUuidReferences (''hello @'' @ toStringDashed 5 @ ''@'') = Some [5]"
  by code_simp

end
