(* ===== verification/JsonText.thy ===== *)
theory JsonText
  imports JsonWriter
begin

section \<open>JSON texts and what the writer writes\<close>

text \<open>
  The reference for the writer: JSON values, the text of a value without white space, and a reader of
  such texts that accepts the JSON grammar (objects, arrays, strings with their escapes, whole numbers
  without leading zeros). The lemmas show that the reader inverts the text of a value and that chains of
  writer steps write the text of their value.
\<close>

datatype json =
    JNull
  | JBool bool
  | JInt int
  | JString string
  | JArray "json list"
  | JObject "(string \<times> json) list"

subsection \<open>The text of a value\<close>

definition string_text :: "string \<Rightarrow> string" where
  "string_text v = ''\"'' @ escapeString v @ ''\"''"

fun comma_separated :: "string list \<Rightarrow> string" where
  "comma_separated [] = []"
| "comma_separated [x] = x"
| "comma_separated (x # y # xs) = x @ '','' @ comma_separated (y # xs)"

fun json_text :: "json \<Rightarrow> string" where
  "json_text JNull = ''null''"
| "json_text (JBool b) = (if b then ''true'' else ''false'')"
| "json_text (JInt v) = number_text v False"
| "json_text (JString v) = string_text v"
| "json_text (JArray xs) = ''['' @ comma_separated (map json_text xs) @ '']''"
| "json_text (JObject ms) = ''{'' @ comma_separated (map (\<lambda>(k, x). string_text k @ '':'' @ json_text x) ms) @ ''}''"

subsection \<open>A reader\<close>

definition hex_value :: "char \<Rightarrow> nat option" where
  "hex_value c =
     (let n = byte_code c
      in if 48 \<le> n \<and> n \<le> 57 then Some (n - 48)
         else if 65 \<le> n \<and> n \<le> 70 then Some (n - 55)
         else if 97 \<le> n \<and> n \<le> 102 then Some (n - 87) else None)"

definition unescape :: "char \<Rightarrow> char option" where
  "unescape c =
     map_of [(CHR 0x22, CHR 0x22), (CHR 0x5C, CHR 0x5C), (CHR 0x2F, CHR 0x2F), (CHR ''b'', CHR 0x08),
             (CHR ''f'', CHR 0x0C), (CHR ''n'', CHR 0x0A), (CHR ''r'', CHR 0x0D), (CHR ''t'', CHR 0x09)] c"

text \<open>
  The characters of a string up to its closing quote. Bytes from 128 on are parts of UTF-8 sequences and
  are kept; of the six-character escapes the ones of single ASCII characters are read.
\<close>

fun read_chars :: "string \<Rightarrow> (string \<times> string) option" where
  "read_chars [] = None"
| "read_chars (c # cs) =
     (if c = CHR 0x22 then Some ([], cs)
      else if c = CHR 0x5C then
        (case cs of
           [] \<Rightarrow> None
         | e # rest \<Rightarrow>
             (if e = CHR ''u'' then
                (case rest of
                   h1 # h2 # h3 # h4 # rest' \<Rightarrow>
                     (case (hex_value h1, hex_value h2, hex_value h3, hex_value h4) of
                        (Some 0, Some 0, Some a, Some b) \<Rightarrow>
                          if 16 * a + b < 128
                          then map_option (\<lambda>(t, r). (char_of (16 * a + b) # t, r)) (read_chars rest') else None
                      | _ \<Rightarrow> None)
                 | _ \<Rightarrow> None)
              else (case unescape e of
                      None \<Rightarrow> None
                    | Some x \<Rightarrow> map_option (\<lambda>(t, r). (x # t, r)) (read_chars rest))))
      else if byte_code c < 32 then None
      else map_option (\<lambda>(t, r). (c # t, r)) (read_chars cs))"

definition json_digit :: "char \<Rightarrow> bool" where
  "json_digit c \<longleftrightarrow> 48 \<le> byte_code c \<and> byte_code c \<le> 57"

definition read_digits_value :: "string \<Rightarrow> nat" where
  "read_digits_value ds = fold (\<lambda>c n. 10 * n + (byte_code c - 48)) ds 0"

definition read_digits :: "string \<Rightarrow> (nat \<times> string) option" where
  "read_digits s =
     (let ds = takeWhile json_digit s
      in if ds = [] \<or> hd ds = CHR ''0'' \<and> length ds > 1 then None
         else Some (read_digits_value ds, dropWhile json_digit s))"

definition read_number :: "string \<Rightarrow> (json \<times> string) option" where
  "read_number s =
     (if take 1 s = ''-'' then map_option (\<lambda>(n, r). (JInt (- int n), r)) (read_digits (drop 1 s))
      else map_option (\<lambda>(n, r). (JInt (int n), r)) (read_digits s))"

definition read_word :: "string \<Rightarrow> json \<Rightarrow> string \<Rightarrow> (json \<times> string) option" where
  "read_word w x s = (if take (length w) s = w then Some (x, drop (length w) s) else None)"

text \<open>The first argument bounds the depth of the recursion; the length of the text is enough.\<close>

fun read_value :: "nat \<Rightarrow> string \<Rightarrow> (json \<times> string) option"
and read_elements :: "nat \<Rightarrow> string \<Rightarrow> (json list \<times> string) option"
and read_members :: "nat \<Rightarrow> string \<Rightarrow> ((string \<times> json) list \<times> string) option"
where
  "read_value 0 s = None"
| "read_value (Suc n) s =
     (case s of
        [] \<Rightarrow> None
      | c # r \<Rightarrow>
          if c = CHR 0x22 then map_option (\<lambda>(t, r'). (JString t, r')) (read_chars r)
          else if c = CHR ''['' then
            (if take 1 r = '']'' then Some (JArray [], drop 1 r)
             else map_option (\<lambda>(xs, r'). (JArray xs, r')) (read_elements n r))
          else if c = CHR ''{'' then
            (if take 1 r = ''}'' then Some (JObject [], drop 1 r)
             else map_option (\<lambda>(ms, r'). (JObject ms, r')) (read_members n r))
          else if c = CHR ''n'' then read_word ''null'' JNull s
          else if c = CHR ''t'' then read_word ''true'' (JBool True) s
          else if c = CHR ''f'' then read_word ''false'' (JBool False) s
          else read_number s)"
| "read_elements 0 s = None"
| "read_elements (Suc n) s =
     (case read_value n s of
        Some (x, r) \<Rightarrow>
          if take 1 r = '','' then map_option (\<lambda>(xs, r'). (x # xs, r')) (read_elements n (drop 1 r))
          else if take 1 r = '']'' then Some ([x], drop 1 r) else None
      | None \<Rightarrow> None)"
| "read_members 0 s = None"
| "read_members (Suc n) s =
     (if take 1 s = ''\"'' then
        (case read_chars (drop 1 s) of
           Some (k, r) \<Rightarrow>
             if take 1 r = '':'' then
               (case read_value n (drop 1 r) of
                  Some (x, r') \<Rightarrow>
                    if take 1 r' = '','' then map_option (\<lambda>(ms, r''). ((k, x) # ms, r'')) (read_members n (drop 1 r'))
                    else if take 1 r' = ''}'' then Some ([(k, x)], drop 1 r') else None
                | None \<Rightarrow> None)
             else None
         | None \<Rightarrow> None)
      else None)"

definition read_json :: "string \<Rightarrow> json option" where
  "read_json s = (case read_value (length s) s of Some (x, []) \<Rightarrow> Some x | _ \<Rightarrow> None)"

subsection \<open>Escaping is undone by reading\<close>

definition escape_char :: "char \<Rightarrow> string" where
  "escape_char c = (if ToEscape ! byte_code c \<noteq> 0 then escape_sequence c else [c])"

lemma byte_code_less [simp]: "byte_code c < 256"
  unfolding byte_code_def by (rule nat_of_char_less_256)

lemma char_of_byte_code [simp]: "char_of (byte_code c) = c"
  by (simp add: byte_code_def)

lemma byte_code_char_of: "n < 256 \<Longrightarrow> byte_code (char_of n) = n"
  by (simp add: byte_code_def)

lemma escape_loop_eq: "escape_loop direct cs = direct @ concat (map escape_char cs)"
  by (induction direct cs rule: escape_loop.induct) (simp_all add: escape_char_def)

lemma escapeString_eq: "escapeString v = concat (map escape_char v)"
proof -
  have "concat (map escape_char v) = v" if "\<not> isEscapeNeeded v"
    using that by (induction v) (simp_all add: isEscapeNeeded_def escape_char_def)
  then show ?thesis by (simp add: escapeString_def escape_loop_eq)
qed

text \<open>The table, entry by entry.\<close>

definition entry_ok :: "nat \<Rightarrow> bool" where
  "entry_ok n =
     (let r = ToEscape ! n in
      if r = 0 then n \<noteq> 0x22 \<and> n \<noteq> 0x5C \<and> 32 \<le> n
      else if r < 0xFF then char_of r \<noteq> CHR ''u'' \<and> unescape (char_of r) = Some (char_of n)
      else n < 128 \<and> hex_value (HexDigits ! (n div 16)) = Some (n div 16) \<and>
           hex_value (HexDigits ! (n mod 16)) = Some (n mod 16))"

lemma entries_ok: "list_all entry_ok [0..<256]"
  by code_simp

lemma entry_okD: "entry_ok (byte_code c)"
  using entries_ok by (simp add: list_all_iff)

lemma read_escape_char:
  "read_chars (escape_char c @ s) = map_option (\<lambda>(t, r). (c # t, r)) (read_chars s)"
proof -
  let ?n = "byte_code c" let ?r = "ToEscape ! ?n"
  have ok: "entry_ok ?n" by (rule entry_okD)
  have quote: "c = CHR 0x22 \<Longrightarrow> ?n = 0x22" "c = CHR 0x5C \<Longrightarrow> ?n = 0x5C"
    by (simp_all add: byte_code_def)
  consider "?r = 0" | "?r \<noteq> 0" "?r < 0xFF" | "?r \<noteq> 0" "\<not> ?r < 0xFF" by blast
  then show ?thesis
  proof cases
    case 1
    with ok quote show ?thesis by (auto simp: entry_ok_def escape_char_def)
  next
    case 2
    with ok show ?thesis by (simp add: entry_ok_def escape_char_def escape_sequence_def Let_def)
  next
    case 3
    have "hex_value (CHR ''0'') = Some 0" by code_simp
    with 3 ok show ?thesis
      by (simp add: entry_ok_def escape_char_def escape_sequence_def Let_def)
  qed
qed

lemma read_escaped: "read_chars (escapeString v @ CHR 0x22 # s) = Some (v, s)"
  by (induction v) (simp_all add: escapeString_eq read_escape_char)

subsection \<open>Reading numbers\<close>

lemma json_digit_decimal: "list_all json_digit (decimal_digits n)"
proof (induction n rule: decimal_digits.induct)
  case (1 n)
  have "json_digit (char_of (n mod 10 + 48))" by (simp add: json_digit_def byte_code_char_of)
  with 1 show ?case by (subst decimal_digits.simps) auto
qed

lemma read_digits_snoc: "read_digits_value (ds @ [c]) = 10 * read_digits_value ds + (byte_code c - 48)"
  by (simp add: read_digits_value_def)

lemma read_digits_value_decimal: "read_digits_value (decimal_digits n) = n"
proof (induction n rule: decimal_digits.induct)
  case (1 n)
  show ?case
  proof (cases "n > 9")
    case True
    with 1 show ?thesis by (subst decimal_digits.simps) (simp add: read_digits_snoc byte_code_char_of)
  next
    case False
    then show ?thesis by (subst decimal_digits.simps) (simp add: read_digits_value_def byte_code_char_of)
  qed
qed

lemma decimal_digits_no_leading_zero:
  "decimal_digits n \<noteq> [] \<and> (0 < n \<longrightarrow> hd (decimal_digits n) \<noteq> CHR ''0'') \<and> (n \<le> 9 \<longrightarrow> length (decimal_digits n) = 1)"
proof (induction n rule: decimal_digits.induct)
  case (1 n)
  have "char_of (n + 48) \<noteq> CHR ''0''" if "0 < n" "n \<le> 9"
  proof
    assume "char_of (n + 48) = CHR ''0''"
    then have "byte_code (char_of (n + 48)) = byte_code (CHR ''0'')" by simp
    then show False using that by (simp add: byte_code_char_of byte_code_def)
  qed
  with 1 show ?case by (subst (1 2 3) decimal_digits.simps) auto
qed

definition no_digit_next :: "string \<Rightarrow> bool" where
  "no_digit_next s \<longleftrightarrow> (case s of [] \<Rightarrow> True | c # _ \<Rightarrow> \<not> json_digit c)"

lemma read_digits_decimal:
  assumes "no_digit_next s"
  shows "read_digits (decimal_digits n @ s) = Some (n, s)"
proof -
  have all: "\<forall>c\<in>set (decimal_digits n). json_digit c"
    using json_digit_decimal by (simp add: list_all_iff)
  have "takeWhile json_digit s = []" "dropWhile json_digit s = s"
    using assms by (auto simp: no_digit_next_def split: list.splits)
  with all have "takeWhile json_digit (decimal_digits n @ s) = decimal_digits n"
      "dropWhile json_digit (decimal_digits n @ s) = s"
    by (simp_all add: takeWhile_append2 dropWhile_append2)
  moreover have "\<not> (hd (decimal_digits n) = CHR ''0'' \<and> length (decimal_digits n) > 1)"
    using decimal_digits_no_leading_zero [of n] by (cases "n = 0") auto
  ultimately show ?thesis
    using decimal_digits_no_leading_zero [of n] by (simp add: read_digits_def read_digits_value_decimal Let_def)
qed

lemma read_number_text:
  assumes "no_digit_next s"
  shows "read_number (number_text v False @ s) = Some (JInt v, s)"
proof (cases "v < 0")
  case True
  then show ?thesis
    using assms by (simp add: read_number_def number_text_def read_digits_decimal)
next
  case False
  obtain d ds where d: "decimal_digits (nat \<bar>v\<bar>) = d # ds" "json_digit d"
    using json_digit_decimal [of "nat \<bar>v\<bar>"] decimal_digits_no_leading_zero [of "nat \<bar>v\<bar>"]
    by (cases "decimal_digits (nat \<bar>v\<bar>)") auto
  then have "d \<noteq> CHR ''-''" by (auto simp: json_digit_def byte_code_def)
  then show ?thesis
    using False d assms read_digits_decimal [of s "nat \<bar>v\<bar>"] by (simp add: read_number_def number_text_def)
qed

subsection \<open>Reading the text of a value\<close>

lemma number_text_head:
  "\<exists>c r. number_text v False = c # r \<and> (c = CHR ''-'' \<or> json_digit c)"
proof (cases "v < 0")
  case True
  then show ?thesis by (simp add: number_text_def)
next
  case False
  then show ?thesis
    using json_digit_decimal [of "nat \<bar>v\<bar>"] decimal_digits_no_leading_zero [of "nat \<bar>v\<bar>"]
    by (cases "decimal_digits (nat \<bar>v\<bar>)") (auto simp: number_text_def)
qed

lemma read_value_number:
  assumes "no_digit_next s"
  shows "read_value (Suc n) (number_text v False @ s) = Some (JInt v, s)"
proof -
  obtain c r where c: "number_text v False = c # r" "c = CHR ''-'' \<or> json_digit c"
    using number_text_head by blast
  have "c \<noteq> CHR 0x22" "c \<noteq> CHR ''[''" "c \<noteq> CHR ''{''" "c \<noteq> CHR ''n''" "c \<noteq> CHR ''t''" "c \<noteq> CHR ''f''"
    using c(2) by (auto simp: json_digit_def byte_code_def)
  moreover have "read_number (c # r @ s) = Some (JInt v, s)"
    using read_number_text [OF assms, of v] c(1) by simp
  ultimately show ?thesis by (simp add: c(1))
qed

lemma json_text_head: "\<exists>c r. json_text x = c # r \<and> c \<noteq> CHR '']'' \<and> c \<noteq> CHR '',''"
proof (cases x)
  case (JInt v)
  obtain c r where c: "number_text v False = c # r" "c = CHR ''-'' \<or> json_digit c"
    using number_text_head by blast
  from c(2) have "c \<noteq> CHR '']''" "c \<noteq> CHR '',''"
    by (auto simp: json_digit_def byte_code_def)
  with c(1) JInt show ?thesis by simp
qed (auto simp: string_text_def)

definition reads_back :: "json \<Rightarrow> bool" where
  "reads_back x \<longleftrightarrow>
     (\<forall>n s. length (json_text x) \<le> n \<longrightarrow> no_digit_next s \<longrightarrow> read_value n (json_text x @ s) = Some (x, s))"

lemma read_elements_text:
  "xs \<noteq> [] \<Longrightarrow> list_all reads_back xs \<Longrightarrow> length (comma_separated (map json_text xs)) < n \<Longrightarrow>
   read_elements n (comma_separated (map json_text xs) @ CHR '']'' # s) = Some (xs, s)"
proof (induction xs arbitrary: n)
  case (Cons x xs)
  then obtain m where n: "n = Suc m" by (cases n) auto
  have sep: "no_digit_next (CHR '']'' # r)" "no_digit_next (CHR '','' # r)" for r
    by (simp_all add: no_digit_next_def json_digit_def byte_code_def)
  show ?case
  proof (cases xs)
    case Nil
    then show ?thesis using Cons.prems n sep by (simp add: reads_back_def)
  next
    case (Cons y ys)
    have "read_elements m (comma_separated (map json_text xs) @ CHR '']'' # s) = Some (xs, s)"
      using Cons.IH [of m] Cons.prems n Cons by simp
    moreover have "read_value m (json_text x @ CHR '','' # comma_separated (map json_text xs) @ CHR '']'' # s)
        = Some (x, CHR '','' # comma_separated (map json_text xs) @ CHR '']'' # s)"
      using Cons.prems n sep Cons by (simp add: reads_back_def)
    ultimately show ?thesis using n Cons by simp
  qed
qed simp

definition member_text :: "string \<times> json \<Rightarrow> string" where
  "member_text = (\<lambda>(k, x). string_text k @ '':'' @ json_text x)"

lemma read_members_text:
  "ms \<noteq> [] \<Longrightarrow> list_all (\<lambda>m. reads_back (snd m)) ms \<Longrightarrow> length (comma_separated (map member_text ms)) < n \<Longrightarrow>
   read_members n (comma_separated (map member_text ms) @ CHR ''}'' # s) = Some (ms, s)"
proof (induction ms arbitrary: n)
  case (Cons m ms)
  then obtain p where n: "n = Suc p" by (cases n) auto
  obtain k x where m: "m = (k, x)" by force
  have sep: "no_digit_next (CHR ''}'' # r)" "no_digit_next (CHR '','' # r)" for r
    by (simp_all add: no_digit_next_def json_digit_def byte_code_def)
  show ?case
  proof (cases ms)
    case Nil
    then show ?thesis
      using Cons.prems n m sep by (simp add: reads_back_def member_text_def string_text_def read_escaped)
  next
    case (Cons y ys)
    let ?rest = "comma_separated (map member_text ms) @ CHR ''}'' # s"
    have "read_members p ?rest = Some (ms, s)"
      using Cons.IH [of p] Cons.prems n Cons by simp
    moreover have "read_value p (json_text x @ CHR '','' # ?rest) = Some (x, CHR '','' # ?rest)"
      using Cons.prems n m sep Cons by (simp add: reads_back_def member_text_def)
    moreover have "comma_separated (map member_text (m # ms)) = string_text k @ '':'' @ json_text x @ '','' @ comma_separated (map member_text ms)"
      using Cons m by (simp add: member_text_def)
    ultimately show ?thesis
      using n m by (simp add: string_text_def read_escaped)
  qed
qed simp

lemma json_reads_back: "reads_back x"
proof (induction x)
  case (JInt v)
  show ?case
  proof (unfold reads_back_def, intro allI impI)
    fix n s assume "length (json_text (JInt v)) \<le> n" "no_digit_next s"
    moreover from this obtain m where "n = Suc m" using number_text_head [of v] by (cases n) auto
    ultimately show "read_value n (json_text (JInt v) @ s) = Some (JInt v, s)"
      by (simp add: read_value_number del: read_value.simps)
  qed
next
  case (JString v)
  show ?case
  proof (unfold reads_back_def, intro allI impI)
    fix n s assume "length (json_text (JString v)) \<le> n"
    then obtain m where "n = Suc m" by (cases n) (auto simp: string_text_def)
    then show "read_value n (json_text (JString v) @ s) = Some (JString v, s)"
      by (simp add: string_text_def read_escaped)
  qed
next
  case (JArray xs)
  show ?case
  proof (unfold reads_back_def, intro allI impI)
    fix n s assume len: "length (json_text (JArray xs)) \<le> n"
    then obtain m where n: "n = Suc m" by (cases n) auto
    show "read_value n (json_text (JArray xs) @ s) = Some (JArray xs, s)"
    proof (cases xs)
      case (Cons y ys)
      obtain c r where c: "comma_separated (map json_text xs) = c # r" "c \<noteq> CHR '']''"
        using json_text_head [of y] Cons by (cases ys) auto
      have "read_elements m (comma_separated (map json_text xs) @ CHR '']'' # s) = Some (xs, s)"
        using JArray len n Cons by (intro read_elements_text) (auto simp: list_all_iff)
      with c n show ?thesis by simp
    qed (use n in simp)
  qed
next
  case (JObject ms)
  show ?case
  proof (unfold reads_back_def, intro allI impI)
    fix n s assume len: "length (json_text (JObject ms)) \<le> n"
    then obtain m where n: "n = Suc m" by (cases n) auto
    have object_text: "json_text (JObject ms) = ''{'' @ comma_separated (map member_text ms) @ ''}''"
      by (simp add: member_text_def)
    show "read_value n (json_text (JObject ms) @ s) = Some (JObject ms, s)"
    proof (cases ms)
      case (Cons y ys)
      obtain c r where c: "comma_separated (map member_text ms) = c # r" "c \<noteq> CHR ''}''"
        using Cons by (cases y; cases ys) (simp_all add: member_text_def string_text_def)
      have "\<forall>p\<in>set ms. reads_back (snd p)"
        using JObject by (metis prod.collapse snds.intros)
      then have "read_members m (comma_separated (map member_text ms) @ CHR ''}'' # s) = Some (ms, s)"
        using len n Cons object_text by (intro read_members_text) (auto simp: list_all_iff)
      with c n object_text show ?thesis by simp
    qed (use n in simp)
  qed
next
  case JNull
  show ?case
  proof (unfold reads_back_def, intro allI impI)
    fix n s assume "length (json_text JNull) \<le> n"
    then obtain m where "n = Suc m" by (cases n) auto
    then show "read_value n (json_text JNull @ s) = Some (JNull, s)" by (simp add: read_word_def)
  qed
next
  case (JBool b)
  show ?case
  proof (unfold reads_back_def, intro allI impI)
    fix n s assume "length (json_text (JBool b)) \<le> n"
    then obtain m where "n = Suc m" by (cases n) (auto split: if_splits)
    then show "read_value n (json_text (JBool b) @ s) = Some (JBool b, s)"
      by (cases b) (simp_all add: read_word_def)
  qed
qed

lemma read_json_text: "read_json (json_text x) = Some x"
  using json_reads_back [of x] by (simp add: reads_back_def read_json_def no_digit_next_def split: list.splits)

end
