(* ===== verification/JsonSteps.thy ===== *)
theory JsonSteps
  imports JsonText
begin

section \<open>What chains of writer steps write\<close>

text \<open>
  A calculus for the call chains of the serializers. \<open>at_level w c p d\<close>: the writer is inside an object
  or an array, \<open>c\<close> tells whether something was written at this level, \<open>p\<close> whether a property name is
  waiting for its value, and there is room for \<open>d\<close> more levels. \<open>part d f t\<close>: the steps \<open>f\<close> append
  \<open>t c\<close> and leave the writer at its level; \<open>writes_value d f v\<close>: \<open>f\<close> writes the value \<open>v\<close>, after a comma
  where one is needed; \<open>writes_member d f v\<close>: it does so after a property name.
\<close>

definition at_level :: "json_writer \<Rightarrow> bool \<Rightarrow> bool \<Rightarrow> nat \<Rightarrow> bool" where
  "at_level w c p d \<longleftrightarrow> length (jw_stack w) = MaxStateDepth \<and> 0 \<le> jw_index w \<and> jw_index w + int d < int MaxStateDepth \<and>
     jw_stack w ! nat (jw_index w) = \<lparr>enumerationStarted = True, commaRequired = c, propertyNameAdded = p\<rparr>"

definition below :: "json_writer \<Rightarrow> json_state list" where
  "below w = take (nat (jw_index w)) (jw_stack w)"

definition moved :: "json_writer \<Rightarrow> string \<Rightarrow> bool \<Rightarrow> bool \<Rightarrow> nat \<Rightarrow> json_writer \<Rightarrow> bool" where
  "moved w t c p d w' \<longleftrightarrow> jw_text w' = jw_text w @ t \<and> at_level w' c p d \<and> jw_index w' = jw_index w \<and> below w' = below w"

definition part :: "nat \<Rightarrow> json_step \<Rightarrow> (bool \<Rightarrow> string) \<Rightarrow> bool" where
  "part d f t \<longleftrightarrow> (\<forall>w c. at_level w c False d \<longrightarrow> (\<exists>w'. f w = Some w' \<and> moved w (t c) (c \<or> t c \<noteq> []) False d w'))"

definition writes_value :: "nat \<Rightarrow> json_step \<Rightarrow> string \<Rightarrow> bool" where
  "writes_value d f v \<longleftrightarrow> v \<noteq> [] \<and> (\<forall>w c p. at_level w c p d \<longrightarrow>
     (\<exists>w'. f w = Some w' \<and> moved w ((if c \<and> \<not> p then '','' else []) @ v) True False d w'))"

definition writes_member :: "nat \<Rightarrow> json_step \<Rightarrow> string \<Rightarrow> bool" where
  "writes_member d f v \<longleftrightarrow> (\<forall>w c. at_level w c True d \<longrightarrow> (\<exists>w'. f w = Some w' \<and> moved w v True False d w'))"

definition item :: "string \<Rightarrow> bool \<Rightarrow> string" where
  "item t c = (if c then '','' else []) @ t"

lemma item_eq_Nil [simp]: "item t c = [] \<longleftrightarrow> \<not> c \<and> t = []"
  by (simp add: item_def)

lemma value_stepD:
  assumes "writes_value d f v" "at_level w c p d"
  shows "\<exists>w'. f w = Some w' \<and> moved w ((if c \<and> \<not> p then '','' else []) @ v) True False d w'"
  using assms unfolding writes_value_def by blast

lemma value_part:
  assumes "writes_value d f v"
  shows "part d f (item v)"
  unfolding part_def
proof (intro allI impI)
  fix w c assume "at_level w c False d"
  from value_stepD [OF assms this]
  show "\<exists>w'. f w = Some w' \<and> moved w (item v c) (c \<or> item v c \<noteq> []) False d w'"
    using assms by (simp add: item_def writes_value_def)
qed

lemma value_member:
  assumes "writes_value d f v"
  shows "writes_member d f v"
  unfolding writes_member_def using value_stepD [OF assms, where p = True] by simp

lemma at_level_nth [simp]: "at_level w c p d \<Longrightarrow> nat (jw_index w) < length (jw_stack w)"
  by (simp add: at_level_def nat_less_iff)

lemma at_level_mono: "at_level w c p d \<Longrightarrow> d' \<le> d \<Longrightarrow> at_level w c p d'"
  by (simp add: at_level_def)

lemma moved_deeper: "moved w t c p d w' \<Longrightarrow> at_level w a b d' \<Longrightarrow> moved w t c p d' w'"
  by (auto simp: moved_def at_level_def)

lemma moved_trans: "moved w t c p d w' \<Longrightarrow> moved w' u c' p' d w'' \<Longrightarrow> moved w (t @ u) c' p' d w''"
  by (simp add: moved_def)

lemma part_mono: "part d f t \<Longrightarrow> d \<le> d' \<Longrightarrow> part d' f t"
  unfolding part_def by (meson at_level_mono moved_deeper)

lemma value_mono: "writes_value d f v \<Longrightarrow> d \<le> d' \<Longrightarrow> writes_value d' f v"
  unfolding writes_value_def by (meson at_level_mono moved_deeper)

lemma member_mono: "writes_member d f v \<Longrightarrow> d \<le> d' \<Longrightarrow> writes_member d' f v"
  unfolding writes_member_def by (meson at_level_mono moved_deeper)

subsection \<open>Single steps\<close>

lemma json_steps_append: "json_steps (fs @ gs) w = (case json_steps fs w of None \<Rightarrow> None | Some w' \<Rightarrow> json_steps gs w')"
  by (induction fs arbitrary: w) (auto split: option.split)

lemma json_steps_one [simp]: "json_steps [f] = f"
  by (auto simp: fun_eq_iff split: option.split)

lemma step_then: "f w = Some w' \<Longrightarrow> json_steps (f # fs) w = json_steps fs w'"
  by simp

lemma write_after_comma_at:
  assumes "at_level w c p d"
  shows "\<exists>w'. write_after_comma v w = Some w' \<and> moved w ((if c \<and> \<not> p then '','' else []) @ v) True False d w'"
  using assms at_level_nth [OF assms]
  by (simp add: at_level_def write_after_comma_def isCommaNeeded_def peekState_def updateState_def writeString_def
      moved_def below_def)

lemma writeString_at:
  assumes "at_level w c p d"
  shows "\<exists>w'. writeString v w = Some w' \<and> moved w v c p d w'"
  using assms at_level_nth [OF assms] by (simp add: at_level_def writeString_def moved_def below_def)

lemma propertyAdded_at:
  assumes "at_level w c p d"
  shows "\<exists>w'. propertyAdded w = Some w' \<and> moved w [] c True d w'"
  using assms at_level_nth [OF assms] by (simp add: at_level_def propertyAdded_def peekState_def updateState_def moved_def below_def)

lemma write_after_comma_value: "v \<noteq> [] \<Longrightarrow> writes_value d (write_after_comma v) v"
  unfolding writes_value_def using write_after_comma_at by blast

lemma moved_level: "moved w t c p d w' \<Longrightarrow> at_level w' c p d"
  by (simp add: moved_def)

lemma value_then_string:
  assumes "writes_value d f v"
  shows "writes_value d (json_steps [f, writeString t]) (v @ t)"
  unfolding writes_value_def
proof (intro conjI allI impI)
  show "v @ t \<noteq> []" using assms by (simp add: writes_value_def)
next
  fix w c p assume "at_level w c p d"
  then obtain w1 where 1: "f w = Some w1" "moved w ((if c \<and> \<not> p then '','' else []) @ v) True False d w1"
    using value_stepD [OF assms] by blast
  obtain w2 where 2: "writeString t w1 = Some w2" "moved w1 t True False d w2"
    using writeString_at [OF moved_level [OF 1(2)]] by blast
  show "\<exists>w'. json_steps [f, writeString t] w = Some w' \<and> moved w ((if c \<and> \<not> p then '','' else []) @ v @ t) True False d w'"
    using 1 2 moved_trans [OF 1(2) 2(2)] by simp
qed

lemma json_steps_Cons2: "json_steps (f # g # fs) = json_steps (json_steps [f, g] # fs)"
  by (simp add: fun_eq_iff split: option.split)

lemma writeSafeString_value: "writes_value d (writeSafeString v) (''\"'' @ v @ ''\"'')"
proof -
  have "writes_value d (json_steps [json_steps [write_after_comma ''\"'', writeString v], writeString ''\"'']) ((''\"'' @ v) @ ''\"'')"
    by (intro value_then_string write_after_comma_value) simp
  moreover have "writeSafeString v = json_steps [json_steps [write_after_comma ''\"'', writeString v], writeString ''\"'']"
    unfolding writeSafeString_def by (rule json_steps_Cons2)
  ultimately show ?thesis by simp
qed

lemma writeEscapedString_value:
  assumes "viewed_text v = Some t"
  shows "writes_value d (writeEscapedString v) (string_text t)"
proof -
  have "writeEscapedString v = writeSafeString (escapeString t)"
    using assms by (simp add: fun_eq_iff writeEscapedString_def writeSafeString_def)
  then show ?thesis
    using writeSafeString_value [of d "escapeString t"] by (simp add: string_text_def)
qed

lemma json_null_value: "writes_value d json_null ''null''"
  unfolding json_null_def by (rule write_after_comma_value) simp

lemma writeBool_value: "writes_value d (writeBool b) (json_text (JBool b))"
  unfolding writeBool_def by (cases b) (simp_all add: write_after_comma_value)

subsection \<open>Numbers\<close>

definition number_size :: "nat \<Rightarrow> bool" where
  "number_size bytes \<longleftrightarrow> bytes \<in> {1, 2, 4, 8}"

lemma least_value_text_eq:
  "number_size bytes \<Longrightarrow> least_value_text bytes = number_text (- (2 ^ (8 * bytes - 1))) False"
  unfolding number_size_def
  by (elim insertE emptyE) (simp_all add: least_value_text_def number_text_def decimal_digits.simps char_of_def bit_0)

lemma isCommaNeeded_at:
  assumes "at_level w c p d"
  shows "\<exists>w'. isCommaNeeded w = Some (c \<and> \<not> p, w') \<and> moved w [] True False d w'"
  using assms at_level_nth [OF assms] by (simp add: at_level_def isCommaNeeded_def peekState_def updateState_def moved_def below_def)

lemma number_text_not_Nil [simp]: "number_text v b \<noteq> []"
  using number_text_head [of v] by (cases b) (auto simp: number_text_def)

text \<open>A number is written right unless it is the least of its type and a comma is needed.\<close>

lemma writeNumber_at:
  assumes "at_level w c p d" "number_size bytes" "p \<or> \<not> c \<or> \<not> is_signed \<or> v \<noteq> - (2 ^ (8 * bytes - 1))"
  shows "\<exists>w'. writeNumber bytes is_signed v w = Some w' \<and>
    moved w ((if c \<and> \<not> p then '','' else []) @ json_text (JInt v)) True False d w'"
proof -
  obtain w1 where 1: "isCommaNeeded w = Some (c \<and> \<not> p, w1)" "moved w [] True False d w1"
    using isCommaNeeded_at [OF assms(1)] by blast
  let ?t = "(if c \<and> \<not> p then '','' else []) @ json_text (JInt v)"
  obtain w2 where 2: "writeString ?t w1 = Some w2" "moved w1 ?t True False d w2"
    using writeString_at [OF moved_level [OF 1(2)]] by blast
  have "writeNumber bytes is_signed v w = writeString ?t w1"
  proof (cases "is_signed \<and> v = - (2 ^ (8 * bytes - 1))")
    case True
    then show ?thesis using assms(2,3) 1(1) by (auto simp: writeNumber_def least_value_text_eq)
  next
    case False
    then show ?thesis using 1(1) by (cases "c \<and> \<not> p") (auto simp: writeNumber_def number_text_def)
  qed
  then show ?thesis using 2(1) moved_trans [OF 1(2) 2(2)] by simp
qed

lemma writeNumber_member: "number_size bytes \<Longrightarrow> writes_member d (writeNumber bytes is_signed v) (json_text (JInt v))"
  unfolding writes_member_def using writeNumber_at [where p = True and bytes = bytes and is_signed = is_signed and v = v] by simp

lemma writeNumber_value:
  "number_size bytes \<Longrightarrow> \<not> is_signed \<or> v \<noteq> - (2 ^ (8 * bytes - 1)) \<Longrightarrow>
   writes_value d (writeNumber bytes is_signed v) (json_text (JInt v))"
  unfolding writes_value_def
  using writeNumber_at [where bytes = bytes and is_signed = is_signed and v = v and d = d] by simp

subsection \<open>Properties\<close>

lemma newPropertyWithSafeName_at:
  assumes "at_level w c False d"
  shows "\<exists>w'. newPropertyWithSafeName name w = Some w' \<and> moved w (item (''\"'' @ name @ ''\":'') c) True True d w'"
proof -
  obtain w1 where 1: "write_after_comma ''\"'' w = Some w1" "moved w (item ''\"'' c) True False d w1"
    using write_after_comma_at [OF assms, of "''\"''"] by (auto simp: item_def)
  obtain w2 where 2: "writeString name w1 = Some w2" "moved w1 name True False d w2"
    using writeString_at [OF moved_level [OF 1(2)]] by blast
  obtain w3 where 3: "writeString ''\":'' w2 = Some w3" "moved w2 ''\":'' True False d w3"
    using writeString_at [OF moved_level [OF 2(2)]] by blast
  obtain w4 where 4: "propertyAdded w3 = Some w4" "moved w3 [] True True d w4"
    using propertyAdded_at [OF moved_level [OF 3(2)]] by blast
  show ?thesis
    using 1(1) 2(1) 3(1) 4(1) moved_trans [OF moved_trans [OF moved_trans [OF 1(2) 2(2)] 3(2)] 4(2)]
    by (simp add: newPropertyWithSafeName_def item_def)
qed

lemma newPropertyRaw_at:
  assumes "at_level w c False d"
  shows "\<exists>w'. newPropertyRaw name w = Some w' \<and> moved w name c True d w'"
proof -
  obtain w2 where 2: "writeString name w = Some w2" "moved w name c False d w2"
    using writeString_at [OF assms] by blast
  obtain w4 where 4: "propertyAdded w2 = Some w4" "moved w2 [] c True d w4"
    using propertyAdded_at [OF moved_level [OF 2(2)]] by blast
  show ?thesis
    using 2(1) 4(1) moved_trans [OF 2(2) 4(2)] by (simp add: newPropertyRaw_def)
qed

lemma member_stepD:
  assumes "writes_member d f v" "at_level w c True d"
  shows "\<exists>w'. f w = Some w' \<and> moved w v True False d w'"
  using assms unfolding writes_member_def by blast

lemma part_property:
  assumes "writes_member d f v"
  shows "part d (json_steps [newPropertyWithSafeName name, f]) (item (''\"'' @ name @ ''\":'' @ v))"
  unfolding part_def
proof (intro allI impI)
  fix w c assume at: "at_level w c False d"
  obtain w1 where 1: "newPropertyWithSafeName name w = Some w1" "moved w (item (''\"'' @ name @ ''\":'') c) True True d w1"
    using newPropertyWithSafeName_at [OF at] by blast
  obtain w2 where 2: "f w1 = Some w2" "moved w1 v True False d w2"
    using member_stepD [OF assms moved_level [OF 1(2)]] by blast
  show "\<exists>w'. json_steps [newPropertyWithSafeName name, f] w = Some w' \<and>
      moved w (item (''\"'' @ name @ ''\":'' @ v) c) (c \<or> item (''\"'' @ name @ ''\":'' @ v) c \<noteq> []) False d w'"
    using 1(1) 2(1) moved_trans [OF 1(2) 2(2)] by (simp add: item_def)
qed

lemma part_raw:
  assumes "writes_member d f v" "name \<noteq> []"
  shows "part d (json_steps [newPropertyRaw name, f]) (\<lambda>_. name @ v)"
  unfolding part_def
proof (intro allI impI)
  fix w c assume at: "at_level w c False d"
  obtain w1 where 1: "newPropertyRaw name w = Some w1" "moved w name c True d w1"
    using newPropertyRaw_at [OF at] by blast
  obtain w2 where 2: "f w1 = Some w2" "moved w1 v True False d w2"
    using member_stepD [OF assms(1) moved_level [OF 1(2)]] by blast
  show "\<exists>w'. json_steps [newPropertyRaw name, f] w = Some w' \<and> moved w (name @ v) (c \<or> name @ v \<noteq> []) False d w'"
    using 1(1) 2(1) moved_trans [OF 1(2) 2(2)] assms(2) by simp
qed

lemma part_FIRST_PROP: "writes_member d f v \<Longrightarrow> part d (JSON_WRITE_FIRST_PROP key f) (\<lambda>_. ''\"'' @ key @ ''\":'' @ v)"
  using part_raw [of d f v "JSON_RAW_PROP key"] by (simp add: JSON_WRITE_FIRST_PROP_def JSON_RAW_PROP_def)

lemma part_PROP: "writes_member d f v \<Longrightarrow> part d (JSON_WRITE_PROP key f) (\<lambda>_. '',\"'' @ key @ ''\":'' @ v)"
  using part_raw [of d f v "JSON_RAW_PROP_COMMA key"] by (simp add: JSON_WRITE_PROP_def JSON_RAW_PROP_COMMA_def)

subsection \<open>Sequences\<close>

fun sequence_text :: "(bool \<Rightarrow> string) list \<Rightarrow> bool \<Rightarrow> string" where
  "sequence_text [] c = []"
| "sequence_text (t # ts) c = t c @ sequence_text ts (c \<or> t c \<noteq> [])"

lemma part_stepD:
  assumes "part d f t" "at_level w c False d"
  shows "\<exists>w'. f w = Some w' \<and> moved w (t c) (c \<or> t c \<noteq> []) False d w'"
  using assms unfolding part_def by blast

lemma part_sequence:
  "list_all2 (part d) fs ts \<Longrightarrow> part d (json_steps fs) (sequence_text ts)"
proof (induction fs ts rule: list_all2_induct)
  case Nil
  show ?case by (auto simp: part_def moved_def)
next
  case (Cons f fs t ts)
  show ?case
    unfolding part_def
  proof (intro allI impI)
    fix w c assume at: "at_level w c False d"
    obtain w1 where 1: "f w = Some w1" "moved w (t c) (c \<or> t c \<noteq> []) False d w1"
      using part_stepD [OF Cons.hyps(1) at] by blast
    obtain w2 where 2: "json_steps fs w1 = Some w2"
        "moved w1 (sequence_text ts (c \<or> t c \<noteq> [])) ((c \<or> t c \<noteq> []) \<or> sequence_text ts (c \<or> t c \<noteq> []) \<noteq> []) False d w2"
      using part_stepD [OF Cons.IH moved_level [OF 1(2)]] by blast
    show "\<exists>w'. json_steps (f # fs) w = Some w' \<and>
        moved w (sequence_text (t # ts) c) (c \<or> sequence_text (t # ts) c \<noteq> []) False d w'"
      using 1(1) 2(1) moved_trans [OF 1(2) 2(2)] by (simp add: disj_assoc)
  qed
qed

lemma sequence_items:
  "\<forall>v\<in>set vs. v \<noteq> [] \<Longrightarrow>
   sequence_text (map item vs) c = (if vs = [] then [] else (if c then '','' else []) @ comma_separated vs)"
proof (induction vs arbitrary: c)
  case (Cons v vs)
  then show ?case by (cases vs) (auto simp: item_def)
qed simp

lemma items_text: "\<forall>v\<in>set vs. v \<noteq> [] \<Longrightarrow> sequence_text (map item vs) False = comma_separated vs"
  using sequence_items [of vs False] by (cases vs) simp_all

subsection \<open>Arrays and objects\<close>

lemma enter_at:
  assumes "at_level w c p (Suc d)" "t \<noteq> []"
  shows "\<exists>w'. json_steps [write_after_comma t, pushState new_enumeration] w = Some w' \<and>
     jw_text w' = jw_text w @ (if c \<and> \<not> p then '','' else []) @ t \<and> at_level w' False False d \<and>
     jw_index w' = jw_index w + 1 \<and> below w' = below w @ [\<lparr>enumerationStarted = True, commaRequired = True, propertyNameAdded = False\<rparr>]"
proof -
  obtain w1 where 1: "write_after_comma t w = Some w1" "moved w ((if c \<and> \<not> p then '','' else []) @ t) True False (Suc d) w1"
    using write_after_comma_at [OF assms(1)] by blast
  have ix: "0 \<le> jw_index w1" "nat (jw_index w1 + 1) = Suc (nat (jw_index w1))" "length (jw_stack w1) = MaxStateDepth"
    "Suc (nat (jw_index w1)) < MaxStateDepth" "jw_index w1 + 1 < int MaxStateDepth"
    using moved_level [OF 1(2)] by (auto simp: at_level_def nat_add_distrib MaxStateDepth_def)
  then have push: "pushState new_enumeration w1 =
      Some (w1\<lparr>jw_index := jw_index w1 + 1, jw_stack := (jw_stack w1)[Suc (nat (jw_index w1)) := new_enumeration]\<rparr>)"
    by (simp add: pushState_def updateState_def peekState_def)
  have "take (Suc (nat (jw_index w1))) (jw_stack w1) = below w1 @ [jw_stack w1 ! nat (jw_index w1)]"
    using ix by (simp add: below_def take_Suc_conv_app_nth)
  then show ?thesis
    using 1 push ix by (auto simp: moved_def at_level_def below_def new_enumeration_def)
qed

lemma leave_at:
  assumes "at_level w c p d" "below w = xs @ [\<lparr>enumerationStarted = True, commaRequired = True, propertyNameAdded = False\<rparr>]"
    "length xs = nat (jw_index w - 1)" "0 < jw_index w"
  shows "\<exists>w'. json_steps [writeString t, popState] w = Some w' \<and>
     jw_text w' = jw_text w @ t \<and> at_level w' True False (Suc d) \<and> jw_index w' = jw_index w - 1 \<and> below w' = xs"
proof -
  let ?s = "\<lparr>enumerationStarted = True, commaRequired = True, propertyNameAdded = False\<rparr>"
  have k: "nat (jw_index w) = Suc (length xs)" using assms(3,4) by simp
  have tk: "take (Suc (length xs)) (jw_stack w) = xs @ [?s]"
    using assms(2) k by (simp add: below_def)
  then have "jw_stack w ! length xs = ?s"
    by (metis lessI nth_append_length nth_take)
  moreover have "take (length xs) (jw_stack w) = xs"
    using tk by (metis append_eq_conv_conj lessI less_or_eq_imp_le min.absorb1 take_take)
  ultimately show ?thesis
    using assms(1,3,4) by (simp add: writeString_def popState_def at_level_def below_def)
qed

lemma writes_enumeration:
  assumes body: "part d f t" and open': "a \<noteq> []"
  shows "writes_value (Suc d) (json_steps [json_steps [write_after_comma a, pushState new_enumeration], f, json_steps [writeString b, popState]])
     (a @ t False @ b)"
  unfolding writes_value_def
proof (intro conjI allI impI)
  show "a @ t False @ b \<noteq> []" using open' by simp
next
  fix w c p assume at: "at_level w c p (Suc d)"
  let ?s = "\<lparr>enumerationStarted = True, commaRequired = True, propertyNameAdded = False\<rparr>"
  obtain w1 where 1: "json_steps [write_after_comma a, pushState new_enumeration] w = Some w1"
     "jw_text w1 = jw_text w @ (if c \<and> \<not> p then '','' else []) @ a" "at_level w1 False False d"
     "jw_index w1 = jw_index w + 1" "below w1 = below w @ [?s]"
    using enter_at [OF at open'] by blast
  obtain w2 where 2: "f w1 = Some w2" "moved w1 (t False) (False \<or> t False \<noteq> []) False d w2"
    using part_stepD [OF body 1(3)] by blast
  have len: "length (below w) = nat (jw_index w)" "0 \<le> jw_index w"
    using at by (auto simp: at_level_def below_def)
  obtain w3 where 3: "json_steps [writeString b, popState] w2 = Some w3" "jw_text w3 = jw_text w2 @ b"
      "at_level w3 True False (Suc d)" "jw_index w3 = jw_index w2 - 1" "below w3 = below w"
    using leave_at [OF moved_level [OF 2(2)], of "below w" b] 1(4,5) 2(2) len by (auto simp: moved_def)
  have "json_steps [json_steps [write_after_comma a, pushState new_enumeration], f, json_steps [writeString b, popState]] w = Some w3"
    using 1(1) 2(1) 3(1) by (simp only: json_steps.simps option.simps)
  moreover have "moved w ((if c \<and> \<not> p then '','' else []) @ a @ t False @ b) True False (Suc d) w3"
    using 1 2 3 by (simp add: moved_def)
  ultimately show "\<exists>w'. json_steps [json_steps [write_after_comma a, pushState new_enumeration], f, json_steps [writeString b, popState]] w = Some w' \<and>
      moved w ((if c \<and> \<not> p then '','' else []) @ a @ t False @ b) True False (Suc d) w'"
    by blast
qed

text \<open>An object is written around its members and an array around its elements.\<close>

definition object_steps :: "json_step list \<Rightarrow> json_step" where
  "object_steps fs = json_steps ([startObject] @ fs @ [endObject])"

definition array_steps :: "json_step list \<Rightarrow> json_step" where
  "array_steps fs = json_steps ([startArray] @ fs @ [endArray])"

lemma json_steps_frame: "json_steps ([a] @ fs @ [b]) = json_steps [a, json_steps fs, b]"
  by (simp add: fun_eq_iff json_steps_append split: option.split)

lemma object_value: "part d (json_steps fs) t \<Longrightarrow> writes_value (Suc d) (object_steps fs) (''{'' @ t False @ ''}'')"
  using writes_enumeration [of d "json_steps fs" t "''{''" "''}''"]
  unfolding object_steps_def json_steps_frame startObject_def endObject_def by simp

lemma array_value: "part d (json_steps fs) t \<Longrightarrow> writes_value (Suc d) (array_steps fs) (''['' @ t False @ '']'')"
  using writes_enumeration [of d "json_steps fs" t "''[''" "'']''"]
  unfolding array_steps_def json_steps_frame startArray_def endArray_def by simp

text \<open>The elements of an array that are all written as values.\<close>

lemma part_elements:
  assumes "\<forall>x\<in>set xs. writes_value d (f x) (v x)"
  shows "part d (json_steps (map f xs)) (sequence_text (map item (map v xs)))"
proof (rule part_sequence)
  show "list_all2 (part d) (map f xs) (map item (map v xs))"
    using assms by (induction xs) (auto intro: value_part)
qed

lemma array_elements:
  assumes "\<forall>x\<in>set xs. writes_value d (f x) (json_text (j x))"
  shows "writes_value (Suc d) (array_steps (map f xs)) (json_text (JArray (map j xs)))"
proof -
  have "\<forall>v\<in>set (map (\<lambda>x. json_text (j x)) xs). v \<noteq> []"
    using assms by (auto simp: writes_value_def)
  moreover have "json_text (JArray (map j xs)) = ''['' @ comma_separated (map (\<lambda>x. json_text (j x)) xs) @ '']''"
    by (simp add: comp_def)
  ultimately show ?thesis
    using array_value [OF part_elements [OF assms]] by (simp only: items_text)
qed

lemma writeArray_value:
  "\<forall>x\<in>set xs. writes_value d (f x) (json_text (j x)) \<Longrightarrow>
   writes_value (Suc d) (json_writeArray f xs) (json_text (JArray (map j xs)))"
  using array_elements unfolding json_writeArray_def array_steps_def .

subsection \<open>Documents\<close>

definition write_document :: "json_step \<Rightarrow> string \<Rightarrow> string option" where
  "write_document f out =
     (case JsonWriter out of None \<Rightarrow> None | Some w \<Rightarrow> map_option jw_text (f w))"

definition document_start :: "string \<Rightarrow> json_writer" where
  "document_start out = \<lparr>jw_text = out, jw_stack = replicate MaxStateDepth no_enumeration, jw_index = 0\<rparr>"

lemma JsonWriter_eq: "JsonWriter out = Some (document_start out)"
  by (simp add: JsonWriter_def pushState_def updateState_def peekState_def document_start_def MaxStateDepth_def
      numeral_eq_Suc)

lemma document_enter:
  assumes "d < 31" "a \<noteq> []"
  shows "\<exists>w'. json_steps [write_after_comma a, pushState new_enumeration] (document_start out) = Some w' \<and>
     jw_text w' = out @ a \<and> at_level w' False False d \<and> jw_index w' = 1"
  using assms
  by (simp add: document_start_def write_after_comma_def isCommaNeeded_def peekState_def updateState_def writeString_def
      pushState_def at_level_def MaxStateDepth_def no_enumeration_def new_enumeration_def nth_list_update)

lemma document_enumeration:
  assumes body: "part d f t" and d: "d < 31" and a: "a \<noteq> []"
  shows "write_document (json_steps [json_steps [write_after_comma a, pushState new_enumeration], f, json_steps [writeString b, popState]]) out
     = Some (out @ a @ t False @ b)"
proof -
  obtain w1 where 1: "json_steps [write_after_comma a, pushState new_enumeration] (document_start out) = Some w1"
      "jw_text w1 = out @ a" "at_level w1 False False d"
    using document_enter [OF d a] by blast
  obtain w2 where 2: "f w1 = Some w2" "moved w1 (t False) (False \<or> t False \<noteq> []) False d w2"
    using part_stepD [OF body 1(3)] by blast
  have 3: "json_steps [writeString b, popState] w2 = Some (w2\<lparr>jw_text := jw_text w2 @ b, jw_index := jw_index w2 - 1\<rparr>)"
    by (simp add: writeString_def popState_def)
  have "json_steps [json_steps [write_after_comma a, pushState new_enumeration], f, json_steps [writeString b, popState]]
      (document_start out) = Some (w2\<lparr>jw_text := jw_text w2 @ b, jw_index := jw_index w2 - 1\<rparr>)"
    using 1(1) 2(1) 3 by (simp only: json_steps.simps option.simps)
  then show ?thesis
    using 1(2) 2(2) by (simp add: write_document_def JsonWriter_eq moved_def)
qed

lemma document_object:
  assumes "part d (json_steps fs) t" "d < 31"
  shows "write_document (object_steps fs) out = Some (out @ ''{'' @ t False @ ''}'')"
  using document_enumeration [OF assms, where a = "''{''" and b = "''}''" and out = out]
  unfolding object_steps_def json_steps_frame startObject_def endObject_def by simp

subsection \<open>Whole values\<close>

text \<open>The calls that write a value: a string as a view, a whole number as one of 8 bytes.\<close>

fun write_json :: "json \<Rightarrow> json_step" where
  "write_json JNull = json_null"
| "write_json (JBool b) = writeBool b"
| "write_json (JInt v) = writeNumber 8 True v"
| "write_json (JString v) = writeEscapedString (c_string v)"
| "write_json (JArray xs) = array_steps (map write_json xs)"
| "write_json (JObject ms) =
     object_steps (map (\<lambda>(k, x). json_steps [newProperty (c_string k), write_json x]) ms)"

text \<open>How deep objects and arrays nest, and whether an array holds a number that cannot be negated.\<close>

fun json_depth :: "json \<Rightarrow> nat" where
  "json_depth (JArray xs) = Suc (fold max (map json_depth xs) 0)"
| "json_depth (JObject ms) = Suc (fold max (map (json_depth \<circ> snd) ms) 0)"
| "json_depth _ = 0"

fun no_least_value :: "json \<Rightarrow> bool" where
  "no_least_value (JInt v) \<longleftrightarrow> v \<noteq> - (2 ^ 63)"
| "no_least_value (JArray xs) \<longleftrightarrow> list_all no_least_value xs"
| "no_least_value (JObject ms) \<longleftrightarrow> list_all (no_least_value \<circ> snd) ms"
| "no_least_value _ \<longleftrightarrow> True"

lemma fold_max_ge: "x \<in> set xs \<Longrightarrow> x \<le> fold max xs (m :: nat)" "m \<le> fold max xs m"
proof (induction xs arbitrary: m)
  case (Cons y ys)
  {
    case 1
    then show ?case using Cons.IH(1) [of "max y m"] Cons.IH(2) [of "max y m"] by auto
  next
    case 2
    then show ?case using Cons.IH(2) [of "max y m"] by simp
  }
qed simp_all

lemma newProperty_at:
  assumes "at_level w c False d"
  shows "\<exists>w'. newProperty (c_string k) w = Some w' \<and> moved w (item (string_text k @ '':'') c) True True d w'"
proof -
  obtain w1 where 1: "writeEscapedString (c_string k) w = Some w1" "moved w (item (string_text k) c) True False d w1"
    using value_stepD [OF writeEscapedString_value assms, of "c_string k" k]
    by (auto simp: viewed_text_def c_string_def item_def)
  obtain w2 where 2: "writeString '':'' w1 = Some w2" "moved w1 '':'' True False d w2"
    using writeString_at [OF moved_level [OF 1(2)]] by blast
  obtain w3 where 3: "propertyAdded w2 = Some w3" "moved w2 [] True True d w3"
    using propertyAdded_at [OF moved_level [OF 2(2)]] by blast
  show ?thesis
    using 1(1) 2(1) 3(1) moved_trans [OF moved_trans [OF 1(2) 2(2)] 3(2)] by (simp add: newProperty_def item_def)
qed

lemma part_newProperty:
  assumes "writes_member d f v"
  shows "part d (json_steps [newProperty (c_string k), f]) (item (string_text k @ '':'' @ v))"
  unfolding part_def
proof (intro allI impI)
  fix w c assume at: "at_level w c False d"
  obtain w1 where 1: "newProperty (c_string k) w = Some w1" "moved w (item (string_text k @ '':'') c) True True d w1"
    using newProperty_at [OF at] by blast
  obtain w2 where 2: "f w1 = Some w2" "moved w1 v True False d w2"
    using member_stepD [OF assms moved_level [OF 1(2)]] by blast
  show "\<exists>w'. json_steps [newProperty (c_string k), f] w = Some w' \<and>
      moved w (item (string_text k @ '':'' @ v) c) (c \<or> item (string_text k @ '':'' @ v) c \<noteq> []) False d w'"
    using 1(1) 2(1) moved_trans [OF 1(2) 2(2)] by (simp add: item_def)
qed

lemma member_text_not_Nil [simp]: "member_text m \<noteq> []"
  by (cases m) (simp add: member_text_def string_text_def)

lemma member_part:
  assumes "writes_member d g (json_text (snd m))"
  shows "part d (json_steps [newProperty (c_string (fst m)), g]) (item (member_text m))"
  using part_newProperty [OF assms, of "fst m"] by (cases m) (simp add: member_text_def)

lemma members_part:
  "\<forall>m\<in>set ms. writes_member d (f m) (json_text (snd m)) \<Longrightarrow>
   part d (json_steps (map (\<lambda>m. json_steps [newProperty (c_string (fst m)), f m]) ms))
     (sequence_text (map item (map member_text ms)))"
  by (rule part_sequence) (induction ms, auto intro: member_part)

lemma members_text: "sequence_text (map item (map member_text ms)) False = comma_separated (map member_text ms)"
  by (rule items_text) auto

lemma json_text_object: "json_text (JObject ms) = ''{'' @ comma_separated (map member_text ms) @ ''}''"
  by (simp add: member_text_def)

lemma write_json_value:
  "json_depth x \<le> d \<Longrightarrow> no_least_value x \<Longrightarrow> writes_value d (write_json x) (json_text x)"
proof (induction x arbitrary: d)
  case (JArray xs)
  then obtain e where e: "d = Suc e" by (cases d) auto
  have "\<forall>x\<in>set xs. writes_value e (write_json x) (json_text x)"
    using JArray e fold_max_ge(1) [of _ "map json_depth xs" 0] by (fastforce simp: list_all_iff)
  then show ?case using array_elements [of xs e write_json id] e by simp
next
  case (JObject ms)
  then obtain e where e: "d = Suc e" by (cases d) auto
  have "\<forall>m\<in>set ms. writes_member e (write_json (snd m)) (json_text (snd m))"
  proof
    fix m assume m: "m \<in> set ms"
    have "json_depth (snd m) \<le> e"
      using JObject.prems(1) e m fold_max_ge(1) [of "(json_depth \<circ> snd) m" "map (json_depth \<circ> snd) ms" 0] by force
    moreover have "no_least_value (snd m)" using JObject.prems(2) m by (simp add: list_all_iff)
    ultimately show "writes_member e (write_json (snd m)) (json_text (snd m))"
      using JObject.IH [of m "snd m"] m by (intro value_member) (simp add: snds.simps)
  qed
  from object_value [OF members_part [OF this]] show ?case
    unfolding members_text json_text_object e write_json.simps split_def .
next
  case (JInt v)
  then show ?case using writeNumber_value [of 8 True v d] by (simp add: number_size_def)
next
  case (JString v)
  then show ?case using writeEscapedString_value [of "c_string v" v d] by (simp add: c_string_def viewed_text_def)
next
  case JNull
  show ?case using json_null_value [of d] by simp
next
  case (JBool b)
  show ?case using writeBool_value [of d b] by (simp only: write_json.simps)
qed

lemma object_document:
  assumes "json_depth (JObject ms) \<le> 31" "no_least_value (JObject ms)"
  shows "write_document (write_json (JObject ms)) out = Some (out @ json_text (JObject ms))"
proof -
  have "\<forall>m\<in>set ms. writes_member 30 (write_json (snd m)) (json_text (snd m))"
  proof
    fix m assume m: "m \<in> set ms"
    have "json_depth (snd m) \<le> 30"
      using assms(1) m fold_max_ge(1) [of "(json_depth \<circ> snd) m" "map (json_depth \<circ> snd) ms" 0] by force
    moreover have "no_least_value (snd m)" using assms(2) m by (simp add: list_all_iff)
    ultimately show "writes_member 30 (write_json (snd m)) (json_text (snd m))"
      by (intro value_member write_json_value)
  qed
  from document_object [OF members_part [OF this]] show ?thesis
    unfolding members_text json_text_object write_json.simps split_def by simp
qed

lemma array_document:
  assumes "json_depth (JArray xs) \<le> 31" "no_least_value (JArray xs)"
  shows "write_document (write_json (JArray xs)) out = Some (out @ json_text (JArray xs))"
proof -
  have elems: "\<forall>x\<in>set xs. writes_value 30 (write_json x) (json_text x)"
    using assms fold_max_ge(1) [of _ "map json_depth xs" 0]
    by (auto simp: list_all_iff intro!: write_json_value) force
  then have "\<forall>v\<in>set (map json_text xs). v \<noteq> []" by (auto simp: writes_value_def)
  moreover from elems have "part 30 (json_steps (map write_json xs)) (sequence_text (map item (map json_text xs)))"
    by (rule part_elements)
  ultimately show ?thesis
    using document_enumeration [of 30 _ _ "''[''" "'']''" out]
    unfolding write_json.simps array_steps_def json_steps_frame startArray_def endArray_def by (simp add: items_text del: map_map)
qed

definition scalar :: "json \<Rightarrow> bool" where
  "scalar x \<longleftrightarrow> (case x of JArray _ \<Rightarrow> False | JObject _ \<Rightarrow> False | _ \<Rightarrow> True)"

lemma top_comma: "isCommaNeeded (document_start out) = Some (False, document_start out)"
  by (simp add: isCommaNeeded_def peekState_def updateState_def document_start_def no_enumeration_def MaxStateDepth_def
      numeral_eq_Suc)

lemma top_text [simp]: "jw_text (document_start out) = out"
  by (simp add: document_start_def)

lemma scalar_document:
  assumes "scalar x" "no_least_value x"
  shows "write_document (write_json x) out = Some (out @ json_text x)"
  using assms
  by (cases x) (simp_all add: scalar_def write_document_def JsonWriter_eq write_after_comma_def top_comma writeString_def
      json_null_def writeBool_def writeEscapedString_def viewed_text_def c_string_def string_text_def writeNumber_def top_text)

lemma json_document:
  assumes "json_depth x \<le> 31" "no_least_value x"
  shows "write_document (write_json x) out = Some (out @ json_text x)"
proof (cases "scalar x")
  case False
  then show ?thesis using assms object_document array_document by (cases x) (auto simp: scalar_def simp del: json_depth.simps)
qed (rule scalar_document [OF _ assms(2)])

subsection \<open>Strings with their quotes, and what goes wrong at the borders\<close>

lemma jr_string_source: "jr_string (JsonReadyStringBase extra v) = v"
  by (simp add: jr_string_def JsonReadyStringBase_def Let_def)

lemma sortKey_extra: "sortKey (JsonReadyStringBase extra v) = extra"
  by (simp add: sortKey_def JsonReadyStringBase_def Let_def)

lemma quotedString_source: "\<not> isEscapeNeeded v \<Longrightarrow> quotedString (JsonReadyStringBase extra v) = string_text v"
  by (simp add: quotedString_def JsonReadyStringBase_def Let_def string_text_def escapeString_def)

text \<open>Written out, a string that carries its quotes is the text of the string it was made from.\<close>

lemma writeReadyString_value: "writes_value d (writeReadyString (JsonReadyStringBase extra v)) (string_text v)"
proof (cases "isEscapeNeeded v")
  case True
  then have "v \<noteq> []" by (auto simp: isEscapeNeeded_def)
  then have "viewed_text (v, Some extra) = Some v" by (simp add: viewed_text_def)
  moreover have "writeReadyString (JsonReadyStringBase extra v) = writeEscapedString (v, Some extra)"
    using True by (simp add: fun_eq_iff writeReadyString_def jr_string_source sortKey_extra)
      (simp add: JsonReadyStringBase_def Let_def)
  ultimately show ?thesis by (simp add: writeEscapedString_value)
next
  case False
  have "writeReadyString (JsonReadyStringBase extra v) = write_after_comma (string_text v)"
    using False
    by (simp add: fun_eq_iff writeReadyString_def quotedString_source write_after_comma_def split: option.split)
      (simp add: JsonReadyStringBase_def Let_def writeString_def)
  then show ?thesis by (simp add: write_after_comma_value string_text_def)
qed

text \<open>An empty view is replaced by the characters its pointer points to.\<close>

lemma empty_view_leaks: "writes_value d (writeEscapedString ([], Some t)) (string_text t)"
  by (rule writeEscapedString_value) (simp add: viewed_text_def)

lemma null_view_fails: "writeEscapedString ([], None) w = None"
  by (simp add: writeEscapedString_def viewed_text_def)

text \<open>The least number of its type loses its comma in an array.\<close>

lemma least_value_in_array:
  "write_document (array_steps [writeNumber 2 True 1, writeNumber 2 True (- 32768)]) [] = Some ''[1-32768]''"
  "read_json ''[1-32768]'' = None"
  by code_simp+

text \<open>An array nested 32 deep does not fit the array of states.\<close>

fun nested_array :: "nat \<Rightarrow> json" where
  "nested_array 0 = JArray []"
| "nested_array (Suc n) = JArray [nested_array n]"

lemma too_deep: "write_document (write_json (nested_array 31)) [] = None"
  by code_simp

lemma deep_enough: "write_document (write_json (nested_array 30)) [] = Some (json_text (nested_array 30))"
  by code_simp

end
