(* ===== verification/RepositoryCommon.thy ===== *)
theory RepositoryCommon
  imports Authorization EventRecording Uuid JsonSteps
begin

section \<open>What the memory repositories share\<close>

text \<open>
  Models \<^verbatim>\<open>src/src/LibForumData/MemoryRepositoryCommon.h\<close> and its \<^verbatim>\<open>.cpp\<close> file, the \<open>StatusWriter\<close> of
  \<^verbatim>\<open>src/src/LibForumHelpers/OutputHelpers.h\<close> and the character functions of \<^verbatim>\<open>StringHelpers.h\<close> it uses.
  The state is the entity collection with its indices by id and, for tags and categories, by the sort key of the
  name, the addresses that the pools give to the next tag and category, the authorization and the events that
  were raised for the write observers, each as the context and the call of the write interface it
  tells of. The locks make an operation one step. An operation is a function on the state; \<open>None\<close> is
  an operation that does not return or has undefined behaviour.
\<close>

record repository_context =
  rx_time :: timestamp
  rx_userId :: id_type
  rx_ip :: "128 word"
  rx_showInOnlineUsers :: bool
  rx_lastSeenUpdatePrecision :: int

record forum =
  fo_heap :: heap
  fo_anonymousUser :: ptr
  fo_usersById :: "id_type \<Rightarrow> ptr option"
  fo_messagesById :: "id_type \<Rightarrow> ptr option"
  fo_threadsById :: "id_type \<Rightarrow> ptr option"
  fo_tagsById :: "id_type \<Rightarrow> ptr option"
  fo_categoriesById :: "id_type \<Rightarrow> ptr option"
  fo_tagsByName :: "string \<Rightarrow> ptr option"
  fo_categoriesByName :: "string \<Rightarrow> ptr option"
  fo_nextTag :: ptr
  fo_nextCategory :: ptr
  fo_authorization :: authorization
  fo_events :: "(observer_context \<times> repository_call) list"

subsection \<open>Access to the entities\<close>

definition fo_user :: "forum \<Rightarrow> ptr \<Rightarrow> user" where
  "fo_user fo p = h_user (fo_heap fo) p"

definition update_user :: "ptr \<Rightarrow> (user \<Rightarrow> user) \<Rightarrow> forum \<Rightarrow> forum" where
  "update_user p f fo = fo\<lparr>fo_heap := (fo_heap fo)\<lparr>h_user := (h_user (fo_heap fo))(p := f (h_user (fo_heap fo) p))\<rparr>\<rparr>"

definition update_message :: "ptr \<Rightarrow> (message \<Rightarrow> message) \<Rightarrow> forum \<Rightarrow> forum" where
  "update_message p f fo = fo\<lparr>fo_heap := (fo_heap fo)\<lparr>h_message := (h_message (fo_heap fo))(p := f (h_message (fo_heap fo) p))\<rparr>\<rparr>"

definition update_thread :: "ptr \<Rightarrow> (thread \<Rightarrow> thread) \<Rightarrow> forum \<Rightarrow> forum" where
  "update_thread p f fo = fo\<lparr>fo_heap := (fo_heap fo)\<lparr>h_thread := (h_thread (fo_heap fo))(p := f (h_thread (fo_heap fo) p))\<rparr>\<rparr>"

definition update_tag :: "ptr \<Rightarrow> (tag \<Rightarrow> tag) \<Rightarrow> forum \<Rightarrow> forum" where
  "update_tag p f fo = fo\<lparr>fo_heap := (fo_heap fo)\<lparr>h_tag := (h_tag (fo_heap fo))(p := f (h_tag (fo_heap fo) p))\<rparr>\<rparr>"

definition update_category :: "ptr \<Rightarrow> (category \<Rightarrow> category) \<Rightarrow> forum \<Rightarrow> forum" where
  "update_category p f fo = fo\<lparr>fo_heap := (fo_heap fo)\<lparr>h_category := (h_category (fo_heap fo))(p := f (h_category (fo_heap fo) p))\<rparr>\<rparr>"

definition update_forum_wide :: "(forum_wide_store \<Rightarrow> forum_wide_store) \<Rightarrow> forum \<Rightarrow> forum" where
  "update_forum_wide f fo = fo\<lparr>fo_heap := (fo_heap fo)\<lparr>h_forumWide := f (h_forumWide (fo_heap fo))\<rparr>\<rparr>"

definition update_grants :: "(granted_store \<Rightarrow> granted_store) \<Rightarrow> forum \<Rightarrow> forum" where
  "update_grants f fo = fo\<lparr>fo_authorization := (fo_authorization fo)\<lparr>au_grants := f (au_grants (fo_authorization fo))\<rparr>\<rparr>"

lemmas update_defs = update_user_def update_message_def update_thread_def update_tag_def update_category_def
  update_forum_wide_def update_grants_def fo_user_def

subsection \<open>The current user\<close>

definition updateLastSeen :: "timestamp \<Rightarrow> user \<Rightarrow> user" where
  "updateLastSeen v u = (if usr_lastSeen u = v then u else u\<lparr>usr_lastSeen := v\<rparr>)"

definition getCurrentUser :: "repository_context \<Rightarrow> forum \<Rightarrow> ptr \<times> forum" where
  "getCurrentUser cx fo =
     (case fo_usersById fo (rx_userId cx) of
        None \<Rightarrow> (fo_anonymousUser fo, fo)
      | Some p \<Rightarrow> (p, update_user p (usr_showInOnlineUsers_update (\<lambda>_. rx_showInOnlineUsers cx)) fo))"

definition lastSeen_outdated :: "repository_context \<Rightarrow> user \<Rightarrow> bool" where
  "lastSeen_outdated cx u \<longleftrightarrow> usr_lastSeen u + rx_lastSeenUpdatePrecision cx < rx_time cx"

text \<open>\<open>PerformedByWithLastSeenUpdateGuard::getAndUpdate\<close>, under the write lock.\<close>

definition performedBy_getAndUpdate :: "repository_context \<Rightarrow> forum \<Rightarrow> ptr \<times> forum" where
  "performedBy_getAndUpdate cx fo =
     (let (result, fo1) = getCurrentUser cx fo
      in if result = fo_anonymousUser fo1 then (result, fo1)
         else if lastSeen_outdated cx (fo_user fo1 result) then (result, update_user result (updateLastSeen (rx_time cx)) fo1)
         else (result, fo1))"

text \<open>
  \<open>get\<close>, under the read lock, schedules the update for the destructor; the second component is the id
  it is scheduled for.
\<close>

definition performedBy_get :: "repository_context \<Rightarrow> forum \<Rightarrow> ptr \<times> id_type option \<times> forum" where
  "performedBy_get cx fo =
     (case fo_usersById fo (rx_userId cx) of
        None \<Rightarrow> (fo_anonymousUser fo, None, fo)
      | Some p \<Rightarrow>
          (let fo1 = update_user p (usr_showInOnlineUsers_update (\<lambda>_. rx_showInOnlineUsers cx)) fo
           in (p, if lastSeen_outdated cx (fo_user fo1 p) then Some (usr_id (fo_user fo1 p)) else None, fo1)))"

definition performedBy_destroy :: "repository_context \<Rightarrow> id_type option \<Rightarrow> forum \<Rightarrow> forum" where
  "performedBy_destroy cx scheduled fo =
     (case scheduled of
        None \<Rightarrow> fo
      | Some uid \<Rightarrow>
          (case fo_usersById fo uid of None \<Rightarrow> fo | Some p \<Rightarrow> update_user p (updateLastSeen (rx_time cx)) fo))"

definition createObserverContext :: "repository_context \<Rightarrow> user \<Rightarrow> observer_context" where
  "createObserverContext cx performedBy =
     \<lparr>oc_timestamp = rx_time cx, oc_performedBy = usr_id performedBy, oc_ipAddress = rx_ip cx\<rparr>"

definition observe :: "repository_context \<Rightarrow> ptr \<Rightarrow> repository_call \<Rightarrow> forum \<Rightarrow> forum" where
  "observe cx performedBy call fo =
     fo\<lparr>fo_events := fo_events fo @ [(createObserverContext cx (fo_user fo performedBy), call)]\<rparr>"

subsection \<open>Statuses\<close>

fun status_number :: "status_code \<Rightarrow> int" where
  "status_number STATUS_OK = 0"
| "status_number INVALID_PARAMETERS = 1"
| "status_number VALUE_TOO_LONG = 2"
| "status_number VALUE_TOO_SHORT = 3"
| "status_number ALREADY_EXISTS = 4"
| "status_number NOT_FOUND = 5"
| "status_number NO_EFFECT = 6"
| "status_number CIRCULAR_REFERENCE_NOT_ALLOWED = 7"
| "status_number STATUS_NOT_ALLOWED = 8"
| "status_number NOT_UPDATED_SINCE_LAST_CHECK = 9"
| "status_number UNAUTHORIZED = 10"
| "status_number STATUS_THROTTLED = 11"
| "status_number USER_WITH_SAME_AUTH_ALREADY_EXISTS = 12"
| "status_number QUOTA_EXCEEDED = 13"

text \<open>The assignment of an authorization status to a \<open>StatusWriter\<close>.\<close>

fun authorization_to_status :: "authorization_status \<Rightarrow> status_code" where
  "authorization_to_status NOT_ALLOWED = UNAUTHORIZED"
| "authorization_to_status THROTTLED = STATUS_THROTTLED"
| "authorization_to_status OK = STATUS_OK"

text \<open>The destructor writes the status, unless the operation wrote something else and disabled it.\<close>

definition status_steps :: "status_code \<Rightarrow> json_step" where
  "status_steps st = object_steps [JSON_WRITE_FIRST_PROP ''status'' (writeNumber 8 False (status_number st))]"

definition StatusWriter_destroy :: "status_code \<Rightarrow> json_step option \<Rightarrow> string \<Rightarrow> string option" where
  "StatusWriter_destroy st written output =
     (case written of None \<Rightarrow> write_document (status_steps st) output | Some f \<Rightarrow> write_document f output)"

subsection \<open>Asking the authorization\<close>

definition context_of :: "repository_context \<Rightarrow> forum \<Rightarrow> auth_context" where
  "context_of cx fo = \<lparr>cx_now = rx_time cx, cx_ip = rx_ip cx, cx_heap = fo_heap fo\<rparr>"

definition authorize :: "repository_context \<Rightarrow> (auth_context \<Rightarrow> handler) \<Rightarrow> forum \<Rightarrow> (status_code \<times> forum) option" where
  "authorize cx h fo =
     (case h (context_of cx fo) (fo_authorization fo) of
        None \<Rightarrow> None
      | Some (st, a) \<Rightarrow> Some (authorization_to_status st, fo\<lparr>fo_authorization := a\<rparr>))"

type_synonym repository_write = "forum \<Rightarrow> (status_code \<times> forum) option"

text \<open>\<open>if ( ! (status = authorization)) return; event; status = change\<close>.\<close>

definition authorized_write ::
  "repository_context \<Rightarrow> ptr \<Rightarrow> (auth_context \<Rightarrow> handler) \<Rightarrow> repository_call \<Rightarrow> repository_write \<Rightarrow> repository_write" where
  "authorized_write cx currentUser h call change fo =
     (case authorize cx h fo of
        None \<Rightarrow> None
      | Some (st, fo1) \<Rightarrow> if st \<noteq> STATUS_OK then Some (st, fo1) else change (observe cx currentUser call fo1))"

subsection \<open>Characters of a UTF-8 text\<close>

definition isFirstByteInUTF8Sequence :: "char \<Rightarrow> bool" where
  "isFirstByteInUTF8Sequence c \<longleftrightarrow> byte_code c < 0x80 \<or> byte_code c \<ge> 0xC0"

definition countUTF8Characters :: "string \<Rightarrow> int" where
  "countUTF8Characters v = int (length (filter isFirstByteInUTF8Sequence v))"

definition nrOfBytesForUTF8Character :: "char \<Rightarrow> nat" where
  "nrOfBytesForUTF8Character c =
     (let u = byte_code c
      in if u div 16 = 0xE then 3 else if u div 16 = 0xF then 4 else if u div 32 = 6 then 2 else 1)"

definition getFirstCharacterInUTF8Array :: "string \<Rightarrow> string" where
  "getFirstCharacterInUTF8Array v = (case v of [] \<Rightarrow> [] | c # _ \<Rightarrow> take (nrOfBytesForUTF8Character c) v)"

text \<open>From the last byte that starts a character; the empty view when there is none.\<close>

definition getLastCharacterInUTF8Array :: "string \<Rightarrow> string" where
  "getLastCharacterInUTF8Array v =
     (let n = length (takeWhile (\<lambda>c. \<not> isFirstByteInUTF8Sequence c) (rev v))
      in if n = length v then [] else drop (length v - n - 1) v)"

subsection \<open>Validation of texts\<close>

datatype empty_string_validation = ALLOW_EMPTY_STRING | INVALID_PARAMETERS_FOR_EMPTY_STRING

definition validateString :: "string \<Rightarrow> empty_string_validation \<Rightarrow> int option \<Rightarrow> int option \<Rightarrow> status_code" where
  "validateString v emptyValidation minimumLength maximumLength =
     (if emptyValidation = INVALID_PARAMETERS_FOR_EMPTY_STRING \<and> v = [] then INVALID_PARAMETERS
      else let nrCharacters = countUTF8Characters v
           in if (case maximumLength of None \<Rightarrow> False | Some m \<Rightarrow> nrCharacters > m) then VALUE_TOO_LONG
              else if (case minimumLength of None \<Rightarrow> False | Some m \<Rightarrow> nrCharacters < m) then VALUE_TOO_SHORT
              else STATUS_OK)"

definition validateString_extra ::
  "string \<Rightarrow> empty_string_validation \<Rightarrow> int option \<Rightarrow> int option \<Rightarrow> (string \<Rightarrow> bool) \<Rightarrow> status_code" where
  "validateString_extra v emptyValidation minimumLength maximumLength extraValidation =
     (let initialResult = validateString v emptyValidation minimumLength maximumLength
      in if STATUS_OK \<noteq> initialResult then initialResult
         else if extraValidation v then STATUS_OK else INVALID_PARAMETERS)"

text \<open>
  Whether the first and the last character are white space is decided by ICU on at most four bytes of
  each: \<open>whitespace\<close> gets those bytes and answers for both characters, \<open>None\<close> if they do not convert.
\<close>

definition doesNotContainLeadingOrTrailingWhitespace ::
  "(string \<Rightarrow> (bool \<times> bool) option) \<Rightarrow> string \<Rightarrow> bool" where
  "doesNotContainLeadingOrTrailingWhitespace whitespace v =
     (if v = [] then True
      else case whitespace (take 4 (getFirstCharacterInUTF8Array v) @ take 4 (getLastCharacterInUTF8Array v)) of
             None \<Rightarrow> False
           | Some (firstIs, lastIs) \<Rightarrow> \<not> firstIs \<and> \<not> lastIs)"

subsection \<open>Validation of images\<close>

definition PNGStart :: "8 word list" where
  "PNGStart = [0x89, 0x50, 0x4E, 0x47, 0x0D, 0x0A, 0x1A, 0x0A]"

definition PNGIHDR :: "8 word list" where
  "PNGIHDR = [0x49, 0x48, 0x44, 0x52]"

definition big_endian32 :: "bytes \<Rightarrow> nat" where
  "big_endian32 bs = fold (\<lambda>b n. 256 * n + unat b) bs 0"

text \<open>\<open>readValue\<close> copies from the pointer it is given, so the caller skips the four bytes of the width itself.\<close>

definition getPNGSize :: "bytes \<Rightarrow> (nat \<times> nat) option" where
  "getPNGSize content =
     (let requiredSize = length PNGStart + 4 + length PNGIHDR + 4 + 4 in
      if length content < requiredSize then None
      else if take 8 content \<noteq> PNGStart then None
      else if take 4 (drop 12 content) \<noteq> PNGIHDR then None
      else Some (big_endian32 (take 4 (drop 16 content)), big_endian32 (take 4 (drop 20 content))))"

definition validateImage :: "bytes \<Rightarrow> nat \<Rightarrow> nat \<Rightarrow> nat \<Rightarrow> status_code" where
  "validateImage content maxBinarySize maxWidth maxHeight =
     (if content = [] then VALUE_TOO_SHORT
      else if length content > maxBinarySize then VALUE_TOO_LONG
      else case getPNGSize content of
             None \<Rightarrow> INVALID_PARAMETERS
           | Some (width, height) \<Rightarrow>
               if width < 1 \<or> height < 1 then VALUE_TOO_SHORT
               else if width > maxWidth \<or> height > maxHeight then VALUE_TOO_LONG
               else STATUS_OK)"

subsection \<open>What the helpers guarantee\<close>

lemma validateString_bounds:
  "validateString v e (Some lo) (Some hi) = STATUS_OK \<Longrightarrow> lo \<le> countUTF8Characters v \<and> countUTF8Characters v \<le> hi"
  by (auto simp: validateString_def Let_def split: if_splits)

lemma countUTF8_le_length: "countUTF8Characters v \<le> int (length v)"
  by (simp add: countUTF8Characters_def)

lemma validateImage_bounds:
  assumes "validateImage content maxBinarySize maxWidth maxHeight = STATUS_OK"
  shows "\<exists>w h. getPNGSize content = Some (w, h) \<and> 1 \<le> w \<and> w \<le> maxWidth \<and> 1 \<le> h \<and> h \<le> maxHeight \<and>
     24 \<le> length content \<and> length content \<le> maxBinarySize"
proof -
  from assms obtain w h where *: "getPNGSize content = Some (w, h)" "1 \<le> w" "w \<le> maxWidth" "1 \<le> h" "h \<le> maxHeight"
      "length content \<le> maxBinarySize"
    by (auto simp: validateImage_def split: if_splits option.splits)
  then have "24 \<le> length content" by (simp add: getPNGSize_def PNGStart_def PNGIHDR_def Let_def split: if_splits)
  with * show ?thesis by blast
qed

lemma status_document: "StatusWriter_destroy st None output = Some (output @ json_text (JObject [(''status'', JInt (status_number st))]))"
proof -
  have "writes_member 0 (writeNumber 8 False (status_number st)) (json_text (JInt (status_number st)))"
    by (rule writeNumber_member) (simp add: number_size_def)
  from document_object [of 0 "[JSON_WRITE_FIRST_PROP ''status'' (writeNumber 8 False (status_number st))]", OF _ zero_less_numeral]
    part_FIRST_PROP [OF this, of "''status''"]
  have "write_document (status_steps st) output = Some (output @ ''{'' @ (''\"status\":'' @ number_text (status_number st) False) @ ''}'')"
    by (simp add: status_steps_def)
  moreover have "escapeString ''status'' = ''status''" by code_simp
  ultimately show ?thesis by (simp add: StatusWriter_destroy_def string_text_def)
qed

end
