(* ===== verification/AuthorizationReads.thy ===== *)
theory AuthorizationReads
  imports RepositoryCommon Restriction
begin

section \<open>The repository of privileges: replies\<close>

text \<open>
  Models the operations of \<^verbatim>\<open>src/src/LibForumData/private/MemoryRepositoryAuthorization.cpp\<close> that tell which
  privileges are required, assigned or held, with the functions that write their replies. What is written is
  a list of steps of the JSON writer. The read events only feed statistics and are left out. An operation
  returns the status, the steps it writes if it writes a reply of its own, and the new state: reading marks
  when a user was seen and throttles.
\<close>

subsection \<open>Operations that read\<close>

type_synonym repository_reply = "status_code \<times> json_step option"

type_synonym repository_read = "forum \<Rightarrow> (repository_reply \<times> forum) option"

text \<open>The body runs under the read lock, with the user that \<open>performedBy.get\<close> returns.\<close>

definition read_operation :: "repository_context \<Rightarrow> (ptr \<Rightarrow> repository_read) \<Rightarrow> repository_read" where
  "read_operation cx body fo =
     (case performedBy_get cx fo of
        (currentUser, scheduled, fo1) \<Rightarrow>
          map_option (\<lambda>(reply, fo2). (reply, performedBy_destroy cx scheduled fo2)) (body currentUser fo1))"

definition reply_status :: "status_code \<Rightarrow> repository_read" where
  "reply_status st fo = Some ((st, None), fo)"

text \<open>\<open>if ( ! (status = authorization)) return; status.disable(); ...\<close>.\<close>

definition authorized_read :: "repository_context \<Rightarrow> (auth_context \<Rightarrow> handler) \<Rightarrow> repository_read \<Rightarrow> repository_read" where
  "authorized_read cx h rest fo =
     (case authorize cx h fo of
        None \<Rightarrow> None
      | Some (st, fo1) \<Rightarrow> if st \<noteq> STATUS_OK then reply_status st fo1 else rest fo1)"

definition reply_object :: "(forum \<Rightarrow> json_step list) \<Rightarrow> repository_read" where
  "reply_object steps fo = Some ((STATUS_OK, Some (object_steps (steps fo))), fo)"

text \<open>A reply that ends with \<open>allowAdjustPrivilege\<close>, for which the authorization is asked again.\<close>

definition writeAllowPrivilegeChange :: "bool \<Rightarrow> json_step" where
  "writeAllowPrivilegeChange allowed = json_steps [newPropertyWithSafeName ''allowAdjustPrivilege'', writeBool allowed]"

definition reply_with_allow ::
  "repository_context \<Rightarrow> (auth_context \<Rightarrow> handler) \<Rightarrow> (forum \<Rightarrow> json_step list) \<Rightarrow> repository_read" where
  "reply_with_allow cx h steps fo =
     (case authorize cx h fo of
        None \<Rightarrow> None
      | Some (st, fo1) \<Rightarrow> reply_object (\<lambda>fo. steps fo @ [writeAllowPrivilegeChange (st = STATUS_OK)]) fo1)"

subsection \<open>Required values\<close>

text \<open>A literal of the source, with the zero byte that ends it.\<close>

definition literal :: "string \<Rightarrow> json_view" where
  "literal v = (v, Some v)"

definition writeValue16 :: "privilege_value \<Rightarrow> json_step" where
  "writeValue16 v = writeNumber 2 True v"

definition writeTime :: "timestamp \<Rightarrow> json_step" where
  "writeTime t = writeNumber 8 True t"

text \<open>The enumerators below \<open>maxValue\<close> with their names; those without a value are skipped.\<close>

definition writePrivilegeValues :: "('p \<Rightarrow> privilege_value option) \<Rightarrow> 'p list \<Rightarrow> string list \<Rightarrow> json_step" where
  "writePrivilegeValues fn enumerators strings =
     array_steps (map (\<lambda>(i, v). object_steps
         [JSON_WRITE_FIRST_PROP ''name'' (writeEscapedString (literal (strings ! i))),
          JSON_WRITE_PROP ''value'' (writeValue16 v)])
       (List.map_filter (\<lambda>i. map_option (Pair i) (fn (enumerators ! i))) [0..<length enumerators]))"

definition writeDiscussionThreadMessageRequiredPrivileges :: "'a msg_priv_store_scheme \<Rightarrow> json_step" where
  "writeDiscussionThreadMessageRequiredPrivileges store =
     json_steps [newPropertyWithSafeName ''discussionThreadMessagePrivileges'',
       writePrivilegeValues (store_getDiscussionThreadMessagePrivilege store) msg_privilege_enumerators msg_privilege_strings]"

definition writeDiscussionThreadRequiredPrivileges :: "'a thread_priv_store_scheme \<Rightarrow> json_step" where
  "writeDiscussionThreadRequiredPrivileges store =
     json_steps [newPropertyWithSafeName ''discussionThreadPrivileges'',
       writePrivilegeValues (store_getDiscussionThreadPrivilege store) thread_privilege_enumerators thread_privilege_strings]"

definition writeDiscussionTagRequiredPrivileges :: "'a tag_priv_store_scheme \<Rightarrow> json_step" where
  "writeDiscussionTagRequiredPrivileges store =
     json_steps [newPropertyWithSafeName ''discussionTagPrivileges'',
       writePrivilegeValues (store_getDiscussionTagPrivilege store) tag_privilege_enumerators tag_privilege_strings]"

definition writeDiscussionCategoryRequiredPrivileges :: "'a category_priv_store_scheme \<Rightarrow> json_step" where
  "writeDiscussionCategoryRequiredPrivileges store =
     json_steps [newPropertyWithSafeName ''discussionCategoryPrivileges'',
       writePrivilegeValues (store_getDiscussionCategoryPrivilege store) category_privilege_enumerators category_privilege_strings]"

definition writeForumWideRequiredPrivileges :: "'a forum_wide_store_scheme \<Rightarrow> json_step" where
  "writeForumWideRequiredPrivileges store =
     json_steps [newPropertyWithSafeName ''forumWidePrivileges'',
       writePrivilegeValues (getForumWidePrivilege store) forum_wide_privilege_enumerators forum_wide_privilege_strings]"

definition ForumWideDefaultPrivilegeDurationStrings :: "string list" where
  "ForumWideDefaultPrivilegeDurationStrings = [''create_discussion_thread'', ''create_discussion_thread_message'']"

definition writeForumWideDefaultPrivilegeLevels :: "'a forum_wide_store_scheme \<Rightarrow> json_step" where
  "writeForumWideDefaultPrivilegeLevels store =
     json_steps [newPropertyWithSafeName ''forumWideDefaultLevels'',
       array_steps (map (\<lambda>(i, level). object_steps
           [JSON_WRITE_FIRST_PROP ''name'' (writeEscapedString (literal (ForumWideDefaultPrivilegeDurationStrings ! i))),
            JSON_WRITE_PROP ''value'' (writeValue16 (level_value level)),
            JSON_WRITE_PROP ''duration'' (writeNumber 8 True (level_duration level))])
         (List.map_filter (\<lambda>i. map_option (Pair i)
             (getForumWideDefaultPrivilegeLevel store (default_privilege_duration_enumerators ! i)))
           [0..<length default_privilege_duration_enumerators]))]"

subsection \<open>Assigned values\<close>

type_synonym assigned_entry = "id_type \<times> privilege_value \<times> timestamp \<times> timestamp"

text \<open>An entry of an entity tells the user; a user who is gone has an id only.\<close>

definition AssignedPrivilegeWriter :: "forum \<Rightarrow> assigned_entry \<Rightarrow> json_step" where
  "AssignedPrivilegeWriter fo entry =
     (case entry of (userId, privilegeValue, grantedAt, expiresAt) \<Rightarrow>
        object_steps
          ([JSON_WRITE_FIRST_PROP ''id'' (writeUuid userId)] @
           (if isAnonymousUserId userId
            then [JSON_WRITE_PROP ''name'' (writeReadyString (usr_name (fo_user fo (fo_anonymousUser fo))))]
            else (case fo_usersById fo userId of
                    None \<Rightarrow> []
                  | Some p \<Rightarrow> [JSON_WRITE_PROP ''name'' (writeReadyString (usr_name (fo_user fo p)))])) @
           [JSON_WRITE_PROP ''value'' (writeValue16 privilegeValue),
            JSON_WRITE_PROP ''granted'' (writeTime grantedAt),
            JSON_WRITE_PROP ''expires'' (writeTime expiresAt)]))"

text \<open>
  An entry of a user tells the entity. The function that writes the entity answers whether the rest follows;
  its result is \<open>None\<close> where the decision about a category does not end.
\<close>

type_synonym write_entity = "forum \<Rightarrow> restriction \<Rightarrow> id_type \<Rightarrow> (json_step list \<times> bool) option"

definition UserAssignedPrivilegeWriter :: "forum \<Rightarrow> restriction \<Rightarrow> write_entity \<Rightarrow> assigned_entry \<Rightarrow> json_step" where
  "UserAssignedPrivilegeWriter fo restriction writeEntity entry w =
     (case entry of (entityId, privilegeValue, grantedAt, expiresAt) \<Rightarrow>
        (case writeEntity fo restriction entityId of
           None \<Rightarrow> None
         | Some (steps, written) \<Rightarrow>
             object_steps (steps @
               (if written
                then [JSON_WRITE_PROP ''value'' (writeValue16 privilegeValue),
                      JSON_WRITE_PROP ''granted'' (writeTime grantedAt),
                      JSON_WRITE_PROP ''expires'' (writeTime expiresAt)]
                else [])) w))"

definition written_entity :: "id_type \<Rightarrow> json_ready_string \<Rightarrow> json_step list" where
  "written_entity eid name =
     [JSON_WRITE_FIRST_PROP ''id'' (writeUuid eid), JSON_WRITE_PROP ''name'' (writeReadyString name)]"

definition writeDiscussionThreadEntity :: write_entity where
  "writeDiscussionThreadEntity fo restriction entityId =
     (case fo_threadsById fo entityId of
        None \<Rightarrow> Some ([], False)
      | Some p \<Rightarrow>
          (let thread = h_thread (fo_heap fo) p
           in if sr_isAllowed_thread restriction (fo_heap fo) thread THR_VIEW
              then Some (written_entity (thr_id thread) (thr_name thread), True) else Some ([], False)))"

definition writeDiscussionTagEntity :: write_entity where
  "writeDiscussionTagEntity fo restriction entityId =
     (case fo_tagsById fo entityId of
        None \<Rightarrow> Some ([], False)
      | Some p \<Rightarrow>
          (let tag = h_tag (fo_heap fo) p
           in if sr_isAllowed_tag restriction (fo_heap fo) tag TAG_VIEW
              then Some (written_entity (tag_id tag) (tag_name tag), True) else Some ([], False)))"

definition writeDiscussionCategoryEntity :: write_entity where
  "writeDiscussionCategoryEntity fo restriction entityId =
     (case fo_categoriesById fo entityId of
        None \<Rightarrow> Some ([], False)
      | Some p \<Rightarrow>
          (let category = h_category (fo_heap fo) p
           in map_option (\<lambda>allowed. if allowed then (written_entity (cat_id category) (cat_name category), True) else ([], False))
                (sr_isAllowed_category restriction (fo_heap fo) category CAT_VIEW)))"

text \<open>Nothing is written, yet the rest follows.\<close>

definition writeForumWideEntity :: write_entity where
  "writeForumWideEntity fo restriction entityId = Some ([], True)"

definition writeAssignedPrivilegesExtra :: "repository_context \<Rightarrow> json_step" where
  "writeAssignedPrivilegesExtra cx = json_steps [newPropertyWithSafeName ''now'', writeTime (rx_time cx)]"

definition assigned_privileges :: "repository_context \<Rightarrow> string \<Rightarrow> json_step list \<Rightarrow> json_step" where
  "assigned_privileges cx name entries =
     json_steps [writeAssignedPrivilegesExtra cx, newPropertyRaw (JSON_RAW_PROP_COMMA name), array_steps entries]"

definition fo_grants :: "forum \<Rightarrow> granted_store" where
  "fo_grants fo = au_grants (fo_authorization fo)"

definition writeDiscussionThreadMessageAssignedPrivileges :: "repository_context \<Rightarrow> forum \<Rightarrow> id_type \<Rightarrow> json_step" where
  "writeDiscussionThreadMessageAssignedPrivileges cx fo eid =
     assigned_privileges cx ''discussionThreadMessagePrivileges''
       (map (AssignedPrivilegeWriter fo) (enumerateDiscussionThreadMessagePrivileges (fo_grants fo) eid))"

definition writeDiscussionThreadAssignedPrivileges :: "repository_context \<Rightarrow> forum \<Rightarrow> id_type \<Rightarrow> json_step" where
  "writeDiscussionThreadAssignedPrivileges cx fo eid =
     assigned_privileges cx ''discussionThreadPrivileges''
       (map (AssignedPrivilegeWriter fo) (enumerateDiscussionThreadPrivileges (fo_grants fo) eid))"

definition writeDiscussionTagAssignedPrivileges :: "repository_context \<Rightarrow> forum \<Rightarrow> id_type \<Rightarrow> json_step" where
  "writeDiscussionTagAssignedPrivileges cx fo eid =
     assigned_privileges cx ''discussionTagPrivileges''
       (map (AssignedPrivilegeWriter fo) (enumerateDiscussionTagPrivileges (fo_grants fo) eid))"

definition writeDiscussionCategoryAssignedPrivileges :: "repository_context \<Rightarrow> forum \<Rightarrow> id_type \<Rightarrow> json_step" where
  "writeDiscussionCategoryAssignedPrivileges cx fo eid =
     assigned_privileges cx ''discussionCategoryPrivileges''
       (map (AssignedPrivilegeWriter fo) (enumerateDiscussionCategoryPrivileges (fo_grants fo) eid))"

definition writeForumWideAssignedPrivileges :: "repository_context \<Rightarrow> forum \<Rightarrow> id_type \<Rightarrow> json_step" where
  "writeForumWideAssignedPrivileges cx fo eid =
     assigned_privileges cx ''forumWidePrivileges''
       (map (AssignedPrivilegeWriter fo) (enumerateForumWidePrivileges (fo_grants fo) eid))"

definition writeDiscussionThreadUserAssignedPrivileges :: "repository_context \<Rightarrow> forum \<Rightarrow> restriction \<Rightarrow> id_type \<Rightarrow> json_step" where
  "writeDiscussionThreadUserAssignedPrivileges cx fo restriction userId =
     assigned_privileges cx ''discussionThreadPrivileges''
       (map (UserAssignedPrivilegeWriter fo restriction writeDiscussionThreadEntity) (enumerateDiscussionThreadPrivilegesAssignedToUser (fo_grants fo) userId))"

definition writeDiscussionTagUserAssignedPrivileges :: "repository_context \<Rightarrow> forum \<Rightarrow> restriction \<Rightarrow> id_type \<Rightarrow> json_step" where
  "writeDiscussionTagUserAssignedPrivileges cx fo restriction userId =
     assigned_privileges cx ''discussionTagPrivileges''
       (map (UserAssignedPrivilegeWriter fo restriction writeDiscussionTagEntity) (enumerateDiscussionTagPrivilegesAssignedToUser (fo_grants fo) userId))"

definition writeDiscussionCategoryUserAssignedPrivileges :: "repository_context \<Rightarrow> forum \<Rightarrow> restriction \<Rightarrow> id_type \<Rightarrow> json_step" where
  "writeDiscussionCategoryUserAssignedPrivileges cx fo restriction userId =
     assigned_privileges cx ''discussionCategoryPrivileges''
       (map (UserAssignedPrivilegeWriter fo restriction writeDiscussionCategoryEntity) (enumerateDiscussionCategoryPrivilegesAssignedToUser (fo_grants fo) userId))"

definition writeForumWideUserAssignedPrivileges :: "repository_context \<Rightarrow> forum \<Rightarrow> restriction \<Rightarrow> id_type \<Rightarrow> json_step" where
  "writeForumWideUserAssignedPrivileges cx fo restriction userId =
     assigned_privileges cx ''forumWidePrivileges''
       (map (UserAssignedPrivilegeWriter fo restriction writeForumWideEntity) (enumerateForumWidePrivilegesAssignedToUser (fo_grants fo) userId))"

text \<open>\<open>writePrivileges\<close> of \<^verbatim>\<open>EntitySerialization.h\<close>, for the collection as the entity.\<close>

definition forum_wide_privilege_index :: "forum_wide_privilege \<Rightarrow> nat" where
  "forum_wide_privilege_index p = length (takeWhile (\<lambda>q. q \<noteq> p) forum_wide_privilege_enumerators)"

definition writePrivileges_forum_wide :: "restriction \<Rightarrow> json_step" where
  "writePrivileges_forum_wide restriction =
     json_steps [newPropertyWithSafeName ''privileges'',
       array_steps (map (\<lambda>p. writeSafeString (forum_wide_privilege_strings ! forum_wide_privilege_index p))
         (filter (sr_isAllowed restriction) forum_wide_privilege_to_serialize))]"

definition restriction_of :: "repository_context \<Rightarrow> forum \<Rightarrow> ptr \<Rightarrow> restriction" where
  "restriction_of cx fo currentUser =
     \<lparr>sr_store = fo_grants fo, sr_forumWide = h_forumWide (fo_heap fo), sr_user = Some (fo_user fo currentUser),
      sr_now = rx_time cx\<rparr>"

subsection \<open>The operations\<close>

definition repo_getRequiredPrivilegesForThreadMessage :: "repository_context \<Rightarrow> id_type \<Rightarrow> repository_read" where
  "repo_getRequiredPrivilegesForThreadMessage cx messageId =
     read_operation cx (\<lambda>currentUser fo.
       case fo_messagesById fo messageId of
         None \<Rightarrow> reply_status NOT_FOUND fo
       | Some p \<Rightarrow>
           (let e = h_message (fo_heap fo) p
            in authorized_read cx (\<lambda>ax. getDiscussionThreadMessageRequiredPrivileges ax (fo_user fo currentUser) e)
                 (reply_with_allow cx (\<lambda>ax. getAllowDiscussionThreadMessagePrivilegeChange ax (fo_user fo currentUser) e)
                   (\<lambda>_. [writeDiscussionThreadMessageRequiredPrivileges e])) fo))"

definition repo_getAssignedPrivilegesForThreadMessage :: "repository_context \<Rightarrow> id_type \<Rightarrow> repository_read" where
  "repo_getAssignedPrivilegesForThreadMessage cx messageId =
     read_operation cx (\<lambda>currentUser fo.
       case fo_messagesById fo messageId of
         None \<Rightarrow> reply_status NOT_FOUND fo
       | Some p \<Rightarrow>
           (let e = h_message (fo_heap fo) p
            in authorized_read cx (\<lambda>ax. getDiscussionThreadMessageAssignedPrivileges ax (fo_user fo currentUser) e)
                 (reply_with_allow cx (\<lambda>ax. getAllowDiscussionThreadMessagePrivilegeChange ax (fo_user fo currentUser) e)
                   (\<lambda>fo. [writeDiscussionThreadMessageAssignedPrivileges cx fo (msg_id e)])) fo))"

definition repo_getRequiredPrivilegesForThread :: "repository_context \<Rightarrow> id_type \<Rightarrow> repository_read" where
  "repo_getRequiredPrivilegesForThread cx threadId =
     read_operation cx (\<lambda>currentUser fo.
       case fo_threadsById fo threadId of
         None \<Rightarrow> reply_status NOT_FOUND fo
       | Some p \<Rightarrow>
           (let e = h_thread (fo_heap fo) p
            in authorized_read cx (\<lambda>ax. getDiscussionThreadRequiredPrivileges ax (fo_user fo currentUser) e)
                 (reply_with_allow cx (\<lambda>ax. getAllowDiscussionThreadPrivilegeChange ax (fo_user fo currentUser) e)
                   (\<lambda>_. [writeDiscussionThreadRequiredPrivileges e, writeDiscussionThreadMessageRequiredPrivileges e])) fo))"

definition repo_getAssignedPrivilegesForThread :: "repository_context \<Rightarrow> id_type \<Rightarrow> repository_read" where
  "repo_getAssignedPrivilegesForThread cx threadId =
     read_operation cx (\<lambda>currentUser fo.
       case fo_threadsById fo threadId of
         None \<Rightarrow> reply_status NOT_FOUND fo
       | Some p \<Rightarrow>
           (let e = h_thread (fo_heap fo) p
            in authorized_read cx (\<lambda>ax. getDiscussionThreadAssignedPrivileges ax (fo_user fo currentUser) e)
                 (reply_with_allow cx (\<lambda>ax. getAllowDiscussionThreadPrivilegeChange ax (fo_user fo currentUser) e)
                   (\<lambda>fo. [writeDiscussionThreadAssignedPrivileges cx fo (thr_id e)])) fo))"

definition repo_getRequiredPrivilegesForTag :: "repository_context \<Rightarrow> id_type \<Rightarrow> repository_read" where
  "repo_getRequiredPrivilegesForTag cx tagId =
     read_operation cx (\<lambda>currentUser fo.
       case fo_tagsById fo tagId of
         None \<Rightarrow> reply_status NOT_FOUND fo
       | Some p \<Rightarrow>
           (let e = h_tag (fo_heap fo) p
            in authorized_read cx (\<lambda>ax. getDiscussionTagRequiredPrivileges ax (fo_user fo currentUser) e)
                 (reply_with_allow cx (\<lambda>ax. getAllowDiscussionTagPrivilegeChange ax (fo_user fo currentUser) e)
                   (\<lambda>_. [writeDiscussionTagRequiredPrivileges e, writeDiscussionThreadRequiredPrivileges e, writeDiscussionThreadMessageRequiredPrivileges e])) fo))"

definition repo_getAssignedPrivilegesForTag :: "repository_context \<Rightarrow> id_type \<Rightarrow> repository_read" where
  "repo_getAssignedPrivilegesForTag cx tagId =
     read_operation cx (\<lambda>currentUser fo.
       case fo_tagsById fo tagId of
         None \<Rightarrow> reply_status NOT_FOUND fo
       | Some p \<Rightarrow>
           (let e = h_tag (fo_heap fo) p
            in authorized_read cx (\<lambda>ax. getDiscussionTagAssignedPrivileges ax (fo_user fo currentUser) e)
                 (reply_with_allow cx (\<lambda>ax. getAllowDiscussionTagPrivilegeChange ax (fo_user fo currentUser) e)
                   (\<lambda>fo. [writeDiscussionTagAssignedPrivileges cx fo (tag_id e)])) fo))"

definition repo_getRequiredPrivilegesForCategory :: "repository_context \<Rightarrow> id_type \<Rightarrow> repository_read" where
  "repo_getRequiredPrivilegesForCategory cx categoryId =
     read_operation cx (\<lambda>currentUser fo.
       case fo_categoriesById fo categoryId of
         None \<Rightarrow> reply_status NOT_FOUND fo
       | Some p \<Rightarrow>
           (let e = h_category (fo_heap fo) p
            in authorized_read cx (\<lambda>ax. getDiscussionCategoryRequiredPrivileges ax (fo_user fo currentUser) e)
                 (reply_with_allow cx (\<lambda>ax. getAllowDiscussionCategoryPrivilegeChange ax (fo_user fo currentUser) e)
                   (\<lambda>_. [writeDiscussionCategoryRequiredPrivileges e])) fo))"

definition repo_getAssignedPrivilegesForCategory :: "repository_context \<Rightarrow> id_type \<Rightarrow> repository_read" where
  "repo_getAssignedPrivilegesForCategory cx categoryId =
     read_operation cx (\<lambda>currentUser fo.
       case fo_categoriesById fo categoryId of
         None \<Rightarrow> reply_status NOT_FOUND fo
       | Some p \<Rightarrow>
           (let e = h_category (fo_heap fo) p
            in authorized_read cx (\<lambda>ax. getDiscussionCategoryAssignedPrivileges ax (fo_user fo currentUser) e)
                 (reply_with_allow cx (\<lambda>ax. getAllowDiscussionCategoryPrivilegeChange ax (fo_user fo currentUser) e)
                   (\<lambda>fo. [writeDiscussionCategoryAssignedPrivileges cx fo (cat_id e)])) fo))"

definition repo_getForumWideCurrentUserPrivileges :: "repository_context \<Rightarrow> repository_read" where
  "repo_getForumWideCurrentUserPrivileges cx =
     read_operation cx (\<lambda>currentUser.
       reply_object (\<lambda>fo. [writePrivileges_forum_wide (restriction_of cx fo currentUser)]))"

definition repo_getForumWideRequiredPrivileges :: "repository_context \<Rightarrow> repository_read" where
  "repo_getForumWideRequiredPrivileges cx =
     read_operation cx (\<lambda>currentUser fo.
       authorized_read cx (\<lambda>ax. getForumWideRequiredPrivileges ax (fo_user fo currentUser))
         (reply_with_allow cx (\<lambda>ax. getAllowForumWidePrivilegeChange ax (fo_user fo currentUser))
           (\<lambda>fo. let store = h_forumWide (fo_heap fo)
                 in [writeForumWideRequiredPrivileges store,
                     writeDiscussionCategoryRequiredPrivileges (fw_category_store store),
                     writeDiscussionTagRequiredPrivileges store, writeDiscussionThreadRequiredPrivileges store,
                     writeDiscussionThreadMessageRequiredPrivileges store])) fo)"

definition repo_getForumWideDefaultPrivilegeLevels :: "repository_context \<Rightarrow> repository_read" where
  "repo_getForumWideDefaultPrivilegeLevels cx =
     read_operation cx (\<lambda>currentUser fo.
       authorized_read cx (\<lambda>ax. getForumWideRequiredPrivileges ax (fo_user fo currentUser))
         (reply_object (\<lambda>fo. [writeForumWideDefaultPrivilegeLevels (h_forumWide (fo_heap fo))])) fo)"

definition repo_getForumWideAssignedPrivileges :: "repository_context \<Rightarrow> repository_read" where
  "repo_getForumWideAssignedPrivileges cx =
     read_operation cx (\<lambda>currentUser fo.
       authorized_read cx (\<lambda>ax. getForumWideAssignedPrivileges ax (fo_user fo currentUser))
         (reply_with_allow cx (\<lambda>ax. getAllowForumWidePrivilegeChange ax (fo_user fo currentUser))
           (\<lambda>fo. [writeForumWideAssignedPrivileges cx fo 0])) fo)"

text \<open>The user the request is about is looked up before the current one; a user not found ends the operation.\<close>

definition repo_getAssignedPrivilegesForUser :: "repository_context \<Rightarrow> id_type \<Rightarrow> repository_read" where
  "repo_getAssignedPrivilegesForUser cx userId fo =
     (case (if \<not> isAnonymousUserId userId then fo_usersById fo userId else Some (fo_anonymousUser fo)) of
        None \<Rightarrow> reply_status NOT_FOUND fo
      | Some userPtr \<Rightarrow>
          read_operation cx (\<lambda>currentUser fo.
            authorized_read cx (\<lambda>ax. getUserAssignedPrivileges ax (fo_user fo currentUser) (fo_user fo userPtr))
              (reply_object (\<lambda>fo.
                 let restriction = restriction_of cx fo currentUser
                 in [writeAssignedPrivilegesExtra cx,
                     writeForumWideUserAssignedPrivileges cx fo restriction userId,
                     writeDiscussionCategoryUserAssignedPrivileges cx fo restriction userId,
                     writeDiscussionTagUserAssignedPrivileges cx fo restriction userId,
                     writeDiscussionThreadUserAssignedPrivileges cx fo restriction userId])) fo) fo)"

text \<open>The text of a reply: that of the steps, or the status.\<close>

definition run_read :: "repository_read \<Rightarrow> string \<Rightarrow> forum \<Rightarrow> ((status_code \<times> string) \<times> forum) option" where
  "run_read operation output fo =
     (case operation fo of
        None \<Rightarrow> None
      | Some ((st, written), fo') \<Rightarrow> map_option (\<lambda>t. ((st, t), fo')) (StatusWriter_destroy st written output))"

text \<open>Operations that write answer with the status.\<close>

definition run_write :: "repository_write \<Rightarrow> string \<Rightarrow> forum \<Rightarrow> ((status_code \<times> string) \<times> forum) option" where
  "run_write operation output fo =
     (case operation fo of
        None \<Rightarrow> None
      | Some (st, fo') \<Rightarrow> map_option (\<lambda>t. ((st, t), fo')) (StatusWriter_destroy st None output))"

end
