(* ===== verification/AuthorizationRepository.thy ===== *)
theory AuthorizationRepository
  imports RepositoryCommon
begin

section \<open>The repository of privileges: changes\<close>

text \<open>
  Models the operations of \<^verbatim>\<open>src/src/LibForumData/private/MemoryRepositoryAuthorization.cpp\<close> that change required
  privileges or assign privileges to users. Each comes twice in the source: the operation a request
  calls, here with the prefix \<open>repo_\<close>, which validates, asks the authorization, raises the event and then
  calls the direct write operation, here with the prefix \<open>direct_\<close>, that the importer of events calls too.
  Privileges, values and durations are the bits of the C++ integers, as in the calls of the write interface.
\<close>

subsection \<open>Validation\<close>

definition isValidPrivilege :: "nat \<Rightarrow> 16 word \<Rightarrow> bool" where
  "isValidPrivilege bound intValue \<longleftrightarrow> unat intValue < bound"

definition isValidPrivilegeValue :: "16 word \<Rightarrow> bool" where
  "isValidPrivilegeValue v \<longleftrightarrow> MinPrivilegeValue \<le> sint v \<and> sint v \<le> MaxPrivilegeValue"

definition isValidPrivilegeDuration :: "int \<Rightarrow> bool" where
  "isValidPrivilegeDuration v \<longleftrightarrow> v \<ge> 0"

text \<open>The guards of the three groups of operations.\<close>

definition invalid_change :: "id_type \<Rightarrow> nat \<Rightarrow> 16 word \<Rightarrow> 16 word \<Rightarrow> bool" where
  "invalid_change entityId bound privilege v \<longleftrightarrow>
     \<not> entityId \<noteq> 0 \<or> \<not> isValidPrivilege bound privilege \<or> \<not> isValidPrivilegeValue v"

definition invalid_forum_wide_change :: "nat \<Rightarrow> 16 word \<Rightarrow> 16 word \<Rightarrow> bool" where
  "invalid_forum_wide_change bound privilege v \<longleftrightarrow> \<not> isValidPrivilege bound privilege \<or> \<not> isValidPrivilegeValue v"

definition invalid_assignment :: "id_type \<Rightarrow> id_type \<Rightarrow> 16 word \<Rightarrow> 64 word \<Rightarrow> bool" where
  "invalid_assignment userId entityId v duration \<longleftrightarrow>
     isAnonymousUserId userId \<or> \<not> entityId \<noteq> 0 \<or> \<not> isValidPrivilegeValue v \<or> \<not> isValidPrivilegeDuration (sint duration)"

definition invalid_forum_wide_assignment :: "id_type \<Rightarrow> 16 word \<Rightarrow> 64 word \<Rightarrow> bool" where
  "invalid_forum_wide_assignment userId v duration \<longleftrightarrow>
     isAnonymousUserId userId \<or> \<not> isValidPrivilegeValue v \<or> \<not> isValidPrivilegeDuration (sint duration)"

subsection \<open>Required privileges of an entity\<close>

definition direct_changeDiscussionThreadMessageRequiredPrivilegeForThreadMessage :: "id_type \<Rightarrow> 16 word \<Rightarrow> 16 word \<Rightarrow> repository_write" where
  "direct_changeDiscussionThreadMessageRequiredPrivilegeForThreadMessage messageId privilege v fo =
     (if invalid_change messageId (length msg_privilege_enumerators) privilege v then Some (INVALID_PARAMETERS, fo)
      else case fo_messagesById fo messageId of
             None \<Rightarrow> Some (NOT_FOUND, fo)
           | Some p \<Rightarrow>
               Some (STATUS_OK, update_message p (\<lambda>e. setDiscussionThreadMessagePrivilege e (msg_privilege_of privilege) (sint v)) fo))"

definition repo_changeDiscussionThreadMessageRequiredPrivilegeForThreadMessage ::
  "repository_context \<Rightarrow> id_type \<Rightarrow> 16 word \<Rightarrow> 16 word \<Rightarrow> repository_write" where
  "repo_changeDiscussionThreadMessageRequiredPrivilegeForThreadMessage cx messageId privilege v fo =
     (if invalid_change messageId (length msg_privilege_enumerators) privilege v then Some (INVALID_PARAMETERS, fo)
      else let (currentUser, fo1) = performedBy_getAndUpdate cx fo
           in case fo_messagesById fo1 messageId of
                None \<Rightarrow> Some (NOT_FOUND, fo1)
              | Some p \<Rightarrow>
                  (let e = h_message (fo_heap fo1) p;
                       oldValue = store_getDiscussionThreadMessagePrivilege e (msg_privilege_of privilege)
                   in authorized_write cx currentUser
                        (\<lambda>ax. updateDiscussionThreadMessagePrivilege_message ax (fo_user fo1 currentUser) e oldValue (sint v))
                        (RequiredPrivilegeCall (ChangeDiscussionThreadMessageRequiredPrivilegeForThreadMessage messageId privilege v))
                        (direct_changeDiscussionThreadMessageRequiredPrivilegeForThreadMessage messageId privilege v) fo1))"

definition direct_changeDiscussionThreadMessageRequiredPrivilegeForThread :: "id_type \<Rightarrow> 16 word \<Rightarrow> 16 word \<Rightarrow> repository_write" where
  "direct_changeDiscussionThreadMessageRequiredPrivilegeForThread threadId privilege v fo =
     (if invalid_change threadId (length msg_privilege_enumerators) privilege v then Some (INVALID_PARAMETERS, fo)
      else case fo_threadsById fo threadId of
             None \<Rightarrow> Some (NOT_FOUND, fo)
           | Some p \<Rightarrow>
               Some (STATUS_OK, update_thread p (\<lambda>e. setDiscussionThreadMessagePrivilege e (msg_privilege_of privilege) (sint v)) fo))"

definition repo_changeDiscussionThreadMessageRequiredPrivilegeForThread ::
  "repository_context \<Rightarrow> id_type \<Rightarrow> 16 word \<Rightarrow> 16 word \<Rightarrow> repository_write" where
  "repo_changeDiscussionThreadMessageRequiredPrivilegeForThread cx threadId privilege v fo =
     (if invalid_change threadId (length msg_privilege_enumerators) privilege v then Some (INVALID_PARAMETERS, fo)
      else let (currentUser, fo1) = performedBy_getAndUpdate cx fo
           in case fo_threadsById fo1 threadId of
                None \<Rightarrow> Some (NOT_FOUND, fo1)
              | Some p \<Rightarrow>
                  (let e = h_thread (fo_heap fo1) p;
                       oldValue = store_getDiscussionThreadMessagePrivilege e (msg_privilege_of privilege)
                   in authorized_write cx currentUser
                        (\<lambda>ax. updateDiscussionThreadMessagePrivilege_thread ax (fo_user fo1 currentUser) e oldValue (sint v))
                        (RequiredPrivilegeCall (ChangeDiscussionThreadMessageRequiredPrivilegeForThread threadId privilege v))
                        (direct_changeDiscussionThreadMessageRequiredPrivilegeForThread threadId privilege v) fo1))"

definition direct_changeDiscussionThreadRequiredPrivilegeForThread :: "id_type \<Rightarrow> 16 word \<Rightarrow> 16 word \<Rightarrow> repository_write" where
  "direct_changeDiscussionThreadRequiredPrivilegeForThread threadId privilege v fo =
     (if invalid_change threadId (length thread_privilege_enumerators) privilege v then Some (INVALID_PARAMETERS, fo)
      else case fo_threadsById fo threadId of
             None \<Rightarrow> Some (NOT_FOUND, fo)
           | Some p \<Rightarrow>
               Some (STATUS_OK, update_thread p (\<lambda>e. setDiscussionThreadPrivilege e (thread_privilege_of privilege) (sint v)) fo))"

definition repo_changeDiscussionThreadRequiredPrivilegeForThread ::
  "repository_context \<Rightarrow> id_type \<Rightarrow> 16 word \<Rightarrow> 16 word \<Rightarrow> repository_write" where
  "repo_changeDiscussionThreadRequiredPrivilegeForThread cx threadId privilege v fo =
     (if invalid_change threadId (length thread_privilege_enumerators) privilege v then Some (INVALID_PARAMETERS, fo)
      else let (currentUser, fo1) = performedBy_getAndUpdate cx fo
           in case fo_threadsById fo1 threadId of
                None \<Rightarrow> Some (NOT_FOUND, fo1)
              | Some p \<Rightarrow>
                  (let e = h_thread (fo_heap fo1) p;
                       oldValue = store_getDiscussionThreadPrivilege e (thread_privilege_of privilege)
                   in authorized_write cx currentUser
                        (\<lambda>ax. updateDiscussionThreadPrivilege_thread ax (fo_user fo1 currentUser) e oldValue (sint v))
                        (RequiredPrivilegeCall (ChangeDiscussionThreadRequiredPrivilegeForThread threadId privilege v))
                        (direct_changeDiscussionThreadRequiredPrivilegeForThread threadId privilege v) fo1))"

definition direct_changeDiscussionThreadMessageRequiredPrivilegeForTag :: "id_type \<Rightarrow> 16 word \<Rightarrow> 16 word \<Rightarrow> repository_write" where
  "direct_changeDiscussionThreadMessageRequiredPrivilegeForTag tagId privilege v fo =
     (if invalid_change tagId (length msg_privilege_enumerators) privilege v then Some (INVALID_PARAMETERS, fo)
      else case fo_tagsById fo tagId of
             None \<Rightarrow> Some (NOT_FOUND, fo)
           | Some p \<Rightarrow>
               Some (STATUS_OK, update_tag p (\<lambda>e. setDiscussionThreadMessagePrivilege e (msg_privilege_of privilege) (sint v)) fo))"

definition repo_changeDiscussionThreadMessageRequiredPrivilegeForTag ::
  "repository_context \<Rightarrow> id_type \<Rightarrow> 16 word \<Rightarrow> 16 word \<Rightarrow> repository_write" where
  "repo_changeDiscussionThreadMessageRequiredPrivilegeForTag cx tagId privilege v fo =
     (if invalid_change tagId (length msg_privilege_enumerators) privilege v then Some (INVALID_PARAMETERS, fo)
      else let (currentUser, fo1) = performedBy_getAndUpdate cx fo
           in case fo_tagsById fo1 tagId of
                None \<Rightarrow> Some (NOT_FOUND, fo1)
              | Some p \<Rightarrow>
                  (let e = h_tag (fo_heap fo1) p;
                       oldValue = store_getDiscussionThreadMessagePrivilege e (msg_privilege_of privilege)
                   in authorized_write cx currentUser
                        (\<lambda>ax. updateDiscussionThreadMessagePrivilege_tag ax (fo_user fo1 currentUser) e oldValue (sint v))
                        (RequiredPrivilegeCall (ChangeDiscussionThreadMessageRequiredPrivilegeForTag tagId privilege v))
                        (direct_changeDiscussionThreadMessageRequiredPrivilegeForTag tagId privilege v) fo1))"

definition direct_changeDiscussionThreadRequiredPrivilegeForTag :: "id_type \<Rightarrow> 16 word \<Rightarrow> 16 word \<Rightarrow> repository_write" where
  "direct_changeDiscussionThreadRequiredPrivilegeForTag tagId privilege v fo =
     (if invalid_change tagId (length thread_privilege_enumerators) privilege v then Some (INVALID_PARAMETERS, fo)
      else case fo_tagsById fo tagId of
             None \<Rightarrow> Some (NOT_FOUND, fo)
           | Some p \<Rightarrow>
               Some (STATUS_OK, update_tag p (\<lambda>e. setDiscussionThreadPrivilege e (thread_privilege_of privilege) (sint v)) fo))"

definition repo_changeDiscussionThreadRequiredPrivilegeForTag ::
  "repository_context \<Rightarrow> id_type \<Rightarrow> 16 word \<Rightarrow> 16 word \<Rightarrow> repository_write" where
  "repo_changeDiscussionThreadRequiredPrivilegeForTag cx tagId privilege v fo =
     (if invalid_change tagId (length thread_privilege_enumerators) privilege v then Some (INVALID_PARAMETERS, fo)
      else let (currentUser, fo1) = performedBy_getAndUpdate cx fo
           in case fo_tagsById fo1 tagId of
                None \<Rightarrow> Some (NOT_FOUND, fo1)
              | Some p \<Rightarrow>
                  (let e = h_tag (fo_heap fo1) p;
                       oldValue = store_getDiscussionThreadPrivilege e (thread_privilege_of privilege)
                   in authorized_write cx currentUser
                        (\<lambda>ax. updateDiscussionThreadPrivilege_tag ax (fo_user fo1 currentUser) e oldValue (sint v))
                        (RequiredPrivilegeCall (ChangeDiscussionThreadRequiredPrivilegeForTag tagId privilege v))
                        (direct_changeDiscussionThreadRequiredPrivilegeForTag tagId privilege v) fo1))"

definition direct_changeDiscussionTagRequiredPrivilegeForTag :: "id_type \<Rightarrow> 16 word \<Rightarrow> 16 word \<Rightarrow> repository_write" where
  "direct_changeDiscussionTagRequiredPrivilegeForTag tagId privilege v fo =
     (if invalid_change tagId (length tag_privilege_enumerators) privilege v then Some (INVALID_PARAMETERS, fo)
      else case fo_tagsById fo tagId of
             None \<Rightarrow> Some (NOT_FOUND, fo)
           | Some p \<Rightarrow>
               Some (STATUS_OK, update_tag p (\<lambda>e. setDiscussionTagPrivilege e (tag_privilege_of privilege) (sint v)) fo))"

definition repo_changeDiscussionTagRequiredPrivilegeForTag ::
  "repository_context \<Rightarrow> id_type \<Rightarrow> 16 word \<Rightarrow> 16 word \<Rightarrow> repository_write" where
  "repo_changeDiscussionTagRequiredPrivilegeForTag cx tagId privilege v fo =
     (if invalid_change tagId (length tag_privilege_enumerators) privilege v then Some (INVALID_PARAMETERS, fo)
      else let (currentUser, fo1) = performedBy_getAndUpdate cx fo
           in case fo_tagsById fo1 tagId of
                None \<Rightarrow> Some (NOT_FOUND, fo1)
              | Some p \<Rightarrow>
                  (let e = h_tag (fo_heap fo1) p;
                       oldValue = store_getDiscussionTagPrivilege e (tag_privilege_of privilege)
                   in authorized_write cx currentUser
                        (\<lambda>ax. updateDiscussionTagPrivilege_tag ax (fo_user fo1 currentUser) e oldValue (sint v))
                        (RequiredPrivilegeCall (ChangeDiscussionTagRequiredPrivilegeForTag tagId privilege v))
                        (direct_changeDiscussionTagRequiredPrivilegeForTag tagId privilege v) fo1))"

definition direct_changeDiscussionCategoryRequiredPrivilegeForCategory :: "id_type \<Rightarrow> 16 word \<Rightarrow> 16 word \<Rightarrow> repository_write" where
  "direct_changeDiscussionCategoryRequiredPrivilegeForCategory categoryId privilege v fo =
     (if invalid_change categoryId (length category_privilege_enumerators) privilege v then Some (INVALID_PARAMETERS, fo)
      else case fo_categoriesById fo categoryId of
             None \<Rightarrow> Some (NOT_FOUND, fo)
           | Some p \<Rightarrow>
               Some (STATUS_OK, update_category p (\<lambda>e. setDiscussionCategoryPrivilege e (category_privilege_of privilege) (sint v)) fo))"

definition repo_changeDiscussionCategoryRequiredPrivilegeForCategory ::
  "repository_context \<Rightarrow> id_type \<Rightarrow> 16 word \<Rightarrow> 16 word \<Rightarrow> repository_write" where
  "repo_changeDiscussionCategoryRequiredPrivilegeForCategory cx categoryId privilege v fo =
     (if invalid_change categoryId (length category_privilege_enumerators) privilege v then Some (INVALID_PARAMETERS, fo)
      else let (currentUser, fo1) = performedBy_getAndUpdate cx fo
           in case fo_categoriesById fo1 categoryId of
                None \<Rightarrow> Some (NOT_FOUND, fo1)
              | Some p \<Rightarrow>
                  (let e = h_category (fo_heap fo1) p;
                       oldValue = store_getDiscussionCategoryPrivilege e (category_privilege_of privilege)
                   in authorized_write cx currentUser
                        (\<lambda>ax. updateDiscussionCategoryPrivilege_category ax (fo_user fo1 currentUser) e oldValue (sint v))
                        (RequiredPrivilegeCall (ChangeDiscussionCategoryRequiredPrivilegeForCategory categoryId privilege v))
                        (direct_changeDiscussionCategoryRequiredPrivilegeForCategory categoryId privilege v) fo1))"

subsection \<open>Required privileges of the forum\<close>

definition direct_changeDiscussionThreadMessageRequiredPrivilege :: "16 word \<Rightarrow> 16 word \<Rightarrow> repository_write" where
  "direct_changeDiscussionThreadMessageRequiredPrivilege privilege v fo =
     (if invalid_forum_wide_change (length msg_privilege_enumerators) privilege v then Some (INVALID_PARAMETERS, fo)
      else Some (STATUS_OK, update_forum_wide (\<lambda>s. setDiscussionThreadMessagePrivilege s (msg_privilege_of privilege) (sint v)) fo))"

definition repo_changeDiscussionThreadMessageRequiredPrivilege ::
  "repository_context \<Rightarrow> 16 word \<Rightarrow> 16 word \<Rightarrow> repository_write" where
  "repo_changeDiscussionThreadMessageRequiredPrivilege cx privilege v fo =
     (if invalid_forum_wide_change (length msg_privilege_enumerators) privilege v then Some (INVALID_PARAMETERS, fo)
      else let (currentUser, fo1) = performedBy_getAndUpdate cx fo;
               oldValue = store_getDiscussionThreadMessagePrivilege (h_forumWide (fo_heap fo1)) (msg_privilege_of privilege)
           in authorized_write cx currentUser
                (\<lambda>ax. updateDiscussionThreadMessagePrivilege ax (fo_user fo1 currentUser) oldValue (sint v))
                (RequiredPrivilegeCall (ChangeDiscussionThreadMessageRequiredPrivilege privilege v))
                (direct_changeDiscussionThreadMessageRequiredPrivilege privilege v) fo1)"

definition direct_changeDiscussionThreadRequiredPrivilege :: "16 word \<Rightarrow> 16 word \<Rightarrow> repository_write" where
  "direct_changeDiscussionThreadRequiredPrivilege privilege v fo =
     (if invalid_forum_wide_change (length thread_privilege_enumerators) privilege v then Some (INVALID_PARAMETERS, fo)
      else Some (STATUS_OK, update_forum_wide (\<lambda>s. setDiscussionThreadPrivilege s (thread_privilege_of privilege) (sint v)) fo))"

definition repo_changeDiscussionThreadRequiredPrivilege ::
  "repository_context \<Rightarrow> 16 word \<Rightarrow> 16 word \<Rightarrow> repository_write" where
  "repo_changeDiscussionThreadRequiredPrivilege cx privilege v fo =
     (if invalid_forum_wide_change (length thread_privilege_enumerators) privilege v then Some (INVALID_PARAMETERS, fo)
      else let (currentUser, fo1) = performedBy_getAndUpdate cx fo;
               oldValue = store_getDiscussionThreadPrivilege (h_forumWide (fo_heap fo1)) (thread_privilege_of privilege)
           in authorized_write cx currentUser
                (\<lambda>ax. updateDiscussionThreadPrivilege ax (fo_user fo1 currentUser) oldValue (sint v))
                (RequiredPrivilegeCall (ChangeDiscussionThreadRequiredPrivilege privilege v))
                (direct_changeDiscussionThreadRequiredPrivilege privilege v) fo1)"

definition direct_changeDiscussionTagRequiredPrivilege :: "16 word \<Rightarrow> 16 word \<Rightarrow> repository_write" where
  "direct_changeDiscussionTagRequiredPrivilege privilege v fo =
     (if invalid_forum_wide_change (length tag_privilege_enumerators) privilege v then Some (INVALID_PARAMETERS, fo)
      else Some (STATUS_OK, update_forum_wide (\<lambda>s. setDiscussionTagPrivilege s (tag_privilege_of privilege) (sint v)) fo))"

definition repo_changeDiscussionTagRequiredPrivilege ::
  "repository_context \<Rightarrow> 16 word \<Rightarrow> 16 word \<Rightarrow> repository_write" where
  "repo_changeDiscussionTagRequiredPrivilege cx privilege v fo =
     (if invalid_forum_wide_change (length tag_privilege_enumerators) privilege v then Some (INVALID_PARAMETERS, fo)
      else let (currentUser, fo1) = performedBy_getAndUpdate cx fo;
               oldValue = store_getDiscussionTagPrivilege (h_forumWide (fo_heap fo1)) (tag_privilege_of privilege)
           in authorized_write cx currentUser
                (\<lambda>ax. updateDiscussionTagPrivilege ax (fo_user fo1 currentUser) oldValue (sint v))
                (RequiredPrivilegeCall (ChangeDiscussionTagRequiredPrivilege privilege v))
                (direct_changeDiscussionTagRequiredPrivilege privilege v) fo1)"

definition direct_changeDiscussionCategoryRequiredPrivilege :: "16 word \<Rightarrow> 16 word \<Rightarrow> repository_write" where
  "direct_changeDiscussionCategoryRequiredPrivilege privilege v fo =
     (if invalid_forum_wide_change (length category_privilege_enumerators) privilege v then Some (INVALID_PARAMETERS, fo)
      else Some (STATUS_OK, update_forum_wide (\<lambda>s. s\<lparr>fw_category_store :=
             setDiscussionCategoryPrivilege (fw_category_store s) (category_privilege_of privilege) (sint v)\<rparr>) fo))"

definition repo_changeDiscussionCategoryRequiredPrivilege ::
  "repository_context \<Rightarrow> 16 word \<Rightarrow> 16 word \<Rightarrow> repository_write" where
  "repo_changeDiscussionCategoryRequiredPrivilege cx privilege v fo =
     (if invalid_forum_wide_change (length category_privilege_enumerators) privilege v then Some (INVALID_PARAMETERS, fo)
      else let (currentUser, fo1) = performedBy_getAndUpdate cx fo;
               oldValue = store_getDiscussionCategoryPrivilege (fw_category_store (h_forumWide (fo_heap fo1))) (category_privilege_of privilege)
           in authorized_write cx currentUser
                (\<lambda>ax. updateDiscussionCategoryPrivilege ax (fo_user fo1 currentUser) oldValue (sint v))
                (RequiredPrivilegeCall (ChangeDiscussionCategoryRequiredPrivilege privilege v))
                (direct_changeDiscussionCategoryRequiredPrivilege privilege v) fo1)"

definition direct_changeForumWideRequiredPrivilege :: "16 word \<Rightarrow> 16 word \<Rightarrow> repository_write" where
  "direct_changeForumWideRequiredPrivilege privilege v fo =
     (if invalid_forum_wide_change (length forum_wide_privilege_enumerators) privilege v then Some (INVALID_PARAMETERS, fo)
      else Some (STATUS_OK, update_forum_wide (\<lambda>s. setForumWidePrivilege s (forum_wide_privilege_of privilege) (sint v)) fo))"

definition repo_changeForumWideRequiredPrivilege ::
  "repository_context \<Rightarrow> 16 word \<Rightarrow> 16 word \<Rightarrow> repository_write" where
  "repo_changeForumWideRequiredPrivilege cx privilege v fo =
     (if invalid_forum_wide_change (length forum_wide_privilege_enumerators) privilege v then Some (INVALID_PARAMETERS, fo)
      else let (currentUser, fo1) = performedBy_getAndUpdate cx fo;
               oldValue = getForumWidePrivilege (h_forumWide (fo_heap fo1)) (forum_wide_privilege_of privilege)
           in authorized_write cx currentUser
                (\<lambda>ax. updateForumWidePrivilege ax (fo_user fo1 currentUser) oldValue (sint v))
                (RequiredPrivilegeCall (ChangeForumWideRequiredPrivilege privilege v))
                (direct_changeForumWideRequiredPrivilege privilege v) fo1)"

text \<open>
  The guard passes the value, not the duration, to \<open>isValidPrivilegeDuration\<close>: the duration is not checked and
  the value is not compared with the bounds of privilege values.
\<close>

definition invalid_default_level :: "16 word \<Rightarrow> 16 word \<Rightarrow> bool" where
  "invalid_default_level privilege v \<longleftrightarrow>
     \<not> isValidPrivilege (length default_privilege_duration_enumerators) privilege \<or> \<not> isValidPrivilegeDuration (sint v)"

definition direct_changeForumWideDefaultPrivilegeLevel :: "16 word \<Rightarrow> 16 word \<Rightarrow> 64 word \<Rightarrow> repository_write" where
  "direct_changeForumWideDefaultPrivilegeLevel privilege v duration fo =
     (if invalid_default_level privilege v then Some (INVALID_PARAMETERS, fo)
      else Some (STATUS_OK, update_forum_wide (\<lambda>s. setForumWideDefaultPrivilegeLevel s (default_privilege_duration_of privilege)
             \<lparr>level_value = sint v, level_duration = sint duration\<rparr>) fo))"

definition repo_changeForumWideDefaultPrivilegeLevel ::
  "repository_context \<Rightarrow> 16 word \<Rightarrow> 16 word \<Rightarrow> 64 word \<Rightarrow> repository_write" where
  "repo_changeForumWideDefaultPrivilegeLevel cx privilege v duration fo =
     (if invalid_default_level privilege v then Some (INVALID_PARAMETERS, fo)
      else let (currentUser, fo1) = performedBy_getAndUpdate cx fo
           in authorized_write cx currentUser
                (\<lambda>ax. updateForumWideDefaultPrivilegeLevel ax (fo_user fo1 currentUser))
                (RequiredPrivilegeCall (ChangeForumWideDefaultPrivilegeLevel privilege v duration))
                (direct_changeForumWideDefaultPrivilegeLevel privilege v duration) fo1)"

subsection \<open>Privileges assigned to users\<close>

text \<open>The end of a grant is computed on \<open>int64_t\<close>; \<open>None\<close> is an overflow.\<close>

definition grant_until :: "timestamp \<Rightarrow> 64 word \<Rightarrow> (timestamp \<Rightarrow> granted_store \<Rightarrow> granted_store) \<Rightarrow> repository_write" where
  "grant_until now duration grant fo =
     (case calculatePrivilegeExpires now (sint duration) of
        None \<Rightarrow> None
      | Some expiresAt \<Rightarrow> Some (STATUS_OK, update_grants (grant expiresAt) fo))"

definition direct_assignDiscussionThreadMessagePrivilege :: "timestamp \<Rightarrow> id_type \<Rightarrow> id_type \<Rightarrow> 16 word \<Rightarrow> 64 word \<Rightarrow> repository_write" where
  "direct_assignDiscussionThreadMessagePrivilege now messageId userId v duration fo =
     (if invalid_assignment userId messageId v duration then Some (INVALID_PARAMETERS, fo)
      else case fo_messagesById fo messageId of
             None \<Rightarrow> Some (NOT_FOUND, fo)
           | Some p \<Rightarrow>
               (case fo_usersById fo userId of
                  None \<Rightarrow> Some (NOT_FOUND, fo)
                | Some targetUser \<Rightarrow>
                    grant_until now duration (grantDiscussionThreadMessagePrivilege userId messageId (sint v) now) fo))"

definition repo_assignDiscussionThreadMessagePrivilege ::
  "repository_context \<Rightarrow> id_type \<Rightarrow> id_type \<Rightarrow> 16 word \<Rightarrow> 64 word \<Rightarrow> repository_write" where
  "repo_assignDiscussionThreadMessagePrivilege cx messageId userId v duration fo =
     (if invalid_assignment userId messageId v duration then Some (INVALID_PARAMETERS, fo)
      else let (currentUser, fo1) = performedBy_getAndUpdate cx fo
           in case fo_messagesById fo1 messageId of
                None \<Rightarrow> Some (NOT_FOUND, fo1)
              | Some p \<Rightarrow>
                  (case fo_usersById fo1 userId of
                     None \<Rightarrow> Some (NOT_FOUND, fo1)
                   | Some targetUser \<Rightarrow>
                       authorized_write cx currentUser
                         (\<lambda>ax. assignDiscussionThreadMessagePrivilege ax (fo_user fo1 currentUser) (h_message (fo_heap fo1) p)
                            (fo_user fo1 targetUser) (sint v))
                         (AssignPrivilegeCall (AssignDiscussionThreadMessagePrivilege messageId userId v duration))
                         (direct_assignDiscussionThreadMessagePrivilege (rx_time cx) messageId userId v duration) fo1))"

definition direct_assignDiscussionThreadPrivilege :: "timestamp \<Rightarrow> id_type \<Rightarrow> id_type \<Rightarrow> 16 word \<Rightarrow> 64 word \<Rightarrow> repository_write" where
  "direct_assignDiscussionThreadPrivilege now threadId userId v duration fo =
     (if invalid_assignment userId threadId v duration then Some (INVALID_PARAMETERS, fo)
      else case fo_threadsById fo threadId of
             None \<Rightarrow> Some (NOT_FOUND, fo)
           | Some p \<Rightarrow>
               (case fo_usersById fo userId of
                  None \<Rightarrow> Some (NOT_FOUND, fo)
                | Some targetUser \<Rightarrow>
                    grant_until now duration (grantDiscussionThreadPrivilege userId threadId (sint v) now) fo))"

definition repo_assignDiscussionThreadPrivilege ::
  "repository_context \<Rightarrow> id_type \<Rightarrow> id_type \<Rightarrow> 16 word \<Rightarrow> 64 word \<Rightarrow> repository_write" where
  "repo_assignDiscussionThreadPrivilege cx threadId userId v duration fo =
     (if invalid_assignment userId threadId v duration then Some (INVALID_PARAMETERS, fo)
      else let (currentUser, fo1) = performedBy_getAndUpdate cx fo
           in case fo_threadsById fo1 threadId of
                None \<Rightarrow> Some (NOT_FOUND, fo1)
              | Some p \<Rightarrow>
                  (case fo_usersById fo1 userId of
                     None \<Rightarrow> Some (NOT_FOUND, fo1)
                   | Some targetUser \<Rightarrow>
                       authorized_write cx currentUser
                         (\<lambda>ax. assignDiscussionThreadPrivilege ax (fo_user fo1 currentUser) (h_thread (fo_heap fo1) p)
                            (fo_user fo1 targetUser) (sint v))
                         (AssignPrivilegeCall (AssignDiscussionThreadPrivilege threadId userId v duration))
                         (direct_assignDiscussionThreadPrivilege (rx_time cx) threadId userId v duration) fo1))"

definition direct_assignDiscussionTagPrivilege :: "timestamp \<Rightarrow> id_type \<Rightarrow> id_type \<Rightarrow> 16 word \<Rightarrow> 64 word \<Rightarrow> repository_write" where
  "direct_assignDiscussionTagPrivilege now tagId userId v duration fo =
     (if invalid_assignment userId tagId v duration then Some (INVALID_PARAMETERS, fo)
      else case fo_tagsById fo tagId of
             None \<Rightarrow> Some (NOT_FOUND, fo)
           | Some p \<Rightarrow>
               (case fo_usersById fo userId of
                  None \<Rightarrow> Some (NOT_FOUND, fo)
                | Some targetUser \<Rightarrow>
                    grant_until now duration (grantDiscussionTagPrivilege userId tagId (sint v) now) fo))"

definition repo_assignDiscussionTagPrivilege ::
  "repository_context \<Rightarrow> id_type \<Rightarrow> id_type \<Rightarrow> 16 word \<Rightarrow> 64 word \<Rightarrow> repository_write" where
  "repo_assignDiscussionTagPrivilege cx tagId userId v duration fo =
     (if invalid_assignment userId tagId v duration then Some (INVALID_PARAMETERS, fo)
      else let (currentUser, fo1) = performedBy_getAndUpdate cx fo
           in case fo_tagsById fo1 tagId of
                None \<Rightarrow> Some (NOT_FOUND, fo1)
              | Some p \<Rightarrow>
                  (case fo_usersById fo1 userId of
                     None \<Rightarrow> Some (NOT_FOUND, fo1)
                   | Some targetUser \<Rightarrow>
                       authorized_write cx currentUser
                         (\<lambda>ax. assignDiscussionTagPrivilege ax (fo_user fo1 currentUser) (h_tag (fo_heap fo1) p)
                            (fo_user fo1 targetUser) (sint v))
                         (AssignPrivilegeCall (AssignDiscussionTagPrivilege tagId userId v duration))
                         (direct_assignDiscussionTagPrivilege (rx_time cx) tagId userId v duration) fo1))"

definition direct_assignDiscussionCategoryPrivilege :: "timestamp \<Rightarrow> id_type \<Rightarrow> id_type \<Rightarrow> 16 word \<Rightarrow> 64 word \<Rightarrow> repository_write" where
  "direct_assignDiscussionCategoryPrivilege now categoryId userId v duration fo =
     (if invalid_assignment userId categoryId v duration then Some (INVALID_PARAMETERS, fo)
      else case fo_categoriesById fo categoryId of
             None \<Rightarrow> Some (NOT_FOUND, fo)
           | Some p \<Rightarrow>
               (case fo_usersById fo userId of
                  None \<Rightarrow> Some (NOT_FOUND, fo)
                | Some targetUser \<Rightarrow>
                    grant_until now duration (grantDiscussionCategoryPrivilege userId categoryId (sint v) now) fo))"

definition repo_assignDiscussionCategoryPrivilege ::
  "repository_context \<Rightarrow> id_type \<Rightarrow> id_type \<Rightarrow> 16 word \<Rightarrow> 64 word \<Rightarrow> repository_write" where
  "repo_assignDiscussionCategoryPrivilege cx categoryId userId v duration fo =
     (if invalid_assignment userId categoryId v duration then Some (INVALID_PARAMETERS, fo)
      else let (currentUser, fo1) = performedBy_getAndUpdate cx fo
           in case fo_categoriesById fo1 categoryId of
                None \<Rightarrow> Some (NOT_FOUND, fo1)
              | Some p \<Rightarrow>
                  (case fo_usersById fo1 userId of
                     None \<Rightarrow> Some (NOT_FOUND, fo1)
                   | Some targetUser \<Rightarrow>
                       authorized_write cx currentUser
                         (\<lambda>ax. assignDiscussionCategoryPrivilege ax (fo_user fo1 currentUser) (h_category (fo_heap fo1) p)
                            (fo_user fo1 targetUser) (sint v))
                         (AssignPrivilegeCall (AssignDiscussionCategoryPrivilege categoryId userId v duration))
                         (direct_assignDiscussionCategoryPrivilege (rx_time cx) categoryId userId v duration) fo1))"

definition direct_assignForumWidePrivilege :: "timestamp \<Rightarrow> id_type \<Rightarrow> 16 word \<Rightarrow> 64 word \<Rightarrow> repository_write" where
  "direct_assignForumWidePrivilege now userId v duration fo =
     (if invalid_forum_wide_assignment userId v duration then Some (INVALID_PARAMETERS, fo)
      else case fo_usersById fo userId of
             None \<Rightarrow> Some (NOT_FOUND, fo)
           | Some targetUser \<Rightarrow> grant_until now duration (grantForumWidePrivilege userId 0 (sint v) now) fo)"

definition repo_assignForumWidePrivilege ::
  "repository_context \<Rightarrow> id_type \<Rightarrow> 16 word \<Rightarrow> 64 word \<Rightarrow> repository_write" where
  "repo_assignForumWidePrivilege cx userId v duration fo =
     (if invalid_forum_wide_assignment userId v duration then Some (INVALID_PARAMETERS, fo)
      else let (currentUser, fo1) = performedBy_getAndUpdate cx fo
           in case fo_usersById fo1 userId of
                None \<Rightarrow> Some (NOT_FOUND, fo1)
              | Some targetUser \<Rightarrow>
                  authorized_write cx currentUser
                    (\<lambda>ax. assignForumWidePrivilege ax (fo_user fo1 currentUser) (fo_user fo1 targetUser) (sint v))
                    (AssignPrivilegeCall (AssignForumWidePrivilege userId v duration))
                    (direct_assignForumWidePrivilege (rx_time cx) userId v duration) fo1)"

subsection \<open>The operations by their call\<close>

fun direct_required :: "required_privilege_call \<Rightarrow> repository_write" where
  "direct_required (ChangeDiscussionThreadMessageRequiredPrivilegeForThreadMessage messageId privilege v) = direct_changeDiscussionThreadMessageRequiredPrivilegeForThreadMessage messageId privilege v"
| "direct_required (ChangeDiscussionThreadMessageRequiredPrivilegeForThread threadId privilege v) = direct_changeDiscussionThreadMessageRequiredPrivilegeForThread threadId privilege v"
| "direct_required (ChangeDiscussionThreadRequiredPrivilegeForThread threadId privilege v) = direct_changeDiscussionThreadRequiredPrivilegeForThread threadId privilege v"
| "direct_required (ChangeDiscussionThreadMessageRequiredPrivilegeForTag tagId privilege v) = direct_changeDiscussionThreadMessageRequiredPrivilegeForTag tagId privilege v"
| "direct_required (ChangeDiscussionThreadRequiredPrivilegeForTag tagId privilege v) = direct_changeDiscussionThreadRequiredPrivilegeForTag tagId privilege v"
| "direct_required (ChangeDiscussionTagRequiredPrivilegeForTag tagId privilege v) = direct_changeDiscussionTagRequiredPrivilegeForTag tagId privilege v"
| "direct_required (ChangeDiscussionCategoryRequiredPrivilegeForCategory categoryId privilege v) = direct_changeDiscussionCategoryRequiredPrivilegeForCategory categoryId privilege v"
| "direct_required (ChangeDiscussionThreadMessageRequiredPrivilege privilege v) = direct_changeDiscussionThreadMessageRequiredPrivilege privilege v"
| "direct_required (ChangeDiscussionThreadRequiredPrivilege privilege v) = direct_changeDiscussionThreadRequiredPrivilege privilege v"
| "direct_required (ChangeDiscussionTagRequiredPrivilege privilege v) = direct_changeDiscussionTagRequiredPrivilege privilege v"
| "direct_required (ChangeDiscussionCategoryRequiredPrivilege privilege v) = direct_changeDiscussionCategoryRequiredPrivilege privilege v"
| "direct_required (ChangeForumWideRequiredPrivilege privilege v) = direct_changeForumWideRequiredPrivilege privilege v"
| "direct_required (ChangeForumWideDefaultPrivilegeLevel privilege v duration) = direct_changeForumWideDefaultPrivilegeLevel privilege v duration"

fun direct_assign :: "timestamp \<Rightarrow> assign_privilege_call \<Rightarrow> repository_write" where
  "direct_assign now (AssignDiscussionThreadMessagePrivilege messageId userId v duration) = direct_assignDiscussionThreadMessagePrivilege now messageId userId v duration"
| "direct_assign now (AssignDiscussionThreadPrivilege threadId userId v duration) = direct_assignDiscussionThreadPrivilege now threadId userId v duration"
| "direct_assign now (AssignDiscussionTagPrivilege tagId userId v duration) = direct_assignDiscussionTagPrivilege now tagId userId v duration"
| "direct_assign now (AssignDiscussionCategoryPrivilege categoryId userId v duration) = direct_assignDiscussionCategoryPrivilege now categoryId userId v duration"
| "direct_assign now (AssignForumWidePrivilege userId v duration) = direct_assignForumWidePrivilege now userId v duration"

fun repo_required :: "repository_context \<Rightarrow> required_privilege_call \<Rightarrow> repository_write" where
  "repo_required cx (ChangeDiscussionThreadMessageRequiredPrivilegeForThreadMessage messageId privilege v) = repo_changeDiscussionThreadMessageRequiredPrivilegeForThreadMessage cx messageId privilege v"
| "repo_required cx (ChangeDiscussionThreadMessageRequiredPrivilegeForThread threadId privilege v) = repo_changeDiscussionThreadMessageRequiredPrivilegeForThread cx threadId privilege v"
| "repo_required cx (ChangeDiscussionThreadRequiredPrivilegeForThread threadId privilege v) = repo_changeDiscussionThreadRequiredPrivilegeForThread cx threadId privilege v"
| "repo_required cx (ChangeDiscussionThreadMessageRequiredPrivilegeForTag tagId privilege v) = repo_changeDiscussionThreadMessageRequiredPrivilegeForTag cx tagId privilege v"
| "repo_required cx (ChangeDiscussionThreadRequiredPrivilegeForTag tagId privilege v) = repo_changeDiscussionThreadRequiredPrivilegeForTag cx tagId privilege v"
| "repo_required cx (ChangeDiscussionTagRequiredPrivilegeForTag tagId privilege v) = repo_changeDiscussionTagRequiredPrivilegeForTag cx tagId privilege v"
| "repo_required cx (ChangeDiscussionCategoryRequiredPrivilegeForCategory categoryId privilege v) = repo_changeDiscussionCategoryRequiredPrivilegeForCategory cx categoryId privilege v"
| "repo_required cx (ChangeDiscussionThreadMessageRequiredPrivilege privilege v) = repo_changeDiscussionThreadMessageRequiredPrivilege cx privilege v"
| "repo_required cx (ChangeDiscussionThreadRequiredPrivilege privilege v) = repo_changeDiscussionThreadRequiredPrivilege cx privilege v"
| "repo_required cx (ChangeDiscussionTagRequiredPrivilege privilege v) = repo_changeDiscussionTagRequiredPrivilege cx privilege v"
| "repo_required cx (ChangeDiscussionCategoryRequiredPrivilege privilege v) = repo_changeDiscussionCategoryRequiredPrivilege cx privilege v"
| "repo_required cx (ChangeForumWideRequiredPrivilege privilege v) = repo_changeForumWideRequiredPrivilege cx privilege v"
| "repo_required cx (ChangeForumWideDefaultPrivilegeLevel privilege v duration) = repo_changeForumWideDefaultPrivilegeLevel cx privilege v duration"

fun repo_assign :: "repository_context \<Rightarrow> assign_privilege_call \<Rightarrow> repository_write" where
  "repo_assign cx (AssignDiscussionThreadMessagePrivilege messageId userId v duration) = repo_assignDiscussionThreadMessagePrivilege cx messageId userId v duration"
| "repo_assign cx (AssignDiscussionThreadPrivilege threadId userId v duration) = repo_assignDiscussionThreadPrivilege cx threadId userId v duration"
| "repo_assign cx (AssignDiscussionTagPrivilege tagId userId v duration) = repo_assignDiscussionTagPrivilege cx tagId userId v duration"
| "repo_assign cx (AssignDiscussionCategoryPrivilege categoryId userId v duration) = repo_assignDiscussionCategoryPrivilege cx categoryId userId v duration"
| "repo_assign cx (AssignForumWidePrivilege userId v duration) = repo_assignForumWidePrivilege cx userId v duration"

lemmas direct_required_defs =
  direct_changeDiscussionThreadMessageRequiredPrivilegeForThreadMessage_def
  direct_changeDiscussionThreadMessageRequiredPrivilegeForThread_def
  direct_changeDiscussionThreadRequiredPrivilegeForThread_def
  direct_changeDiscussionThreadMessageRequiredPrivilegeForTag_def
  direct_changeDiscussionThreadRequiredPrivilegeForTag_def direct_changeDiscussionTagRequiredPrivilegeForTag_def
  direct_changeDiscussionCategoryRequiredPrivilegeForCategory_def
  direct_changeDiscussionThreadMessageRequiredPrivilege_def direct_changeDiscussionThreadRequiredPrivilege_def
  direct_changeDiscussionTagRequiredPrivilege_def direct_changeDiscussionCategoryRequiredPrivilege_def
  direct_changeForumWideRequiredPrivilege_def direct_changeForumWideDefaultPrivilegeLevel_def

lemmas direct_assign_defs =
  direct_assignDiscussionThreadMessagePrivilege_def direct_assignDiscussionThreadPrivilege_def
  direct_assignDiscussionTagPrivilege_def direct_assignDiscussionCategoryPrivilege_def
  direct_assignForumWidePrivilege_def

lemmas repo_required_defs =
  repo_changeDiscussionThreadMessageRequiredPrivilegeForThreadMessage_def
  repo_changeDiscussionThreadMessageRequiredPrivilegeForThread_def
  repo_changeDiscussionThreadRequiredPrivilegeForThread_def
  repo_changeDiscussionThreadMessageRequiredPrivilegeForTag_def repo_changeDiscussionThreadRequiredPrivilegeForTag_def
  repo_changeDiscussionTagRequiredPrivilegeForTag_def repo_changeDiscussionCategoryRequiredPrivilegeForCategory_def
  repo_changeDiscussionThreadMessageRequiredPrivilege_def repo_changeDiscussionThreadRequiredPrivilege_def
  repo_changeDiscussionTagRequiredPrivilege_def repo_changeDiscussionCategoryRequiredPrivilege_def
  repo_changeForumWideRequiredPrivilege_def repo_changeForumWideDefaultPrivilegeLevel_def

lemmas repo_assign_defs =
  repo_assignDiscussionThreadMessagePrivilege_def repo_assignDiscussionThreadPrivilege_def
  repo_assignDiscussionTagPrivilege_def repo_assignDiscussionCategoryPrivilege_def repo_assignForumWidePrivilege_def

end
