(* ===== verification/AuthorizationRepositoryLemmas.thy ===== *)
theory AuthorizationRepositoryLemmas
  imports AuthorizationRepository AuthorizationLemmas
begin

section \<open>What changing privileges guarantees\<close>

text \<open>
  The core of the state is what the privileges depend on: the entities with their required values, the
  indices, the identity of the users and the grants; not when users were last seen, nor the history of throttling, nor the events.
  Requests reach the core through the direct write operations only, after the authorization let them
  pass and after their event was raised; replaying the events gives the same core.
\<close>

subsection \<open>Handlers keep the grants\<close>

definition keeps_grants :: "handler \<Rightarrow> bool" where
  "keeps_grants f \<longleftrightarrow> (\<forall>a st a'. f a = Some (st, a') \<longrightarrow> au_grants a' = au_grants a)"

lemma isThrottled_grants: "isThrottled cx action u a = Some (b, a') \<Longrightarrow> au_grants a' = au_grants a"
  by (auto simp: isThrottled_def split: if_splits option.splits)

lemma keeps_grants_intros:
  "keeps_grants (answer f)"
  "keeps_grants (answer_option g)"
  "keeps_grants (view_tag_then cx u t f)"
  "keeps_grants (view_tag_then_option cx u t g)"
  "keeps_grants (update_answer w ov nv)"
  "keeps_grants (update_answer_option x ov nv)"
  "keeps_grants (assign_answer w old nv)"
  "keeps_grants (assign_answer_option x old nv)"
  "keeps_grants h \<Longrightarrow> keeps_grants k \<Longrightarrow> keeps_grants (if b then h else k)"
  "keeps_grants h \<Longrightarrow> keeps_grants (throttled cx action u h)"
  by (auto simp: keeps_grants_def composing_defs throttled_def dest: isThrottled_grants split: option.splits if_splits)

lemma handler_keeps_grants: "handler_of cx u f \<Longrightarrow> keeps_grants f"
  by (induction rule: handler_of.induct; unfold handler_defs; intro keeps_grants_intros)

subsection \<open>The core of the state\<close>

definition core where
  "core fo = (h_message (fo_heap fo), h_thread (fo_heap fo), h_tag (fo_heap fo), h_category (fo_heap fo),
     h_forumWide (fo_heap fo), au_grants (fo_authorization fo), fo_usersById fo, fo_messagesById fo,
     fo_threadsById fo, fo_tagsById fo, fo_categoriesById fo, (\<lambda>p. usr_id (h_user (fo_heap fo) p)), fo_anonymousUser fo,
     fo_tagsByName fo, fo_categoriesByName fo, fo_nextTag fo, fo_nextCategory fo)"

lemma coreD:
  assumes "core fo = core fo'"
  shows "h_message (fo_heap fo) = h_message (fo_heap fo')" "h_thread (fo_heap fo) = h_thread (fo_heap fo')"
    "h_tag (fo_heap fo) = h_tag (fo_heap fo')" "h_category (fo_heap fo) = h_category (fo_heap fo')"
    "h_forumWide (fo_heap fo) = h_forumWide (fo_heap fo')"
    "au_grants (fo_authorization fo) = au_grants (fo_authorization fo')"
    "fo_usersById fo = fo_usersById fo'" "fo_messagesById fo = fo_messagesById fo'"
    "fo_threadsById fo = fo_threadsById fo'" "fo_tagsById fo = fo_tagsById fo'"
    "fo_categoriesById fo = fo_categoriesById fo'" "usr_id (h_user (fo_heap fo) p) = usr_id (h_user (fo_heap fo') p)"
    "fo_anonymousUser fo = fo_anonymousUser fo'" "fo_tagsByName fo = fo_tagsByName fo'"
    "fo_categoriesByName fo = fo_categoriesByName fo'" "fo_nextTag fo = fo_nextTag fo'" "fo_nextCategory fo = fo_nextCategory fo'"
  using assms by (simp_all add: core_def fun_eq_iff)

lemma usr_id_updateLastSeen [simp]: "usr_id (updateLastSeen v u) = usr_id u"
  by (simp add: updateLastSeen_def)

lemma core_update_user [simp]:
  "(\<And>u. usr_id (f u) = usr_id u) \<Longrightarrow> core (update_user p f fo) = core fo" "fo_events (update_user p f fo) = fo_events fo"
  by (auto simp: core_def update_user_def)

lemma core_observe [simp]: "core (observe cx u call fo) = core fo"
  by (simp add: core_def observe_def)

lemma core_getAndUpdate:
  assumes "performedBy_getAndUpdate cx fo = (u, fo1)"
  shows "core fo1 = core fo" "fo_events fo1 = fo_events fo"
  using assms
  by (auto simp: performedBy_getAndUpdate_def getCurrentUser_def Let_def split: prod.splits option.splits if_splits)

lemma core_authorize:
  assumes "authorize cx h fo = Some (st, fo1)" "\<And>ax. keeps_grants (h ax)"
  shows "core fo1 = core fo" "fo_events fo1 = fo_events fo"
  using assms by (auto simp: authorize_def core_def keeps_grants_def split: option.splits)

subsection \<open>A guarded write\<close>

text \<open>
  What a request does: it fails and the core and the events stay, or its event is raised with the time of
  the request and the direct write, run on the same core, succeeds.
\<close>

definition write_result ::
  "repository_context \<Rightarrow> repository_call \<Rightarrow> repository_write \<Rightarrow> forum \<Rightarrow> status_code \<Rightarrow> forum \<Rightarrow> bool" where
  "write_result cx call change fo st fo' \<longleftrightarrow>
     (if st = STATUS_OK then
        \<exists>ctx fo1. core fo1 = core fo \<and> oc_timestamp ctx = rx_time cx \<and> fo_events fo1 = fo_events fo @ [(ctx, call)]
          \<and> change fo1 = Some (STATUS_OK, fo')
      else core fo' = core fo \<and> fo_events fo' = fo_events fo)"

lemma write_result_same: "st \<noteq> STATUS_OK \<Longrightarrow> write_result cx call change fo st fo"
  by (simp add: write_result_def)

lemma write_result_core:
  "st \<noteq> STATUS_OK \<Longrightarrow> performedBy_getAndUpdate cx fo = (u, fo1) \<Longrightarrow> write_result cx call change fo st fo1"
  using core_getAndUpdate [of cx fo u fo1] by (simp add: write_result_def)

lemma guarded_write:
  assumes run: "authorized_write cx u h call change fo1 = Some (st, fo')"
    and user: "performedBy_getAndUpdate cx fo = (u, fo1)"
    and keeps: "\<And>ax. keeps_grants (h ax)"
    and ok: "\<And>fo2 st fo'. core fo2 = core fo \<Longrightarrow> change fo2 = Some (st, fo') \<Longrightarrow> st = STATUS_OK"
  shows "write_result cx call change fo st fo'"
proof -
  note c1 = core_getAndUpdate [OF user]
  obtain st1 fo2 where auth: "authorize cx h fo1 = Some (st1, fo2)"
    using run by (auto simp: authorized_write_def split: option.splits)
  note c2 = core_authorize [OF auth keeps]
  show ?thesis
  proof (cases "st1 = STATUS_OK")
    case False
    then show ?thesis using run auth c1 c2 by (simp add: authorized_write_def write_result_def)
  next
    case True
    let ?fo3 = "observe cx u call fo2"
    have step: "change ?fo3 = Some (st, fo')" using run auth True by (simp add: authorized_write_def)
    moreover have core3: "core ?fo3 = core fo" using c1 c2 by simp
    ultimately have "st = STATUS_OK" using ok by blast
    moreover have "fo_events ?fo3 = fo_events fo @ [(createObserverContext cx (fo_user fo2 u), call)]"
      using c1 c2 by (simp add: observe_def)
    moreover have "oc_timestamp (createObserverContext cx (fo_user fo2 u)) = rx_time cx"
      by (simp add: createObserverContext_def)
    ultimately have "\<exists>ctx fo1. core fo1 = core fo \<and> oc_timestamp ctx = rx_time cx \<and>
        fo_events fo1 = fo_events fo @ [(ctx, call)] \<and> change fo1 = Some (STATUS_OK, fo')"
      using step core3 by blast
    with \<open>st = STATUS_OK\<close> show ?thesis by (simp add: write_result_def)
  qed
qed

lemma entity_write:
  assumes run: "(if bad then Some (INVALID_PARAMETERS, fo)
      else case performedBy_getAndUpdate cx fo of (u, fo1) \<Rightarrow>
        (case index fo1 of
           None \<Rightarrow> Some (NOT_FOUND, fo1)
         | Some p \<Rightarrow> authorized_write cx u (h u fo1 p) call change fo1)) = Some (st, fo')"
    and keeps: "\<And>u fo1 p ax. keeps_grants (h u fo1 p ax)"
    and ok: "\<And>fo2 p st fo'. \<not> bad \<Longrightarrow> index fo2 = Some p \<Longrightarrow> change fo2 = Some (st, fo') \<Longrightarrow> st = STATUS_OK"
    and core_index: "\<And>fo1 fo2. core fo1 = core fo2 \<Longrightarrow> index fo1 = index fo2"
  shows "write_result cx call change fo st fo'"
proof (cases bad)
  case True
  then show ?thesis using run by (auto intro: write_result_same)
next
  case False
  obtain u fo1 where u: "performedBy_getAndUpdate cx fo = (u, fo1)" by force
  show ?thesis
  proof (cases "index fo1")
    case None
    then show ?thesis using run u False by (auto intro: write_result_core)
  next
    case (Some p)
    have "authorized_write cx u (h u fo1 p) call change fo1 = Some (st, fo')"
      using run u False Some by simp
    then show ?thesis
    proof (rule guarded_write [OF _ u keeps])
      fix fo2 st fo' assume "core fo2 = core fo" "change fo2 = Some (st, fo')"
      moreover have "index fo2 = Some p"
        using Some core_index [of fo2 fo1] core_getAndUpdate(1) [OF u] \<open>core fo2 = core fo\<close> by simp
      ultimately show "st = STATUS_OK" using ok False by blast
    qed
  qed
qed

text \<open>The same where there is nothing to look up, and where a user is looked up as well.\<close>

lemma forum_write:
  assumes run: "(if bad then Some (INVALID_PARAMETERS, fo)
      else case performedBy_getAndUpdate cx fo of (u, fo1) \<Rightarrow> authorized_write cx u (h u fo1) call change fo1) = Some (st, fo')"
    and keeps: "\<And>u fo1 ax. keeps_grants (h u fo1 ax)"
    and ok: "\<And>fo2 st fo'. \<not> bad \<Longrightarrow> change fo2 = Some (st, fo') \<Longrightarrow> st = STATUS_OK"
  shows "write_result cx call change fo st fo'"
  by (rule entity_write [where index = "\<lambda>_. Some 0" and h = "\<lambda>u fo1 p. h u fo1", OF _ keeps ok])
    (use run in \<open>auto split: prod.splits if_splits\<close>)

lemma user_entity_write:
  assumes run: "(if bad then Some (INVALID_PARAMETERS, fo)
      else case performedBy_getAndUpdate cx fo of (u, fo1) \<Rightarrow>
        (case index fo1 of
           None \<Rightarrow> Some (NOT_FOUND, fo1)
         | Some p \<Rightarrow>
             (case users fo1 of
                None \<Rightarrow> Some (NOT_FOUND, fo1)
              | Some t \<Rightarrow> authorized_write cx u (h u fo1 p t) call change fo1))) = Some (st, fo')"
    and keeps: "\<And>u fo1 p t ax. keeps_grants (h u fo1 p t ax)"
    and ok: "\<And>fo2 p t st fo'. \<not> bad \<Longrightarrow> index fo2 = Some p \<Longrightarrow> users fo2 = Some t \<Longrightarrow> change fo2 = Some (st, fo') \<Longrightarrow> st = STATUS_OK"
    and core_index: "\<And>fo1 fo2. core fo1 = core fo2 \<Longrightarrow> index fo1 = index fo2"
    and core_users: "\<And>fo1 fo2. core fo1 = core fo2 \<Longrightarrow> users fo1 = users fo2"
  shows "write_result cx call change fo st fo'"
proof (rule entity_write [where bad = bad
      and index = "\<lambda>fo1. case index fo1 of None \<Rightarrow> None | Some p \<Rightarrow> (case users fo1 of None \<Rightarrow> None | Some t \<Rightarrow> Some (p, t))"
      and h = "\<lambda>u fo1 pt. h u fo1 (fst pt) (snd pt)"])
  show "(if bad then Some (INVALID_PARAMETERS, fo)
      else case performedBy_getAndUpdate cx fo of (u, fo1) \<Rightarrow>
        (case case index fo1 of None \<Rightarrow> None | Some p \<Rightarrow> (case users fo1 of None \<Rightarrow> None | Some t \<Rightarrow> Some (p, t)) of
           None \<Rightarrow> Some (NOT_FOUND, fo1)
         | Some pt \<Rightarrow> authorized_write cx u (h u fo1 (fst pt) (snd pt)) call change fo1)) = Some (st, fo')"
    using run by (auto split: option.splits prod.splits)
next
  fix u fo1 pt ax
  show "keeps_grants (h u fo1 (fst pt) (snd pt) ax)" by (rule keeps)
next
  fix fo2 pt st fo'
  assume "\<not> bad" "change fo2 = Some (st, fo')"
    "(case index fo2 of None \<Rightarrow> None | Some p \<Rightarrow> (case users fo2 of None \<Rightarrow> None | Some t \<Rightarrow> Some (p, t))) = Some pt"
  then show "st = STATUS_OK" using ok [of fo2 "fst pt" "snd pt"] by (simp split: option.splits) auto
next
  fix fo1 fo2 :: forum
  assume c: "core fo1 = core fo2"
  show "(case index fo1 of None \<Rightarrow> None | Some p \<Rightarrow> (case users fo1 of None \<Rightarrow> None | Some t \<Rightarrow> Some (p, t))) =
      (case index fo2 of None \<Rightarrow> None | Some p \<Rightarrow> (case users fo2 of None \<Rightarrow> None | Some t \<Rightarrow> Some (p, t)))"
    by (simp only: core_index [OF c] core_users [OF c])
qed

subsection \<open>Every change is guarded\<close>

lemmas handlers_keep_grants = handler_of.intros [THEN handler_keeps_grants]

lemma grant_until_OK: "grant_until now duration g fo = Some (st, fo') \<Longrightarrow> st = STATUS_OK"
  by (auto simp: grant_until_def split: option.splits)

lemma repo_required_result:
  "repo_required cx c fo = Some (st, fo') \<Longrightarrow> write_result cx (RequiredPrivilegeCall c) (direct_required c) fo st fo'"
  by (cases c; simp only: repo_required.simps direct_required.simps repo_required_defs Let_def direct_required.simps [abs_def];
      (erule entity_write | erule forum_write);
      (intro handlers_keep_grants | auto simp: direct_required_defs dest: coreD split: option.splits))

lemma repo_assign_result:
  "repo_assign cx c fo = Some (st, fo') \<Longrightarrow>
   write_result cx (AssignPrivilegeCall c) (direct_assign (rx_time cx) c) fo st fo'"
  by (cases c; simp only: repo_assign.simps direct_assign.simps repo_assign_defs Let_def direct_assign.simps [abs_def];
      (erule user_entity_write | erule entity_write);
      (intro handlers_keep_grants | auto simp: direct_assign_defs dest: coreD grant_until_OK split: option.splits))

subsection \<open>Replaying the events\<close>

text \<open>A direct write depends on the core only, and one that fails changes nothing.\<close>

lemma direct_required_core:
  assumes "core fo1 = core fo2" "direct_required c fo1 = Some (st, fo1')"
  shows "\<exists>fo2'. direct_required c fo2 = Some (st, fo2') \<and> core fo2' = core fo1'"
  using assms
  by (cases c; simp add: direct_required_defs core_def update_defs split: if_splits option.splits; force)

lemma direct_assign_core:
  assumes "core fo1 = core fo2" "direct_assign now c fo1 = Some (st, fo1')"
  shows "\<exists>fo2'. direct_assign now c fo2 = Some (st, fo2') \<and> core fo2' = core fo1'"
  using assms
  by (cases c; simp add: direct_assign_defs grant_until_def core_def update_defs split: if_splits option.splits; force)

lemma direct_required_events: "direct_required c fo = Some (st, fo') \<Longrightarrow> fo_events fo' = fo_events fo"
  by (cases c) (auto simp: direct_required_defs update_defs split: if_splits option.splits)

lemma direct_assign_events: "direct_assign now c fo = Some (st, fo') \<Longrightarrow> fo_events fo' = fo_events fo"
  by (cases c) (auto simp: direct_assign_defs grant_until_def update_defs split: if_splits option.splits)

text \<open>Requests that change privileges, by the call that tells of them; other calls are of other repositories.\<close>

fun repo_change :: "repository_context \<Rightarrow> repository_call \<Rightarrow> repository_write" where
  "repo_change cx (RequiredPrivilegeCall c) = repo_required cx c"
| "repo_change cx (AssignPrivilegeCall c) = repo_assign cx c"
| "repo_change cx _ = (\<lambda>_. None)"

fun direct_change :: "timestamp \<Rightarrow> repository_call \<Rightarrow> repository_write" where
  "direct_change now (RequiredPrivilegeCall c) = direct_required c"
| "direct_change now (AssignPrivilegeCall c) = direct_assign now c"
| "direct_change now _ = (\<lambda>_. None)"

fun run_requests :: "(repository_context \<times> repository_call) list \<Rightarrow> forum \<Rightarrow> (status_code list \<times> forum) option" where
  "run_requests [] fo = Some ([], fo)"
| "run_requests ((cx, call) # rs) fo =
     (case repo_change cx call fo of
        None \<Rightarrow> None
      | Some (st, fo') \<Rightarrow> map_option (\<lambda>(sts, fo''). (st # sts, fo'')) (run_requests rs fo'))"

text \<open>The events must all succeed, as the importer wants it.\<close>

fun replay_events :: "(observer_context \<times> repository_call) list \<Rightarrow> forum \<Rightarrow> forum option" where
  "replay_events [] fo = Some fo"
| "replay_events ((ctx, call) # es) fo =
     (case direct_change (oc_timestamp ctx) call fo of
        Some (STATUS_OK, fo') \<Rightarrow> replay_events es fo'
      | _ \<Rightarrow> None)"

lemma repo_change_result:
  "repo_change cx call fo = Some (st, fo') \<Longrightarrow> write_result cx call (direct_change (rx_time cx) call) fo st fo'"
  using repo_required_result repo_assign_result by (cases call) auto

lemma direct_change_core:
  "core fo1 = core fo2 \<Longrightarrow> direct_change now call fo1 = Some (st, fo1') \<Longrightarrow>
   \<exists>fo2'. direct_change now call fo2 = Some (st, fo2') \<and> core fo2' = core fo1'"
  using direct_required_core direct_assign_core by (cases call) auto

lemma direct_change_events: "direct_change now call fo = Some (st, fo') \<Longrightarrow> fo_events fo' = fo_events fo"
  using direct_required_events direct_assign_events by (cases call) auto

lemma replay_events_core:
  "core fo1 = core fo2 \<Longrightarrow> replay_events es fo1 = Some fo1' \<Longrightarrow> \<exists>fo2'. replay_events es fo2 = Some fo2' \<and> core fo2' = core fo1'"
proof (induction es fo1 arbitrary: fo2 rule: replay_events.induct)
  case (2 ctx call es fo1)
  then obtain fo1a where step: "direct_change (oc_timestamp ctx) call fo1 = Some (STATUS_OK, fo1a)"
      "replay_events es fo1a = Some fo1'"
    by (auto split: option.splits status_code.splits)
  obtain fo2a where "direct_change (oc_timestamp ctx) call fo2 = Some (STATUS_OK, fo2a)" "core fo2a = core fo1a"
    using direct_change_core [OF 2(2) step(1)] by blast
  with 2(1) [OF step(1)] step(2) show ?case by auto
qed auto

lemma replay_requests:
  "run_requests rs fo = Some (sts, fo') \<Longrightarrow>
   \<exists>es fo''. fo_events fo' = fo_events fo @ es \<and> replay_events es fo = Some fo'' \<and> core fo'' = core fo' \<and>
     map snd es = map snd (map fst (filter (\<lambda>(r, st). st = STATUS_OK) (zip rs sts)))"
proof (induction rs fo arbitrary: sts rule: run_requests.induct)
  case (2 cx call rs fo)
  then obtain st sts' fo1 where run: "repo_change cx call fo = Some (st, fo1)" "run_requests rs fo1 = Some (sts', fo')"
      "sts = st # sts'"
    by (auto split: option.splits)
  from 2(1) [OF run(1) refl run(2)] obtain es fo2 where rest: "fo_events fo' = fo_events fo1 @ es"
      "replay_events es fo1 = Some fo2" "core fo2 = core fo'"
      "map snd es = map snd (map fst (filter (\<lambda>(r, st). st = STATUS_OK) (zip rs sts')))"
    by blast
  from repo_change_result [OF run(1)] show ?case
  proof (cases "st = STATUS_OK")
    case False
    with repo_change_result [OF run(1)] have same: "core fo1 = core fo" "fo_events fo1 = fo_events fo"
      by (simp_all add: write_result_def)
    from replay_events_core [OF same(1) rest(2)] rest same(2) False run(3) show ?thesis by auto
  next
    case True
    with repo_change_result [OF run(1)] obtain ctx foa where ok: "core foa = core fo" "oc_timestamp ctx = rx_time cx"
        "fo_events foa = fo_events fo @ [(ctx, call)]" "direct_change (rx_time cx) call foa = Some (STATUS_OK, fo1)"
      by (auto simp: write_result_def)
    obtain fob where b: "direct_change (rx_time cx) call fo = Some (STATUS_OK, fob)" "core fob = core fo1"
      using direct_change_core [OF ok(1) ok(4)] by blast
    obtain foc where "replay_events es fob = Some foc" "core foc = core fo2"
      using replay_events_core [OF b(2) [symmetric] rest(2)] by blast
    moreover have "fo_events fo' = fo_events fo @ (ctx, call) # es"
      using rest(1) direct_change_events [OF ok(4)] ok(3) by simp
    ultimately show ?thesis
      using ok(2) b(1) rest(3,4) True run(3) by (intro exI [of _ "(ctx, call) # es"] exI [of _ foc]) simp
  qed
qed auto

subsection \<open>The range of the values\<close>

definition in_range :: "privilege_value \<Rightarrow> bool" where
  "in_range v \<longleftrightarrow> MinPrivilegeValue \<le> v \<and> v \<le> MaxPrivilegeValue"

definition all_in_range :: "('s \<Rightarrow> 'p \<Rightarrow> privilege_value option) \<Rightarrow> 's \<Rightarrow> bool" where
  "all_in_range get s \<longleftrightarrow> (\<forall>p v. get s p = Some v \<longrightarrow> in_range v)"

definition grants_in_range :: "privilege_entry list \<Rightarrow> bool" where
  "grants_in_range es \<longleftrightarrow> (\<forall>e\<in>set es. in_range (pe_privilegeValue e) \<and> pe_privilegeValue e \<noteq> 0 \<and> pe_userId e \<noteq> 0)"

definition privileges_in_range :: "forum \<Rightarrow> bool" where
  "privileges_in_range fo \<longleftrightarrow>
     (\<forall>p. all_in_range store_getDiscussionThreadMessagePrivilege (h_message (fo_heap fo) p)) \<and>
     (\<forall>p. all_in_range store_getDiscussionThreadMessagePrivilege (h_thread (fo_heap fo) p)) \<and>
     (\<forall>p. all_in_range store_getDiscussionThreadPrivilege (h_thread (fo_heap fo) p)) \<and>
     (\<forall>p. all_in_range store_getDiscussionThreadMessagePrivilege (h_tag (fo_heap fo) p)) \<and>
     (\<forall>p. all_in_range store_getDiscussionThreadPrivilege (h_tag (fo_heap fo) p)) \<and>
     (\<forall>p. all_in_range store_getDiscussionTagPrivilege (h_tag (fo_heap fo) p)) \<and>
     (\<forall>p. all_in_range store_getDiscussionCategoryPrivilege (h_category (fo_heap fo) p)) \<and>
     all_in_range store_getDiscussionThreadMessagePrivilege (h_forumWide (fo_heap fo)) \<and>
     all_in_range store_getDiscussionThreadPrivilege (h_forumWide (fo_heap fo)) \<and>
     all_in_range store_getDiscussionTagPrivilege (h_forumWide (fo_heap fo)) \<and>
     all_in_range store_getDiscussionCategoryPrivilege (fw_category_store (h_forumWide (fo_heap fo))) \<and>
     all_in_range getForumWidePrivilege (h_forumWide (fo_heap fo)) \<and>
     grants_in_range (discussionThreadMessageSpecificPrivileges (au_grants (fo_authorization fo))) \<and>
     grants_in_range (discussionThreadSpecificPrivileges (au_grants (fo_authorization fo))) \<and>
     grants_in_range (discussionTagSpecificPrivileges (au_grants (fo_authorization fo))) \<and>
     grants_in_range (discussionCategorySpecificPrivileges (au_grants (fo_authorization fo))) \<and>
     grants_in_range (forumWideSpecificPrivileges (au_grants (fo_authorization fo)))"

lemma privileges_in_range_core: "core fo = core fo' \<Longrightarrow> privileges_in_range fo = privileges_in_range fo'"
  unfolding privileges_in_range_def by (simp only: coreD [of fo fo'])

lemma range_set:
  "in_range v \<Longrightarrow> all_in_range store_getDiscussionThreadMessagePrivilege s \<Longrightarrow>
     all_in_range store_getDiscussionThreadMessagePrivilege (setDiscussionThreadMessagePrivilege s p v)"
  "in_range v \<Longrightarrow> all_in_range store_getDiscussionThreadPrivilege t \<Longrightarrow>
     all_in_range store_getDiscussionThreadPrivilege (setDiscussionThreadPrivilege t q v)"
  "in_range v \<Longrightarrow> all_in_range store_getDiscussionTagPrivilege g \<Longrightarrow>
     all_in_range store_getDiscussionTagPrivilege (setDiscussionTagPrivilege g r v)"
  "in_range v \<Longrightarrow> all_in_range store_getDiscussionCategoryPrivilege c \<Longrightarrow>
     all_in_range store_getDiscussionCategoryPrivilege (setDiscussionCategoryPrivilege c x v)"
  "in_range v \<Longrightarrow> all_in_range getForumWidePrivilege f \<Longrightarrow>
     all_in_range getForumWidePrivilege (setForumWidePrivilege f y v)"
  by (auto simp: all_in_range_def priv_store_defs split: option.splits if_splits)

lemma range_other:
  "all_in_range store_getDiscussionThreadMessagePrivilege (setDiscussionThreadPrivilege t q v) =
     all_in_range store_getDiscussionThreadMessagePrivilege t"
  "all_in_range store_getDiscussionThreadMessagePrivilege (setDiscussionTagPrivilege g r v) =
     all_in_range store_getDiscussionThreadMessagePrivilege g"
  "all_in_range store_getDiscussionThreadMessagePrivilege (setForumWidePrivilege f y v) =
     all_in_range store_getDiscussionThreadMessagePrivilege f"
  "all_in_range store_getDiscussionThreadPrivilege (setDiscussionThreadMessagePrivilege t m v) =
     all_in_range store_getDiscussionThreadPrivilege t"
  "all_in_range store_getDiscussionThreadPrivilege (setDiscussionTagPrivilege g r v) =
     all_in_range store_getDiscussionThreadPrivilege g"
  "all_in_range store_getDiscussionThreadPrivilege (setForumWidePrivilege f y v) =
     all_in_range store_getDiscussionThreadPrivilege f"
  "all_in_range store_getDiscussionTagPrivilege (setDiscussionThreadMessagePrivilege g m v) =
     all_in_range store_getDiscussionTagPrivilege g"
  "all_in_range store_getDiscussionTagPrivilege (setDiscussionThreadPrivilege g q v) =
     all_in_range store_getDiscussionTagPrivilege g"
  "all_in_range store_getDiscussionTagPrivilege (setForumWidePrivilege f y v) =
     all_in_range store_getDiscussionTagPrivilege f"
  "all_in_range getForumWidePrivilege (setDiscussionThreadMessagePrivilege f m v) = all_in_range getForumWidePrivilege f"
  "all_in_range getForumWidePrivilege (setDiscussionThreadPrivilege f q v) = all_in_range getForumWidePrivilege f"
  "all_in_range getForumWidePrivilege (setDiscussionTagPrivilege f r v) = all_in_range getForumWidePrivilege f"
  by (simp_all add: all_in_range_def priv_store_defs)

lemma category_store_other:
  "fw_category_store (setDiscussionThreadMessagePrivilege f m v) = fw_category_store f"
  "fw_category_store (setDiscussionThreadPrivilege f q v) = fw_category_store f"
  "fw_category_store (setDiscussionTagPrivilege f r v) = fw_category_store f"
  "fw_category_store (setForumWidePrivilege f y v) = fw_category_store f"
  by (simp_all add: priv_store_defs)

text \<open>Changes that leave every store of required values alone.\<close>

lemma range_unrelated:
  "all_in_range store_getDiscussionThreadMessagePrivilege (f\<lparr>fw_category_store := c\<rparr>) =
     all_in_range store_getDiscussionThreadMessagePrivilege f"
  "all_in_range store_getDiscussionThreadPrivilege (f\<lparr>fw_category_store := c\<rparr>) =
     all_in_range store_getDiscussionThreadPrivilege f"
  "all_in_range store_getDiscussionTagPrivilege (f\<lparr>fw_category_store := c\<rparr>) =
     all_in_range store_getDiscussionTagPrivilege f"
  "all_in_range getForumWidePrivilege (f\<lparr>fw_category_store := c\<rparr>) = all_in_range getForumWidePrivilege f"
  "all_in_range store_getDiscussionThreadMessagePrivilege (setForumWideDefaultPrivilegeLevel f x l) =
     all_in_range store_getDiscussionThreadMessagePrivilege f"
  "all_in_range store_getDiscussionThreadPrivilege (setForumWideDefaultPrivilegeLevel f x l) =
     all_in_range store_getDiscussionThreadPrivilege f"
  "all_in_range store_getDiscussionTagPrivilege (setForumWideDefaultPrivilegeLevel f x l) =
     all_in_range store_getDiscussionTagPrivilege f"
  "all_in_range getForumWidePrivilege (setForumWideDefaultPrivilegeLevel f x l) = all_in_range getForumWidePrivilege f"
  "fw_category_store (setForumWideDefaultPrivilegeLevel f x l) = fw_category_store f"
  by (simp_all add: all_in_range_def priv_store_defs)

lemma grants_in_range_grant:
  "in_range v \<Longrightarrow> uid \<noteq> 0 \<Longrightarrow> grants_in_range es \<Longrightarrow> grants_in_range (grant_entry uid eid v now expiresAt es)"
  by (auto simp: grants_in_range_def grant_entry_def erase_user_entity_def)

lemmas range_simps = range_set range_other category_store_other range_unrelated

lemma direct_required_in_range:
  assumes "direct_required c fo = Some (st, fo')" "privileges_in_range fo"
  shows "privileges_in_range fo'"
  using assms
  by (cases c; simp add: direct_required_defs split: if_splits option.splits;
      auto simp: privileges_in_range_def update_defs invalid_change_def invalid_forum_wide_change_def
        isValidPrivilegeValue_def in_range_def [symmetric] range_simps)

lemma direct_assign_in_range:
  assumes "direct_assign now c fo = Some (st, fo')" "privileges_in_range fo"
  shows "privileges_in_range fo'"
  using assms
  by (cases c; simp add: direct_assign_defs grant_until_def split: if_splits option.splits;
      auto simp: privileges_in_range_def update_defs invalid_assignment_def invalid_forum_wide_assignment_def
        isAnonymousUserId_def isValidPrivilegeValue_def in_range_def [symmetric] grants_in_range_grant
        grantDiscussionThreadMessagePrivilege_def grantDiscussionThreadPrivilege_def grantDiscussionTagPrivilege_def
        grantDiscussionCategoryPrivilege_def grantForumWidePrivilege_def)

lemma repo_change_in_range:
  assumes run: "repo_change cx call fo = Some (st, fo')" and ok: "privileges_in_range fo"
  shows "privileges_in_range fo'"
proof (cases "st = STATUS_OK")
  case False
  with repo_change_result [OF run] have "core fo' = core fo" by (simp add: write_result_def)
  then show ?thesis using ok privileges_in_range_core by blast
next
  case True
  with repo_change_result [OF run] obtain fo1 where 1: "core fo1 = core fo"
      "direct_change (rx_time cx) call fo1 = Some (STATUS_OK, fo')"
    by (auto simp: write_result_def)
  then have "privileges_in_range fo1" using ok privileges_in_range_core by blast
  then show ?thesis
    using 1(2) direct_required_in_range direct_assign_in_range by (cases call) auto
qed

end
