(* ===== verification/JsonObjects.thy ===== *)
theory JsonObjects
  imports JsonSteps
begin

section \<open>Objects as the serializers write them\<close>

text \<open>
  The two ways in which the serializers write the members of an object: names with the commas spelled out
  (the macros \<open>JSON_WRITE_FIRST_PROP\<close> and \<open>JSON_WRITE_PROP\<close>), and names for which the writer decides
  (\<open>newPropertyWithSafeName\<close>). Both write the text of the object when the names need no escaping.
\<close>

type_synonym json_member_step = "string \<times> json_step"

definition member_ok :: "nat \<Rightarrow> json_member_step \<Rightarrow> string \<times> json \<Rightarrow> bool" where
  "member_ok d s m \<longleftrightarrow> fst s = fst m \<and> \<not> isEscapeNeeded (fst m) \<and> writes_member d (snd s) (json_text (snd m))"

lemma string_text_plain: "\<not> isEscapeNeeded k \<Longrightarrow> string_text k = ''\"'' @ k @ ''\"''"
  by (simp add: string_text_def escapeString_def)

lemma member_ok_text:
  "member_ok d s m \<Longrightarrow> member_text m = ''\"'' @ fst s @ ''\":'' @ json_text (snd m)"
  by (cases m) (simp add: member_ok_def member_text_def string_text_plain)

lemma member_okI: "\<not> isEscapeNeeded k \<Longrightarrow> writes_member d f (json_text x) \<Longrightarrow> member_ok d (k, f) (k, x)"
  by (simp add: member_ok_def)

subsection \<open>Names with explicit commas\<close>

fun prop_steps :: "json_member_step list \<Rightarrow> json_step list" where
  "prop_steps [] = []"
| "prop_steps (s # ss) = JSON_WRITE_FIRST_PROP (fst s) (snd s) # map (\<lambda>s. JSON_WRITE_PROP (fst s) (snd s)) ss"

lemma part_first: "member_ok d s m \<Longrightarrow> part d (JSON_WRITE_FIRST_PROP (fst s) (snd s)) (\<lambda>_. member_text m)"
  using part_FIRST_PROP [of d "snd s" "json_text (snd m)" "fst s"] by (simp add: member_ok_text) (simp add: member_ok_def)

lemma part_further: "member_ok d s m \<Longrightarrow> part d (JSON_WRITE_PROP (fst s) (snd s)) (\<lambda>_. '','' @ member_text m)"
  using part_PROP [of d "snd s" "json_text (snd m)" "fst s"] by (simp add: member_ok_text) (simp add: member_ok_def)

lemma list_all2_maps: "list_all2 (\<lambda>x y. P (f x) (g y)) xs ys \<Longrightarrow> list_all2 P (map f xs) (map g ys)"
  by (simp add: list_all2_map1 list_all2_map2)

lemma sequence_further: "sequence_text (map (\<lambda>m _. '','' @ t m) ms) c = concat (map (\<lambda>m. '','' @ t m) ms)"
  by (induction ms arbitrary: c) auto

lemma comma_separated_Cons: "comma_separated (x # xs) = x @ concat (map (\<lambda>y. '','' @ y) xs)"
  by (induction xs arbitrary: x) auto

lemma prop_steps_part:
  assumes "list_all2 (member_ok d) ss ms"
  shows "\<exists>t. part d (json_steps (prop_steps ss)) t \<and> t False = comma_separated (map member_text ms)"
proof (cases ss)
  case Nil
  then show ?thesis
    using assms part_sequence [of d "[]" "[]"] by (auto intro!: exI [of _ "sequence_text []"])
next
  case (Cons s ss')
  then obtain m ms' where ms: "ms = m # ms'" "member_ok d s m" "list_all2 (member_ok d) ss' ms'"
    using assms by (auto simp: list_all2_Cons1)
  let ?ts = "(\<lambda>_. member_text m) # map (\<lambda>m _. '','' @ member_text m) ms'"
  have "list_all2 (part d) (map (\<lambda>s. JSON_WRITE_PROP (fst s) (snd s)) ss') (map (\<lambda>m _. '','' @ member_text m) ms')"
    using ms(3) by (rule list_all2_mono [THEN list_all2_maps]) (rule part_further)
  then have "part d (json_steps (prop_steps ss)) (sequence_text ?ts)"
    using part_first [OF ms(2)] Cons by (intro part_sequence) simp
  moreover have "sequence_text ?ts False = comma_separated (map member_text ms)"
    unfolding ms(1) list.map comma_separated_Cons by (simp add: sequence_further comp_def del: append_Cons)
  ultimately show ?thesis by blast
qed

lemma prop_object_value:
  assumes "list_all2 (member_ok d) ss ms"
  shows "writes_value (Suc d) (object_steps (prop_steps ss)) (json_text (JObject ms))"
proof -
  obtain t where "part d (json_steps (prop_steps ss)) t" "t False = comma_separated (map member_text ms)"
    using prop_steps_part [OF assms] by blast
  with object_value [of d "prop_steps ss" t] show ?thesis by (simp add: json_text_object del: json_text.simps)
qed

subsection \<open>Names with commas by the writer\<close>

definition named_steps :: "json_member_step list \<Rightarrow> json_step list" where
  "named_steps ss = map (\<lambda>s. json_steps [newPropertyWithSafeName (fst s), snd s]) ss"

lemma part_named: "member_ok d s m \<Longrightarrow> part d (json_steps [newPropertyWithSafeName (fst s), snd s]) (item (member_text m))"
  using part_property [of d "snd s" "json_text (snd m)" "fst s"] by (simp add: member_ok_text) (simp add: member_ok_def)

lemma named_steps_part:
  assumes "list_all2 (member_ok d) ss ms"
  shows "part d (json_steps (named_steps ss)) (sequence_text (map item (map member_text ms)))"
  unfolding named_steps_def
  by (rule part_sequence) (use assms in \<open>auto simp: list_all2_conv_all_nth intro: part_named\<close>)

lemma named_object_value:
  assumes "list_all2 (member_ok d) ss ms"
  shows "writes_value (Suc d) (object_steps (named_steps ss)) (json_text (JObject ms))"
  using object_value [OF named_steps_part [OF assms]] unfolding members_text json_text_object .

lemma named_object_document:
  assumes "list_all2 (member_ok d) ss ms" "d < 31"
  shows "write_document (object_steps (named_steps ss)) out = Some (out @ json_text (JObject ms))"
  using document_object [OF named_steps_part [OF assms(1)] assms(2)] unfolding members_text json_text_object by simp

lemma prop_object_document:
  assumes "list_all2 (member_ok d) ss ms" "d < 31"
  shows "write_document (object_steps (prop_steps ss)) out = Some (out @ json_text (JObject ms))"
proof -
  obtain t where "part d (json_steps (prop_steps ss)) t" "t False = comma_separated (map member_text ms)"
    using prop_steps_part [OF assms(1)] by blast
  with document_object [of d "prop_steps ss" t, OF _ assms(2)] show ?thesis
    by (simp add: json_text_object del: json_text.simps)
qed

end
