(* ===== verification/AuthorizationReplies.thy ===== *)
theory AuthorizationReplies
  imports AuthorizationReads AuthorizationRepositoryLemmas JsonObjects
begin

section \<open>The replies about privileges as JSON\<close>

text \<open>
  The JSON value of each reply. The replies about required privileges, and about the privileges assigned
  for an entity, are texts of a JSON object; the reply about the privileges assigned to a user is not when the
  user holds a forum wide privilege.
\<close>

subsection \<open>Required values\<close>

definition required_json :: "('p \<Rightarrow> privilege_value option) \<Rightarrow> 'p list \<Rightarrow> string list \<Rightarrow> json" where
  "required_json fn enumerators strings =
     JArray (map (\<lambda>(i, v). JObject [(''name'', JString (strings ! i)), (''value'', JInt v)])
       (List.map_filter (\<lambda>i. map_option (Pair i) (fn (enumerators ! i))) [0..<length enumerators]))"

lemma plain_names [simp]:
  "\<not> isEscapeNeeded ''id''" "\<not> isEscapeNeeded ''name''" "\<not> isEscapeNeeded ''value''" "\<not> isEscapeNeeded ''granted''"
  "\<not> isEscapeNeeded ''expires''" "\<not> isEscapeNeeded ''duration''" "\<not> isEscapeNeeded ''status''"
  "\<not> isEscapeNeeded ''now''" "\<not> isEscapeNeeded ''privileges''" "\<not> isEscapeNeeded ''allowAdjustPrivilege''"
  "\<not> isEscapeNeeded ''discussionThreadMessagePrivileges''" "\<not> isEscapeNeeded ''discussionThreadPrivileges''"
  "\<not> isEscapeNeeded ''discussionTagPrivileges''" "\<not> isEscapeNeeded ''discussionCategoryPrivileges''"
  "\<not> isEscapeNeeded ''forumWidePrivileges''" "\<not> isEscapeNeeded ''forumWideDefaultLevels''"
  by code_simp+

lemma literal_value: "writes_value d (writeEscapedString (literal v)) (json_text (JString v))"
  using writeEscapedString_value [of "literal v" v d] by (simp add: literal_def viewed_text_def)

lemma value16_member: "writes_member d (writeValue16 v) (json_text (JInt v))"
  unfolding writeValue16_def by (rule writeNumber_member) (simp add: number_size_def)

lemma time_member: "writes_member d (writeTime t) (json_text (JInt t))"
  unfolding writeTime_def by (rule writeNumber_member) (simp add: number_size_def)

lemma number8_member: "writes_member d (writeNumber 8 b t) (json_text (JInt t))"
  by (rule writeNumber_member) (simp add: number_size_def)

lemma uuid_chars_plain: "list_all (\<lambda>n. OccursInUuids ! n \<noteq> 0 \<longrightarrow> ToEscape ! n = 0) [0..<256]"
  by code_simp

lemma uuid_plain: "\<not> isEscapeNeeded (toStringCompact u)"
proof -
  have "ToEscape ! byte_code c = 0" if "c \<in> set (toStringCompact u)" for c
    using uuid_chars_plain compact_occurs [of u] that byte_code_less [of c] by (auto simp: list_all_iff uuid_char_def)
  then show ?thesis by (simp add: isEscapeNeeded_def list_ex_iff)
qed

lemma uuid_member: "writes_member d (writeUuid u) (json_text (JString (toStringCompact u)))"
  using value_member [OF writeSafeString_value [of d "toStringCompact u"]] uuid_plain [of u]
  by (simp add: writeUuid_def string_text_plain)

lemma bool_member: "writes_member d (writeBool b) (json_text (JBool b))"
  by (rule value_member [OF writeBool_value])

lemma ready_member: "writes_member d (writeReadyString (JsonReadyStringBase extra v)) (json_text (JString v))"
  using value_member [OF writeReadyString_value] by simp

lemmas member_steps = literal_value [THEN value_member] value16_member time_member number8_member bool_member ready_member

lemma writePrivilegeValues_value:
  "writes_value 2 (writePrivilegeValues fn en strs) (json_text (required_json fn en strs))"
proof -
  have "writes_value 1 (object_steps
      [JSON_WRITE_FIRST_PROP ''name'' (writeEscapedString (literal s)), JSON_WRITE_PROP ''value'' (writeValue16 v)])
     (json_text (JObject [(''name'', JString s), (''value'', JInt v)]))" for s v
  proof -
    have "list_all2 (member_ok 0)
        [(''name'', writeEscapedString (literal s)), (''value'', writeValue16 v)]
        [(''name'', JString s), (''value'', JInt v)]"
      by (simp del: json_text.simps add: member_ok_def member_steps)
    from prop_object_value [OF this] show ?thesis by (simp del: json_text.simps)
  qed
  then show ?thesis
    unfolding writePrivilegeValues_def required_json_def numeral_2_eq_2
    by (intro array_elements) (auto simp del: json_text.simps)
qed

subsection \<open>Replies about required privileges\<close>

definition default_levels_json :: "'a forum_wide_store_scheme \<Rightarrow> json" where
  "default_levels_json store =
     JArray (map (\<lambda>(i, level). JObject
         [(''name'', JString (ForumWideDefaultPrivilegeDurationStrings ! i)), (''value'', JInt (level_value level)),
          (''duration'', JInt (level_duration level))])
       (List.map_filter (\<lambda>i. map_option (Pair i)
           (getForumWideDefaultPrivilegeLevel store (default_privilege_duration_enumerators ! i)))
         [0..<length default_privilege_duration_enumerators]))"

definition message_required_json :: "'a msg_priv_store_scheme \<Rightarrow> string \<times> json" where
  "message_required_json store = (''discussionThreadMessagePrivileges'',
     required_json (store_getDiscussionThreadMessagePrivilege store) msg_privilege_enumerators msg_privilege_strings)"

definition thread_required_json :: "'a thread_priv_store_scheme \<Rightarrow> string \<times> json" where
  "thread_required_json store = (''discussionThreadPrivileges'',
     required_json (store_getDiscussionThreadPrivilege store) thread_privilege_enumerators thread_privilege_strings)"

definition tag_required_json :: "'a tag_priv_store_scheme \<Rightarrow> string \<times> json" where
  "tag_required_json store = (''discussionTagPrivileges'',
     required_json (store_getDiscussionTagPrivilege store) tag_privilege_enumerators tag_privilege_strings)"

definition category_required_json :: "'a category_priv_store_scheme \<Rightarrow> string \<times> json" where
  "category_required_json store = (''discussionCategoryPrivileges'',
     required_json (store_getDiscussionCategoryPrivilege store) category_privilege_enumerators category_privilege_strings)"

definition forum_wide_required_json :: "'a forum_wide_store_scheme \<Rightarrow> string \<times> json" where
  "forum_wide_required_json store = (''forumWidePrivileges'',
     required_json (getForumWidePrivilege store) forum_wide_privilege_enumerators forum_wide_privilege_strings)"

lemmas required_member_defs = message_required_json_def thread_required_json_def tag_required_json_def
  category_required_json_def forum_wide_required_json_def

text \<open>A step writes a member when it is the name of the member followed by a step that writes the value.\<close>

definition writes_named :: "nat \<Rightarrow> json_step \<Rightarrow> string \<times> json \<Rightarrow> bool" where
  "writes_named d f m \<longleftrightarrow> (\<exists>g. f = json_steps [newPropertyWithSafeName (fst m), g] \<and> member_ok d (fst m, g) m)"

lemma writes_namedI:
  "f = json_steps [newPropertyWithSafeName k, g] \<Longrightarrow> \<not> isEscapeNeeded k \<Longrightarrow> writes_member d g (json_text x) \<Longrightarrow>
   writes_named d f (k, x)"
  by (auto simp: writes_named_def member_ok_def)

lemma named_member_steps:
  assumes "list_all2 (writes_named d) fs ms"
  shows "\<exists>ss. fs = named_steps ss \<and> list_all2 (member_ok d) ss ms"
  using assms
proof (induction fs ms)
  case Nil
  then show ?case by (intro exI [of _ "[]"]) (simp add: named_steps_def)
next
  case (Cons f fs m ms)
  then obtain ss g where "fs = named_steps ss" "list_all2 (member_ok d) ss ms"
    "f = json_steps [newPropertyWithSafeName (fst m), g]" "member_ok d (fst m, g) m"
    by (auto simp: writes_named_def)
  then show ?case by (intro exI [of _ "(fst m, g) # ss"]) (simp add: named_steps_def)
qed

lemma named_reply:
  "list_all2 (writes_named d) fs ms \<Longrightarrow> d < 31 \<Longrightarrow>
   write_document (object_steps fs) out = Some (out @ json_text (JObject ms))"
  using named_member_steps [of d fs ms] named_object_document by (metis (no_types))

lemmas writeRequired_defs = writeDiscussionThreadMessageRequiredPrivileges_def writeDiscussionThreadRequiredPrivileges_def
  writeDiscussionTagRequiredPrivileges_def writeDiscussionCategoryRequiredPrivileges_def
  writeForumWideRequiredPrivileges_def

lemma required_named:
  "writes_named 2 (writeDiscussionThreadMessageRequiredPrivileges e) (message_required_json e)"
  "writes_named 2 (writeDiscussionThreadRequiredPrivileges e1) (thread_required_json e1)"
  "writes_named 2 (writeDiscussionTagRequiredPrivileges e2) (tag_required_json e2)"
  "writes_named 2 (writeDiscussionCategoryRequiredPrivileges e3) (category_required_json e3)"
  "writes_named 2 (writeForumWideRequiredPrivileges e4) (forum_wide_required_json e4)"
  unfolding required_member_defs writeRequired_defs
  by (rule writes_namedI [OF refl _ value_member [OF writePrivilegeValues_value]], simp)+

lemma default_levels_named:
  "writes_named 2 (writeForumWideDefaultPrivilegeLevels store) (''forumWideDefaultLevels'', default_levels_json store)"
proof -
  have "writes_value 1 (object_steps
      [JSON_WRITE_FIRST_PROP ''name'' (writeEscapedString (literal s)), JSON_WRITE_PROP ''value'' (writeValue16 v),
       JSON_WRITE_PROP ''duration'' (writeNumber 8 True t)])
     (json_text (JObject [(''name'', JString s), (''value'', JInt v), (''duration'', JInt t)]))" for s v t
  proof -
    have "list_all2 (member_ok 0)
        [(''name'', writeEscapedString (literal s)), (''value'', writeValue16 v), (''duration'', writeNumber 8 True t)]
        [(''name'', JString s), (''value'', JInt v), (''duration'', JInt t)]"
      by (simp del: json_text.simps add: member_ok_def member_steps)
    from prop_object_value [OF this] show ?thesis by (simp del: json_text.simps)
  qed
  then have "writes_value 2 (array_steps (map (\<lambda>(i, level). object_steps
        [JSON_WRITE_FIRST_PROP ''name'' (writeEscapedString (literal (ForumWideDefaultPrivilegeDurationStrings ! i))),
         JSON_WRITE_PROP ''value'' (writeValue16 (level_value level)),
         JSON_WRITE_PROP ''duration'' (writeNumber 8 True (level_duration level))])
      (List.map_filter (\<lambda>i. map_option (Pair i)
          (getForumWideDefaultPrivilegeLevel store (default_privilege_duration_enumerators ! i)))
        [0..<length default_privilege_duration_enumerators]))) (json_text (default_levels_json store))"
    unfolding default_levels_json_def numeral_2_eq_2
    by (intro array_elements) (auto simp del: json_text.simps)
  from writes_namedI [OF refl _ value_member [OF this], of "''forumWideDefaultLevels''"] show ?thesis
    unfolding writeForumWideDefaultPrivilegeLevels_def by simp
qed

lemma allow_named: "writes_named d (writeAllowPrivilegeChange b) (''allowAdjustPrivilege'', JBool b)"
  unfolding writeAllowPrivilegeChange_def by (rule writes_namedI [OF refl _ bool_member]) simp

subsection \<open>What an operation answers\<close>

lemma reply_with_allow_cases:
  assumes "reply_with_allow cx h fs fo = Some ((st, w), fo')"
  shows "\<exists>b s. authorize cx h fo = Some (s, fo') \<and> st = STATUS_OK \<and> w = Some (object_steps (fs fo' @ [writeAllowPrivilegeChange b]))"
  using assms by (auto simp: reply_with_allow_def reply_object_def split: option.splits)

lemma authorized_read_cases:
  assumes "authorized_read cx h rest fo = Some ((st, w), fo')"
  shows "(st \<noteq> STATUS_OK \<and> w = None) \<or>
    (\<exists>fo1. authorize cx h fo = Some (STATUS_OK, fo1) \<and> rest fo1 = Some ((st, w), fo'))"
  using assms by (auto simp: authorized_read_def reply_status_def split: option.splits prod.splits if_splits)

lemma read_operation_cases:
  assumes "read_operation cx body fo = Some ((st, w), fo')"
  obtains u scheduled fo1 fo2 where "performedBy_get cx fo = (u, scheduled, fo1)" "body u fo1 = Some ((st, w), fo2)"
    "fo' = performedBy_destroy cx scheduled fo2"
  using assms by (auto simp: read_operation_def split: prod.splits)

lemma core_get: "performedBy_get cx fo = (u, scheduled, fo1) \<Longrightarrow> core fo1 = core fo"
  by (auto simp: performedBy_get_def Let_def split: option.splits)

lemma core_destroy [simp]: "core (performedBy_destroy cx scheduled fo) = core fo"
  by (auto simp: performedBy_destroy_def split: option.splits)

text \<open>An authorized reply with the answer about adjusting: the status, or the object of its members.\<close>

lemma allowed_reply:
  assumes run: "authorized_read cx h (reply_with_allow cx h' fs) fo = Some ((st, w), fo')"
    and keeps: "\<And>ax. keeps_grants (h ax)" "\<And>ax. keeps_grants (h' ax)"
    and ms: "\<And>fo'. core fo' = core fo \<Longrightarrow> list_all2 (writes_named 2) (fs fo') ms"
  shows "\<exists>j. StatusWriter_destroy st w out = Some (out @ json_text (JObject j)) \<and>
    (if st = STATUS_OK then \<exists>b. j = ms @ [(''allowAdjustPrivilege'', JBool b)] else j = [(''status'', JInt (status_number st))])"
proof (cases "st = STATUS_OK")
  case False
  with authorized_read_cases [OF run] reply_with_allow_cases [of cx h' fs] have "w = None" by blast
  then show ?thesis using False status_document [of st out] by auto
next
  case True
  with authorized_read_cases [OF run] obtain fo1 where fo1: "authorize cx h fo = Some (STATUS_OK, fo1)"
    "reply_with_allow cx h' fs fo1 = Some ((st, w), fo')" by auto
  obtain b s where b: "authorize cx h' fo1 = Some (s, fo')"
    "w = Some (object_steps (fs fo' @ [writeAllowPrivilegeChange b]))"
    using reply_with_allow_cases [OF fo1(2)] by auto
  have "core fo' = core fo"
    using core_authorize [OF fo1(1) keeps(1)] core_authorize [OF b(1) keeps(2)] by simp
  then have "list_all2 (writes_named 2) (fs fo' @ [writeAllowPrivilegeChange b]) (ms @ [(''allowAdjustPrivilege'', JBool b)])"
    using ms allow_named [of 2 b] by (intro list_all2_appendI) auto
  from named_reply [OF this, of out] show ?thesis
    using True b(2) by (intro exI [of _ "ms @ [(''allowAdjustPrivilege'', JBool b)]"]) (auto simp: StatusWriter_destroy_def simp del: json_text.simps)
qed

lemma run_readE:
  assumes "run_read operation output fo = Some ((st, t), fo')"
  obtains w where "operation fo = Some ((st, w), fo')" "StatusWriter_destroy st w output = Some t"
  using assms by (auto simp: run_read_def split: option.splits)

lemma forum_wide_required_reply:
  assumes "run_read (repo_getForumWideRequiredPrivileges cx) written fo = Some ((st, t), fo')"
  shows "\<exists>j. t = written @ json_text (JObject j) \<and>
    (if st = STATUS_OK
     then \<exists>b. j = [forum_wide_required_json (h_forumWide (fo_heap fo)),
       category_required_json (fw_category_store (h_forumWide (fo_heap fo))), tag_required_json (h_forumWide (fo_heap fo)),
       thread_required_json (h_forumWide (fo_heap fo)), message_required_json (h_forumWide (fo_heap fo)),
       (''allowAdjustPrivilege'', JBool b)]
     else j = [(''status'', JInt (status_number st))])"
proof -
  obtain w where w: "repo_getForumWideRequiredPrivileges cx fo = Some ((st, w), fo')"
    "StatusWriter_destroy st w written = Some t" using assms by (rule run_readE)
  from w(1) obtain u scheduled fo1 fo2 where get: "performedBy_get cx fo = (u, scheduled, fo1)"
    and body: "authorized_read cx (\<lambda>ax. getForumWideRequiredPrivileges ax (fo_user fo1 u))
         (reply_with_allow cx (\<lambda>ax. getAllowForumWidePrivilegeChange ax (fo_user fo1 u))
           (\<lambda>fo. let store = h_forumWide (fo_heap fo)
                 in [writeForumWideRequiredPrivileges store,
                     writeDiscussionCategoryRequiredPrivileges (fw_category_store store),
                     writeDiscussionTagRequiredPrivileges store, writeDiscussionThreadRequiredPrivileges store,
                     writeDiscussionThreadMessageRequiredPrivileges store])) fo1 = Some ((st, w), fo2)"
    unfolding repo_getForumWideRequiredPrivileges_def by (rule read_operation_cases)
  have fw: "core fo' = core fo1 \<Longrightarrow> h_forumWide (fo_heap fo') = h_forumWide (fo_heap fo)" for fo'
    using coreD(5) core_get [OF get] by metis
  from allowed_reply [OF body, where ms = "[forum_wide_required_json (h_forumWide (fo_heap fo)),
       category_required_json (fw_category_store (h_forumWide (fo_heap fo))), tag_required_json (h_forumWide (fo_heap fo)),
       thread_required_json (h_forumWide (fo_heap fo)), message_required_json (h_forumWide (fo_heap fo))]" and out = written]
  show ?thesis using w(2) by (auto simp: handlers_keep_grants fw required_named Let_def simp del: json_text.simps)
qed

subsection \<open>The reply about a user's privileges\<close>

text \<open>
  \<open>writeForumWideEntity\<close> writes nothing, so that an entry about a forum wide privilege starts with the
  comma in front of its second name.
\<close>

lemma forum_wide_entry:
  "writes_value 1 (UserAssignedPrivilegeWriter fo r writeForumWideEntity (eid, v, g, e))
     (''{,\"value\":'' @ json_text (JInt v) @ '',\"granted\":'' @ json_text (JInt g) @ '',\"expires\":'' @ json_text (JInt e) @ ''}'')"
proof -
  have "UserAssignedPrivilegeWriter fo r writeForumWideEntity (eid, v, g, e) =
    object_steps [JSON_WRITE_PROP ''value'' (writeValue16 v), JSON_WRITE_PROP ''granted'' (writeTime g), JSON_WRITE_PROP ''expires'' (writeTime e)]"
    by (rule ext) (simp add: UserAssignedPrivilegeWriter_def writeForumWideEntity_def)
  moreover have "part 0 (json_steps [JSON_WRITE_PROP ''value'' (writeValue16 v), JSON_WRITE_PROP ''granted'' (writeTime g), JSON_WRITE_PROP ''expires'' (writeTime e)])
     (sequence_text [\<lambda>_. '',\"value\":'' @ json_text (JInt v), \<lambda>_. '',\"granted\":'' @ json_text (JInt g), \<lambda>_. '',\"expires\":'' @ json_text (JInt e)])"
    using part_PROP [OF value16_member, of 0 "''value''" v] part_PROP [OF time_member, of 0 "''granted''" g]
      part_PROP [OF time_member, of 0 "''expires''" e]
    by (intro part_sequence) (simp del: json_text.simps)
  ultimately show ?thesis using object_value by (fastforce simp del: json_text.simps)
qed

lemma now_part: "part d (writeAssignedPrivilegesExtra cx) (item (''\"now\":'' @ json_text (JInt (rx_time cx))))"
  using part_named [OF member_okI [of "''now''", OF _ time_member], of d "rx_time cx"]
  by (simp add: writeAssignedPrivilegesExtra_def member_text_def string_text_plain del: json_text.simps)

lemma array_texts:
  assumes "\<forall>x\<in>set xs. writes_value d (f x) (t x)"
  shows "writes_value (Suc d) (array_steps (map f xs)) (''['' @ comma_separated (map t xs) @ '']'')"
proof -
  have "\<forall>v\<in>set (map t xs). v \<noteq> []" using assms by (auto simp: writes_value_def)
  then show ?thesis using array_value [OF part_elements [OF assms]] by (simp only: items_text)
qed

definition assigned_text :: "repository_context \<Rightarrow> string \<Rightarrow> string list \<Rightarrow> bool \<Rightarrow> string" where
  "assigned_text cx name entries c =
     item (''\"now\":'' @ json_text (JInt (rx_time cx))) c @ '',\"'' @ name @ ''\":['' @ comma_separated entries @ '']''"

lemma sequence_text_pair: "sequence_text [f, \<lambda>_. t] = (\<lambda>c. f c @ t)"
  by (rule ext) simp

lemma assigned_part:
  assumes "\<forall>x\<in>set xs. writes_value d (f x) (t x)"
  shows "part (Suc d) (assigned_privileges cx name (map f xs)) (assigned_text cx name (map t xs))"
proof -
  let ?array = "json_steps [newPropertyRaw (JSON_RAW_PROP_COMMA name), array_steps (map f xs)]"
  let ?now = "''\"now\":'' @ json_text (JInt (rx_time cx))"
  have "part (Suc d) ?array (\<lambda>_. JSON_RAW_PROP_COMMA name @ ''['' @ comma_separated (map t xs) @ '']'')"
    using part_raw [OF value_member [OF array_texts [OF assms]], of "JSON_RAW_PROP_COMMA name"]
    by (simp add: JSON_RAW_PROP_COMMA_def)
  with now_part [of "Suc d" cx]
  have "list_all2 (part (Suc d)) [writeAssignedPrivilegesExtra cx, ?array]
      [item ?now, \<lambda>_. JSON_RAW_PROP_COMMA name @ ''['' @ comma_separated (map t xs) @ '']'']"
    by (simp del: json_text.simps)
  from part_sequence [OF this]
  have "part (Suc d) (json_steps [writeAssignedPrivilegesExtra cx, ?array]) (assigned_text cx name (map t xs))"
    by (simp add: assigned_text_def [abs_def] sequence_text_pair JSON_RAW_PROP_COMMA_def del: json_text.simps)
  moreover have "json_steps [writeAssignedPrivilegesExtra cx, ?array] = assigned_privileges cx name (map f xs)"
    unfolding assigned_privileges_def by (rule ext) (simp split: option.splits)
  ultimately show ?thesis by simp
qed

text \<open>Texts that are no JSON.\<close>

lemma no_member_at_comma: "read_members n (CHR '','' # s) = None"
  by (cases n) simp_all

lemma no_object_at_comma: "read_value n (''{,'' @ s) = None"
  by (cases n) (simp_all add: no_member_at_comma)

lemma no_array_of_object_at_comma: "read_value n (''[{,'' @ s) = None"
proof (cases n)
  case (Suc m)
  then show ?thesis using no_object_at_comma [of _ s] by (cases m) simp_all
qed simp

lemma no_member_value:
  assumes "\<And>m. read_value m s = None" "\<not> isEscapeNeeded k"
  shows "read_members n (''\"'' @ k @ ''\":'' @ s) = None"
  using assms read_escaped [of k "CHR '':'' # s"] by (cases n) (simp_all add: escapeString_def)

lemma no_further_members:
  assumes "\<And>m. read_members m s = None" "\<not> isEscapeNeeded k"
  shows "read_members n (''\"'' @ k @ ''\":'' @ json_text (JInt v) @ '','' @ s) = None"
proof (cases n)
  case (Suc m)
  have "read_value m (number_text v False @ '','' @ s) = Some (JInt v, '','' @ s)" if "m \<noteq> 0"
  proof -
    have "no_digit_next ('','' @ s)" by (simp add: no_digit_next_def json_digit_def byte_code_def)
    from read_value_number [OF this] show ?thesis using that by (cases m) (simp_all del: read_value.simps)
  qed
  then show ?thesis
    using assms read_escaped [of k "CHR '':'' # number_text v False @ '','' @ s"] Suc
    by (cases "m = 0") (simp_all add: escapeString_def)
qed simp

text \<open>The reply about a user whose only privileges are forum wide.\<close>

definition forum_wide_entry_text :: "assigned_entry \<Rightarrow> string" where
  "forum_wide_entry_text entry = (case entry of (eid, v, g, e) \<Rightarrow>
     ''{,\"value\":'' @ json_text (JInt v) @ '',\"granted\":'' @ json_text (JInt g) @ '',\"expires\":'' @ json_text (JInt e) @ ''}'')"

definition user_reply_text :: "repository_context \<Rightarrow> assigned_entry list \<Rightarrow> string" where
  "user_reply_text cx entries =
     ''{\"now\":'' @ json_text (JInt (rx_time cx)) @
     assigned_text cx ''forumWidePrivileges'' (map forum_wide_entry_text entries) True @
     assigned_text cx ''discussionCategoryPrivileges'' [] True @
     assigned_text cx ''discussionTagPrivileges'' [] True @
     assigned_text cx ''discussionThreadPrivileges'' [] True @ ''}''"

lemma user_reply_no_json: "entries \<noteq> [] \<Longrightarrow> read_json (user_reply_text cx entries) = None"
proof -
  assume "entries \<noteq> []"
  then obtain eid v g e es where es: "entries = (eid, v, g, e) # es" by (cases entries) auto
  let ?num = "json_text (JInt (rx_time cx))"
  have "\<exists>rest. comma_separated (map forum_wide_entry_text entries) = ''{,'' @ rest"
    unfolding es by (cases es) (simp_all add: forum_wide_entry_text_def comma_separated_Cons del: json_text.simps)
  then obtain rest where rest: "comma_separated (map forum_wide_entry_text entries) = ''{,'' @ rest" ..
  have "\<not> isEscapeNeeded ''now''" "\<not> isEscapeNeeded ''forumWidePrivileges''" by simp_all
  note none = no_further_members [OF no_further_members [OF no_member_value [OF no_array_of_object_at_comma this(2)] this(1)] this(1)]
  have "\<exists>s. user_reply_text cx entries = ''{'' @ ''\"'' @ ''now'' @ ''\":'' @ ?num @ '','' @
      ''\"'' @ ''now'' @ ''\":'' @ ?num @ '','' @ ''\"'' @ ''forumWidePrivileges'' @ ''\":'' @ ''[{,'' @ s"
    unfolding user_reply_text_def assigned_text_def rest by (simp add: item_def del: json_text.simps)
  then obtain s where s: "user_reply_text cx entries = ''{'' @ ''\"'' @ ''now'' @ ''\":'' @ ?num @ '','' @
      ''\"'' @ ''now'' @ ''\":'' @ ?num @ '','' @ ''\"'' @ ''forumWidePrivileges'' @ ''\":'' @ ''[{,'' @ s" ..
  have "read_value n (user_reply_text cx entries) = None" for n
    using none [of _ "rx_time cx" "rx_time cx" s] unfolding s by (cases n) simp_all
  then show ?thesis by (simp add: read_json_def)
qed

lemma forum_wide_entry_value:
  "writes_value (Suc 0) (UserAssignedPrivilegeWriter fo r writeForumWideEntity entry) (forum_wide_entry_text entry)"
  using forum_wide_entry unfolding forum_wide_entry_text_def One_nat_def by (cases entry) (simp only: prod.case)

lemma user_reply_document:
  assumes none: "enumerateDiscussionCategoryPrivilegesAssignedToUser (fo_grants fo) uid = []"
    "enumerateDiscussionTagPrivilegesAssignedToUser (fo_grants fo) uid = []"
    "enumerateDiscussionThreadPrivilegesAssignedToUser (fo_grants fo) uid = []"
  shows "write_document (object_steps [writeAssignedPrivilegesExtra cx, writeForumWideUserAssignedPrivileges cx fo r uid,
      writeDiscussionCategoryUserAssignedPrivileges cx fo r uid, writeDiscussionTagUserAssignedPrivileges cx fo r uid,
      writeDiscussionThreadUserAssignedPrivileges cx fo r uid]) written =
    Some (written @ user_reply_text cx (enumerateForumWidePrivilegesAssignedToUser (fo_grants fo) uid))"
proof -
  have "part 2 (writeForumWideUserAssignedPrivileges cx fo r uid)
      (assigned_text cx ''forumWidePrivileges'' (map forum_wide_entry_text (enumerateForumWidePrivilegesAssignedToUser (fo_grants fo) uid)))"
    unfolding writeForumWideUserAssignedPrivileges_def numeral_2_eq_2
    by (rule assigned_part) (simp add: forum_wide_entry_value)
  moreover have "part 2 (assigned_privileges cx name []) (assigned_text cx name [])" for name
    using assigned_part [of "[]" 1 "\<lambda>_. json_null" "\<lambda>_. []" cx name] by (simp add: numeral_2_eq_2)
  ultimately have "list_all2 (part 2) [writeAssignedPrivilegesExtra cx, writeForumWideUserAssignedPrivileges cx fo r uid,
      writeDiscussionCategoryUserAssignedPrivileges cx fo r uid, writeDiscussionTagUserAssignedPrivileges cx fo r uid,
      writeDiscussionThreadUserAssignedPrivileges cx fo r uid]
    [item (''\"now\":'' @ json_text (JInt (rx_time cx))),
      assigned_text cx ''forumWidePrivileges'' (map forum_wide_entry_text (enumerateForumWidePrivilegesAssignedToUser (fo_grants fo) uid)),
      assigned_text cx ''discussionCategoryPrivileges'' [], assigned_text cx ''discussionTagPrivileges'' [],
      assigned_text cx ''discussionThreadPrivileges'' []]"
    using now_part by (simp add: writeDiscussionCategoryUserAssignedPrivileges_def writeDiscussionTagUserAssignedPrivileges_def
      writeDiscussionThreadUserAssignedPrivileges_def none del: json_text.simps)
  from document_object [OF part_sequence [OF this], of written] show ?thesis
    by (simp add: user_reply_text_def item_def assigned_text_def [of cx _ _ True] assigned_text_def del: json_text.simps)
qed

lemma user_privileges_reply:
  assumes run: "run_read (repo_getAssignedPrivilegesForUser cx uid) written fo = Some ((STATUS_OK, t), fo')"
    and none: "enumerateDiscussionCategoryPrivilegesAssignedToUser (fo_grants fo) uid = []"
    "enumerateDiscussionTagPrivilegesAssignedToUser (fo_grants fo) uid = []"
    "enumerateDiscussionThreadPrivilegesAssignedToUser (fo_grants fo) uid = []"
  shows "t = written @ user_reply_text cx (enumerateForumWidePrivilegesAssignedToUser (fo_grants fo) uid)"
proof -
  obtain w where w: "repo_getAssignedPrivilegesForUser cx uid fo = Some ((STATUS_OK, w), fo')"
    "StatusWriter_destroy STATUS_OK w written = Some t" using run by (rule run_readE)
  then obtain p where "read_operation cx (\<lambda>currentUser fo.
            authorized_read cx (\<lambda>ax. getUserAssignedPrivileges ax (fo_user fo currentUser) (fo_user fo p))
              (reply_object (\<lambda>fo.
                 let restriction = restriction_of cx fo currentUser
                 in [writeAssignedPrivilegesExtra cx,
                     writeForumWideUserAssignedPrivileges cx fo restriction uid,
                     writeDiscussionCategoryUserAssignedPrivileges cx fo restriction uid,
                     writeDiscussionTagUserAssignedPrivileges cx fo restriction uid,
                     writeDiscussionThreadUserAssignedPrivileges cx fo restriction uid])) fo) fo = Some ((STATUS_OK, w), fo')"
    by (auto simp: repo_getAssignedPrivilegesForUser_def reply_status_def split: option.splits if_splits)
  then obtain u scheduled fo1 fo2 where get: "performedBy_get cx fo = (u, scheduled, fo1)"
    and body: "authorized_read cx (\<lambda>ax. getUserAssignedPrivileges ax (fo_user fo1 u) (fo_user fo1 p))
              (reply_object (\<lambda>fo.
                 let restriction = restriction_of cx fo u
                 in [writeAssignedPrivilegesExtra cx,
                     writeForumWideUserAssignedPrivileges cx fo restriction uid,
                     writeDiscussionCategoryUserAssignedPrivileges cx fo restriction uid,
                     writeDiscussionTagUserAssignedPrivileges cx fo restriction uid,
                     writeDiscussionThreadUserAssignedPrivileges cx fo restriction uid])) fo1 = Some ((STATUS_OK, w), fo2)"
    by (rule read_operation_cases)
  from authorized_read_cases [OF body] obtain r where auth: "authorize cx (\<lambda>ax. getUserAssignedPrivileges ax (fo_user fo1 u) (fo_user fo1 p)) fo1 = Some (STATUS_OK, fo2)"
    and wr: "w = Some (object_steps [writeAssignedPrivilegesExtra cx, writeForumWideUserAssignedPrivileges cx fo2 r uid,
      writeDiscussionCategoryUserAssignedPrivileges cx fo2 r uid, writeDiscussionTagUserAssignedPrivileges cx fo2 r uid,
      writeDiscussionThreadUserAssignedPrivileges cx fo2 r uid])"
    by (auto simp: reply_object_def Let_def)
  have "core fo2 = core fo" using core_authorize(1) [OF auth] core_get [OF get] by (simp add: handlers_keep_grants)
  then have "fo_grants fo2 = fo_grants fo" using coreD(6) by (simp add: fo_grants_def)
  with user_reply_document [of fo2 uid cx r written] none wr w(2) show ?thesis by (simp add: StatusWriter_destroy_def)
qed

end
