(* ===== verification/RepositoryProperties.thy ===== *)
theory RepositoryProperties
  imports Samples AuthorizationReplies
begin

section \<open>Properties of the privilege repository and of what it writes\<close>

text \<open>
  The properties of the requests that change privileges, of the replies about them, of the JSON writer and of
  the texts of identifiers, with a small forum at which their hypotheses are checked.
\<close>

subsection \<open>A sample\<close>

definition sample_forum :: forum where
  "sample_forum = \<lparr>fo_heap = sample_heap, fo_anonymousUser = 0, fo_usersById = [1 \<mapsto> 1, 2 \<mapsto> 2],
     fo_messagesById = [10 \<mapsto> 0], fo_threadsById = [20 \<mapsto> 0], fo_tagsById = [30 \<mapsto> 0], fo_categoriesById = [40 \<mapsto> 0],
     fo_tagsByName = \<lambda>_. None, fo_categoriesByName = \<lambda>_. None,
     fo_nextTag = 1, fo_nextCategory = 1, fo_authorization = DefaultAuthorization sample_grants True, fo_events = []\<rparr>"

definition sample_repository_context :: repository_context where
  "sample_repository_context = \<lparr>rx_time = 0, rx_userId = 1, rx_ip = 0, rx_showInOnlineUsers = False, rx_lastSeenUpdatePrecision = 100\<rparr>"

lemma sample_forum_simps [simp]:
  "fo_usersById sample_forum 1 = Some 1" "fo_usersById sample_forum 2 = Some 2" "fo_anonymousUser sample_forum = 0"
  "fo_user sample_forum (Suc 0) = sample_user 1" "fo_user sample_forum 2 = sample_user 2" "fo_events sample_forum = []"
  "au_grants (fo_authorization sample_forum) = sample_grants" "fo_heap sample_forum = sample_heap"
  by (simp_all add: sample_forum_def fo_user_def sample_heap_def)

lemma sample_repository_context_simps [simp]:
  "rx_time sample_repository_context = 0" "rx_userId sample_repository_context = 1" "rx_showInOnlineUsers sample_repository_context = False"
  "rx_lastSeenUpdatePrecision sample_repository_context = 100" "rx_ip sample_repository_context = 0"
  by (simp_all add: sample_repository_context_def)

lemma sample_heap_user:
  "sample_heap\<lparr>h_user := (h_user sample_heap)(Suc 0 := h_user sample_heap (Suc 0)\<lparr>usr_showInOnlineUsers := False\<rparr>)\<rparr> = sample_heap"
proof -
  have "(\<lambda>p. sample_user (of_nat p))(Suc 0 := (sample_user 1)\<lparr>usr_showInOnlineUsers := False\<rparr>) = (\<lambda>p. sample_user (of_nat p))"
    by (rule ext) (simp add: sample_user_def)
  then show ?thesis by (simp add: sample_heap_def)
qed

lemma sample_forum_user: "update_user 1 (usr_showInOnlineUsers_update (\<lambda>_. False)) sample_forum = sample_forum"
  using sample_heap_user by (simp add: update_user_def)

lemma sample_current_user:
  "performedBy_getAndUpdate sample_repository_context sample_forum = (1, sample_forum)"
  "performedBy_get sample_repository_context sample_forum = (1, None, sample_forum)"
proof -
  have "\<not> lastSeen_outdated sample_repository_context (sample_user 1)"
    by (simp add: lastSeen_outdated_def sample_user_def)
  then show "performedBy_getAndUpdate sample_repository_context sample_forum = (1, sample_forum)"
    "performedBy_get sample_repository_context sample_forum = (1, None, sample_forum)"
    using sample_forum_user by (simp_all add: performedBy_getAndUpdate_def performedBy_get_def getCurrentUser_def)
qed

abbreviation sample_request :: repository_call where
  "sample_request \<equiv> AssignPrivilegeCall (AssignForumWidePrivilege 2 50 0)"

lemma sample_request_runs:
  "\<exists>fo'. run_requests [(sample_repository_context, sample_request)] sample_forum = Some ([STATUS_OK], fo')"
proof -
  have "authorize sample_repository_context (\<lambda>ax. assignForumWidePrivilege ax (sample_user 1) (sample_user 2) 50) sample_forum =
      Some (STATUS_OK, sample_forum)"
    using sample_assignment(2) [of 0]
    by (simp add: authorize_def context_of_def sample_cx_def sample_forum_def)
  then show ?thesis using sample_current_user(1)
    by (simp add: repo_assignForumWidePrivilege_def authorized_write_def invalid_forum_wide_assignment_def
      isAnonymousUserId_def isValidPrivilegeValue_def isValidPrivilegeDuration_def MinPrivilegeValue_def MaxPrivilegeValue_def
      direct_assignForumWidePrivilege_def observe_def grant_until_def calculatePrivilegeExpires_def UnlimitedDuration_def)
qed

text \<open>The same forum without the grant on the thread: user 1 is left with a forum wide privilege.\<close>

definition sample_forum_wide_only :: forum where
  "sample_forum_wide_only =
     update_grants (\<lambda>s. s\<lparr>discussionThreadSpecificPrivileges := []\<rparr>) sample_forum"

lemma sample_wide_simps [simp]:
  "fo_usersById sample_forum_wide_only 1 = Some 1" "fo_anonymousUser sample_forum_wide_only = 0"
  "fo_user sample_forum_wide_only (Suc 0) = sample_user 1"
  "fo_grants sample_forum_wide_only = sample_grants\<lparr>discussionThreadSpecificPrivileges := []\<rparr>"
  by (simp_all add: sample_forum_wide_only_def update_grants_def fo_user_def fo_grants_def)
     (simp_all add: sample_forum_def sample_heap_def)

lemma sample_wide_current_user:
  "performedBy_get sample_repository_context sample_forum_wide_only = (1, None, sample_forum_wide_only)"
proof -
  have "update_user 1 (usr_showInOnlineUsers_update (\<lambda>_. False)) sample_forum_wide_only = sample_forum_wide_only"
    using sample_heap_user by (simp add: sample_forum_wide_only_def update_grants_def update_user_def)
  moreover have "\<not> lastSeen_outdated sample_repository_context (sample_user 1)"
    by (simp add: lastSeen_outdated_def sample_user_def)
  ultimately show ?thesis by (simp add: performedBy_get_def)
qed

subsection \<open>Requests\<close>

text \<open>
  C24. A restart loses no change of a privilege. For any sequence of requests that change required privileges
  or assign privileges, whatever their authorization decides, the events raised are exactly those of the
  requests answered with OK, in their order; replayed through the direct write interface on the state before,
  they all succeed and give the same required values and the same grants.
\<close>

theorem privilege_requests_replayed:
  assumes "run_requests rs fo = Some (sts, fo')"
  shows "\<exists>es fo''. fo_events fo' = fo_events fo @ es \<and> replay_events es fo = Some fo'' \<and> core fo'' = core fo' \<and>
     map snd es = map snd (map fst (filter (\<lambda>(r, st). st = STATUS_OK) (zip rs sts)))"
  using assms by (rule replay_requests)

theorem privilege_requests_replayed_witness:
  "\<exists>es fo' fo''. run_requests [(sample_repository_context, sample_request)] sample_forum = Some ([STATUS_OK], fo') \<and>
     replay_events es sample_forum = Some fo'' \<and> core fo'' = core fo' \<and> map snd es = [sample_request]"
proof -
  obtain fo' where run: "run_requests [(sample_repository_context, sample_request)] sample_forum = Some ([STATUS_OK], fo')"
    using sample_request_runs by blast
  from privilege_requests_replayed [OF run] obtain es fo'' where "replay_events es sample_forum = Some fo''" "core fo'' = core fo'"
    "map snd es = [sample_request]" by (auto simp del: run_requests.simps replay_events.simps)
  with run show ?thesis by (intro exI conjI)
qed

text \<open>
  C25. Privilege values stay in range. If all required values and all grants lie between the minimum and the
  maximum value, and no grant is of the value 0 or to the anonymous user, then this holds after any sequence of
  requests that change or assign privileges.
\<close>

theorem privilege_values_in_range:
  assumes "run_requests rs fo = Some (sts, fo')" "privileges_in_range fo"
  shows "privileges_in_range fo'"
  using assms
proof (induction rs fo arbitrary: sts rule: run_requests.induct)
  case (2 cx call rs fo)
  then obtain st sts' fo1 where "repo_change cx call fo = Some (st, fo1)" "run_requests rs fo1 = Some (sts', fo')"
    by (auto split: option.splits)
  with 2 repo_change_in_range show ?case by blast
qed simp

lemma sample_in_range: "privileges_in_range sample_forum"
  by (simp add: privileges_in_range_def all_in_range_def in_range_def grants_in_range_def sample_defs priv_store_defs
      MinPrivilegeValue_def MaxPrivilegeValue_def)

theorem privilege_values_in_range_witness:
  "\<exists>fo'. run_requests [(sample_repository_context, sample_request)] sample_forum = Some ([STATUS_OK], fo') \<and> privileges_in_range fo'"
proof -
  obtain fo' where run: "run_requests [(sample_repository_context, sample_request)] sample_forum = Some ([STATUS_OK], fo')"
    using sample_request_runs by blast
  with privilege_values_in_range [OF run sample_in_range] show ?thesis by blast
qed

subsection \<open>Replies\<close>

text \<open>
  C26. The reply about the privileges the forum requires. Whenever the operation returns, what it appends to the
  output is the text of one JSON object: with status OK the five lists of required values of the forum, each
  with its name, and whether the user may adjust them; otherwise the number of the status.
\<close>

theorem required_privileges_reply:
  assumes "run_read (repo_getForumWideRequiredPrivileges cx) written fo = Some ((st, t), fo')"
  shows "\<exists>j. t = written @ json_text (JObject j) \<and>
    (if st = STATUS_OK
     then \<exists>b. j = [forum_wide_required_json (h_forumWide (fo_heap fo)),
       category_required_json (fw_category_store (h_forumWide (fo_heap fo))), tag_required_json (h_forumWide (fo_heap fo)),
       thread_required_json (h_forumWide (fo_heap fo)), message_required_json (h_forumWide (fo_heap fo)),
       (''allowAdjustPrivilege'', JBool b)]
     else j = [(''status'', JInt (status_number st))])"
  using assms by (rule forum_wide_required_reply)

lemma sample_authorize:
  "p \<noteq> FW_NO_THROTTLING \<Longrightarrow> authorize sample_repository_context (\<lambda>ax. answer (permit_fw ax (sample_user 1) p)) sample_forum =
     Some (STATUS_OK, sample_forum)"
  using sample_with(2) [of p 0 True]
  by (simp add: authorize_def context_of_def sample_cx_def answer_def permit_fw_def status_of_def)
     (simp add: sample_forum_def)

lemma sample_read:
  "\<exists>t. run_read (repo_getForumWideRequiredPrivileges sample_repository_context) [] sample_forum = Some ((STATUS_OK, t), sample_forum)"
proof -
  let ?store = "h_forumWide (fo_heap sample_forum)"
  let ?steps = "[writeForumWideRequiredPrivileges ?store, writeDiscussionCategoryRequiredPrivileges (fw_category_store ?store),
    writeDiscussionTagRequiredPrivileges ?store, writeDiscussionThreadRequiredPrivileges ?store,
    writeDiscussionThreadMessageRequiredPrivileges ?store, writeAllowPrivilegeChange True]"
  let ?members = "[forum_wide_required_json ?store, category_required_json (fw_category_store ?store), tag_required_json ?store,
    thread_required_json ?store, message_required_json ?store, (''allowAdjustPrivilege'', JBool True)]"
  have "list_all2 (writes_named 2) ?steps ?members" by (simp add: required_named allow_named)
  from named_reply [OF this, of "[]"] show ?thesis
    using sample_current_user(2)
    by (simp add: run_read_def repo_getForumWideRequiredPrivileges_def read_operation_def authorized_read_def
        reply_with_allow_def reply_object_def getForumWideRequiredPrivileges_def getAllowForumWidePrivilegeChange_def
        sample_authorize performedBy_destroy_def StatusWriter_destroy_def Let_def)
qed

theorem required_privileges_reply_witness:
  "\<exists>j t. run_read (repo_getForumWideRequiredPrivileges sample_repository_context) [] sample_forum = Some ((STATUS_OK, t), sample_forum) \<and>
     t = json_text (JObject j) \<and> hd j = (''forumWidePrivileges'', JArray [JObject [(''name'', JString ''no_throttling''), (''value'', JInt 1000)]])"
proof -
  obtain t where t: "run_read (repo_getForumWideRequiredPrivileges sample_repository_context) [] sample_forum = Some ((STATUS_OK, t), sample_forum)"
    using sample_read by blast
  from required_privileges_reply [OF t] obtain b where "t = json_text (JObject [forum_wide_required_json sample_fw,
       category_required_json (fw_category_store sample_fw), tag_required_json sample_fw,
       thread_required_json sample_fw, message_required_json sample_fw, (''allowAdjustPrivilege'', JBool b)])"
    by (auto simp del: json_text.simps)
  moreover have "forum_wide_required_json sample_fw =
      (''forumWidePrivileges'', JArray [JObject [(''name'', JString ''no_throttling''), (''value'', JInt 1000)]])"
    by code_simp
  ultimately show ?thesis using t by (metis list.sel(1))
qed

text \<open>
  C27. The reply about the privileges of a user who holds forum wide privileges only is not JSON. Each of
  its entries starts with a comma, since nothing is written for the entity.
\<close>

theorem user_privileges_reply_malformed:
  assumes "run_read (repo_getAssignedPrivilegesForUser cx uid) written fo = Some ((STATUS_OK, t), fo')"
    and "enumerateDiscussionCategoryPrivilegesAssignedToUser (fo_grants fo) uid = []"
    "enumerateDiscussionTagPrivilegesAssignedToUser (fo_grants fo) uid = []"
    "enumerateDiscussionThreadPrivilegesAssignedToUser (fo_grants fo) uid = []"
    and "enumerateForumWidePrivilegesAssignedToUser (fo_grants fo) uid \<noteq> []"
  shows "\<exists>reply. t = written @ reply \<and> read_json reply = None"
  using user_privileges_reply [OF assms(1-4)] user_reply_no_json [OF assms(5)] by blast

lemma sample_grants_of_user:
  assumes "s = sample_grants\<lparr>discussionThreadSpecificPrivileges := []\<rparr>"
  shows "enumerateDiscussionCategoryPrivilegesAssignedToUser s 1 = []" "enumerateDiscussionTagPrivilegesAssignedToUser s 1 = []"
    "enumerateDiscussionThreadPrivilegesAssignedToUser s 1 = []" "enumerateForumWidePrivilegesAssignedToUser s 1 = [(0, 200, 0, 0)]"
  unfolding assms by code_simp+

lemma sample_user_read:
  "\<exists>t. run_read (repo_getAssignedPrivilegesForUser sample_repository_context 1) [] sample_forum_wide_only =
     Some ((STATUS_OK, t), sample_forum_wide_only)"
proof -
  have "authorize sample_repository_context (\<lambda>ax. answer (\<lambda>_. OK)) sample_forum_wide_only = Some (STATUS_OK, sample_forum_wide_only)"
    by (simp add: authorize_def answer_def)
  with sample_wide_current_user user_reply_document [OF sample_grants_of_user(1-3) [OF sample_wide_simps(4)], of sample_repository_context]
  show ?thesis
    by (simp add: run_read_def repo_getAssignedPrivilegesForUser_def isAnonymousUserId_def read_operation_def
        authorized_read_def reply_object_def getUserAssignedPrivileges_def performedBy_destroy_def StatusWriter_destroy_def Let_def)
qed

theorem user_privileges_reply_malformed_witness:
  "\<exists>t. run_read (repo_getAssignedPrivilegesForUser sample_repository_context 1) [] sample_forum_wide_only =
     Some ((STATUS_OK, t), sample_forum_wide_only) \<and> read_json t = None"
proof -
  obtain t where t: "run_read (repo_getAssignedPrivilegesForUser sample_repository_context 1) [] sample_forum_wide_only =
     Some ((STATUS_OK, t), sample_forum_wide_only)" using sample_user_read by blast
  note grants = sample_grants_of_user [OF sample_wide_simps(4)]
  from user_privileges_reply_malformed [OF t grants(1-3)] grants(4) t show ?thesis by auto
qed

subsection \<open>The writer of JSON and the texts of identifiers\<close>

text \<open>
  C28. What the writer writes is read back. A JSON value of objects, arrays, strings, booleans, null and
  numbers, nested at most 31 deep and without the least 64-bit number, is written completely behind the
  text that is there, and a reader of JSON returns the same value.
\<close>

theorem json_round_trip:
  assumes "json_depth x \<le> 31" "no_least_value x"
  shows "\<exists>t. write_document (write_json x) written = Some (written @ t) \<and> read_json t = Some x"
  using json_document [OF assms] read_json_text by blast

theorem json_round_trip_witness:
  "\<exists>t. write_document (write_json (JObject [(''a'', JArray [JInt (- 5), JString ''q\"'', JNull])])) [] = Some t \<and>
     read_json t = Some (JObject [(''a'', JArray [JInt (- 5), JString ''q\"'', JNull])])"
  using json_round_trip [of "JObject [(''a'', JArray [JInt (- 5), JString ''q\"'', JNull])]" "[]"] by simp

text \<open>
  C29. A list of identifiers is read back. The texts of identifiers, with or without dashes, joined by a
  character that does not occur in them, are parsed to the identifiers, up to the room there is.
\<close>

theorem identifier_list_round_trip:
  assumes "list_all2 uuid_text vs us" "\<not> uuid_char sep"
  shows "parseMultipleUuidStrings room (separated sep vs) = take room us"
proof (cases "vs = []")
  case True
  then show ?thesis using assms(1) by (simp add: parseMultipleUuidStrings_def uuid_sized_def
      StringRepresentationSizeDashed_def StringRepresentationSizeCompact_def)
qed (use assms parse_separated [of vs us sep room] in \<open>auto simp: parseMultipleUuidStrings_def\<close>)

theorem identifier_list_round_trip_witness:
  "parseMultipleUuidStrings 5 (separated (CHR '','') [toStringDashed 5, toStringCompact 7]) = [5, 7]"
  using identifier_list_round_trip [of "[toStringDashed 5, toStringCompact 7]" "[5, 7]" "CHR '',''" 5] separator_char
  by (simp add: uuid_text_def)

end
