(* ===== verification/CommandHandler.thy ===== *)
theory CommandHandler
  imports AuthorizationReads JsonObjects
begin

section \<open>The command handler\<close>

text \<open>
  Models \<^verbatim>\<open>src/src/LibForumServiceEndpoints/CommandHandler.h\<close> and its \<^verbatim>\<open>.cpp\<close> file: the commands and views, the
  handler of each with the checks and conversions of its parameters, the tables of handlers and the two
  \<open>handle\<close> functions, over the public interfaces of \<^verbatim>\<open>src/src/LibForumData/Repository.h\<close>. A handler gives the call of
  a repository it ends in, or the status it returns itself; \<open>None\<close> is a read behind the end of the vector of
  parameters. The normalisation of ICU and the conversions of boost are parameters.
\<close>

subsection \<open>The interfaces of the repositories\<close>

text \<open>
  One constructor per member function, with its arguments but for the output. The changes of privileges have
  the arguments of the direct write interface and share its datatypes.
\<close>

datatype (plugins only: size) retrieve_users_by = UsersByName | UsersByCreated | UsersByLastSeen | UsersByThreadCount | UsersByMessageCount

datatype (plugins only: size) retrieve_threads_by = ThreadsByName | ThreadsByCreated | ThreadsByLastUpdated | ThreadsByLatestMessageCreated | ThreadsByMessageCount

datatype (plugins only: size) retrieve_tags_by = TagsByName | TagsByThreadCount | TagsByMessageCount

datatype (plugins only: size) retrieve_categories_by = CategoriesByName | CategoriesByMessageCount

datatype (plugins only: size) retrieve_attachments_by = AttachmentsByCreated | AttachmentsByName | AttachmentsBySize | AttachmentsByApproval

datatype (plugins only: size) user_service =
    User_getCurrentUser
  | User_getUsers retrieve_users_by
  | User_getUsersOnline
  | User_getUserById id_type
  | User_getUserByName string
  | User_getMultipleUsersById string
  | User_getMultipleUsersByName string
  | User_searchUsersByName string
  | User_getUserLogo id_type
  | User_getUserVoteHistory
  | User_getUserQuotedHistory
  | User_getReceivedPrivateMessages
  | User_getSentPrivateMessages
  | User_addNewUser string string
  | User_changeUserName id_type string
  | User_changeUserInfo id_type string
  | User_changeUserTitle id_type string
  | User_changeUserSignature id_type string
  | User_changeUserAttachmentQuota id_type "64 word"
  | User_changeUserLogo id_type string
  | User_deleteUserLogo id_type
  | User_deleteUser id_type
  | User_sendPrivateMessage id_type string
  | User_deletePrivateMessage id_type

datatype (plugins only: size) thread_service =
    Thread_getDiscussionThreads retrieve_threads_by
  | Thread_getDiscussionThreadById id_type
  | Thread_getMultipleDiscussionThreadsById string
  | Thread_searchDiscussionThreadsByName string
  | Thread_getDiscussionThreadsOfUser id_type retrieve_threads_by
  | Thread_getSubscribedDiscussionThreadsOfUser id_type retrieve_threads_by
  | Thread_getUsersSubscribedToDiscussionThread id_type
  | Thread_getDiscussionThreadsWithTag id_type retrieve_threads_by
  | Thread_getDiscussionThreadsOfCategory id_type retrieve_threads_by
  | Thread_addNewDiscussionThread string
  | Thread_changeDiscussionThreadName id_type string
  | Thread_changeDiscussionThreadPinDisplayOrder id_type "16 word"
  | Thread_changeDiscussionThreadApproval id_type bool
  | Thread_deleteDiscussionThread id_type
  | Thread_mergeDiscussionThreads id_type id_type
  | Thread_subscribeToDiscussionThread id_type
  | Thread_unsubscribeFromDiscussionThread id_type

datatype (plugins only: size) message_service =
    Message_getMultipleDiscussionThreadMessagesById string
  | Message_getDiscussionThreadMessagesOfUserByCreated id_type
  | Message_getDiscussionThreadMessageRank id_type
  | Message_getMessageComments
  | Message_getMessageCommentsOfDiscussionThreadMessage id_type
  | Message_getMessageCommentsOfUser id_type
  | Message_getLatestDiscussionThreadMessages
  | Message_addNewDiscussionMessageInThread id_type string
  | Message_deleteDiscussionMessage id_type
  | Message_changeDiscussionThreadMessageContent id_type string string
  | Message_changeDiscussionThreadMessageApproval id_type bool
  | Message_moveDiscussionThreadMessage id_type id_type
  | Message_upVoteDiscussionThreadMessage id_type
  | Message_downVoteDiscussionThreadMessage id_type
  | Message_resetVoteDiscussionThreadMessage id_type
  | Message_addCommentToDiscussionThreadMessage id_type string
  | Message_setMessageCommentToSolved id_type

datatype (plugins only: size) tag_service =
    Tag_getDiscussionTags retrieve_tags_by
  | Tag_addNewDiscussionTag string
  | Tag_changeDiscussionTagName id_type string
  | Tag_changeDiscussionTagUiBlob id_type string
  | Tag_deleteDiscussionTag id_type
  | Tag_addDiscussionTagToThread id_type id_type
  | Tag_removeDiscussionTagFromThread id_type id_type
  | Tag_mergeDiscussionTags id_type id_type

datatype (plugins only: size) category_service =
    Category_getDiscussionCategoryById id_type
  | Category_getDiscussionCategories retrieve_categories_by
  | Category_getDiscussionCategoriesFromRoot
  | Category_addNewDiscussionCategory string id_type
  | Category_changeDiscussionCategoryName id_type string
  | Category_changeDiscussionCategoryDescription id_type string
  | Category_changeDiscussionCategoryParent id_type id_type
  | Category_changeDiscussionCategoryDisplayOrder id_type "64 word"
  | Category_deleteDiscussionCategory id_type
  | Category_addDiscussionTagToCategory id_type id_type
  | Category_removeDiscussionTagFromCategory id_type id_type

datatype (plugins only: size) attachment_service =
    Attachment_getAttachments retrieve_attachments_by
  | Attachment_getAttachmentsOfUser id_type retrieve_attachments_by
  | Attachment_canGetAttachment id_type
  | Attachment_getAttachment id_type
  | Attachment_canAddAttachment
  | Attachment_addNewAttachment string "64 word"
  | Attachment_changeAttachmentName id_type string
  | Attachment_changeAttachmentApproval id_type bool
  | Attachment_deleteAttachment id_type
  | Attachment_addAttachmentToDiscussionThreadMessage id_type id_type
  | Attachment_removeAttachmentFromDiscussionThreadMessage id_type id_type

datatype (plugins only: size) authorization_service =
    Authorization_getRequiredPrivilegesForThreadMessage id_type
  | Authorization_getAssignedPrivilegesForThreadMessage id_type
  | Authorization_getRequiredPrivilegesForThread id_type
  | Authorization_getAssignedPrivilegesForThread id_type
  | Authorization_getRequiredPrivilegesForTag id_type
  | Authorization_getAssignedPrivilegesForTag id_type
  | Authorization_getRequiredPrivilegesForCategory id_type
  | Authorization_getAssignedPrivilegesForCategory id_type
  | Authorization_getForumWideCurrentUserPrivileges
  | Authorization_getForumWideRequiredPrivileges
  | Authorization_getForumWideDefaultPrivilegeLevels
  | Authorization_getForumWideAssignedPrivileges
  | Authorization_getAssignedPrivilegesForUser id_type
  | Authorization_required required_privilege_call
  | Authorization_assign assign_privilege_call

datatype (plugins only: size) statistics_service =
    Statistics_getEntitiesCount

datatype (plugins only: size) metrics_service =
    Metrics_getVersion

datatype (plugins only: size) service_call =
    UserService user_service
  | ThreadService thread_service
  | MessageService message_service
  | TagService tag_service
  | CategoryService category_service
  | AttachmentService attachment_service
  | AuthorizationService authorization_service
  | StatisticsService statistics_service
  | MetricsService metrics_service

subsection \<open>Commands and views\<close>

type_synonym command = nat

definition Command_ADD_USER :: command where "Command_ADD_USER = 0"
definition Command_CHANGE_USER_NAME :: command where "Command_CHANGE_USER_NAME = 1"
definition Command_CHANGE_USER_INFO :: command where "Command_CHANGE_USER_INFO = 2"
definition Command_CHANGE_USER_TITLE :: command where "Command_CHANGE_USER_TITLE = 3"
definition Command_CHANGE_USER_SIGNATURE :: command where "Command_CHANGE_USER_SIGNATURE = 4"
definition Command_CHANGE_USER_ATTACHMENT_QUOTA :: command where "Command_CHANGE_USER_ATTACHMENT_QUOTA = 5"
definition Command_CHANGE_USER_LOGO :: command where "Command_CHANGE_USER_LOGO = 6"
definition Command_DELETE_USER_LOGO :: command where "Command_DELETE_USER_LOGO = 7"
definition Command_DELETE_USER :: command where "Command_DELETE_USER = 8"
definition Command_SEND_PRIVATE_MESSAGE :: command where "Command_SEND_PRIVATE_MESSAGE = 9"
definition Command_DELETE_PRIVATE_MESSAGE :: command where "Command_DELETE_PRIVATE_MESSAGE = 10"
definition Command_ADD_DISCUSSION_THREAD :: command where "Command_ADD_DISCUSSION_THREAD = 11"
definition Command_CHANGE_DISCUSSION_THREAD_NAME :: command where "Command_CHANGE_DISCUSSION_THREAD_NAME = 12"
definition Command_CHANGE_DISCUSSION_THREAD_PIN_DISPLAY_ORDER :: command where "Command_CHANGE_DISCUSSION_THREAD_PIN_DISPLAY_ORDER = 13"
definition Command_CHANGE_DISCUSSION_THREAD_APPROVAL :: command where "Command_CHANGE_DISCUSSION_THREAD_APPROVAL = 14"
definition Command_DELETE_DISCUSSION_THREAD :: command where "Command_DELETE_DISCUSSION_THREAD = 15"
definition Command_MERGE_DISCUSSION_THREADS :: command where "Command_MERGE_DISCUSSION_THREADS = 16"
definition Command_ADD_DISCUSSION_THREAD_MESSAGE :: command where "Command_ADD_DISCUSSION_THREAD_MESSAGE = 17"
definition Command_DELETE_DISCUSSION_THREAD_MESSAGE :: command where "Command_DELETE_DISCUSSION_THREAD_MESSAGE = 18"
definition Command_CHANGE_DISCUSSION_THREAD_MESSAGE_CONTENT :: command where "Command_CHANGE_DISCUSSION_THREAD_MESSAGE_CONTENT = 19"
definition Command_CHANGE_DISCUSSION_THREAD_MESSAGE_APPROVAL :: command where "Command_CHANGE_DISCUSSION_THREAD_MESSAGE_APPROVAL = 20"
definition Command_MOVE_DISCUSSION_THREAD_MESSAGE :: command where "Command_MOVE_DISCUSSION_THREAD_MESSAGE = 21"
definition Command_UP_VOTE_DISCUSSION_THREAD_MESSAGE :: command where "Command_UP_VOTE_DISCUSSION_THREAD_MESSAGE = 22"
definition Command_DOWN_VOTE_DISCUSSION_THREAD_MESSAGE :: command where "Command_DOWN_VOTE_DISCUSSION_THREAD_MESSAGE = 23"
definition Command_RESET_VOTE_DISCUSSION_THREAD_MESSAGE :: command where "Command_RESET_VOTE_DISCUSSION_THREAD_MESSAGE = 24"
definition Command_SUBSCRIBE_TO_THREAD :: command where "Command_SUBSCRIBE_TO_THREAD = 25"
definition Command_UNSUBSCRIBE_FROM_THREAD :: command where "Command_UNSUBSCRIBE_FROM_THREAD = 26"
definition Command_ADD_COMMENT_TO_DISCUSSION_THREAD_MESSAGE :: command where "Command_ADD_COMMENT_TO_DISCUSSION_THREAD_MESSAGE = 27"
definition Command_SET_MESSAGE_COMMENT_SOLVED :: command where "Command_SET_MESSAGE_COMMENT_SOLVED = 28"
definition Command_ADD_DISCUSSION_TAG :: command where "Command_ADD_DISCUSSION_TAG = 29"
definition Command_CHANGE_DISCUSSION_TAG_NAME :: command where "Command_CHANGE_DISCUSSION_TAG_NAME = 30"
definition Command_CHANGE_DISCUSSION_TAG_UI_BLOB :: command where "Command_CHANGE_DISCUSSION_TAG_UI_BLOB = 31"
definition Command_DELETE_DISCUSSION_TAG :: command where "Command_DELETE_DISCUSSION_TAG = 32"
definition Command_ADD_DISCUSSION_TAG_TO_THREAD :: command where "Command_ADD_DISCUSSION_TAG_TO_THREAD = 33"
definition Command_REMOVE_DISCUSSION_TAG_FROM_THREAD :: command where "Command_REMOVE_DISCUSSION_TAG_FROM_THREAD = 34"
definition Command_MERGE_DISCUSSION_TAG_INTO_OTHER_TAG :: command where "Command_MERGE_DISCUSSION_TAG_INTO_OTHER_TAG = 35"
definition Command_ADD_DISCUSSION_CATEGORY :: command where "Command_ADD_DISCUSSION_CATEGORY = 36"
definition Command_CHANGE_DISCUSSION_CATEGORY_NAME :: command where "Command_CHANGE_DISCUSSION_CATEGORY_NAME = 37"
definition Command_CHANGE_DISCUSSION_CATEGORY_DESCRIPTION :: command where "Command_CHANGE_DISCUSSION_CATEGORY_DESCRIPTION = 38"
definition Command_CHANGE_DISCUSSION_CATEGORY_PARENT :: command where "Command_CHANGE_DISCUSSION_CATEGORY_PARENT = 39"
definition Command_CHANGE_DISCUSSION_CATEGORY_DISPLAY_ORDER :: command where "Command_CHANGE_DISCUSSION_CATEGORY_DISPLAY_ORDER = 40"
definition Command_DELETE_DISCUSSION_CATEGORY :: command where "Command_DELETE_DISCUSSION_CATEGORY = 41"
definition Command_ADD_DISCUSSION_TAG_TO_CATEGORY :: command where "Command_ADD_DISCUSSION_TAG_TO_CATEGORY = 42"
definition Command_REMOVE_DISCUSSION_TAG_FROM_CATEGORY :: command where "Command_REMOVE_DISCUSSION_TAG_FROM_CATEGORY = 43"
definition Command_ADD_ATTACHMENT :: command where "Command_ADD_ATTACHMENT = 44"
definition Command_DELETE_ATTACHMENT :: command where "Command_DELETE_ATTACHMENT = 45"
definition Command_CHANGE_ATTACHMENT_NAME :: command where "Command_CHANGE_ATTACHMENT_NAME = 46"
definition Command_CHANGE_ATTACHMENT_APPROVAL :: command where "Command_CHANGE_ATTACHMENT_APPROVAL = 47"
definition Command_ADD_ATTACHMENT_TO_DISCUSSION_THREAD_MESSAGE :: command where "Command_ADD_ATTACHMENT_TO_DISCUSSION_THREAD_MESSAGE = 48"
definition Command_REMOVE_ATTACHMENT_FROM_DISCUSSION_THREAD_MESSAGE :: command where "Command_REMOVE_ATTACHMENT_FROM_DISCUSSION_THREAD_MESSAGE = 49"
definition Command_CHANGE_DISCUSSION_THREAD_MESSAGE_REQUIRED_PRIVILEGE_FOR_THREAD_MESSAGE :: command where "Command_CHANGE_DISCUSSION_THREAD_MESSAGE_REQUIRED_PRIVILEGE_FOR_THREAD_MESSAGE = 50"
definition Command_CHANGE_DISCUSSION_THREAD_MESSAGE_REQUIRED_PRIVILEGE_FOR_THREAD :: command where "Command_CHANGE_DISCUSSION_THREAD_MESSAGE_REQUIRED_PRIVILEGE_FOR_THREAD = 51"
definition Command_CHANGE_DISCUSSION_THREAD_REQUIRED_PRIVILEGE_FOR_THREAD :: command where "Command_CHANGE_DISCUSSION_THREAD_REQUIRED_PRIVILEGE_FOR_THREAD = 52"
definition Command_CHANGE_DISCUSSION_THREAD_MESSAGE_REQUIRED_PRIVILEGE_FOR_TAG :: command where "Command_CHANGE_DISCUSSION_THREAD_MESSAGE_REQUIRED_PRIVILEGE_FOR_TAG = 53"
definition Command_CHANGE_DISCUSSION_THREAD_REQUIRED_PRIVILEGE_FOR_TAG :: command where "Command_CHANGE_DISCUSSION_THREAD_REQUIRED_PRIVILEGE_FOR_TAG = 54"
definition Command_CHANGE_DISCUSSION_TAG_REQUIRED_PRIVILEGE_FOR_TAG :: command where "Command_CHANGE_DISCUSSION_TAG_REQUIRED_PRIVILEGE_FOR_TAG = 55"
definition Command_CHANGE_DISCUSSION_CATEGORY_REQUIRED_PRIVILEGE_FOR_CATEGORY :: command where "Command_CHANGE_DISCUSSION_CATEGORY_REQUIRED_PRIVILEGE_FOR_CATEGORY = 56"
definition Command_CHANGE_DISCUSSION_THREAD_MESSAGE_REQUIRED_PRIVILEGE :: command where "Command_CHANGE_DISCUSSION_THREAD_MESSAGE_REQUIRED_PRIVILEGE = 57"
definition Command_CHANGE_DISCUSSION_THREAD_REQUIRED_PRIVILEGE :: command where "Command_CHANGE_DISCUSSION_THREAD_REQUIRED_PRIVILEGE = 58"
definition Command_CHANGE_DISCUSSION_TAG_REQUIRED_PRIVILEGE :: command where "Command_CHANGE_DISCUSSION_TAG_REQUIRED_PRIVILEGE = 59"
definition Command_CHANGE_DISCUSSION_CATEGORY_REQUIRED_PRIVILEGE :: command where "Command_CHANGE_DISCUSSION_CATEGORY_REQUIRED_PRIVILEGE = 60"
definition Command_CHANGE_FORUM_WIDE_REQUIRED_PRIVILEGE :: command where "Command_CHANGE_FORUM_WIDE_REQUIRED_PRIVILEGE = 61"
definition Command_CHANGE_FORUM_WIDE_DEFAULT_PRIVILEGE_LEVEL :: command where "Command_CHANGE_FORUM_WIDE_DEFAULT_PRIVILEGE_LEVEL = 62"
definition Command_ASSIGN_DISCUSSION_THREAD_MESSAGE_PRIVILEGE :: command where "Command_ASSIGN_DISCUSSION_THREAD_MESSAGE_PRIVILEGE = 63"
definition Command_ASSIGN_DISCUSSION_THREAD_PRIVILEGE :: command where "Command_ASSIGN_DISCUSSION_THREAD_PRIVILEGE = 64"
definition Command_ASSIGN_DISCUSSION_TAG_PRIVILEGE :: command where "Command_ASSIGN_DISCUSSION_TAG_PRIVILEGE = 65"
definition Command_ASSIGN_DISCUSSION_CATEGORY_PRIVILEGE :: command where "Command_ASSIGN_DISCUSSION_CATEGORY_PRIVILEGE = 66"
definition Command_ASSIGN_FORUM_WIDE_PRIVILEGE :: command where "Command_ASSIGN_FORUM_WIDE_PRIVILEGE = 67"
definition Command_LAST_COMMAND :: command where "Command_LAST_COMMAND = 68"

lemmas command_numbers =
  Command_ADD_USER_def Command_CHANGE_USER_NAME_def Command_CHANGE_USER_INFO_def Command_CHANGE_USER_TITLE_def
  Command_CHANGE_USER_SIGNATURE_def Command_CHANGE_USER_ATTACHMENT_QUOTA_def Command_CHANGE_USER_LOGO_def
  Command_DELETE_USER_LOGO_def Command_DELETE_USER_def Command_SEND_PRIVATE_MESSAGE_def
  Command_DELETE_PRIVATE_MESSAGE_def Command_ADD_DISCUSSION_THREAD_def Command_CHANGE_DISCUSSION_THREAD_NAME_def
  Command_CHANGE_DISCUSSION_THREAD_PIN_DISPLAY_ORDER_def Command_CHANGE_DISCUSSION_THREAD_APPROVAL_def
  Command_DELETE_DISCUSSION_THREAD_def Command_MERGE_DISCUSSION_THREADS_def
  Command_ADD_DISCUSSION_THREAD_MESSAGE_def Command_DELETE_DISCUSSION_THREAD_MESSAGE_def
  Command_CHANGE_DISCUSSION_THREAD_MESSAGE_CONTENT_def Command_CHANGE_DISCUSSION_THREAD_MESSAGE_APPROVAL_def
  Command_MOVE_DISCUSSION_THREAD_MESSAGE_def Command_UP_VOTE_DISCUSSION_THREAD_MESSAGE_def
  Command_DOWN_VOTE_DISCUSSION_THREAD_MESSAGE_def Command_RESET_VOTE_DISCUSSION_THREAD_MESSAGE_def
  Command_SUBSCRIBE_TO_THREAD_def Command_UNSUBSCRIBE_FROM_THREAD_def
  Command_ADD_COMMENT_TO_DISCUSSION_THREAD_MESSAGE_def Command_SET_MESSAGE_COMMENT_SOLVED_def
  Command_ADD_DISCUSSION_TAG_def Command_CHANGE_DISCUSSION_TAG_NAME_def
  Command_CHANGE_DISCUSSION_TAG_UI_BLOB_def Command_DELETE_DISCUSSION_TAG_def
  Command_ADD_DISCUSSION_TAG_TO_THREAD_def Command_REMOVE_DISCUSSION_TAG_FROM_THREAD_def
  Command_MERGE_DISCUSSION_TAG_INTO_OTHER_TAG_def Command_ADD_DISCUSSION_CATEGORY_def
  Command_CHANGE_DISCUSSION_CATEGORY_NAME_def Command_CHANGE_DISCUSSION_CATEGORY_DESCRIPTION_def
  Command_CHANGE_DISCUSSION_CATEGORY_PARENT_def Command_CHANGE_DISCUSSION_CATEGORY_DISPLAY_ORDER_def
  Command_DELETE_DISCUSSION_CATEGORY_def Command_ADD_DISCUSSION_TAG_TO_CATEGORY_def
  Command_REMOVE_DISCUSSION_TAG_FROM_CATEGORY_def Command_ADD_ATTACHMENT_def Command_DELETE_ATTACHMENT_def
  Command_CHANGE_ATTACHMENT_NAME_def Command_CHANGE_ATTACHMENT_APPROVAL_def
  Command_ADD_ATTACHMENT_TO_DISCUSSION_THREAD_MESSAGE_def
  Command_REMOVE_ATTACHMENT_FROM_DISCUSSION_THREAD_MESSAGE_def
  Command_CHANGE_DISCUSSION_THREAD_MESSAGE_REQUIRED_PRIVILEGE_FOR_THREAD_MESSAGE_def
  Command_CHANGE_DISCUSSION_THREAD_MESSAGE_REQUIRED_PRIVILEGE_FOR_THREAD_def
  Command_CHANGE_DISCUSSION_THREAD_REQUIRED_PRIVILEGE_FOR_THREAD_def
  Command_CHANGE_DISCUSSION_THREAD_MESSAGE_REQUIRED_PRIVILEGE_FOR_TAG_def
  Command_CHANGE_DISCUSSION_THREAD_REQUIRED_PRIVILEGE_FOR_TAG_def
  Command_CHANGE_DISCUSSION_TAG_REQUIRED_PRIVILEGE_FOR_TAG_def
  Command_CHANGE_DISCUSSION_CATEGORY_REQUIRED_PRIVILEGE_FOR_CATEGORY_def
  Command_CHANGE_DISCUSSION_THREAD_MESSAGE_REQUIRED_PRIVILEGE_def
  Command_CHANGE_DISCUSSION_THREAD_REQUIRED_PRIVILEGE_def Command_CHANGE_DISCUSSION_TAG_REQUIRED_PRIVILEGE_def
  Command_CHANGE_DISCUSSION_CATEGORY_REQUIRED_PRIVILEGE_def Command_CHANGE_FORUM_WIDE_REQUIRED_PRIVILEGE_def
  Command_CHANGE_FORUM_WIDE_DEFAULT_PRIVILEGE_LEVEL_def Command_ASSIGN_DISCUSSION_THREAD_MESSAGE_PRIVILEGE_def
  Command_ASSIGN_DISCUSSION_THREAD_PRIVILEGE_def Command_ASSIGN_DISCUSSION_TAG_PRIVILEGE_def
  Command_ASSIGN_DISCUSSION_CATEGORY_PRIVILEGE_def Command_ASSIGN_FORUM_WIDE_PRIVILEGE_def
  Command_LAST_COMMAND_def

type_synonym view = nat

definition View_SHOW_VERSION :: view where "View_SHOW_VERSION = 0"
definition View_COUNT_ENTITIES :: view where "View_COUNT_ENTITIES = 1"
definition View_GET_CURRENT_USER :: view where "View_GET_CURRENT_USER = 2"
definition View_GET_USERS_BY_NAME :: view where "View_GET_USERS_BY_NAME = 3"
definition View_GET_USERS_BY_CREATED :: view where "View_GET_USERS_BY_CREATED = 4"
definition View_GET_USERS_BY_LAST_SEEN :: view where "View_GET_USERS_BY_LAST_SEEN = 5"
definition View_GET_USERS_BY_THREAD_COUNT :: view where "View_GET_USERS_BY_THREAD_COUNT = 6"
definition View_GET_USERS_BY_MESSAGE_COUNT :: view where "View_GET_USERS_BY_MESSAGE_COUNT = 7"
definition View_GET_USERS_ONLINE :: view where "View_GET_USERS_ONLINE = 8"
definition View_GET_USER_BY_ID :: view where "View_GET_USER_BY_ID = 9"
definition View_GET_USER_BY_NAME :: view where "View_GET_USER_BY_NAME = 10"
definition View_GET_MULTIPLE_USERS_BY_ID :: view where "View_GET_MULTIPLE_USERS_BY_ID = 11"
definition View_GET_MULTIPLE_USERS_BY_NAME :: view where "View_GET_MULTIPLE_USERS_BY_NAME = 12"
definition View_SEARCH_USERS_BY_NAME :: view where "View_SEARCH_USERS_BY_NAME = 13"
definition View_GET_USER_LOGO :: view where "View_GET_USER_LOGO = 14"
definition View_GET_USER_VOTE_HISTORY :: view where "View_GET_USER_VOTE_HISTORY = 15"
definition View_GET_USER_QUOTED_HISTORY :: view where "View_GET_USER_QUOTED_HISTORY = 16"
definition View_GET_USER_RECEIVED_PRIVATE_MESSAGES :: view where "View_GET_USER_RECEIVED_PRIVATE_MESSAGES = 17"
definition View_GET_USER_SENT_PRIVATE_MESSAGES :: view where "View_GET_USER_SENT_PRIVATE_MESSAGES = 18"
definition View_GET_DISCUSSION_THREADS_BY_NAME :: view where "View_GET_DISCUSSION_THREADS_BY_NAME = 19"
definition View_GET_DISCUSSION_THREADS_BY_CREATED :: view where "View_GET_DISCUSSION_THREADS_BY_CREATED = 20"
definition View_GET_DISCUSSION_THREADS_BY_LAST_UPDATED :: view where "View_GET_DISCUSSION_THREADS_BY_LAST_UPDATED = 21"
definition View_GET_DISCUSSION_THREADS_BY_LATEST_MESSAGE_CREATED :: view where "View_GET_DISCUSSION_THREADS_BY_LATEST_MESSAGE_CREATED = 22"
definition View_GET_DISCUSSION_THREADS_BY_MESSAGE_COUNT :: view where "View_GET_DISCUSSION_THREADS_BY_MESSAGE_COUNT = 23"
definition View_GET_DISCUSSION_THREAD_BY_ID :: view where "View_GET_DISCUSSION_THREAD_BY_ID = 24"
definition View_GET_MULTIPLE_DISCUSSION_THREADS_BY_ID :: view where "View_GET_MULTIPLE_DISCUSSION_THREADS_BY_ID = 25"
definition View_SEARCH_DISCUSSION_THREADS_BY_NAME :: view where "View_SEARCH_DISCUSSION_THREADS_BY_NAME = 26"
definition View_GET_DISCUSSION_THREADS_OF_USER_BY_NAME :: view where "View_GET_DISCUSSION_THREADS_OF_USER_BY_NAME = 27"
definition View_GET_DISCUSSION_THREADS_OF_USER_BY_CREATED :: view where "View_GET_DISCUSSION_THREADS_OF_USER_BY_CREATED = 28"
definition View_GET_DISCUSSION_THREADS_OF_USER_BY_LAST_UPDATED :: view where "View_GET_DISCUSSION_THREADS_OF_USER_BY_LAST_UPDATED = 29"
definition View_GET_DISCUSSION_THREADS_OF_USER_BY_LATEST_MESSAGE_CREATED :: view where "View_GET_DISCUSSION_THREADS_OF_USER_BY_LATEST_MESSAGE_CREATED = 30"
definition View_GET_DISCUSSION_THREADS_OF_USER_BY_MESSAGE_COUNT :: view where "View_GET_DISCUSSION_THREADS_OF_USER_BY_MESSAGE_COUNT = 31"
definition View_GET_USERS_SUBSCRIBED_TO_DISCUSSION_THREAD :: view where "View_GET_USERS_SUBSCRIBED_TO_DISCUSSION_THREAD = 32"
definition View_GET_SUBSCRIBED_DISCUSSION_THREADS_OF_USER_BY_NAME :: view where "View_GET_SUBSCRIBED_DISCUSSION_THREADS_OF_USER_BY_NAME = 33"
definition View_GET_SUBSCRIBED_DISCUSSION_THREADS_OF_USER_BY_CREATED :: view where "View_GET_SUBSCRIBED_DISCUSSION_THREADS_OF_USER_BY_CREATED = 34"
definition View_GET_SUBSCRIBED_DISCUSSION_THREADS_OF_USER_BY_LAST_UPDATED :: view where "View_GET_SUBSCRIBED_DISCUSSION_THREADS_OF_USER_BY_LAST_UPDATED = 35"
definition View_GET_SUBSCRIBED_DISCUSSION_THREADS_OF_USER_BY_LATEST_MESSAGE_CREATED :: view where "View_GET_SUBSCRIBED_DISCUSSION_THREADS_OF_USER_BY_LATEST_MESSAGE_CREATED = 36"
definition View_GET_SUBSCRIBED_DISCUSSION_THREADS_OF_USER_BY_MESSAGE_COUNT :: view where "View_GET_SUBSCRIBED_DISCUSSION_THREADS_OF_USER_BY_MESSAGE_COUNT = 37"
definition View_GET_MULTIPLE_DISCUSSION_THREAD_MESSAGES_BY_ID :: view where "View_GET_MULTIPLE_DISCUSSION_THREAD_MESSAGES_BY_ID = 38"
definition View_GET_DISCUSSION_THREAD_MESSAGES_OF_USER_BY_CREATED :: view where "View_GET_DISCUSSION_THREAD_MESSAGES_OF_USER_BY_CREATED = 39"
definition View_GET_LATEST_DISCUSSION_THREAD_MESSAGES :: view where "View_GET_LATEST_DISCUSSION_THREAD_MESSAGES = 40"
definition View_GET_DISCUSSION_THREAD_MESSAGE_RANK :: view where "View_GET_DISCUSSION_THREAD_MESSAGE_RANK = 41"
definition View_GET_MESSAGE_COMMENTS :: view where "View_GET_MESSAGE_COMMENTS = 42"
definition View_GET_MESSAGE_COMMENTS_OF_DISCUSSION_THREAD_MESSAGE :: view where "View_GET_MESSAGE_COMMENTS_OF_DISCUSSION_THREAD_MESSAGE = 43"
definition View_GET_MESSAGE_COMMENTS_OF_USER :: view where "View_GET_MESSAGE_COMMENTS_OF_USER = 44"
definition View_GET_DISCUSSION_TAGS_BY_NAME :: view where "View_GET_DISCUSSION_TAGS_BY_NAME = 45"
definition View_GET_DISCUSSION_TAGS_BY_THREAD_COUNT :: view where "View_GET_DISCUSSION_TAGS_BY_THREAD_COUNT = 46"
definition View_GET_DISCUSSION_TAGS_BY_MESSAGE_COUNT :: view where "View_GET_DISCUSSION_TAGS_BY_MESSAGE_COUNT = 47"
definition View_GET_DISCUSSION_THREADS_WITH_TAG_BY_NAME :: view where "View_GET_DISCUSSION_THREADS_WITH_TAG_BY_NAME = 48"
definition View_GET_DISCUSSION_THREADS_WITH_TAG_BY_CREATED :: view where "View_GET_DISCUSSION_THREADS_WITH_TAG_BY_CREATED = 49"
definition View_GET_DISCUSSION_THREADS_WITH_TAG_BY_LAST_UPDATED :: view where "View_GET_DISCUSSION_THREADS_WITH_TAG_BY_LAST_UPDATED = 50"
definition View_GET_DISCUSSION_THREADS_WITH_TAG_BY_LATEST_MESSAGE_CREATED :: view where "View_GET_DISCUSSION_THREADS_WITH_TAG_BY_LATEST_MESSAGE_CREATED = 51"
definition View_GET_DISCUSSION_THREADS_WITH_TAG_BY_MESSAGE_COUNT :: view where "View_GET_DISCUSSION_THREADS_WITH_TAG_BY_MESSAGE_COUNT = 52"
definition View_GET_DISCUSSION_CATEGORY_BY_ID :: view where "View_GET_DISCUSSION_CATEGORY_BY_ID = 53"
definition View_GET_DISCUSSION_CATEGORIES_BY_NAME :: view where "View_GET_DISCUSSION_CATEGORIES_BY_NAME = 54"
definition View_GET_DISCUSSION_CATEGORIES_BY_MESSAGE_COUNT :: view where "View_GET_DISCUSSION_CATEGORIES_BY_MESSAGE_COUNT = 55"
definition View_GET_DISCUSSION_CATEGORIES_FROM_ROOT :: view where "View_GET_DISCUSSION_CATEGORIES_FROM_ROOT = 56"
definition View_GET_DISCUSSION_THREADS_OF_CATEGORY_BY_NAME :: view where "View_GET_DISCUSSION_THREADS_OF_CATEGORY_BY_NAME = 57"
definition View_GET_DISCUSSION_THREADS_OF_CATEGORY_BY_CREATED :: view where "View_GET_DISCUSSION_THREADS_OF_CATEGORY_BY_CREATED = 58"
definition View_GET_DISCUSSION_THREADS_OF_CATEGORY_BY_LAST_UPDATED :: view where "View_GET_DISCUSSION_THREADS_OF_CATEGORY_BY_LAST_UPDATED = 59"
definition View_GET_DISCUSSION_THREADS_OF_CATEGORY_BY_LATEST_MESSAGE_CREATED :: view where "View_GET_DISCUSSION_THREADS_OF_CATEGORY_BY_LATEST_MESSAGE_CREATED = 60"
definition View_GET_DISCUSSION_THREADS_OF_CATEGORY_BY_MESSAGE_COUNT :: view where "View_GET_DISCUSSION_THREADS_OF_CATEGORY_BY_MESSAGE_COUNT = 61"
definition View_GET_ATTACHMENTS_BY_CREATED :: view where "View_GET_ATTACHMENTS_BY_CREATED = 62"
definition View_GET_ATTACHMENTS_BY_NAME :: view where "View_GET_ATTACHMENTS_BY_NAME = 63"
definition View_GET_ATTACHMENTS_BY_SIZE :: view where "View_GET_ATTACHMENTS_BY_SIZE = 64"
definition View_GET_ATTACHMENTS_BY_APPROVAL :: view where "View_GET_ATTACHMENTS_BY_APPROVAL = 65"
definition View_GET_ATTACHMENTS_OF_USER_BY_CREATED :: view where "View_GET_ATTACHMENTS_OF_USER_BY_CREATED = 66"
definition View_GET_ATTACHMENTS_OF_USER_BY_NAME :: view where "View_GET_ATTACHMENTS_OF_USER_BY_NAME = 67"
definition View_GET_ATTACHMENTS_OF_USER_BY_SIZE :: view where "View_GET_ATTACHMENTS_OF_USER_BY_SIZE = 68"
definition View_GET_ATTACHMENTS_OF_USER_BY_APPROVAL :: view where "View_GET_ATTACHMENTS_OF_USER_BY_APPROVAL = 69"
definition View_CAN_GET_ATTACHMENT :: view where "View_CAN_GET_ATTACHMENT = 70"
definition View_GET_ATTACHMENT :: view where "View_GET_ATTACHMENT = 71"
definition View_CAN_ADD_ATTACHMENT :: view where "View_CAN_ADD_ATTACHMENT = 72"
definition View_GET_REQUIRED_PRIVILEGES_FOR_THREAD_MESSAGE :: view where "View_GET_REQUIRED_PRIVILEGES_FOR_THREAD_MESSAGE = 73"
definition View_GET_ASSIGNED_PRIVILEGES_FOR_THREAD_MESSAGE :: view where "View_GET_ASSIGNED_PRIVILEGES_FOR_THREAD_MESSAGE = 74"
definition View_GET_REQUIRED_PRIVILEGES_FOR_THREAD :: view where "View_GET_REQUIRED_PRIVILEGES_FOR_THREAD = 75"
definition View_GET_ASSIGNED_PRIVILEGES_FOR_THREAD :: view where "View_GET_ASSIGNED_PRIVILEGES_FOR_THREAD = 76"
definition View_GET_REQUIRED_PRIVILEGES_FOR_TAG :: view where "View_GET_REQUIRED_PRIVILEGES_FOR_TAG = 77"
definition View_GET_ASSIGNED_PRIVILEGES_FOR_TAG :: view where "View_GET_ASSIGNED_PRIVILEGES_FOR_TAG = 78"
definition View_GET_REQUIRED_PRIVILEGES_FOR_CATEGORY :: view where "View_GET_REQUIRED_PRIVILEGES_FOR_CATEGORY = 79"
definition View_GET_ASSIGNED_PRIVILEGES_FOR_CATEGORY :: view where "View_GET_ASSIGNED_PRIVILEGES_FOR_CATEGORY = 80"
definition View_GET_FORUM_WIDE_CURRENT_USER_PRIVILEGES :: view where "View_GET_FORUM_WIDE_CURRENT_USER_PRIVILEGES = 81"
definition View_GET_FORUM_WIDE_REQUIRED_PRIVILEGES :: view where "View_GET_FORUM_WIDE_REQUIRED_PRIVILEGES = 82"
definition View_GET_FORUM_WIDE_DEFAULT_PRIVILEGE_LEVELS :: view where "View_GET_FORUM_WIDE_DEFAULT_PRIVILEGE_LEVELS = 83"
definition View_GET_FORUM_WIDE_ASSIGNED_PRIVILEGES :: view where "View_GET_FORUM_WIDE_ASSIGNED_PRIVILEGES = 84"
definition View_GET_ASSIGNED_PRIVILEGES_FOR_USER :: view where "View_GET_ASSIGNED_PRIVILEGES_FOR_USER = 85"
definition View_LAST_VIEW :: view where "View_LAST_VIEW = 86"

lemmas view_numbers =
  View_SHOW_VERSION_def View_COUNT_ENTITIES_def View_GET_CURRENT_USER_def View_GET_USERS_BY_NAME_def
  View_GET_USERS_BY_CREATED_def View_GET_USERS_BY_LAST_SEEN_def View_GET_USERS_BY_THREAD_COUNT_def
  View_GET_USERS_BY_MESSAGE_COUNT_def View_GET_USERS_ONLINE_def View_GET_USER_BY_ID_def
  View_GET_USER_BY_NAME_def View_GET_MULTIPLE_USERS_BY_ID_def View_GET_MULTIPLE_USERS_BY_NAME_def
  View_SEARCH_USERS_BY_NAME_def View_GET_USER_LOGO_def View_GET_USER_VOTE_HISTORY_def
  View_GET_USER_QUOTED_HISTORY_def View_GET_USER_RECEIVED_PRIVATE_MESSAGES_def
  View_GET_USER_SENT_PRIVATE_MESSAGES_def View_GET_DISCUSSION_THREADS_BY_NAME_def
  View_GET_DISCUSSION_THREADS_BY_CREATED_def View_GET_DISCUSSION_THREADS_BY_LAST_UPDATED_def
  View_GET_DISCUSSION_THREADS_BY_LATEST_MESSAGE_CREATED_def View_GET_DISCUSSION_THREADS_BY_MESSAGE_COUNT_def
  View_GET_DISCUSSION_THREAD_BY_ID_def View_GET_MULTIPLE_DISCUSSION_THREADS_BY_ID_def
  View_SEARCH_DISCUSSION_THREADS_BY_NAME_def View_GET_DISCUSSION_THREADS_OF_USER_BY_NAME_def
  View_GET_DISCUSSION_THREADS_OF_USER_BY_CREATED_def View_GET_DISCUSSION_THREADS_OF_USER_BY_LAST_UPDATED_def
  View_GET_DISCUSSION_THREADS_OF_USER_BY_LATEST_MESSAGE_CREATED_def
  View_GET_DISCUSSION_THREADS_OF_USER_BY_MESSAGE_COUNT_def View_GET_USERS_SUBSCRIBED_TO_DISCUSSION_THREAD_def
  View_GET_SUBSCRIBED_DISCUSSION_THREADS_OF_USER_BY_NAME_def
  View_GET_SUBSCRIBED_DISCUSSION_THREADS_OF_USER_BY_CREATED_def
  View_GET_SUBSCRIBED_DISCUSSION_THREADS_OF_USER_BY_LAST_UPDATED_def
  View_GET_SUBSCRIBED_DISCUSSION_THREADS_OF_USER_BY_LATEST_MESSAGE_CREATED_def
  View_GET_SUBSCRIBED_DISCUSSION_THREADS_OF_USER_BY_MESSAGE_COUNT_def
  View_GET_MULTIPLE_DISCUSSION_THREAD_MESSAGES_BY_ID_def
  View_GET_DISCUSSION_THREAD_MESSAGES_OF_USER_BY_CREATED_def View_GET_LATEST_DISCUSSION_THREAD_MESSAGES_def
  View_GET_DISCUSSION_THREAD_MESSAGE_RANK_def View_GET_MESSAGE_COMMENTS_def
  View_GET_MESSAGE_COMMENTS_OF_DISCUSSION_THREAD_MESSAGE_def View_GET_MESSAGE_COMMENTS_OF_USER_def
  View_GET_DISCUSSION_TAGS_BY_NAME_def View_GET_DISCUSSION_TAGS_BY_THREAD_COUNT_def
  View_GET_DISCUSSION_TAGS_BY_MESSAGE_COUNT_def View_GET_DISCUSSION_THREADS_WITH_TAG_BY_NAME_def
  View_GET_DISCUSSION_THREADS_WITH_TAG_BY_CREATED_def View_GET_DISCUSSION_THREADS_WITH_TAG_BY_LAST_UPDATED_def
  View_GET_DISCUSSION_THREADS_WITH_TAG_BY_LATEST_MESSAGE_CREATED_def
  View_GET_DISCUSSION_THREADS_WITH_TAG_BY_MESSAGE_COUNT_def View_GET_DISCUSSION_CATEGORY_BY_ID_def
  View_GET_DISCUSSION_CATEGORIES_BY_NAME_def View_GET_DISCUSSION_CATEGORIES_BY_MESSAGE_COUNT_def
  View_GET_DISCUSSION_CATEGORIES_FROM_ROOT_def View_GET_DISCUSSION_THREADS_OF_CATEGORY_BY_NAME_def
  View_GET_DISCUSSION_THREADS_OF_CATEGORY_BY_CREATED_def
  View_GET_DISCUSSION_THREADS_OF_CATEGORY_BY_LAST_UPDATED_def
  View_GET_DISCUSSION_THREADS_OF_CATEGORY_BY_LATEST_MESSAGE_CREATED_def
  View_GET_DISCUSSION_THREADS_OF_CATEGORY_BY_MESSAGE_COUNT_def View_GET_ATTACHMENTS_BY_CREATED_def
  View_GET_ATTACHMENTS_BY_NAME_def View_GET_ATTACHMENTS_BY_SIZE_def View_GET_ATTACHMENTS_BY_APPROVAL_def
  View_GET_ATTACHMENTS_OF_USER_BY_CREATED_def View_GET_ATTACHMENTS_OF_USER_BY_NAME_def
  View_GET_ATTACHMENTS_OF_USER_BY_SIZE_def View_GET_ATTACHMENTS_OF_USER_BY_APPROVAL_def
  View_CAN_GET_ATTACHMENT_def View_GET_ATTACHMENT_def View_CAN_ADD_ATTACHMENT_def
  View_GET_REQUIRED_PRIVILEGES_FOR_THREAD_MESSAGE_def View_GET_ASSIGNED_PRIVILEGES_FOR_THREAD_MESSAGE_def
  View_GET_REQUIRED_PRIVILEGES_FOR_THREAD_def View_GET_ASSIGNED_PRIVILEGES_FOR_THREAD_def
  View_GET_REQUIRED_PRIVILEGES_FOR_TAG_def View_GET_ASSIGNED_PRIVILEGES_FOR_TAG_def
  View_GET_REQUIRED_PRIVILEGES_FOR_CATEGORY_def View_GET_ASSIGNED_PRIVILEGES_FOR_CATEGORY_def
  View_GET_FORUM_WIDE_CURRENT_USER_PRIVILEGES_def View_GET_FORUM_WIDE_REQUIRED_PRIVILEGES_def
  View_GET_FORUM_WIDE_DEFAULT_PRIVILEGE_LEVELS_def View_GET_FORUM_WIDE_ASSIGNED_PRIVILEGES_def
  View_GET_ASSIGNED_PRIVILEGES_FOR_USER_def View_LAST_VIEW_def

subsection \<open>Parameters\<close>

text \<open>
  \<open>env_lexical_convert\<close> takes the width of the integer type in bits and whether it is signed.
\<close>

record command_environment =
  env_normalizeNFC :: "string \<Rightarrow> string"
  env_lexical_convert :: "nat \<Rightarrow> bool \<Rightarrow> string \<Rightarrow> int option"
  env_currentUserAuth :: string

datatype (plugins only: size) handled = Called service_call | Answered status_code

type_synonym command_handler = "command_environment \<Rightarrow> string list \<Rightarrow> handled option"

definition countNonEmpty :: "string list \<Rightarrow> nat" where
  "countNonEmpty collection = length (filter (\<lambda>v. length v > 0) collection)"

definition checkNumberOfParameters :: "string list \<Rightarrow> nat \<Rightarrow> bool" where
  "checkNumberOfParameters ps number \<longleftrightarrow> countNonEmpty ps = number"

definition checkNumberOfParametersAtLeast :: "string list \<Rightarrow> nat \<Rightarrow> bool" where
  "checkNumberOfParametersAtLeast ps number \<longleftrightarrow> countNonEmpty ps \<ge> number"

definition checkMinNumberOfParameters :: "string list \<Rightarrow> nat \<Rightarrow> bool" where
  "checkMinNumberOfParameters ps number \<longleftrightarrow> countNonEmpty ps \<ge> number"

definition onlyASCII :: "string \<Rightarrow> bool" where
  "onlyASCII view \<longleftrightarrow> list_all (\<lambda>c. byte_code c < 128) view"

definition normalize :: "command_environment \<Rightarrow> string \<Rightarrow> string" where
  "normalize env input = (if onlyASCII input then input else if input = [] then input else env_normalizeNFC env input)"

text \<open>The early returns of the handlers.\<close>

definition called :: "service_call \<Rightarrow> handled option" where
  "called c = Some (Called c)"

definition checked :: "bool \<Rightarrow> handled option \<Rightarrow> handled option" where
  "checked ok k = (if \<not> ok then Some (Answered INVALID_PARAMETERS) else k)"

definition parameter :: "string list \<Rightarrow> nat \<Rightarrow> (string \<Rightarrow> handled option) \<Rightarrow> handled option" where
  "parameter ps i k = (if i < length ps then k (ps ! i) else None)"

definition optional_parameter :: "string list \<Rightarrow> nat \<Rightarrow> string" where
  "optional_parameter ps i = (if length ps > i then ps ! i else [])"

definition normalized ::
  "command_environment \<Rightarrow> string list \<Rightarrow> nat \<Rightarrow> (string \<Rightarrow> handled option) \<Rightarrow> handled option" where
  "normalized env ps i k =
     parameter ps i (\<lambda>p. let normalizedParam = normalize env p in checked (normalizedParam \<noteq> []) (k normalizedParam))"

definition convertTo ::
  "command_environment \<Rightarrow> nat \<Rightarrow> bool \<Rightarrow> string list \<Rightarrow> nat \<Rightarrow> (int \<Rightarrow> handled option) \<Rightarrow> handled option" where
  "convertTo env width is_signed ps i k =
     parameter ps i (\<lambda>p. case env_lexical_convert env width is_signed p of
                           None \<Rightarrow> Some (Answered INVALID_PARAMETERS) | Some v \<Rightarrow> k v)"

fun privilege_index :: "string \<Rightarrow> string list \<Rightarrow> nat option" where
  "privilege_index v [] = None"
| "privilege_index v (str # strings) = (if str = v then Some 0 else map_option Suc (privilege_index v strings))"

definition parsePrivilege :: "string list \<Rightarrow> nat \<Rightarrow> string list \<Rightarrow> (nat \<Rightarrow> handled option) \<Rightarrow> handled option" where
  "parsePrivilege ps i strings k =
     parameter ps i (\<lambda>p. case privilege_index p strings of
                           None \<Rightarrow> Some (Answered INVALID_PARAMETERS) | Some n \<Rightarrow> k n)"

subsection \<open>Handlers\<close>

definition impl_SHOW_VERSION :: command_handler where
  "impl_SHOW_VERSION env ps =
     called (MetricsService Metrics_getVersion)"

definition impl_COUNT_ENTITIES :: command_handler where
  "impl_COUNT_ENTITIES env ps =
     called (StatisticsService Statistics_getEntitiesCount)"

definition impl_ADD_USER :: command_handler where
  "impl_ADD_USER env ps =
     checked (checkNumberOfParameters ps 1) (
     normalized env ps 0 (\<lambda>normalizedParam.
     called (UserService (User_addNewUser normalizedParam (env_currentUserAuth env)))))"

definition impl_GET_CURRENT_USER :: command_handler where
  "impl_GET_CURRENT_USER env ps =
     called (UserService User_getCurrentUser)"

definition impl_GET_USERS_BY_NAME :: command_handler where
  "impl_GET_USERS_BY_NAME env ps =
     called (UserService (User_getUsers UsersByName))"

definition impl_GET_USERS_BY_CREATED :: command_handler where
  "impl_GET_USERS_BY_CREATED env ps =
     called (UserService (User_getUsers UsersByCreated))"

definition impl_GET_USERS_BY_LAST_SEEN :: command_handler where
  "impl_GET_USERS_BY_LAST_SEEN env ps =
     called (UserService (User_getUsers UsersByLastSeen))"

definition impl_GET_USERS_BY_THREAD_COUNT :: command_handler where
  "impl_GET_USERS_BY_THREAD_COUNT env ps =
     called (UserService (User_getUsers UsersByThreadCount))"

definition impl_GET_USERS_BY_MESSAGE_COUNT :: command_handler where
  "impl_GET_USERS_BY_MESSAGE_COUNT env ps =
     called (UserService (User_getUsers UsersByMessageCount))"

definition impl_GET_USERS_ONLINE :: command_handler where
  "impl_GET_USERS_ONLINE env ps =
     called (UserService User_getUsersOnline)"

definition impl_GET_USER_BY_ID :: command_handler where
  "impl_GET_USER_BY_ID env ps =
     checked (checkNumberOfParameters ps 1) (
     parameter ps 0 (\<lambda>p0.
     called (UserService (User_getUserById (UuidString p0)))))"

definition impl_GET_USER_BY_NAME :: command_handler where
  "impl_GET_USER_BY_NAME env ps =
     checked (checkNumberOfParameters ps 1) (
     normalized env ps 0 (\<lambda>normalizedParam.
     called (UserService (User_getUserByName normalizedParam))))"

definition impl_GET_MULTIPLE_USERS_BY_ID :: command_handler where
  "impl_GET_MULTIPLE_USERS_BY_ID env ps =
     checked (checkNumberOfParameters ps 1) (
     parameter ps 0 (\<lambda>p0.
     called (UserService (User_getMultipleUsersById p0))))"

definition impl_GET_MULTIPLE_USERS_BY_NAME :: command_handler where
  "impl_GET_MULTIPLE_USERS_BY_NAME env ps =
     checked (checkNumberOfParameters ps 1) (
     parameter ps 0 (\<lambda>p0.
     called (UserService (User_getMultipleUsersByName p0))))"

definition impl_SEARCH_USERS_BY_NAME :: command_handler where
  "impl_SEARCH_USERS_BY_NAME env ps =
     checked (checkNumberOfParameters ps 1) (
     normalized env ps 0 (\<lambda>normalizedParam.
     called (UserService (User_searchUsersByName normalizedParam))))"

definition impl_GET_USER_LOGO :: command_handler where
  "impl_GET_USER_LOGO env ps =
     checked (checkNumberOfParameters ps 1) (
     parameter ps 0 (\<lambda>p0.
     called (UserService (User_getUserLogo (UuidString p0)))))"

definition impl_GET_USER_VOTE_HISTORY :: command_handler where
  "impl_GET_USER_VOTE_HISTORY env ps =
     called (UserService User_getUserVoteHistory)"

definition impl_GET_USER_QUOTED_HISTORY :: command_handler where
  "impl_GET_USER_QUOTED_HISTORY env ps =
     called (UserService User_getUserQuotedHistory)"

definition impl_GET_USER_RECEIVED_PRIVATE_MESSAGES :: command_handler where
  "impl_GET_USER_RECEIVED_PRIVATE_MESSAGES env ps =
     called (UserService User_getReceivedPrivateMessages)"

definition impl_GET_USER_SENT_PRIVATE_MESSAGES :: command_handler where
  "impl_GET_USER_SENT_PRIVATE_MESSAGES env ps =
     called (UserService User_getSentPrivateMessages)"

definition impl_CHANGE_USER_NAME :: command_handler where
  "impl_CHANGE_USER_NAME env ps =
     checked (checkNumberOfParameters ps 2) (
     normalized env ps 1 (\<lambda>normalizedParam.
     parameter ps 0 (\<lambda>p0.
     called (UserService (User_changeUserName (UuidString p0) normalizedParam)))))"

definition impl_CHANGE_USER_INFO :: command_handler where
  "impl_CHANGE_USER_INFO env ps =
     checked (checkNumberOfParametersAtLeast ps 1) (
     parameter ps 1 (\<lambda>p. let normalizedParam = normalize env p in
     parameter ps 0 (\<lambda>p0.
     called (UserService (User_changeUserInfo (UuidString p0) normalizedParam)))))"

definition impl_CHANGE_USER_TITLE :: command_handler where
  "impl_CHANGE_USER_TITLE env ps =
     checked (checkNumberOfParametersAtLeast ps 1) (
     parameter ps 1 (\<lambda>p. let normalizedParam = normalize env p in
     parameter ps 0 (\<lambda>p0.
     called (UserService (User_changeUserTitle (UuidString p0) normalizedParam)))))"

definition impl_CHANGE_USER_SIGNATURE :: command_handler where
  "impl_CHANGE_USER_SIGNATURE env ps =
     checked (checkNumberOfParametersAtLeast ps 1) (
     parameter ps 1 (\<lambda>p. let normalizedParam = normalize env p in
     parameter ps 0 (\<lambda>p0.
     called (UserService (User_changeUserSignature (UuidString p0) normalizedParam)))))"

definition impl_CHANGE_USER_ATTACHMENT_QUOTA :: command_handler where
  "impl_CHANGE_USER_ATTACHMENT_QUOTA env ps =
     checked (checkNumberOfParametersAtLeast ps 1) (
     convertTo env 64 False ps 1 (\<lambda>newQuota.
     parameter ps 0 (\<lambda>p0.
     called (UserService (User_changeUserAttachmentQuota (UuidString p0) (word_of_int newQuota))))))"

definition impl_CHANGE_USER_LOGO :: command_handler where
  "impl_CHANGE_USER_LOGO env ps =
     checked (checkNumberOfParameters ps 2) (
     parameter ps 0 (\<lambda>p0.
     parameter ps 1 (\<lambda>p1.
     called (UserService (User_changeUserLogo (UuidString p0) p1)))))"

definition impl_DELETE_USER_LOGO :: command_handler where
  "impl_DELETE_USER_LOGO env ps =
     checked (checkNumberOfParameters ps 1) (
     parameter ps 0 (\<lambda>p0.
     called (UserService (User_deleteUserLogo (UuidString p0)))))"

definition impl_DELETE_USER :: command_handler where
  "impl_DELETE_USER env ps =
     checked (checkNumberOfParameters ps 1) (
     parameter ps 0 (\<lambda>p0.
     called (UserService (User_deleteUser (UuidString p0)))))"

definition impl_SEND_PRIVATE_MESSAGE :: command_handler where
  "impl_SEND_PRIVATE_MESSAGE env ps =
     checked (checkNumberOfParameters ps 2) (
     normalized env ps 1 (\<lambda>normalizedParam.
     parameter ps 0 (\<lambda>p0.
     called (UserService (User_sendPrivateMessage (UuidString p0) normalizedParam)))))"

definition impl_DELETE_PRIVATE_MESSAGE :: command_handler where
  "impl_DELETE_PRIVATE_MESSAGE env ps =
     checked (checkNumberOfParameters ps 1) (
     parameter ps 0 (\<lambda>p0.
     called (UserService (User_deletePrivateMessage (UuidString p0)))))"

definition impl_GET_DISCUSSION_THREADS_BY_NAME :: command_handler where
  "impl_GET_DISCUSSION_THREADS_BY_NAME env ps =
     called (ThreadService (Thread_getDiscussionThreads ThreadsByName))"

definition impl_GET_DISCUSSION_THREADS_BY_CREATED :: command_handler where
  "impl_GET_DISCUSSION_THREADS_BY_CREATED env ps =
     called (ThreadService (Thread_getDiscussionThreads ThreadsByCreated))"

definition impl_GET_DISCUSSION_THREADS_BY_LAST_UPDATED :: command_handler where
  "impl_GET_DISCUSSION_THREADS_BY_LAST_UPDATED env ps =
     called (ThreadService (Thread_getDiscussionThreads ThreadsByLastUpdated))"

definition impl_GET_DISCUSSION_THREADS_BY_LATEST_MESSAGE_CREATED :: command_handler where
  "impl_GET_DISCUSSION_THREADS_BY_LATEST_MESSAGE_CREATED env ps =
     called (ThreadService (Thread_getDiscussionThreads ThreadsByLatestMessageCreated))"

definition impl_GET_DISCUSSION_THREADS_BY_MESSAGE_COUNT :: command_handler where
  "impl_GET_DISCUSSION_THREADS_BY_MESSAGE_COUNT env ps =
     called (ThreadService (Thread_getDiscussionThreads ThreadsByMessageCount))"

definition impl_ADD_DISCUSSION_THREAD :: command_handler where
  "impl_ADD_DISCUSSION_THREAD env ps =
     checked (checkNumberOfParameters ps 1) (
     normalized env ps 0 (\<lambda>normalizedParam.
     called (ThreadService (Thread_addNewDiscussionThread normalizedParam))))"

definition impl_GET_DISCUSSION_THREAD_BY_ID :: command_handler where
  "impl_GET_DISCUSSION_THREAD_BY_ID env ps =
     checked (checkNumberOfParameters ps 1) (
     parameter ps 0 (\<lambda>p0.
     called (ThreadService (Thread_getDiscussionThreadById (UuidString p0)))))"

definition impl_GET_MULTIPLE_DISCUSSION_THREADS_BY_ID :: command_handler where
  "impl_GET_MULTIPLE_DISCUSSION_THREADS_BY_ID env ps =
     checked (checkNumberOfParameters ps 1) (
     parameter ps 0 (\<lambda>p0.
     called (ThreadService (Thread_getMultipleDiscussionThreadsById p0))))"

definition impl_SEARCH_DISCUSSION_THREADS_BY_NAME :: command_handler where
  "impl_SEARCH_DISCUSSION_THREADS_BY_NAME env ps =
     checked (checkNumberOfParameters ps 1) (
     normalized env ps 0 (\<lambda>normalizedParam.
     called (ThreadService (Thread_searchDiscussionThreadsByName normalizedParam))))"

definition impl_CHANGE_DISCUSSION_THREAD_NAME :: command_handler where
  "impl_CHANGE_DISCUSSION_THREAD_NAME env ps =
     checked (checkNumberOfParameters ps 2) (
     normalized env ps 1 (\<lambda>normalizedParam.
     parameter ps 0 (\<lambda>p0.
     called (ThreadService (Thread_changeDiscussionThreadName (UuidString p0) normalizedParam)))))"

definition impl_CHANGE_DISCUSSION_THREAD_PIN_DISPLAY_ORDER :: command_handler where
  "impl_CHANGE_DISCUSSION_THREAD_PIN_DISPLAY_ORDER env ps =
     checked (checkNumberOfParameters ps 2) (
     convertTo env 16 False ps 1 (\<lambda>newDisplayOrder.
     parameter ps 0 (\<lambda>p0.
     called (ThreadService (Thread_changeDiscussionThreadPinDisplayOrder (UuidString p0) (word_of_int newDisplayOrder))))))"

definition impl_CHANGE_DISCUSSION_THREAD_APPROVAL :: command_handler where
  "impl_CHANGE_DISCUSSION_THREAD_APPROVAL env ps =
     checked (checkMinNumberOfParameters ps 2) (
     parameter ps 0 (\<lambda>p0.
     parameter ps 1 (\<lambda>p1.
     called (ThreadService (Thread_changeDiscussionThreadApproval (UuidString p0) (''true'' = p1))))))"

definition impl_DELETE_DISCUSSION_THREAD :: command_handler where
  "impl_DELETE_DISCUSSION_THREAD env ps =
     checked (checkNumberOfParameters ps 1) (
     parameter ps 0 (\<lambda>p0.
     called (ThreadService (Thread_deleteDiscussionThread (UuidString p0)))))"

definition impl_MERGE_DISCUSSION_THREADS :: command_handler where
  "impl_MERGE_DISCUSSION_THREADS env ps =
     checked (checkNumberOfParameters ps 2) (
     parameter ps 0 (\<lambda>p0.
     parameter ps 1 (\<lambda>p1.
     called (ThreadService (Thread_mergeDiscussionThreads (UuidString p0) (UuidString p1))))))"

definition impl_GET_DISCUSSION_THREADS_OF_USER_BY_NAME :: command_handler where
  "impl_GET_DISCUSSION_THREADS_OF_USER_BY_NAME env ps =
     checked (checkNumberOfParameters ps 1) (
     parameter ps 0 (\<lambda>p0.
     called (ThreadService (Thread_getDiscussionThreadsOfUser (UuidString p0) ThreadsByName))))"

definition impl_GET_DISCUSSION_THREADS_OF_USER_BY_CREATED :: command_handler where
  "impl_GET_DISCUSSION_THREADS_OF_USER_BY_CREATED env ps =
     checked (checkNumberOfParameters ps 1) (
     parameter ps 0 (\<lambda>p0.
     called (ThreadService (Thread_getDiscussionThreadsOfUser (UuidString p0) ThreadsByCreated))))"

definition impl_GET_DISCUSSION_THREADS_OF_USER_BY_LAST_UPDATED :: command_handler where
  "impl_GET_DISCUSSION_THREADS_OF_USER_BY_LAST_UPDATED env ps =
     checked (checkNumberOfParameters ps 1) (
     parameter ps 0 (\<lambda>p0.
     called (ThreadService (Thread_getDiscussionThreadsOfUser (UuidString p0) ThreadsByLastUpdated))))"

definition impl_GET_DISCUSSION_THREADS_OF_USER_BY_LATEST_MESSAGE_CREATED :: command_handler where
  "impl_GET_DISCUSSION_THREADS_OF_USER_BY_LATEST_MESSAGE_CREATED env ps =
     checked (checkNumberOfParameters ps 1) (
     parameter ps 0 (\<lambda>p0.
     called (ThreadService (Thread_getDiscussionThreadsOfUser (UuidString p0) ThreadsByLatestMessageCreated))))"

definition impl_GET_DISCUSSION_THREADS_OF_USER_BY_MESSAGE_COUNT :: command_handler where
  "impl_GET_DISCUSSION_THREADS_OF_USER_BY_MESSAGE_COUNT env ps =
     checked (checkNumberOfParameters ps 1) (
     parameter ps 0 (\<lambda>p0.
     called (ThreadService (Thread_getDiscussionThreadsOfUser (UuidString p0) ThreadsByMessageCount))))"

definition impl_SUBSCRIBE_TO_THREAD :: command_handler where
  "impl_SUBSCRIBE_TO_THREAD env ps =
     checked (checkNumberOfParameters ps 1) (
     parameter ps 0 (\<lambda>p0.
     called (ThreadService (Thread_subscribeToDiscussionThread (UuidString p0)))))"

definition impl_UNSUBSCRIBE_FROM_THREAD :: command_handler where
  "impl_UNSUBSCRIBE_FROM_THREAD env ps =
     checked (checkNumberOfParameters ps 1) (
     parameter ps 0 (\<lambda>p0.
     called (ThreadService (Thread_unsubscribeFromDiscussionThread (UuidString p0)))))"

definition impl_GET_SUBSCRIBED_DISCUSSION_THREADS_OF_USER_BY_NAME :: command_handler where
  "impl_GET_SUBSCRIBED_DISCUSSION_THREADS_OF_USER_BY_NAME env ps =
     checked (checkNumberOfParameters ps 1) (
     parameter ps 0 (\<lambda>p0.
     called (ThreadService (Thread_getSubscribedDiscussionThreadsOfUser (UuidString p0) ThreadsByName))))"

definition impl_GET_USERS_SUBSCRIBED_TO_DISCUSSION_THREAD :: command_handler where
  "impl_GET_USERS_SUBSCRIBED_TO_DISCUSSION_THREAD env ps =
     checked (checkNumberOfParameters ps 1) (
     parameter ps 0 (\<lambda>p0.
     called (ThreadService (Thread_getUsersSubscribedToDiscussionThread (UuidString p0)))))"

definition impl_GET_SUBSCRIBED_DISCUSSION_THREADS_OF_USER_BY_CREATED :: command_handler where
  "impl_GET_SUBSCRIBED_DISCUSSION_THREADS_OF_USER_BY_CREATED env ps =
     checked (checkNumberOfParameters ps 1) (
     parameter ps 0 (\<lambda>p0.
     called (ThreadService (Thread_getSubscribedDiscussionThreadsOfUser (UuidString p0) ThreadsByCreated))))"

definition impl_GET_SUBSCRIBED_DISCUSSION_THREADS_OF_USER_BY_LAST_UPDATED :: command_handler where
  "impl_GET_SUBSCRIBED_DISCUSSION_THREADS_OF_USER_BY_LAST_UPDATED env ps =
     checked (checkNumberOfParameters ps 1) (
     parameter ps 0 (\<lambda>p0.
     called (ThreadService (Thread_getSubscribedDiscussionThreadsOfUser (UuidString p0) ThreadsByLastUpdated))))"

definition impl_GET_SUBSCRIBED_DISCUSSION_THREADS_OF_USER_BY_LATEST_MESSAGE_CREATED :: command_handler where
  "impl_GET_SUBSCRIBED_DISCUSSION_THREADS_OF_USER_BY_LATEST_MESSAGE_CREATED env ps =
     checked (checkNumberOfParameters ps 1) (
     parameter ps 0 (\<lambda>p0.
     called (ThreadService (Thread_getSubscribedDiscussionThreadsOfUser (UuidString p0) ThreadsByLatestMessageCreated))))"

definition impl_GET_SUBSCRIBED_DISCUSSION_THREADS_OF_USER_BY_MESSAGE_COUNT :: command_handler where
  "impl_GET_SUBSCRIBED_DISCUSSION_THREADS_OF_USER_BY_MESSAGE_COUNT env ps =
     checked (checkNumberOfParameters ps 1) (
     parameter ps 0 (\<lambda>p0.
     called (ThreadService (Thread_getSubscribedDiscussionThreadsOfUser (UuidString p0) ThreadsByMessageCount))))"

definition impl_ADD_DISCUSSION_THREAD_MESSAGE :: command_handler where
  "impl_ADD_DISCUSSION_THREAD_MESSAGE env ps =
     checked (checkNumberOfParameters ps 2) (
     normalized env ps 1 (\<lambda>normalizedParam.
     parameter ps 0 (\<lambda>p0.
     called (MessageService (Message_addNewDiscussionMessageInThread (UuidString p0) normalizedParam)))))"

definition impl_DELETE_DISCUSSION_THREAD_MESSAGE :: command_handler where
  "impl_DELETE_DISCUSSION_THREAD_MESSAGE env ps =
     checked (checkNumberOfParameters ps 1) (
     parameter ps 0 (\<lambda>p0.
     called (MessageService (Message_deleteDiscussionMessage (UuidString p0)))))"

definition impl_CHANGE_DISCUSSION_THREAD_MESSAGE_CONTENT :: command_handler where
  "impl_CHANGE_DISCUSSION_THREAD_MESSAGE_CONTENT env ps =
     checked (checkMinNumberOfParameters ps 2) (
     let changeReason = optional_parameter ps 2 in
     normalized env ps 1 (\<lambda>normalizedParam.
     parameter ps 0 (\<lambda>p0.
     called (MessageService (Message_changeDiscussionThreadMessageContent (UuidString p0) normalizedParam changeReason)))))"

definition impl_CHANGE_DISCUSSION_THREAD_MESSAGE_APPROVAL :: command_handler where
  "impl_CHANGE_DISCUSSION_THREAD_MESSAGE_APPROVAL env ps =
     checked (checkMinNumberOfParameters ps 2) (
     parameter ps 0 (\<lambda>p0.
     parameter ps 1 (\<lambda>p1.
     called (MessageService (Message_changeDiscussionThreadMessageApproval (UuidString p0) (''true'' = p1))))))"

definition impl_MOVE_DISCUSSION_THREAD_MESSAGE :: command_handler where
  "impl_MOVE_DISCUSSION_THREAD_MESSAGE env ps =
     checked (checkNumberOfParameters ps 2) (
     parameter ps 0 (\<lambda>p0.
     parameter ps 1 (\<lambda>p1.
     called (MessageService (Message_moveDiscussionThreadMessage (UuidString p0) (UuidString p1))))))"

definition impl_UP_VOTE_DISCUSSION_THREAD_MESSAGE :: command_handler where
  "impl_UP_VOTE_DISCUSSION_THREAD_MESSAGE env ps =
     checked (checkNumberOfParameters ps 1) (
     parameter ps 0 (\<lambda>p0.
     called (MessageService (Message_upVoteDiscussionThreadMessage (UuidString p0)))))"

definition impl_DOWN_VOTE_DISCUSSION_THREAD_MESSAGE :: command_handler where
  "impl_DOWN_VOTE_DISCUSSION_THREAD_MESSAGE env ps =
     checked (checkNumberOfParameters ps 1) (
     parameter ps 0 (\<lambda>p0.
     called (MessageService (Message_downVoteDiscussionThreadMessage (UuidString p0)))))"

definition impl_RESET_VOTE_DISCUSSION_THREAD_MESSAGE :: command_handler where
  "impl_RESET_VOTE_DISCUSSION_THREAD_MESSAGE env ps =
     checked (checkNumberOfParameters ps 1) (
     parameter ps 0 (\<lambda>p0.
     called (MessageService (Message_resetVoteDiscussionThreadMessage (UuidString p0)))))"

definition impl_GET_MULTIPLE_DISCUSSION_THREAD_MESSAGES_BY_ID :: command_handler where
  "impl_GET_MULTIPLE_DISCUSSION_THREAD_MESSAGES_BY_ID env ps =
     checked (checkNumberOfParameters ps 1) (
     parameter ps 0 (\<lambda>p0.
     called (MessageService (Message_getMultipleDiscussionThreadMessagesById p0))))"

definition impl_GET_DISCUSSION_THREAD_MESSAGES_OF_USER_BY_CREATED :: command_handler where
  "impl_GET_DISCUSSION_THREAD_MESSAGES_OF_USER_BY_CREATED env ps =
     checked (checkNumberOfParameters ps 1) (
     parameter ps 0 (\<lambda>p0.
     called (MessageService (Message_getDiscussionThreadMessagesOfUserByCreated (UuidString p0)))))"

definition impl_GET_LATEST_DISCUSSION_THREAD_MESSAGES :: command_handler where
  "impl_GET_LATEST_DISCUSSION_THREAD_MESSAGES env ps =
     called (MessageService Message_getLatestDiscussionThreadMessages)"

definition impl_GET_DISCUSSION_THREAD_MESSAGE_RANK :: command_handler where
  "impl_GET_DISCUSSION_THREAD_MESSAGE_RANK env ps =
     checked (checkNumberOfParameters ps 1) (
     parameter ps 0 (\<lambda>p0.
     called (MessageService (Message_getDiscussionThreadMessageRank (UuidString p0)))))"

definition impl_ADD_COMMENT_TO_DISCUSSION_THREAD_MESSAGE :: command_handler where
  "impl_ADD_COMMENT_TO_DISCUSSION_THREAD_MESSAGE env ps =
     checked (checkNumberOfParameters ps 2) (
     normalized env ps 1 (\<lambda>normalizedParam.
     parameter ps 0 (\<lambda>p0.
     called (MessageService (Message_addCommentToDiscussionThreadMessage (UuidString p0) normalizedParam)))))"

definition impl_GET_MESSAGE_COMMENTS :: command_handler where
  "impl_GET_MESSAGE_COMMENTS env ps =
     called (MessageService Message_getMessageComments)"

definition impl_GET_MESSAGE_COMMENTS_OF_DISCUSSION_THREAD_MESSAGE :: command_handler where
  "impl_GET_MESSAGE_COMMENTS_OF_DISCUSSION_THREAD_MESSAGE env ps =
     checked (checkNumberOfParameters ps 1) (
     parameter ps 0 (\<lambda>p0.
     called (MessageService (Message_getMessageCommentsOfDiscussionThreadMessage (UuidString p0)))))"

definition impl_GET_MESSAGE_COMMENTS_OF_USER :: command_handler where
  "impl_GET_MESSAGE_COMMENTS_OF_USER env ps =
     checked (checkNumberOfParameters ps 1) (
     parameter ps 0 (\<lambda>p0.
     called (MessageService (Message_getMessageCommentsOfUser (UuidString p0)))))"

definition impl_SET_MESSAGE_COMMENT_SOLVED :: command_handler where
  "impl_SET_MESSAGE_COMMENT_SOLVED env ps =
     checked (checkNumberOfParameters ps 1) (
     parameter ps 0 (\<lambda>p0.
     called (MessageService (Message_setMessageCommentToSolved (UuidString p0)))))"

definition impl_ADD_DISCUSSION_TAG :: command_handler where
  "impl_ADD_DISCUSSION_TAG env ps =
     checked (checkNumberOfParameters ps 1) (
     normalized env ps 0 (\<lambda>normalizedParam.
     called (TagService (Tag_addNewDiscussionTag normalizedParam))))"

definition impl_GET_DISCUSSION_TAGS_BY_NAME :: command_handler where
  "impl_GET_DISCUSSION_TAGS_BY_NAME env ps =
     called (TagService (Tag_getDiscussionTags TagsByName))"

definition impl_GET_DISCUSSION_TAGS_BY_THREAD_COUNT :: command_handler where
  "impl_GET_DISCUSSION_TAGS_BY_THREAD_COUNT env ps =
     called (TagService (Tag_getDiscussionTags TagsByThreadCount))"

definition impl_GET_DISCUSSION_TAGS_BY_MESSAGE_COUNT :: command_handler where
  "impl_GET_DISCUSSION_TAGS_BY_MESSAGE_COUNT env ps =
     called (TagService (Tag_getDiscussionTags TagsByMessageCount))"

definition impl_CHANGE_DISCUSSION_TAG_NAME :: command_handler where
  "impl_CHANGE_DISCUSSION_TAG_NAME env ps =
     checked (checkNumberOfParameters ps 2) (
     normalized env ps 1 (\<lambda>normalizedParam.
     parameter ps 0 (\<lambda>p0.
     called (TagService (Tag_changeDiscussionTagName (UuidString p0) normalizedParam)))))"

definition impl_CHANGE_DISCUSSION_TAG_UI_BLOB :: command_handler where
  "impl_CHANGE_DISCUSSION_TAG_UI_BLOB env ps =
     checked (checkNumberOfParameters ps 2) (
     parameter ps 0 (\<lambda>p0.
     parameter ps 1 (\<lambda>p1.
     called (TagService (Tag_changeDiscussionTagUiBlob (UuidString p0) p1)))))"

definition impl_DELETE_DISCUSSION_TAG :: command_handler where
  "impl_DELETE_DISCUSSION_TAG env ps =
     checked (checkNumberOfParameters ps 1) (
     parameter ps 0 (\<lambda>p0.
     called (TagService (Tag_deleteDiscussionTag (UuidString p0)))))"

definition impl_GET_DISCUSSION_THREADS_WITH_TAG_BY_NAME :: command_handler where
  "impl_GET_DISCUSSION_THREADS_WITH_TAG_BY_NAME env ps =
     checked (checkNumberOfParameters ps 1) (
     parameter ps 0 (\<lambda>p0.
     called (ThreadService (Thread_getDiscussionThreadsWithTag (UuidString p0) ThreadsByName))))"

definition impl_GET_DISCUSSION_THREADS_WITH_TAG_BY_CREATED :: command_handler where
  "impl_GET_DISCUSSION_THREADS_WITH_TAG_BY_CREATED env ps =
     checked (checkNumberOfParameters ps 1) (
     parameter ps 0 (\<lambda>p0.
     called (ThreadService (Thread_getDiscussionThreadsWithTag (UuidString p0) ThreadsByCreated))))"

definition impl_GET_DISCUSSION_THREADS_WITH_TAG_BY_LAST_UPDATED :: command_handler where
  "impl_GET_DISCUSSION_THREADS_WITH_TAG_BY_LAST_UPDATED env ps =
     checked (checkNumberOfParameters ps 1) (
     parameter ps 0 (\<lambda>p0.
     called (ThreadService (Thread_getDiscussionThreadsWithTag (UuidString p0) ThreadsByLastUpdated))))"

definition impl_GET_DISCUSSION_THREADS_WITH_TAG_BY_LATEST_MESSAGE_CREATED :: command_handler where
  "impl_GET_DISCUSSION_THREADS_WITH_TAG_BY_LATEST_MESSAGE_CREATED env ps =
     checked (checkNumberOfParameters ps 1) (
     parameter ps 0 (\<lambda>p0.
     called (ThreadService (Thread_getDiscussionThreadsWithTag (UuidString p0) ThreadsByLatestMessageCreated))))"

definition impl_GET_DISCUSSION_THREADS_WITH_TAG_BY_MESSAGE_COUNT :: command_handler where
  "impl_GET_DISCUSSION_THREADS_WITH_TAG_BY_MESSAGE_COUNT env ps =
     checked (checkNumberOfParameters ps 1) (
     parameter ps 0 (\<lambda>p0.
     called (ThreadService (Thread_getDiscussionThreadsWithTag (UuidString p0) ThreadsByMessageCount))))"

definition impl_ADD_DISCUSSION_TAG_TO_THREAD :: command_handler where
  "impl_ADD_DISCUSSION_TAG_TO_THREAD env ps =
     checked (checkNumberOfParameters ps 2) (
     parameter ps 0 (\<lambda>p0.
     parameter ps 1 (\<lambda>p1.
     called (TagService (Tag_addDiscussionTagToThread (UuidString p0) (UuidString p1))))))"

definition impl_REMOVE_DISCUSSION_TAG_FROM_THREAD :: command_handler where
  "impl_REMOVE_DISCUSSION_TAG_FROM_THREAD env ps =
     checked (checkNumberOfParameters ps 2) (
     parameter ps 0 (\<lambda>p0.
     parameter ps 1 (\<lambda>p1.
     called (TagService (Tag_removeDiscussionTagFromThread (UuidString p0) (UuidString p1))))))"

definition impl_MERGE_DISCUSSION_TAG_INTO_OTHER_TAG :: command_handler where
  "impl_MERGE_DISCUSSION_TAG_INTO_OTHER_TAG env ps =
     checked (checkNumberOfParameters ps 2) (
     parameter ps 0 (\<lambda>p0.
     parameter ps 1 (\<lambda>p1.
     called (TagService (Tag_mergeDiscussionTags (UuidString p0) (UuidString p1))))))"

definition impl_ADD_DISCUSSION_CATEGORY :: command_handler where
  "impl_ADD_DISCUSSION_CATEGORY env ps =
     checked (checkMinNumberOfParameters ps 1) (
     let parentId = optional_parameter ps 1 in
     normalized env ps 0 (\<lambda>normalizedParam.
     called (CategoryService (Category_addNewDiscussionCategory normalizedParam (UuidString parentId)))))"

definition impl_GET_DISCUSSION_CATEGORY_BY_ID :: command_handler where
  "impl_GET_DISCUSSION_CATEGORY_BY_ID env ps =
     checked (checkNumberOfParameters ps 1) (
     parameter ps 0 (\<lambda>p0.
     called (CategoryService (Category_getDiscussionCategoryById (UuidString p0)))))"

definition impl_GET_DISCUSSION_CATEGORIES_BY_NAME :: command_handler where
  "impl_GET_DISCUSSION_CATEGORIES_BY_NAME env ps =
     called (CategoryService (Category_getDiscussionCategories CategoriesByName))"

definition impl_GET_DISCUSSION_CATEGORIES_BY_MESSAGE_COUNT :: command_handler where
  "impl_GET_DISCUSSION_CATEGORIES_BY_MESSAGE_COUNT env ps =
     called (CategoryService (Category_getDiscussionCategories CategoriesByMessageCount))"

definition impl_GET_DISCUSSION_CATEGORIES_FROM_ROOT :: command_handler where
  "impl_GET_DISCUSSION_CATEGORIES_FROM_ROOT env ps =
     called (CategoryService Category_getDiscussionCategoriesFromRoot)"

definition impl_CHANGE_DISCUSSION_CATEGORY_NAME :: command_handler where
  "impl_CHANGE_DISCUSSION_CATEGORY_NAME env ps =
     checked (checkNumberOfParameters ps 2) (
     normalized env ps 1 (\<lambda>normalizedParam.
     parameter ps 0 (\<lambda>p0.
     called (CategoryService (Category_changeDiscussionCategoryName (UuidString p0) normalizedParam)))))"

definition impl_CHANGE_DISCUSSION_CATEGORY_DESCRIPTION :: command_handler where
  "impl_CHANGE_DISCUSSION_CATEGORY_DESCRIPTION env ps =
     checked (checkNumberOfParameters ps 2) (
     parameter ps 0 (\<lambda>p0.
     parameter ps 1 (\<lambda>p1.
     called (CategoryService (Category_changeDiscussionCategoryDescription (UuidString p0) p1)))))"

definition impl_CHANGE_DISCUSSION_CATEGORY_PARENT :: command_handler where
  "impl_CHANGE_DISCUSSION_CATEGORY_PARENT env ps =
     checked (checkNumberOfParameters ps 2) (
     parameter ps 0 (\<lambda>p0.
     parameter ps 1 (\<lambda>p1.
     called (CategoryService (Category_changeDiscussionCategoryParent (UuidString p0) (UuidString p1))))))"

definition impl_CHANGE_DISCUSSION_CATEGORY_DISPLAY_ORDER :: command_handler where
  "impl_CHANGE_DISCUSSION_CATEGORY_DISPLAY_ORDER env ps =
     checked (checkNumberOfParameters ps 2) (
     convertTo env 64 True ps 1 (\<lambda>newDisplayOrder.
     parameter ps 0 (\<lambda>p0.
     called (CategoryService (Category_changeDiscussionCategoryDisplayOrder (UuidString p0) (word_of_int newDisplayOrder))))))"

definition impl_DELETE_DISCUSSION_CATEGORY :: command_handler where
  "impl_DELETE_DISCUSSION_CATEGORY env ps =
     checked (checkNumberOfParameters ps 1) (
     parameter ps 0 (\<lambda>p0.
     called (CategoryService (Category_deleteDiscussionCategory (UuidString p0)))))"

definition impl_ADD_DISCUSSION_TAG_TO_CATEGORY :: command_handler where
  "impl_ADD_DISCUSSION_TAG_TO_CATEGORY env ps =
     checked (checkNumberOfParameters ps 2) (
     parameter ps 0 (\<lambda>p0.
     parameter ps 1 (\<lambda>p1.
     called (CategoryService (Category_addDiscussionTagToCategory (UuidString p0) (UuidString p1))))))"

definition impl_REMOVE_DISCUSSION_TAG_FROM_CATEGORY :: command_handler where
  "impl_REMOVE_DISCUSSION_TAG_FROM_CATEGORY env ps =
     checked (checkNumberOfParameters ps 2) (
     parameter ps 0 (\<lambda>p0.
     parameter ps 1 (\<lambda>p1.
     called (CategoryService (Category_removeDiscussionTagFromCategory (UuidString p0) (UuidString p1))))))"

definition impl_GET_DISCUSSION_THREADS_OF_CATEGORY_BY_NAME :: command_handler where
  "impl_GET_DISCUSSION_THREADS_OF_CATEGORY_BY_NAME env ps =
     checked (checkNumberOfParameters ps 1) (
     parameter ps 0 (\<lambda>p0.
     called (ThreadService (Thread_getDiscussionThreadsOfCategory (UuidString p0) ThreadsByName))))"

definition impl_GET_DISCUSSION_THREADS_OF_CATEGORY_BY_CREATED :: command_handler where
  "impl_GET_DISCUSSION_THREADS_OF_CATEGORY_BY_CREATED env ps =
     checked (checkNumberOfParameters ps 1) (
     parameter ps 0 (\<lambda>p0.
     called (ThreadService (Thread_getDiscussionThreadsOfCategory (UuidString p0) ThreadsByCreated))))"

definition impl_GET_DISCUSSION_THREADS_OF_CATEGORY_BY_LAST_UPDATED :: command_handler where
  "impl_GET_DISCUSSION_THREADS_OF_CATEGORY_BY_LAST_UPDATED env ps =
     checked (checkNumberOfParameters ps 1) (
     parameter ps 0 (\<lambda>p0.
     called (ThreadService (Thread_getDiscussionThreadsOfCategory (UuidString p0) ThreadsByLastUpdated))))"

definition impl_GET_DISCUSSION_THREADS_OF_CATEGORY_BY_LATEST_MESSAGE_CREATED :: command_handler where
  "impl_GET_DISCUSSION_THREADS_OF_CATEGORY_BY_LATEST_MESSAGE_CREATED env ps =
     checked (checkNumberOfParameters ps 1) (
     parameter ps 0 (\<lambda>p0.
     called (ThreadService (Thread_getDiscussionThreadsOfCategory (UuidString p0) ThreadsByLatestMessageCreated))))"

definition impl_GET_DISCUSSION_THREADS_OF_CATEGORY_BY_MESSAGE_COUNT :: command_handler where
  "impl_GET_DISCUSSION_THREADS_OF_CATEGORY_BY_MESSAGE_COUNT env ps =
     checked (checkNumberOfParameters ps 1) (
     parameter ps 0 (\<lambda>p0.
     called (ThreadService (Thread_getDiscussionThreadsOfCategory (UuidString p0) ThreadsByMessageCount))))"

definition impl_GET_ATTACHMENTS_BY_CREATED :: command_handler where
  "impl_GET_ATTACHMENTS_BY_CREATED env ps =
     called (AttachmentService (Attachment_getAttachments AttachmentsByCreated))"

definition impl_GET_ATTACHMENTS_BY_NAME :: command_handler where
  "impl_GET_ATTACHMENTS_BY_NAME env ps =
     called (AttachmentService (Attachment_getAttachments AttachmentsByName))"

definition impl_GET_ATTACHMENTS_BY_SIZE :: command_handler where
  "impl_GET_ATTACHMENTS_BY_SIZE env ps =
     called (AttachmentService (Attachment_getAttachments AttachmentsBySize))"

definition impl_GET_ATTACHMENTS_BY_APPROVAL :: command_handler where
  "impl_GET_ATTACHMENTS_BY_APPROVAL env ps =
     called (AttachmentService (Attachment_getAttachments AttachmentsByApproval))"

definition impl_GET_ATTACHMENTS_OF_USER_BY_CREATED :: command_handler where
  "impl_GET_ATTACHMENTS_OF_USER_BY_CREATED env ps =
     checked (checkNumberOfParameters ps 1) (
     parameter ps 0 (\<lambda>p0.
     called (AttachmentService (Attachment_getAttachmentsOfUser (UuidString p0) AttachmentsByCreated))))"

definition impl_GET_ATTACHMENTS_OF_USER_BY_NAME :: command_handler where
  "impl_GET_ATTACHMENTS_OF_USER_BY_NAME env ps =
     checked (checkNumberOfParameters ps 1) (
     parameter ps 0 (\<lambda>p0.
     called (AttachmentService (Attachment_getAttachmentsOfUser (UuidString p0) AttachmentsByName))))"

definition impl_GET_ATTACHMENTS_OF_USER_BY_SIZE :: command_handler where
  "impl_GET_ATTACHMENTS_OF_USER_BY_SIZE env ps =
     checked (checkNumberOfParameters ps 1) (
     parameter ps 0 (\<lambda>p0.
     called (AttachmentService (Attachment_getAttachmentsOfUser (UuidString p0) AttachmentsBySize))))"

definition impl_GET_ATTACHMENTS_OF_USER_BY_APPROVAL :: command_handler where
  "impl_GET_ATTACHMENTS_OF_USER_BY_APPROVAL env ps =
     checked (checkNumberOfParameters ps 1) (
     parameter ps 0 (\<lambda>p0.
     called (AttachmentService (Attachment_getAttachmentsOfUser (UuidString p0) AttachmentsByApproval))))"

definition impl_CAN_GET_ATTACHMENT :: command_handler where
  "impl_CAN_GET_ATTACHMENT env ps =
     checked (checkNumberOfParameters ps 1) (
     parameter ps 0 (\<lambda>p0.
     called (AttachmentService (Attachment_canGetAttachment (UuidString p0)))))"

definition impl_GET_ATTACHMENT :: command_handler where
  "impl_GET_ATTACHMENT env ps =
     checked (checkNumberOfParameters ps 1) (
     parameter ps 0 (\<lambda>p0.
     called (AttachmentService (Attachment_getAttachment (UuidString p0)))))"

definition impl_CAN_ADD_ATTACHMENT :: command_handler where
  "impl_CAN_ADD_ATTACHMENT env ps =
     called (AttachmentService Attachment_canAddAttachment)"

definition impl_ADD_ATTACHMENT :: command_handler where
  "impl_ADD_ATTACHMENT env ps =
     checked (checkNumberOfParameters ps 2) (
     normalized env ps 0 (\<lambda>normalizedParam.
     convertTo env 64 False ps 1 (\<lambda>size.
     called (AttachmentService (Attachment_addNewAttachment normalizedParam (word_of_int size))))))"

definition impl_DELETE_ATTACHMENT :: command_handler where
  "impl_DELETE_ATTACHMENT env ps =
     checked (checkNumberOfParameters ps 1) (
     parameter ps 0 (\<lambda>p0.
     called (AttachmentService (Attachment_deleteAttachment (UuidString p0)))))"

definition impl_CHANGE_ATTACHMENT_NAME :: command_handler where
  "impl_CHANGE_ATTACHMENT_NAME env ps =
     checked (checkNumberOfParameters ps 2) (
     normalized env ps 1 (\<lambda>normalizedParam.
     parameter ps 0 (\<lambda>p0.
     called (AttachmentService (Attachment_changeAttachmentName (UuidString p0) normalizedParam)))))"

definition impl_CHANGE_ATTACHMENT_APPROVAL :: command_handler where
  "impl_CHANGE_ATTACHMENT_APPROVAL env ps =
     checked (checkNumberOfParameters ps 2) (
     parameter ps 0 (\<lambda>p0.
     parameter ps 1 (\<lambda>p1.
     called (AttachmentService (Attachment_changeAttachmentApproval (UuidString p0) (''true'' = p1))))))"

definition impl_ADD_ATTACHMENT_TO_DISCUSSION_THREAD_MESSAGE :: command_handler where
  "impl_ADD_ATTACHMENT_TO_DISCUSSION_THREAD_MESSAGE env ps =
     checked (checkNumberOfParameters ps 2) (
     parameter ps 0 (\<lambda>p0.
     parameter ps 1 (\<lambda>p1.
     called (AttachmentService (Attachment_addAttachmentToDiscussionThreadMessage (UuidString p0) (UuidString p1))))))"

definition impl_REMOVE_ATTACHMENT_FROM_DISCUSSION_THREAD_MESSAGE :: command_handler where
  "impl_REMOVE_ATTACHMENT_FROM_DISCUSSION_THREAD_MESSAGE env ps =
     checked (checkNumberOfParameters ps 2) (
     parameter ps 0 (\<lambda>p0.
     parameter ps 1 (\<lambda>p1.
     called (AttachmentService (Attachment_removeAttachmentFromDiscussionThreadMessage (UuidString p0) (UuidString p1))))))"

definition impl_GET_REQUIRED_PRIVILEGES_FOR_THREAD_MESSAGE :: command_handler where
  "impl_GET_REQUIRED_PRIVILEGES_FOR_THREAD_MESSAGE env ps =
     checked (checkNumberOfParameters ps 1) (
     parameter ps 0 (\<lambda>p0.
     called (AuthorizationService (Authorization_getRequiredPrivilegesForThreadMessage (UuidString p0)))))"

definition impl_GET_ASSIGNED_PRIVILEGES_FOR_THREAD_MESSAGE :: command_handler where
  "impl_GET_ASSIGNED_PRIVILEGES_FOR_THREAD_MESSAGE env ps =
     checked (checkNumberOfParameters ps 1) (
     parameter ps 0 (\<lambda>p0.
     called (AuthorizationService (Authorization_getAssignedPrivilegesForThreadMessage (UuidString p0)))))"

definition impl_CHANGE_DISCUSSION_THREAD_MESSAGE_REQUIRED_PRIVILEGE_FOR_THREAD_MESSAGE :: command_handler where
  "impl_CHANGE_DISCUSSION_THREAD_MESSAGE_REQUIRED_PRIVILEGE_FOR_THREAD_MESSAGE env ps =
     checked (checkNumberOfParameters ps 3) (
     parsePrivilege ps 1 msg_privilege_strings (\<lambda>privilege.
     convertTo env 16 True ps 2 (\<lambda>val.
     parameter ps 0 (\<lambda>p0.
     called (AuthorizationService (Authorization_required (ChangeDiscussionThreadMessageRequiredPrivilegeForThreadMessage (UuidString p0) (of_nat privilege) (word_of_int val))))))))"

definition impl_GET_REQUIRED_PRIVILEGES_FOR_THREAD :: command_handler where
  "impl_GET_REQUIRED_PRIVILEGES_FOR_THREAD env ps =
     checked (checkNumberOfParameters ps 1) (
     parameter ps 0 (\<lambda>p0.
     called (AuthorizationService (Authorization_getRequiredPrivilegesForThread (UuidString p0)))))"

definition impl_GET_ASSIGNED_PRIVILEGES_FOR_THREAD :: command_handler where
  "impl_GET_ASSIGNED_PRIVILEGES_FOR_THREAD env ps =
     checked (checkNumberOfParameters ps 1) (
     parameter ps 0 (\<lambda>p0.
     called (AuthorizationService (Authorization_getAssignedPrivilegesForThread (UuidString p0)))))"

definition impl_CHANGE_DISCUSSION_THREAD_MESSAGE_REQUIRED_PRIVILEGE_FOR_THREAD :: command_handler where
  "impl_CHANGE_DISCUSSION_THREAD_MESSAGE_REQUIRED_PRIVILEGE_FOR_THREAD env ps =
     checked (checkNumberOfParameters ps 3) (
     parsePrivilege ps 1 msg_privilege_strings (\<lambda>privilege.
     convertTo env 16 True ps 2 (\<lambda>val.
     parameter ps 0 (\<lambda>p0.
     called (AuthorizationService (Authorization_required (ChangeDiscussionThreadMessageRequiredPrivilegeForThread (UuidString p0) (of_nat privilege) (word_of_int val))))))))"

definition impl_CHANGE_DISCUSSION_THREAD_REQUIRED_PRIVILEGE_FOR_THREAD :: command_handler where
  "impl_CHANGE_DISCUSSION_THREAD_REQUIRED_PRIVILEGE_FOR_THREAD env ps =
     checked (checkNumberOfParameters ps 3) (
     parsePrivilege ps 1 thread_privilege_strings (\<lambda>privilege.
     convertTo env 16 True ps 2 (\<lambda>val.
     parameter ps 0 (\<lambda>p0.
     called (AuthorizationService (Authorization_required (ChangeDiscussionThreadRequiredPrivilegeForThread (UuidString p0) (of_nat privilege) (word_of_int val))))))))"

definition impl_GET_REQUIRED_PRIVILEGES_FOR_TAG :: command_handler where
  "impl_GET_REQUIRED_PRIVILEGES_FOR_TAG env ps =
     checked (checkNumberOfParameters ps 1) (
     parameter ps 0 (\<lambda>p0.
     called (AuthorizationService (Authorization_getRequiredPrivilegesForTag (UuidString p0)))))"

definition impl_GET_ASSIGNED_PRIVILEGES_FOR_TAG :: command_handler where
  "impl_GET_ASSIGNED_PRIVILEGES_FOR_TAG env ps =
     checked (checkNumberOfParameters ps 1) (
     parameter ps 0 (\<lambda>p0.
     called (AuthorizationService (Authorization_getAssignedPrivilegesForTag (UuidString p0)))))"

definition impl_CHANGE_DISCUSSION_THREAD_MESSAGE_REQUIRED_PRIVILEGE_FOR_TAG :: command_handler where
  "impl_CHANGE_DISCUSSION_THREAD_MESSAGE_REQUIRED_PRIVILEGE_FOR_TAG env ps =
     checked (checkNumberOfParameters ps 3) (
     parsePrivilege ps 1 msg_privilege_strings (\<lambda>privilege.
     convertTo env 16 True ps 2 (\<lambda>val.
     parameter ps 0 (\<lambda>p0.
     called (AuthorizationService (Authorization_required (ChangeDiscussionThreadMessageRequiredPrivilegeForTag (UuidString p0) (of_nat privilege) (word_of_int val))))))))"

definition impl_CHANGE_DISCUSSION_THREAD_REQUIRED_PRIVILEGE_FOR_TAG :: command_handler where
  "impl_CHANGE_DISCUSSION_THREAD_REQUIRED_PRIVILEGE_FOR_TAG env ps =
     checked (checkNumberOfParameters ps 3) (
     parsePrivilege ps 1 thread_privilege_strings (\<lambda>privilege.
     convertTo env 16 True ps 2 (\<lambda>val.
     parameter ps 0 (\<lambda>p0.
     called (AuthorizationService (Authorization_required (ChangeDiscussionThreadRequiredPrivilegeForTag (UuidString p0) (of_nat privilege) (word_of_int val))))))))"

definition impl_CHANGE_DISCUSSION_TAG_REQUIRED_PRIVILEGE_FOR_TAG :: command_handler where
  "impl_CHANGE_DISCUSSION_TAG_REQUIRED_PRIVILEGE_FOR_TAG env ps =
     checked (checkNumberOfParameters ps 3) (
     parsePrivilege ps 1 tag_privilege_strings (\<lambda>privilege.
     convertTo env 16 True ps 2 (\<lambda>val.
     parameter ps 0 (\<lambda>p0.
     called (AuthorizationService (Authorization_required (ChangeDiscussionTagRequiredPrivilegeForTag (UuidString p0) (of_nat privilege) (word_of_int val))))))))"

definition impl_GET_REQUIRED_PRIVILEGES_FOR_CATEGORY :: command_handler where
  "impl_GET_REQUIRED_PRIVILEGES_FOR_CATEGORY env ps =
     checked (checkNumberOfParameters ps 1) (
     parameter ps 0 (\<lambda>p0.
     called (AuthorizationService (Authorization_getRequiredPrivilegesForCategory (UuidString p0)))))"

definition impl_GET_ASSIGNED_PRIVILEGES_FOR_CATEGORY :: command_handler where
  "impl_GET_ASSIGNED_PRIVILEGES_FOR_CATEGORY env ps =
     checked (checkNumberOfParameters ps 1) (
     parameter ps 0 (\<lambda>p0.
     called (AuthorizationService (Authorization_getAssignedPrivilegesForCategory (UuidString p0)))))"

definition impl_CHANGE_DISCUSSION_CATEGORY_REQUIRED_PRIVILEGE_FOR_CATEGORY :: command_handler where
  "impl_CHANGE_DISCUSSION_CATEGORY_REQUIRED_PRIVILEGE_FOR_CATEGORY env ps =
     checked (checkNumberOfParameters ps 3) (
     parsePrivilege ps 1 category_privilege_strings (\<lambda>privilege.
     convertTo env 16 True ps 2 (\<lambda>val.
     parameter ps 0 (\<lambda>p0.
     called (AuthorizationService (Authorization_required (ChangeDiscussionCategoryRequiredPrivilegeForCategory (UuidString p0) (of_nat privilege) (word_of_int val))))))))"

definition impl_GET_FORUM_WIDE_CURRENT_USER_PRIVILEGES :: command_handler where
  "impl_GET_FORUM_WIDE_CURRENT_USER_PRIVILEGES env ps =
     called (AuthorizationService Authorization_getForumWideCurrentUserPrivileges)"

definition impl_GET_FORUM_WIDE_REQUIRED_PRIVILEGES :: command_handler where
  "impl_GET_FORUM_WIDE_REQUIRED_PRIVILEGES env ps =
     called (AuthorizationService Authorization_getForumWideRequiredPrivileges)"

definition impl_GET_FORUM_WIDE_DEFAULT_PRIVILEGE_LEVELS :: command_handler where
  "impl_GET_FORUM_WIDE_DEFAULT_PRIVILEGE_LEVELS env ps =
     called (AuthorizationService Authorization_getForumWideDefaultPrivilegeLevels)"

definition impl_GET_FORUM_WIDE_ASSIGNED_PRIVILEGES :: command_handler where
  "impl_GET_FORUM_WIDE_ASSIGNED_PRIVILEGES env ps =
     called (AuthorizationService Authorization_getForumWideAssignedPrivileges)"

definition impl_GET_ASSIGNED_PRIVILEGES_FOR_USER :: command_handler where
  "impl_GET_ASSIGNED_PRIVILEGES_FOR_USER env ps =
     checked (checkNumberOfParameters ps 1) (
     parameter ps 0 (\<lambda>p0.
     called (AuthorizationService (Authorization_getAssignedPrivilegesForUser (UuidString p0)))))"

definition impl_CHANGE_DISCUSSION_THREAD_MESSAGE_REQUIRED_PRIVILEGE :: command_handler where
  "impl_CHANGE_DISCUSSION_THREAD_MESSAGE_REQUIRED_PRIVILEGE env ps =
     checked (checkNumberOfParameters ps 2) (
     parsePrivilege ps 0 msg_privilege_strings (\<lambda>privilege.
     convertTo env 16 True ps 1 (\<lambda>val.
     called (AuthorizationService (Authorization_required (ChangeDiscussionThreadMessageRequiredPrivilege (of_nat privilege) (word_of_int val)))))))"

definition impl_CHANGE_DISCUSSION_THREAD_REQUIRED_PRIVILEGE :: command_handler where
  "impl_CHANGE_DISCUSSION_THREAD_REQUIRED_PRIVILEGE env ps =
     checked (checkNumberOfParameters ps 2) (
     parsePrivilege ps 0 thread_privilege_strings (\<lambda>privilege.
     convertTo env 16 True ps 1 (\<lambda>val.
     called (AuthorizationService (Authorization_required (ChangeDiscussionThreadRequiredPrivilege (of_nat privilege) (word_of_int val)))))))"

definition impl_CHANGE_DISCUSSION_TAG_REQUIRED_PRIVILEGE :: command_handler where
  "impl_CHANGE_DISCUSSION_TAG_REQUIRED_PRIVILEGE env ps =
     checked (checkNumberOfParameters ps 2) (
     parsePrivilege ps 0 tag_privilege_strings (\<lambda>privilege.
     convertTo env 16 True ps 1 (\<lambda>val.
     called (AuthorizationService (Authorization_required (ChangeDiscussionTagRequiredPrivilege (of_nat privilege) (word_of_int val)))))))"

definition impl_CHANGE_DISCUSSION_CATEGORY_REQUIRED_PRIVILEGE :: command_handler where
  "impl_CHANGE_DISCUSSION_CATEGORY_REQUIRED_PRIVILEGE env ps =
     checked (checkNumberOfParameters ps 2) (
     parsePrivilege ps 0 category_privilege_strings (\<lambda>privilege.
     convertTo env 16 True ps 1 (\<lambda>val.
     called (AuthorizationService (Authorization_required (ChangeDiscussionCategoryRequiredPrivilege (of_nat privilege) (word_of_int val)))))))"

definition impl_CHANGE_FORUM_WIDE_REQUIRED_PRIVILEGE :: command_handler where
  "impl_CHANGE_FORUM_WIDE_REQUIRED_PRIVILEGE env ps =
     checked (checkNumberOfParameters ps 2) (
     parsePrivilege ps 0 forum_wide_privilege_strings (\<lambda>privilege.
     convertTo env 16 True ps 1 (\<lambda>val.
     called (AuthorizationService (Authorization_required (ChangeForumWideRequiredPrivilege (of_nat privilege) (word_of_int val)))))))"

definition impl_CHANGE_FORUM_WIDE_DEFAULT_PRIVILEGE_LEVEL :: command_handler where
  "impl_CHANGE_FORUM_WIDE_DEFAULT_PRIVILEGE_LEVEL env ps =
     checked (checkNumberOfParameters ps 3) (
     parsePrivilege ps 0 ForumWideDefaultPrivilegeDurationStrings (\<lambda>privilege.
     convertTo env 16 True ps 1 (\<lambda>val.
     convertTo env 64 True ps 2 (\<lambda>duration.
     called (AuthorizationService (Authorization_required (ChangeForumWideDefaultPrivilegeLevel (of_nat privilege) (word_of_int val) (word_of_int duration))))))))"

definition impl_ASSIGN_DISCUSSION_THREAD_MESSAGE_PRIVILEGE :: command_handler where
  "impl_ASSIGN_DISCUSSION_THREAD_MESSAGE_PRIVILEGE env ps =
     checked (checkNumberOfParameters ps 4) (
     convertTo env 16 True ps 2 (\<lambda>val.
     convertTo env 64 True ps 3 (\<lambda>duration.
     parameter ps 0 (\<lambda>p0.
     parameter ps 1 (\<lambda>p1.
     called (AuthorizationService (Authorization_assign (AssignDiscussionThreadMessagePrivilege (UuidString p0) (UuidString p1) (word_of_int val) (word_of_int duration)))))))))"

definition impl_ASSIGN_DISCUSSION_THREAD_PRIVILEGE :: command_handler where
  "impl_ASSIGN_DISCUSSION_THREAD_PRIVILEGE env ps =
     checked (checkNumberOfParameters ps 4) (
     convertTo env 16 True ps 2 (\<lambda>val.
     convertTo env 64 True ps 3 (\<lambda>duration.
     parameter ps 0 (\<lambda>p0.
     parameter ps 1 (\<lambda>p1.
     called (AuthorizationService (Authorization_assign (AssignDiscussionThreadPrivilege (UuidString p0) (UuidString p1) (word_of_int val) (word_of_int duration)))))))))"

definition impl_ASSIGN_DISCUSSION_TAG_PRIVILEGE :: command_handler where
  "impl_ASSIGN_DISCUSSION_TAG_PRIVILEGE env ps =
     checked (checkNumberOfParameters ps 4) (
     convertTo env 16 True ps 2 (\<lambda>val.
     convertTo env 64 True ps 3 (\<lambda>duration.
     parameter ps 0 (\<lambda>p0.
     parameter ps 1 (\<lambda>p1.
     called (AuthorizationService (Authorization_assign (AssignDiscussionTagPrivilege (UuidString p0) (UuidString p1) (word_of_int val) (word_of_int duration)))))))))"

definition impl_ASSIGN_DISCUSSION_CATEGORY_PRIVILEGE :: command_handler where
  "impl_ASSIGN_DISCUSSION_CATEGORY_PRIVILEGE env ps =
     checked (checkNumberOfParameters ps 4) (
     convertTo env 16 True ps 2 (\<lambda>val.
     convertTo env 64 True ps 3 (\<lambda>duration.
     parameter ps 0 (\<lambda>p0.
     parameter ps 1 (\<lambda>p1.
     called (AuthorizationService (Authorization_assign (AssignDiscussionCategoryPrivilege (UuidString p0) (UuidString p1) (word_of_int val) (word_of_int duration)))))))))"

definition impl_ASSIGN_FORUM_WIDE_PRIVILEGE :: command_handler where
  "impl_ASSIGN_FORUM_WIDE_PRIVILEGE env ps =
     checked (checkNumberOfParameters ps 3) (
     convertTo env 16 True ps 1 (\<lambda>val.
     convertTo env 64 True ps 2 (\<lambda>duration.
     parameter ps 0 (\<lambda>p0.
     called (AuthorizationService (Authorization_assign (AssignForumWidePrivilege (UuidString p0) (word_of_int val) (word_of_int duration))))))))"

lemmas command_handler_defs =
  impl_SHOW_VERSION_def impl_COUNT_ENTITIES_def impl_ADD_USER_def impl_GET_CURRENT_USER_def
  impl_GET_USERS_BY_NAME_def impl_GET_USERS_BY_CREATED_def impl_GET_USERS_BY_LAST_SEEN_def
  impl_GET_USERS_BY_THREAD_COUNT_def impl_GET_USERS_BY_MESSAGE_COUNT_def impl_GET_USERS_ONLINE_def
  impl_GET_USER_BY_ID_def impl_GET_USER_BY_NAME_def impl_GET_MULTIPLE_USERS_BY_ID_def
  impl_GET_MULTIPLE_USERS_BY_NAME_def impl_SEARCH_USERS_BY_NAME_def impl_GET_USER_LOGO_def
  impl_GET_USER_VOTE_HISTORY_def impl_GET_USER_QUOTED_HISTORY_def impl_GET_USER_RECEIVED_PRIVATE_MESSAGES_def
  impl_GET_USER_SENT_PRIVATE_MESSAGES_def impl_CHANGE_USER_NAME_def impl_CHANGE_USER_INFO_def
  impl_CHANGE_USER_TITLE_def impl_CHANGE_USER_SIGNATURE_def impl_CHANGE_USER_ATTACHMENT_QUOTA_def
  impl_CHANGE_USER_LOGO_def impl_DELETE_USER_LOGO_def impl_DELETE_USER_def impl_SEND_PRIVATE_MESSAGE_def
  impl_DELETE_PRIVATE_MESSAGE_def impl_GET_DISCUSSION_THREADS_BY_NAME_def
  impl_GET_DISCUSSION_THREADS_BY_CREATED_def impl_GET_DISCUSSION_THREADS_BY_LAST_UPDATED_def
  impl_GET_DISCUSSION_THREADS_BY_LATEST_MESSAGE_CREATED_def impl_GET_DISCUSSION_THREADS_BY_MESSAGE_COUNT_def
  impl_ADD_DISCUSSION_THREAD_def impl_GET_DISCUSSION_THREAD_BY_ID_def
  impl_GET_MULTIPLE_DISCUSSION_THREADS_BY_ID_def impl_SEARCH_DISCUSSION_THREADS_BY_NAME_def
  impl_CHANGE_DISCUSSION_THREAD_NAME_def impl_CHANGE_DISCUSSION_THREAD_PIN_DISPLAY_ORDER_def
  impl_CHANGE_DISCUSSION_THREAD_APPROVAL_def impl_DELETE_DISCUSSION_THREAD_def impl_MERGE_DISCUSSION_THREADS_def
  impl_GET_DISCUSSION_THREADS_OF_USER_BY_NAME_def impl_GET_DISCUSSION_THREADS_OF_USER_BY_CREATED_def
  impl_GET_DISCUSSION_THREADS_OF_USER_BY_LAST_UPDATED_def
  impl_GET_DISCUSSION_THREADS_OF_USER_BY_LATEST_MESSAGE_CREATED_def
  impl_GET_DISCUSSION_THREADS_OF_USER_BY_MESSAGE_COUNT_def impl_SUBSCRIBE_TO_THREAD_def
  impl_UNSUBSCRIBE_FROM_THREAD_def impl_GET_SUBSCRIBED_DISCUSSION_THREADS_OF_USER_BY_NAME_def
  impl_GET_USERS_SUBSCRIBED_TO_DISCUSSION_THREAD_def
  impl_GET_SUBSCRIBED_DISCUSSION_THREADS_OF_USER_BY_CREATED_def
  impl_GET_SUBSCRIBED_DISCUSSION_THREADS_OF_USER_BY_LAST_UPDATED_def
  impl_GET_SUBSCRIBED_DISCUSSION_THREADS_OF_USER_BY_LATEST_MESSAGE_CREATED_def
  impl_GET_SUBSCRIBED_DISCUSSION_THREADS_OF_USER_BY_MESSAGE_COUNT_def impl_ADD_DISCUSSION_THREAD_MESSAGE_def
  impl_DELETE_DISCUSSION_THREAD_MESSAGE_def impl_CHANGE_DISCUSSION_THREAD_MESSAGE_CONTENT_def
  impl_CHANGE_DISCUSSION_THREAD_MESSAGE_APPROVAL_def impl_MOVE_DISCUSSION_THREAD_MESSAGE_def
  impl_UP_VOTE_DISCUSSION_THREAD_MESSAGE_def impl_DOWN_VOTE_DISCUSSION_THREAD_MESSAGE_def
  impl_RESET_VOTE_DISCUSSION_THREAD_MESSAGE_def impl_GET_MULTIPLE_DISCUSSION_THREAD_MESSAGES_BY_ID_def
  impl_GET_DISCUSSION_THREAD_MESSAGES_OF_USER_BY_CREATED_def impl_GET_LATEST_DISCUSSION_THREAD_MESSAGES_def
  impl_GET_DISCUSSION_THREAD_MESSAGE_RANK_def impl_ADD_COMMENT_TO_DISCUSSION_THREAD_MESSAGE_def
  impl_GET_MESSAGE_COMMENTS_def impl_GET_MESSAGE_COMMENTS_OF_DISCUSSION_THREAD_MESSAGE_def
  impl_GET_MESSAGE_COMMENTS_OF_USER_def impl_SET_MESSAGE_COMMENT_SOLVED_def impl_ADD_DISCUSSION_TAG_def
  impl_GET_DISCUSSION_TAGS_BY_NAME_def impl_GET_DISCUSSION_TAGS_BY_THREAD_COUNT_def
  impl_GET_DISCUSSION_TAGS_BY_MESSAGE_COUNT_def impl_CHANGE_DISCUSSION_TAG_NAME_def
  impl_CHANGE_DISCUSSION_TAG_UI_BLOB_def impl_DELETE_DISCUSSION_TAG_def
  impl_GET_DISCUSSION_THREADS_WITH_TAG_BY_NAME_def impl_GET_DISCUSSION_THREADS_WITH_TAG_BY_CREATED_def
  impl_GET_DISCUSSION_THREADS_WITH_TAG_BY_LAST_UPDATED_def
  impl_GET_DISCUSSION_THREADS_WITH_TAG_BY_LATEST_MESSAGE_CREATED_def
  impl_GET_DISCUSSION_THREADS_WITH_TAG_BY_MESSAGE_COUNT_def impl_ADD_DISCUSSION_TAG_TO_THREAD_def
  impl_REMOVE_DISCUSSION_TAG_FROM_THREAD_def impl_MERGE_DISCUSSION_TAG_INTO_OTHER_TAG_def
  impl_ADD_DISCUSSION_CATEGORY_def impl_GET_DISCUSSION_CATEGORY_BY_ID_def
  impl_GET_DISCUSSION_CATEGORIES_BY_NAME_def impl_GET_DISCUSSION_CATEGORIES_BY_MESSAGE_COUNT_def
  impl_GET_DISCUSSION_CATEGORIES_FROM_ROOT_def impl_CHANGE_DISCUSSION_CATEGORY_NAME_def
  impl_CHANGE_DISCUSSION_CATEGORY_DESCRIPTION_def impl_CHANGE_DISCUSSION_CATEGORY_PARENT_def
  impl_CHANGE_DISCUSSION_CATEGORY_DISPLAY_ORDER_def impl_DELETE_DISCUSSION_CATEGORY_def
  impl_ADD_DISCUSSION_TAG_TO_CATEGORY_def impl_REMOVE_DISCUSSION_TAG_FROM_CATEGORY_def
  impl_GET_DISCUSSION_THREADS_OF_CATEGORY_BY_NAME_def impl_GET_DISCUSSION_THREADS_OF_CATEGORY_BY_CREATED_def
  impl_GET_DISCUSSION_THREADS_OF_CATEGORY_BY_LAST_UPDATED_def
  impl_GET_DISCUSSION_THREADS_OF_CATEGORY_BY_LATEST_MESSAGE_CREATED_def
  impl_GET_DISCUSSION_THREADS_OF_CATEGORY_BY_MESSAGE_COUNT_def impl_GET_ATTACHMENTS_BY_CREATED_def
  impl_GET_ATTACHMENTS_BY_NAME_def impl_GET_ATTACHMENTS_BY_SIZE_def impl_GET_ATTACHMENTS_BY_APPROVAL_def
  impl_GET_ATTACHMENTS_OF_USER_BY_CREATED_def impl_GET_ATTACHMENTS_OF_USER_BY_NAME_def
  impl_GET_ATTACHMENTS_OF_USER_BY_SIZE_def impl_GET_ATTACHMENTS_OF_USER_BY_APPROVAL_def
  impl_CAN_GET_ATTACHMENT_def impl_GET_ATTACHMENT_def impl_CAN_ADD_ATTACHMENT_def impl_ADD_ATTACHMENT_def
  impl_DELETE_ATTACHMENT_def impl_CHANGE_ATTACHMENT_NAME_def impl_CHANGE_ATTACHMENT_APPROVAL_def
  impl_ADD_ATTACHMENT_TO_DISCUSSION_THREAD_MESSAGE_def impl_REMOVE_ATTACHMENT_FROM_DISCUSSION_THREAD_MESSAGE_def
  impl_GET_REQUIRED_PRIVILEGES_FOR_THREAD_MESSAGE_def impl_GET_ASSIGNED_PRIVILEGES_FOR_THREAD_MESSAGE_def
  impl_CHANGE_DISCUSSION_THREAD_MESSAGE_REQUIRED_PRIVILEGE_FOR_THREAD_MESSAGE_def
  impl_GET_REQUIRED_PRIVILEGES_FOR_THREAD_def impl_GET_ASSIGNED_PRIVILEGES_FOR_THREAD_def
  impl_CHANGE_DISCUSSION_THREAD_MESSAGE_REQUIRED_PRIVILEGE_FOR_THREAD_def
  impl_CHANGE_DISCUSSION_THREAD_REQUIRED_PRIVILEGE_FOR_THREAD_def impl_GET_REQUIRED_PRIVILEGES_FOR_TAG_def
  impl_GET_ASSIGNED_PRIVILEGES_FOR_TAG_def impl_CHANGE_DISCUSSION_THREAD_MESSAGE_REQUIRED_PRIVILEGE_FOR_TAG_def
  impl_CHANGE_DISCUSSION_THREAD_REQUIRED_PRIVILEGE_FOR_TAG_def
  impl_CHANGE_DISCUSSION_TAG_REQUIRED_PRIVILEGE_FOR_TAG_def impl_GET_REQUIRED_PRIVILEGES_FOR_CATEGORY_def
  impl_GET_ASSIGNED_PRIVILEGES_FOR_CATEGORY_def
  impl_CHANGE_DISCUSSION_CATEGORY_REQUIRED_PRIVILEGE_FOR_CATEGORY_def
  impl_GET_FORUM_WIDE_CURRENT_USER_PRIVILEGES_def impl_GET_FORUM_WIDE_REQUIRED_PRIVILEGES_def
  impl_GET_FORUM_WIDE_DEFAULT_PRIVILEGE_LEVELS_def impl_GET_FORUM_WIDE_ASSIGNED_PRIVILEGES_def
  impl_GET_ASSIGNED_PRIVILEGES_FOR_USER_def impl_CHANGE_DISCUSSION_THREAD_MESSAGE_REQUIRED_PRIVILEGE_def
  impl_CHANGE_DISCUSSION_THREAD_REQUIRED_PRIVILEGE_def impl_CHANGE_DISCUSSION_TAG_REQUIRED_PRIVILEGE_def
  impl_CHANGE_DISCUSSION_CATEGORY_REQUIRED_PRIVILEGE_def impl_CHANGE_FORUM_WIDE_REQUIRED_PRIVILEGE_def
  impl_CHANGE_FORUM_WIDE_DEFAULT_PRIVILEGE_LEVEL_def impl_ASSIGN_DISCUSSION_THREAD_MESSAGE_PRIVILEGE_def
  impl_ASSIGN_DISCUSSION_THREAD_PRIVILEGE_def impl_ASSIGN_DISCUSSION_TAG_PRIVILEGE_def
  impl_ASSIGN_DISCUSSION_CATEGORY_PRIVILEGE_def impl_ASSIGN_FORUM_WIDE_PRIVILEGE_def

lemmas parameter_defs =
  called_def checked_def parameter_def optional_parameter_def normalized_def convertTo_def parsePrivilege_def
  checkNumberOfParameters_def checkNumberOfParametersAtLeast_def checkMinNumberOfParameters_def

subsection \<open>The tables of handlers\<close>

definition commandHandlers :: "(command \<times> command_handler) list" where
  "commandHandlers =
    [(Command_ADD_USER, impl_ADD_USER),
     (Command_CHANGE_USER_NAME, impl_CHANGE_USER_NAME),
     (Command_CHANGE_USER_INFO, impl_CHANGE_USER_INFO),
     (Command_CHANGE_USER_TITLE, impl_CHANGE_USER_TITLE),
     (Command_CHANGE_USER_SIGNATURE, impl_CHANGE_USER_SIGNATURE),
     (Command_CHANGE_USER_ATTACHMENT_QUOTA, impl_CHANGE_USER_ATTACHMENT_QUOTA),
     (Command_CHANGE_USER_LOGO, impl_CHANGE_USER_LOGO),
     (Command_DELETE_USER_LOGO, impl_DELETE_USER_LOGO),
     (Command_DELETE_USER, impl_DELETE_USER),
     (Command_SEND_PRIVATE_MESSAGE, impl_SEND_PRIVATE_MESSAGE),
     (Command_DELETE_PRIVATE_MESSAGE, impl_DELETE_PRIVATE_MESSAGE),
     (Command_ADD_DISCUSSION_THREAD, impl_ADD_DISCUSSION_THREAD),
     (Command_CHANGE_DISCUSSION_THREAD_NAME, impl_CHANGE_DISCUSSION_THREAD_NAME),
     (Command_CHANGE_DISCUSSION_THREAD_PIN_DISPLAY_ORDER, impl_CHANGE_DISCUSSION_THREAD_PIN_DISPLAY_ORDER),
     (Command_CHANGE_DISCUSSION_THREAD_APPROVAL, impl_CHANGE_DISCUSSION_THREAD_APPROVAL),
     (Command_DELETE_DISCUSSION_THREAD, impl_DELETE_DISCUSSION_THREAD),
     (Command_MERGE_DISCUSSION_THREADS, impl_MERGE_DISCUSSION_THREADS),
     (Command_ADD_DISCUSSION_THREAD_MESSAGE, impl_ADD_DISCUSSION_THREAD_MESSAGE),
     (Command_DELETE_DISCUSSION_THREAD_MESSAGE, impl_DELETE_DISCUSSION_THREAD_MESSAGE),
     (Command_CHANGE_DISCUSSION_THREAD_MESSAGE_CONTENT, impl_CHANGE_DISCUSSION_THREAD_MESSAGE_CONTENT),
     (Command_CHANGE_DISCUSSION_THREAD_MESSAGE_APPROVAL, impl_CHANGE_DISCUSSION_THREAD_MESSAGE_APPROVAL),
     (Command_MOVE_DISCUSSION_THREAD_MESSAGE, impl_MOVE_DISCUSSION_THREAD_MESSAGE),
     (Command_UP_VOTE_DISCUSSION_THREAD_MESSAGE, impl_UP_VOTE_DISCUSSION_THREAD_MESSAGE),
     (Command_DOWN_VOTE_DISCUSSION_THREAD_MESSAGE, impl_DOWN_VOTE_DISCUSSION_THREAD_MESSAGE),
     (Command_RESET_VOTE_DISCUSSION_THREAD_MESSAGE, impl_RESET_VOTE_DISCUSSION_THREAD_MESSAGE),
     (Command_SUBSCRIBE_TO_THREAD, impl_SUBSCRIBE_TO_THREAD),
     (Command_UNSUBSCRIBE_FROM_THREAD, impl_UNSUBSCRIBE_FROM_THREAD),
     (Command_ADD_COMMENT_TO_DISCUSSION_THREAD_MESSAGE, impl_ADD_COMMENT_TO_DISCUSSION_THREAD_MESSAGE),
     (Command_SET_MESSAGE_COMMENT_SOLVED, impl_SET_MESSAGE_COMMENT_SOLVED),
     (Command_ADD_DISCUSSION_TAG, impl_ADD_DISCUSSION_TAG),
     (Command_CHANGE_DISCUSSION_TAG_NAME, impl_CHANGE_DISCUSSION_TAG_NAME),
     (Command_CHANGE_DISCUSSION_TAG_UI_BLOB, impl_CHANGE_DISCUSSION_TAG_UI_BLOB),
     (Command_DELETE_DISCUSSION_TAG, impl_DELETE_DISCUSSION_TAG),
     (Command_ADD_DISCUSSION_TAG_TO_THREAD, impl_ADD_DISCUSSION_TAG_TO_THREAD),
     (Command_REMOVE_DISCUSSION_TAG_FROM_THREAD, impl_REMOVE_DISCUSSION_TAG_FROM_THREAD),
     (Command_MERGE_DISCUSSION_TAG_INTO_OTHER_TAG, impl_MERGE_DISCUSSION_TAG_INTO_OTHER_TAG),
     (Command_ADD_DISCUSSION_CATEGORY, impl_ADD_DISCUSSION_CATEGORY),
     (Command_CHANGE_DISCUSSION_CATEGORY_NAME, impl_CHANGE_DISCUSSION_CATEGORY_NAME),
     (Command_CHANGE_DISCUSSION_CATEGORY_DESCRIPTION, impl_CHANGE_DISCUSSION_CATEGORY_DESCRIPTION),
     (Command_CHANGE_DISCUSSION_CATEGORY_PARENT, impl_CHANGE_DISCUSSION_CATEGORY_PARENT),
     (Command_CHANGE_DISCUSSION_CATEGORY_DISPLAY_ORDER, impl_CHANGE_DISCUSSION_CATEGORY_DISPLAY_ORDER),
     (Command_DELETE_DISCUSSION_CATEGORY, impl_DELETE_DISCUSSION_CATEGORY),
     (Command_ADD_DISCUSSION_TAG_TO_CATEGORY, impl_ADD_DISCUSSION_TAG_TO_CATEGORY),
     (Command_REMOVE_DISCUSSION_TAG_FROM_CATEGORY, impl_REMOVE_DISCUSSION_TAG_FROM_CATEGORY),
     (Command_ADD_ATTACHMENT, impl_ADD_ATTACHMENT),
     (Command_DELETE_ATTACHMENT, impl_DELETE_ATTACHMENT),
     (Command_CHANGE_ATTACHMENT_NAME, impl_CHANGE_ATTACHMENT_NAME),
     (Command_CHANGE_ATTACHMENT_APPROVAL, impl_CHANGE_ATTACHMENT_APPROVAL),
     (Command_ADD_ATTACHMENT_TO_DISCUSSION_THREAD_MESSAGE, impl_ADD_ATTACHMENT_TO_DISCUSSION_THREAD_MESSAGE),
     (Command_REMOVE_ATTACHMENT_FROM_DISCUSSION_THREAD_MESSAGE, impl_REMOVE_ATTACHMENT_FROM_DISCUSSION_THREAD_MESSAGE),
     (Command_CHANGE_DISCUSSION_THREAD_MESSAGE_REQUIRED_PRIVILEGE_FOR_THREAD_MESSAGE, impl_CHANGE_DISCUSSION_THREAD_MESSAGE_REQUIRED_PRIVILEGE_FOR_THREAD_MESSAGE),
     (Command_CHANGE_DISCUSSION_THREAD_MESSAGE_REQUIRED_PRIVILEGE_FOR_THREAD, impl_CHANGE_DISCUSSION_THREAD_MESSAGE_REQUIRED_PRIVILEGE_FOR_THREAD),
     (Command_CHANGE_DISCUSSION_THREAD_REQUIRED_PRIVILEGE_FOR_THREAD, impl_CHANGE_DISCUSSION_THREAD_REQUIRED_PRIVILEGE_FOR_THREAD),
     (Command_CHANGE_DISCUSSION_THREAD_MESSAGE_REQUIRED_PRIVILEGE_FOR_TAG, impl_CHANGE_DISCUSSION_THREAD_MESSAGE_REQUIRED_PRIVILEGE_FOR_TAG),
     (Command_CHANGE_DISCUSSION_THREAD_REQUIRED_PRIVILEGE_FOR_TAG, impl_CHANGE_DISCUSSION_THREAD_REQUIRED_PRIVILEGE_FOR_TAG),
     (Command_CHANGE_DISCUSSION_TAG_REQUIRED_PRIVILEGE_FOR_TAG, impl_CHANGE_DISCUSSION_TAG_REQUIRED_PRIVILEGE_FOR_TAG),
     (Command_CHANGE_DISCUSSION_CATEGORY_REQUIRED_PRIVILEGE_FOR_CATEGORY, impl_CHANGE_DISCUSSION_CATEGORY_REQUIRED_PRIVILEGE_FOR_CATEGORY),
     (Command_CHANGE_DISCUSSION_THREAD_MESSAGE_REQUIRED_PRIVILEGE, impl_CHANGE_DISCUSSION_THREAD_MESSAGE_REQUIRED_PRIVILEGE),
     (Command_CHANGE_DISCUSSION_THREAD_REQUIRED_PRIVILEGE, impl_CHANGE_DISCUSSION_THREAD_REQUIRED_PRIVILEGE),
     (Command_CHANGE_DISCUSSION_TAG_REQUIRED_PRIVILEGE, impl_CHANGE_DISCUSSION_TAG_REQUIRED_PRIVILEGE),
     (Command_CHANGE_DISCUSSION_CATEGORY_REQUIRED_PRIVILEGE, impl_CHANGE_DISCUSSION_CATEGORY_REQUIRED_PRIVILEGE),
     (Command_CHANGE_FORUM_WIDE_REQUIRED_PRIVILEGE, impl_CHANGE_FORUM_WIDE_REQUIRED_PRIVILEGE),
     (Command_CHANGE_FORUM_WIDE_DEFAULT_PRIVILEGE_LEVEL, impl_CHANGE_FORUM_WIDE_DEFAULT_PRIVILEGE_LEVEL),
     (Command_ASSIGN_DISCUSSION_THREAD_MESSAGE_PRIVILEGE, impl_ASSIGN_DISCUSSION_THREAD_MESSAGE_PRIVILEGE),
     (Command_ASSIGN_DISCUSSION_THREAD_PRIVILEGE, impl_ASSIGN_DISCUSSION_THREAD_PRIVILEGE),
     (Command_ASSIGN_DISCUSSION_TAG_PRIVILEGE, impl_ASSIGN_DISCUSSION_TAG_PRIVILEGE),
     (Command_ASSIGN_DISCUSSION_CATEGORY_PRIVILEGE, impl_ASSIGN_DISCUSSION_CATEGORY_PRIVILEGE),
     (Command_ASSIGN_FORUM_WIDE_PRIVILEGE, impl_ASSIGN_FORUM_WIDE_PRIVILEGE)]"

definition viewHandlers :: "(view \<times> command_handler) list" where
  "viewHandlers =
    [(View_SHOW_VERSION, impl_SHOW_VERSION),
     (View_COUNT_ENTITIES, impl_COUNT_ENTITIES),
     (View_GET_FORUM_WIDE_CURRENT_USER_PRIVILEGES, impl_GET_FORUM_WIDE_CURRENT_USER_PRIVILEGES),
     (View_GET_CURRENT_USER, impl_GET_CURRENT_USER),
     (View_GET_USERS_BY_NAME, impl_GET_USERS_BY_NAME),
     (View_GET_USERS_BY_CREATED, impl_GET_USERS_BY_CREATED),
     (View_GET_USERS_BY_LAST_SEEN, impl_GET_USERS_BY_LAST_SEEN),
     (View_GET_USERS_BY_THREAD_COUNT, impl_GET_USERS_BY_THREAD_COUNT),
     (View_GET_USERS_BY_MESSAGE_COUNT, impl_GET_USERS_BY_MESSAGE_COUNT),
     (View_GET_USERS_ONLINE, impl_GET_USERS_ONLINE),
     (View_GET_USER_BY_ID, impl_GET_USER_BY_ID),
     (View_GET_USER_BY_NAME, impl_GET_USER_BY_NAME),
     (View_GET_MULTIPLE_USERS_BY_ID, impl_GET_MULTIPLE_USERS_BY_ID),
     (View_GET_MULTIPLE_USERS_BY_NAME, impl_GET_MULTIPLE_USERS_BY_NAME),
     (View_SEARCH_USERS_BY_NAME, impl_SEARCH_USERS_BY_NAME),
     (View_GET_USER_LOGO, impl_GET_USER_LOGO),
     (View_GET_USER_VOTE_HISTORY, impl_GET_USER_VOTE_HISTORY),
     (View_GET_USER_QUOTED_HISTORY, impl_GET_USER_QUOTED_HISTORY),
     (View_GET_USER_RECEIVED_PRIVATE_MESSAGES, impl_GET_USER_RECEIVED_PRIVATE_MESSAGES),
     (View_GET_USER_SENT_PRIVATE_MESSAGES, impl_GET_USER_SENT_PRIVATE_MESSAGES),
     (View_GET_DISCUSSION_THREADS_BY_NAME, impl_GET_DISCUSSION_THREADS_BY_NAME),
     (View_GET_DISCUSSION_THREADS_BY_CREATED, impl_GET_DISCUSSION_THREADS_BY_CREATED),
     (View_GET_DISCUSSION_THREADS_BY_LAST_UPDATED, impl_GET_DISCUSSION_THREADS_BY_LAST_UPDATED),
     (View_GET_DISCUSSION_THREADS_BY_LATEST_MESSAGE_CREATED, impl_GET_DISCUSSION_THREADS_BY_LATEST_MESSAGE_CREATED),
     (View_GET_DISCUSSION_THREADS_BY_MESSAGE_COUNT, impl_GET_DISCUSSION_THREADS_BY_MESSAGE_COUNT),
     (View_GET_DISCUSSION_THREAD_BY_ID, impl_GET_DISCUSSION_THREAD_BY_ID),
     (View_GET_MULTIPLE_DISCUSSION_THREADS_BY_ID, impl_GET_MULTIPLE_DISCUSSION_THREADS_BY_ID),
     (View_SEARCH_DISCUSSION_THREADS_BY_NAME, impl_SEARCH_DISCUSSION_THREADS_BY_NAME),
     (View_GET_DISCUSSION_THREADS_OF_USER_BY_NAME, impl_GET_DISCUSSION_THREADS_OF_USER_BY_NAME),
     (View_GET_DISCUSSION_THREADS_OF_USER_BY_CREATED, impl_GET_DISCUSSION_THREADS_OF_USER_BY_CREATED),
     (View_GET_DISCUSSION_THREADS_OF_USER_BY_LAST_UPDATED, impl_GET_DISCUSSION_THREADS_OF_USER_BY_LAST_UPDATED),
     (View_GET_DISCUSSION_THREADS_OF_USER_BY_LATEST_MESSAGE_CREATED, impl_GET_DISCUSSION_THREADS_OF_USER_BY_LATEST_MESSAGE_CREATED),
     (View_GET_DISCUSSION_THREADS_OF_USER_BY_MESSAGE_COUNT, impl_GET_DISCUSSION_THREADS_OF_USER_BY_MESSAGE_COUNT),
     (View_GET_SUBSCRIBED_DISCUSSION_THREADS_OF_USER_BY_NAME, impl_GET_SUBSCRIBED_DISCUSSION_THREADS_OF_USER_BY_NAME),
     (View_GET_SUBSCRIBED_DISCUSSION_THREADS_OF_USER_BY_CREATED, impl_GET_SUBSCRIBED_DISCUSSION_THREADS_OF_USER_BY_CREATED),
     (View_GET_SUBSCRIBED_DISCUSSION_THREADS_OF_USER_BY_LAST_UPDATED, impl_GET_SUBSCRIBED_DISCUSSION_THREADS_OF_USER_BY_LAST_UPDATED),
     (View_GET_SUBSCRIBED_DISCUSSION_THREADS_OF_USER_BY_LATEST_MESSAGE_CREATED, impl_GET_SUBSCRIBED_DISCUSSION_THREADS_OF_USER_BY_LATEST_MESSAGE_CREATED),
     (View_GET_SUBSCRIBED_DISCUSSION_THREADS_OF_USER_BY_MESSAGE_COUNT, impl_GET_SUBSCRIBED_DISCUSSION_THREADS_OF_USER_BY_MESSAGE_COUNT),
     (View_GET_USERS_SUBSCRIBED_TO_DISCUSSION_THREAD, impl_GET_USERS_SUBSCRIBED_TO_DISCUSSION_THREAD),
     (View_GET_MULTIPLE_DISCUSSION_THREAD_MESSAGES_BY_ID, impl_GET_MULTIPLE_DISCUSSION_THREAD_MESSAGES_BY_ID),
     (View_GET_DISCUSSION_THREAD_MESSAGES_OF_USER_BY_CREATED, impl_GET_DISCUSSION_THREAD_MESSAGES_OF_USER_BY_CREATED),
     (View_GET_LATEST_DISCUSSION_THREAD_MESSAGES, impl_GET_LATEST_DISCUSSION_THREAD_MESSAGES),
     (View_GET_DISCUSSION_THREAD_MESSAGE_RANK, impl_GET_DISCUSSION_THREAD_MESSAGE_RANK),
     (View_GET_MESSAGE_COMMENTS, impl_GET_MESSAGE_COMMENTS),
     (View_GET_MESSAGE_COMMENTS_OF_DISCUSSION_THREAD_MESSAGE, impl_GET_MESSAGE_COMMENTS_OF_DISCUSSION_THREAD_MESSAGE),
     (View_GET_MESSAGE_COMMENTS_OF_USER, impl_GET_MESSAGE_COMMENTS_OF_USER),
     (View_GET_DISCUSSION_TAGS_BY_NAME, impl_GET_DISCUSSION_TAGS_BY_NAME),
     (View_GET_DISCUSSION_TAGS_BY_THREAD_COUNT, impl_GET_DISCUSSION_TAGS_BY_THREAD_COUNT),
     (View_GET_DISCUSSION_TAGS_BY_MESSAGE_COUNT, impl_GET_DISCUSSION_TAGS_BY_MESSAGE_COUNT),
     (View_GET_DISCUSSION_THREADS_WITH_TAG_BY_NAME, impl_GET_DISCUSSION_THREADS_WITH_TAG_BY_NAME),
     (View_GET_DISCUSSION_THREADS_WITH_TAG_BY_CREATED, impl_GET_DISCUSSION_THREADS_WITH_TAG_BY_CREATED),
     (View_GET_DISCUSSION_THREADS_WITH_TAG_BY_LAST_UPDATED, impl_GET_DISCUSSION_THREADS_WITH_TAG_BY_LAST_UPDATED),
     (View_GET_DISCUSSION_THREADS_WITH_TAG_BY_LATEST_MESSAGE_CREATED, impl_GET_DISCUSSION_THREADS_WITH_TAG_BY_LATEST_MESSAGE_CREATED),
     (View_GET_DISCUSSION_THREADS_WITH_TAG_BY_MESSAGE_COUNT, impl_GET_DISCUSSION_THREADS_WITH_TAG_BY_MESSAGE_COUNT),
     (View_GET_DISCUSSION_CATEGORY_BY_ID, impl_GET_DISCUSSION_CATEGORY_BY_ID),
     (View_GET_DISCUSSION_CATEGORIES_BY_NAME, impl_GET_DISCUSSION_CATEGORIES_BY_NAME),
     (View_GET_DISCUSSION_CATEGORIES_BY_MESSAGE_COUNT, impl_GET_DISCUSSION_CATEGORIES_BY_MESSAGE_COUNT),
     (View_GET_DISCUSSION_CATEGORIES_FROM_ROOT, impl_GET_DISCUSSION_CATEGORIES_FROM_ROOT),
     (View_GET_DISCUSSION_THREADS_OF_CATEGORY_BY_NAME, impl_GET_DISCUSSION_THREADS_OF_CATEGORY_BY_NAME),
     (View_GET_DISCUSSION_THREADS_OF_CATEGORY_BY_CREATED, impl_GET_DISCUSSION_THREADS_OF_CATEGORY_BY_CREATED),
     (View_GET_DISCUSSION_THREADS_OF_CATEGORY_BY_LAST_UPDATED, impl_GET_DISCUSSION_THREADS_OF_CATEGORY_BY_LAST_UPDATED),
     (View_GET_DISCUSSION_THREADS_OF_CATEGORY_BY_LATEST_MESSAGE_CREATED, impl_GET_DISCUSSION_THREADS_OF_CATEGORY_BY_LATEST_MESSAGE_CREATED),
     (View_GET_DISCUSSION_THREADS_OF_CATEGORY_BY_MESSAGE_COUNT, impl_GET_DISCUSSION_THREADS_OF_CATEGORY_BY_MESSAGE_COUNT),
     (View_GET_ATTACHMENTS_BY_CREATED, impl_GET_ATTACHMENTS_BY_CREATED),
     (View_GET_ATTACHMENTS_BY_NAME, impl_GET_ATTACHMENTS_BY_NAME),
     (View_GET_ATTACHMENTS_BY_SIZE, impl_GET_ATTACHMENTS_BY_SIZE),
     (View_GET_ATTACHMENTS_BY_APPROVAL, impl_GET_ATTACHMENTS_BY_APPROVAL),
     (View_GET_ATTACHMENTS_OF_USER_BY_CREATED, impl_GET_ATTACHMENTS_OF_USER_BY_CREATED),
     (View_GET_ATTACHMENTS_OF_USER_BY_NAME, impl_GET_ATTACHMENTS_OF_USER_BY_NAME),
     (View_GET_ATTACHMENTS_OF_USER_BY_SIZE, impl_GET_ATTACHMENTS_OF_USER_BY_SIZE),
     (View_GET_ATTACHMENTS_OF_USER_BY_APPROVAL, impl_GET_ATTACHMENTS_OF_USER_BY_APPROVAL),
     (View_CAN_GET_ATTACHMENT, impl_CAN_GET_ATTACHMENT),
     (View_GET_ATTACHMENT, impl_GET_ATTACHMENT),
     (View_CAN_ADD_ATTACHMENT, impl_CAN_ADD_ATTACHMENT),
     (View_GET_REQUIRED_PRIVILEGES_FOR_THREAD_MESSAGE, impl_GET_REQUIRED_PRIVILEGES_FOR_THREAD_MESSAGE),
     (View_GET_ASSIGNED_PRIVILEGES_FOR_THREAD_MESSAGE, impl_GET_ASSIGNED_PRIVILEGES_FOR_THREAD_MESSAGE),
     (View_GET_REQUIRED_PRIVILEGES_FOR_THREAD, impl_GET_REQUIRED_PRIVILEGES_FOR_THREAD),
     (View_GET_ASSIGNED_PRIVILEGES_FOR_THREAD, impl_GET_ASSIGNED_PRIVILEGES_FOR_THREAD),
     (View_GET_REQUIRED_PRIVILEGES_FOR_TAG, impl_GET_REQUIRED_PRIVILEGES_FOR_TAG),
     (View_GET_ASSIGNED_PRIVILEGES_FOR_TAG, impl_GET_ASSIGNED_PRIVILEGES_FOR_TAG),
     (View_GET_REQUIRED_PRIVILEGES_FOR_CATEGORY, impl_GET_REQUIRED_PRIVILEGES_FOR_CATEGORY),
     (View_GET_ASSIGNED_PRIVILEGES_FOR_CATEGORY, impl_GET_ASSIGNED_PRIVILEGES_FOR_CATEGORY),
     (View_GET_FORUM_WIDE_CURRENT_USER_PRIVILEGES, impl_GET_FORUM_WIDE_CURRENT_USER_PRIVILEGES),
     (View_GET_FORUM_WIDE_REQUIRED_PRIVILEGES, impl_GET_FORUM_WIDE_REQUIRED_PRIVILEGES),
     (View_GET_FORUM_WIDE_DEFAULT_PRIVILEGE_LEVELS, impl_GET_FORUM_WIDE_DEFAULT_PRIVILEGE_LEVELS),
     (View_GET_FORUM_WIDE_ASSIGNED_PRIVILEGES, impl_GET_FORUM_WIDE_ASSIGNED_PRIVILEGES),
     (View_GET_ASSIGNED_PRIVILEGES_FOR_USER, impl_GET_ASSIGNED_PRIVILEGES_FOR_USER)]"

subsection \<open>Handling a command or a view\<close>

text \<open>
  What the context of a request holds: the repository context with the current user, the text of its
  authentication and how lists are displayed.
\<close>

datatype (plugins only: size) sort_order = Ascending | Descending

record service_context =
  sx_repository :: repository_context
  sx_userAuth :: string
  sx_sortOrder :: sort_order
  sx_pageNumber :: int
  sx_checkNotChangedSince :: timestamp

text \<open>
  The repositories: the index of users by authentication and the execution of a call, which writes its output
  behind what the buffer holds.
\<close>

record 's services =
  sv_byAuth :: "'s \<Rightarrow> string \<Rightarrow> id_type option"
  sv_run :: "service_context \<Rightarrow> service_call \<Rightarrow> string \<Rightarrow> 's \<Rightarrow> ((status_code \<times> string) \<times> 's) option"

record command_configuration =
  cfg_disableCommands :: bool
  cfg_disableCommandsForAnonymousUsers :: bool

definition updateCurrentUserId :: "'s services \<Rightarrow> 's \<Rightarrow> service_context \<Rightarrow> service_context" where
  "updateCurrentUserId sv s cx =
     (if sx_userAuth cx = [] then cx
      else case sv_byAuth sv s (sx_userAuth cx) of
             None \<Rightarrow> cx
           | Some uid \<Rightarrow> cx\<lparr>sx_repository := (sx_repository cx)\<lparr>rx_userId := uid\<rparr>\<rparr>)"

definition writeStatusCode :: "status_code \<Rightarrow> string \<Rightarrow> string option" where
  "writeStatusCode st = write_document (object_steps (named_steps [(''status'', writeNumber 8 False (status_number st))]))"

definition finish_command :: "status_code \<Rightarrow> string \<Rightarrow> 's \<Rightarrow> ((status_code \<times> string) \<times> 's) option" where
  "finish_command st out s =
     (if out = [] then map_option (\<lambda>t. ((st, t), s)) (writeStatusCode st out) else Some ((st, out), s))"

text \<open>
  \<open>handlers\<close> is the array of handlers, \<open>n\<close> its size. An element that was never set throws when it is called;
  that is \<open>None\<close>, too.
\<close>

definition run_handler ::
  "'s services \<Rightarrow> command_environment \<Rightarrow> service_context \<Rightarrow> (nat \<times> command_handler) list \<Rightarrow> nat \<Rightarrow> nat
   \<Rightarrow> string list \<Rightarrow> 's \<Rightarrow> ((status_code \<times> string) \<times> 's) option" where
  "run_handler sv env cx handlers n i ps s =
     (if i < n
      then (case map_of handlers i of
              None \<Rightarrow> None
            | Some f \<Rightarrow>
                (case f (env\<lparr>env_currentUserAuth := sx_userAuth cx\<rparr>) ps of
                   None \<Rightarrow> None
                 | Some (Answered st) \<Rightarrow> finish_command st [] s
                 | Some (Called c) \<Rightarrow>
                     (case sv_run sv cx c [] s of
                        None \<Rightarrow> None
                      | Some ((st, out), s') \<Rightarrow> finish_command st out s')))
      else finish_command NOT_FOUND [] s)"

definition handle_command ::
  "command_configuration \<Rightarrow> 's services \<Rightarrow> command_environment \<Rightarrow> service_context \<Rightarrow> command \<Rightarrow> string list \<Rightarrow> 's
   \<Rightarrow> ((status_code \<times> string) \<times> 's) option" where
  "handle_command cfg sv env cx command ps s =
     (let cx = updateCurrentUserId sv s cx
      in if cfg_disableCommands cfg then Some ((STATUS_NOT_ALLOWED, []), s)
         else if cfg_disableCommandsForAnonymousUsers cfg \<and> rx_userId (sx_repository cx) = 0
              then Some ((STATUS_NOT_ALLOWED, []), s)
         else run_handler sv env cx commandHandlers Command_LAST_COMMAND command ps s)"

definition handle_view ::
  "'s services \<Rightarrow> command_environment \<Rightarrow> service_context \<Rightarrow> view \<Rightarrow> string list \<Rightarrow> 's
   \<Rightarrow> ((status_code \<times> string) \<times> 's) option" where
  "handle_view sv env cx view ps s = 
     run_handler sv env (updateCurrentUserId sv s cx) viewHandlers View_LAST_VIEW view ps s"

end
