(* ===== verification/HttpResponse.thy ===== *)
theory HttpResponse
  imports HttpHeaders JsonText
begin

section \<open>Responses\<close>

text \<open>
  Models \<^verbatim>\<open>src/src/LibHttp/HttpResponseBuilder.h\<close>, its \<^verbatim>\<open>.cpp\<close> file and the table of status texts of
  \<^verbatim>\<open>private/HttpConstants.cpp\<close>. The bytes given to the write function are collected in the order of the calls.
  A step that breaks an assertion or reads storage that no longer exists gives \<open>None\<close>. The broken-down time
  of the C library is a parameter.
\<close>

subsection \<open>Status codes\<close>

definition HTTP_OK :: http_status where "HTTP_OK = 200"
definition Not_Modified :: http_status where "Not_Modified = 304"
definition Forbidden :: http_status where "Forbidden = 403"
definition Not_Found :: http_status where "Not_Found = 404"
definition Too_Many_Requests :: http_status where "Too_Many_Requests = 429"
definition HTTP_STATUS_CODES_COUNT :: nat where "HTTP_STATUS_CODES_COUNT = 512"

definition statusCodes :: "string list" where
  "statusCodes =
    (replicate 100 [] @ [''Continue'', ''Switching Protocols''] @ replicate 98 [] @
     [''OK'', ''Created'', ''Accepted'', ''Non-Authoritative Information'', ''No Content'', ''Reset Content'',
      ''Partial Content''] @ replicate 93 [] @
     [''Multiple Choices'', ''Moved Permanently'', ''Found'', ''See Other'', ''Not Modified'', ''Use Proxy''] @ [[]] @
     [''Temporary Redirect''] @ replicate 92 [] @
     [''Bad Request'', ''Unauthorized'', ''Payment Required'', ''Forbidden'', ''Not Found'', ''Method Not Allowed'',
      ''Not Acceptable'', ''Proxy Authentication Required'', ''Request Timeout'', ''Conflict'', ''Gone'',
      ''Length Required'', ''Precondition Failed'', ''Payload Too Large'', ''URI Too Long'',
      ''Unsupported Media Type'', ''Range Not Satisfiable'', ''Expectation Failed''] @ replicate 8 [] @
     [''Upgrade Required''] @ [[]] @ [''Precondition Required'', ''Too Many Requests''] @ [[]] @
     [''Request Header Fields Too Large''] @ replicate 68 [] @
     [''Internal Server Error'', ''Not Implemented'', ''Bad Gateway'', ''Service Unavailable'', ''Gateway Timeout'',
      ''HTTP Version Not Supported''] @ replicate 5 [] @ [''Network Authentication Required''])"

definition getStatusCodeString :: "http_status \<Rightarrow> string" where
  "getStatusCodeString status =
     (let result = (if 0 < status \<and> status < HTTP_STATUS_CODES_COUNT then statusCodes ! status else [])
      in if result \<noteq> [] then result else ''Unknown'')"

text \<open>The three characters a status code is written with.\<close>

definition status_digits :: "http_status \<Rightarrow> string" where
  "status_digits intCode =
     [char_of (intCode div 100 + 48), char_of (intCode div 10 mod 10 + 48), char_of (intCode mod 100 + 48)]"

definition CRLF :: string where "CRLF = [CHR 0x0D, CHR 0x0A]"

definition version_text :: "nat \<Rightarrow> nat \<Rightarrow> string" where
  "version_text majorVersion minorVersion =
     ''HTTP/'' @ [char_of (majorVersion + 48)] @ ''.'' @ [char_of (minorVersion + 48)] @ '' ''"

definition simpleResponseHeaders :: string where
  "simpleResponseHeaders = ''Connection: close'' @ CRLF @ ''Content-Length: 0'' @ CRLF"

definition buildSimpleResponseFromStatusCode :: "http_status \<Rightarrow> nat \<Rightarrow> nat \<Rightarrow> string option" where
  "buildSimpleResponseFromStatusCode status majorVersion minorVersion =
     (if majorVersion < 10 \<and> minorVersion < 10
      then Some (version_text majorVersion minorVersion @ status_digits status @ '' '' @ getStatusCodeString status
                 @ CRLF @ simpleResponseHeaders @ CRLF)
      else None)"

subsection \<open>Dates\<close>

text \<open>The fields of \<open>std::tm\<close> that are written; \<open>gmtime\<close> fills them, or fails.\<close>

record tm =
  tm_sec :: nat
  tm_min :: nat
  tm_hour :: nat
  tm_mday :: nat
  tm_mon :: nat
  tm_year :: nat
  tm_wday :: nat

definition DayNames :: "string list" where
  "DayNames = [''Sun'', ''Mon'', ''Tue'', ''Wed'', ''Thu'', ''Fri'', ''Sat'']"

definition MonthNames :: "string list" where
  "MonthNames = [''Jan'', ''Feb'', ''Mar'', ''Apr'', ''May'', ''Jun'', ''Jul'', ''Aug'', ''Sep'', ''Oct'', ''Nov'', ''Dec'']"

definition two_digits :: "nat \<Rightarrow> string" where
  "two_digits n = [char_of (48 + n div 10), char_of (48 + n mod 10)]"

definition writeHttpDateGMT :: "(int \<Rightarrow> tm option) \<Rightarrow> int \<Rightarrow> string" where
  "writeHttpDateGMT gmtime val =
     (case gmtime val of
        None \<Rightarrow> []
      | Some t \<Rightarrow>
          (let year = 1900 + tm_year t
           in DayNames ! tm_wday t @ '', '' @ two_digits (tm_mday t) @ '' '' @ MonthNames ! tm_mon t @ '' ''
              @ [char_of (48 + year div 1000), char_of (48 + year mod 1000 div 100), char_of (48 + year mod 100 div 10),
                 char_of (48 + year mod 10)]
              @ '' '' @ two_digits (tm_hour t) @ '':'' @ two_digits (tm_min t) @ '':'' @ two_digits (tm_sec t) @ '' GMT''))"

subsection \<open>The response builder\<close>

datatype (plugins only: size) protocol_state = NothingWritten | ResponseCodeWritten | BodyWritten

record response_builder =
  protocolState :: protocol_state
  written :: string

definition HttpResponseBuilder :: response_builder where
  "HttpResponseBuilder = \<lparr>protocolState = NothingWritten, written = []\<rparr>"

definition resetResponse :: "response_builder \<Rightarrow> response_builder" where
  "resetResponse b = b\<lparr>protocolState := NothingWritten\<rparr>"

definition write_response :: "string \<Rightarrow> response_builder \<Rightarrow> response_builder" where
  "write_response s b = b\<lparr>written := written b @ s\<rparr>"

type_synonym response_step = "response_builder \<Rightarrow> response_builder option"

definition writeResponseCode :: "nat \<Rightarrow> nat \<Rightarrow> http_status \<Rightarrow> response_step" where
  "writeResponseCode majorVersion minorVersion status b =
     (if protocolState b = NothingWritten \<and> majorVersion = 1 \<and> (minorVersion = 0 \<or> minorVersion = 1)
      then Some ((write_response (version_text majorVersion minorVersion @ status_digits status @ '' ''
                   @ getStatusCodeString status @ CRLF) b)\<lparr>protocolState := ResponseCodeWritten\<rparr>)
      else None)"

definition writeHeader :: "string \<Rightarrow> string \<Rightarrow> response_step" where
  "writeHeader name val b =
     (if protocolState b = ResponseCodeWritten then Some (write_response (name @ '': '' @ val @ CRLF) b) else None)"

definition writeHeader_int :: "string \<Rightarrow> 32 word \<Rightarrow> response_step" where
  "writeHeader_int name val = writeHeader name (number_text (sint val) False)"

definition writeBody :: "string \<Rightarrow> string \<Rightarrow> response_step" where
  "writeBody val prefix b =
     (if protocolState b = ResponseCodeWritten
      then Some ((write_response (CRLF @ prefix @ val) b)\<lparr>protocolState := BodyWritten\<rparr>) else None)"

definition writeBodyAndContentLength :: "string \<Rightarrow> string \<Rightarrow> response_step" where
  "writeBodyAndContentLength val prefix b =
     (if protocolState b = ResponseCodeWritten
      then Option.bind (writeHeader_int ''Content-Length'' (of_nat (length val + length prefix)) b) (writeBody val prefix)
      else None)"

subsection \<open>Cookies\<close>

definition ReservedCharactersForCookies :: "nat list" where
  "ReservedCharactersForCookies =
    (replicate 33 1 @ [0] @ [1] @ replicate 9 0 @ [1] @ replicate 14 0 @ [1] @ [0] @ [1] @ replicate 30 0 @
     [1] @ replicate 34 0 @ replicate 129 1)"

definition ReservedCharactersForUrlEncodingWithoutSlash :: "nat list" where
  "ReservedCharactersForUrlEncodingWithoutSlash =
    (replicate 45 1 @ replicate 13 0 @ replicate 7 1 @ replicate 26 0 @ replicate 4 1 @ [0] @ [1] @ replicate
     26 0 @ replicate 3 1 @ [0] @ replicate 129 1)"

definition MaxPercentEncodingInputSize :: nat where "MaxPercentEncodingInputSize = 2000"

text \<open>
  \<open>percentEncode\<close> with a table and no output encodes into an array on its own stack and returns a view of it.
  Reading a byte of that view is undefined.
\<close>

definition percentEncode_local :: "string \<Rightarrow> nat list \<Rightarrow> string option" where
  "percentEncode_local input table =
     (if percentEncode (MaxPercentEncodingInputSize * 3) table input = [] then Some [] else None)"

record cookie_extra =
  ce_expires :: "int option"
  ce_maxAge :: "32 word option"
  ce_domain :: string
  ce_path :: string
  ce_isSecure :: bool
  ce_isHttpOnly :: bool

definition cookie_flags :: "(int \<Rightarrow> tm option) \<Rightarrow> cookie_extra \<Rightarrow> string option" where
  "cookie_flags gmtime extra =
     (case (if ce_domain extra = [] then Some [] else percentEncode_local (ce_domain extra) ReservedCharactersForUrlEncoding) of
        None \<Rightarrow> None
      | Some encodedDomain \<Rightarrow>
          (case (if ce_path extra = [] then Some []
                 else percentEncode_local (ce_path extra) ReservedCharactersForUrlEncodingWithoutSlash) of
             None \<Rightarrow> None
           | Some encodedPath \<Rightarrow>
               Some ((case ce_expires extra of None \<Rightarrow> [] | Some e \<Rightarrow> ''; Expires='' @ writeHttpDateGMT gmtime e)
                 @ (case ce_maxAge extra of None \<Rightarrow> [] | Some s \<Rightarrow> ''; Max-Age='' @ number_text (uint s) False)
                 @ (if ce_domain extra = [] then [] else ''; Domain='' @ encodedDomain)
                 @ (if ce_path extra = [] then [] else ''; Path='' @ encodedPath)
                 @ (if ce_isSecure extra then ''; Secure'' else [])
                 @ (if ce_isHttpOnly extra then ''; HttpOnly'' else []) @ CRLF)))"

definition writeCookie :: "(int \<Rightarrow> tm option) \<Rightarrow> string \<Rightarrow> string \<Rightarrow> cookie_extra \<Rightarrow> response_step" where
  "writeCookie gmtime name val extra b =
     (if length name < MaxPercentEncodingInputSize \<and> length val < MaxPercentEncodingInputSize
         \<and> length (ce_domain extra) < MaxPercentEncodingInputSize \<and> length (ce_path extra) < MaxPercentEncodingInputSize
         \<and> protocolState b = ResponseCodeWritten
      then (case percentEncode_local name ReservedCharactersForCookies of
              None \<Rightarrow> None
            | Some encodedName \<Rightarrow>
                (case percentEncode_local val ReservedCharactersForCookies of
                   None \<Rightarrow> None
                 | Some encodedValue \<Rightarrow>
                     (case cookie_flags gmtime extra of
                        None \<Rightarrow> None
                      | Some flags \<Rightarrow>
                          Some (write_response (''Set-Cookie: '' @ encodedName @ ''='' @ encodedValue @ flags) b))))
      else None)"

subsection \<open>Lemmas\<close>

lemma decimal_three:
  assumes "100 \<le> n" "n < 1000"
  shows "decimal_digits n = [char_of (n div 100 + 48), char_of (n div 10 mod 10 + 48), char_of (n mod 10 + 48)]"
proof -
  have m: "n div 100 \<le> 9" using assms by simp
  then have "decimal_digits (n div 100) = [char_of (n div 100 + 48)]" by (subst decimal_digits.simps) simp
  moreover have "9 < n div 10" "decimal_digits (n div 10) = decimal_digits (n div 100) @ [char_of (n div 10 mod 10 + 48)]"
  proof -
    show ten: "9 < n div 10" using assms by simp
    show "decimal_digits (n div 10) = decimal_digits (n div 100) @ [char_of (n div 10 mod 10 + 48)]"
      using ten by (subst decimal_digits.simps) (simp add: div_mult2_eq [symmetric])
  qed
  ultimately show ?thesis using assms by (subst decimal_digits.simps) simp
qed

lemma char_of_less_eq_iff: "m < 256 \<Longrightarrow> n < 256 \<Longrightarrow> (char_of m :: char) = char_of n \<longleftrightarrow> (m::nat) = n"
  by (metis of_char_of mod_less)

lemma status_digits_iff:
  assumes "100 \<le> n" "n < 1000"
  shows "status_digits n = decimal_digits n \<longleftrightarrow> n div 10 mod 10 = 0"
proof -
  have "n mod 100 < 100" "n mod 10 < 10" by simp_all
  then have "n mod 100 + 48 < 256" "n mod 10 + 48 < 256" by linarith+
  then have "status_digits n = decimal_digits n \<longleftrightarrow> n mod 100 = n mod 10"
    by (simp add: status_digits_def decimal_three [OF assms] char_of_less_eq_iff)
  also have "\<dots> \<longleftrightarrow> n div 10 mod 10 = 0" using mod_mult2_eq [of n 10 10] by simp
  finally show ?thesis .
qed

text \<open>What a client reads: the lines up to an empty one, and the rest.\<close>

fun until_crlf :: "string \<Rightarrow> string \<times> string" where
  "until_crlf [] = ([], [])"
| "until_crlf (c # cs) = (if c = CHR 0x0D then ([], tl cs) else (c # fst (until_crlf cs), snd (until_crlf cs)))"

lemma until_crlf_length: "fst (until_crlf s) \<noteq> [] \<Longrightarrow> length (snd (until_crlf s)) < length s"
proof -
  have "length (snd (until_crlf s)) \<le> length s" for s
    by (induction s rule: until_crlf.induct) auto
  then show "fst (until_crlf s) \<noteq> [] \<Longrightarrow> length (snd (until_crlf s)) < length s"
    by (cases s) (auto simp: less_Suc_eq_le)
qed

definition header_field :: "string \<Rightarrow> string \<times> string" where
  "header_field l = (takeWhile (\<lambda>c. c \<noteq> CHR '':'') l, drop 2 (dropWhile (\<lambda>c. c \<noteq> CHR '':'') l))"

function read_fields :: "string \<Rightarrow> (string \<times> string) list \<times> string" where
  "read_fields s =
     (if fst (until_crlf s) = [] then ([], snd (until_crlf s))
      else (header_field (fst (until_crlf s)) # fst (read_fields (snd (until_crlf s))), snd (read_fields (snd (until_crlf s)))))"
  by pat_completeness auto
termination by (relation "measure length") (simp_all add: until_crlf_length)

declare read_fields.simps [simp del]

definition read_response :: "string \<Rightarrow> string \<times> (string \<times> string) list \<times> string" where
  "read_response s = (fst (until_crlf s), read_fields (snd (until_crlf s)))"

definition one_line :: "string \<Rightarrow> bool" where
  "one_line s \<longleftrightarrow> CHR 0x0D \<notin> set s"

lemma until_crlf_line: "one_line l \<Longrightarrow> until_crlf (l @ CRLF @ r) = (l, r)"
  by (induction l) (auto simp: one_line_def CRLF_def)

definition field_name :: "string \<Rightarrow> bool" where
  "field_name s \<longleftrightarrow> s \<noteq> [] \<and> one_line s \<and> CHR '':'' \<notin> set s"

lemma header_field_text: "field_name name \<Longrightarrow> header_field (name @ '': '' @ val) = (name, val)"
  by (auto simp: header_field_def field_name_def takeWhile_append dropWhile_append takeWhile_eq_all_conv [THEN iffD2])

lemma read_fields_field:
  assumes "field_name name" "one_line val"
  shows "read_fields (name @ '': '' @ val @ CRLF @ r) = ((name, val) # fst (read_fields r), snd (read_fields r))"
proof -
  have "one_line (name @ '': '' @ val)" using assms by (simp add: one_line_def field_name_def)
  from until_crlf_line [OF this, of r]
  have l: "until_crlf (name @ '': '' @ val @ CRLF @ r) = (name @ '': '' @ val, r)" by simp
  have "name @ '': '' @ val \<noteq> []" by simp
  then show ?thesis
    by (subst read_fields.simps) (simp only: l fst_conv snd_conv if_False header_field_text [OF assms(1)])
qed

lemma read_fields_empty_line: "read_fields (CRLF @ r) = ([], r)"
  by (subst read_fields.simps) (simp add: CRLF_def)

fun write_headers :: "(string \<times> string) list \<Rightarrow> response_step" where
  "write_headers [] b = Some b"
| "write_headers ((name, val) # hs) b = Option.bind (writeHeader name val b) (write_headers hs)"

definition headers_text :: "(string \<times> string) list \<Rightarrow> string" where
  "headers_text hs = concat (map (\<lambda>(name, val). name @ '': '' @ val @ CRLF) hs)"

lemma write_headers_text:
  "protocolState b = ResponseCodeWritten \<Longrightarrow> write_headers hs b = Some (write_response (headers_text hs) b)"
  by (induction hs arbitrary: b) (auto simp: headers_text_def writeHeader_def write_response_def)

lemma read_headers_text:
  "(\<forall>(name, val) \<in> set hs. field_name name \<and> one_line val) \<Longrightarrow>
   read_fields (headers_text hs @ r) = (hs @ fst (read_fields r), snd (read_fields r))"
proof (induction hs)
  case (Cons h hs)
  obtain name val where h: "h = (name, val)" by force
  show ?case using Cons read_fields_field [of name val "headers_text hs @ r"] by (simp add: h headers_text_def)
qed (simp add: headers_text_def)

lemma one_line_decimal: "one_line (decimal_digits n)"
  using json_digit_decimal [of n] by (auto simp: one_line_def list_all_iff json_digit_def byte_code_def)

end
