(* ===== verification/ServiceEndpoints.thy ===== *)
theory ServiceEndpoints
  imports CommandHandler HttpParser HttpRouter HttpResponse
begin

section \<open>The service endpoints\<close>

text \<open>
  Models \<^verbatim>\<open>src/src/LibForumServiceEndpoints/private/ServiceEndpoints.cpp\<close>, \<^verbatim>\<open>AuthStore.h\<close>,
  \<^verbatim>\<open>ServiceEndpointManager.cpp\<close> and \<^verbatim>\<open>src/src/LibForumData/VisitorCollection.h\<close> with its \<^verbatim>\<open>.cpp\<close> file. A request is
  the parsed request with the header buffer its views lie in, the address and the buffers of the body that the
  connection sets, and the extra parts of the path the router found. An endpoint turns it into a command or view
  with its parameters; \<open>handleInternal\<close> validates the request, sets the context, runs the command and writes the
  response. The checksum of boost is a parameter.
\<close>

subsection \<open>Authentication tokens\<close>

text \<open>
  The tokens with their authentication and the time they expire at. \<open>insert\<close> keeps an entry the map has. The
  time of expiry is computed on \<open>int64_t\<close>; \<open>None\<close> is an overflow.
\<close>

record auth_store =
  as_map :: "string \<Rightarrow> (string \<times> timestamp) option"
  as_lastCleanup :: timestamp

definition cleanupEverySeconds :: timestamp where "cleanupEverySeconds = 30"

definition auth_cleanup :: "timestamp \<Rightarrow> auth_store \<Rightarrow> auth_store" where
  "auth_cleanup now a =
     (if now - as_lastCleanup a < cleanupEverySeconds then a
      else a\<lparr>as_map := (\<lambda>token. case as_map a token of
                Some (authId, expiresAt) \<Rightarrow> if expiresAt < now then None else Some (authId, expiresAt)
              | None \<Rightarrow> None), as_lastCleanup := now\<rparr>)"

definition auth_add :: "timestamp \<Rightarrow> string \<Rightarrow> string \<Rightarrow> timestamp \<Rightarrow> auth_store \<Rightarrow> auth_store option" where
  "auth_add now authToken authId expiresIn a =
     (let a = auth_cleanup now a in
      case checked64 (now + expiresIn) of
        None \<Rightarrow> None
      | Some expiresAt \<Rightarrow>
          Some (case as_map a authToken of
                  Some entry \<Rightarrow> a
                | None \<Rightarrow> a\<lparr>as_map := (as_map a)(authToken \<mapsto> (authId, expiresAt))\<rparr>))"

definition auth_find :: "timestamp \<Rightarrow> string \<Rightarrow> auth_store \<Rightarrow> string" where
  "auth_find now authToken a =
     (case as_map a authToken of
        None \<Rightarrow> []
      | Some (authId, expiresAt) \<Rightarrow> if expiresAt < now then [] else authId)"

subsection \<open>Visitors\<close>

text \<open>The visitors with the time they leave at, each once, and their counter.\<close>

record visitor_collection =
  vc_visitForSeconds :: timestamp
  vc_collection :: "(64 word \<times> timestamp) list"
  vc_lastCleanup :: timestamp
  vc_currentNumberOfVisitors :: "64 word"

definition visitor_cleanup :: "timestamp \<Rightarrow> visitor_collection \<Rightarrow> visitor_collection" where
  "visitor_cleanup now v =
     (if now - vc_lastCleanup v < cleanupEverySeconds then v
      else v\<lparr>vc_collection := filter (\<lambda>(_, expiresAt). \<not> expiresAt < now) (vc_collection v),
             vc_currentNumberOfVisitors := vc_currentNumberOfVisitors v
               - of_nat (length (filter (\<lambda>(_, expiresAt). expiresAt < now) (vc_collection v))),
             vc_lastCleanup := now\<rparr>)"

definition visitor_add :: "timestamp \<Rightarrow> 64 word \<Rightarrow> visitor_collection \<Rightarrow> visitor_collection" where
  "visitor_add now visitor v =
     (let v = visitor_cleanup now v;
          expiresAt = now + vc_visitForSeconds v
      in if map_of (vc_collection v) visitor = None
         then v\<lparr>vc_collection := vc_collection v @ [(visitor, expiresAt)],
                vc_currentNumberOfVisitors := vc_currentNumberOfVisitors v + 1\<rparr>
         else v\<lparr>vc_collection := map (\<lambda>(k, e). if k = visitor then (k, expiresAt) else (k, e)) (vc_collection v)\<rparr>)"

subsection \<open>Requests\<close>

record endpoint_request =
  er_buffer :: string
  er_request :: http_request
  er_remoteAddress :: "128 word"
  er_contentBuffers :: "string list"
  er_extraPathParts :: "string list"

text \<open>The parts of the path are an array of \<open>MaxExtraPathParts\<close> views; those not found are empty.\<close>

definition extraPathPart :: "endpoint_request \<Rightarrow> nat \<Rightarrow> string" where
  "extraPathPart rq i = (if i < length (er_extraPathParts rq) then er_extraPathParts rq ! i else [])"

definition request_header :: "endpoint_request \<Rightarrow> http_header \<Rightarrow> string" where
  "request_header rq h = view_string (er_buffer rq) (req_headers (er_request rq) h)"

definition request_cookie :: "endpoint_request \<Rightarrow> string \<Rightarrow> string" where
  "request_cookie rq name = getCookie (er_buffer rq) (er_request rq) name"

definition request_query :: "endpoint_request \<Rightarrow> (string \<times> string) list" where
  "request_query rq =
     map (\<lambda>(name, val). (view_string (er_buffer rq) name, view_string (er_buffer rq) val)) (queryPairs (er_request rq))"

definition entireRequestBody :: "endpoint_request \<Rightarrow> string" where
  "entireRequestBody rq =
     (case er_contentBuffers rq of [] \<Rightarrow> [] | [buffer] \<Rightarrow> buffer | buffers \<Rightarrow> concat buffers)"

subsection \<open>The endpoints\<close>

datatype (plugins only: size) execution = ExecuteCommand command | ExecuteView view

type_synonym execute_fn = "endpoint_request \<Rightarrow> execution \<times> string list"

text \<open>The view an \<open>orderby\<close> pair of the query chooses; the last such pair that names an order decides.\<close>

definition OrderBy :: string where "OrderBy = ''orderbyORDERBY''"
definition OrderByCreated :: string where "OrderByCreated = ''createdCREATED''"
definition OrderByLastSeen :: string where "OrderByLastSeen = ''lastseenLASTSEEN''"
definition OrderByLastUpdated :: string where "OrderByLastUpdated = ''lastupdatedLASTUPDATED''"
definition OrderByLatestMessageCreated :: string where "OrderByLatestMessageCreated = ''latestmessagecreatedLATESTMESSAGECREATED''"
definition OrderByThreadCount :: string where "OrderByThreadCount = ''threadcountTHREADCOUNT''"
definition OrderByMessageCount :: string where "OrderByMessageCount = ''messagecountMESSAGECOUNT''"
definition OrderByName :: string where "OrderByName = ''nameNAME''"
definition OrderBySize :: string where "OrderBySize = ''sizeSIZE''"
definition OrderByApproval :: string where "OrderByApproval = ''approvalAPPROVAL''"

definition order_view :: "endpoint_request \<Rightarrow> view \<Rightarrow> (string \<times> view) list \<Rightarrow> view" where
  "order_view rq view choices =
     fold (\<lambda>(name, val) view. if matchStringUpperOrLower name OrderBy
             then (case find (\<lambda>(order, _). matchStringUpperOrLower val order) choices of
                     None \<Rightarrow> view | Some (_, chosen) \<Rightarrow> chosen)
             else view) (request_query rq) view"

text \<open>The loop of the tags tests every order.\<close>

definition order_view_all :: "endpoint_request \<Rightarrow> view \<Rightarrow> (string \<times> view) list \<Rightarrow> view" where
  "order_view_all rq view choices =
     fold (\<lambda>(name, val) view. if matchStringUpperOrLower name OrderBy
             then fold (\<lambda>(order, chosen) view. if matchStringUpperOrLower val order then chosen else view) choices view
             else view) (request_query rq) view"

definition MetricsEndpoint_getVersion :: execute_fn where
  "MetricsEndpoint_getVersion rq = (ExecuteView View_SHOW_VERSION, [])"

definition StatisticsEndpoint_getEntitiesCount :: execute_fn where
  "StatisticsEndpoint_getEntitiesCount rq = (ExecuteView View_COUNT_ENTITIES, [])"

definition UsersEndpoint_getAll :: execute_fn where
  "UsersEndpoint_getAll rq = (ExecuteView (order_view rq View_GET_USERS_BY_NAME
        [(OrderByCreated, View_GET_USERS_BY_CREATED),
         (OrderByLastSeen, View_GET_USERS_BY_LAST_SEEN),
         (OrderByThreadCount, View_GET_USERS_BY_THREAD_COUNT),
         (OrderByMessageCount, View_GET_USERS_BY_MESSAGE_COUNT)]), [])"

definition UsersEndpoint_getCurrent :: execute_fn where
  "UsersEndpoint_getCurrent rq = (ExecuteView View_GET_CURRENT_USER, [])"

definition UsersEndpoint_getOnline :: execute_fn where
  "UsersEndpoint_getOnline rq = (ExecuteView View_GET_USERS_ONLINE, [])"

definition UsersEndpoint_getUserById :: execute_fn where
  "UsersEndpoint_getUserById rq = (ExecuteView View_GET_USER_BY_ID, [extraPathPart rq 0])"

definition UsersEndpoint_getUserByName :: execute_fn where
  "UsersEndpoint_getUserByName rq = (ExecuteView View_GET_USER_BY_NAME, [extraPathPart rq 0])"

definition UsersEndpoint_getMultipleUsersById :: execute_fn where
  "UsersEndpoint_getMultipleUsersById rq = (ExecuteView View_GET_MULTIPLE_USERS_BY_ID, [extraPathPart rq 0])"

definition UsersEndpoint_getMultipleUsersByName :: execute_fn where
  "UsersEndpoint_getMultipleUsersByName rq = (ExecuteView View_GET_MULTIPLE_USERS_BY_NAME, [extraPathPart rq 0])"

definition UsersEndpoint_searchUsersByName :: execute_fn where
  "UsersEndpoint_searchUsersByName rq = (ExecuteView View_SEARCH_USERS_BY_NAME, [extraPathPart rq 0])"

definition UsersEndpoint_getUserLogo :: execute_fn where
  "UsersEndpoint_getUserLogo rq = (ExecuteView View_GET_USER_LOGO, [extraPathPart rq 0])"

definition UsersEndpoint_getUserVoteHistory :: execute_fn where
  "UsersEndpoint_getUserVoteHistory rq = (ExecuteView View_GET_USER_VOTE_HISTORY, [])"

definition UsersEndpoint_getUserQuotedHistory :: execute_fn where
  "UsersEndpoint_getUserQuotedHistory rq = (ExecuteView View_GET_USER_QUOTED_HISTORY, [])"

definition UsersEndpoint_getUsersSubscribedToThread :: execute_fn where
  "UsersEndpoint_getUsersSubscribedToThread rq = (ExecuteView View_GET_USERS_SUBSCRIBED_TO_DISCUSSION_THREAD, [extraPathPart rq 0])"

definition UsersEndpoint_add :: execute_fn where
  "UsersEndpoint_add rq = (ExecuteCommand Command_ADD_USER, [entireRequestBody rq])"

definition UsersEndpoint_remove :: execute_fn where
  "UsersEndpoint_remove rq = (ExecuteCommand Command_DELETE_USER, [extraPathPart rq 0])"

definition UsersEndpoint_changeName :: execute_fn where
  "UsersEndpoint_changeName rq = (ExecuteCommand Command_CHANGE_USER_NAME, [extraPathPart rq 0, entireRequestBody rq])"

definition UsersEndpoint_changeInfo :: execute_fn where
  "UsersEndpoint_changeInfo rq = (ExecuteCommand Command_CHANGE_USER_INFO, [extraPathPart rq 0, entireRequestBody rq])"

definition UsersEndpoint_changeTitle :: execute_fn where
  "UsersEndpoint_changeTitle rq = (ExecuteCommand Command_CHANGE_USER_TITLE, [extraPathPart rq 0, entireRequestBody rq])"

definition UsersEndpoint_changeSignature :: execute_fn where
  "UsersEndpoint_changeSignature rq = (ExecuteCommand Command_CHANGE_USER_SIGNATURE, [extraPathPart rq 0, entireRequestBody rq])"

definition UsersEndpoint_changeAttachmentQuota :: execute_fn where
  "UsersEndpoint_changeAttachmentQuota rq = (ExecuteCommand Command_CHANGE_USER_ATTACHMENT_QUOTA, [extraPathPart rq 0, extraPathPart rq 1])"

definition UsersEndpoint_changeLogo :: execute_fn where
  "UsersEndpoint_changeLogo rq = (ExecuteCommand Command_CHANGE_USER_LOGO, [extraPathPart rq 0, entireRequestBody rq])"

definition UsersEndpoint_deleteLogo :: execute_fn where
  "UsersEndpoint_deleteLogo rq = (ExecuteCommand Command_DELETE_USER_LOGO, [extraPathPart rq 0])"

definition UsersEndpoint_getReceivedPrivateMessages :: execute_fn where
  "UsersEndpoint_getReceivedPrivateMessages rq = (ExecuteView View_GET_USER_RECEIVED_PRIVATE_MESSAGES, [])"

definition UsersEndpoint_getSentPrivateMessages :: execute_fn where
  "UsersEndpoint_getSentPrivateMessages rq = (ExecuteView View_GET_USER_SENT_PRIVATE_MESSAGES, [])"

definition UsersEndpoint_sendPrivateMessage :: execute_fn where
  "UsersEndpoint_sendPrivateMessage rq = (ExecuteCommand Command_SEND_PRIVATE_MESSAGE, [extraPathPart rq 0, entireRequestBody rq])"

definition UsersEndpoint_deletePrivateMessage :: execute_fn where
  "UsersEndpoint_deletePrivateMessage rq = (ExecuteCommand Command_DELETE_PRIVATE_MESSAGE, [extraPathPart rq 0])"

definition DiscussionThreadsEndpoint_getAll :: execute_fn where
  "DiscussionThreadsEndpoint_getAll rq = (ExecuteView (order_view rq View_GET_DISCUSSION_THREADS_BY_NAME
        [(OrderByCreated, View_GET_DISCUSSION_THREADS_BY_CREATED),
         (OrderByLastUpdated, View_GET_DISCUSSION_THREADS_BY_LAST_UPDATED),
         (OrderByLatestMessageCreated, View_GET_DISCUSSION_THREADS_BY_LATEST_MESSAGE_CREATED),
         (OrderByMessageCount, View_GET_DISCUSSION_THREADS_BY_MESSAGE_COUNT)]), [])"

definition DiscussionThreadsEndpoint_getThreadById :: execute_fn where
  "DiscussionThreadsEndpoint_getThreadById rq = (ExecuteView View_GET_DISCUSSION_THREAD_BY_ID, [extraPathPart rq 0])"

definition DiscussionThreadsEndpoint_getMultipleThreadsById :: execute_fn where
  "DiscussionThreadsEndpoint_getMultipleThreadsById rq = (ExecuteView View_GET_MULTIPLE_DISCUSSION_THREADS_BY_ID, [extraPathPart rq 0])"

definition DiscussionThreadsEndpoint_getThreadsOfUser :: execute_fn where
  "DiscussionThreadsEndpoint_getThreadsOfUser rq = (ExecuteView (order_view rq View_GET_DISCUSSION_THREADS_OF_USER_BY_NAME
        [(OrderByCreated, View_GET_DISCUSSION_THREADS_OF_USER_BY_CREATED),
         (OrderByLastUpdated, View_GET_DISCUSSION_THREADS_OF_USER_BY_LAST_UPDATED),
         (OrderByLatestMessageCreated, View_GET_DISCUSSION_THREADS_OF_USER_BY_LATEST_MESSAGE_CREATED),
         (OrderByMessageCount, View_GET_DISCUSSION_THREADS_OF_USER_BY_MESSAGE_COUNT)]), [extraPathPart rq 0])"

definition DiscussionThreadsEndpoint_getThreadsWithTag :: execute_fn where
  "DiscussionThreadsEndpoint_getThreadsWithTag rq = (ExecuteView (order_view rq View_GET_DISCUSSION_THREADS_WITH_TAG_BY_NAME
        [(OrderByCreated, View_GET_DISCUSSION_THREADS_WITH_TAG_BY_CREATED),
         (OrderByLastUpdated, View_GET_DISCUSSION_THREADS_WITH_TAG_BY_LAST_UPDATED),
         (OrderByLatestMessageCreated, View_GET_DISCUSSION_THREADS_WITH_TAG_BY_LATEST_MESSAGE_CREATED),
         (OrderByMessageCount, View_GET_DISCUSSION_THREADS_WITH_TAG_BY_MESSAGE_COUNT)]), [extraPathPart rq 0])"

definition DiscussionThreadsEndpoint_getThreadsOfCategory :: execute_fn where
  "DiscussionThreadsEndpoint_getThreadsOfCategory rq = (ExecuteView (order_view rq View_GET_DISCUSSION_THREADS_OF_CATEGORY_BY_NAME
        [(OrderByCreated, View_GET_DISCUSSION_THREADS_OF_CATEGORY_BY_CREATED),
         (OrderByLastUpdated, View_GET_DISCUSSION_THREADS_OF_CATEGORY_BY_LAST_UPDATED),
         (OrderByLatestMessageCreated, View_GET_DISCUSSION_THREADS_OF_CATEGORY_BY_LATEST_MESSAGE_CREATED),
         (OrderByMessageCount, View_GET_DISCUSSION_THREADS_OF_CATEGORY_BY_MESSAGE_COUNT)]), [extraPathPart rq 0])"

definition DiscussionThreadsEndpoint_searchThreadsByName :: execute_fn where
  "DiscussionThreadsEndpoint_searchThreadsByName rq = (ExecuteView View_SEARCH_DISCUSSION_THREADS_BY_NAME, [extraPathPart rq 0])"

definition DiscussionThreadsEndpoint_getSubscribedThreadsOfUser :: execute_fn where
  "DiscussionThreadsEndpoint_getSubscribedThreadsOfUser rq = (ExecuteView (order_view rq View_GET_SUBSCRIBED_DISCUSSION_THREADS_OF_USER_BY_NAME
        [(OrderByCreated, View_GET_SUBSCRIBED_DISCUSSION_THREADS_OF_USER_BY_CREATED),
         (OrderByLastUpdated, View_GET_SUBSCRIBED_DISCUSSION_THREADS_OF_USER_BY_LAST_UPDATED),
         (OrderByLatestMessageCreated, View_GET_SUBSCRIBED_DISCUSSION_THREADS_OF_USER_BY_LATEST_MESSAGE_CREATED),
         (OrderByMessageCount, View_GET_SUBSCRIBED_DISCUSSION_THREADS_OF_USER_BY_MESSAGE_COUNT)]), [extraPathPart rq 0])"

definition DiscussionThreadsEndpoint_add :: execute_fn where
  "DiscussionThreadsEndpoint_add rq = (ExecuteCommand Command_ADD_DISCUSSION_THREAD, [entireRequestBody rq])"

definition DiscussionThreadsEndpoint_remove :: execute_fn where
  "DiscussionThreadsEndpoint_remove rq = (ExecuteCommand Command_DELETE_DISCUSSION_THREAD, [extraPathPart rq 0])"

definition DiscussionThreadsEndpoint_changeName :: execute_fn where
  "DiscussionThreadsEndpoint_changeName rq = (ExecuteCommand Command_CHANGE_DISCUSSION_THREAD_NAME, [extraPathPart rq 0, entireRequestBody rq])"

definition DiscussionThreadsEndpoint_changePinDisplayOrder :: execute_fn where
  "DiscussionThreadsEndpoint_changePinDisplayOrder rq = (ExecuteCommand Command_CHANGE_DISCUSSION_THREAD_PIN_DISPLAY_ORDER, [extraPathPart rq 0, entireRequestBody rq])"

definition DiscussionThreadsEndpoint_changeApproval :: execute_fn where
  "DiscussionThreadsEndpoint_changeApproval rq = (ExecuteCommand Command_CHANGE_DISCUSSION_THREAD_APPROVAL, [extraPathPart rq 0, extraPathPart rq 1])"

definition DiscussionThreadsEndpoint_merge :: execute_fn where
  "DiscussionThreadsEndpoint_merge rq = (ExecuteCommand Command_MERGE_DISCUSSION_THREADS, [extraPathPart rq 0, extraPathPart rq 1])"

definition DiscussionThreadsEndpoint_subscribe :: execute_fn where
  "DiscussionThreadsEndpoint_subscribe rq = (ExecuteCommand Command_SUBSCRIBE_TO_THREAD, [extraPathPart rq 0])"

definition DiscussionThreadsEndpoint_unsubscribe :: execute_fn where
  "DiscussionThreadsEndpoint_unsubscribe rq = (ExecuteCommand Command_UNSUBSCRIBE_FROM_THREAD, [extraPathPart rq 0])"

definition DiscussionThreadsEndpoint_addTag :: execute_fn where
  "DiscussionThreadsEndpoint_addTag rq = (ExecuteCommand Command_ADD_DISCUSSION_TAG_TO_THREAD, [extraPathPart rq 1, extraPathPart rq 0])"

definition DiscussionThreadsEndpoint_removeTag :: execute_fn where
  "DiscussionThreadsEndpoint_removeTag rq = (ExecuteCommand Command_REMOVE_DISCUSSION_TAG_FROM_THREAD, [extraPathPart rq 1, extraPathPart rq 0])"

definition DiscussionThreadMessagesEndpoint_getMultipleThreadMessagesById :: execute_fn where
  "DiscussionThreadMessagesEndpoint_getMultipleThreadMessagesById rq = (ExecuteView View_GET_MULTIPLE_DISCUSSION_THREAD_MESSAGES_BY_ID, [extraPathPart rq 0])"

definition DiscussionThreadMessagesEndpoint_getThreadMessagesOfUser :: execute_fn where
  "DiscussionThreadMessagesEndpoint_getThreadMessagesOfUser rq = (ExecuteView View_GET_DISCUSSION_THREAD_MESSAGES_OF_USER_BY_CREATED, [extraPathPart rq 0])"

definition DiscussionThreadMessagesEndpoint_getLatestThreadMessages :: execute_fn where
  "DiscussionThreadMessagesEndpoint_getLatestThreadMessages rq = (ExecuteView View_GET_LATEST_DISCUSSION_THREAD_MESSAGES, [])"

definition DiscussionThreadMessagesEndpoint_getRankOfMessage :: execute_fn where
  "DiscussionThreadMessagesEndpoint_getRankOfMessage rq = (ExecuteView View_GET_DISCUSSION_THREAD_MESSAGE_RANK, [extraPathPart rq 0])"

definition DiscussionThreadMessagesEndpoint_getAllComments :: execute_fn where
  "DiscussionThreadMessagesEndpoint_getAllComments rq = (ExecuteView View_GET_MESSAGE_COMMENTS, [])"

definition DiscussionThreadMessagesEndpoint_getCommentsOfMessage :: execute_fn where
  "DiscussionThreadMessagesEndpoint_getCommentsOfMessage rq = (ExecuteView View_GET_MESSAGE_COMMENTS_OF_DISCUSSION_THREAD_MESSAGE, [extraPathPart rq 0])"

definition DiscussionThreadMessagesEndpoint_getCommentsOfUser :: execute_fn where
  "DiscussionThreadMessagesEndpoint_getCommentsOfUser rq = (ExecuteView View_GET_MESSAGE_COMMENTS_OF_USER, [extraPathPart rq 0])"

definition DiscussionThreadMessagesEndpoint_add :: execute_fn where
  "DiscussionThreadMessagesEndpoint_add rq = (ExecuteCommand Command_ADD_DISCUSSION_THREAD_MESSAGE, [extraPathPart rq 0, entireRequestBody rq])"

definition DiscussionThreadMessagesEndpoint_remove :: execute_fn where
  "DiscussionThreadMessagesEndpoint_remove rq = (ExecuteCommand Command_DELETE_DISCUSSION_THREAD_MESSAGE, [extraPathPart rq 0])"

definition DiscussionThreadMessagesEndpoint_changeContent :: execute_fn where
  "DiscussionThreadMessagesEndpoint_changeContent rq = (ExecuteCommand Command_CHANGE_DISCUSSION_THREAD_MESSAGE_CONTENT, [extraPathPart rq 0, entireRequestBody rq, extraPathPart rq 1])"

definition DiscussionThreadMessagesEndpoint_changeApproval :: execute_fn where
  "DiscussionThreadMessagesEndpoint_changeApproval rq = (ExecuteCommand Command_CHANGE_DISCUSSION_THREAD_MESSAGE_APPROVAL, [extraPathPart rq 0, extraPathPart rq 1])"

definition DiscussionThreadMessagesEndpoint_move :: execute_fn where
  "DiscussionThreadMessagesEndpoint_move rq = (ExecuteCommand Command_MOVE_DISCUSSION_THREAD_MESSAGE, [extraPathPart rq 0, extraPathPart rq 1])"

definition DiscussionThreadMessagesEndpoint_upVote :: execute_fn where
  "DiscussionThreadMessagesEndpoint_upVote rq = (ExecuteCommand Command_UP_VOTE_DISCUSSION_THREAD_MESSAGE, [extraPathPart rq 0])"

definition DiscussionThreadMessagesEndpoint_downVote :: execute_fn where
  "DiscussionThreadMessagesEndpoint_downVote rq = (ExecuteCommand Command_DOWN_VOTE_DISCUSSION_THREAD_MESSAGE, [extraPathPart rq 0])"

definition DiscussionThreadMessagesEndpoint_resetVote :: execute_fn where
  "DiscussionThreadMessagesEndpoint_resetVote rq = (ExecuteCommand Command_RESET_VOTE_DISCUSSION_THREAD_MESSAGE, [extraPathPart rq 0])"

definition DiscussionThreadMessagesEndpoint_addComment :: execute_fn where
  "DiscussionThreadMessagesEndpoint_addComment rq = (ExecuteCommand Command_ADD_COMMENT_TO_DISCUSSION_THREAD_MESSAGE, [extraPathPart rq 0, entireRequestBody rq])"

definition DiscussionThreadMessagesEndpoint_setCommentSolved :: execute_fn where
  "DiscussionThreadMessagesEndpoint_setCommentSolved rq = (ExecuteCommand Command_SET_MESSAGE_COMMENT_SOLVED, [extraPathPart rq 0])"

definition DiscussionTagsEndpoint_getAll :: execute_fn where
  "DiscussionTagsEndpoint_getAll rq = (ExecuteView (order_view_all rq View_GET_DISCUSSION_TAGS_BY_NAME
        [(OrderByThreadCount, View_GET_DISCUSSION_TAGS_BY_THREAD_COUNT),
         (OrderByMessageCount, View_GET_DISCUSSION_TAGS_BY_MESSAGE_COUNT)]), [])"

definition DiscussionTagsEndpoint_add :: execute_fn where
  "DiscussionTagsEndpoint_add rq = (ExecuteCommand Command_ADD_DISCUSSION_TAG, [entireRequestBody rq])"

definition DiscussionTagsEndpoint_remove :: execute_fn where
  "DiscussionTagsEndpoint_remove rq = (ExecuteCommand Command_DELETE_DISCUSSION_TAG, [extraPathPart rq 0])"

definition DiscussionTagsEndpoint_changeName :: execute_fn where
  "DiscussionTagsEndpoint_changeName rq = (ExecuteCommand Command_CHANGE_DISCUSSION_TAG_NAME, [extraPathPart rq 0, entireRequestBody rq])"

definition DiscussionTagsEndpoint_changeUiBlob :: execute_fn where
  "DiscussionTagsEndpoint_changeUiBlob rq = (ExecuteCommand Command_CHANGE_DISCUSSION_TAG_UI_BLOB, [extraPathPart rq 0, entireRequestBody rq])"

definition DiscussionTagsEndpoint_merge :: execute_fn where
  "DiscussionTagsEndpoint_merge rq = (ExecuteCommand Command_MERGE_DISCUSSION_TAG_INTO_OTHER_TAG, [extraPathPart rq 0, extraPathPart rq 1])"

definition DiscussionCategoriesEndpoint_getAll :: execute_fn where
  "DiscussionCategoriesEndpoint_getAll rq = (ExecuteView (order_view rq View_GET_DISCUSSION_CATEGORIES_BY_NAME
        [(OrderByMessageCount, View_GET_DISCUSSION_CATEGORIES_BY_MESSAGE_COUNT)]), [])"

definition DiscussionCategoriesEndpoint_getRootCategories :: execute_fn where
  "DiscussionCategoriesEndpoint_getRootCategories rq = (ExecuteView View_GET_DISCUSSION_CATEGORIES_FROM_ROOT, [])"

definition DiscussionCategoriesEndpoint_getCategoryById :: execute_fn where
  "DiscussionCategoriesEndpoint_getCategoryById rq = (ExecuteView View_GET_DISCUSSION_CATEGORY_BY_ID, [extraPathPart rq 0])"

definition DiscussionCategoriesEndpoint_add :: execute_fn where
  "DiscussionCategoriesEndpoint_add rq = (ExecuteCommand Command_ADD_DISCUSSION_CATEGORY, [entireRequestBody rq, extraPathPart rq 0])"

definition DiscussionCategoriesEndpoint_remove :: execute_fn where
  "DiscussionCategoriesEndpoint_remove rq = (ExecuteCommand Command_DELETE_DISCUSSION_CATEGORY, [extraPathPart rq 0])"

definition DiscussionCategoriesEndpoint_changeName :: execute_fn where
  "DiscussionCategoriesEndpoint_changeName rq = (ExecuteCommand Command_CHANGE_DISCUSSION_CATEGORY_NAME, [extraPathPart rq 0, entireRequestBody rq])"

definition DiscussionCategoriesEndpoint_changeDescription :: execute_fn where
  "DiscussionCategoriesEndpoint_changeDescription rq = (ExecuteCommand Command_CHANGE_DISCUSSION_CATEGORY_DESCRIPTION, [extraPathPart rq 0, entireRequestBody rq])"

definition DiscussionCategoriesEndpoint_changeParent :: execute_fn where
  "DiscussionCategoriesEndpoint_changeParent rq = (ExecuteCommand Command_CHANGE_DISCUSSION_CATEGORY_PARENT, [extraPathPart rq 0, entireRequestBody rq])"

definition DiscussionCategoriesEndpoint_changeDisplayOrder :: execute_fn where
  "DiscussionCategoriesEndpoint_changeDisplayOrder rq = (ExecuteCommand Command_CHANGE_DISCUSSION_CATEGORY_DISPLAY_ORDER, [extraPathPart rq 0, entireRequestBody rq])"

definition DiscussionCategoriesEndpoint_addTag :: execute_fn where
  "DiscussionCategoriesEndpoint_addTag rq = (ExecuteCommand Command_ADD_DISCUSSION_TAG_TO_CATEGORY, [extraPathPart rq 1, extraPathPart rq 0])"

definition DiscussionCategoriesEndpoint_removeTag :: execute_fn where
  "DiscussionCategoriesEndpoint_removeTag rq = (ExecuteCommand Command_REMOVE_DISCUSSION_TAG_FROM_CATEGORY, [extraPathPart rq 1, extraPathPart rq 0])"

definition AttachmentsEndpoint_getAll :: execute_fn where
  "AttachmentsEndpoint_getAll rq = (ExecuteView (order_view rq View_GET_ATTACHMENTS_BY_CREATED
        [(OrderByName, View_GET_ATTACHMENTS_BY_NAME),
         (OrderBySize, View_GET_ATTACHMENTS_BY_SIZE),
         (OrderByApproval, View_GET_ATTACHMENTS_BY_APPROVAL)]), [])"

definition AttachmentsEndpoint_getOfUser :: execute_fn where
  "AttachmentsEndpoint_getOfUser rq = (ExecuteView (order_view rq View_GET_ATTACHMENTS_OF_USER_BY_CREATED
        [(OrderByName, View_GET_ATTACHMENTS_OF_USER_BY_NAME),
         (OrderBySize, View_GET_ATTACHMENTS_OF_USER_BY_SIZE),
         (OrderByApproval, View_GET_ATTACHMENTS_OF_USER_BY_APPROVAL)]), [extraPathPart rq 0])"

definition AttachmentsEndpoint_canGet :: execute_fn where
  "AttachmentsEndpoint_canGet rq = (ExecuteView View_CAN_GET_ATTACHMENT, [extraPathPart rq 0])"

definition AttachmentsEndpoint_get :: execute_fn where
  "AttachmentsEndpoint_get rq = (ExecuteView View_GET_ATTACHMENT, [extraPathPart rq 0])"

definition AttachmentsEndpoint_add :: execute_fn where
  "AttachmentsEndpoint_add rq = (ExecuteCommand Command_ADD_ATTACHMENT, [extraPathPart rq 0, extraPathPart rq 1])"

definition AttachmentsEndpoint_canAdd :: execute_fn where
  "AttachmentsEndpoint_canAdd rq = (ExecuteView View_CAN_ADD_ATTACHMENT, [])"

definition AttachmentsEndpoint_remove :: execute_fn where
  "AttachmentsEndpoint_remove rq = (ExecuteCommand Command_DELETE_ATTACHMENT, [extraPathPart rq 0])"

definition AttachmentsEndpoint_changeName :: execute_fn where
  "AttachmentsEndpoint_changeName rq = (ExecuteCommand Command_CHANGE_ATTACHMENT_NAME, [extraPathPart rq 0, extraPathPart rq 1])"

definition AttachmentsEndpoint_changeApproval :: execute_fn where
  "AttachmentsEndpoint_changeApproval rq = (ExecuteCommand Command_CHANGE_ATTACHMENT_APPROVAL, [extraPathPart rq 0, extraPathPart rq 1])"

definition AttachmentsEndpoint_addToMessage :: execute_fn where
  "AttachmentsEndpoint_addToMessage rq = (ExecuteCommand Command_ADD_ATTACHMENT_TO_DISCUSSION_THREAD_MESSAGE, [extraPathPart rq 0, extraPathPart rq 1])"

definition AttachmentsEndpoint_removeFromMessage :: execute_fn where
  "AttachmentsEndpoint_removeFromMessage rq = (ExecuteCommand Command_REMOVE_ATTACHMENT_FROM_DISCUSSION_THREAD_MESSAGE, [extraPathPart rq 0, extraPathPart rq 1])"

definition AuthorizationEndpoint_getRequiredPrivilegesForThreadMessage :: execute_fn where
  "AuthorizationEndpoint_getRequiredPrivilegesForThreadMessage rq = (ExecuteView View_GET_REQUIRED_PRIVILEGES_FOR_THREAD_MESSAGE, [extraPathPart rq 0])"

definition AuthorizationEndpoint_getAssignedPrivilegesForThreadMessage :: execute_fn where
  "AuthorizationEndpoint_getAssignedPrivilegesForThreadMessage rq = (ExecuteView View_GET_ASSIGNED_PRIVILEGES_FOR_THREAD_MESSAGE, [extraPathPart rq 0])"

definition AuthorizationEndpoint_getRequiredPrivilegesForThread :: execute_fn where
  "AuthorizationEndpoint_getRequiredPrivilegesForThread rq = (ExecuteView View_GET_REQUIRED_PRIVILEGES_FOR_THREAD, [extraPathPart rq 0])"

definition AuthorizationEndpoint_getAssignedPrivilegesForThread :: execute_fn where
  "AuthorizationEndpoint_getAssignedPrivilegesForThread rq = (ExecuteView View_GET_ASSIGNED_PRIVILEGES_FOR_THREAD, [extraPathPart rq 0])"

definition AuthorizationEndpoint_getRequiredPrivilegesForTag :: execute_fn where
  "AuthorizationEndpoint_getRequiredPrivilegesForTag rq = (ExecuteView View_GET_REQUIRED_PRIVILEGES_FOR_TAG, [extraPathPart rq 0])"

definition AuthorizationEndpoint_getAssignedPrivilegesForTag :: execute_fn where
  "AuthorizationEndpoint_getAssignedPrivilegesForTag rq = (ExecuteView View_GET_ASSIGNED_PRIVILEGES_FOR_TAG, [extraPathPart rq 0])"

definition AuthorizationEndpoint_getRequiredPrivilegesForCategory :: execute_fn where
  "AuthorizationEndpoint_getRequiredPrivilegesForCategory rq = (ExecuteView View_GET_REQUIRED_PRIVILEGES_FOR_CATEGORY, [extraPathPart rq 0])"

definition AuthorizationEndpoint_getAssignedPrivilegesForCategory :: execute_fn where
  "AuthorizationEndpoint_getAssignedPrivilegesForCategory rq = (ExecuteView View_GET_ASSIGNED_PRIVILEGES_FOR_CATEGORY, [extraPathPart rq 0])"

definition AuthorizationEndpoint_getForumWideCurrentUserPrivileges :: execute_fn where
  "AuthorizationEndpoint_getForumWideCurrentUserPrivileges rq = (ExecuteView View_GET_FORUM_WIDE_CURRENT_USER_PRIVILEGES, [])"

definition AuthorizationEndpoint_getForumWideRequiredPrivileges :: execute_fn where
  "AuthorizationEndpoint_getForumWideRequiredPrivileges rq = (ExecuteView View_GET_FORUM_WIDE_REQUIRED_PRIVILEGES, [])"

definition AuthorizationEndpoint_getForumWideDefaultPrivilegeLevels :: execute_fn where
  "AuthorizationEndpoint_getForumWideDefaultPrivilegeLevels rq = (ExecuteView View_GET_FORUM_WIDE_DEFAULT_PRIVILEGE_LEVELS, [])"

definition AuthorizationEndpoint_getForumWideAssignedPrivileges :: execute_fn where
  "AuthorizationEndpoint_getForumWideAssignedPrivileges rq = (ExecuteView View_GET_FORUM_WIDE_ASSIGNED_PRIVILEGES, [])"

definition AuthorizationEndpoint_getAssignedPrivilegesForUser :: execute_fn where
  "AuthorizationEndpoint_getAssignedPrivilegesForUser rq = (ExecuteView View_GET_ASSIGNED_PRIVILEGES_FOR_USER, [extraPathPart rq 0])"

definition AuthorizationEndpoint_changeDiscussionThreadMessageRequiredPrivilegeForThreadMessage :: execute_fn where
  "AuthorizationEndpoint_changeDiscussionThreadMessageRequiredPrivilegeForThreadMessage rq = (ExecuteCommand Command_CHANGE_DISCUSSION_THREAD_MESSAGE_REQUIRED_PRIVILEGE_FOR_THREAD_MESSAGE, [extraPathPart rq 0, extraPathPart rq 1, extraPathPart rq 2])"

definition AuthorizationEndpoint_changeDiscussionThreadMessageRequiredPrivilegeForThread :: execute_fn where
  "AuthorizationEndpoint_changeDiscussionThreadMessageRequiredPrivilegeForThread rq = (ExecuteCommand Command_CHANGE_DISCUSSION_THREAD_MESSAGE_REQUIRED_PRIVILEGE_FOR_THREAD, [extraPathPart rq 0, extraPathPart rq 1, extraPathPart rq 2])"

definition AuthorizationEndpoint_changeDiscussionThreadRequiredPrivilegeForThread :: execute_fn where
  "AuthorizationEndpoint_changeDiscussionThreadRequiredPrivilegeForThread rq = (ExecuteCommand Command_CHANGE_DISCUSSION_THREAD_REQUIRED_PRIVILEGE_FOR_THREAD, [extraPathPart rq 0, extraPathPart rq 1, extraPathPart rq 2])"

definition AuthorizationEndpoint_changeDiscussionThreadMessageRequiredPrivilegeForTag :: execute_fn where
  "AuthorizationEndpoint_changeDiscussionThreadMessageRequiredPrivilegeForTag rq = (ExecuteCommand Command_CHANGE_DISCUSSION_THREAD_MESSAGE_REQUIRED_PRIVILEGE_FOR_TAG, [extraPathPart rq 0, extraPathPart rq 1, extraPathPart rq 2])"

definition AuthorizationEndpoint_changeDiscussionThreadRequiredPrivilegeForTag :: execute_fn where
  "AuthorizationEndpoint_changeDiscussionThreadRequiredPrivilegeForTag rq = (ExecuteCommand Command_CHANGE_DISCUSSION_THREAD_REQUIRED_PRIVILEGE_FOR_TAG, [extraPathPart rq 0, extraPathPart rq 1, extraPathPart rq 2])"

definition AuthorizationEndpoint_changeDiscussionTagRequiredPrivilegeForTag :: execute_fn where
  "AuthorizationEndpoint_changeDiscussionTagRequiredPrivilegeForTag rq = (ExecuteCommand Command_CHANGE_DISCUSSION_TAG_REQUIRED_PRIVILEGE_FOR_TAG, [extraPathPart rq 0, extraPathPart rq 1, extraPathPart rq 2])"

definition AuthorizationEndpoint_changeDiscussionCategoryRequiredPrivilegeForCategory :: execute_fn where
  "AuthorizationEndpoint_changeDiscussionCategoryRequiredPrivilegeForCategory rq = (ExecuteCommand Command_CHANGE_DISCUSSION_CATEGORY_REQUIRED_PRIVILEGE_FOR_CATEGORY, [extraPathPart rq 0, extraPathPart rq 1, extraPathPart rq 2])"

definition AuthorizationEndpoint_changeDiscussionThreadMessageRequiredPrivilege :: execute_fn where
  "AuthorizationEndpoint_changeDiscussionThreadMessageRequiredPrivilege rq = (ExecuteCommand Command_CHANGE_DISCUSSION_THREAD_MESSAGE_REQUIRED_PRIVILEGE, [extraPathPart rq 0, extraPathPart rq 1])"

definition AuthorizationEndpoint_changeDiscussionThreadRequiredPrivilege :: execute_fn where
  "AuthorizationEndpoint_changeDiscussionThreadRequiredPrivilege rq = (ExecuteCommand Command_CHANGE_DISCUSSION_THREAD_REQUIRED_PRIVILEGE, [extraPathPart rq 0, extraPathPart rq 1])"

definition AuthorizationEndpoint_changeDiscussionTagRequiredPrivilege :: execute_fn where
  "AuthorizationEndpoint_changeDiscussionTagRequiredPrivilege rq = (ExecuteCommand Command_CHANGE_DISCUSSION_TAG_REQUIRED_PRIVILEGE, [extraPathPart rq 0, extraPathPart rq 1])"

definition AuthorizationEndpoint_changeDiscussionCategoryRequiredPrivilege :: execute_fn where
  "AuthorizationEndpoint_changeDiscussionCategoryRequiredPrivilege rq = (ExecuteCommand Command_CHANGE_DISCUSSION_CATEGORY_REQUIRED_PRIVILEGE, [extraPathPart rq 0, extraPathPart rq 1])"

definition AuthorizationEndpoint_changeForumWideRequiredPrivilege :: execute_fn where
  "AuthorizationEndpoint_changeForumWideRequiredPrivilege rq = (ExecuteCommand Command_CHANGE_FORUM_WIDE_REQUIRED_PRIVILEGE, [extraPathPart rq 0, extraPathPart rq 1])"

definition AuthorizationEndpoint_changeForumWideDefaultPrivilegeLevel :: execute_fn where
  "AuthorizationEndpoint_changeForumWideDefaultPrivilegeLevel rq = (ExecuteCommand Command_CHANGE_FORUM_WIDE_DEFAULT_PRIVILEGE_LEVEL, [extraPathPart rq 0, extraPathPart rq 1, extraPathPart rq 2])"

definition AuthorizationEndpoint_assignDiscussionThreadMessagePrivilege :: execute_fn where
  "AuthorizationEndpoint_assignDiscussionThreadMessagePrivilege rq = (ExecuteCommand Command_ASSIGN_DISCUSSION_THREAD_MESSAGE_PRIVILEGE, [extraPathPart rq 0, extraPathPart rq 1, extraPathPart rq 2, extraPathPart rq 3])"

definition AuthorizationEndpoint_assignDiscussionThreadPrivilege :: execute_fn where
  "AuthorizationEndpoint_assignDiscussionThreadPrivilege rq = (ExecuteCommand Command_ASSIGN_DISCUSSION_THREAD_PRIVILEGE, [extraPathPart rq 0, extraPathPart rq 1, extraPathPart rq 2, extraPathPart rq 3])"

definition AuthorizationEndpoint_assignDiscussionTagPrivilege :: execute_fn where
  "AuthorizationEndpoint_assignDiscussionTagPrivilege rq = (ExecuteCommand Command_ASSIGN_DISCUSSION_TAG_PRIVILEGE, [extraPathPart rq 0, extraPathPart rq 1, extraPathPart rq 2, extraPathPart rq 3])"

definition AuthorizationEndpoint_assignDiscussionCategoryPrivilege :: execute_fn where
  "AuthorizationEndpoint_assignDiscussionCategoryPrivilege rq = (ExecuteCommand Command_ASSIGN_DISCUSSION_CATEGORY_PRIVILEGE, [extraPathPart rq 0, extraPathPart rq 1, extraPathPart rq 2, extraPathPart rq 3])"

definition AuthorizationEndpoint_assignForumWidePrivilege :: execute_fn where
  "AuthorizationEndpoint_assignForumWidePrivilege rq = (ExecuteCommand Command_ASSIGN_FORUM_WIDE_PRIVILEGE, [extraPathPart rq 0, extraPathPart rq 1, extraPathPart rq 2])"

lemmas endpoint_defs =
  MetricsEndpoint_getVersion_def StatisticsEndpoint_getEntitiesCount_def UsersEndpoint_getAll_def
  UsersEndpoint_getCurrent_def UsersEndpoint_getOnline_def UsersEndpoint_getUserById_def
  UsersEndpoint_getUserByName_def UsersEndpoint_getMultipleUsersById_def
  UsersEndpoint_getMultipleUsersByName_def UsersEndpoint_searchUsersByName_def UsersEndpoint_getUserLogo_def
  UsersEndpoint_getUserVoteHistory_def UsersEndpoint_getUserQuotedHistory_def
  UsersEndpoint_getUsersSubscribedToThread_def UsersEndpoint_add_def UsersEndpoint_remove_def
  UsersEndpoint_changeName_def UsersEndpoint_changeInfo_def UsersEndpoint_changeTitle_def
  UsersEndpoint_changeSignature_def UsersEndpoint_changeAttachmentQuota_def UsersEndpoint_changeLogo_def
  UsersEndpoint_deleteLogo_def UsersEndpoint_getReceivedPrivateMessages_def
  UsersEndpoint_getSentPrivateMessages_def UsersEndpoint_sendPrivateMessage_def
  UsersEndpoint_deletePrivateMessage_def DiscussionThreadsEndpoint_getAll_def
  DiscussionThreadsEndpoint_getThreadById_def DiscussionThreadsEndpoint_getMultipleThreadsById_def
  DiscussionThreadsEndpoint_getThreadsOfUser_def DiscussionThreadsEndpoint_getThreadsWithTag_def
  DiscussionThreadsEndpoint_getThreadsOfCategory_def DiscussionThreadsEndpoint_searchThreadsByName_def
  DiscussionThreadsEndpoint_getSubscribedThreadsOfUser_def DiscussionThreadsEndpoint_add_def
  DiscussionThreadsEndpoint_remove_def DiscussionThreadsEndpoint_changeName_def
  DiscussionThreadsEndpoint_changePinDisplayOrder_def DiscussionThreadsEndpoint_changeApproval_def
  DiscussionThreadsEndpoint_merge_def DiscussionThreadsEndpoint_subscribe_def
  DiscussionThreadsEndpoint_unsubscribe_def DiscussionThreadsEndpoint_addTag_def
  DiscussionThreadsEndpoint_removeTag_def DiscussionThreadMessagesEndpoint_getMultipleThreadMessagesById_def
  DiscussionThreadMessagesEndpoint_getThreadMessagesOfUser_def
  DiscussionThreadMessagesEndpoint_getLatestThreadMessages_def
  DiscussionThreadMessagesEndpoint_getRankOfMessage_def DiscussionThreadMessagesEndpoint_getAllComments_def
  DiscussionThreadMessagesEndpoint_getCommentsOfMessage_def
  DiscussionThreadMessagesEndpoint_getCommentsOfUser_def DiscussionThreadMessagesEndpoint_add_def
  DiscussionThreadMessagesEndpoint_remove_def DiscussionThreadMessagesEndpoint_changeContent_def
  DiscussionThreadMessagesEndpoint_changeApproval_def DiscussionThreadMessagesEndpoint_move_def
  DiscussionThreadMessagesEndpoint_upVote_def DiscussionThreadMessagesEndpoint_downVote_def
  DiscussionThreadMessagesEndpoint_resetVote_def DiscussionThreadMessagesEndpoint_addComment_def
  DiscussionThreadMessagesEndpoint_setCommentSolved_def DiscussionTagsEndpoint_getAll_def
  DiscussionTagsEndpoint_add_def DiscussionTagsEndpoint_remove_def DiscussionTagsEndpoint_changeName_def
  DiscussionTagsEndpoint_changeUiBlob_def DiscussionTagsEndpoint_merge_def
  DiscussionCategoriesEndpoint_getAll_def DiscussionCategoriesEndpoint_getRootCategories_def
  DiscussionCategoriesEndpoint_getCategoryById_def DiscussionCategoriesEndpoint_add_def
  DiscussionCategoriesEndpoint_remove_def DiscussionCategoriesEndpoint_changeName_def
  DiscussionCategoriesEndpoint_changeDescription_def DiscussionCategoriesEndpoint_changeParent_def
  DiscussionCategoriesEndpoint_changeDisplayOrder_def DiscussionCategoriesEndpoint_addTag_def
  DiscussionCategoriesEndpoint_removeTag_def AttachmentsEndpoint_getAll_def AttachmentsEndpoint_getOfUser_def
  AttachmentsEndpoint_canGet_def AttachmentsEndpoint_get_def AttachmentsEndpoint_add_def
  AttachmentsEndpoint_canAdd_def AttachmentsEndpoint_remove_def AttachmentsEndpoint_changeName_def
  AttachmentsEndpoint_changeApproval_def AttachmentsEndpoint_addToMessage_def
  AttachmentsEndpoint_removeFromMessage_def AuthorizationEndpoint_getRequiredPrivilegesForThreadMessage_def
  AuthorizationEndpoint_getAssignedPrivilegesForThreadMessage_def
  AuthorizationEndpoint_getRequiredPrivilegesForThread_def
  AuthorizationEndpoint_getAssignedPrivilegesForThread_def AuthorizationEndpoint_getRequiredPrivilegesForTag_def
  AuthorizationEndpoint_getAssignedPrivilegesForTag_def
  AuthorizationEndpoint_getRequiredPrivilegesForCategory_def
  AuthorizationEndpoint_getAssignedPrivilegesForCategory_def
  AuthorizationEndpoint_getForumWideCurrentUserPrivileges_def
  AuthorizationEndpoint_getForumWideRequiredPrivileges_def
  AuthorizationEndpoint_getForumWideDefaultPrivilegeLevels_def
  AuthorizationEndpoint_getForumWideAssignedPrivileges_def
  AuthorizationEndpoint_getAssignedPrivilegesForUser_def
  AuthorizationEndpoint_changeDiscussionThreadMessageRequiredPrivilegeForThreadMessage_def
  AuthorizationEndpoint_changeDiscussionThreadMessageRequiredPrivilegeForThread_def
  AuthorizationEndpoint_changeDiscussionThreadRequiredPrivilegeForThread_def
  AuthorizationEndpoint_changeDiscussionThreadMessageRequiredPrivilegeForTag_def
  AuthorizationEndpoint_changeDiscussionThreadRequiredPrivilegeForTag_def
  AuthorizationEndpoint_changeDiscussionTagRequiredPrivilegeForTag_def
  AuthorizationEndpoint_changeDiscussionCategoryRequiredPrivilegeForCategory_def
  AuthorizationEndpoint_changeDiscussionThreadMessageRequiredPrivilege_def
  AuthorizationEndpoint_changeDiscussionThreadRequiredPrivilege_def
  AuthorizationEndpoint_changeDiscussionTagRequiredPrivilege_def
  AuthorizationEndpoint_changeDiscussionCategoryRequiredPrivilege_def
  AuthorizationEndpoint_changeForumWideRequiredPrivilege_def
  AuthorizationEndpoint_changeForumWideDefaultPrivilegeLevel_def
  AuthorizationEndpoint_assignDiscussionThreadMessagePrivilege_def
  AuthorizationEndpoint_assignDiscussionThreadPrivilege_def
  AuthorizationEndpoint_assignDiscussionTagPrivilege_def
  AuthorizationEndpoint_assignDiscussionCategoryPrivilege_def AuthorizationEndpoint_assignForumWidePrivilege_def

subsection \<open>Routes\<close>

datatype (plugins only: size) endpoint = JsonEndpoint execute_fn | BinaryEndpoint string execute_fn | LoginEndpoint

definition service_routes :: "(string \<times> http_verb \<times> endpoint option) list" where
  "service_routes =
    [(''metrics/version'', GET, Some (JsonEndpoint MetricsEndpoint_getVersion)),
     (''statistics/entitycount'', GET, Some (JsonEndpoint StatisticsEndpoint_getEntitiesCount)),
     (''users'', GET, Some (JsonEndpoint UsersEndpoint_getAll)),
     (''users/current'', GET, Some (JsonEndpoint UsersEndpoint_getCurrent)),
     (''users/online'', GET, Some (JsonEndpoint UsersEndpoint_getOnline)),
     (''users/id'', GET, Some (JsonEndpoint UsersEndpoint_getUserById)),
     (''users/name'', GET, Some (JsonEndpoint UsersEndpoint_getUserByName)),
     (''users/multiple/ids'', GET, Some (JsonEndpoint UsersEndpoint_getMultipleUsersById)),
     (''users/multiple/names'', GET, Some (JsonEndpoint UsersEndpoint_getMultipleUsersByName)),
     (''users/search'', GET, Some (JsonEndpoint UsersEndpoint_searchUsersByName)),
     (''users'', POST, Some (JsonEndpoint UsersEndpoint_add)),
     (''users'', VERB_DELETE, Some (JsonEndpoint UsersEndpoint_remove)),
     (''users/name'', PUT, Some (JsonEndpoint UsersEndpoint_changeName)),
     (''users/info'', PUT, Some (JsonEndpoint UsersEndpoint_changeInfo)),
     (''users/title'', PUT, Some (JsonEndpoint UsersEndpoint_changeTitle)),
     (''users/signature'', PUT, Some (JsonEndpoint UsersEndpoint_changeSignature)),
     (''users/attachment_quota'', PUT, Some (JsonEndpoint UsersEndpoint_changeAttachmentQuota)),
     (''users/logo'', GET, Some (BinaryEndpoint ''image/png'' UsersEndpoint_getUserLogo)),
     (''users/logo'', PUT, Some (JsonEndpoint UsersEndpoint_changeLogo)),
     (''users/logo'', VERB_DELETE, Some (JsonEndpoint UsersEndpoint_deleteLogo)),
     (''users/votehistory'', GET, Some (JsonEndpoint UsersEndpoint_getUserVoteHistory)),
     (''users/quotedhistory'', GET, Some (JsonEndpoint UsersEndpoint_getUserQuotedHistory)),
     (''users/subscribed/thread'', GET, Some (JsonEndpoint UsersEndpoint_getUsersSubscribedToThread)),
     (''threads'', GET, Some (JsonEndpoint DiscussionThreadsEndpoint_getAll)),
     (''threads/id'', GET, Some (JsonEndpoint DiscussionThreadsEndpoint_getThreadById)),
     (''threads/multiple'', GET, Some (JsonEndpoint DiscussionThreadsEndpoint_getMultipleThreadsById)),
     (''threads/user'', GET, Some (JsonEndpoint DiscussionThreadsEndpoint_getThreadsOfUser)),
     (''threads/subscribed/user'', GET, Some (JsonEndpoint DiscussionThreadsEndpoint_getSubscribedThreadsOfUser)),
     (''threads/tag'', GET, Some (JsonEndpoint DiscussionThreadsEndpoint_getThreadsWithTag)),
     (''threads/category'', GET, Some (JsonEndpoint DiscussionThreadsEndpoint_getThreadsOfCategory)),
     (''threads/search'', GET, Some (JsonEndpoint DiscussionThreadsEndpoint_searchThreadsByName)),
     (''threads'', POST, Some (JsonEndpoint DiscussionThreadsEndpoint_add)),
     (''threads'', VERB_DELETE, Some (JsonEndpoint DiscussionThreadsEndpoint_remove)),
     (''threads/name'', PUT, Some (JsonEndpoint DiscussionThreadsEndpoint_changeName)),
     (''threads/pindisplayorder'', PUT, Some (JsonEndpoint DiscussionThreadsEndpoint_changePinDisplayOrder)),
     (''threads/approval'', PUT, Some (JsonEndpoint DiscussionThreadsEndpoint_changeApproval)),
     (''threads/merge'', POST, Some (JsonEndpoint DiscussionThreadsEndpoint_merge)),
     (''threads/subscribe'', POST, Some (JsonEndpoint DiscussionThreadsEndpoint_subscribe)),
     (''threads/unsubscribe'', POST, Some (JsonEndpoint DiscussionThreadsEndpoint_unsubscribe)),
     (''threads/tag'', POST, Some (JsonEndpoint DiscussionThreadsEndpoint_addTag)),
     (''threads/tag'', VERB_DELETE, Some (JsonEndpoint DiscussionThreadsEndpoint_removeTag)),
     (''thread_messages/multiple'', GET, Some (JsonEndpoint DiscussionThreadMessagesEndpoint_getMultipleThreadMessagesById)),
     (''thread_messages/user'', GET, Some (JsonEndpoint DiscussionThreadMessagesEndpoint_getThreadMessagesOfUser)),
     (''thread_messages/latest'', GET, Some (JsonEndpoint DiscussionThreadMessagesEndpoint_getLatestThreadMessages)),
     (''thread_messages/allcomments'', GET, Some (JsonEndpoint DiscussionThreadMessagesEndpoint_getAllComments)),
     (''thread_messages/comments'', GET, Some (JsonEndpoint DiscussionThreadMessagesEndpoint_getCommentsOfMessage)),
     (''thread_messages/comments/user'', GET, Some (JsonEndpoint DiscussionThreadMessagesEndpoint_getCommentsOfUser)),
     (''thread_messages/rank'', GET, Some (JsonEndpoint DiscussionThreadMessagesEndpoint_getRankOfMessage)),
     (''thread_messages'', POST, Some (JsonEndpoint DiscussionThreadMessagesEndpoint_add)),
     (''thread_messages'', VERB_DELETE, Some (JsonEndpoint DiscussionThreadMessagesEndpoint_remove)),
     (''thread_messages/content'', PUT, Some (JsonEndpoint DiscussionThreadMessagesEndpoint_changeContent)),
     (''thread_messages/approval'', PUT, Some (JsonEndpoint DiscussionThreadMessagesEndpoint_changeApproval)),
     (''thread_messages/move'', POST, Some (JsonEndpoint DiscussionThreadMessagesEndpoint_move)),
     (''thread_messages/upvote'', POST, Some (JsonEndpoint DiscussionThreadMessagesEndpoint_upVote)),
     (''thread_messages/downvote'', POST, Some (JsonEndpoint DiscussionThreadMessagesEndpoint_downVote)),
     (''thread_messages/resetvote'', POST, Some (JsonEndpoint DiscussionThreadMessagesEndpoint_resetVote)),
     (''thread_messages/comment'', POST, Some (JsonEndpoint DiscussionThreadMessagesEndpoint_addComment)),
     (''thread_messages/comment/solved'', PUT, Some (JsonEndpoint DiscussionThreadMessagesEndpoint_setCommentSolved)),
     (''private_messages/received'', GET, Some (JsonEndpoint UsersEndpoint_getReceivedPrivateMessages)),
     (''private_messages/sent'', GET, Some (JsonEndpoint UsersEndpoint_getSentPrivateMessages)),
     (''private_messages'', POST, Some (JsonEndpoint UsersEndpoint_sendPrivateMessage)),
     (''private_messages'', VERB_DELETE, Some (JsonEndpoint UsersEndpoint_deletePrivateMessage)),
     (''tags'', GET, Some (JsonEndpoint DiscussionTagsEndpoint_getAll)),
     (''tags'', POST, Some (JsonEndpoint DiscussionTagsEndpoint_add)),
     (''tags'', VERB_DELETE, Some (JsonEndpoint DiscussionTagsEndpoint_remove)),
     (''tags/name'', PUT, Some (JsonEndpoint DiscussionTagsEndpoint_changeName)),
     (''tags/uiblob'', PUT, Some (JsonEndpoint DiscussionTagsEndpoint_changeUiBlob)),
     (''tags/merge'', POST, Some (JsonEndpoint DiscussionTagsEndpoint_merge)),
     (''categories'', GET, Some (JsonEndpoint DiscussionCategoriesEndpoint_getAll)),
     (''categories/root'', GET, Some (JsonEndpoint DiscussionCategoriesEndpoint_getRootCategories)),
     (''category'', GET, Some (JsonEndpoint DiscussionCategoriesEndpoint_getCategoryById)),
     (''categories'', POST, Some (JsonEndpoint DiscussionCategoriesEndpoint_add)),
     (''categories'', VERB_DELETE, Some (JsonEndpoint DiscussionCategoriesEndpoint_remove)),
     (''categories/name'', PUT, Some (JsonEndpoint DiscussionCategoriesEndpoint_changeName)),
     (''categories/description'', PUT, Some (JsonEndpoint DiscussionCategoriesEndpoint_changeDescription)),
     (''categories/parent'', PUT, Some (JsonEndpoint DiscussionCategoriesEndpoint_changeParent)),
     (''categories/displayorder'', PUT, Some (JsonEndpoint DiscussionCategoriesEndpoint_changeDisplayOrder)),
     (''categories/tag'', POST, Some (JsonEndpoint DiscussionCategoriesEndpoint_addTag)),
     (''categories/tag'', VERB_DELETE, Some (JsonEndpoint DiscussionCategoriesEndpoint_removeTag)),
     (''attachments'', GET, Some (JsonEndpoint AttachmentsEndpoint_getAll)),
     (''attachments/user'', GET, Some (JsonEndpoint AttachmentsEndpoint_getOfUser)),
     (''attachments/try'', GET, Some (JsonEndpoint AttachmentsEndpoint_canGet)),
     (''attachment'', GET, Some (JsonEndpoint AttachmentsEndpoint_get)),
     (''attachments/can_add'', POST, Some (JsonEndpoint AttachmentsEndpoint_canAdd)),
     (''attachments'', POST, Some (JsonEndpoint AttachmentsEndpoint_add)),
     (''attachments'', VERB_DELETE, Some (JsonEndpoint AttachmentsEndpoint_remove)),
     (''attachments/name'', PUT, Some (JsonEndpoint AttachmentsEndpoint_changeName)),
     (''attachments/approval'', PUT, Some (JsonEndpoint AttachmentsEndpoint_changeApproval)),
     (''attachments/message'', POST, Some (JsonEndpoint AttachmentsEndpoint_addToMessage)),
     (''attachments/message'', VERB_DELETE, Some (JsonEndpoint AttachmentsEndpoint_removeFromMessage)),
     (''privileges/required/thread_message'', GET, Some (JsonEndpoint AuthorizationEndpoint_getRequiredPrivilegesForThreadMessage)),
     (''privileges/assigned/thread_message'', GET, Some (JsonEndpoint AuthorizationEndpoint_getAssignedPrivilegesForThreadMessage)),
     (''privileges/required/thread'', GET, Some (JsonEndpoint AuthorizationEndpoint_getRequiredPrivilegesForThread)),
     (''privileges/assigned/thread'', GET, Some (JsonEndpoint AuthorizationEndpoint_getAssignedPrivilegesForThread)),
     (''privileges/required/tag'', GET, Some (JsonEndpoint AuthorizationEndpoint_getRequiredPrivilegesForTag)),
     (''privileges/assigned/tag'', GET, Some (JsonEndpoint AuthorizationEndpoint_getAssignedPrivilegesForTag)),
     (''privileges/required/category'', GET, Some (JsonEndpoint AuthorizationEndpoint_getRequiredPrivilegesForCategory)),
     (''privileges/assigned/category'', GET, Some (JsonEndpoint AuthorizationEndpoint_getAssignedPrivilegesForCategory)),
     (''privileges/forum_wide/current_user'', GET, Some (JsonEndpoint AuthorizationEndpoint_getForumWideCurrentUserPrivileges)),
     (''privileges/required/forum_wide'', GET, Some (JsonEndpoint AuthorizationEndpoint_getForumWideRequiredPrivileges)),
     (''privileges/defaults/forum_wide'', GET, Some (JsonEndpoint AuthorizationEndpoint_getForumWideDefaultPrivilegeLevels)),
     (''privileges/assigned/forum_wide'', GET, Some (JsonEndpoint AuthorizationEndpoint_getForumWideAssignedPrivileges)),
     (''privileges/assigned/user'', GET, Some (JsonEndpoint AuthorizationEndpoint_getAssignedPrivilegesForUser)),
     (''privileges/thread_message/required/thread_message'', POST, Some (JsonEndpoint AuthorizationEndpoint_changeDiscussionThreadMessageRequiredPrivilegeForThreadMessage)),
     (''privileges/thread_message/required/thread'', POST, Some (JsonEndpoint AuthorizationEndpoint_changeDiscussionThreadMessageRequiredPrivilegeForThread)),
     (''privileges/thread/required/thread'', POST, Some (JsonEndpoint AuthorizationEndpoint_changeDiscussionThreadRequiredPrivilegeForThread)),
     (''privileges/thread_message/required/tag'', POST, Some (JsonEndpoint AuthorizationEndpoint_changeDiscussionThreadMessageRequiredPrivilegeForTag)),
     (''privileges/thread/required/tag'', POST, Some (JsonEndpoint AuthorizationEndpoint_changeDiscussionThreadRequiredPrivilegeForTag)),
     (''privileges/tag/required/tag'', POST, Some (JsonEndpoint AuthorizationEndpoint_changeDiscussionTagRequiredPrivilegeForTag)),
     (''privileges/category/required/category'', POST, Some (JsonEndpoint AuthorizationEndpoint_changeDiscussionCategoryRequiredPrivilegeForCategory)),
     (''privileges/thread_message/required/forum_wide'', POST, Some (JsonEndpoint AuthorizationEndpoint_changeDiscussionThreadMessageRequiredPrivilege)),
     (''privileges/thread/required/forum_wide'', POST, Some (JsonEndpoint AuthorizationEndpoint_changeDiscussionThreadRequiredPrivilege)),
     (''privileges/tag/required/forum_wide'', POST, Some (JsonEndpoint AuthorizationEndpoint_changeDiscussionTagRequiredPrivilege)),
     (''privileges/category/required/forum_wide'', POST, Some (JsonEndpoint AuthorizationEndpoint_changeDiscussionCategoryRequiredPrivilege)),
     (''privileges/forum_wide/required/forum_wide'', POST, Some (JsonEndpoint AuthorizationEndpoint_changeForumWideRequiredPrivilege)),
     (''privileges/forum_wide/defaults/forum_wide'', POST, Some (JsonEndpoint AuthorizationEndpoint_changeForumWideDefaultPrivilegeLevel)),
     (''privileges/thread_message/assign'', POST, Some (JsonEndpoint AuthorizationEndpoint_assignDiscussionThreadMessagePrivilege)),
     (''privileges/thread/assign'', POST, Some (JsonEndpoint AuthorizationEndpoint_assignDiscussionThreadPrivilege)),
     (''privileges/tag/assign'', POST, Some (JsonEndpoint AuthorizationEndpoint_assignDiscussionTagPrivilege)),
     (''privileges/category/assign'', POST, Some (JsonEndpoint AuthorizationEndpoint_assignDiscussionCategoryPrivilege)),
     (''privileges/forum_wide/assign'', POST, Some (JsonEndpoint AuthorizationEndpoint_assignForumWidePrivilege))]"

definition auth_routes :: "(string \<times> http_verb \<times> endpoint option) list" where
  "auth_routes = [(''login'', POST, Some LoginEndpoint)]"

definition registerRoutes :: "endpoint router \<Rightarrow> endpoint router" where
  "registerRoutes r = fold (\<lambda>(pathLowerCase, verb, handler). addRoute pathLowerCase verb handler) service_routes r"

definition registerAuthRoutes :: "endpoint router \<Rightarrow> endpoint router" where
  "registerAuthRoutes r = fold (\<lambda>(pathLowerCase, verb, handler). addRoute pathLowerCase verb handler) auth_routes r"

subsection \<open>Statuses\<close>

definition commandStatusToHttpStatus :: "status_code \<Rightarrow> http_status" where
  "commandStatusToHttpStatus st =
     (case st of
        NOT_FOUND \<Rightarrow> Not_Found
      | CIRCULAR_REFERENCE_NOT_ALLOWED \<Rightarrow> Forbidden
      | STATUS_NOT_ALLOWED \<Rightarrow> Forbidden
      | NOT_UPDATED_SINCE_LAST_CHECK \<Rightarrow> Not_Modified
      | UNAUTHORIZED \<Rightarrow> Forbidden
      | STATUS_THROTTLED \<Rightarrow> Too_Many_Requests
      | _ \<Rightarrow> HTTP_OK)"

subsection \<open>Validation of a request\<close>

text \<open>\<open>None\<close> is a request that is accepted.\<close>

definition validateAddressStart :: "string \<Rightarrow> string \<Rightarrow> bool" where
  "validateAddressStart needle haystack \<longleftrightarrow>
     take (length needle) haystack = needle \<and>
     (length needle = length haystack \<or> haystack ! length needle = CHR ''/'')"

definition validateOriginReferer :: "string \<Rightarrow> endpoint_request \<Rightarrow> (http_status \<times> string) option" where
  "validateOriginReferer expected rq =
     (if expected = [] then None
      else let origin = request_header rq Header_Origin; referer = request_header rq Header_Referer
           in if origin = [] \<and> referer = [] then Some (Bad_Request, ''An Origin or Referer header is required.'')
              else if origin \<noteq> [] \<and> \<not> validateAddressStart expected origin then Some (Bad_Request, ''Unexpected Origin header.'')
              else if referer \<noteq> [] \<and> \<not> validateAddressStart expected referer then Some (Bad_Request, ''Unexpected Referer header.'')
              else None)"

definition validateRequest :: "string \<Rightarrow> endpoint_request \<Rightarrow> (http_status \<times> string) option" where
  "validateRequest expected rq = validateOriginReferer expected rq"

definition validateCsrf :: "endpoint_request \<Rightarrow> bool" where
  "validateCsrf rq =
     (let expected = request_cookie rq ''double_submit''; doubleSubmitValue = request_header rq Header_X_Double_Submit
      in if expected = [] \<and> doubleSubmitValue = [] then False
         else if doubleSubmitValue \<noteq> expected then False
         else True)"

subsection \<open>The context of a request\<close>

text \<open>
  \<open>sv_now\<close> is the time the request is handled at, \<open>sv_crcAddress\<close> and \<open>sv_crcText\<close> the checksums of an address and
  of a text.
\<close>

record server_environment =
  sv_command :: command_configuration
  sv_parameters :: command_environment
  sv_expectedOriginReferer :: string
  sv_responsePrefix :: string
  sv_lastSeenUpdatePrecision :: int
  sv_crcAddress :: "128 word \<Rightarrow> 32 word"
  sv_crcText :: "string \<Rightarrow> 32 word"
  sv_now :: timestamp

record 's server =
  srv_state :: 's
  srv_auth :: auth_store
  srv_visitors :: visitor_collection

definition fromStringOrDefault :: "command_environment \<Rightarrow> string \<Rightarrow> int \<Rightarrow> int" where
  "fromStringOrDefault env view defaultValue =
     (case env_lexical_convert env 64 True view of None \<Rightarrow> defaultValue | Some v \<Rightarrow> v)"

definition updateDisplayContext :: "command_environment \<Rightarrow> string \<times> string \<Rightarrow> service_context \<Rightarrow> service_context" where
  "updateDisplayContext env = (\<lambda>(name, val) cx.
     if matchStringUpperOrLower name ''pagePAGE'' then cx\<lparr>sx_pageNumber := fromStringOrDefault env val 0\<rparr>
     else if matchStringUpperOrLower name ''sortSORT'' \<and> matchStringUpperOrLower val ''descendingDESCENDING''
          then cx\<lparr>sx_sortOrder := Descending\<rparr>
     else cx)"

definition updateContextForRequest :: "server_environment \<Rightarrow> auth_store \<Rightarrow> endpoint_request \<Rightarrow> bool \<Rightarrow> service_context" where
  "updateContextForRequest se auth rq allowAuth =
     (let authToken = request_cookie rq ''auth'';
          authResult = (if allowAuth \<and> authToken \<noteq> [] then auth_find (sv_now se) authToken auth else [])
      in fold (updateDisplayContext (sv_parameters se)) (request_query rq)
           \<lparr>sx_repository = \<lparr>rx_time = sv_now se, rx_userId = 0, rx_ip = er_remoteAddress rq,
                rx_showInOnlineUsers = (request_cookie rq ''show_my_user_in_users_online'' = ''true''),
                rx_lastSeenUpdatePrecision = sv_lastSeenUpdatePrecision se\<rparr>,
            sx_userAuth = authResult, sx_sortOrder = Ascending, sx_pageNumber = 0, sx_checkNotChangedSince = 0\<rparr>)"

definition updateVisitorsCount :: "server_environment \<Rightarrow> endpoint_request \<Rightarrow> visitor_collection \<Rightarrow> visitor_collection" where
  "updateVisitorsCount se rq =
     visitor_add (sv_now se)
       (or (push_bit 32 (ucast (sv_crcAddress se (er_remoteAddress rq)))) (ucast (sv_crcText se (request_header rq Header_User_Agent))))"

subsection \<open>Handling a request\<close>

definition respond :: "response_step list \<Rightarrow> response_step" where
  "respond steps b = fold (\<lambda>f r. Option.bind r f) steps (Some b)"

definition writeRequestCode :: "endpoint_request \<Rightarrow> http_status \<Rightarrow> response_step" where
  "writeRequestCode rq = writeResponseCode (versionMajor (er_request rq)) (versionMinor (er_request rq))"

fun execute :: "server_environment \<Rightarrow> 's services \<Rightarrow> service_context \<Rightarrow> execution \<Rightarrow> string list \<Rightarrow> 's
    \<Rightarrow> ((status_code \<times> string) \<times> 's) option" where
  "execute se sv cx (ExecuteCommand c) ps s = handle_command (sv_command se) sv (sv_parameters se) cx c ps s"
| "execute se sv cx (ExecuteView v) ps s = handle_view sv (sv_parameters se) cx v ps s"

definition command_response :: "server_environment \<Rightarrow> string \<Rightarrow> bool \<Rightarrow> endpoint_request \<Rightarrow> status_code \<Rightarrow> string \<Rightarrow> response_step" where
  "command_response se contentType writePrefix rq st out =
     respond [writeRequestCode rq (commandStatusToHttpStatus st),
              writeHeader ''Cache-Control'' ''no-cache, no-store, must-revalidate'',
              writeHeader ''Content-Type'' (if st = STATUS_OK then contentType else ''application/json''),
              writeBodyAndContentLength out (if writePrefix then sv_responsePrefix se else [])]"

definition handleInternal ::
  "server_environment \<Rightarrow> 's services \<Rightarrow> string \<Rightarrow> execute_fn \<Rightarrow> bool \<Rightarrow> endpoint_request \<Rightarrow> 's server \<Rightarrow> response_builder
   \<Rightarrow> (response_builder \<times> 's server) option" where
  "handleInternal se sv contentType executeCommand writePrefix rq srv response =
     (let srv1 = srv\<lparr>srv_visitors := updateVisitorsCount se rq (srv_visitors srv)\<rparr> in
      case validateRequest (sv_expectedOriginReferer se) rq of
        Some (validationResponseCode, validationMessage) \<Rightarrow>
          map_option (\<lambda>b. (b, srv1))
            (respond [writeRequestCode rq validationResponseCode, writeBodyAndContentLength validationMessage []] response)
      | None \<Rightarrow>
          (let cx = updateContextForRequest se (srv_auth srv1) rq (validateCsrf rq);
               (what, ps) = executeCommand rq
           in case execute se sv cx what ps (srv_state srv1) of
                None \<Rightarrow> None
              | Some ((st, out), s) \<Rightarrow>
                  map_option (\<lambda>b. (b, srv1\<lparr>srv_state := s\<rparr>)) (command_response se contentType writePrefix rq st out response)))"

subsection \<open>Login\<close>

definition loginUser ::
  "server_environment \<Rightarrow> string \<Rightarrow> string \<Rightarrow> string \<Rightarrow> auth_store \<Rightarrow> ((status_code \<times> string) \<times> auth_store) option" where
  "loginUser se authToken authId expiresInString a =
     (if authToken = [] \<or> authId = [] \<or> expiresInString = [] then Some ((INVALID_PARAMETERS, []), a)
      else let expiresIn = fromStringOrDefault (sv_parameters se) expiresInString 0
           in if expiresIn < 1 then Some ((INVALID_PARAMETERS, []), a)
              else map_option (\<lambda>a'. ((STATUS_OK, ''ok''), a')) (auth_add (sv_now se) authToken authId expiresIn a))"

definition UsersEndpoint_login ::
  "server_environment \<Rightarrow> endpoint_request \<Rightarrow> 's server \<Rightarrow> response_builder \<Rightarrow> (response_builder \<times> 's server) option" where
  "UsersEndpoint_login se rq srv response =
     (case loginUser se (extraPathPart rq 0) (extraPathPart rq 1) (extraPathPart rq 2) (srv_auth srv) of
        None \<Rightarrow> None
      | Some ((st, out), a) \<Rightarrow>
          map_option (\<lambda>b. (b, srv\<lparr>srv_auth := a\<rparr>))
            (respond [writeRequestCode rq (commandStatusToHttpStatus st), writeBodyAndContentLength out []] response))"

fun run_endpoint ::
  "server_environment \<Rightarrow> 's services \<Rightarrow> endpoint \<Rightarrow> endpoint_request \<Rightarrow> 's server \<Rightarrow> response_builder
   \<Rightarrow> (response_builder \<times> 's server) option" where
  "run_endpoint se sv (JsonEndpoint f) rq srv b = handleInternal se sv ''application/json'' f True rq srv b"
| "run_endpoint se sv (BinaryEndpoint contentType f) rq srv b = handleInternal se sv contentType f False rq srv b"
| "run_endpoint se sv LoginEndpoint rq srv b = UsersEndpoint_login se rq srv b"

subsection \<open>Forwarding a request to its endpoint\<close>

text \<open>
  The application sets no default route; a request without route is answered by \<open>writeNotFound\<close>.
\<close>

definition writeNotFound :: "endpoint_request \<Rightarrow> response_step" where
  "writeNotFound rq =
     respond [writeRequestCode rq Not_Found, writeBodyAndContentLength ''No resource was found for the provided path.'' []]"

definition forward_request ::
  "server_environment \<Rightarrow> 's services \<Rightarrow> endpoint router \<Rightarrow> endpoint_request \<Rightarrow> 's server \<Rightarrow> response_builder
   \<Rightarrow> (response_builder \<times> 's server) option" where
  "forward_request se sv r rq srv b =
     (case forward r (req_verb (er_request rq)) (view_string (er_buffer rq) (req_path (er_request rq))) of
        None \<Rightarrow> None
      | Some (Handled e parts) \<Rightarrow> run_endpoint se sv e (rq\<lparr>er_extraPathParts := parts\<rparr>) srv b
      | Some NoHandler \<Rightarrow> Some (b, srv)
      | Some forwarded.NotFound \<Rightarrow> map_option (\<lambda>b'. (b', srv)) (writeNotFound rq b))"

end
