(* ===== verification/ServiceLemmas.thy ===== *)
theory ServiceLemmas
  imports ServiceEndpoints
begin

section \<open>Lemmas on the command handler and the endpoints\<close>

subsection \<open>Reads of the parameters\<close>

lemma countNonEmpty_le: "countNonEmpty ps \<le> length ps"
  by (simp add: countNonEmpty_def)

lemma called_None: "called c = None \<longleftrightarrow> False"
  by (simp add: called_def)

lemma parameter_None: "parameter ps i k = None \<longleftrightarrow> length ps \<le> i \<or> k (ps ! i) = None"
  by (simp add: parameter_def not_less)

lemma normalized_None:
  "normalized env ps i k = None \<longleftrightarrow> length ps \<le> i \<or> normalize env (ps ! i) \<noteq> [] \<and> k (normalize env (ps ! i)) = None"
  by (simp add: normalized_def parameter_None checked_def Let_def)

lemma convertTo_None:
  "convertTo env w sg ps i k = None \<longleftrightarrow> length ps \<le> i \<or> (\<exists>v. env_lexical_convert env w sg (ps ! i) = Some v \<and> k v = None)"
  by (auto simp: convertTo_def parameter_None split: option.splits)

lemma parsePrivilege_None:
  "parsePrivilege ps i strings k = None \<longleftrightarrow> length ps \<le> i \<or> (\<exists>n. privilege_index (ps ! i) strings = Some n \<and> k n = None)"
  by (auto simp: parsePrivilege_def parameter_None split: option.splits)

text \<open>The number of parameters that are not empty bounds the size of the vector from below.\<close>

lemma checked_None:
  "checked (checkNumberOfParameters ps n) k = None \<longleftrightarrow> countNonEmpty ps = n \<and> n \<le> length ps \<and> k = None"
  "checked (checkNumberOfParametersAtLeast ps n) k = None \<longleftrightarrow> n \<le> countNonEmpty ps \<and> n \<le> length ps \<and> k = None"
  "checked (checkMinNumberOfParameters ps n) k = None \<longleftrightarrow> n \<le> countNonEmpty ps \<and> n \<le> length ps \<and> k = None"
  using countNonEmpty_le [of ps]
  by (auto simp: checked_def checkNumberOfParameters_def checkNumberOfParametersAtLeast_def checkMinNumberOfParameters_def)

lemmas handler_None = called_None parameter_None normalized_None convertTo_None parsePrivilege_None checked_None Let_def

lemma list_all_pairD: "list_all (\<lambda>(a, b). P a b) xs \<Longrightarrow> (a, b) \<in> set xs \<Longrightarrow> P a b"
  by (auto simp: list_all_iff)

definition reads_in_bounds :: "command_handler \<Rightarrow> bool" where
  "reads_in_bounds h \<longleftrightarrow> (\<forall>env ps. h env ps \<noteq> None)"

lemma view_reads_in_bounds: "list_all (\<lambda>(v, h). reads_in_bounds h) viewHandlers"
  by (simp add: viewHandlers_def reads_in_bounds_def command_handler_defs handler_None del: not_None_eq cong: conj_cong) auto

definition unchecked_commands :: "command list" where
  "unchecked_commands =
     [Command_CHANGE_USER_INFO, Command_CHANGE_USER_TITLE, Command_CHANGE_USER_SIGNATURE, Command_CHANGE_USER_ATTACHMENT_QUOTA]"

lemma command_reads_in_bounds:
  "list_all (\<lambda>(c, h). c \<in> set unchecked_commands \<or> reads_in_bounds h) commandHandlers"
  by (simp add: commandHandlers_def unchecked_commands_def command_numbers reads_in_bounds_def command_handler_defs handler_None
      del: not_None_eq cong: conj_cong) auto

lemma one_non_empty: "countNonEmpty ps \<ge> 1 \<and> length ps \<le> 1 \<longleftrightarrow> (\<exists>p. p \<noteq> [] \<and> ps = [p])"
  by (cases ps) (auto simp: countNonEmpty_def)

lemma unchecked_handlers:
  "list_all (\<lambda>(c, h). c \<in> set unchecked_commands \<longrightarrow> (\<forall>env ps. h env ps = None \<longleftrightarrow> countNonEmpty ps \<ge> 1 \<and> length ps \<le> 1)) commandHandlers"
proof -
  have at_least: "1 \<le> countNonEmpty ps \<and> 1 \<le> length ps \<and> (length ps \<le> 1 \<or> length ps \<le> 0) \<longleftrightarrow> countNonEmpty ps \<ge> 1 \<and> length ps \<le> 1" for ps
    using countNonEmpty_le [of ps] by linarith
  have "impl_CHANGE_USER_INFO env ps = None \<longleftrightarrow> countNonEmpty ps \<ge> 1 \<and> length ps \<le> 1"
    "impl_CHANGE_USER_TITLE env ps = None \<longleftrightarrow> countNonEmpty ps \<ge> 1 \<and> length ps \<le> 1"
    "impl_CHANGE_USER_SIGNATURE env ps = None \<longleftrightarrow> countNonEmpty ps \<ge> 1 \<and> length ps \<le> 1" for env ps
    unfolding impl_CHANGE_USER_INFO_def impl_CHANGE_USER_TITLE_def impl_CHANGE_USER_SIGNATURE_def handler_None simp_thms
    by (rule at_least)+
  moreover have "impl_CHANGE_USER_ATTACHMENT_QUOTA env ps = None \<longleftrightarrow> countNonEmpty ps \<ge> 1 \<and> length ps \<le> 1" for env ps
    unfolding impl_CHANGE_USER_ATTACHMENT_QUOTA_def handler_None simp_thms
    using at_least [of ps] by (cases "env_lexical_convert env 64 False (ps ! 1)") (simp_all del: One_nat_def le_zero_eq length_0_conv, blast+)
  ultimately show ?thesis by (simp add: commandHandlers_def unchecked_commands_def command_numbers)
qed

lemma handler_None_iff:
  assumes "(c, h) \<in> set commandHandlers"
  shows "h env ps = None \<longleftrightarrow> c \<in> set unchecked_commands \<and> (\<exists>p. p \<noteq> [] \<and> ps = [p])"
proof (cases "c \<in> set unchecked_commands")
  case True
  then have "h env ps = None \<longleftrightarrow> countNonEmpty ps \<ge> 1 \<and> length ps \<le> 1"
    using list_all_pairD [OF unchecked_handlers assms] by (simp only: simp_thms)
  then show ?thesis unfolding one_non_empty by (simp only: True simp_thms)
next
  case False
  then have "reads_in_bounds h" using list_all_pairD [OF command_reads_in_bounds assms] by (simp only: simp_thms)
  then show ?thesis using False by (simp add: reads_in_bounds_def)
qed

subsection \<open>The tables of handlers\<close>

lemma every_command_handled: "c < Command_LAST_COMMAND \<Longrightarrow> \<exists>h. map_of commandHandlers c = Some h \<and> (c, h) \<in> set commandHandlers"
proof -
  assume "c < Command_LAST_COMMAND"
  moreover have "set [0..<Command_LAST_COMMAND] \<subseteq> fst ` set commandHandlers"
    by (simp add: commandHandlers_def command_numbers upt_rec)
  ultimately have "c \<in> fst ` set commandHandlers" by auto
  then show ?thesis by (metis map_of_SomeD map_of_eq_None_iff not_None_eq)
qed

lemma every_view_handled: "v < View_LAST_VIEW \<Longrightarrow> \<exists>h. map_of viewHandlers v = Some h \<and> (v, h) \<in> set viewHandlers"
proof -
  assume "v < View_LAST_VIEW"
  moreover have "set [0..<View_LAST_VIEW] \<subseteq> fst ` set viewHandlers"
    by (simp add: viewHandlers_def view_numbers upt_rec)
  ultimately have "v \<in> fst ` set viewHandlers" by auto
  then show ?thesis by (metis map_of_SomeD map_of_eq_None_iff not_None_eq)
qed

end
