(* ===== verification/ServiceResponses.thy ===== *)
theory ServiceResponses
  imports ServiceLemmas
begin

section \<open>Every request is answered\<close>

text \<open>
  The commands and views always answer when the repositories do, and the endpoints write one complete
  response.
\<close>

subsection \<open>Commands always answer\<close>

lemma writeStatusCode_text:
  "writeStatusCode st out = Some (out @ json_text (JObject [(''status'', JInt (status_number st))]))"
proof -
  have "writes_member 0 (writeNumber 8 False (status_number st)) (json_text (JInt (status_number st)))"
    by (rule writeNumber_member) (simp add: number_size_def)
  moreover have "\<not> isEscapeNeeded ''status''" by code_simp
  ultimately have "member_ok 0 (''status'', writeNumber 8 False (status_number st)) (''status'', JInt (status_number st))"
    by (rule member_okI [rotated])
  then show ?thesis unfolding writeStatusCode_def by (intro named_object_document [where d = 0]) simp_all
qed

lemma finish_command_total: "\<exists>t. finish_command st out s = Some ((st, t), s) \<and> t \<noteq> []"
  by (simp add: finish_command_def writeStatusCode_text del: json_text.simps) (simp add: json_text_object)

definition always_answers :: "'s services \<Rightarrow> bool" where
  "always_answers sv \<longleftrightarrow> (\<forall>cx c out s. sv_run sv cx c out s \<noteq> None)"

lemma run_handler_total:
  assumes "always_answers sv" "i < n \<longrightarrow> (\<exists>f. map_of handlers i = Some f \<and> (\<forall>env. f env ps \<noteq> None))"
  shows "\<exists>r. run_handler sv env cx handlers n i ps s = Some r"
proof (cases "i < n")
  case True
  then obtain f where f: "map_of handlers i = Some f" "f (env\<lparr>env_currentUserAuth := sx_userAuth cx\<rparr>) ps \<noteq> None"
    using assms(2) by blast
  then obtain h where h: "f (env\<lparr>env_currentUserAuth := sx_userAuth cx\<rparr>) ps = Some h" by blast
  show ?thesis
  proof (cases h)
    case (Called c)
    obtain st out s' where "sv_run sv cx c [] s = Some ((st, out), s')"
      using assms(1) unfolding always_answers_def by (metis not_None_eq prod.exhaust)
    then show ?thesis using True f(1) h Called finish_command_total [of st out s'] by (auto simp: run_handler_def)
  next
    case (Answered st)
    then show ?thesis using True f(1) h finish_command_total [of st "[]" s] by (auto simp: run_handler_def)
  qed
next
  case False
  then show ?thesis using finish_command_total [of NOT_FOUND "[]" s] by (auto simp: run_handler_def)
qed

lemma handle_view_total:
  assumes "always_answers sv" shows "\<exists>r. handle_view sv env cx v ps s = Some r"
proof -
  have "v < View_LAST_VIEW \<longrightarrow> (\<exists>f. map_of viewHandlers v = Some f \<and> (\<forall>env. f env ps \<noteq> None))"
    using every_view_handled [of v] list_all_pairD [OF view_reads_in_bounds] unfolding reads_in_bounds_def by metis
  from run_handler_total [OF assms this] show ?thesis by (simp add: handle_view_def)
qed

lemma handle_command_total:
  assumes "always_answers sv" "c \<in> set unchecked_commands \<longrightarrow> length ps \<noteq> 1"
  shows "\<exists>r. handle_command cfg sv env cx c ps s = Some r"
proof -
  have "c < Command_LAST_COMMAND \<longrightarrow> (\<exists>f. map_of commandHandlers c = Some f \<and> (\<forall>env. f env ps \<noteq> None))"
  proof
    assume "c < Command_LAST_COMMAND"
    then obtain h where h: "map_of commandHandlers c = Some h" "(c, h) \<in> set commandHandlers"
      using every_command_handled by blast
    have "\<not> (c \<in> set unchecked_commands \<and> (\<exists>p. p \<noteq> [] \<and> ps = [p]))" using assms(2) by auto
    then have "\<forall>env. h env ps \<noteq> None" using handler_None_iff [OF h(2)] by metis
    then show "\<exists>f. map_of commandHandlers c = Some f \<and> (\<forall>env. f env ps \<noteq> None)" using h(1) by blast
  qed
  from run_handler_total [OF assms(1) this] show ?thesis by (simp add: handle_command_def Let_def)
qed

text \<open>Every endpoint gives the commands it runs enough parameters.\<close>

definition endpoint_ok :: "execute_fn \<Rightarrow> bool" where
  "endpoint_ok f \<longleftrightarrow> (\<forall>rq. case f rq of
     (ExecuteCommand c, ps) \<Rightarrow> c < Command_LAST_COMMAND \<and> (c \<in> set unchecked_commands \<longrightarrow> length ps \<noteq> 1)
   | (ExecuteView v, ps) \<Rightarrow> True)"

definition route_ok :: "endpoint option \<Rightarrow> bool" where
  "route_ok e \<longleftrightarrow> (case e of
     Some (JsonEndpoint f) \<Rightarrow> endpoint_ok f | Some (BinaryEndpoint _ f) \<Rightarrow> endpoint_ok f | _ \<Rightarrow> False)"

lemma service_routes_ok: "list_all (\<lambda>(p, v, e). route_ok e) service_routes"
  by (simp add: service_routes_def route_ok_def endpoint_ok_def endpoint_defs unchecked_commands_def command_numbers)

lemma execute_total:
  assumes "always_answers sv" "endpoint_ok f" "f rq = (what, ps)"
  shows "\<exists>st out s'. execute se sv cx what ps s = Some ((st, out), s')"
proof (cases what)
  case (ExecuteCommand c)
  have "c \<in> set unchecked_commands \<longrightarrow> length ps \<noteq> 1"
    using spec [OF assms(2) [unfolded endpoint_ok_def], of rq] by (simp add: assms(3) ExecuteCommand)
  from handle_command_total [OF assms(1) this, of "sv_command se" "sv_parameters se" cx s] show ?thesis
    by (auto simp: ExecuteCommand)
next
  case (ExecuteView v)
  from handle_view_total [OF assms(1), of "sv_parameters se" cx v ps s] show ?thesis by (auto simp: ExecuteView)
qed

subsection \<open>Responses of the endpoints\<close>

lemma respond_Nil [simp]: "respond [] b = Some b"
  by (simp add: respond_def)

lemma fold_bind_None: "fold (\<lambda>f r. Option.bind r f) fs None = None"
  by (induction fs) auto

lemma respond_Cons [simp]: "respond (f # fs) b = Option.bind (f b) (respond fs)"
  by (cases "f b") (simp_all add: respond_def fold_bind_None)

definition http_1 :: "http_request \<Rightarrow> bool" where
  "http_1 rq \<longleftrightarrow> versionMajor rq = 1 \<and> versionMinor rq \<le> 1"

lemma writeRequestCode_fresh:
  assumes "http_1 (er_request rq)" "protocolState b = NothingWritten"
  shows "writeRequestCode rq st b = Some ((write_response (version_text 1 (versionMinor (er_request rq)) @ status_digits st
      @ '' '' @ getStatusCodeString st @ CRLF) b)\<lparr>protocolState := ResponseCodeWritten\<rparr>)"
proof -
  have "versionMinor (er_request rq) = 0 \<or> versionMinor (er_request rq) = 1" using assms(1) by (auto simp: http_1_def)
  then show ?thesis using assms by (simp add: writeRequestCode_def writeResponseCode_def http_1_def)
qed

definition response_text :: "nat \<Rightarrow> http_status \<Rightarrow> (string \<times> string) list \<Rightarrow> string \<Rightarrow> string \<Rightarrow> string" where
  "response_text minorVersion st hs body pre =
     version_text 1 minorVersion @ status_digits st @ '' '' @ getStatusCodeString st @ CRLF
     @ headers_text (hs @ [(''Content-Length'', number_text (sint (of_nat (length body + length pre) :: 32 word)) False)])
     @ CRLF @ pre @ body"

lemma writeBody_text:
  "protocolState b = ResponseCodeWritten \<Longrightarrow> writeBodyAndContentLength body pre b =
    Some \<lparr>protocolState = BodyWritten, written = written b
      @ headers_text [(''Content-Length'', number_text (sint (of_nat (length body + length pre) :: 32 word)) False)] @ CRLF @ pre @ body\<rparr>"
  by (simp add: writeBodyAndContentLength_def writeHeader_int_def writeHeader_def write_response_def writeBody_def headers_text_def
      del: of_nat_add)

lemma respond_headers:
  "protocolState b = ResponseCodeWritten \<Longrightarrow>
   respond (map (\<lambda>(name, val). writeHeader name val) hs @ fs) b = respond fs (write_response (headers_text hs) b)"
  by (induction hs arbitrary: b) (auto simp: headers_text_def writeHeader_def write_response_def)

lemma respond_text:
  assumes "http_1 (er_request rq)" "protocolState b = NothingWritten"
  shows "respond (writeRequestCode rq st # map (\<lambda>(name, val). writeHeader name val) hs @ [writeBodyAndContentLength body pre]) b
    = Some \<lparr>protocolState = BodyWritten, written = written b @ response_text (versionMinor (er_request rq)) st hs body pre\<rparr>"
  by (simp add: writeRequestCode_fresh [OF assms] respond_headers writeBody_text write_response_def response_text_def headers_text_def
      del: of_nat_add)

definition command_headers :: "status_code \<Rightarrow> string \<Rightarrow> (string \<times> string) list" where
  "command_headers st contentType =
     [(''Cache-Control'', ''no-cache, no-store, must-revalidate''),
      (''Content-Type'', if st = STATUS_OK then contentType else ''application/json'')]"

lemma command_response_text:
  assumes "http_1 (er_request rq)" "protocolState b = NothingWritten"
  shows "command_response se contentType writePrefix rq st out b = Some \<lparr>protocolState = BodyWritten, written = written b
    @ response_text (versionMinor (er_request rq)) (commandStatusToHttpStatus st) (command_headers st contentType) out
        (if writePrefix then sv_responsePrefix se else [])\<rparr>"
  using respond_text [OF assms, of "commandStatusToHttpStatus st" "command_headers st contentType" out
      "if writePrefix then sv_responsePrefix se else []"]
  by (simp add: command_response_def command_headers_def)

lemma handleInternal_total:
  assumes "always_answers sv" "endpoint_ok f" "http_1 (er_request rq)" "protocolState b = NothingWritten"
  shows "\<exists>b' srv'. handleInternal se sv contentType f writePrefix rq srv b = Some (b', srv') \<and> protocolState b' = BodyWritten"
proof (cases "validateRequest (sv_expectedOriginReferer se) rq")
  case None
  obtain what ps where f: "f rq = (what, ps)" by force
  from execute_total [OF assms(1,2) f] None f show ?thesis
    by (auto simp: handleInternal_def Let_def command_response_text [OF assms(3,4)] split: option.splits prod.splits)
next
  case (Some v)
  then show ?thesis using respond_text [OF assms(3,4), where hs = "[]"]
    by (cases v) (auto simp: handleInternal_def Let_def)
qed

end
