(* ===== verification/ServiceProperties.thy ===== *)
theory ServiceProperties
  imports ServiceResponses
begin

section \<open>Properties of the service\<close>

subsection \<open>Routes of the service\<close>

lemma registerRoutes_router: "registerRoutes HttpRouter = setDefaultRoute None (router_of service_routes)"
proof -
  have "registerRoutes HttpRouter = router_of service_routes" by (simp add: registerRoutes_def router_of_def)
  then show ?thesis using defaultRoute_router_of [of service_routes] by (simp add: setDefaultRoute_def)
qed

lemma service_routes_nonempty: "\<forall>(p, v, e) \<in> set service_routes. p \<noteq> []"
  by (simp add: service_routes_def)

lemma tempPath_nonempty: "path \<noteq> [] \<Longrightarrow> \<exists>temp. tempPath path = Some temp"
  by (simp add: tempPath_def Let_def MaxRouteSize_def)

lemma forward_service_cases:
  assumes "path \<noteq> []"
  shows "(\<exists>e parts. forward (registerRoutes HttpRouter) verb path = Some (Handled e parts) \<and> route_ok (Some e))
    \<or> forward (registerRoutes HttpRouter) verb path = Some forwarded.NotFound"
proof -
  obtain temp where temp: "tempPath path = Some temp" using tempPath_nonempty [OF assms] by blast
  have ok: "route_ok h" if "registered service_routes verb p = Some h" for p h
    using registered_key [OF that] list_all_pairD [OF service_routes_ok] by (auto simp: list_all_iff split: prod.splits)
  from forward_longest [OF temp service_routes_nonempty, of verb None] show ?thesis
  proof (elim disjE exE conjE)
    fix p h
    assume r: "registered service_routes verb p = Some h"
      "forward (setDefaultRoute None (router_of service_routes)) verb path =
        Some (case h of Some f \<Rightarrow> Handled f (extractExtraPathParts path (length p)) | None \<Rightarrow> NoHandler)"
    from ok [OF r(1)] obtain e where "h = Some e" by (cases h) (auto simp: route_ok_def)
    then show ?thesis using r(2) ok [OF r(1)] by (intro disjI1) (simp add: registerRoutes_router)
  next
    assume "forward (setDefaultRoute None (router_of service_routes)) verb path =
      Some (case None of Some f \<Rightarrow> Handled f (extractExtraPathParts path 0) | None \<Rightarrow> forwarded.NotFound)"
    then show ?thesis by (simp add: registerRoutes_router)
  qed
qed

text \<open>
  C30. Every request with a path is answered: when the repositories answer their calls, forwarding a request of
  HTTP/1.0 or 1.1 through the registered routes returns, and one complete response has been written - no
  endpoint or handler reads outside its parameters and no assertion on the order of the response fails.
\<close>

theorem every_request_answered:
  assumes "always_answers sv" "http_1 (er_request rq)" "view_string (er_buffer rq) (req_path (er_request rq)) \<noteq> []"
    and "protocolState b = NothingWritten"
  shows "\<exists>b' srv'. forward_request se sv (registerRoutes HttpRouter) rq srv b = Some (b', srv') \<and> protocolState b' = BodyWritten"
proof -
  have http: "http_1 (er_request (rq\<lparr>er_extraPathParts := parts\<rparr>))" for parts using assms(2) by simp
  from forward_service_cases [OF assms(3), of "req_verb (er_request rq)"] show ?thesis
  proof (elim disjE exE conjE)
    fix e parts
    assume f: "forward (registerRoutes HttpRouter) (req_verb (er_request rq)) (view_string (er_buffer rq) (req_path (er_request rq)))
        = Some (Handled e parts)" and ok: "route_ok (Some e)"
    show ?thesis
    proof (cases e)
      case (JsonEndpoint x)
      from handleInternal_total [OF assms(1) _ http assms(4)] show ?thesis
        using ok by (simp add: forward_request_def f JsonEndpoint route_ok_def)
    next
      case (BinaryEndpoint t x)
      from handleInternal_total [OF assms(1) _ http assms(4)] show ?thesis
        using ok by (simp add: forward_request_def f BinaryEndpoint route_ok_def)
    qed (use ok in \<open>simp add: route_ok_def\<close>)
  next
    assume "forward (registerRoutes HttpRouter) (req_verb (er_request rq)) (view_string (er_buffer rq) (req_path (er_request rq)))
        = Some forwarded.NotFound"
    then show ?thesis
      using respond_text [OF assms(2,4), of Not_Found "[]" "''No resource was found for the provided path.''" "[]"]
      by (simp add: forward_request_def writeNotFound_def)
  qed
qed

text \<open>A service that answers every call, and a request for the list of users.\<close>

definition sample_services :: "nat services" where
  "sample_services = \<lparr>sv_byAuth = (\<lambda>_ _. None), sv_run = (\<lambda>cx c out s. Some ((STATUS_OK, ''{}''), s + 1))\<rparr>"

definition sample_environment :: server_environment where
  "sample_environment =
     \<lparr>sv_command = \<lparr>cfg_disableCommands = False, cfg_disableCommandsForAnonymousUsers = False\<rparr>,
      sv_parameters = \<lparr>env_normalizeNFC = (\<lambda>s. s), env_lexical_convert = (\<lambda>w sg s. if s = ''5'' then Some 5 else None),
        env_currentUserAuth = []\<rparr>,
      sv_expectedOriginReferer = [], sv_responsePrefix = [], sv_lastSeenUpdatePrecision = 60, sv_crcAddress = (\<lambda>_. 0),
      sv_crcText = (\<lambda>_. 0), sv_now = 1000\<rparr>"

definition sample_server :: "'s \<Rightarrow> 's server" where
  "sample_server s = \<lparr>srv_state = s, srv_auth = \<lparr>as_map = (\<lambda>_. None), as_lastCleanup = 0\<rparr>,
     srv_visitors = \<lparr>vc_visitForSeconds = 600, vc_collection = [], vc_lastCleanup = 0, vc_currentNumberOfVisitors = 0\<rparr>\<rparr>"

definition sample_http_request :: "http_verb \<Rightarrow> string \<Rightarrow> endpoint_request" where
  "sample_http_request verb path =
     \<lparr>er_buffer = path, er_request = HttpRequest\<lparr>req_verb := verb, req_path := (0, length path)\<rparr>, er_remoteAddress = 0,
      er_contentBuffers = [], er_extraPathParts = []\<rparr>"

lemma sample_services_answer: "always_answers sample_services"
  by (simp add: always_answers_def sample_services_def)

lemma sample_http_request_version: "http_1 (er_request (sample_http_request verb path))"
  by (simp add: http_1_def sample_http_request_def HttpRequest_def)

lemma sample_http_request_path: "view_string (er_buffer (sample_http_request verb path)) (req_path (er_request (sample_http_request verb path))) = path"
  by (simp add: sample_http_request_def view_string_def)

theorem every_request_answered_witness:
  "\<exists>b' srv'. forward_request sample_environment sample_services (registerRoutes HttpRouter) (sample_http_request GET ''users'')
     (sample_server 0) HttpResponseBuilder = Some (b', srv') \<and> protocolState b' = BodyWritten"
  by (rule every_request_answered [OF sample_services_answer sample_http_request_version])
    (simp_all add: sample_http_request_path HttpResponseBuilder_def)

subsection \<open>Parameters\<close>

text \<open>
  C31. The handlers that read outside their parameters are exactly those of four commands on users, called with one
  parameter that is not empty: they check for at least one parameter and read the second one. No other handler
  does, whatever its parameters are.
\<close>

theorem parameters_read_in_bounds:
  assumes "(c, h) \<in> set commandHandlers"
  shows "h env ps = None \<longleftrightarrow> c \<in> {Command_CHANGE_USER_INFO, Command_CHANGE_USER_TITLE, Command_CHANGE_USER_SIGNATURE,
    Command_CHANGE_USER_ATTACHMENT_QUOTA} \<and> (\<exists>p. p \<noteq> [] \<and> ps = [p])"
  using handler_None_iff [OF assms, of env ps] by (simp add: unchecked_commands_def)

theorem parameters_read_in_bounds_witness:
  "impl_CHANGE_USER_INFO (sv_parameters sample_environment) [''x''] = None"
proof -
  have "(Command_CHANGE_USER_INFO, impl_CHANGE_USER_INFO) \<in> set commandHandlers" by (simp add: commandHandlers_def)
  from parameters_read_in_bounds [OF this, of "sv_parameters sample_environment" "[''x'']"] show ?thesis by simp
qed

subsection \<open>Responses\<close>

text \<open>Every status text is one word or several with single blanks, in printable characters.\<close>

definition printable :: "string \<Rightarrow> bool" where
  "printable = list_all (\<lambda>c. 0x20 \<le> (of_char c :: nat) \<and> (of_char c :: nat) < 0x7F)"

lemma status_text_printable: "printable (getStatusCodeString st)"
proof -
  have "printable t" if "t \<in> set statusCodes" for t
    using that by (auto simp: statusCodes_def printable_def)
  moreover have "st < HTTP_STATUS_CODES_COUNT \<longrightarrow> st < length statusCodes"
    by (simp add: HTTP_STATUS_CODES_COUNT_def statusCodes_def)
  moreover have "printable ''Unknown''" by (simp add: printable_def)
  ultimately show ?thesis using nth_mem [of st statusCodes] by (auto simp: getStatusCodeString_def Let_def)
qed

lemma status_texts:
  "getStatusCodeString 200 = ''OK''" "getStatusCodeString 304 = ''Not Modified''" "getStatusCodeString 403 = ''Forbidden''"
  "getStatusCodeString 404 = ''Not Found''" "getStatusCodeString 429 = ''Too Many Requests''" "getStatusCodeString 306 = ''Unknown''"
  by code_simp+

lemma one_line_status: "one_line (getStatusCodeString st)"
  using status_text_printable [of st] by (auto simp: one_line_def printable_def list_all_iff)

lemma one_line_digits:
  assumes "st < 1000" shows "one_line (status_digits st)"
proof -
  have "st div 100 + 48 < 256" "st div 10 mod 10 + 48 < 256" using assms by simp_all
  moreover have "st mod 100 < 100" by simp
  then have "st mod 100 + 48 < 256" by linarith
  moreover have "CHR 0x0D = char_of (13::nat)" by (simp add: char_of_def bit_0)
  ultimately show ?thesis by (simp add: one_line_def status_digits_def char_of_less_eq_iff del: char_of_eq_iff)
qed

text \<open>
  C32. A client that reads the status line, the header lines up to the empty line and the rest gets back what the
  builder was told to write: the headers in order, a Content-Length with the decimal length of the body, and the
  body behind its prefix.
\<close>

theorem response_round_trip:
  assumes "minor \<le> 1" "st < 1000" "length body + length pre < 2 ^ 31"
    and "\<forall>(name, val) \<in> set hs. field_name name \<and> one_line val"
  shows "\<exists>b. respond (writeResponseCode 1 minor st # map (\<lambda>(name, val). writeHeader name val) hs @ [writeBodyAndContentLength body pre])
      HttpResponseBuilder = Some b \<and> protocolState b = BodyWritten \<and>
    read_response (written b) =
      (version_text 1 minor @ status_digits st @ '' '' @ getStatusCodeString st,
       hs @ [(''Content-Length'', decimal_digits (length body + length pre))], pre @ body)"
proof -
  let ?rq = "\<lparr>er_buffer = [], er_request = HttpRequest\<lparr>versionMinor := minor\<rparr>, er_remoteAddress = 0, er_contentBuffers = [], er_extraPathParts = []\<rparr>"
  let ?n = "length body + length pre"
  have http: "http_1 (er_request ?rq)" using assms(1) by (simp add: http_1_def HttpRequest_def)
  have code: "writeRequestCode ?rq st = writeResponseCode 1 minor st"
    by (simp add: writeRequestCode_def HttpRequest_def)
  have "protocolState HttpResponseBuilder = NothingWritten" by (simp add: HttpResponseBuilder_def)
  from respond_text [OF http this, of st hs body pre]
  have run: "respond (writeResponseCode 1 minor st # map (\<lambda>(name, val). writeHeader name val) hs @ [writeBodyAndContentLength body pre])
      HttpResponseBuilder = Some \<lparr>protocolState = BodyWritten, written = response_text minor st hs body pre\<rparr>"
    unfolding code by (simp add: HttpResponseBuilder_def HttpRequest_def)
  have "sint (of_nat ?n :: 32 word) = int ?n"
    using assms(3) by (simp add: signed_of_nat signed_take_bit_int_eq_self del: of_nat_add)
  then have number: "number_text (sint (of_nat ?n :: 32 word)) False = decimal_digits ?n"
    by (simp add: number_text_def del: of_nat_add)
  have "version_text 1 minor = ''HTTP/1.'' @ [char_of (minor + 48)] @ '' ''" by (simp add: version_text_def char_of_def bit_0)
  moreover have "minor = 0 \<or> minor = 1" using assms(1) by auto
  ultimately have "one_line (version_text 1 minor)" by (auto simp: one_line_def char_of_def bit_0)
  then have line: "one_line (version_text 1 minor @ status_digits st @ '' '' @ getStatusCodeString st)"
    using one_line_digits [OF assms(2)] one_line_status [of st] by (simp add: one_line_def)
  have fields: "\<forall>(name, val) \<in> set (hs @ [(''Content-Length'', decimal_digits ?n)]). field_name name \<and> one_line val"
    using assms(4) one_line_decimal [of ?n] by (auto simp: field_name_def one_line_def)
  have "read_response (response_text minor st hs body pre) =
      (version_text 1 minor @ status_digits st @ '' '' @ getStatusCodeString st,
       hs @ [(''Content-Length'', decimal_digits ?n)], pre @ body)"
    unfolding response_text_def read_response_def number
    using until_crlf_line [OF line, of "headers_text (hs @ [(''Content-Length'', decimal_digits ?n)]) @ CRLF @ pre @ body"]
      read_headers_text [OF fields, of "CRLF @ pre @ body"]
    by (simp add: read_fields_empty_line)
  with run show ?thesis by auto
qed

theorem response_round_trip_witness:
  "\<exists>b. respond (writeResponseCode 1 1 304 # map (\<lambda>(name, val). writeHeader name val) [(''Content-Type'', ''application/json'')]
      @ [writeBodyAndContentLength ''{}'' []]) HttpResponseBuilder = Some b \<and> protocolState b = BodyWritten \<and>
    read_response (written b) = (version_text 1 1 @ status_digits 304 @ '' '' @ ''Not Modified'',
       [(''Content-Type'', ''application/json'')] @ [(''Content-Length'', decimal_digits (length ''{}'' + length ([] :: string)))], [] @ ''{}'')"
  unfolding status_texts(2) [symmetric]
  by (rule response_round_trip) (simp_all add: field_name_def one_line_def)

text \<open>
   The status of a command is written as the three digits of its status code, except for a throttled command:
  the last character is computed from the code modulo 100, which is a digit only when the second digit is 0.
\<close>

theorem status_line_digits:
  "status_digits (commandStatusToHttpStatus st) = decimal_digits (commandStatusToHttpStatus st) \<longleftrightarrow> st \<noteq> STATUS_THROTTLED"
proof -
  have "100 \<le> commandStatusToHttpStatus st" "commandStatusToHttpStatus st < 1000"
    by (cases st; simp add: commandStatusToHttpStatus_def HTTP_OK_def Not_Found_def Forbidden_def Not_Modified_def Too_Many_Requests_def)+
  from status_digits_iff [OF this] show ?thesis
    by (cases st) (simp_all add: commandStatusToHttpStatus_def HTTP_OK_def Not_Found_def Forbidden_def Not_Modified_def Too_Many_Requests_def)
qed

lemma throttled_status_line: "status_digits (commandStatusToHttpStatus STATUS_THROTTLED) = ''42M''"
  by (simp add: status_digits_def commandStatusToHttpStatus_def Too_Many_Requests_def char_of_def bit_0)

subsection \<open>Requests of other sites\<close>

lemma validateCsrf_iff:
  "validateCsrf rq \<longleftrightarrow> request_cookie rq ''double_submit'' \<noteq> [] \<and>
     request_header rq Header_X_Double_Submit = request_cookie rq ''double_submit''"
  by (auto simp: validateCsrf_def Let_def)

lemma updateDisplayContext_user:
  "sx_userAuth (fold (updateDisplayContext env) qs cx) = sx_userAuth cx \<and>
   sx_repository (fold (updateDisplayContext env) qs cx) = sx_repository cx"
  by (induction qs arbitrary: cx) (auto simp: updateDisplayContext_def split: prod.split)

lemma context_without_auth:
  "sx_userAuth (updateContextForRequest se auth rq False) = []"
  "rx_userId (sx_repository (updateContextForRequest se auth rq allowed)) = 0"
  by (simp_all add: updateContextForRequest_def Let_def updateDisplayContext_user)

text \<open>Services that answer the calls of anonymous users only.\<close>

definition anonymous_services :: "'s services \<Rightarrow> 's services" where
  "anonymous_services sv = sv\<lparr>sv_run := (\<lambda>cx c out s.
     if rx_userId (sx_repository cx) = 0 \<and> sx_userAuth cx = [] then sv_run sv cx c out s else None)\<rparr>"

definition anonymous :: "service_context \<Rightarrow> bool" where
  "anonymous cx \<longleftrightarrow> rx_userId (sx_repository cx) = 0 \<and> sx_userAuth cx = []"

lemma anonymous_user: "anonymous cx \<Longrightarrow> updateCurrentUserId sv s cx = cx"
  by (simp add: anonymous_def updateCurrentUserId_def)

lemma anonymous_run_handler:
  "anonymous cx \<Longrightarrow> run_handler (anonymous_services sv) env cx handlers n i ps s = run_handler sv env cx handlers n i ps s"
  by (simp add: run_handler_def anonymous_services_def anonymous_def split: option.split handled.split)

lemma anonymous_execute: "anonymous cx \<Longrightarrow> execute se (anonymous_services sv) cx what ps s = execute se sv cx what ps s"
  by (cases what) (simp_all add: handle_command_def handle_view_def anonymous_user anonymous_run_handler)

lemma anonymous_handleInternal:
  assumes "\<not> validateCsrf rq"
  shows "handleInternal se (anonymous_services sv) t f w rq srv b = handleInternal se sv t f w rq srv b"
proof -
  have "anonymous (updateContextForRequest se auth rq (validateCsrf rq))" for auth
    using assms context_without_auth [of se auth rq] by (simp add: anonymous_def)
  then show ?thesis
    by (cases "f rq"; cases "validateRequest (sv_expectedOriginReferer se) rq") (simp_all add: handleInternal_def Let_def anonymous_execute)
qed

text \<open>
  C33. A request whose double-submit header does not repeat a non-empty double-submit cookie is executed without
  the identity of a user, whatever its other cookies are: it has exactly the effect and response it has on
  repositories that answer anonymous calls only. So a page of another site, which can make a browser send the
  cookies but not read them, never acts for the user.
\<close>

theorem forged_requests_anonymous:
  assumes "request_cookie rq ''double_submit'' = [] \<or> request_header rq Header_X_Double_Submit \<noteq> request_cookie rq ''double_submit''"
  shows "run_endpoint se sv e rq srv b = run_endpoint se (anonymous_services sv) e rq srv b"
proof -
  have "\<not> validateCsrf rq" using assms by (auto simp: validateCsrf_iff)
  then show ?thesis by (cases e) (simp_all add: anonymous_handleInternal)
qed

theorem forged_requests_anonymous_witness:
  "run_endpoint sample_environment sample_services (JsonEndpoint UsersEndpoint_getAll) (sample_http_request GET ''users'') (sample_server 0) HttpResponseBuilder
   = run_endpoint sample_environment (anonymous_services sample_services) (JsonEndpoint UsersEndpoint_getAll)
       (sample_http_request GET ''users'') (sample_server 0) HttpResponseBuilder"
  by (rule forged_requests_anonymous)
    (simp add: request_cookie_def getCookie_def sample_http_request_def HttpRequest_def)

text \<open>
  When the configuration disables commands of anonymous users, such a request runs no command: the state of the
  repositories is unchanged.
\<close>

theorem forged_commands_refused:
  assumes "request_cookie rq ''double_submit'' = [] \<or> request_header rq Header_X_Double_Submit \<noteq> request_cookie rq ''double_submit''"
    and "cfg_disableCommandsForAnonymousUsers (sv_command se)" "f rq = (ExecuteCommand c, ps)"
    and "run_endpoint se sv (JsonEndpoint f) rq srv b = Some (b', srv')"
  shows "srv_state srv' = srv_state srv"
proof -
  let ?cx = "updateContextForRequest se (srv_auth srv) rq (validateCsrf rq)"
  have "\<not> validateCsrf rq" using assms(1) by (auto simp: validateCsrf_iff)
  then have "anonymous ?cx" using context_without_auth [of se "srv_auth srv" rq] by (simp add: anonymous_def)
  then have "handle_command (sv_command se) sv (sv_parameters se) ?cx c ps (srv_state srv) = Some ((STATUS_NOT_ALLOWED, []), srv_state srv)"
    using assms(2) by (simp add: handle_command_def Let_def anonymous_user) (simp add: anonymous_def)
  then show ?thesis using assms(4)
    by (auto simp: handleInternal_def Let_def assms(3) split: option.splits)
qed

theorem forged_commands_refused_witness:
  "\<exists>b' srv'. run_endpoint (sample_environment\<lparr>sv_command := \<lparr>cfg_disableCommands = False, cfg_disableCommandsForAnonymousUsers = True\<rparr>\<rparr>)
     sample_services (JsonEndpoint UsersEndpoint_remove) (sample_http_request VERB_DELETE ''users/1'') (sample_server 7) HttpResponseBuilder
     = Some (b', srv') \<and> srv_state srv' = 7"
proof -
  let ?se = "sample_environment\<lparr>sv_command := \<lparr>cfg_disableCommands = False, cfg_disableCommandsForAnonymousUsers = True\<rparr>\<rparr>"
  let ?rq = "sample_http_request VERB_DELETE ''users/1''"
  have ok: "endpoint_ok UsersEndpoint_remove"
    by (simp add: endpoint_ok_def UsersEndpoint_remove_def unchecked_commands_def command_numbers)
  have "protocolState HttpResponseBuilder = NothingWritten" by (simp add: HttpResponseBuilder_def)
  from handleInternal_total [OF sample_services_answer ok sample_http_request_version this, of ?se "''application/json''" True VERB_DELETE "''users/1''" "sample_server 7"]
  obtain b' srv' where run: "run_endpoint ?se sample_services (JsonEndpoint UsersEndpoint_remove) ?rq (sample_server 7) HttpResponseBuilder = Some (b', srv')"
    by auto
  have "srv_state srv' = srv_state (sample_server 7)"
    by (rule forged_commands_refused [OF _ _ _ run, where c = Command_DELETE_USER and ps = "[extraPathPart ?rq 0]"])
      (simp_all add: request_cookie_def getCookie_def sample_http_request_def HttpRequest_def UsersEndpoint_remove_def)
  then show ?thesis using run by (intro exI conjI) (simp_all add: sample_server_def)
qed

subsection \<open>Authentication tokens\<close>

definition auth_logins :: "(timestamp \<times> string \<times> string \<times> timestamp) list \<Rightarrow> auth_store \<Rightarrow> auth_store option" where
  "auth_logins = fold_option (\<lambda>(now, authToken, authId, expiresIn). auth_add now authToken authId expiresIn)"

lemma auth_cleanup_map:
  "as_map (auth_cleanup now a) token = (case as_map a token of None \<Rightarrow> None
     | Some (i, e) \<Rightarrow> if e < now \<and> cleanupEverySeconds \<le> now - as_lastCleanup a then None else Some (i, e))"
  by (auto simp: auth_cleanup_def split: option.split)

lemma auth_add_map:
  assumes "auth_add now t i d a = Some a'"
  shows "as_map a' token = (case as_map (auth_cleanup now a) token of Some x \<Rightarrow> Some x
    | None \<Rightarrow> if token = t then Some (i, now + d) else None)"
  using assms by (auto simp: auth_add_def Let_def checked64_def split: option.splits if_splits)

lemma auth_logins_Cons:
  "auth_logins ((now, t, i, d) # ls) a = Some a' \<longleftrightarrow> (\<exists>a1. auth_add now t i d a = Some a1 \<and> auth_logins ls a1 = Some a')"
  by (simp add: auth_logins_def split: option.split)

lemma auth_logins_append:
  "auth_logins (ls @ ls') a = Some a' \<longleftrightarrow> (\<exists>a1. auth_logins ls a = Some a1 \<and> auth_logins ls' a1 = Some a')"
proof (induction ls arbitrary: a)
  case Nil
  then show ?case by (simp add: auth_logins_def)
next
  case (Cons l ls)
  then show ?case by (cases l) (auto simp: auth_logins_Cons)
qed

text \<open>Logins with other tokens do not add a token, and remove it only when it has expired.\<close>

lemma other_logins:
  assumes "auth_logins ls a = Some a'" "\<forall>(t', tok, i, d) \<in> set ls. tok \<noteq> token \<and> t' \<le> now"
  shows "as_map a' token = as_map a token \<or> as_map a' token = None \<and> (\<exists>i e. as_map a token = Some (i, e) \<and> e < now)"
  using assms
proof (induction ls arbitrary: a)
  case Nil
  then show ?case by (simp add: auth_logins_def)
next
  case (Cons l ls)
  obtain t' tok i d where l: "l = (t', tok, i, d)" by (cases l) auto
  from Cons.prems(1) obtain a1 where a1: "auth_add t' tok i d a = Some a1" "auth_logins ls a1 = Some a'"
    by (auto simp: l auth_logins_Cons)
  have "tok \<noteq> token" "t' \<le> now" using Cons.prems(2) by (auto simp: l)
  then have "as_map a1 token = as_map a token \<or> as_map a1 token = None \<and> (\<exists>i e. as_map a token = Some (i, e) \<and> e < now)"
    using auth_add_map [OF a1(1), of token] by (auto simp: auth_cleanup_map split: option.splits if_splits)
  with Cons.IH [OF a1(2)] Cons.prems(2) show ?case by auto
qed

text \<open>
  C34. A token that is announced in one login is valid exactly until its time has passed: whatever other logins come
  before and after it, looking it up gives the announced authentication up to and including the second it expires
  in, and nothing afterwards.
\<close>

theorem token_lifetime:
  assumes "auth_logins (before @ (t, token, authId, expiresIn) # after) \<lparr>as_map = (\<lambda>_. None), as_lastCleanup = c\<rparr> = Some a"
    and "\<forall>(t', tok, i, d) \<in> set (before @ after). tok \<noteq> token" "\<forall>(t', tok, i, d) \<in> set after. t' \<le> now"
  shows "auth_find now token a = (if now \<le> t + expiresIn then authId else [])"
proof -
  obtain a1 a2 where a: "auth_logins before \<lparr>as_map = (\<lambda>_. None), as_lastCleanup = c\<rparr> = Some a1"
    "auth_add t token authId expiresIn a1 = Some a2" "auth_logins after a2 = Some a"
    using assms(1) by (auto simp: auth_logins_append auth_logins_Cons)
  define latest where "latest = Max (insert 0 ((\<lambda>(t', _). t') ` set before))"
  have "\<forall>(t', tok, i, d) \<in> set before. tok \<noteq> token \<and> t' \<le> latest"
  proof clarify
    fix t' tok i d
    assume "(t', tok, i, d) \<in> set before"
    then show "tok \<noteq> token \<and> t' \<le> latest" using assms(2) by (force simp: latest_def intro!: Max_ge)
  qed
  from other_logins [OF a(1) this] have "as_map a1 token = None" by simp
  then have new: "as_map a2 token = Some (authId, t + expiresIn)"
    using auth_add_map [OF a(2), of token] by (simp add: auth_cleanup_map)
  have "\<forall>(t', tok, i, d) \<in> set after. tok \<noteq> token \<and> t' \<le> now" using assms(2,3) by (simp add: ball_Un) fastforce
  from other_logins [OF a(3) this] new show ?thesis by (auto simp: auth_find_def)
qed

theorem token_lifetime_witness:
  "\<exists>a. auth_logins [(100, ''a'', ''alice'', 50), (120, ''b'', ''bob'', 10)] \<lparr>as_map = (\<lambda>_. None), as_lastCleanup = 0\<rparr> = Some a \<and>
    auth_find 130 ''a'' a = ''alice'' \<and> auth_find 131 ''b'' a = []"
proof -
  obtain a where a: "auth_logins [(100, ''a'', ''alice'', 50), (120, ''b'', ''bob'', 10)] \<lparr>as_map = (\<lambda>_. None), as_lastCleanup = 0\<rparr> = Some a"
    by (simp add: auth_logins_def auth_add_def Let_def checked64_def in_int64_def split: option.split)
  have "auth_find 130 ''a'' a = (if 130 \<le> 100 + (50::int) then ''alice'' else [])"
    by (rule token_lifetime [where before = "[]" and after = "[(120, ''b'', ''bob'', 10)]", simplified, OF a]) auto
  moreover have "auth_find 131 ''b'' a = (if 131 \<le> 120 + (10::int) then ''bob'' else [])"
    by (rule token_lifetime [where before = "[(100, ''a'', ''alice'', 50)]" and after = "[]", simplified, OF a]) auto
  ultimately show ?thesis using a by auto
qed

text \<open>
  A login with a token whose earlier login has expired is answered with success but has no effect while the
  last removal of expired tokens is less than 30 seconds ago: the map keeps the expired entry, so the token is
  not valid after the login.
\<close>

theorem renewed_login_lost:
  assumes "as_map a token = Some (authId, e)" "e < sv_now se" "sv_now se - as_lastCleanup a < 30"
    and "loginUser se token authId' expiresIn a = Some ((STATUS_OK, out), a')" "sv_now se \<le> later"
  shows "auth_find later token a' = []"
proof -
  obtain d where "auth_add (sv_now se) token authId' d a = Some a'"
    using assms(4) by (auto simp: loginUser_def Let_def split: if_splits)
  from auth_add_map [OF this, of token] have "as_map a' token = Some (authId, e)"
    using assms(1,3) by (simp add: auth_cleanup_map cleanupEverySeconds_def)
  then show ?thesis using assms(2,5) by (simp add: auth_find_def)
qed

theorem renewed_login_lost_witness:
  "\<exists>a'. loginUser sample_environment ''t'' ''alice'' ''5'' \<lparr>as_map = [''t'' \<mapsto> (''alice'', 990)], as_lastCleanup = 980\<rparr>
      = Some ((STATUS_OK, ''ok''), a') \<and> auth_find 1001 ''t'' a' = []"
proof -
  let ?a = "\<lparr>as_map = [''t'' \<mapsto> (''alice'', 990)], as_lastCleanup = 980\<rparr>"
  obtain a' where run: "loginUser sample_environment ''t'' ''alice'' ''5'' ?a = Some ((STATUS_OK, ''ok''), a')"
    by (simp add: loginUser_def sample_environment_def fromStringOrDefault_def Let_def auth_add_def checked64_def in_int64_def
        split: option.split)
  have "auth_find 1001 ''t'' a' = []"
    by (rule renewed_login_lost [OF _ _ _ run, where authId = "''alice''" and e = 990]) (simp_all add: sample_environment_def)
  then show ?thesis using run by blast
qed

end
