(* ===== verification/SortedVector.thy ===== *)
theory SortedVector
  imports Prelude
begin

section \<open>Sorted vectors\<close>

text \<open>
  Models \<^verbatim>\<open>src/src/LibForumData/SortedVector.h\<close>, and \<open>eraseFromNonUniqueCollection\<close> and
  \<open>findInNonUniqueCollection\<close> of \<^verbatim>\<open>EntityCommonTypes.h\<close>. \<open>lt\<close> is the comparison of two elements by their
  keys; an iterator is an index, and \<open>end\<close> is the length. The comparison reads the keys of the elements as they
  are, so an element whose key changed is out of place until it is replaced. The searches of the standard library
  are given by the position they find in a sorted vector; \<open>std::sort\<close> leaves elements with equal keys in an order
  that it does not specify, here the one of insertion.
\<close>

subsection \<open>Searching\<close>

definition sv_lower_bound :: "('a \<Rightarrow> 'a \<Rightarrow> bool) \<Rightarrow> 'a \<Rightarrow> 'a list \<Rightarrow> nat" where
  "sv_lower_bound lt x xs = length (takeWhile (\<lambda>y. lt y x) xs)"

definition sv_upper_bound :: "('a \<Rightarrow> 'a \<Rightarrow> bool) \<Rightarrow> 'a \<Rightarrow> 'a list \<Rightarrow> nat" where
  "sv_upper_bound lt x xs = length (takeWhile (\<lambda>y. \<not> lt x y) xs)"

definition sv_equal_range :: "('a \<Rightarrow> 'a \<Rightarrow> bool) \<Rightarrow> 'a \<Rightarrow> 'a list \<Rightarrow> nat \<times> nat" where
  "sv_equal_range lt x xs = (sv_lower_bound lt x xs, sv_upper_bound lt x xs)"

definition sv_nth :: "nat \<Rightarrow> 'a list \<Rightarrow> nat" where
  "sv_nth val xs = min val (length xs)"

definition sv_erase :: "nat \<Rightarrow> 'a list \<Rightarrow> 'a list" where
  "sv_erase position xs = take position xs @ drop (Suc position) xs"

text \<open>The first iterator of the range of equal keys that refers to the very element; \<open>None\<close> is \<open>end\<close>.\<close>

definition findInNonUniqueCollection :: "('a \<Rightarrow> 'a \<Rightarrow> bool) \<Rightarrow> 'a \<Rightarrow> 'a list \<Rightarrow> nat option" where
  "findInNonUniqueCollection lt toCompare xs =
     (let (first, last) = sv_equal_range lt toCompare xs in find (\<lambda>i. xs ! i = toCompare) [first..<last])"

definition eraseFromNonUniqueCollection :: "('a \<Rightarrow> 'a \<Rightarrow> bool) \<Rightarrow> 'a \<Rightarrow> 'a list \<Rightarrow> 'a list" where
  "eraseFromNonUniqueCollection lt toCompare xs =
     (case findInNonUniqueCollection lt toCompare xs of None \<Rightarrow> xs | Some i \<Rightarrow> sv_erase i xs)"

subsection \<open>Inserting\<close>

definition sv_insert :: "('a \<Rightarrow> 'a \<Rightarrow> bool) \<Rightarrow> 'a \<Rightarrow> 'a list \<Rightarrow> 'a list" where
  "sv_insert lt val xs = (let position = sv_upper_bound lt val xs in take position xs @ val # drop position xs)"

definition sv_sort :: "('a \<Rightarrow> 'a \<Rightarrow> bool) \<Rightarrow> 'a list \<Rightarrow> 'a list" where
  "sv_sort lt xs = fold (sv_insert lt) xs []"

definition sv_insert_range :: "('a \<Rightarrow> 'a \<Rightarrow> bool) \<Rightarrow> 'a list \<Rightarrow> 'a list \<Rightarrow> 'a list" where
  "sv_insert_range lt vals xs = sv_sort lt (xs @ vals)"

subsection \<open>Replacing\<close>

definition iter_swap :: "nat \<Rightarrow> nat \<Rightarrow> 'a list \<Rightarrow> 'a list" where
  "iter_swap i j xs = xs[i := xs ! j, j := xs ! i]"

fun replace_left :: "('a \<Rightarrow> 'a \<Rightarrow> bool) \<Rightarrow> nat \<Rightarrow> 'a list \<Rightarrow> 'a list \<times> nat" where
  "replace_left lt 0 xs = (xs, 0)"
| "replace_left lt (Suc it) xs =
     (if lt (xs ! Suc it) (xs ! it) then replace_left lt it (iter_swap (Suc it) it xs) else (xs, Suc it))"

lemma length_iter_swap [simp]: "length (iter_swap i j xs) = length xs"
  by (simp add: iter_swap_def)

function replace_right :: "('a \<Rightarrow> 'a \<Rightarrow> bool) \<Rightarrow> nat \<Rightarrow> 'a list \<Rightarrow> 'a list \<times> nat" where
  "replace_right lt it xs =
     (if it < length xs - 1 \<and> lt (xs ! (it + 1)) (xs ! it) then replace_right lt (it + 1) (iter_swap it (it + 1) xs)
      else (xs, it))"
  by pat_completeness auto
termination
proof (relation "measure (\<lambda>(lt, it, xs). length xs - it)", goal_cases)
  case 1
  show ?case by simp
next
  case (2 lt it xs)
  then have "it < length xs - 1" by (rule conjunct1)
  then show ?case by (simp only: in_measure prod.case length_iter_swap)
qed

declare replace_right.simps [simp del]

definition replaceInternal :: "('a \<Rightarrow> 'a \<Rightarrow> bool) \<Rightarrow> nat \<Rightarrow> 'a \<Rightarrow> 'a list \<Rightarrow> 'a list \<times> nat" where
  "replaceInternal lt position val xs =
     (let (ys, it) = replace_left lt position (xs[position := val])
      in if it < position then (ys, it) else replace_right lt it ys)"

subsection \<open>Vectors with unique keys\<close>

definition sv_find :: "('a \<Rightarrow> 'a \<Rightarrow> bool) \<Rightarrow> 'a \<Rightarrow> 'a list \<Rightarrow> nat" where
  "sv_find lt x xs = (let (first, last) = sv_equal_range lt x xs in if first = last then length xs else first)"

definition sv_insert_unique :: "('a \<Rightarrow> 'a \<Rightarrow> bool) \<Rightarrow> 'a \<Rightarrow> 'a list \<Rightarrow> 'a list \<times> bool" where
  "sv_insert_unique lt val xs =
     (let (first, last) = sv_equal_range lt val xs
      in if first \<noteq> last then (xs, False) else (take first xs @ val # drop first xs, True))"

definition sv_replace_unique :: "('a \<Rightarrow> 'a \<Rightarrow> bool) \<Rightarrow> nat \<Rightarrow> 'a \<Rightarrow> 'a list \<Rightarrow> 'a list \<times> nat" where
  "sv_replace_unique lt position val xs =
     (if sv_find lt val xs \<noteq> length xs then (sv_erase position xs, position) else replaceInternal lt position val xs)"

subsection \<open>The contract of a comparison\<close>

definition sv_sorted :: "('a \<Rightarrow> 'a \<Rightarrow> bool) \<Rightarrow> 'a list \<Rightarrow> bool" where
  "sv_sorted lt xs \<longleftrightarrow> sorted_wrt (\<lambda>x y. \<not> lt y x) xs"

locale key_order =
  fixes lt :: "'a \<Rightarrow> 'a \<Rightarrow> bool"
  assumes irrefl: "\<not> lt x x"
    and less_trans: "lt x y \<Longrightarrow> lt y z \<Longrightarrow> lt x z"
    and not_less_trans: "\<not> lt y x \<Longrightarrow> \<not> lt z y \<Longrightarrow> \<not> lt z x"
begin

lemma asym: "lt x y \<Longrightarrow> \<not> lt y x"
  using irrefl less_trans by blast

lemma sorted_append: "sv_sorted lt (xs @ ys) \<longleftrightarrow> sv_sorted lt xs \<and> sv_sorted lt ys \<and> (\<forall>x\<in>set xs. \<forall>y\<in>set ys. \<not> lt y x)"
  by (auto simp: sv_sorted_def sorted_wrt_append)

lemma sorted_Cons: "sv_sorted lt (x # xs) \<longleftrightarrow> (\<forall>y\<in>set xs. \<not> lt y x) \<and> sv_sorted lt xs"
  by (simp add: sv_sorted_def)

lemma less_after:
  assumes "sv_sorted lt (y # ys)" "lt x y" "z \<in> set (y # ys)"
  shows "lt x z"
  using assms not_less_trans by (auto simp: sorted_Cons)

lemma upper_split:
  assumes "sv_sorted lt xs"
  shows "take (sv_upper_bound lt x xs) xs = takeWhile (\<lambda>y. \<not> lt x y) xs"
    and "drop (sv_upper_bound lt x xs) xs = dropWhile (\<lambda>y. \<not> lt x y) xs"
    and "\<forall>y\<in>set (dropWhile (\<lambda>y. \<not> lt x y) xs). lt x y"
proof -
  show t: "take (sv_upper_bound lt x xs) xs = takeWhile (\<lambda>y. \<not> lt x y) xs"
    by (simp add: sv_upper_bound_def takeWhile_eq_take [symmetric])
  show d: "drop (sv_upper_bound lt x xs) xs = dropWhile (\<lambda>y. \<not> lt x y) xs"
    by (simp add: sv_upper_bound_def dropWhile_eq_drop [symmetric])
  show "\<forall>y\<in>set (dropWhile (\<lambda>y. \<not> lt x y) xs). lt x y"
  proof (cases "dropWhile (\<lambda>y. \<not> lt x y) xs")
    case (Cons y ys)
    have "sv_sorted lt (y # ys)"
      using assms takeWhile_dropWhile_id [of "\<lambda>y. \<not> lt x y" xs] Cons sorted_append by metis
    moreover have "lt x y" using Cons by (metis (mono_tags, lifting) dropWhile_eq_Cons_conv)
    ultimately show ?thesis using less_after Cons by metis
  next
    case Nil
    then show ?thesis unfolding Nil by simp
  qed
qed

lemma insert_between:
  "sv_sorted lt A \<Longrightarrow> sv_sorted lt B \<Longrightarrow> \<forall>a\<in>set A. \<forall>b\<in>set B. \<not> lt b a \<Longrightarrow> \<forall>a\<in>set A. \<not> lt x a \<Longrightarrow>
   \<forall>b\<in>set B. \<not> lt b x \<Longrightarrow> sv_sorted lt (A @ x # B)"
  by (simp add: sorted_append sorted_Cons)

theorem insert_sorted:
  assumes "sv_sorted lt xs"
  shows "sv_sorted lt (sv_insert lt x xs)"
proof -
  let ?A = "takeWhile (\<lambda>y. \<not> lt x y) xs" and ?B = "dropWhile (\<lambda>y. \<not> lt x y) xs"
  have "sv_sorted lt (?A @ ?B)" using assms by (simp only: takeWhile_dropWhile_id)
  then have split: "sv_sorted lt ?A" "sv_sorted lt ?B" "\<forall>a\<in>set ?A. \<forall>b\<in>set ?B. \<not> lt b a"
    unfolding sorted_append by blast+
  have "\<forall>y\<in>set ?A. \<not> lt x y" by (auto dest: set_takeWhileD)
  moreover have "\<forall>y\<in>set ?B. \<not> lt y x" using upper_split(3) [OF assms] asym by blast
  moreover have "sv_insert lt x xs = ?A @ x # ?B" by (simp only: sv_insert_def Let_def upper_split(1,2) [OF assms])
  ultimately show ?thesis using insert_between [OF split] by simp
qed

lemma mset_insert: "mset (sv_insert lt x xs) = add_mset x (mset xs)"
proof -
  have "mset (take i xs) + mset (drop i xs) = mset xs" for i by (metis append_take_drop_id mset_append)
  then show ?thesis by (simp add: sv_insert_def Let_def)
qed

lemma sort_sorted: "sv_sorted lt (sv_sort lt xs)" "mset (sv_sort lt xs) = mset xs"
proof -
  have "sv_sorted lt acc \<Longrightarrow> sv_sorted lt (fold (sv_insert lt) xs acc) \<and> mset (fold (sv_insert lt) xs acc) = mset xs + mset acc" for acc
    by (induction xs arbitrary: acc) (simp_all add: insert_sorted mset_insert)
  from this [of "[]"] show "sv_sorted lt (sv_sort lt xs)" "mset (sv_sort lt xs) = mset xs"
    by (simp_all add: sv_sort_def sv_sorted_def)
qed

lemma range_sorted: "sv_sorted lt (sv_insert_range lt ys xs)" "mset (sv_insert_range lt ys xs) = mset xs + mset ys"
  by (simp_all add: sv_insert_range_def sort_sorted)

end

subsection \<open>An element is put back in its place\<close>

lemma swap_adjacent: "iter_swap (Suc (length A)) (length A) (A @ a # v # B) = A @ v # a # B"
  "iter_swap (length A) (Suc (length A)) (A @ v # b # B) = A @ b # v # B"
  by (simp_all add: iter_swap_def nth_append list_update_append)

lemma replace_left_moves:
  "\<exists>A1 A2. A = A1 @ A2 \<and> replace_left lt (length A) (A @ v # B) = (A1 @ v # A2 @ B, length A1)
     \<and> (\<forall>a\<in>set A2. lt v a) \<and> (A1 \<noteq> [] \<longrightarrow> \<not> lt v (last A1))"
proof (induction A arbitrary: B rule: rev_induct)
  case (snoc a A)
  show ?case
  proof (cases "lt v a")
    case True
    have "replace_left lt (length (A @ [a])) ((A @ [a]) @ v # B) = replace_left lt (length A) (A @ v # a # B)"
      using True swap_adjacent(1) [of A a v B] by (simp add: nth_append)
    moreover obtain A1 A2 where "A = A1 @ A2" "replace_left lt (length A) (A @ v # a # B) = (A1 @ v # A2 @ a # B, length A1)"
        "\<forall>a\<in>set A2. lt v a" "A1 \<noteq> [] \<longrightarrow> \<not> lt v (last A1)"
      using snoc by blast
    ultimately show ?thesis using True by (intro exI [of _ A1] exI [of _ "A2 @ [a]"]) simp
  next
    case False
    then show ?thesis by (intro exI [of _ "A @ [a]"] exI [of _ "[]"]) (simp add: nth_append)
  qed
qed simp

lemma replace_right_moves:
  "\<exists>B1 B2. B = B1 @ B2 \<and> replace_right lt (length A) (A @ v # B) = (A @ B1 @ v # B2, length A + length B1)
     \<and> (\<forall>b\<in>set B1. lt b v) \<and> (B2 \<noteq> [] \<longrightarrow> \<not> lt (hd B2) v)"
proof (induction B arbitrary: A)
  case Nil
  show ?case by (simp add: replace_right.simps)
next
  case (Cons b B)
  show ?case
  proof (cases "lt b v")
    case True
    have "replace_right lt (length A) (A @ v # b # B) = replace_right lt (length (A @ [b])) ((A @ [b]) @ v # B)"
      using True swap_adjacent(2) [of A v b B] by (subst replace_right.simps) (simp add: nth_append)
    moreover obtain B1 B2 where "B = B1 @ B2" "\<forall>b\<in>set B1. lt b v" "B2 \<noteq> [] \<longrightarrow> \<not> lt (hd B2) v"
        "replace_right lt (length (A @ [b])) ((A @ [b]) @ v # B) = ((A @ [b]) @ B1 @ v # B2, length (A @ [b]) + length B1)"
      using Cons [of "A @ [b]"] by blast
    ultimately show ?thesis using True by (intro exI [of _ "b # B1"] exI [of _ B2]) simp
  next
    case False
    then show ?thesis
      by (intro exI [of _ "[]"] exI [of _ "b # B"]) (simp add: replace_right.simps nth_append)
  qed
qed

context key_order
begin

lemma below_last:
  assumes "sv_sorted lt A" "A \<noteq> [] \<longrightarrow> \<not> lt v (last A)"
  shows "\<forall>a\<in>set A. \<not> lt v a"
proof (cases A rule: rev_cases)
  case (snoc B b)
  then show ?thesis using assms sorted_append [of B "[b]"] not_less_trans by auto
qed simp

lemma above_first:
  assumes "sv_sorted lt B" "B \<noteq> [] \<longrightarrow> \<not> lt (hd B) v"
  shows "\<forall>b\<in>set B. \<not> lt b v"
  using assms not_less_trans by (cases B) (auto simp: sorted_Cons)

text \<open>
  When all elements but the one at the position are in order, replacing it puts the vector in order, keeps the
  elements, and returns where the new one is.
\<close>

theorem replace_sorted:
  assumes sorted: "sv_sorted lt (A @ B)"
    and run: "replaceInternal lt (length A) v (A @ u # B) = (ys, i)"
  shows "sv_sorted lt ys" "mset ys = add_mset v (mset (A @ B))" "ys ! i = v"
proof -
  have AB: "sv_sorted lt A" "sv_sorted lt B" "\<forall>a\<in>set A. \<forall>b\<in>set B. \<not> lt b a"
    using sorted_append [THEN iffD1, OF sorted] by blast+
  obtain A1 A2 where A: "A = A1 @ A2" and left: "replace_left lt (length A) (A @ v # B) = (A1 @ v # A2 @ B, length A1)"
      "\<forall>a\<in>set A2. lt v a" "A1 \<noteq> [] \<longrightarrow> \<not> lt v (last A1)"
    using replace_left_moves [where A = A and B = B and v = v and lt = lt] by (elim exE conjE) (rule that)
  have up: "(A @ u # B)[length A := v] = A @ v # B" by (simp add: list_update_append)
  have moved: "(if length A1 < length A then (A1 @ v # A2 @ B, length A1) else replace_right lt (length A1) (A1 @ v # A2 @ B)) = (ys, i)"
    using run unfolding replaceInternal_def up left(1) by simp
  have A12: "sv_sorted lt A1" "sv_sorted lt A2" "\<forall>x\<in>set A1. \<forall>y\<in>set A2. \<not> lt y x" using sorted_append [THEN iffD1, OF AB(1) [unfolded A]] by blast+
  have low: "\<forall>a\<in>set A1. \<not> lt v a" using below_last [OF A12(1) left(3)] .
  have "sv_sorted lt ys \<and> mset ys = add_mset v (mset (A @ B)) \<and> ys ! i = v"
  proof (cases "A2 = []")
    case False
    then have ys: "ys = A1 @ v # A2 @ B" "i = length A1"
      using moved A by simp_all
    have "\<forall>b\<in>set B. \<not> lt b v"
    proof
      fix b assume b: "b \<in> set B"
      obtain a where a: "a \<in> set A2" using False by (cases A2) auto
      have "\<not> lt b a" using AB(3) A a b by simp
      then show "\<not> lt b v" using left(2) a less_trans by blast
    qed
    moreover have "\<forall>a\<in>set A2. \<not> lt a v" using left(2) asym by blast
    moreover have "sv_sorted lt (A2 @ B)" using A12(2) AB A by (simp add: sorted_append)
    moreover have "\<forall>x\<in>set A1. \<forall>y\<in>set (A2 @ B). \<not> lt y x" using A12(3) AB(3) A by auto
    ultimately have "sv_sorted lt (A1 @ v # (A2 @ B))" using A12(1) low by (intro insert_between) auto
    then show ?thesis using ys A by simp
  next
    case True
    obtain B1 B2 where B: "B = B1 @ B2" and right: "replace_right lt (length A) (A @ v # B) = (A @ B1 @ v # B2, length A + length B1)"
        "\<forall>b\<in>set B1. lt b v" "B2 \<noteq> [] \<longrightarrow> \<not> lt (hd B2) v"
      using replace_right_moves [where A = A and B = B and v = v and lt = lt] by (elim exE conjE) (rule that)
    have ys: "ys = A @ B1 @ v # B2" "i = length (A @ B1)"
      using moved A True right(1) by simp_all
    have "sv_sorted lt B1" "sv_sorted lt B2" "\<forall>x\<in>set B1. \<forall>y\<in>set B2. \<not> lt y x" using sorted_append [THEN iffD1, OF AB(2) [unfolded B]] by blast+
    moreover have "\<forall>b\<in>set B2. \<not> lt b v" using above_first \<open>sv_sorted lt B2\<close> right(3) by blast
    moreover have "\<forall>b\<in>set B1. \<not> lt v b" using right(2) asym by blast
    moreover have "\<forall>a\<in>set A. \<not> lt v a" using low A True by simp
    moreover have "sv_sorted lt (A @ B1)" "\<forall>x\<in>set (A @ B1). \<forall>y\<in>set B2. \<not> lt y x"
      using AB B calculation(1,3) by (auto simp: sorted_append)
    ultimately have "sv_sorted lt ((A @ B1) @ v # B2)" by (intro insert_between) auto
    then show ?thesis using ys B by (simp add: nth_append)
  qed
  then show "sv_sorted lt ys" "mset ys = add_mset v (mset (A @ B))" "ys ! i = v" by auto
qed

lemma erase_sorted: "sv_sorted lt xs \<Longrightarrow> sv_sorted lt (sv_erase i xs)"
proof -
  assume s: "sv_sorted lt xs"
  show ?thesis
  proof (cases "i < length xs")
    case True
    then have "xs = take i xs @ xs ! i # drop (Suc i) xs" by (rule id_take_nth_drop)
    then have "sv_sorted lt (take i xs @ xs ! i # drop (Suc i) xs)" using s by simp
    then show ?thesis by (auto simp: sv_erase_def sorted_append sorted_Cons)
  qed (use s in \<open>simp add: sv_erase_def\<close>)
qed

text \<open>The range of equal keys of an element of a sorted vector holds it.\<close>

lemma find_found:
  assumes "sv_sorted lt xs" "x \<in> set xs"
  shows "\<exists>i. findInNonUniqueCollection lt x xs = Some i \<and> i < length xs \<and> xs ! i = x"
proof -
  obtain j where j: "j < length xs" "xs ! j = x" using assms(2) by (auto simp: in_set_conv_nth)
  have "sv_lower_bound lt x xs \<le> j"
  proof (rule ccontr)
    assume "\<not> ?thesis"
    then have "j < length (takeWhile (\<lambda>y. lt y x) xs)" by (simp add: sv_lower_bound_def)
    then have "xs ! j \<in> set (takeWhile (\<lambda>y. lt y x) xs)" by (metis nth_mem takeWhile_nth)
    then show False using j irrefl by (auto dest: set_takeWhileD)
  qed
  moreover have "j < sv_upper_bound lt x xs"
  proof (rule ccontr)
    assume "\<not> ?thesis"
    then have "drop (sv_upper_bound lt x xs) xs ! (j - sv_upper_bound lt x xs) = x"
      "j - sv_upper_bound lt x xs < length (drop (sv_upper_bound lt x xs) xs)"
      using j by (simp_all add: not_less)
    then have "x \<in> set (drop (sv_upper_bound lt x xs) xs)" by (simp only: in_set_conv_nth) (rule exI, rule conjI)
    then show False using upper_split(3) [OF assms(1), of x] irrefl unfolding upper_split(2) [OF assms(1)] by blast
  qed
  ultimately have "\<exists>i\<in>set [sv_lower_bound lt x xs..<sv_upper_bound lt x xs]. xs ! i = x" using j by auto
  then obtain i where i: "find (\<lambda>i. xs ! i = x) [sv_lower_bound lt x xs..<sv_upper_bound lt x xs] = Some i"
    by (cases "find (\<lambda>i. xs ! i = x) [sv_lower_bound lt x xs..<sv_upper_bound lt x xs]") (auto simp: find_None_iff)
  then have "xs ! i = x" "i < sv_upper_bound lt x xs" by (auto simp: find_Some_iff)
  moreover have "sv_upper_bound lt x xs \<le> length xs" by (simp add: sv_upper_bound_def length_takeWhile_le)
  ultimately show ?thesis using i by (simp add: findInNonUniqueCollection_def sv_equal_range_def)
qed

theorem erase_collection:
  assumes "sv_sorted lt xs" "x \<in> set xs"
  shows "sv_sorted lt (eraseFromNonUniqueCollection lt x xs)"
    and "mset (eraseFromNonUniqueCollection lt x xs) = mset xs - {#x#}"
proof -
  obtain i where i: "findInNonUniqueCollection lt x xs = Some i" "i < length xs" "xs ! i = x"
    using find_found [OF assms] by blast
  then show "sv_sorted lt (eraseFromNonUniqueCollection lt x xs)"
    using erase_sorted [OF assms(1)] by (simp add: eraseFromNonUniqueCollection_def)
  have "mset xs = mset (take i xs @ x # drop (Suc i) xs)" using id_take_nth_drop [OF i(2), unfolded i(3)] by (rule arg_cong)
  then have "mset xs = add_mset x (mset (take i xs @ drop (Suc i) xs))" by simp
  then show "mset (eraseFromNonUniqueCollection lt x xs) = mset xs - {#x#}"
    using i(1) by (simp add: eraseFromNonUniqueCollection_def sv_erase_def)
qed

end

subsection \<open>The comparisons of the forum\<close>

text \<open>Every comparison is one of a key, from the smallest or from the largest.\<close>

definition less_by :: "('a \<Rightarrow> 'k::linorder) \<Rightarrow> 'a \<Rightarrow> 'a \<Rightarrow> bool" where
  "less_by key x y \<longleftrightarrow> key x < key y"

definition greater_by :: "('a \<Rightarrow> 'k::linorder) \<Rightarrow> 'a \<Rightarrow> 'a \<Rightarrow> bool" where
  "greater_by key x y \<longleftrightarrow> key x > key y"

interpretation by_less: key_order "less_by key" for key :: "'a \<Rightarrow> 'k::linorder"
  by unfold_locales (auto simp: less_by_def)

interpretation by_greater: key_order "greater_by key" for key :: "'a \<Rightarrow> 'k::linorder"
  by unfold_locales (auto simp: greater_by_def)

end
