(* ===== verification/ThreadCollections.thy ===== *)
theory ThreadCollections
  imports Entities SortedVector "HOL-Library.AList"
begin

section \<open>Collections of threads\<close>

text \<open>
  Models \<^verbatim>\<open>src/src/LibForumData/EntityDiscussionThreadCollection.h\<close> and its \<^verbatim>\<open>.cpp\<close> file, outside of a batch insert:
  the collection of a tag or a category, with the index by id and the one by creation, and the collection with
  reference counts that a category keeps of its own threads and those of the categories below it. Threads are
  compared by their ids, as the hash index does; the new index entry of a hash index is put at the end.
\<close>

text \<open>The part of the heap that threads, tags and categories refer to each other in.\<close>

record links =
  lk_thread :: "ptr \<Rightarrow> thread"
  lk_tag :: "ptr \<Rightarrow> tag"
  lk_category :: "ptr \<Rightarrow> category"

definition links_of :: "heap \<Rightarrow> links" where
  "links_of h = \<lparr>lk_thread = h_thread h, lk_tag = h_tag h, lk_category = h_category h\<rparr>"

definition put_links :: "links \<Rightarrow> heap \<Rightarrow> heap" where
  "put_links l h = h\<lparr>h_thread := lk_thread l, h_tag := lk_tag l, h_category := lk_category l\<rparr>"

definition created_before :: "links \<Rightarrow> ptr \<Rightarrow> ptr \<Rightarrow> bool" where
  "created_before h = less_by (\<lambda>t. thr_created (lk_thread h t))"

definition thread_messageCount :: "links \<Rightarrow> ptr \<Rightarrow> int" where
  "thread_messageCount h t = int (length (thr_messages (lk_thread h t)))"

text \<open>A unique hash index by id.\<close>

definition find_by_id :: "links \<Rightarrow> id_type \<Rightarrow> ptr list \<Rightarrow> ptr option" where
  "find_by_id h i byId = find (\<lambda>t. thr_id (lk_thread h t) = i) byId"

definition hash_insert :: "links \<Rightarrow> ptr \<Rightarrow> ptr list \<Rightarrow> ptr list" where
  "hash_insert h t byId = (if find_by_id h (thr_id (lk_thread h t)) byId \<noteq> None then byId else byId @ [t])"

definition hash_erase :: "links \<Rightarrow> ptr \<Rightarrow> ptr list \<Rightarrow> ptr list" where
  "hash_erase h t byId =
     (case find_by_id h (thr_id (lk_thread h t)) byId of None \<Rightarrow> byId | Some q \<Rightarrow> remove1 q byId)"

subsection \<open>Threads by id and by creation\<close>

definition tc_contains :: "links \<Rightarrow> ptr \<Rightarrow> thread_collection \<Rightarrow> bool" where
  "tc_contains h t tc \<longleftrightarrow> find_by_id h (thr_id (lk_thread h t)) (tc_byId tc) \<noteq> None"

definition tc_add :: "links \<Rightarrow> ptr \<Rightarrow> thread_collection \<Rightarrow> bool \<times> thread_collection" where
  "tc_add h t tc =
     (if tc_contains h t tc then (False, tc)
      else (True, \<lparr>tc_byId = hash_insert h t (tc_byId tc), tc_byCreated = sv_insert (created_before h) t (tc_byCreated tc)\<rparr>))"

definition tc_add_range :: "links \<Rightarrow> ptr list \<Rightarrow> thread_collection \<Rightarrow> bool \<times> thread_collection" where
  "tc_add_range h ts tc =
     (if length ts < 1 then (False, tc)
      else let tc1 = \<lparr>tc_byId = fold (hash_insert h) ts (tc_byId tc),
                      tc_byCreated = sv_insert_range (created_before h) ts (tc_byCreated tc)\<rparr>
           in (length (tc_byId tc1) \<noteq> length (tc_byId tc), tc1))"

definition tc_remove :: "links \<Rightarrow> ptr \<Rightarrow> thread_collection \<Rightarrow> bool \<times> thread_collection" where
  "tc_remove h t tc =
     (if \<not> tc_contains h t tc then (False, tc)
      else (True, \<lparr>tc_byId = hash_erase h t (tc_byId tc),
                   tc_byCreated = eraseFromNonUniqueCollection (created_before h) t (tc_byCreated tc)\<rparr>))"

definition tc_iterateThreads :: "thread_collection \<Rightarrow> ptr list" where
  "tc_iterateThreads tc = tc_byCreated tc"

definition tc_count :: "thread_collection \<Rightarrow> nat" where
  "tc_count tc = length (tc_byId tc)"

subsection \<open>Threads with reference counts\<close>

definition tt_remove :: "links \<Rightarrow> ptr \<Rightarrow> total_collection \<Rightarrow> total_collection" where
  "tt_remove h t tt =
     (if find_by_id h (thr_id (lk_thread h t)) (tt_byId tt) = None then tt
      else \<lparr>tt_byId = hash_erase h t (tt_byId tt), tt_messageCount = tt_messageCount tt - thread_messageCount h t,
            tt_referenceCount = AList.delete t (tt_referenceCount tt)\<rparr>)"

definition tt_add_amount :: "links \<Rightarrow> ptr \<Rightarrow> int \<Rightarrow> total_collection \<Rightarrow> total_collection" where
  "tt_add_amount h t amount tt =
     (case map_of (tt_referenceCount tt) t of
        None \<Rightarrow>
          if find_by_id h (thr_id (lk_thread h t)) (tt_byId tt) \<noteq> None then tt
          else \<lparr>tt_byId = hash_insert h t (tt_byId tt), tt_messageCount = tt_messageCount tt + thread_messageCount h t,
                tt_referenceCount = AList.update t amount (tt_referenceCount tt)\<rparr>
      | Some n \<Rightarrow> tt\<lparr>tt_referenceCount := AList.update t (n + amount) (tt_referenceCount tt)\<rparr>)"

definition tt_add :: "links \<Rightarrow> ptr \<Rightarrow> total_collection \<Rightarrow> total_collection" where
  "tt_add h t tt = tt_add_amount h t 1 tt"

definition tt_add_all :: "links \<Rightarrow> total_collection \<Rightarrow> total_collection \<Rightarrow> total_collection" where
  "tt_add_all h collection tt = fold (\<lambda>(t, n). tt_add_amount h t n) (tt_referenceCount collection) tt"

definition tt_decreaseReferenceCount :: "links \<Rightarrow> ptr \<Rightarrow> total_collection \<Rightarrow> total_collection" where
  "tt_decreaseReferenceCount h t tt =
     (case map_of (tt_referenceCount tt) t of
        None \<Rightarrow> tt
      | Some n \<Rightarrow>
          if n - 1 < 1 then tt_remove h t (tt\<lparr>tt_referenceCount := AList.delete t (tt_referenceCount tt)\<rparr>)
          else tt\<lparr>tt_referenceCount := AList.update t (n - 1) (tt_referenceCount tt)\<rparr>)"

text \<open>The first loop decreases and collects, the second erases; neither touches the index nor the count of messages.\<close>

definition tt_decrease_step :: "ptr \<times> int \<Rightarrow> (ptr \<times> int) list \<times> ptr list \<Rightarrow> (ptr \<times> int) list \<times> ptr list" where
  "tt_decrease_step pair acc =
     (let (t, amount) = pair; (referenceCount, toRemove) = acc
      in case map_of referenceCount t of
           None \<Rightarrow> acc
         | Some n \<Rightarrow> (AList.update t (n - amount) referenceCount, if n - amount < 1 then toRemove @ [t] else toRemove))"

definition tt_decrease_all :: "total_collection \<Rightarrow> total_collection \<Rightarrow> total_collection" where
  "tt_decrease_all collection tt =
     (let (referenceCount, toRemove) = fold tt_decrease_step (tt_referenceCount collection) (tt_referenceCount tt, [])
      in tt\<lparr>tt_referenceCount := fold AList.delete toRemove referenceCount\<rparr>)"

subsection \<open>What the indices hold\<close>

definition ids_differ :: "links \<Rightarrow> ptr set \<Rightarrow> bool" where
  "ids_differ h T \<longleftrightarrow> inj_on (\<lambda>t. thr_id (lk_thread h t)) T"

text \<open>\<open>T\<close> are the threads of the forum. Where their ids differ, finding by id is membership.\<close>

lemma find_by_id_mem:
  assumes "ids_differ h T" "t \<in> T" "set xs \<subseteq> T"
  shows "find_by_id h (thr_id (lk_thread h t)) xs = (if t \<in> set xs then Some t else None)"
proof -
  have "thr_id (lk_thread h q) = thr_id (lk_thread h t) \<longleftrightarrow> q = t" if "q \<in> set xs" for q
    using assms that by (auto simp: ids_differ_def dest: inj_onD)
  then have "find_by_id h (thr_id (lk_thread h t)) xs = find (\<lambda>q. q = t) xs"
    unfolding find_by_id_def by (intro find_cong) auto
  also have "\<dots> = (if t \<in> set xs then Some t else None)"
    by (induction xs) auto
  finally show ?thesis .
qed

lemma hash_insert_mem:
  "ids_differ h T \<Longrightarrow> t \<in> T \<Longrightarrow> set xs \<subseteq> T \<Longrightarrow> hash_insert h t xs = (if t \<in> set xs then xs else xs @ [t])"
  by (simp add: hash_insert_def find_by_id_mem)

lemma hash_erase_mem: "ids_differ h T \<Longrightarrow> t \<in> T \<Longrightarrow> set xs \<subseteq> T \<Longrightarrow> hash_erase h t xs = remove1 t xs"
  by (simp add: hash_erase_def find_by_id_mem remove1_idem)

lemma fold_hash_insert:
  "ids_differ h T \<Longrightarrow> set (xs @ ts) \<subseteq> T \<Longrightarrow> distinct (xs @ ts) \<Longrightarrow> fold (hash_insert h) ts xs = xs @ ts"
  by (induction ts arbitrary: xs) (simp_all add: hash_insert_mem)

definition tc_ok :: "links \<Rightarrow> ptr set \<Rightarrow> thread_collection \<Rightarrow> bool" where
  "tc_ok h T tc \<longleftrightarrow> set (tc_byId tc) \<subseteq> T \<and> distinct (tc_byId tc) \<and> mset (tc_byCreated tc) = mset (tc_byId tc)
     \<and> sv_sorted (created_before h) (tc_byCreated tc)"

abbreviation tc_set :: "thread_collection \<Rightarrow> ptr set" where
  "tc_set tc \<equiv> set (tc_byId tc)"

lemma tc_ok_no_threads [simp]: "tc_ok h T no_threads"
  by (simp add: tc_ok_def no_threads_def sv_sorted_def)

lemma tc_ok_iterate:
  assumes "tc_ok h T tc"
  shows "set (tc_iterateThreads tc) = tc_set tc" "distinct (tc_iterateThreads tc)"
  using assms unfolding tc_ok_def tc_iterateThreads_def by (metis set_mset_mset, metis mset_eq_imp_distinct_iff)

lemma tc_contains_iff: "ids_differ h T \<Longrightarrow> tc_ok h T tc \<Longrightarrow> t \<in> T \<Longrightarrow> tc_contains h t tc \<longleftrightarrow> t \<in> tc_set tc"
  by (auto simp: tc_contains_def tc_ok_def find_by_id_mem)

lemma tc_add_range_ok:
  assumes "ids_differ h T" "tc_ok h T tc" "set ts \<subseteq> T" "distinct ts" "set ts \<inter> tc_set tc = {}" "ts \<noteq> []"
  shows "\<exists>tc'. tc_add_range h ts tc = (True, tc') \<and> tc_ok h T tc' \<and> tc_byId tc' = tc_byId tc @ ts"
proof -
  have "fold (hash_insert h) ts (tc_byId tc) = tc_byId tc @ ts"
    by (rule fold_hash_insert [OF assms(1)]) (use assms in \<open>auto simp: tc_ok_def\<close>)
  then show ?thesis
    using assms by (auto simp: tc_add_range_def tc_ok_def Let_def created_before_def by_less.range_sorted)
qed

lemma tc_remove_ok:
  assumes "ids_differ h T" "tc_ok h T tc" "t \<in> tc_set tc"
  shows "\<exists>tc'. tc_remove h t tc = (True, tc') \<and> tc_ok h T tc' \<and> tc_byId tc' = remove1 t (tc_byId tc)"
proof -
  have T: "t \<in> T" "tc_set tc \<subseteq> T" "sv_sorted (created_before h) (tc_byCreated tc)" "t \<in> set (tc_byCreated tc)"
    using assms tc_ok_iterate(1) [OF assms(2)] by (auto simp: tc_ok_def tc_iterateThreads_def)
  note erase = by_less.erase_collection [OF T(3,4) [unfolded created_before_def], folded created_before_def]
  have "tc_contains h t tc" using tc_contains_iff [OF assms(1,2) T(1)] assms(3) by simp
  moreover have "set (remove1 t (tc_byId tc)) \<subseteq> T" using set_remove1_subset T(2) by fastforce
  ultimately show ?thesis
    using assms erase by (simp add: tc_remove_def hash_erase_mem [OF assms(1) T(1,2)] tc_ok_def)
qed

lemma tc_remove_absent: "ids_differ h T \<Longrightarrow> tc_ok h T tc \<Longrightarrow> t \<in> T \<Longrightarrow> t \<notin> tc_set tc \<Longrightarrow> tc_remove h t tc = (False, tc)"
  by (simp add: tc_remove_def tc_contains_iff)

end
