(* ===== verification/CategoryEntities.thy ===== *)
theory CategoryEntities
  imports ThreadCollections GrantedLemmas
begin

section \<open>Categories, tags and their threads\<close>

text \<open>
  Models \<^verbatim>\<open>src/src/LibForumData/EntityDiscussionCategory.h\<close>, \<^verbatim>\<open>EntityDiscussionTag.h\<close>, the parts of
  \<^verbatim>\<open>EntityDiscussionThread.h\<close> on tags and categories, and their \<^verbatim>\<open>.cpp\<close> files. An operation is a function on the
  part of the heap that these entities refer to each other in; the pointer of the object comes first. \<open>now\<close> is
  the current time of the context. The notifications keep the indices for listings, which are left out. The loops over
  parents are partial functions: \<open>None\<close> is a loop that does not end.
\<close>

definition upd_thread :: "ptr \<Rightarrow> (thread \<Rightarrow> thread) \<Rightarrow> links \<Rightarrow> links" where
  "upd_thread p f l = l\<lparr>lk_thread := (lk_thread l)(p := f (lk_thread l p))\<rparr>"

definition upd_tag :: "ptr \<Rightarrow> (tag \<Rightarrow> tag) \<Rightarrow> links \<Rightarrow> links" where
  "upd_tag p f l = l\<lparr>lk_tag := (lk_tag l)(p := f (lk_tag l p))\<rparr>"

definition upd_category :: "ptr \<Rightarrow> (category \<Rightarrow> category) \<Rightarrow> links \<Rightarrow> links" where
  "upd_category p f l = l\<lparr>lk_category := (lk_category l)(p := f (lk_category l p))\<rparr>"

lemma upd_simps [simp]:
  "lk_thread (upd_thread p f l) = (lk_thread l)(p := f (lk_thread l p))" "lk_tag (upd_thread p f l) = lk_tag l"
  "lk_category (upd_thread p f l) = lk_category l" "lk_tag (upd_tag p g l) = (lk_tag l)(p := g (lk_tag l p))"
  "lk_thread (upd_tag p g l) = lk_thread l" "lk_category (upd_tag p g l) = lk_category l"
  "lk_category (upd_category p k l) = (lk_category l)(p := k (lk_category l p))"
  "lk_thread (upd_category p k l) = lk_thread l" "lk_tag (upd_category p k l) = lk_tag l"
  by (simp_all add: upd_thread_def upd_tag_def upd_category_def)

text \<open>A loop over the elements of a collection whose body may not return.\<close>

fun loop_over :: "('a \<Rightarrow> 's \<Rightarrow> 's option) \<Rightarrow> 'a list \<Rightarrow> 's \<Rightarrow> 's option" where
  "loop_over f [] s = Some s"
| "loop_over f (x # xs) s = Option.bind (f x s) (loop_over f xs)"

subsection \<open>Threads\<close>

definition link_addTag :: "timestamp \<Rightarrow> ptr \<Rightarrow> ptr \<Rightarrow> links \<Rightarrow> bool \<times> links" where
  "link_addTag now t tag l =
     (let (added, th) = thread_addTag now tag (lk_thread l t) in (added, upd_thread t (\<lambda>_. th) l))"

definition link_removeTag :: "timestamp \<Rightarrow> ptr \<Rightarrow> ptr \<Rightarrow> links \<Rightarrow> bool \<times> links" where
  "link_removeTag now t tag l =
     (let (removed, th) = thread_removeTag now tag (lk_thread l t) in (removed, upd_thread t (\<lambda>_. th) l))"

definition link_addCategory :: "timestamp \<Rightarrow> ptr \<Rightarrow> ptr \<Rightarrow> links \<Rightarrow> links" where
  "link_addCategory now t c l = upd_thread t (\<lambda>th. snd (thread_addCategory now c th)) l"

definition link_removeCategory :: "timestamp \<Rightarrow> ptr \<Rightarrow> ptr \<Rightarrow> links \<Rightarrow> links" where
  "link_removeCategory now t c l = upd_thread t (\<lambda>th. snd (thread_removeCategory now c th)) l"

subsection \<open>The chain of parents\<close>

partial_function (option) executeOnAllCategoryParents :: "(ptr \<Rightarrow> links \<Rightarrow> links) \<Rightarrow> ptr option \<Rightarrow> links \<Rightarrow> links option" where
  "executeOnAllCategoryParents fn parent l =
     (case parent of
        None \<Rightarrow> Some l
      | Some p \<Rightarrow> (let l1 = fn p l in executeOnAllCategoryParents fn (cat_parent (lk_category l1 p)) l1))"

definition executeOnCategoryAndAllParents :: "(ptr \<Rightarrow> links \<Rightarrow> links) \<Rightarrow> ptr \<Rightarrow> links \<Rightarrow> links option" where
  "executeOnCategoryAndAllParents fn c l =
     (let l1 = fn c l in executeOnAllCategoryParents fn (cat_parent (lk_category l1 c)) l1)"

partial_function (option) parentsInclude :: "(ptr \<Rightarrow> category) \<Rightarrow> ptr \<Rightarrow> ptr option \<Rightarrow> bool option" where
  "parentsInclude cats ancestor currentParent =
     (case currentParent of
        None \<Rightarrow> Some False
      | Some p \<Rightarrow> if p = ancestor then Some True else parentsInclude cats ancestor (cat_parent (cats p)))"

definition hasAncestor :: "links \<Rightarrow> ptr \<Rightarrow> ptr \<Rightarrow> bool option" where
  "hasAncestor l c ancestor = parentsInclude (lk_category l) ancestor (cat_parent (lk_category l c))"

subsection \<open>Children and totals\<close>

definition addChild :: "ptr \<Rightarrow> ptr \<Rightarrow> links \<Rightarrow> links" where
  "addChild p child l = upd_category p (\<lambda>c. c\<lparr>cat_children := flat_insert child (cat_children c)\<rparr>) l"

definition removeChild :: "ptr \<Rightarrow> ptr \<Rightarrow> links \<Rightarrow> links" where
  "removeChild p child l = upd_category p (\<lambda>c. c\<lparr>cat_children := flat_erase child (cat_children c)\<rparr>) l"

definition upd_totals :: "ptr \<Rightarrow> (total_collection \<Rightarrow> total_collection) \<Rightarrow> links \<Rightarrow> links" where
  "upd_totals p f l = upd_category p (\<lambda>c. c\<lparr>cat_totalThreads := f (cat_totalThreads c)\<rparr>) l"

definition removeTotalsFromChild :: "ptr \<Rightarrow> ptr \<Rightarrow> links \<Rightarrow> links option" where
  "removeTotalsFromChild p child l =
     executeOnCategoryAndAllParents
       (\<lambda>q l. upd_totals q (tt_decrease_all (cat_totalThreads (lk_category l child))) l) p l"

definition addTotalsFromChild :: "ptr \<Rightarrow> ptr \<Rightarrow> links \<Rightarrow> links option" where
  "addTotalsFromChild p child l =
     executeOnCategoryAndAllParents
       (\<lambda>q l. upd_totals q (tt_add_all l (cat_totalThreads (lk_category l child))) l) p l"

subsection \<open>Threads of a category\<close>

text \<open>What is done for every inserted thread, and that the category and all its parents count it.\<close>

definition count_inserted :: "timestamp \<Rightarrow> ptr \<Rightarrow> ptr list \<Rightarrow> links \<Rightarrow> links option" where
  "count_inserted now c threads l =
     executeOnCategoryAndAllParents (\<lambda>q l. fold (\<lambda>t l. upd_totals q (tt_add l t) l) threads l) c
       (fold (\<lambda>t l. link_addCategory now t c
                (upd_category c (\<lambda>e. e\<lparr>cat_messageCount := cat_messageCount e + thread_messageCount l t\<rparr>) l)) threads l)"

text \<open>
  The array of pointers is compacted in place to the threads that are not in the category yet; its elements behind
  them keep their old values. The array is returned, since the caller goes on with it.
\<close>

definition category_insertDiscussionThreads ::
  "timestamp \<Rightarrow> ptr \<Rightarrow> ptr list \<Rightarrow> links \<Rightarrow> (bool \<times> ptr list \<times> links) option" where
  "category_insertDiscussionThreads now c threads l =
     (let threadsNew = filter (\<lambda>t. \<not> tc_contains l t (cat_threads (lk_category l c))) threads;
          array = threadsNew @ drop (length threadsNew) threads
      in if length threadsNew < 1 then Some (False, array, l)
         else let (added, tc) = tc_add_range l threadsNew (cat_threads (lk_category l c));
                  l1 = upd_category c (\<lambda>e. e\<lparr>cat_threads := tc\<rparr>) l
              in if \<not> added then Some (False, array, l1)
                 else map_option (\<lambda>l2. (True, array, l2)) (count_inserted now c threadsNew l1))"

definition category_insertDiscussionThread :: "timestamp \<Rightarrow> ptr \<Rightarrow> ptr \<Rightarrow> links \<Rightarrow> (bool \<times> links) option" where
  "category_insertDiscussionThread now c t l =
     map_option (\<lambda>(inserted, _, l1). (inserted, l1)) (category_insertDiscussionThreads now c [t] l)"

definition category_insertDiscussionThreadsOfTag :: "timestamp \<Rightarrow> ptr \<Rightarrow> ptr \<Rightarrow> links \<Rightarrow> (bool \<times> links) option" where
  "category_insertDiscussionThreadsOfTag now c tag l =
     (let threadsToInsert = filter (\<lambda>t. \<not> tc_contains l t (cat_threads (lk_category l c)))
                              (tc_iterateThreads (tag_threads (lk_tag l tag)))
      in if threadsToInsert = [] then Some (False, l)
         else let (added, tc) = tc_add_range l threadsToInsert (cat_threads (lk_category l c));
                  l1 = upd_category c (\<lambda>e. e\<lparr>cat_threads := tc\<rparr>) l
              in if \<not> added then Some (False, l1)
                 else map_option (\<lambda>l2. (True, l2)) (count_inserted now c threadsToInsert l1))"

definition category_deleteDiscussionThread ::
  "timestamp \<Rightarrow> ptr \<Rightarrow> ptr \<Rightarrow> bool \<Rightarrow> bool \<Rightarrow> links \<Rightarrow> (bool \<times> links) option" where
  "category_deleteDiscussionThread now c t deleteMessages onlyThisCategory l =
     (let (removed, tc) = tc_remove l t (cat_threads (lk_category l c))
      in if \<not> removed then Some (False, l)
         else let l1 = upd_category c (\<lambda>e. e\<lparr>cat_threads := tc\<rparr>) l;
                  l2 = (if deleteMessages
                        then upd_category c (\<lambda>e. e\<lparr>cat_messageCount := cat_messageCount e - thread_messageCount l t\<rparr>) l1 else l1);
                  l3 = (if \<not> thr_aboutToBeDeleted (lk_thread l2 t) then link_removeCategory now t c l2 else l2)
              in map_option (\<lambda>l4. (True, l4))
                   (if \<not> onlyThisCategory
                    then executeOnCategoryAndAllParents (\<lambda>q l. upd_totals q (tt_remove l t) l) c l3 else Some l3))"

definition containsTag :: "links \<Rightarrow> ptr \<Rightarrow> ptr \<Rightarrow> bool" where
  "containsTag l c tag \<longleftrightarrow> tag \<in> set (cat_tags (lk_category l c))"

definition category_deleteDiscussionThreadIfNoOtherTagsReferenceIt ::
  "timestamp \<Rightarrow> ptr \<Rightarrow> ptr \<Rightarrow> bool \<Rightarrow> links \<Rightarrow> links option" where
  "category_deleteDiscussionThreadIfNoOtherTagsReferenceIt now c t deleteMessages l =
     (if list_ex (containsTag l c) (thr_tags (lk_thread l t)) then Some l
      else Option.bind (category_deleteDiscussionThread now c t deleteMessages True l)
             (\<lambda>(_, l1). executeOnCategoryAndAllParents (\<lambda>q l. upd_totals q (tt_decreaseReferenceCount l t) l) c l1))"

definition category_addTag :: "timestamp \<Rightarrow> ptr \<Rightarrow> ptr \<Rightarrow> links \<Rightarrow> (bool \<times> links) option" where
  "category_addTag now c tag l =
     (if containsTag l c tag then Some (False, l)
      else map_option (\<lambda>(_, l1). (True, l1))
             (category_insertDiscussionThreadsOfTag now c tag
                (upd_category c (\<lambda>e. e\<lparr>cat_tags := flat_insert tag (cat_tags e)\<rparr>) l)))"

definition category_removeTag :: "timestamp \<Rightarrow> ptr \<Rightarrow> ptr \<Rightarrow> links \<Rightarrow> (bool \<times> links) option" where
  "category_removeTag now c tag l =
     (if \<not> containsTag l c tag then Some (False, l)
      else let l1 = upd_category c (\<lambda>e. e\<lparr>cat_tags := flat_erase tag (cat_tags e)\<rparr>) l
           in map_option (\<lambda>l2. (True, l2))
                (loop_over (\<lambda>t. category_deleteDiscussionThreadIfNoOtherTagsReferenceIt now c t True)
                   (tc_iterateThreads (tag_threads (lk_tag l1 tag))) l1))"

text \<open>A change of the number of messages of a thread. The flag stops the counting at a parent that has the thread itself.\<close>

partial_function (option) updateMessageCount_parents :: "ptr \<Rightarrow> int \<Rightarrow> bool \<Rightarrow> ptr option \<Rightarrow> links \<Rightarrow> links option" where
  "updateMessageCount_parents t delta stop parent l =
     (case parent of
        None \<Rightarrow> Some l
      | Some p \<Rightarrow>
          (if stop \<or> tc_contains l t (cat_threads (lk_category l p))
           then updateMessageCount_parents t delta True (cat_parent (lk_category l p)) l
           else let l1 = upd_totals p (\<lambda>tt. tt\<lparr>tt_messageCount := tt_messageCount tt + delta\<rparr>) l
                in updateMessageCount_parents t delta False (cat_parent (lk_category l1 p)) l1))"

definition category_updateMessageCount :: "ptr \<Rightarrow> ptr \<Rightarrow> int \<Rightarrow> links \<Rightarrow> links option" where
  "category_updateMessageCount c t delta l =
     (let l1 = upd_category c (\<lambda>e. e\<lparr>cat_messageCount := cat_messageCount e + delta\<rparr>) l;
          l2 = upd_totals c (\<lambda>tt. tt\<lparr>tt_messageCount := tt_messageCount tt + delta\<rparr>) l1
      in updateMessageCount_parents t delta False (cat_parent (lk_category l2 c)) l2)"

subsection \<open>Threads of a tag\<close>

text \<open>One array is passed to every category of the tag.\<close>

definition tag_insertDiscussionThreads :: "timestamp \<Rightarrow> ptr \<Rightarrow> ptr list \<Rightarrow> links \<Rightarrow> (bool \<times> links) option" where
  "tag_insertDiscussionThreads now tag threads l =
     (let threadsNew = filter (\<lambda>t. \<not> tc_contains l t (tag_threads (lk_tag l tag))) threads
      in if length threadsNew < 1 then Some (False, l)
         else let (added, tc) = tc_add_range l threadsNew (tag_threads (lk_tag l tag));
                  l1 = upd_tag tag (\<lambda>e. e\<lparr>tag_threads := tc\<rparr>) l
              in if \<not> added then Some (False, l1)
                 else let l2 = fold (\<lambda>t l. upd_tag tag (\<lambda>e. e\<lparr>tag_messageCount := tag_messageCount e + thread_messageCount l t\<rparr>) l)
                                 threadsNew l1
                      in map_option (\<lambda>(_, l3). (True, l3))
                           (loop_over (\<lambda>c (array, l). map_option snd (category_insertDiscussionThreads now c array l))
                              (tag_categories (lk_tag l2 tag)) (threadsNew, l2)))"

definition tag_insertDiscussionThread :: "timestamp \<Rightarrow> ptr \<Rightarrow> ptr \<Rightarrow> links \<Rightarrow> (bool \<times> links) option" where
  "tag_insertDiscussionThread now tag t = tag_insertDiscussionThreads now tag [t]"

definition tag_deleteDiscussionThread :: "timestamp \<Rightarrow> ptr \<Rightarrow> ptr \<Rightarrow> bool \<Rightarrow> links \<Rightarrow> (bool \<times> links) option" where
  "tag_deleteDiscussionThread now tag t deleteMessages l =
     (let (removed, tc) = tc_remove l t (tag_threads (lk_tag l tag))
      in if \<not> removed then Some (False, l)
         else let l1 = upd_tag tag (\<lambda>e. e\<lparr>tag_threads := tc\<rparr>) l;
                  l2 = (if deleteMessages
                        then upd_tag tag (\<lambda>e. e\<lparr>tag_messageCount := tag_messageCount e - thread_messageCount l t\<rparr>) l1 else l1)
              in map_option (\<lambda>l3. (True, l3))
                   (loop_over (\<lambda>c. category_deleteDiscussionThreadIfNoOtherTagsReferenceIt now c t deleteMessages)
                      (tag_categories (lk_tag l2 tag)) l2))"

definition tag_linkCategory :: "ptr \<Rightarrow> ptr \<Rightarrow> links \<Rightarrow> bool \<times> links" where
  "tag_linkCategory tag c l = (let (added, g) = tag_addCategory c (lk_tag l tag) in (added, upd_tag tag (\<lambda>_. g) l))"

definition tag_unlinkCategory :: "ptr \<Rightarrow> ptr \<Rightarrow> links \<Rightarrow> bool \<times> links" where
  "tag_unlinkCategory tag c l = (let (removed, g) = tag_removeCategory c (lk_tag l tag) in (removed, upd_tag tag (\<lambda>_. g) l))"

definition tag_updateMessageCount :: "ptr \<Rightarrow> int \<Rightarrow> links \<Rightarrow> links" where
  "tag_updateMessageCount tag delta l =
     (if 0 = delta then l else upd_tag tag (\<lambda>e. e\<lparr>tag_messageCount := tag_messageCount e + delta\<rparr>) l)"

end
