(* ===== verification/CategoryRepository.thy ===== *)
theory CategoryRepository
  imports CategoryEntities RepositoryCommon
begin

section \<open>The repositories of categories and tags\<close>

text \<open>
  Models the operations that change categories and tags in
  \<^verbatim>\<open>src/src/LibForumData/private/MemoryRepositoryDiscussionCategory.cpp\<close> and
  \<^verbatim>\<open>src/src/LibForumData/private/MemoryRepositoryDiscussionTag.cpp\<close>, with the collections by id and by name of
  \<^verbatim>\<open>EntityDiscussionCategoryCollection.cpp\<close>, \<^verbatim>\<open>EntityDiscussionTagCollection.cpp\<close> and the functions of
  \<^verbatim>\<open>EntityCollection.cpp\<close> that insert and delete them. As in the repository of privileges, \<open>repo_\<close> is the
  operation a request calls and \<open>direct_\<close> the one the importer calls too. A new entity lives at the next address of its
  pool; \<open>newId\<close> is the random id. The replies to the requests that add are left out.
\<close>

record naming =
  nm_sortKey :: "string \<Rightarrow> string"
  nm_whitespace :: "string \<Rightarrow> (bool \<times> bool) option"
  nm_categoryMinNameLength :: int
  nm_categoryMaxNameLength :: int
  nm_categoryMaxDescriptionLength :: int
  nm_tagMinNameLength :: int
  nm_tagMaxNameLength :: int
  nm_tagMaxUiBlobSize :: int

definition JsonReadyStringWithSortKey :: "naming \<Rightarrow> string \<Rightarrow> json_ready_string" where
  "JsonReadyStringWithSortKey nm source = JsonReadyStringBase (nm_sortKey nm source) source"

text \<open>The bytes of a text, as an event carries them.\<close>

definition text_bytes :: "string \<Rightarrow> bytes" where
  "text_bytes s = map (\<lambda>c. of_nat (of_char c)) s"

definition bytes_text :: "bytes \<Rightarrow> string" where
  "bytes_text bs = map (\<lambda>b. char_of (unat b)) bs"

subsection \<open>Access to the linked entities\<close>

definition fo_links :: "forum \<Rightarrow> links" where
  "fo_links fo = links_of (fo_heap fo)"

definition set_links :: "links \<Rightarrow> forum \<Rightarrow> forum" where
  "set_links l fo = fo\<lparr>fo_heap := put_links l (fo_heap fo)\<rparr>"

definition fo_category :: "forum \<Rightarrow> ptr \<Rightarrow> category" where
  "fo_category fo c = h_category (fo_heap fo) c"

definition fo_tag :: "forum \<Rightarrow> ptr \<Rightarrow> tag" where
  "fo_tag fo g = h_tag (fo_heap fo) g"

definition updateLastUpdated :: "repository_context \<Rightarrow> ptr \<Rightarrow> update_info" where
  "updateLastUpdated cx by = \<lparr>up_at = rx_time cx, up_ip = rx_ip cx, up_by = Some by\<rparr>"

definition category_updateLastUpdated :: "repository_context \<Rightarrow> ptr \<Rightarrow> ptr \<Rightarrow> links \<Rightarrow> links" where
  "category_updateLastUpdated cx by c = upd_category c (cat_lastUpdated_update (\<lambda>_. updateLastUpdated cx by))"

definition tag_updateLastUpdated :: "repository_context \<Rightarrow> ptr \<Rightarrow> ptr \<Rightarrow> links \<Rightarrow> links" where
  "tag_updateLastUpdated cx by g = upd_tag g (tag_lastUpdated_update (\<lambda>_. updateLastUpdated cx by))"

definition updateThreadLastUpdated :: "repository_context \<Rightarrow> ptr \<Rightarrow> ptr \<Rightarrow> links \<Rightarrow> links" where
  "updateThreadLastUpdated cx by t =
     upd_thread t (\<lambda>th. th\<lparr>thr_latestVisibleChange := rx_time cx, thr_lastUpdated := updateLastUpdated cx by\<rparr>)"

subsection \<open>The collections of categories and tags\<close>

text \<open>
  A unique index by name: an entity whose name is taken is not inserted; \<open>name_replace\<close> is the replacement at the
  position found before the name changed, which boost refuses when the new key is taken.
\<close>

definition name_insert :: "string \<Rightarrow> ptr \<Rightarrow> (string \<Rightarrow> ptr option) \<Rightarrow> string \<Rightarrow> ptr option" where
  "name_insert key p byName = (if byName key \<noteq> None then byName else byName(key \<mapsto> p))"

definition name_replace :: "string \<Rightarrow> string \<Rightarrow> ptr \<Rightarrow> (string \<Rightarrow> ptr option) \<Rightarrow> string \<Rightarrow> ptr option" where
  "name_replace oldKey newKey p byName =
     (if byName oldKey = None then byName
      else if newKey \<noteq> oldKey \<and> byName newKey \<noteq> None then byName
      else (byName(oldKey := None))(newKey \<mapsto> p))"

definition insertDiscussionCategory :: "ptr \<Rightarrow> forum \<Rightarrow> forum" where
  "insertDiscussionCategory c fo =
     (let e = fo_category fo c
      in if fo_categoriesById fo (cat_id e) \<noteq> None then fo
         else fo\<lparr>fo_categoriesById := (fo_categoriesById fo)(cat_id e \<mapsto> c),
                 fo_categoriesByName := name_insert (sortKey (cat_name e)) c (fo_categoriesByName fo)\<rparr>)"

definition insertDiscussionTag :: "ptr \<Rightarrow> forum \<Rightarrow> forum" where
  "insertDiscussionTag g fo =
     (let e = fo_tag fo g
      in if fo_tagsById fo (tag_id e) \<noteq> None then fo
         else fo\<lparr>fo_tagsById := (fo_tagsById fo)(tag_id e \<mapsto> g),
                 fo_tagsByName := name_insert (sortKey (tag_name e)) g (fo_tagsByName fo)\<rparr>)"

definition category_updateName :: "json_ready_string \<Rightarrow> ptr \<Rightarrow> forum \<Rightarrow> forum" where
  "category_updateName name c fo =
     (let oldKey = sortKey (cat_name (fo_category fo c))
      in (set_links (upd_category c (cat_name_update (\<lambda>_. name)) (fo_links fo)) fo)
           \<lparr>fo_categoriesByName := name_replace oldKey (sortKey name) c (fo_categoriesByName fo)\<rparr>)"

definition tag_updateName :: "json_ready_string \<Rightarrow> ptr \<Rightarrow> forum \<Rightarrow> forum" where
  "tag_updateName name g fo =
     (let oldKey = sortKey (tag_name (fo_tag fo g))
      in (set_links (upd_tag g (tag_name_update (\<lambda>_. name)) (fo_links fo)) fo)
           \<lparr>fo_tagsByName := name_replace oldKey (sortKey name) g (fo_tagsByName fo)\<rparr>)"

text \<open>What \<open>EntityCollection\<close> does before a category or a tag is released.\<close>

definition unlink_category :: "timestamp \<Rightarrow> ptr \<Rightarrow> links \<Rightarrow> links option" where
  "unlink_category now c l =
     (let l1 = fold (\<lambda>g l. snd (tag_unlinkCategory g c l)) (cat_tags (lk_category l c)) l;
          l2 = fold (\<lambda>t l. link_removeCategory now t c l) (tc_iterateThreads (cat_threads (lk_category l1 c))) l1
      in case cat_parent (lk_category l2 c) of
           None \<Rightarrow> Some l2
         | Some p \<Rightarrow> map_option (removeChild p c) (removeTotalsFromChild p c l2))"

definition collection_deleteDiscussionCategory :: "timestamp \<Rightarrow> ptr \<Rightarrow> forum \<Rightarrow> forum option" where
  "collection_deleteDiscussionCategory now c fo =
     (let e = fo_category fo c
      in if fo_categoriesById fo (cat_id e) = None then Some fo
         else let fo1 = fo\<lparr>fo_categoriesById := (fo_categoriesById fo)(cat_id e := None),
                           fo_categoriesByName := (fo_categoriesByName fo)(sortKey (cat_name e) := None)\<rparr>
              in map_option (\<lambda>l. set_links l fo1) (unlink_category now c (fo_links fo1)))"

definition unlink_tag :: "timestamp \<Rightarrow> ptr \<Rightarrow> links \<Rightarrow> links option" where
  "unlink_tag now g l =
     map_option (\<lambda>l1. fold (\<lambda>t l. snd (link_removeTag now t g l)) (tc_iterateThreads (tag_threads (lk_tag l1 g))) l1)
       (loop_over (\<lambda>c l. map_option snd (category_removeTag now c g l)) (tag_categories (lk_tag l g)) l)"

definition collection_deleteDiscussionTag :: "timestamp \<Rightarrow> ptr \<Rightarrow> forum \<Rightarrow> forum option" where
  "collection_deleteDiscussionTag now g fo =
     (let e = fo_tag fo g
      in if fo_tagsById fo (tag_id e) = None then Some fo
         else let fo1 = fo\<lparr>fo_tagsById := (fo_tagsById fo)(tag_id e := None),
                           fo_tagsByName := (fo_tagsByName fo)(sortKey (tag_name e) := None)\<rparr>
              in map_option (\<lambda>l. set_links l fo1) (unlink_tag now g (fo_links fo1)))"

subsection \<open>Direct writes of categories\<close>

definition new_category :: "id_type \<Rightarrow> json_ready_string \<Rightarrow> timestamp \<Rightarrow> 128 word \<Rightarrow> category" where
  "new_category cid name created ip =
     \<lparr>discussionCategoryPrivileges = \<lambda>_. None, cat_id = cid, cat_parent = None, cat_children = [], cat_tags = [],
      cat_name = name, cat_created = created, cat_createdIp = ip, cat_description = [], cat_displayOrder = 0,
      cat_messageCount = 0, cat_lastUpdated = not_updated, cat_threads = no_threads, cat_totalThreads = no_totals\<rparr>"

definition direct_addNewDiscussionCategory ::
  "naming \<Rightarrow> repository_context \<Rightarrow> id_type \<Rightarrow> string \<Rightarrow> id_type \<Rightarrow> repository_write" where
  "direct_addNewDiscussionCategory nm cx cid name parentId fo =
     (let nameString = JsonReadyStringWithSortKey nm name
      in if fo_categoriesByName fo (sortKey nameString) \<noteq> None then Some (ALREADY_EXISTS, fo)
         else let c = fo_nextCategory fo;
                  l = upd_category c (\<lambda>_. new_category cid nameString (rx_time cx) (rx_ip cx)) (fo_links fo);
                  l1 = (if parentId \<noteq> 0
                        then case fo_categoriesById fo parentId of
                               None \<Rightarrow> l
                             | Some p \<Rightarrow> upd_category c (cat_parent_update (\<lambda>_. Some p)) (addChild p c l)
                        else l)
              in Some (STATUS_OK, insertDiscussionCategory c (set_links l1 (fo\<lparr>fo_nextCategory := Suc c\<rparr>))))"

definition direct_changeDiscussionCategoryName ::
  "naming \<Rightarrow> repository_context \<Rightarrow> id_type \<Rightarrow> string \<Rightarrow> repository_write" where
  "direct_changeDiscussionCategoryName nm cx cid newName fo =
     (case fo_categoriesById fo cid of
        None \<Rightarrow> Some (NOT_FOUND, fo)
      | Some c \<Rightarrow>
          (let name = JsonReadyStringWithSortKey nm newName
           in if fo_categoriesByName fo (sortKey name) \<noteq> None then Some (ALREADY_EXISTS, fo)
              else let (currentUser, fo1) = getCurrentUser cx fo;
                       fo2 = category_updateName name c fo1
                   in Some (STATUS_OK, set_links (category_updateLastUpdated cx currentUser c (fo_links fo2)) fo2)))"

definition direct_changeDiscussionCategoryDescription ::
  "repository_context \<Rightarrow> id_type \<Rightarrow> string \<Rightarrow> repository_write" where
  "direct_changeDiscussionCategoryDescription cx cid newDescription fo =
     (case fo_categoriesById fo cid of
        None \<Rightarrow> Some (NOT_FOUND, fo)
      | Some c \<Rightarrow>
          (let (currentUser, fo1) = getCurrentUser cx fo;
               l = upd_category c (cat_description_update (\<lambda>_. newDescription)) (fo_links fo1)
           in Some (STATUS_OK, set_links (category_updateLastUpdated cx currentUser c l) fo1)))"

definition updateCategoryParent ::
  "repository_context \<Rightarrow> ptr \<Rightarrow> ptr \<Rightarrow> ptr option \<Rightarrow> links \<Rightarrow> links option" where
  "updateCategoryParent cx currentUser c newParent l =
     (let oldParent = cat_parent (lk_category l c);
          l1 = category_updateLastUpdated cx currentUser c (upd_category c (cat_parent_update (\<lambda>_. newParent)) l)
      in Option.bind
           (case oldParent of
              None \<Rightarrow> Some l1
            | Some p \<Rightarrow> map_option (removeChild p c) (removeTotalsFromChild p c l1))
           (\<lambda>l2. case newParent of
              None \<Rightarrow> Some l2
            | Some p \<Rightarrow> map_option (addChild p c) (addTotalsFromChild p c l2)))"

definition direct_changeDiscussionCategoryParent ::
  "repository_context \<Rightarrow> id_type \<Rightarrow> id_type \<Rightarrow> repository_write" where
  "direct_changeDiscussionCategoryParent cx cid newParentId fo =
     (case fo_categoriesById fo cid of
        None \<Rightarrow> Some (NOT_FOUND, fo)
      | Some c \<Rightarrow>
          (let newParent = fo_categoriesById fo newParentId;
               circular = (case newParent of None \<Rightarrow> Some False | Some p \<Rightarrow> hasAncestor (fo_links fo) p c);
               move = (\<lambda>l. let (currentUser, fo1) = getCurrentUser cx fo
                           in map_option (\<lambda>l1. (STATUS_OK, set_links l1 fo1)) (updateCategoryParent cx currentUser c newParent l))
           in case circular of
                None \<Rightarrow> None
              | Some True \<Rightarrow> Some (CIRCULAR_REFERENCE_NOT_ALLOWED, fo)
              | Some False \<Rightarrow>
                  (case cat_parent (fo_category fo c) of
                     None \<Rightarrow> move (fo_links fo)
                   | Some p \<Rightarrow> if cat_id (fo_category fo p) = newParentId then Some (NO_EFFECT, fo)
                               else move (removeChild p c (fo_links fo)))))"

definition category_updateDisplayOrder :: "int \<Rightarrow> ptr \<Rightarrow> links \<Rightarrow> links" where
  "category_updateDisplayOrder v c l =
     (let newValue = max 0 v
      in if cat_displayOrder (lk_category l c) = v then l
         else upd_category c (cat_displayOrder_update (\<lambda>_. newValue)) l)"

definition direct_changeDiscussionCategoryDisplayOrder ::
  "repository_context \<Rightarrow> id_type \<Rightarrow> int \<Rightarrow> repository_write" where
  "direct_changeDiscussionCategoryDisplayOrder cx cid newDisplayOrder fo =
     (case fo_categoriesById fo cid of
        None \<Rightarrow> Some (NOT_FOUND, fo)
      | Some c \<Rightarrow>
          (let (currentUser, fo1) = getCurrentUser cx fo;
               l = category_updateDisplayOrder newDisplayOrder c (fo_links fo1)
           in Some (STATUS_OK, set_links (category_updateLastUpdated cx currentUser c l) fo1)))"

definition direct_deleteDiscussionCategory :: "repository_context \<Rightarrow> id_type \<Rightarrow> repository_write" where
  "direct_deleteDiscussionCategory cx cid fo =
     (case fo_categoriesById fo cid of
        None \<Rightarrow> Some (NOT_FOUND, fo)
      | Some c \<Rightarrow>
          (let (currentUser, fo1) = getCurrentUser cx fo
           in Option.bind (loop_over (\<lambda>child. updateCategoryParent cx currentUser child None)
                             (cat_children (fo_category fo1 c)) (fo_links fo1))
                (\<lambda>l. map_option (Pair STATUS_OK) (collection_deleteDiscussionCategory (rx_time cx) c (set_links l fo1)))))"

definition direct_addDiscussionTagToCategory :: "repository_context \<Rightarrow> id_type \<Rightarrow> id_type \<Rightarrow> repository_write" where
  "direct_addDiscussionTagToCategory cx tagId categoryId fo =
     (case fo_tagsById fo tagId of
        None \<Rightarrow> Some (NOT_FOUND, fo)
      | Some g \<Rightarrow>
          (case fo_categoriesById fo categoryId of
             None \<Rightarrow> Some (NOT_FOUND, fo)
           | Some c \<Rightarrow>
               (let (added, l) = tag_linkCategory g c (fo_links fo)
                in if \<not> added then Some (NO_EFFECT, set_links l fo)
                   else let (currentUser, fo1) = getCurrentUser cx (set_links l fo)
                        in map_option (\<lambda>(_, l1). (STATUS_OK, set_links (category_updateLastUpdated cx currentUser c l1) fo1))
                             (category_addTag (rx_time cx) c g (fo_links fo1)))))"

definition direct_removeDiscussionTagFromCategory :: "repository_context \<Rightarrow> id_type \<Rightarrow> id_type \<Rightarrow> repository_write" where
  "direct_removeDiscussionTagFromCategory cx tagId categoryId fo =
     (case fo_tagsById fo tagId of
        None \<Rightarrow> Some (NOT_FOUND, fo)
      | Some g \<Rightarrow>
          (case fo_categoriesById fo categoryId of
             None \<Rightarrow> Some (NOT_FOUND, fo)
           | Some c \<Rightarrow>
               (let (removed, l) = tag_unlinkCategory g c (fo_links fo)
                in if \<not> removed then Some (NO_EFFECT, set_links l fo)
                   else let (currentUser, fo1) = getCurrentUser cx (set_links l fo)
                        in map_option (\<lambda>(_, l1). (STATUS_OK, set_links (category_updateLastUpdated cx currentUser c l1) fo1))
                             (category_removeTag (rx_time cx) c g (fo_links fo1)))))"

subsection \<open>Requests on categories\<close>

text \<open>
  \<open>if ( ! (status = authorization)) return; if ( ! (status = change)) return; event\<close>: the event is raised after the
  change, from the entity as it is then.
\<close>

definition authorized_change ::
  "repository_context \<Rightarrow> ptr \<Rightarrow> (auth_context \<Rightarrow> handler) \<Rightarrow> (forum \<Rightarrow> repository_call) \<Rightarrow> repository_write \<Rightarrow> repository_write" where
  "authorized_change cx currentUser h call change fo =
     (case authorize cx h fo of
        None \<Rightarrow> None
      | Some (st, fo1) \<Rightarrow>
          if st \<noteq> STATUS_OK then Some (st, fo1)
          else case change fo1 of
                 None \<Rightarrow> None
               | Some (st2, fo2) \<Rightarrow>
                   if st2 \<noteq> STATUS_OK then Some (st2, fo2) else Some (STATUS_OK, observe cx currentUser (call fo2) fo2))"

definition with_category_by_id ::
  "repository_context \<Rightarrow> id_type \<Rightarrow> (ptr \<Rightarrow> ptr \<Rightarrow> repository_write) \<Rightarrow> repository_write" where
  "with_category_by_id cx cid body fo =
     (let (currentUser, fo1) = performedBy_getAndUpdate cx fo
      in case fo_categoriesById fo1 cid of None \<Rightarrow> Some (NOT_FOUND, fo1) | Some c \<Rightarrow> body currentUser c fo1)"

definition with_tag_and_category ::
  "repository_context \<Rightarrow> id_type \<Rightarrow> id_type \<Rightarrow> (ptr \<Rightarrow> ptr \<Rightarrow> ptr \<Rightarrow> repository_write) \<Rightarrow> repository_write" where
  "with_tag_and_category cx tagId categoryId body fo =
     (let (currentUser, fo1) = performedBy_getAndUpdate cx fo
      in case fo_tagsById fo1 tagId of
           None \<Rightarrow> Some (NOT_FOUND, fo1)
         | Some g \<Rightarrow>
             (case fo_categoriesById fo1 categoryId of
                None \<Rightarrow> Some (NOT_FOUND, fo1)
              | Some c \<Rightarrow> body currentUser g c fo1))"

definition parent_id_of :: "forum \<Rightarrow> ptr \<Rightarrow> id_type" where
  "parent_id_of fo c = (case cat_parent (fo_category fo c) of None \<Rightarrow> 0 | Some p \<Rightarrow> cat_id (fo_category fo p))"

definition validateCategoryName :: "naming \<Rightarrow> string \<Rightarrow> status_code" where
  "validateCategoryName nm name =
     validateString_extra name INVALID_PARAMETERS_FOR_EMPTY_STRING (Some (nm_categoryMinNameLength nm))
       (Some (nm_categoryMaxNameLength nm)) (doesNotContainLeadingOrTrailingWhitespace (nm_whitespace nm))"

definition repo_addNewDiscussionCategory ::
  "naming \<Rightarrow> id_type \<Rightarrow> repository_context \<Rightarrow> string \<Rightarrow> id_type \<Rightarrow> repository_write" where
  "repo_addNewDiscussionCategory nm newId cx name parentId fo =
     (let validationCode = validateCategoryName nm name
      in if validationCode \<noteq> STATUS_OK then Some (validationCode, fo)
         else let (currentUser, fo1) = performedBy_getAndUpdate cx fo;
                  nameString = JsonReadyStringWithSortKey nm name
              in if fo_categoriesByName fo1 (sortKey nameString) \<noteq> None then Some (ALREADY_EXISTS, fo1)
                 else authorized_change cx currentUser
                        (\<lambda>ax. addNewDiscussionCategory ax (fo_user fo1 currentUser))
                        (\<lambda>fo2. let c = fo_nextCategory fo1
                                in CategoryCall (AddNewDiscussionCategory (cat_id (fo_category fo2 c))
                                     (text_bytes (jr_string (cat_name (fo_category fo2 c)))) (parent_id_of fo2 c)))
                        (direct_addNewDiscussionCategory nm cx newId name parentId) fo1)"

definition repo_changeDiscussionCategoryName ::
  "naming \<Rightarrow> repository_context \<Rightarrow> id_type \<Rightarrow> string \<Rightarrow> repository_write" where
  "repo_changeDiscussionCategoryName nm cx cid newName fo =
     (if \<not> cid \<noteq> 0 then Some (INVALID_PARAMETERS, fo)
      else let validationCode = validateCategoryName nm newName
           in if validationCode \<noteq> STATUS_OK then Some (validationCode, fo)
              else with_category_by_id cx cid (\<lambda>currentUser c fo1.
                     if fo_categoriesByName fo1 (sortKey (JsonReadyStringWithSortKey nm newName)) \<noteq> None
                     then Some (ALREADY_EXISTS, fo1)
                     else authorized_change cx currentUser
                            (\<lambda>ax. changeDiscussionCategoryName ax (fo_user fo1 currentUser) (fo_category fo1 c))
                            (\<lambda>fo2. CategoryCall (ChangeDiscussionCategoryName (cat_id (fo_category fo2 c))
                                     (text_bytes (jr_string (cat_name (fo_category fo2 c))))))
                            (direct_changeDiscussionCategoryName nm cx cid newName) fo1) fo)"

definition repo_changeDiscussionCategoryDescription ::
  "naming \<Rightarrow> repository_context \<Rightarrow> id_type \<Rightarrow> string \<Rightarrow> repository_write" where
  "repo_changeDiscussionCategoryDescription nm cx cid newDescription fo =
     (if \<not> cid \<noteq> 0 then Some (INVALID_PARAMETERS, fo)
      else if countUTF8Characters newDescription > nm_categoryMaxDescriptionLength nm then Some (VALUE_TOO_LONG, fo)
      else with_category_by_id cx cid (\<lambda>currentUser c fo1.
             authorized_change cx currentUser
               (\<lambda>ax. changeDiscussionCategoryDescription ax (fo_user fo1 currentUser) (fo_category fo1 c))
               (\<lambda>fo2. CategoryCall (ChangeDiscussionCategoryDescription (cat_id (fo_category fo2 c))
                        (text_bytes (cat_description (fo_category fo2 c)))))
               (direct_changeDiscussionCategoryDescription cx cid newDescription) fo1) fo)"

definition repo_changeDiscussionCategoryParent ::
  "repository_context \<Rightarrow> id_type \<Rightarrow> id_type \<Rightarrow> repository_write" where
  "repo_changeDiscussionCategoryParent cx cid newParentId fo =
     (if \<not> cid \<noteq> 0 \<or> cid = newParentId then Some (INVALID_PARAMETERS, fo)
      else with_category_by_id cx cid (\<lambda>currentUser c fo1.
             case (case fo_categoriesById fo1 newParentId of None \<Rightarrow> Some False | Some p \<Rightarrow> hasAncestor (fo_links fo1) p c) of
               None \<Rightarrow> None
             | Some True \<Rightarrow> Some (CIRCULAR_REFERENCE_NOT_ALLOWED, fo1)
             | Some False \<Rightarrow>
                 authorized_change cx currentUser
                   (\<lambda>ax. changeDiscussionCategoryParent ax (fo_user fo1 currentUser) (fo_category fo1 c))
                   (\<lambda>fo2. CategoryCall (ChangeDiscussionCategoryParent (cat_id (fo_category fo2 c)) (parent_id_of fo2 c)))
                   (direct_changeDiscussionCategoryParent cx cid newParentId) fo1) fo)"

text \<open>The event carries the low 16 bits of the order.\<close>

definition repo_changeDiscussionCategoryDisplayOrder ::
  "repository_context \<Rightarrow> id_type \<Rightarrow> int \<Rightarrow> repository_write" where
  "repo_changeDiscussionCategoryDisplayOrder cx cid newDisplayOrder fo =
     (if \<not> cid \<noteq> 0 then Some (INVALID_PARAMETERS, fo)
      else if newDisplayOrder < 0 then Some (INVALID_PARAMETERS, fo)
      else with_category_by_id cx cid (\<lambda>currentUser c fo1.
             authorized_change cx currentUser
               (\<lambda>ax. changeDiscussionCategoryDisplayOrder ax (fo_user fo1 currentUser) (fo_category fo1 c))
               (\<lambda>fo2. CategoryCall (ChangeDiscussionCategoryDisplayOrder (cat_id (fo_category fo2 c))
                        (word_of_int (cat_displayOrder (fo_category fo2 c)))))
               (direct_changeDiscussionCategoryDisplayOrder cx cid newDisplayOrder) fo1) fo)"

definition repo_deleteDiscussionCategory :: "repository_context \<Rightarrow> id_type \<Rightarrow> repository_write" where
  "repo_deleteDiscussionCategory cx cid fo =
     (if \<not> cid \<noteq> 0 then Some (INVALID_PARAMETERS, fo)
      else with_category_by_id cx cid (\<lambda>currentUser c fo1.
             authorized_write cx currentUser
               (\<lambda>ax. deleteDiscussionCategory ax (fo_user fo1 currentUser) (fo_category fo1 c))
               (CategoryCall (DeleteDiscussionCategory (cat_id (fo_category fo1 c))))
               (direct_deleteDiscussionCategory cx cid) fo1) fo)"

definition repo_addDiscussionTagToCategory :: "repository_context \<Rightarrow> id_type \<Rightarrow> id_type \<Rightarrow> repository_write" where
  "repo_addDiscussionTagToCategory cx tagId categoryId fo =
     (if \<not> tagId \<noteq> 0 \<or> \<not> categoryId \<noteq> 0 then Some (INVALID_PARAMETERS, fo)
      else with_tag_and_category cx tagId categoryId (\<lambda>currentUser g c fo1.
             authorized_change cx currentUser
               (\<lambda>ax. addDiscussionTagToCategory ax (fo_user fo1 currentUser) (fo_tag fo1 g) (fo_category fo1 c))
               (\<lambda>fo2. CategoryCall (AddDiscussionTagToCategory (tag_id (fo_tag fo2 g)) (cat_id (fo_category fo2 c))))
               (direct_addDiscussionTagToCategory cx tagId categoryId) fo1) fo)"

definition repo_removeDiscussionTagFromCategory :: "repository_context \<Rightarrow> id_type \<Rightarrow> id_type \<Rightarrow> repository_write" where
  "repo_removeDiscussionTagFromCategory cx tagId categoryId fo =
     (if \<not> tagId \<noteq> 0 \<or> \<not> categoryId \<noteq> 0 then Some (INVALID_PARAMETERS, fo)
      else with_tag_and_category cx tagId categoryId (\<lambda>currentUser g c fo1.
             authorized_change cx currentUser
               (\<lambda>ax. removeDiscussionTagFromCategory ax (fo_user fo1 currentUser) (fo_tag fo1 g) (fo_category fo1 c))
               (\<lambda>fo2. CategoryCall (RemoveDiscussionTagFromCategory (tag_id (fo_tag fo2 g)) (cat_id (fo_category fo2 c))))
               (direct_removeDiscussionTagFromCategory cx tagId categoryId) fo1) fo)"

subsection \<open>Direct writes of tags\<close>

definition new_tag :: "id_type \<Rightarrow> json_ready_string \<Rightarrow> timestamp \<Rightarrow> 128 word \<Rightarrow> tag" where
  "new_tag gid name created ip =
     \<lparr>discussionThreadMessagePrivileges = None, discussionThreadPrivileges = \<lambda>_. None, discussionTagPrivileges = \<lambda>_. None,
      tag_id = gid, tag_categories = [], tag_name = name, tag_created = created, tag_createdIp = ip, tag_uiBlob = [],
      tag_threads = no_threads, tag_messageCount = 0, tag_lastUpdated = not_updated\<rparr>"

definition direct_addNewDiscussionTag :: "naming \<Rightarrow> repository_context \<Rightarrow> id_type \<Rightarrow> string \<Rightarrow> repository_write" where
  "direct_addNewDiscussionTag nm cx gid name fo =
     (let nameString = JsonReadyStringWithSortKey nm name
      in if fo_tagsByName fo (sortKey nameString) \<noteq> None then Some (ALREADY_EXISTS, fo)
         else let g = fo_nextTag fo;
                  l = upd_tag g (\<lambda>_. new_tag gid nameString (rx_time cx) (rx_ip cx)) (fo_links fo)
              in Some (STATUS_OK, insertDiscussionTag g (set_links l (fo\<lparr>fo_nextTag := Suc g\<rparr>))))"

text \<open>Unlike the one of a category, the direct write does not look whether the name is taken.\<close>

definition direct_changeDiscussionTagName :: "naming \<Rightarrow> repository_context \<Rightarrow> id_type \<Rightarrow> string \<Rightarrow> repository_write" where
  "direct_changeDiscussionTagName nm cx gid newName fo =
     (let (currentUser, fo1) = getCurrentUser cx fo
      in case fo_tagsById fo1 gid of
           None \<Rightarrow> Some (NOT_FOUND, fo1)
         | Some g \<Rightarrow>
             (let fo2 = tag_updateName (JsonReadyStringWithSortKey nm newName) g fo1
              in Some (STATUS_OK, set_links (tag_updateLastUpdated cx currentUser g (fo_links fo2)) fo2)))"

definition direct_changeDiscussionTagUiBlob :: "id_type \<Rightarrow> string \<Rightarrow> repository_write" where
  "direct_changeDiscussionTagUiBlob gid blob fo =
     (case fo_tagsById fo gid of
        None \<Rightarrow> Some (NOT_FOUND, fo)
      | Some g \<Rightarrow> Some (STATUS_OK, set_links (upd_tag g (tag_uiBlob_update (\<lambda>_. blob)) (fo_links fo)) fo))"

definition direct_deleteDiscussionTag :: "repository_context \<Rightarrow> id_type \<Rightarrow> repository_write" where
  "direct_deleteDiscussionTag cx gid fo =
     (case fo_tagsById fo gid of
        None \<Rightarrow> Some (NOT_FOUND, fo)
      | Some g \<Rightarrow> map_option (Pair STATUS_OK) (collection_deleteDiscussionTag (rx_time cx) g fo))"

definition direct_addDiscussionTagToThread :: "repository_context \<Rightarrow> id_type \<Rightarrow> id_type \<Rightarrow> repository_write" where
  "direct_addDiscussionTagToThread cx tagId threadId fo =
     (case fo_tagsById fo tagId of
        None \<Rightarrow> Some (NOT_FOUND, fo)
      | Some g \<Rightarrow>
          (case fo_threadsById fo threadId of
             None \<Rightarrow> Some (NOT_FOUND, fo)
           | Some t \<Rightarrow>
               (let (currentUser, fo1) = getCurrentUser cx fo;
                    (added, l) = link_addTag (rx_time cx) t g (fo_links fo1)
                in if \<not> added then Some (NO_EFFECT, set_links l fo1)
                   else map_option (\<lambda>(_, l1). (STATUS_OK, set_links (updateThreadLastUpdated cx currentUser t l1) fo1))
                          (tag_insertDiscussionThread (rx_time cx) g t l))))"

definition direct_removeDiscussionTagFromThread :: "repository_context \<Rightarrow> id_type \<Rightarrow> id_type \<Rightarrow> repository_write" where
  "direct_removeDiscussionTagFromThread cx tagId threadId fo =
     (case fo_tagsById fo tagId of
        None \<Rightarrow> Some (NOT_FOUND, fo)
      | Some g \<Rightarrow>
          (case fo_threadsById fo threadId of
             None \<Rightarrow> Some (NOT_FOUND, fo)
           | Some t \<Rightarrow>
               (let (currentUser, fo1) = getCurrentUser cx fo;
                    (removed, l) = link_removeTag (rx_time cx) t g (fo_links fo1)
                in if \<not> removed then Some (NO_EFFECT, set_links l fo1)
                   else map_option (\<lambda>(_, l1). (STATUS_OK, set_links (updateThreadLastUpdated cx currentUser t l1) fo1))
                          (tag_deleteDiscussionThread (rx_time cx) g t True l))))"

definition direct_mergeDiscussionTags :: "repository_context \<Rightarrow> id_type \<Rightarrow> id_type \<Rightarrow> repository_write" where
  "direct_mergeDiscussionTags cx fromId intoId fo =
     (if fromId = intoId then Some (NO_EFFECT, fo)
      else case fo_tagsById fo fromId of
             None \<Rightarrow> Some (NOT_FOUND, fo)
           | Some tagFrom \<Rightarrow>
               (case fo_tagsById fo intoId of
                  None \<Rightarrow> Some (NOT_FOUND, fo)
                | Some tagInto \<Rightarrow>
                    (let (currentUser, fo1) = getCurrentUser cx fo;
                         now = rx_time cx;
                         fromThreads = tc_iterateThreads (tag_threads (fo_tag fo1 tagFrom));
                         l = fold (\<lambda>t l. snd (link_addTag now t tagInto l)) fromThreads (fo_links fo1)
                     in Option.bind (tag_insertDiscussionThreads now tagInto fromThreads l)
                          (\<lambda>(_, l1). Option.bind
                             (loop_over (\<lambda>c l. map_option snd (category_addTag now c tagInto l))
                                (tag_categories (lk_tag l1 tagFrom)) l1)
                             (\<lambda>l2. map_option (Pair STATUS_OK)
                                (collection_deleteDiscussionTag now tagFrom
                                   (set_links (tag_updateLastUpdated cx currentUser tagInto l2) fo1)))))))"

subsection \<open>Requests on tags\<close>

definition validateTagName :: "naming \<Rightarrow> string \<Rightarrow> status_code" where
  "validateTagName nm name =
     validateString_extra name INVALID_PARAMETERS_FOR_EMPTY_STRING (Some (nm_tagMinNameLength nm))
       (Some (nm_tagMaxNameLength nm)) (doesNotContainLeadingOrTrailingWhitespace (nm_whitespace nm))"

definition with_tag_by_id :: "repository_context \<Rightarrow> id_type \<Rightarrow> (ptr \<Rightarrow> ptr \<Rightarrow> repository_write) \<Rightarrow> repository_write" where
  "with_tag_by_id cx gid body fo =
     (let (currentUser, fo1) = performedBy_getAndUpdate cx fo
      in case fo_tagsById fo1 gid of None \<Rightarrow> Some (NOT_FOUND, fo1) | Some g \<Rightarrow> body currentUser g fo1)"

definition with_tag_and_thread ::
  "repository_context \<Rightarrow> id_type \<Rightarrow> id_type \<Rightarrow> (ptr \<Rightarrow> ptr \<Rightarrow> ptr \<Rightarrow> repository_write) \<Rightarrow> repository_write" where
  "with_tag_and_thread cx tagId threadId body =
     with_tag_by_id cx tagId (\<lambda>currentUser g fo1.
       case fo_threadsById fo1 threadId of None \<Rightarrow> Some (NOT_FOUND, fo1) | Some t \<Rightarrow> body currentUser g t fo1)"

definition repo_addNewDiscussionTag :: "naming \<Rightarrow> id_type \<Rightarrow> repository_context \<Rightarrow> string \<Rightarrow> repository_write" where
  "repo_addNewDiscussionTag nm newId cx name fo =
     (let validationCode = validateTagName nm name
      in if validationCode \<noteq> STATUS_OK then Some (validationCode, fo)
         else let (currentUser, fo1) = performedBy_getAndUpdate cx fo
              in authorized_change cx currentUser (\<lambda>ax. addNewDiscussionTag ax (fo_user fo1 currentUser))
                   (\<lambda>fo2. let g = fo_nextTag fo1
                           in TagCall (AddNewDiscussionTag (tag_id (fo_tag fo2 g)) (text_bytes (jr_string (tag_name (fo_tag fo2 g))))))
                   (\<lambda>fo2. if fo_tagsByName fo2 (sortKey (JsonReadyStringWithSortKey nm name)) \<noteq> None
                           then Some (ALREADY_EXISTS, fo2)
                           else direct_addNewDiscussionTag nm cx newId name fo2) fo1)"

definition repo_changeDiscussionTagName :: "naming \<Rightarrow> repository_context \<Rightarrow> id_type \<Rightarrow> string \<Rightarrow> repository_write" where
  "repo_changeDiscussionTagName nm cx gid newName fo =
     (if \<not> gid \<noteq> 0 then Some (INVALID_PARAMETERS, fo)
      else let validationCode = validateTagName nm newName
           in if validationCode \<noteq> STATUS_OK then Some (validationCode, fo)
              else with_tag_by_id cx gid (\<lambda>currentUser g fo1.
                     if fo_tagsByName fo1 (sortKey (JsonReadyStringWithSortKey nm newName)) \<noteq> None
                     then Some (ALREADY_EXISTS, fo1)
                     else authorized_change cx currentUser
                            (\<lambda>ax. changeDiscussionTagName ax (fo_user fo1 currentUser) (fo_tag fo1 g))
                            (\<lambda>fo2. TagCall (ChangeDiscussionTagName (tag_id (fo_tag fo2 g))
                                     (text_bytes (jr_string (tag_name (fo_tag fo2 g))))))
                            (direct_changeDiscussionTagName nm cx gid newName) fo1) fo)"

definition repo_changeDiscussionTagUiBlob :: "naming \<Rightarrow> repository_context \<Rightarrow> id_type \<Rightarrow> string \<Rightarrow> repository_write" where
  "repo_changeDiscussionTagUiBlob nm cx gid blob fo =
     (if \<not> gid \<noteq> 0 then Some (INVALID_PARAMETERS, fo)
      else if int (length blob) > nm_tagMaxUiBlobSize nm mod 2 ^ 64 then Some (VALUE_TOO_LONG, fo)
      else with_tag_by_id cx gid (\<lambda>currentUser g fo1.
             authorized_change cx currentUser
               (\<lambda>ax. changeDiscussionTagUiBlob ax (fo_user fo1 currentUser) (fo_tag fo1 g))
               (\<lambda>fo2. TagCall (ChangeDiscussionTagUiBlob (tag_id (fo_tag fo2 g)) (text_bytes (tag_uiBlob (fo_tag fo2 g)))))
               (direct_changeDiscussionTagUiBlob gid blob) fo1) fo)"

definition repo_deleteDiscussionTag :: "repository_context \<Rightarrow> id_type \<Rightarrow> repository_write" where
  "repo_deleteDiscussionTag cx gid fo =
     (if \<not> gid \<noteq> 0 then Some (INVALID_PARAMETERS, fo)
      else with_tag_by_id cx gid (\<lambda>currentUser g fo1.
             authorized_write cx currentUser
               (\<lambda>ax. deleteDiscussionTag ax (fo_user fo1 currentUser) (fo_tag fo1 g))
               (TagCall (DeleteDiscussionTag (tag_id (fo_tag fo1 g))))
               (direct_deleteDiscussionTag cx gid) fo1) fo)"

definition repo_addDiscussionTagToThread :: "repository_context \<Rightarrow> id_type \<Rightarrow> id_type \<Rightarrow> repository_write" where
  "repo_addDiscussionTagToThread cx tagId threadId fo =
     (if \<not> tagId \<noteq> 0 \<or> \<not> threadId \<noteq> 0 then Some (INVALID_PARAMETERS, fo)
      else with_tag_and_thread cx tagId threadId (\<lambda>currentUser g t fo1.
             authorized_change cx currentUser
               (\<lambda>ax. addDiscussionTagToThread ax (fo_user fo1 currentUser) (fo_tag fo1 g) (h_thread (fo_heap fo1) t))
               (\<lambda>fo2. TagCall (AddDiscussionTagToThread (tag_id (fo_tag fo2 g)) (thr_id (h_thread (fo_heap fo2) t))))
               (direct_addDiscussionTagToThread cx tagId threadId) fo1) fo)"

definition repo_removeDiscussionTagFromThread :: "repository_context \<Rightarrow> id_type \<Rightarrow> id_type \<Rightarrow> repository_write" where
  "repo_removeDiscussionTagFromThread cx tagId threadId fo =
     (if \<not> tagId \<noteq> 0 \<or> \<not> threadId \<noteq> 0 then Some (INVALID_PARAMETERS, fo)
      else with_tag_and_thread cx tagId threadId (\<lambda>currentUser g t fo1.
             authorized_change cx currentUser
               (\<lambda>ax. removeDiscussionTagFromThread ax (fo_user fo1 currentUser) (fo_tag fo1 g) (h_thread (fo_heap fo1) t))
               (\<lambda>fo2. TagCall (RemoveDiscussionTagFromThread (tag_id (fo_tag fo2 g)) (thr_id (h_thread (fo_heap fo2) t))))
               (direct_removeDiscussionTagFromThread cx tagId threadId) fo1) fo)"

definition repo_mergeDiscussionTags :: "repository_context \<Rightarrow> id_type \<Rightarrow> id_type \<Rightarrow> repository_write" where
  "repo_mergeDiscussionTags cx fromId intoId fo =
     (if \<not> fromId \<noteq> 0 \<or> \<not> intoId \<noteq> 0 then Some (INVALID_PARAMETERS, fo)
      else if fromId = intoId then Some (NO_EFFECT, fo)
      else with_tag_by_id cx fromId (\<lambda>currentUser tagFrom fo1.
             case fo_tagsById fo1 intoId of
               None \<Rightarrow> Some (NOT_FOUND, fo1)
             | Some tagInto \<Rightarrow>
                 authorized_write cx currentUser
                   (\<lambda>ax. mergeDiscussionTags ax (fo_user fo1 currentUser) (fo_tag fo1 tagFrom) (fo_tag fo1 tagInto))
                   (TagCall (MergeDiscussionTags (tag_id (fo_tag fo1 tagFrom)) (tag_id (fo_tag fo1 tagInto))))
                   (direct_mergeDiscussionTags cx fromId intoId) fo1) fo)"

end
