(* ===== verification/CategoryLemmas.thy ===== *)
theory CategoryLemmas
  imports CategoryRepository AuthorizationRepositoryLemmas
begin

section \<open>The forest of categories\<close>

text \<open>
  The shape of the state is who is whose parent and child, with the ids and names of the categories. Most operations
  keep it; those that change it are followed one by one. Along the parents some rank falls, so that every loop over
  the parents of a category ends.
\<close>

subsection \<open>The shape of the links\<close>

definition shape :: "links \<Rightarrow> ptr \<Rightarrow> ptr option \<times> ptr list \<times> id_type \<times> json_ready_string" where
  "shape l = (\<lambda>p. (cat_parent (lk_category l p), cat_children (lk_category l p), cat_id (lk_category l p), cat_name (lk_category l p)))"

definition falling :: "(ptr \<Rightarrow> nat) \<Rightarrow> links \<Rightarrow> bool" where
  "falling rank l \<longleftrightarrow> (\<forall>p q. cat_parent (lk_category l p) = Some q \<longrightarrow> rank q < rank p)"

lemma shapeD:
  assumes "shape l = shape l'"
  shows "cat_parent (lk_category l p) = cat_parent (lk_category l' p)" "cat_children (lk_category l p) = cat_children (lk_category l' p)"
    "cat_id (lk_category l p) = cat_id (lk_category l' p)" "cat_name (lk_category l p) = cat_name (lk_category l' p)"
  using fun_cong [OF assms, of p] by (simp_all add: shape_def)

lemma falling_shape:
  assumes "shape l = shape l'"
  shows "falling rank l = falling rank l'"
  using shapeD(1) [OF assms] by (simp add: falling_def)

lemma shape_upd [simp]: "shape (upd_thread p f l) = shape l" "shape (upd_tag p g l) = shape l"
  by (simp_all add: shape_def)

lemma shape_upd_category [simp]:
  "(\<And>c. cat_parent (f c) = cat_parent c \<and> cat_children (f c) = cat_children c \<and> cat_id (f c) = cat_id c \<and> cat_name (f c) = cat_name c)
   \<Longrightarrow> shape (upd_category p f l) = shape l"
  by (simp add: shape_def fun_eq_iff)

lemma shape_upd_totals [simp]: "shape (upd_totals p f l) = shape l"
  by (simp add: upd_totals_def)

lemma shape_thread_ops [simp]:
  "shape (snd (link_addTag now t g l)) = shape l" "shape (snd (link_removeTag now t g l)) = shape l"
  "shape (link_addCategory now t c l) = shape l" "shape (link_removeCategory now t c l) = shape l"
  "shape (snd (tag_linkCategory g c l)) = shape l" "shape (snd (tag_unlinkCategory g c l)) = shape l"
  by (simp_all add: split_beta Let_def link_addTag_def link_removeTag_def link_addCategory_def link_removeCategory_def
    tag_linkCategory_def tag_unlinkCategory_def)

lemma shape_updated [simp]:
  "shape (category_updateLastUpdated cx u c l) = shape l" "shape (tag_updateLastUpdated cx u g l) = shape l"
  "shape (updateThreadLastUpdated cx u t l) = shape l" "shape (category_updateDisplayOrder v c l) = shape l"
  by (simp_all add: category_updateLastUpdated_def tag_updateLastUpdated_def updateThreadLastUpdated_def
    category_updateDisplayOrder_def Let_def)

lemma shape_fold: "(\<And>x l. shape (f x l) = shape l) \<Longrightarrow> shape (fold f xs l) = shape l"
  by (induction xs arbitrary: l) simp_all

subsection \<open>Operations that return and keep the shape\<close>

definition keeps_shape :: "(links \<Rightarrow> links option) \<Rightarrow> bool" where
  "keeps_shape f \<longleftrightarrow> (\<forall>l rank. falling rank l \<longrightarrow> (\<exists>l'. f l = Some l' \<and> shape l' = shape l))"

lemma keeps_shapeD: "keeps_shape f \<Longrightarrow> falling rank l \<Longrightarrow> \<exists>l'. f l = Some l' \<and> shape l' = shape l"
  by (auto simp: keeps_shape_def)

named_theorems keeps_intros

lemma keeps_Some [keeps_intros]: "(\<And>l. shape (g l) = shape l) \<Longrightarrow> keeps_shape (\<lambda>l. Some (g l))"
  by (simp add: keeps_shape_def)

lemma keeps_bind:
  assumes "keeps_shape f" "keeps_shape g"
  shows "keeps_shape (\<lambda>l. Option.bind (f l) g)"
  unfolding keeps_shape_def
proof (intro allI impI)
  fix l rank assume fall: "falling rank l"
  obtain l1 where l1: "f l = Some l1" "shape l1 = shape l" using keeps_shapeD [OF assms(1) fall] by blast
  then obtain l2 where "g l1 = Some l2" "shape l2 = shape l1"
    using keeps_shapeD [OF assms(2), of rank l1] fall falling_shape by metis
  then show "\<exists>l'. Option.bind (f l) g = Some l' \<and> shape l' = shape l" using l1 by simp
qed

lemma keeps_loop [keeps_intros]: "(\<And>x. keeps_shape (f x)) \<Longrightarrow> keeps_shape (loop_over f xs)"
proof (induction xs)
  case (Cons x xs)
  then show ?case using keeps_bind [of "f x" "loop_over f xs"] by (simp add: keeps_shape_def)
qed (simp add: keeps_shape_def)

lemma keeps_if [keeps_intros]: "keeps_shape f \<Longrightarrow> keeps_shape g \<Longrightarrow> keeps_shape (\<lambda>l. if b l then f l else g l)"
  by (auto simp: keeps_shape_def)

text \<open>The shape of the state before an operation may be changed by a step that keeps it.\<close>

lemma keeps_after: "keeps_shape f \<Longrightarrow> falling rank l \<Longrightarrow> shape l1 = shape l \<Longrightarrow> \<exists>l'. f l1 = Some l' \<and> shape l' = shape l"
  using keeps_shapeD [of f rank l1] falling_shape by metis

lemma parents_loop:
  assumes "\<And>q l. shape (fn q l) = shape l"
  shows "falling rank l \<Longrightarrow> \<exists>l'. executeOnAllCategoryParents fn parent l = Some l' \<and> shape l' = shape l"
proof (induction "case parent of None \<Rightarrow> 0 | Some p \<Rightarrow> Suc (rank p)" arbitrary: parent l rule: less_induct)
  case less
  show ?case
  proof (cases parent)
    case None
    then show ?thesis by (simp add: executeOnAllCategoryParents.simps)
  next
    case (Some p)
    let ?l1 = "fn p l"
    have fall: "falling rank ?l1" using less.prems falling_shape [OF assms] by simp
    have "(case cat_parent (lk_category ?l1 p) of None \<Rightarrow> 0 | Some q \<Rightarrow> Suc (rank q)) < Suc (rank p)"
      using fall by (auto simp: falling_def split: option.split)
    then obtain l' where "executeOnAllCategoryParents fn (cat_parent (lk_category ?l1 p)) ?l1 = Some l'" "shape l' = shape ?l1"
      using less.hyps [OF _ fall, of "cat_parent (lk_category ?l1 p)"] Some by auto
    then show ?thesis using Some assms by (subst executeOnAllCategoryParents.simps) (simp add: Let_def)
  qed
qed

lemma keeps_execute [keeps_intros]:
  "(\<And>q l. shape (fn q l) = shape l) \<Longrightarrow> keeps_shape (executeOnCategoryAndAllParents fn c)"
  unfolding keeps_shape_def executeOnCategoryAndAllParents_def Let_def
  using parents_loop falling_shape by metis

lemma keeps_totals: "keeps_shape (removeTotalsFromChild p c)" "keeps_shape (addTotalsFromChild p c)"
  unfolding removeTotalsFromChild_def addTotalsFromChild_def by (intro keeps_intros; simp)+

lemma hasAncestor_total:
  "falling rank l \<Longrightarrow> \<exists>b. parentsInclude (lk_category l) a parent = Some b"
proof (induction "case parent of None \<Rightarrow> 0 | Some p \<Rightarrow> Suc (rank p)" arbitrary: parent rule: less_induct)
  case less
  show ?case
  proof (cases parent)
    case None
    then show ?thesis by (intro exI [of _ False]) (simp add: parentsInclude.simps)
  next
    case (Some p)
    have "(case cat_parent (lk_category l p) of None \<Rightarrow> 0 | Some q \<Rightarrow> Suc (rank q)) < Suc (rank p)"
      using less.prems by (auto simp: falling_def split: option.split)
    then obtain b where "parentsInclude (lk_category l) a (cat_parent (lk_category l p)) = Some b"
      using less.hyps [OF _ less.prems, of "cat_parent (lk_category l p)"] Some by auto
    then show ?thesis using Some by (subst parentsInclude.simps) auto
  qed
qed

subsection \<open>Threads of categories and tags\<close>

lemma count_inserted_keeps: "keeps_shape (count_inserted now c threads)"
  unfolding keeps_shape_def
proof (intro allI impI)
  fix l rank assume "falling rank l"
  moreover have "shape (fold (\<lambda>t l. link_addCategory now t c
      (upd_category c (\<lambda>e. e\<lparr>cat_messageCount := cat_messageCount e + thread_messageCount l t\<rparr>) l)) threads l) = shape l"
    by (rule shape_fold) simp
  moreover have "keeps_shape (executeOnCategoryAndAllParents (\<lambda>q l. fold (\<lambda>t l. upd_totals q (tt_add l t) l) threads l) c)"
    by (intro keeps_intros shape_fold) simp
  ultimately show "\<exists>l'. count_inserted now c threads l = Some l' \<and> shape l' = shape l"
    unfolding count_inserted_def by (rule keeps_after [rotated])
qed

lemma category_insert_keeps:
  assumes "falling rank l"
  shows "\<exists>b array l'. category_insertDiscussionThreads now c threads l = Some (b, array, l') \<and> shape l' = shape l"
proof -
  have "\<exists>l'. count_inserted now c ts (upd_category c (\<lambda>e. e\<lparr>cat_threads := tc\<rparr>) l) = Some l' \<and> shape l' = shape l" for ts tc
    by (rule keeps_after [OF count_inserted_keeps assms]) simp
  then show ?thesis
    by (cases "tc_add_range l (filter (\<lambda>t. \<not> tc_contains l t (cat_threads (lk_category l c))) threads) (cat_threads (lk_category l c))")
      (fastforce simp: category_insertDiscussionThreads_def Let_def)
qed

lemma category_insert_of_tag_keeps:
  assumes "falling rank l"
  shows "\<exists>b l'. category_insertDiscussionThreadsOfTag now c g l = Some (b, l') \<and> shape l' = shape l"
proof -
  have "\<exists>l'. count_inserted now c ts (upd_category c (\<lambda>e. e\<lparr>cat_threads := tc\<rparr>) l) = Some l' \<and> shape l' = shape l" for ts tc
    by (rule keeps_after [OF count_inserted_keeps assms]) simp
  then show ?thesis
    by (fastforce simp: category_insertDiscussionThreadsOfTag_def Let_def split: prod.split)
qed

lemma category_delete_keeps:
  assumes "falling rank l"
  shows "\<exists>b l'. category_deleteDiscussionThread now c t dm only l = Some (b, l') \<and> shape l' = shape l"
proof (cases "tc_remove l t (cat_threads (lk_category l c))")
  case (Pair removed tc)
  define l1 where "l1 = upd_category c (\<lambda>e. e\<lparr>cat_threads := tc\<rparr>) l"
  define l2 where "l2 = (if dm then upd_category c (\<lambda>e. e\<lparr>cat_messageCount := cat_messageCount e - thread_messageCount l t\<rparr>) l1 else l1)"
  define l3 where "l3 = (if \<not> thr_aboutToBeDeleted (lk_thread l2 t) then link_removeCategory now t c l2 else l2)"
  have "shape l3 = shape l" by (simp add: l1_def l2_def l3_def)
  moreover have "keeps_shape (\<lambda>l. if \<not> only then executeOnCategoryAndAllParents (\<lambda>q l. upd_totals q (tt_remove l t) l) c l else Some l)"
    by (intro keeps_intros) simp_all
  ultimately obtain l4 where
    "(if \<not> only then executeOnCategoryAndAllParents (\<lambda>q l. upd_totals q (tt_remove l t) l) c l3 else Some l3) = Some l4" "shape l4 = shape l"
    using keeps_after [OF _ assms] by blast
  moreover have "category_deleteDiscussionThread now c t dm only l =
      (if \<not> removed then Some (False, l)
       else map_option (Pair True)
         (if \<not> only then executeOnCategoryAndAllParents (\<lambda>q l. upd_totals q (tt_remove l t) l) c l3 else Some l3))"
    by (simp only: category_deleteDiscussionThread_def Let_def Pair prod.case l1_def l2_def l3_def)
  ultimately show ?thesis by (cases removed) auto
qed

lemma category_decrease_keeps: "keeps_shape (category_deleteDiscussionThreadIfNoOtherTagsReferenceIt now c t dm)"
  unfolding keeps_shape_def
proof (intro allI impI)
  fix l rank assume fall: "falling rank l"
  obtain b l1 where "category_deleteDiscussionThread now c t dm True l = Some (b, l1)" "shape l1 = shape l"
    using category_delete_keeps [OF fall] by blast
  moreover have "keeps_shape (executeOnCategoryAndAllParents (\<lambda>q l. upd_totals q (tt_decreaseReferenceCount l t) l) c)"
    by (intro keeps_intros) simp
  ultimately show "\<exists>l'. category_deleteDiscussionThreadIfNoOtherTagsReferenceIt now c t dm l = Some l' \<and> shape l' = shape l"
    using keeps_after [OF _ fall, of _ l1]
    by (auto simp: category_deleteDiscussionThreadIfNoOtherTagsReferenceIt_def)
qed

lemma category_addTag_keeps:
  assumes "falling rank l"
  shows "\<exists>b l'. category_addTag now c g l = Some (b, l') \<and> shape l' = shape l"
proof -
  let ?l1 = "upd_category c (\<lambda>e. e\<lparr>cat_tags := flat_insert g (cat_tags e)\<rparr>) l"
  have "shape ?l1 = shape l" by simp
  then have "falling rank ?l1" using assms falling_shape by blast
  from category_insert_of_tag_keeps [OF this, of now c g] show ?thesis
    by (auto simp: category_addTag_def)
qed

lemma category_removeTag_keeps:
  assumes "falling rank l"
  shows "\<exists>b l'. category_removeTag now c g l = Some (b, l') \<and> shape l' = shape l"
proof -
  let ?l1 = "upd_category c (\<lambda>e. e\<lparr>cat_tags := flat_erase g (cat_tags e)\<rparr>) l"
  have "keeps_shape (loop_over (\<lambda>t. category_deleteDiscussionThreadIfNoOtherTagsReferenceIt now c t True) ts)" for ts
    by (intro keeps_intros category_decrease_keeps)
  from keeps_after [OF this assms, of ?l1] obtain l' where
    "loop_over (\<lambda>t. category_deleteDiscussionThreadIfNoOtherTagsReferenceIt now c t True)
       (tc_iterateThreads (tag_threads (lk_tag ?l1 g))) ?l1 = Some l'" "shape l' = shape l"
    by force
  then show ?thesis by (cases "containsTag l c g") (auto simp: category_removeTag_def Let_def)
qed

lemma tag_insert_keeps:
  assumes "falling rank l"
  shows "\<exists>b l'. tag_insertDiscussionThreads now g ts l = Some (b, l') \<and> shape l' = shape l"
proof -
  have loop: "\<exists>array' l2. loop_over (\<lambda>c (array, l). map_option snd (category_insertDiscussionThreads now c array l)) cs (array, l1)
      = Some (array', l2) \<and> shape l2 = shape l" if "shape l1 = shape l" for cs array l1
    using that
  proof (induction cs arbitrary: array l1)
    case (Cons c cs)
    have "falling rank l1" using Cons.prems assms falling_shape by blast
    then obtain b array' l2 where "category_insertDiscussionThreads now c array l1 = Some (b, array', l2)" "shape l2 = shape l1"
      using category_insert_keeps by blast
    then show ?case using Cons.IH [of l2 array'] Cons.prems by auto
  qed simp
  define new where "new = filter (\<lambda>t. \<not> tc_contains l t (tag_threads (lk_tag l g))) ts"
  obtain added tc where add: "tc_add_range l new (tag_threads (lk_tag l g)) = (added, tc)" by force
  define l2 where "l2 = fold (\<lambda>t l. upd_tag g (\<lambda>e. e\<lparr>tag_messageCount := tag_messageCount e + thread_messageCount l t\<rparr>) l)
      new (upd_tag g (\<lambda>e. e\<lparr>tag_threads := tc\<rparr>) l)"
  have "shape l2 = shape l" unfolding l2_def by (subst shape_fold) simp_all
  then obtain array' l3 where "loop_over (\<lambda>c (array, l). map_option snd (category_insertDiscussionThreads now c array l))
      (tag_categories (lk_tag l2 g)) (new, l2) = Some (array', l3)" "shape l3 = shape l"
    using loop by blast
  then show ?thesis
    by (auto simp: tag_insertDiscussionThreads_def Let_def add new_def [symmetric] l2_def [symmetric])
qed

lemma tag_delete_keeps:
  assumes "falling rank l"
  shows "\<exists>b l'. tag_deleteDiscussionThread now g t dm l = Some (b, l') \<and> shape l' = shape l"
proof -
  obtain removed tc where rem: "tc_remove l t (tag_threads (lk_tag l g)) = (removed, tc)" by force
  define l1 where "l1 = upd_tag g (\<lambda>e. e\<lparr>tag_threads := tc\<rparr>) l"
  define l2 where "l2 = (if dm then upd_tag g (\<lambda>e. e\<lparr>tag_messageCount := tag_messageCount e - thread_messageCount l t\<rparr>) l1 else l1)"
  have "keeps_shape (loop_over (\<lambda>c. category_deleteDiscussionThreadIfNoOtherTagsReferenceIt now c t dm) (tag_categories (lk_tag l2 g)))"
    by (intro keeps_intros category_decrease_keeps)
  moreover have "shape l2 = shape l" by (simp add: l2_def l1_def)
  ultimately obtain l3 where
    "loop_over (\<lambda>c. category_deleteDiscussionThreadIfNoOtherTagsReferenceIt now c t dm) (tag_categories (lk_tag l2 g)) l2 = Some l3"
    "shape l3 = shape l"
    using keeps_after [OF _ assms] by blast
  then show ?thesis
    by (auto simp: tag_deleteDiscussionThread_def rem Let_def l1_def [symmetric] l2_def [symmetric])
qed

lemma unlink_tag_keeps: "keeps_shape (unlink_tag now g)"
  unfolding keeps_shape_def
proof (intro allI impI)
  fix l rank assume fall: "falling rank l"
  have "keeps_shape (\<lambda>l. map_option snd (category_removeTag now c g l))" for c
    unfolding keeps_shape_def using category_removeTag_keeps by fastforce
  then have "keeps_shape (loop_over (\<lambda>c l. map_option snd (category_removeTag now c g l)) cs)" for cs
    by (intro keeps_intros)
  then obtain l1 where "loop_over (\<lambda>c l. map_option snd (category_removeTag now c g l)) (tag_categories (lk_tag l g)) l = Some l1"
      "shape l1 = shape l"
    using keeps_shapeD [OF _ fall] by blast
  then show "\<exists>l'. unlink_tag now g l = Some l' \<and> shape l' = shape l"
    by (simp add: unlink_tag_def shape_fold)
qed

subsection \<open>Moving a category\<close>

definition reparented :: "ptr \<Rightarrow> ptr option \<Rightarrow> links \<Rightarrow> links" where
  "reparented c newParent l =
     (let l1 = upd_category c (cat_parent_update (\<lambda>_. newParent)) l;
          l2 = (case cat_parent (lk_category l c) of None \<Rightarrow> l1 | Some p \<Rightarrow> removeChild p c l1)
      in case newParent of None \<Rightarrow> l2 | Some p \<Rightarrow> addChild p c l2)"

lemma shape_congs:
  assumes "shape l = shape l'"
  shows "shape (removeChild p c l) = shape (removeChild p c l')" "shape (addChild p c l) = shape (addChild p c l')"
    "shape (upd_category c (cat_parent_update f) l) = shape (upd_category c (cat_parent_update f) l')"
  using shapeD [OF assms] by (simp_all add: shape_def removeChild_def addChild_def fun_eq_iff)

lemma shape_reparented:
  assumes "shape l = shape l'"
  shows "shape (reparented c newParent l) = shape (reparented c newParent l')"
proof -
  let ?m = "upd_category c (cat_parent_update (\<lambda>_. newParent))"
  have m: "shape (?m l) = shape (?m l')" by (rule shape_congs(3) [OF assms])
  have r: "shape (removeChild p c (?m l)) = shape (removeChild p c (?m l'))" for p by (rule shape_congs(1) [OF m])
  show ?thesis
    using shapeD(1) [OF assms, of c] m r shape_congs(2) [OF m] shape_congs(2) [OF r]
    by (cases "cat_parent (lk_category l' c)"; cases newParent) (simp_all only: reparented_def Let_def option.case)
qed

lemma falling_children [simp]: "falling rank (removeChild p c l) = falling rank l" "falling rank (addChild p c l) = falling rank l"
proof -
  have "cat_parent (lk_category (removeChild p c l) x) = cat_parent (lk_category l x)"
    "cat_parent (lk_category (addChild p c l) x) = cat_parent (lk_category l x)" for x
    by (simp_all add: removeChild_def addChild_def)
  then show "falling rank (removeChild p c l) = falling rank l" "falling rank (addChild p c l) = falling rank l"
    by (simp_all add: falling_def)
qed

lemma updateCategoryParent_shape:
  assumes "falling rank (upd_category c (cat_parent_update (\<lambda>_. newParent)) l)"
  shows "\<exists>l'. updateCategoryParent cx u c newParent l = Some l' \<and> shape l' = shape (reparented c newParent l)"
proof -
  let ?l0 = "upd_category c (cat_parent_update (\<lambda>_. newParent)) l"
  let ?l1 = "category_updateLastUpdated cx u c ?l0"
  have l1: "shape ?l1 = shape ?l0" by simp
  then have fall1: "falling rank ?l1" using assms falling_shape by blast
  obtain l2 where l2: "(case cat_parent (lk_category l c) of None \<Rightarrow> Some ?l1
        | Some p \<Rightarrow> map_option (removeChild p c) (removeTotalsFromChild p c ?l1)) = Some l2"
      "shape l2 = shape (case cat_parent (lk_category l c) of None \<Rightarrow> ?l0 | Some p \<Rightarrow> removeChild p c ?l0)"
  proof (cases "cat_parent (lk_category l c)")
    case None
    with that l1 show ?thesis by simp
  next
    case (Some p)
    obtain l2 where "removeTotalsFromChild p c ?l1 = Some l2" "shape l2 = shape ?l1"
      using keeps_shapeD [OF keeps_totals(1) fall1] by blast
    moreover then have "shape (removeChild p c l2) = shape (removeChild p c ?l0)" using l1 shape_congs(1) by metis
    ultimately show ?thesis using that Some by simp
  qed
  then have fall2: "falling rank l2" using assms falling_shape [OF l2(2)] by (simp split: option.splits)
  show ?thesis
  proof (cases newParent)
    case None
    note l2 [unfolded None]
    then show ?thesis by (simp add: updateCategoryParent_def reparented_def Let_def None)
  next
    case (Some p)
    obtain l3 where l3: "addTotalsFromChild p c l2 = Some l3" "shape l3 = shape l2"
      using keeps_shapeD [OF keeps_totals(2) fall2] by blast
    then have "shape (addChild p c l3) = shape (addChild p c (case cat_parent (lk_category l c) of None \<Rightarrow> ?l0 | Some q \<Rightarrow> removeChild q c ?l0))"
      using l2(2) shape_congs(2) by metis
    with l2(1) l3(1) show ?thesis unfolding Some by (simp add: updateCategoryParent_def reparented_def Let_def)
  qed
qed

lemma reparented_parent: "cat_parent (lk_category (reparented c np l) x) = (if x = c then np else cat_parent (lk_category l x))"
  by (cases "cat_parent (lk_category l c)"; cases np; simp add: reparented_def Let_def removeChild_def addChild_def)

lemma reparented_id: "cat_id (lk_category (reparented c np l) x) = cat_id (lk_category l x)"
  by (cases "cat_parent (lk_category l c)"; cases np; simp add: reparented_def Let_def removeChild_def addChild_def)

lemma reparented_name: "cat_name (lk_category (reparented c np l) x) = cat_name (lk_category l x)"
  by (cases "cat_parent (lk_category l c)"; cases np; simp add: reparented_def Let_def removeChild_def addChild_def)

lemma reparented_children:
  "cat_children (lk_category (reparented c np l) x) =
     (let cs = (if cat_parent (lk_category l c) = Some x then flat_erase c (cat_children (lk_category l x))
                else cat_children (lk_category l x))
      in if np = Some x then flat_insert c cs else cs)"
  by (cases "cat_parent (lk_category l c)"; cases np)
    (simp_all add: reparented_def Let_def removeChild_def addChild_def)

lemmas reparented_simps = reparented_parent reparented_id reparented_name reparented_children

subsection \<open>Ancestors\<close>

definition parent_rel :: "links \<Rightarrow> (ptr \<times> ptr) set" where
  "parent_rel l = {(x, y). cat_parent (lk_category l x) = Some y}"

lemma parentsInclude_iff:
  "falling rank l \<Longrightarrow> parentsInclude (lk_category l) a parent = Some b \<Longrightarrow> b \<longleftrightarrow> (\<exists>p. parent = Some p \<and> (p, a) \<in> (parent_rel l)\<^sup>*)"
proof (induction "case parent of None \<Rightarrow> 0 | Some p \<Rightarrow> Suc (rank p)" arbitrary: parent rule: less_induct)
  case less
  show ?case
  proof (cases parent)
    case None
    then show ?thesis using less.prems by (simp add: parentsInclude.simps)
  next
    case (Some p)
    have "(case cat_parent (lk_category l p) of None \<Rightarrow> 0 | Some q \<Rightarrow> Suc (rank q)) < Suc (rank p)"
      using less.prems(1) by (auto simp: falling_def split: option.split)
    moreover have step: "parentsInclude (lk_category l) a parent =
        (if p = a then Some True else parentsInclude (lk_category l) a (cat_parent (lk_category l p)))"
      using Some by (subst parentsInclude.simps) simp
    ultimately have "p \<noteq> a \<Longrightarrow> b \<longleftrightarrow> (\<exists>q. cat_parent (lk_category l p) = Some q \<and> (q, a) \<in> (parent_rel l)\<^sup>*)"
      using less.hyps [OF _ less.prems(1), of "cat_parent (lk_category l p)"] less.prems(2) Some by simp
    moreover have "p \<noteq> a \<Longrightarrow> (p, a) \<in> (parent_rel l)\<^sup>* \<longleftrightarrow> (\<exists>q. cat_parent (lk_category l p) = Some q \<and> (q, a) \<in> (parent_rel l)\<^sup>*)"
      by (auto simp: parent_rel_def elim: converse_rtranclE intro: converse_rtrancl_into_rtrancl)
    ultimately show ?thesis using less.prems(2) step Some by (cases "p = a") auto
  qed
qed

end
