(* ===== verification/CategoryForest.thy ===== *)
theory CategoryForest
  imports CategoryLemmas AuthorizationLemmas
begin

section \<open>The categories stay a forest\<close>

text \<open>
  What the collections of categories promise: ids and names find the categories that hold them, parents and children
  agree, and no chain of parents is a cycle. The lemmas follow the ways the tree changes: a category is added,
  renamed, moved, or deleted after its children have become roots.
\<close>

subsection \<open>The invariant\<close>

definition ids_ok :: "links \<Rightarrow> (id_type \<Rightarrow> ptr option) \<Rightarrow> ptr \<Rightarrow> bool" where
  "ids_ok l byId pool \<longleftrightarrow>
     (\<forall>i c. byId i = Some c \<longrightarrow> cat_id (lk_category l c) = i \<and> c < pool) \<and>
     (\<forall>x q. cat_parent (lk_category l x) = Some q \<longrightarrow> q < pool)"

lemma ids_okD:
  assumes "ids_ok l byId pool"
  shows "byId i = Some c \<Longrightarrow> cat_id (lk_category l c) = i" "byId i = Some c \<Longrightarrow> c < pool"
    "cat_parent (lk_category l x) = Some q \<Longrightarrow> q < pool"
  using assms unfolding ids_ok_def by blast+

definition tree_ok :: "links \<Rightarrow> ptr set \<Rightarrow> bool" where
  "tree_ok l live \<longleftrightarrow>
     (\<forall>c\<in>live. \<forall>p. cat_parent (lk_category l c) = Some p \<longrightarrow> p \<in> live \<and> c \<in> set (cat_children (lk_category l p))) \<and>
     (\<forall>p\<in>live. flat_set (cat_children (lk_category l p)) \<and>
        (\<forall>c\<in>set (cat_children (lk_category l p)). c \<in> live \<and> cat_parent (lk_category l c) = Some p))"

lemma tree_okD:
  assumes "tree_ok l live"
  shows "c \<in> live \<Longrightarrow> cat_parent (lk_category l c) = Some p \<Longrightarrow> p \<in> live"
    "c \<in> live \<Longrightarrow> cat_parent (lk_category l c) = Some p \<Longrightarrow> c \<in> set (cat_children (lk_category l p))"
    "p \<in> live \<Longrightarrow> flat_set (cat_children (lk_category l p))"
    "p \<in> live \<Longrightarrow> c \<in> set (cat_children (lk_category l p)) \<Longrightarrow> c \<in> live"
    "p \<in> live \<Longrightarrow> c \<in> set (cat_children (lk_category l p)) \<Longrightarrow> cat_parent (lk_category l c) = Some p"
  using assms unfolding tree_ok_def by blast+

definition names_ok :: "links \<Rightarrow> ptr set \<Rightarrow> (string \<Rightarrow> ptr option) \<Rightarrow> bool" where
  "names_ok l live byName \<longleftrightarrow> (\<forall>k c. byName k = Some c \<longleftrightarrow> c \<in> live \<and> sortKey (cat_name (lk_category l c)) = k)"

definition forest :: "links \<Rightarrow> (id_type \<Rightarrow> ptr option) \<Rightarrow> (string \<Rightarrow> ptr option) \<Rightarrow> ptr \<Rightarrow> bool" where
  "forest l byId byName pool \<longleftrightarrow>
     (\<exists>rank. falling rank l) \<and> ids_ok l byId pool \<and> tree_ok l (ran byId) \<and> names_ok l (ran byId) byName"

lemma forest_shape:
  assumes "shape l = shape l'"
  shows "forest l byId byName pool = forest l' byId byName pool"
  using shapeD [OF assms] by (simp add: forest_def falling_def ids_ok_def tree_ok_def names_ok_def)

lemma ran_remove:
  assumes "ids_ok l byId pool" "byId i = Some c"
  shows "ran (byId(i := None)) = ran byId - {c}"
proof -
  have same: "byId j = Some c \<longleftrightarrow> j = i" for j
    using assms ids_okD(1) by metis
  have "(\<exists>j. (byId(i := None)) j = Some x) \<longleftrightarrow> (\<exists>j. byId j = Some x) \<and> x \<noteq> c" for x
    using same assms(2) by (cases "x = c") (simp, metis fun_upd_other fun_upd_same option.inject option.distinct(1))
  then show ?thesis by (simp add: ran_def set_eq_iff)
qed

subsection \<open>Moving\<close>

lemma tree_reparented:
  assumes tree: "tree_ok l L" and c: "c \<in> L" and np: "\<And>p. np = Some p \<Longrightarrow> p \<in> L"
  shows "tree_ok (reparented c np l) L"
  unfolding tree_ok_def
proof (intro conjI ballI allI impI)
  note simps = reparented_simps Let_def set_flat_erase
  fix d p assume d: "d \<in> L" and p: "cat_parent (lk_category (reparented c np l) d) = Some p"
  have old: "p \<in> L \<and> d \<in> set (cat_children (lk_category l p)) \<and> flat_set (cat_children (lk_category l p))" if "d \<noteq> c"
  proof -
    have "cat_parent (lk_category l d) = Some p" using p that by (simp add: simps)
    from tree_okD(1,2) [OF tree d this] tree_okD(3) [OF tree, of p] show ?thesis by simp
  qed
  show "p \<in> L" using np [of p] old p by (cases "d = c") (simp_all add: simps)
  show "d \<in> set (cat_children (lk_category (reparented c np l) p))"
    using p old by (cases "d = c") (simp_all add: simps)
next
  note simps = reparented_simps Let_def set_flat_erase
  fix p assume p: "p \<in> L"
  note flat = tree_okD(3) [OF tree p]
  then show "flat_set (cat_children (lk_category (reparented c np l) p))"
    by (simp add: reparented_simps Let_def flat_set_insert flat_set_erase)
  fix d assume d: "d \<in> set (cat_children (lk_category (reparented c np l) p))"
  have "d \<noteq> c \<Longrightarrow> d \<in> set (cat_children (lk_category l p))"
    using d flat by (simp add: simps split: if_splits)
  moreover have "np = Some p" if "d = c"
    using d flat tree_okD(5) [OF tree p, of c] that by (simp add: simps split: if_splits)
  ultimately show "d \<in> L" "cat_parent (lk_category (reparented c np l) d) = Some p"
    using c tree_okD(4,5) [OF tree p, of d] by (cases "d = c"; simp add: simps)+
qed

lemma falling_reparented_root: "falling rank l \<Longrightarrow> falling rank (reparented c None l)"
  by (simp add: falling_def reparented_simps)

lemma falling_reparented:
  assumes fall: "falling rank l" and p: "(p, c) \<notin> (parent_rel l)\<^sup>*"
  shows "falling (\<lambda>x. if (x, c) \<in> (parent_rel l)\<^sup>* then rank x + Suc (rank p) else rank x) (reparented c (Some p) l)"
  unfolding falling_def
proof (intro allI impI)
  fix x q assume q: "cat_parent (lk_category (reparented c (Some p) l) x) = Some q"
  show "(if (q, c) \<in> (parent_rel l)\<^sup>* then rank q + Suc (rank p) else rank q) <
    (if (x, c) \<in> (parent_rel l)\<^sup>* then rank x + Suc (rank p) else rank x)"
  proof (cases "x = c")
    case True
    then show ?thesis using q p by (simp add: reparented_simps)
  next
    case False
    then have parent: "cat_parent (lk_category l x) = Some q" using q by (simp add: reparented_simps)
    then have "(x, q) \<in> parent_rel l" by (simp add: parent_rel_def)
    moreover have "(q, c) \<in> (parent_rel l)\<^sup>*" if "(x, c) \<in> (parent_rel l)\<^sup>*"
      using that False parent by (cases rule: converse_rtranclE) (simp_all add: parent_rel_def)
    ultimately have "(x, c) \<in> (parent_rel l)\<^sup>* \<longleftrightarrow> (q, c) \<in> (parent_rel l)\<^sup>*"
      using converse_rtrancl_into_rtrancl by metis
    then show ?thesis using fall parent by (auto simp: falling_def)
  qed
qed

lemma forest_reparented:
  assumes "forest l byId byName pool" "c \<in> ran byId"
    and "\<And>p. np = Some p \<Longrightarrow> p \<in> ran byId \<and> (p, c) \<notin> (parent_rel l)\<^sup>*"
  shows "forest (reparented c np l) byId byName pool"
proof -
  obtain rank where "falling rank l" using assms(1) by (auto simp: forest_def)
  then have "\<exists>rank. falling rank (reparented c np l)"
    using falling_reparented falling_reparented_root assms(3) by (cases np) blast+
  moreover have "p < pool" if "np = Some p" for p
    using assms(1,3) that by (auto simp: forest_def ids_ok_def ran_def)
  then have "ids_ok (reparented c np l) byId pool"
    using assms(1) by (auto simp: forest_def ids_ok_def reparented_simps)
  moreover have "tree_ok (reparented c np l) (ran byId)"
    using assms by (intro tree_reparented) (auto simp: forest_def)
  ultimately show ?thesis using assms(1) by (simp add: forest_def names_ok_def reparented_simps)
qed

subsection \<open>Adding, renaming and deleting\<close>

definition added :: "ptr \<Rightarrow> category \<Rightarrow> ptr option \<Rightarrow> links \<Rightarrow> links" where
  "added c e parent l =
     (let l1 = upd_category c (\<lambda>_. e) l
      in case parent of None \<Rightarrow> l1 | Some p \<Rightarrow> upd_category c (cat_parent_update (\<lambda>_. Some p)) (addChild p c l1))"

lemma added_simps:
  assumes "cat_parent e = None" "parent \<noteq> Some c"
  shows "cat_parent (lk_category (added c e parent l) x) = (if x = c then parent else cat_parent (lk_category l x))"
    "cat_id (lk_category (added c e parent l) x) = (if x = c then cat_id e else cat_id (lk_category l x))"
    "cat_name (lk_category (added c e parent l) x) = (if x = c then cat_name e else cat_name (lk_category l x))"
    "cat_children (lk_category (added c e parent l) x) =
       (if x = c then cat_children e
        else if parent = Some x then flat_insert c (cat_children (lk_category l x)) else cat_children (lk_category l x))"
  using assms by (cases parent; simp add: added_def addChild_def Let_def; fail)+

lemma forest_added:
  assumes forest: "forest l byId byName c" and new: "byId i = None" "byName (sortKey (cat_name e)) = None"
    and e: "cat_parent e = None" "cat_children e = []" "cat_id e = i"
    and parent: "\<And>p. parent = Some p \<Longrightarrow> p \<in> ran byId"
  shows "forest (added c e parent l) (byId(i \<mapsto> c)) (byName(sortKey (cat_name e) \<mapsto> c)) (Suc c)"
proof -
  let ?l = "added c e parent l"
  obtain rank where fall: "falling rank l" and ids: "ids_ok l byId c" and tree: "tree_ok l (ran byId)"
      and names: "names_ok l (ran byId) byName"
    using forest by (auto simp: forest_def)
  have below: "d < c" if "d \<in> ran byId" for d using ids_okD(2) [OF ids] that by (auto simp: ran_def)
  have parent': "parent \<noteq> Some c" using parent [of c] below [of c] by auto
  note simps = added_simps [OF e(1) parent', of l]
  have old: "cat_parent (lk_category l x) \<noteq> Some c" for x using ids_okD(3) [OF ids, of x c] by auto
  have "falling (\<lambda>x. if x = c then (case parent of None \<Rightarrow> 0 | Some p \<Rightarrow> Suc (rank p)) else rank x) ?l"
    unfolding falling_def simps
  proof (intro allI impI)
    fix x q assume q: "(if x = c then parent else cat_parent (lk_category l x)) = Some q"
    then have "q \<noteq> c" using parent' old [of x] by (auto split: if_splits)
    then show "(if q = c then (case parent of None \<Rightarrow> 0 | Some p \<Rightarrow> Suc (rank p)) else rank q) <
        (if x = c then (case parent of None \<Rightarrow> 0 | Some p \<Rightarrow> Suc (rank p)) else rank x)"
      using q fall by (cases "x = c") (simp_all add: falling_def)
  qed
  moreover have "ids_ok ?l (byId(i \<mapsto> c)) (Suc c)"
    unfolding ids_ok_def simps
  proof (intro conjI allI impI)
    fix j d assume "(byId(i \<mapsto> c)) j = Some d"
    then have "j = i \<and> d = c \<or> byId j = Some d" by (simp split: if_splits)
    then show "(if d = c then cat_id e else cat_id (lk_category l d)) = j" "d < Suc c"
      using e(3) ids_okD(1,2) [OF ids, of j d] by auto
  next
    fix x q assume "(if x = c then parent else cat_parent (lk_category l x)) = Some q"
    then show "q < Suc c"
      using parent [of q] below [of q] ids_okD(3) [OF ids, of x q] by (simp add: less_SucI split: if_splits)
  qed
  moreover have "tree_ok ?l (insert c (ran byId))"
    unfolding tree_ok_def simps
  proof (intro conjI ballI allI impI)
    fix d p assume d: "d \<in> insert c (ran byId)" and p: "(if d = c then parent else cat_parent (lk_category l d)) = Some p"
    have live: "p \<in> ran byId"
      using d p parent [of p] tree_okD(1) [OF tree, of d p] by (cases "d = c") simp_all
    then show "p \<in> insert c (ran byId)" by simp
    show "d \<in> set (if p = c then cat_children e
        else if parent = Some p then flat_insert c (cat_children (lk_category l p)) else cat_children (lk_category l p))"
      using d p below [OF live] tree_okD(2) [OF tree, of d p] by (cases "d = c") simp_all
  next
    fix p assume p: "p \<in> insert c (ran byId)"
    let ?cs = "if p = c then cat_children e
        else if parent = Some p then flat_insert c (cat_children (lk_category l p)) else cat_children (lk_category l p)"
    show "flat_set ?cs" using p e(2) tree_okD(3) [OF tree, of p] by (cases "p = c") (simp_all add: flat_set_insert)
    fix d assume "d \<in> set ?cs"
    then have "p \<noteq> c \<and> (d = c \<and> parent = Some p \<or> d \<in> set (cat_children (lk_category l p)))"
      using e(2) by (simp split: if_splits)
    then show "d \<in> insert c (ran byId)" "(if d = c then parent else cat_parent (lk_category l d)) = Some p"
      using p tree_okD(4,5) [OF tree, of p d] below [of d] by auto
  qed
  moreover have "names_ok ?l (insert c (ran byId)) (byName(sortKey (cat_name e) \<mapsto> c))"
    unfolding names_ok_def simps
  proof (intro allI)
    fix k d
    have "byName k = Some d \<longleftrightarrow> d \<in> ran byId \<and> sortKey (cat_name (lk_category l d)) = k"
      using names by (simp add: names_ok_def)
    then show "(byName(sortKey (cat_name e) \<mapsto> c)) k = Some d \<longleftrightarrow>
        d \<in> insert c (ran byId) \<and> sortKey (if d = c then cat_name e else cat_name (lk_category l d)) = k"
      using new(2) below [of d] by (cases "d = c") auto
  qed
  ultimately show ?thesis using new(1) by (auto simp: forest_def)
qed

lemma forest_renamed:
  assumes forest: "forest l byId byName pool" and c: "c \<in> ran byId" and new: "byName (sortKey name) = None"
  shows "forest (upd_category c (cat_name_update (\<lambda>_. name)) l) byId
    (name_replace (sortKey (cat_name (lk_category l c))) (sortKey name) c byName) pool"
proof -
  let ?l = "upd_category c (cat_name_update (\<lambda>_. name)) l"
  have simps: "cat_parent (lk_category ?l x) = cat_parent (lk_category l x)"
    "cat_id (lk_category ?l x) = cat_id (lk_category l x)" "cat_children (lk_category ?l x) = cat_children (lk_category l x)"
    "cat_name (lk_category ?l x) = (if x = c then name else cat_name (lk_category l x))" for x
    by simp_all
  have names: "byName k = Some d \<longleftrightarrow> d \<in> ran byId \<and> sortKey (cat_name (lk_category l d)) = k" for k d
    using forest by (simp add: forest_def names_ok_def)
  have "byName (sortKey (cat_name (lk_category l c))) = Some c" using names c by simp
  then have "name_replace (sortKey (cat_name (lk_category l c))) (sortKey name) c byName =
      (byName(sortKey (cat_name (lk_category l c)) := None))(sortKey name \<mapsto> c)"
    using new by (simp add: name_replace_def)
  moreover have "((byName(sortKey (cat_name (lk_category l c)) := None))(sortKey name \<mapsto> c)) k = Some d \<longleftrightarrow>
      d \<in> ran byId \<and> sortKey (if d = c then name else cat_name (lk_category l d)) = k" for k d
  proof -
    have "d \<in> ran byId \<Longrightarrow> sortKey (cat_name (lk_category l d)) \<noteq> sortKey name" using names [of "sortKey name" d] new by auto
    then show ?thesis using names [of k d] names [of k c] c by (cases "d = c") auto
  qed
  ultimately have "names_ok ?l (ran byId) (name_replace (sortKey (cat_name (lk_category l c))) (sortKey name) c byName)"
    unfolding names_ok_def simps by simp
  then show ?thesis
    using forest unfolding forest_def falling_def ids_ok_def tree_ok_def simps by blast
qed

definition cut_off :: "ptr \<Rightarrow> links \<Rightarrow> links" where
  "cut_off c l = (case cat_parent (lk_category l c) of None \<Rightarrow> l | Some p \<Rightarrow> removeChild p c l)"

lemma cut_off_simps:
  "cat_parent (lk_category (cut_off c l) x) = cat_parent (lk_category l x)"
  "cat_id (lk_category (cut_off c l) x) = cat_id (lk_category l x)"
  "cat_name (lk_category (cut_off c l) x) = cat_name (lk_category l x)"
  "cat_children (lk_category (cut_off c l) x) =
     (if cat_parent (lk_category l c) = Some x then flat_erase c (cat_children (lk_category l x)) else cat_children (lk_category l x))"
  by (cases "cat_parent (lk_category l c)"; simp add: cut_off_def removeChild_def; fail)+

lemma forest_cut_off:
  assumes forest: "forest l byId byName pool" and c: "byId i = Some c" and leaf: "cat_children (lk_category l c) = []"
  shows "forest (cut_off c l) (byId(i := None)) (byName(sortKey (cat_name (lk_category l c)) := None)) pool"
proof -
  have ids: "ids_ok l byId pool" and tree: "tree_ok l (ran byId)" and names: "names_ok l (ran byId) byName"
    using forest by (auto simp: forest_def)
  have live: "c \<in> ran byId" using c by (auto simp: ran_def)
  have "ids_ok (cut_off c l) (byId(i := None)) pool"
    using ids by (simp add: ids_ok_def cut_off_simps)
  moreover have "tree_ok (cut_off c l) (ran byId - {c})"
    unfolding tree_ok_def cut_off_simps
  proof (intro conjI ballI allI impI)
    fix d p assume d: "d \<in> ran byId - {c}" and p: "cat_parent (lk_category l d) = Some p"
    then have old: "p \<in> ran byId" "d \<in> set (cat_children (lk_category l p))" using tree_okD(1,2) [OF tree, of d p] by auto
    then show "p \<in> ran byId - {c}" using leaf by auto
    show "d \<in> set (if cat_parent (lk_category l c) = Some p then flat_erase c (cat_children (lk_category l p))
        else cat_children (lk_category l p))"
      using old d tree_okD(3) [OF tree old(1)] by (simp add: set_flat_erase)
  next
    fix p assume p: "p \<in> ran byId - {c}"
    let ?cs = "if cat_parent (lk_category l c) = Some p then flat_erase c (cat_children (lk_category l p))
        else cat_children (lk_category l p)"
    have flat: "flat_set (cat_children (lk_category l p))" using p tree_okD(3) [OF tree, of p] by simp
    then show "flat_set ?cs" by (simp add: flat_set_erase)
    fix d assume d: "d \<in> set ?cs"
    then have old: "d \<in> set (cat_children (lk_category l p))" using flat by (simp add: set_flat_erase split: if_splits)
    then have "d \<in> ran byId" "cat_parent (lk_category l d) = Some p" using p tree_okD(4,5) [OF tree, of p d] by auto
    moreover have "d \<noteq> c" using d flat calculation(2) by (auto simp: set_flat_erase)
    ultimately show "d \<in> ran byId - {c}" "cat_parent (lk_category l d) = Some p" by auto
  qed
  moreover have "names_ok (cut_off c l) (ran byId - {c}) (byName(sortKey (cat_name (lk_category l c)) := None))"
    unfolding names_ok_def cut_off_simps
  proof (intro allI)
    fix k d
    have n: "byName k = Some e \<longleftrightarrow> e \<in> ran byId \<and> sortKey (cat_name (lk_category l e)) = k" for e
      using names by (simp add: names_ok_def)
    show "(byName(sortKey (cat_name (lk_category l c)) := None)) k = Some d \<longleftrightarrow>
        d \<in> ran byId - {c} \<and> sortKey (cat_name (lk_category l d)) = k"
      using n [of d] n [of c] live by (cases "d = c") auto
  qed
  ultimately show ?thesis
    using forest ran_remove [OF ids c] by (simp add: forest_def falling_def cut_off_simps)
qed

subsection \<open>The children of a deleted category\<close>

lemma reparent_children:
  assumes "forest l byId byName pool" "set cs \<subseteq> ran byId"
  shows "\<exists>l'. loop_over (\<lambda>child. updateCategoryParent cx u child None) cs l = Some l' \<and> forest l' byId byName pool \<and>
     (\<forall>x. cat_parent (lk_category l' x) = (if x \<in> set cs then None else cat_parent (lk_category l x))) \<and>
     (\<forall>x. cat_id (lk_category l' x) = cat_id (lk_category l x) \<and> cat_name (lk_category l' x) = cat_name (lk_category l x))"
  using assms
proof (induction cs arbitrary: l)
  case (Cons c cs)
  then obtain rank where "falling rank l" by (auto simp: forest_def)
  then have "falling rank (upd_category c (cat_parent_update (\<lambda>_. None)) l)" by (simp add: falling_def)
  from updateCategoryParent_shape [OF this] obtain l1 where
    l1: "updateCategoryParent cx u c None l = Some l1" "shape l1 = shape (reparented c None l)" by blast
  have "forest (reparented c None l) byId byName pool" using Cons.prems by (intro forest_reparented) simp_all
  then have "forest l1 byId byName pool" using forest_shape [OF l1(2)] by simp
  from Cons.IH [OF this] Cons.prems(2) obtain l' where
    l': "loop_over (\<lambda>child. updateCategoryParent cx u child None) cs l1 = Some l'" "forest l' byId byName pool"
      "\<And>x. cat_parent (lk_category l' x) = (if x \<in> set cs then None else cat_parent (lk_category l1 x))"
      "\<And>x. cat_id (lk_category l' x) = cat_id (lk_category l1 x)" "\<And>x. cat_name (lk_category l' x) = cat_name (lk_category l1 x)"
    by auto
  note simps = shapeD [OF l1(2)] reparented_parent reparented_id reparented_name
  have "cat_parent (lk_category l' x) = (if x \<in> set (c # cs) then None else cat_parent (lk_category l x))" for x
    using l'(3) [of x] by (simp add: simps)
  then show ?case using l'(1,2,4,5) l1(1) by (simp add: simps)
qed simp

lemma no_children_left:
  assumes forest: "forest l byId byName pool" and forest': "forest l' byId byName pool" and c: "c \<in> ran byId"
    and parents: "\<forall>x. cat_parent (lk_category l' x) = (if x \<in> set (cat_children (lk_category l c)) then None else cat_parent (lk_category l x))"
  shows "cat_children (lk_category l' c) = []"
proof (rule ccontr)
  assume "cat_children (lk_category l' c) \<noteq> []"
  then obtain d where d: "d \<in> set (cat_children (lk_category l' c))" by (cases "cat_children (lk_category l' c)") auto
  have tree: "tree_ok l (ran byId)" "tree_ok l' (ran byId)" using forest forest' by (simp_all add: forest_def)
  have "d \<in> ran byId" "cat_parent (lk_category l' d) = Some c" using tree_okD(4,5) [OF tree(2) c d] by simp_all
  then have "cat_parent (lk_category l d) = Some c" "d \<notin> set (cat_children (lk_category l c))"
    using parents by (auto split: if_splits)
  with tree_okD(2) [OF tree(1) \<open>d \<in> ran byId\<close>] show False by simp
qed

lemma unlink_category_shape:
  assumes "falling rank l"
  shows "\<exists>l'. unlink_category now c l = Some l' \<and> shape l' = shape (cut_off c l)"
proof -
  define l1 where "l1 = fold (\<lambda>g l. snd (tag_unlinkCategory g c l)) (cat_tags (lk_category l c)) l"
  define l2 where "l2 = fold (\<lambda>t l. link_removeCategory now t c l) (tc_iterateThreads (cat_threads (lk_category l1 c))) l1"
  have "shape l1 = shape l" "shape l2 = shape l1" unfolding l1_def l2_def by (simp_all add: shape_fold)
  then have l2: "shape l2 = shape l" by simp
  have unlink: "unlink_category now c l = (case cat_parent (lk_category l2 c) of
      None \<Rightarrow> Some l2 | Some p \<Rightarrow> map_option (removeChild p c) (removeTotalsFromChild p c l2))"
    by (simp only: unlink_category_def Let_def l1_def l2_def)
  show ?thesis
  proof (cases "cat_parent (lk_category l c)")
    case None
    then show ?thesis using unlink l2 shapeD(1) [OF l2, of c] by (simp add: cut_off_def)
  next
    case (Some p)
    have "falling rank l2" using assms falling_shape [OF l2] by simp
    then obtain l3 where l3: "removeTotalsFromChild p c l2 = Some l3" "shape l3 = shape l2"
      using keeps_shapeD [OF keeps_totals(1)] by blast
    then have "shape l3 = shape l" using l2 by simp
    from shape_congs(1) [OF this, of p c] show ?thesis
      using unlink Some shapeD(1) [OF l2, of c] l3(1) by (simp add: cut_off_def)
  qed
qed

end
