(* ===== verification/CategoryRequests.thy ===== *)
theory CategoryRequests
  imports CategoryForest
begin

section \<open>Requests on categories and tags\<close>

text \<open>
  Every request on a category or a tag returns, and the categories stay a forest. The direct writes are followed
  first; a request is one of them behind look-ups and the authorization, which returns as no chain of parents is a
  cycle.
\<close>

subsection \<open>The invariant of the forum\<close>

definition forest_ok :: "forum \<Rightarrow> bool" where
  "forest_ok fo \<longleftrightarrow> forest (fo_links fo) (fo_categoriesById fo) (fo_categoriesByName fo) (fo_nextCategory fo)"

text \<open>\<open>used\<close> are the ids that were given to categories; the throttling buffers are those of some requests.\<close>

definition forum_ok :: "id_type set \<Rightarrow> forum \<Rightarrow> bool" where
  "forum_ok used fo \<longleftrightarrow> forest_ok fo \<and> dom (fo_categoriesById fo) \<subseteq> used \<and> (\<exists>H. dt_repr H (au_throttling (fo_authorization fo)))"

definition keeps_forum :: "id_type set \<Rightarrow> id_type set \<Rightarrow> repository_write \<Rightarrow> bool" where
  "keeps_forum used used' f \<longleftrightarrow> used \<subseteq> used' \<and>
     (\<forall>fo. forum_ok used fo \<longrightarrow> (\<exists>st fo'. f fo = Some (st, fo') \<and> forum_ok used' fo'))"

lemma keeps_forumD: "keeps_forum used used' f \<Longrightarrow> forum_ok used fo \<Longrightarrow> \<exists>st fo'. f fo = Some (st, fo') \<and> forum_ok used' fo'"
  by (simp add: keeps_forum_def)

lemma forum_ok_links:
  assumes "forum_ok used fo" "shape (fo_links fo') = shape (fo_links fo)" "fo_categoriesById fo' = fo_categoriesById fo"
    "fo_categoriesByName fo' = fo_categoriesByName fo" "fo_nextCategory fo' = fo_nextCategory fo" "fo_authorization fo' = fo_authorization fo"
  shows "forum_ok used fo'"
  using assms(1) forest_shape [OF assms(2)] assms(3-6) by (simp add: forum_ok_def forest_ok_def)

lemma forum_okD:
  assumes "forum_ok used fo"
  shows "forest (fo_links fo) (fo_categoriesById fo) (fo_categoriesByName fo) (fo_nextCategory fo)"
    "\<exists>rank. falling rank (fo_links fo)" "dom (fo_categoriesById fo) \<subseteq> used"
  using assms by (simp_all add: forum_ok_def forest_ok_def forest_def)

lemma fo_links_simps [simp]:
  "fo_links (set_links l fo) = l" "fo_links (update_user p f fo) = fo_links fo" "fo_links (observe cx p call fo) = fo_links fo"
  "fo_links (fo\<lparr>fo_authorization := a\<rparr>) = fo_links fo" "fo_links (fo\<lparr>fo_tagsById := i\<rparr>) = fo_links fo"
  "fo_links (fo\<lparr>fo_tagsByName := n\<rparr>) = fo_links fo" "fo_links (fo\<lparr>fo_nextTag := q\<rparr>) = fo_links fo"
  "fo_links (fo\<lparr>fo_categoriesById := i\<rparr>) = fo_links fo" "fo_links (fo\<lparr>fo_categoriesByName := n\<rparr>) = fo_links fo"
  "fo_links (fo\<lparr>fo_nextCategory := q\<rparr>) = fo_links fo"
  by (simp_all add: fo_links_def set_links_def links_of_def put_links_def update_user_def observe_def)

lemma set_links_simps [simp]:
  "fo_categoriesById (set_links l fo) = fo_categoriesById fo" "fo_categoriesByName (set_links l fo) = fo_categoriesByName fo"
  "fo_nextCategory (set_links l fo) = fo_nextCategory fo" "fo_authorization (set_links l fo) = fo_authorization fo"
  "fo_tagsById (set_links l fo) = fo_tagsById fo" "fo_tagsByName (set_links l fo) = fo_tagsByName fo"
  "fo_nextTag (set_links l fo) = fo_nextTag fo" "fo_threadsById (set_links l fo) = fo_threadsById fo"
  by (simp_all add: set_links_def)

lemma fo_category_links: "fo_category fo c = lk_category (fo_links fo) c"
  by (simp add: fo_category_def fo_links_def links_of_def)

text \<open>The steps that do not touch the categories.\<close>

lemma getCurrentUser_links [simp]:
  "fo_links (snd (getCurrentUser cx fo)) = fo_links fo" "fo_categoriesById (snd (getCurrentUser cx fo)) = fo_categoriesById fo"
  "fo_categoriesByName (snd (getCurrentUser cx fo)) = fo_categoriesByName fo"
  "fo_nextCategory (snd (getCurrentUser cx fo)) = fo_nextCategory fo" "fo_authorization (snd (getCurrentUser cx fo)) = fo_authorization fo"
  by (simp_all add: getCurrentUser_def update_user_def fo_links_def links_of_def split: option.split)

lemma getCurrentUser_ok: "getCurrentUser cx fo = (u, fo1) \<Longrightarrow> forum_ok used fo \<Longrightarrow> forum_ok used fo1"
  using getCurrentUser_links [of cx fo] by (elim forum_ok_links) simp_all

lemma getAndUpdate_ok: "performedBy_getAndUpdate cx fo = (u, fo1) \<Longrightarrow> forum_ok used fo \<Longrightarrow> forum_ok used fo1"
proof -
  assume get: "performedBy_getAndUpdate cx fo = (u, fo1)" and ok: "forum_ok used fo"
  obtain v fo2 where user: "getCurrentUser cx fo = (v, fo2)" by force
  from getCurrentUser_ok [OF user ok] have "forum_ok used fo2" .
  moreover have "forum_ok used (update_user p f fo2)" if "forum_ok used fo2" for p f
    by (rule forum_ok_links [OF that]) (simp_all add: update_user_def fo_links_def links_of_def)
  ultimately show ?thesis using get user by (auto simp: performedBy_getAndUpdate_def split: if_splits)
qed

lemma observe_ok: "forum_ok used fo \<Longrightarrow> forum_ok used (observe cx u call fo)"
  by (rule forum_ok_links) (simp_all add: observe_def fo_links_def)

lemma authorize_ok:
  assumes "\<exists>u. handler_of (context_of cx fo) u (h (context_of cx fo))" "forum_ok used fo"
  shows "\<exists>st fo'. authorize cx h fo = Some (st, fo') \<and> forum_ok used fo'"
proof -
  obtain u rank where u: "handler_of (context_of cx fo) u (h (context_of cx fo))" and rank: "falling rank (fo_links fo)"
    using assms forum_okD(2) by blast
  have "acyclic_parents (cx_heap (context_of cx fo)) rank"
    using rank by (simp add: acyclic_parents_def falling_def context_of_def fo_links_def links_of_def)
  from handler_well_behaved [OF u this] have behaved: "well_behaved (context_of cx fo) u (h (context_of cx fo))" .
  obtain H where "dt_repr H (au_throttling (fo_authorization fo))" using assms(2) by (auto simp: forum_ok_def)
  with behaved obtain st d reqs where
    run: "h (context_of cx fo) (fo_authorization fo) = Some (st, (fo_authorization fo)\<lparr>au_throttling := d\<rparr>)" "dt_repr (H @ reqs) d"
    unfolding well_behaved_def by blast
  let ?fo = "fo\<lparr>fo_authorization := (fo_authorization fo)\<lparr>au_throttling := d\<rparr>\<rparr>"
  have "forest_ok ?fo = forest_ok fo" by (simp add: forest_ok_def)
  then have "forum_ok used ?fo" using assms(2) run(2) by (auto simp: forum_ok_def)
  then show ?thesis using run(1) by (simp add: authorize_def)
qed

subsection \<open>Combinators\<close>

named_theorems keeps_forum_intros

lemma keeps_return [keeps_forum_intros]: "used \<subseteq> used' \<Longrightarrow> keeps_forum used used' (\<lambda>fo. Some (st fo, fo))"
  by (auto simp: keeps_forum_def forum_ok_def)

lemma keeps_forum_if [keeps_forum_intros]:
  "keeps_forum used used' f \<Longrightarrow> keeps_forum used used' g \<Longrightarrow> keeps_forum used used' (\<lambda>fo. if b fo then f fo else g fo)"
  by (auto simp: keeps_forum_def)

lemma keeps_forum_option [keeps_forum_intros]:
  "keeps_forum used used' f \<Longrightarrow> (\<And>y. keeps_forum used used' (g y)) \<Longrightarrow>
   keeps_forum used used' (\<lambda>fo. case x fo of None \<Rightarrow> f fo | Some y \<Rightarrow> g y fo)"
  by (auto simp: keeps_forum_def split: option.split)

lemma keeps_authorized [keeps_forum_intros]:
  assumes "\<And>fo ax. \<exists>u. handler_of ax u (h fo ax)" "\<And>fo. keeps_forum used used' (change fo)" "used \<subseteq> used'"
  shows "keeps_forum used used' (\<lambda>fo. authorized_change cx u (h fo) (call fo) (change fo) fo)"
    "keeps_forum used used' (\<lambda>fo. authorized_write cx u (h fo) (write fo) (change fo) fo)"
proof -
  have mono: "forum_ok used fo \<Longrightarrow> forum_ok used' fo" for fo using assms(3) by (auto simp: forum_ok_def)
  have "\<exists>st fo'. authorized_change cx u (h fo) (call fo) (change fo) fo = Some (st, fo') \<and> forum_ok used' fo'"
      "\<exists>st fo'. authorized_write cx u (h fo) (write fo) (change fo) fo = Some (st, fo') \<and> forum_ok used' fo'"
    if ok: "forum_ok used fo" for fo
  proof -
    obtain st fo1 where auth: "authorize cx (h fo) fo = Some (st, fo1)" "forum_ok used fo1"
      using authorize_ok [where h = "h fo", OF assms(1) ok, of cx] by blast
    obtain st2 fo2 where change: "change fo fo1 = Some (st2, fo2)" "forum_ok used' fo2"
      using keeps_forumD [OF assms(2) auth(2)] by blast
    show "\<exists>st fo'. authorized_change cx u (h fo) (call fo) (change fo) fo = Some (st, fo') \<and> forum_ok used' fo'"
      using auth change mono [OF auth(2)] observe_ok [OF change(2)] by (simp add: authorized_change_def)
    show "\<exists>st fo'. authorized_write cx u (h fo) (write fo) (change fo) fo = Some (st, fo') \<and> forum_ok used' fo'"
      using auth mono [OF auth(2)] keeps_forumD [OF assms(2) observe_ok [OF auth(2)]] by (simp add: authorized_write_def)
  qed
  then show "keeps_forum used used' (\<lambda>fo. authorized_change cx u (h fo) (call fo) (change fo) fo)"
    "keeps_forum used used' (\<lambda>fo. authorized_write cx u (h fo) (write fo) (change fo) fo)"
    using assms(3) by (simp_all add: keeps_forum_def)
qed

lemma keeps_current_user:
  assumes "\<And>u. keeps_forum used used' (body u)"
  shows "keeps_forum used used' (\<lambda>fo. let (currentUser, fo1) = performedBy_getAndUpdate cx fo in body currentUser fo1)"
  unfolding keeps_forum_def
proof (intro conjI allI impI)
  show "used \<subseteq> used'" using assms by (simp add: keeps_forum_def)
  fix fo assume ok: "forum_ok used fo"
  obtain u fo1 where get: "performedBy_getAndUpdate cx fo = (u, fo1)" by force
  from keeps_forumD [OF assms getAndUpdate_ok [OF get ok]] get
  show "\<exists>st fo'. (let (currentUser, fo1) = performedBy_getAndUpdate cx fo in body currentUser fo1) = Some (st, fo') \<and> forum_ok used' fo'"
    by simp
qed

lemma keeps_with [keeps_forum_intros]:
  "used \<subseteq> used' \<Longrightarrow> (\<And>u c. keeps_forum used used' (body u c)) \<Longrightarrow> keeps_forum used used' (with_category_by_id cx cid body)"
  "used \<subseteq> used' \<Longrightarrow> (\<And>u c. keeps_forum used used' (body u c)) \<Longrightarrow> keeps_forum used used' (with_tag_by_id cx gid body)"
  "used \<subseteq> used' \<Longrightarrow> (\<And>u g c. keeps_forum used used' (body3 u g c)) \<Longrightarrow> keeps_forum used used' (with_tag_and_category cx gid cid body3)"
  "used \<subseteq> used' \<Longrightarrow> (\<And>u g t. keeps_forum used used' (body3 u g t)) \<Longrightarrow> keeps_forum used used' (with_tag_and_thread cx gid tid body3)"
proof -
  show category: "used \<subseteq> used' \<Longrightarrow> (\<And>u c. keeps_forum used used' (body u c)) \<Longrightarrow> keeps_forum used used' (with_category_by_id cx cid body)" for body
    unfolding with_category_by_id_def [abs_def] by (intro keeps_current_user keeps_forum_intros) auto
  show tag: "used \<subseteq> used' \<Longrightarrow> (\<And>u c. keeps_forum used used' (body u c)) \<Longrightarrow> keeps_forum used used' (with_tag_by_id cx gid body)" for body
    unfolding with_tag_by_id_def [abs_def] by (intro keeps_current_user keeps_forum_intros) auto
  show "used \<subseteq> used' \<Longrightarrow> (\<And>u g c. keeps_forum used used' (body3 u g c)) \<Longrightarrow> keeps_forum used used' (with_tag_and_category cx gid cid body3)"
    unfolding with_tag_and_category_def [abs_def] by (intro keeps_current_user keeps_forum_intros) auto
  show "used \<subseteq> used' \<Longrightarrow> (\<And>u g t. keeps_forum used used' (body3 u g t)) \<Longrightarrow> keeps_forum used used' (with_tag_and_thread cx gid tid body3)"
    unfolding with_tag_and_thread_def by (intro tag keeps_forum_intros) auto
qed

subsection \<open>Direct writes of categories\<close>

lemma keepsI:
  assumes "\<And>fo. forum_ok used fo \<Longrightarrow> \<exists>st fo'. f fo = Some (st, fo') \<and> forum_ok used fo'"
  shows "keeps_forum used used f"
  using assms by (simp add: keeps_forum_def)

text \<open>A step on the links that keeps their shape, by the current user.\<close>

lemma links_step:
  assumes "forum_ok used fo" "getCurrentUser cx fo = (u, fo1)" "shape l = shape (fo_links fo1)"
  shows "forum_ok used (set_links l fo1)"
  by (rule forum_ok_links [OF getCurrentUser_ok [OF assms(2,1)]]) (simp_all add: assms(3))

lemma direct_description_keeps: "keeps_forum used used (direct_changeDiscussionCategoryDescription cx cid d)"
  unfolding direct_changeDiscussionCategoryDescription_def [abs_def]
proof (intro keeps_forum_intros)
  fix c show "keeps_forum used used (\<lambda>fo. let (currentUser, fo1) = getCurrentUser cx fo;
      l = upd_category c (cat_description_update (\<lambda>_. d)) (fo_links fo1)
    in Some (STATUS_OK, set_links (category_updateLastUpdated cx currentUser c l) fo1))"
  proof (rule keepsI)
    fix fo assume ok: "forum_ok used fo"
    obtain u fo1 where user: "getCurrentUser cx fo = (u, fo1)" by force
    show "\<exists>st fo'. (let (currentUser, fo1) = getCurrentUser cx fo;
        l = upd_category c (cat_description_update (\<lambda>_. d)) (fo_links fo1)
      in Some (STATUS_OK, set_links (category_updateLastUpdated cx currentUser c l) fo1)) = Some (st, fo') \<and> forum_ok used fo'"
      using links_step [OF ok user] user by (simp add: Let_def)
  qed
qed simp

lemma direct_display_keeps: "keeps_forum used used (direct_changeDiscussionCategoryDisplayOrder cx cid v)"
  unfolding direct_changeDiscussionCategoryDisplayOrder_def [abs_def]
proof (intro keeps_forum_intros)
  fix c show "keeps_forum used used (\<lambda>fo. let (currentUser, fo1) = getCurrentUser cx fo;
      l = category_updateDisplayOrder v c (fo_links fo1)
    in Some (STATUS_OK, set_links (category_updateLastUpdated cx currentUser c l) fo1))"
  proof (rule keepsI)
    fix fo assume ok: "forum_ok used fo"
    obtain u fo1 where user: "getCurrentUser cx fo = (u, fo1)" by force
    show "\<exists>st fo'. (let (currentUser, fo1) = getCurrentUser cx fo;
        l = category_updateDisplayOrder v c (fo_links fo1)
      in Some (STATUS_OK, set_links (category_updateLastUpdated cx currentUser c l) fo1)) = Some (st, fo') \<and> forum_ok used fo'"
      using links_step [OF ok user] user by (simp add: Let_def)
  qed
qed simp

lemma live_category: "fo_categoriesById fo i = Some c \<Longrightarrow> c \<in> ran (fo_categoriesById fo)"
  by (auto simp: ran_def)

lemma direct_add_keeps:
  assumes "cid \<notin> used"
  shows "keeps_forum used (insert cid used) (direct_addNewDiscussionCategory nm cx cid name parentId)"
  unfolding keeps_forum_def
proof (intro conjI allI impI)
  fix fo assume ok: "forum_ok used fo"
  let ?name = "JsonReadyStringWithSortKey nm name"
  let ?e = "new_category cid ?name (rx_time cx) (rx_ip cx)"
  let ?c = "fo_nextCategory fo"
  show "\<exists>st fo'. direct_addNewDiscussionCategory nm cx cid name parentId fo = Some (st, fo') \<and> forum_ok (insert cid used) fo'"
  proof (cases "fo_categoriesByName fo (sortKey ?name) = None")
    case False
    then show ?thesis using ok by (auto simp: direct_addNewDiscussionCategory_def forum_ok_def)
  next
    case True
    define parent where "parent = (if parentId = 0 then None else fo_categoriesById fo parentId)"
    let ?l = "added ?c ?e parent (fo_links fo)"
    have e: "cat_parent ?e = None" "cat_children ?e = []" "cat_id ?e = cid" "cat_name ?e = ?name" by (simp_all add: new_category_def)
    have free: "fo_categoriesById fo cid = None" using assms forum_okD(3) [OF ok] by auto
    have live: "p \<in> ran (fo_categoriesById fo)" if "parent = Some p" for p
      using that live_category by (auto simp: parent_def split: if_splits)
    from forest_added [OF forum_okD(1) [OF ok] free _ e(1-3) live] True e(4)
    have forest: "forest ?l ((fo_categoriesById fo)(cid \<mapsto> ?c)) ((fo_categoriesByName fo)(sortKey ?name \<mapsto> ?c)) (Suc ?c)"
      by simp
    have below: "p < ?c" if "p \<in> ran (fo_categoriesById fo)" for p
      using forum_okD(1) [OF ok] that by (auto simp: forest_def ids_ok_def ran_def)
    then have "parent \<noteq> Some ?c" using live [of ?c] by auto
    note at = added_simps(2,3) [OF e(1) this, of "fo_links fo" ?c]
    define fo1 where "fo1 = set_links ?l (fo\<lparr>fo_nextCategory := Suc ?c\<rparr>)"
    have new: "cat_id (fo_category fo1 ?c) = cid" "cat_name (fo_category fo1 ?c) = ?name"
      using at e by (simp_all add: fo_category_links fo1_def)
    have "direct_addNewDiscussionCategory nm cx cid name parentId fo = Some (STATUS_OK, insertDiscussionCategory ?c fo1)"
      using True by (auto simp: direct_addNewDiscussionCategory_def Let_def added_def parent_def fo1_def split: option.split)
    moreover have "insertDiscussionCategory ?c fo1 = fo1\<lparr>fo_categoriesById := (fo_categoriesById fo)(cid \<mapsto> ?c),
        fo_categoriesByName := (fo_categoriesByName fo)(sortKey ?name \<mapsto> ?c)\<rparr>"
      unfolding insertDiscussionCategory_def Let_def new using free True by (simp add: name_insert_def fo1_def)
    moreover have "forum_ok (insert cid used) \<dots>"
      using forest ok by (auto simp: forum_ok_def forest_ok_def fo1_def)
    ultimately show ?thesis by simp
  qed
qed auto

lemma direct_name_keeps: "keeps_forum used used (direct_changeDiscussionCategoryName nm cx cid newName)"
proof (rule keepsI)
  fix fo assume ok: "forum_ok used fo"
  let ?name = "JsonReadyStringWithSortKey nm newName"
  show "\<exists>st fo'. direct_changeDiscussionCategoryName nm cx cid newName fo = Some (st, fo') \<and> forum_ok used fo'"
  proof (cases "\<exists>c. fo_categoriesById fo cid = Some c \<and> fo_categoriesByName fo (sortKey ?name) = None")
    case False
    then show ?thesis using ok by (cases "fo_categoriesById fo cid") (auto simp: direct_changeDiscussionCategoryName_def)
  next
    case True
    then obtain c where c: "fo_categoriesById fo cid = Some c" "fo_categoriesByName fo (sortKey ?name) = None" by blast
    obtain u fo1 where user: "getCurrentUser cx fo = (u, fo1)" by force
    note links = getCurrentUser_links [of cx fo, unfolded user snd_conv]
    from forest_renamed [OF forum_okD(1) [OF ok] live_category [OF c(1)] c(2)]
    have "forest_ok (category_updateName ?name c fo1)"
      by (simp add: forest_ok_def category_updateName_def Let_def fo_category_links links)
    then have "forum_ok used (category_updateName ?name c fo1)"
      using ok by (simp add: forum_ok_def category_updateName_def Let_def links)
    then have "forum_ok used (set_links (category_updateLastUpdated cx u c (fo_links (category_updateName ?name c fo1)))
        (category_updateName ?name c fo1))"
      by (rule forum_ok_links) simp_all
    then show ?thesis using c user by (simp add: direct_changeDiscussionCategoryName_def Let_def)
  qed
qed

text \<open>No category becomes its own ancestor, since a new parent below it is refused.\<close>

lemma not_ancestor:
  assumes "falling rank l" "hasAncestor l p c = Some False" "p \<noteq> c"
  shows "(p, c) \<notin> (parent_rel l)\<^sup>*"
proof
  assume "(p, c) \<in> (parent_rel l)\<^sup>*"
  then obtain q where "cat_parent (lk_category l p) = Some q" "(q, c) \<in> (parent_rel l)\<^sup>*"
    using assms(3) by (cases rule: converse_rtranclE) (simp_all add: parent_rel_def)
  then show False using parentsInclude_iff [OF assms(1), of c "cat_parent (lk_category l p)" False] assms(2)
    by (simp add: hasAncestor_def)
qed

lemma move_forest:
  assumes forest: "forest l byId byName pool" and c: "c \<in> ran byId"
    and np: "\<And>p. np = Some p \<Longrightarrow> p \<in> ran byId \<and> (p, c) \<notin> (parent_rel l)\<^sup>*"
    and old: "l0 = l \<or> (\<exists>p. cat_parent (lk_category l c) = Some p \<and> l0 = removeChild p c l)"
  shows "\<exists>l'. updateCategoryParent cx u c np l0 = Some l' \<and> forest l' byId byName pool"
proof -
  from forest_reparented [OF forest c np] have moved: "forest (reparented c np l) byId byName pool" .
  then obtain rank where rank: "falling rank (reparented c np l)" by (auto simp: forest_def)
  have parent0: "cat_parent (lk_category l0 x) = cat_parent (lk_category l x)" for x
    using old by (auto simp: removeChild_def)
  have "falling rank (upd_category c (cat_parent_update (\<lambda>_. np)) l0)"
    using rank by (simp add: falling_def reparented_parent parent0)
  from updateCategoryParent_shape [OF this] obtain l' where
    l': "updateCategoryParent cx u c np l0 = Some l'" "shape l' = shape (reparented c np l0)" by blast
  have "forest (reparented c np l0) byId byName pool"
  proof (cases "l0 = l")
    case False
    with old obtain p where p: "cat_parent (lk_category l c) = Some p" "l0 = removeChild p c l" by blast
    have tree: "tree_ok l (ran byId)" using forest by (simp add: forest_def)
    have "flat_set (cat_children (lk_category l p))" using tree_okD(1) [OF tree c p(1)] tree_okD(3) [OF tree] by blast
    then have "flat_erase c (flat_erase c (cat_children (lk_category l p))) = flat_erase c (cat_children (lk_category l p))"
      by (simp add: flat_erase_def flat_set_def remove1_idem)
    moreover have "cat_children (lk_category l0 x) =
        (if x = p then flat_erase c (cat_children (lk_category l x)) else cat_children (lk_category l x))" for x
      using p(2) by (simp add: removeChild_def)
    ultimately have children: "cat_children (lk_category (reparented c np l0) x) = cat_children (lk_category (reparented c np l) x)" for x
      using p(1) by (cases "x = p") (simp_all add: reparented_children parent0)
    have "cat_id (lk_category l0 x) = cat_id (lk_category l x)" "cat_name (lk_category l0 x) = cat_name (lk_category l x)" for x
      using p(2) by (simp_all add: removeChild_def)
    then have "shape (reparented c np l0) = shape (reparented c np l)"
      by (simp add: shape_def fun_eq_iff children reparented_parent reparented_id reparented_name parent0)
    from forest_shape [OF this] moved show ?thesis by simp
  qed (use moved in simp)
  with forest_shape [OF l'(2)] l'(1) show ?thesis by simp
qed

lemma forum_ok_set_links:
  assumes "forum_ok used fo" "getCurrentUser cx fo = (u, fo1)"
    "forest l (fo_categoriesById fo) (fo_categoriesByName fo) (fo_nextCategory fo)"
  shows "forum_ok used (set_links l fo1)"
  using assms(1,3) getCurrentUser_links [of cx fo, unfolded assms(2) snd_conv] by (simp add: forum_ok_def forest_ok_def)

lemma direct_parent_keeps:
  assumes "cid \<noteq> newParentId"
  shows "keeps_forum used used (direct_changeDiscussionCategoryParent cx cid newParentId)"
proof (rule keepsI)
  fix fo assume ok: "forum_ok used fo"
  let ?l = "fo_links fo"
  note forest = forum_okD(1) [OF ok]
  obtain rank where fall: "falling rank ?l" using forum_okD(2) [OF ok] by blast
  obtain u fo1 where user: "getCurrentUser cx fo = (u, fo1)" by force
  show "\<exists>st fo'. direct_changeDiscussionCategoryParent cx cid newParentId fo = Some (st, fo') \<and> forum_ok used fo'"
  proof (cases "fo_categoriesById fo cid")
    case None
    then show ?thesis using ok by (simp add: direct_changeDiscussionCategoryParent_def)
  next
    case (Some c)
    let ?np = "fo_categoriesById fo newParentId"
    let ?circular = "case ?np of None \<Rightarrow> Some False | Some p \<Rightarrow> hasAncestor ?l p c"
    have "hasAncestor ?l p c \<noteq> None" for p
      unfolding hasAncestor_def using hasAncestor_total [OF fall] by (metis option.distinct(1))
    then have "?circular \<noteq> None" by (cases ?np) simp_all
    then obtain b where b: "?circular = Some b" by blast
    show ?thesis
    proof (cases b)
      case True
      then show ?thesis using Some b ok by (simp add: direct_changeDiscussionCategoryParent_def)
    next
      case False
      have np: "p \<in> ran (fo_categoriesById fo) \<and> (p, c) \<notin> (parent_rel ?l)\<^sup>*" if p: "?np = Some p" for p
      proof -
        have ids: "ids_ok ?l (fo_categoriesById fo) (fo_nextCategory fo)" using forest by (simp add: forest_def)
        have "p \<noteq> c" using ids_okD(1) [OF ids Some] ids_okD(1) [OF ids p] assms by auto
        then show ?thesis using not_ancestor [OF fall, of p c] b False p live_category [OF p] by simp
      qed
      have move: "\<exists>l'. updateCategoryParent cx u c ?np l0 = Some l' \<and> forum_ok used (set_links l' fo1)"
        if "l0 = ?l \<or> (\<exists>p. cat_parent (lk_category ?l c) = Some p \<and> l0 = removeChild p c ?l)" for l0
        using move_forest [OF forest live_category [OF Some] np that] forum_ok_set_links [OF ok user] by blast
      show ?thesis
      proof (cases "cat_parent (fo_category fo c)")
        case None
        obtain l' where "updateCategoryParent cx u c ?np ?l = Some l'" "forum_ok used (set_links l' fo1)" using move by blast
        then show ?thesis using Some b False None user by (simp add: direct_changeDiscussionCategoryParent_def Let_def)
      next
        case parent: (Some p)
        then obtain l' where "updateCategoryParent cx u c ?np (removeChild p c ?l) = Some l'" "forum_ok used (set_links l' fo1)"
          using move [of "removeChild p c ?l"] by (auto simp: fo_category_links)
        then show ?thesis using Some b False parent user ok by (simp add: direct_changeDiscussionCategoryParent_def Let_def)
      qed
    qed
  qed
qed

lemma direct_delete_keeps: "keeps_forum used used (direct_deleteDiscussionCategory cx cid)"
proof (rule keepsI)
  fix fo assume ok: "forum_ok used fo"
  note forest = forum_okD(1) [OF ok]
  obtain u fo1 where user: "getCurrentUser cx fo = (u, fo1)" by force
  note links = getCurrentUser_links [of cx fo, unfolded user snd_conv]
  show "\<exists>st fo'. direct_deleteDiscussionCategory cx cid fo = Some (st, fo') \<and> forum_ok used fo'"
  proof (cases "fo_categoriesById fo cid")
    case None
    then show ?thesis using ok by (simp add: direct_deleteDiscussionCategory_def)
  next
    case (Some c)
    let ?cs = "cat_children (lk_category (fo_links fo) c)"
    have live: "c \<in> ran (fo_categoriesById fo)" by (rule live_category [OF Some])
    have "tree_ok (fo_links fo) (ran (fo_categoriesById fo))" using forest by (simp add: forest_def)
    then have "set ?cs \<subseteq> ran (fo_categoriesById fo)" using tree_okD(4) [OF _ live] by blast
    from reparent_children [OF forest this, of cx u] obtain l' where
      loop: "loop_over (\<lambda>child. updateCategoryParent cx u child None) ?cs (fo_links fo) = Some l'"
      and forest': "forest l' (fo_categoriesById fo) (fo_categoriesByName fo) (fo_nextCategory fo)"
      and parents: "\<forall>x. cat_parent (lk_category l' x) = (if x \<in> set ?cs then None else cat_parent (lk_category (fo_links fo) x))"
      by blast
    let ?name = "sortKey (cat_name (lk_category l' c))"
    from forest_cut_off [OF forest' Some no_children_left [OF forest forest' live parents]]
    have cut: "forest (cut_off c l') ((fo_categoriesById fo)(cid := None)) ((fo_categoriesByName fo)(?name := None)) (fo_nextCategory fo)" .
    have "\<exists>rank. falling rank l'" using forest' by (simp add: forest_def)
    then obtain l2 where l2: "unlink_category (rx_time cx) c l' = Some l2" "shape l2 = shape (cut_off c l')"
      using unlink_category_shape by blast
    have id: "cat_id (lk_category l' c) = cid" using forest' Some by (simp add: forest_def ids_ok_def)
    let ?fo = "set_links l2 ((set_links l' fo1)\<lparr>fo_categoriesById := (fo_categoriesById fo)(cid := None),
        fo_categoriesByName := (fo_categoriesByName fo)(?name := None)\<rparr>)"
    have "collection_deleteDiscussionCategory (rx_time cx) c (set_links l' fo1) = Some ?fo"
      using Some l2(1) id by (simp add: collection_deleteDiscussionCategory_def Let_def fo_category_links links)
    moreover have "forum_ok used ?fo"
      using cut forest_shape [OF l2(2)] ok by (auto simp: forum_ok_def forest_ok_def links)
    ultimately show ?thesis
      using Some user loop by (simp add: direct_deleteDiscussionCategory_def fo_category_links links)
  qed
qed

lemma set_links_ok: "forum_ok used fo \<Longrightarrow> shape l = shape (fo_links fo) \<Longrightarrow> forum_ok used (set_links l fo)"
  by (rule forum_ok_links) simp_all

text \<open>A link is made or removed, and what depends on it is brought up to date.\<close>

lemma keeps_linked:
  assumes link: "\<And>l. shape (snd (link l)) = shape l" and last: "\<And>u l. shape (finish u l) = shape l"
    and step: "\<And>l rank. falling rank l \<Longrightarrow> \<exists>b l'. step l = Some (b, l') \<and> shape l' = shape l"
  shows "keeps_forum used used (\<lambda>fo. let (done', l) = link (fo_links fo)
      in if \<not> done' then Some (NO_EFFECT, set_links l fo)
         else let (currentUser, fo1) = getCurrentUser cx (set_links l fo)
              in map_option (\<lambda>(_, l1). (STATUS_OK, set_links (finish currentUser l1) fo1)) (step (fo_links fo1)))"
    "keeps_forum used used (\<lambda>fo. let (currentUser, fo1) = getCurrentUser cx fo; (done', l) = link (fo_links fo1)
      in if \<not> done' then Some (NO_EFFECT, set_links l fo1)
         else map_option (\<lambda>(_, l1). (STATUS_OK, set_links (finish currentUser l1) fo1)) (step l))"
proof -
  have total: "\<exists>b l1. step l = Some (b, l1) \<and> forum_ok used (set_links (finish u l1) fo)"
    if ok: "forum_ok used fo" and l: "shape l = shape (fo_links fo)" for fo l u
  proof -
    obtain rank where "falling rank (fo_links fo)" using forum_okD(2) [OF ok] by blast
    then have "falling rank l" using falling_shape [OF l] by simp
    from step [OF this] obtain b l1 where l1: "step l = Some (b, l1)" "shape l1 = shape l" by blast
    have "forum_ok used (set_links (finish u l1) fo)" using set_links_ok [OF ok] last l1(2) l by simp
    then show ?thesis using l1(1) by simp
  qed
  show "keeps_forum used used (\<lambda>fo. let (done', l) = link (fo_links fo)
      in if \<not> done' then Some (NO_EFFECT, set_links l fo)
         else let (currentUser, fo1) = getCurrentUser cx (set_links l fo)
              in map_option (\<lambda>(_, l1). (STATUS_OK, set_links (finish currentUser l1) fo1)) (step (fo_links fo1)))"
  proof (rule keepsI)
    fix fo assume ok: "forum_ok used fo"
    obtain d l where l: "link (fo_links fo) = (d, l)" by force
    obtain u fo1 where user: "getCurrentUser cx (set_links l fo) = (u, fo1)" by force
    have ok0: "forum_ok used (set_links l fo)" using set_links_ok [OF ok] link [of "fo_links fo"] l by simp
    show "\<exists>st fo'. (let (done', l) = link (fo_links fo)
      in if \<not> done' then Some (NO_EFFECT, set_links l fo)
         else let (currentUser, fo1) = getCurrentUser cx (set_links l fo)
              in map_option (\<lambda>(_, l1). (STATUS_OK, set_links (finish currentUser l1) fo1)) (step (fo_links fo1))) = Some (st, fo') \<and>
        forum_ok used fo'"
      using ok0 total [OF getCurrentUser_ok [OF user ok0] refl, of u] l user by auto
  qed
  show "keeps_forum used used (\<lambda>fo. let (currentUser, fo1) = getCurrentUser cx fo; (done', l) = link (fo_links fo1)
      in if \<not> done' then Some (NO_EFFECT, set_links l fo1)
         else map_option (\<lambda>(_, l1). (STATUS_OK, set_links (finish currentUser l1) fo1)) (step l))"
  proof (rule keepsI)
    fix fo assume ok: "forum_ok used fo"
    obtain u fo1 where user: "getCurrentUser cx fo = (u, fo1)" by force
    obtain d l where l: "link (fo_links fo1) = (d, l)" by force
    note ok1 = getCurrentUser_ok [OF user ok]
    have shape: "shape l = shape (fo_links fo1)" using link [of "fo_links fo1"] l by simp
    show "\<exists>st fo'. (let (currentUser, fo1) = getCurrentUser cx fo; (done', l) = link (fo_links fo1)
      in if \<not> done' then Some (NO_EFFECT, set_links l fo1)
         else map_option (\<lambda>(_, l1). (STATUS_OK, set_links (finish currentUser l1) fo1)) (step l)) = Some (st, fo') \<and> forum_ok used fo'"
      using set_links_ok [OF ok1 shape] total [OF ok1 shape, of u] l user by auto
  qed
qed

lemma direct_tag_category_keeps:
  "keeps_forum used used (direct_addDiscussionTagToCategory cx gid cid)"
  "keeps_forum used used (direct_removeDiscussionTagFromCategory cx gid cid)"
  unfolding direct_addDiscussionTagToCategory_def [abs_def] direct_removeDiscussionTagFromCategory_def [abs_def]
  by (intro keeps_forum_intros subset_refl keeps_linked category_addTag_keeps category_removeTag_keeps; simp)+

subsection \<open>Direct writes of tags\<close>

lemma direct_add_tag_keeps: "keeps_forum used used (direct_addNewDiscussionTag nm cx gid name)"
proof (rule keepsI)
  fix fo assume ok: "forum_ok used fo"
  let ?l = "upd_tag (fo_nextTag fo) (\<lambda>_. new_tag gid (JsonReadyStringWithSortKey nm name) (rx_time cx) (rx_ip cx)) (fo_links fo)"
  have "forum_ok used (insertDiscussionTag g (set_links ?l (fo\<lparr>fo_nextTag := p\<rparr>)))" for g p
    by (rule forum_ok_links [OF ok]) (simp_all add: insertDiscussionTag_def Let_def)
  then show "\<exists>st fo'. direct_addNewDiscussionTag nm cx gid name fo = Some (st, fo') \<and> forum_ok used fo'"
    using ok by (simp add: direct_addNewDiscussionTag_def Let_def)
qed

lemma direct_tag_name_keeps: "keeps_forum used used (direct_changeDiscussionTagName nm cx gid newName)"
proof (rule keepsI)
  fix fo assume ok: "forum_ok used fo"
  obtain u fo1 where user: "getCurrentUser cx fo = (u, fo1)" by force
  note ok1 = getCurrentUser_ok [OF user ok]
  have "forum_ok used (tag_updateName name g fo1)" for name g
    by (rule forum_ok_links [OF ok1]) (simp_all add: tag_updateName_def Let_def)
  then have "forum_ok used (set_links (tag_updateLastUpdated cx u g (fo_links (tag_updateName name g fo1))) (tag_updateName name g fo1))" for name g
    by (rule set_links_ok) simp
  then show "\<exists>st fo'. direct_changeDiscussionTagName nm cx gid newName fo = Some (st, fo') \<and> forum_ok used fo'"
    using user ok1 by (simp add: direct_changeDiscussionTagName_def Let_def split: option.split)
qed

lemma direct_tag_blob_keeps: "keeps_forum used used (direct_changeDiscussionTagUiBlob gid blob)"
  by (rule keepsI) (simp add: direct_changeDiscussionTagUiBlob_def set_links_ok split: option.split)

lemma collection_delete_tag_ok:
  assumes "forum_ok used fo"
  shows "\<exists>fo'. collection_deleteDiscussionTag now g fo = Some fo' \<and> forum_ok used fo'"
proof -
  obtain rank where "falling rank (fo_links fo)" using forum_okD(2) [OF assms] by blast
  then obtain l where l: "unlink_tag now g (fo_links fo) = Some l" "shape l = shape (fo_links fo)"
    using keeps_shapeD [OF unlink_tag_keeps] by blast
  have "forum_ok used (set_links l (fo\<lparr>fo_tagsById := i, fo_tagsByName := n\<rparr>))" for i n
    by (rule forum_ok_links [OF assms]) (simp_all add: l(2))
  then show ?thesis using l(1) assms by (simp add: collection_deleteDiscussionTag_def Let_def)
qed

lemma direct_delete_tag_keeps: "keeps_forum used used (direct_deleteDiscussionTag cx gid)"
proof (rule keepsI)
  fix fo assume ok: "forum_ok used fo"
  show "\<exists>st fo'. direct_deleteDiscussionTag cx gid fo = Some (st, fo') \<and> forum_ok used fo'"
  proof (cases "fo_tagsById fo gid")
    case (Some g)
    then show ?thesis using collection_delete_tag_ok [OF ok, of "rx_time cx" g] by (auto simp: direct_deleteDiscussionTag_def)
  qed (simp add: direct_deleteDiscussionTag_def ok)
qed

lemma direct_tag_thread_keeps:
  "keeps_forum used used (direct_addDiscussionTagToThread cx gid tid)"
  "keeps_forum used used (direct_removeDiscussionTagFromThread cx gid tid)"
  unfolding direct_addDiscussionTagToThread_def [abs_def] direct_removeDiscussionTagFromThread_def [abs_def] tag_insertDiscussionThread_def
  by (intro keeps_forum_intros subset_refl keeps_linked tag_insert_keeps tag_delete_keeps; simp)+

lemma direct_merge_keeps: "keeps_forum used used (direct_mergeDiscussionTags cx fromId intoId)"
proof (rule keepsI)
  fix fo assume ok: "forum_ok used fo"
  show "\<exists>st fo'. direct_mergeDiscussionTags cx fromId intoId fo = Some (st, fo') \<and> forum_ok used fo'"
  proof (cases "\<exists>g h. fromId \<noteq> intoId \<and> fo_tagsById fo fromId = Some g \<and> fo_tagsById fo intoId = Some h")
    case False
    then show ?thesis using ok
      by (cases "fo_tagsById fo fromId"; cases "fo_tagsById fo intoId") (auto simp: direct_mergeDiscussionTags_def)
  next
    case True
    then obtain g h where tags: "fromId \<noteq> intoId" "fo_tagsById fo fromId = Some g" "fo_tagsById fo intoId = Some h" by blast
    obtain u fo1 where user: "getCurrentUser cx fo = (u, fo1)" by force
    let ?now = "rx_time cx"
    note ok1 = getCurrentUser_ok [OF user ok]
    obtain rank where fall: "falling rank (fo_links fo1)" using forum_okD(2) [OF ok1] by blast
    define threads where "threads = tc_iterateThreads (tag_threads (fo_tag fo1 g))"
    define l where "l = fold (\<lambda>t l. snd (link_addTag ?now t h l)) threads (fo_links fo1)"
    have l: "shape l = shape (fo_links fo1)" unfolding l_def by (rule shape_fold) simp
    then have "falling rank l" using fall falling_shape by blast
    from tag_insert_keeps [OF this] obtain b l1 where
      l1: "tag_insertDiscussionThreads ?now h threads l = Some (b, l1)" "shape l1 = shape l" by blast
    have "keeps_shape (\<lambda>l. map_option snd (category_addTag ?now c h l))" for c
      unfolding keeps_shape_def using category_addTag_keeps by fastforce
    then have "keeps_shape (loop_over (\<lambda>c l. map_option snd (category_addTag ?now c h l)) (tag_categories (lk_tag l1 g)))"
      by (intro keeps_intros)
    from keeps_after [OF this fall, of l1] obtain l2 where
      l2: "loop_over (\<lambda>c l. map_option snd (category_addTag ?now c h l)) (tag_categories (lk_tag l1 g)) l1 = Some l2"
        "shape l2 = shape (fo_links fo1)"
      using l l1(2) by auto
    have "forum_ok used (set_links (tag_updateLastUpdated cx u h l2) fo1)" using set_links_ok [OF ok1] l2(2) by simp
    from collection_delete_tag_ok [OF this, of ?now g] obtain fo2 where
      "collection_deleteDiscussionTag ?now g (set_links (tag_updateLastUpdated cx u h l2) fo1) = Some fo2" "forum_ok used fo2"
      by blast
    then have "direct_mergeDiscussionTags cx fromId intoId fo = Some (STATUS_OK, fo2)"
      using tags user l1(1) l2(1) unfolding direct_mergeDiscussionTags_def Let_def
      by (simp add: l_def [symmetric] threads_def [symmetric])
    with \<open>forum_ok used fo2\<close> show ?thesis by blast
  qed
qed

subsection \<open>Requests\<close>

datatype entity_request =
  NewCategory id_type string id_type
| CategoryName id_type string
| CategoryDescription id_type string
| CategoryParent id_type id_type
| CategoryDisplayOrder id_type int
| CategoryDelete id_type
| CategoryAddTag id_type id_type
| CategoryRemoveTag id_type id_type
| NewTag id_type string
| TagName id_type string
| TagUiBlob id_type string
| TagDelete id_type
| TagAddToThread id_type id_type
| TagRemoveFromThread id_type id_type
| TagMerge id_type id_type

text \<open>The first argument of a request for a new entity is the id the generator gives to it.\<close>

fun repo_request :: "naming \<Rightarrow> repository_context \<Rightarrow> entity_request \<Rightarrow> repository_write" where
  "repo_request nm cx (NewCategory newId name parentId) = repo_addNewDiscussionCategory nm newId cx name parentId"
| "repo_request nm cx (CategoryName i name) = repo_changeDiscussionCategoryName nm cx i name"
| "repo_request nm cx (CategoryDescription i d) = repo_changeDiscussionCategoryDescription nm cx i d"
| "repo_request nm cx (CategoryParent i p) = repo_changeDiscussionCategoryParent cx i p"
| "repo_request nm cx (CategoryDisplayOrder i v) = repo_changeDiscussionCategoryDisplayOrder cx i v"
| "repo_request nm cx (CategoryDelete i) = repo_deleteDiscussionCategory cx i"
| "repo_request nm cx (CategoryAddTag g i) = repo_addDiscussionTagToCategory cx g i"
| "repo_request nm cx (CategoryRemoveTag g i) = repo_removeDiscussionTagFromCategory cx g i"
| "repo_request nm cx (NewTag newId name) = repo_addNewDiscussionTag nm newId cx name"
| "repo_request nm cx (TagName g name) = repo_changeDiscussionTagName nm cx g name"
| "repo_request nm cx (TagUiBlob g blob) = repo_changeDiscussionTagUiBlob nm cx g blob"
| "repo_request nm cx (TagDelete g) = repo_deleteDiscussionTag cx g"
| "repo_request nm cx (TagAddToThread g t) = repo_addDiscussionTagToThread cx g t"
| "repo_request nm cx (TagRemoveFromThread g t) = repo_removeDiscussionTagFromThread cx g t"
| "repo_request nm cx (TagMerge g h) = repo_mergeDiscussionTags cx g h"

fun new_category_id :: "entity_request \<Rightarrow> id_type list" where
  "new_category_id (NewCategory newId name parentId) = [newId]"
| "new_category_id _ = []"

fun new_category_ids :: "(repository_context \<times> entity_request) list \<Rightarrow> id_type list" where
  "new_category_ids [] = []"
| "new_category_ids ((cx, r) # rs) = new_category_id r @ new_category_ids rs"

fun run_entity_requests :: "naming \<Rightarrow> (repository_context \<times> entity_request) list \<Rightarrow> forum \<Rightarrow> (status_code list \<times> forum) option" where
  "run_entity_requests nm [] fo = Some ([], fo)"
| "run_entity_requests nm ((cx, r) # rs) fo =
     Option.bind (repo_request nm cx r fo)
       (\<lambda>(st, fo1). map_option (\<lambda>(sts, fo2). (st # sts, fo2)) (run_entity_requests nm rs fo1))"

lemmas entity_direct_keeps = direct_description_keeps direct_display_keeps direct_name_keeps direct_delete_keeps
  direct_tag_category_keeps direct_add_tag_keeps direct_tag_name_keeps direct_tag_blob_keeps direct_delete_tag_keeps
  direct_tag_thread_keeps direct_merge_keeps

lemmas entity_repo_defs = repo_changeDiscussionCategoryName_def repo_changeDiscussionCategoryDescription_def
  repo_changeDiscussionCategoryDisplayOrder_def repo_deleteDiscussionCategory_def
  repo_addDiscussionTagToCategory_def repo_removeDiscussionTagFromCategory_def
  repo_changeDiscussionTagName_def repo_changeDiscussionTagUiBlob_def
  repo_deleteDiscussionTag_def repo_addDiscussionTagToThread_def repo_removeDiscussionTagFromThread_def
  repo_mergeDiscussionTags_def

lemma repo_add_category_keeps:
  assumes "newId \<notin> used"
  shows "keeps_forum used (insert newId used) (repo_addNewDiscussionCategory nm newId cx name parentId)"
  unfolding repo_addNewDiscussionCategory_def [abs_def] Let_def
  by (intro keeps_forum_intros keeps_current_user [unfolded Let_def] direct_add_keeps assms subset_insertI; rule exI, rule handler_of.intros)

lemma repo_add_tag_keeps: "keeps_forum used used (repo_addNewDiscussionTag nm newId cx name)"
  unfolding repo_addNewDiscussionTag_def [abs_def] Let_def
  by (intro keeps_forum_intros keeps_current_user [unfolded Let_def] direct_add_tag_keeps subset_refl; rule exI, rule handler_of.intros)

lemma repo_parent_keeps: "keeps_forum used used (repo_changeDiscussionCategoryParent cx cid newParentId)"
proof (cases "cid = newParentId")
  case True
  then show ?thesis by (simp add: repo_changeDiscussionCategoryParent_def [abs_def] keeps_return)
next
  case False
  let ?change = "\<lambda>u c fo1. authorized_change cx u
     (\<lambda>ax. changeDiscussionCategoryParent ax (fo_user fo1 u) (fo_category fo1 c))
     (\<lambda>fo2. CategoryCall (ChangeDiscussionCategoryParent (cat_id (fo_category fo2 c)) (parent_id_of fo2 c)))
     (direct_changeDiscussionCategoryParent cx cid newParentId) fo1"
  have change: "keeps_forum used used (?change u c)" for u c
    by (intro keeps_forum_intros direct_parent_keeps False subset_refl; rule exI, rule handler_of.intros)
  have body: "keeps_forum used used (\<lambda>fo1.
      case (case fo_categoriesById fo1 newParentId of None \<Rightarrow> Some False | Some p \<Rightarrow> hasAncestor (fo_links fo1) p c) of
        None \<Rightarrow> None
      | Some True \<Rightarrow> Some (CIRCULAR_REFERENCE_NOT_ALLOWED, fo1)
      | Some False \<Rightarrow> ?change u c fo1)" for u c
  proof (rule keepsI)
    fix fo assume ok: "forum_ok used fo"
    obtain rank where "falling rank (fo_links fo)" using forum_okD(2) [OF ok] by blast
    then have "hasAncestor (fo_links fo) p c \<noteq> None" for p
      unfolding hasAncestor_def using hasAncestor_total by (metis option.distinct(1))
    then have "(case fo_categoriesById fo newParentId of None \<Rightarrow> Some False | Some p \<Rightarrow> hasAncestor (fo_links fo) p c) \<noteq> None"
      by (cases "fo_categoriesById fo newParentId") simp_all
    then obtain b where "(case fo_categoriesById fo newParentId of None \<Rightarrow> Some False | Some p \<Rightarrow> hasAncestor (fo_links fo) p c) = Some b"
      by blast
    then show "\<exists>st fo'. (case (case fo_categoriesById fo newParentId of None \<Rightarrow> Some False | Some p \<Rightarrow> hasAncestor (fo_links fo) p c) of
        None \<Rightarrow> None
      | Some True \<Rightarrow> Some (CIRCULAR_REFERENCE_NOT_ALLOWED, fo)
      | Some False \<Rightarrow> ?change u c fo) = Some (st, fo') \<and> forum_ok used fo'"
      using ok keeps_forumD [OF change ok, of u c] by (cases b) simp_all
  qed
  show ?thesis
    unfolding repo_changeDiscussionCategoryParent_def [abs_def]
    by (intro keeps_forum_if keeps_return keeps_with(1) body subset_refl)
qed

lemma entity_repo_keeps:
  "keeps_forum used used (repo_changeDiscussionCategoryName nm cx i name)"
  "keeps_forum used used (repo_changeDiscussionCategoryDescription nm cx i d)"
  "keeps_forum used used (repo_changeDiscussionCategoryDisplayOrder cx i v)"
  "keeps_forum used used (repo_deleteDiscussionCategory cx i)"
  "keeps_forum used used (repo_addDiscussionTagToCategory cx g i)"
  "keeps_forum used used (repo_removeDiscussionTagFromCategory cx g i)"
  "keeps_forum used used (repo_changeDiscussionTagName nm cx g name)"
  "keeps_forum used used (repo_changeDiscussionTagUiBlob nm cx g name)"
  "keeps_forum used used (repo_deleteDiscussionTag cx g)"
  "keeps_forum used used (repo_addDiscussionTagToThread cx g t)"
  "keeps_forum used used (repo_removeDiscussionTagFromThread cx g t)"
  "keeps_forum used used (repo_mergeDiscussionTags cx g h)"
  unfolding entity_repo_defs [abs_def] Let_def
  by (intro keeps_forum_intros entity_direct_keeps subset_refl; rule exI, rule handler_of.intros)+

lemma repo_request_keeps:
  assumes "set (new_category_id r) \<inter> used = {}"
  shows "keeps_forum used (used \<union> set (new_category_id r)) (repo_request nm cx r)"
  using assms
  by (cases r) (simp_all add: entity_repo_keeps repo_add_category_keeps repo_add_tag_keeps repo_parent_keeps)

lemma run_entity_requests_keep:
  assumes "forum_ok used fo" "distinct (new_category_ids rs)"
    "set (new_category_ids rs) \<inter> used = {}"
  shows "\<exists>sts fo'. run_entity_requests nm rs fo = Some (sts, fo') \<and> length sts = length rs \<and>
    forum_ok (used \<union> set (new_category_ids rs)) fo'"
  using assms
proof (induction rs arbitrary: used fo)
  case (Cons r rs)
  obtain cx req where r: "r = (cx, req)" by force
  have "keeps_forum used (used \<union> set (new_category_id req)) (repo_request nm cx req)"
    using Cons.prems r by (intro repo_request_keeps) auto
  from keeps_forumD [OF this Cons.prems(1)] obtain st fo1 where
    step: "repo_request nm cx req fo = Some (st, fo1)" "forum_ok (used \<union> set (new_category_id req)) fo1" by blast
  have "distinct (new_category_ids rs)"
    "set (new_category_ids rs) \<inter> (used \<union> set (new_category_id req)) = {}"
    using Cons.prems r by auto
  from Cons.IH [OF step(2) this] obtain sts fo' where
    rest: "run_entity_requests nm rs fo1 = Some (sts, fo')" "length sts = length rs"
      "forum_ok (used \<union> set (new_category_id req) \<union> set (new_category_ids rs)) fo'" by blast
  have "used \<union> set (new_category_id req) \<union> set (new_category_ids rs) =
      used \<union> set (new_category_ids (r # rs))" by (simp add: r Un_assoc)
  with rest step(1) r show ?case by simp
qed (simp add: forum_ok_def)

end
