(* ===== verification/CategoryProperties.thy ===== *)
theory CategoryProperties
  imports RepositoryProperties CategoryRequests
begin

section \<open>Properties of categories and tags\<close>

text \<open>
  The properties of the requests that change categories and tags, with small forums at which their hypotheses are
  checked.
\<close>

subsection \<open>Samples\<close>

definition sample_naming :: naming where
  "sample_naming = \<lparr>nm_sortKey = (\<lambda>s. s), nm_whitespace = (\<lambda>_. Some (False, False)), nm_categoryMinNameLength = 1,
     nm_categoryMaxNameLength = 256, nm_categoryMaxDescriptionLength = 1024, nm_tagMinNameLength = 1,
     nm_tagMaxNameLength = 64, nm_tagMaxUiBlobSize = 1024\<rparr>"

text \<open>A forum without categories.\<close>

definition sample_bare_forum :: forum where
  "sample_bare_forum = sample_forum\<lparr>fo_categoriesById := \<lambda>_. None, fo_nextCategory := 0\<rparr>"

lemma sample_bare_forum_ok: "forum_ok {} sample_bare_forum"
proof -
  have parents: "cat_parent (lk_category (fo_links sample_bare_forum) p) = None" for p
    by (simp add: sample_bare_forum_def sample_forum_def fo_links_def links_of_def sample_heap_def sample_category_def)
  have index: "fo_categoriesById sample_bare_forum = (\<lambda>_. None)" "fo_categoriesByName sample_bare_forum = (\<lambda>_. None)"
    by (simp_all add: sample_bare_forum_def sample_forum_def)
  have "forest_ok sample_bare_forum"
    by (simp add: forest_ok_def forest_def falling_def ids_ok_def tree_ok_def names_ok_def parents index)
  moreover have "dt_repr [] (au_throttling (fo_authorization sample_bare_forum))"
    by (simp add: sample_bare_forum_def sample_forum_def dt_repr_empty)
  ultimately show ?thesis using index by (auto simp: forum_ok_def)
qed

text \<open>A category with one thread below another, both counting it.\<close>

definition sample_totals :: total_collection where
  "sample_totals = \<lparr>tt_byId = [0], tt_messageCount = 1, tt_referenceCount = [(0, 1)]\<rparr>"

definition sample_nested_forum :: forum where
  "sample_nested_forum = sample_forum\<lparr>
     fo_heap := sample_heap\<lparr>h_category := (\<lambda>_. sample_category)
       (0 := sample_category\<lparr>cat_children := [1], cat_totalThreads := sample_totals\<rparr>,
        1 := sample_category\<lparr>cat_id := 41, cat_parent := Some 0, cat_threads := \<lparr>tc_byId = [0], tc_byCreated = [0]\<rparr>,
               cat_totalThreads := sample_totals\<rparr>)\<rparr>,
     fo_categoriesById := [40 \<mapsto> 0, 41 \<mapsto> 1], fo_nextCategory := 2\<rparr>"

subsection \<open>The forest of categories\<close>

text \<open>
  C35. Requests on categories and tags always return, and the categories stay a forest. From a forum in which ids
  and names find the categories that hold them, parents and children agree and no chain of parents is a cycle, every
  sequence of requests that add, rename, describe, order, move, delete or merge categories and tags or link tags to
  categories and threads is answered, whatever the authorization decides, and leaves such a forum; the ids that the
  generator gives to new categories must be new.
\<close>

theorem entity_requests_return:
  assumes "forum_ok used fo" "distinct (new_category_ids rs)" "set (new_category_ids rs) \<inter> used = {}"
  shows "\<exists>sts fo'. run_entity_requests nm rs fo = Some (sts, fo') \<and> length sts = length rs \<and>
    forum_ok (used \<union> set (new_category_ids rs)) fo'"
  using assms by (rule run_entity_requests_keep)

abbreviation sample_entity_requests :: "(repository_context \<times> entity_request) list" where
  "sample_entity_requests \<equiv> [(sample_repository_context, NewCategory 50 ''a'' 0), (sample_repository_context, NewCategory 51 ''b'' 50),
     (sample_repository_context, CategoryParent 50 51), (sample_repository_context, CategoryDelete 50)]"

theorem entity_requests_return_witness:
  "\<exists>sts fo'. run_entity_requests sample_naming sample_entity_requests sample_bare_forum = Some (sts, fo') \<and> length sts = length sample_entity_requests \<and>
    forum_ok {50, 51} fo'"
  using entity_requests_return [OF sample_bare_forum_ok, of sample_entity_requests sample_naming]
  by (simp del: run_entity_requests.simps)

subsection \<open>The threads a category counts\<close>

definition totals_view :: "links \<Rightarrow> ptr \<Rightarrow> ptr list \<times> int" where
  "totals_view l = (\<lambda>q. (tt_byId (cat_totalThreads (lk_category l q)), tt_messageCount (cat_totalThreads (lk_category l q))))"

text \<open>What a step keeps of every state is kept by the loop over the parents, when it ends.\<close>

lemma parents_loop_view:
  "executeOnAllCategoryParents fn parent l = Some l' \<Longrightarrow> (\<And>q l. view (fn q l) = view l) \<Longrightarrow> view l' = view l"
proof -
  assume run: "executeOnAllCategoryParents fn parent l = Some l'" and view: "\<And>q l. view (fn q l) = view l"
  have "(\<forall>q l. view (fn q l) = view l) \<longrightarrow> view l' = view l"
    using run
  proof (rule executeOnAllCategoryParents.raw_induct
      [of "\<lambda>fn parent l l'. (\<forall>q l. view (fn q l) = view l) \<longrightarrow> view l' = view l", rotated])
    fix loop fn parent l l'
    assume IH: "\<And>fn parent l l'. loop fn parent l = Some l' \<Longrightarrow> (\<forall>q l. view (fn q l) = view l) \<longrightarrow> view l' = view l"
      and step: "(case parent of None \<Rightarrow> Some l | Some p \<Rightarrow> let l1 = fn p l in loop fn (cat_parent (lk_category l1 p)) l1) = Some l'"
    show "(\<forall>q l. view (fn q l) = view l) \<longrightarrow> view l' = view l"
      using step IH [of fn _ _ l'] by (cases parent) (auto simp: Let_def)
  qed
  with view show ?thesis by blast
qed

lemma decrease_all_view:
  "tt_byId (tt_decrease_all c tt) = tt_byId tt" "tt_messageCount (tt_decrease_all c tt) = tt_messageCount tt"
  by (simp_all add: tt_decrease_all_def split_beta Let_def)

lemma totals_view_upd:
  "(\<And>tt. tt_byId (f tt) = tt_byId tt \<and> tt_messageCount (f tt) = tt_messageCount tt) \<Longrightarrow> totals_view (upd_totals q f l) = totals_view l"
  "(\<And>c. cat_totalThreads (g c) = cat_totalThreads c) \<Longrightarrow> totals_view (upd_category q g l) = totals_view l"
  by (simp_all add: totals_view_def upd_totals_def fun_eq_iff)

lemma removeTotals_view: "removeTotalsFromChild p c l = Some l' \<Longrightarrow> totals_view l' = totals_view l"
  unfolding removeTotalsFromChild_def executeOnCategoryAndAllParents_def Let_def
  by (drule parents_loop_view [where view = totals_view]) (simp_all add: totals_view_upd decrease_all_view)

lemma updateCategoryParent_root_view: "updateCategoryParent cx u c None l = Some l' \<Longrightarrow> totals_view l' = totals_view l"
  by (auto simp: updateCategoryParent_def Let_def category_updateLastUpdated_def removeChild_def totals_view_upd
      dest!: removeTotals_view split: option.splits)

text \<open>
  C36. Moving a category to the root does not take its threads out of the totals of its former parents. Whenever the
  direct write moves a category to the root, the threads that every category finds in its total, and the
  number of messages it counts for them, are what they were before: only the reference counts are decreased.
\<close>

theorem moved_category_stays_counted:
  assumes "direct_changeDiscussionCategoryParent cx cid newParentId fo = Some (STATUS_OK, fo')"
    and "fo_categoriesById fo newParentId = None"
  shows "totals_view (fo_links fo') = totals_view (fo_links fo)"
proof -
  obtain u fo1 where user: "getCurrentUser cx fo = (u, fo1)" by force
  have "\<exists>c l0. updateCategoryParent cx u c None l0 = Some (fo_links fo') \<and>
      (l0 = fo_links fo \<or> (\<exists>p. l0 = removeChild p c (fo_links fo)))"
    using assms user by (auto simp: direct_changeDiscussionCategoryParent_def split: option.splits if_splits) metis+
  moreover have "totals_view (removeChild p c (fo_links fo)) = totals_view (fo_links fo)" for p c
    by (simp add: removeChild_def totals_view_upd)
  ultimately show ?thesis using updateCategoryParent_root_view by metis
qed

lemma sample_move:
  "\<exists>fo'. direct_changeDiscussionCategoryParent sample_repository_context 41 0 sample_nested_forum = Some (STATUS_OK, fo')"
proof -
  obtain u fo1 where user: "getCurrentUser sample_repository_context sample_nested_forum = (u, fo1)" by force
  have "cat_parent (fo_category sample_nested_forum 1) = Some 0" "cat_id (fo_category sample_nested_forum 0) = 40"
      "cat_parent (lk_category (fo_links sample_nested_forum) 0) = None" "cat_parent (lk_category (fo_links sample_nested_forum) 1) = Some 0"
      "fo_categoriesById sample_nested_forum 41 = Some 1" "fo_categoriesById sample_nested_forum 0 = None"
    by (simp_all add: sample_nested_forum_def fo_category_def fo_links_def links_of_def sample_category_def)
  then show ?thesis using user
    by (simp add: direct_changeDiscussionCategoryParent_def updateCategoryParent_def removeTotalsFromChild_def removeChild_def
        executeOnCategoryAndAllParents_def executeOnAllCategoryParents.simps category_updateLastUpdated_def upd_totals_def Let_def)
qed

theorem moved_category_stays_counted_witness:
  "\<exists>fo'. direct_changeDiscussionCategoryParent sample_repository_context 41 0 sample_nested_forum = Some (STATUS_OK, fo') \<and>
     totals_view (fo_links fo') 0 = ([0], 1)"
proof -
  obtain fo' where move: "direct_changeDiscussionCategoryParent sample_repository_context 41 0 sample_nested_forum = Some (STATUS_OK, fo')"
    using sample_move by blast
  have "fo_categoriesById sample_nested_forum 0 = None" "totals_view (fo_links sample_nested_forum) 0 = ([0], 1)"
    by (simp_all add: sample_nested_forum_def totals_view_def fo_links_def links_of_def sample_totals_def)
  with moved_category_stays_counted [OF move] move show ?thesis by simp
qed

end
