(* ===== verification/AttachmentRepository.thy ===== *)
theory AttachmentRepository
  imports CategoryRepository
begin

section \<open>The repository of attachments\<close>

text \<open>
  Models \<^verbatim>\<open>src/src/LibForumData/private/MemoryRepositoryAttachment.cpp\<close> with \<^verbatim>\<open>EntityAttachment.h\<close>,
  \<^verbatim>\<open>EntityAttachmentCollection.cpp\<close>, the attachments of users and messages, and the functions of
  \<^verbatim>\<open>EntityCollection.cpp\<close> that insert and delete an attachment. The attachments live beside the entities of the
  forum; sizes, totals and quotas are 64-bit words. \<open>repo_\<close> is the operation a request calls and \<open>direct_\<close> the
  one the importer calls too. The replies and the indices for listings are left out.
\<close>

record attachment_entity = attachment +
  att_id :: id_type
  att_created :: timestamp
  att_createdIp :: "128 word"
  att_name :: json_ready_string
  att_size :: "64 word"
  att_nrOfGetRequests :: "32 word"

record attachment_collection =
  ac_byId :: "(id_type \<times> ptr) list"
  ac_totalSize :: "64 word"

record attachment_forum =
  af_forum :: forum
  af_attachment :: "ptr \<Rightarrow> attachment_entity"
  af_attachments :: attachment_collection
  af_userAttachments :: "ptr \<Rightarrow> attachment_collection"
  af_attachmentQuota :: "ptr \<Rightarrow> 64 word option"
  af_messageAttachments :: "ptr \<Rightarrow> ptr list"
  af_nextAttachment :: ptr

record attachment_settings =
  as_sortKey :: "string \<Rightarrow> string"
  as_minNameLength :: int
  as_maxNameLength :: int
  as_defaultUserQuota :: int

type_synonym attachment_write = "attachment_forum \<Rightarrow> (status_code \<times> attachment_forum) option"

subsection \<open>Collections\<close>

definition no_attachments :: attachment_collection where
  "no_attachments = \<lparr>ac_byId = [], ac_totalSize = 0\<rparr>"

definition attachments_add :: "(ptr \<Rightarrow> attachment_entity) \<Rightarrow> ptr \<Rightarrow> attachment_collection \<Rightarrow> bool \<times> attachment_collection" where
  "attachments_add ats a c =
     (if map_of (ac_byId c) (att_id (ats a)) \<noteq> None then (False, c)
      else (True, \<lparr>ac_byId = AList.update (att_id (ats a)) a (ac_byId c), ac_totalSize = ac_totalSize c + att_size (ats a)\<rparr>))"

definition attachments_remove :: "(ptr \<Rightarrow> attachment_entity) \<Rightarrow> ptr \<Rightarrow> attachment_collection \<Rightarrow> bool \<times> attachment_collection" where
  "attachments_remove ats a c =
     (if map_of (ac_byId c) (att_id (ats a)) = None then (False, c)
      else (True, \<lparr>ac_byId = AList.delete (att_id (ats a)) (ac_byId c), ac_totalSize = ac_totalSize c - att_size (ats a)\<rparr>))"

definition attachmentsTotalSize :: "attachment_forum \<Rightarrow> ptr \<Rightarrow> 64 word" where
  "attachmentsTotalSize af u = ac_totalSize (af_userAttachments af u)"

definition find_attachment :: "attachment_forum \<Rightarrow> id_type \<Rightarrow> ptr option" where
  "find_attachment af = map_of (ac_byId (af_attachments af))"

definition upd_attachment :: "ptr \<Rightarrow> (attachment_entity \<Rightarrow> attachment_entity) \<Rightarrow> attachment_forum \<Rightarrow> attachment_forum" where
  "upd_attachment a f af = af\<lparr>af_attachment := (af_attachment af)(a := f (af_attachment af a))\<rparr>"

definition upd_userAttachments :: "ptr \<Rightarrow> (attachment_collection \<Rightarrow> attachment_collection) \<Rightarrow> attachment_forum \<Rightarrow> attachment_forum" where
  "upd_userAttachments u f af = af\<lparr>af_userAttachments := (af_userAttachments af)(u := f (af_userAttachments af u))\<rparr>"

definition upd_messageAttachments :: "ptr \<Rightarrow> (ptr list \<Rightarrow> ptr list) \<Rightarrow> attachment_forum \<Rightarrow> attachment_forum" where
  "upd_messageAttachments m f af = af\<lparr>af_messageAttachments := (af_messageAttachments af)(m := f (af_messageAttachments af m))\<rparr>"

definition insertAttachment :: "ptr \<Rightarrow> attachment_forum \<Rightarrow> attachment_forum" where
  "insertAttachment a af = af\<lparr>af_attachments := snd (attachments_add (af_attachment af) a (af_attachments af))\<rparr>"

definition collection_deleteAttachment :: "ptr \<Rightarrow> attachment_forum \<Rightarrow> attachment_forum" where
  "collection_deleteAttachment a af =
     (let (removed, c) = attachments_remove (af_attachment af) a (af_attachments af)
      in if \<not> removed then af
         else let af1 = upd_userAttachments (att_createdBy (af_attachment af a))
                          (\<lambda>uc. snd (attachments_remove (af_attachment af) a uc)) (af\<lparr>af_attachments := c\<rparr>)
              in fold (\<lambda>m. upd_messageAttachments m (flat_erase a)) (att_messages (af_attachment af1 a)) af1)"

subsection \<open>The forum beside the attachments\<close>

definition lift_user :: "(forum \<Rightarrow> ptr \<times> forum) \<Rightarrow> attachment_forum \<Rightarrow> ptr \<times> attachment_forum" where
  "lift_user f af = (let (u, fo) = f (af_forum af) in (u, af\<lparr>af_forum := fo\<rparr>))"

definition authorize_attachment ::
  "repository_context \<Rightarrow> (auth_context \<Rightarrow> handler) \<Rightarrow> attachment_forum \<Rightarrow> (status_code \<times> attachment_forum) option" where
  "authorize_attachment cx h af = map_option (\<lambda>(st, fo). (st, af\<lparr>af_forum := fo\<rparr>)) (authorize cx h (af_forum af))"

definition observe_attachment :: "repository_context \<Rightarrow> ptr \<Rightarrow> attachment_call \<Rightarrow> attachment_forum \<Rightarrow> attachment_forum" where
  "observe_attachment cx u call af = af\<lparr>af_forum := observe cx u (AttachmentCall call) (af_forum af)\<rparr>"

definition af_user :: "attachment_forum \<Rightarrow> ptr \<Rightarrow> user" where
  "af_user af u = fo_user (af_forum af) u"

text \<open>What the authorization looks at.\<close>

definition af_att :: "attachment_forum \<Rightarrow> ptr \<Rightarrow> attachment" where
  "af_att af a = attachment.truncate (af_attachment af a)"

subsection \<open>Direct writes\<close>

definition direct_addNewAttachment ::
  "attachment_settings \<Rightarrow> repository_context \<Rightarrow> id_type \<Rightarrow> string \<Rightarrow> 64 word \<Rightarrow> bool \<Rightarrow> attachment_write" where
  "direct_addNewAttachment cf cx aid name sz approved af =
     (let (currentUser, af1) = lift_user (getCurrentUser cx) af;
          a = af_nextAttachment af1;
          e = \<lparr>att_createdBy = currentUser, att_approved = approved, att_messages = [], att_id = aid, att_created = rx_time cx,
               att_createdIp = rx_ip cx, att_name = JsonReadyStringBase (as_sortKey cf name) name, att_size = sz,
               att_nrOfGetRequests = 0\<rparr>;
          af2 = upd_attachment a (\<lambda>_. e) (af1\<lparr>af_nextAttachment := Suc a\<rparr>);
          af3 = upd_userAttachments currentUser (\<lambda>uc. snd (attachments_add (af_attachment af2) a uc)) af2
      in Some (STATUS_OK, insertAttachment a af3))"

definition direct_changeAttachmentName :: "attachment_settings \<Rightarrow> id_type \<Rightarrow> string \<Rightarrow> attachment_write" where
  "direct_changeAttachmentName cf aid newName af =
     (case find_attachment af aid of
        None \<Rightarrow> Some (NOT_FOUND, af)
      | Some a \<Rightarrow> Some (STATUS_OK, upd_attachment a (att_name_update (\<lambda>_. JsonReadyStringBase (as_sortKey cf newName) newName)) af))"

definition direct_changeAttachmentApproval :: "id_type \<Rightarrow> bool \<Rightarrow> attachment_write" where
  "direct_changeAttachmentApproval aid newApproval af =
     (case find_attachment af aid of
        None \<Rightarrow> Some (NOT_FOUND, af)
      | Some a \<Rightarrow>
          if att_approved (af_attachment af a) = newApproval then Some (NO_EFFECT, af)
          else Some (STATUS_OK, upd_attachment a (att_approved_update (\<lambda>_. newApproval)) af))"

definition direct_deleteAttachment :: "id_type \<Rightarrow> attachment_write" where
  "direct_deleteAttachment aid af =
     (case find_attachment af aid of
        None \<Rightarrow> Some (NOT_FOUND, af)
      | Some a \<Rightarrow> Some (STATUS_OK, collection_deleteAttachment a af))"

definition direct_addAttachmentToDiscussionThreadMessage :: "id_type \<Rightarrow> id_type \<Rightarrow> attachment_write" where
  "direct_addAttachmentToDiscussionThreadMessage aid mid af =
     (case find_attachment af aid of
        None \<Rightarrow> Some (NOT_FOUND, af)
      | Some a \<Rightarrow>
          (case fo_messagesById (af_forum af) mid of
             None \<Rightarrow> Some (NOT_FOUND, af)
           | Some m \<Rightarrow>
               if m \<in> set (att_messages (af_attachment af a)) then Some (ALREADY_EXISTS, af)
               else Some (STATUS_OK, upd_messageAttachments m (flat_insert a)
                            (upd_attachment a (\<lambda>e. e\<lparr>att_messages := flat_insert m (att_messages e)\<rparr>) af))))"

definition direct_removeAttachmentFromDiscussionThreadMessage :: "id_type \<Rightarrow> id_type \<Rightarrow> attachment_write" where
  "direct_removeAttachmentFromDiscussionThreadMessage aid mid af =
     (case find_attachment af aid of
        None \<Rightarrow> Some (NOT_FOUND, af)
      | Some a \<Rightarrow>
          (case fo_messagesById (af_forum af) mid of
             None \<Rightarrow> Some (NOT_FOUND, af)
           | Some m \<Rightarrow>
               if m \<notin> set (att_messages (af_attachment af a)) then Some (NO_EFFECT, af)
               else Some (STATUS_OK, upd_messageAttachments m (flat_erase a)
                            (upd_attachment a (\<lambda>e. e\<lparr>att_messages := flat_erase m (att_messages e)\<rparr>) af))))"

subsection \<open>Requests\<close>

text \<open>Characters are signed: bytes from 128 on are below the space.\<close>

definition isValidAttachmentName :: "string \<Rightarrow> bool" where
  "isValidAttachmentName input =
     (if input = [] then False
      else if hd input = CHR '' '' \<or> last input = CHR '' '' then False
      else list_all (\<lambda>c. 32 \<le> byte_code c \<and> byte_code c < 127 \<and> c \<noteq> CHR ''/'' \<and> c \<noteq> CHR 0x5C) input)"

definition validateAttachmentName :: "attachment_settings \<Rightarrow> string \<Rightarrow> status_code" where
  "validateAttachmentName cf name =
     validateString_extra name INVALID_PARAMETERS_FOR_EMPTY_STRING (Some (as_minNameLength cf)) (Some (as_maxNameLength cf))
       isValidAttachmentName"

definition userQuota :: "attachment_settings \<Rightarrow> attachment_forum \<Rightarrow> ptr \<Rightarrow> 64 word" where
  "userQuota cf af u = (case af_attachmentQuota af u of Some q \<Rightarrow> q | None \<Rightarrow> word_of_int (as_defaultUserQuota cf))"

text \<open>Authorization, change and event, in the order of the requests that raise the event last.\<close>

definition attachment_change ::
  "repository_context \<Rightarrow> ptr \<Rightarrow> (auth_context \<Rightarrow> handler) \<Rightarrow> (attachment_forum \<Rightarrow> attachment_call) \<Rightarrow> attachment_write \<Rightarrow>
   attachment_write" where
  "attachment_change cx currentUser h call change af =
     (case authorize_attachment cx h af of
        None \<Rightarrow> None
      | Some (st, af1) \<Rightarrow>
          if st \<noteq> STATUS_OK then Some (st, af1)
          else case change af1 of
                 None \<Rightarrow> None
               | Some (st2, af2) \<Rightarrow>
                   if st2 \<noteq> STATUS_OK then Some (st2, af2)
                   else Some (STATUS_OK, observe_attachment cx currentUser (call af2) af2))"

definition with_attachment :: "repository_context \<Rightarrow> id_type \<Rightarrow> (ptr \<Rightarrow> ptr \<Rightarrow> attachment_write) \<Rightarrow> attachment_write" where
  "with_attachment cx aid body af =
     (let (currentUser, af1) = lift_user (performedBy_getAndUpdate cx) af
      in case find_attachment af1 aid of None \<Rightarrow> Some (NOT_FOUND, af1) | Some a \<Rightarrow> body currentUser a af1)"

definition with_attachment_and_message ::
  "repository_context \<Rightarrow> id_type \<Rightarrow> id_type \<Rightarrow> (ptr \<Rightarrow> ptr \<Rightarrow> ptr \<Rightarrow> attachment_write) \<Rightarrow> attachment_write" where
  "with_attachment_and_message cx aid mid body =
     with_attachment cx aid (\<lambda>currentUser a af1.
       case fo_messagesById (af_forum af1) mid of None \<Rightarrow> Some (NOT_FOUND, af1) | Some m \<Rightarrow> body currentUser a m af1)"

definition af_message :: "attachment_forum \<Rightarrow> ptr \<Rightarrow> message" where
  "af_message af m = h_message (fo_heap (af_forum af)) m"

text \<open>The number of bytes a user may still add, for the reply.\<close>

definition availableBytes :: "attachment_settings \<Rightarrow> attachment_forum \<Rightarrow> ptr \<Rightarrow> 64 word" where
  "availableBytes cf af u =
     (let quota = userQuota cf af u; totalSize = attachmentsTotalSize af u
      in if totalSize \<ge> quota then 0 else quota - totalSize)"

definition repo_canAddAttachment ::
  "attachment_settings \<Rightarrow> repository_context \<Rightarrow> attachment_forum \<Rightarrow> (status_code \<times> 64 word option \<times> attachment_forum) option" where
  "repo_canAddAttachment cf cx af =
     (let (currentUser, af1) = lift_user (performedBy_getAndUpdate cx) af
      in if isAnonymousUser (Some (af_user af1 currentUser)) then Some (UNAUTHORIZED, None, af1)
         else case authorize_attachment cx (\<lambda>ax. canAddAttachment ax (af_user af1 currentUser)) af1 of
                None \<Rightarrow> None
              | Some (st, af2) \<Rightarrow>
                  if st \<noteq> STATUS_OK then Some (st, None, af2)
                  else Some (STATUS_OK, Some (availableBytes cf af2 currentUser), af2))"

definition repo_addNewAttachment ::
  "attachment_settings \<Rightarrow> id_type \<Rightarrow> repository_context \<Rightarrow> string \<Rightarrow> 64 word \<Rightarrow> attachment_write" where
  "repo_addNewAttachment cf newId cx name sz af =
     (let validationCode = validateAttachmentName cf name
      in if validationCode \<noteq> STATUS_OK then Some (validationCode, af)
         else let (currentUser, af1) = lift_user (performedBy_getAndUpdate cx) af
              in if isAnonymousUser (Some (af_user af1 currentUser)) then Some (UNAUTHORIZED, af1)
                 else case authorize_attachment cx (\<lambda>ax. addNewAttachment ax (af_user af1 currentUser)) af1 of
                        None \<Rightarrow> None
                      | Some (st, af2) \<Rightarrow>
                          if st \<noteq> STATUS_OK then Some (st, af2)
                          else if attachmentsTotalSize af2 currentUser + sz > userQuota cf af2 currentUser
                               then Some (QUOTA_EXCEEDED, af2)
                               else case authorize_attachment cx (\<lambda>ax. autoApproveAttachment ax (af_user af2 currentUser)) af2 of
                                      None \<Rightarrow> None
                                    | Some (st2, af3) \<Rightarrow>
                                        (let approved = (STATUS_OK = st2)
                                         in case direct_addNewAttachment cf cx newId name sz approved af3 of
                                              None \<Rightarrow> None
                                            | Some (st3, af4) \<Rightarrow>
                                                if st3 \<noteq> STATUS_OK then Some (st3, af4)
                                                else (let e = af_attachment af4 (af_nextAttachment af3)
                                                      in Some (STATUS_OK, observe_attachment cx currentUser
                                                           (AddNewAttachment (att_id e) (text_bytes (jr_string (att_name e)))
                                                              (att_size e) (att_approved e)) af4))))"

definition repo_changeAttachmentName ::
  "attachment_settings \<Rightarrow> repository_context \<Rightarrow> id_type \<Rightarrow> string \<Rightarrow> attachment_write" where
  "repo_changeAttachmentName cf cx aid newName af =
     (let validationCode = validateAttachmentName cf newName
      in if validationCode \<noteq> STATUS_OK then Some (validationCode, af)
         else with_attachment cx aid (\<lambda>currentUser a af1.
                attachment_change cx currentUser
                  (\<lambda>ax. changeAttachmentName ax (af_user af1 currentUser) (af_att af1 a))
                  (\<lambda>af2. ChangeAttachmentName (att_id (af_attachment af2 a)) (text_bytes (jr_string (att_name (af_attachment af2 a)))))
                  (direct_changeAttachmentName cf aid newName) af1) af)"

definition repo_changeAttachmentApproval :: "repository_context \<Rightarrow> id_type \<Rightarrow> bool \<Rightarrow> attachment_write" where
  "repo_changeAttachmentApproval cx aid newApproval =
     with_attachment cx aid (\<lambda>currentUser a af1.
       attachment_change cx currentUser
         (\<lambda>ax. changeAttachmentApproval ax (af_user af1 currentUser) (af_att af1 a))
         (\<lambda>af2. ChangeAttachmentApproval (att_id (af_attachment af2 a)) (att_approved (af_attachment af2 a)))
         (direct_changeAttachmentApproval aid newApproval) af1)"

text \<open>The event of a deletion is raised before the attachment is gone.\<close>

definition repo_deleteAttachment :: "repository_context \<Rightarrow> id_type \<Rightarrow> attachment_write" where
  "repo_deleteAttachment cx aid af =
     (if \<not> aid \<noteq> 0 then Some (INVALID_PARAMETERS, af)
      else with_attachment cx aid (\<lambda>currentUser a af1.
             case authorize_attachment cx (\<lambda>ax. deleteAttachment ax (af_user af1 currentUser) (af_att af1 a)) af1 of
               None \<Rightarrow> None
             | Some (st, af2) \<Rightarrow>
                 if st \<noteq> STATUS_OK then Some (st, af2)
                 else direct_deleteAttachment aid
                        (observe_attachment cx currentUser (DeleteAttachment (att_id (af_attachment af2 a))) af2)) af)"

definition repo_addAttachmentToDiscussionThreadMessage :: "repository_context \<Rightarrow> id_type \<Rightarrow> id_type \<Rightarrow> attachment_write" where
  "repo_addAttachmentToDiscussionThreadMessage cx aid mid af =
     (if \<not> aid \<noteq> 0 \<or> \<not> mid \<noteq> 0 then Some (INVALID_PARAMETERS, af)
      else with_attachment_and_message cx aid mid (\<lambda>currentUser a m af1.
             attachment_change cx currentUser
               (\<lambda>ax. addAttachmentToDiscussionThreadMessage ax (af_user af1 currentUser) (af_att af1 a) (af_message af1 m))
               (\<lambda>af2. AddAttachmentToDiscussionThreadMessage (att_id (af_attachment af2 a)) (msg_id (af_message af2 m)))
               (direct_addAttachmentToDiscussionThreadMessage aid mid) af1) af)"

definition repo_removeAttachmentFromDiscussionThreadMessage :: "repository_context \<Rightarrow> id_type \<Rightarrow> id_type \<Rightarrow> attachment_write" where
  "repo_removeAttachmentFromDiscussionThreadMessage cx aid mid af =
     (if \<not> aid \<noteq> 0 \<or> \<not> mid \<noteq> 0 then Some (INVALID_PARAMETERS, af)
      else with_attachment_and_message cx aid mid (\<lambda>currentUser a m af1.
             attachment_change cx currentUser
               (\<lambda>ax. removeAttachmentFromDiscussionThreadMessage ax (af_user af1 currentUser) (af_att af1 a) (af_message af1 m))
               (\<lambda>af2. RemoveAttachmentFromDiscussionThreadMessage (att_id (af_attachment af2 a)) (msg_id (af_message af2 m)))
               (direct_removeAttachmentFromDiscussionThreadMessage aid mid) af1) af)"

text \<open>A download: under the read lock, only the counter of the attachment changes. The update of the user is scheduled.\<close>

definition repo_canGetAttachment :: "repository_context \<Rightarrow> id_type \<Rightarrow> attachment_write" where
  "repo_canGetAttachment cx aid af =
     (let (currentUser, scheduled, fo) = performedBy_get cx (af_forum af);
          finish = (\<lambda>af'. af'\<lparr>af_forum := performedBy_destroy cx scheduled (af_forum af')\<rparr>);
          af1 = af\<lparr>af_forum := fo\<rparr>
      in case find_attachment af1 aid of
           None \<Rightarrow> Some (NOT_FOUND, finish af1)
         | Some a \<Rightarrow>
             (case authorize_attachment cx (\<lambda>ax. canGetAttachment ax (af_user af1 currentUser) (af_att af1 a)) af1 of
                None \<Rightarrow> None
              | Some (st, af2) \<Rightarrow>
                  if st \<noteq> STATUS_OK then Some (st, finish af2)
                  else Some (STATUS_OK, finish (upd_attachment a (att_nrOfGetRequests_update (\<lambda>n. n + 1)) af2))))"

end
