(* ===== verification/AttachmentLemmas.thy ===== *)
theory AttachmentLemmas
  imports AttachmentRepository CategoryRequests
begin

section \<open>What the attachments keep\<close>

text \<open>
  The invariant of the attachments: every collection finds an attachment by its id, a user has the attachments that
  were created by the user, every total is the sum of the sizes, and attachments and messages agree about which is
  attached to which. The lemmas follow the direct writes and then the requests.
\<close>

subsection \<open>Collections\<close>

definition size_sum :: "(ptr \<Rightarrow> attachment_entity) \<Rightarrow> (id_type \<times> ptr) list \<Rightarrow> 64 word" where
  "size_sum ats xs = sum_list (map (\<lambda>(i, a). att_size (ats a)) xs)"

definition collection_ok :: "(ptr \<Rightarrow> attachment_entity) \<Rightarrow> attachment_collection \<Rightarrow> bool" where
  "collection_ok ats c \<longleftrightarrow> distinct (map fst (ac_byId c)) \<and> (\<forall>(i, a)\<in>set (ac_byId c). att_id (ats a) = i) \<and>
     ac_totalSize c = size_sum ats (ac_byId c)"

lemma update_new: "i \<notin> fst ` set xs \<Longrightarrow> AList.update i a xs = xs @ [(i, a)]"
  by (induction xs) auto

lemma size_sum_delete:
  "distinct (map fst xs) \<Longrightarrow> (i, a) \<in> set xs \<Longrightarrow> size_sum ats (AList.delete i xs) = size_sum ats xs - att_size (ats a)"
proof (induction xs)
  case (Cons x xs)
  obtain j b where x: "x = (j, b)" by force
  show ?case
  proof (cases "j = i")
    case True
    then have "AList.delete i xs = xs" using Cons.prems(1) x by (simp add: delete_id)
    moreover have "b = a" using Cons.prems x True by (auto simp: image_iff)
    ultimately show ?thesis using x True by (simp add: size_sum_def)
  next
    case False
    then show ?thesis using Cons x by (simp add: size_sum_def)
  qed
qed simp

lemma size_sum_cong: "(\<And>i a. (i, a) \<in> set xs \<Longrightarrow> att_size (ats a) = att_size (ats' a)) \<Longrightarrow> size_sum ats xs = size_sum ats' xs"
  unfolding size_sum_def by (intro arg_cong [where f = sum_list] map_cong) auto

lemma collection_cong:
  assumes "\<And>i a. (i, a) \<in> set (ac_byId c) \<Longrightarrow> att_size (ats a) = att_size (ats' a) \<and> att_id (ats a) = att_id (ats' a)"
  shows "collection_ok ats c = collection_ok ats' c"
proof -
  have "size_sum ats (ac_byId c) = size_sum ats' (ac_byId c)" using assms by (intro size_sum_cong) blast
  moreover have "(\<forall>(i, a)\<in>set (ac_byId c). att_id (ats a) = i) \<longleftrightarrow> (\<forall>(i, a)\<in>set (ac_byId c). att_id (ats' a) = i)"
    using assms by fastforce
  ultimately show ?thesis by (simp add: collection_ok_def)
qed

lemma attachments_add_ok:
  assumes "collection_ok ats c" "att_id (ats a) \<notin> fst ` set (ac_byId c)"
  shows "\<exists>c'. attachments_add ats a c = (True, c') \<and> collection_ok ats c' \<and> ac_byId c' = ac_byId c @ [(att_id (ats a), a)]"
proof -
  have "map_of (ac_byId c) (att_id (ats a)) = None" using assms(2) by (simp add: map_of_eq_None_iff)
  then show ?thesis using assms by (auto simp: attachments_add_def collection_ok_def update_new size_sum_def)
qed

lemma attachments_remove_ok:
  assumes "collection_ok ats c" "(att_id (ats a), a) \<in> set (ac_byId c)"
  shows "\<exists>c'. attachments_remove ats a c = (True, c') \<and> collection_ok ats c' \<and> set (ac_byId c') = set (ac_byId c) - {(att_id (ats a), a)}"
proof -
  let ?i = "att_id (ats a)"
  have dist: "distinct (map fst (ac_byId c))" using assms(1) by (simp add: collection_ok_def)
  have "map_of (ac_byId c) ?i = Some a" using assms(2) dist by (simp add: map_of_eq_Some_iff)
  moreover have "set (AList.delete ?i (ac_byId c)) = set (ac_byId c) - {(?i, a)}"
    using dist assms(2) by (auto simp: AList.delete_eq dest: eq_key_imp_eq_value)
  moreover have "distinct (map fst (AList.delete ?i (ac_byId c)))" using dist by (simp add: distinct_delete)
  ultimately show ?thesis
    using assms size_sum_delete [OF dist assms(2), of ats]
    by (auto simp: attachments_remove_def collection_ok_def)
qed

subsection \<open>The invariant\<close>

abbreviation live_attachments :: "attachment_forum \<Rightarrow> (id_type \<times> ptr) set" where
  "live_attachments af \<equiv> set (ac_byId (af_attachments af))"

definition attachments_ok :: "attachment_forum \<Rightarrow> bool" where
  "attachments_ok af \<longleftrightarrow>
     collection_ok (af_attachment af) (af_attachments af) \<and> (\<forall>i a. (i, a) \<in> live_attachments af \<longrightarrow> a < af_nextAttachment af) \<and>
     (\<forall>u. collection_ok (af_attachment af) (af_userAttachments af u)) \<and>
     (\<forall>u i a. (i, a) \<in> set (ac_byId (af_userAttachments af u)) \<longleftrightarrow>
        (i, a) \<in> live_attachments af \<and> att_createdBy (af_attachment af a) = u) \<and>
     (\<forall>m. flat_set (af_messageAttachments af m)) \<and>
     (\<forall>m a. a \<in> set (af_messageAttachments af m) \<longrightarrow> (\<exists>i. (i, a) \<in> live_attachments af)) \<and>
     (\<forall>i a. (i, a) \<in> live_attachments af \<longrightarrow> flat_set (att_messages (af_attachment af a))) \<and>
     (\<forall>i a m. (i, a) \<in> live_attachments af \<longrightarrow>
        (m \<in> set (att_messages (af_attachment af a)) \<longleftrightarrow> a \<in> set (af_messageAttachments af m)))"

lemma attachments_okD:
  assumes "attachments_ok af"
  shows "collection_ok (af_attachment af) (af_attachments af)" "(i, a) \<in> live_attachments af \<Longrightarrow> a < af_nextAttachment af"
    "collection_ok (af_attachment af) (af_userAttachments af u)"
    "(i, a) \<in> set (ac_byId (af_userAttachments af u)) \<longleftrightarrow> (i, a) \<in> live_attachments af \<and> att_createdBy (af_attachment af a) = u"
    "flat_set (af_messageAttachments af m)" "a \<in> set (af_messageAttachments af m) \<Longrightarrow> \<exists>i. (i, a) \<in> live_attachments af"
    "(i, a) \<in> live_attachments af \<Longrightarrow> flat_set (att_messages (af_attachment af a))"
    "(i, a) \<in> live_attachments af \<Longrightarrow> m \<in> set (att_messages (af_attachment af a)) \<longleftrightarrow> a \<in> set (af_messageAttachments af m)"
  using assms unfolding attachments_ok_def by blast+

lemma attachments_okI:
  assumes "collection_ok (af_attachment af) (af_attachments af)" "\<And>i a. (i, a) \<in> live_attachments af \<Longrightarrow> a < af_nextAttachment af"
    "\<And>u. collection_ok (af_attachment af) (af_userAttachments af u)"
    "\<And>u i a. (i, a) \<in> set (ac_byId (af_userAttachments af u)) \<longleftrightarrow> (i, a) \<in> live_attachments af \<and> att_createdBy (af_attachment af a) = u"
    "\<And>m. flat_set (af_messageAttachments af m)"
    "\<And>m a. a \<in> set (af_messageAttachments af m) \<Longrightarrow> \<exists>i. (i, a) \<in> live_attachments af"
    "\<And>i a. (i, a) \<in> live_attachments af \<Longrightarrow> flat_set (att_messages (af_attachment af a))"
    "\<And>i a m. (i, a) \<in> live_attachments af \<Longrightarrow> m \<in> set (att_messages (af_attachment af a)) \<longleftrightarrow> a \<in> set (af_messageAttachments af m)"
  shows "attachments_ok af"
  unfolding attachments_ok_def using assms by blast

lemma find_attachment_live:
  assumes "attachments_ok af"
  shows "find_attachment af i = Some a \<longleftrightarrow> (i, a) \<in> live_attachments af"
    and "(i, a) \<in> live_attachments af \<Longrightarrow> att_id (af_attachment af a) = i"
  using attachments_okD(1) [OF assms] by (auto simp: find_attachment_def collection_ok_def map_of_eq_Some_iff)

lemma live_unique:
  assumes "attachments_ok af" "(i, a) \<in> live_attachments af" "(j, a) \<in> live_attachments af"
  shows "i = j"
  using find_attachment_live(2) [OF assms(1)] assms(2,3) by blast

text \<open>A change of an attachment that keeps its id, size, creator and messages.\<close>

lemma attachments_ok_upd:
  assumes "\<And>e. att_id (f e) = att_id e \<and> att_size (f e) = att_size e \<and> att_createdBy (f e) = att_createdBy e \<and> att_messages (f e) = att_messages e"
  shows "attachments_ok (upd_attachment a f af) = attachments_ok af"
proof -
  let ?ats = "(af_attachment af)(a := f (af_attachment af a))"
  have "collection_ok ?ats c = collection_ok (af_attachment af) c" for c
    by (rule collection_cong) (simp add: assms)
  moreover have "att_createdBy (?ats b) = att_createdBy (af_attachment af b)" "att_messages (?ats b) = att_messages (af_attachment af b)" for b
    using assms by simp_all
  ultimately show ?thesis by (simp add: attachments_ok_def upd_attachment_def del: fun_upd_apply)
qed

lemma attachments_ok_forum [simp]: "attachments_ok (af\<lparr>af_forum := fo\<rparr>) = attachments_ok af"
  by (simp add: attachments_ok_def)

subsection \<open>Direct writes\<close>

lemma attachments_ok_added:
  assumes ok: "attachments_ok af" and new: "att_id e \<notin> fst ` live_attachments af" and e: "att_messages e = []"
  defines "a \<equiv> af_nextAttachment af"
  defines "af2 \<equiv> upd_attachment a (\<lambda>_. e) (af\<lparr>af_nextAttachment := Suc a\<rparr>)"
  defines "af3 \<equiv> upd_userAttachments (att_createdBy e) (\<lambda>uc. snd (attachments_add (af_attachment af2) a uc)) af2"
  shows "attachments_ok (insertAttachment a af3)"
    "ac_byId (af_attachments (insertAttachment a af3)) = ac_byId (af_attachments af) @ [(att_id e, a)]"
    "ac_byId (af_userAttachments (insertAttachment a af3) (att_createdBy e)) =
       ac_byId (af_userAttachments af (att_createdBy e)) @ [(att_id e, a)]"
proof -
  let ?u = "att_createdBy e" and ?ats = "(af_attachment af)(a := e)"
  note D = attachments_okD [OF ok]
  have below: "b \<noteq> a" if "(i, b) \<in> live_attachments af" for i b using D(2) [OF that] by (simp add: a_def)
  have below_user: "b \<noteq> a" if "(i, b) \<in> set (ac_byId (af_userAttachments af u))" for i b u using that D(4) below by blast
  have same: "?ats b = af_attachment af b" if "b \<noteq> a" for b using that by simp
  have glob: "collection_ok ?ats (af_attachments af)"
    using D(1) collection_cong [of "af_attachments af" ?ats "af_attachment af"] below by simp
  have user: "collection_ok ?ats (af_userAttachments af u)" for u
    using D(3) [of u] collection_cong [of "af_userAttachments af u" ?ats "af_attachment af"] below_user by simp
  have "att_id (?ats a) = att_id e" by simp
  then obtain g where g: "attachments_add ?ats a (af_attachments af) = (True, g)" "collection_ok ?ats g"
      "ac_byId g = ac_byId (af_attachments af) @ [(att_id e, a)]"
    using attachments_add_ok [OF glob, of a] new by auto
  have "att_id e \<notin> fst ` set (ac_byId (af_userAttachments af ?u))" using new D(4) [of _ _ ?u] by (force simp: image_iff)
  then obtain c where c: "attachments_add ?ats a (af_userAttachments af ?u) = (True, c)" "collection_ok ?ats c"
      "ac_byId c = ac_byId (af_userAttachments af ?u) @ [(att_id e, a)]"
    using attachments_add_ok [OF user, of a ?u] by auto
  have result: "insertAttachment a af3 = af\<lparr>af_attachment := ?ats, af_attachments := g,
      af_userAttachments := (af_userAttachments af)(?u := c), af_nextAttachment := Suc a\<rparr>"
    using g(1) c(1) by (simp add: insertAttachment_def af3_def af2_def upd_userAttachments_def upd_attachment_def)
  show "ac_byId (af_attachments (insertAttachment a af3)) = ac_byId (af_attachments af) @ [(att_id e, a)]"
    "ac_byId (af_userAttachments (insertAttachment a af3) ?u) = ac_byId (af_userAttachments af ?u) @ [(att_id e, a)]"
    using g(3) c(3) by (simp_all add: result)
  have new_msgs: "a \<notin> set (af_messageAttachments af m)" for m using D(6) [of a m] below by blast
  have "(i, b) \<in> set (ac_byId (((af_userAttachments af)(?u := c)) u)) \<longleftrightarrow>
      (i, b) \<in> insert (att_id e, a) (live_attachments af) \<and> att_createdBy (?ats b) = u" for u i b
    using D(4) [of i b u] below [of i b] c(3) by (cases "u = ?u"; cases "b = a") auto
  moreover have "flat_set (att_messages (?ats b))" "m \<in> set (att_messages (?ats b)) \<longleftrightarrow> b \<in> set (af_messageAttachments af m)"
    if "(i, b) \<in> insert (att_id e, a) (live_attachments af)" for i b m
    using that D(7,8) [of i b] new_msgs e below [of i b] by (cases "b = a"; auto)+
  moreover have "b < Suc a" if "(i, b) \<in> insert (att_id e, a) (live_attachments af)" for i b
    using that D(2) [of i b] by (auto simp: a_def)
  moreover have "collection_ok ?ats (((af_userAttachments af)(?u := c)) u)" for u using c(2) user by simp
  moreover have "\<exists>i. (i, b) \<in> insert (att_id e, a) (live_attachments af)" if "b \<in> set (af_messageAttachments af m)" for b m
    using D(6) [OF that] by blast
  moreover have "set (ac_byId g) = insert (att_id e, a) (live_attachments af)" using g(3) by simp
  ultimately show "attachments_ok (insertAttachment a af3)"
    using g(2) D(5) unfolding attachments_ok_def result by (simp del: fun_upd_apply)
qed

lemma erase_fold:
  "distinct ms \<Longrightarrow> fold (\<lambda>m. upd_messageAttachments m (flat_erase a)) ms af =
     af\<lparr>af_messageAttachments := \<lambda>x. if x \<in> set ms then flat_erase a (af_messageAttachments af x) else af_messageAttachments af x\<rparr>"
proof (induction ms arbitrary: af)
  case (Cons m ms)
  then show ?case by (auto simp: upd_messageAttachments_def fun_eq_iff intro!: arg_cong [where f = "\<lambda>g. af\<lparr>af_messageAttachments := g\<rparr>"])
qed simp

lemma attachments_ok_deleted:
  assumes ok: "attachments_ok af" and live: "(i, a) \<in> live_attachments af"
  shows "attachments_ok (collection_deleteAttachment a af)"
    "live_attachments (collection_deleteAttachment a af) = live_attachments af - {(i, a)}"
proof -
  note D = attachments_okD [OF ok]
  let ?ats = "af_attachment af"
  let ?u = "att_createdBy (?ats a)"
  have i: "att_id (?ats a) = i" using find_attachment_live(2) [OF ok live] .
  have "(att_id (?ats a), a) \<in> set (ac_byId (af_attachments af))" using live i by simp
  then obtain g where g: "attachments_remove ?ats a (af_attachments af) = (True, g)" "collection_ok ?ats g"
      "set (ac_byId g) = live_attachments af - {(i, a)}"
    using attachments_remove_ok [OF D(1), of a] i by auto
  have "(att_id (?ats a), a) \<in> set (ac_byId (af_userAttachments af ?u))" using live i D(4) by simp
  then obtain c where c: "attachments_remove ?ats a (af_userAttachments af ?u) = (True, c)" "collection_ok ?ats c"
      "set (ac_byId c) = set (ac_byId (af_userAttachments af ?u)) - {(i, a)}"
    using attachments_remove_ok [OF D(3), of a ?u] i by auto
  have "distinct (att_messages (?ats a))" using D(7) [OF live] by (simp add: flat_set_def)
  then have result: "collection_deleteAttachment a af = af\<lparr>af_attachments := g, af_userAttachments := (af_userAttachments af)(?u := c),
      af_messageAttachments := \<lambda>x. if x \<in> set (att_messages (?ats a)) then flat_erase a (af_messageAttachments af x)
        else af_messageAttachments af x\<rparr>"
    using g(1) c(1) by (simp add: collection_deleteAttachment_def Let_def erase_fold upd_userAttachments_def cong: if_cong)
  show "live_attachments (collection_deleteAttachment a af) = live_attachments af - {(i, a)}" using g(3) by (simp add: result)
  have fields: "af_attachment (collection_deleteAttachment a af) = ?ats" "af_attachments (collection_deleteAttachment a af) = g"
      "af_userAttachments (collection_deleteAttachment a af) = (af_userAttachments af)(?u := c)"
      "af_nextAttachment (collection_deleteAttachment a af) = af_nextAttachment af"
      "af_messageAttachments (collection_deleteAttachment a af) = (\<lambda>x. if x \<in> set (att_messages (?ats a))
         then flat_erase a (af_messageAttachments af x) else af_messageAttachments af x)"
    by (simp_all add: result)
  have msgs: "set (if m \<in> set (att_messages (?ats a)) then flat_erase a (af_messageAttachments af m) else af_messageAttachments af m) =
      set (af_messageAttachments af m) - {a}" for m
    using D(5) [of m] D(8) [OF live, of m] by (simp add: set_flat_erase)
  have others: "(j, b) \<in> live_attachments af \<and> b \<noteq> a" if "(j, b) \<in> live_attachments af - {(i, a)}" for j b
    using that live_unique [OF ok live] by blast
  have users: "(j, b) \<in> set (ac_byId (((af_userAttachments af)(?u := c)) v)) \<longleftrightarrow>
      (j, b) \<in> live_attachments af - {(i, a)} \<and> att_createdBy (?ats b) = v" for v j b
    using D(4) [of j b v] D(4) [of j b ?u] c(3) by (cases "v = ?u") auto
  have colls: "collection_ok ?ats (((af_userAttachments af)(?u := c)) v)" for v using c(2) D(3) by simp
  have flat: "flat_set (if m \<in> set (att_messages (?ats a)) then flat_erase a (af_messageAttachments af m) else af_messageAttachments af m)" for m
    using D(5) [of m] by (simp add: flat_set_erase)
  have attached: "\<exists>j. (j, b) \<in> live_attachments af - {(i, a)}" if "b \<in> set (af_messageAttachments af m) - {a}" for b m
    using that D(6) [of b m] by auto
  show "attachments_ok (collection_deleteAttachment a af)"
  proof (rule attachments_okI, unfold fields g(3))
    fix m b assume "b \<in> set (if m \<in> set (att_messages (?ats a)) then flat_erase a (af_messageAttachments af m) else af_messageAttachments af m)"
    then show "\<exists>j. (j, b) \<in> live_attachments af - {(i, a)}" unfolding msgs by (rule attached)
  next
    fix j b m assume "(j, b) \<in> live_attachments af - {(i, a)}"
    from others [OF this] have b: "(j, b) \<in> live_attachments af" "b \<noteq> a" by blast+
    show "(m \<in> set (att_messages (?ats b))) = (b \<in> set (if m \<in> set (att_messages (?ats a))
        then flat_erase a (af_messageAttachments af m) else af_messageAttachments af m))"
      unfolding msgs using D(8) [OF b(1), of m] b(2) by simp
  next
    fix j b assume "(j, b) \<in> live_attachments af - {(i, a)}"
    then have b: "(j, b) \<in> live_attachments af" by blast
    show "b < af_nextAttachment af" "flat_set (att_messages (?ats b))" using D(2,7) [OF b] .
  qed (rule g(2) colls users flat)+
qed

text \<open>Attaching and detaching change both sides alike.\<close>

lemma attachments_ok_linked:
  assumes ok: "attachments_ok af" and live: "(i, a) \<in> live_attachments af"
    and both: "\<And>xs. flat_set xs \<Longrightarrow> flat_set (f xs)" "\<And>xs. flat_set xs \<Longrightarrow> flat_set (g xs)"
      "m \<in> set (f (att_messages (af_attachment af a))) \<longleftrightarrow> a \<in> set (g (af_messageAttachments af m))"
    and only: "\<And>m' xs. flat_set xs \<Longrightarrow> m' \<noteq> m \<Longrightarrow> m' \<in> set (f xs) \<longleftrightarrow> m' \<in> set xs"
      "\<And>b xs. flat_set xs \<Longrightarrow> b \<noteq> a \<Longrightarrow> b \<in> set (g xs) \<longleftrightarrow> b \<in> set xs"
  shows "attachments_ok (upd_messageAttachments m g (upd_attachment a (\<lambda>e. e\<lparr>att_messages := f (att_messages e)\<rparr>) af))"
proof -
  note D = attachments_okD [OF ok]
  let ?ats = "(af_attachment af)(a := (af_attachment af a)\<lparr>att_messages := f (att_messages (af_attachment af a))\<rparr>)"
  let ?ms = "(af_messageAttachments af)(m := g (af_messageAttachments af m))"
  have coll: "collection_ok ?ats c = collection_ok (af_attachment af) c" for c by (rule collection_cong) simp
  have created: "att_createdBy (?ats b) = att_createdBy (af_attachment af b)" for b by simp
  have flats: "flat_set (?ms m')" "(j, b) \<in> live_attachments af \<Longrightarrow> flat_set (att_messages (?ats b))" for m' j b
    using both(1) [OF D(7)] both(2) [OF D(5)] D(5,7) by auto
  have agree: "m' \<in> set (att_messages (?ats b)) \<longleftrightarrow> b \<in> set (?ms m')" if "(j, b) \<in> live_attachments af" for j b m'
    using that D(8) [OF that, of m'] both(3) only(1) [OF D(7) [OF live]] only(2) [OF D(5) [of m]] by (cases "b = a"; cases "m' = m") auto
  have attached: "\<exists>j. (j, b) \<in> live_attachments af" if "b \<in> set (?ms m')" for b m'
    using that live only(2) [OF D(5) [of m], of b] D(6) [of b m'] by (cases "b = a"; cases "m' = m") auto
  let ?af = "upd_messageAttachments m g (upd_attachment a (\<lambda>e. e\<lparr>att_messages := f (att_messages e)\<rparr>) af)"
  have fields: "af_attachment ?af = ?ats" "af_attachments ?af = af_attachments af" "af_userAttachments ?af = af_userAttachments af"
      "af_nextAttachment ?af = af_nextAttachment af" "af_messageAttachments ?af = ?ms"
    by (simp_all add: upd_messageAttachments_def upd_attachment_def)
  show ?thesis
    by (rule attachments_okI; unfold fields coll created; (rule D flats agree attached)?) assumption+
qed

lemma attachments_ok_attach:
  assumes "attachments_ok af" "(i, a) \<in> live_attachments af"
  shows "attachments_ok (upd_messageAttachments m (flat_insert a) (upd_attachment a (\<lambda>e. e\<lparr>att_messages := flat_insert m (att_messages e)\<rparr>) af))"
  by (rule attachments_ok_linked [OF assms]) (auto intro: forum_intros)

lemma attachments_ok_detach:
  assumes "attachments_ok af" "(i, a) \<in> live_attachments af"
  shows "attachments_ok (upd_messageAttachments m (flat_erase a) (upd_attachment a (\<lambda>e. e\<lparr>att_messages := flat_erase m (att_messages e)\<rparr>) af))"
proof (rule attachments_ok_linked [OF assms])
  show "m \<in> set (flat_erase m (att_messages (af_attachment af a))) \<longleftrightarrow> a \<in> set (flat_erase a (af_messageAttachments af m))"
    using attachments_okD(5,7) [OF assms(1)] assms(2) by (simp add: set_flat_erase)
qed (auto simp: set_flat_erase intro: forum_intros)

end
