(* ===== verification/AttachmentRequests.thy ===== *)
theory AttachmentRequests
  imports AttachmentLemmas
begin

section \<open>Requests on attachments\<close>

text \<open>
  Every request on an attachment returns and keeps the invariant of the attachments; the quota is compared with a
  sum of 64-bit words.
\<close>

subsection \<open>The state between requests\<close>

definition attachment_state_ok :: "id_type set \<Rightarrow> id_type set \<Rightarrow> attachment_forum \<Rightarrow> bool" where
  "attachment_state_ok used ids af \<longleftrightarrow> forum_ok used (af_forum af) \<and> attachments_ok af \<and> fst ` live_attachments af \<subseteq> ids"

definition keeps_attachments :: "id_type set \<Rightarrow> id_type set \<Rightarrow> id_type set \<Rightarrow> attachment_write \<Rightarrow> bool" where
  "keeps_attachments used ids ids' f \<longleftrightarrow> ids \<subseteq> ids' \<and>
     (\<forall>af. attachment_state_ok used ids af \<longrightarrow> (\<exists>st af'. f af = Some (st, af') \<and> attachment_state_ok used ids' af'))"

lemma keeps_attachmentsD:
  "keeps_attachments used ids ids' f \<Longrightarrow> attachment_state_ok used ids af \<Longrightarrow> \<exists>st af'. f af = Some (st, af') \<and> attachment_state_ok used ids' af'"
  by (simp add: keeps_attachments_def)

lemma attachment_state_okD:
  assumes "attachment_state_ok used ids af"
  shows "forum_ok used (af_forum af)" "attachments_ok af" "fst ` live_attachments af \<subseteq> ids"
  using assms by (simp_all add: attachment_state_ok_def)

lemma attachment_state_forum: "attachment_state_ok used ids af \<Longrightarrow> forum_ok used fo \<Longrightarrow> attachment_state_ok used ids (af\<lparr>af_forum := fo\<rparr>)"
  by (simp add: attachment_state_ok_def)

lemma lift_user_ok:
  assumes "lift_user f af = (u, af1)" "\<And>fo u fo1. f fo = (u, fo1) \<Longrightarrow> forum_ok used fo \<Longrightarrow> forum_ok used fo1" "attachment_state_ok used ids af"
  shows "attachment_state_ok used ids af1"
proof -
  obtain fo where fo: "f (af_forum af) = (u, fo)" "af1 = af\<lparr>af_forum := fo\<rparr>"
    using assms(1) by (auto simp: lift_user_def split: prod.splits)
  show ?thesis unfolding fo(2) by (rule attachment_state_forum [OF assms(3) assms(2) [OF fo(1) attachment_state_okD(1) [OF assms(3)]]])
qed

lemma authorize_attachment_ok:
  assumes "\<And>ax. \<exists>u. handler_of ax u (h ax)" "attachment_state_ok used ids af"
  shows "\<exists>st fo. authorize_attachment cx h af = Some (st, af\<lparr>af_forum := fo\<rparr>) \<and> attachment_state_ok used ids (af\<lparr>af_forum := fo\<rparr>)"
proof -
  obtain st fo where "authorize cx h (af_forum af) = Some (st, fo)" "forum_ok used fo"
    using authorize_ok [where h = h, OF assms(1) attachment_state_okD(1) [OF assms(2)]] by blast
  then show ?thesis using attachment_state_forum [OF assms(2)] by (auto simp: authorize_attachment_def)
qed

lemma observe_attachment_ok: "attachment_state_ok used ids af \<Longrightarrow> attachment_state_ok used ids (observe_attachment cx u call af)"
  unfolding observe_attachment_def by (intro attachment_state_forum observe_ok attachment_state_okD(1))

subsection \<open>Direct writes\<close>

lemma state_upd:
  assumes "\<And>e. att_id (f e) = att_id e \<and> att_size (f e) = att_size e \<and> att_createdBy (f e) = att_createdBy e \<and> att_messages (f e) = att_messages e"
    "attachment_state_ok used ids af"
  shows "attachment_state_ok used ids (upd_attachment a f af)"
  using attachments_ok_upd [where f = f, OF assms(1)] assms(2) by (simp add: attachment_state_ok_def upd_attachment_def)

lemma keeps_attachmentsI:
  assumes "\<And>af. attachment_state_ok used ids af \<Longrightarrow> \<exists>st af'. f af = Some (st, af') \<and> attachment_state_ok used ids af'"
  shows "keeps_attachments used ids ids f"
  using assms by (simp add: keeps_attachments_def)

lemma found_live: "attachment_state_ok used ids af \<Longrightarrow> find_attachment af i = Some a \<Longrightarrow> (i, a) \<in> live_attachments af"
  using find_attachment_live(1) attachment_state_okD(2) by blast

lemma direct_attachment_name_keeps: "keeps_attachments used ids ids (direct_changeAttachmentName cf i name)"
  by (rule keeps_attachmentsI) (auto simp: direct_changeAttachmentName_def intro: state_upd split: option.split)

lemma direct_approval_keeps: "keeps_attachments used ids ids (direct_changeAttachmentApproval i b)"
  by (rule keeps_attachmentsI) (auto simp: direct_changeAttachmentApproval_def intro: state_upd split: option.split)

lemma state_deleted:
  assumes ok: "attachment_state_ok used ids af" and live: "(i, a) \<in> live_attachments af"
  shows "attachment_state_ok used ids (collection_deleteAttachment a af)"
proof -
  note D = attachment_state_okD [OF ok]
  have folded: "af_forum (fold (\<lambda>m. upd_messageAttachments m (flat_erase a)) ms af) = af_forum af" for ms af
    by (induction ms arbitrary: af) (simp_all add: upd_messageAttachments_def)
  have "af_forum (collection_deleteAttachment a af) = af_forum af"
    by (simp add: collection_deleteAttachment_def Let_def folded upd_userAttachments_def split: prod.split)
  moreover have "fst ` live_attachments (collection_deleteAttachment a af) \<subseteq> ids"
    using D(3) unfolding attachments_ok_deleted(2) [OF D(2) live] by blast
  ultimately show ?thesis
    using D(1) attachments_ok_deleted(1) [OF D(2) live] by (simp add: attachment_state_ok_def)
qed

lemma direct_attachment_delete_keeps: "keeps_attachments used ids ids (direct_deleteAttachment i)"
  by (rule keeps_attachmentsI) (auto simp: direct_deleteAttachment_def intro: state_deleted found_live split: option.split)

lemma state_linked:
  assumes "attachment_state_ok used ids af" "find_attachment af i = Some a"
  shows "attachment_state_ok used ids (upd_messageAttachments m (flat_insert a) (upd_attachment a (\<lambda>e. e\<lparr>att_messages := flat_insert m (att_messages e)\<rparr>) af))"
    "attachment_state_ok used ids (upd_messageAttachments m (flat_erase a) (upd_attachment a (\<lambda>e. e\<lparr>att_messages := flat_erase m (att_messages e)\<rparr>) af))"
  using attachments_ok_attach [OF attachment_state_okD(2) [OF assms(1)] found_live [OF assms]]
    attachments_ok_detach [OF attachment_state_okD(2) [OF assms(1)] found_live [OF assms]] assms(1)
  by (simp_all add: attachment_state_ok_def upd_messageAttachments_def upd_attachment_def)

lemma direct_attach_keeps: "keeps_attachments used ids ids (direct_addAttachmentToDiscussionThreadMessage i m)"
  by (rule keeps_attachmentsI)
    (auto simp: direct_addAttachmentToDiscussionThreadMessage_def intro: state_linked split: option.split)

lemma direct_detach_keeps: "keeps_attachments used ids ids (direct_removeAttachmentFromDiscussionThreadMessage i m)"
  by (rule keeps_attachmentsI)
    (auto simp: direct_removeAttachmentFromDiscussionThreadMessage_def intro: state_linked split: option.split)

definition new_attachment :: "attachment_settings \<Rightarrow> repository_context \<Rightarrow> ptr \<Rightarrow> id_type \<Rightarrow> string \<Rightarrow> 64 word \<Rightarrow> bool \<Rightarrow> attachment_entity" where
  "new_attachment cf cx u aid name sz approved =
     \<lparr>att_createdBy = u, att_approved = approved, att_messages = [], att_id = aid, att_created = rx_time cx,
      att_createdIp = rx_ip cx, att_name = JsonReadyStringBase (as_sortKey cf name) name, att_size = sz, att_nrOfGetRequests = 0\<rparr>"

lemma direct_add_run:
  assumes ok: "attachments_ok af" and new: "aid \<notin> fst ` live_attachments af"
    and user: "getCurrentUser cx (af_forum af) = (u, fo)"
  obtains af' where "direct_addNewAttachment cf cx aid name sz approved af = Some (STATUS_OK, af')" "attachments_ok af'" "af_forum af' = fo"
    "ac_byId (af_attachments af') = ac_byId (af_attachments af) @ [(aid, af_nextAttachment af)]"
    "ac_byId (af_userAttachments af' u) = ac_byId (af_userAttachments af u) @ [(aid, af_nextAttachment af)]"
    "af_attachment af' = (af_attachment af)(af_nextAttachment af := new_attachment cf cx u aid name sz approved)"
    "af_attachmentQuota af' = af_attachmentQuota af"
proof -
  let ?e = "new_attachment cf cx u aid name sz approved" and ?af = "af\<lparr>af_forum := fo\<rparr>"
  let ?a = "af_nextAttachment af"
  have "attachments_ok ?af" "att_id ?e \<notin> fst ` live_attachments ?af" "att_messages ?e = []"
    using ok new by (simp_all add: new_attachment_def)
  note added = attachments_ok_added [OF this]
  let ?af2 = "upd_attachment ?a (\<lambda>_. ?e) (?af\<lparr>af_nextAttachment := Suc ?a\<rparr>)"
  let ?af' = "insertAttachment ?a (upd_userAttachments u (\<lambda>uc. snd (attachments_add (af_attachment ?af2) ?a uc)) ?af2)"
  have e: "att_createdBy ?e = u" "att_id ?e = aid" by (simp_all add: new_attachment_def)
  have run: "direct_addNewAttachment cf cx aid name sz approved af = Some (STATUS_OK, ?af')"
    using user by (simp add: direct_addNewAttachment_def lift_user_def Let_def new_attachment_def)
  show thesis
    by (rule that [OF run]) (use added e in
      \<open>simp_all add: insertAttachment_def upd_userAttachments_def upd_attachment_def\<close>)
qed

lemma direct_add_attachment_keeps:
  assumes "aid \<notin> ids"
  shows "keeps_attachments used ids (insert aid ids) (direct_addNewAttachment cf cx aid name sz approved)"
  unfolding keeps_attachments_def
proof (intro conjI allI impI)
  fix af assume ok: "attachment_state_ok used ids af"
  note D = attachment_state_okD [OF ok]
  obtain u fo where user: "getCurrentUser cx (af_forum af) = (u, fo)" by force
  have "aid \<notin> fst ` live_attachments af" using assms D(3) by blast
  from direct_add_run [OF D(2) this user] obtain af' where
    run: "direct_addNewAttachment cf cx aid name sz approved af = Some (STATUS_OK, af')" "attachments_ok af'" "af_forum af' = fo"
      "ac_byId (af_attachments af') = ac_byId (af_attachments af) @ [(aid, af_nextAttachment af)]" by metis
  then have "attachment_state_ok used (insert aid ids) af'"
    using D(3) getCurrentUser_ok [OF user D(1)] by (auto simp: attachment_state_ok_def)
  with run(1) show "\<exists>st af'. direct_addNewAttachment cf cx aid name sz approved af = Some (st, af') \<and> attachment_state_ok used (insert aid ids) af'"
    by blast
qed auto

subsection \<open>Requests\<close>

lemma mono_state: "attachment_state_ok used ids af \<Longrightarrow> ids \<subseteq> ids' \<Longrightarrow> attachment_state_ok used ids' af"
  by (auto simp: attachment_state_ok_def)

lemma keeps_change:
  assumes "\<And>ax. \<exists>u. handler_of ax u (h ax)" "keeps_attachments used ids ids change"
  shows "keeps_attachments used ids ids (attachment_change cx u h call change)"
proof (rule keeps_attachmentsI)
  fix af assume ok: "attachment_state_ok used ids af"
  obtain st fo where auth: "authorize_attachment cx h af = Some (st, af\<lparr>af_forum := fo\<rparr>)" "attachment_state_ok used ids (af\<lparr>af_forum := fo\<rparr>)"
    using authorize_attachment_ok [where h = h, OF assms(1) ok] by blast
  from keeps_attachmentsD [OF assms(2) auth(2)] obtain st2 af2 where "change (af\<lparr>af_forum := fo\<rparr>) = Some (st2, af2)" "attachment_state_ok used ids af2"
    by blast
  then show "\<exists>st af'. attachment_change cx u h call change af = Some (st, af') \<and> attachment_state_ok used ids af'"
    using auth observe_attachment_ok by (auto simp: attachment_change_def)
qed

lemma keeps_with_attachment:
  assumes "\<And>af u a. attachment_state_ok used ids af \<Longrightarrow> \<exists>st af'. body u a af = Some (st, af') \<and> attachment_state_ok used ids af'"
  shows "keeps_attachments used ids ids (with_attachment cx i body)"
proof (rule keeps_attachmentsI)
  fix af assume ok: "attachment_state_ok used ids af"
  obtain u af1 where user: "lift_user (performedBy_getAndUpdate cx) af = (u, af1)" by force
  have "attachment_state_ok used ids af1" by (rule lift_user_ok [OF user getAndUpdate_ok ok])
  then show "\<exists>st af'. with_attachment cx i body af = Some (st, af') \<and> attachment_state_ok used ids af'"
    using user assms by (auto simp: with_attachment_def split: option.split)
qed

lemma keeps_attachments_if:
  "keeps_attachments used ids ids' f \<Longrightarrow> keeps_attachments used ids ids' g \<Longrightarrow> keeps_attachments used ids ids' (\<lambda>af. if b then f af else g af)"
  by (cases b) simp_all

lemma keeps_attachments_return: "ids \<subseteq> ids' \<Longrightarrow> keeps_attachments used ids ids' (\<lambda>af. Some (st, af))"
  using mono_state by (auto simp: keeps_attachments_def)

lemma keeps_changed:
  assumes "\<And>ax. \<exists>u. handler_of ax u (h ax)" "keeps_attachments used ids ids change" "attachment_state_ok used ids af"
  shows "\<exists>st af'. attachment_change cx u h call change af = Some (st, af') \<and> attachment_state_ok used ids af'"
  by (rule keeps_attachmentsD [OF keeps_change [OF assms(1,2)] assms(3)])

lemma keeps_attachment_and_message:
  assumes "\<And>af u a m. attachment_state_ok used ids af \<Longrightarrow> \<exists>st af'. body u a m af = Some (st, af') \<and> attachment_state_ok used ids af'"
  shows "keeps_attachments used ids ids (with_attachment_and_message cx i j body)"
  unfolding with_attachment_and_message_def
  by (rule keeps_with_attachment) (use assms in \<open>auto split: option.split\<close>)

lemmas keeps_attachment_rules = keeps_attachments_if keeps_attachments_return subset_refl keeps_with_attachment
  keeps_attachment_and_message keeps_changed direct_attachment_name_keeps direct_approval_keeps direct_attach_keeps direct_detach_keeps

lemma repo_attachment_keeps:
  "keeps_attachments used ids ids (repo_changeAttachmentName cf cx i name)"
  "keeps_attachments used ids ids (repo_changeAttachmentApproval cx i b)"
  "keeps_attachments used ids ids (repo_addAttachmentToDiscussionThreadMessage cx i m)"
  "keeps_attachments used ids ids (repo_removeAttachmentFromDiscussionThreadMessage cx i m)"
  unfolding repo_changeAttachmentName_def [abs_def] repo_changeAttachmentApproval_def [abs_def] Let_def
    repo_addAttachmentToDiscussionThreadMessage_def [abs_def] repo_removeAttachmentFromDiscussionThreadMessage_def [abs_def]
  by (intro keeps_attachment_rules; (assumption | (rule exI, rule handler_of.intros)))+

lemma repo_deleteAttachment_keeps: "keeps_attachments used ids ids (repo_deleteAttachment cx i)"
  unfolding repo_deleteAttachment_def [abs_def]
proof (intro keeps_attachment_rules)
  fix af u a assume ok: "attachment_state_ok used ids af"
  let ?h = "\<lambda>ax. deleteAttachment ax (af_user af u) (af_att af a)"
  have h: "\<exists>v. handler_of ax v (?h ax)" for ax by (rule exI, rule handler_of.intros)
  from authorize_attachment_ok [where h = ?h, OF h ok] obtain st fo where
    auth: "authorize_attachment cx ?h af = Some (st, af\<lparr>af_forum := fo\<rparr>)" "attachment_state_ok used ids (af\<lparr>af_forum := fo\<rparr>)" by blast
  then show "\<exists>st af'. (case authorize_attachment cx ?h af of
       None \<Rightarrow> None
     | Some (st, af2) \<Rightarrow>
         if st \<noteq> STATUS_OK then Some (st, af2)
         else direct_deleteAttachment i (observe_attachment cx u (DeleteAttachment (att_id (af_attachment af2 a))) af2)) =
         Some (st, af') \<and> attachment_state_ok used ids af'"
    using keeps_attachmentsD [OF direct_attachment_delete_keeps observe_attachment_ok [OF auth(2)]] by simp
qed

lemma repo_canGetAttachment_keeps: "keeps_attachments used ids ids (repo_canGetAttachment cx i)"
proof (rule keeps_attachmentsI)
  fix af assume ok: "attachment_state_ok used ids af"
  obtain u scheduled fo where get: "performedBy_get cx (af_forum af) = (u, scheduled, fo)" by (metis prod_cases3)
  have user: "forum_ok used (update_user p f fo2)" if "forum_ok used fo2" for p f fo2
    by (rule forum_ok_links [OF that]) (simp_all add: update_user_def fo_links_def links_of_def)
  have "forum_ok used fo"
    using get attachment_state_okD(1) [OF ok] user by (auto simp: performedBy_get_def Let_def split: option.splits)
  then have ok1: "attachment_state_ok used ids (af\<lparr>af_forum := fo\<rparr>)" by (rule attachment_state_forum [OF ok])
  let ?finish = "\<lambda>af'. af'\<lparr>af_forum := performedBy_destroy cx scheduled (af_forum af')\<rparr>"
  have finish: "attachment_state_ok used ids (?finish af')" if "attachment_state_ok used ids af'" for af'
    using attachment_state_forum [OF that] attachment_state_okD(1) [OF that] user
    by (auto simp: performedBy_destroy_def split: option.splits)
  have read: "attachment_state_ok used ids (upd_attachment a (att_nrOfGetRequests_update (\<lambda>n. n + 1)) af')"
    if "attachment_state_ok used ids af'" for a af' by (rule state_upd [OF _ that]) simp
  show "\<exists>st af'. repo_canGetAttachment cx i af = Some (st, af') \<and> attachment_state_ok used ids af'"
  proof (cases "find_attachment (af\<lparr>af_forum := fo\<rparr>) i")
    case None
    then show ?thesis using get finish [OF ok1] by (simp add: repo_canGetAttachment_def)
  next
    case (Some a)
    let ?h = "\<lambda>ax. canGetAttachment ax (af_user (af\<lparr>af_forum := fo\<rparr>) u) (af_att (af\<lparr>af_forum := fo\<rparr>) a)"
    have h: "\<exists>v. handler_of ax v (?h ax)" for ax by (rule exI, rule handler_of.intros)
    from authorize_attachment_ok [where h = ?h, OF h ok1] obtain st af2 where
      "authorize_attachment cx ?h (af\<lparr>af_forum := fo\<rparr>) = Some (st, af2)" "attachment_state_ok used ids af2" by blast
    then show ?thesis
      using get Some finish [OF read] finish by (cases "st = STATUS_OK") (simp_all add: repo_canGetAttachment_def)
  qed
qed

subsection \<open>Adding\<close>

text \<open>The current user stays the same in a request.\<close>

definition current_user :: "repository_context \<Rightarrow> forum \<Rightarrow> ptr" where
  "current_user cx fo = (case fo_usersById fo (rx_userId cx) of None \<Rightarrow> fo_anonymousUser fo | Some p \<Rightarrow> p)"

lemma current_user_run:
  "fst (getCurrentUser cx fo) = current_user cx fo" "fst (performedBy_getAndUpdate cx fo) = current_user cx fo"
  "current_user cx (snd (performedBy_getAndUpdate cx fo)) = current_user cx fo"
  by (auto simp: current_user_def getCurrentUser_def performedBy_getAndUpdate_def update_user_def Let_def split: option.splits)

lemma authorize_current_user: "authorize cx h fo = Some (st, fo') \<Longrightarrow> current_user cx fo' = current_user cx fo"
  by (auto simp: authorize_def current_user_def split: option.splits)

lemma authorize_attachment_forum:
  assumes "\<And>ax. \<exists>u. handler_of ax u (h ax)" "attachment_state_ok used ids af"
  obtains st fo where "authorize_attachment cx h af = Some (st, af\<lparr>af_forum := fo\<rparr>)" "forum_ok used fo"
    "current_user cx fo = current_user cx (af_forum af)" "st \<noteq> QUOTA_EXCEEDED"
proof -
  obtain st fo where fo: "authorize cx h (af_forum af) = Some (st, fo)" "forum_ok used fo"
    using authorize_ok [where h = h, OF assms(1) attachment_state_okD(1) [OF assms(2)]] by blast
  have "st \<noteq> QUOTA_EXCEEDED" using fo(1) by (auto simp: authorize_def split: option.splits elim!: authorization_to_status.elims)
  with fo show thesis by (intro that [OF _ fo(2) authorize_current_user [OF fo(1)]]) (simp_all add: authorize_attachment_def)
qed

text \<open>How a request that adds an attachment ends.\<close>

lemma repo_addNewAttachment_cases:
  assumes ok: "attachment_state_ok used ids af" and new: "newId \<notin> ids"
  obtains (refused) st fo where "repo_addNewAttachment cf newId cx name sz af = Some (st, af\<lparr>af_forum := fo\<rparr>)" "st \<noteq> STATUS_OK"
      "forum_ok used fo" "st = QUOTA_EXCEEDED \<longrightarrow> attachmentsTotalSize af (current_user cx (af_forum af)) + sz > userQuota cf af (current_user cx (af_forum af))"
  | (added) approved af' where "repo_addNewAttachment cf newId cx name sz af = Some (STATUS_OK, af')"
      "\<not> attachmentsTotalSize af (current_user cx (af_forum af)) + sz > userQuota cf af (current_user cx (af_forum af))"
      "attachment_state_ok used (insert newId ids) af'"
      "ac_byId (af_userAttachments af' (current_user cx (af_forum af))) =
         ac_byId (af_userAttachments af (current_user cx (af_forum af))) @ [(newId, af_nextAttachment af)]"
      "af_attachment af' = (af_attachment af)(af_nextAttachment af := new_attachment cf cx (current_user cx (af_forum af)) newId name sz approved)"
      "af_attachmentQuota af' = af_attachmentQuota af"
proof (cases "validateAttachmentName cf name = STATUS_OK")
  case False
  have same: "af\<lparr>af_forum := af_forum af\<rparr> = af" by simp
  have "validateAttachmentName cf name \<noteq> QUOTA_EXCEEDED"
    by (simp add: validateAttachmentName_def validateString_extra_def validateString_def Let_def)
  then show thesis
    by (intro refused [of "validateAttachmentName cf name" "af_forum af"])
      (use False attachment_state_okD(1) [OF ok] same in \<open>simp_all add: repo_addNewAttachment_def\<close>)
next
  case valid: True
  let ?u = "current_user cx (af_forum af)"
  let ?run = "repo_addNewAttachment cf newId cx name sz af"
  obtain fo1 where "performedBy_getAndUpdate cx (af_forum af) = (?u, fo1)" using current_user_run(2) [of cx "af_forum af"] by (metis prod.collapse)
  then have get: "lift_user (performedBy_getAndUpdate cx) af = (?u, af\<lparr>af_forum := fo1\<rparr>)"
      and fo1: "forum_ok used fo1" "current_user cx fo1 = ?u"
    using getAndUpdate_ok attachment_state_okD(1) [OF ok] current_user_run(3) [of cx "af_forum af"] by (auto simp: lift_user_def)
  let ?af1 = "af\<lparr>af_forum := fo1\<rparr>"
  have ok1: "attachment_state_ok used ids ?af1" by (rule attachment_state_forum [OF ok fo1(1)])
  show thesis
  proof (cases "isAnonymousUser (Some (af_user ?af1 ?u))")
    case True
    show thesis by (rule refused [of UNAUTHORIZED fo1]) (use valid get True fo1 in \<open>simp_all add: repo_addNewAttachment_def\<close>)
  next
    case known: False
    let ?h = "\<lambda>ax. addNewAttachment ax (af_user ?af1 ?u)"
    have h: "\<exists>v. handler_of ax v (?h ax)" for ax by (rule exI, rule handler_of.intros)
    obtain st fo2 where auth: "authorize_attachment cx ?h ?af1 = Some (st, af\<lparr>af_forum := fo2\<rparr>)" "forum_ok used fo2"
        "current_user cx fo2 = ?u" "st \<noteq> QUOTA_EXCEEDED"
      using authorize_attachment_forum [where h = ?h, OF h ok1] fo1(2) by simp metis
    note run = repo_addNewAttachment_def valid get known auth(1)
    let ?af2 = "af\<lparr>af_forum := fo2\<rparr>"
    have ok2: "attachment_state_ok used ids ?af2" by (rule attachment_state_forum [OF ok auth(2)])
    show thesis
    proof (cases "st = STATUS_OK \<and> \<not> attachmentsTotalSize ?af2 ?u + sz > userQuota cf ?af2 ?u")
      case False
      show thesis
        by (rule refused [of "if st = STATUS_OK then QUOTA_EXCEEDED else st" fo2])
          (use False auth(2,4) in \<open>auto simp: run attachmentsTotalSize_def userQuota_def\<close>)
    next
      case fits: True
      let ?h2 = "\<lambda>ax. autoApproveAttachment ax (af_user ?af2 ?u)"
      have h2: "\<exists>v. handler_of ax v (?h2 ax)" for ax by (rule exI, rule handler_of.intros)
      obtain st2 fo3 where approve: "authorize_attachment cx ?h2 ?af2 = Some (st2, af\<lparr>af_forum := fo3\<rparr>)" "forum_ok used fo3"
          "current_user cx fo3 = ?u"
        using authorize_attachment_forum [where h = ?h2, OF h2 ok2] auth(3) by simp metis
      let ?af3 = "af\<lparr>af_forum := fo3\<rparr>"
      have ok3: "attachments_ok ?af3" "newId \<notin> fst ` live_attachments ?af3" "fst ` live_attachments ?af3 \<subseteq> ids"
        using ok new by (auto simp: attachment_state_ok_def)
      obtain fo4 where user: "getCurrentUser cx (af_forum ?af3) = (?u, fo4)"
        using approve(3) current_user_run(1) [of cx fo3] by (cases "getCurrentUser cx fo3") simp
      from direct_add_run [OF ok3(1,2) user] obtain af' where
        add: "direct_addNewAttachment cf cx newId name sz (STATUS_OK = st2) ?af3 = Some (STATUS_OK, af')" "attachments_ok af'" "af_forum af' = fo4"
        "ac_byId (af_attachments af') = ac_byId (af_attachments af) @ [(newId, af_nextAttachment af)]"
        "ac_byId (af_userAttachments af' ?u) = ac_byId (af_userAttachments af ?u) @ [(newId, af_nextAttachment af)]"
        "af_attachment af' = (af_attachment af)(af_nextAttachment af := new_attachment cf cx ?u newId name sz (STATUS_OK = st2))"
        "af_attachmentQuota af' = af_attachmentQuota af" by simp metis
      have "attachment_state_ok used (insert newId ids) af'"
        using add(2,3,4) ok3(3) getCurrentUser_ok [OF user] approve(2) by (auto simp: attachment_state_ok_def)
      then have ok': "attachment_state_ok used (insert newId ids) (observe_attachment cx ?u call af')" for call
        by (rule observe_attachment_ok)
      show thesis
        by (rule added [OF _ _ ok'])
          (use fits approve(1) add in \<open>simp_all add: run Let_def attachmentsTotalSize_def userQuota_def observe_attachment_def\<close>)
    qed
  qed
qed

subsection \<open>Sequences of requests\<close>

datatype attachment_request =
  NewAttachment id_type string "64 word"
| AttachmentName id_type string
| AttachmentApproval id_type bool
| AttachmentDelete id_type
| AttachmentToMessage id_type id_type
| AttachmentFromMessage id_type id_type
| AttachmentDownload id_type

text \<open>The first argument of a request for a new attachment is the id the generator gives to it.\<close>

fun repo_attachment_request :: "attachment_settings \<Rightarrow> repository_context \<Rightarrow> attachment_request \<Rightarrow> attachment_write" where
  "repo_attachment_request cf cx (NewAttachment newId name sz) = repo_addNewAttachment cf newId cx name sz"
| "repo_attachment_request cf cx (AttachmentName i name) = repo_changeAttachmentName cf cx i name"
| "repo_attachment_request cf cx (AttachmentApproval i b) = repo_changeAttachmentApproval cx i b"
| "repo_attachment_request cf cx (AttachmentDelete i) = repo_deleteAttachment cx i"
| "repo_attachment_request cf cx (AttachmentToMessage i m) = repo_addAttachmentToDiscussionThreadMessage cx i m"
| "repo_attachment_request cf cx (AttachmentFromMessage i m) = repo_removeAttachmentFromDiscussionThreadMessage cx i m"
| "repo_attachment_request cf cx (AttachmentDownload i) = repo_canGetAttachment cx i"

fun new_attachment_id :: "attachment_request \<Rightarrow> id_type list" where
  "new_attachment_id (NewAttachment newId name sz) = [newId]"
| "new_attachment_id _ = []"

abbreviation new_attachment_ids :: "(repository_context \<times> attachment_request) list \<Rightarrow> id_type list" where
  "new_attachment_ids rs \<equiv> concat (map (\<lambda>r. new_attachment_id (snd r)) rs)"

fun run_attachment_requests ::
  "attachment_settings \<Rightarrow> (repository_context \<times> attachment_request) list \<Rightarrow> attachment_forum \<Rightarrow> (status_code list \<times> attachment_forum) option" where
  "run_attachment_requests cf [] af = Some ([], af)"
| "run_attachment_requests cf ((cx, r) # rs) af =
     (case repo_attachment_request cf cx r af of
        None \<Rightarrow> None
      | Some (st, af1) \<Rightarrow> map_option (\<lambda>(sts, af2). (st # sts, af2)) (run_attachment_requests cf rs af1))"

lemma repo_addNewAttachment_keeps:
  assumes "newId \<notin> ids"
  shows "keeps_attachments used ids (insert newId ids) (repo_addNewAttachment cf newId cx name sz)"
  unfolding keeps_attachments_def
proof (intro conjI allI impI)
  fix af assume ok: "attachment_state_ok used ids af"
  show "\<exists>st af'. repo_addNewAttachment cf newId cx name sz af = Some (st, af') \<and> attachment_state_ok used (insert newId ids) af'"
    using ok assms
  proof (cases rule: repo_addNewAttachment_cases [where cf = cf and cx = cx and name = name and sz = sz])
    case (refused st fo)
    then show ?thesis using mono_state [OF attachment_state_forum [OF ok refused(3)], of "insert newId ids"] by auto
  qed auto
qed auto

lemma repo_attachment_request_keeps:
  assumes "set (new_attachment_id r) \<inter> ids = {}"
  shows "keeps_attachments used ids (ids \<union> set (new_attachment_id r)) (repo_attachment_request cf cx r)"
  using assms
  by (cases r) (simp_all add: repo_addNewAttachment_keeps repo_attachment_keeps repo_deleteAttachment_keeps repo_canGetAttachment_keeps)

lemma run_attachment_requests_keep:
  assumes "attachment_state_ok used ids af" "distinct (new_attachment_ids rs)" "set (new_attachment_ids rs) \<inter> ids = {}"
  shows "\<exists>sts af'. run_attachment_requests cf rs af = Some (sts, af') \<and> length sts = length rs \<and>
    attachment_state_ok used (ids \<union> set (new_attachment_ids rs)) af'"
  using assms
proof (induction rs arbitrary: ids af)
  case (Cons r rs)
  obtain cx req where r: "r = (cx, req)" by force
  have "keeps_attachments used ids (ids \<union> set (new_attachment_id req)) (repo_attachment_request cf cx req)"
    using Cons.prems r by (intro repo_attachment_request_keeps) auto
  from keeps_attachmentsD [OF this Cons.prems(1)] obtain st af1 where
    step: "repo_attachment_request cf cx req af = Some (st, af1)" "attachment_state_ok used (ids \<union> set (new_attachment_id req)) af1" by blast
  have "distinct (new_attachment_ids rs)" "set (new_attachment_ids rs) \<inter> (ids \<union> set (new_attachment_id req)) = {}"
    using Cons.prems r by auto
  from Cons.IH [OF step(2) this] obtain sts af' where
    rest: "run_attachment_requests cf rs af1 = Some (sts, af')" "length sts = length rs"
      "attachment_state_ok used (ids \<union> set (new_attachment_id req) \<union> set (new_attachment_ids rs)) af'" by blast
  have "ids \<union> set (new_attachment_id req) \<union> set (new_attachment_ids rs) = ids \<union> set (new_attachment_ids (r # rs))"
    by (simp add: r Un_assoc)
  with rest step(1) r show ?case by simp
qed simp

subsection \<open>The bytes of a user\<close>

definition user_bytes :: "attachment_forum \<Rightarrow> ptr \<Rightarrow> nat" where
  "user_bytes af u = sum_list (map (\<lambda>(i, a). unat (att_size (af_attachment af a))) (ac_byId (af_userAttachments af u)))"

lemma size_sum_bytes: "size_sum ats xs = of_nat (sum_list (map (\<lambda>(i, a). unat (att_size (ats a))) xs))"
  by (induction xs) (auto simp: size_sum_def)

lemma total_bytes:
  assumes "attachments_ok af"
  shows "attachmentsTotalSize af u = of_nat (user_bytes af u)"
  using attachments_okD(3) [OF assms, of u]
  by (simp add: attachmentsTotalSize_def user_bytes_def collection_ok_def size_sum_bytes)

lemma added_bytes:
  assumes ok: "attachments_ok af"
    and added: "ac_byId (af_userAttachments af' u) = ac_byId (af_userAttachments af u) @ [(i, af_nextAttachment af)]"
      "af_attachment af' = (af_attachment af)(af_nextAttachment af := e)"
  shows "user_bytes af' u = user_bytes af u + unat (att_size e)"
proof -
  have old: "a \<noteq> af_nextAttachment af" if "(j, a) \<in> set (ac_byId (af_userAttachments af u))" for j a
    using that attachments_okD(2) [OF ok, of j a] attachments_okD(4) [OF ok, of j a u] by auto
  have "(\<Sum>(j, a)\<leftarrow>ac_byId (af_userAttachments af u). unat (att_size (((af_attachment af)(af_nextAttachment af := e)) a))) =
      user_bytes af u" unfolding user_bytes_def
    by (intro arg_cong [where f = sum_list] map_cong refl) (use old in auto)
  then show ?thesis by (simp add: user_bytes_def added del: fun_upd_apply) simp
qed

end
