(* ===== verification/AttachmentProperties.thy ===== *)
theory AttachmentProperties
  imports CategoryProperties AttachmentRequests
begin

section \<open>Properties of attachments\<close>

text \<open>
  The properties of the requests on attachments, with a small forum at which their hypotheses are checked.
\<close>

subsection \<open>A sample\<close>

definition sample_settings :: attachment_settings where
  "sample_settings = \<lparr>as_sortKey = (\<lambda>s. s), as_minNameLength = 1, as_maxNameLength = 255, as_defaultUserQuota = 0\<rparr>"

text \<open>User 1 has an attachment of 100 bytes and a quota of 1000.\<close>

definition sample_attachment_entity :: attachment_entity where
  "sample_attachment_entity = \<lparr>att_createdBy = 1, att_approved = True, att_messages = [], att_id = 60, att_created = 0,
     att_createdIp = 0, att_name = JsonReadyString ''a.txt'', att_size = 100, att_nrOfGetRequests = 0\<rparr>"

abbreviation sample_collection :: attachment_collection where
  "sample_collection \<equiv> \<lparr>ac_byId = [(60, 0)], ac_totalSize = 100\<rparr>"

definition sample_attachments :: attachment_forum where
  "sample_attachments = \<lparr>af_forum = sample_bare_forum, af_attachment = \<lambda>_. sample_attachment_entity, af_attachments = sample_collection,
     af_userAttachments = (\<lambda>_. no_attachments)(1 := sample_collection), af_attachmentQuota = (\<lambda>_. Some 1000),
     af_messageAttachments = (\<lambda>_. []), af_nextAttachment = 1\<rparr>"

lemma sample_attachments_simps [simp]:
  "af_forum sample_attachments = sample_bare_forum" "af_attachment sample_attachments a = sample_attachment_entity"
  "af_attachments sample_attachments = sample_collection" "af_userAttachments sample_attachments = (\<lambda>_. no_attachments)(1 := sample_collection)"
  "af_attachmentQuota sample_attachments = (\<lambda>_. Some 1000)" "af_messageAttachments sample_attachments = (\<lambda>_. [])"
  "af_nextAttachment sample_attachments = 1"
  by (simp_all add: sample_attachments_def)

lemma sample_attachments_ok: "attachment_state_ok {} {60} sample_attachments"
proof -
  have coll: "collection_ok (af_attachment sample_attachments) sample_collection" "collection_ok (af_attachment sample_attachments) no_attachments"
    by (simp_all add: collection_ok_def size_sum_def no_attachments_def sample_attachment_entity_def)
  have "attachments_ok sample_attachments"
    by (rule attachments_okI) (use coll in \<open>auto simp: no_attachments_def sample_attachment_entity_def\<close>)
  then show ?thesis using sample_bare_forum_ok by (simp add: attachment_state_ok_def)
qed

lemma sample_bare_user [simp]: "current_user sample_repository_context sample_bare_forum = 1"
  by (simp add: current_user_def sample_bare_forum_def)

subsection \<open>What requests keep\<close>

text \<open>
  C37. Requests on attachments always return and keep the attachments consistent: every collection finds an
  attachment by its id and counts the sum of the sizes, a user has the attachments the user added, and an attachment
  is listed by the messages it is attached to, and by no others. Any sequence of requests that add, rename, approve,
  delete, attach, detach or download attachments is answered, whatever the authorization decides, and leaves
  such a state; the ids that the generator gives to new attachments must be new.
\<close>

theorem attachment_requests_return:
  assumes "attachment_state_ok used ids af" "distinct (new_attachment_ids rs)" "set (new_attachment_ids rs) \<inter> ids = {}"
  shows "\<exists>sts af'. run_attachment_requests cf rs af = Some (sts, af') \<and> length sts = length rs \<and>
    attachment_state_ok used (ids \<union> set (new_attachment_ids rs)) af'"
  using assms by (rule run_attachment_requests_keep)

abbreviation sample_attachment_requests :: "(repository_context \<times> attachment_request) list" where
  "sample_attachment_requests \<equiv> [(sample_repository_context, NewAttachment 61 ''b.txt'' 50),
     (sample_repository_context, AttachmentToMessage 61 10), (sample_repository_context, AttachmentDelete 60)]"

theorem attachment_requests_return_witness:
  "\<exists>sts af'. run_attachment_requests sample_settings sample_attachment_requests sample_attachments = Some (sts, af') \<and>
    length sts = length sample_attachment_requests \<and> attachment_state_ok {} {60, 61} af'"
  using attachment_requests_return [OF sample_attachments_ok, of sample_attachment_requests sample_settings]
  by (simp add: insert_commute del: run_attachment_requests.simps)

subsection \<open>The quota\<close>

text \<open>
  C38. The quota of a user is respected as long as the sizes add up in 64 bits. When a request that adds an attachment
  is answered with OK and the bytes of the attachments of the current user together with the new size are
  below 2 to the 64, then afterwards the user has exactly those bytes and they are within the quota.
\<close>

theorem attachment_quota_respected:
  assumes "attachment_state_ok used ids af" "newId \<notin> ids"
    and "repo_addNewAttachment cf newId cx name sz af = Some (STATUS_OK, af')"
    and "user_bytes af (current_user cx (af_forum af)) + unat sz < 2 ^ 64"
  shows "user_bytes af' (current_user cx (af_forum af)) = user_bytes af (current_user cx (af_forum af)) + unat sz \<and>
    user_bytes af' (current_user cx (af_forum af)) \<le> unat (userQuota cf af' (current_user cx (af_forum af)))"
  using assms(1,2)
proof (cases rule: repo_addNewAttachment_cases [where cf = cf and cx = cx and name = name and sz = sz])
  case (refused st fo)
  with assms(3) show ?thesis by simp
next
  case (added approved af2)
  let ?u = "current_user cx (af_forum af)"
  note ok = attachment_state_okD(2) [OF assms(1)]
  have "af2 = af'" using added(1) assms(3) by simp
  note added = added [unfolded this]
  have bytes: "user_bytes af' ?u = user_bytes af ?u + unat sz"
    using added_bytes [OF ok added(4,5)] by (simp add: new_attachment_def)
  have "attachmentsTotalSize af ?u + sz = of_nat (user_bytes af ?u + unat sz)" using total_bytes [OF ok] by simp
  then have "unat (attachmentsTotalSize af ?u + sz) = user_bytes af ?u + unat sz"
    using assms(4) by (simp del: of_nat_add add: unsigned_of_nat take_bit_nat_eq_self)
  moreover have "userQuota cf af' ?u = userQuota cf af ?u" using added(6) by (simp add: userQuota_def)
  ultimately show ?thesis using bytes added(2) by (simp add: word_le_nat_alt not_less)
qed

lemma sample_bare_current_user: "performedBy_getAndUpdate sample_repository_context sample_bare_forum = (1, sample_bare_forum)"
proof -
  have "update_user 1 (usr_showInOnlineUsers_update (\<lambda>_. False)) sample_bare_forum = sample_bare_forum"
    using sample_heap_user by (simp add: sample_bare_forum_def update_user_def)
  moreover have "\<not> lastSeen_outdated sample_repository_context (fo_user sample_bare_forum 1)"
    by (simp add: lastSeen_outdated_def sample_bare_forum_def sample_forum_def fo_user_def sample_heap_def sample_user_def)
  moreover have "fo_usersById sample_bare_forum 1 = Some 1" "fo_anonymousUser sample_bare_forum = 0"
    by (simp_all add: sample_bare_forum_def)
  ultimately show ?thesis by (simp add: performedBy_getAndUpdate_def getCurrentUser_def)
qed

lemma sample_bare_authorize:
  "p \<noteq> FW_NO_THROTTLING \<Longrightarrow> authorize sample_repository_context (\<lambda>ax. answer (permit_fw ax (sample_user 1) p)) sample_bare_forum =
     Some (STATUS_OK, sample_bare_forum)"
  using sample_with(2) [of p 0 True]
  by (simp add: authorize_def context_of_def sample_cx_def answer_def permit_fw_def status_of_def)
     (simp add: sample_bare_forum_def sample_forum_def)

lemma sample_throttled: "authorize sample_repository_context (\<lambda>ax. throttled ax act u (h ax)) sample_bare_forum =
    authorize sample_repository_context h sample_bare_forum"
  by (simp add: authorize_def throttled_def isThrottled_def sample_bare_forum_def sample_forum_def)

lemma sample_attachment_added:
  assumes "100 + sz \<le> (1000 :: 64 word)"
  shows "\<exists>af'. repo_addNewAttachment sample_settings 61 sample_repository_context ''b.txt'' sz sample_attachments = Some (STATUS_OK, af')"
proof -
  have valid: "validateAttachmentName sample_settings ''b.txt'' = STATUS_OK"
    by (simp add: validateAttachmentName_def validateString_extra_def validateString_def isValidAttachmentName_def sample_settings_def
        countUTF8Characters_def isFirstByteInUTF8Sequence_def byte_code_def)
  have user: "af_user sample_attachments 1 = sample_user 1"
    by (simp add: af_user_def sample_bare_forum_def sample_forum_def fo_user_def sample_heap_def)
  have get: "lift_user (performedBy_getAndUpdate sample_repository_context) sample_attachments = (1, sample_attachments)"
    by (simp add: lift_user_def sample_bare_current_user)
  have auth: "authorize_attachment sample_repository_context (\<lambda>ax. addNewAttachment ax (sample_user 1)) sample_attachments = Some (STATUS_OK, sample_attachments)"
      "authorize_attachment sample_repository_context (\<lambda>ax. autoApproveAttachment ax (sample_user 1)) sample_attachments = Some (STATUS_OK, sample_attachments)"
    by (simp_all add: authorize_attachment_def addNewAttachment_def canAddAttachment_def autoApproveAttachment_def sample_throttled sample_bare_authorize)
  have quota: "\<not> attachmentsTotalSize sample_attachments 1 + sz > userQuota sample_settings sample_attachments 1"
    using assms by (simp add: attachmentsTotalSize_def userQuota_def not_less)
  obtain af' where "direct_addNewAttachment sample_settings sample_repository_context 61 ''b.txt'' sz True sample_attachments = Some (STATUS_OK, af')"
    by (cases "lift_user (getCurrentUser sample_repository_context) sample_attachments") (simp add: direct_addNewAttachment_def Let_def)
  then show ?thesis using valid user get auth quota by (simp add: repo_addNewAttachment_def Let_def)
qed

theorem attachment_quota_respected_witness:
  "\<exists>af'. repo_addNewAttachment sample_settings 61 sample_repository_context ''b.txt'' 50 sample_attachments = Some (STATUS_OK, af') \<and>
     user_bytes af' 1 = 150 \<and> user_bytes af' 1 \<le> unat (userQuota sample_settings af' 1)"
proof -
  obtain af' where run: "repo_addNewAttachment sample_settings 61 sample_repository_context ''b.txt'' 50 sample_attachments = Some (STATUS_OK, af')"
    using sample_attachment_added [of 50] by auto
  have "user_bytes sample_attachments 1 = 100" by (simp add: user_bytes_def sample_attachment_entity_def)
  then show ?thesis using run attachment_quota_respected [OF sample_attachments_ok _ run] by simp
qed

text \<open>
  C39. A size that makes the sum wrap is not refused for the quota. Whatever the attachments of the current user add
  up to and whatever the quota is, a request that adds an attachment of 2 to the 64 less that many bytes is not
  answered with QUOTA_EXCEEDED; when it is answered with OK, the total size the user is left with is zero.
\<close>

theorem wrapped_size_passes_quota:
  assumes "attachment_state_ok used ids af" "newId \<notin> ids"
    and "repo_addNewAttachment cf newId cx name (- attachmentsTotalSize af (current_user cx (af_forum af))) af = Some (st, af')"
  shows "st \<noteq> QUOTA_EXCEEDED \<and> (st = STATUS_OK \<longrightarrow> attachmentsTotalSize af' (current_user cx (af_forum af)) = 0)"
  using assms(1,2)
proof (cases rule: repo_addNewAttachment_cases [where cf = cf and cx = cx and name = name
      and sz = "- attachmentsTotalSize af (current_user cx (af_forum af))"])
  case (refused st' fo)
  with assms(3) show ?thesis by auto
next
  case (added approved af2)
  let ?u = "current_user cx (af_forum af)"
  note ok = attachment_state_okD(2) [OF assms(1)]
  have "af2 = af'" and st: "st = STATUS_OK" using added(1) assms(3) by simp_all
  note added = added [unfolded this]
  have "attachmentsTotalSize af' ?u = of_nat (user_bytes af ?u) + - attachmentsTotalSize af ?u"
    using total_bytes [OF attachment_state_okD(2) [OF added(3)], of ?u] added_bytes [OF ok added(4,5)] by (simp add: new_attachment_def)
  then show ?thesis using total_bytes [OF ok, of ?u] st by simp
qed

theorem wrapped_size_passes_quota_witness:
  "\<exists>af'. repo_addNewAttachment sample_settings 61 sample_repository_context ''b.txt'' (- 100) sample_attachments = Some (STATUS_OK, af') \<and>
     attachmentsTotalSize af' 1 = 0"
proof -
  obtain af' where run: "repo_addNewAttachment sample_settings 61 sample_repository_context ''b.txt'' (- 100) sample_attachments = Some (STATUS_OK, af')"
    using sample_attachment_added [of "- 100"] by auto
  have "attachmentsTotalSize sample_attachments 1 = 100" by (simp add: attachmentsTotalSize_def)
  then show ?thesis using run wrapped_size_passes_quota [OF sample_attachments_ok, of 61 sample_settings sample_repository_context] by auto
qed

end
