(* ===== verification/ContentEntities.thy ===== *)
theory ContentEntities
  imports AttachmentRepository
begin

section \<open>Users, threads, messages, comments and private messages\<close>

text \<open>
  The rest of \<^verbatim>\<open>src/src/LibForumData/EntityUser.h\<close>, \<^verbatim>\<open>EntityDiscussionThread.h\<close>, \<^verbatim>\<open>EntityDiscussionThreadMessage.h\<close>,
  \<^verbatim>\<open>EntityMessageComment.h\<close> and \<^verbatim>\<open>EntityPrivateMessage.h\<close>, beside what the forum and the attachments model: the texts of users,
  their collections of threads, messages, comments and private messages, their votes and histories, and what messages
  and threads refer to. The small collections are vectors sorted by id. The indices for listings, the time of the latest message
  of a thread and the pages a user visited are left out; counters of votes are integers.
\<close>

subsection \<open>Entities\<close>

datatype (plugins only: size) vote_history_type = HistoryUpVote | HistoryDownVote | HistoryResetVote

record user_content =
  uc_auth :: string
  uc_created :: timestamp
  uc_createdIp :: "128 word"
  uc_info :: string
  uc_title :: string
  uc_signature :: string
  uc_logo :: string
  uc_threads :: "ptr list"
  uc_subscribedThreads :: "ptr list"
  uc_threadMessages :: "ptr list"
  uc_votedMessages :: "ptr list"
  uc_messageComments :: "ptr list"
  uc_receivedPrivateMessages :: "ptr list"
  uc_sentPrivateMessages :: "ptr list"
  uc_receivedUpVotes :: int
  uc_receivedDownVotes :: int
  uc_voteHistory :: "(id_type \<times> timestamp \<times> vote_history_type) list"
  uc_quoteHistory :: "id_type list"
  uc_voteHistoryNotRead :: "16 word"
  uc_quotesHistoryNotRead :: "16 word"
  uc_privateMessagesNotRead :: "16 word"

record message_content =
  mc_content :: string
  mc_createdIp :: "128 word"
  mc_lastUpdated :: update_info
  mc_lastUpdatedReason :: string
  mc_comments :: "ptr list"

record thread_content =
  tn_createdIp :: "128 word"
  tn_subscribedUsers :: "ptr list"
  tn_pinDisplayOrder :: "14 word"

record comment = message_comment +
  cm_id :: id_type
  cm_created :: timestamp
  cm_createdIp :: "128 word"
  cm_createdBy :: ptr
  cm_content :: string
  cm_solved :: bool

record letter = private_message +
  pm_id :: id_type
  pm_created :: timestamp
  pm_createdIp :: "128 word"
  pm_content :: string

text \<open>
  The forum with everything in it. Users are found by id in the forum, and here by their authentication and by
  name; \<open>co_userCount\<close> is the size of the index by id.
\<close>

record content =
  co_af :: attachment_forum
  co_user :: "ptr \<Rightarrow> user_content"
  co_message :: "ptr \<Rightarrow> message_content"
  co_thread :: "ptr \<Rightarrow> thread_content"
  co_comment :: "ptr \<Rightarrow> comment"
  co_letter :: "ptr \<Rightarrow> letter"
  co_userCount :: nat
  co_usersByAuth :: "string \<Rightarrow> ptr option"
  co_usersByName :: "string \<Rightarrow> ptr option"
  co_commentsById :: "id_type \<Rightarrow> ptr option"
  co_lettersById :: "id_type \<Rightarrow> ptr option"
  co_nextUser :: ptr
  co_nextThread :: ptr
  co_nextMessage :: ptr
  co_nextComment :: ptr
  co_nextLetter :: ptr

type_synonym content_write = "content \<Rightarrow> (status_code \<times> content) option"

abbreviation co_forum :: "content \<Rightarrow> forum" where
  "co_forum co \<equiv> af_forum (co_af co)"

definition upd_af :: "(attachment_forum \<Rightarrow> attachment_forum) \<Rightarrow> content \<Rightarrow> content" where
  "upd_af f co = co\<lparr>co_af := f (co_af co)\<rparr>"

definition upd_forum :: "(forum \<Rightarrow> forum) \<Rightarrow> content \<Rightarrow> content" where
  "upd_forum f co = upd_af (\<lambda>af. af\<lparr>af_forum := f (af_forum af)\<rparr>) co"

definition upd_user :: "ptr \<Rightarrow> (user_content \<Rightarrow> user_content) \<Rightarrow> content \<Rightarrow> content" where
  "upd_user u f co = co\<lparr>co_user := (co_user co)(u := f (co_user co u))\<rparr>"

definition upd_message :: "ptr \<Rightarrow> (message_content \<Rightarrow> message_content) \<Rightarrow> content \<Rightarrow> content" where
  "upd_message m f co = co\<lparr>co_message := (co_message co)(m := f (co_message co m))\<rparr>"

definition upd_thread_content :: "ptr \<Rightarrow> (thread_content \<Rightarrow> thread_content) \<Rightarrow> content \<Rightarrow> content" where
  "upd_thread_content t f co = co\<lparr>co_thread := (co_thread co)(t := f (co_thread co t))\<rparr>"

definition upd_comment :: "ptr \<Rightarrow> (comment \<Rightarrow> comment) \<Rightarrow> content \<Rightarrow> content" where
  "upd_comment c f co = co\<lparr>co_comment := (co_comment co)(c := f (co_comment co c))\<rparr>"

definition the_user :: "content \<Rightarrow> ptr \<Rightarrow> user" where
  "the_user co u = fo_user (co_forum co) u"

definition the_message :: "content \<Rightarrow> ptr \<Rightarrow> message" where
  "the_message co m = h_message (fo_heap (co_forum co)) m"

definition the_thread :: "content \<Rightarrow> ptr \<Rightarrow> thread" where
  "the_thread co t = h_thread (fo_heap (co_forum co)) t"

abbreviation upd_the_message :: "ptr \<Rightarrow> (message \<Rightarrow> message) \<Rightarrow> content \<Rightarrow> content" where
  "upd_the_message m f \<equiv> upd_forum (update_message m f)"

abbreviation upd_the_thread :: "ptr \<Rightarrow> (thread \<Rightarrow> thread) \<Rightarrow> content \<Rightarrow> content" where
  "upd_the_thread t f \<equiv> upd_forum (update_thread t f)"

definition with_links :: "(links \<Rightarrow> links option) \<Rightarrow> content \<Rightarrow> content option" where
  "with_links f co = map_option (\<lambda>l. upd_forum (set_links l) co) (f (fo_links (co_forum co)))"

subsection \<open>Vectors sorted by id\<close>

definition vec_contains :: "(ptr \<Rightarrow> id_type) \<Rightarrow> ptr \<Rightarrow> ptr list \<Rightarrow> bool" where
  "vec_contains ident p xs \<longleftrightarrow> sv_find (less_by ident) p xs \<noteq> length xs"

definition vec_add :: "(ptr \<Rightarrow> id_type) \<Rightarrow> ptr \<Rightarrow> ptr list \<Rightarrow> ptr list" where
  "vec_add ident p xs = fst (sv_insert_unique (less_by ident) p xs)"

definition vec_remove :: "(ptr \<Rightarrow> id_type) \<Rightarrow> ptr \<Rightarrow> ptr list \<Rightarrow> ptr list" where
  "vec_remove ident p xs = (let i = sv_find (less_by ident) p xs in if i = length xs then xs else sv_erase i xs)"

abbreviation message_ident :: "content \<Rightarrow> ptr \<Rightarrow> id_type" where
  "message_ident co m \<equiv> msg_id (the_message co m)"

abbreviation thread_ident :: "content \<Rightarrow> ptr \<Rightarrow> id_type" where
  "thread_ident co t \<equiv> thr_id (the_thread co t)"

text \<open>The collections of a user. The user counts the messages.\<close>

definition user_addMessage :: "ptr \<Rightarrow> ptr \<Rightarrow> content \<Rightarrow> content" where
  "user_addMessage u m co =
     (let co1 = upd_user u (\<lambda>c. c\<lparr>uc_threadMessages := vec_add (message_ident co) m (uc_threadMessages c)\<rparr>) co
      in upd_forum (update_user u (usr_messageCount_update (\<lambda>_. length (uc_threadMessages (co_user co1 u))))) co1)"

definition user_removeMessage :: "ptr \<Rightarrow> ptr \<Rightarrow> content \<Rightarrow> content" where
  "user_removeMessage u m co =
     (let co1 = upd_user u (\<lambda>c. c\<lparr>uc_threadMessages := vec_remove (message_ident co) m (uc_threadMessages c)\<rparr>) co
      in upd_forum (update_user u (usr_messageCount_update (\<lambda>_. length (uc_threadMessages (co_user co1 u))))) co1)"

definition user_addThread :: "ptr \<Rightarrow> ptr \<Rightarrow> content \<Rightarrow> content" where
  "user_addThread u t co = upd_user u (\<lambda>c. c\<lparr>uc_threads := vec_add (thread_ident co) t (uc_threads c)\<rparr>) co"

definition user_removeThread :: "ptr \<Rightarrow> ptr \<Rightarrow> content \<Rightarrow> content" where
  "user_removeThread u t co = upd_user u (\<lambda>c. c\<lparr>uc_threads := vec_remove (thread_ident co) t (uc_threads c)\<rparr>) co"

definition user_subscribe :: "ptr \<Rightarrow> ptr \<Rightarrow> content \<Rightarrow> content" where
  "user_subscribe u t co =
     upd_user u (\<lambda>c. c\<lparr>uc_subscribedThreads := vec_add (thread_ident co) t (uc_subscribedThreads c)\<rparr>) co"

definition user_unsubscribe :: "ptr \<Rightarrow> ptr \<Rightarrow> content \<Rightarrow> content" where
  "user_unsubscribe u t co =
     upd_user u (\<lambda>c. c\<lparr>uc_subscribedThreads := vec_remove (thread_ident co) t (uc_subscribedThreads c)\<rparr>) co"

definition registerVote :: "ptr \<Rightarrow> ptr \<Rightarrow> content \<Rightarrow> content" where
  "registerVote u m = upd_user u (\<lambda>c. c\<lparr>uc_votedMessages := flat_insert m (uc_votedMessages c)\<rparr>)"

definition user_removeVote :: "ptr \<Rightarrow> ptr \<Rightarrow> content \<Rightarrow> content" where
  "user_removeVote u m = upd_user u (\<lambda>c. c\<lparr>uc_votedMessages := flat_erase m (uc_votedMessages c)\<rparr>)"

text \<open>The ring buffers of a user keep the last sixteen entries.\<close>

definition circular_push :: "nat \<Rightarrow> 'a \<Rightarrow> 'a list \<Rightarrow> 'a list" where
  "circular_push capacity x xs = (let ys = xs @ [x] in drop (length ys - capacity) ys)"

definition received_vote :: "id_type \<Rightarrow> timestamp \<Rightarrow> vote_history_type \<Rightarrow> user_content \<Rightarrow> user_content" where
  "received_vote mid tm kind c =
     c\<lparr>uc_voteHistory := circular_push 16 (mid, tm, kind) (uc_voteHistory c), uc_voteHistoryNotRead := uc_voteHistoryNotRead c + 1\<rparr>"

subsection \<open>Threads and their messages\<close>

definition thread_insertMessage :: "ptr \<Rightarrow> ptr \<Rightarrow> content \<Rightarrow> content" where
  "thread_insertMessage t m co = upd_the_thread t (\<lambda>th. th\<lparr>thr_messages := vec_add (message_ident co) m (thr_messages th)\<rparr>) co"

definition thread_insertMessages :: "ptr \<Rightarrow> ptr list \<Rightarrow> content \<Rightarrow> content" where
  "thread_insertMessages t ms co =
     upd_the_thread t (\<lambda>th. th\<lparr>thr_messages := fold (vec_add (message_ident co)) ms (thr_messages th)\<rparr>) co"

definition thread_deleteDiscussionThreadMessage :: "ptr \<Rightarrow> ptr \<Rightarrow> content \<Rightarrow> content" where
  "thread_deleteDiscussionThreadMessage t m co =
     upd_the_thread t (\<lambda>th. th\<lparr>thr_messages := vec_remove (message_ident co) m (thr_messages th)\<rparr>) co"

text \<open>Something visible changed in the thread.\<close>

definition thread_changed :: "timestamp \<Rightarrow> ptr \<Rightarrow> content \<Rightarrow> content" where
  "thread_changed now t = upd_the_thread t (\<lambda>th. (resetVisitorsSinceLastEdit th)\<lparr>thr_latestVisibleChange := now\<rparr>)"

text \<open>The tags and categories of a thread count its messages.\<close>

definition updateMessageCounts :: "ptr \<Rightarrow> int \<Rightarrow> content \<Rightarrow> content option" where
  "updateMessageCounts t delta co =
     with_links (\<lambda>l. loop_over (\<lambda>c. category_updateMessageCount c t delta) (thr_categories (lk_thread l t))
                       (fold (\<lambda>g. tag_updateMessageCount g delta) (thr_tags (lk_thread l t)) l)) co"

end
