(* ===== verification/ContentDeletion.thy ===== *)
theory ContentDeletion
  imports ContentEntities
begin

section \<open>Deleting entities\<close>

text \<open>
  The functions of \<^verbatim>\<open>src/src/LibForumData/private/EntityCollection.cpp\<close> that insert users, threads, messages, comments and
  private messages and that delete them with all that hangs on them. The flags the code keeps in members while it deletes
  a user are arguments. Deleting takes an entity out of the collections and out of the entities that refer to
  it; its memory is then released, so a pointer that is left over dangles. \<open>now\<close> is the current time. The
  loops over the parents of a category may not end, hence the option.
\<close>

definition insertUser :: "ptr \<Rightarrow> content \<Rightarrow> content" where
  "insertUser u co =
     (if fo_usersById (co_forum co) (usr_id (the_user co u)) \<noteq> None then co
      else upd_forum (\<lambda>fo. fo\<lparr>fo_usersById := (fo_usersById fo)(usr_id (fo_user fo u) \<mapsto> u)\<rparr>)
             (co\<lparr>co_userCount := Suc (co_userCount co), co_usersByAuth := name_insert (uc_auth (co_user co u)) u (co_usersByAuth co),
                 co_usersByName := name_insert (sortKey (usr_name (the_user co u))) u (co_usersByName co)\<rparr>))"

definition insertDiscussionThread :: "ptr \<Rightarrow> content \<Rightarrow> content" where
  "insertDiscussionThread t co =
     (if fo_threadsById (co_forum co) (thread_ident co t) \<noteq> None then co
      else upd_forum (\<lambda>fo. fo\<lparr>fo_threadsById := (fo_threadsById fo)(thread_ident co t \<mapsto> t)\<rparr>) co)"

definition insertDiscussionThreadMessage :: "ptr \<Rightarrow> content \<Rightarrow> content" where
  "insertDiscussionThreadMessage m co =
     (if fo_messagesById (co_forum co) (message_ident co m) \<noteq> None then co
      else upd_forum (\<lambda>fo. fo\<lparr>fo_messagesById := (fo_messagesById fo)(message_ident co m \<mapsto> m)\<rparr>) co)"

definition insertMessageComment :: "ptr \<Rightarrow> content \<Rightarrow> content" where
  "insertMessageComment c co =
     (let i = cm_id (co_comment co c)
      in if co_commentsById co i \<noteq> None then co else co\<lparr>co_commentsById := (co_commentsById co)(i \<mapsto> c)\<rparr>)"

definition insertPrivateMessage :: "ptr \<Rightarrow> content \<Rightarrow> content" where
  "insertPrivateMessage p co =
     (let i = pm_id (co_letter co p)
      in if co_lettersById co i \<noteq> None then co else co\<lparr>co_lettersById := (co_lettersById co)(i \<mapsto> p)\<rparr>)"

subsection \<open>Comments and private messages\<close>

definition collection_deleteMessageComment :: "ptr \<Rightarrow> content \<Rightarrow> content" where
  "collection_deleteMessageComment c co =
     (let i = cm_id (co_comment co c)
      in if co_commentsById co i = None then co
         else upd_user (cm_createdBy (co_comment co c))
                (\<lambda>u. u\<lparr>uc_messageComments := vec_remove (\<lambda>q. cm_id (co_comment co q)) c (uc_messageComments u)\<rparr>)
                (co\<lparr>co_commentsById := (co_commentsById co)(i := None)\<rparr>))"

definition collection_deletePrivateMessage :: "bool \<Rightarrow> bool \<Rightarrow> ptr \<Rightarrow> content \<Rightarrow> content" where
  "collection_deletePrivateMessage fromSource fromDestination p co =
     (let letter = co_letter co p; i = pm_id letter; ident = (\<lambda>q. pm_id (co_letter co q))
      in if co_lettersById co i = None then co
         else let co1 = co\<lparr>co_lettersById := (co_lettersById co)(i := None)\<rparr>;
                  co2 = (if fromSource
                         then upd_user (pm_source letter)
                                (\<lambda>u. u\<lparr>uc_sentPrivateMessages := vec_remove ident p (uc_sentPrivateMessages u)\<rparr>) co1
                         else co1)
              in if fromDestination
                 then upd_user (pm_destination letter)
                        (\<lambda>u. u\<lparr>uc_receivedPrivateMessages := vec_remove ident p (uc_receivedPrivateMessages u)\<rparr>) co2
                 else co2)"

subsection \<open>Messages\<close>

text \<open>What a deleted message is taken out of beside its thread.\<close>

definition unlink_message :: "ptr \<Rightarrow> content \<Rightarrow> content" where
  "unlink_message m co =
     (let co1 = fold collection_deleteMessageComment (mc_comments (co_message co m)) co;
          co2 = fold (\<lambda>(u, _). user_removeVote u m) (msg_upVotes (the_message co1 m)) co1;
          co3 = fold (\<lambda>(u, _). user_removeVote u m) (msg_downVotes (the_message co2 m)) co2
      in fold (\<lambda>a. upd_af (upd_attachment a (\<lambda>e. e\<lparr>att_messages := flat_erase m (att_messages e)\<rparr>)))
           (af_messageAttachments (co_af co3) m) co3)"

definition collection_deleteDiscussionThreadMessage :: "timestamp \<Rightarrow> bool \<Rightarrow> ptr \<Rightarrow> content \<Rightarrow> content option" where
  "collection_deleteDiscussionThreadMessage now fromUser m co =
     (let i = message_ident co m
      in if fo_messagesById (co_forum co) i = None then Some co
         else let co1 = upd_forum (\<lambda>fo. fo\<lparr>fo_messagesById := (fo_messagesById fo)(i := None)\<rparr>) co;
                  co2 = (if fromUser then user_removeMessage (msg_createdBy (the_message co1 m)) m co1 else co1);
                  co3 = unlink_message m co2;
                  t = msg_parentThread (the_message co3 m)
              in if thr_aboutToBeDeleted (the_thread co3 t) then Some co3
                 else updateMessageCounts t (- 1)
                        (thread_changed now t (thread_deleteDiscussionThreadMessage t m co3)))"

subsection \<open>Threads\<close>

definition collection_deleteDiscussionThread :: "timestamp \<Rightarrow> bool \<Rightarrow> ptr \<Rightarrow> bool \<Rightarrow> content \<Rightarrow> content option" where
  "collection_deleteDiscussionThread now fromUser t deleteMessages co =
     (let i = thread_ident co t
      in if fo_threadsById (co_forum co) i = None then Some co
         else let co1 = upd_the_thread t (thr_aboutToBeDeleted_update (\<lambda>_. True))
                          (upd_forum (\<lambda>fo. fo\<lparr>fo_threadsById := (fo_threadsById fo)(i := None)\<rparr>) co);
                  co2 = (if fromUser then user_removeThread (thr_createdBy (the_thread co1 t)) t co1 else co1)
              in case with_links (\<lambda>l.
                        Option.bind
                          (loop_over (\<lambda>c l. map_option snd (category_deleteDiscussionThread now c t deleteMessages False l))
                             (thr_categories (lk_thread l t)) l)
                          (\<lambda>l1. loop_over (\<lambda>g l. map_option snd (tag_deleteDiscussionThread now g t deleteMessages l))
                             (thr_tags (lk_thread l1 t)) l1)) co2 of
                   None \<Rightarrow> None
                 | Some co3 \<Rightarrow>
                     (let co4 = fold (\<lambda>u. user_unsubscribe u t) (tn_subscribedUsers (co_thread co3 t)) co3
                      in if deleteMessages
                         then loop_over (collection_deleteDiscussionThreadMessage now True) (thr_messages (the_thread co4 t)) co4
                         else Some co4))"

subsection \<open>Users\<close>

definition delete_user_comments :: "ptr \<Rightarrow> content \<Rightarrow> content" where
  "delete_user_comments u co =
     fold (\<lambda>c co. let m = cmt_parentMessage (co_comment co c);
                      co1 = (if cm_solved (co_comment co c) then upd_the_message m decrementSolvedCommentsCount co else co)
                  in upd_message m (\<lambda>e. e\<lparr>mc_comments := vec_remove (\<lambda>q. cm_id (co_comment co q)) c (mc_comments e)\<rparr>) co1)
       (uc_messageComments (co_user co u)) co"

definition deleteAttachment_of_user :: "ptr \<Rightarrow> attachment_forum \<Rightarrow> attachment_forum" where
  "deleteAttachment_of_user a af =
     (let (removed, c) = attachments_remove (af_attachment af) a (af_attachments af)
      in if \<not> removed then af
         else fold (\<lambda>m. upd_messageAttachments m (flat_erase a)) (att_messages (af_attachment af a)) (af\<lparr>af_attachments := c\<rparr>))"

definition remove_user :: "ptr \<Rightarrow> content \<Rightarrow> content" where
  "remove_user u co =
     upd_forum (\<lambda>fo. fo\<lparr>fo_usersById := (fo_usersById fo)(usr_id (fo_user fo u) := None)\<rparr>)
       (co\<lparr>co_userCount := co_userCount co - 1, co_usersByAuth := (co_usersByAuth co)(uc_auth (co_user co u) := None),
           co_usersByName := (co_usersByName co)(sortKey (usr_name (the_user co u)) := None)\<rparr>)"

definition collection_deleteUser :: "timestamp \<Rightarrow> ptr \<Rightarrow> content \<Rightarrow> content option" where
  "collection_deleteUser now u co =
     (if fo_usersById (co_forum co) (usr_id (the_user co u)) = None then Some co
      else let co1 = remove_user u co;
               co2 = fold (\<lambda>m. upd_the_message m (\<lambda>e. snd (removeVote u e))) (uc_votedMessages (co_user co1 u)) co1;
               co3 = delete_user_comments u co2;
               co4 = fold (\<lambda>t. upd_thread_content t (\<lambda>e. e\<lparr>tn_subscribedUsers := flat_erase u (tn_subscribedUsers e)\<rparr>))
                       (uc_subscribedThreads (co_user co3 u)) co3
           in Option.bind (loop_over (collection_deleteDiscussionThreadMessage now False) (uc_threadMessages (co_user co4 u)) co4)
                (\<lambda>co5. Option.bind
                   (loop_over (\<lambda>t. collection_deleteDiscussionThread now False t True) (uc_threads (co_user co5 u)) co5)
                   (\<lambda>co6.
                      let co7 = fold (collection_deletePrivateMessage True False) (uc_receivedPrivateMessages (co_user co6 u)) co6;
                          co8 = fold (collection_deletePrivateMessage False True) (uc_sentPrivateMessages (co_user co7 u)) co7
                      in Some (upd_af (\<lambda>af. fold deleteAttachment_of_user (map snd (ac_byId (af_userAttachments af u))) af) co8))))"

end
