(* ===== verification/UserRepository.thy ===== *)
theory UserRepository
  imports ContentDeletion AuthorizationRepository
begin

section \<open>The repository of users\<close>

text \<open>
  Models the operations of \<^verbatim>\<open>src/src/LibForumData/private/MemoryRepositoryUser.cpp\<close> that change users and private
  messages. \<open>repo_\<close> is the operation a request calls and \<open>direct_\<close> the one the importer calls too; \<open>newId\<close> is the
  random id. What ICU decides is a parameter: the code points of a text, whether one is a letter or a digit, and sort
  keys. Replies are left out.
\<close>

record content_settings =
  cs_sortKey :: "string \<Rightarrow> string"
  cs_whitespace :: "string \<Rightarrow> (bool \<times> bool) option"
  cs_toUTF32 :: "string \<Rightarrow> nat list option"
  cs_isalnum :: "nat \<Rightarrow> bool"
  cs_userNameLength :: "int \<times> int"
  cs_userInfoLength :: "int \<times> int"
  cs_userTitleLength :: "int \<times> int"
  cs_userSignatureLength :: "int \<times> int"
  cs_maxLogoBinarySize :: nat
  cs_maxLogoWidth :: nat
  cs_maxLogoHeight :: nat
  cs_privateMessageLength :: "int \<times> int"
  cs_threadNameLength :: "int \<times> int"
  cs_messageContentLength :: "int \<times> int"
  cs_changeReasonLength :: "int \<times> int"
  cs_commentLength :: "int \<times> int"
  cs_resetVoteExpiresInSeconds :: int

definition content_name :: "content_settings \<Rightarrow> string \<Rightarrow> json_ready_string" where
  "content_name cf name = JsonReadyStringBase (cs_sortKey cf name) name"

definition valid_text :: "content_settings \<Rightarrow> int \<times> int \<Rightarrow> empty_string_validation \<Rightarrow> string \<Rightarrow> status_code" where
  "valid_text cf bounds emptyValidation s =
     validateString_extra s emptyValidation (Some (fst bounds)) (Some (snd bounds))
       (doesNotContainLeadingOrTrailingWhitespace (cs_whitespace cf))"

text \<open>A text that is not empty has at least one code point.\<close>

definition isValidUserName :: "content_settings \<Rightarrow> string \<Rightarrow> bool" where
  "isValidUserName cf input =
     (if input = [] then False
      else case cs_toUTF32 cf input of
             None \<Rightarrow> False
           | Some u32Chars \<Rightarrow>
               if u32Chars = [] \<or> \<not> cs_isalnum cf (hd u32Chars) \<or> \<not> cs_isalnum cf (last u32Chars) then False
               else list_all (\<lambda>c. c = 0x20 \<or> c = 0x5F \<or> c = 0x2D \<or> cs_isalnum cf c) (butlast (tl u32Chars)))"

definition validateUserName :: "content_settings \<Rightarrow> string \<Rightarrow> status_code" where
  "validateUserName cf name =
     validateString_extra name INVALID_PARAMETERS_FOR_EMPTY_STRING (Some (fst (cs_userNameLength cf))) (Some (snd (cs_userNameLength cf)))
       (isValidUserName cf)"

subsection \<open>Requests on the whole forum\<close>

definition lift_current_user :: "(forum \<Rightarrow> ptr \<times> forum) \<Rightarrow> content \<Rightarrow> ptr \<times> content" where
  "lift_current_user f co = (let (u, fo) = f (co_forum co) in (u, upd_forum (\<lambda>_. fo) co))"

definition authorize_content :: "repository_context \<Rightarrow> (auth_context \<Rightarrow> handler) \<Rightarrow> content_write" where
  "authorize_content cx h co = map_option (\<lambda>(st, fo). (st, upd_forum (\<lambda>_. fo) co)) (authorize cx h (co_forum co))"

definition observe_content :: "repository_context \<Rightarrow> ptr \<Rightarrow> repository_call \<Rightarrow> content \<Rightarrow> content" where
  "observe_content cx u call = upd_forum (observe cx u call)"

text \<open>The event after the change, and the event before it for what is gone afterwards.\<close>

definition content_change ::
  "repository_context \<Rightarrow> ptr \<Rightarrow> (auth_context \<Rightarrow> handler) \<Rightarrow> (content \<Rightarrow> repository_call) \<Rightarrow> content_write \<Rightarrow> content_write" where
  "content_change cx currentUser h call change co =
     (case authorize_content cx h co of
        None \<Rightarrow> None
      | Some (st, co1) \<Rightarrow>
          if st \<noteq> STATUS_OK then Some (st, co1)
          else (case change co1 of
                  None \<Rightarrow> None
                | Some (st2, co2) \<Rightarrow>
                    if st2 \<noteq> STATUS_OK then Some (st2, co2) else Some (STATUS_OK, observe_content cx currentUser (call co2) co2)))"

definition content_write_after ::
  "repository_context \<Rightarrow> ptr \<Rightarrow> (auth_context \<Rightarrow> handler) \<Rightarrow> repository_call \<Rightarrow> content_write \<Rightarrow> content_write" where
  "content_write_after cx currentUser h call change co =
     (case authorize_content cx h co of
        None \<Rightarrow> None
      | Some (st, co1) \<Rightarrow> if st \<noteq> STATUS_OK then Some (st, co1) else change (observe_content cx currentUser call co1))"

definition with_current_user :: "repository_context \<Rightarrow> (ptr \<Rightarrow> content_write) \<Rightarrow> content_write" where
  "with_current_user cx body co =
     (let (currentUser, co1) = lift_current_user (performedBy_getAndUpdate cx) co in body currentUser co1)"

definition with_found :: "repository_context \<Rightarrow> (content \<Rightarrow> ptr option) \<Rightarrow> (ptr \<Rightarrow> ptr \<Rightarrow> content_write) \<Rightarrow> content_write" where
  "with_found cx look body =
     with_current_user cx (\<lambda>currentUser co1.
       case look co1 of None \<Rightarrow> Some (NOT_FOUND, co1) | Some p \<Rightarrow> body currentUser p co1)"

abbreviation find_user :: "id_type \<Rightarrow> content \<Rightarrow> ptr option" where
  "find_user i co \<equiv> fo_usersById (co_forum co) i"

subsection \<open>Direct writes\<close>

definition new_user :: "id_type \<Rightarrow> json_ready_string \<Rightarrow> user" where
  "new_user i name = \<lparr>usr_id = i, usr_messageCount = 0, usr_name = name, usr_lastSeen = 0, usr_showInOnlineUsers = False\<rparr>"

definition new_user_content :: "repository_context \<Rightarrow> user_content" where
  "new_user_content cx =
     \<lparr>uc_auth = [], uc_created = rx_time cx, uc_createdIp = rx_ip cx, uc_info = [], uc_title = [], uc_signature = [], uc_logo = [],
      uc_threads = [], uc_subscribedThreads = [], uc_threadMessages = [], uc_votedMessages = [], uc_messageComments = [],
      uc_receivedPrivateMessages = [], uc_sentPrivateMessages = [], uc_receivedUpVotes = 0, uc_receivedDownVotes = 0,
      uc_voteHistory = [], uc_quoteHistory = [], uc_voteHistoryNotRead = 0, uc_quotesHistoryNotRead = 0, uc_privateMessagesNotRead = 0\<rparr>"

definition user_updateAuth :: "ptr \<Rightarrow> string \<Rightarrow> content \<Rightarrow> content" where
  "user_updateAuth u value co =
     (upd_user u (uc_auth_update (\<lambda>_. value)) co)\<lparr>co_usersByAuth := name_replace (uc_auth (co_user co u)) value u (co_usersByAuth co)\<rparr>"

definition user_updateName :: "ptr \<Rightarrow> json_ready_string \<Rightarrow> content \<Rightarrow> content" where
  "user_updateName u name co =
     (let oldKey = sortKey (usr_name (the_user co u))
      in (upd_forum (update_user u (usr_name_update (\<lambda>_. name))) co)
           \<lparr>co_usersByName := name_replace oldKey (sortKey name) u (co_usersByName co)\<rparr>)"

definition direct_addNewUser :: "repository_context \<Rightarrow> id_type \<Rightarrow> json_ready_string \<Rightarrow> string \<Rightarrow> content_write" where
  "direct_addNewUser cx newId name auth co =
     (if co_usersByAuth co auth \<noteq> None then Some (USER_WITH_SAME_AUTH_ALREADY_EXISTS, co)
      else if co_usersByName co (sortKey name) \<noteq> None then Some (ALREADY_EXISTS, co)
      else let u = co_nextUser co;
               co1 = upd_user u (\<lambda>_. new_user_content cx)
                       (upd_forum (update_user u (\<lambda>_. new_user newId name)) (co\<lparr>co_nextUser := Suc u\<rparr>));
               co2 = upd_af (\<lambda>af. af\<lparr>af_attachmentQuota := (af_attachmentQuota af)(u := None),
                                     af_userAttachments := (af_userAttachments af)(u := no_attachments)\<rparr>) co1
           in Some (STATUS_OK, insertUser u (user_updateAuth u auth co2)))"

definition with_existing_user :: "id_type \<Rightarrow> (ptr \<Rightarrow> content_write) \<Rightarrow> content_write" where
  "with_existing_user i body co = (case find_user i co of None \<Rightarrow> Some (NOT_FOUND, co) | Some u \<Rightarrow> body u co)"

definition direct_changeUserName :: "id_type \<Rightarrow> json_ready_string \<Rightarrow> content_write" where
  "direct_changeUserName i newName =
     with_existing_user i (\<lambda>u co.
       if co_usersByName co (sortKey newName) \<noteq> None then Some (ALREADY_EXISTS, co) else Some (STATUS_OK, user_updateName u newName co))"

definition direct_changeUserInfo :: "id_type \<Rightarrow> string \<Rightarrow> content_write" where
  "direct_changeUserInfo i newInfo = with_existing_user i (\<lambda>u co. Some (STATUS_OK, upd_user u (uc_info_update (\<lambda>_. newInfo)) co))"

definition direct_changeUserTitle :: "id_type \<Rightarrow> string \<Rightarrow> content_write" where
  "direct_changeUserTitle i newTitle = with_existing_user i (\<lambda>u co. Some (STATUS_OK, upd_user u (uc_title_update (\<lambda>_. newTitle)) co))"

definition direct_changeUserSignature :: "id_type \<Rightarrow> string \<Rightarrow> content_write" where
  "direct_changeUserSignature i newSignature =
     with_existing_user i (\<lambda>u co. Some (STATUS_OK, upd_user u (uc_signature_update (\<lambda>_. newSignature)) co))"

definition direct_changeUserAttachmentQuota :: "id_type \<Rightarrow> 64 word \<Rightarrow> content_write" where
  "direct_changeUserAttachmentQuota i newQuota =
     with_existing_user i (\<lambda>u co.
       Some (STATUS_OK, upd_af (\<lambda>af. af\<lparr>af_attachmentQuota := (af_attachmentQuota af)(u := Some newQuota)\<rparr>) co))"

definition direct_changeUserLogo :: "id_type \<Rightarrow> string \<Rightarrow> content_write" where
  "direct_changeUserLogo i newLogo = with_existing_user i (\<lambda>u co. Some (STATUS_OK, upd_user u (uc_logo_update (\<lambda>_. newLogo)) co))"

definition direct_deleteUserLogo :: "id_type \<Rightarrow> content_write" where
  "direct_deleteUserLogo i = with_existing_user i (\<lambda>u co. Some (STATUS_OK, upd_user u (uc_logo_update (\<lambda>_. [])) co))"

definition direct_deleteUser :: "repository_context \<Rightarrow> id_type \<Rightarrow> content_write" where
  "direct_deleteUser cx i =
     with_existing_user i (\<lambda>u co. map_option (\<lambda>co1. (STATUS_OK, co1)) (collection_deleteUser (rx_time cx) u co))"

definition direct_sendPrivateMessage :: "repository_context \<Rightarrow> id_type \<Rightarrow> id_type \<Rightarrow> string \<Rightarrow> content_write" where
  "direct_sendPrivateMessage cx messageId destinationId text co =
     (let (sourceUser, co1) = lift_current_user (getCurrentUser cx) co
      in if co_lettersById co1 messageId \<noteq> None then Some (ALREADY_EXISTS, co1)
         else (case find_user destinationId co1 of
                 None \<Rightarrow> Some (NOT_FOUND, co1)
               | Some destination \<Rightarrow>
                   (let p = co_nextLetter co1;
                        letter = \<lparr>pm_source = sourceUser, pm_destination = destination, pm_id = messageId, pm_created = rx_time cx,
                                  pm_createdIp = rx_ip cx, pm_content = text\<rparr>;
                        co2 = insertPrivateMessage p (co1\<lparr>co_letter := (co_letter co1)(p := letter), co_nextLetter := Suc p\<rparr>);
                        ident = (\<lambda>q. pm_id (co_letter co2 q));
                        co3 = upd_user sourceUser (\<lambda>u. u\<lparr>uc_sentPrivateMessages := vec_add ident p (uc_sentPrivateMessages u)\<rparr>) co2
                    in Some (STATUS_OK, upd_user destination
                         (\<lambda>u. u\<lparr>uc_receivedPrivateMessages := vec_add ident p (uc_receivedPrivateMessages u),
                                uc_privateMessagesNotRead := uc_privateMessagesNotRead u + 1\<rparr>) co3))))"

definition direct_deletePrivateMessage :: "id_type \<Rightarrow> content_write" where
  "direct_deletePrivateMessage i co =
     (case co_lettersById co i of
        None \<Rightarrow> Some (NOT_FOUND, co)
      | Some p \<Rightarrow> Some (STATUS_OK, collection_deletePrivateMessage True True p co))"

subsection \<open>Requests\<close>

text \<open>The first user gets all privileges; whether the assignment succeeds is not looked at.\<close>

definition grant_first_user :: "repository_context \<Rightarrow> ptr \<Rightarrow> ptr \<Rightarrow> content \<Rightarrow> content option" where
  "grant_first_user cx currentUser u co =
     (if co_userCount co \<noteq> 1 then Some co
      else let i = usr_id (the_user co u)
           in case direct_assignForumWidePrivilege (rx_time cx) i (word_of_int MaxPrivilegeValue) (word_of_int UnlimitedDuration) (co_forum co) of
                None \<Rightarrow> None
              | Some (_, fo) \<Rightarrow>
                  Some (observe_content cx currentUser
                    (AssignPrivilegeCall (AssignForumWidePrivilege i (word_of_int MaxPrivilegeValue) (word_of_int UnlimitedDuration)))
                    (upd_forum (\<lambda>_. fo) co)))"

definition repo_addNewUser :: "content_settings \<Rightarrow> id_type \<Rightarrow> repository_context \<Rightarrow> string \<Rightarrow> string \<Rightarrow> content_write" where
  "repo_addNewUser cf newId cx name auth co =
     (if auth = [] then Some (INVALID_PARAMETERS, co)
      else let validationCode = validateUserName cf name
           in if validationCode \<noteq> STATUS_OK then Some (validationCode, co)
              else with_current_user cx (\<lambda>currentUser co1.
                     if \<not> isAnonymousUser (Some (the_user co1 currentUser)) then Some (UNAUTHORIZED, co1)
                     else case authorize_content cx (\<lambda>ax. addNewUser ax (the_user co1 currentUser)) co1 of
                            None \<Rightarrow> None
                          | Some (st, co2) \<Rightarrow>
                              if st \<noteq> STATUS_OK then Some (st, co2)
                              else if co_usersByName co2 (sortKey (content_name cf name)) \<noteq> None then Some (ALREADY_EXISTS, co2)
                              else (case direct_addNewUser cx newId (content_name cf name) auth co2 of
                                      None \<Rightarrow> None
                                    | Some (st2, co3) \<Rightarrow>
                                        if st2 \<noteq> STATUS_OK then Some (st2, co3)
                                        else let u = co_nextUser co2;
                                                 co4 = observe_content cx currentUser
                                                         (UserCall (AddNewUser (usr_id (the_user co3 u))
                                                            (text_bytes (jr_string (usr_name (the_user co3 u))))
                                                            (text_bytes (uc_auth (co_user co3 u))))) co3
                                             in map_option (\<lambda>co5. (STATUS_OK, co5)) (grant_first_user cx currentUser u co4))) co)"

definition repo_changeUserName :: "content_settings \<Rightarrow> repository_context \<Rightarrow> id_type \<Rightarrow> string \<Rightarrow> content_write" where
  "repo_changeUserName cf cx i newName co =
     (let validationCode = validateUserName cf newName
      in if validationCode \<noteq> STATUS_OK then Some (validationCode, co)
         else with_found cx (find_user i) (\<lambda>currentUser u co1.
                if co_usersByName co1 (sortKey (content_name cf newName)) \<noteq> None then Some (ALREADY_EXISTS, co1)
                else content_change cx currentUser (\<lambda>ax. changeUserName ax (the_user co1 currentUser) (the_user co1 u))
                       (\<lambda>co2. UserCall (ChangeUserName (usr_id (the_user co2 u)) (text_bytes (jr_string (usr_name (the_user co2 u))))))
                       (direct_changeUserName i (content_name cf newName)) co1) co)"

text \<open>The texts of a user: validated, looked up, authorized, changed.\<close>

definition repo_changeUserText ::
  "repository_context \<Rightarrow> status_code \<Rightarrow> id_type \<Rightarrow> (auth_context \<Rightarrow> user \<Rightarrow> user \<Rightarrow> handler) \<Rightarrow> (id_type \<Rightarrow> bytes \<Rightarrow> user_call) \<Rightarrow>
   (user_content \<Rightarrow> string) \<Rightarrow> content_write \<Rightarrow> content_write" where
  "repo_changeUserText cx validationCode i h call text change co =
     (if validationCode \<noteq> STATUS_OK then Some (validationCode, co)
      else with_found cx (find_user i) (\<lambda>currentUser u co1.
             content_change cx currentUser (\<lambda>ax. h ax (the_user co1 currentUser) (the_user co1 u))
               (\<lambda>co2. UserCall (call (usr_id (the_user co2 u)) (text_bytes (text (co_user co2 u))))) change co1) co)"

definition repo_changeUserInfo :: "content_settings \<Rightarrow> repository_context \<Rightarrow> id_type \<Rightarrow> string \<Rightarrow> content_write" where
  "repo_changeUserInfo cf cx i newInfo =
     repo_changeUserText cx
       (validateString newInfo ALLOW_EMPTY_STRING (Some (fst (cs_userInfoLength cf))) (Some (snd (cs_userInfoLength cf))))
       i changeUserInfo ChangeUserInfo uc_info (direct_changeUserInfo i newInfo)"

definition repo_changeUserTitle :: "content_settings \<Rightarrow> repository_context \<Rightarrow> id_type \<Rightarrow> string \<Rightarrow> content_write" where
  "repo_changeUserTitle cf cx i newTitle =
     repo_changeUserText cx
       (validateString newTitle ALLOW_EMPTY_STRING (Some (fst (cs_userTitleLength cf))) (Some (snd (cs_userTitleLength cf))))
       i changeUserTitle ChangeUserTitle uc_title (direct_changeUserTitle i newTitle)"

definition repo_changeUserSignature :: "content_settings \<Rightarrow> repository_context \<Rightarrow> id_type \<Rightarrow> string \<Rightarrow> content_write" where
  "repo_changeUserSignature cf cx i newSignature =
     repo_changeUserText cx
       (validateString newSignature ALLOW_EMPTY_STRING (Some (fst (cs_userSignatureLength cf))) (Some (snd (cs_userSignatureLength cf))))
       i changeUserSignature ChangeUserSignature uc_signature (direct_changeUserSignature i newSignature)"

definition repo_changeUserLogo :: "content_settings \<Rightarrow> repository_context \<Rightarrow> id_type \<Rightarrow> string \<Rightarrow> content_write" where
  "repo_changeUserLogo cf cx i newLogo =
     repo_changeUserText cx
       (validateImage (text_bytes newLogo) (cs_maxLogoBinarySize cf) (cs_maxLogoWidth cf) (cs_maxLogoHeight cf))
       i changeUserLogo ChangeUserLogo uc_logo (direct_changeUserLogo i newLogo)"

definition repo_deleteUserLogo :: "repository_context \<Rightarrow> id_type \<Rightarrow> content_write" where
  "repo_deleteUserLogo cx i = repo_changeUserText cx STATUS_OK i deleteUserLogo ChangeUserLogo uc_logo (direct_deleteUserLogo i)"

definition repo_changeUserAttachmentQuota :: "repository_context \<Rightarrow> id_type \<Rightarrow> 64 word \<Rightarrow> content_write" where
  "repo_changeUserAttachmentQuota cx i newQuota =
     with_found cx (find_user i) (\<lambda>currentUser u co1.
       content_change cx currentUser (\<lambda>ax. changeUserAttachmentQuota ax (the_user co1 currentUser) (the_user co1 u))
         (\<lambda>co2. UserCall (ChangeUserAttachmentQuota (usr_id (the_user co2 u))
                  (case af_attachmentQuota (co_af co2) u of Some q \<Rightarrow> q | None \<Rightarrow> 0)))
         (direct_changeUserAttachmentQuota i newQuota) co1)"

definition repo_deleteUser :: "repository_context \<Rightarrow> id_type \<Rightarrow> content_write" where
  "repo_deleteUser cx i co =
     (if \<not> i \<noteq> 0 then Some (INVALID_PARAMETERS, co)
      else with_found cx (find_user i) (\<lambda>currentUser u co1.
             content_write_after cx currentUser (\<lambda>ax. deleteUser ax (the_user co1 currentUser) (the_user co1 u))
               (UserCall (DeleteUser (usr_id (the_user co1 u)))) (direct_deleteUser cx i) co1) co)"

definition repo_sendPrivateMessage ::
  "content_settings \<Rightarrow> id_type \<Rightarrow> repository_context \<Rightarrow> id_type \<Rightarrow> string \<Rightarrow> content_write" where
  "repo_sendPrivateMessage cf newId cx destinationId text co =
     (if \<not> destinationId \<noteq> 0 then Some (INVALID_PARAMETERS, co)
      else let validationCode = valid_text cf (cs_privateMessageLength cf) INVALID_PARAMETERS_FOR_EMPTY_STRING text
           in if validationCode \<noteq> STATUS_OK then Some (validationCode, co)
              else with_found cx (find_user destinationId) (\<lambda>currentUser u co1.
                     content_change cx currentUser (\<lambda>ax. sendPrivateMessage ax (the_user co1 currentUser) (the_user co1 u))
                       (\<lambda>co2. let letter = co_letter co2 (co_nextLetter co1)
                              in UserCall (SendPrivateMessage (pm_id letter) (usr_id (the_user co2 (pm_destination letter)))
                                   (text_bytes (pm_content letter))))
                       (direct_sendPrivateMessage cx newId destinationId text) co1) co)"

definition repo_deletePrivateMessage :: "repository_context \<Rightarrow> id_type \<Rightarrow> content_write" where
  "repo_deletePrivateMessage cx i co =
     (if \<not> i \<noteq> 0 then Some (INVALID_PARAMETERS, co)
      else with_found cx (\<lambda>co. co_lettersById co i) (\<lambda>currentUser p co1.
             content_write_after cx currentUser
               (\<lambda>ax. deletePrivateMessage ax (the_user co1 currentUser) (private_message.truncate (co_letter co1 p)))
               (UserCall (DeletePrivateMessage (pm_id (co_letter co1 p)))) (direct_deletePrivateMessage i) co1) co)"

text \<open>The user a request is made by, from the authentication the client sent.\<close>

definition repo_updateCurrentUserId :: "string \<Rightarrow> content \<Rightarrow> repository_context \<Rightarrow> repository_context" where
  "repo_updateCurrentUserId auth co cx =
     (if auth = [] then cx
      else case co_usersByAuth co auth of None \<Rightarrow> cx | Some u \<Rightarrow> cx\<lparr>rx_userId := usr_id (the_user co u)\<rparr>)"

end
