(* ===== verification/ThreadRepository.thy ===== *)
theory ThreadRepository
  imports UserRepository
begin

section \<open>The repository of threads\<close>

text \<open>
  Models the operations of \<^verbatim>\<open>src/src/LibForumData/private/MemoryRepositoryDiscussionThread.cpp\<close> that change threads:
  \<open>repo_\<close> is the operation a request calls and \<open>direct_\<close> the one the importer calls too. Replies are left out.
\<close>

abbreviation find_thread :: "id_type \<Rightarrow> content \<Rightarrow> ptr option" where
  "find_thread i co \<equiv> fo_threadsById (co_forum co) i"

definition thread_updateLastUpdated :: "repository_context \<Rightarrow> ptr \<Rightarrow> ptr \<Rightarrow> content \<Rightarrow> content" where
  "thread_updateLastUpdated cx by t co = upd_forum (\<lambda>fo. set_links (updateThreadLastUpdated cx by t (fo_links fo)) fo) co"

subsection \<open>Direct writes\<close>

definition new_thread :: "repository_context \<Rightarrow> id_type \<Rightarrow> ptr \<Rightarrow> json_ready_string \<Rightarrow> bool \<Rightarrow> thread" where
  "new_thread cx i by name approved =
     \<lparr>discussionThreadMessagePrivileges = None, discussionThreadPrivileges = \<lambda>_. None, thr_id = i, thr_createdBy = by,
      thr_approved = approved, thr_messages = [], thr_tags = [], thr_categories = [], thr_latestVisibleChange = rx_time cx,
      thr_visitorsSinceLastEdit = [], thr_name = name, thr_created = rx_time cx, thr_lastUpdated = not_updated\<lparr>up_at := rx_time cx\<rparr>,
      thr_aboutToBeDeleted = False\<rparr>"

definition direct_addNewDiscussionThread ::
  "content_settings \<Rightarrow> repository_context \<Rightarrow> id_type \<Rightarrow> string \<Rightarrow> bool \<Rightarrow> content_write" where
  "direct_addNewDiscussionThread cf cx newId name approved co =
     (let (currentUser, co1) = lift_current_user (getCurrentUser cx) co;
          t = co_nextThread co1;
          co2 = upd_the_thread t (\<lambda>_. new_thread cx newId currentUser (content_name cf name) approved)
                  (upd_thread_content t (\<lambda>_. \<lparr>tn_createdIp = rx_ip cx, tn_subscribedUsers = [], tn_pinDisplayOrder = 0\<rparr>)
                     (co1\<lparr>co_nextThread := Suc t\<rparr>))
      in Some (STATUS_OK, user_addThread currentUser t (insertDiscussionThread t co2)))"

definition with_existing_thread :: "id_type \<Rightarrow> (ptr \<Rightarrow> content_write) \<Rightarrow> content_write" where
  "with_existing_thread i body co = (case find_thread i co of None \<Rightarrow> Some (NOT_FOUND, co) | Some t \<Rightarrow> body t co)"

text \<open>A change that marks the thread as updated by the current user.\<close>

definition change_thread :: "repository_context \<Rightarrow> id_type \<Rightarrow> (ptr \<Rightarrow> content \<Rightarrow> content) \<Rightarrow> content_write" where
  "change_thread cx i change =
     with_existing_thread i (\<lambda>t co.
       let (currentUser, co1) = lift_current_user (getCurrentUser cx) co
       in Some (STATUS_OK, thread_updateLastUpdated cx currentUser t (change t co1)))"

definition direct_changeDiscussionThreadName :: "content_settings \<Rightarrow> repository_context \<Rightarrow> id_type \<Rightarrow> string \<Rightarrow> content_write" where
  "direct_changeDiscussionThreadName cf cx i newName =
     change_thread cx i (\<lambda>t. upd_the_thread t (thr_name_update (\<lambda>_. content_name cf newName)))"

text \<open>The order is kept in a bit field of 14 bits.\<close>

definition direct_changeDiscussionThreadPinDisplayOrder :: "repository_context \<Rightarrow> id_type \<Rightarrow> 16 word \<Rightarrow> content_write" where
  "direct_changeDiscussionThreadPinDisplayOrder cx i newValue =
     change_thread cx i (\<lambda>t. upd_thread_content t (tn_pinDisplayOrder_update (\<lambda>_. ucast newValue)))"

definition direct_changeDiscussionThreadApproval :: "repository_context \<Rightarrow> id_type \<Rightarrow> bool \<Rightarrow> content_write" where
  "direct_changeDiscussionThreadApproval cx i newApproval =
     change_thread cx i (\<lambda>t. upd_the_thread t (thr_approved_update (\<lambda>_. newApproval)))"

definition direct_deleteDiscussionThread :: "repository_context \<Rightarrow> id_type \<Rightarrow> content_write" where
  "direct_deleteDiscussionThread cx i =
     with_existing_thread i (\<lambda>t co. map_option (\<lambda>co1. (STATUS_OK, co1)) (collection_deleteDiscussionThread (rx_time cx) True t True co))"

definition merge_subscriptions :: "ptr \<Rightarrow> ptr \<Rightarrow> content \<Rightarrow> content" where
  "merge_subscriptions from into co =
     fold (\<lambda>u co. upd_thread_content into (\<lambda>e. e\<lparr>tn_subscribedUsers := flat_insert u (tn_subscribedUsers e)\<rparr>)
                    (user_subscribe u into co))
       (tn_subscribedUsers (co_thread co from)) co"

definition direct_mergeDiscussionThreads :: "repository_context \<Rightarrow> id_type \<Rightarrow> id_type \<Rightarrow> content_write" where
  "direct_mergeDiscussionThreads cx fromId intoId co =
     (let (currentUser, co1) = lift_current_user (getCurrentUser cx) co
      in if fromId = intoId then Some (NO_EFFECT, co1)
         else with_existing_thread fromId (\<lambda>from. with_existing_thread intoId (\<lambda>into co1.
                let co2 = thread_updateLastUpdated cx currentUser into co1;
                    messages = thr_messages (the_thread co2 from);
                    co3 = fold (\<lambda>m. upd_the_message m (msg_parentThread_update (\<lambda>_. into))) messages co2;
                    co4 = thread_insertMessages into messages co3;
                    count = int (length messages)
                in map_option (\<lambda>co. (STATUS_OK, co))
                     (Option.bind (updateMessageCounts from (- count) co4)
                       (\<lambda>co5. Option.bind (updateMessageCounts into count co5)
                         (\<lambda>co6. collection_deleteDiscussionThread (rx_time cx) True from False (merge_subscriptions from into co6)))))) co1)"

definition direct_subscribeToDiscussionThread :: "repository_context \<Rightarrow> id_type \<Rightarrow> content_write" where
  "direct_subscribeToDiscussionThread cx i =
     with_existing_thread i (\<lambda>t co.
       let (currentUser, co1) = lift_current_user (getCurrentUser cx) co
       in if currentUser \<in> set (tn_subscribedUsers (co_thread co1 t)) then Some (NO_EFFECT, co1)
          else Some (STATUS_OK, user_subscribe currentUser t
                 (upd_thread_content t (\<lambda>e. e\<lparr>tn_subscribedUsers := flat_insert currentUser (tn_subscribedUsers e)\<rparr>) co1)))"

definition direct_unsubscribeFromDiscussionThread :: "repository_context \<Rightarrow> id_type \<Rightarrow> content_write" where
  "direct_unsubscribeFromDiscussionThread cx i =
     with_existing_thread i (\<lambda>t co.
       let (currentUser, co1) = lift_current_user (getCurrentUser cx) co
       in if currentUser \<notin> set (tn_subscribedUsers (co_thread co1 t)) then Some (NO_EFFECT, co1)
          else Some (STATUS_OK, user_unsubscribe currentUser t
                 (upd_thread_content t (\<lambda>e. e\<lparr>tn_subscribedUsers := flat_erase currentUser (tn_subscribedUsers e)\<rparr>) co1)))"

subsection \<open>Requests\<close>

text \<open>The creator of a thread or a message gets the default level on it, with an event for it.\<close>

definition grant_creator ::
  "repository_context \<Rightarrow> ptr \<Rightarrow> default_privilege_duration \<Rightarrow> (16 word \<Rightarrow> 64 word \<Rightarrow> content \<Rightarrow> (status_code \<times> forum) option) \<Rightarrow>
   (16 word \<Rightarrow> 64 word \<Rightarrow> content \<Rightarrow> assign_privilege_call) \<Rightarrow> content \<Rightarrow> content option" where
  "grant_creator cx currentUser level assign call co =
     (if isAnonymousUser (Some (the_user co currentUser)) then Some co
      else case getForumWideDefaultPrivilegeLevel (h_forumWide (fo_heap (co_forum co))) level of
             None \<Rightarrow> Some co
           | Some levelToGrant \<Rightarrow>
               (let v = word_of_int (level_value levelToGrant); duration = word_of_int (level_duration levelToGrant)
                in case assign v duration co of
                     None \<Rightarrow> None
                   | Some (_, fo) \<Rightarrow>
                       (let co1 = upd_forum (\<lambda>_. fo) co
                        in Some (observe_content cx currentUser (AssignPrivilegeCall (call v duration co1)) co1))))"

definition repo_addNewDiscussionThread ::
  "content_settings \<Rightarrow> id_type \<Rightarrow> repository_context \<Rightarrow> string \<Rightarrow> content_write" where
  "repo_addNewDiscussionThread cf newId cx name co =
     (let validationCode = valid_text cf (cs_threadNameLength cf) INVALID_PARAMETERS_FOR_EMPTY_STRING name
      in if validationCode \<noteq> STATUS_OK then Some (validationCode, co)
         else with_current_user cx (\<lambda>currentUser co1.
                case authorize_content cx (\<lambda>ax. addNewDiscussionThread ax (the_user co1 currentUser)) co1 of
                  None \<Rightarrow> None
                | Some (st, co2) \<Rightarrow>
                    if st \<noteq> STATUS_OK then Some (st, co2)
                    else (case authorize_content cx (\<lambda>ax. autoApproveDiscussionThread ax (the_user co2 currentUser)) co2 of
                            None \<Rightarrow> None
                          | Some (st2, co3) \<Rightarrow>
                              (let t = co_nextThread co3
                               in case direct_addNewDiscussionThread cf cx newId name (STATUS_OK = st2) co3 of
                                    None \<Rightarrow> None
                                  | Some (st3, co4) \<Rightarrow>
                                      if st3 \<noteq> STATUS_OK then Some (st3, co4)
                                      else map_option (\<lambda>co5. (STATUS_OK, co5))
                                             (grant_creator cx currentUser CREATE_DISCUSSION_THREAD
                                                (\<lambda>v d co. direct_assignDiscussionThreadPrivilege (rx_time cx) (thread_ident co t)
                                                            (usr_id (the_user co currentUser)) v d (co_forum co))
                                                (\<lambda>v d co. AssignDiscussionThreadPrivilege (thread_ident co t) (usr_id (the_user co currentUser)) v d)
                                                (observe_content cx currentUser
                                                  (ThreadCall (AddNewDiscussionThread (thread_ident co4 t)
                                                    (text_bytes (jr_string (thr_name (the_thread co4 t)))) (thr_approved (the_thread co4 t)))) co4))))) co)"

definition repo_changeDiscussionThreadName ::
  "content_settings \<Rightarrow> repository_context \<Rightarrow> id_type \<Rightarrow> string \<Rightarrow> content_write" where
  "repo_changeDiscussionThreadName cf cx i newName co =
     (let validationCode = valid_text cf (cs_threadNameLength cf) INVALID_PARAMETERS_FOR_EMPTY_STRING newName
      in if validationCode \<noteq> STATUS_OK then Some (validationCode, co)
         else with_found cx (find_thread i) (\<lambda>currentUser t co1.
                content_change cx currentUser (\<lambda>ax. changeDiscussionThreadName ax (the_user co1 currentUser) (the_thread co1 t))
                  (\<lambda>co2. ThreadCall (ChangeDiscussionThreadName (thread_ident co2 t) (text_bytes (jr_string (thr_name (the_thread co2 t))))))
                  (direct_changeDiscussionThreadName cf cx i newName) co1) co)"

definition repo_changeDiscussionThreadPinDisplayOrder :: "repository_context \<Rightarrow> id_type \<Rightarrow> 16 word \<Rightarrow> content_write" where
  "repo_changeDiscussionThreadPinDisplayOrder cx i newValue =
     with_found cx (find_thread i) (\<lambda>currentUser t co1.
       content_change cx currentUser (\<lambda>ax. changeDiscussionThreadPinDisplayOrder ax (the_user co1 currentUser) (the_thread co1 t))
         (\<lambda>co2. ThreadCall (ChangeDiscussionThreadPinDisplayOrder (thread_ident co2 t) (ucast (tn_pinDisplayOrder (co_thread co2 t)))))
         (direct_changeDiscussionThreadPinDisplayOrder cx i newValue) co1)"

definition repo_changeDiscussionThreadApproval :: "repository_context \<Rightarrow> id_type \<Rightarrow> bool \<Rightarrow> content_write" where
  "repo_changeDiscussionThreadApproval cx i newApproval =
     with_found cx (find_thread i) (\<lambda>currentUser t co1.
       content_change cx currentUser (\<lambda>ax. changeDiscussionThreadApproval ax (the_user co1 currentUser) (the_thread co1 t))
         (\<lambda>co2. ThreadCall (ChangeDiscussionThreadApproval (thread_ident co2 t) (thr_approved (the_thread co2 t))))
         (direct_changeDiscussionThreadApproval cx i newApproval) co1)"

definition repo_deleteDiscussionThread :: "repository_context \<Rightarrow> id_type \<Rightarrow> content_write" where
  "repo_deleteDiscussionThread cx i co =
     (if \<not> i \<noteq> 0 then Some (INVALID_PARAMETERS, co)
      else with_found cx (find_thread i) (\<lambda>currentUser t co1.
             content_write_after cx currentUser (\<lambda>ax. deleteDiscussionThread ax (the_user co1 currentUser) (the_thread co1 t))
               (ThreadCall (DeleteDiscussionThread (thread_ident co1 t))) (direct_deleteDiscussionThread cx i) co1) co)"

definition repo_mergeDiscussionThreads :: "repository_context \<Rightarrow> id_type \<Rightarrow> id_type \<Rightarrow> content_write" where
  "repo_mergeDiscussionThreads cx fromId intoId co =
     (if \<not> fromId \<noteq> 0 \<or> \<not> intoId \<noteq> 0 then Some (INVALID_PARAMETERS, co)
      else if fromId = intoId then Some (NO_EFFECT, co)
      else with_found cx (find_thread fromId) (\<lambda>currentUser from co1.
             case find_thread intoId co1 of
               None \<Rightarrow> Some (NOT_FOUND, co1)
             | Some into \<Rightarrow>
                 content_write_after cx currentUser
                   (\<lambda>ax. mergeDiscussionThreads ax (the_user co1 currentUser) (the_thread co1 from) (the_thread co1 into))
                   (ThreadCall (MergeDiscussionThreads (thread_ident co1 from) (thread_ident co1 into)))
                   (direct_mergeDiscussionThreads cx fromId intoId) co1) co)"

text \<open>Subscribing and unsubscribing, which anonymous users may not.\<close>

definition with_known_user_and_thread :: "repository_context \<Rightarrow> id_type \<Rightarrow> (ptr \<Rightarrow> ptr \<Rightarrow> content_write) \<Rightarrow> content_write" where
  "with_known_user_and_thread cx i body co =
     (if \<not> i \<noteq> 0 then Some (INVALID_PARAMETERS, co)
      else with_current_user cx (\<lambda>currentUser co1.
             if isAnonymousUser (Some (the_user co1 currentUser)) then Some (STATUS_NOT_ALLOWED, co1)
             else case find_thread i co1 of None \<Rightarrow> Some (NOT_FOUND, co1) | Some t \<Rightarrow> body currentUser t co1) co)"

definition repo_subscribeToDiscussionThread :: "repository_context \<Rightarrow> id_type \<Rightarrow> content_write" where
  "repo_subscribeToDiscussionThread cx i =
     with_known_user_and_thread cx i (\<lambda>currentUser t co1.
       content_change cx currentUser (\<lambda>ax. subscribeToDiscussionThread ax (the_user co1 currentUser) (the_thread co1 t))
         (\<lambda>co2. ThreadCall (SubscribeToDiscussionThread (thread_ident co2 t))) (direct_subscribeToDiscussionThread cx i) co1)"

definition repo_unsubscribeFromDiscussionThread :: "repository_context \<Rightarrow> id_type \<Rightarrow> content_write" where
  "repo_unsubscribeFromDiscussionThread cx i =
     with_known_user_and_thread cx i (\<lambda>currentUser t co1.
       content_change cx currentUser (\<lambda>ax. unsubscribeFromDiscussionThread ax (the_user co1 currentUser) (the_thread co1 t))
         (\<lambda>co2. ThreadCall (UnsubscribeFromDiscussionThread (thread_ident co2 t))) (direct_unsubscribeFromDiscussionThread cx i) co1)"

end
