(* ===== verification/MessageRepository.thy ===== *)
theory MessageRepository
  imports ThreadRepository Uuid
begin

section \<open>The repository of messages\<close>

text \<open>
  Models the operations of \<^verbatim>\<open>src/src/LibForumData/private/MemoryRepositoryDiscussionThreadMessage.cpp\<close> that change
  messages, votes, comments and quotes: \<open>repo_\<close> is the operation a request calls and \<open>direct_\<close> the one the importer calls
  too. The overload for a text in a mapped file is left out, and so are replies.
\<close>

abbreviation find_message :: "id_type \<Rightarrow> content \<Rightarrow> ptr option" where
  "find_message i co \<equiv> fo_messagesById (co_forum co) i"

definition with_existing_message :: "id_type \<Rightarrow> (ptr \<Rightarrow> content_write) \<Rightarrow> content_write" where
  "with_existing_message i body co = (case find_message i co of None \<Rightarrow> Some (NOT_FOUND, co) | Some m \<Rightarrow> body m co)"

subsection \<open>Direct writes\<close>

definition new_message :: "repository_context \<Rightarrow> id_type \<Rightarrow> ptr \<Rightarrow> ptr \<Rightarrow> bool \<Rightarrow> message" where
  "new_message cx i by t approved =
     \<lparr>discussionThreadMessagePrivileges = None, msg_id = i, msg_created = rx_time cx, msg_createdBy = by, msg_parentThread = t,
      msg_approved = approved, msg_solvedCommentsCount = 0, msg_upVotes = [], msg_downVotes = []\<rparr>"

definition new_message_content :: "repository_context \<Rightarrow> string \<Rightarrow> message_content" where
  "new_message_content cx text =
     \<lparr>mc_content = text, mc_createdIp = rx_ip cx, mc_lastUpdated = not_updated, mc_lastUpdatedReason = [], mc_comments = []\<rparr>"

definition direct_addNewDiscussionMessageInThread ::
  "repository_context \<Rightarrow> id_type \<Rightarrow> id_type \<Rightarrow> bool \<Rightarrow> string \<Rightarrow> content_write" where
  "direct_addNewDiscussionMessageInThread cx messageId threadId approved text =
     with_existing_thread threadId (\<lambda>t co.
       let (currentUser, co1) = lift_current_user (getCurrentUser cx) co;
           m = co_nextMessage co1;
           co2 = upd_af (\<lambda>af. af\<lparr>af_messageAttachments := (af_messageAttachments af)(m := [])\<rparr>)
                   (upd_message m (\<lambda>_. new_message_content cx text)
                     (upd_the_message m (\<lambda>_. new_message cx messageId currentUser t approved) (co1\<lparr>co_nextMessage := Suc m\<rparr>)));
           co3 = thread_changed (rx_time cx) t (thread_insertMessage t m (insertDiscussionThreadMessage m co2));
           co4 = (if \<not> isAnonymousUser (Some (the_user co3 currentUser))
                  then upd_thread_content t (\<lambda>e. e\<lparr>tn_subscribedUsers := flat_insert currentUser (tn_subscribedUsers e)\<rparr>) co3 else co3)
       in map_option (\<lambda>co5. (STATUS_OK, user_subscribe currentUser t (user_addMessage currentUser m co5))) (updateMessageCounts t 1 co4))"

definition direct_deleteDiscussionMessage :: "repository_context \<Rightarrow> id_type \<Rightarrow> content_write" where
  "direct_deleteDiscussionMessage cx i =
     with_existing_message i (\<lambda>m co. map_option (\<lambda>co1. (STATUS_OK, co1)) (collection_deleteDiscussionThreadMessage (rx_time cx) True m co))"

definition direct_changeDiscussionThreadMessageContent ::
  "repository_context \<Rightarrow> id_type \<Rightarrow> string \<Rightarrow> string \<Rightarrow> content_write" where
  "direct_changeDiscussionThreadMessageContent cx i newContent changeReason =
     with_existing_message i (\<lambda>m co.
       let (currentUser, co1) = lift_current_user (getCurrentUser cx) co;
           co2 = upd_message m (\<lambda>e. e\<lparr>mc_content := newContent,
                   mc_lastUpdated := (mc_lastUpdated e)\<lparr>up_at := rx_time cx, up_ip := rx_ip cx\<rparr>, mc_lastUpdatedReason := changeReason\<rparr>) co1;
           co3 = (if msg_createdBy (the_message co2 m) \<noteq> currentUser
                  then upd_message m (\<lambda>e. e\<lparr>mc_lastUpdated := (mc_lastUpdated e)\<lparr>up_by := Some currentUser\<rparr>\<rparr>) co2 else co2)
       in Some (STATUS_OK, thread_changed (up_at (mc_lastUpdated (co_message co3 m))) (msg_parentThread (the_message co3 m)) co3))"

definition direct_changeDiscussionThreadMessageApproval :: "id_type \<Rightarrow> bool \<Rightarrow> content_write" where
  "direct_changeDiscussionThreadMessageApproval i newApproval =
     with_existing_message i (\<lambda>m co.
       if msg_approved (the_message co m) = newApproval then Some (NO_EFFECT, co)
       else Some (STATUS_OK, upd_the_thread (msg_parentThread (the_message co m)) resetVisitorsSinceLastEdit
              (upd_the_message m (msg_approved_update (\<lambda>_. newApproval)) co)))"

definition updateThreadOnMoveMessage :: "repository_context \<Rightarrow> ptr \<Rightarrow> int \<Rightarrow> content \<Rightarrow> content option" where
  "updateThreadOnMoveMessage cx t delta co = updateMessageCounts t delta (thread_changed (rx_time cx) t co)"

definition direct_moveDiscussionThreadMessage :: "repository_context \<Rightarrow> id_type \<Rightarrow> id_type \<Rightarrow> content_write" where
  "direct_moveDiscussionThreadMessage cx messageId intoThreadId =
     with_existing_message messageId (\<lambda>m. with_existing_thread intoThreadId (\<lambda>into co.
       let from = msg_parentThread (the_message co m)
       in if from = into then Some (NO_EFFECT, co)
          else map_option (\<lambda>co1. (STATUS_OK, upd_the_message m (msg_parentThread_update (\<lambda>_. into)) co1))
                 (Option.bind (updateThreadOnMoveMessage cx into 1 (thread_insertMessage into m co))
                   (\<lambda>co1. updateThreadOnMoveMessage cx from (- 1) (thread_deleteDiscussionThreadMessage from m co1)))))"

definition direct_voteDiscussionThreadMessage :: "repository_context \<Rightarrow> id_type \<Rightarrow> bool \<Rightarrow> content_write" where
  "direct_voteDiscussionThreadMessage cx i up =
     with_existing_message i (\<lambda>m co.
       let (currentUser, co1) = lift_current_user (getCurrentUser cx) co
       in if hasVoted (the_message co1 m) currentUser then Some (NO_EFFECT, co1)
          else let tm = rx_time cx;
                   co2 = upd_the_message m (if up then addUpVote currentUser tm else addDownVote currentUser tm) (registerVote currentUser m co1);
                   targetUser = msg_createdBy (the_message co2 m);
                   co3 = upd_user targetUser (if up then uc_receivedUpVotes_update (\<lambda>n. n + 1) else uc_receivedDownVotes_update (\<lambda>n. n + 1)) co2
               in Some (STATUS_OK, upd_user targetUser
                    (received_vote (message_ident co3 m) tm (if up then HistoryUpVote else HistoryDownVote)) co3))"

definition direct_upVoteDiscussionThreadMessage :: "repository_context \<Rightarrow> id_type \<Rightarrow> content_write" where
  "direct_upVoteDiscussionThreadMessage cx i = direct_voteDiscussionThreadMessage cx i True"

definition direct_downVoteDiscussionThreadMessage :: "repository_context \<Rightarrow> id_type \<Rightarrow> content_write" where
  "direct_downVoteDiscussionThreadMessage cx i = direct_voteDiscussionThreadMessage cx i False"

text \<open>The vote is taken out of the message; the user keeps the message among the voted ones.\<close>

definition direct_resetVoteDiscussionThreadMessage :: "repository_context \<Rightarrow> id_type \<Rightarrow> content_write" where
  "direct_resetVoteDiscussionThreadMessage cx i =
     with_existing_message i (\<lambda>m co.
       let (currentUser, co1) = lift_current_user (getCurrentUser cx) co;
           (removeVoteStatus, message) = removeVote currentUser (the_message co1 m);
           co2 = upd_the_message m (\<lambda>_. message) co1
       in if removeVoteStatus = Missing then Some (NO_EFFECT, co2)
          else let targetUser = msg_createdBy (the_message co2 m);
                   co3 = (if removeVoteStatus = WasUpVote then upd_user targetUser (uc_receivedUpVotes_update (\<lambda>n. n - 1)) co2 else co2);
                   co4 = (if removeVoteStatus = WasDownVote then upd_user targetUser (uc_receivedDownVotes_update (\<lambda>n. n - 1)) co3 else co3)
               in Some (STATUS_OK, upd_user targetUser (received_vote (message_ident co4 m) (rx_time cx) HistoryResetVote) co4))"

definition direct_addCommentToDiscussionThreadMessage ::
  "repository_context \<Rightarrow> id_type \<Rightarrow> id_type \<Rightarrow> string \<Rightarrow> content_write" where
  "direct_addCommentToDiscussionThreadMessage cx commentId messageId text =
     with_existing_message messageId (\<lambda>m co.
       let (currentUser, co1) = lift_current_user (getCurrentUser cx) co;
           c = co_nextComment co1;
           comment = \<lparr>cmt_parentMessage = m, cm_id = commentId, cm_created = rx_time cx, cm_createdIp = rx_ip cx,
                      cm_createdBy = currentUser, cm_content = text, cm_solved = False\<rparr>;
           co2 = insertMessageComment c (upd_comment c (\<lambda>_. comment) (co1\<lparr>co_nextComment := Suc c\<rparr>));
           ident = (\<lambda>q. cm_id (co_comment co2 q));
           co3 = upd_message m (\<lambda>e. e\<lparr>mc_comments := vec_add ident c (mc_comments e)\<rparr>) co2
       in Some (STATUS_OK, upd_user currentUser (\<lambda>u. u\<lparr>uc_messageComments := vec_add ident c (uc_messageComments u)\<rparr>) co3))"

definition direct_setMessageCommentToSolved :: "id_type \<Rightarrow> content_write" where
  "direct_setMessageCommentToSolved i co =
     (case co_commentsById co i of
        None \<Rightarrow> Some (NOT_FOUND, co)
      | Some c \<Rightarrow>
          if cm_solved (co_comment co c) then Some (NO_EFFECT, co)
          else Some (STATUS_OK, upd_the_message (cmt_parentMessage (co_comment co c)) incrementSolvedCommentsCount
                 (upd_comment c (cm_solved_update (\<lambda>_. True)) co)))"

definition direct_quoteUserInMessage :: "id_type \<Rightarrow> id_type \<Rightarrow> content_write" where
  "direct_quoteUserInMessage messageId userId =
     with_existing_user userId (\<lambda>u co.
       Some (STATUS_OK, upd_user u (\<lambda>e. e\<lparr>uc_quoteHistory := circular_push 16 messageId (uc_quoteHistory e),
                                          uc_quotesHistoryNotRead := uc_quotesHistoryNotRead e + 1\<rparr>) co))"

subsection \<open>Requests\<close>

text \<open>Every quoted user that exists is told, with an event. The ids come from an ordered set.\<close>

definition quote_users :: "repository_context \<Rightarrow> ptr \<Rightarrow> id_type \<Rightarrow> id_type list \<Rightarrow> content \<Rightarrow> content option" where
  "quote_users cx currentUser messageId quotedIds =
     loop_over (\<lambda>userId co.
       case direct_quoteUserInMessage messageId userId co of
         None \<Rightarrow> None
       | Some (st, co1) \<Rightarrow>
           Some (if st = STATUS_OK then observe_content cx currentUser (MessageCall (QuoteUserInMessage messageId userId)) co1 else co1))
       quotedIds"

definition id_set :: "id_type list \<Rightarrow> id_type list" where
  "id_set ids = fold flat_insert ids []"

definition repo_addNewDiscussionMessageInThread ::
  "content_settings \<Rightarrow> id_type \<Rightarrow> repository_context \<Rightarrow> id_type \<Rightarrow> string \<Rightarrow> content_write" where
  "repo_addNewDiscussionMessageInThread cf newId cx threadId text co =
     (if \<not> threadId \<noteq> 0 then Some (INVALID_PARAMETERS, co)
      else let validationCode = valid_text cf (cs_messageContentLength cf) INVALID_PARAMETERS_FOR_EMPTY_STRING text
           in if validationCode \<noteq> STATUS_OK then Some (validationCode, co)
              else with_found cx (find_thread threadId) (\<lambda>currentUser t co1.
                     case authorize_content cx (\<lambda>ax. addNewDiscussionMessageInThread ax (the_user co1 currentUser) (the_thread co1 t)) co1 of
                       None \<Rightarrow> None
                     | Some (st, co2) \<Rightarrow>
                         if st \<noteq> STATUS_OK then Some (st, co2)
                         else let alreadySubscribed = vec_contains (thread_ident co2) t (uc_subscribedThreads (co_user co2 currentUser))
                              in (case authorize_content cx
                                         (\<lambda>ax. autoApproveDiscussionMessageInThread ax (the_user co2 currentUser) (the_thread co2 t)) co2 of
                                    None \<Rightarrow> None
                                  | Some (st2, co3) \<Rightarrow>
                                      (let m = co_nextMessage co3
                                       in case direct_addNewDiscussionMessageInThread cx newId threadId (STATUS_OK = st2) text co3 of
                                            None \<Rightarrow> None
                                          | Some (st3, co4) \<Rightarrow>
                                              if st3 \<noteq> STATUS_OK then Some (st3, co4)
                                              else
                                                let co5 = observe_content cx currentUser
                                                      (MessageCall (AddNewDiscussionMessageInThread (message_ident co4 m) (thread_ident co4 t)
                                                        (msg_approved (the_message co4 m)) (text_bytes (mc_content (co_message co4 m))))) co4;
                                                    co6 = (if \<not> alreadySubscribed
                                                           then observe_content cx currentUser
                                                                  (ThreadCall (SubscribeToDiscussionThread (thread_ident co5 t))) co5
                                                           else co5)
                                                in map_option (\<lambda>co8. (STATUS_OK, co8))
                                                     (Option.bind
                                                       (grant_creator cx currentUser CREATE_DISCUSSION_THREAD_MESSAGE
                                                          (\<lambda>v d co. direct_assignDiscussionThreadMessagePrivilege (rx_time cx) (message_ident co m)
                                                                      (usr_id (the_user co currentUser)) v d (co_forum co))
                                                          (\<lambda>v d co. AssignDiscussionThreadMessagePrivilege (message_ident co m)
                                                                      (usr_id (the_user co currentUser)) v d) co6)
                                                       (\<lambda>co7. Option.bind (extractUuidReferences text)
                                                          (\<lambda>quoted. quote_users cx currentUser (message_ident co7 m) (id_set quoted) co7)))))) co)"

definition repo_deleteDiscussionMessage :: "repository_context \<Rightarrow> id_type \<Rightarrow> content_write" where
  "repo_deleteDiscussionMessage cx i co =
     (if \<not> i \<noteq> 0 then Some (INVALID_PARAMETERS, co)
      else with_found cx (find_message i) (\<lambda>currentUser m co1.
             content_write_after cx currentUser (\<lambda>ax. deleteDiscussionMessage ax (the_user co1 currentUser) (the_message co1 m))
               (MessageCall (DeleteDiscussionMessage (message_ident co1 m))) (direct_deleteDiscussionMessage cx i) co1) co)"

text \<open>The users a message quoted before are read from the message after its content was replaced.\<close>

definition quote_new_users :: "repository_context \<Rightarrow> ptr \<Rightarrow> ptr \<Rightarrow> string \<Rightarrow> content \<Rightarrow> content option" where
  "quote_new_users cx currentUser m newContent co =
     Option.bind (extractUuidReferences newContent) (\<lambda>newQuotedIds.
       if newQuotedIds = [] then Some co
       else Option.bind (extractUuidReferences (mc_content (co_message co m))) (\<lambda>oldQuotedIds.
              quote_users cx currentUser (message_ident co m)
                (filter (\<lambda>i. i \<notin> set (id_set oldQuotedIds)) (id_set newQuotedIds)) co))"

definition repo_changeDiscussionThreadMessageContent ::
  "content_settings \<Rightarrow> repository_context \<Rightarrow> id_type \<Rightarrow> string \<Rightarrow> string \<Rightarrow> content_write" where
  "repo_changeDiscussionThreadMessageContent cf cx i newContent changeReason co =
     (let contentCode = valid_text cf (cs_messageContentLength cf) INVALID_PARAMETERS_FOR_EMPTY_STRING newContent;
          reasonCode = valid_text cf (cs_changeReasonLength cf)
            (if 0 = fst (cs_changeReasonLength cf) then ALLOW_EMPTY_STRING else INVALID_PARAMETERS_FOR_EMPTY_STRING) changeReason
      in if contentCode \<noteq> STATUS_OK then Some (contentCode, co)
         else if reasonCode \<noteq> STATUS_OK then Some (reasonCode, co)
         else with_found cx (find_message i) (\<lambda>currentUser m co1.
                case authorize_content cx (\<lambda>ax. changeDiscussionThreadMessageContent ax (the_user co1 currentUser) (the_message co1 m)) co1 of
                  None \<Rightarrow> None
                | Some (st, co2) \<Rightarrow>
                    if st \<noteq> STATUS_OK then Some (st, co2)
                    else (case direct_changeDiscussionThreadMessageContent cx i newContent changeReason co2 of
                            None \<Rightarrow> None
                          | Some (st2, co3) \<Rightarrow>
                              if st2 \<noteq> STATUS_OK then Some (st2, co3)
                              else map_option (\<lambda>co4. (STATUS_OK, observe_content cx currentUser
                                     (MessageCall (ChangeDiscussionThreadMessageContent (message_ident co4 m)
                                        (text_bytes (mc_content (co_message co4 m)))
                                        (text_bytes (mc_lastUpdatedReason (co_message co4 m))))) co4))
                                     (quote_new_users cx currentUser m newContent co3))) co)"

definition repo_changeDiscussionThreadMessageApproval :: "repository_context \<Rightarrow> id_type \<Rightarrow> bool \<Rightarrow> content_write" where
  "repo_changeDiscussionThreadMessageApproval cx i newApproval =
     with_found cx (find_message i) (\<lambda>currentUser m co1.
       content_change cx currentUser (\<lambda>ax. changeDiscussionThreadMessageApproval ax (the_user co1 currentUser) (the_message co1 m))
         (\<lambda>co2. MessageCall (ChangeDiscussionThreadMessageApproval (message_ident co2 m) (msg_approved (the_message co2 m))))
         (direct_changeDiscussionThreadMessageApproval i newApproval) co1)"

definition repo_moveDiscussionThreadMessage :: "repository_context \<Rightarrow> id_type \<Rightarrow> id_type \<Rightarrow> content_write" where
  "repo_moveDiscussionThreadMessage cx messageId intoThreadId co =
     (if \<not> messageId \<noteq> 0 \<or> \<not> intoThreadId \<noteq> 0 then Some (INVALID_PARAMETERS, co)
      else with_found cx (find_message messageId) (\<lambda>currentUser m co1.
             case find_thread intoThreadId co1 of
               None \<Rightarrow> Some (NOT_FOUND, co1)
             | Some into \<Rightarrow>
                 if msg_parentThread (the_message co1 m) = into then Some (NO_EFFECT, co1)
                 else content_write_after cx currentUser
                        (\<lambda>ax. moveDiscussionThreadMessage ax (the_user co1 currentUser) (the_message co1 m) (the_thread co1 into))
                        (MessageCall (MoveDiscussionThreadMessage (message_ident co1 m) (thread_ident co1 into)))
                        (direct_moveDiscussionThreadMessage cx messageId intoThreadId) co1) co)"

text \<open>Votes: not by anonymous users, and not on one's own messages.\<close>

definition with_voted_message :: "repository_context \<Rightarrow> id_type \<Rightarrow> (ptr \<Rightarrow> ptr \<Rightarrow> content_write) \<Rightarrow> content_write" where
  "with_voted_message cx i body co =
     (if \<not> i \<noteq> 0 then Some (INVALID_PARAMETERS, co)
      else if isAnonymousUserId (rx_userId cx) then Some (STATUS_NOT_ALLOWED, co)
      else with_found cx (find_message i) (\<lambda>currentUser m co1.
             if msg_createdBy (the_message co1 m) = currentUser then Some (STATUS_NOT_ALLOWED, co1) else body currentUser m co1) co)"

definition repo_voteDiscussionThreadMessage :: "repository_context \<Rightarrow> id_type \<Rightarrow> bool \<Rightarrow> content_write" where
  "repo_voteDiscussionThreadMessage cx i up =
     with_voted_message cx i (\<lambda>currentUser m co1.
       if up
       then content_change cx currentUser (\<lambda>ax. upVoteDiscussionThreadMessage ax (the_user co1 currentUser) (the_message co1 m))
              (\<lambda>co2. MessageCall (UpVoteDiscussionThreadMessage (message_ident co2 m))) (direct_upVoteDiscussionThreadMessage cx i) co1
       else content_change cx currentUser (\<lambda>ax. downVoteDiscussionThreadMessage ax (the_user co1 currentUser) (the_message co1 m))
              (\<lambda>co2. MessageCall (DownVoteDiscussionThreadMessage (message_ident co2 m))) (direct_downVoteDiscussionThreadMessage cx i) co1)"

definition repo_resetVoteDiscussionThreadMessage :: "content_settings \<Rightarrow> repository_context \<Rightarrow> id_type \<Rightarrow> content_write" where
  "repo_resetVoteDiscussionThreadMessage cf cx i =
     with_voted_message cx i (\<lambda>currentUser m co1.
       case votedAt (the_message co1 m) currentUser of
         None \<Rightarrow> Some (NO_EFFECT, co1)
       | Some tm \<Rightarrow>
           if tm + cs_resetVoteExpiresInSeconds cf < rx_time cx then Some (STATUS_NOT_ALLOWED, co1)
           else content_change cx currentUser (\<lambda>ax. resetVoteDiscussionThreadMessage ax (the_user co1 currentUser) (the_message co1 m))
                  (\<lambda>co2. MessageCall (ResetVoteDiscussionThreadMessage (message_ident co2 m)))
                  (direct_resetVoteDiscussionThreadMessage cx i) co1)"

definition repo_addCommentToDiscussionThreadMessage ::
  "content_settings \<Rightarrow> id_type \<Rightarrow> repository_context \<Rightarrow> id_type \<Rightarrow> string \<Rightarrow> content_write" where
  "repo_addCommentToDiscussionThreadMessage cf newId cx messageId text co =
     (if \<not> messageId \<noteq> 0 then Some (INVALID_PARAMETERS, co)
      else let validationCode = valid_text cf (cs_commentLength cf) INVALID_PARAMETERS_FOR_EMPTY_STRING text
           in if validationCode \<noteq> STATUS_OK then Some (validationCode, co)
              else with_found cx (find_message messageId) (\<lambda>currentUser m co1.
                     content_change cx currentUser (\<lambda>ax. addCommentToDiscussionThreadMessage ax (the_user co1 currentUser) (the_message co1 m))
                       (\<lambda>co2. let comment = co_comment co2 (co_nextComment co1)
                              in MessageCall (AddCommentToDiscussionThreadMessage (cm_id comment)
                                   (message_ident co2 (cmt_parentMessage comment)) (text_bytes (cm_content comment))))
                       (direct_addCommentToDiscussionThreadMessage cx newId messageId text) co1) co)"

definition repo_setMessageCommentToSolved :: "repository_context \<Rightarrow> id_type \<Rightarrow> content_write" where
  "repo_setMessageCommentToSolved cx i co =
     (if \<not> i \<noteq> 0 then Some (INVALID_PARAMETERS, co)
      else if isAnonymousUserId (rx_userId cx) then Some (STATUS_NOT_ALLOWED, co)
      else with_found cx (\<lambda>co. co_commentsById co i) (\<lambda>currentUser c co1.
             content_change cx currentUser
               (\<lambda>ax. setMessageCommentToSolved ax (the_user co1 currentUser) (message_comment.truncate (co_comment co1 c)))
               (\<lambda>co2. MessageCall (SetMessageCommentToSolved (cm_id (co_comment co2 c)))) (direct_setMessageCommentToSolved i) co1) co)"

end
