(* ===== verification/ContentLemmas.thy ===== *)
theory ContentLemmas
  imports MessageRepository CategoryRequests
begin

section \<open>What the operations on users, threads and messages keep\<close>

text \<open>
  Most operations leave alone who the users are, the forest of categories and that a user votes once on a
  message; they are built from a few updates that do. \<open>retained\<close> relates the state at the beginning of a request to a later one.
\<close>

subsection \<open>What is retained\<close>

definition same_users :: "content \<Rightarrow> content \<Rightarrow> bool" where
  "same_users co co' \<longleftrightarrow> fo_usersById (co_forum co') = fo_usersById (co_forum co) \<and> co_usersByAuth co' = co_usersByAuth co \<and>
     co_usersByName co' = co_usersByName co \<and> co_nextUser co' = co_nextUser co \<and> co_userCount co' = co_userCount co \<and>
     (\<forall>u. usr_id (the_user co' u) = usr_id (the_user co u) \<and> usr_name (the_user co' u) = usr_name (the_user co u) \<and>
          uc_auth (co_user co' u) = uc_auth (co_user co u))"

definition one_vote_each :: "content \<Rightarrow> bool" where
  "one_vote_each co \<longleftrightarrow> (\<forall>m. votes_ok (the_message co m))"

definition retained :: "id_type set \<Rightarrow> content \<Rightarrow> content \<Rightarrow> bool" where
  "retained used co co' \<longleftrightarrow> same_users co co' \<and> forum_ok used (co_forum co') \<and> (one_vote_each co \<longrightarrow> one_vote_each co')"

lemma keptD:
  assumes "retained used co co'"
  shows "same_users co co'" "forum_ok used (co_forum co')" "one_vote_each co \<Longrightarrow> one_vote_each co'"
  using assms by (simp_all add: retained_def)

lemma kept_refl: "forum_ok used (co_forum co) \<Longrightarrow> retained used co co"
  by (simp add: retained_def same_users_def)

lemma kept_trans: "retained used co c \<Longrightarrow> retained used c c' \<Longrightarrow> retained used co c'"
  by (auto simp: retained_def same_users_def)

lemma upd_af_simps [simp]:
  "co_forum (upd_af f co) = af_forum (f (co_af co))" "co_user (upd_af f co) = co_user co" "co_usersByAuth (upd_af f co) = co_usersByAuth co"
  "co_usersByName (upd_af f co) = co_usersByName co" "co_nextUser (upd_af f co) = co_nextUser co" "co_userCount (upd_af f co) = co_userCount co"
  "co_af (upd_af f co) = f (co_af co)" "co_message (upd_af f co) = co_message co" "co_thread (upd_af f co) = co_thread co"
  "co_comment (upd_af f co) = co_comment co" "co_letter (upd_af f co) = co_letter co" "co_commentsById (upd_af f co) = co_commentsById co"
  "co_lettersById (upd_af f co) = co_lettersById co"
  by (simp_all add: upd_af_def)

lemma upd_forum_simps [simp]:
  "co_forum (upd_forum g co) = g (co_forum co)" "co_user (upd_forum g co) = co_user co" "co_usersByAuth (upd_forum g co) = co_usersByAuth co"
  "co_usersByName (upd_forum g co) = co_usersByName co" "co_nextUser (upd_forum g co) = co_nextUser co"
  "co_userCount (upd_forum g co) = co_userCount co" "co_message (upd_forum g co) = co_message co" "co_thread (upd_forum g co) = co_thread co"
  "co_comment (upd_forum g co) = co_comment co" "co_letter (upd_forum g co) = co_letter co"
  "co_commentsById (upd_forum g co) = co_commentsById co" "co_lettersById (upd_forum g co) = co_lettersById co"
  by (simp_all add: upd_forum_def)

lemma upd_content_simps [simp]:
  "co_af (upd_user u h co) = co_af co" "co_user (upd_user u h co) = (co_user co)(u := h (co_user co u))"
  "co_usersByAuth (upd_user u h co) = co_usersByAuth co" "co_usersByName (upd_user u h co) = co_usersByName co"
  "co_nextUser (upd_user u h co) = co_nextUser co" "co_userCount (upd_user u h co) = co_userCount co"
  "co_message (upd_user u h co) = co_message co" "co_thread (upd_user u h co) = co_thread co" "co_comment (upd_user u h co) = co_comment co"
  "co_letter (upd_user u h co) = co_letter co" "co_commentsById (upd_user u h co) = co_commentsById co"
  "co_lettersById (upd_user u h co) = co_lettersById co"
  by (simp_all add: upd_user_def)

named_theorems kept_intros

lemma kept_forum:
  assumes "retained used co c" "fo_usersById fo = fo_usersById (co_forum c)"
    "\<And>u. usr_id (fo_user fo u) = usr_id (the_user c u) \<and> usr_name (fo_user fo u) = usr_name (the_user c u)"
    "\<And>m. votes_ok (the_message c m) \<Longrightarrow> votes_ok (h_message (fo_heap fo) m)" "forum_ok used fo"
  shows "retained used co (upd_forum (\<lambda>_. fo) c)"
  using assms by (simp add: retained_def same_users_def one_vote_each_def the_user_def the_message_def)

lemma upd_forum_const: "upd_forum f c = upd_forum (\<lambda>_. f (co_forum c)) c"
  by (simp add: upd_forum_def upd_af_def)

lemma kept_user [kept_intros]: "retained used co c \<Longrightarrow> (\<And>e. uc_auth (f e) = uc_auth e) \<Longrightarrow> retained used co (upd_user u f c)"
  by (simp add: retained_def same_users_def one_vote_each_def the_user_def the_message_def)

lemma kept_content [kept_intros]:
  "retained used co c \<Longrightarrow> retained used co (upd_message m f c)" "retained used co c \<Longrightarrow> retained used co (upd_thread_content t g c)"
  "retained used co c \<Longrightarrow> retained used co (upd_comment q h c)" "retained used co c \<Longrightarrow> retained used co (c\<lparr>co_commentsById := ci\<rparr>)"
  "retained used co c \<Longrightarrow> retained used co (c\<lparr>co_lettersById := li\<rparr>)" "retained used co c \<Longrightarrow> retained used co (c\<lparr>co_letter := ls, co_nextLetter := nl\<rparr>)"
  "retained used co c \<Longrightarrow> retained used co (c\<lparr>co_nextThread := nt\<rparr>)" "retained used co c \<Longrightarrow> retained used co (c\<lparr>co_nextMessage := nm\<rparr>)"
  "retained used co c \<Longrightarrow> retained used co (c\<lparr>co_nextComment := nc\<rparr>)"
  by (simp_all add: retained_def same_users_def one_vote_each_def the_user_def the_message_def
      upd_message_def upd_thread_content_def upd_comment_def)

lemma kept_af [kept_intros]: "retained used co c \<Longrightarrow> (\<And>af. af_forum (f af) = af_forum af) \<Longrightarrow> retained used co (upd_af f c)"
  by (simp add: retained_def same_users_def one_vote_each_def the_user_def the_message_def)

text \<open>Updates of the forum.\<close>

lemma kept_vote:
  assumes "retained used co c" "votes_ok (the_message c m) \<Longrightarrow> votes_ok (f (the_message c m))"
  shows "retained used co (upd_the_message m f c)"
proof -
  let ?fo = "co_forum c"
  have "fo_usersById (update_message m f ?fo) = fo_usersById ?fo" by (simp add: update_message_def)
  moreover have "fo_user (update_message m f ?fo) u = the_user c u" for u by (simp add: update_message_def fo_user_def the_user_def)
  moreover have "votes_ok (h_message (fo_heap (update_message m f ?fo)) q)" if "votes_ok (the_message c q)" for q
    using that assms(2) by (cases "q = m") (auto simp: update_message_def the_message_def)
  moreover have "forum_ok used (update_message m f ?fo)"
    by (rule forum_ok_links [OF keptD(2) [OF assms(1)]]) (simp_all add: update_message_def fo_links_def links_of_def)
  ultimately show ?thesis by (subst upd_forum_const) (rule kept_forum [OF assms(1)]; simp)
qed

lemma kept_the_message [kept_intros]:
  "retained used co c \<Longrightarrow> (\<And>e. votes_ok e \<Longrightarrow> votes_ok (f e)) \<Longrightarrow> retained used co (upd_the_message m f c)"
  by (rule kept_vote)

lemma kept_the_thread [kept_intros]:
  assumes "retained used co c"
  shows "retained used co (upd_the_thread t f c)"
proof -
  let ?fo = "co_forum c"
  have "fo_usersById (update_thread t f ?fo) = fo_usersById ?fo" by (simp add: update_thread_def)
  moreover have "fo_user (update_thread t f ?fo) u = the_user c u" for u by (simp add: update_thread_def fo_user_def the_user_def)
  moreover have "h_message (fo_heap (update_thread t f ?fo)) q = the_message c q" for q by (simp add: update_thread_def the_message_def)
  moreover have "forum_ok used (update_thread t f ?fo)"
    by (rule forum_ok_links [OF keptD(2) [OF assms]]) (simp_all add: update_thread_def fo_links_def links_of_def shape_def)
  ultimately show ?thesis by (subst upd_forum_const) (rule kept_forum [OF assms]; simp)
qed

lemma kept_the_user [kept_intros]:
  assumes "retained used co c" "\<And>e. usr_id (f e) = usr_id e \<and> usr_name (f e) = usr_name e"
  shows "retained used co (upd_forum (update_user u f) c)"
proof -
  let ?fo = "co_forum c"
  have "fo_usersById (update_user u f ?fo) = fo_usersById ?fo" by (simp add: update_user_def)
  moreover have "usr_id (fo_user (update_user u f ?fo) v) = usr_id (the_user c v) \<and> usr_name (fo_user (update_user u f ?fo) v) = usr_name (the_user c v)" for v
    using assms(2) by (simp add: update_user_def fo_user_def the_user_def)
  moreover have "h_message (fo_heap (update_user u f ?fo)) q = the_message c q" for q by (simp add: update_user_def the_message_def)
  moreover have "forum_ok used (update_user u f ?fo)"
    by (rule forum_ok_links [OF keptD(2) [OF assms(1)]]) (simp_all add: update_user_def fo_links_def links_of_def)
  ultimately show ?thesis by (subst upd_forum_const) (rule kept_forum [OF assms(1)]; simp)
qed

lemma kept_index [kept_intros]:
  "retained used co c \<Longrightarrow> retained used co (upd_forum (\<lambda>fo. fo\<lparr>fo_threadsById := g fo\<rparr>) c)"
  "retained used co c \<Longrightarrow> retained used co (upd_forum (\<lambda>fo. fo\<lparr>fo_messagesById := g fo\<rparr>) c)"
  "retained used co c \<Longrightarrow> retained used co (upd_forum (observe cx p call) c)"
proof -
  assume k: "retained used co c"
  show "retained used co (upd_forum (\<lambda>fo. fo\<lparr>fo_threadsById := g fo\<rparr>) c)"
    by (subst upd_forum_const, rule kept_forum [OF k])
      (simp_all add: fo_user_def the_user_def the_message_def forum_ok_links [OF keptD(2) [OF k]] fo_links_def links_of_def)
  show "retained used co (upd_forum (\<lambda>fo. fo\<lparr>fo_messagesById := g fo\<rparr>) c)"
    by (subst upd_forum_const, rule kept_forum [OF k])
      (simp_all add: fo_user_def the_user_def the_message_def forum_ok_links [OF keptD(2) [OF k]] fo_links_def links_of_def)
  show "retained used co (upd_forum (observe cx p call) c)"
    by (subst upd_forum_const, rule kept_forum [OF k])
      (simp_all add: observe_def fo_user_def the_user_def the_message_def forum_ok_links [OF keptD(2) [OF k]] fo_links_def links_of_def)
qed

lemma kept_fold [kept_intros]:
  "retained used co c \<Longrightarrow> (\<And>x c. retained used co c \<Longrightarrow> retained used co (f x c)) \<Longrightarrow> retained used co (fold f xs c)"
  by (induction xs arbitrary: c) simp_all

lemma kept_if [kept_intros]: "(b \<Longrightarrow> retained used co c) \<Longrightarrow> (\<not> b \<Longrightarrow> retained used co d) \<Longrightarrow> retained used co (if b then c else d)"
  by simp

lemma kept_let [kept_intros]: "(\<And>x. retained used co (f x)) \<Longrightarrow> retained used co (let x = v in f x)"
  by simp

subsection \<open>Steps that may not return\<close>

definition returns :: "id_type set \<Rightarrow> content \<Rightarrow> content option \<Rightarrow> bool" where
  "returns used co r \<longleftrightarrow> (\<exists>c. r = Some c \<and> retained used co c)"

lemma returns_Some [kept_intros]: "retained used co c \<Longrightarrow> returns used co (Some c)"
  by (simp add: returns_def)

lemma returns_if [kept_intros]: "(b \<Longrightarrow> returns used co r) \<Longrightarrow> (\<not> b \<Longrightarrow> returns used co s) \<Longrightarrow> returns used co (if b then r else s)"
  by simp

lemma returns_bind [kept_intros]:
  "returns used co r \<Longrightarrow> (\<And>c. retained used co c \<Longrightarrow> returns used co (g c)) \<Longrightarrow> returns used co (Option.bind r g)"
  by (auto simp: returns_def)

lemma returns_map: "returns used co r \<Longrightarrow> (\<And>c. retained used co c \<Longrightarrow> retained used co (g c)) \<Longrightarrow> returns used co (map_option g r)"
  by (auto simp: returns_def)

lemma returns_loop [kept_intros]:
  assumes "retained used co c" "\<And>x c. retained used co c \<Longrightarrow> returns used co (f x c)"
  shows "returns used co (loop_over f xs c)"
  using assms(1)
proof (induction xs arbitrary: c)
  case Nil
  then show ?case by (simp add: returns_def)
next
  case (Cons x xs)
  obtain d where "f x c = Some d" "retained used co d" using assms(2) [OF Cons.prems] unfolding returns_def by blast
  then show ?case using Cons.IH by simp
qed

lemma returns_links [kept_intros]:
  assumes "retained used co c" "keeps_shape f"
  shows "returns used co (with_links f c)"
proof -
  let ?fo = "co_forum c"
  obtain rank where "falling rank (fo_links ?fo)" using forum_okD(2) [OF keptD(2) [OF assms(1)]] by blast
  from keeps_shapeD [OF assms(2) this] obtain l where l: "f (fo_links ?fo) = Some l" "shape l = shape (fo_links ?fo)" by blast
  have "fo_usersById (set_links l ?fo) = fo_usersById ?fo" by (simp add: set_links_def)
  moreover have "fo_user (set_links l ?fo) u = the_user c u" for u by (simp add: set_links_def put_links_def fo_user_def the_user_def)
  moreover have "h_message (fo_heap (set_links l ?fo)) m = the_message c m" for m by (simp add: set_links_def put_links_def the_message_def)
  moreover have "forum_ok used (set_links l ?fo)"
    by (rule forum_ok_links [OF keptD(2) [OF assms(1)]]) (simp_all add: l(2))
  ultimately have "retained used co (upd_forum (\<lambda>_. set_links l ?fo) c)" by (intro kept_forum [OF assms(1)]) simp_all
  then show ?thesis using l(1) by (simp add: returns_def with_links_def upd_forum_const [of "set_links l"])
qed

end
