(* ===== verification/ContentKept.thy ===== *)
theory ContentKept
  imports ContentLemmas
begin

section \<open>The direct writes on users, threads and messages return\<close>

text \<open>
  Each of them ends with a status, whatever the categories and tags above the thread are, since no chain of parents is a
  cycle; all but those that add, rename or delete a user leave the users alone.
\<close>

definition answers :: "id_type set \<Rightarrow> content \<Rightarrow> (status_code \<times> content) option \<Rightarrow> bool" where
  "answers used co r \<longleftrightarrow> (\<exists>st c. r = Some (st, c) \<and> retained used co c)"

definition keeps_content :: "id_type set \<Rightarrow> content_write \<Rightarrow> bool" where
  "keeps_content used f \<longleftrightarrow> (\<forall>co c. retained used co c \<longrightarrow> answers used co (f c))"

lemma keeps_contentI: "(\<And>co c. retained used co c \<Longrightarrow> answers used co (f c)) \<Longrightarrow> keeps_content used f"
  by (simp add: keeps_content_def)

lemma keeps_contentD: "keeps_content used f \<Longrightarrow> retained used co c \<Longrightarrow> answers used co (f c)"
  by (simp add: keeps_content_def)

lemma answers_Some [kept_intros]: "retained used co c \<Longrightarrow> answers used co (Some (st, c))"
  by (simp add: answers_def)

lemma answers_if [kept_intros]: "(b \<Longrightarrow> answers used co r) \<Longrightarrow> (\<not> b \<Longrightarrow> answers used co s) \<Longrightarrow> answers used co (if b then r else s)"
  by simp

lemma answers_let [kept_intros]: "answers used co (f v) \<Longrightarrow> answers used co (let x = v in f x)"
  by simp

lemma answers_option [kept_intros]:
  "answers used co r \<Longrightarrow> (\<And>p. x = Some p \<Longrightarrow> answers used co (f p)) \<Longrightarrow> answers used co (case x of None \<Rightarrow> r | Some p \<Rightarrow> f p)"
  by (simp split: option.split)

lemma answers_returns [kept_intros]:
  "returns used co r \<Longrightarrow> (\<And>c. retained used co c \<Longrightarrow> retained used co (f c)) \<Longrightarrow> answers used co (map_option (\<lambda>c. (st, f c)) r)"
  by (auto simp: returns_def answers_def)

lemma answers_case:
  assumes "answers used co r" "\<And>st c. retained used co c \<Longrightarrow> answers used co (f st c)"
  shows "answers used co (case r of None \<Rightarrow> None | Some (st, c) \<Rightarrow> f st c)"
  using assms by (auto simp: answers_def)

text \<open>Reading who the current user is.\<close>

definition seen :: "forum \<Rightarrow> forum \<Rightarrow> bool" where
  "seen fo fo1 \<longleftrightarrow> fo_usersById fo1 = fo_usersById fo \<and> h_message (fo_heap fo1) = h_message (fo_heap fo) \<and>
     (\<forall>v. usr_id (fo_user fo1 v) = usr_id (fo_user fo v) \<and> usr_name (fo_user fo1 v) = usr_name (fo_user fo v))"

lemma seen_trans: "seen fo fo1 \<Longrightarrow> seen fo1 fo2 \<Longrightarrow> seen fo fo2" and seen_refl: "seen fo fo"
  by (simp_all add: seen_def)

lemma seen_update: "(\<And>e. usr_id (f e) = usr_id e \<and> usr_name (f e) = usr_name e) \<Longrightarrow> seen fo (update_user u f fo)"
  by (simp add: seen_def update_user_def fo_user_def)

lemma seen_current_user:
  "getCurrentUser cx fo = (u, fo1) \<Longrightarrow> seen fo fo1" "performedBy_getAndUpdate cx fo = (u, fo1) \<Longrightarrow> seen fo fo1"
proof -
  have show_online: "seen fo (update_user u (usr_showInOnlineUsers_update f) fo)" and
    last_seen: "seen fo (update_user u (updateLastSeen t) fo)" for fo u f t
    by (rule seen_update; simp add: updateLastSeen_def)+
  show get: "getCurrentUser cx fo = (u, fo1) \<Longrightarrow> seen fo fo1" for fo u fo1
    by (auto simp: getCurrentUser_def Let_def seen_refl show_online split: option.splits if_splits)
  obtain v fo2 where first: "getCurrentUser cx fo = (v, fo2)" by force
  show "performedBy_getAndUpdate cx fo = (u, fo1) \<Longrightarrow> seen fo fo1"
    using first get [OF first] seen_trans [OF get [OF first] last_seen]
    by (auto simp: performedBy_getAndUpdate_def Let_def split: if_splits)
qed

lemma kept_lift:
  assumes "retained used co c" "lift_current_user f c = (u, c1)"
    "\<And>fo u fo1. f fo = (u, fo1) \<Longrightarrow> forum_ok used fo \<Longrightarrow> forum_ok used fo1" "\<And>fo u fo1. f fo = (u, fo1) \<Longrightarrow> seen fo fo1"
  shows "retained used co c1"
proof -
  obtain fo1 where fo1: "f (co_forum c) = (u, fo1)" "c1 = upd_forum (\<lambda>_. fo1) c"
    using assms(2) by (auto simp: lift_current_user_def split: prod.splits)
  show ?thesis unfolding fo1(2)
    by (rule kept_forum [OF assms(1)])
      (use assms(3) [OF fo1(1) keptD(2) [OF assms(1)]] assms(4) [OF fo1(1)] in \<open>simp_all add: seen_def the_user_def the_message_def\<close>)
qed

lemma answers_current_user [kept_intros]:
  assumes "retained used co c" "\<And>u c1. retained used co c1 \<Longrightarrow> answers used co (body u c1)"
  shows "answers used co (case lift_current_user (getCurrentUser cx) c of (u, c1) \<Rightarrow> body u c1)"
    "answers used co (case lift_current_user (performedBy_getAndUpdate cx) c of (u, c1) \<Rightarrow> body u c1)"
proof -
  obtain u c1 v c2 where get: "lift_current_user (getCurrentUser cx) c = (u, c1)" "lift_current_user (performedBy_getAndUpdate cx) c = (v, c2)"
    by force
  have "retained used co c1" "retained used co c2"
    by (rule kept_lift [OF assms(1) get(1) getCurrentUser_ok seen_current_user(1)], assumption+)
      (rule kept_lift [OF assms(1) get(2) getAndUpdate_ok seen_current_user(2)], assumption+)
  with assms(2) get show "answers used co (case lift_current_user (getCurrentUser cx) c of (u, c1) \<Rightarrow> body u c1)"
    "answers used co (case lift_current_user (performedBy_getAndUpdate cx) c of (u, c1) \<Rightarrow> body u c1)" by simp_all
qed

subsection \<open>Links\<close>

lemma keeps_self: "(\<And>l0. keeps_shape (f l0)) \<Longrightarrow> keeps_shape (\<lambda>l. f l l)"
  unfolding keeps_shape_def by blast

lemma keeps_pre: "keeps_shape f \<Longrightarrow> (\<And>l. shape (g l) = shape l) \<Longrightarrow> keeps_shape (\<lambda>l. f (g l))"
  unfolding keeps_shape_def by (metis falling_shape)

lemma updateMessageCount_returns:
  "falling rank l \<Longrightarrow> \<exists>l'. updateMessageCount_parents t delta stop parent l = Some l' \<and> shape l' = shape l"
proof (induction "case parent of None \<Rightarrow> 0 | Some p \<Rightarrow> Suc (rank p)" arbitrary: parent stop l rule: less_induct)
  case less
  show ?case
  proof (cases parent)
    case None
    then show ?thesis by (simp add: updateMessageCount_parents.simps)
  next
    case (Some p)
    have step: "\<exists>l'. updateMessageCount_parents t delta s (cat_parent (lk_category l1 p)) l1 = Some l' \<and> shape l' = shape l"
      if l1: "shape l1 = shape l" for s l1
    proof -
      have fall: "falling rank l1" using less.prems falling_shape [OF l1] by simp
      have "(case cat_parent (lk_category l1 p) of None \<Rightarrow> 0 | Some q \<Rightarrow> Suc (rank q)) < Suc (rank p)"
        using fall by (auto simp: falling_def split: option.split)
      then show ?thesis using less.hyps [OF _ fall, of "cat_parent (lk_category l1 p)" s] Some l1 by auto
    qed
    show ?thesis unfolding Some by (subst updateMessageCount_parents.simps) (simp add: Let_def step)
  qed
qed

lemma updateMessageCount_keeps [keeps_intros]: "keeps_shape (category_updateMessageCount c t delta)"
  unfolding keeps_shape_def
proof (intro allI impI)
  fix l rank assume fall: "falling rank l"
  let ?l = "upd_totals c (\<lambda>tt. tt\<lparr>tt_messageCount := tt_messageCount tt + delta\<rparr>)
    (upd_category c (\<lambda>e. e\<lparr>cat_messageCount := cat_messageCount e + delta\<rparr>) l)"
  have same: "shape ?l = shape l" by simp
  have "falling rank ?l" using falling_shape [OF same] fall by simp
  from updateMessageCount_returns [OF this] same
  show "\<exists>l'. category_updateMessageCount c t delta l = Some l' \<and> shape l' = shape l"
    unfolding category_updateMessageCount_def Let_def by metis
qed

lemma tag_updateMessageCount_shape [simp]: "shape (tag_updateMessageCount g delta l) = shape l"
  by (simp add: tag_updateMessageCount_def)

lemma updateMessageCounts_returns [kept_intros]: "retained used co c \<Longrightarrow> returns used co (updateMessageCounts t delta c)"
  unfolding updateMessageCounts_def
proof (rule returns_links)
  show "keeps_shape (\<lambda>l. loop_over (\<lambda>c. category_updateMessageCount c t delta) (thr_categories (lk_thread l t))
      (fold (\<lambda>g. tag_updateMessageCount g delta) (thr_tags (lk_thread l t)) l))"
    by (rule keeps_self [of "\<lambda>l0 l. loop_over (\<lambda>c. category_updateMessageCount c t delta) (thr_categories (lk_thread l0 t))
        (fold (\<lambda>g. tag_updateMessageCount g delta) (thr_tags (lk_thread l0 t)) l)"],
        rule keeps_pre) (auto intro: keeps_intros shape_fold)
qed

lemma unlink_thread_keeps:
  "keeps_shape (\<lambda>l. Option.bind
     (loop_over (\<lambda>c l. map_option snd (category_deleteDiscussionThread now c t dm False l)) (thr_categories (lk_thread l t)) l)
     (\<lambda>l1. loop_over (\<lambda>g l. map_option snd (tag_deleteDiscussionThread now g t dm l)) (thr_tags (lk_thread l1 t)) l1))"
proof (rule keeps_bind)
  have c: "keeps_shape (\<lambda>l. map_option snd (category_deleteDiscussionThread now c t dm False l))" for c
    unfolding keeps_shape_def using category_delete_keeps by fastforce
  have g: "keeps_shape (\<lambda>l. map_option snd (tag_deleteDiscussionThread now g t dm l))" for g
    unfolding keeps_shape_def using tag_delete_keeps by fastforce
  show "keeps_shape (\<lambda>l. loop_over (\<lambda>c l. map_option snd (category_deleteDiscussionThread now c t dm False l)) (thr_categories (lk_thread l t)) l)"
    by (rule keeps_self [of "\<lambda>l0. loop_over (\<lambda>c l. map_option snd (category_deleteDiscussionThread now c t dm False l)) (thr_categories (lk_thread l0 t))"])
      (rule keeps_loop [OF c])
  show "keeps_shape (\<lambda>l1. loop_over (\<lambda>g l. map_option snd (tag_deleteDiscussionThread now g t dm l)) (thr_tags (lk_thread l1 t)) l1)"
    by (rule keeps_self [of "\<lambda>l0. loop_over (\<lambda>g l. map_option snd (tag_deleteDiscussionThread now g t dm l)) (thr_tags (lk_thread l0 t))"])
      (rule keeps_loop [OF g])
qed

lemma thread_lastUpdated_kept [kept_intros]: "retained used co c \<Longrightarrow> retained used co (thread_updateLastUpdated cx by t c)"
proof -
  assume k: "retained used co c"
  have "returns used co (with_links (\<lambda>l. Some (updateThreadLastUpdated cx by t l)) c)"
    by (rule returns_links [OF k]) (intro keeps_intros; simp)
  moreover have "with_links (\<lambda>l. Some (updateThreadLastUpdated cx by t l)) c = Some (thread_updateLastUpdated cx by t c)"
    by (simp add: with_links_def thread_updateLastUpdated_def upd_forum_def upd_af_def)
  ultimately show ?thesis by (simp add: returns_def)
qed

subsection \<open>The collections\<close>

lemma kept_collections [kept_intros]:
  assumes "retained used co c"
  shows "retained used co (user_addMessage u m c)" "retained used co (user_removeMessage u m c)" "retained used co (user_addThread u t c)"
    "retained used co (user_removeThread u t c)" "retained used co (user_subscribe u t c)" "retained used co (user_unsubscribe u t c)"
    "retained used co (registerVote u m c)" "retained used co (user_removeVote u m c)" "retained used co (thread_insertMessage t m c)"
    "retained used co (thread_insertMessages t ms c)" "retained used co (thread_deleteDiscussionThreadMessage t m c)"
    "retained used co (thread_changed now t c)" "retained used co (insertDiscussionThread t c)" "retained used co (insertDiscussionThreadMessage m c)"
    "retained used co (insertMessageComment q c)" "retained used co (insertPrivateMessage p c)" "retained used co (merge_subscriptions t t' c)"
  using assms
  unfolding user_addMessage_def user_removeMessage_def user_addThread_def user_removeThread_def user_subscribe_def user_unsubscribe_def
    registerVote_def user_removeVote_def thread_insertMessage_def thread_insertMessages_def thread_deleteDiscussionThreadMessage_def
    thread_changed_def insertDiscussionThread_def insertDiscussionThreadMessage_def insertMessageComment_def insertPrivateMessage_def
    merge_subscriptions_def Let_def
  by (intro kept_intros; simp add: user_subscribe_def)+

subsection \<open>Deleting\<close>

lemma kept_delete_comment [kept_intros]: "retained used co c \<Longrightarrow> retained used co (collection_deleteMessageComment q c)"
  unfolding collection_deleteMessageComment_def Let_def by (intro kept_intros; simp)

lemma kept_delete_letter [kept_intros]: "retained used co c \<Longrightarrow> retained used co (collection_deletePrivateMessage a b p c)"
  unfolding collection_deletePrivateMessage_def Let_def by (intro kept_intros; simp)

lemma kept_unlink [kept_intros]: "retained used co c \<Longrightarrow> retained used co (unlink_message m c)"
  unfolding unlink_message_def Let_def split_beta
  by (intro kept_intros; simp add: upd_attachment_def)

lemma delete_message_returns [kept_intros]:
  "retained used co c \<Longrightarrow> returns used co (collection_deleteDiscussionThreadMessage now fromUser m c)"
  unfolding collection_deleteDiscussionThreadMessage_def Let_def by (intro kept_intros; simp)

lemma returns_case [kept_intros]:
  "returns used co r \<Longrightarrow> (\<And>c. retained used co c \<Longrightarrow> returns used co (f c)) \<Longrightarrow>
   returns used co (case r of None \<Rightarrow> None | Some c \<Rightarrow> f c)"
  by (auto simp: returns_def)

lemma delete_thread_returns [kept_intros]:
  "retained used co c \<Longrightarrow> returns used co (collection_deleteDiscussionThread now fromUser t dm c)"
  unfolding collection_deleteDiscussionThread_def Let_def by (intro kept_intros unlink_thread_keeps; assumption?)

lemma kept_user_comments [kept_intros]: "retained used co c \<Longrightarrow> retained used co (delete_user_comments u c)"
  unfolding delete_user_comments_def Let_def
  by (intro kept_intros; simp add: votes_ok_def hasVoted_def decrementSolvedCommentsCount_def)

lemma deleteAttachment_of_user_forum [simp]: "af_forum (deleteAttachment_of_user a af) = af_forum af"
proof -
  have "af_forum (fold (\<lambda>m. upd_messageAttachments m (flat_erase a)) ms af) = af_forum af" for ms af
    by (induction ms arbitrary: af) (simp_all add: upd_messageAttachments_def)
  then show ?thesis by (simp add: deleteAttachment_of_user_def split: prod.split)
qed

lemma kept_user_attachments [kept_intros]:
  "retained used co c \<Longrightarrow> retained used co (upd_af (\<lambda>af. fold deleteAttachment_of_user (g af) af) c)"
proof -
  have "af_forum (fold deleteAttachment_of_user xs af) = af_forum af" for xs af
    by (induction xs arbitrary: af) simp_all
  then show "retained used co c \<Longrightarrow> retained used co (upd_af (\<lambda>af. fold deleteAttachment_of_user (g af) af) c)"
    by (intro kept_intros; simp)
qed

text \<open>What follows the removal of a user from the indices.\<close>

lemma delete_user_returns:
  assumes "find_user (usr_id (the_user c u)) c \<noteq> None" "forum_ok used (co_forum (remove_user u c))"
  shows "returns used (remove_user u c) (collection_deleteUser now u c)"
proof -
  have k: "retained used (remove_user u c) (remove_user u c)" by (rule kept_refl [OF assms(2)])
  have "returns used (remove_user u c) (if find_user (usr_id (the_user c u)) c = None then Some (remove_user u c)
      else the (Some (collection_deleteUser now u c)))"
    unfolding option.sel collection_deleteUser_def Let_def
    using assms(1) by (simp only: if_False simp_thms) (intro kept_intros k votes_ok_remove; assumption?)
  then show ?thesis using assms(1) by simp
qed

subsection \<open>Direct writes\<close>

lemma answers_existing [kept_intros]:
  "retained used co c \<Longrightarrow> (\<And>u. answers used co (body u c)) \<Longrightarrow> answers used co (with_existing_user i body c)"
  "retained used co c \<Longrightarrow> (\<And>u. answers used co (body u c)) \<Longrightarrow> answers used co (with_existing_thread i body c)"
  "retained used co c \<Longrightarrow> (\<And>u. answers used co (body u c)) \<Longrightarrow> answers used co (with_existing_message i body c)"
  unfolding with_existing_user_def with_existing_thread_def with_existing_message_def by (intro kept_intros; assumption)+

lemma direct_user_kept:
  "keeps_content used (direct_changeUserInfo i v)" "keeps_content used (direct_changeUserTitle i v)"
  "keeps_content used (direct_changeUserSignature i v)" "keeps_content used (direct_changeUserLogo i v)"
  "keeps_content used (direct_deleteUserLogo i)" "keeps_content used (direct_changeUserAttachmentQuota i q)"
  "keeps_content used (direct_sendPrivateMessage cx p i v)" "keeps_content used (direct_deletePrivateMessage i)"
  unfolding direct_changeUserInfo_def direct_changeUserTitle_def direct_changeUserSignature_def direct_changeUserLogo_def
    direct_deleteUserLogo_def direct_changeUserAttachmentQuota_def direct_sendPrivateMessage_def [abs_def]
    direct_deletePrivateMessage_def [abs_def]
  by (rule keeps_contentI, (intro kept_intros; simp?))+

lemma answers_thread_change [kept_intros]:
  "retained used co c \<Longrightarrow> (\<And>t c. retained used co c \<Longrightarrow> retained used co (change t c)) \<Longrightarrow> answers used co (change_thread cx i change c)"
  unfolding change_thread_def by (intro kept_intros; assumption?)

lemma direct_thread_kept:
  "keeps_content used (direct_addNewDiscussionThread cf cx i v b)" "keeps_content used (direct_changeDiscussionThreadName cf cx i v)"
  "keeps_content used (direct_changeDiscussionThreadPinDisplayOrder cx i w)" "keeps_content used (direct_changeDiscussionThreadApproval cx i b)"
  "keeps_content used (direct_deleteDiscussionThread cx i)" "keeps_content used (direct_mergeDiscussionThreads cx i j)"
  "keeps_content used (direct_subscribeToDiscussionThread cx i)" "keeps_content used (direct_unsubscribeFromDiscussionThread cx i)"
  unfolding direct_addNewDiscussionThread_def [abs_def] direct_changeDiscussionThreadName_def [abs_def]
    direct_changeDiscussionThreadPinDisplayOrder_def [abs_def] direct_changeDiscussionThreadApproval_def [abs_def]
    direct_deleteDiscussionThread_def [abs_def] direct_mergeDiscussionThreads_def [abs_def]
    direct_subscribeToDiscussionThread_def [abs_def] direct_unsubscribeFromDiscussionThread_def [abs_def]
  by (rule keeps_contentI, (intro kept_intros; simp add: votes_ok_def hasVoted_def)?)+

lemma votes_ok_new [simp]: "votes_ok (new_message cx i u t b)"
  by (simp add: votes_ok_def new_message_def)

lemma direct_message_kept:
  "keeps_content used (direct_addNewDiscussionMessageInThread cx i j b v)" "keeps_content used (direct_deleteDiscussionMessage cx i)"
  "keeps_content used (direct_changeDiscussionThreadMessageContent cx i v w)" "keeps_content used (direct_changeDiscussionThreadMessageApproval i b)"
  "keeps_content used (direct_moveDiscussionThreadMessage cx i j)" "keeps_content used (direct_addCommentToDiscussionThreadMessage cx q i v)"
  "keeps_content used (direct_setMessageCommentToSolved i)" "keeps_content used (direct_quoteUserInMessage i j)"
  unfolding direct_addNewDiscussionMessageInThread_def [abs_def] direct_deleteDiscussionMessage_def [abs_def]
    direct_changeDiscussionThreadMessageContent_def [abs_def] direct_changeDiscussionThreadMessageApproval_def [abs_def]
    direct_moveDiscussionThreadMessage_def [abs_def] direct_addCommentToDiscussionThreadMessage_def [abs_def]
    direct_setMessageCommentToSolved_def [abs_def] direct_quoteUserInMessage_def [abs_def] updateThreadOnMoveMessage_def [abs_def]
  by (rule keeps_contentI, (intro kept_intros votes_ok_new; simp add: votes_ok_def incrementSolvedCommentsCount_def)?)+

text \<open>Votes: a vote is added where there is none.\<close>

lemma answers_removeVote [kept_intros]:
  assumes "retained used co c" "\<And>st c1. retained used co c1 \<Longrightarrow> answers used co (body st c1)"
  shows "answers used co (case removeVote u (the_message c m) of (st, e) \<Rightarrow> body st (upd_the_message m (\<lambda>_. e) c))"
proof -
  obtain st e where e: "removeVote u (the_message c m) = (st, e)" by force
  have "retained used co (upd_the_message m (\<lambda>_. e) c)"
    by (rule kept_vote [OF assms(1)]) (use votes_ok_remove [of "the_message c m" u] e in simp)
  with assms(2) e show ?thesis by simp
qed

lemma direct_reset_kept: "keeps_content used (direct_resetVoteDiscussionThreadMessage cx i)"
  unfolding direct_resetVoteDiscussionThreadMessage_def Let_def
  by (rule keeps_contentI, intro kept_intros; simp add: received_vote_def)

lemma kept_voted:
  assumes "retained used co c" "\<not> hasVoted (the_message c m) u" "\<And>e. uc_auth (f e) = uc_auth e"
  shows "retained used co (upd_user t (received_vote j tm k) (upd_user t' f
    (upd_the_message m (if up then addUpVote u tm else addDownVote u tm) (registerVote u m c))))"
  using assms votes_ok_add [of "the_message c m" u tm]
  by (intro kept_user kept_vote kept_collections) (auto simp: received_vote_def registerVote_def the_message_def)

lemma direct_vote_kept: "keeps_content used (direct_voteDiscussionThreadMessage cx i up)"
  unfolding direct_voteDiscussionThreadMessage_def Let_def
  by (rule keeps_contentI, intro answers_existing answers_current_user answers_if answers_Some kept_voted; (assumption | simp))

end
