(* ===== verification/ContentRequests.thy ===== *)
theory ContentRequests
  imports ContentKept
begin

section \<open>Requests on users, threads and messages return\<close>

text \<open>
  A request is a direct write behind look-ups, the authorization, events, grants and quotes; all of them return.
\<close>

subsection \<open>Combinators\<close>

lemma answers_authorize:
  assumes "retained used co c" "\<And>ax. \<exists>u. handler_of ax u (h ax)" "\<And>st c1. retained used co c1 \<Longrightarrow> answers used co (body st c1)"
  shows "answers used co (case authorize_content cx h c of None \<Rightarrow> None | Some (st, c1) \<Rightarrow> body st c1)"
proof -
  obtain st fo where auth: "authorize cx h (co_forum c) = Some (st, fo)" "forum_ok used fo"
    using authorize_ok [where h = h, OF assms(2) keptD(2) [OF assms(1)]] by blast
  have "seen (co_forum c) fo" using auth(1) by (auto simp: authorize_def seen_def fo_user_def split: option.splits)
  then have "retained used co (upd_forum (\<lambda>_. fo) c)"
    by (intro kept_forum [OF assms(1)]) (simp_all add: seen_def the_user_def the_message_def auth(2))
  with assms(3) auth(1) show ?thesis by (simp add: authorize_content_def)
qed

lemma kept_observe [kept_intros]: "retained used co c \<Longrightarrow> retained used co (observe_content cx u call c)"
  unfolding observe_content_def by (intro kept_intros)

lemma answers_keeps: "retained used co c \<Longrightarrow> keeps_content used f \<Longrightarrow> answers used co (f c)"
  by (rule keeps_contentD)

lemma answers_change:
  assumes "retained used co c" "\<And>ax. \<exists>u. handler_of ax u (h ax)" "keeps_content used f"
  shows "answers used co (content_change cx u h call f c)"
  unfolding content_change_def
  by (rule answers_authorize [where h = h, OF assms(1,2)])
    (intro answers_if answers_case answers_Some keeps_contentD [OF assms(3)] kept_observe; assumption)

lemma answers_write_after:
  assumes "retained used co c" "\<And>ax. \<exists>u. handler_of ax u (h ax)" "keeps_content used f"
  shows "answers used co (content_write_after cx u h call f c)"
  unfolding content_write_after_def
  by (rule answers_authorize [where h = h, OF assms(1,2)])
    (intro answers_if answers_Some keeps_contentD [OF assms(3)] kept_observe; assumption)

lemma answers_with_user:
  assumes "retained used co c" "\<And>u c1. retained used co c1 \<Longrightarrow> answers used co (body u c1)"
  shows "answers used co (with_current_user cx body c)"
  unfolding with_current_user_def by (intro answers_let answers_current_user assms)

lemma answers_found:
  assumes "retained used co c" "\<And>u p c1. retained used co c1 \<Longrightarrow> look c1 = Some p \<Longrightarrow> answers used co (body u p c1)"
  shows "answers used co (with_found cx look body c)"
  unfolding with_found_def by (intro answers_with_user answers_option answers_Some assms; assumption)

lemma answers_known_user_and_thread:
  assumes "retained used co c" "\<And>u p c1. retained used co c1 \<Longrightarrow> answers used co (body u p c1)"
  shows "answers used co (with_known_user_and_thread cx i body c)"
  unfolding with_known_user_and_thread_def by (intro answers_with_user answers_if answers_option answers_Some assms; assumption)

lemma answers_voted_message:
  assumes "retained used co c" "\<And>u p c1. retained used co c1 \<Longrightarrow> answers used co (body u p c1)"
  shows "answers used co (with_voted_message cx i body c)"
  unfolding with_voted_message_def by (intro answers_found answers_if answers_option answers_Some assms; assumption)

lemmas answers_rules = answers_Some answers_if answers_let answers_option answers_change answers_write_after answers_with_user
  answers_found answers_known_user_and_thread answers_voted_message
  direct_user_kept direct_thread_kept direct_message_kept direct_reset_kept direct_vote_kept

subsection \<open>Requests that are one write\<close>

lemma repo_user_kept:
  "keeps_content used (repo_changeUserInfo cf cx i v)" "keeps_content used (repo_changeUserTitle cf cx i v)"
  "keeps_content used (repo_changeUserSignature cf cx i v)" "keeps_content used (repo_changeUserLogo cf cx i v)"
  "keeps_content used (repo_deleteUserLogo cx i)" "keeps_content used (repo_changeUserAttachmentQuota cx i q)"
  "keeps_content used (repo_sendPrivateMessage cf p cx i v)" "keeps_content used (repo_deletePrivateMessage cx i)"
  unfolding repo_changeUserInfo_def repo_changeUserTitle_def repo_changeUserSignature_def repo_changeUserLogo_def repo_deleteUserLogo_def
    repo_changeUserText_def [abs_def] repo_changeUserAttachmentQuota_def repo_sendPrivateMessage_def [abs_def]
    repo_deletePrivateMessage_def [abs_def]
  by (rule keeps_contentI, intro answers_rules; (assumption | (rule exI, rule handler_of.intros)))+

lemma repo_thread_kept:
  "keeps_content used (repo_changeDiscussionThreadName cf cx i v)" "keeps_content used (repo_changeDiscussionThreadPinDisplayOrder cx i w)"
  "keeps_content used (repo_changeDiscussionThreadApproval cx i b)" "keeps_content used (repo_deleteDiscussionThread cx i)"
  "keeps_content used (repo_mergeDiscussionThreads cx i j)" "keeps_content used (repo_subscribeToDiscussionThread cx i)"
  "keeps_content used (repo_unsubscribeFromDiscussionThread cx i)"
  unfolding repo_changeDiscussionThreadName_def [abs_def] repo_changeDiscussionThreadPinDisplayOrder_def
    repo_changeDiscussionThreadApproval_def repo_deleteDiscussionThread_def [abs_def] repo_mergeDiscussionThreads_def [abs_def]
    repo_subscribeToDiscussionThread_def repo_unsubscribeFromDiscussionThread_def
  by (rule keeps_contentI, intro answers_rules; (assumption | (rule exI, rule handler_of.intros)))+

lemma repo_message_kept:
  "keeps_content used (repo_deleteDiscussionMessage cx i)" "keeps_content used (repo_changeDiscussionThreadMessageApproval cx i b)"
  "keeps_content used (repo_moveDiscussionThreadMessage cx i j)" "keeps_content used (repo_voteDiscussionThreadMessage cx i up)"
  "keeps_content used (repo_resetVoteDiscussionThreadMessage cf cx i)" "keeps_content used (repo_addCommentToDiscussionThreadMessage cf q cx i v)"
  "keeps_content used (repo_setMessageCommentToSolved cx i)"
  unfolding repo_deleteDiscussionMessage_def [abs_def] repo_changeDiscussionThreadMessageApproval_def
    repo_moveDiscussionThreadMessage_def [abs_def] repo_voteDiscussionThreadMessage_def
    repo_resetVoteDiscussionThreadMessage_def repo_addCommentToDiscussionThreadMessage_def [abs_def]
    repo_setMessageCommentToSolved_def [abs_def] direct_upVoteDiscussionThreadMessage_def [abs_def] direct_downVoteDiscussionThreadMessage_def [abs_def]
  by (rule keeps_contentI, intro answers_rules; (assumption | (rule exI, rule handler_of.intros)))+

subsection \<open>Grants and quotes\<close>

definition granted :: "forum \<Rightarrow> (status_code \<times> forum) option \<Rightarrow> bool" where
  "granted fo r \<longleftrightarrow> (\<exists>st fo'. r = Some (st, fo') \<and> (fo' = fo \<or> (\<exists>g. fo' = update_grants g fo)))"

definition time_ok :: "repository_context \<Rightarrow> bool" where
  "time_ok cx \<longleftrightarrow> 0 \<le> rx_time cx \<and> rx_time cx < duration_max_half"

lemma grant_until_granted:
  assumes "time_ok cx" "isValidPrivilegeDuration (sint d)"
  shows "granted fo (grant_until (rx_time cx) d g fo)"
proof -
  have "\<exists>e. calculatePrivilegeExpires (rx_time cx) (sint d) = Some e"
  proof (cases "sint d = UnlimitedDuration")
    case False
    have "in_int64 (sint d)" using sint_range_size [of d] by (simp add: in_int64_def word_size)
    moreover have "0 < sint d" using False assms(2) by (simp add: isValidPrivilegeDuration_def UnlimitedDuration_def)
    ultimately show ?thesis using calculatePrivilegeExpires_positive [of "rx_time cx" "sint d"] assms(1) by (auto simp: time_ok_def)
  qed (simp add: calculatePrivilegeExpires_unlimited)
  then show ?thesis by (auto simp: granted_def grant_until_def)
qed

lemma assign_granted:
  assumes "time_ok cx"
  shows "granted fo (direct_assignForumWidePrivilege (rx_time cx) i v d fo)"
    "granted fo (direct_assignDiscussionThreadPrivilege (rx_time cx) j i v d fo)"
    "granted fo (direct_assignDiscussionThreadMessagePrivilege (rx_time cx) j i v d fo)"
proof -
  have same: "granted fo (Some (st, fo))" for st by (simp add: granted_def)
  show "granted fo (direct_assignForumWidePrivilege (rx_time cx) i v d fo)"
    "granted fo (direct_assignDiscussionThreadPrivilege (rx_time cx) j i v d fo)"
    "granted fo (direct_assignDiscussionThreadMessagePrivilege (rx_time cx) j i v d fo)"
    using grant_until_granted [OF assms] same
    by (simp_all add: direct_assignForumWidePrivilege_def direct_assignDiscussionThreadPrivilege_def
        direct_assignDiscussionThreadMessagePrivilege_def invalid_assignment_def invalid_forum_wide_assignment_def split: option.split)
qed

lemma kept_granted:
  assumes "retained used co c" "granted (co_forum c) r"
  shows "\<exists>st fo. r = Some (st, fo) \<and> retained used co (upd_forum (\<lambda>_. fo) c)"
proof -
  have "retained used co (upd_forum (\<lambda>_. update_grants g (co_forum c)) c)" for g
  proof (rule kept_forum [OF assms(1)])
    have "fo_links (update_grants g fo) = fo_links fo" for fo by (simp add: update_grants_def)
    then show "forum_ok used (update_grants g (co_forum c))"
      using keptD(2) [OF assms(1)] by (simp add: forum_ok_def forest_ok_def) (simp add: update_grants_def)
  qed (simp_all add: update_grants_def fo_user_def the_user_def the_message_def)
  moreover have "retained used co (upd_forum (\<lambda>_. co_forum c) c)" by (simp add: upd_forum_def upd_af_def assms(1))
  ultimately show ?thesis using assms(2) by (auto simp: granted_def)
qed

lemma grant_creator_returns [kept_intros]:
  assumes "retained used co c" "\<And>v d c. granted (co_forum c) (assign v d c)"
  shows "returns used co (grant_creator cx u level assign call c)"
proof -
  have "returns used co (case assign v d c of None \<Rightarrow> None
      | Some (_, fo) \<Rightarrow> (let co1 = upd_forum (\<lambda>_. fo) c in Some (observe_content cx u (AssignPrivilegeCall (call v d co1)) co1)))" for v d
    using kept_granted [OF assms(1) assms(2) [of c v d]] kept_observe by (auto simp: returns_def Let_def)
  moreover have "returns used co (Some c)" using assms(1) by (rule returns_Some)
  ultimately show ?thesis by (auto simp: grant_creator_def Let_def split: option.split)
qed

lemma quote_users_returns [kept_intros]:
  assumes "retained used co c"
  shows "returns used co (quote_users cx u i ids c)"
  unfolding quote_users_def
proof (rule returns_loop [OF assms])
  fix j c1 assume k: "retained used co c1"
  from keeps_contentD [OF direct_message_kept(8) [of used i j] k] obtain st c2 where
    "direct_quoteUserInMessage i j c1 = Some (st, c2)" "retained used co c2" by (auto simp: answers_def)
  then show "returns used co (case direct_quoteUserInMessage i j c1 of None \<Rightarrow> None
      | Some (st, co1) \<Rightarrow> Some (if st = STATUS_OK then observe_content cx u (MessageCall (QuoteUserInMessage i j)) co1 else co1))"
    using kept_observe by (simp add: returns_def)
qed

text \<open>When the content of a message was replaced, the users it quotes now are those it quoted before.\<close>

lemma quote_new_users_none:
  assumes "mc_content (co_message c m) = text" "extractUuidReferences text \<noteq> None"
  shows "quote_new_users cx u m text c = Some c"
  using assms by (auto simp: quote_new_users_def quote_users_def)

lemma authorize_content_same:
  assumes "authorize_content cx h c = Some (st, c1)"
  shows "co_user c1 = co_user c" "co_message c1 = co_message c" "find_message i c1 = find_message i c"
  using assms by (auto simp: authorize_content_def authorize_def split: option.splits)

lemma lift_current_user_same:
  assumes "lift_current_user f c = (u, c1)"
  shows "co_user c1 = co_user c" "co_message c1 = co_message c"
  using assms by (auto simp: lift_current_user_def split: prod.splits)

lemma upd_message_simps [simp]:
  "co_af (upd_message m f c) = co_af c" "co_user (upd_message m f c) = co_user c" "co_message (upd_message m f c) = (co_message c)(m := f (co_message c m))"
  "co_comment (upd_message m f c) = co_comment c" "co_commentsById (upd_message m f c) = co_commentsById c"
  by (simp_all add: upd_message_def)

lemma direct_change_content_run:
  assumes "find_message i c = Some m"
  shows "\<exists>c1. direct_changeDiscussionThreadMessageContent cx i text reason c = Some (STATUS_OK, c1) \<and> mc_content (co_message c1 m) = text \<and>
    co_user c1 = co_user c"
proof -
  obtain u c0 where user: "lift_current_user (getCurrentUser cx) c = (u, c0)" by force
  show ?thesis using assms user lift_current_user_same [OF user]
    by (simp add: direct_changeDiscussionThreadMessageContent_def with_existing_message_def Let_def thread_changed_def)
qed

text \<open>What a request that changes the content of a message does once it is allowed.\<close>

definition content_changed :: "repository_context \<Rightarrow> ptr \<Rightarrow> ptr \<Rightarrow> id_type \<Rightarrow> string \<Rightarrow> string \<Rightarrow> content_write" where
  "content_changed cx u m i text reason c =
     map_option (\<lambda>(st, c1). (STATUS_OK, observe_content cx u (MessageCall (ChangeDiscussionThreadMessageContent (message_ident c1 m)
         (text_bytes (mc_content (co_message c1 m))) (text_bytes (mc_lastUpdatedReason (co_message c1 m))))) c1))
       (direct_changeDiscussionThreadMessageContent cx i text reason c)"

lemma repo_change_content_run:
  assumes "extractUuidReferences text \<noteq> None"
  shows "repo_changeDiscussionThreadMessageContent cf cx i text reason co =
     (let contentCode = valid_text cf (cs_messageContentLength cf) INVALID_PARAMETERS_FOR_EMPTY_STRING text;
          reasonCode = valid_text cf (cs_changeReasonLength cf)
            (if 0 = fst (cs_changeReasonLength cf) then ALLOW_EMPTY_STRING else INVALID_PARAMETERS_FOR_EMPTY_STRING) reason
      in if contentCode \<noteq> STATUS_OK then Some (contentCode, co)
         else if reasonCode \<noteq> STATUS_OK then Some (reasonCode, co)
         else with_found cx (find_message i) (\<lambda>u m co1.
                case authorize_content cx (\<lambda>ax. changeDiscussionThreadMessageContent ax (the_user co1 u) (the_message co1 m)) co1 of
                  None \<Rightarrow> None
                | Some (st, co2) \<Rightarrow> if st \<noteq> STATUS_OK then Some (st, co2) else content_changed cx u m i text reason co2) co)"
proof -
  have step: "(case direct_changeDiscussionThreadMessageContent cx i text reason co2 of None \<Rightarrow> None
      | Some (st2, co3) \<Rightarrow> if st2 \<noteq> STATUS_OK then Some (st2, co3)
          else map_option (\<lambda>co4. (STATUS_OK, observe_content cx u (MessageCall (ChangeDiscussionThreadMessageContent (message_ident co4 m)
              (text_bytes (mc_content (co_message co4 m))) (text_bytes (mc_lastUpdatedReason (co_message co4 m))))) co4))
            (quote_new_users cx u m text co3)) = content_changed cx u m i text reason co2"
    if "find_message i co1 = Some m" "authorize_content cx h co1 = Some (st, co2)" for u m co1 co2 h st
  proof -
    have "find_message i co2 = Some m" using that authorize_content_same(3) by metis
    from direct_change_content_run [OF this, of cx "text" reason] obtain co3 where
      co3: "direct_changeDiscussionThreadMessageContent cx i text reason co2 = Some (STATUS_OK, co3)" "mc_content (co_message co3 m) = text" by blast
    show ?thesis using co3(1) quote_new_users_none [OF co3(2) assms] by (simp add: content_changed_def)
  qed
  show ?thesis unfolding repo_changeDiscussionThreadMessageContent_def Let_def with_found_def with_current_user_def
    by (intro if_cong refl prod.case_cong option.case_cong) (rule step; simp)
qed

subsection \<open>Requests with several writes\<close>

lemma repo_change_content_kept:
  assumes "extractUuidReferences text \<noteq> None"
  shows "keeps_content used (repo_changeDiscussionThreadMessageContent cf cx i text reason)"
proof -
  have changed: "answers used co (content_changed cx u m i text reason c)" if k: "retained used co c" for co c u m
  proof -
    from keeps_contentD [OF direct_message_kept(3) [of used cx i "text" reason] k] obtain st c1 where
      "direct_changeDiscussionThreadMessageContent cx i text reason c = Some (st, c1)" "retained used co c1" by (auto simp: answers_def)
    then show ?thesis using kept_observe by (simp add: content_changed_def answers_def)
  qed
  show ?thesis
    unfolding repo_change_content_run [OF assms, abs_def] Let_def
    by (rule keeps_contentI, intro answers_rules answers_authorize changed; (assumption | (rule exI, rule handler_of.intros)))
qed

lemma answers_auth:
  assumes "retained used co c" "\<And>ax. \<exists>u. handler_of ax u (h ax)"
  shows "answers used co (authorize_content cx h c)"
proof -
  have "answers used co (case authorize_content cx h c of None \<Rightarrow> None | Some (st, c1) \<Rightarrow> Some (st, c1))"
    by (rule answers_authorize [where h = h, OF assms]) (rule answers_Some)
  then show ?thesis by (simp split: option.splits prod.splits)
qed

lemmas answers_more = answers_rules answers_auth answers_case answers_returns grant_creator_returns kept_observe
  keeps_contentD [OF direct_thread_kept(1)] keeps_contentD [OF direct_message_kept(1)] assign_granted returns_bind quote_users_returns

lemma repo_add_thread_kept:
  assumes "time_ok cx"
  shows "keeps_content used (repo_addNewDiscussionThread cf newId cx name)"
  unfolding repo_addNewDiscussionThread_def Let_def
  by (rule keeps_contentI, intro answers_more assms; (assumption | (rule exI, rule handler_of.intros)))

lemma repo_add_message_kept:
  assumes "time_ok cx" "extractUuidReferences text \<noteq> None"
  shows "keeps_content used (repo_addNewDiscussionMessageInThread cf newId cx threadId text)"
proof -
  obtain ids where "extractUuidReferences text = Some ids" using assms(2) by blast
  then show ?thesis
    unfolding repo_addNewDiscussionMessageInThread_def Let_def
    by (simp only: Option.bind.bind_lunit) 
      (rule keeps_contentI, intro answers_more kept_if assms(1); (assumption | (rule exI, rule handler_of.intros)))
qed

end
