(* ===== verification/UserRequests.thy ===== *)
theory UserRequests
  imports ContentRequests
begin

section \<open>The indices of users\<close>

text \<open>
  Users are found by id, by authentication and by name. Adding, renaming and deleting a user keep the three
  indices in agreement, and with them every request on users, threads and messages.
\<close>

definition users_ok :: "content \<Rightarrow> bool" where
  "users_ok co \<longleftrightarrow>
     (\<forall>i u. find_user i co = Some u \<longrightarrow> usr_id (the_user co u) = i \<and> u < co_nextUser co \<and> uc_auth (co_user co u) \<noteq> [] \<and>
        co_usersByAuth co (uc_auth (co_user co u)) = Some u \<and> co_usersByName co (sortKey (usr_name (the_user co u))) = Some u) \<and>
     (\<forall>a u. co_usersByAuth co a = Some u \<longrightarrow> uc_auth (co_user co u) = a \<and> find_user (usr_id (the_user co u)) co = Some u) \<and>
     (\<forall>n u. co_usersByName co n = Some u \<longrightarrow> sortKey (usr_name (the_user co u)) = n \<and> find_user (usr_id (the_user co u)) co = Some u) \<and>
     finite (dom (fo_usersById (co_forum co))) \<and> co_userCount co = card (dom (fo_usersById (co_forum co)))"

lemma users_okD:
  assumes "users_ok co"
  shows "find_user i co = Some u \<Longrightarrow> usr_id (the_user co u) = i" "find_user i co = Some u \<Longrightarrow> u < co_nextUser co"
    "find_user i co = Some u \<Longrightarrow> uc_auth (co_user co u) \<noteq> []"
    "find_user i co = Some u \<Longrightarrow> co_usersByAuth co (uc_auth (co_user co u)) = Some u"
    "find_user i co = Some u \<Longrightarrow> co_usersByName co (sortKey (usr_name (the_user co u))) = Some u"
    "co_usersByAuth co a = Some u \<Longrightarrow> uc_auth (co_user co u) = a" "co_usersByAuth co a = Some u \<Longrightarrow> find_user (usr_id (the_user co u)) co = Some u"
    "co_usersByName co n = Some u \<Longrightarrow> sortKey (usr_name (the_user co u)) = n" "co_usersByName co n = Some u \<Longrightarrow> find_user (usr_id (the_user co u)) co = Some u"
    "finite (dom (fo_usersById (co_forum co)))" "co_userCount co = card (dom (fo_usersById (co_forum co)))"
  using assms unfolding users_ok_def by blast+

lemma users_okI:
  assumes "\<And>i u. find_user i co = Some u \<Longrightarrow> usr_id (the_user co u) = i \<and> u < co_nextUser co \<and> uc_auth (co_user co u) \<noteq> [] \<and>
      co_usersByAuth co (uc_auth (co_user co u)) = Some u \<and> co_usersByName co (sortKey (usr_name (the_user co u))) = Some u"
    "\<And>a u. co_usersByAuth co a = Some u \<Longrightarrow> uc_auth (co_user co u) = a \<and> find_user (usr_id (the_user co u)) co = Some u"
    "\<And>n u. co_usersByName co n = Some u \<Longrightarrow> sortKey (usr_name (the_user co u)) = n \<and> find_user (usr_id (the_user co u)) co = Some u"
    "finite (dom (fo_usersById (co_forum co)))" "co_userCount co = card (dom (fo_usersById (co_forum co)))"
  shows "users_ok co"
  using assms unfolding users_ok_def by blast

lemma users_ok_same: "same_users co co' \<Longrightarrow> users_ok co \<Longrightarrow> users_ok co'"
  by (simp add: same_users_def users_ok_def)

text \<open>\<open>used\<close> are the ids given to categories, \<open>uids\<close> those given to users.\<close>

definition content_ok :: "id_type set \<Rightarrow> id_type set \<Rightarrow> content \<Rightarrow> bool" where
  "content_ok used uids co \<longleftrightarrow>
     forum_ok used (co_forum co) \<and> users_ok co \<and> dom (fo_usersById (co_forum co)) \<subseteq> uids \<and> one_vote_each co"

lemma content_okD:
  assumes "content_ok used uids co"
  shows "forum_ok used (co_forum co)" "users_ok co" "dom (fo_usersById (co_forum co)) \<subseteq> uids" "one_vote_each co"
  using assms by (simp_all add: content_ok_def)

lemma content_ok_kept: "content_ok used uids co \<Longrightarrow> retained used co co' \<Longrightarrow> content_ok used uids co'"
  using users_ok_same by (auto simp: content_ok_def retained_def same_users_def)

lemma content_ok_mono: "content_ok used uids co \<Longrightarrow> uids \<subseteq> uids' \<Longrightarrow> content_ok used uids' co"
  by (auto simp: content_ok_def)

lemma content_ok_refl: "content_ok used uids co \<Longrightarrow> retained used co co"
  by (simp add: content_ok_def kept_refl)

subsection \<open>Adding\<close>

lemma direct_add_user_ok:
  assumes ok: "content_ok used uids c" and new: "newId \<notin> uids" and auth: "auth \<noteq> []"
  shows "\<exists>st c'. direct_addNewUser cx newId name auth c = Some (st, c') \<and> content_ok used (insert newId uids) c'"
proof (cases "co_usersByAuth c auth = None \<and> co_usersByName c (sortKey name) = None")
  case False
  then show ?thesis using content_ok_mono [OF ok, of "insert newId uids"] by (auto simp: direct_addNewUser_def)
next
  case free: True
  note U = users_okD [OF content_okD(2) [OF ok]]
  let ?u = "co_nextUser c"
  have none: "co_usersByAuth c [] = None" using U(3,6,7) by (metis not_None_eq)
  have fresh: "find_user newId c = None" using new content_okD(3) [OF ok] by blast
  obtain c' where c': "direct_addNewUser cx newId name auth c = Some (STATUS_OK, c')" by (simp add: direct_addNewUser_def free Let_def)
  then have fields: "fo_usersById (co_forum c') = (fo_usersById (co_forum c))(newId \<mapsto> ?u)"
      "the_user c' = (the_user c)(?u := new_user newId name)" "co_usersByAuth c' = (co_usersByAuth c)(auth \<mapsto> ?u)"
      "co_usersByName c' = (co_usersByName c)(sortKey name \<mapsto> ?u)" "co_nextUser c' = Suc ?u" "co_userCount c' = Suc (co_userCount c)"
      "\<And>v. uc_auth (co_user c' v) = (if v = ?u then auth else uc_auth (co_user c v))" "the_message c' = the_message c"
      "fo_links (co_forum c') = fo_links (co_forum c)" "fo_categoriesById (co_forum c') = fo_categoriesById (co_forum c)"
      "fo_categoriesByName (co_forum c') = fo_categoriesByName (co_forum c)" "fo_nextCategory (co_forum c') = fo_nextCategory (co_forum c)"
      "fo_authorization (co_forum c') = fo_authorization (co_forum c)"
    using free none fresh
    by (auto simp: direct_addNewUser_def Let_def insertUser_def user_updateAuth_def name_replace_def name_insert_def new_user_content_def
        new_user_def the_user_def the_message_def upd_user_def upd_forum_def upd_af_def update_user_def fo_user_def fo_links_def links_of_def fun_eq_iff)
  have "users_ok c'"
  proof (rule users_okI)
    fix i v assume "find_user i c' = Some v"
    then show "usr_id (the_user c' v) = i \<and> v < co_nextUser c' \<and> uc_auth (co_user c' v) \<noteq> [] \<and>
      co_usersByAuth c' (uc_auth (co_user c' v)) = Some v \<and> co_usersByName c' (sortKey (usr_name (the_user c' v))) = Some v"
      unfolding fields using free auth U(1-5) [of i v] by (auto simp: new_user_def split: if_splits)
  next
    fix a v assume a: "co_usersByAuth c' a = Some v"
    then show "uc_auth (co_user c' v) = a \<and> find_user (usr_id (the_user c' v)) c' = Some v"
      unfolding fields using U(6,7) [of a v] U(2) [of _ v] fresh by (auto simp: new_user_def split: if_splits)
  next
    fix n v assume "co_usersByName c' n = Some v"
    then show "sortKey (usr_name (the_user c' v)) = n \<and> find_user (usr_id (the_user c' v)) c' = Some v"
      unfolding fields using U(8,9) [of n v] U(2) [of _ v] fresh by (auto simp: new_user_def split: if_splits)
  next
    show "finite (dom (fo_usersById (co_forum c')))" "co_userCount c' = card (dom (fo_usersById (co_forum c')))"
      using U(10,11) fresh by (simp_all add: fields domIff)
  qed
  moreover have "forum_ok used (co_forum c')"
    by (rule forum_ok_links [OF content_okD(1) [OF ok]]) (simp_all add: fields)
  ultimately have "content_ok used (insert newId uids) c'"
    using ok by (auto simp: content_ok_def fields one_vote_each_def)
  with c' show ?thesis by blast
qed

subsection \<open>Renaming\<close>

lemma direct_rename_user_ok:
  assumes ok: "content_ok used uids c"
  shows "\<exists>st c'. direct_changeUserName i name c = Some (st, c') \<and> content_ok used uids c'"
proof (cases "\<exists>u. find_user i c = Some u \<and> co_usersByName c (sortKey name) = None")
  case False
  then show ?thesis using ok by (auto simp: direct_changeUserName_def with_existing_user_def split: option.split)
next
  case True
  then obtain u where u: "find_user i c = Some u" "co_usersByName c (sortKey name) = None" by blast
  note U = users_okD [OF content_okD(2) [OF ok]]
  let ?c = "user_updateName u name c" and ?old = "sortKey (usr_name (the_user c u))"
  have fields: "fo_usersById (co_forum ?c) = fo_usersById (co_forum c)" "the_user ?c = (the_user c)(u := (the_user c u)\<lparr>usr_name := name\<rparr>)"
      "co_usersByAuth ?c = co_usersByAuth c" "co_usersByName ?c = (co_usersByName c)(?old := None, sortKey name \<mapsto> u)" "co_nextUser ?c = co_nextUser c"
      "co_userCount ?c = co_userCount c" "co_user ?c = co_user c" "the_message ?c = the_message c"
      "fo_links (co_forum ?c) = fo_links (co_forum c)" "fo_categoriesById (co_forum ?c) = fo_categoriesById (co_forum c)"
      "fo_categoriesByName (co_forum ?c) = fo_categoriesByName (co_forum c)" "fo_nextCategory (co_forum ?c) = fo_nextCategory (co_forum c)"
      "fo_authorization (co_forum ?c) = fo_authorization (co_forum c)"
    using U(5) [OF u(1)] u(2)
    by (auto simp: user_updateName_def Let_def name_replace_def the_user_def the_message_def upd_forum_def upd_af_def update_user_def
        fo_user_def fo_links_def links_of_def fun_eq_iff)
  have "users_ok ?c"
  proof (rule users_okI)
    fix j v assume v: "find_user j ?c = Some v"
    then show "usr_id (the_user ?c v) = j \<and> v < co_nextUser ?c \<and> uc_auth (co_user ?c v) \<noteq> [] \<and>
      co_usersByAuth ?c (uc_auth (co_user ?c v)) = Some v \<and> co_usersByName ?c (sortKey (usr_name (the_user ?c v))) = Some v"
      unfolding fields using u(2) U(1-5) [of j v] U(5) [OF u(1)] by (auto split: if_splits)
  next
    fix a v assume "co_usersByAuth ?c a = Some v"
    then show "uc_auth (co_user ?c v) = a \<and> find_user (usr_id (the_user ?c v)) ?c = Some v"
      unfolding fields using U(6,7) [of a v] by auto
  next
    fix n v assume "co_usersByName ?c n = Some v"
    then show "sortKey (usr_name (the_user ?c v)) = n \<and> find_user (usr_id (the_user ?c v)) ?c = Some v"
      unfolding fields using U(8,9) [of n v] U(1) [OF u(1)] u by (auto split: if_splits)
  qed (use U(10,11) in \<open>simp_all add: fields\<close>)
  moreover have "forum_ok used (co_forum ?c)"
    by (rule forum_ok_links [OF content_okD(1) [OF ok]]) (simp_all add: fields)
  ultimately have "content_ok used uids ?c" using ok by (auto simp: content_ok_def fields one_vote_each_def)
  then show ?thesis using u by (simp add: direct_changeUserName_def with_existing_user_def)
qed

subsection \<open>Deleting\<close>

lemma remove_user_ok:
  assumes ok: "content_ok used uids c" and u: "find_user i c = Some u"
  shows "content_ok used uids (remove_user u c)"
proof -
  note U = users_okD [OF content_okD(2) [OF ok]]
  let ?c = "remove_user u c" and ?n = "sortKey (usr_name (the_user c u))"
  have fields: "fo_usersById (co_forum ?c) = (fo_usersById (co_forum c))(i := None)" "the_user ?c = the_user c"
      "co_usersByAuth ?c = (co_usersByAuth c)(uc_auth (co_user c u) := None)" "co_usersByName ?c = (co_usersByName c)(?n := None)"
      "co_nextUser ?c = co_nextUser c" "co_userCount ?c = co_userCount c - 1" "co_user ?c = co_user c" "the_message ?c = the_message c"
      "fo_links (co_forum ?c) = fo_links (co_forum c)" "fo_categoriesById (co_forum ?c) = fo_categoriesById (co_forum c)"
      "fo_categoriesByName (co_forum ?c) = fo_categoriesByName (co_forum c)" "fo_nextCategory (co_forum ?c) = fo_nextCategory (co_forum c)"
      "fo_authorization (co_forum ?c) = fo_authorization (co_forum c)"
    using U(1) [OF u]
    by (auto simp: remove_user_def the_user_def the_message_def upd_forum_def upd_af_def fo_user_def fo_links_def links_of_def fun_eq_iff)
  have "users_ok ?c"
  proof (rule users_okI)
    fix j v assume "find_user j ?c = Some v"
    then have v: "find_user j c = Some v" "j \<noteq> i" unfolding fields by (simp_all split: if_splits)
    note V = U(1-5) [OF v(1)]
    have "v \<noteq> u" using V(1) U(1) [OF u] v(2) by auto
    then have "uc_auth (co_user c v) \<noteq> uc_auth (co_user c u)" "sortKey (usr_name (the_user c v)) \<noteq> ?n"
      using V(4,5) U(4,5) [OF u] by auto
    then show "usr_id (the_user ?c v) = j \<and> v < co_nextUser ?c \<and> uc_auth (co_user ?c v) \<noteq> [] \<and>
      co_usersByAuth ?c (uc_auth (co_user ?c v)) = Some v \<and> co_usersByName ?c (sortKey (usr_name (the_user ?c v))) = Some v"
      using V by (simp add: fields)
  next
    fix a v assume "co_usersByAuth ?c a = Some v"
    then have v: "co_usersByAuth c a = Some v" "a \<noteq> uc_auth (co_user c u)" unfolding fields by (simp_all split: if_splits)
    note V = U(6,7) [OF v(1)]
    have "v \<noteq> u" using V(1) v(2) by auto
    then have "usr_id (the_user c v) \<noteq> i" using V(2) u by auto
    then show "uc_auth (co_user ?c v) = a \<and> find_user (usr_id (the_user ?c v)) ?c = Some v" using V by (simp add: fields)
  next
    fix n v assume "co_usersByName ?c n = Some v"
    then have v: "co_usersByName c n = Some v" "n \<noteq> ?n" unfolding fields by (simp_all split: if_splits)
    note V = U(8,9) [OF v(1)]
    have "v \<noteq> u" using V(1) v(2) by auto
    then have "usr_id (the_user c v) \<noteq> i" using V(2) u by auto
    then show "sortKey (usr_name (the_user ?c v)) = n \<and> find_user (usr_id (the_user ?c v)) ?c = Some v" using V by (simp add: fields)
  qed (use U(10,11) u in \<open>auto simp: fields card_Diff_singleton domIff\<close>)
  moreover have "forum_ok used (co_forum ?c)"
    by (rule forum_ok_links [OF content_okD(1) [OF ok]]) (simp_all add: fields)
  moreover have "dom (fo_usersById (co_forum ?c)) \<subseteq> uids" using content_okD(3) [OF ok] by (auto simp: fields split: if_splits)
  ultimately show ?thesis using ok by (simp add: content_ok_def fields one_vote_each_def)
qed

lemma direct_delete_user_ok:
  assumes ok: "content_ok used uids c"
  shows "\<exists>st c'. direct_deleteUser cx i c = Some (st, c') \<and> content_ok used uids c'"
proof (cases "find_user i c")
  case None
  then show ?thesis using ok by (simp add: direct_deleteUser_def with_existing_user_def)
next
  case (Some u)
  have ok1: "content_ok used uids (remove_user u c)" by (rule remove_user_ok [OF ok Some])
  have "find_user (usr_id (the_user c u)) c \<noteq> None" using users_okD(1) [OF content_okD(2) [OF ok] Some] Some by simp
  from delete_user_returns [OF this content_okD(1) [OF ok1]] obtain c' where
    "collection_deleteUser (rx_time cx) u c = Some c'" "retained used (remove_user u c) c'" unfolding returns_def by blast
  then show ?thesis using content_ok_kept [OF ok1] Some by (simp add: direct_deleteUser_def with_existing_user_def)
qed

end
