(* ===== verification/ContentSequences.thy ===== *)
theory ContentSequences
  imports UserRequests
begin

section \<open>Sequences of requests on users, threads and messages\<close>

text \<open>
  All requests that change users, private messages, threads, messages, votes and comments, one after the other.
\<close>

definition keeps_users :: "id_type set \<Rightarrow> id_type set \<Rightarrow> id_type set \<Rightarrow> content_write \<Rightarrow> bool" where
  "keeps_users used uids uids' f \<longleftrightarrow> uids \<subseteq> uids' \<and>
     (\<forall>c. content_ok used uids c \<longrightarrow> (\<exists>st c'. f c = Some (st, c') \<and> content_ok used uids' c'))"

lemma keeps_usersD: "keeps_users used uids uids' f \<Longrightarrow> content_ok used uids c \<Longrightarrow> \<exists>st c'. f c = Some (st, c') \<and> content_ok used uids' c'"
  by (simp add: keeps_users_def)

lemma keeps_users_content: "keeps_content used f \<Longrightarrow> keeps_users used uids uids f"
  unfolding keeps_users_def using keeps_contentD [OF _ content_ok_refl] content_ok_kept by (metis answers_def order_refl)

lemma keeps_users_return: "uids \<subseteq> uids' \<Longrightarrow> keeps_users used uids uids' (\<lambda>c. Some (st, c))"
  using content_ok_mono by (auto simp: keeps_users_def)

lemma keeps_users_if:
  "keeps_users used uids uids' f \<Longrightarrow> keeps_users used uids uids' g \<Longrightarrow> keeps_users used uids uids' (\<lambda>c. if b c then f c else g c)"
  by (auto simp: keeps_users_def)

lemma keeps_users_current:
  assumes "\<And>u. keeps_users used uids uids' (body u)"
  shows "keeps_users used uids uids' (with_current_user cx body)"
  unfolding keeps_users_def
proof (intro conjI allI impI)
  show "uids \<subseteq> uids'" using assms by (simp add: keeps_users_def)
  fix c assume ok: "content_ok used uids c"
  obtain u c1 where get: "lift_current_user (performedBy_getAndUpdate cx) c = (u, c1)" by force
  have "retained used c c1" by (rule kept_lift [OF content_ok_refl [OF ok] get getAndUpdate_ok seen_current_user(2)], assumption+)
  from keeps_usersD [OF assms content_ok_kept [OF ok this]] get
  show "\<exists>st c'. with_current_user cx body c = Some (st, c') \<and> content_ok used uids' c'"
    by (simp add: with_current_user_def)
qed

lemma keeps_users_found:
  assumes "\<And>u p. keeps_users used uids uids (body u p)"
  shows "keeps_users used uids uids (with_found cx look body)"
  unfolding with_found_def
proof (rule keeps_users_current)
  fix u
  show "keeps_users used uids uids (\<lambda>c. case look c of None \<Rightarrow> Some (NOT_FOUND, c) | Some p \<Rightarrow> body u p c)"
    using assms by (auto simp: keeps_users_def split: option.split)
qed

text \<open>Behind the authorization.\<close>

lemma authorize_content_ok:
  assumes "\<And>ax. \<exists>u. handler_of ax u (h ax)" "content_ok used uids c"
  obtains st c1 where "authorize_content cx h c = Some (st, c1)" "content_ok used uids c1"
  using answers_auth [where h = h and cx = cx, OF content_ok_refl [OF assms(2)] assms(1)] content_ok_kept [OF assms(2)]
  by (auto simp: answers_def)

lemma keeps_users_change:
  assumes "\<And>c ax. \<exists>u. handler_of ax u (h c ax)" "keeps_users used uids uids f"
  shows "keeps_users used uids uids (\<lambda>c. content_change cx u (h c) (call c) f c)"
    "keeps_users used uids uids (\<lambda>c. content_write_after cx u (h c) (event c) f c)"
proof -
  have observe: "content_ok used uids c \<Longrightarrow> content_ok used uids (observe_content cx u e c)" for c e
    using content_ok_kept kept_observe content_ok_refl by blast
  have "(\<exists>st c'. content_change cx u (h c) (call c) f c = Some (st, c') \<and> content_ok used uids c') \<and>
      (\<exists>st c'. content_write_after cx u (h c) (event c) f c = Some (st, c') \<and> content_ok used uids c')"
    if ok: "content_ok used uids c" for c
  proof -
    obtain st c1 where auth: "authorize_content cx (h c) c = Some (st, c1)" "content_ok used uids c1"
      by (rule authorize_content_ok [where h = "h c", OF assms(1) ok])
    show ?thesis
      using auth keeps_usersD [OF assms(2) auth(2)] keeps_usersD [OF assms(2) observe [OF auth(2)]] observe
      by (fastforce simp: content_change_def content_write_after_def)
  qed
  then show "keeps_users used uids uids (\<lambda>c. content_change cx u (h c) (call c) f c)"
    "keeps_users used uids uids (\<lambda>c. content_write_after cx u (h c) (event c) f c)" by (simp_all add: keeps_users_def)
qed

subsection \<open>Adding, renaming and deleting users\<close>

lemma grant_first_user_returns:
  assumes "retained used co c" "time_ok cx"
  shows "returns used co (grant_first_user cx v u c)"
proof -
  have "returns used co (case direct_assignForumWidePrivilege (rx_time cx) i w d (co_forum c) of None \<Rightarrow> None
      | Some (_, fo) \<Rightarrow> Some (observe_content cx v call (upd_forum (\<lambda>_. fo) c)))" for i w d call
    using kept_granted [OF assms(1) assign_granted(1) [OF assms(2), of "co_forum c" i w d]] kept_observe by (auto simp: returns_def)
  then show ?thesis using returns_Some [OF assms(1)] by (simp add: grant_first_user_def Let_def)
qed

lemma repo_add_user_keeps:
  assumes "newId \<notin> uids" "time_ok cx"
  shows "keeps_users used uids (insert newId uids) (repo_addNewUser cf newId cx name auth)"
proof (cases "auth = []")
  case True
  have "keeps_users used uids (insert newId uids) (\<lambda>co. Some (INVALID_PARAMETERS, co))" by (rule keeps_users_return) blast
  with True show ?thesis unfolding repo_addNewUser_def by simp
next
  case auth: False
  let ?name = "content_name cf name"
  have added: "keeps_users used uids (insert newId uids) (\<lambda>c.
      case direct_addNewUser cx newId ?name auth c of None \<Rightarrow> None
      | Some (st2, c3) \<Rightarrow> if st2 \<noteq> STATUS_OK then Some (st2, c3)
          else map_option (\<lambda>c5. (STATUS_OK, c5)) (grant_first_user cx v (co_nextUser c) (observe_content cx v (call c c3) c3)))" for v call
    unfolding keeps_users_def
  proof (intro conjI allI impI)
    fix c assume ok: "content_ok used uids c"
    obtain st2 c3 where add: "direct_addNewUser cx newId ?name auth c = Some (st2, c3)" "content_ok used (insert newId uids) c3"
      using direct_add_user_ok [OF ok assms(1) auth] by blast
    have "returns used c3 (grant_first_user cx v (co_nextUser c) (observe_content cx v (call c c3) c3))"
      by (rule grant_first_user_returns [OF kept_observe [OF content_ok_refl [OF add(2)]] assms(2)])
    then show "\<exists>st c'. (case direct_addNewUser cx newId ?name auth c of None \<Rightarrow> None
      | Some (st2, c3) \<Rightarrow> if st2 \<noteq> STATUS_OK then Some (st2, c3)
          else map_option (\<lambda>c5. (STATUS_OK, c5)) (grant_first_user cx v (co_nextUser c) (observe_content cx v (call c c3) c3))) = Some (st, c')
        \<and> content_ok used (insert newId uids) c'"
      using add content_ok_kept [OF add(2)] by (auto simp: returns_def)
  qed auto
  have allowed: "keeps_users used uids (insert newId uids) (\<lambda>c.
      case authorize_content cx (h c) c of None \<Rightarrow> None
      | Some (st, c2) \<Rightarrow> if st \<noteq> STATUS_OK then Some (st, c2) else f c2)"
    if handler: "\<And>c ax. \<exists>u. handler_of ax u (h c ax)" and f: "keeps_users used uids (insert newId uids) f" for h f
    unfolding keeps_users_def
  proof (intro conjI allI impI)
    fix c assume ok: "content_ok used uids c"
    obtain st c1 where auth: "authorize_content cx (h c) c = Some (st, c1)" "content_ok used uids c1"
      by (rule authorize_content_ok [where h = "h c", OF handler ok])
    show "\<exists>st c'. (case authorize_content cx (h c) c of None \<Rightarrow> None
      | Some (st, c2) \<Rightarrow> if st \<noteq> STATUS_OK then Some (st, c2) else f c2) = Some (st, c') \<and> content_ok used (insert newId uids) c'"
      using auth keeps_usersD [OF f auth(2)] content_ok_mono [OF auth(2), of "insert newId uids"] by auto
  qed auto
  show ?thesis
    unfolding repo_addNewUser_def Let_def
    by (intro keeps_users_if keeps_users_return keeps_users_current allowed added;
        (blast | (rule exI, rule handler_of.intros)))
qed

lemma repo_rename_user_keeps: "keeps_users used uids uids (repo_changeUserName cf cx i name)"
proof -
  have "keeps_users used uids uids (direct_changeUserName i n)" for n
    using direct_rename_user_ok by (auto simp: keeps_users_def)
  note change = keeps_users_change [OF _ this]
  show ?thesis unfolding repo_changeUserName_def Let_def
    by (intro keeps_users_if keeps_users_return keeps_users_found change;
        (blast | (rule exI, rule handler_of.intros)))
qed

lemma repo_delete_user_keeps: "keeps_users used uids uids (repo_deleteUser cx i)"
proof -
  have "keeps_users used uids uids (direct_deleteUser cx i)"
    using direct_delete_user_ok by (auto simp: keeps_users_def)
  note change = keeps_users_change [OF _ this]
  show ?thesis unfolding repo_deleteUser_def
    by (intro keeps_users_if keeps_users_return keeps_users_found change;
        (blast | (rule exI, rule handler_of.intros)))
qed

subsection \<open>Sequences\<close>

datatype content_request =
  NewUser id_type string string
| UserName id_type string
| UserInfo id_type string
| UserTitle id_type string
| UserSignature id_type string
| UserLogo id_type string
| UserLogoDelete id_type
| UserQuota id_type "64 word"
| UserDelete id_type
| LetterSend id_type id_type string
| LetterDelete id_type
| NewThread id_type string
| ThreadName id_type string
| ThreadPin id_type "16 word"
| ThreadApproval id_type bool
| ThreadDelete id_type
| ThreadMerge id_type id_type
| ThreadSubscribe id_type
| ThreadUnsubscribe id_type
| NewMessage id_type id_type string
| MessageContent id_type string string
| MessageApproval id_type bool
| MessageDelete id_type
| MessageMove id_type id_type
| MessageVote id_type bool
| MessageResetVote id_type
| NewComment id_type id_type string
| CommentSolved id_type

text \<open>The first argument of a request for a new entity is the id the generator gives to it.\<close>

fun repo_content_request :: "content_settings \<Rightarrow> repository_context \<Rightarrow> content_request \<Rightarrow> content_write" where
  "repo_content_request cf cx (NewUser newId name auth) = repo_addNewUser cf newId cx name auth"
| "repo_content_request cf cx (UserName i name) = repo_changeUserName cf cx i name"
| "repo_content_request cf cx (UserInfo i v) = repo_changeUserInfo cf cx i v"
| "repo_content_request cf cx (UserTitle i v) = repo_changeUserTitle cf cx i v"
| "repo_content_request cf cx (UserSignature i v) = repo_changeUserSignature cf cx i v"
| "repo_content_request cf cx (UserLogo i v) = repo_changeUserLogo cf cx i v"
| "repo_content_request cf cx (UserLogoDelete i) = repo_deleteUserLogo cx i"
| "repo_content_request cf cx (UserQuota i q) = repo_changeUserAttachmentQuota cx i q"
| "repo_content_request cf cx (UserDelete i) = repo_deleteUser cx i"
| "repo_content_request cf cx (LetterSend newId i v) = repo_sendPrivateMessage cf newId cx i v"
| "repo_content_request cf cx (LetterDelete i) = repo_deletePrivateMessage cx i"
| "repo_content_request cf cx (NewThread newId name) = repo_addNewDiscussionThread cf newId cx name"
| "repo_content_request cf cx (ThreadName i name) = repo_changeDiscussionThreadName cf cx i name"
| "repo_content_request cf cx (ThreadPin i v) = repo_changeDiscussionThreadPinDisplayOrder cx i v"
| "repo_content_request cf cx (ThreadApproval i b) = repo_changeDiscussionThreadApproval cx i b"
| "repo_content_request cf cx (ThreadDelete i) = repo_deleteDiscussionThread cx i"
| "repo_content_request cf cx (ThreadMerge i j) = repo_mergeDiscussionThreads cx i j"
| "repo_content_request cf cx (ThreadSubscribe i) = repo_subscribeToDiscussionThread cx i"
| "repo_content_request cf cx (ThreadUnsubscribe i) = repo_unsubscribeFromDiscussionThread cx i"
| "repo_content_request cf cx (NewMessage newId i v) = repo_addNewDiscussionMessageInThread cf newId cx i v"
| "repo_content_request cf cx (MessageContent i v reason) = repo_changeDiscussionThreadMessageContent cf cx i v reason"
| "repo_content_request cf cx (MessageApproval i b) = repo_changeDiscussionThreadMessageApproval cx i b"
| "repo_content_request cf cx (MessageDelete i) = repo_deleteDiscussionMessage cx i"
| "repo_content_request cf cx (MessageMove i j) = repo_moveDiscussionThreadMessage cx i j"
| "repo_content_request cf cx (MessageVote i up) = repo_voteDiscussionThreadMessage cx i up"
| "repo_content_request cf cx (MessageResetVote i) = repo_resetVoteDiscussionThreadMessage cf cx i"
| "repo_content_request cf cx (NewComment newId i v) = repo_addCommentToDiscussionThreadMessage cf newId cx i v"
| "repo_content_request cf cx (CommentSolved i) = repo_setMessageCommentToSolved cx i"

fun new_user_id :: "content_request \<Rightarrow> id_type list" where
  "new_user_id (NewUser newId name auth) = [newId]"
| "new_user_id _ = []"

text \<open>The texts whose references can be read within the table of hexadecimal digits.\<close>

fun references_ok :: "content_request \<Rightarrow> bool" where
  "references_ok (NewMessage newId i v) = (extractUuidReferences v \<noteq> None)"
| "references_ok (MessageContent i v reason) = (extractUuidReferences v \<noteq> None)"
| "references_ok _ = True"

abbreviation new_user_ids :: "(repository_context \<times> content_request) list \<Rightarrow> id_type list" where
  "new_user_ids rs \<equiv> concat (map (\<lambda>r. new_user_id (snd r)) rs)"

fun run_content_requests ::
  "content_settings \<Rightarrow> (repository_context \<times> content_request) list \<Rightarrow> content \<Rightarrow> (status_code list \<times> content) option" where
  "run_content_requests cf [] co = Some ([], co)"
| "run_content_requests cf ((cx, r) # rs) co =
     (case repo_content_request cf cx r co of
        None \<Rightarrow> None
      | Some (st, co1) \<Rightarrow> map_option (\<lambda>(sts, co2). (st # sts, co2)) (run_content_requests cf rs co1))"

lemma repo_content_request_keeps:
  assumes "set (new_user_id r) \<inter> uids = {}" "time_ok cx" "references_ok r"
  shows "keeps_users used uids (uids \<union> set (new_user_id r)) (repo_content_request cf cx r)"
  using assms
  by (cases r) (simp_all add: repo_add_user_keeps repo_rename_user_keeps repo_delete_user_keeps keeps_users_content repo_user_kept
      repo_thread_kept repo_message_kept repo_add_thread_kept repo_add_message_kept repo_change_content_kept)

lemma run_content_requests_keep:
  assumes "content_ok used uids co" "distinct (new_user_ids rs)" "set (new_user_ids rs) \<inter> uids = {}"
    "\<forall>(cx, r) \<in> set rs. time_ok cx \<and> references_ok r"
  shows "\<exists>sts co'. run_content_requests cf rs co = Some (sts, co') \<and> length sts = length rs \<and>
    content_ok used (uids \<union> set (new_user_ids rs)) co'"
  using assms
proof (induction rs arbitrary: uids co)
  case (Cons r rs)
  obtain cx req where r: "r = (cx, req)" by force
  have "keeps_users used uids (uids \<union> set (new_user_id req)) (repo_content_request cf cx req)"
    using Cons.prems r by (intro repo_content_request_keeps) auto
  from keeps_usersD [OF this Cons.prems(1)] obtain st co1 where
    step: "repo_content_request cf cx req co = Some (st, co1)" "content_ok used (uids \<union> set (new_user_id req)) co1" by blast
  have "distinct (new_user_ids rs)" "set (new_user_ids rs) \<inter> (uids \<union> set (new_user_id req)) = {}"
      "\<forall>(cx, r) \<in> set rs. time_ok cx \<and> references_ok r"
    using Cons.prems r by auto
  from Cons.IH [OF step(2) this] obtain sts co' where
    rest: "run_content_requests cf rs co1 = Some (sts, co')" "length sts = length rs"
      "content_ok used (uids \<union> set (new_user_id req) \<union> set (new_user_ids rs)) co'" by blast
  have "uids \<union> set (new_user_id req) \<union> set (new_user_ids rs) = uids \<union> set (new_user_ids (r # rs))"
    by (simp add: r Un_assoc)
  with rest step(1) r show ?case by simp
qed simp

end
