(* ===== verification/ContentProperties.thy ===== *)
theory ContentProperties
  imports AttachmentProperties ContentSequences
begin

section \<open>Properties of users, threads and messages\<close>

text \<open>
  The requests on users, threads and messages as a whole, and what some of them leave behind.
\<close>

subsection \<open>A sample\<close>




subsection \<open>What requests keep\<close>




subsection \<open>Quotes\<close>

text \<open>
  A request that changes the content of a message tells nobody about a quote: the quotes of
  the old content are read when it was already replaced, so none of the quotes in the new one is new.
\<close>

theorem edits_quote_nobody:
  assumes "repo_changeDiscussionThreadMessageContent cf cx i new reason co = Some (st, co')"
  shows "uc_quoteHistory (co_user co' u) = uc_quoteHistory (co_user co u) \<and>
    uc_quotesHistoryNotRead (co_user co' u) = uc_quotesHistoryNotRead (co_user co u)"
proof -
  obtain v c1 where user: "lift_current_user (performedBy_getAndUpdate cx) co = (v, c1)" by force
  have changed: "co_user c3 = co_user c2"
    if "direct_changeDiscussionThreadMessageContent cx i new reason c2 = Some (STATUS_OK, c3)" "find_message i c2 = Some m" for c2 c3 m
    using that direct_change_content_run [OF that(2), of cx new reason] by auto
  have edited: "co_user co' = co_user c2"
    if found: "find_message i c2 = Some m" and run: "(case direct_changeDiscussionThreadMessageContent cx i new reason c2 of None \<Rightarrow> None
      | Some (st2, co3) \<Rightarrow> if st2 \<noteq> STATUS_OK then Some (st2, co3)
          else map_option (\<lambda>co4. (STATUS_OK, observe_content cx v (call co4) co4)) (quote_new_users cx v m new co3)) = Some (st, co')" for c2 m call
  proof -
    obtain c3 where c3: "direct_changeDiscussionThreadMessageContent cx i new reason c2 = Some (STATUS_OK, c3)"
        "mc_content (co_message c3 m) = new" "co_user c3 = co_user c2"
      using direct_change_content_run [OF found, of cx new reason] by blast
    then have quotes: "map_option (\<lambda>co4. (STATUS_OK, observe_content cx v (call co4) co4)) (quote_new_users cx v m new c3) = Some (st, co')"
      using run by simp
    then have "extractUuidReferences new \<noteq> None" by (cases "extractUuidReferences new") (auto simp: quote_new_users_def)
    from quotes quote_new_users_none [OF c3(2) this, of cx v] have "co' = observe_content cx v (call c3) c3" by simp
    then show ?thesis by (simp add: c3(3) observe_content_def)
  qed
  have "co_user co' = co_user co"
  proof (cases "find_message i c1")
    case None
    then show ?thesis using assms user lift_current_user_same(1) [OF user]
      by (auto simp: repo_changeDiscussionThreadMessageContent_def Let_def with_found_def with_current_user_def split: if_splits)
  next
    case (Some m)
    note run = assms [unfolded repo_changeDiscussionThreadMessageContent_def Let_def with_found_def with_current_user_def user prod.case Some option.case]
    let ?h = "\<lambda>ax. changeDiscussionThreadMessageContent ax (the_user c1 v) (the_message c1 m)"
    show ?thesis
    proof (cases "authorize_content cx ?h c1")
      case None
      then show ?thesis using run by (simp split: if_splits)
    next
      case auth: (Some p)
      obtain s c2 where p: "p = (s, c2)" by force
      note same = authorize_content_same [OF auth [unfolded p]] lift_current_user_same(1) [OF user]
      show ?thesis
      proof (cases "s = STATUS_OK")
        case True
        then show ?thesis using run auth p Some same edited [of c2 m] by (simp split: if_splits)
      next
        case False
        then show ?thesis using run auth p same by (simp split: if_splits)
      qed
    qed
  qed
  then show ?thesis by simp
qed

subsection \<open>Votes\<close>

text \<open>
  Taking a vote back does not take the message out of the voted messages of the user.
\<close>

theorem reset_vote_remembered:
  assumes "direct_resetVoteDiscussionThreadMessage cx i co = Some (st, co')"
  shows "uc_votedMessages (co_user co' u) = uc_votedMessages (co_user co u)"
proof -
  obtain v c1 where user: "lift_current_user (getCurrentUser cx) co = (v, c1)" by force
  have voted: "uc_votedMessages (received_vote j tm k e) = uc_votedMessages e" for j tm k e by (simp add: received_vote_def)
  show ?thesis using assms lift_current_user_same(1) [OF user]
    by (auto simp: direct_resetVoteDiscussionThreadMessage_def with_existing_message_def user Let_def voted
        split: option.splits prod.splits if_splits)
qed

end
