(* ===== verification/Spec2Isabelle.thy ===== *)
theory Spec2Isabelle
  imports Samples EventProperties HttpProperties RepositoryProperties ServiceProperties CategoryProperties AttachmentProperties ContentProperties
begin

text \<open>
  A model of the Fast Forum backend, the C++ service under \<^verbatim>\<open>src/src/\<close> (files are named relative to it below,
  \<^verbatim>\<open>private/\<close> being that directory of the library): a forum kept in memory behind an HTTP interface, whose every change
  is decided by an authorization layer, performed by a repository, and appended as an event to a binary log that is
  replayed at start-up.

  \<^bold>\<open>How the parts interact.\<close> The bytes of a connection go through the parser of \<^verbatim>\<open>LibHttp\<close>; the router finds the
  endpoint for the path (\<^verbatim>\<open>LibForumServiceEndpoints\<close>), which sets up the context of the request and calls a command
  or a view; its handler checks the parameters and calls a repository (\<^verbatim>\<open>LibForumData\<close>). The repository looks the
  entities up and asks \<^verbatim>\<open>DefaultAuthorization\<close>, whose answer depends on the required privileges stored on the
  entity and its parents, on the privileges granted to the user with their expiry, and on the history of the
  user's recent actions. Then it changes the entities in memory and writes a JSON reply. A change is announced to the
  observers; \<^verbatim>\<open>EventObserver\<close> (\<^verbatim>\<open>LibForumPersistence\<close>) turns it into a blob, \<^verbatim>\<open>FileAppender\<close> writes the blob, and at the
  next start \<^verbatim>\<open>EventImporter\<close> reads all files and calls the direct write interface of the repositories.

  \<^bold>\<open>Theories: authorization.\<close>
  \<^item> \<open>Prelude\<close>: ids as 128-bit words, signed integers with their conversions written out, sorted vectors
    (\<^verbatim>\<open>flat_set\<close>, \<^verbatim>\<open>flat_map\<close>) with their lemmas.
  \<^item> \<open>Privileges\<close> (\<^verbatim>\<open>LibForumData/AuthorizationPrivileges.h\<close>): the privilege enumerators with their names, the
    minimum and maximum of optional values, the expiry of a grant, and the stores of required values;
    the locale \<open>required_store\<close> is the contract of such a store, interpreted for all five.
  \<^item> \<open>Throttling\<close> (\<^verbatim>\<open>ThrottlingCheck.h\<close>, \<^verbatim>\<open>IdOrIpAddress.h\<close>, \<^verbatim>\<open>private/DefaultThrottling.cpp\<close>): the ring buffer of time
    stamps, with a window of recent attempts as its specification.
  \<^item> \<open>Entities\<close> (\<^verbatim>\<open>Entity*.h\<close>, \<^verbatim>\<open>private/EntityDiscussion*.cpp\<close>): what the authorization reads of users, messages,
    threads, tags, categories and attachments; a heap from pointers to entities, since tags, threads and
    categories refer to each other.
  \<^item> \<open>GrantedPrivileges\<close>, \<open>GrantedLemmas\<close> (\<^verbatim>\<open>private/AuthorizationGrantedPrivilegeStore.cpp\<close>): grants, their
    accumulation over the levels of the hierarchy, the decisions, the visibility of a page; and the
    specification \<open>decide\<close> over \<open>effective\<close> values that the decisions refine.
  \<^item> \<open>Restriction\<close> (\<^verbatim>\<open>AuthorizationGrantedPrivilegeStore.h\<close>, \<^verbatim>\<open>SerializationRestriction\<close>): the decisions made while
    entities are serialized.
  \<^item> \<open>Authorization\<close>, \<open>AuthorizationLemmas\<close> (\<^verbatim>\<open>private/DefaultAuthorization.cpp\<close>): every function of the
    authorization interface; \<open>handler_of\<close> collects them as an inductive relation, over which totality
    and the frame (only the throttling history changes) are proved. \<open>Samples\<close>: a small forum for witnesses.

  \<^bold>\<open>Theories: event log.\<close>
  \<^item> \<open>PersistenceFormat\<close> (\<^verbatim>\<open>PersistenceFormat.h\<close>, \<^verbatim>\<open>private/FileAppender.cpp\<close>): bytes of values, event types, the
    frame of a blob, the files of the appender.
  \<^item> \<open>RepositoryCalls\<close> (\<^verbatim>\<open>LibForumData/Repository.h\<close>): the direct write interface as data.
  \<^item> \<open>EventRecording\<close> (\<^verbatim>\<open>private/EventObserver.cpp\<close>): the observer functions and the periodic counters.
  \<^item> \<open>EventImport\<close> (\<^verbatim>\<open>private/EventImporter.cpp\<close>): the readers, one importer per event and version, the dispatch,
    the loop over the blobs of a file and the walk over the files.
  \<^item> \<open>EventLemmas\<close>, \<open>EventReplay\<close>, \<open>FolderReplay\<close>, \<open>VisitLemmas\<close>: memory safety of the readers; that each reader
    returns what the observer wrote; that the importers execute a written log, a prefix of a cut one, and
    the folder of the appender; the sums of the counters. \<open>EventProperties\<close>: the properties of the event log.

  \<^bold>\<open>Theories: HTTP and services.\<close>
  \<^item> \<open>HttpStrings\<close>, \<open>HttpTrie\<close>, \<open>HttpHeaders\<close> (\<^verbatim>\<open>LibHttp/HttpStringHelpers.h\<close>, \<^verbatim>\<open>Trie.h\<close>, \<^verbatim>\<open>private/HttpConstants.cpp\<close>):
    decoding and encoding of url text, the trie of header names and its table.
  \<^item> \<open>HttpParser\<close> (\<^verbatim>\<open>private/HttpParser.cpp\<close>), \<open>HttpParserLemmas\<close>, \<open>HttpParserBehaviour\<close>: the parser as a state machine over
    single bytes, its invariant, and what it makes of a rendered request. \<open>HttpRouter\<close> (\<^verbatim>\<open>private/HttpRouter.cpp\<close>): the
    routes by first character and length. \<open>HttpProperties\<close>: their properties.
  \<^item> \<open>JsonWriter\<close> (\<^verbatim>\<open>LibFastJsonWriter/\<close>), \<open>JsonText\<close>, \<open>JsonSteps\<close>, \<open>JsonObjects\<close>: the writer with its stack of states; a
    reader of JSON text written independently of it; the text each sequence of steps writes.
  \<^item> \<open>Uuid\<close> (\<^verbatim>\<open>LibForumHelpers/UuidString.h\<close>): identifiers, lists of them, references to users in a text.
  \<^item> \<open>HttpResponse\<close> (\<^verbatim>\<open>private/HttpResponseBuilder.cpp\<close>, status texts of \<^verbatim>\<open>private/HttpConstants.cpp\<close>), \<open>CommandHandler\<close>
    (\<^verbatim>\<open>private/CommandHandler.cpp\<close>), \<open>ServiceEndpoints\<close> (\<^verbatim>\<open>private/ServiceEndpoints.cpp\<close>): the builder with its assertions,
    all commands and views with their parameter checks, all endpoints with the store of login tokens.
    \<open>ServiceLemmas\<close>, \<open>ServiceResponses\<close>, \<open>ServiceProperties\<close>: what they read, what they write, their properties.

  \<^bold>\<open>Theories: repositories.\<close>
  \<^item> \<open>RepositoryCommon\<close> (\<^verbatim>\<open>private/MemoryRepositoryCommon.cpp\<close>): the forum, the current user, statuses, validation.
  \<^item> \<open>AuthorizationRepository\<close>, \<open>AuthorizationRepositoryLemmas\<close>, \<open>AuthorizationReads\<close>, \<open>AuthorizationReplies\<close>
    (\<^verbatim>\<open>private/MemoryRepositoryAuthorization.cpp\<close>): required and granted privileges, with the replies.
    \<open>RepositoryProperties\<close>: the properties of this repository, of the JSON writer and of identifiers.
  \<^item> \<open>SortedVector\<close>, \<open>ThreadCollections\<close> (\<^verbatim>\<open>SortedVector.h\<close>, \<^verbatim>\<open>private/EntityDiscussionThreadCollection.cpp\<close>): vectors sorted by a
    key, the threads of a tag or category, and the counted threads of a category.
  \<^item> \<open>CategoryEntities\<close>, \<open>CategoryRepository\<close> (\<^verbatim>\<open>private/EntityDiscussionCategory.cpp\<close>, \<^verbatim>\<open>private/EntityDiscussionTag.cpp\<close> and
    their repositories): categories and tags with the threads below them. \<open>CategoryLemmas\<close>, \<open>CategoryForest\<close>,
    \<open>CategoryRequests\<close>, \<open>CategoryProperties\<close>: the forest of categories, and that all requests return and keep it.
  \<^item> \<open>AttachmentRepository\<close>, \<open>AttachmentLemmas\<close>, \<open>AttachmentRequests\<close>, \<open>AttachmentProperties\<close>
    (\<^verbatim>\<open>private/MemoryRepositoryAttachment.cpp\<close>): attachments, their collections, totals and quotas.
  \<^item> \<open>ContentEntities\<close>, \<open>ContentDeletion\<close> (\<^verbatim>\<open>EntityUser.h\<close>, \<^verbatim>\<open>EntityDiscussionThread.h\<close>, \<^verbatim>\<open>EntityDiscussionThreadMessage.h\<close>,
    \<^verbatim>\<open>private/EntityCollection.cpp\<close>), \<open>UserRepository\<close>, \<open>ThreadRepository\<close>, \<open>MessageRepository\<close>
    (\<^verbatim>\<open>private/MemoryRepositoryUser.cpp\<close> and its neighbours): users, private messages, threads, messages, votes, comments
    and quotes. \<open>ContentLemmas\<close>, \<open>ContentKept\<close>, \<open>ContentRequests\<close>, \<open>UserRequests\<close>, \<open>ContentSequences\<close>, \<open>ContentProperties\<close>: the
    direct writes and the requests return, the indices of users agree, nobody votes twice on a message.

  \<^bold>\<open>Values and effects.\<close> Integers keep their width where the code depends on it: unsigned ones are words, signed ones
  are integers with the conversion \<open>int16\<close> or the check \<open>checked64\<close> written out (\<open>None\<close> for the undefined overflow).
  Counters of messages, threads and votes, and the times added in a throttling check, are integers without a bound; the
  code has 64 bits for them. Pointers are natural numbers into a heap; what is released stays there, and a pointer to it
  is one that dangles in the code. A function that changes state returns the new state; one that may not
  return is a \<open>partial_function\<close> with the result \<open>None\<close>. In the importer, the parser and the command handlers \<open>None\<close> is a
  read outside the memory given, in the response builder and the JSON writer a broken assertion. Texts that the JSON
  writer takes as C strings end at their first NUL. No definition has fuel: the loops over parents and over the
  ring buffer are partial functions, the loop over blobs terminates since each round consumes at least sixteen bytes.

  \<^bold>\<open>What the properties show.\<close> No user can raise himself or others to his own level; repeated actions are
  limited in every window of time; every authorization function returns when the categories have no
  cycle, and does not when they do; the decisions equal their specification, one by one and for a page;
  serialization and authorization agree. A recorded event, a written file and a written folder are
  replayed exactly; the import is memory safe on any bytes; a cut or altered file is replayed up to the
  damage; visits survive a restart and downloads of attachments do not. A rendered request is parsed back, wherever
  the network cuts it (but for one place), within the fixed arrays (but for the pairs of a query); the longest route
  wins; every request is answered; a response, JSON text and lists of identifiers are read back; a request of another
  site is executed without the user. Requests on privileges, categories, tags, attachments, users, threads and messages
  all return and keep the invariants of what they change. Some properties pin down where the code does not do what
  it means to; the manifest lists these findings.

  \<^bold>\<open>Parameters.\<close> The clock, the address of a client and the ids of the generator are arguments. The CRC-32 of boost is a
  function of the bytes, of which nothing is assumed. For the importer, the repositories are a function from the context
  and the call to a status and a new state; for the command handlers and endpoints, the public operations are.
  Conversions of boost (\<open>lexical_cast\<close>), the broken-down time of the C library and what ICU decides (white space, letters,
  code points, sort keys) are functions given to the definitions that use them.

  \<^bold>\<open>Not modelled.\<close> Threads, locks and queues (each operation is one step, blobs reach the appender in the
  order they were enqueued), sockets, timers and memory pools, configuration files and logging, plug-ins. The requests
  that only read entities (lists, pages, searches, statistics), their serialization, and the indices and notifications
  that keep lists sorted; the read events that feed statistics; batch insertion; messages whose text stays in the mapped
  file of the importer.
\<close>

section \<open>Throttling\<close>

text \<open>
  C11. From an empty history, the throttling component answers any sequence of requests with the
  decisions of the specification: a request is throttled exactly when the attempt made by the same
  client for the same action, as many attempts ago as the limit of the action, is less than a period
  old. Clients and actions do not influence each other.
\<close>

theorem throttling_decisions:
  assumes "\<forall>(action, _) \<in> set requests. action \<noteq> THROTTLING_COUNT"
  shows "\<exists>d. dt_run Map.empty requests =
    Some (map (\<lambda>k. request_throttled (take k requests) (requests ! k)) [0..<length requests], d)"
  using dt_run_repr [OF dt_repr_empty assms] by auto

theorem throttling_decisions_witness:
  "\<exists>d. dt_run Map.empty [(VOTE, 100, 7, 0), (SUBSCRIBE, 100, 7, 0)] =
    Some (map (\<lambda>k. request_throttled (take k [(VOTE, 100, 7, 0), (SUBSCRIBE, 100, 7, 0)])
      ([(VOTE, 100, 7, 0), (SUBSCRIBE, 100, 7, 0)] ! k))
      [0..<length [(VOTE, 100 :: timestamp, 7 :: id_type, 0 :: 128 word), (SUBSCRIBE, 100, 7, 0)]], d)"
  by (rule throttling_decisions) simp

text \<open>
  C2. Rate limit on votes, end to end: in any sequence of up votes, down votes and vote resets of
  one logged in user who is not exempt from throttling, with a clock that does not go back, at most
  as many calls as the limit of the action are authorized in any window of one period, whatever the
  messages, the privileges and the addresses. Every call returns.
\<close>

theorem votes_rate_limited:
  assumes "usr_id u \<noteq> 0"
    and "\<forall>(v, cx, m) \<in> set votes. with_fw cx u FW_NO_THROTTLING (DefaultAuthorization s False) = None"
    and "sorted (map (\<lambda>(v, cx, m). cx_now cx) votes)"
  shows "\<exists>sts a. run_handlers (map (\<lambda>(v, cx, m). vote_handler v cx u m) votes) (DefaultAuthorization s False) = Some (sts, a)
     \<and> length sts = length votes
     \<and> ok_between b (b + throttling_period VOTE) (map (\<lambda>(v, cx, m). cx_now cx) votes) sts \<le> throttling_limit VOTE"
proof -
  let ?calls = "map (\<lambda>(v, cx, m). (cx, u, vote_handler v cx u m)) votes"
  have times: "map call_time ?calls = map (\<lambda>(v, cx, m). cx_now cx) votes"
    and handlers: "map call_handler ?calls = map (\<lambda>(v, cx, m). vote_handler v cx u m) votes"
    by auto
  have "\<forall>(cx, u', f) \<in> set ?calls. limited VOTE cx u' f \<and> IdOrIpAddress (usr_id u') (cx_ip cx) = ById (usr_id u)
      \<and> \<not> exempt cx u' (DefaultAuthorization s False)"
    using assms(1,2) limited_vote by (auto simp: IdOrIpAddress_def exempt_def DefaultAuthorization_def)
  from limited_calls [OF this, unfolded times handlers, OF assms(3)] show ?thesis by simp
qed

theorem votes_rate_limited_witness:
  "\<exists>sts a. run_handlers (map (\<lambda>(v, cx, m). vote_handler v cx (sample_user 1) m)
        [(UpVote, sample_cx 5, sample_message), (DownVote, sample_cx 6, sample_message)])
      (DefaultAuthorization sample_grants False) = Some (sts, a)
     \<and> length sts = length [(UpVote, sample_cx 5, sample_message), (DownVote, sample_cx 6, sample_message)]
     \<and> ok_between 0 (0 + throttling_period VOTE) (map (\<lambda>(v, cx, m). cx_now cx)
          [(UpVote, sample_cx 5, sample_message), (DownVote, sample_cx 6, sample_message)]) sts \<le> throttling_limit VOTE"
  by (rule votes_rate_limited)
    (simp_all add: with_fw_def isAllowed_fw_spec decide_def sample_cx_def sample_heap_def sample_fw_def
      getForumWidePrivilege_def DefaultAuthorization_def)

text \<open>
  A throttling check constructed with a limit of 0 never answers: the clamping of the limit
  comes after the member is initialised, and the loop that wraps the index subtracts 0 for ever.
\<close>

theorem throttling_zero_limit: "tc_isAllowed (ThrottlingCheck 0 period) now = None"
  by (rule tc_isAllowed_zero)

section \<open>Decisions of the privilege store\<close>

text \<open>
  C7. The decision on a message computes its specification: the grants that the user holds, unexpired,
  on the message, its thread, the tags of the thread and the forum are collected; access is granted,
  with the effective value (largest positive value or default, plus smallest negative value), exactly
  if that value reaches the one required, which the message inherits from its thread, tags or forum.
\<close>

theorem message_decision:
  "isAllowed_message_msg s h u m p now =
     (let required = optionalOrZero (message_getDiscussionThreadMessagePrivilege h m p);
          value = effective s u now (message_levels s h m)
      in if value \<ge> required then Some value else None)"
  by (simp add: isAllowed_message_msg_spec decide_def Let_def)

text \<open>
  C15. The decision on a category returns for every category when the parent pointers have no cycle,
  and collects the grants of the category, all its ancestors and the forum.
\<close>

theorem category_decision:
  assumes "acyclic_parents h rank"
  shows "\<exists>fuel ps. ancestors h fuel (cat_parent c) = Some ps \<and>
    isAllowed_category s h u c p now =
      Some (decide (effective s u now (category_levels s h c ps)) (category_getDiscussionCategoryPrivilege h c p))"
proof -
  define fuel where "fuel = (case cat_parent c of None \<Rightarrow> 0 | Some q \<Rightarrow> Suc (rank q))"
  have "case cat_parent c of None \<Rightarrow> True | Some q \<Rightarrow> rank q < fuel"
    by (simp add: fuel_def split: option.split)
  from ancestors_rank [OF assms this] isAllowed_category_spec show ?thesis by blast
qed

theorem category_decision_witness:
  "\<exists>fuel ps. ancestors sample_heap fuel (cat_parent sample_category) = Some ps \<and>
    isAllowed_category sample_grants sample_heap None sample_category CAT_VIEW 1 =
      Some (decide (effective sample_grants None 1 (category_levels sample_grants sample_heap sample_category ps))
        (category_getDiscussionCategoryPrivilege sample_heap sample_category CAT_VIEW))"
  by (rule category_decision [where rank = "\<lambda>_. 0"]) (simp add: acyclic_parents_def sample_defs)

text \<open>If the ancestors of a category form a cycle, the decision on it does not return.\<close>

theorem category_cycle_diverges:
  assumes "\<And>p. p \<in> C \<Longrightarrow> \<exists>q\<in>C. cat_parent (h_category h p) = Some q"
    and "cat_parent c = Some p" "p \<in> C"
  shows "isAllowed_category s h u c privilege now = None"
  using calculate_category_parents_cycle [OF assms(1) assms(3)] assms(2)
  by (simp add: isAllowed_category_def)

theorem category_cycle_diverges_witness:
  "isAllowed_category sample_grants (sample_heap\<lparr>h_category := \<lambda>_. sample_category\<lparr>cat_parent := Some 0\<rparr>\<rparr>)
     None (sample_category\<lparr>cat_parent := Some 0\<rparr>) CAT_VIEW 1 = None"
  by (rule category_cycle_diverges [where C = "{0}" and p = 0]) simp_all

text \<open>
  C8. The visibility flags of a page of messages of one thread, computed in one pass for one user, are
  those of the separate decisions on every message.
\<close>

theorem page_visibility:
  assumes "\<forall>i \<in> set items. mpc_user i = u \<and> msg_parentThread (mpc_message i) = t"
  shows "computeDiscussionThreadMessageVisibilityAllowed s h items now = map (visibility_of s h now) items"
  using visibility_batch assms by blast

theorem page_visibility_witness:
  "computeDiscussionThreadMessageVisibilityAllowed sample_grants sample_heap
     [DiscussionThreadMessagePrivilegeCheck (Some (sample_user 1)) sample_message,
      DiscussionThreadMessagePrivilegeCheck (Some (sample_user 1)) (sample_message\<lparr>msg_id := 11\<rparr>)] 5 =
   map (visibility_of sample_grants sample_heap 5)
     [DiscussionThreadMessagePrivilegeCheck (Some (sample_user 1)) sample_message,
      DiscussionThreadMessagePrivilegeCheck (Some (sample_user 1)) (sample_message\<lparr>msg_id := 11\<rparr>)]"
  by (rule page_visibility [where u = "Some (sample_user 1)" and t = 0])
    (simp add: DiscussionThreadMessagePrivilegeCheck_def sample_message_def)

text \<open>
  The 16-bit addition of the positive and the negative value never wraps, for stored values that
  fit and a default value that is not negative.
\<close>

theorem effective_value_exact:
  assumes "store_in_range s" "0 \<le> defaultPositiveValue s v" "\<not> isAnonymousUser (Some v)"
  shows "\<exists>p n. p \<ge> 0 \<and> n \<le> 0 \<and> effective s (Some v) now (message_levels s h m) = p + n
    \<and> p \<in> insert (defaultPositiveValue s v) (held_values now (usr_id v) (message_levels s h m))
    \<and> n \<in> insert 0 (held_values now (usr_id v) (message_levels s h m))"
proof -
  let ?ls = "message_levels s h m"
  let ?P = "{w \<in> held_values now (usr_id v) ?ls. w > 0}" and ?N = "{w \<in> held_values now (usr_id v) ?ls. w \<le> 0}"
  have "\<forall>(es, eid)\<in>set ?ls. \<forall>e\<in>set es. in_int16 (pe_privilegeValue e)"
    using assms(1) by (auto simp: store_in_range_def message_levels_def thread_levels_def tag_level_def fw_level_def)
  note sum = effective_exact [OF this assms(2,3), of now]
  have "Max (insert (defaultPositiveValue s v) ?P) \<in> insert (defaultPositiveValue s v) ?P"
    "Min (insert 0 ?N) \<in> insert 0 ?N"
    by (intro Max_in Min_in; simp)+
  with sum assms(2) show ?thesis
    by (intro exI [of _ "Max (insert (defaultPositiveValue s v) ?P)"] exI [of _ "Min (insert 0 ?N)"]) auto
qed

theorem effective_value_exact_witness:
  "\<exists>p n. p \<ge> 0 \<and> n \<le> 0 \<and> effective sample_grants (Some (sample_user 1)) 1
      (message_levels sample_grants sample_heap sample_message) = p + n
    \<and> p \<in> insert (defaultPositiveValue sample_grants (sample_user 1))
        (held_values 1 (usr_id (sample_user 1)) (message_levels sample_grants sample_heap sample_message))
    \<and> n \<in> insert 0 (held_values 1 (usr_id (sample_user 1)) (message_levels sample_grants sample_heap sample_message))"
proof (rule effective_value_exact)
  show "store_in_range sample_grants" by (simp add: store_in_range_def sample_grants_def in_int16_def)
qed simp_all

text \<open>
  The default value of a logged in user is not monotonic in the number of his messages: the bonus
  is truncated to 16 bits before it is compared with its maximum, so that a user with 40000 messages
  gets a large negative default value, while one with 100 messages gets the full bonus.
\<close>

theorem message_bonus_wraps:
  "defaultPositiveValue (sample_grants\<lparr>messageCountMultiplierPrivilegeBonus := 1, maxMessageCountPrivilegeBonus := 100\<rparr>)
     ((sample_user 1)\<lparr>usr_messageCount := 100\<rparr>) = 105 \<and>
   defaultPositiveValue (sample_grants\<lparr>messageCountMultiplierPrivilegeBonus := 1, maxMessageCountPrivilegeBonus := 100\<rparr>)
     ((sample_user 1)\<lparr>usr_messageCount := 40000\<rparr>) = - 25531"
  by (simp_all add: defaultPositiveValue_def sample_grants_def truncate_rat_def int16_def)

text \<open>
  Isolation: granting any user other than \<open>u\<close> any value on anything, or revoking it, changes
  none of what \<open>u\<close> is allowed to see or do on messages and threads.
\<close>

theorem grants_isolated:
  assumes "usr_id u \<noteq> uid"
    and "s' \<in> {grantDiscussionThreadMessagePrivilege uid eid v at' ex s, grantDiscussionThreadPrivilege uid eid v at' ex s,
              grantDiscussionTagPrivilege uid eid v at' ex s, grantDiscussionCategoryPrivilege uid eid v at' ex s,
              grantForumWidePrivilege uid eid v at' ex s}"
  shows "isAllowed_message_msg s' h (Some u) m pm now = isAllowed_message_msg s h (Some u) m pm now
    \<and> isAllowed_thread_thr s' h (Some u) t pt now = isAllowed_thread_thr s h (Some u) t pt now
    \<and> isAllowed_tag_tag s' h (Some u) g pg now = isAllowed_tag_tag s h (Some u) g pg now
    \<and> isAllowed_fw s' fw (Some u) pf now = isAllowed_fw s fw (Some u) pf now"
proof -
  have "same_grants (usr_id u) s s'" using assms by (auto intro: forum_intros)
  from decisions_same_grants [OF this, of "Some u"] show ?thesis by simp
qed

theorem grants_isolated_witness:
  "isAllowed_message_msg (grantForumWidePrivilege 7 0 9000 1 0 sample_grants) sample_heap (Some (sample_user 2)) sample_message MSG_VIEW 2
    = isAllowed_message_msg sample_grants sample_heap (Some (sample_user 2)) sample_message MSG_VIEW 2"
  using grants_isolated [of "sample_user 2" 7 _ 0 9000 1 0 sample_grants sample_heap sample_message MSG_VIEW 2 sample_thread THR_VIEW sample_tag TAG_VIEW sample_fw FW_ADD_USER]
  by simp

section \<open>Authorization of requests\<close>

text \<open>
  C3. Every function of the authorization interface returns, whatever its arguments, if the category
  graph has no cycle; it changes nothing but the throttling history, to which it adds at most one
  attempt, under the id and address of the current user and at the current time.
\<close>

theorem handlers_total:
  assumes "handler_of cx u f" "acyclic_parents (cx_heap cx) rank" "dt_repr H (au_throttling a)"
  shows "\<exists>st d reqs. f a = Some (st, a\<lparr>au_throttling := d\<rparr>) \<and> dt_repr (H @ reqs) d \<and>
        (reqs = [] \<or> (\<exists>action. reqs = [(action, cx_now cx, usr_id u, cx_ip cx)]))"
  using handler_well_behaved [OF assms(1,2)] assms(3)
  unfolding well_behaved_def throttle_entry_def by blast

theorem handlers_total_witness:
  "\<exists>st d reqs. addDiscussionTagToCategory (sample_cx 5) (sample_user 1) sample_tag sample_category
        (DefaultAuthorization sample_grants False) =
      Some (st, (DefaultAuthorization sample_grants False)\<lparr>au_throttling := d\<rparr>) \<and> dt_repr ([] @ reqs) d \<and>
      (reqs = [] \<or> (\<exists>action. reqs = [(action, cx_now (sample_cx 5), usr_id (sample_user 1), cx_ip (sample_cx 5))]))"
  by (rule handlers_total [where rank = "\<lambda>_. 0"])
    (simp_all add: handler_of.intros acyclic_parents_def sample_defs DefaultAuthorization_def dt_repr_empty)

text \<open>
  An up vote, on every branch: it is refused without touching the state for the author of the
  message and for an anonymous user; otherwise it counts as an attempt, is answered \<open>THROTTLED\<close> if the
  limit is exceeded, and else \<open>OK\<close> exactly if the effective value of the user on the message reaches
  the required one.
\<close>

theorem up_vote_decision:
  assumes "\<not> exempt cx u a" "dt_repr H (au_throttling a)"
  shows "\<exists>d. upVoteDiscussionThreadMessage cx u m a =
    (if usr_id u = usr_id (h_user (cx_heap cx) (msg_createdBy m)) \<or> isAnonymousUser (Some u)
     then Some (NOT_ALLOWED, a)
     else Some (if request_throttled H (VOTE, cx_now cx, usr_id u, cx_ip cx) then THROTTLED
                else if effective (au_grants a) (Some u) (cx_now cx) (message_levels (au_grants a) (cx_heap cx) m)
                        \<ge> optionalOrZero (message_getDiscussionThreadMessagePrivilege (cx_heap cx) m MSG_UP_VOTE)
                then OK else NOT_ALLOWED, a\<lparr>au_throttling := d\<rparr>))
    \<and> dt_repr (H @ [(VOTE, cx_now cx, usr_id u, cx_ip cx)]) d"
proof -
  obtain d where d: "isThrottled cx VOTE u a =
      Some (request_throttled H (VOTE, cx_now cx, usr_id u, cx_ip cx), a\<lparr>au_throttling := d\<rparr>)"
    "dt_repr (H @ [(VOTE, cx_now cx, usr_id u, cx_ip cx)]) d"
    using isThrottled_repr [OF assms, of VOTE] by (auto simp: throttle_entry_def)
  then show ?thesis
    by (intro exI [of _ d])
      (simp add: upVoteDiscussionThreadMessage_def answer_def throttled_def permit_message_def with_message_def
        isAllowed_message_msg_spec decide_def status_of_def)
qed

theorem up_vote_decision_witness:
  "\<exists>d. upVoteDiscussionThreadMessage (sample_cx 5) (sample_user 1) sample_message (DefaultAuthorization sample_grants False) =
    (if usr_id (sample_user 1) = usr_id (h_user (cx_heap (sample_cx 5)) (msg_createdBy sample_message))
        \<or> isAnonymousUser (Some (sample_user 1))
     then Some (NOT_ALLOWED, DefaultAuthorization sample_grants False)
     else Some (if request_throttled [] (VOTE, cx_now (sample_cx 5), usr_id (sample_user 1), cx_ip (sample_cx 5)) then THROTTLED
                else if effective (au_grants (DefaultAuthorization sample_grants False)) (Some (sample_user 1)) (cx_now (sample_cx 5))
                          (message_levels (au_grants (DefaultAuthorization sample_grants False)) (cx_heap (sample_cx 5)) sample_message)
                        \<ge> optionalOrZero (message_getDiscussionThreadMessagePrivilege (cx_heap (sample_cx 5)) sample_message MSG_UP_VOTE)
                then OK else NOT_ALLOWED, (DefaultAuthorization sample_grants False)\<lparr>au_throttling := d\<rparr>))
    \<and> dt_repr ([] @ [(VOTE, cx_now (sample_cx 5), usr_id (sample_user 1), cx_ip (sample_cx 5))]) d"
  by (rule up_vote_decision)
    (simp_all add: exempt_def DefaultAuthorization_def dt_repr_empty with_fw_def sample_cx_def sample_heap_def
      isAllowed_fw_spec decide_def sample_fw_def getForumWidePrivilege_def)

text \<open>
  C1. No escalation on a thread: if assigning a value on a thread is authorized, the assigner is not
  the target, and after the assignment the positive value that the target holds on the thread is still
  below the value with which the assigner is allowed to adjust the thread's privileges.
\<close>

theorem thread_assignment_bounded:
  assumes "assignDiscussionThreadPrivilege cx u t target v a = Some (OK, a')"
  shows "usr_id u \<noteq> usr_id target \<and> (\<exists>level q.
      with_thread cx u t THR_ADJUST_PRIVILEGE a = Some level \<and> q < level \<and> \<bar>v\<bar> < level \<and>
      fst (calculateDiscussionThreadPrivilege
             (grantDiscussionThreadPrivilege (usr_id target) (thr_id t) v (cx_now cx) expires (au_grants a))
             (Some target) t (cx_now cx) (None, None)) = Some q)"
proof -
  have ne: "usr_id u \<noteq> usr_id target"
    using assms by (auto simp: assignDiscussionThreadPrivilege_def answer_def)
  let ?es = "discussionThreadSpecificPrivileges (au_grants a)"
  have "assign_status (with_thread cx u t THR_ADJUST_PRIVILEGE a)
      (calculatePrivilege (au_grants a) ?es (Some target) (thr_id t) (cx_now cx) (None, None)) v = Some OK"
    using assms ne by (auto simp: assignDiscussionThreadPrivilege_def calculateDiscussionThreadPrivilege_def
        dest!: assign_OK(1))
  from assigned_below [OF this] ne show ?thesis
    by (simp add: calculateDiscussionThreadPrivilege_def grantDiscussionThreadPrivilege_def
        calculatePrivilege_bonus_cong [OF defaultPositiveValue_grant(2), unfolded grantDiscussionThreadPrivilege_def])
qed

theorem thread_assignment_bounded_witness:
  "usr_id (sample_user 1) \<noteq> usr_id (sample_user 2) \<and> (\<exists>level q.
      with_thread (sample_cx 5) (sample_user 1) sample_thread THR_ADJUST_PRIVILEGE (DefaultAuthorization sample_grants True) = Some level
      \<and> q < level \<and> \<bar>50\<bar> < level \<and>
      fst (calculateDiscussionThreadPrivilege
             (grantDiscussionThreadPrivilege (usr_id (sample_user 2)) (thr_id sample_thread) 50 (cx_now (sample_cx 5)) 0
               (au_grants (DefaultAuthorization sample_grants True)))
             (Some (sample_user 2)) sample_thread (cx_now (sample_cx 5)) (None, None)) = Some q)"
  by (rule thread_assignment_bounded [where a' = "DefaultAuthorization sample_grants True"])
    (rule sample_assignment(1))

text \<open>
  No escalation forum wide: the same for forum wide assignments, where the assigner acts with his
  forum wide value.
\<close>

theorem forum_wide_assignment_bounded:
  assumes "assignForumWidePrivilege cx u target v a = Some (OK, a')"
  shows "usr_id u \<noteq> usr_id target \<and> (\<exists>level q.
      with_fw cx u FW_ADJUST_FORUM_WIDE_PRIVILEGE a = Some level \<and> q < level \<and> \<bar>v\<bar> < level \<and>
      fst (calculateForumWidePrivilege
             (grantForumWidePrivilege (usr_id target) 0 v (cx_now cx) expires (au_grants a))
             (Some target) (cx_now cx) (None, None)) = Some q)"
proof -
  have ne: "usr_id u \<noteq> usr_id target"
    using assms by (auto simp: assignForumWidePrivilege_def answer_def)
  let ?es = "forumWideSpecificPrivileges (au_grants a)"
  have "assign_status (with_fw cx u FW_ADJUST_FORUM_WIDE_PRIVILEGE a)
      (calculatePrivilege (au_grants a) ?es (Some target) 0 (cx_now cx) (None, None)) v = Some OK"
    using assms ne by (auto simp: assignForumWidePrivilege_def calculateForumWidePrivilege_def
        dest!: assign_OK(1))
  from assigned_below [OF this] ne show ?thesis
    by (simp add: calculateForumWidePrivilege_def grantForumWidePrivilege_def
        calculatePrivilege_bonus_cong [OF defaultPositiveValue_grant(5), unfolded grantForumWidePrivilege_def])
qed

theorem forum_wide_assignment_bounded_witness:
  "usr_id (sample_user 1) \<noteq> usr_id (sample_user 2) \<and> (\<exists>level q.
      with_fw (sample_cx 5) (sample_user 1) FW_ADJUST_FORUM_WIDE_PRIVILEGE (DefaultAuthorization sample_grants True) = Some level
      \<and> q < level \<and> \<bar>50\<bar> < level \<and>
      fst (calculateForumWidePrivilege
             (grantForumWidePrivilege (usr_id (sample_user 2)) 0 50 (cx_now (sample_cx 5)) 0
               (au_grants (DefaultAuthorization sample_grants True)))
             (Some (sample_user 2)) (cx_now (sample_cx 5)) (None, None)) = Some q)"
  by (rule forum_wide_assignment_bounded [where a' = "DefaultAuthorization sample_grants True"])
    (rule sample_assignment(2))

text \<open>
  C10. The restrictions under which entities are serialized and the handlers agree on which messages
  and threads a user may view, unapproved ones included.
\<close>

theorem view_decisions_agree:
  "(sr_isAllowedToViewMessage (restriction_for cx u a) (cx_heap cx) m \<longleftrightarrow> isAllowedToViewMessage cx u m a) \<and>
   (sr_isAllowedToViewThread (restriction_for cx u a) (cx_heap cx) t \<longleftrightarrow> isAllowedToViewThread cx u t a)"
  by (simp add: view_message_agree view_thread_agree)

text \<open>
  C9. Who may download an attachment: its creator, holders of one of two forum wide privileges, the
  author of a message it is attached to, and those who may view such a message and its attachments,
  the attachment being approved or the user allowed to view unapproved ones. Nobody else, and the
  answer does not depend on the order of the messages.
\<close>

theorem attachment_access:
  "canGetAttachment cx u att a = Some (OK, a) \<longleftrightarrow>
     usr_id u = usr_id (h_user (cx_heap cx) (att_createdBy att))
     \<or> permit_fw cx u FW_GET_ALL_ATTACHMENTS a = OK
     \<or> permit_fw cx u FW_GET_ATTACHMENTS_OF_USER a = OK
     \<or> (\<exists>p\<in>set (att_messages att).
          usr_id u = usr_id (h_user (cx_heap cx) (msg_createdBy (h_message (cx_heap cx) p)))
          \<or> permit_message cx u (h_message (cx_heap cx) p) MSG_VIEW_ATTACHMENT a = OK
            \<and> (att_approved att \<or> permit_message cx u (h_message (cx_heap cx) p) MSG_VIEW_UNAPPROVED_ATTACHMENT a = OK)
            \<and> sr_isAllowedToViewMessage (restriction_for cx u a) (cx_heap cx) (h_message (cx_heap cx) p))"
  by (auto simp: canGetAttachment_def answer_def attachment_loop_OK view_message_agree Let_def)

text \<open>
  A user who is neither the sender nor the receiver of a private message is told that he is
  throttled when he tries to delete it, however few requests he made.
\<close>

theorem delete_private_message_status:
  assumes "usr_id u \<noteq> usr_id (h_user (cx_heap cx) (pm_source pm))"
    and "usr_id u \<noteq> usr_id (h_user (cx_heap cx) (pm_destination pm))"
  shows "deletePrivateMessage cx u pm (DefaultAuthorization s disable) = Some (THROTTLED, DefaultAuthorization s disable)"
  using assms by (simp add: deletePrivateMessage_def answer_def)

theorem delete_private_message_status_witness:
  "deletePrivateMessage (sample_cx 5) (sample_user 3) \<lparr>pm_source = 1, pm_destination = 2\<rparr> (DefaultAuthorization sample_grants True)
     = Some (THROTTLED, DefaultAuthorization sample_grants True)"
  by (rule delete_private_message_status) (simp_all add: sample_cx_def sample_heap_def sample_user_def)

section \<open>Required privileges and votes\<close>

text \<open>
  A thread without a value of its own requires, for each privilege, the largest of the values its
  tags require, and none if no tag requires one.
\<close>

theorem thread_inherits_maximum:
  assumes "store_getDiscussionThreadPrivilege t p = None" "thr_tags t \<noteq> []"
  shows "thread_getDiscussionThreadPrivilege h t p =
     (let vs = {v. \<exists>g\<in>set (thr_tags t). tag_getDiscussionThreadPrivilege h (h_tag h g) p = Some v}
      in if vs = {} then None else Some (Max vs))"
  by (rule thread_privilege_of_tags [OF assms])

theorem thread_inherits_maximum_witness:
  "thread_getDiscussionThreadPrivilege sample_heap sample_thread THR_VIEW =
     (let vs = {v. \<exists>g\<in>set (thr_tags sample_thread). tag_getDiscussionThreadPrivilege sample_heap (h_tag sample_heap g) THR_VIEW = Some v}
      in if vs = {} then None else Some (Max vs))"
  by (rule thread_inherits_maximum) (simp_all add: sample_thread_def store_getDiscussionThreadPrivilege_def)

text \<open>
  Voting: adding a vote for a user who has none keeps every user at one vote at most, changes the
  score by one, and removing the vote gives back the message as it was, with the kind of vote reported.
\<close>

theorem vote_round_trip:
  assumes "votes_ok m" "\<not> hasVoted m u"
  shows "votes_ok (addUpVote u tm m) \<and> votes_ok (addDownVote u tm m)
    \<and> voteScore (addUpVote u tm m) = voteScore m + 1 \<and> voteScore (addDownVote u tm m) = voteScore m - 1
    \<and> removeVote u (addUpVote u tm m) = (WasUpVote, m) \<and> removeVote u (addDownVote u tm m) = (WasDownVote, m)
    \<and> removeVote u m = (Missing, m)"
  using assms votes_ok_add voteScore_add removeVote_addUpVote removeVote_addDownVote
  by (auto simp: removeVote_def hasVoted_keys)

theorem vote_round_trip_witness:
  "votes_ok (addUpVote 1 9 sample_message) \<and> votes_ok (addDownVote 1 9 sample_message)
    \<and> voteScore (addUpVote 1 9 sample_message) = voteScore sample_message + 1
    \<and> voteScore (addDownVote 1 9 sample_message) = voteScore sample_message - 1
    \<and> removeVote 1 (addUpVote 1 9 sample_message) = (WasUpVote, sample_message)
    \<and> removeVote 1 (addDownVote 1 9 sample_message) = (WasDownVote, sample_message)
    \<and> removeVote 1 sample_message = (Missing, sample_message)"
  by (rule vote_round_trip) (simp_all add: sample_message_def votes_ok_def flat_map_def hasVoted_def)

text \<open>
  The expiry of a grant: computed without overflow for every start in the first half of the range
  of the clock and every positive duration, later than the start, and never the value 0 that stands for
  an unlimited grant.
\<close>

theorem expiry_sound:
  assumes "0 \<le> start" "start < duration_max_half" "in_int64 duration" "0 < duration"
  shows "\<exists>e. calculatePrivilegeExpires start duration = Some e \<and> start < e \<and> in_int64 e
             \<and> e = (if duration \<ge> duration_max_half then duration else start + duration)"
  by (rule calculatePrivilegeExpires_positive [OF assms])

theorem expiry_sound_witness:
  "\<exists>e. calculatePrivilegeExpires 1500000000 3600 = Some e \<and> 1500000000 < e \<and> in_int64 e
             \<and> e = (if 3600 \<ge> duration_max_half then 3600 else 1500000000 + 3600)"
  by (rule expiry_sound) (simp_all add: duration_max_half_value in_int64_def)

end
